(* ===== verification/F64.thy ===== *)
theory F64
  imports Complex_Main "HOL-Library.Log_Nat"
begin

text \<open>
  The \<open>f64\<close> of the Rust sources: IEEE-754 binary64 as a datatype of NaN, the two infinities
  and the finite values, a finite value being the rational number it stands for. Sums,
  differences, products and quotients are the exact rational result rounded to the nearest
  binary64 value, ties to even (\<open>round_f64\<close>), so a model that computes with \<open>f64\<close>
  rounds and overflows where the code does. Comparisons are the partial ones of \<open><\<close>,
  \<open><=\<close>, \<open>==\<close> in Rust (false when an operand is NaN); the linear order of the type
  class is \<open>f64::total_cmp\<close>, which only the percentile computation sorts by.
  The one identification made is \<open>-0.0\<close> with \<open>0.0\<close>: no comparison of the sources
  tells them apart, and they divide only by values already checked to be positive.
\<close>

section \<open>Rounding to binary64\<close>

datatype f64 = NaN | NInf | PInf | Fin rat

text \<open>The exponent of the leading binary digit of a positive rational.\<close>

definition ilog2 :: "rat \<Rightarrow> int" where
  "ilog2 q = (let (n, d) = quotient_of q; e = bitlen n - bitlen d
              in if 2 powi e \<le> q then e else e - 1)"

lemma bitlen_powi:
  fixes n :: int
  assumes "0 < n"
  shows "(2::rat) powi (bitlen n - 1) \<le> of_int n" and "of_int n < (2::rat) powi (bitlen n)"
proof -
  from assms have b: "2 ^ nat (bitlen n - 1) \<le> n" "n < 2 ^ nat (bitlen n)"
    using bitlen_bounds by auto
  have "bitlen n \<noteq> 0" using b(2) assms by auto
  then have "0 < bitlen n" using bitlen_nonneg[of n] by linarith
  then have p: "(2::rat) powi (bitlen n - 1) = of_int (2 ^ nat (bitlen n - 1))"
    and q: "(2::rat) powi (bitlen n) = of_int (2 ^ nat (bitlen n))"
    by (simp_all add: power_int_def)
  show "(2::rat) powi (bitlen n - 1) \<le> of_int n" unfolding p using b(1) by (simp only: of_int_le_iff)
  show "of_int n < (2::rat) powi (bitlen n)" unfolding q using b(2) by (simp only: of_int_less_iff)
qed

lemma ilog2_bounds:
  assumes "0 < q"
  shows "2 powi ilog2 q \<le> q" and "q < 2 powi (ilog2 q + 1)"
proof -
  obtain n d where nd: "quotient_of q = (n, d)" by (cases "quotient_of q")
  have d: "0 < d" using nd quotient_of_denom_pos by blast
  have q: "q = of_int n / of_int d" using nd quotient_of_div by blast
  have n: "0 < n" using assms d by (simp add: q zero_less_divide_iff)
  define e where "e = bitlen n - bitlen d"
  have up: "q < 2 powi (e + 1)"
  proof -
    have "q < 2 powi (bitlen n) / of_int d"
      unfolding q using bitlen_powi(2)[OF n] d by (simp add: divide_strict_right_mono)
    also have "\<dots> \<le> 2 powi (bitlen n) / 2 powi (bitlen d - 1)"
      using bitlen_powi(1)[OF d] d by (intro divide_left_mono) auto
    also have "\<dots> = 2 powi (e + 1)" by (simp add: e_def algebra_simps flip: power_int_diff)
    finally show ?thesis .
  qed
  have lo: "2 powi (e - 1) \<le> q"
  proof -
    have "2 powi (e - 1) = 2 powi (bitlen n - 1) / (2::rat) powi (bitlen d)"
      by (simp add: e_def algebra_simps flip: power_int_diff)
    also have "\<dots> \<le> of_int n / 2 powi (bitlen d)"
      using bitlen_powi(1)[OF n] by (intro divide_right_mono) auto
    also have "\<dots> \<le> q"
      unfolding q using bitlen_powi(2)[OF d] d n by (intro divide_left_mono) auto
    finally show ?thesis .
  qed
  have il: "ilog2 q = (if 2 powi e \<le> q then e else e - 1)"
    by (simp add: ilog2_def nd e_def Let_def)
  show "2 powi ilog2 q \<le> q" using lo by (simp add: il)
  show "q < 2 powi (ilog2 q + 1)" using up by (auto simp: il)
qed

lemma powi_less_imp: "(2::rat) powi a < 2 powi b \<Longrightarrow> a < b"
  by (metis linorder_not_le one_le_numeral power_int_increasing)

lemma ilog2_mono:
  assumes "0 < q" and "q \<le> r"
  shows "ilog2 q \<le> ilog2 r"
proof -
  have "2 powi ilog2 q \<le> q" using ilog2_bounds(1)[OF assms(1)] .
  also have "q \<le> r" by (fact assms(2))
  also have "r < 2 powi (ilog2 r + 1)" using ilog2_bounds(2) assms by (meson less_le_trans)
  finally have "ilog2 q < ilog2 r + 1" by (rule powi_less_imp)
  then show ?thesis by simp
qed

text \<open>Nearest integer, ties to even.\<close>

definition rhe :: "rat \<Rightarrow> int" where
  "rhe x = (let f = \<lfloor>x\<rfloor>; d = x - of_int f
            in if d < 1/2 then f else if 1/2 < d then f + 1 else if even f then f else f + 1)"

lemma rhe_of_int [simp]: "rhe (of_int n) = n"
  by (simp add: rhe_def)

lemma rhe_bounds: "\<lfloor>x\<rfloor> \<le> rhe x" "rhe x \<le> \<lfloor>x\<rfloor> + 1"
  by (auto simp: rhe_def Let_def)

lemma rhe_nearest:
  assumes "\<bar>x - of_int n\<bar> < 1 / 2"
  shows "rhe x = n"
proof (cases "of_int n \<le> x")
  case True
  then have "\<lfloor>x\<rfloor> = n" using assms by (simp add: floor_eq_iff)
  then show ?thesis using assms by (auto simp: rhe_def Let_def abs_less_iff)
next
  case False
  then have "\<lfloor>x\<rfloor> = n - 1" using assms by (simp add: floor_eq_iff)
  then show ?thesis using assms False by (auto simp: rhe_def Let_def abs_less_iff)
qed

lemma rhe_mono:
  assumes "x \<le> y"
  shows "rhe x \<le> rhe y"
proof (cases "\<lfloor>x\<rfloor> = \<lfloor>y\<rfloor>")
  case True
  with assms show ?thesis by (auto simp: rhe_def Let_def)
next
  case False
  with floor_mono[OF assms] have "\<lfloor>x\<rfloor> + 1 \<le> \<lfloor>y\<rfloor>" by simp
  with rhe_bounds(2)[of x] rhe_bounds(1)[of y] show ?thesis by linarith
qed

text \<open>The exponent of a unit in the last place, subnormals included.\<close>

definition ulp_exp :: "rat \<Rightarrow> int" where
  "ulp_exp q = max (ilog2 \<bar>q\<bar>) (- 1022) - 52"

definition round_rat :: "rat \<Rightarrow> rat" where
  "round_rat q = (if q = 0 then 0 else
     (let u = 2 powi ulp_exp q in sgn q * (of_int (rhe (\<bar>q\<bar> / u)) * u)))"

definition round_f64 :: "rat \<Rightarrow> f64" where
  "round_f64 q = (let r = round_rat q
                  in if 2 ^ 1024 \<le> r then PInf else if r \<le> - (2 ^ 1024) then NInf else Fin r)"

lemma round_rat_0 [simp]: "round_rat 0 = 0"
  by (simp add: round_rat_def)

lemma round_f64_0 [simp]: "round_f64 0 = Fin 0"
  by (simp add: round_f64_def)

lemma round_rat_pos:
  assumes "0 < q"
  shows "round_rat q = of_int (rhe (q / 2 powi ulp_exp q)) * 2 powi ulp_exp q"
  using assms by (simp add: round_rat_def Let_def)

lemma round_rat_minus: "round_rat (- q) = - round_rat q"
  by (simp add: round_rat_def Let_def ulp_exp_def sgn_minus)

lemma round_rat_nonneg:
  assumes "0 \<le> q"
  shows "0 \<le> round_rat q"
proof (cases "q = 0")
  case False
  with assms have q: "0 < q" by simp
  then have "0 \<le> rhe (q / 2 powi ulp_exp q)"
    using rhe_mono[of 0 "q / 2 powi ulp_exp q"] rhe_of_int[of 0] by simp
  then show ?thesis by (simp add: round_rat_pos[OF q])
qed simp

lemma ulp_exp_mono: "0 < q \<Longrightarrow> q \<le> r \<Longrightarrow> ulp_exp q \<le> ulp_exp r"
  using ilog2_mono[of q r] by (auto simp: ulp_exp_def max_def)

text \<open>
  Rounding is monotone: inside one binade because \<open>rhe\<close> is, and between binades because
  neither side leaves its own.
\<close>

lemma round_rat_le_next_binade:
  assumes "0 < q"
  shows "round_rat q \<le> 2 powi (ulp_exp q + 53)"
proof -
  let ?u = "2 powi ulp_exp q :: rat"
  have "q < 2 powi (ilog2 q + 1)" using ilog2_bounds(2)[OF assms] .
  also have "\<dots> \<le> 2 powi (ulp_exp q + 53)"
    using assms by (intro power_int_increasing) (auto simp: ulp_exp_def)
  finally have "q / ?u \<le> 2 powi 53"
    by (simp add: power_int_add divide_le_eq mult.commute)
  then have "q / ?u \<le> of_int (2 ^ 53)" by (simp add: power_int_def)
  then have "rhe (q / ?u) \<le> 2 ^ 53" using rhe_mono rhe_of_int by metis
  then have "of_int (rhe (q / ?u)) \<le> (2::rat) ^ 53"
    by (metis of_int_le_iff of_int_numeral of_int_power)
  then have "of_int (rhe (q / ?u)) * ?u \<le> 2 ^ 53 * ?u" by (simp add: mult_right_mono)
  also have "\<dots> = 2 powi (ulp_exp q + 53)" by (simp add: power_int_add)
  finally show ?thesis by (simp add: round_rat_pos[OF assms])
qed

lemma round_rat_ge_binade:
  assumes "0 < q" and "- 1022 \<le> ilog2 q"
  shows "2 powi (ulp_exp q + 52) \<le> round_rat q"
proof -
  let ?u = "2 powi ulp_exp q :: rat"
  have e: "ulp_exp q + 52 = ilog2 q" using assms by (simp add: ulp_exp_def)
  have "2 powi (ulp_exp q + 52) \<le> q" using ilog2_bounds(1)[OF assms(1)] by (simp add: e)
  then have "2 ^ 52 \<le> q / ?u"
    by (simp add: power_int_add le_divide_eq mult.commute)
  then have "of_int (2 ^ 52) \<le> q / ?u" by simp
  then have "2 ^ 52 \<le> rhe (q / ?u)" using rhe_mono rhe_of_int by metis
  then have "(2::rat) ^ 52 \<le> of_int (rhe (q / ?u))"
    by (metis of_int_le_iff of_int_numeral of_int_power)
  then have "2 ^ 52 * ?u \<le> of_int (rhe (q / ?u)) * ?u" by (simp add: mult_right_mono)
  moreover have "2 ^ 52 * ?u = 2 powi (ulp_exp q + 52)" by (simp add: power_int_add)
  ultimately show ?thesis by (metis round_rat_pos[OF assms(1)])
qed

lemma round_rat_mono_pos:
  assumes "0 < q" and "q \<le> r"
  shows "round_rat q \<le> round_rat r"
proof (cases "ulp_exp q = ulp_exp r")
  case True
  have "q / 2 powi ulp_exp r \<le> r / 2 powi ulp_exp r" using assms by (simp add: divide_right_mono)
  then have "rhe (q / 2 powi ulp_exp r) \<le> rhe (r / 2 powi ulp_exp r)" by (rule rhe_mono)
  with assms True show ?thesis by (simp add: round_rat_pos mult_right_mono)
next
  case False
  then have lt: "ulp_exp q < ulp_exp r" using ulp_exp_mono[OF assms] by simp
  then have r: "- 1022 \<le> ilog2 r" using assms by (auto simp: ulp_exp_def max_def split: if_splits)
  have "round_rat q \<le> 2 powi (ulp_exp q + 53)" using round_rat_le_next_binade[OF assms(1)] .
  also have "\<dots> \<le> 2 powi (ulp_exp r + 52)" using lt by (intro power_int_increasing) auto
  also have "\<dots> \<le> round_rat r" using assms r by (intro round_rat_ge_binade) auto
  finally show ?thesis .
qed

lemma round_rat_mono:
  assumes "q \<le> r"
  shows "round_rat q \<le> round_rat r"
proof (cases "0 < q")
  case True
  then show ?thesis using assms by (rule round_rat_mono_pos)
next
  case q: False
  have neg: "round_rat x \<le> 0" if "x \<le> 0" for x
    using round_rat_nonneg[of "- x"] that by (simp add: round_rat_minus)
  show ?thesis
  proof (cases "0 \<le> r")
    case True
    with neg[of q] q round_rat_nonneg[OF True] show ?thesis by linarith
  next
    case False
    then have "round_rat (- r) \<le> round_rat (- q)" using assms by (intro round_rat_mono_pos) auto
    then show ?thesis by (simp add: round_rat_minus)
  qed
qed

text \<open>The binary64 values: rounding leaves them alone.\<close>

lemma round_rat_exact:
  assumes m: "\<bar>m\<bar> \<le> 2 ^ 53" and k: "- 1074 \<le> k"
  shows "round_rat (of_int m * 2 powi k) = of_int m * 2 powi k"
proof -
  have pos: "round_rat (of_int m * 2 powi k) = of_int m * 2 powi k"
    if "0 < m" and m': "m \<le> 2 ^ 53" for m :: int
  proof -
    let ?q = "of_int m * 2 powi k :: rat" and ?M = "2 ^ 53 :: rat"
    have q: "0 < ?q" using that by simp
    have le: "of_int m \<le> ?M"
      using m' by (metis of_int_le_iff of_int_numeral of_int_power)
    have "2 powi ilog2 ?q \<le> ?q" using ilog2_bounds(1)[OF q] .
    also have "\<dots> \<le> 2 powi (k + 53)"
      using le by (simp add: power_int_add mult.commute mult_right_mono)
    also have "\<dots> < 2 powi (k + 54)" by (intro power_int_strict_increasing) auto
    finally have il: "ilog2 ?q \<le> k + 53" using powi_less_imp by fastforce
    have "\<exists>n. ?q / 2 powi ulp_exp ?q = of_int n"
    proof (cases "ulp_exp ?q \<le> k")
      case True
      define j where "j = nat (k - ulp_exp ?q)"
      have "?q / 2 powi ulp_exp ?q = of_int m * 2 powi (k - ulp_exp ?q)"
        by (subst power_int_diff) auto
      also have "k - ulp_exp ?q = int j" using True by (simp add: j_def)
      finally have "?q / 2 powi ulp_exp ?q = of_int (m * 2 ^ j)" by simp
      then show ?thesis by blast
    next
      case False
      with k il have e: "ulp_exp ?q = k + 1" "ilog2 ?q = k + 53"
        using q by (auto simp: ulp_exp_def max_def split: if_splits)
      have "2 powi (k + 53) \<le> ?q" using ilog2_bounds(1)[OF q] e by simp
      with le have M: "of_int m = ?M" by (simp add: power_int_add mult.commute)
      have "?q / 2 powi ulp_exp ?q = ?M * 2 powi k / 2 powi (k + 1)"
        by (subst e(1)) (simp only: M)
      also have "\<dots> = of_int (2 ^ 52)" by (simp add: power_int_add)
      finally show ?thesis by blast
    qed
    then obtain n where n: "?q / 2 powi ulp_exp ?q = of_int n" by blast
    then have "of_int n * 2 powi ulp_exp ?q = ?q" by (simp add: divide_eq_eq)
    then show ?thesis by (metis round_rat_pos[OF q] n rhe_of_int)
  qed
  consider "m = 0" | "0 < m" | "0 < - m" by linarith
  then show ?thesis
  proof cases
    case 3
    with pos[of "- m"] m show ?thesis by (simp add: round_rat_minus)
  qed (use pos m in auto)
qed

text \<open>\<open>f64_exact x\<close>: the value is one that a binary64 register can hold.\<close>

fun f64_exact :: "f64 \<Rightarrow> bool" where
  "f64_exact (Fin q) = (round_f64 q = Fin q)"
| "f64_exact _ = True"

lemma f64_exactI:
  assumes "q = of_int m * 2 powi k" and "\<bar>m\<bar> \<le> 2 ^ 53" and "- 1074 \<le> k" and "\<bar>q\<bar> < 2 ^ 1024"
  shows "f64_exact (Fin q)"
  using round_rat_exact[OF assms(2,3)] assms(1,4)
  by (auto simp: round_f64_def Let_def abs_less_iff)

lemma f64_exact_of_int:
  assumes "\<bar>m\<bar> \<le> 2 ^ 53"
  shows "f64_exact (Fin (of_int m))"
proof (rule f64_exactI [where m = m and k = 0])
  have "\<bar>of_int m\<bar> \<le> (2 ^ 53 :: rat)"
    using assms by (metis of_int_abs of_int_le_iff of_int_numeral of_int_power)
  also have "\<dots> < 2 ^ 1024" by (intro power_strict_increasing) auto
  finally show "\<bar>of_int m\<bar> < (2 ^ 1024 :: rat)" .
qed (use assms in auto)

text \<open>Rounding of concrete numbers: integers, dyadic fractions, and decimal literals.\<close>

lemma round_f64_of_int:
  assumes "\<bar>m\<bar> \<le> 2 ^ 53"
  shows "round_f64 (of_int m) = Fin (of_int m)"
  using f64_exact_of_int[OF assms] by simp

lemma round_f64_numerals [simp]:
  "numeral k \<le> (2 ^ 53 :: int) \<Longrightarrow> round_f64 (numeral k) = Fin (numeral k)"
  "numeral k \<le> (2 ^ 53 :: int) \<Longrightarrow> round_f64 (- numeral k) = Fin (- numeral k)"
  "round_f64 1 = Fin 1" "round_f64 (- 1) = Fin (- 1)"
  using round_f64_of_int[of "numeral k"] round_f64_of_int[of "- numeral k"]
    round_f64_of_int[of 1] round_f64_of_int[of "- 1"] by simp_all

lemma round_f64_dyadic:
  assumes "q * 2 ^ j = of_int m" and "\<bar>m\<bar> \<le> 2 ^ 53" and "j \<le> 1074"
  shows "round_f64 q = Fin q"
proof -
  have q: "q = of_int m * 2 powi (- int j)"
    using assms(1) by (simp add: power_int_minus field_simps)
  have "\<bar>q\<bar> \<le> \<bar>q * 2 ^ j\<bar>" by (simp add: abs_mult mult_le_cancel_left1)
  also have "\<dots> \<le> 2 ^ 53"
    using assms(1,2) by (metis of_int_abs of_int_le_iff of_int_numeral of_int_power)
  also have "\<dots> < (2 ^ 1024 :: rat)" by (intro power_strict_increasing) auto
  finally show ?thesis using f64_exactI[OF q assms(2)] assms(3) by simp
qed

text \<open>Evaluation skips the rounding of small integers and of fractions over a small power of two.\<close>

definition small_dyadic :: "rat \<Rightarrow> bool" where
  "small_dyadic q = (let (n, d) = quotient_of q
     in \<bar>n\<bar> \<le> 9007199254740992 \<and> (d = 1 \<or> d = 2 \<or> d = 4 \<or> d = 8 \<or> d = 16 \<or> d = 32 \<or> d = 64))"

lemma round_f64_small_dyadic:
  assumes "small_dyadic q"
  shows "round_f64 q = Fin q"
proof -
  obtain n d where nd: "quotient_of q = (n, d)" by (meson surj_pair)
  then have q: "q = of_int n / of_int d" "0 < d" by (rule quotient_of_div, rule quotient_of_denom_pos)
  have n: "\<bar>n\<bar> \<le> 2 ^ 53" using assms nd by (simp add: small_dyadic_def)
  have "d = 2 ^ 0 \<or> d = 2 ^ 1 \<or> d = 2 ^ 2 \<or> d = 2 ^ 3 \<or> d = 2 ^ 4 \<or> d = 2 ^ 5 \<or> d = 2 ^ 6"
    using assms nd by (simp add: small_dyadic_def)
  then obtain j where j: "j \<le> 1074" "d = 2 ^ j"
    by (elim disjE) (rule that[rotated], assumption, simp)+
  then have "q * 2 ^ j = of_int n" using q by simp
  then show ?thesis using n j(1) by (rule round_f64_dyadic)
qed

lemma round_f64_code [code]:
  "round_f64 q = (if small_dyadic q then Fin q
     else let r = round_rat q
          in if 2 ^ 1024 \<le> r then PInf else if r \<le> - (2 ^ 1024) then NInf else Fin r)"
  using round_f64_small_dyadic by (simp add: round_f64_def)

lemma round_f64_Fin: "\<bar>round_rat q\<bar> < 2 ^ 1024 \<Longrightarrow> round_f64 q = Fin (round_rat q)"
  by (auto simp: round_f64_def Let_def abs_less_iff)

text \<open>A literal between \<open>2 ^ - m\<close> and its double, nearest to \<open>n\<close> units of \<open>2 ^ -(52 + m)\<close>.\<close>

lemma round_f64_literal:
  assumes m: "1 \<le> q * 2 ^ m" "q * 2 ^ m < 2" "m \<le> 1022" and n: "\<bar>q * 2 ^ (52 + m) - of_int n\<bar> < 1 / 2"
  shows "round_f64 q = Fin (of_int n / 2 ^ (52 + m))"
proof -
  have "0 < q * 2 ^ m" using m(1) by (rule less_le_trans[rotated]) simp
  then have q: "0 < q" by (simp add: zero_less_mult_iff)
  have d: "2 powi (- int m + 1) = (2 / 2 ^ m :: rat)"
    by (subst power_int_add) (simp_all add: power_int_minus divide_inverse)
  have lo: "2 powi (- int m) \<le> q" and hi: "q < 2 powi (- int m + 1)"
    unfolding d using m by (simp_all add: power_int_minus field_simps)
  have a: "2 powi ilog2 q < (2 :: rat) powi (- int m + 1)"
    and b: "2 powi (- int m) < (2 :: rat) powi (ilog2 q + 1)"
    using ilog2_bounds[OF q] lo hi by linarith+
  then have "ilog2 q = - int m" using powi_less_imp[OF a] powi_less_imp[OF b] by linarith
  then have u: "ulp_exp q = - int (52 + m)" using q m(3) by (simp add: ulp_exp_def)
  have w: "2 powi ulp_exp q = (1 / 2 ^ (52 + m) :: rat)"
    by (simp only: u power_int_minus power_int_of_nat inverse_eq_divide)
  have x: "q / 2 powi ulp_exp q = q * 2 ^ (52 + m)" by (simp add: w)
  have r: "rhe (q * 2 ^ (52 + m)) = n" using n by (rule rhe_nearest)
  have rr: "round_rat q = of_int n / 2 ^ (52 + m)"
    using r by (simp add: round_rat_pos[OF q] w)
  have "\<bar>round_rat q\<bar> < 2 ^ 1024"
  proof -
    have "round_rat q = (of_int n - q * 2 ^ (52 + m)) / 2 ^ (52 + m) + q" by (simp add: rr field_simps)
    moreover have "\<bar>(of_int n - q * 2 ^ (52 + m)) / 2 ^ (52 + m)\<bar> \<le> \<bar>of_int n - q * 2 ^ (52 + m)\<bar>"
      by (simp add: abs_divide divide_le_eq mult_le_cancel_left1)
    moreover have "q * 1 \<le> q * 2 ^ m" by (rule mult_left_mono) (use q in auto)
    ultimately have "\<bar>round_rat q\<bar> < 3" using q n m(2) by linarith
    also have "(3 :: rat) < 2 ^ 1024" by simp
    finally show ?thesis .
  qed
  from round_f64_Fin[OF this] show ?thesis by (simp only: rr)
qed

section \<open>Comparisons\<close>

text \<open>Rust's \<open>a < b\<close>: false when either side is NaN.\<close>

fun f_lt :: "f64 \<Rightarrow> f64 \<Rightarrow> bool" where
  "f_lt NaN _ = False"
| "f_lt _ NaN = False"
| "f_lt _ NInf = False"
| "f_lt NInf _ = True"
| "f_lt PInf _ = False"
| "f_lt _ PInf = True"
| "f_lt (Fin x) (Fin y) = (x < y)"

fun f_le :: "f64 \<Rightarrow> f64 \<Rightarrow> bool" where
  "f_le NaN _ = False"
| "f_le _ NaN = False"
| "f_le NInf _ = True"
| "f_le _ NInf = False"
| "f_le _ PInf = True"
| "f_le PInf _ = False"
| "f_le (Fin x) (Fin y) = (x \<le> y)"

abbreviation f_gt :: "f64 \<Rightarrow> f64 \<Rightarrow> bool" where
  "f_gt a b \<equiv> f_lt b a"

abbreviation f_ge :: "f64 \<Rightarrow> f64 \<Rightarrow> bool" where
  "f_ge a b \<equiv> f_le b a"

fun f_is_finite :: "f64 \<Rightarrow> bool" where
  "f_is_finite (Fin _) = True"
| "f_is_finite _ = False"

lemma f_is_finite_iff: "f_is_finite x \<longleftrightarrow> (\<exists>q. x = Fin q)"
  by (cases x) auto

lemma f_not_lt_finite [simp]:
  "f_is_finite x \<Longrightarrow> f_is_finite y \<Longrightarrow> \<not> f_lt x y \<longleftrightarrow> f_le y x"
  by (cases x; cases y) auto

lemma f_lt_finite: "f_is_finite x \<Longrightarrow> f_is_finite y \<Longrightarrow> f_lt x y \<longleftrightarrow> \<not> f_le y x"
  by (cases x; cases y) auto

lemma f_le_trans: "f_le x y \<Longrightarrow> f_le y z \<Longrightarrow> f_le x z"
  by (cases x; cases y; cases z) auto

lemma f_lt_le_trans: "f_lt x y \<Longrightarrow> f_le y z \<Longrightarrow> f_lt x z"
  by (cases x; cases y; cases z) auto

lemma f_le_lt_trans: "f_le x y \<Longrightarrow> f_lt y z \<Longrightarrow> f_lt x z"
  by (cases x; cases y; cases z) auto

lemma f_lt_imp_le: "f_lt x y \<Longrightarrow> f_le x y"
  by (cases x; cases y) auto

lemma f_lt_irrefl [simp]: "\<not> f_lt x x"
  by (cases x) auto

lemma f_lt_not_le: "f_lt x y \<Longrightarrow> \<not> f_le y x"
  by (cases x; cases y) auto

text \<open>A finite value that is not negative, the guard of most thresholds.\<close>

abbreviation f_nonneg :: "f64 \<Rightarrow> bool" where
  "f_nonneg x \<equiv> f_is_finite x \<and> f_le (Fin 0) x"

section \<open>Arithmetic\<close>

fun f_neg :: "f64 \<Rightarrow> f64" where
  "f_neg NaN = NaN"
| "f_neg PInf = NInf"
| "f_neg NInf = PInf"
| "f_neg (Fin x) = Fin (- x)"

fun f_add :: "f64 \<Rightarrow> f64 \<Rightarrow> f64" where
  "f_add NaN _ = NaN"
| "f_add _ NaN = NaN"
| "f_add PInf NInf = NaN"
| "f_add NInf PInf = NaN"
| "f_add PInf _ = PInf"
| "f_add _ PInf = PInf"
| "f_add NInf _ = NInf"
| "f_add _ NInf = NInf"
| "f_add (Fin x) (Fin y) = round_f64 (x + y)"

definition f_sub :: "f64 \<Rightarrow> f64 \<Rightarrow> f64" where
  "f_sub a b = f_add a (f_neg b)"

definition inf_of_sign :: "rat \<Rightarrow> f64" where
  "inf_of_sign s = (if 0 < s then PInf else if s < 0 then NInf else NaN)"

fun f_mul :: "f64 \<Rightarrow> f64 \<Rightarrow> f64" where
  "f_mul NaN _ = NaN"
| "f_mul _ NaN = NaN"
| "f_mul (Fin x) (Fin y) = round_f64 (x * y)"
| "f_mul (Fin x) PInf = inf_of_sign x"
| "f_mul (Fin x) NInf = inf_of_sign (- x)"
| "f_mul PInf (Fin x) = inf_of_sign x"
| "f_mul NInf (Fin x) = inf_of_sign (- x)"
| "f_mul PInf PInf = PInf"
| "f_mul NInf NInf = PInf"
| "f_mul PInf NInf = NInf"
| "f_mul NInf PInf = NInf"

text \<open>Division; a zero divisor counts as \<open>+0.0\<close>, but every divisor of the code is guarded.\<close>

fun f_div :: "f64 \<Rightarrow> f64 \<Rightarrow> f64" where
  "f_div NaN _ = NaN"
| "f_div _ NaN = NaN"
| "f_div (Fin x) (Fin y) = (if y = 0 then inf_of_sign x else round_f64 (x / y))"
| "f_div (Fin x) _ = Fin 0"
| "f_div PInf (Fin y) = (if 0 \<le> y then PInf else NInf)"
| "f_div NInf (Fin y) = (if 0 \<le> y then NInf else PInf)"
| "f_div _ _ = NaN"

fun f_abs :: "f64 \<Rightarrow> f64" where
  "f_abs NaN = NaN"
| "f_abs NInf = PInf"
| "f_abs PInf = PInf"
| "f_abs (Fin x) = Fin \<bar>x\<bar>"

text \<open>\<open>f64::max\<close> returns the other operand when one is NaN.\<close>

fun f_max :: "f64 \<Rightarrow> f64 \<Rightarrow> f64" where
  "f_max NaN y = y"
| "f_max x NaN = x"
| "f_max x y = (if f_lt x y then y else x)"

text \<open>\<open>iter().sum::<f64>()\<close>, from the left.\<close>

definition f_sum :: "f64 list \<Rightarrow> f64" where
  "f_sum xs = foldl f_add (Fin 0) xs"

fun f_ceil :: "f64 \<Rightarrow> f64" where
  "f_ceil (Fin x) = Fin (of_int \<lceil>x\<rceil>)"
| "f_ceil x = x"

text \<open>The casts \<open>n as f64\<close> and \<open>x as usize\<close> (64 bits, saturating, NaN to 0).\<close>

definition f_of_nat :: "nat \<Rightarrow> f64" where
  "f_of_nat n = round_f64 (of_nat n)"

fun f_to_usize :: "f64 \<Rightarrow> nat" where
  "f_to_usize NaN = 0"
| "f_to_usize NInf = 0"
| "f_to_usize PInf = 2 ^ 64 - 1"
| "f_to_usize (Fin x) = min (nat \<lfloor>x\<rfloor>) (2 ^ 64 - 1)"

lemma round_f64_mono:
  assumes "q \<le> r"
  shows "f_le (round_f64 q) (round_f64 r)"
  using round_rat_mono[OF assms] by (auto simp: round_f64_def Let_def)

lemma round_f64_not_NaN [simp]: "round_f64 q \<noteq> NaN"
  by (simp add: round_f64_def Let_def)

lemma round_f64_nonneg:
  assumes "0 \<le> q"
  shows "f_le (Fin 0) (round_f64 q)"
  using round_f64_mono[OF assms] by simp

lemma f_add_nonneg: "f_le (Fin 0) x \<Longrightarrow> f_le (Fin 0) y \<Longrightarrow> f_le (Fin 0) (f_add x y)"
  by (cases x; cases y) (auto simp: round_f64_nonneg)

lemma f_le_infinities [simp]: "f_le NInf x \<longleftrightarrow> x \<noteq> NaN" "f_le x PInf \<longleftrightarrow> x \<noteq> NaN"
  by (cases x; simp)+

text \<open>Rounded arithmetic is monotone, also where it overflows to an infinity.\<close>

lemma f_add_mono: "f_le x y \<Longrightarrow> f_le (f_add x (Fin z)) (f_add y (Fin z))"
  by (cases x; cases y) (auto simp: round_f64_mono)

lemma f_sub_mono: "f_le x y \<Longrightarrow> f_le (f_sub x (Fin z)) (f_sub y (Fin z))"
  by (simp add: f_sub_def f_add_mono)

lemma f_sub_antimono: "f_le (Fin y) (Fin z) \<Longrightarrow> x \<noteq> NaN \<Longrightarrow> f_le (f_sub x (Fin z)) (f_sub x (Fin y))"
  by (cases x) (auto simp: f_sub_def round_f64_mono)

lemma f_div_mono: "f_le x y \<Longrightarrow> 0 < z \<Longrightarrow> f_le (f_div x (Fin z)) (f_div y (Fin z))"
  by (cases x; cases y) (auto simp: round_f64_mono divide_right_mono)

lemma f_add_not_NaN [simp]: "f_add (Fin x) (Fin y) \<noteq> NaN"
  by simp

lemma f_mul_nonneg: "f_nonneg x \<Longrightarrow> f_nonneg y \<Longrightarrow> f_le (Fin 0) (f_mul x y)"
  by (cases x; cases y) (auto simp: round_f64_nonneg)

lemma f_sum_nonneg:
  assumes "\<forall>x \<in> set xs. f_le (Fin 0) x"
  shows "f_le (Fin 0) (f_sum xs)"
proof -
  have "f_le (Fin 0) a \<Longrightarrow> f_le (Fin 0) (foldl f_add a xs)" for a
    using assms by (induction xs arbitrary: a) (auto simp: f_add_nonneg)
  then show ?thesis by (simp add: f_sum_def)
qed

text \<open>Scaling an exact value down by a factor of at most one does not raise it.\<close>

lemma f_mul_le_left:
  assumes "f64_exact x" and "f_nonneg x" and "0 \<le> c" and "c \<le> 1"
  shows "f_le (f_mul x (Fin c)) x"
proof -
  obtain q where x: "x = Fin q" "0 \<le> q" using assms(2) by (cases x) auto
  have "q * c \<le> q" using x assms by (simp add: mult_left_le)
  from round_f64_mono[OF this] show ?thesis using assms(1) x by simp
qed

section \<open>The total order\<close>

text \<open>\<open>f64::total_cmp\<close> on the values of the model (the one NaN counts as positive).\<close>

instantiation f64 :: linorder
begin

definition less_eq_f64 :: "f64 \<Rightarrow> f64 \<Rightarrow> bool" where
  "less_eq_f64 a b = (case (a, b) of
     (NInf, _) \<Rightarrow> True
   | (_, NaN) \<Rightarrow> True
   | (Fin x, Fin y) \<Rightarrow> x \<le> y
   | (Fin _, PInf) \<Rightarrow> True
   | (PInf, PInf) \<Rightarrow> True
   | _ \<Rightarrow> False)"

definition less_f64 :: "f64 \<Rightarrow> f64 \<Rightarrow> bool" where
  "less_f64 a b = (a \<le> b \<and> \<not> b \<le> (a :: f64))"

instance
  by intro_classes (auto simp: less_eq_f64_def less_f64_def split: f64.splits)

end

lemma f64_le_Fin [simp]: "Fin x \<le> Fin y \<longleftrightarrow> x \<le> y"
  by (simp add: less_eq_f64_def)

lemma f_le_total: "f_is_finite x \<Longrightarrow> f_is_finite y \<Longrightarrow> f_le x y \<longleftrightarrow> x \<le> y"
  by (cases x; cases y) auto

end
