(* ===== verification/Prelude.thy ===== *)
theory Prelude
  imports F64 "HOL-Library.Char_ord" "HOL-Library.List_Lexorder"
begin

text \<open>
  What every component shares: the Rust standard library the sources use (\<open>str\<close>,
  \<open>Result\<close>), the timestamps of the \<open>time\<close> crate as a parameter, the shape of
  validation issues and contract errors, and the interface of the string-coded enums.
  A \<open>str\<close> is the list of its UTF-8 bytes, so lengths, comparisons and trimming are those
  of Rust on every valid UTF-8 string.
\<close>

section \<open>Strings\<close>

text \<open>\<open>u8::to_ascii_lowercase\<close>: bit 5 of an upper-case letter is set.\<close>

fun ascii_lower :: "char \<Rightarrow> char" where
  "ascii_lower (Char b0 b1 b2 b3 b4 b5 b6 b7) =
     (if CHR ''A'' \<le> Char b0 b1 b2 b3 b4 b5 b6 b7 \<and> Char b0 b1 b2 b3 b4 b5 b6 b7 \<le> CHR ''Z''
      then Char b0 b1 b2 b3 b4 True b6 b7
      else Char b0 b1 b2 b3 b4 b5 b6 b7)"

definition to_ascii_lowercase :: "string \<Rightarrow> string" where
  "to_ascii_lowercase s = map ascii_lower s"

definition eq_ignore_ascii_case :: "string \<Rightarrow> string \<Rightarrow> bool" where
  "eq_ignore_ascii_case a b = (to_ascii_lowercase a = to_ascii_lowercase b)"

text \<open>The code points of Unicode's White_Space property, by the UTF-8 bytes that encode them.\<close>

definition ws1 :: "char \<Rightarrow> bool" where
  "ws1 a = ((CHR 0x09 \<le> a \<and> a \<le> CHR 0x0D) \<or> a = CHR 0x20)"

definition ws2 :: "char \<Rightarrow> char \<Rightarrow> bool" where
  "ws2 a b = (a = CHR 0xC2 \<and> (b = CHR 0x85 \<or> b = CHR 0xA0))"

definition ws3 :: "char \<Rightarrow> char \<Rightarrow> char \<Rightarrow> bool" where
  "ws3 a b c =
     ((a = CHR 0xE1 \<and> b = CHR 0x9A \<and> c = CHR 0x80)
    \<or> (a = CHR 0xE2 \<and> b = CHR 0x80 \<and>
        ((CHR 0x80 \<le> c \<and> c \<le> CHR 0x8A) \<or> c = CHR 0xA8 \<or> c = CHR 0xA9 \<or> c = CHR 0xAF))
    \<or> (a = CHR 0xE2 \<and> b = CHR 0x81 \<and> c = CHR 0x9F)
    \<or> (a = CHR 0xE3 \<and> b = CHR 0x80 \<and> c = CHR 0x80))"

text \<open>How many bytes of white space a string starts with: 0, 1, 2 or 3.\<close>

fun ws_head :: "string \<Rightarrow> nat" where
  "ws_head [] = 0"
| "ws_head [a] = (if ws1 a then 1 else 0)"
| "ws_head [a, b] = (if ws1 a then 1 else if ws2 a b then 2 else 0)"
| "ws_head (a # b # c # s) =
     (if ws1 a then 1 else if ws2 a b then 2 else if ws3 a b c then 3 else 0)"

text \<open>The same for a reversed string, whose encodings are read from their last byte.\<close>

fun ws_last :: "string \<Rightarrow> nat" where
  "ws_last [] = 0"
| "ws_last [a] = (if ws1 a then 1 else 0)"
| "ws_last [b, a] = (if ws1 b then 1 else if ws2 a b then 2 else 0)"
| "ws_last (c # b # a # s) =
     (if ws1 c then 1 else if ws2 b c then 2 else if ws3 a b c then 3 else 0)"

function strip :: "(string \<Rightarrow> nat) \<Rightarrow> string \<Rightarrow> string" where
  "strip h s = (if s = [] \<or> h s = 0 then s else strip h (drop (h s) s))"
  by pat_completeness auto
termination
  by (relation "measure (\<lambda>(h, s). length s)") auto

declare strip.simps [simp del]

definition trim_start :: "string \<Rightarrow> string" where
  "trim_start s = strip ws_head s"

definition trim_end :: "string \<Rightarrow> string" where
  "trim_end s = rev (strip ws_last (rev s))"

definition trim :: "string \<Rightarrow> string" where
  "trim s = trim_end (trim_start s)"

abbreviation blank :: "string \<Rightarrow> bool" where
  "blank s \<equiv> trim s = []"

text \<open>\<open>raw.trim().to_ascii_lowercase()\<close>, the normal form of identifiers everywhere.\<close>

definition normalize :: "string \<Rightarrow> string" where
  "normalize s = to_ascii_lowercase (trim s)"

definition is_ascii_digit :: "char \<Rightarrow> bool" where
  "is_ascii_digit c = (CHR ''0'' \<le> c \<and> c \<le> CHR ''9'')"

definition is_ascii_alphanumeric :: "char \<Rightarrow> bool" where
  "is_ascii_alphanumeric c =
     (is_ascii_digit c \<or> (CHR ''a'' \<le> c \<and> c \<le> CHR ''z'') \<or> (CHR ''A'' \<le> c \<and> c \<le> CHR ''Z''))"

text \<open>\<open>str::contains\<close>\<close>

fun text_contains :: "string \<Rightarrow> string \<Rightarrow> bool" where
  "text_contains [] needle = (needle = [])"
| "text_contains (c # s) needle = (take (length needle) (c # s) = needle \<or> text_contains s needle)"

lemma text_contains_iff: "text_contains s needle \<longleftrightarrow> (\<exists>p q. s = p @ needle @ q)"
proof (induction s needle rule: text_contains.induct)
  case (1 needle)
  then show ?case by auto
next
  case (2 c s needle)
  have "take (length needle) (c # s) = needle \<longleftrightarrow> (\<exists>q. c # s = needle @ q)"
    by (metis append_eq_conv_conj append_take_drop_id)
  moreover have "(\<exists>p q. c # s = p @ needle @ q) \<longleftrightarrow> (\<exists>q. c # s = needle @ q) \<or> (\<exists>p q. s = p @ needle @ q)"
    by (metis append_Cons append_Nil list.sel(3) neq_Nil_conv)
  ultimately show ?case using 2 by simp
qed

subsection \<open>Trimming and lower-casing are idempotent\<close>

lemma ascii_lower_idem [simp]: "ascii_lower (ascii_lower c) = ascii_lower c"
  by (cases c) (auto simp: less_eq_char_def)

lemma to_ascii_lowercase_Nil [simp]: "to_ascii_lowercase s = [] \<longleftrightarrow> s = []"
  by (simp add: to_ascii_lowercase_def)

lemma to_ascii_lowercase_idem [simp]: "to_ascii_lowercase (to_ascii_lowercase s) = to_ascii_lowercase s"
  by (simp add: to_ascii_lowercase_def)

lemma strip_fixed: "h (strip h s) = 0 \<or> strip h s = []"
proof (induction h s rule: strip.induct)
  case (1 h s)
  then show ?case by (cases "s = [] \<or> h s = 0") (auto simp: strip.simps[of h s])
qed

lemma strip_id: "h s = 0 \<Longrightarrow> strip h s = s"
  by (simp add: strip.simps)

lemma strip_suffix: "\<exists>p. s = p @ strip h s"
proof (induction h s rule: strip.induct)
  case (1 h s)
  show ?case
  proof (cases "s = [] \<or> h s = 0")
    case True
    then show ?thesis by (auto simp: strip.simps[of h s])
  next
    case False
    then obtain p where "drop (h s) s = p @ strip h (drop (h s) s)" using 1 by metis
    then have "s = (take (h s) s @ p) @ strip h s"
      using False by (metis append.assoc append_take_drop_id strip.simps)
    then show ?thesis by blast
  qed
qed

lemma strip_Nil [simp]: "strip h [] = []"
  by (simp add: strip.simps)

lemma ws_head_prefix: "ws_head (s @ t) = 0 \<Longrightarrow> ws_head s = 0"
  by (cases s rule: ws_head.cases; cases t rule: ws_head.cases) (auto split: if_splits)

lemma trim_start_no_ws: "ws_head (trim_start s) = 0"
  using strip_fixed[of ws_head s] by (auto simp: trim_start_def)

lemma trim_end_prefix: "\<exists>p. s = trim_end s @ p"
  using strip_suffix[of "rev s" ws_last]
  by (metis rev_append rev_rev_ident trim_end_def)

lemma trim_no_ws: "ws_head (trim s) = 0" "ws_last (rev (trim s)) = 0"
proof -
  obtain p where "trim_start s = trim s @ p"
    using trim_end_prefix by (auto simp: trim_def)
  then show "ws_head (trim s) = 0" using trim_start_no_ws ws_head_prefix by metis
  show "ws_last (rev (trim s)) = 0"
    using strip_fixed[of ws_last] by (metis rev_rev_ident trim_def trim_end_def ws_last.simps(1))
qed

lemma trim_id: "ws_head s = 0 \<Longrightarrow> ws_last (rev s) = 0 \<Longrightarrow> trim s = s"
  by (simp add: trim_def trim_start_def trim_end_def strip_id)

lemma trim_Nil [simp]: "blank []"
  by (simp add: trim_def trim_start_def trim_end_def)

lemma trim_idem [simp]: "trim (trim s) = trim s"
  using trim_no_ws by (rule trim_id)

text \<open>No byte that occurs in an encoding of white space is an ASCII letter.\<close>

lemma ascii_lower_id: "\<not> (CHR ''A'' \<le> c \<and> c \<le> CHR ''Z'') \<Longrightarrow> ascii_lower c = c"
  by (cases c) (simp only: ascii_lower.simps if_False)

lemma ascii_lower_letter:
  "CHR ''A'' \<le> c \<Longrightarrow> c \<le> CHR ''Z'' \<Longrightarrow> CHR ''a'' \<le> ascii_lower c \<and> ascii_lower c \<le> CHR ''z''"
  by (cases c) (auto simp: less_eq_char_def of_bool_def split: if_splits)

lemma ascii_lower_cases:
  obtains "ascii_lower c = c"
  | "CHR ''A'' \<le> c" "c \<le> CHR ''Z''" "CHR ''a'' \<le> ascii_lower c" "ascii_lower c \<le> CHR ''z''"
  using ascii_lower_id ascii_lower_letter by metis

lemma letters_above: "CHR ''A'' \<le> c \<Longrightarrow> \<not> c \<le> CHR 0x20" "CHR ''a'' \<le> c \<Longrightarrow> \<not> c \<le> CHR 0x20"
  by (auto simp: less_eq_char_def)

lemma letters_below: "c \<le> CHR ''Z'' \<Longrightarrow> \<not> CHR 0x80 \<le> c" "c \<le> CHR ''z'' \<Longrightarrow> \<not> CHR 0x80 \<le> c"
  by (auto simp: less_eq_char_def)

lemma ws_bytes:
  "ws1 a \<Longrightarrow> a \<le> CHR 0x20"
  "ws2 a b \<Longrightarrow> CHR 0x80 \<le> a \<and> CHR 0x80 \<le> b"
  "ws3 a b c \<Longrightarrow> CHR 0x80 \<le> a \<and> CHR 0x80 \<le> b \<and> CHR 0x80 \<le> c"
  by (auto simp: ws1_def ws2_def ws3_def elim: order_trans)

lemma ws1_lower [simp]: "ws1 (ascii_lower a) = ws1 a"
  by (cases a rule: ascii_lower_cases) (auto dest!: ws_bytes(1) dest: letters_above)

lemma ascii_lower_high [simp]: "CHR 0x80 \<le> ascii_lower c \<longleftrightarrow> CHR 0x80 \<le> c"
  by (cases c rule: ascii_lower_cases) (auto dest: letters_below)

lemma ascii_lower_high_id: "CHR 0x80 \<le> c \<Longrightarrow> ascii_lower c = c"
  by (cases c rule: ascii_lower_cases) (auto dest: letters_below)

lemma ws2_lower [simp]: "ws2 (ascii_lower a) (ascii_lower b) = ws2 a b"
  using ws_bytes(2)[of a b] ws_bytes(2)[of "ascii_lower a" "ascii_lower b"]
  by (metis ascii_lower_high ascii_lower_high_id)

lemma ws3_lower [simp]: "ws3 (ascii_lower a) (ascii_lower b) (ascii_lower c) = ws3 a b c"
  using ws_bytes(3)[of a b c] ws_bytes(3)[of "ascii_lower a" "ascii_lower b" "ascii_lower c"]
  by (metis ascii_lower_high ascii_lower_high_id)

lemma ws_head_lower [simp]: "ws_head (map ascii_lower s) = ws_head s"
  by (cases s rule: ws_head.cases) auto

lemma ws_last_lower [simp]: "ws_last (map ascii_lower s) = ws_last s"
  by (cases s rule: ws_last.cases) auto

lemma trim_lower_trim [simp]: "trim (to_ascii_lowercase (trim s)) = to_ascii_lowercase (trim s)"
  using trim_no_ws[of s] by (intro trim_id) (auto simp: to_ascii_lowercase_def rev_map)

lemma normalize_id: "ws_head s = 0 \<Longrightarrow> ws_last (rev s) = 0 \<Longrightarrow> map ascii_lower s = s \<Longrightarrow> normalize s = s"
  by (simp add: normalize_def trim_id to_ascii_lowercase_def)

lemmas ws_defs = ws1_def ws2_def ws3_def

lemma normalize_idem [simp]: "normalize (normalize s) = normalize s"
  by (simp add: normalize_def)

lemma normalize_Nil [simp]: "normalize s = [] \<longleftrightarrow> blank s"
  by (simp add: normalize_def)

lemma trim_normalize [simp]: "trim (normalize s) = normalize s"
  by (simp add: normalize_def)

text \<open>A byte that is neither white space nor part of a longer encoding survives trimming.\<close>

definition plain :: "char \<Rightarrow> bool" where
  "plain c \<longleftrightarrow> CHR 0x20 < c \<and> c < CHR 0x80"

lemma strip_keeps:
  assumes "\<And>s x. x \<in> set (take (h s) s) \<Longrightarrow> \<not> P x"
  shows "c \<in> set s \<Longrightarrow> P c \<Longrightarrow> c \<in> set (strip h s)"
proof (induction s rule: measure_induct_rule [where f = length])
  case (less s)
  have "c \<in> set (take (h s) s) \<union> set (drop (h s) s)"
    using less.prems(1) by (metis append_take_drop_id set_append)
  then have "c \<in> set (drop (h s) s)" using assms less.prems(2) by blast
  then show ?case
    using less by (cases "s = [] \<or> h s = 0") (auto simp: strip.simps[of h s])
qed

lemma ws_not_plain: "ws1 x \<Longrightarrow> \<not> plain x" "ws2 x y \<Longrightarrow> \<not> plain x \<and> \<not> plain y"
  "ws3 x y z \<Longrightarrow> \<not> plain x \<and> \<not> plain y \<and> \<not> plain z"
  by (auto simp: plain_def not_less dest!: ws_bytes)

lemma ws_head_not_plain: "x \<in> set (take (ws_head s) s) \<Longrightarrow> \<not> plain x"
  by (cases s rule: ws_head.cases) (auto simp: ws_not_plain eval_nat_numeral split: if_splits)

lemma ws_last_not_plain: "x \<in> set (take (ws_last s) s) \<Longrightarrow> \<not> plain x"
  by (cases s rule: ws_last.cases) (auto simp: ws_not_plain eval_nat_numeral split: if_splits)

lemma not_blank_plain:
  assumes "c \<in> set s" "plain c"
  shows "\<not> blank s"
proof -
  have "c \<in> set (strip ws_head s)"
    using assms ws_head_not_plain by (intro strip_keeps[where P = plain])
  then have "c \<in> set (strip ws_last (rev (strip ws_head s)))"
    using assms(2) ws_last_not_plain by (intro strip_keeps[where P = plain]) simp_all
  then show ?thesis by (auto simp: trim_def trim_start_def trim_end_def)
qed

lemma not_blank_literal: "plain c \<Longrightarrow> \<not> blank (c # s)"
  by (rule not_blank_plain) simp_all

section \<open>Numbers in messages\<close>

text \<open>The decimal digits \<open>format!\<close> prints for a \<open>usize\<close> and an \<open>i64\<close>.\<close>

fun nat_to_dec :: "nat \<Rightarrow> string" where
  "nat_to_dec n = (if n < 10 then [char_of (48 + n)] else nat_to_dec (n div 10) @ [char_of (48 + n mod 10)])"

declare nat_to_dec.simps [simp del]

definition int_to_dec :: "int \<Rightarrow> string" where
  "int_to_dec i = (if i < 0 then ''-'' @ nat_to_dec (nat (- i)) else nat_to_dec (nat i))"

section \<open>Results\<close>

text \<open>\<open>Result<T, E>\<close> is \<open>'e + 'a\<close>: \<open>Inl\<close> is \<open>Err\<close>, \<open>Inr\<close> is \<open>Ok\<close>.\<close>

abbreviation is_err :: "'e + 'a \<Rightarrow> bool" where
  "is_err r \<equiv> isl r"

abbreviation is_ok :: "'e + 'a \<Rightarrow> bool" where
  "is_ok r \<equiv> \<not> isl r"

text \<open>The \<open>?\<close> operator: go on with the value, or return the error.\<close>

fun and_then :: "'e + 'a \<Rightarrow> ('a \<Rightarrow> 'e + 'b) \<Rightarrow> 'e + 'b" where
  "and_then (Inl e) f = Inl e"
| "and_then (Inr a) f = f a"

fun map_err :: "('e \<Rightarrow> 'g) \<Rightarrow> 'e + 'a \<Rightarrow> 'g + 'a" where
  "map_err g (Inl e) = Inl (g e)"
| "map_err g (Inr a) = Inr a"

lemma and_then_Inr_iff: "and_then r f = Inr b \<longleftrightarrow> (\<exists>a. r = Inr a \<and> f a = Inr b)"
  by (cases r) auto

lemma isl_and_then: "isl (and_then r f) \<longleftrightarrow> isl r \<or> isl (f (projr r))"
  by (cases r) auto

lemma and_then_ok: "\<not> isl r \<Longrightarrow> and_then r f = f (projr r)"
  by (cases r) auto

lemma map_err_Inr_iff [simp]: "map_err g r = Inr a \<longleftrightarrow> r = Inr a"
  by (cases r) auto

lemma isl_map_err [simp]: "isl (map_err g r) = isl r"
  by (cases r) auto

lemma isl_Inl_iff: "isl r \<longleftrightarrow> (\<exists>e. r = Inl e)"
  by (cases r) auto

lemma is_okE: "\<not> isl r \<Longrightarrow> (\<And>x. r = Inr x \<Longrightarrow> thesis) \<Longrightarrow> thesis"
  by (cases r) auto

lemma is_ok_unit: "\<not> isl r \<longleftrightarrow> r = Inr ()"
  by (cases r) auto

section \<open>Contract errors\<close>

text \<open>
  Every contract of the domain crate has its own \<open>ValidationIssue\<close> and
  \<open>ContractError\<close> struct, with the same three fields; each component names its own as a
  synonym of these. A validator's \<open>&mut Vec\<close> of issues is the list of the issues it
  pushes: consecutive calls are concatenated in their order.
\<close>

record issue =
  is_field :: string
  is_code :: string
  is_message :: string

record contract_error =
  ce_code :: string
  ce_message :: string
  ce_field_errors :: "issue list"

definition contract_error_of :: "string \<Rightarrow> string \<Rightarrow> issue list \<Rightarrow> contract_error" where
  "contract_error_of c msg errs = \<lparr>ce_code = c, ce_message = msg, ce_field_errors = errs\<rparr>"

lemma contract_error_of_simps [simp]:
  "ce_code (contract_error_of c msg errs) = c"
  "ce_message (contract_error_of c msg errs) = msg"
  "ce_field_errors (contract_error_of c msg errs) = errs"
  by (simp_all add: contract_error_of_def)

text \<open>\<open>if b { field_errors.push(...) }\<close>\<close>

definition push_if :: "bool \<Rightarrow> string \<Rightarrow> string \<Rightarrow> string \<Rightarrow> issue list" where
  "push_if b f c msg = (if b then [\<lparr>is_field = f, is_code = c, is_message = msg\<rparr>] else [])"

text \<open>\<open>if !field_errors.is_empty() { return Err(...) } Ok(())\<close>\<close>

definition reject_if :: "issue list \<Rightarrow> (issue list \<Rightarrow> contract_error) \<Rightarrow> contract_error + unit" where
  "reject_if errs mk = (if errs \<noteq> [] then Inl (mk errs) else Inr ())"

lemma push_if_Nil [simp]: "push_if b f c msg = [] \<longleftrightarrow> \<not> b"
  by (simp add: push_if_def)

lemma push_if_False [simp]: "push_if False f c msg = []"
  by (simp add: push_if_def)

lemma reject_if_Inr [simp]: "reject_if errs mk = Inr u \<longleftrightarrow> errs = []"
  by (simp add: reject_if_def)

lemma isl_reject_if [simp]: "isl (reject_if errs mk) \<longleftrightarrow> errs \<noteq> []"
  by (simp add: reject_if_def)

lemma reject_if_Inl: "reject_if errs mk = Inl e \<longleftrightarrow> errs \<noteq> [] \<and> e = mk errs"
  by (auto simp: reject_if_def)

text \<open>
  \<open>issue_specs\<close> collects, for each field validator, when it pushes nothing;
  \<open>contract_simps\<close> the definitions a validator unfolds to.
\<close>

named_theorems issue_specs
named_theorems contract_simps

declare reject_if_Inl [contract_simps]

section \<open>String-coded enums\<close>

text \<open>
  The match of a \<open>parse\<close> function on string literals: its arms in order, and the error
  of the catch-all arm.
\<close>

definition parse_arms :: "(string \<times> 'a) list \<Rightarrow> (string \<Rightarrow> 'e) \<Rightarrow> string \<Rightarrow> 'e + 'a" where
  "parse_arms arms unknown v =
     (case map_of arms v of Some x \<Rightarrow> Inr x | None \<Rightarrow> Inl (unknown v))"

text \<open>
  The contract of such an enum with its \<open>as_str\<close>/\<open>code\<close> and \<open>parse\<close>, which
  the validators and the gates rely on when they read codes back from strings. \<open>canon\<close> is
  what \<open>parse\<close> does to its argument first (the identity, or trim and lower-case).
\<close>

locale enum_codec =
  fixes canon :: "string \<Rightarrow> string" and code :: "'a \<Rightarrow> string" and parse :: "string \<Rightarrow> 'e + 'a"
  assumes parse_iff: "parse v = Inr x \<longleftrightarrow> canon v = code x"
    and canon_code: "canon (code x) = code x"
begin

lemma parse_code [simp]: "parse (code x) = Inr x"
  by (simp add: parse_iff canon_code)

lemma code_inject [simp]: "code x = code y \<longleftrightarrow> x = y"
  using parse_code by (metis sum.inject(2))

lemma parse_err_iff: "isl (parse v) \<longleftrightarrow> (\<forall>x. canon v \<noteq> code x)"
  by (cases "parse v") (auto simp: parse_iff [symmetric])

lemma parse_ok_iff: "\<not> isl (parse v) \<longleftrightarrow> (\<exists>x. canon v = code x)"
  by (simp add: parse_err_iff)

lemma code_known: "isl (parse (code x)) = False"
  by simp

end

text \<open>A match whose arms list the codes has the contract.\<close>

lemma enum_codec_arms:
  fixes code :: "'a \<Rightarrow> string" and arms :: "(string \<times> 'a) list"
  assumes "\<And>x. map_of arms (code x) = Some x" and "list_all (\<lambda>(s, x). code x = s) arms"
  shows "enum_codec (\<lambda>v. v) code (parse_arms arms unknown)"
proof
  fix v x
  have "map_of arms v = Some x \<Longrightarrow> code x = v"
    using assms(2) by (auto dest!: map_of_SomeD simp: list_all_iff)
  then show "parse_arms arms unknown v = Inr x \<longleftrightarrow> v = code x"
    using assms(1) by (auto simp: parse_arms_def split: option.splits)
qed simp

lemma enum_codec_arms_canon:
  fixes canon :: "string \<Rightarrow> string" and code :: "'a \<Rightarrow> string" and arms :: "(string \<times> 'a) list"
  assumes "\<And>x. map_of arms (code x) = Some x" and "list_all (\<lambda>(s, x). code x = s) arms"
    and "\<And>x. canon (code x) = code x"
  shows "enum_codec canon code (\<lambda>v. parse_arms arms (\<lambda>_. unknown v) (canon v))"
proof
  fix v x
  have "map_of arms (canon v) = Some x \<Longrightarrow> code x = canon v"
    using assms(2) by (auto dest!: map_of_SomeD simp: list_all_iff)
  then show "parse_arms arms (\<lambda>_. unknown v) (canon v) = Inr x \<longleftrightarrow> canon v = code x"
    using assms(1) by (auto simp: parse_arms_def split: option.splits)
qed (rule assms(3))

section \<open>Timestamps\<close>

text \<open>
  \<open>OffsetDateTime\<close> and \<open>Duration\<close> come from the \<open>time\<close> crate, which is not part of
  the repository: a component that parses or subtracts timestamps takes the crate's functions
  as its parameter \<open>T\<close>. An instant is its Unix time in nanoseconds.
\<close>

record time_crate =
  rfc3339_parse :: "string \<Rightarrow> (int \<times> int) option" \<comment> \<open>the instant and its offset from UTC in seconds\<close>
  rfc3339_error :: "string \<Rightarrow> string" \<comment> \<open>the message of a parse error\<close>
  dur_as_seconds_f64 :: "int \<Rightarrow> f64"
  dur_whole_seconds :: "int \<Rightarrow> int"

text \<open>\<open>parse_utc_timestamp\<close>: RFC 3339 with offset zero; its error carries no data.\<close>

definition parse_utc_timestamp :: "time_crate \<Rightarrow> string \<Rightarrow> int option" where
  "parse_utc_timestamp T v = (case rfc3339_parse T v of
      None \<Rightarrow> None
    | Some (t, off) \<Rightarrow> if off \<noteq> 0 then None else Some t)"

abbreviation utc_ok :: "time_crate \<Rightarrow> string \<Rightarrow> bool" where
  "utc_ok T v \<equiv> parse_utc_timestamp T v \<noteq> None"

text \<open>What the code relies on: seconds of a duration grow with it, and zero is zero.\<close>

definition time_crate_ok :: "time_crate \<Rightarrow> bool" where
  "time_crate_ok T \<longleftrightarrow>
     dur_as_seconds_f64 T 0 = Fin 0 \<and>
     (\<forall>d e. d \<le> e \<longrightarrow> f_le (dur_as_seconds_f64 T d) (dur_as_seconds_f64 T e))"

lemma time_crate_nonneg: "time_crate_ok T \<Longrightarrow> 0 \<le> d \<Longrightarrow> f_le (Fin 0) (dur_as_seconds_f64 T d)"
  by (metis time_crate_ok_def)

text \<open>An instance of the parameter: the timestamps of one minute, for concrete runs.\<close>

definition demo_time :: time_crate where
  "demo_time =
     \<lparr>rfc3339_parse = map_of
        [(''2026-04-06T00:00:00Z'', (0, 0)),
         (''2026-04-06T00:00:00.5Z'', (500000000, 0)),
         (''2026-04-06T00:00:01Z'', (1000000000, 0)),
         (''2026-04-06T00:00:05Z'', (5000000000, 0)),
         (''2026-04-06T00:00:30Z'', (30000000000, 0)),
         (''2026-04-06T00:00:31Z'', (31000000000, 0)),
         (''2026-04-06T00:00:45Z'', (45000000000, 0)),
         (''1970-01-01T00:00:00Z'', (- 1775433600000000000, 0)),
         (''2026-04-06T02:00:00+02:00'', (0, 7200))],
      rfc3339_error = (\<lambda>v. ''the input is not a timestamp''),
      dur_as_seconds_f64 = (\<lambda>d. Fin (of_int d / 1000000000)),
      dur_whole_seconds = (\<lambda>d. sgn d * (\<bar>d\<bar> div 1000000000))\<rparr>"

lemma demo_time_ok: "time_crate_ok demo_time"
  by (simp add: time_crate_ok_def demo_time_def divide_right_mono)

lemma demo_time_dur [simp]:
  "dur_as_seconds_f64 demo_time d = Fin (of_int d / 1000000000)"
  "dur_whole_seconds demo_time d = sgn d * (\<bar>d\<bar> div 1000000000)"
  by (simp_all add: demo_time_def)

lemma demo_time_parse [simp]:
  "parse_utc_timestamp demo_time ''2026-04-06T00:00:00Z'' = Some 0"
  "parse_utc_timestamp demo_time ''2026-04-06T00:00:00.5Z'' = Some 500000000"
  "parse_utc_timestamp demo_time ''2026-04-06T00:00:01Z'' = Some 1000000000"
  "parse_utc_timestamp demo_time ''2026-04-06T00:00:05Z'' = Some 5000000000"
  "parse_utc_timestamp demo_time ''2026-04-06T00:00:30Z'' = Some 30000000000"
  "parse_utc_timestamp demo_time ''2026-04-06T00:00:31Z'' = Some 31000000000"
  "parse_utc_timestamp demo_time ''2026-04-06T00:00:45Z'' = Some 45000000000"
  "parse_utc_timestamp demo_time ''1970-01-01T00:00:00Z'' = Some (- 1775433600000000000)"
  "parse_utc_timestamp demo_time ''2026-04-06T02:00:00+02:00'' = None"
  by (simp_all add: demo_time_def parse_utc_timestamp_def)

end
