(* ===== verification/RiskLimits.thy ===== *)
theory RiskLimits
  imports Prelude
begin

text \<open>
  The risk-limit contracts of \<open>crates/domain/src/risk.rs\<close>: scopes, profile versions and
  inventory rules, their validators, and the test that sends an increase to approval.
  A valid profile orders its limits strategy \<open>\<le>\<close> market \<open>\<le>\<close> portfolio.
\<close>

section \<open>Constants\<close>

definition MARKET_EXPOSURE_MIN_PCT_NAV :: f64 where [simp]: "MARKET_EXPOSURE_MIN_PCT_NAV = Fin 0"
definition MARKET_EXPOSURE_MAX_PCT_NAV :: f64 where [simp]: "MARKET_EXPOSURE_MAX_PCT_NAV = Fin 100"
definition RISK_LIMIT_PERCENT_MIN_PCT_NAV :: f64 where [simp]: "RISK_LIMIT_PERCENT_MIN_PCT_NAV = Fin 0"
definition RISK_LIMIT_PERCENT_MAX_PCT_NAV :: f64 where [simp]: "RISK_LIMIT_PERCENT_MAX_PCT_NAV = Fin 100"

section \<open>Codes, errors and data\<close>

datatype RiskLimitReasonCode =
    ProfileApplied
  | ProfilePendingApproval
  | ProfileDenied
  | ApprovalRequired
  | InvalidPayload
  | InvalidThreshold
  | InvalidScopeInvariant
  | PolicyStateUnavailable
  | PersistenceUnavailable

fun RiskLimitReasonCode_code :: "RiskLimitReasonCode \<Rightarrow> string" where
  "RiskLimitReasonCode_code RiskLimitReasonCode.ProfileApplied = ''risk_limit_profile_applied''"
| "RiskLimitReasonCode_code RiskLimitReasonCode.ProfilePendingApproval = ''risk_limit_profile_pending_approval''"
| "RiskLimitReasonCode_code RiskLimitReasonCode.ProfileDenied = ''risk_limit_profile_denied''"
| "RiskLimitReasonCode_code RiskLimitReasonCode.ApprovalRequired = ''risk_limit_approval_required''"
| "RiskLimitReasonCode_code RiskLimitReasonCode.InvalidPayload = ''risk_limit_invalid_payload''"
| "RiskLimitReasonCode_code RiskLimitReasonCode.InvalidThreshold = ''risk_limit_invalid_threshold''"
| "RiskLimitReasonCode_code RiskLimitReasonCode.InvalidScopeInvariant = ''risk_limit_invalid_scope_invariant''"
| "RiskLimitReasonCode_code RiskLimitReasonCode.PolicyStateUnavailable = ''risk_limit_policy_state_unavailable''"
| "RiskLimitReasonCode_code RiskLimitReasonCode.PersistenceUnavailable = ''risk_limit_persistence_unavailable''"

type_synonym RiskLimitValidationIssue = issue
type_synonym RiskLimitContractError = contract_error

definition RiskLimitContractError_invalid_payload :: "string \<Rightarrow> RiskLimitContractError" where
  "RiskLimitContractError_invalid_payload message =
     contract_error_of (RiskLimitReasonCode_code RiskLimitReasonCode.InvalidPayload) message []"

definition RiskLimitContractError_invalid_payload_with_issues ::
    "string \<Rightarrow> RiskLimitValidationIssue list \<Rightarrow> RiskLimitContractError" where
  "RiskLimitContractError_invalid_payload_with_issues message field_errors =
     contract_error_of (RiskLimitReasonCode_code RiskLimitReasonCode.InvalidPayload) message field_errors"

definition RiskLimitReasonCode_parse :: "string \<Rightarrow> RiskLimitContractError + RiskLimitReasonCode" where
  "RiskLimitReasonCode_parse = parse_arms
     [(''risk_limit_profile_applied'', RiskLimitReasonCode.ProfileApplied),
      (''risk_limit_profile_pending_approval'', RiskLimitReasonCode.ProfilePendingApproval),
      (''risk_limit_profile_denied'', RiskLimitReasonCode.ProfileDenied),
      (''risk_limit_approval_required'', RiskLimitReasonCode.ApprovalRequired),
      (''risk_limit_invalid_payload'', RiskLimitReasonCode.InvalidPayload),
      (''risk_limit_invalid_threshold'', RiskLimitReasonCode.InvalidThreshold),
      (''risk_limit_invalid_scope_invariant'', RiskLimitReasonCode.InvalidScopeInvariant),
      (''risk_limit_policy_state_unavailable'', RiskLimitReasonCode.PolicyStateUnavailable),
      (''risk_limit_persistence_unavailable'', RiskLimitReasonCode.PersistenceUnavailable)]
     (\<lambda>value. RiskLimitContractError_invalid_payload (''unknown risk limit reason code `'' @ value @ ''`''))"

interpretation risk_limit_reason: enum_codec "\<lambda>v. v" RiskLimitReasonCode_code RiskLimitReasonCode_parse
  by (unfold RiskLimitReasonCode_parse_def, rule enum_codec_arms, case_tac x) simp_all

datatype RiskLimitScope =
    Portfolio
  | Market
  | Strategy

fun RiskLimitScope_as_str :: "RiskLimitScope \<Rightarrow> string" where
  "RiskLimitScope_as_str RiskLimitScope.Portfolio = ''portfolio''"
| "RiskLimitScope_as_str RiskLimitScope.Market = ''market''"
| "RiskLimitScope_as_str RiskLimitScope.Strategy = ''strategy''"

definition RiskLimitScope_parse :: "string \<Rightarrow> RiskLimitContractError + RiskLimitScope" where
  "RiskLimitScope_parse = parse_arms
     [(''portfolio'', RiskLimitScope.Portfolio),
      (''market'', RiskLimitScope.Market),
      (''strategy'', RiskLimitScope.Strategy)]
     (\<lambda>value. RiskLimitContractError_invalid_payload (''unknown risk limit scope `'' @ value @ ''`''))"

interpretation risk_limit_scope: enum_codec "\<lambda>v. v" RiskLimitScope_as_str RiskLimitScope_parse
  by (unfold RiskLimitScope_parse_def, rule enum_codec_arms, case_tac x) simp_all

datatype RiskLimitProfileStatus =
    Active
  | Pending
  | Denied

fun RiskLimitProfileStatus_as_str :: "RiskLimitProfileStatus \<Rightarrow> string" where
  "RiskLimitProfileStatus_as_str RiskLimitProfileStatus.Active = ''active''"
| "RiskLimitProfileStatus_as_str RiskLimitProfileStatus.Pending = ''pending''"
| "RiskLimitProfileStatus_as_str RiskLimitProfileStatus.Denied = ''denied''"

definition RiskLimitProfileStatus_parse :: "string \<Rightarrow> RiskLimitContractError + RiskLimitProfileStatus" where
  "RiskLimitProfileStatus_parse = parse_arms
     [(''active'', RiskLimitProfileStatus.Active),
      (''pending'', RiskLimitProfileStatus.Pending),
      (''denied'', RiskLimitProfileStatus.Denied)]
     (\<lambda>value. RiskLimitContractError_invalid_payload (''unknown risk limit profile status `'' @ value @ ''`''))"

interpretation risk_limit_status: enum_codec "\<lambda>v. v" RiskLimitProfileStatus_as_str RiskLimitProfileStatus_parse
  by (unfold RiskLimitProfileStatus_parse_def, rule enum_codec_arms, case_tac x) simp_all

record RiskScopeLimit =
  sl_scope :: RiskLimitScope
  sl_scope_id :: string
  sl_max_notional_usd :: f64
  sl_max_inventory_units :: f64
  sl_max_concentration_pct_nav :: f64

record RiskLimitProfileVersion =
  rp_profile_key :: string
  rp_version :: int
  rp_portfolio :: RiskScopeLimit
  rp_market :: RiskScopeLimit
  rp_strategy :: RiskScopeLimit
  rp_status :: RiskLimitProfileStatus
  rp_approval_reference :: "string option"
  rp_actor_id :: string
  rp_reason_code :: string
  rp_correlation_id :: string
  rp_updated_at_utc :: string

record InventoryLimitRule =
  ir_rule_id :: string
  ir_profile_key :: string
  ir_profile_version :: int
  ir_scope :: RiskLimitScope
  ir_scope_id :: string
  ir_max_position_units :: f64
  ir_max_order_size_units :: f64
  ir_max_concentration_pct_nav :: f64
  ir_actor_id :: string
  ir_correlation_id :: string
  ir_updated_at_utc :: string

section \<open>Field validators\<close>

definition validate_non_empty_risk_limit_field :: "string \<Rightarrow> string \<Rightarrow> RiskLimitValidationIssue list" where
  "validate_non_empty_risk_limit_field field value =
     push_if (blank value) field
       (RiskLimitReasonCode_code RiskLimitReasonCode.InvalidPayload) (field @ '' cannot be blank'')"

definition validate_non_negative_risk_limit_value :: "string \<Rightarrow> f64 \<Rightarrow> RiskLimitValidationIssue list" where
  "validate_non_negative_risk_limit_value field value =
     (if \<not> f_is_finite value
      then push_if True field (RiskLimitReasonCode_code RiskLimitReasonCode.InvalidThreshold)
             (field @ '' must be finite'')
      else push_if (f_lt value (Fin 0)) field (RiskLimitReasonCode_code RiskLimitReasonCode.InvalidThreshold)
             (field @ '' must be greater than or equal to 0''))"

definition validate_risk_limit_percent_range :: "string \<Rightarrow> f64 \<Rightarrow> RiskLimitValidationIssue list" where
  "validate_risk_limit_percent_range field value =
     (if \<not> f_is_finite value
      then push_if True field (RiskLimitReasonCode_code RiskLimitReasonCode.InvalidThreshold)
             (field @ '' must be finite'')
      else push_if
             (\<not> (f_le RISK_LIMIT_PERCENT_MIN_PCT_NAV value \<and> f_le value RISK_LIMIT_PERCENT_MAX_PCT_NAV))
             field (RiskLimitReasonCode_code RiskLimitReasonCode.InvalidThreshold)
             (field @ '' must be between 0 and 100''))"

definition validate_risk_limit_timestamp_field ::
    "time_crate \<Rightarrow> string \<Rightarrow> string \<Rightarrow> RiskLimitValidationIssue list" where
  "validate_risk_limit_timestamp_field T field value =
     push_if (\<not> utc_ok T value) field (RiskLimitReasonCode_code RiskLimitReasonCode.InvalidPayload)
       (field @ '' must be an RFC3339 UTC timestamp'')"

definition validate_child_not_above_parent ::
    "string \<Rightarrow> f64 \<Rightarrow> string \<Rightarrow> f64 \<Rightarrow> RiskLimitValidationIssue list" where
  "validate_child_not_above_parent child_field child_value parent_field parent_value =
     push_if (f_gt child_value parent_value) child_field
       (RiskLimitReasonCode_code RiskLimitReasonCode.InvalidScopeInvariant)
       (child_field @ '' cannot exceed '' @ parent_field
         @ ''; equality is allowed but strict greater-than is rejected'')"

definition validate_scope_limit ::
    "RiskScopeLimit \<Rightarrow> RiskLimitScope \<Rightarrow> string \<Rightarrow> string \<Rightarrow> string \<Rightarrow> string \<Rightarrow> string
      \<Rightarrow> RiskLimitValidationIssue list" where
  "validate_scope_limit scope_limit expected_scope scope_field scope_id_field max_notional_field
      max_inventory_field max_concentration_field =
     push_if (sl_scope scope_limit \<noteq> expected_scope) scope_field
       (RiskLimitReasonCode_code RiskLimitReasonCode.InvalidScopeInvariant)
       (scope_field @ '' must be `'' @ RiskLimitScope_as_str expected_scope @ ''`'')
   @ validate_non_empty_risk_limit_field scope_id_field (sl_scope_id scope_limit)
   @ validate_non_negative_risk_limit_value max_notional_field (sl_max_notional_usd scope_limit)
   @ validate_non_negative_risk_limit_value max_inventory_field (sl_max_inventory_units scope_limit)
   @ validate_risk_limit_percent_range max_concentration_field (sl_max_concentration_pct_nav scope_limit)"

section \<open>Profile and rule validators\<close>

definition validate_risk_limit_profile_version ::
    "time_crate \<Rightarrow> RiskLimitProfileVersion \<Rightarrow> RiskLimitContractError + unit" where
  "validate_risk_limit_profile_version T profile = reject_if
     (validate_non_empty_risk_limit_field ''profile_key'' (rp_profile_key profile)
    @ validate_non_empty_risk_limit_field ''actor_id'' (rp_actor_id profile)
    @ validate_non_empty_risk_limit_field ''correlation_id'' (rp_correlation_id profile)
    @ validate_non_empty_risk_limit_field ''reason_code'' (rp_reason_code profile)
    @ validate_risk_limit_timestamp_field T ''updated_at_utc'' (rp_updated_at_utc profile)
    @ push_if (rp_version profile \<le> 0) ''version''
        (RiskLimitReasonCode_code RiskLimitReasonCode.InvalidPayload) ''version must be greater than 0''
    @ push_if (is_err (RiskLimitReasonCode_parse (rp_reason_code profile))) ''reason_code''
        (RiskLimitReasonCode_code RiskLimitReasonCode.InvalidPayload)
        ''reason_code must be a known risk limit reason''
    @ push_if (rp_status profile = RiskLimitProfileStatus.Pending
               \<and> (case rp_approval_reference profile of None \<Rightarrow> False | Some value \<Rightarrow> \<not> blank value))
        ''approval_reference'' (RiskLimitReasonCode_code RiskLimitReasonCode.InvalidScopeInvariant)
        ''pending profiles cannot carry approval_reference until activated''
    @ validate_scope_limit (rp_portfolio profile) RiskLimitScope.Portfolio
        ''portfolio.scope'' ''portfolio.scope_id'' ''portfolio.max_notional_usd''
        ''portfolio.max_inventory_units'' ''portfolio.max_concentration_pct_nav''
    @ validate_scope_limit (rp_market profile) RiskLimitScope.Market
        ''market.scope'' ''market.scope_id'' ''market.max_notional_usd''
        ''market.max_inventory_units'' ''market.max_concentration_pct_nav''
    @ validate_scope_limit (rp_strategy profile) RiskLimitScope.Strategy
        ''strategy.scope'' ''strategy.scope_id'' ''strategy.max_notional_usd''
        ''strategy.max_inventory_units'' ''strategy.max_concentration_pct_nav''
    @ validate_child_not_above_parent
        ''market.max_notional_usd'' (sl_max_notional_usd (rp_market profile))
        ''portfolio.max_notional_usd'' (sl_max_notional_usd (rp_portfolio profile))
    @ validate_child_not_above_parent
        ''strategy.max_notional_usd'' (sl_max_notional_usd (rp_strategy profile))
        ''market.max_notional_usd'' (sl_max_notional_usd (rp_market profile))
    @ validate_child_not_above_parent
        ''market.max_inventory_units'' (sl_max_inventory_units (rp_market profile))
        ''portfolio.max_inventory_units'' (sl_max_inventory_units (rp_portfolio profile))
    @ validate_child_not_above_parent
        ''strategy.max_inventory_units'' (sl_max_inventory_units (rp_strategy profile))
        ''market.max_inventory_units'' (sl_max_inventory_units (rp_market profile))
    @ validate_child_not_above_parent
        ''market.max_concentration_pct_nav'' (sl_max_concentration_pct_nav (rp_market profile))
        ''portfolio.max_concentration_pct_nav'' (sl_max_concentration_pct_nav (rp_portfolio profile))
    @ validate_child_not_above_parent
        ''strategy.max_concentration_pct_nav'' (sl_max_concentration_pct_nav (rp_strategy profile))
        ''market.max_concentration_pct_nav'' (sl_max_concentration_pct_nav (rp_market profile)))
     (RiskLimitContractError_invalid_payload_with_issues
        ''risk limit profile contains invalid scope thresholds'')"

definition validate_inventory_limit_rule ::
    "time_crate \<Rightarrow> InventoryLimitRule \<Rightarrow> RiskLimitContractError + unit" where
  "validate_inventory_limit_rule T rule = reject_if
     (validate_non_empty_risk_limit_field ''rule_id'' (ir_rule_id rule)
    @ validate_non_empty_risk_limit_field ''profile_key'' (ir_profile_key rule)
    @ validate_non_empty_risk_limit_field ''scope_id'' (ir_scope_id rule)
    @ validate_non_empty_risk_limit_field ''actor_id'' (ir_actor_id rule)
    @ validate_non_empty_risk_limit_field ''correlation_id'' (ir_correlation_id rule)
    @ validate_risk_limit_timestamp_field T ''updated_at_utc'' (ir_updated_at_utc rule)
    @ validate_non_negative_risk_limit_value ''max_position_units'' (ir_max_position_units rule)
    @ validate_non_negative_risk_limit_value ''max_order_size_units'' (ir_max_order_size_units rule)
    @ validate_risk_limit_percent_range ''max_concentration_pct_nav'' (ir_max_concentration_pct_nav rule)
    @ push_if (ir_profile_version rule \<le> 0) ''profile_version''
        (RiskLimitReasonCode_code RiskLimitReasonCode.InvalidPayload)
        ''profile_version must be greater than 0''
    @ push_if (ir_scope rule = RiskLimitScope.Portfolio) ''scope''
        (RiskLimitReasonCode_code RiskLimitReasonCode.InvalidScopeInvariant)
        ''inventory rules are only valid for market or strategy scopes'')
     (RiskLimitContractError_invalid_payload_with_issues ''inventory limit rule payload is invalid'')"

definition requires_risk_limit_increase_approval ::
    "RiskLimitProfileVersion option \<Rightarrow> RiskLimitProfileVersion \<Rightarrow> bool" where
  "requires_risk_limit_increase_approval current proposed = (case current of
      None \<Rightarrow> False
    | Some current \<Rightarrow>
        if trim (rp_profile_key current) \<noteq> trim (rp_profile_key proposed) then False
        else f_gt (sl_max_notional_usd (rp_portfolio proposed)) (sl_max_notional_usd (rp_portfolio current))
          \<or> f_gt (sl_max_notional_usd (rp_market proposed)) (sl_max_notional_usd (rp_market current))
          \<or> f_gt (sl_max_notional_usd (rp_strategy proposed)) (sl_max_notional_usd (rp_strategy current))
          \<or> f_gt (sl_max_inventory_units (rp_portfolio proposed)) (sl_max_inventory_units (rp_portfolio current))
          \<or> f_gt (sl_max_inventory_units (rp_market proposed)) (sl_max_inventory_units (rp_market current))
          \<or> f_gt (sl_max_inventory_units (rp_strategy proposed)) (sl_max_inventory_units (rp_strategy current))
          \<or> f_gt (sl_max_concentration_pct_nav (rp_portfolio proposed)) (sl_max_concentration_pct_nav (rp_portfolio current))
          \<or> f_gt (sl_max_concentration_pct_nav (rp_market proposed)) (sl_max_concentration_pct_nav (rp_market current))
          \<or> f_gt (sl_max_concentration_pct_nav (rp_strategy proposed)) (sl_max_concentration_pct_nav (rp_strategy current)))"

definition normalize_risk_limit_identifier :: "string \<Rightarrow> string" where
  "normalize_risk_limit_identifier raw = normalize raw"

section \<open>What the validators accept\<close>

lemma risk_limit_field_specs [issue_specs]:
  "validate_non_empty_risk_limit_field f v = [] \<longleftrightarrow> \<not> blank v"
  "validate_non_negative_risk_limit_value f x = [] \<longleftrightarrow> f_is_finite x \<and> f_nonneg x"
  "validate_risk_limit_percent_range f x = [] \<longleftrightarrow> f_nonneg x \<and> f_le x (Fin 100)"
  "validate_risk_limit_timestamp_field T f v = [] \<longleftrightarrow> utc_ok T v"
  "validate_child_not_above_parent f x g y = [] \<longleftrightarrow> \<not> f_gt x y"
  by (cases x; auto simp: validate_non_empty_risk_limit_field_def
      validate_non_negative_risk_limit_value_def validate_risk_limit_percent_range_def
      validate_risk_limit_timestamp_field_def validate_child_not_above_parent_def)+

text \<open>The contract of a scope limit, and the pointwise order of two of them.\<close>

definition scope_limit_wf :: "RiskLimitScope \<Rightarrow> RiskScopeLimit \<Rightarrow> bool" where
  "scope_limit_wf scope l \<longleftrightarrow>
     sl_scope l = scope \<and> \<not> blank (sl_scope_id l)
   \<and> f_is_finite (sl_max_notional_usd l) \<and> f_nonneg (sl_max_notional_usd l)
   \<and> f_is_finite (sl_max_inventory_units l) \<and> f_nonneg (sl_max_inventory_units l)
   \<and> f_nonneg (sl_max_concentration_pct_nav l) \<and> f_le (sl_max_concentration_pct_nav l) (Fin 100)"

definition scope_limit_le :: "RiskScopeLimit \<Rightarrow> RiskScopeLimit \<Rightarrow> bool" where
  "scope_limit_le a b \<longleftrightarrow>
     f_le (sl_max_notional_usd a) (sl_max_notional_usd b)
   \<and> f_le (sl_max_inventory_units a) (sl_max_inventory_units b)
   \<and> f_le (sl_max_concentration_pct_nav a) (sl_max_concentration_pct_nav b)"

definition profile_wf :: "time_crate \<Rightarrow> RiskLimitProfileVersion \<Rightarrow> bool" where
  "profile_wf T p \<longleftrightarrow>
     \<not> blank (rp_profile_key p) \<and> \<not> blank (rp_actor_id p) \<and> \<not> blank (rp_correlation_id p)
   \<and> utc_ok T (rp_updated_at_utc p) \<and> 0 < rp_version p
   \<and> (\<exists>c. rp_reason_code p = RiskLimitReasonCode_code c)
   \<and> (rp_status p = RiskLimitProfileStatus.Pending \<longrightarrow> blank (case_option '''' id (rp_approval_reference p)))
   \<and> scope_limit_wf RiskLimitScope.Portfolio (rp_portfolio p)
   \<and> scope_limit_wf RiskLimitScope.Market (rp_market p)
   \<and> scope_limit_wf RiskLimitScope.Strategy (rp_strategy p)
   \<and> scope_limit_le (rp_market p) (rp_portfolio p)
   \<and> scope_limit_le (rp_strategy p) (rp_market p)"

lemma validate_scope_limit_Nil [issue_specs]:
  "validate_scope_limit l scope f1 f2 f3 f4 f5 = [] \<longleftrightarrow> scope_limit_wf scope l"
  by (auto simp: validate_scope_limit_def scope_limit_wf_def issue_specs)

lemma f_le_100_finite: "f_nonneg x \<Longrightarrow> f_le x (Fin 100) \<Longrightarrow> f_is_finite x"
  by (cases x) auto

lemma scope_limit_le_iff:
  assumes "scope_limit_wf s a" "scope_limit_wf t b"
  shows "scope_limit_le a b \<longleftrightarrow>
     \<not> f_gt (sl_max_notional_usd a) (sl_max_notional_usd b)
   \<and> \<not> f_gt (sl_max_inventory_units a) (sl_max_inventory_units b)
   \<and> \<not> f_gt (sl_max_concentration_pct_nav a) (sl_max_concentration_pct_nav b)"
  using assms by (auto simp: scope_limit_wf_def scope_limit_le_def f_le_100_finite)

lemma scope_limit_le_refl: "scope_limit_wf s a \<Longrightarrow> scope_limit_le a a"
  by (auto simp: scope_limit_le_iff)

lemma scope_limit_le_trans: "scope_limit_le a b \<Longrightarrow> scope_limit_le b c \<Longrightarrow> scope_limit_le a c"
  by (auto simp: scope_limit_le_def intro: f_le_trans)

lemma risk_limit_code_not_blank [simp]: "\<not> blank (RiskLimitReasonCode_code c)"
  by (cases c) (simp_all add: trim_id ws1_def ws2_def ws3_def)

lemma validate_profile_ok_iff:
  "validate_risk_limit_profile_version T p = Inr () \<longleftrightarrow> profile_wf T p"
proof -
  have le: "scope_limit_wf RiskLimitScope.Portfolio (rp_portfolio p) \<Longrightarrow>
      scope_limit_wf RiskLimitScope.Market (rp_market p) \<Longrightarrow>
      scope_limit_wf RiskLimitScope.Strategy (rp_strategy p) \<Longrightarrow> ?thesis"
    by (auto simp: validate_risk_limit_profile_version_def profile_wf_def issue_specs
        risk_limit_reason.parse_err_iff scope_limit_le_iff split: option.splits)
  show ?thesis
  proof (cases "scope_limit_wf RiskLimitScope.Portfolio (rp_portfolio p) \<and>
      scope_limit_wf RiskLimitScope.Market (rp_market p) \<and>
      scope_limit_wf RiskLimitScope.Strategy (rp_strategy p)")
    case False
    then show ?thesis by (auto simp: validate_risk_limit_profile_version_def profile_wf_def issue_specs)
  qed (use le in blast)
qed

lemma validate_inventory_rule_ok_iff:
  "validate_inventory_limit_rule T r = Inr () \<longleftrightarrow>
     \<not> blank (ir_rule_id r) \<and> \<not> blank (ir_profile_key r) \<and> \<not> blank (ir_scope_id r)
   \<and> \<not> blank (ir_actor_id r) \<and> \<not> blank (ir_correlation_id r) \<and> utc_ok T (ir_updated_at_utc r)
   \<and> f_is_finite (ir_max_position_units r) \<and> f_nonneg (ir_max_position_units r)
   \<and> f_is_finite (ir_max_order_size_units r) \<and> f_nonneg (ir_max_order_size_units r)
   \<and> f_nonneg (ir_max_concentration_pct_nav r) \<and> f_le (ir_max_concentration_pct_nav r) (Fin 100)
   \<and> 0 < ir_profile_version r \<and> ir_scope r \<noteq> RiskLimitScope.Portfolio"
  by (auto simp: validate_inventory_limit_rule_def issue_specs)

section \<open>Increases need approval\<close>

definition profile_limits_le :: "RiskLimitProfileVersion \<Rightarrow> RiskLimitProfileVersion \<Rightarrow> bool" where
  "profile_limits_le p q \<longleftrightarrow>
     scope_limit_le (rp_portfolio p) (rp_portfolio q) \<and> scope_limit_le (rp_market p) (rp_market q)
   \<and> scope_limit_le (rp_strategy p) (rp_strategy q)"

lemma profile_wf_scopes:
  assumes "profile_wf T p"
  shows "scope_limit_wf RiskLimitScope.Portfolio (rp_portfolio p)"
    and "scope_limit_wf RiskLimitScope.Market (rp_market p)"
    and "scope_limit_wf RiskLimitScope.Strategy (rp_strategy p)"
  using assms by (auto simp: profile_wf_def)

lemma no_approval_iff:
  assumes "profile_wf T p" "profile_wf T q" "trim (rp_profile_key p) = trim (rp_profile_key q)"
  shows "\<not> requires_risk_limit_increase_approval (Some p) q \<longleftrightarrow> profile_limits_le q p"
  using assms(3) profile_wf_scopes[OF assms(1)] profile_wf_scopes[OF assms(2)]
  by (auto simp: requires_risk_limit_increase_approval_def profile_limits_le_def scope_limit_le_iff)

text \<open>
  The versions of one profile applied one after the other, each accepted by the validator and
  none sent to approval.
\<close>

fun unapproved_run :: "time_crate \<Rightarrow> RiskLimitProfileVersion \<Rightarrow> RiskLimitProfileVersion list \<Rightarrow> bool" where
  "unapproved_run T p [] = True"
| "unapproved_run T p (q # qs) =
     (validate_risk_limit_profile_version T q = Inr ()
    \<and> trim (rp_profile_key p) = trim (rp_profile_key q)
    \<and> \<not> requires_risk_limit_increase_approval (Some p) q
    \<and> unapproved_run T q qs)"

lemma unapproved_run_le:
  "profile_wf T p \<Longrightarrow> unapproved_run T p qs \<Longrightarrow> q \<in> set qs \<Longrightarrow> profile_limits_le q p"
proof (induction qs arbitrary: p)
  case (Cons r qs)
  then have "profile_wf T r" and "profile_limits_le r p"
    using no_approval_iff[of T p r] by (auto simp: validate_profile_ok_iff)
  then show ?case
    using Cons by (auto simp: profile_limits_le_def intro: scope_limit_le_trans)
qed simp

section \<open>Properties\<close>

text \<open>
  C30: However many versions of a profile are applied without an approval, each one valid for
  itself, no notional, inventory or concentration limit of any scope ends up above the limit of
  the version the run started from: only an approved change can raise a limit.
\<close>

theorem unapproved_run_never_raises:
  assumes "validate_risk_limit_profile_version T p = Inr ()" and "unapproved_run T p qs"
  shows "list_all (\<lambda>q. profile_limits_le q p) qs"
  using unapproved_run_le assms by (auto simp: list_all_iff validate_profile_ok_iff)

definition demo_scope_limit :: "RiskLimitScope \<Rightarrow> rat \<Rightarrow> RiskScopeLimit" where
  "demo_scope_limit s x = \<lparr>sl_scope = s, sl_scope_id = RiskLimitScope_as_str s,
     sl_max_notional_usd = Fin (10 * x), sl_max_inventory_units = Fin x,
     sl_max_concentration_pct_nav = Fin 25\<rparr>"

definition demo_profile :: "int \<Rightarrow> rat \<Rightarrow> RiskLimitProfileVersion" where
  "demo_profile v x = \<lparr>rp_profile_key = ''core'', rp_version = v,
     rp_portfolio = demo_scope_limit RiskLimitScope.Portfolio (4 * x),
     rp_market = demo_scope_limit RiskLimitScope.Market (2 * x),
     rp_strategy = demo_scope_limit RiskLimitScope.Strategy x,
     rp_status = RiskLimitProfileStatus.Active, rp_approval_reference = None,
     rp_actor_id = ''ops'', rp_reason_code = ''risk_limit_profile_applied'',
     rp_correlation_id = ''corr-1'', rp_updated_at_utc = ''2026-04-06T00:00:00Z''\<rparr>"

theorem unapproved_run_never_raises_witness:
  "list_all (\<lambda>q. profile_limits_le q (demo_profile 1 100)) [demo_profile 2 100, demo_profile 3 50]
   \<and> requires_risk_limit_increase_approval (Some (demo_profile 1 100)) (demo_profile 2 101)"
proof (rule conjI)
  show "list_all (\<lambda>q. profile_limits_le q (demo_profile 1 100)) [demo_profile 2 100, demo_profile 3 50]"
    by (rule unapproved_run_never_raises[of demo_time]) code_simp+
  show "requires_risk_limit_increase_approval (Some (demo_profile 1 100)) (demo_profile 2 101)"
    by code_simp
qed

text \<open>
  The profile validator accepts exactly the profiles of the written contract: the
  identifying fields present, the timestamp in UTC, a positive version, a known reason code, no
  approval reference on a pending profile, finite non-negative limits with concentrations of at
  most 100 per cent of NAV, each scope under its own name, and strategy limits at most the
  market's and those at most the portfolio's.
\<close>

theorem risk_limit_profile_accepted_iff:
  "isl (validate_risk_limit_profile_version T p) = (\<not> profile_wf T p)"
  using validate_profile_ok_iff[of T p] by (cases "validate_risk_limit_profile_version T p") auto

end
