(* ===== verification/MarketPolicy.thy ===== *)
theory MarketPolicy
  imports RiskLimits
begin

text \<open>
  Market snapshots, market policy profiles, cluster overrides and market buckets of
  \<open>crates/domain/src/risk.rs\<close>: their validators, the eligibility decision of a market
  against its policy, and the resolution of a market to its one active bucket mapping.
\<close>

section \<open>Data\<close>

datatype VenueEligibilityState =
    Eligible
  | Restricted
  | Ineligible

fun VenueEligibilityState_as_str :: "VenueEligibilityState \<Rightarrow> string" where
  "VenueEligibilityState_as_str VenueEligibilityState.Eligible = ''eligible''"
| "VenueEligibilityState_as_str VenueEligibilityState.Restricted = ''restricted''"
| "VenueEligibilityState_as_str VenueEligibilityState.Ineligible = ''ineligible''"

record MarketPolicyProfile =
  mp_profile_id :: string
  mp_cluster_id :: string
  mp_min_liquidity_usd :: f64
  mp_max_spread_bps :: f64
  mp_min_reward_score :: f64
  mp_max_exposure_pct_nav :: f64
  mp_is_active :: bool
  mp_actor_id :: string
  mp_correlation_id :: string
  mp_updated_at_utc :: string

record MarketBucketProfile =
  bp_profile_id :: string
  bp_market_id :: string
  bp_cluster_id :: string
  bp_bucket_type :: string
  bp_risk_policy_key :: string
  bp_allocation_policy_key :: string
  bp_is_active :: bool
  bp_actor_id :: string
  bp_correlation_id :: string
  bp_updated_at_utc :: string

record ResolvedMarketPolicyLinks =
  rl_profile_id :: string
  rl_market_id :: string
  rl_cluster_id :: string
  rl_bucket_type :: string
  rl_risk_policy_key :: string
  rl_allocation_policy_key :: string

record MarketClusterOverride =
  co_cluster_id :: string
  co_is_enabled :: bool
  co_reason_code :: string
  co_actor_id :: string
  co_correlation_id :: string
  co_updated_at_utc :: string

record MarketSnapshot =
  ms_market_id :: string
  ms_cluster_id :: string
  ms_liquidity_depth_usd :: f64
  ms_inactivity_gap_seconds :: "f64 option"
  ms_spread_bps :: f64
  ms_reward_score :: f64
  ms_expected_reward_bps :: "f64 option"
  ms_maker_rebate_bps :: "f64 option"
  ms_expected_cost_bps :: "f64 option"
  ms_expected_volatility_bps :: "f64 option"
  ms_venue_eligibility_state :: "VenueEligibilityState option"
  ms_projected_exposure_pct_nav :: f64
  ms_observed_at_utc :: string

definition VenueEligibilityState_is_eligible :: "VenueEligibilityState \<Rightarrow> bool" where
  "VenueEligibilityState_is_eligible s = (s = VenueEligibilityState.Eligible)"

section \<open>Codes and errors\<close>

datatype MarketEligibilityOutcome =
    Tradable
  | Blocked

fun MarketEligibilityOutcome_as_str :: "MarketEligibilityOutcome \<Rightarrow> string" where
  "MarketEligibilityOutcome_as_str MarketEligibilityOutcome.Tradable = ''tradable''"
| "MarketEligibilityOutcome_as_str MarketEligibilityOutcome.Blocked = ''blocked''"

datatype MarketPolicyReasonCode =
    MarketEligible
  | PolicyStateUnavailable
  | ClusterDisabled
  | UnknownCluster
  | LiquidityBelowMinimum
  | SpreadAboveMaximum
  | RewardBelowMinimum
  | ExposureAboveMaximum
  | InvalidPayload
  | InvalidClusterId
  | InvalidThreshold
  | ProfileUpdated
  | ClusterEnabled
  | ClusterDisabledByOperator
  | PersistenceUnavailable

fun MarketPolicyReasonCode_code :: "MarketPolicyReasonCode \<Rightarrow> string" where
  "MarketPolicyReasonCode_code MarketPolicyReasonCode.MarketEligible = ''market_policy_market_eligible''"
| "MarketPolicyReasonCode_code MarketPolicyReasonCode.PolicyStateUnavailable = ''market_policy_state_unavailable''"
| "MarketPolicyReasonCode_code MarketPolicyReasonCode.ClusterDisabled = ''market_policy_cluster_disabled''"
| "MarketPolicyReasonCode_code MarketPolicyReasonCode.UnknownCluster = ''market_policy_unknown_cluster''"
| "MarketPolicyReasonCode_code MarketPolicyReasonCode.LiquidityBelowMinimum = ''market_policy_liquidity_below_minimum''"
| "MarketPolicyReasonCode_code MarketPolicyReasonCode.SpreadAboveMaximum = ''market_policy_spread_above_maximum''"
| "MarketPolicyReasonCode_code MarketPolicyReasonCode.RewardBelowMinimum = ''market_policy_reward_below_minimum''"
| "MarketPolicyReasonCode_code MarketPolicyReasonCode.ExposureAboveMaximum = ''market_policy_exposure_above_maximum''"
| "MarketPolicyReasonCode_code MarketPolicyReasonCode.InvalidPayload = ''market_policy_invalid_payload''"
| "MarketPolicyReasonCode_code MarketPolicyReasonCode.InvalidClusterId = ''market_policy_invalid_cluster_id''"
| "MarketPolicyReasonCode_code MarketPolicyReasonCode.InvalidThreshold = ''market_policy_invalid_threshold''"
| "MarketPolicyReasonCode_code MarketPolicyReasonCode.ProfileUpdated = ''market_policy_profile_updated''"
| "MarketPolicyReasonCode_code MarketPolicyReasonCode.ClusterEnabled = ''market_policy_cluster_enabled''"
| "MarketPolicyReasonCode_code MarketPolicyReasonCode.ClusterDisabledByOperator = ''market_policy_cluster_disabled_by_operator''"
| "MarketPolicyReasonCode_code MarketPolicyReasonCode.PersistenceUnavailable = ''market_policy_persistence_unavailable''"

type_synonym MarketPolicyValidationIssue = issue
type_synonym MarketPolicyContractError = contract_error

definition MarketPolicyContractError_invalid_payload :: "string \<Rightarrow> MarketPolicyContractError" where
  "MarketPolicyContractError_invalid_payload message =
     contract_error_of (MarketPolicyReasonCode_code MarketPolicyReasonCode.InvalidPayload) message []"

definition MarketPolicyContractError_invalid_payload_with_issues :: "string \<Rightarrow> MarketPolicyValidationIssue list \<Rightarrow> MarketPolicyContractError" where
  "MarketPolicyContractError_invalid_payload_with_issues message field_errors =
     contract_error_of (MarketPolicyReasonCode_code MarketPolicyReasonCode.InvalidPayload) message field_errors"

definition MarketPolicyReasonCode_parse :: "string \<Rightarrow> MarketPolicyContractError + MarketPolicyReasonCode" where
  "MarketPolicyReasonCode_parse = parse_arms
     [(''market_policy_market_eligible'', MarketPolicyReasonCode.MarketEligible),
      (''market_policy_state_unavailable'', MarketPolicyReasonCode.PolicyStateUnavailable),
      (''market_policy_cluster_disabled'', MarketPolicyReasonCode.ClusterDisabled),
      (''market_policy_unknown_cluster'', MarketPolicyReasonCode.UnknownCluster),
      (''market_policy_liquidity_below_minimum'', MarketPolicyReasonCode.LiquidityBelowMinimum),
      (''market_policy_spread_above_maximum'', MarketPolicyReasonCode.SpreadAboveMaximum),
      (''market_policy_reward_below_minimum'', MarketPolicyReasonCode.RewardBelowMinimum),
      (''market_policy_exposure_above_maximum'', MarketPolicyReasonCode.ExposureAboveMaximum),
      (''market_policy_invalid_payload'', MarketPolicyReasonCode.InvalidPayload),
      (''market_policy_invalid_cluster_id'', MarketPolicyReasonCode.InvalidClusterId),
      (''market_policy_invalid_threshold'', MarketPolicyReasonCode.InvalidThreshold),
      (''market_policy_profile_updated'', MarketPolicyReasonCode.ProfileUpdated),
      (''market_policy_cluster_enabled'', MarketPolicyReasonCode.ClusterEnabled),
      (''market_policy_cluster_disabled_by_operator'', MarketPolicyReasonCode.ClusterDisabledByOperator),
      (''market_policy_persistence_unavailable'', MarketPolicyReasonCode.PersistenceUnavailable)]
     (\<lambda>value. MarketPolicyContractError_invalid_payload (''unknown market policy reason code `'' @ value @ ''`''))"

interpretation market_policy_reason: enum_codec "\<lambda>v. v" MarketPolicyReasonCode_code MarketPolicyReasonCode_parse
  by (unfold MarketPolicyReasonCode_parse_def, rule enum_codec_arms, case_tac x) simp_all

datatype MarketBucketType =
    Core
  | Satellite

fun MarketBucketType_as_str :: "MarketBucketType \<Rightarrow> string" where
  "MarketBucketType_as_str MarketBucketType.Core = ''core''"
| "MarketBucketType_as_str MarketBucketType.Satellite = ''satellite''"

datatype MarketBucketReasonCode =
    MappingResolved
  | MappingUnavailable
  | MappingConflict
  | InvalidPayload
  | UnsupportedBucketType
  | ProfileUpdated
  | ProfileRead
  | PersistenceUnavailable

fun MarketBucketReasonCode_code :: "MarketBucketReasonCode \<Rightarrow> string" where
  "MarketBucketReasonCode_code MarketBucketReasonCode.MappingResolved = ''market_bucket_mapping_resolved''"
| "MarketBucketReasonCode_code MarketBucketReasonCode.MappingUnavailable = ''market_bucket_mapping_unavailable''"
| "MarketBucketReasonCode_code MarketBucketReasonCode.MappingConflict = ''market_bucket_mapping_conflict''"
| "MarketBucketReasonCode_code MarketBucketReasonCode.InvalidPayload = ''market_bucket_invalid_payload''"
| "MarketBucketReasonCode_code MarketBucketReasonCode.UnsupportedBucketType = ''market_bucket_unsupported_bucket_type''"
| "MarketBucketReasonCode_code MarketBucketReasonCode.ProfileUpdated = ''market_bucket_profile_updated''"
| "MarketBucketReasonCode_code MarketBucketReasonCode.ProfileRead = ''market_bucket_profile_read''"
| "MarketBucketReasonCode_code MarketBucketReasonCode.PersistenceUnavailable = ''market_bucket_persistence_unavailable''"

type_synonym MarketBucketValidationIssue = issue
type_synonym MarketBucketContractError = contract_error

definition MarketBucketContractError_invalid_payload :: "string \<Rightarrow> MarketBucketContractError" where
  "MarketBucketContractError_invalid_payload message =
     contract_error_of (MarketBucketReasonCode_code MarketBucketReasonCode.InvalidPayload) message []"

definition MarketBucketContractError_invalid_payload_with_issues :: "string \<Rightarrow> MarketBucketValidationIssue list \<Rightarrow> MarketBucketContractError" where
  "MarketBucketContractError_invalid_payload_with_issues message field_errors =
     contract_error_of (MarketBucketReasonCode_code MarketBucketReasonCode.InvalidPayload) message field_errors"

definition MarketBucketContractError_mapping_unavailable_with_issues :: "string \<Rightarrow> MarketBucketValidationIssue list \<Rightarrow> MarketBucketContractError" where
  "MarketBucketContractError_mapping_unavailable_with_issues message field_errors =
     contract_error_of (MarketBucketReasonCode_code MarketBucketReasonCode.MappingUnavailable) message field_errors"

definition MarketBucketContractError_mapping_conflict_with_issues :: "string \<Rightarrow> MarketBucketValidationIssue list \<Rightarrow> MarketBucketContractError" where
  "MarketBucketContractError_mapping_conflict_with_issues message field_errors =
     contract_error_of (MarketBucketReasonCode_code MarketBucketReasonCode.MappingConflict) message field_errors"

definition MarketBucketReasonCode_parse :: "string \<Rightarrow> MarketBucketContractError + MarketBucketReasonCode" where
  "MarketBucketReasonCode_parse = parse_arms
     [(''market_bucket_mapping_resolved'', MarketBucketReasonCode.MappingResolved),
      (''market_bucket_mapping_unavailable'', MarketBucketReasonCode.MappingUnavailable),
      (''market_bucket_mapping_conflict'', MarketBucketReasonCode.MappingConflict),
      (''market_bucket_invalid_payload'', MarketBucketReasonCode.InvalidPayload),
      (''market_bucket_unsupported_bucket_type'', MarketBucketReasonCode.UnsupportedBucketType),
      (''market_bucket_profile_updated'', MarketBucketReasonCode.ProfileUpdated),
      (''market_bucket_profile_read'', MarketBucketReasonCode.ProfileRead),
      (''market_bucket_persistence_unavailable'', MarketBucketReasonCode.PersistenceUnavailable)]
     (\<lambda>value. MarketBucketContractError_invalid_payload (''unknown market bucket reason code `'' @ value @ ''`''))"

interpretation market_bucket_reason: enum_codec "\<lambda>v. v" MarketBucketReasonCode_code MarketBucketReasonCode_parse
  by (unfold MarketBucketReasonCode_parse_def, rule enum_codec_arms, case_tac x) simp_all

text \<open>The lenient parser: it trims and lower-cases what it reads.\<close>

definition MarketBucketType_parse :: "string \<Rightarrow> MarketBucketContractError + MarketBucketType" where
  "MarketBucketType_parse value = parse_arms
     [(''core'', MarketBucketType.Core),
      (''satellite'', MarketBucketType.Satellite)]
     (\<lambda>_. MarketBucketContractError_invalid_payload_with_issues
        (''unsupported bucket_type `'' @ value @ ''`'')
        [\<lparr>is_field = ''bucket_type'',
          is_code = MarketBucketReasonCode_code MarketBucketReasonCode.UnsupportedBucketType,
          is_message = ''bucket_type must be one of: core, satellite''\<rparr>])
     (normalize value)"

lemma normalize_bucket_type [simp]: "normalize (MarketBucketType_as_str x) = MarketBucketType_as_str x"
  by (cases x) (simp_all add: normalize_id ws_defs)

interpretation market_bucket_type: enum_codec normalize MarketBucketType_as_str MarketBucketType_parse
  by (unfold MarketBucketType_parse_def [abs_def], rule enum_codec_arms_canon, case_tac x) simp_all

record MarketEligibilityDecision =
  ed_market_id :: string
  ed_cluster_id :: string
  ed_outcome :: MarketEligibilityOutcome
  ed_tradable :: bool
  ed_reason_code :: string
  ed_correlation_id :: string
  ed_evaluated_at_utc :: string

definition MarketEligibilityDecision_tradable ::
    "string \<Rightarrow> string \<Rightarrow> string \<Rightarrow> string \<Rightarrow> MarketEligibilityDecision" where
  "MarketEligibilityDecision_tradable market_id cluster_id correlation_id evaluated_at_utc =
     \<lparr>ed_market_id = market_id, ed_cluster_id = cluster_id,
      ed_outcome = MarketEligibilityOutcome.Tradable, ed_tradable = True,
      ed_reason_code = MarketPolicyReasonCode_code MarketPolicyReasonCode.MarketEligible,
      ed_correlation_id = correlation_id, ed_evaluated_at_utc = evaluated_at_utc\<rparr>"

definition MarketEligibilityDecision_blocked ::
    "string \<Rightarrow> string \<Rightarrow> MarketPolicyReasonCode \<Rightarrow> string \<Rightarrow> string \<Rightarrow> MarketEligibilityDecision" where
  "MarketEligibilityDecision_blocked market_id cluster_id reason_code correlation_id evaluated_at_utc =
     \<lparr>ed_market_id = market_id, ed_cluster_id = cluster_id,
      ed_outcome = MarketEligibilityOutcome.Blocked, ed_tradable = False,
      ed_reason_code = MarketPolicyReasonCode_code reason_code,
      ed_correlation_id = correlation_id, ed_evaluated_at_utc = evaluated_at_utc\<rparr>"

section \<open>Validators\<close>

definition validate_non_empty_field ::
    "string \<Rightarrow> string \<Rightarrow> issue list" where
  "validate_non_empty_field field value =
     push_if (blank value) field
        (MarketPolicyReasonCode_code MarketPolicyReasonCode.InvalidPayload)
        (field @ '' cannot be blank'')"

definition validate_non_negative_threshold ::
    "string \<Rightarrow> f64 \<Rightarrow> issue list" where
  "validate_non_negative_threshold field value =
     (if \<not> f_is_finite value then push_if True field
        (MarketPolicyReasonCode_code MarketPolicyReasonCode.InvalidThreshold)
        (field @ '' must be finite'')
      else push_if (f_lt value (Fin 0)) field
        (MarketPolicyReasonCode_code MarketPolicyReasonCode.InvalidThreshold)
        (field @ '' must be greater than or equal to 0''))"

definition validate_exposure_range ::
    "string \<Rightarrow> f64 \<Rightarrow> issue list" where
  "validate_exposure_range field value =
     (if \<not> f_is_finite value then push_if True field
        (MarketPolicyReasonCode_code MarketPolicyReasonCode.InvalidThreshold)
        (field @ '' must be finite'')
      else push_if (\<not> (f_le MARKET_EXPOSURE_MIN_PCT_NAV value \<and> f_le value MARKET_EXPOSURE_MAX_PCT_NAV)) field
        (MarketPolicyReasonCode_code MarketPolicyReasonCode.InvalidThreshold)
        (field @ '' must be between '' @ ''0'' @ '' and '' @ ''100''))"

definition validate_utc_timestamp_field ::
    "time_crate \<Rightarrow> string \<Rightarrow> string \<Rightarrow> issue list" where
  "validate_utc_timestamp_field T field value =
     push_if (\<not> utc_ok T value) field
        (MarketPolicyReasonCode_code MarketPolicyReasonCode.InvalidPayload)
        (field @ '' must be an RFC3339 UTC timestamp'')"

definition validate_market_bucket_non_empty_field ::
    "string \<Rightarrow> string \<Rightarrow> issue list" where
  "validate_market_bucket_non_empty_field field value =
     push_if (blank value) field
        (MarketBucketReasonCode_code MarketBucketReasonCode.InvalidPayload)
        (field @ '' cannot be blank'')"

definition validate_market_bucket_timestamp_field ::
    "time_crate \<Rightarrow> string \<Rightarrow> string \<Rightarrow> issue list" where
  "validate_market_bucket_timestamp_field T field value =
     push_if (\<not> utc_ok T value) field
        (MarketBucketReasonCode_code MarketBucketReasonCode.InvalidPayload)
        (field @ '' must be an RFC3339 UTC timestamp'')"

definition validate_market_policy_profile ::
    "time_crate \<Rightarrow> MarketPolicyProfile \<Rightarrow> MarketPolicyContractError + unit" where
  "validate_market_policy_profile T profile = reject_if
     (validate_non_empty_field ''profile_id'' (mp_profile_id profile)
    @ validate_non_empty_field ''cluster_id'' (mp_cluster_id profile)
    @ validate_non_empty_field ''actor_id'' (mp_actor_id profile)
    @ validate_non_empty_field ''correlation_id'' (mp_correlation_id profile)
    @ validate_non_negative_threshold ''min_liquidity_usd'' (mp_min_liquidity_usd profile)
    @ validate_non_negative_threshold ''max_spread_bps'' (mp_max_spread_bps profile)
    @ validate_non_negative_threshold ''min_reward_score'' (mp_min_reward_score profile)
    @ validate_exposure_range ''max_exposure_pct_nav'' (mp_max_exposure_pct_nav profile)
    @ validate_utc_timestamp_field T ''updated_at_utc'' (mp_updated_at_utc profile))
     (MarketPolicyContractError_invalid_payload_with_issues ''market policy profile contains invalid threshold fields'')"

definition validate_market_cluster_override ::
    "time_crate \<Rightarrow> MarketClusterOverride \<Rightarrow> MarketPolicyContractError + unit" where
  "validate_market_cluster_override T override_state = reject_if
     (validate_non_empty_field ''cluster_id'' (co_cluster_id override_state)
    @ validate_non_empty_field ''reason_code'' (co_reason_code override_state)
    @ validate_non_empty_field ''actor_id'' (co_actor_id override_state)
    @ validate_non_empty_field ''correlation_id'' (co_correlation_id override_state)
    @ validate_utc_timestamp_field T ''updated_at_utc'' (co_updated_at_utc override_state))
     (MarketPolicyContractError_invalid_payload_with_issues ''market cluster override payload is invalid'')"

definition validate_market_snapshot ::
    "time_crate \<Rightarrow> MarketSnapshot \<Rightarrow> MarketPolicyContractError + unit" where
  "validate_market_snapshot T snapshot = reject_if
     (validate_non_empty_field ''market_id'' (ms_market_id snapshot)
    @ validate_non_empty_field ''cluster_id'' (ms_cluster_id snapshot)
    @ validate_non_negative_threshold ''liquidity_depth_usd'' (ms_liquidity_depth_usd snapshot)
    @ validate_non_negative_threshold ''spread_bps'' (ms_spread_bps snapshot)
    @ validate_non_negative_threshold ''reward_score'' (ms_reward_score snapshot)
    @ validate_non_negative_threshold ''projected_exposure_pct_nav'' (ms_projected_exposure_pct_nav snapshot)
    @ validate_utc_timestamp_field T ''observed_at_utc'' (ms_observed_at_utc snapshot))
     (MarketPolicyContractError_invalid_payload_with_issues ''market snapshot payload is invalid'')"

definition validate_market_bucket_profile ::
    "time_crate \<Rightarrow> MarketBucketProfile \<Rightarrow> MarketBucketContractError + unit" where
  "validate_market_bucket_profile T profile = reject_if
     (validate_market_bucket_non_empty_field ''profile_id'' (bp_profile_id profile)
    @ validate_market_bucket_non_empty_field ''market_id'' (bp_market_id profile)
    @ validate_market_bucket_non_empty_field ''cluster_id'' (bp_cluster_id profile)
    @ validate_market_bucket_non_empty_field ''bucket_type'' (bp_bucket_type profile)
    @ validate_market_bucket_non_empty_field ''risk_policy_key'' (bp_risk_policy_key profile)
    @ validate_market_bucket_non_empty_field ''allocation_policy_key'' (bp_allocation_policy_key profile)
    @ validate_market_bucket_non_empty_field ''actor_id'' (bp_actor_id profile)
    @ validate_market_bucket_non_empty_field ''correlation_id'' (bp_correlation_id profile)
    @ validate_market_bucket_timestamp_field T ''updated_at_utc'' (bp_updated_at_utc profile)
    @ (case MarketBucketType_parse (bp_bucket_type profile) of
         Inl error \<Rightarrow> ce_field_errors error
       | Inr _ \<Rightarrow> []))
     (MarketBucketContractError_invalid_payload_with_issues ''market bucket profile payload is invalid'')"

definition normalize_market_bucket_identifier :: "string \<Rightarrow> string" where
  "normalize_market_bucket_identifier raw = normalize raw"

definition canonical_market_bucket_profile_id :: "string \<Rightarrow> string \<Rightarrow> string" where
  "canonical_market_bucket_profile_id market_id cluster_id =
     ''bucket::'' @ normalize_market_bucket_identifier market_id @ ''::''
       @ normalize_market_bucket_identifier cluster_id"

definition normalize_identifier :: "string \<Rightarrow> string \<Rightarrow> string" where
  "normalize_identifier value fallback = (if blank value then fallback else value)"

section \<open>Bucket resolution\<close>

definition canonicalize_market_bucket_profile ::
    "time_crate \<Rightarrow> MarketBucketProfile \<Rightarrow> MarketBucketContractError + MarketBucketProfile" where
  "canonicalize_market_bucket_profile T profile =
     and_then (validate_market_bucket_profile T profile) (\<lambda>_.
     and_then (MarketBucketType_parse (bp_bucket_type profile)) (\<lambda>bucket_type.
     Inr \<lparr>bp_profile_id = normalize_market_bucket_identifier (bp_profile_id profile),
          bp_market_id = normalize_market_bucket_identifier (bp_market_id profile),
          bp_cluster_id = normalize_market_bucket_identifier (bp_cluster_id profile),
          bp_bucket_type = MarketBucketType_as_str bucket_type,
          bp_risk_policy_key = normalize_market_bucket_identifier (bp_risk_policy_key profile),
          bp_allocation_policy_key = normalize_market_bucket_identifier (bp_allocation_policy_key profile),
          bp_is_active = bp_is_active profile,
          bp_actor_id = normalize_market_bucket_identifier (bp_actor_id profile),
          bp_correlation_id = normalize_market_bucket_identifier (bp_correlation_id profile),
          bp_updated_at_utc = bp_updated_at_utc profile\<rparr>))"

text \<open>
  The loop of \<open>resolve_market_bucket_policy_links\<close> over the profiles: inactive ones are
  skipped, the first one that is invalid ends it with its error.
\<close>

fun bucket_matches ::
    "time_crate \<Rightarrow> string \<Rightarrow> string \<Rightarrow> MarketBucketProfile list
      \<Rightarrow> MarketBucketContractError + MarketBucketProfile list" where
  "bucket_matches T market cluster [] = Inr []"
| "bucket_matches T market cluster (profile # profiles) =
     (if \<not> bp_is_active profile then bucket_matches T market cluster profiles
      else and_then (canonicalize_market_bucket_profile T profile) (\<lambda>canonical.
           and_then (bucket_matches T market cluster profiles) (\<lambda>matches.
           Inr (if bp_market_id canonical = market \<and> bp_cluster_id canonical = cluster
                then canonical # matches else matches))))"

definition resolve_market_bucket_policy_links ::
    "time_crate \<Rightarrow> string \<Rightarrow> string \<Rightarrow> MarketBucketProfile list
      \<Rightarrow> MarketBucketContractError + ResolvedMarketPolicyLinks" where
  "resolve_market_bucket_policy_links T market_id cluster_id profiles =
     (let normalized_market_id = normalize_market_bucket_identifier market_id;
          normalized_cluster_id = normalize_market_bucket_identifier cluster_id
      in if normalized_market_id = [] \<or> normalized_cluster_id = [] then
           Inl (MarketBucketContractError_invalid_payload_with_issues
             ''market_id and cluster_id are required to resolve market bucket policy links''
             [\<lparr>is_field = ''market_id'',
               is_code = MarketBucketReasonCode_code MarketBucketReasonCode.InvalidPayload,
               is_message = ''market_id cannot be blank''\<rparr>,
              \<lparr>is_field = ''cluster_id'',
               is_code = MarketBucketReasonCode_code MarketBucketReasonCode.InvalidPayload,
               is_message = ''cluster_id cannot be blank''\<rparr>])
         else and_then (bucket_matches T normalized_market_id normalized_cluster_id profiles)
           (\<lambda>matches. case matches of
              [] \<Rightarrow> Inl (MarketBucketContractError_mapping_unavailable_with_issues
                ''no active market bucket mapping exists for the requested market/cluster''
                [\<lparr>is_field = ''market_id'',
                  is_code = MarketBucketReasonCode_code MarketBucketReasonCode.MappingUnavailable,
                  is_message = ''no active mapping for market_id `'' @ normalized_market_id
                    @ ''` and cluster_id `'' @ normalized_cluster_id @ ''`''\<rparr>])
            | [profile] \<Rightarrow> Inr
                \<lparr>rl_profile_id = bp_profile_id profile, rl_market_id = bp_market_id profile,
                 rl_cluster_id = bp_cluster_id profile, rl_bucket_type = bp_bucket_type profile,
                 rl_risk_policy_key = bp_risk_policy_key profile,
                 rl_allocation_policy_key = bp_allocation_policy_key profile\<rparr>
            | _ \<Rightarrow> Inl (MarketBucketContractError_mapping_conflict_with_issues
                ''multiple active market bucket mappings exist for the requested market/cluster''
                [\<lparr>is_field = ''profile_id'',
                  is_code = MarketBucketReasonCode_code MarketBucketReasonCode.MappingConflict,
                  is_message = ''expected one active mapping for market_id `'' @ normalized_market_id
                    @ ''` and cluster_id `'' @ normalized_cluster_id @ ''`''\<rparr>])))"

section \<open>Eligibility\<close>

definition evaluate_market_eligibility ::
    "time_crate \<Rightarrow> MarketSnapshot option \<Rightarrow> MarketPolicyProfile option \<Rightarrow> MarketClusterOverride option
      \<Rightarrow> string \<Rightarrow> string \<Rightarrow> MarketEligibilityDecision" where
  "evaluate_market_eligibility T snapshot profile cluster_override correlation evaluated_at_utc =
    (let market_id = (case snapshot of Some v \<Rightarrow> ms_market_id v | None \<Rightarrow> ''unknown_market'');
         cluster_id = (case snapshot of Some v \<Rightarrow> ms_cluster_id v | None \<Rightarrow> ''unknown_cluster'');
         correlation_id = normalize_identifier correlation ''unknown_correlation'';
         blocked = (\<lambda>reason. MarketEligibilityDecision_blocked market_id cluster_id reason
                       correlation_id evaluated_at_utc)
     in if \<not> utc_ok T evaluated_at_utc then blocked MarketPolicyReasonCode.InvalidPayload
     else case snapshot of None \<Rightarrow> blocked MarketPolicyReasonCode.PolicyStateUnavailable
     | Some snapshot \<Rightarrow>
     if is_err (validate_market_snapshot T snapshot) then blocked MarketPolicyReasonCode.InvalidPayload
     else case (profile, cluster_override) of
       (Some profile, Some cluster_override) \<Rightarrow>
         if is_err (validate_market_policy_profile T profile)
            \<or> is_err (validate_market_cluster_override T cluster_override)
         then blocked MarketPolicyReasonCode.PolicyStateUnavailable
         else let snapshot_cluster_id = trim (ms_cluster_id snapshot) in
         if \<not> eq_ignore_ascii_case (trim (mp_cluster_id profile)) snapshot_cluster_id
            \<or> \<not> eq_ignore_ascii_case (trim (co_cluster_id cluster_override)) snapshot_cluster_id
         then blocked MarketPolicyReasonCode.UnknownCluster
         else if \<not> mp_is_active profile then blocked MarketPolicyReasonCode.PolicyStateUnavailable
         else if \<not> co_is_enabled cluster_override then blocked MarketPolicyReasonCode.ClusterDisabled
         else if f_lt (ms_liquidity_depth_usd snapshot) (mp_min_liquidity_usd profile)
         then blocked MarketPolicyReasonCode.LiquidityBelowMinimum
         else if f_gt (ms_spread_bps snapshot) (mp_max_spread_bps profile)
         then blocked MarketPolicyReasonCode.SpreadAboveMaximum
         else if f_lt (ms_reward_score snapshot) (mp_min_reward_score profile)
         then blocked MarketPolicyReasonCode.RewardBelowMinimum
         else if f_gt (ms_projected_exposure_pct_nav snapshot) (mp_max_exposure_pct_nav profile)
         then blocked MarketPolicyReasonCode.ExposureAboveMaximum
         else MarketEligibilityDecision_tradable market_id cluster_id correlation_id evaluated_at_utc
     | _ \<Rightarrow> blocked MarketPolicyReasonCode.PolicyStateUnavailable)"

section \<open>What the validators accept\<close>

lemma market_field_specs [issue_specs]:
  "validate_non_empty_field f v = [] \<longleftrightarrow> \<not> blank v"
  "validate_non_negative_threshold f x = [] \<longleftrightarrow> f_is_finite x \<and> f_nonneg x"
  "validate_exposure_range f x = [] \<longleftrightarrow> f_nonneg x \<and> f_le x (Fin 100)"
  "validate_utc_timestamp_field T f v = [] \<longleftrightarrow> utc_ok T v"
  "validate_market_bucket_non_empty_field f v = [] \<longleftrightarrow> \<not> blank v"
  "validate_market_bucket_timestamp_field T f v = [] \<longleftrightarrow> utc_ok T v"
  by (cases x; auto simp: validate_non_empty_field_def validate_non_negative_threshold_def
      validate_exposure_range_def validate_utc_timestamp_field_def
      validate_market_bucket_non_empty_field_def validate_market_bucket_timestamp_field_def)+

definition market_snapshot_wf :: "time_crate \<Rightarrow> MarketSnapshot \<Rightarrow> bool" where
  "market_snapshot_wf T s \<longleftrightarrow>
     \<not> blank (ms_market_id s) \<and> \<not> blank (ms_cluster_id s) \<and> utc_ok T (ms_observed_at_utc s)
   \<and> list_all (\<lambda>x. f_is_finite x \<and> f_nonneg x)
       [ms_liquidity_depth_usd s, ms_spread_bps s, ms_reward_score s, ms_projected_exposure_pct_nav s]"

definition market_policy_wf :: "time_crate \<Rightarrow> MarketPolicyProfile \<Rightarrow> bool" where
  "market_policy_wf T p \<longleftrightarrow>
     \<not> blank (mp_profile_id p) \<and> \<not> blank (mp_cluster_id p) \<and> \<not> blank (mp_actor_id p)
   \<and> \<not> blank (mp_correlation_id p) \<and> utc_ok T (mp_updated_at_utc p)
   \<and> list_all (\<lambda>x. f_is_finite x \<and> f_nonneg x)
       [mp_min_liquidity_usd p, mp_max_spread_bps p, mp_min_reward_score p]
   \<and> f_nonneg (mp_max_exposure_pct_nav p) \<and> f_le (mp_max_exposure_pct_nav p) (Fin 100)"

definition cluster_override_wf :: "time_crate \<Rightarrow> MarketClusterOverride \<Rightarrow> bool" where
  "cluster_override_wf T c \<longleftrightarrow>
     \<not> blank (co_cluster_id c) \<and> \<not> blank (co_reason_code c) \<and> \<not> blank (co_actor_id c)
   \<and> \<not> blank (co_correlation_id c) \<and> utc_ok T (co_updated_at_utc c)"

lemma market_validators_ok [simp]:
  "isl (validate_market_snapshot T s) \<longleftrightarrow> \<not> market_snapshot_wf T s"
  "isl (validate_market_policy_profile T p) \<longleftrightarrow> \<not> market_policy_wf T p"
  "isl (validate_market_cluster_override T c) \<longleftrightarrow> \<not> cluster_override_wf T c"
  by (auto simp: validate_market_snapshot_def market_snapshot_wf_def validate_market_policy_profile_def
      market_policy_wf_def validate_market_cluster_override_def cluster_override_wf_def issue_specs)

section \<open>Eligibility against its policy\<close>

text \<open>The policy a market must meet, apart from the form of the records that state it.\<close>

definition policy_admits :: "MarketSnapshot \<Rightarrow> MarketPolicyProfile \<Rightarrow> MarketClusterOverride \<Rightarrow> bool" where
  "policy_admits s p c \<longleftrightarrow>
     normalize (mp_cluster_id p) = normalize (ms_cluster_id s)
   \<and> normalize (co_cluster_id c) = normalize (ms_cluster_id s)
   \<and> mp_is_active p \<and> co_is_enabled c
   \<and> f_le (mp_min_liquidity_usd p) (ms_liquidity_depth_usd s)
   \<and> f_le (ms_spread_bps s) (mp_max_spread_bps p)
   \<and> f_le (mp_min_reward_score p) (ms_reward_score s)
   \<and> f_le (ms_projected_exposure_pct_nav s) (mp_max_exposure_pct_nav p)"

lemma decision_simps [simp]:
  "ed_tradable (MarketEligibilityDecision_tradable m c k t)"
  "\<not> ed_tradable (MarketEligibilityDecision_blocked m c r k t)"
  by (simp_all add: MarketEligibilityDecision_tradable_def MarketEligibilityDecision_blocked_def)

lemma eq_ignore_case_trim: "eq_ignore_ascii_case (trim a) (trim b) \<longleftrightarrow> normalize a = normalize b"
  by (simp add: eq_ignore_ascii_case_def normalize_def)

lemma eligibility_missing:
  "\<not> ed_tradable (evaluate_market_eligibility T None p c k t)"
  "\<not> ed_tradable (evaluate_market_eligibility T s None c k t)"
  "\<not> ed_tradable (evaluate_market_eligibility T s p None k t)"
  by (auto simp: evaluate_market_eligibility_def Let_def split: option.splits)

lemma eligibility_iff:
  "ed_tradable (evaluate_market_eligibility T (Some s) (Some p) (Some c) k t) \<longleftrightarrow>
     utc_ok T t \<and> market_snapshot_wf T s \<and> market_policy_wf T p \<and> cluster_override_wf T c
     \<and> policy_admits s p c"
proof (cases "market_snapshot_wf T s \<and> market_policy_wf T p")
  case True
  then have "f_is_finite (ms_liquidity_depth_usd s)" "f_is_finite (mp_min_liquidity_usd p)"
    "f_is_finite (ms_spread_bps s)" "f_is_finite (mp_max_spread_bps p)"
    "f_is_finite (ms_reward_score s)" "f_is_finite (mp_min_reward_score p)"
    "f_is_finite (ms_projected_exposure_pct_nav s)" "f_is_finite (mp_max_exposure_pct_nav p)"
    by (auto simp: market_snapshot_wf_def market_policy_wf_def f_le_100_finite)
  then show ?thesis
    by (auto simp: policy_admits_def evaluate_market_eligibility_def Let_def True eq_ignore_case_trim f_lt_finite)
next
  case False
  then show ?thesis by (auto simp: evaluate_market_eligibility_def Let_def)
qed

section \<open>Bucket resolution\<close>

definition bucket_profile_wf :: "time_crate \<Rightarrow> MarketBucketProfile \<Rightarrow> bool" where
  "bucket_profile_wf T p \<longleftrightarrow>
     list_all (\<lambda>v. \<not> blank v)
       [bp_profile_id p, bp_market_id p, bp_cluster_id p, bp_risk_policy_key p,
        bp_allocation_policy_key p, bp_actor_id p, bp_correlation_id p]
   \<and> utc_ok T (bp_updated_at_utc p)
   \<and> normalize (bp_bucket_type p) \<in> {''core'', ''satellite''}"

definition canonical_bucket :: "MarketBucketProfile \<Rightarrow> MarketBucketProfile" where
  "canonical_bucket p =
     \<lparr>bp_profile_id = normalize (bp_profile_id p), bp_market_id = normalize (bp_market_id p),
      bp_cluster_id = normalize (bp_cluster_id p), bp_bucket_type = normalize (bp_bucket_type p),
      bp_risk_policy_key = normalize (bp_risk_policy_key p),
      bp_allocation_policy_key = normalize (bp_allocation_policy_key p),
      bp_is_active = bp_is_active p, bp_actor_id = normalize (bp_actor_id p),
      bp_correlation_id = normalize (bp_correlation_id p), bp_updated_at_utc = bp_updated_at_utc p\<rparr>"

definition bucket_links :: "MarketBucketProfile \<Rightarrow> ResolvedMarketPolicyLinks" where
  "bucket_links p =
     \<lparr>rl_profile_id = normalize (bp_profile_id p), rl_market_id = normalize (bp_market_id p),
      rl_cluster_id = normalize (bp_cluster_id p), rl_bucket_type = normalize (bp_bucket_type p),
      rl_risk_policy_key = normalize (bp_risk_policy_key p),
      rl_allocation_policy_key = normalize (bp_allocation_policy_key p)\<rparr>"

definition maps_market :: "string \<Rightarrow> string \<Rightarrow> MarketBucketProfile \<Rightarrow> bool" where
  "maps_market m c p \<longleftrightarrow>
     normalize (bp_market_id p) = normalize m \<and> normalize (bp_cluster_id p) = normalize c"

lemma bucket_type_known:
  "(\<exists>t. normalize v = MarketBucketType_as_str t) \<longleftrightarrow> normalize v \<in> {''core'', ''satellite''}"
proof -
  have "(\<exists>t. P t) \<longleftrightarrow> P MarketBucketType.Core \<or> P MarketBucketType.Satellite" for P
    by (metis MarketBucketType.exhaust)
  then show ?thesis by simp
qed

lemma bucket_type_parse_cases:
  obtains t where "MarketBucketType_parse v = Inr t" "normalize v = MarketBucketType_as_str t"
    "normalize v \<in> {''core'', ''satellite''}"
  | e where "MarketBucketType_parse v = Inl e" "ce_field_errors e \<noteq> []"
    "normalize v \<notin> {''core'', ''satellite''}"
proof (cases "MarketBucketType_parse v")
  case (Inl e)
  then have "normalize v \<notin> {''core'', ''satellite''}"
    using market_bucket_type.parse_ok_iff[of v] bucket_type_known[of v] by auto
  moreover have "ce_field_errors e \<noteq> []"
    using Inl by (auto simp: MarketBucketType_parse_def parse_arms_def
        MarketBucketContractError_invalid_payload_with_issues_def split: option.splits)
  ultimately show ?thesis using that(2) Inl by blast
next
  case (Inr t)
  then have "normalize v = MarketBucketType_as_str t" by (simp add: market_bucket_type.parse_iff)
  then show ?thesis using that(1) Inr bucket_type_known by blast
qed

lemma bucket_type_not_blank: "normalize v = x # xs \<Longrightarrow> trim v \<noteq> []"
  by (auto simp: normalize_def to_ascii_lowercase_def)

lemma validate_bucket_ok: "validate_market_bucket_profile T p = Inr () \<longleftrightarrow> bucket_profile_wf T p"
  by (cases "bp_bucket_type p" rule: bucket_type_parse_cases)
    (auto simp: validate_market_bucket_profile_def bucket_profile_wf_def issue_specs
      dest: bucket_type_not_blank)

lemma canonicalize_iff:
  "canonicalize_market_bucket_profile T p = Inr c \<longleftrightarrow> bucket_profile_wf T p \<and> c = canonical_bucket p"
proof (cases "bp_bucket_type p" rule: bucket_type_parse_cases)
  case (1 t)
  then show ?thesis
    by (auto simp: canonicalize_market_bucket_profile_def and_then_Inr_iff validate_bucket_ok
        canonical_bucket_def normalize_market_bucket_identifier_def)
next
  case (2 e)
  then show ?thesis
    by (auto simp: canonicalize_market_bucket_profile_def and_then_Inr_iff bucket_profile_wf_def)
qed

lemma canonical_bucket_idem: "canonical_bucket (canonical_bucket p) = canonical_bucket p"
  by (simp add: canonical_bucket_def)

lemma canonical_bucket_wf: "bucket_profile_wf T p \<Longrightarrow> bucket_profile_wf T (canonical_bucket p)"
  by (simp add: canonical_bucket_def bucket_profile_wf_def)

lemma bucket_matches_iff:
  "bucket_matches T (normalize m) (normalize c) ps = Inr ms \<longleftrightarrow>
     list_all (bucket_profile_wf T) (filter bp_is_active ps)
     \<and> ms = map canonical_bucket (filter (maps_market m c) (filter bp_is_active ps))"
proof (induction ps arbitrary: ms)
  case (Cons p ps)
  then show ?case
    by (auto simp: and_then_Inr_iff canonicalize_iff maps_market_def canonical_bucket_def)
qed auto

lemma resolve_bucket_iff:
  "resolve_market_bucket_policy_links T m c ps = Inr l \<longleftrightarrow>
     \<not> blank m \<and> \<not> blank c \<and> list_all (bucket_profile_wf T) (filter bp_is_active ps)
     \<and> (\<exists>p. filter (maps_market m c) (filter bp_is_active ps) = [p] \<and> l = bucket_links p)"
proof -
  let ?hits = "filter (maps_market m c) (filter bp_is_active ps)"
  have "resolve_market_bucket_policy_links T m c ps = Inr l \<longleftrightarrow>
     \<not> blank m \<and> \<not> blank c \<and> list_all (bucket_profile_wf T) (filter bp_is_active ps)
     \<and> (\<exists>p. map canonical_bucket ?hits = [canonical_bucket p] \<and> ?hits = [p] \<and> l = bucket_links p)"
    by (auto simp: resolve_market_bucket_policy_links_def Let_def and_then_Inr_iff bucket_matches_iff
        normalize_market_bucket_identifier_def bucket_links_def canonical_bucket_def
        split: list.splits)
  then show ?thesis by auto
qed

section \<open>Properties\<close>

lemma decision_consistent:
  "ed_outcome (evaluate_market_eligibility T s p c k t) = MarketEligibilityOutcome.Tradable \<longleftrightarrow>
     ed_tradable (evaluate_market_eligibility T s p c k t)"
  "ed_reason_code (evaluate_market_eligibility T s p c k t) =
       MarketPolicyReasonCode_code MarketPolicyReasonCode.MarketEligible \<longleftrightarrow>
     ed_tradable (evaluate_market_eligibility T s p c k t)"
  by (auto simp: evaluate_market_eligibility_def Let_def MarketEligibilityDecision_tradable_def
      MarketEligibilityDecision_blocked_def split: option.splits)

text \<open>
  C34: A market is tradable exactly when snapshot, policy and cluster override are all present
  and valid, name one cluster, are active and enabled, and the snapshot's liquidity, spread,
  reward and projected exposure are within the policy's bounds (the bounds themselves
  included); in every other case the decision is a block with a reason other than
  \<open>market_policy_market_eligible\<close>.
\<close>

theorem eligibility_contract:
  "(let d = evaluate_market_eligibility T snapshot policy override k t in
     (ed_tradable d \<longleftrightarrow> utc_ok T t \<and>
       (\<exists>s p c. snapshot = Some s \<and> policy = Some p \<and> override = Some c
         \<and> market_snapshot_wf T s \<and> market_policy_wf T p \<and> cluster_override_wf T c
         \<and> policy_admits s p c))
   \<and> (ed_outcome d = MarketEligibilityOutcome.Tradable \<longleftrightarrow> ed_tradable d)
   \<and> (ed_reason_code d = MarketPolicyReasonCode_code MarketPolicyReasonCode.MarketEligible \<longleftrightarrow>
        ed_tradable d))"
  unfolding Let_def decision_consistent
  by (cases snapshot; cases policy; cases override) (simp_all add: eligibility_missing eligibility_iff)

text \<open>
  Bucket resolution returns a mapping exactly when market and cluster are given, every
  active profile is valid (one that is not ends the search with its error, wherever it stands
  in the list), and just one active profile maps the market and cluster up to case and
  surrounding white space; what it returns are the normalised keys of that profile.
\<close>

theorem resolve_market_bucket_contract:
  "resolve_market_bucket_policy_links T m c ps = Inr l \<longleftrightarrow>
     \<not> blank m \<and> \<not> blank c \<and> list_all (bucket_profile_wf T) (filter bp_is_active ps)
     \<and> (\<exists>p. filter (maps_market m c) (filter bp_is_active ps) = [p] \<and> l = bucket_links p)"
  by (rule resolve_bucket_iff)

end
