(* ===== verification/RewardRisk.thy ===== *)
theory RewardRisk
  imports MarketPolicy
begin

text \<open>
  The reward-per-risk score of \<open>crates/domain/src/risk.rs\<close>: its inputs, the policy that
  carries its threshold, the validators and the score, computed in binary64 as in the code.
\<close>

section \<open>Constants\<close>

text \<open>1.2 and 0.000001 are not binary64 values; the literals are their roundings.\<close>

definition REWARD_RISK_DEFAULT_THRESHOLD :: f64 where
  "REWARD_RISK_DEFAULT_THRESHOLD = round_f64 (12 / 10)"

definition REWARD_RISK_MIN_VOLATILITY_BPS :: f64 where
  "REWARD_RISK_MIN_VOLATILITY_BPS = round_f64 (1 / 1000000)"

lemma reward_risk_literals:
  "REWARD_RISK_DEFAULT_THRESHOLD = Fin (5404319552844595 / 2 ^ 52)"
  "REWARD_RISK_MIN_VOLATILITY_BPS = Fin (4722366482869645 / 2 ^ 72)"
  using round_f64_literal[where m = 0 and n = 5404319552844595 and q = "12 / 10"]
    round_f64_literal[where m = 20 and n = 4722366482869645 and q = "1 / 1000000"]
  by (simp_all add: REWARD_RISK_DEFAULT_THRESHOLD_def REWARD_RISK_MIN_VOLATILITY_BPS_def)

section \<open>Codes, errors and data\<close>

datatype RewardRiskReasonCode =
    ScoreEligible
  | ScoreBelowThreshold
  | PolicyStateUnavailable
  | ScoreStateUnavailable
  | InvalidPayload
  | InvalidPolicyKey
  | InvalidThreshold
  | PolicyUpdated
  | PolicyRead
  | DefaultThresholdApplied
  | PersistenceUnavailable

fun RewardRiskReasonCode_code :: "RewardRiskReasonCode \<Rightarrow> string" where
  "RewardRiskReasonCode_code RewardRiskReasonCode.ScoreEligible = ''reward_risk_score_eligible''"
| "RewardRiskReasonCode_code RewardRiskReasonCode.ScoreBelowThreshold = ''reward_risk_score_below_threshold''"
| "RewardRiskReasonCode_code RewardRiskReasonCode.PolicyStateUnavailable = ''reward_risk_policy_state_unavailable''"
| "RewardRiskReasonCode_code RewardRiskReasonCode.ScoreStateUnavailable = ''reward_risk_score_state_unavailable''"
| "RewardRiskReasonCode_code RewardRiskReasonCode.InvalidPayload = ''reward_risk_invalid_payload''"
| "RewardRiskReasonCode_code RewardRiskReasonCode.InvalidPolicyKey = ''reward_risk_invalid_policy_key''"
| "RewardRiskReasonCode_code RewardRiskReasonCode.InvalidThreshold = ''reward_risk_invalid_threshold''"
| "RewardRiskReasonCode_code RewardRiskReasonCode.PolicyUpdated = ''reward_risk_policy_updated''"
| "RewardRiskReasonCode_code RewardRiskReasonCode.PolicyRead = ''reward_risk_policy_read''"
| "RewardRiskReasonCode_code RewardRiskReasonCode.DefaultThresholdApplied = ''reward_risk_default_threshold_applied''"
| "RewardRiskReasonCode_code RewardRiskReasonCode.PersistenceUnavailable = ''reward_risk_persistence_unavailable''"

type_synonym RewardRiskValidationIssue = issue
type_synonym RewardRiskContractError = contract_error

definition RewardRiskContractError_invalid_payload :: "string \<Rightarrow> RewardRiskContractError" where
  "RewardRiskContractError_invalid_payload message =
     contract_error_of (RewardRiskReasonCode_code RewardRiskReasonCode.InvalidPayload) message []"

definition RewardRiskContractError_invalid_payload_with_issues :: "string \<Rightarrow> RewardRiskValidationIssue list \<Rightarrow> RewardRiskContractError" where
  "RewardRiskContractError_invalid_payload_with_issues message field_errors =
     contract_error_of (RewardRiskReasonCode_code RewardRiskReasonCode.InvalidPayload) message field_errors"

definition RewardRiskContractError_state_unavailable :: "string \<Rightarrow> RewardRiskContractError" where
  "RewardRiskContractError_state_unavailable message =
     contract_error_of (RewardRiskReasonCode_code RewardRiskReasonCode.ScoreStateUnavailable) message []"

definition RewardRiskReasonCode_parse :: "string \<Rightarrow> RewardRiskContractError + RewardRiskReasonCode" where
  "RewardRiskReasonCode_parse = parse_arms
     [(''reward_risk_score_eligible'', RewardRiskReasonCode.ScoreEligible),
      (''reward_risk_score_below_threshold'', RewardRiskReasonCode.ScoreBelowThreshold),
      (''reward_risk_policy_state_unavailable'', RewardRiskReasonCode.PolicyStateUnavailable),
      (''reward_risk_score_state_unavailable'', RewardRiskReasonCode.ScoreStateUnavailable),
      (''reward_risk_invalid_payload'', RewardRiskReasonCode.InvalidPayload),
      (''reward_risk_invalid_policy_key'', RewardRiskReasonCode.InvalidPolicyKey),
      (''reward_risk_invalid_threshold'', RewardRiskReasonCode.InvalidThreshold),
      (''reward_risk_policy_updated'', RewardRiskReasonCode.PolicyUpdated),
      (''reward_risk_policy_read'', RewardRiskReasonCode.PolicyRead),
      (''reward_risk_default_threshold_applied'', RewardRiskReasonCode.DefaultThresholdApplied),
      (''reward_risk_persistence_unavailable'', RewardRiskReasonCode.PersistenceUnavailable)]
     (\<lambda>value. RewardRiskContractError_invalid_payload (''unknown reward-risk reason code `'' @ value @ ''`''))"

interpretation reward_risk_reason: enum_codec "\<lambda>v. v" RewardRiskReasonCode_code RewardRiskReasonCode_parse
  by (unfold RewardRiskReasonCode_parse_def, rule enum_codec_arms, case_tac x) simp_all

record RewardRiskScoreInput =
  rs_expected_reward_bps :: f64
  rs_maker_rebate_bps :: f64
  rs_expected_cost_bps :: f64
  rs_expected_volatility_bps :: f64

record RewardRiskPolicy =
  rr_policy_key :: string
  rr_strategy_key :: string
  rr_min_reward_per_risk :: f64
  rr_actor_id :: string
  rr_correlation_id :: string
  rr_updated_at_utc :: string

section \<open>Validators\<close>

definition validate_reward_risk_non_empty_field ::
    "string \<Rightarrow> string \<Rightarrow> issue list" where
  "validate_reward_risk_non_empty_field field value =
     push_if (blank value) field
        (RewardRiskReasonCode_code RewardRiskReasonCode.InvalidPayload)
        (field @ '' cannot be blank'')"

definition validate_reward_risk_finite_field ::
    "string \<Rightarrow> f64 \<Rightarrow> issue list" where
  "validate_reward_risk_finite_field field value =
     push_if (\<not> f_is_finite value) field
        (RewardRiskReasonCode_code RewardRiskReasonCode.InvalidThreshold)
        (field @ '' must be finite'')"

definition validate_reward_risk_threshold_field ::
    "string \<Rightarrow> f64 \<Rightarrow> issue list" where
  "validate_reward_risk_threshold_field field value =
     (if \<not> f_is_finite value then push_if True field
        (RewardRiskReasonCode_code RewardRiskReasonCode.InvalidThreshold)
        (field @ '' must be finite'')
      else push_if (f_lt value (Fin 0)) field
        (RewardRiskReasonCode_code RewardRiskReasonCode.InvalidThreshold)
        (field @ '' must be greater than or equal to 0''))"

definition validate_reward_risk_volatility_field ::
    "string \<Rightarrow> f64 \<Rightarrow> issue list" where
  "validate_reward_risk_volatility_field field value =
     (if \<not> f_is_finite value then push_if True field
        (RewardRiskReasonCode_code RewardRiskReasonCode.InvalidThreshold)
        (field @ '' must be finite'')
      else push_if (f_le value REWARD_RISK_MIN_VOLATILITY_BPS) field
        (RewardRiskReasonCode_code RewardRiskReasonCode.InvalidThreshold)
        (field @ '' must be greater than '' @ ''0.000001'' @ '' to avoid unstable score division''))"

definition validate_reward_risk_timestamp_field ::
    "time_crate \<Rightarrow> string \<Rightarrow> string \<Rightarrow> issue list" where
  "validate_reward_risk_timestamp_field T field value =
     push_if (\<not> utc_ok T value) field
        (RewardRiskReasonCode_code RewardRiskReasonCode.InvalidPayload)
        (field @ '' must be an RFC3339 UTC timestamp'')"

definition validate_reward_risk_policy ::
    "time_crate \<Rightarrow> RewardRiskPolicy \<Rightarrow> RewardRiskContractError + unit" where
  "validate_reward_risk_policy T policy = reject_if
     (validate_reward_risk_non_empty_field ''policy_key'' (rr_policy_key policy)
    @ validate_reward_risk_non_empty_field ''strategy_key'' (rr_strategy_key policy)
    @ validate_reward_risk_non_empty_field ''actor_id'' (rr_actor_id policy)
    @ validate_reward_risk_non_empty_field ''correlation_id'' (rr_correlation_id policy)
    @ validate_reward_risk_threshold_field ''min_reward_per_risk'' (rr_min_reward_per_risk policy)
    @ validate_reward_risk_timestamp_field T ''updated_at_utc'' (rr_updated_at_utc policy))
     (RewardRiskContractError_invalid_payload_with_issues ''reward-risk policy payload is invalid'')"

definition validate_reward_risk_score_input ::
    "RewardRiskScoreInput \<Rightarrow> RewardRiskContractError + unit" where
  "validate_reward_risk_score_input input = reject_if
     (validate_reward_risk_finite_field ''expected_reward_bps'' (rs_expected_reward_bps input)
    @ validate_reward_risk_finite_field ''maker_rebate_bps'' (rs_maker_rebate_bps input)
    @ validate_reward_risk_finite_field ''expected_cost_bps'' (rs_expected_cost_bps input)
    @ validate_reward_risk_volatility_field ''expected_volatility_bps'' (rs_expected_volatility_bps input))
     (RewardRiskContractError_invalid_payload_with_issues ''reward-risk score inputs are invalid'')"

definition normalize_reward_risk_identifier :: "string \<Rightarrow> string" where
  "normalize_reward_risk_identifier raw = normalize raw"

section \<open>The score\<close>

definition compute_reward_per_risk_score :: "RewardRiskScoreInput \<Rightarrow> RewardRiskContractError + f64" where
  "compute_reward_per_risk_score input =
     and_then (validate_reward_risk_score_input input) (\<lambda>_.
     let score = f_div
           (f_sub (f_add (rs_expected_reward_bps input) (rs_maker_rebate_bps input))
                  (rs_expected_cost_bps input))
           (rs_expected_volatility_bps input)
     in if \<not> f_is_finite score
        then Inl (RewardRiskContractError_invalid_payload ''computed reward-risk score must be finite'')
        else Inr score)"

definition reward_risk_threshold_for_policy :: "RewardRiskPolicy option \<Rightarrow> f64" where
  "reward_risk_threshold_for_policy policy =
     (case policy of Some v \<Rightarrow> rr_min_reward_per_risk v | None \<Rightarrow> REWARD_RISK_DEFAULT_THRESHOLD)"

text \<open>\<open>Option::ok_or_else\<close>\<close>

fun ok_or :: "'e \<Rightarrow> 'a option \<Rightarrow> 'e + 'a" where
  "ok_or e None = Inl e"
| "ok_or e (Some a) = Inr a"

definition reward_risk_score_input_from_snapshot ::
    "MarketSnapshot \<Rightarrow> RewardRiskContractError + RewardRiskScoreInput" where
  "reward_risk_score_input_from_snapshot snapshot =
     (let missing = (\<lambda>input. RewardRiskContractError_state_unavailable
            (''market snapshot is missing `'' @ input @ ''` input''))
      in and_then (ok_or (missing ''expected_reward_bps'') (ms_expected_reward_bps snapshot)) (\<lambda>reward.
         and_then (ok_or (missing ''maker_rebate_bps'') (ms_maker_rebate_bps snapshot)) (\<lambda>rebate.
         and_then (ok_or (missing ''expected_cost_bps'') (ms_expected_cost_bps snapshot)) (\<lambda>cost.
         and_then (ok_or (missing ''expected_volatility_bps'') (ms_expected_volatility_bps snapshot))
           (\<lambda>volatility.
         let input = \<lparr>rs_expected_reward_bps = reward, rs_maker_rebate_bps = rebate,
                       rs_expected_cost_bps = cost, rs_expected_volatility_bps = volatility\<rparr>
         in and_then (validate_reward_risk_score_input input) (\<lambda>_. Inr input))))))"

section \<open>What the validators accept\<close>

lemma reward_risk_field_specs [issue_specs]:
  "validate_reward_risk_non_empty_field f v = [] \<longleftrightarrow> \<not> blank v"
  "validate_reward_risk_finite_field f x = [] \<longleftrightarrow> f_is_finite x"
  "validate_reward_risk_threshold_field f x = [] \<longleftrightarrow> f_is_finite x \<and> f_nonneg x"
  "validate_reward_risk_volatility_field f x = [] \<longleftrightarrow>
     f_is_finite x \<and> f_lt REWARD_RISK_MIN_VOLATILITY_BPS x"
  "validate_reward_risk_timestamp_field T f v = [] \<longleftrightarrow> utc_ok T v"
proof -
  have "f_is_finite REWARD_RISK_MIN_VOLATILITY_BPS" by (simp add: reward_risk_literals)
  then show "validate_reward_risk_volatility_field f x = [] \<longleftrightarrow>
     f_is_finite x \<and> f_lt REWARD_RISK_MIN_VOLATILITY_BPS x"
    by (auto simp: validate_reward_risk_volatility_field_def f_lt_finite)
qed (cases x; auto simp: validate_reward_risk_non_empty_field_def validate_reward_risk_finite_field_def
      validate_reward_risk_threshold_field_def validate_reward_risk_timestamp_field_def)+

definition reward_risk_policy_wf :: "time_crate \<Rightarrow> RewardRiskPolicy \<Rightarrow> bool" where
  "reward_risk_policy_wf T p \<longleftrightarrow>
     \<not> blank (rr_policy_key p) \<and> \<not> blank (rr_strategy_key p) \<and> \<not> blank (rr_actor_id p)
   \<and> \<not> blank (rr_correlation_id p) \<and> f_is_finite (rr_min_reward_per_risk p)
   \<and> f_nonneg (rr_min_reward_per_risk p) \<and> utc_ok T (rr_updated_at_utc p)"

definition score_input_wf :: "RewardRiskScoreInput \<Rightarrow> bool" where
  "score_input_wf i \<longleftrightarrow>
     f_is_finite (rs_expected_reward_bps i) \<and> f_is_finite (rs_maker_rebate_bps i)
   \<and> f_is_finite (rs_expected_cost_bps i) \<and> f_is_finite (rs_expected_volatility_bps i)
   \<and> f_lt REWARD_RISK_MIN_VOLATILITY_BPS (rs_expected_volatility_bps i)"

lemma reward_risk_validators_ok [simp]:
  "isl (validate_reward_risk_policy T p) \<longleftrightarrow> \<not> reward_risk_policy_wf T p"
  "isl (validate_reward_risk_score_input i) \<longleftrightarrow> \<not> score_input_wf i"
  by (auto simp: validate_reward_risk_policy_def reward_risk_policy_wf_def
      validate_reward_risk_score_input_def score_input_wf_def issue_specs)

section \<open>The score is monotone\<close>

lemma score_wf_cases:
  assumes "score_input_wf i"
  obtains r m c v where "rs_expected_reward_bps i = Fin r" "rs_maker_rebate_bps i = Fin m"
    "rs_expected_cost_bps i = Fin c" "rs_expected_volatility_bps i = Fin v" "0 < v"
proof -
  have "f_lt (Fin 0) REWARD_RISK_MIN_VOLATILITY_BPS" by (simp add: reward_risk_literals)
  then have "f_lt (Fin 0) (rs_expected_volatility_bps i)"
    using assms by (auto simp: score_input_wf_def intro: f_lt_le_trans f_lt_imp_le)
  then show ?thesis
    using that assms by (auto simp: score_input_wf_def f_is_finite_iff)
qed

definition raw_score :: "RewardRiskScoreInput \<Rightarrow> f64" where
  "raw_score i = f_div
     (f_sub (f_add (rs_expected_reward_bps i) (rs_maker_rebate_bps i)) (rs_expected_cost_bps i))
     (rs_expected_volatility_bps i)"

lemma compute_score_iff:
  "compute_reward_per_risk_score i = Inr x \<longleftrightarrow>
     score_input_wf i \<and> f_is_finite (raw_score i) \<and> x = raw_score i"
  by (cases "validate_reward_risk_score_input i")
    (auto simp: compute_reward_per_risk_score_def raw_score_def Let_def
      dest: arg_cong[where f = isl])

lemma raw_score_mono:
  assumes "score_input_wf i" "score_input_wf j"
    and "f_le (rs_expected_reward_bps i) (rs_expected_reward_bps j)"
    and "rs_maker_rebate_bps i = rs_maker_rebate_bps j"
    and "f_le (rs_expected_cost_bps j) (rs_expected_cost_bps i)"
    and "rs_expected_volatility_bps i = rs_expected_volatility_bps j"
  shows "f_le (raw_score i) (raw_score j)"
proof -
  obtain r m c v where i: "rs_expected_reward_bps i = Fin r" "rs_maker_rebate_bps i = Fin m"
      "rs_expected_cost_bps i = Fin c" "rs_expected_volatility_bps i = Fin v" and v: "0 < v"
    using score_wf_cases[OF assms(1)] by metis
  obtain r' c' where j: "rs_expected_reward_bps j = Fin r'" "rs_expected_cost_bps j = Fin c'"
    using score_wf_cases[OF assms(2)] by metis
  have jm: "rs_maker_rebate_bps j = Fin m" "rs_expected_volatility_bps j = Fin v"
    using assms(4,6) i by simp_all
  have "f_le (f_add (Fin r) (Fin m)) (f_add (Fin r') (Fin m))"
    by (rule f_add_mono) (use assms i j in simp)
  then have a: "f_le (f_sub (f_add (Fin r) (Fin m)) (Fin c)) (f_sub (f_add (Fin r') (Fin m)) (Fin c))"
    by (rule f_sub_mono)
  have b: "f_le (f_sub (f_add (Fin r') (Fin m)) (Fin c)) (f_sub (f_add (Fin r') (Fin m)) (Fin c'))"
    using f_sub_antimono[of c' c "f_add (Fin r') (Fin m)"] assms(5) i j by simp
  show ?thesis
    using f_div_mono[OF f_le_trans[OF a b] v] unfolding raw_score_def i j jm .
qed

section \<open>Properties\<close>

text \<open>
  C38: The score is monotone in the market's favour: with the same rebate and volatility, a
  higher expected reward and a lower expected cost never give a lower score, in binary64
  arithmetic with its rounding (a score that overflows is an error, not a value).
\<close>

theorem reward_risk_score_monotone:
  assumes "compute_reward_per_risk_score i = Inr x" and "compute_reward_per_risk_score j = Inr y"
    and "f_le (rs_expected_reward_bps i) (rs_expected_reward_bps j)"
    and "rs_maker_rebate_bps i = rs_maker_rebate_bps j"
    and "f_le (rs_expected_cost_bps j) (rs_expected_cost_bps i)"
    and "rs_expected_volatility_bps i = rs_expected_volatility_bps j"
  shows "f_le x y"
  using assms raw_score_mono by (auto simp: compute_score_iff)

definition demo_score_input :: "rat \<Rightarrow> rat \<Rightarrow> RewardRiskScoreInput" where
  "demo_score_input reward cost =
     \<lparr>rs_expected_reward_bps = Fin reward, rs_maker_rebate_bps = Fin 5,
      rs_expected_cost_bps = Fin cost, rs_expected_volatility_bps = Fin 4\<rparr>"

theorem reward_risk_score_monotone_witness:
  "compute_reward_per_risk_score (demo_score_input 11 4) = Inr (Fin 3)
   \<and> compute_reward_per_risk_score (demo_score_input 13 2) = Inr (Fin 4) \<and> f_le (Fin 3) (Fin 4)"
proof -
  have a: "compute_reward_per_risk_score (demo_score_input 11 4) = Inr (Fin 3)"
    and b: "compute_reward_per_risk_score (demo_score_input 13 2) = Inr (Fin 4)"
    by (simp_all add: compute_score_iff score_input_wf_def raw_score_def f_sub_def demo_score_input_def
        reward_risk_literals)
  moreover have "f_le (Fin 3) (Fin 4)"
    by (rule reward_risk_score_monotone[OF a b]) (simp_all add: demo_score_input_def)
  ultimately show ?thesis by blast
qed

end
