(* ===== verification/RegimeShift.thy ===== *)
theory RegimeShift
  imports MarketPolicy
begin

text \<open>
  The regime-shift detector (FR40) of \<open>crates/domain/src/risk.rs\<close>: two consecutive
  snapshots of one market are compared against the rebate, spread and eligibility thresholds.
\<close>

section \<open>Codes, errors and data\<close>

definition FR40_REBATE_DELTA_THRESHOLD_BPS :: f64 where [simp]: "FR40_REBATE_DELTA_THRESHOLD_BPS = Fin 20"
definition FR40_SPREAD_WIDENING_THRESHOLD_BPS :: f64 where [simp]: "FR40_SPREAD_WIDENING_THRESHOLD_BPS = Fin 50"

datatype RegimeShiftReasonCode =
    RebateDeltaExceeded
  | SpreadWideningExceeded
  | EligibilityTransition
  | InvalidPayload
  | DependencyUnavailable
  | PersistenceUnavailable
  | EvidencePersisted
  | EvidenceRead

fun RegimeShiftReasonCode_code :: "RegimeShiftReasonCode \<Rightarrow> string" where
  "RegimeShiftReasonCode_code RegimeShiftReasonCode.RebateDeltaExceeded = ''fr40_regime_rebate_delta_exceeded''"
| "RegimeShiftReasonCode_code RegimeShiftReasonCode.SpreadWideningExceeded = ''fr40_regime_spread_widening_exceeded''"
| "RegimeShiftReasonCode_code RegimeShiftReasonCode.EligibilityTransition = ''fr40_regime_eligibility_transition''"
| "RegimeShiftReasonCode_code RegimeShiftReasonCode.InvalidPayload = ''fr40_regime_invalid_payload''"
| "RegimeShiftReasonCode_code RegimeShiftReasonCode.DependencyUnavailable = ''fr40_regime_dependency_unavailable''"
| "RegimeShiftReasonCode_code RegimeShiftReasonCode.PersistenceUnavailable = ''fr40_regime_persistence_unavailable''"
| "RegimeShiftReasonCode_code RegimeShiftReasonCode.EvidencePersisted = ''fr40_regime_evidence_persisted''"
| "RegimeShiftReasonCode_code RegimeShiftReasonCode.EvidenceRead = ''fr40_regime_evidence_read''"

type_synonym RegimeShiftValidationIssue = issue
type_synonym RegimeShiftContractError = contract_error

definition RegimeShiftContractError_invalid_payload :: "string \<Rightarrow> RegimeShiftContractError" where
  "RegimeShiftContractError_invalid_payload message =
     contract_error_of (RegimeShiftReasonCode_code RegimeShiftReasonCode.InvalidPayload) message []"

definition RegimeShiftContractError_invalid_payload_with_issues :: "string \<Rightarrow> RegimeShiftValidationIssue list \<Rightarrow> RegimeShiftContractError" where
  "RegimeShiftContractError_invalid_payload_with_issues message field_errors =
     contract_error_of (RegimeShiftReasonCode_code RegimeShiftReasonCode.InvalidPayload) message field_errors"

definition RegimeShiftContractError_dependency_unavailable_with_issues :: "string \<Rightarrow> RegimeShiftValidationIssue list \<Rightarrow> RegimeShiftContractError" where
  "RegimeShiftContractError_dependency_unavailable_with_issues message field_errors =
     contract_error_of (RegimeShiftReasonCode_code RegimeShiftReasonCode.DependencyUnavailable) message field_errors"

definition RegimeShiftReasonCode_parse :: "string \<Rightarrow> RegimeShiftContractError + RegimeShiftReasonCode" where
  "RegimeShiftReasonCode_parse = parse_arms
     [(''fr40_regime_rebate_delta_exceeded'', RegimeShiftReasonCode.RebateDeltaExceeded),
      (''fr40_regime_spread_widening_exceeded'', RegimeShiftReasonCode.SpreadWideningExceeded),
      (''fr40_regime_eligibility_transition'', RegimeShiftReasonCode.EligibilityTransition),
      (''fr40_regime_invalid_payload'', RegimeShiftReasonCode.InvalidPayload),
      (''fr40_regime_dependency_unavailable'', RegimeShiftReasonCode.DependencyUnavailable),
      (''fr40_regime_persistence_unavailable'', RegimeShiftReasonCode.PersistenceUnavailable),
      (''fr40_regime_evidence_persisted'', RegimeShiftReasonCode.EvidencePersisted),
      (''fr40_regime_evidence_read'', RegimeShiftReasonCode.EvidenceRead)]
     (\<lambda>value. RegimeShiftContractError_invalid_payload (''unknown FR40 regime-shift reason code `'' @ value @ ''`''))"

interpretation regime_shift_reason: enum_codec "\<lambda>v. v" RegimeShiftReasonCode_code RegimeShiftReasonCode_parse
  by (unfold RegimeShiftReasonCode_parse_def, rule enum_codec_arms, case_tac x) simp_all

definition VenueEligibilityState_parse :: "string \<Rightarrow> RegimeShiftContractError + VenueEligibilityState" where
  "VenueEligibilityState_parse value = parse_arms
     [(''eligible'', VenueEligibilityState.Eligible),
      (''restricted'', VenueEligibilityState.Restricted),
      (''ineligible'', VenueEligibilityState.Ineligible)]
     (\<lambda>_. RegimeShiftContractError_invalid_payload_with_issues
        (''unsupported eligibility_state `'' @ value @ ''`'')
        [\<lparr>is_field = ''eligibility_state'',
          is_code = RegimeShiftReasonCode_code RegimeShiftReasonCode.InvalidPayload,
          is_message = ''eligibility_state must be one of: eligible, restricted, ineligible''\<rparr>])
     (normalize value)"

lemma normalize_venue_state [simp]:
  "normalize (VenueEligibilityState_as_str x) = VenueEligibilityState_as_str x"
  by (cases x) (simp_all add: normalize_id ws_defs)

interpretation venue_eligibility: enum_codec normalize VenueEligibilityState_as_str VenueEligibilityState_parse
  by (unfold VenueEligibilityState_parse_def [abs_def], rule enum_codec_arms_canon, case_tac x) simp_all

record RegimeShiftThresholds =
  rt_rebate_delta_bps :: f64
  rt_spread_widening_bps :: f64

record RegimeShiftDetection =
  rd_market_id :: string
  rd_cluster_id :: string
  rd_reason_code :: string
  rd_severity :: string
  rd_correlation_id :: string
  rd_observed_at_utc :: string
  rd_previous_maker_rebate_bps :: "f64 option"
  rd_current_maker_rebate_bps :: "f64 option"
  rd_rebate_delta_bps :: "f64 option"
  rd_previous_spread_bps :: "f64 option"
  rd_current_spread_bps :: "f64 option"
  rd_spread_widening_bps :: "f64 option"
  rd_previous_eligibility_state :: "VenueEligibilityState option"
  rd_current_eligibility_state :: "VenueEligibilityState option"
  rd_threshold_rebate_delta_bps :: f64
  rd_threshold_spread_widening_bps :: f64

definition RegimeShiftThresholds_default :: RegimeShiftThresholds where
  "RegimeShiftThresholds_default =
     \<lparr>rt_rebate_delta_bps = FR40_REBATE_DELTA_THRESHOLD_BPS,
      rt_spread_widening_bps = FR40_SPREAD_WIDENING_THRESHOLD_BPS\<rparr>"

section \<open>Validators\<close>

definition is_canonical_identifier :: "string \<Rightarrow> bool" where
  "is_canonical_identifier value =
     (let n = length value
      in if \<not> (3 \<le> n \<and> n \<le> 120) then False
         else list_all (\<lambda>character. is_ascii_alphanumeric character \<or> character = CHR ''-''
                \<or> character = CHR ''_'' \<or> character = CHR '':'' \<or> character = CHR ''.'') value)"

definition validate_regime_shift_threshold_field ::
    "string \<Rightarrow> f64 \<Rightarrow> issue list" where
  "validate_regime_shift_threshold_field field value =
     (if \<not> f_is_finite value then push_if True field
        (RegimeShiftReasonCode_code RegimeShiftReasonCode.InvalidPayload)
        (field @ '' must be finite'')
      else push_if (f_lt value (Fin 0)) field
        (RegimeShiftReasonCode_code RegimeShiftReasonCode.InvalidPayload)
        (field @ '' must be greater than or equal to 0''))"

definition validate_regime_shift_thresholds ::
    "RegimeShiftThresholds \<Rightarrow> RegimeShiftContractError + unit" where
  "validate_regime_shift_thresholds thresholds = reject_if
     (validate_regime_shift_threshold_field ''thresholds.rebate_delta_bps'' (rt_rebate_delta_bps thresholds)
    @ validate_regime_shift_threshold_field ''thresholds.spread_widening_bps'' (rt_spread_widening_bps thresholds))
     (RegimeShiftContractError_invalid_payload_with_issues ''FR40 thresholds are invalid'')"

definition validate_regime_shift_identifier_field ::
    "string \<Rightarrow> string \<Rightarrow> issue list" where
  "validate_regime_shift_identifier_field field value =
     (if normalize value = [] then push_if True field
        (RegimeShiftReasonCode_code RegimeShiftReasonCode.InvalidPayload)
        (field @ '' cannot be blank'')
      else push_if (\<not> is_canonical_identifier (normalize value)) field
        (RegimeShiftReasonCode_code RegimeShiftReasonCode.InvalidPayload)
        (field @ '' must contain 3-120 canonical characters''))"

definition validate_regime_shift_identifiers ::
    "MarketSnapshot \<Rightarrow> MarketSnapshot \<Rightarrow> string \<Rightarrow> RegimeShiftContractError + unit" where
  "validate_regime_shift_identifiers previous current correlation_id = reject_if
     (validate_regime_shift_identifier_field ''previous.market_id'' (ms_market_id previous)
    @ validate_regime_shift_identifier_field ''current.market_id'' (ms_market_id current)
    @ validate_regime_shift_identifier_field ''previous.cluster_id'' (ms_cluster_id previous)
    @ validate_regime_shift_identifier_field ''current.cluster_id'' (ms_cluster_id current)
    @ validate_regime_shift_identifier_field ''correlation_id'' correlation_id
    @ push_if (\<not> eq_ignore_ascii_case (trim (ms_market_id previous)) (trim (ms_market_id current))) ''market_id''
        (RegimeShiftReasonCode_code RegimeShiftReasonCode.InvalidPayload)
        ''previous and current snapshots must reference the same market_id''
    @ push_if (\<not> eq_ignore_ascii_case (trim (ms_cluster_id previous)) (trim (ms_cluster_id current))) ''cluster_id''
        (RegimeShiftReasonCode_code RegimeShiftReasonCode.InvalidPayload)
        ''previous and current snapshots must reference the same cluster_id'')
     (RegimeShiftContractError_invalid_payload_with_issues ''FR40 regime-shift identifier validation failed'')"


definition validate_regime_shift_observed_timestamp ::
    "time_crate \<Rightarrow> string \<Rightarrow> string \<Rightarrow> RegimeShiftContractError + int" where
  "validate_regime_shift_observed_timestamp T field value = (case parse_utc_timestamp T value of
      Some t \<Rightarrow> Inr t
    | None \<Rightarrow> Inl (RegimeShiftContractError_invalid_payload_with_issues
        (field @ '' must be an RFC3339 UTC timestamp'')
        [\<lparr>is_field = field, is_code = RegimeShiftReasonCode_code RegimeShiftReasonCode.InvalidPayload,
          is_message = field @ '' must be an RFC3339 UTC timestamp''\<rparr>]))"

text \<open>The two \<open>require\<close> helpers return the issues they push and the value they let through.\<close>

fun require_regime_shift_f64_option ::
    "string \<Rightarrow> f64 option \<Rightarrow> RegimeShiftValidationIssue list \<times> f64 option" where
  "require_regime_shift_f64_option field (Some value) =
     (if f_is_finite value then ([], Some value)
      else (push_if True field (RegimeShiftReasonCode_code RegimeShiftReasonCode.DependencyUnavailable)
             (field @ '' must be finite''), None))"
| "require_regime_shift_f64_option field None =
     (push_if True field (RegimeShiftReasonCode_code RegimeShiftReasonCode.DependencyUnavailable)
        (field @ '' is required for FR40 evaluation''), None)"

fun require_regime_shift_eligibility_state ::
    "string \<Rightarrow> VenueEligibilityState option
      \<Rightarrow> RegimeShiftValidationIssue list \<times> VenueEligibilityState option" where
  "require_regime_shift_eligibility_state field (Some value) = ([], Some value)"
| "require_regime_shift_eligibility_state field None =
     (push_if True field (RegimeShiftReasonCode_code RegimeShiftReasonCode.DependencyUnavailable)
        (field @ '' is required for FR40 eligibility-transition evaluation''), None)"

section \<open>Detection\<close>

text \<open>
  The detections of two snapshots whose dependencies are there: the second half of
  \<open>evaluate_fr40_regime_shift\<close>. They differ in their reason code only.
\<close>

definition fr40_detections ::
    "RegimeShiftThresholds \<Rightarrow> MarketSnapshot \<Rightarrow> MarketSnapshot \<Rightarrow> string \<Rightarrow> f64 \<Rightarrow> f64
      \<Rightarrow> VenueEligibilityState \<Rightarrow> VenueEligibilityState \<Rightarrow> RegimeShiftDetection list" where
  "fr40_detections thresholds previous current correlation_id previous_rebate current_rebate
      previous_eligibility current_eligibility =
    (let
       rebate_delta_bps = f_abs (f_sub current_rebate previous_rebate);
       spread_widening_bps = f_max (f_sub (ms_spread_bps current) (ms_spread_bps previous)) (Fin 0);
       detection = (\<lambda>reason.
         \<lparr>rd_market_id = normalize (ms_market_id current),
          rd_cluster_id = normalize (ms_cluster_id current),
          rd_reason_code = RegimeShiftReasonCode_code reason,
          rd_severity = ''critical'',
          rd_correlation_id = normalize correlation_id,
          rd_observed_at_utc = ms_observed_at_utc current,
          rd_previous_maker_rebate_bps = Some previous_rebate,
          rd_current_maker_rebate_bps = Some current_rebate,
          rd_rebate_delta_bps = Some rebate_delta_bps,
          rd_previous_spread_bps = Some (ms_spread_bps previous),
          rd_current_spread_bps = Some (ms_spread_bps current),
          rd_spread_widening_bps = Some spread_widening_bps,
          rd_previous_eligibility_state = Some previous_eligibility,
          rd_current_eligibility_state = Some current_eligibility,
          rd_threshold_rebate_delta_bps = rt_rebate_delta_bps thresholds,
          rd_threshold_spread_widening_bps = rt_spread_widening_bps thresholds\<rparr>)
     in (if f_gt rebate_delta_bps (rt_rebate_delta_bps thresholds)
         then [detection RegimeShiftReasonCode.RebateDeltaExceeded] else [])
      @ (if f_gt spread_widening_bps (rt_spread_widening_bps thresholds)
         then [detection RegimeShiftReasonCode.SpreadWideningExceeded] else [])
      @ (if VenueEligibilityState_is_eligible previous_eligibility
            \<noteq> VenueEligibilityState_is_eligible current_eligibility
         then [detection RegimeShiftReasonCode.EligibilityTransition] else []))"

text \<open>
  A missing dependency has been reported before the values are unwrapped, so \<open>the\<close> is
  \<open>expect\<close> on a value that is there.
\<close>

definition evaluate_fr40_regime_shift ::
    "time_crate \<Rightarrow> MarketSnapshot \<Rightarrow> MarketSnapshot \<Rightarrow> string \<Rightarrow> RegimeShiftThresholds option
      \<Rightarrow> RegimeShiftContractError + RegimeShiftDetection list" where
  "evaluate_fr40_regime_shift T previous current correlation_id thresholds_opt =
    (let thresholds = (case thresholds_opt of Some t \<Rightarrow> t | None \<Rightarrow> RegimeShiftThresholds_default) in
     and_then (validate_regime_shift_thresholds thresholds) (\<lambda>_.
     and_then (validate_regime_shift_identifiers previous current correlation_id) (\<lambda>_.
     and_then (validate_regime_shift_observed_timestamp T ''previous.observed_at_utc''
                 (ms_observed_at_utc previous)) (\<lambda>previous_observed_at.
     and_then (validate_regime_shift_observed_timestamp T ''current.observed_at_utc''
                 (ms_observed_at_utc current)) (\<lambda>current_observed_at.
     if current_observed_at < previous_observed_at then
       Inl (RegimeShiftContractError_invalid_payload_with_issues
         ''current.observed_at_utc must be greater than or equal to previous.observed_at_utc''
         [\<lparr>is_field = ''current.observed_at_utc'',
           is_code = RegimeShiftReasonCode_code RegimeShiftReasonCode.InvalidPayload,
           is_message = ''current.observed_at_utc must be greater than or equal to previous.observed_at_utc''\<rparr>])
     else let
       pr = require_regime_shift_f64_option ''previous.maker_rebate_bps'' (ms_maker_rebate_bps previous);
       cr = require_regime_shift_f64_option ''current.maker_rebate_bps'' (ms_maker_rebate_bps current);
       pe = require_regime_shift_eligibility_state ''previous.venue_eligibility_state''
              (ms_venue_eligibility_state previous);
       ce = require_regime_shift_eligibility_state ''current.venue_eligibility_state''
              (ms_venue_eligibility_state current);
       dependency_issues = fst pr @ fst cr @ fst pe @ fst ce
     in if dependency_issues \<noteq> [] then
       Inl (RegimeShiftContractError_dependency_unavailable_with_issues
         ''required FR40 baseline dependencies are unavailable'' dependency_issues)
     else Inr (fr40_detections thresholds previous current correlation_id
            (the (snd pr)) (the (snd cr)) (the (snd pe)) (the (snd ce))))))))"

section \<open>What the detector accepts\<close>

lemma regime_field_specs [issue_specs]:
  "validate_regime_shift_threshold_field f x = [] \<longleftrightarrow> f_is_finite x \<and> f_nonneg x"
  "validate_regime_shift_identifier_field f v = [] \<longleftrightarrow> is_canonical_identifier (normalize v)"
proof -
  have "is_canonical_identifier (normalize v) \<Longrightarrow> \<not> blank v"
    by (auto simp: is_canonical_identifier_def normalize_def to_ascii_lowercase_def)
  then show "validate_regime_shift_identifier_field f v = [] \<longleftrightarrow> is_canonical_identifier (normalize v)"
    by (auto simp: validate_regime_shift_identifier_field_def)
qed (cases x; auto simp: validate_regime_shift_threshold_field_def)

lemma regime_validators_ok [simp]:
  "isl (validate_regime_shift_thresholds th) \<longleftrightarrow>
     \<not> (f_is_finite (rt_rebate_delta_bps th) \<and> f_nonneg (rt_rebate_delta_bps th)
        \<and> f_is_finite (rt_spread_widening_bps th) \<and> f_nonneg (rt_spread_widening_bps th))"
  "isl (validate_regime_shift_identifiers p c k) \<longleftrightarrow>
     \<not> (is_canonical_identifier (normalize (ms_market_id p)) \<and> is_canonical_identifier (normalize (ms_market_id c))
        \<and> is_canonical_identifier (normalize (ms_cluster_id p)) \<and> is_canonical_identifier (normalize (ms_cluster_id c))
        \<and> is_canonical_identifier (normalize k)
        \<and> normalize (ms_market_id p) = normalize (ms_market_id c)
        \<and> normalize (ms_cluster_id p) = normalize (ms_cluster_id c))"
  by (auto simp: validate_regime_shift_thresholds_def validate_regime_shift_identifiers_def issue_specs
      eq_ignore_case_trim)

definition fr40_thresholds :: "RegimeShiftThresholds option \<Rightarrow> RegimeShiftThresholds" where
  "fr40_thresholds th = (case th of Some t \<Rightarrow> t | None \<Rightarrow> RegimeShiftThresholds_default)"

definition finite_option :: "f64 option \<Rightarrow> bool" where
  "finite_option v = (case v of Some x \<Rightarrow> f_is_finite x | None \<Rightarrow> False)"

definition fr40_inputs_ok ::
    "time_crate \<Rightarrow> MarketSnapshot \<Rightarrow> MarketSnapshot \<Rightarrow> string \<Rightarrow> RegimeShiftThresholds option \<Rightarrow> bool" where
  "fr40_inputs_ok T p c k th \<longleftrightarrow>
     \<not> isl (validate_regime_shift_thresholds (fr40_thresholds th))
   \<and> \<not> isl (validate_regime_shift_identifiers p c k)
   \<and> (case (parse_utc_timestamp T (ms_observed_at_utc p), parse_utc_timestamp T (ms_observed_at_utc c)) of
        (Some tp, Some tc) \<Rightarrow> tp \<le> tc | _ \<Rightarrow> False)
   \<and> finite_option (ms_maker_rebate_bps p) \<and> finite_option (ms_maker_rebate_bps c)
   \<and> ms_venue_eligibility_state p \<noteq> None \<and> ms_venue_eligibility_state c \<noteq> None"

fun fr40_trigger ::
    "RegimeShiftThresholds \<Rightarrow> MarketSnapshot \<Rightarrow> MarketSnapshot \<Rightarrow> RegimeShiftReasonCode \<Rightarrow> bool" where
  "fr40_trigger th p c RegimeShiftReasonCode.RebateDeltaExceeded =
     f_gt (f_abs (f_sub (the (ms_maker_rebate_bps c)) (the (ms_maker_rebate_bps p)))) (rt_rebate_delta_bps th)"
| "fr40_trigger th p c RegimeShiftReasonCode.SpreadWideningExceeded =
     f_gt (f_sub (ms_spread_bps c) (ms_spread_bps p)) (rt_spread_widening_bps th)"
| "fr40_trigger th p c RegimeShiftReasonCode.EligibilityTransition =
     ((ms_venue_eligibility_state p = Some VenueEligibilityState.Eligible)
       \<noteq> (ms_venue_eligibility_state c = Some VenueEligibilityState.Eligible))"
| "fr40_trigger th p c _ = False"

lemma require_f64_iff:
  "fst (require_regime_shift_f64_option f v) = [] \<longleftrightarrow> finite_option v"
  "finite_option v \<Longrightarrow> snd (require_regime_shift_f64_option f v) = v"
  by (cases v; simp add: finite_option_def)+

lemma require_eligibility_iff:
  "fst (require_regime_shift_eligibility_state f v) = [] \<longleftrightarrow> v \<noteq> None"
  "v \<noteq> None \<Longrightarrow> snd (require_regime_shift_eligibility_state f v) = v"
  by (cases v; simp)+

text \<open>Taking the maximum with zero does not change what exceeds a non-negative threshold.\<close>

lemma f_gt_max_zero: "f_is_finite t \<Longrightarrow> f_nonneg t \<Longrightarrow> f_gt (f_max x (Fin 0)) t \<longleftrightarrow> f_gt x t"
  by (cases x; cases t) auto

lemma observed_timestamp_cases:
  "isl (validate_regime_shift_observed_timestamp T f v) \<longleftrightarrow> parse_utc_timestamp T v = None"
  "parse_utc_timestamp T v = Some t \<Longrightarrow> validate_regime_shift_observed_timestamp T f v = Inr t"
  by (auto simp: validate_regime_shift_observed_timestamp_def split: option.splits)

lemma observed_timestamp_value [simp]:
  "parse_utc_timestamp T v = Some t \<Longrightarrow>
     projr (validate_regime_shift_observed_timestamp T f v) = t"
  by (simp add: observed_timestamp_cases)

lemma fr40_accepts_iff: "\<not> isl (evaluate_fr40_regime_shift T p c k th) \<longleftrightarrow> fr40_inputs_ok T p c k th"
  unfolding evaluate_fr40_regime_shift_def fr40_inputs_ok_def Let_def isl_and_then
    fr40_thresholds_def [symmetric] observed_timestamp_cases(1)
  by (cases "parse_utc_timestamp T (ms_observed_at_utc p)";
      cases "parse_utc_timestamp T (ms_observed_at_utc c)")
    (auto simp: require_f64_iff require_eligibility_iff)

lemma fr40_value:
  assumes "fr40_inputs_ok T p c k th"
  shows "evaluate_fr40_regime_shift T p c k th = Inr (fr40_detections (fr40_thresholds th) p c k
      (the (ms_maker_rebate_bps p)) (the (ms_maker_rebate_bps c))
      (the (ms_venue_eligibility_state p)) (the (ms_venue_eligibility_state c)))"
proof -
  have deps: "\<not> isl (validate_regime_shift_thresholds (fr40_thresholds th))"
    "\<not> isl (validate_regime_shift_identifiers p c k)"
    "finite_option (ms_maker_rebate_bps p)" "finite_option (ms_maker_rebate_bps c)"
    "ms_venue_eligibility_state p \<noteq> None" "ms_venue_eligibility_state c \<noteq> None"
    using assms unfolding fr40_inputs_ok_def by blast+
  obtain tp tc where t: "parse_utc_timestamp T (ms_observed_at_utc p) = Some tp"
    "parse_utc_timestamp T (ms_observed_at_utc c) = Some tc" "\<not> tc < tp"
    using assms unfolding fr40_inputs_ok_def by (auto split: option.splits)
  show ?thesis
    unfolding evaluate_fr40_regime_shift_def Let_def fr40_thresholds_def [symmetric]
      and_then_ok[OF deps(1)] and_then_ok[OF deps(2)]
    using t deps(3-6) by (simp add: observed_timestamp_cases require_f64_iff require_eligibility_iff)
qed

lemma fr40_detection_reasons:
  assumes "f_is_finite (rt_spread_widening_bps th)" "f_nonneg (rt_spread_widening_bps th)"
  shows "map rd_reason_code (fr40_detections th p c k
      (the (ms_maker_rebate_bps p)) (the (ms_maker_rebate_bps c)) pe ce) =
    map RegimeShiftReasonCode_code (filter
      (fr40_trigger th (p\<lparr>ms_venue_eligibility_state := Some pe\<rparr>) (c\<lparr>ms_venue_eligibility_state := Some ce\<rparr>))
      [RegimeShiftReasonCode.RebateDeltaExceeded, RegimeShiftReasonCode.SpreadWideningExceeded,
       RegimeShiftReasonCode.EligibilityTransition])"
  using assms
  by (simp add: fr40_detections_def Let_def f_gt_max_zero VenueEligibilityState_is_eligible_def)

section \<open>Properties\<close>

text \<open>
  The regime-shift detector returns an error exactly when a threshold, an identifier, a
  timestamp (missing, not UTC or going back) or a dependency (rebate, eligibility) is not in
  order, and otherwise one detection for every trigger that fires, in the order rebate, spread,
  eligibility: the rebate moved by more than its threshold in either direction, the spread
  widened (it may narrow freely) by more than its own, the venue became or ceased to be eligible.
\<close>

theorem fr40_detects_exactly_the_triggers:
  "(case evaluate_fr40_regime_shift T p c k th of
      Inl e \<Rightarrow> \<not> fr40_inputs_ok T p c k th
    | Inr ds \<Rightarrow> fr40_inputs_ok T p c k th
        \<and> map rd_reason_code ds = map RegimeShiftReasonCode_code
            (filter (fr40_trigger (fr40_thresholds th) p c)
              [RegimeShiftReasonCode.RebateDeltaExceeded, RegimeShiftReasonCode.SpreadWideningExceeded,
               RegimeShiftReasonCode.EligibilityTransition]))"
proof (cases "fr40_inputs_ok T p c k th")
  case True
  then obtain pe ce where e: "ms_venue_eligibility_state p = Some pe" "ms_venue_eligibility_state c = Some ce"
    unfolding fr40_inputs_ok_def by blast
  have "f_is_finite (rt_spread_widening_bps (fr40_thresholds th))"
    "f_nonneg (rt_spread_widening_bps (fr40_thresholds th))"
    using True unfolding fr40_inputs_ok_def regime_validators_ok by blast+
  from fr40_detection_reasons[OF this, of p c k pe ce] show ?thesis
    using True e by (simp add: fr40_value)
next
  case False
  then show ?thesis
    using fr40_accepts_iff[of T p c k th] by (auto split: sum.split)
qed

end
