(* ===== verification/MarketStream.thy ===== *)
theory MarketStream
  imports MarketPolicy "HOL-Library.Multiset"
begin

text \<open>
  The market data stream of \<open>crates/domain/src/risk.rs\<close>: ticks, quarantined events and
  health records with their validators, the health assessment, the latency service level at
  the 99th percentile, and the conversion of a tick into the snapshot the gates read.
\<close>

section \<open>Constants\<close>

definition MARKET_STREAM_LATENCY_TARGET_SECONDS :: f64 where [simp]: "MARKET_STREAM_LATENCY_TARGET_SECONDS = Fin 2"
definition MARKET_STREAM_BACKLOG_WARNING_SECONDS :: f64 where [simp]: "MARKET_STREAM_BACKLOG_WARNING_SECONDS = Fin 5"
definition MARKET_STREAM_BACKLOG_DEGRADED_SECONDS :: f64 where [simp]: "MARKET_STREAM_BACKLOG_DEGRADED_SECONDS = Fin 10"
definition MARKET_STREAM_BACKLOG_SUSTAINED_DURATION_SECONDS :: f64 where [simp]: "MARKET_STREAM_BACKLOG_SUSTAINED_DURATION_SECONDS = Fin 30"
definition MARKET_STREAM_MAX_DEPTH_LEVELS :: nat where [simp]: "MARKET_STREAM_MAX_DEPTH_LEVELS = 5"

section \<open>Codes, errors and data\<close>

datatype MarketStatus =
    Trading
  | Halted
  | Closed

fun MarketStatus_as_str :: "MarketStatus \<Rightarrow> string" where
  "MarketStatus_as_str MarketStatus.Trading = ''trading''"
| "MarketStatus_as_str MarketStatus.Halted = ''halted''"
| "MarketStatus_as_str MarketStatus.Closed = ''closed''"

datatype MarketStreamHealthStatus =
    Healthy
  | Degraded

fun MarketStreamHealthStatus_as_str :: "MarketStreamHealthStatus \<Rightarrow> string" where
  "MarketStreamHealthStatus_as_str MarketStreamHealthStatus.Healthy = ''healthy''"
| "MarketStreamHealthStatus_as_str MarketStreamHealthStatus.Degraded = ''degraded''"

datatype MarketStreamReasonCode =
    TickAccepted
  | InvalidPayload
  | UnsupportedEventShape
  | QuarantinedPayload
  | PersistenceUnavailable
  | StreamDisconnected
  | HeartbeatTimeout
  | BacklogWarning
  | BacklogExceeded
  | BacklogSustainedExceeded
  | Healthy
  | Degraded
  | LatencySloBreached

fun MarketStreamReasonCode_code :: "MarketStreamReasonCode \<Rightarrow> string" where
  "MarketStreamReasonCode_code MarketStreamReasonCode.TickAccepted = ''market_stream_tick_accepted''"
| "MarketStreamReasonCode_code MarketStreamReasonCode.InvalidPayload = ''market_stream_invalid_payload''"
| "MarketStreamReasonCode_code MarketStreamReasonCode.UnsupportedEventShape = ''market_stream_unsupported_event_shape''"
| "MarketStreamReasonCode_code MarketStreamReasonCode.QuarantinedPayload = ''market_stream_quarantined_payload''"
| "MarketStreamReasonCode_code MarketStreamReasonCode.PersistenceUnavailable = ''market_stream_persistence_unavailable''"
| "MarketStreamReasonCode_code MarketStreamReasonCode.StreamDisconnected = ''market_stream_disconnected''"
| "MarketStreamReasonCode_code MarketStreamReasonCode.HeartbeatTimeout = ''market_stream_heartbeat_timeout''"
| "MarketStreamReasonCode_code MarketStreamReasonCode.BacklogWarning = ''market_stream_backlog_warning''"
| "MarketStreamReasonCode_code MarketStreamReasonCode.BacklogExceeded = ''market_stream_backlog_exceeded''"
| "MarketStreamReasonCode_code MarketStreamReasonCode.BacklogSustainedExceeded = ''market_stream_backlog_sustained_exceeded''"
| "MarketStreamReasonCode_code MarketStreamReasonCode.Healthy = ''market_stream_healthy''"
| "MarketStreamReasonCode_code MarketStreamReasonCode.Degraded = ''market_stream_degraded''"
| "MarketStreamReasonCode_code MarketStreamReasonCode.LatencySloBreached = ''market_stream_latency_slo_breached''"

type_synonym MarketStreamValidationIssue = issue
type_synonym MarketStreamContractError = contract_error

definition MarketStreamContractError_invalid_payload :: "string \<Rightarrow> MarketStreamContractError" where
  "MarketStreamContractError_invalid_payload message =
     contract_error_of (MarketStreamReasonCode_code MarketStreamReasonCode.InvalidPayload) message []"

definition MarketStreamContractError_invalid_payload_with_issues :: "string \<Rightarrow> MarketStreamValidationIssue list \<Rightarrow> MarketStreamContractError" where
  "MarketStreamContractError_invalid_payload_with_issues message field_errors =
     contract_error_of (MarketStreamReasonCode_code MarketStreamReasonCode.InvalidPayload) message field_errors"

definition MarketStreamReasonCode_parse :: "string \<Rightarrow> MarketStreamContractError + MarketStreamReasonCode" where
  "MarketStreamReasonCode_parse = parse_arms
     [(''market_stream_tick_accepted'', MarketStreamReasonCode.TickAccepted),
      (''market_stream_invalid_payload'', MarketStreamReasonCode.InvalidPayload),
      (''market_stream_unsupported_event_shape'', MarketStreamReasonCode.UnsupportedEventShape),
      (''market_stream_quarantined_payload'', MarketStreamReasonCode.QuarantinedPayload),
      (''market_stream_persistence_unavailable'', MarketStreamReasonCode.PersistenceUnavailable),
      (''market_stream_disconnected'', MarketStreamReasonCode.StreamDisconnected),
      (''market_stream_heartbeat_timeout'', MarketStreamReasonCode.HeartbeatTimeout),
      (''market_stream_backlog_warning'', MarketStreamReasonCode.BacklogWarning),
      (''market_stream_backlog_exceeded'', MarketStreamReasonCode.BacklogExceeded),
      (''market_stream_backlog_sustained_exceeded'', MarketStreamReasonCode.BacklogSustainedExceeded),
      (''market_stream_healthy'', MarketStreamReasonCode.Healthy),
      (''market_stream_degraded'', MarketStreamReasonCode.Degraded),
      (''market_stream_latency_slo_breached'', MarketStreamReasonCode.LatencySloBreached)]
     (\<lambda>value. MarketStreamContractError_invalid_payload (''unknown market stream reason code `'' @ value @ ''`''))"

interpretation market_stream_reason: enum_codec "\<lambda>v. v" MarketStreamReasonCode_code MarketStreamReasonCode_parse
  by (unfold MarketStreamReasonCode_parse_def, rule enum_codec_arms, case_tac x) simp_all

definition MarketStatus_parse :: "string \<Rightarrow> MarketStreamContractError + MarketStatus" where
  "MarketStatus_parse = parse_arms
     [(''trading'', MarketStatus.Trading),
      (''halted'', MarketStatus.Halted),
      (''closed'', MarketStatus.Closed)]
     (\<lambda>value. MarketStreamContractError_invalid_payload (''unknown market status `'' @ value @ ''`''))"

interpretation market_status: enum_codec "\<lambda>v. v" MarketStatus_as_str MarketStatus_parse
  by (unfold MarketStatus_parse_def, rule enum_codec_arms, case_tac x) simp_all

record MarketDepthLevel =
  dl_price :: f64
  dl_size :: f64

record MarketStreamTick =
  tk_tick_id :: string
  tk_market_id :: string
  tk_asset_id :: string
  tk_cluster_id :: string
  tk_best_bid :: f64
  tk_best_ask :: f64
  tk_top_bid_depth :: "MarketDepthLevel list"
  tk_top_ask_depth :: "MarketDepthLevel list"
  tk_last_trade_price :: f64
  tk_tick_size :: f64
  tk_market_status :: MarketStatus
  tk_correlation_id :: string
  tk_observed_at_utc :: string
  tk_ingested_at_utc :: string
  tk_ingestion_latency_seconds :: f64

record 'json QuarantinedMarketEvent =
  qe_event_id :: string
  qe_reason_code :: string
  qe_correlation_id :: string
  qe_observed_at_utc :: string
  qe_quarantined_at_utc :: string
  qe_ingestion_latency_seconds :: f64
  qe_raw_payload :: 'json

record MarketStreamHealth =
  sh_health_event_id :: string
  sh_stream_name :: string
  sh_status :: MarketStreamHealthStatus
  sh_reason_code :: string
  sh_backlog_seconds :: f64
  sh_sustained_backlog_seconds :: f64
  sh_heartbeat_gap_seconds :: f64
  sh_correlation_id :: string
  sh_observed_at_utc :: string

record MarketStreamHealthAssessment =
  ha_status :: MarketStreamHealthStatus
  ha_reason_code :: string

section \<open>Validators\<close>

definition validate_non_empty_stream_field ::
    "string \<Rightarrow> string \<Rightarrow> issue list" where
  "validate_non_empty_stream_field field value =
     push_if (blank value) field
        (MarketStreamReasonCode_code MarketStreamReasonCode.InvalidPayload)
        (field @ '' cannot be blank'')"

definition validate_non_negative_stream_value ::
    "string \<Rightarrow> f64 \<Rightarrow> issue list" where
  "validate_non_negative_stream_value field value =
     (if \<not> f_is_finite value
      then push_if True field
        (MarketStreamReasonCode_code MarketStreamReasonCode.InvalidPayload)
        (field @ '' must be finite'')
      else push_if (f_lt value (Fin 0)) field
        (MarketStreamReasonCode_code MarketStreamReasonCode.InvalidPayload)
        (field @ '' must be greater than or equal to 0''))"

definition validate_positive_stream_value ::
    "string \<Rightarrow> f64 \<Rightarrow> issue list" where
  "validate_positive_stream_value field value =
     (if \<not> f_is_finite value
      then push_if True field
        (MarketStreamReasonCode_code MarketStreamReasonCode.InvalidPayload)
        (field @ '' must be finite'')
      else push_if (f_le value (Fin 0)) field
        (MarketStreamReasonCode_code MarketStreamReasonCode.InvalidPayload)
        (field @ '' must be greater than 0''))"

text \<open>The loop over the levels, \<open>index\<close> being the position of the first one.\<close>

fun depth_level_issues :: "string \<Rightarrow> nat \<Rightarrow> MarketDepthLevel list \<Rightarrow> issue list" where
  "depth_level_issues field index [] = []"
| "depth_level_issues field index (level # levels) =
     push_if (\<not> f_is_finite (dl_price level) \<or> f_lt (dl_price level) (Fin 0)) field
       (MarketStreamReasonCode_code MarketStreamReasonCode.InvalidPayload)
       (field @ ''['' @ nat_to_dec index @ ''].price must be finite and non-negative'')
   @ push_if (\<not> f_is_finite (dl_size level) \<or> f_lt (dl_size level) (Fin 0)) field
       (MarketStreamReasonCode_code MarketStreamReasonCode.InvalidPayload)
       (field @ ''['' @ nat_to_dec index @ ''].size must be finite and non-negative'')
   @ depth_level_issues field (index + 1) levels"

definition validate_market_depth_levels ::
    "string \<Rightarrow> MarketDepthLevel list \<Rightarrow> issue list" where
  "validate_market_depth_levels field levels =
     (if levels = [] then push_if True field
        (MarketStreamReasonCode_code MarketStreamReasonCode.UnsupportedEventShape)
        (field @ '' must contain at least one level'')
      else push_if (length levels > MARKET_STREAM_MAX_DEPTH_LEVELS) field
        (MarketStreamReasonCode_code MarketStreamReasonCode.UnsupportedEventShape)
        (field @ '' cannot contain more than '' @ nat_to_dec MARKET_STREAM_MAX_DEPTH_LEVELS @ '' levels'')
    @ depth_level_issues field 0 levels)"

definition validate_stream_timestamp_field ::
    "time_crate \<Rightarrow> string \<Rightarrow> string \<Rightarrow> issue list" where
  "validate_stream_timestamp_field T field value =
     push_if (\<not> utc_ok T value) field
        (MarketStreamReasonCode_code MarketStreamReasonCode.InvalidPayload)
        (field @ '' must be an RFC3339 UTC timestamp'')"

definition validate_market_stream_tick ::
    "time_crate \<Rightarrow> MarketStreamTick \<Rightarrow> MarketStreamContractError + unit" where
  "validate_market_stream_tick T tick = reject_if
     (validate_non_empty_stream_field ''tick_id'' (tk_tick_id tick)
    @ validate_non_empty_stream_field ''market_id'' (tk_market_id tick)
    @ validate_non_empty_stream_field ''asset_id'' (tk_asset_id tick)
    @ validate_non_empty_stream_field ''cluster_id'' (tk_cluster_id tick)
    @ validate_non_empty_stream_field ''correlation_id'' (tk_correlation_id tick)
    @ validate_non_negative_stream_value ''best_bid'' (tk_best_bid tick)
    @ validate_non_negative_stream_value ''best_ask'' (tk_best_ask tick)
    @ validate_non_negative_stream_value ''last_trade_price'' (tk_last_trade_price tick)
    @ validate_positive_stream_value ''tick_size'' (tk_tick_size tick)
    @ validate_non_negative_stream_value ''ingestion_latency_seconds'' (tk_ingestion_latency_seconds tick)
    @ validate_market_depth_levels ''top_bid_depth'' (tk_top_bid_depth tick)
    @ validate_market_depth_levels ''top_ask_depth'' (tk_top_ask_depth tick)
    @ validate_stream_timestamp_field T ''observed_at_utc'' (tk_observed_at_utc tick)
    @ validate_stream_timestamp_field T ''ingested_at_utc'' (tk_ingested_at_utc tick)
    @ push_if (f_lt (tk_best_ask tick) (tk_best_bid tick)) ''best_ask''
        (MarketStreamReasonCode_code MarketStreamReasonCode.InvalidPayload)
        (''best_ask must be greater than or equal to best_bid'')
    @ push_if (case (parse_utc_timestamp T (tk_observed_at_utc tick), parse_utc_timestamp T (tk_ingested_at_utc tick)) of
          (Some observed_at, Some ingested_at) \<Rightarrow> ingested_at < observed_at
        | _ \<Rightarrow> False) ''ingested_at_utc''
        (MarketStreamReasonCode_code MarketStreamReasonCode.InvalidPayload)
        (''ingested_at_utc cannot be earlier than observed_at_utc''))
     (MarketStreamContractError_invalid_payload_with_issues ''market stream tick payload is invalid'')"

text \<open>The payload is a value of serde_json, of which the code only asks whether it is null.\<close>

definition validate_quarantined_market_event ::
    "('json \<Rightarrow> bool) \<Rightarrow> time_crate \<Rightarrow> 'json QuarantinedMarketEvent \<Rightarrow> MarketStreamContractError + unit" where
  "validate_quarantined_market_event is_null T event = reject_if
     (validate_non_empty_stream_field ''event_id'' (qe_event_id event)
    @ validate_non_empty_stream_field ''reason_code'' (qe_reason_code event)
    @ validate_non_empty_stream_field ''correlation_id'' (qe_correlation_id event)
    @ validate_stream_timestamp_field T ''observed_at_utc'' (qe_observed_at_utc event)
    @ validate_stream_timestamp_field T ''quarantined_at_utc'' (qe_quarantined_at_utc event)
    @ validate_non_negative_stream_value ''ingestion_latency_seconds'' (qe_ingestion_latency_seconds event)
    @ push_if (is_null (qe_raw_payload event)) ''raw_payload''
        (MarketStreamReasonCode_code MarketStreamReasonCode.InvalidPayload)
        (''raw_payload cannot be null'')
    @ push_if (is_err (MarketStreamReasonCode_parse (qe_reason_code event))) ''reason_code''
        (MarketStreamReasonCode_code MarketStreamReasonCode.InvalidPayload)
        (''reason_code must be a known market stream reason''))
     (MarketStreamContractError_invalid_payload_with_issues ''quarantined market event payload is invalid'')"

definition validate_market_stream_health ::
    "time_crate \<Rightarrow> MarketStreamHealth \<Rightarrow> MarketStreamContractError + unit" where
  "validate_market_stream_health T health = reject_if
     (validate_non_empty_stream_field ''health_event_id'' (sh_health_event_id health)
    @ validate_non_empty_stream_field ''stream_name'' (sh_stream_name health)
    @ validate_non_empty_stream_field ''reason_code'' (sh_reason_code health)
    @ validate_non_empty_stream_field ''correlation_id'' (sh_correlation_id health)
    @ validate_stream_timestamp_field T ''observed_at_utc'' (sh_observed_at_utc health)
    @ validate_non_negative_stream_value ''backlog_seconds'' (sh_backlog_seconds health)
    @ validate_non_negative_stream_value ''sustained_backlog_seconds'' (sh_sustained_backlog_seconds health)
    @ validate_non_negative_stream_value ''heartbeat_gap_seconds'' (sh_heartbeat_gap_seconds health)
    @ push_if (is_err (MarketStreamReasonCode_parse (sh_reason_code health))) ''reason_code''
        (MarketStreamReasonCode_code MarketStreamReasonCode.InvalidPayload)
        (''reason_code must be a known market stream reason''))
     (MarketStreamContractError_invalid_payload_with_issues ''market stream health payload is invalid'')"

section \<open>Health\<close>

definition assess_market_stream_health ::
    "f64 \<Rightarrow> f64 \<Rightarrow> f64 \<Rightarrow> f64 \<Rightarrow> MarketStreamContractError + MarketStreamHealthAssessment" where
  "assess_market_stream_health backlog_seconds sustained_backlog_seconds heartbeat_gap_seconds
      heartbeat_timeout_seconds =
     and_then (reject_if
       (validate_non_negative_stream_value ''backlog_seconds'' backlog_seconds
      @ validate_non_negative_stream_value ''sustained_backlog_seconds'' sustained_backlog_seconds
      @ validate_non_negative_stream_value ''heartbeat_gap_seconds'' heartbeat_gap_seconds
      @ validate_positive_stream_value ''heartbeat_timeout_seconds'' heartbeat_timeout_seconds)
       (MarketStreamContractError_invalid_payload_with_issues ''market stream health metrics are invalid''))
     (\<lambda>_. let (status, reason_code) =
        (if f_gt heartbeat_gap_seconds heartbeat_timeout_seconds
         then (MarketStreamHealthStatus.Degraded, MarketStreamReasonCode.HeartbeatTimeout)
         else if f_gt backlog_seconds MARKET_STREAM_BACKLOG_DEGRADED_SECONDS
            \<and> f_gt sustained_backlog_seconds MARKET_STREAM_BACKLOG_SUSTAINED_DURATION_SECONDS
         then (MarketStreamHealthStatus.Degraded, MarketStreamReasonCode.BacklogSustainedExceeded)
         else if f_gt backlog_seconds MARKET_STREAM_BACKLOG_DEGRADED_SECONDS
         then (MarketStreamHealthStatus.Degraded, MarketStreamReasonCode.BacklogExceeded)
         else if f_ge backlog_seconds MARKET_STREAM_BACKLOG_WARNING_SECONDS
         then (MarketStreamHealthStatus.Healthy, MarketStreamReasonCode.BacklogWarning)
         else (MarketStreamHealthStatus.Healthy, MarketStreamReasonCode.Healthy))
      in Inr \<lparr>ha_status = status, ha_reason_code = MarketStreamReasonCode_code reason_code\<rparr>)"

section \<open>Latency\<close>

definition ingestion_latency_within_target :: "f64 \<Rightarrow> bool" where
  "ingestion_latency_within_target latency_seconds =
     (f_is_finite latency_seconds
    \<and> f_le (Fin 0) latency_seconds \<and> f_le latency_seconds MARKET_STREAM_LATENCY_TARGET_SECONDS)"

text \<open>\<open>((ordered_latencies.len() as f64) * 0.99).ceil() as usize\<close>\<close>

definition slo_nearest_rank :: "nat \<Rightarrow> nat" where
  "slo_nearest_rank n = f_to_usize (f_ceil (f_mul (f_of_nat n) (round_f64 (99 / 100))))"

definition ingestion_latency_slo_met :: "f64 list \<Rightarrow> bool" where
  "ingestion_latency_slo_met latencies_seconds =
     (if latencies_seconds = []
         \<or> list_ex (\<lambda>latency. \<not> f_is_finite latency \<or> f_lt latency (Fin 0)) latencies_seconds
      then False
      else let ordered_latencies = sort latencies_seconds;
               nearest_rank = slo_nearest_rank (length ordered_latencies);
               percentile_index = min (nearest_rank - 1) (length ordered_latencies - 1)
           in f_le (ordered_latencies ! percentile_index) MARKET_STREAM_LATENCY_TARGET_SECONDS)"

section \<open>From tick to snapshot\<close>

definition market_stream_tick_to_snapshot ::
    "time_crate \<Rightarrow> MarketStreamTick \<Rightarrow> f64 \<Rightarrow> f64 \<Rightarrow> MarketStreamContractError + MarketSnapshot" where
  "market_stream_tick_to_snapshot T tick reward_score projected_exposure_pct_nav =
     and_then (validate_market_stream_tick T tick) (\<lambda>_.
     if \<not> f_is_finite reward_score \<or> f_lt reward_score (Fin 0)
     then Inl (MarketStreamContractError_invalid_payload ''reward_score must be finite and non-negative'')
     else if \<not> f_is_finite projected_exposure_pct_nav \<or> f_lt projected_exposure_pct_nav (Fin 0)
     then Inl (MarketStreamContractError_invalid_payload
            ''projected_exposure_pct_nav must be finite and non-negative'')
     else if f_le (tk_best_bid tick) (Fin 0)
     then Inl (MarketStreamContractError_invalid_payload
            ''best_bid must be greater than 0 for spread conversion'')
     else let
       liquidity_depth_usd = f_sum (map (\<lambda>level. f_mul (dl_price level) (dl_size level))
           (tk_top_bid_depth tick @ tk_top_ask_depth tick));
       spread_bps = f_mul (f_div (f_sub (tk_best_ask tick) (tk_best_bid tick)) (tk_best_bid tick))
           (Fin 10000)
     in Inr
       \<lparr>ms_market_id = tk_market_id tick, ms_cluster_id = tk_cluster_id tick,
        ms_liquidity_depth_usd = liquidity_depth_usd, ms_inactivity_gap_seconds = None,
        ms_spread_bps = spread_bps, ms_reward_score = reward_score,
        ms_expected_reward_bps = Some reward_score, ms_maker_rebate_bps = Some (Fin 0),
        ms_expected_cost_bps = Some (Fin 0), ms_expected_volatility_bps = Some (Fin 1),
        ms_venue_eligibility_state = None,
        ms_projected_exposure_pct_nav = projected_exposure_pct_nav,
        ms_observed_at_utc = tk_observed_at_utc tick\<rparr>)"

section \<open>What the validators accept\<close>

definition amount_ok :: "f64 \<Rightarrow> bool" where
  "amount_ok x \<longleftrightarrow> f_is_finite x \<and> f_nonneg x"

lemma amount_ok_cases: "amount_ok x \<Longrightarrow> (\<And>q. x = Fin q \<Longrightarrow> 0 \<le> q \<Longrightarrow> thesis) \<Longrightarrow> thesis"
  by (cases x) (auto simp: amount_ok_def)

lemma amount_ok_iff: "\<not> (\<not> f_is_finite x \<or> f_lt x (Fin 0)) \<longleftrightarrow> amount_ok x"
  by (cases x) (auto simp: amount_ok_def)

definition depth_level_ok :: "MarketDepthLevel \<Rightarrow> bool" where
  "depth_level_ok l \<longleftrightarrow> amount_ok (dl_price l) \<and> amount_ok (dl_size l)"

lemma depth_level_issues_Nil: "depth_level_issues f i ls = [] \<longleftrightarrow> list_all depth_level_ok ls"
  by (induction ls arbitrary: i) (auto simp: depth_level_ok_def amount_ok_iff [symmetric])

lemma stream_field_specs [issue_specs]:
  "validate_non_empty_stream_field f v = [] \<longleftrightarrow> \<not> blank v"
  "validate_non_negative_stream_value f x = [] \<longleftrightarrow> amount_ok x"
  "validate_positive_stream_value f x = [] \<longleftrightarrow> f_is_finite x \<and> f_lt (Fin 0) x"
  "validate_market_depth_levels f ls = [] \<longleftrightarrow> ls \<noteq> [] \<and> length ls \<le> 5 \<and> list_all depth_level_ok ls"
  "validate_stream_timestamp_field T f v = [] \<longleftrightarrow> utc_ok T v"
  by (cases x; auto simp: validate_non_empty_stream_field_def validate_non_negative_stream_value_def
      validate_positive_stream_value_def validate_market_depth_levels_def depth_level_issues_Nil
      validate_stream_timestamp_field_def amount_ok_def)+

definition tick_wf :: "time_crate \<Rightarrow> MarketStreamTick \<Rightarrow> bool" where
  "tick_wf T k \<longleftrightarrow>
     list_all (\<lambda>v. \<not> blank v) [tk_tick_id k, tk_market_id k, tk_asset_id k, tk_cluster_id k, tk_correlation_id k]
   \<and> list_all amount_ok [tk_best_bid k, tk_best_ask k, tk_last_trade_price k, tk_ingestion_latency_seconds k]
   \<and> f_is_finite (tk_tick_size k) \<and> f_lt (Fin 0) (tk_tick_size k)
   \<and> tk_top_bid_depth k \<noteq> [] \<and> length (tk_top_bid_depth k) \<le> 5
   \<and> tk_top_ask_depth k \<noteq> [] \<and> length (tk_top_ask_depth k) \<le> 5
   \<and> list_all depth_level_ok (tk_top_bid_depth k @ tk_top_ask_depth k)
   \<and> f_le (tk_best_bid k) (tk_best_ask k)
   \<and> (case (parse_utc_timestamp T (tk_observed_at_utc k), parse_utc_timestamp T (tk_ingested_at_utc k)) of
        (Some o', Some i) \<Rightarrow> o' \<le> i | _ \<Rightarrow> False)"

lemma validate_tick_ok: "isl (validate_market_stream_tick T k) \<longleftrightarrow> \<not> tick_wf T k"
proof -
  have "amount_ok x \<Longrightarrow> amount_ok y \<Longrightarrow> f_lt x y \<longleftrightarrow> \<not> f_le y x" for x y
    by (auto simp: amount_ok_def f_lt_finite)
  then show ?thesis
    by (auto simp: validate_market_stream_tick_def tick_wf_def issue_specs split: option.splits)
qed

section \<open>The 99th percentile\<close>

lemma slo_literal: "round_f64 (99 / 100) = Fin (8917127262193582 / 2 ^ 53)"
  using round_f64_literal[where m = 1 and n = 8917127262193582 and q = "99 / 100"] by simp

text \<open>
  The rank is computed in floating point from a literal below 0.99, yet it is exactly the
  ceiling of 99 n / 100: neither the literal's error nor the product's rounding crosses an integer.
\<close>

lemma nearest_rank_exact:
  assumes "n \<le> 2 ^ 40"
  shows "slo_nearest_rank n = (99 * n + 99) div 100"
proof -
  define N where "N = (99 * n + 99) div 100"
  define q :: rat where "q = of_nat n * (8917127262193582 / 2 ^ 53)"
  have N1: "99 * n \<le> 100 * N" "100 * N \<le> 99 * n + 99" unfolding N_def by linarith+
  have r1: "99 * rat_of_nat n \<le> 100 * rat_of_nat N" "100 * rat_of_nat N \<le> 99 * rat_of_nat n + 99"
    using N1 by (metis (mono_tags) of_nat_le_iff of_nat_mult of_nat_numeral)
      (metis (mono_tags, lifting) N1(2) of_nat_add of_nat_le_iff of_nat_mult of_nat_numeral)
  have nb: "rat_of_nat n \<le> 2 ^ 40" using assms by (metis of_nat_le_iff of_nat_numeral of_nat_power)
  have up: "q \<le> of_int (int N) * 2 powi 0"
    using r1(1) by (simp add: q_def field_simps)
  have lo: "of_int (128 * int N - 127) * 2 powi (- 7) \<le> q"
    using r1(2) nb by (simp add: q_def power_int_minus field_simps)
  have Nb: "N \<le> 2 ^ 40" using N1 assms by linarith
  have "round_rat q \<le> of_nat N"
    using round_rat_mono[OF up] round_rat_exact[of "int N" 0] Nb by simp
  moreover have "of_int (128 * int N - 127) * 2 powi (- 7) \<le> round_rat q"
  proof -
    have "\<bar>128 * int N - 127\<bar> \<le> 2 ^ 53" using Nb by (simp add: abs_le_iff)
    from round_rat_exact[OF this, of "- 7"] round_rat_mono[OF lo] show ?thesis by simp
  qed
  then have "of_nat N - 1 < round_rat q"
    by (simp add: power_int_minus field_simps)
  ultimately have ceil: "\<lceil>round_rat q\<rceil> = int N" and bound: "\<bar>round_rat q\<bar> < 2 ^ 1024"
  proof -
    assume a: "round_rat q \<le> of_nat N" "of_nat N - 1 < round_rat q"
    then show "\<lceil>round_rat q\<rceil> = int N" by (simp add: ceiling_eq_iff)
    have "rat_of_nat N \<le> 2 ^ 40" using Nb by (metis of_nat_le_iff of_nat_numeral of_nat_power)
    moreover have "(2 ^ 40 :: rat) + 1 < 2 ^ 1024" by simp
    ultimately show "\<bar>round_rat q\<bar> < 2 ^ 1024" using a by linarith
  qed
  have "f_of_nat n = Fin (of_nat n)"
    using round_f64_of_int[of "int n"] assms by (simp add: f_of_nat_def)
  then have "f_mul (f_of_nat n) (round_f64 (99 / 100)) = Fin (round_rat q)"
    using round_f64_Fin[OF bound] by (simp add: slo_literal q_def)
  then show ?thesis using ceil Nb by (simp add: slo_nearest_rank_def N_def [symmetric])
qed

text \<open>A bound holds at a position of a sorted list iff more elements than that meet it.\<close>

lemma sorted_nth_le_iff:
  fixes b :: "'a::linorder"
  assumes "sorted ys" "i < length ys"
  shows "ys ! i \<le> b \<longleftrightarrow> i < length (filter (\<lambda>y. y \<le> b) ys)"
  using assms
proof (induction ys arbitrary: i)
  case (Cons y ys)
  show ?case
  proof (cases "y \<le> b")
    case True
    then show ?thesis using Cons by (cases i) auto
  next
    case False
    then have "filter (\<lambda>z. z \<le> b) (y # ys) = []" using Cons.prems(1) by (auto simp: filter_empty_conv)
    moreover have "y \<le> (y # ys) ! i" using Cons.prems by (cases i) auto
    then have "\<not> (y # ys) ! i \<le> b" using False order_trans by blast
    ultimately show ?thesis by (metis list.size(3) not_less_zero)
  qed
qed simp

lemma length_filter_sort: "length (filter P (sort xs)) = length (filter P xs)"
  by (metis mset_filter mset_sort size_mset)

lemma slo_met_iff:
  assumes "length xs \<le> 2 ^ 40"
  shows "ingestion_latency_slo_met xs \<longleftrightarrow> xs \<noteq> [] \<and> list_all amount_ok xs
    \<and> 99 * length xs \<le> 100 * length (filter ingestion_latency_within_target xs)"
proof (cases "xs \<noteq> [] \<and> list_all amount_ok xs")
  case True
  define r where "r = (99 * length xs + 99) div 100"
  have n: "0 < length xs" using True by simp
  have r: "0 < r" "r \<le> length xs" using n unfolding r_def by linarith+
  have set: "set (sort xs) = set xs" by simp
  have le: "f_le x (Fin 2) \<longleftrightarrow> x \<le> Fin 2" if "x \<in> set xs" for x
    using True that by (auto simp: list_all_iff amount_ok_def f_is_finite_iff)
  have within: "ingestion_latency_within_target x \<longleftrightarrow> x \<le> Fin 2" if "x \<in> set xs" for x
    using True that le[OF that] by (auto simp: list_all_iff amount_ok_def ingestion_latency_within_target_def)
  have noex: "\<not> list_ex (\<lambda>x. \<not> f_is_finite x \<or> f_lt x (Fin 0)) xs"
    using True amount_ok_iff by (auto simp: list_ex_iff list_all_iff)
  have i: "min (r - 1) (length xs - 1) = r - 1" "r - 1 < length xs" using r by auto
  have "ingestion_latency_slo_met xs \<longleftrightarrow> f_le (sort xs ! (r - 1)) (Fin 2)"
    using True noex i by (simp add: ingestion_latency_slo_met_def Let_def nearest_rank_exact[OF assms] r_def [symmetric])
  also have "\<dots> \<longleftrightarrow> sort xs ! (r - 1) \<le> Fin 2"
    using le i(2) by (metis length_sort nth_mem set)
  also have "\<dots> \<longleftrightarrow> r - 1 < length (filter (\<lambda>y. y \<le> Fin 2) (sort xs))"
    using i(2) by (intro sorted_nth_le_iff) simp_all
  also have "\<dots> \<longleftrightarrow> r \<le> length (filter ingestion_latency_within_target xs)"
    using r(1) within by (simp add: length_filter_sort cong: filter_cong) linarith
  also have "\<dots> \<longleftrightarrow> 99 * length xs \<le> 100 * length (filter ingestion_latency_within_target xs)"
    unfolding r_def by linarith
  finally show ?thesis using True by simp
next
  case False
  then show ?thesis
    using amount_ok_iff by (auto simp: ingestion_latency_slo_met_def Let_def list_all_iff list_ex_iff)
qed

section \<open>Properties\<close>

text \<open>
  C37: The latency service level is met exactly when there is a measurement, every one is finite
  and non-negative, and at least 99 per cent of them are within the target of two seconds. The
  code computes the rank in floating point from the inexact literal 0.99; up to 2^40
  measurements that is the integer ceiling, so no window is accepted below 99 per cent.
\<close>

theorem latency_slo_is_the_99th_percentile:
  assumes "length xs \<le> 2 ^ 40"
  shows "ingestion_latency_slo_met xs \<longleftrightarrow> xs \<noteq> [] \<and> list_all amount_ok xs
    \<and> 99 * length xs \<le> 100 * length (filter ingestion_latency_within_target xs)"
  by (rule slo_met_iff[OF assms])

theorem latency_slo_is_the_99th_percentile_witness:
  "ingestion_latency_slo_met (Fin 9 # replicate 99 (Fin 1))
   \<and> \<not> ingestion_latency_slo_met (Fin 9 # replicate 98 (Fin 1))"
proof -
  have "length (Fin 9 # replicate 99 (Fin 1)) \<le> 2 ^ 40" "length (Fin 9 # replicate 98 (Fin 1)) \<le> 2 ^ 40"
    by simp_all
  from this[THEN latency_slo_is_the_99th_percentile] show ?thesis
    by (simp add: amount_ok_def ingestion_latency_within_target_def list_all_iff)
qed

lemma f_sub_ge_zero: "amount_ok x \<Longrightarrow> amount_ok y \<Longrightarrow> f_le x y \<Longrightarrow> f_le (Fin 0) (f_sub y x)"
  by (cases x; cases y) (auto simp: amount_ok_def f_sub_def round_f64_nonneg)

lemma f_div_ge_zero: "f_le (Fin 0) x \<Longrightarrow> f_is_finite y \<Longrightarrow> f_lt (Fin 0) y \<Longrightarrow> f_le (Fin 0) (f_div x y)"
  by (cases x; cases y) (auto simp: round_f64_nonneg)

lemma f_mul_ge_zero: "f_le (Fin 0) x \<Longrightarrow> 0 < c \<Longrightarrow> f_le (Fin 0) (f_mul x (Fin c))"
  by (cases x) (auto simp: round_f64_nonneg inf_of_sign_def)

lemma tick_amounts_nonneg:
  assumes "tick_wf T k" "\<not> f_le (tk_best_bid k) (Fin 0)"
  shows "f_le (Fin 0) (f_mul (f_div (f_sub (tk_best_ask k) (tk_best_bid k)) (tk_best_bid k)) (Fin 10000))"
    and "f_le (Fin 0) (f_sum (map (\<lambda>level. f_mul (dl_price level) (dl_size level))
           (tk_top_bid_depth k @ tk_top_ask_depth k)))"
proof -
  have a: "amount_ok (tk_best_bid k)" "amount_ok (tk_best_ask k)" "f_le (tk_best_bid k) (tk_best_ask k)"
    and d: "list_all depth_level_ok (tk_top_bid_depth k @ tk_top_ask_depth k)"
    using assms(1) by (auto simp: tick_wf_def)
  then have "f_lt (Fin 0) (tk_best_bid k)" using assms(2) by (simp add: amount_ok_def f_lt_finite)
  then show "f_le (Fin 0) (f_mul (f_div (f_sub (tk_best_ask k) (tk_best_bid k)) (tk_best_bid k)) (Fin 10000))"
    using a by (intro f_mul_ge_zero f_div_ge_zero f_sub_ge_zero) (auto simp: amount_ok_def)
  show "f_le (Fin 0) (f_sum (map (\<lambda>level. f_mul (dl_price level) (dl_size level))
           (tk_top_bid_depth k @ tk_top_ask_depth k)))"
    using d by (intro f_sum_nonneg) (auto simp: list_all_iff depth_level_ok_def amount_ok_def intro: f_mul_nonneg)
qed

lemma tick_to_snapshot_ok:
  assumes "market_stream_tick_to_snapshot T k r e = Inr s"
  shows "tick_wf T k" "amount_ok r" "amount_ok e" "\<not> f_le (tk_best_bid k) (Fin 0)"
    "ms_market_id s = tk_market_id k" "ms_cluster_id s = tk_cluster_id k"
    "ms_observed_at_utc s = tk_observed_at_utc k" "ms_reward_score s = r"
    "ms_projected_exposure_pct_nav s = e" "ms_venue_eligibility_state s = None"
    "ms_inactivity_gap_seconds s = None"
    "ms_spread_bps s = f_mul (f_div (f_sub (tk_best_ask k) (tk_best_bid k)) (tk_best_bid k)) (Fin 10000)"
    "ms_liquidity_depth_usd s = f_sum (map (\<lambda>level. f_mul (dl_price level) (dl_size level))
       (tk_top_bid_depth k @ tk_top_ask_depth k))"
proof -
  have ok: "\<not> isl (validate_market_stream_tick T k)" "amount_ok r" "amount_ok e" "\<not> f_le (tk_best_bid k) (Fin 0)"
    using assms by (auto simp: market_stream_tick_to_snapshot_def and_then_Inr_iff amount_ok_iff [symmetric]
        split: if_splits)
  then show "tick_wf T k" "amount_ok r" "amount_ok e" "\<not> f_le (tk_best_bid k) (Fin 0)"
    by (simp_all add: validate_tick_ok)
  have "\<not> (\<not> f_is_finite r \<or> f_lt r (Fin 0))" "\<not> (\<not> f_is_finite e \<or> f_lt e (Fin 0))"
    using ok(2,3) amount_ok_iff by blast+
  with assms ok(4) show "ms_market_id s = tk_market_id k" "ms_cluster_id s = tk_cluster_id k"
    "ms_observed_at_utc s = tk_observed_at_utc k" "ms_reward_score s = r"
    "ms_projected_exposure_pct_nav s = e" "ms_venue_eligibility_state s = None"
    "ms_inactivity_gap_seconds s = None"
    "ms_spread_bps s = f_mul (f_div (f_sub (tk_best_ask k) (tk_best_bid k)) (tk_best_bid k)) (Fin 10000)"
    "ms_liquidity_depth_usd s = f_sum (map (\<lambda>level. f_mul (dl_price level) (dl_size level))
       (tk_top_bid_depth k @ tk_top_ask_depth k))"
    by (auto simp: market_stream_tick_to_snapshot_def and_then_Inr_iff Let_def)
qed

text \<open>
  The snapshot made from an accepted tick is a valid snapshot, except where the depth sum or
  the spread overflows binary64: an uncrossed book with a positive bid gives a non-negative
  spread and non-negative liquidity, and the identifiers and the time carry over.
\<close>

theorem tick_snapshot_valid:
  assumes "market_stream_tick_to_snapshot T k r e = Inr s"
  shows "market_snapshot_wf T s \<longleftrightarrow> f_is_finite (ms_liquidity_depth_usd s) \<and> f_is_finite (ms_spread_bps s)"
proof -
  note s = tick_to_snapshot_ok[OF assms]
  have "utc_ok T (tk_observed_at_utc k)" "\<not> blank (tk_market_id k)" "\<not> blank (tk_cluster_id k)"
    using s(1) by (auto simp: tick_wf_def split: option.splits)
  then show ?thesis
    using s tick_amounts_nonneg[OF s(1,4)] by (auto simp: market_snapshot_wf_def amount_ok_def)
qed

definition demo_tick :: MarketStreamTick where
  "demo_tick = \<lparr>tk_tick_id = ''tick-1'', tk_market_id = ''market-1'', tk_asset_id = ''asset-1'',
     tk_cluster_id = ''cluster-1'', tk_best_bid = Fin (1 / 2), tk_best_ask = Fin (3 / 4),
     tk_top_bid_depth = [\<lparr>dl_price = Fin (1 / 2), dl_size = Fin 200\<rparr>],
     tk_top_ask_depth = [\<lparr>dl_price = Fin (3 / 4), dl_size = Fin 400\<rparr>],
     tk_last_trade_price = Fin (1 / 2), tk_tick_size = Fin (1 / 64), tk_market_status = MarketStatus.Trading,
     tk_correlation_id = ''corr-1'', tk_observed_at_utc = ''2026-04-06T00:00:00Z'',
     tk_ingested_at_utc = ''2026-04-06T00:00:01Z'', tk_ingestion_latency_seconds = Fin 1\<rparr>"

theorem tick_snapshot_valid_witness:
  "\<exists>s. market_stream_tick_to_snapshot demo_time demo_tick (Fin 1) (Fin 2) = Inr s
     \<and> ms_liquidity_depth_usd s = Fin 400 \<and> ms_spread_bps s = Fin 5000 \<and> market_snapshot_wf demo_time s"
proof -
  have wf: "tick_wf demo_time demo_tick"
    by (simp add: tick_wf_def demo_tick_def amount_ok_def depth_level_ok_def trim_id ws_defs)
  have q: "round_f64 (1 / 4) = Fin (1 / 4)" "round_f64 (1 / 2) = Fin (1 / 2)"
    using round_f64_dyadic[of "1 / 4" 2 1] round_f64_dyadic[of "1 / 2" 1 1] by simp_all
  have n: "and_then (validate_market_stream_tick demo_time demo_tick) f = f ()" for f
    using wf validate_tick_ok[of demo_time demo_tick] by (simp add: and_then_ok)
  obtain s where s: "market_stream_tick_to_snapshot demo_time demo_tick (Fin 1) (Fin 2) = Inr s"
    unfolding market_stream_tick_to_snapshot_def n by (simp add: demo_tick_def Let_def)
  have "ms_liquidity_depth_usd s = Fin 400 \<and> ms_spread_bps s = Fin 5000"
    using tick_to_snapshot_ok(12,13)[OF s] by (simp add: demo_tick_def f_sum_def f_sub_def q)
  with tick_snapshot_valid[OF s] s show ?thesis by auto
qed

end
