(* ===== verification/FreshnessGate.thy ===== *)
theory FreshnessGate
  imports MarketStream
begin

text \<open>
  The data freshness gate of \<open>crates/domain/src/risk.rs\<close>: it pauses order creation when
  market or user data is missing or too old, and releases the pause only after a window of
  uninterrupted fresh evaluations.
\<close>

section \<open>Codes, errors and data\<close>

definition FRESHNESS_STALE_THRESHOLD_SECONDS :: f64 where [simp]: "FRESHNESS_STALE_THRESHOLD_SECONDS = Fin 30"
definition FRESHNESS_RECOVERY_STABILITY_WINDOW_SECONDS :: f64 where [simp]: "FRESHNESS_RECOVERY_STABILITY_WINDOW_SECONDS = Fin 10"
definition FRESHNESS_MAX_BREACH_TO_PAUSE_SECONDS :: f64 where [simp]: "FRESHNESS_MAX_BREACH_TO_PAUSE_SECONDS = Fin 5"

datatype FreshnessGateReasonCode =
    StaleBreach
  | BoundarySafe
  | StateUnavailable
  | RecoveryPending
  | RecoveryConfirmed
  | EvaluationError
  | PersistenceUnavailable
  | InvalidPayload

fun FreshnessGateReasonCode_code :: "FreshnessGateReasonCode \<Rightarrow> string" where
  "FreshnessGateReasonCode_code FreshnessGateReasonCode.StaleBreach = ''freshness_gate_stale_breach''"
| "FreshnessGateReasonCode_code FreshnessGateReasonCode.BoundarySafe = ''freshness_gate_boundary_safe''"
| "FreshnessGateReasonCode_code FreshnessGateReasonCode.StateUnavailable = ''freshness_gate_state_unavailable''"
| "FreshnessGateReasonCode_code FreshnessGateReasonCode.RecoveryPending = ''freshness_gate_recovery_pending''"
| "FreshnessGateReasonCode_code FreshnessGateReasonCode.RecoveryConfirmed = ''freshness_gate_recovery_confirmed''"
| "FreshnessGateReasonCode_code FreshnessGateReasonCode.EvaluationError = ''freshness_gate_evaluation_error''"
| "FreshnessGateReasonCode_code FreshnessGateReasonCode.PersistenceUnavailable = ''freshness_gate_persistence_unavailable''"
| "FreshnessGateReasonCode_code FreshnessGateReasonCode.InvalidPayload = ''freshness_gate_invalid_payload''"

type_synonym FreshnessGateValidationIssue = issue
type_synonym FreshnessGateContractError = contract_error

definition FreshnessGateContractError_invalid_payload :: "string \<Rightarrow> FreshnessGateContractError" where
  "FreshnessGateContractError_invalid_payload message =
     contract_error_of (FreshnessGateReasonCode_code FreshnessGateReasonCode.InvalidPayload) message []"

definition FreshnessGateContractError_invalid_payload_with_issues :: "string \<Rightarrow> FreshnessGateValidationIssue list \<Rightarrow> FreshnessGateContractError" where
  "FreshnessGateContractError_invalid_payload_with_issues message field_errors =
     contract_error_of (FreshnessGateReasonCode_code FreshnessGateReasonCode.InvalidPayload) message field_errors"

definition FreshnessGateReasonCode_parse :: "string \<Rightarrow> FreshnessGateContractError + FreshnessGateReasonCode" where
  "FreshnessGateReasonCode_parse = parse_arms
     [(''freshness_gate_stale_breach'', FreshnessGateReasonCode.StaleBreach),
      (''freshness_gate_boundary_safe'', FreshnessGateReasonCode.BoundarySafe),
      (''freshness_gate_state_unavailable'', FreshnessGateReasonCode.StateUnavailable),
      (''freshness_gate_recovery_pending'', FreshnessGateReasonCode.RecoveryPending),
      (''freshness_gate_recovery_confirmed'', FreshnessGateReasonCode.RecoveryConfirmed),
      (''freshness_gate_evaluation_error'', FreshnessGateReasonCode.EvaluationError),
      (''freshness_gate_persistence_unavailable'', FreshnessGateReasonCode.PersistenceUnavailable),
      (''freshness_gate_invalid_payload'', FreshnessGateReasonCode.InvalidPayload)]
     (\<lambda>value. FreshnessGateContractError_invalid_payload (''unknown freshness gate reason code `'' @ value @ ''`''))"

interpretation freshness_reason: enum_codec "\<lambda>v. v" FreshnessGateReasonCode_code FreshnessGateReasonCode_parse
  by (unfold FreshnessGateReasonCode_parse_def, rule enum_codec_arms, case_tac x) simp_all

datatype FreshnessGateTransition =
    PauseActivated
  | PauseMaintained
  | RecoveryPending
  | RecoveryConfirmed

fun FreshnessGateTransition_as_str :: "FreshnessGateTransition \<Rightarrow> string" where
  "FreshnessGateTransition_as_str FreshnessGateTransition.PauseActivated = ''pause_activated''"
| "FreshnessGateTransition_as_str FreshnessGateTransition.PauseMaintained = ''pause_maintained''"
| "FreshnessGateTransition_as_str FreshnessGateTransition.RecoveryPending = ''recovery_pending''"
| "FreshnessGateTransition_as_str FreshnessGateTransition.RecoveryConfirmed = ''recovery_confirmed''"

definition FreshnessGateTransition_parse :: "string \<Rightarrow> FreshnessGateContractError + FreshnessGateTransition" where
  "FreshnessGateTransition_parse = parse_arms
     [(''pause_activated'', FreshnessGateTransition.PauseActivated),
      (''pause_maintained'', FreshnessGateTransition.PauseMaintained),
      (''recovery_pending'', FreshnessGateTransition.RecoveryPending),
      (''recovery_confirmed'', FreshnessGateTransition.RecoveryConfirmed)]
     (\<lambda>value. FreshnessGateContractError_invalid_payload (''unknown freshness gate transition `'' @ value @ ''`''))"

interpretation freshness_transition: enum_codec "\<lambda>v. v" FreshnessGateTransition_as_str FreshnessGateTransition_parse
  by (unfold FreshnessGateTransition_parse_def, rule enum_codec_arms, case_tac x) simp_all

record FreshnessGatePolicy =
  fp_stale_threshold_seconds :: f64
  fp_stability_window_seconds :: f64
  fp_max_breach_to_pause_seconds :: f64

record FreshnessSnapshot =
  fs_market_data_age_seconds :: "f64 option"
  fs_user_data_age_seconds :: "f64 option"
  fs_sampled_at_utc :: string
  fs_correlation_id :: string

record FreshnessGateState =
  fg_pause_active :: bool
  fg_reason_code :: string
  fg_stale_breach_detected_at_utc :: "string option"
  fg_pause_activated_at_utc :: "string option"
  fg_recovery_window_started_at_utc :: "string option"
  fg_last_evaluated_at_utc :: string

record FreshnessGateEvaluationOutcome =
  fo_transition :: "FreshnessGateTransition option"
  fo_reason_code :: string
  fo_pause_active :: bool
  fo_block_new_order_creation :: bool
  fo_market_data_age_seconds :: "f64 option"
  fo_user_data_age_seconds :: "f64 option"
  fo_stale_breach_detected_at_utc :: "string option"
  fo_pause_activated_at_utc :: "string option"
  fo_recovery_window_started_at_utc :: "string option"
  fo_recovery_confirmed_at_utc :: "string option"
  fo_breach_to_pause_latency_seconds :: "f64 option"
  fo_evaluated_at_utc :: string
  fo_correlation_id :: string

record FreshnessGateEvent =
  fe_event_id :: string
  fe_transition :: FreshnessGateTransition
  fe_reason_code :: string
  fe_pause_active :: bool
  fe_block_new_order_creation :: bool
  fe_market_data_age_seconds :: "f64 option"
  fe_user_data_age_seconds :: "f64 option"
  fe_stale_threshold_seconds :: f64
  fe_stability_window_seconds :: f64
  fe_max_breach_to_pause_seconds :: f64
  fe_stale_breach_detected_at_utc :: "string option"
  fe_pause_activated_at_utc :: "string option"
  fe_recovery_window_started_at_utc :: "string option"
  fe_recovery_confirmed_at_utc :: "string option"
  fe_breach_to_pause_latency_seconds :: "f64 option"
  fe_evaluated_at_utc :: string
  fe_correlation_id :: string

definition FreshnessGatePolicy_default :: FreshnessGatePolicy where
  "FreshnessGatePolicy_default =
     \<lparr>fp_stale_threshold_seconds = FRESHNESS_STALE_THRESHOLD_SECONDS,
      fp_stability_window_seconds = FRESHNESS_RECOVERY_STABILITY_WINDOW_SECONDS,
      fp_max_breach_to_pause_seconds = FRESHNESS_MAX_BREACH_TO_PAUSE_SECONDS\<rparr>"

definition FreshnessGateEvaluationOutcome_to_state :: "FreshnessGateEvaluationOutcome \<Rightarrow> FreshnessGateState" where
  "FreshnessGateEvaluationOutcome_to_state self =
     \<lparr>fg_pause_active = fo_pause_active self, fg_reason_code = fo_reason_code self,
      fg_stale_breach_detected_at_utc = fo_stale_breach_detected_at_utc self,
      fg_pause_activated_at_utc = fo_pause_activated_at_utc self,
      fg_recovery_window_started_at_utc = fo_recovery_window_started_at_utc self,
      fg_last_evaluated_at_utc = fo_evaluated_at_utc self\<rparr>"

definition FreshnessGateEvaluationOutcome_to_event ::
    "FreshnessGateEvaluationOutcome \<Rightarrow> string \<Rightarrow> FreshnessGatePolicy \<Rightarrow> FreshnessGateEvent option" where
  "FreshnessGateEvaluationOutcome_to_event self event_id policy =
     map_option (\<lambda>transition.
       \<lparr>fe_event_id = event_id, fe_transition = transition, fe_reason_code = fo_reason_code self,
        fe_pause_active = fo_pause_active self,
        fe_block_new_order_creation = fo_block_new_order_creation self,
        fe_market_data_age_seconds = fo_market_data_age_seconds self,
        fe_user_data_age_seconds = fo_user_data_age_seconds self,
        fe_stale_threshold_seconds = fp_stale_threshold_seconds policy,
        fe_stability_window_seconds = fp_stability_window_seconds policy,
        fe_max_breach_to_pause_seconds = fp_max_breach_to_pause_seconds policy,
        fe_stale_breach_detected_at_utc = fo_stale_breach_detected_at_utc self,
        fe_pause_activated_at_utc = fo_pause_activated_at_utc self,
        fe_recovery_window_started_at_utc = fo_recovery_window_started_at_utc self,
        fe_recovery_confirmed_at_utc = fo_recovery_confirmed_at_utc self,
        fe_breach_to_pause_latency_seconds = fo_breach_to_pause_latency_seconds self,
        fe_evaluated_at_utc = fo_evaluated_at_utc self,
        fe_correlation_id = fo_correlation_id self\<rparr>)
     (fo_transition self)"

section \<open>Validators\<close>

definition validate_non_negative_freshness_age :: "string \<Rightarrow> f64 option \<Rightarrow> bool \<Rightarrow> issue list" where
  "validate_non_negative_freshness_age field value required =
     (if value = None \<and> required
      then push_if True field (FreshnessGateReasonCode_code FreshnessGateReasonCode.InvalidPayload)
             (field @ '' is required'')
      else case value of None \<Rightarrow> []
      | Some value \<Rightarrow>
          if \<not> f_is_finite value
          then push_if True field (FreshnessGateReasonCode_code FreshnessGateReasonCode.InvalidPayload)
                 (field @ '' must be finite'')
          else push_if (f_lt value (Fin 0)) field
                 (FreshnessGateReasonCode_code FreshnessGateReasonCode.InvalidPayload)
                 (field @ '' must be greater than or equal to 0''))"

definition validate_freshness_timestamp_field ::
    "time_crate \<Rightarrow> string \<Rightarrow> string \<Rightarrow> issue list" where
  "validate_freshness_timestamp_field T field value =
     push_if (\<not> utc_ok T value) field
        (FreshnessGateReasonCode_code FreshnessGateReasonCode.InvalidPayload)
        (field @ '' must be an RFC3339 UTC timestamp'')"

definition validate_freshness_non_empty ::
    "string \<Rightarrow> string \<Rightarrow> issue list" where
  "validate_freshness_non_empty field value =
     push_if (blank value) field
        (FreshnessGateReasonCode_code FreshnessGateReasonCode.InvalidPayload)
        (field @ '' cannot be blank'')"

text \<open>\<open>if let Some(value) = ... { validate_freshness_timestamp_field(...) }\<close>\<close>

definition validate_optional_freshness_timestamp :: "time_crate \<Rightarrow> string \<Rightarrow> string option \<Rightarrow> issue list" where
  "validate_optional_freshness_timestamp T field value = (case value of
      Some value \<Rightarrow> validate_freshness_timestamp_field T field value
    | None \<Rightarrow> [])"

abbreviation freshness_issue :: "bool \<Rightarrow> string \<Rightarrow> string \<Rightarrow> issue list" where
  "freshness_issue b field message \<equiv>
     push_if b field (FreshnessGateReasonCode_code FreshnessGateReasonCode.InvalidPayload) message"

definition validate_freshness_gate_policy :: "FreshnessGatePolicy \<Rightarrow> FreshnessGateContractError + unit" where
  "validate_freshness_gate_policy policy = reject_if
     (validate_non_negative_freshness_age ''stale_threshold_seconds'' (Some (fp_stale_threshold_seconds policy)) True
    @ validate_non_negative_freshness_age ''stability_window_seconds'' (Some (fp_stability_window_seconds policy)) True
    @ validate_non_negative_freshness_age ''max_breach_to_pause_seconds''
        (Some (fp_max_breach_to_pause_seconds policy)) True
    @ freshness_issue (f_gt (fp_max_breach_to_pause_seconds policy) (fp_stale_threshold_seconds policy))
        ''max_breach_to_pause_seconds'' ''max_breach_to_pause_seconds cannot exceed stale_threshold_seconds'')
     (FreshnessGateContractError_invalid_payload_with_issues ''freshness gate policy is invalid'')"

definition validate_freshness_snapshot ::
    "time_crate \<Rightarrow> FreshnessSnapshot \<Rightarrow> FreshnessGateContractError + unit" where
  "validate_freshness_snapshot T snapshot = reject_if
     (validate_non_negative_freshness_age ''market_data_age_seconds'' (fs_market_data_age_seconds snapshot) False
    @ validate_non_negative_freshness_age ''user_data_age_seconds'' (fs_user_data_age_seconds snapshot) False
    @ validate_freshness_timestamp_field T ''sampled_at_utc'' (fs_sampled_at_utc snapshot)
    @ validate_freshness_non_empty ''correlation_id'' (fs_correlation_id snapshot))
     (FreshnessGateContractError_invalid_payload_with_issues ''freshness snapshot is invalid'')"

definition validate_freshness_gate_state ::
    "time_crate \<Rightarrow> FreshnessGateState \<Rightarrow> FreshnessGateContractError + unit" where
  "validate_freshness_gate_state T state = reject_if
     (validate_freshness_non_empty ''reason_code'' (fg_reason_code state)
    @ freshness_issue (is_err (FreshnessGateReasonCode_parse (fg_reason_code state)))
        ''reason_code'' ''reason_code must be a known freshness gate reason''
    @ validate_freshness_timestamp_field T ''last_evaluated_at_utc'' (fg_last_evaluated_at_utc state)
    @ validate_optional_freshness_timestamp T ''stale_breach_detected_at_utc'' (fg_stale_breach_detected_at_utc state)
    @ validate_optional_freshness_timestamp T ''pause_activated_at_utc'' (fg_pause_activated_at_utc state)
    @ validate_optional_freshness_timestamp T ''recovery_window_started_at_utc''
        (fg_recovery_window_started_at_utc state)
    @ freshness_issue (fg_pause_active state \<and> fg_pause_activated_at_utc state = None)
        ''pause_activated_at_utc'' ''pause_active state requires pause_activated_at_utc'')
     (FreshnessGateContractError_invalid_payload_with_issues ''freshness gate state is invalid'')"

text \<open>What \<open>validate_freshness_gate_event\<close> asks of the latency.\<close>

definition freshness_latency_issues :: "f64 option \<Rightarrow> f64 \<Rightarrow> issue list" where
  "freshness_latency_issues latency_seconds max_seconds = (case latency_seconds of
      None \<Rightarrow> []
    | Some latency \<Rightarrow>
        if \<not> f_is_finite latency \<or> f_lt latency (Fin 0)
        then freshness_issue True ''breach_to_pause_latency_seconds''
               ''breach_to_pause_latency_seconds must be finite and non-negative''
        else freshness_issue (f_gt latency max_seconds)
               ''breach_to_pause_latency_seconds'' ''breach_to_pause_latency_seconds exceeds configured maximum'')"

text \<open>The match of \<open>validate_freshness_gate_event\<close> on the transition.\<close>

fun freshness_transition_issues :: "FreshnessGateTransition \<Rightarrow> FreshnessGateEvent \<Rightarrow> issue list" where
  "freshness_transition_issues FreshnessGateTransition.RecoveryPending event =
     freshness_issue (\<not> fe_pause_active event \<or> \<not> fe_block_new_order_creation event) ''pause_active''
       ''recovery_pending transition must remain fail-closed while stability window runs''
   @ freshness_issue (fe_recovery_window_started_at_utc event = None) ''recovery_window_started_at_utc''
       ''recovery_pending transition requires recovery_window_started_at_utc''"
| "freshness_transition_issues FreshnessGateTransition.RecoveryConfirmed event =
     freshness_issue (fe_pause_active event \<or> fe_block_new_order_creation event) ''pause_active''
       ''recovery_confirmed transition must clear pause_active and un-block orders''
   @ freshness_issue (fe_recovery_confirmed_at_utc event = None) ''recovery_confirmed_at_utc''
       ''recovery_confirmed transition requires recovery_confirmed_at_utc''"
| "freshness_transition_issues transition event =
     freshness_issue (\<not> fe_pause_active event \<or> \<not> fe_block_new_order_creation event) ''pause_active''
       ''pause transitions must keep pause_active and block_new_order_creation true''
   @ freshness_issue (fe_pause_activated_at_utc event = None) ''pause_activated_at_utc''
       ''pause transitions require pause_activated_at_utc''
   @ freshness_issue (transition = FreshnessGateTransition.PauseActivated
         \<and> fe_stale_breach_detected_at_utc event = None) ''stale_breach_detected_at_utc''
       ''pause_activated transition requires stale_breach_detected_at_utc''"

definition validate_freshness_gate_event ::
    "time_crate \<Rightarrow> FreshnessGateEvent \<Rightarrow> FreshnessGateContractError + unit" where
  "validate_freshness_gate_event T event = reject_if
     (validate_freshness_non_empty ''event_id'' (fe_event_id event)
    @ validate_freshness_non_empty ''reason_code'' (fe_reason_code event)
    @ validate_freshness_non_empty ''correlation_id'' (fe_correlation_id event)
    @ validate_non_negative_freshness_age ''market_data_age_seconds'' (fe_market_data_age_seconds event) False
    @ validate_non_negative_freshness_age ''user_data_age_seconds'' (fe_user_data_age_seconds event) False
    @ validate_non_negative_freshness_age ''stale_threshold_seconds'' (Some (fe_stale_threshold_seconds event)) True
    @ validate_non_negative_freshness_age ''stability_window_seconds'' (Some (fe_stability_window_seconds event)) True
    @ validate_non_negative_freshness_age ''max_breach_to_pause_seconds''
        (Some (fe_max_breach_to_pause_seconds event)) True
    @ validate_freshness_timestamp_field T ''evaluated_at_utc'' (fe_evaluated_at_utc event)
    @ validate_optional_freshness_timestamp T ''stale_breach_detected_at_utc'' (fe_stale_breach_detected_at_utc event)
    @ validate_optional_freshness_timestamp T ''pause_activated_at_utc'' (fe_pause_activated_at_utc event)
    @ validate_optional_freshness_timestamp T ''recovery_window_started_at_utc''
        (fe_recovery_window_started_at_utc event)
    @ validate_optional_freshness_timestamp T ''recovery_confirmed_at_utc'' (fe_recovery_confirmed_at_utc event)
    @ freshness_latency_issues (fe_breach_to_pause_latency_seconds event) (fe_max_breach_to_pause_seconds event)
    @ freshness_issue (is_err (FreshnessGateReasonCode_parse (fe_reason_code event)))
        ''reason_code'' ''reason_code must be a known freshness gate reason''
    @ freshness_transition_issues (fe_transition event) event)
     (FreshnessGateContractError_invalid_payload_with_issues ''freshness gate event is invalid'')"

section \<open>Evaluation\<close>

definition compute_elapsed_seconds :: "time_crate \<Rightarrow> string \<Rightarrow> string \<Rightarrow> FreshnessGateContractError + f64" where
  "compute_elapsed_seconds T start_utc end_utc = (case parse_utc_timestamp T start_utc of
      None \<Rightarrow> Inl (FreshnessGateContractError_invalid_payload ''start timestamp must be RFC3339 UTC'')
    | Some start \<Rightarrow> (case parse_utc_timestamp T end_utc of
        None \<Rightarrow> Inl (FreshnessGateContractError_invalid_payload ''end timestamp must be RFC3339 UTC'')
      | Some end' \<Rightarrow>
          if end' < start
          then Inl (FreshnessGateContractError_invalid_payload
                 ''end timestamp cannot be earlier than start timestamp'')
          else Inr (dur_as_seconds_f64 T (end' - start))))"

text \<open>\<open>opt.unwrap_or_else\<close>\<close>

abbreviation unwrap_or :: "'a option \<Rightarrow> 'a \<Rightarrow> 'a" where
  "unwrap_or opt d \<equiv> (case opt of Some a \<Rightarrow> a | None \<Rightarrow> d)"

definition evaluate_freshness_gate ::
    "time_crate \<Rightarrow> FreshnessSnapshot \<Rightarrow> FreshnessGateState option \<Rightarrow> FreshnessGatePolicy
      \<Rightarrow> FreshnessGateContractError + FreshnessGateEvaluationOutcome" where
  "evaluate_freshness_gate T snapshot previous_state policy =
     and_then (validate_freshness_snapshot T snapshot) (\<lambda>_.
     and_then (validate_freshness_gate_policy policy) (\<lambda>_.
     and_then (case previous_state of Some state \<Rightarrow> validate_freshness_gate_state T state | None \<Rightarrow> Inr ()) (\<lambda>_.
     let missing_inputs = (fs_market_data_age_seconds snapshot = None \<or> fs_user_data_age_seconds snapshot = None);
         market_stale = (case fs_market_data_age_seconds snapshot of
           Some age \<Rightarrow> f_gt age (fp_stale_threshold_seconds policy) | None \<Rightarrow> False);
         user_stale = (case fs_user_data_age_seconds snapshot of
           Some age \<Rightarrow> f_gt age (fp_stale_threshold_seconds policy) | None \<Rightarrow> False);
         stale_breach = (market_stale \<or> user_stale);
         was_paused = (case previous_state of Some state \<Rightarrow> fg_pause_active state | None \<Rightarrow> False);
         previous = (\<lambda>field. Option.bind previous_state field)
     in if missing_inputs \<or> stale_breach then
       let detected = (if was_paused
             then unwrap_or (previous fg_stale_breach_detected_at_utc) (fs_sampled_at_utc snapshot)
             else fs_sampled_at_utc snapshot);
           activated = (if was_paused
             then unwrap_or (previous fg_pause_activated_at_utc) (fs_sampled_at_utc snapshot)
             else fs_sampled_at_utc snapshot);
           transition = (if was_paused then FreshnessGateTransition.PauseMaintained
             else FreshnessGateTransition.PauseActivated);
           reason = (if missing_inputs then FreshnessGateReasonCode.StateUnavailable
             else FreshnessGateReasonCode.StaleBreach)
       in and_then (if transition = FreshnessGateTransition.PauseActivated
                    then and_then (compute_elapsed_seconds T detected activated) (\<lambda>x. Inr (Some x))
                    else Inr None) (\<lambda>latency.
       Inr
         \<lparr>fo_transition = Some transition, fo_reason_code = FreshnessGateReasonCode_code reason,
          fo_pause_active = True, fo_block_new_order_creation = True,
          fo_market_data_age_seconds = fs_market_data_age_seconds snapshot,
          fo_user_data_age_seconds = fs_user_data_age_seconds snapshot,
          fo_stale_breach_detected_at_utc = Some detected, fo_pause_activated_at_utc = Some activated,
          fo_recovery_window_started_at_utc = None, fo_recovery_confirmed_at_utc = None,
          fo_breach_to_pause_latency_seconds = latency,
          fo_evaluated_at_utc = fs_sampled_at_utc snapshot,
          fo_correlation_id = fs_correlation_id snapshot\<rparr>)
     else if was_paused then
       let window_start = unwrap_or (previous fg_recovery_window_started_at_utc) (fs_sampled_at_utc snapshot)
       in and_then (compute_elapsed_seconds T window_start (fs_sampled_at_utc snapshot)) (\<lambda>elapsed.
       if f_ge elapsed (fp_stability_window_seconds policy) then Inr
         \<lparr>fo_transition = Some FreshnessGateTransition.RecoveryConfirmed,
          fo_reason_code = FreshnessGateReasonCode_code FreshnessGateReasonCode.RecoveryConfirmed,
          fo_pause_active = False, fo_block_new_order_creation = False,
          fo_market_data_age_seconds = fs_market_data_age_seconds snapshot,
          fo_user_data_age_seconds = fs_user_data_age_seconds snapshot,
          fo_stale_breach_detected_at_utc = previous fg_stale_breach_detected_at_utc,
          fo_pause_activated_at_utc = previous fg_pause_activated_at_utc,
          fo_recovery_window_started_at_utc = Some window_start,
          fo_recovery_confirmed_at_utc = Some (fs_sampled_at_utc snapshot),
          fo_breach_to_pause_latency_seconds = None,
          fo_evaluated_at_utc = fs_sampled_at_utc snapshot,
          fo_correlation_id = fs_correlation_id snapshot\<rparr>
       else Inr
         \<lparr>fo_transition = Some FreshnessGateTransition.RecoveryPending,
          fo_reason_code = FreshnessGateReasonCode_code FreshnessGateReasonCode.RecoveryPending,
          fo_pause_active = True, fo_block_new_order_creation = True,
          fo_market_data_age_seconds = fs_market_data_age_seconds snapshot,
          fo_user_data_age_seconds = fs_user_data_age_seconds snapshot,
          fo_stale_breach_detected_at_utc = previous fg_stale_breach_detected_at_utc,
          fo_pause_activated_at_utc = previous fg_pause_activated_at_utc,
          fo_recovery_window_started_at_utc = Some window_start,
          fo_recovery_confirmed_at_utc = None,
          fo_breach_to_pause_latency_seconds = None,
          fo_evaluated_at_utc = fs_sampled_at_utc snapshot,
          fo_correlation_id = fs_correlation_id snapshot\<rparr>)
     else Inr
       \<lparr>fo_transition = None,
        fo_reason_code = FreshnessGateReasonCode_code FreshnessGateReasonCode.BoundarySafe,
        fo_pause_active = False, fo_block_new_order_creation = False,
        fo_market_data_age_seconds = fs_market_data_age_seconds snapshot,
        fo_user_data_age_seconds = fs_user_data_age_seconds snapshot,
        fo_stale_breach_detected_at_utc = None, fo_pause_activated_at_utc = None,
        fo_recovery_window_started_at_utc = None, fo_recovery_confirmed_at_utc = None,
        fo_breach_to_pause_latency_seconds = None,
        fo_evaluated_at_utc = fs_sampled_at_utc snapshot,
        fo_correlation_id = fs_correlation_id snapshot\<rparr>)))"

section \<open>What the validators accept\<close>

definition optional_ok :: "('a \<Rightarrow> bool) \<Rightarrow> 'a option \<Rightarrow> bool" where
  "optional_ok P v = (case v of Some x \<Rightarrow> P x | None \<Rightarrow> True)"

lemma optional_ok_simps [simp]: "optional_ok P None" "optional_ok P (Some x) = P x"
  by (simp_all add: optional_ok_def)

lemma freshness_field_specs [issue_specs]:
  "validate_non_negative_freshness_age f (Some x) r = [] \<longleftrightarrow> amount_ok x"
  "validate_non_negative_freshness_age f v False = [] \<longleftrightarrow> optional_ok amount_ok v"
  "validate_freshness_timestamp_field T f t = [] \<longleftrightarrow> utc_ok T t"
  "validate_optional_freshness_timestamp T f o' = [] \<longleftrightarrow> optional_ok (utc_ok T) o'"
  "validate_freshness_non_empty f t = [] \<longleftrightarrow> \<not> blank t"
  by (cases x; cases v; cases o'; auto simp: validate_non_negative_freshness_age_def amount_ok_def
      validate_freshness_timestamp_field_def validate_optional_freshness_timestamp_def
      validate_freshness_non_empty_def)+

lemma freshness_code_not_blank [simp]: "\<not> blank (FreshnessGateReasonCode_code c)"
  by (cases c) (simp_all add: trim_id ws_defs)

definition freshness_policy_wf :: "FreshnessGatePolicy \<Rightarrow> bool" where
  "freshness_policy_wf p \<longleftrightarrow>
     amount_ok (fp_stale_threshold_seconds p) \<and> amount_ok (fp_stability_window_seconds p)
   \<and> amount_ok (fp_max_breach_to_pause_seconds p)
   \<and> f_le (fp_max_breach_to_pause_seconds p) (fp_stale_threshold_seconds p)"

definition freshness_snapshot_wf :: "time_crate \<Rightarrow> FreshnessSnapshot \<Rightarrow> bool" where
  "freshness_snapshot_wf T s \<longleftrightarrow>
     optional_ok amount_ok (fs_market_data_age_seconds s) \<and> optional_ok amount_ok (fs_user_data_age_seconds s)
   \<and> utc_ok T (fs_sampled_at_utc s) \<and> \<not> blank (fs_correlation_id s)"

definition freshness_state_wf :: "time_crate \<Rightarrow> FreshnessGateState \<Rightarrow> bool" where
  "freshness_state_wf T st \<longleftrightarrow>
     \<not> isl (FreshnessGateReasonCode_parse (fg_reason_code st)) \<and> \<not> blank (fg_reason_code st)
   \<and> utc_ok T (fg_last_evaluated_at_utc st)
   \<and> optional_ok (utc_ok T) (fg_stale_breach_detected_at_utc st)
   \<and> optional_ok (utc_ok T) (fg_pause_activated_at_utc st)
   \<and> optional_ok (utc_ok T) (fg_recovery_window_started_at_utc st)
   \<and> (fg_pause_activated_at_utc st = None \<longrightarrow> \<not> fg_pause_active st)"

lemma freshness_validators_Inr [simp]:
  "validate_freshness_gate_policy p = Inr u \<longleftrightarrow> freshness_policy_wf p"
  "validate_freshness_snapshot T s = Inr u \<longleftrightarrow> freshness_snapshot_wf T s"
  "validate_freshness_gate_state T st = Inr u \<longleftrightarrow> freshness_state_wf T st"
proof -
  have "amount_ok x \<Longrightarrow> amount_ok y \<Longrightarrow> f_lt x y \<longleftrightarrow> \<not> f_le y x" for x y
    by (auto simp: amount_ok_def f_lt_finite)
  then show "validate_freshness_gate_policy p = Inr u \<longleftrightarrow> freshness_policy_wf p"
    by (auto simp: validate_freshness_gate_policy_def freshness_policy_wf_def issue_specs)
qed (auto simp: validate_freshness_snapshot_def freshness_snapshot_wf_def validate_freshness_gate_state_def
    freshness_state_wf_def issue_specs)

section \<open>One evaluation\<close>

definition snapshot_fresh :: "FreshnessGatePolicy \<Rightarrow> FreshnessSnapshot \<Rightarrow> bool" where
  "snapshot_fresh p s \<longleftrightarrow>
     (case (fs_market_data_age_seconds s, fs_user_data_age_seconds s) of
        (Some m, Some u) \<Rightarrow>
          \<not> f_gt m (fp_stale_threshold_seconds p) \<and> \<not> f_gt u (fp_stale_threshold_seconds p)
      | _ \<Rightarrow> False)"

definition gate_paused :: "FreshnessGateState option \<Rightarrow> bool" where
  "gate_paused st = (case st of Some state \<Rightarrow> fg_pause_active state | None \<Rightarrow> False)"

definition window_start :: "FreshnessSnapshot \<Rightarrow> FreshnessGateState option \<Rightarrow> string" where
  "window_start s st = unwrap_or (Option.bind st fg_recovery_window_started_at_utc) (fs_sampled_at_utc s)"

lemma stale_condition:
  "(fs_market_data_age_seconds s = None \<or> fs_user_data_age_seconds s = None)
   \<or> (case fs_market_data_age_seconds s of
        Some age \<Rightarrow> f_gt age (fp_stale_threshold_seconds p) | None \<Rightarrow> False)
   \<or> (case fs_user_data_age_seconds s of
        Some age \<Rightarrow> f_gt age (fp_stale_threshold_seconds p) | None \<Rightarrow> False) \<longleftrightarrow> \<not> snapshot_fresh p s"
  by (auto simp: snapshot_fresh_def split: option.splits)

lemma compute_elapsed_same: "utc_ok T t \<Longrightarrow> compute_elapsed_seconds T t t = Inr (dur_as_seconds_f64 T 0)"
  by (auto simp: compute_elapsed_seconds_def)

lemma evaluate_inputs_ok:
  assumes "evaluate_freshness_gate T s st p = Inr out"
  shows "freshness_snapshot_wf T s" "freshness_policy_wf p" "optional_ok (freshness_state_wf T) st"
  using assms by (auto simp: evaluate_freshness_gate_def and_then_Inr_iff split: option.splits)

lemma evaluate_carries:
  assumes "evaluate_freshness_gate T s st p = Inr out"
  shows "fo_evaluated_at_utc out = fs_sampled_at_utc s" "fo_correlation_id out = fs_correlation_id s"
    "fo_market_data_age_seconds out = fs_market_data_age_seconds s"
    "fo_user_data_age_seconds out = fs_user_data_age_seconds s"
    "fo_block_new_order_creation out = fo_pause_active out"
  using assms by (auto simp: evaluate_freshness_gate_def and_then_Inr_iff Let_def split: if_splits)

lemma evaluate_stale:
  assumes "evaluate_freshness_gate T s st p = Inr out" and "\<not> snapshot_fresh p s"
  shows "fo_pause_active out" "fo_recovery_window_started_at_utc out = None"
    "fo_recovery_confirmed_at_utc out = None"
    "fo_transition out = Some (if gate_paused st then FreshnessGateTransition.PauseMaintained
       else FreshnessGateTransition.PauseActivated)"
    "fo_pause_activated_at_utc out = Some (if gate_paused st
       then unwrap_or (Option.bind st fg_pause_activated_at_utc) (fs_sampled_at_utc s) else fs_sampled_at_utc s)"
    "fo_stale_breach_detected_at_utc out = Some (if gate_paused st
       then unwrap_or (Option.bind st fg_stale_breach_detected_at_utc) (fs_sampled_at_utc s) else fs_sampled_at_utc s)"
    "fo_breach_to_pause_latency_seconds out =
       (if gate_paused st then None else Some (dur_as_seconds_f64 T 0))"
    "\<exists>c. fo_reason_code out = FreshnessGateReasonCode_code c"
proof -
  have "utc_ok T (fs_sampled_at_utc s)"
    using evaluate_inputs_ok(1)[OF assms(1)] by (simp add: freshness_snapshot_wf_def)
  note same = compute_elapsed_same[OF this]
  show "fo_pause_active out" "fo_recovery_window_started_at_utc out = None"
    "fo_recovery_confirmed_at_utc out = None"
    "fo_transition out = Some (if gate_paused st then FreshnessGateTransition.PauseMaintained
       else FreshnessGateTransition.PauseActivated)"
    "fo_pause_activated_at_utc out = Some (if gate_paused st
       then unwrap_or (Option.bind st fg_pause_activated_at_utc) (fs_sampled_at_utc s) else fs_sampled_at_utc s)"
    "fo_stale_breach_detected_at_utc out = Some (if gate_paused st
       then unwrap_or (Option.bind st fg_stale_breach_detected_at_utc) (fs_sampled_at_utc s) else fs_sampled_at_utc s)"
    "fo_breach_to_pause_latency_seconds out =
       (if gate_paused st then None else Some (dur_as_seconds_f64 T 0))"
    "\<exists>c. fo_reason_code out = FreshnessGateReasonCode_code c"
    using assms(1)
    unfolding evaluate_freshness_gate_def Let_def stale_condition gate_paused_def [symmetric]
    by (cases "gate_paused st"; auto simp: assms(2) and_then_Inr_iff same
        simp del: FreshnessGateReasonCode_code.simps)+
qed

lemma evaluate_fresh_open:
  assumes "evaluate_freshness_gate T s st p = Inr out" and "snapshot_fresh p s" and "\<not> gate_paused st"
  shows "\<not> fo_pause_active out" "fo_transition out = None" "fo_recovery_window_started_at_utc out = None"
    "fo_pause_activated_at_utc out = None" "fo_stale_breach_detected_at_utc out = None"
    "fo_recovery_confirmed_at_utc out = None" "fo_breach_to_pause_latency_seconds out = None"
    "fo_reason_code out = FreshnessGateReasonCode_code FreshnessGateReasonCode.BoundarySafe"
  using assms(1)
  unfolding evaluate_freshness_gate_def Let_def stale_condition gate_paused_def [symmetric]
  by (auto simp: assms(2,3) and_then_Inr_iff)

lemma evaluate_fresh_paused:
  assumes "evaluate_freshness_gate T s st p = Inr out" and "snapshot_fresh p s" and "gate_paused st"
  obtains e where "compute_elapsed_seconds T (window_start s st) (fs_sampled_at_utc s) = Inr e"
    "fo_recovery_window_started_at_utc out = Some (window_start s st)"
    "fo_pause_active out \<longleftrightarrow> \<not> f_ge e (fp_stability_window_seconds p)"
    "fo_transition out = Some (if f_ge e (fp_stability_window_seconds p)
       then FreshnessGateTransition.RecoveryConfirmed else FreshnessGateTransition.RecoveryPending)"
    "fo_recovery_confirmed_at_utc out = (if f_ge e (fp_stability_window_seconds p)
       then Some (fs_sampled_at_utc s) else None)"
    "fo_pause_activated_at_utc out = Option.bind st fg_pause_activated_at_utc"
    "fo_stale_breach_detected_at_utc out = Option.bind st fg_stale_breach_detected_at_utc"
    "fo_breach_to_pause_latency_seconds out = None"
    "\<exists>c. fo_reason_code out = FreshnessGateReasonCode_code c"
  using assms(1)
  unfolding evaluate_freshness_gate_def Let_def stale_condition gate_paused_def [symmetric]
    window_start_def [symmetric]
  using that by (auto simp: assms(2,3) and_then_Inr_iff simp del: FreshnessGateReasonCode_code.simps split: if_splits)

section \<open>Outcomes are recordable\<close>

lemma elapsed_utc_ok:
  assumes "compute_elapsed_seconds T a b = Inr e"
  shows "utc_ok T a"
  using assms by (auto simp: compute_elapsed_seconds_def split: option.splits)

lemma known_reason [simp]: "\<not> isl (FreshnessGateReasonCode_parse (FreshnessGateReasonCode_code c))"
  by (simp add: freshness_reason.code_known)

lemma optional_ok_bind: "optional_ok Q st \<Longrightarrow> (\<And>x. Q x \<Longrightarrow> optional_ok P (f x)) \<Longrightarrow> optional_ok P (Option.bind st f)"
  by (cases st) auto

lemma state_timestamps_ok:
  assumes "optional_ok (freshness_state_wf T) st"
  shows "optional_ok (utc_ok T) (Option.bind st fg_stale_breach_detected_at_utc)"
    "optional_ok (utc_ok T) (Option.bind st fg_pause_activated_at_utc)"
    "optional_ok (utc_ok T) (Option.bind st fg_recovery_window_started_at_utc)"
  using assms by (cases st; simp add: freshness_state_wf_def)+

lemma optional_unwrap: "optional_ok P v \<Longrightarrow> P d \<Longrightarrow> P (unwrap_or v d)"
  by (cases v) auto

text \<open>What every outcome keeps: all its timestamps are readable, a pause has its start.\<close>

lemma outcome_timestamps:
  assumes "evaluate_freshness_gate T s st p = Inr out"
  shows "utc_ok T (fo_evaluated_at_utc out)"
    "optional_ok (utc_ok T) (fo_stale_breach_detected_at_utc out)"
    "optional_ok (utc_ok T) (fo_pause_activated_at_utc out)"
    "optional_ok (utc_ok T) (fo_recovery_window_started_at_utc out)"
    "optional_ok (utc_ok T) (fo_recovery_confirmed_at_utc out)"
    "fo_pause_active out \<Longrightarrow> fo_pause_activated_at_utc out \<noteq> None"
    "\<exists>c. fo_reason_code out = FreshnessGateReasonCode_code c"
proof -
  have ok: "utc_ok T (fs_sampled_at_utc s)" "optional_ok (freshness_state_wf T) st"
    using evaluate_inputs_ok[OF assms] by (simp_all add: freshness_snapshot_wf_def)
  note ts = state_timestamps_ok[OF ok(2)]
  have act: "gate_paused st \<Longrightarrow> Option.bind st fg_pause_activated_at_utc \<noteq> None"
    using ok(2) by (cases st) (auto simp: gate_paused_def freshness_state_wf_def)
  show "utc_ok T (fo_evaluated_at_utc out)" using evaluate_carries(1)[OF assms] ok by simp
  consider (stale) "\<not> snapshot_fresh p s" | (opened) "snapshot_fresh p s" "\<not> gate_paused st"
    | (paused) "snapshot_fresh p s" "gate_paused st" by blast
  then have "optional_ok (utc_ok T) (fo_stale_breach_detected_at_utc out)
    \<and> optional_ok (utc_ok T) (fo_pause_activated_at_utc out)
    \<and> optional_ok (utc_ok T) (fo_recovery_window_started_at_utc out)
    \<and> optional_ok (utc_ok T) (fo_recovery_confirmed_at_utc out)
    \<and> (fo_pause_active out \<longrightarrow> fo_pause_activated_at_utc out \<noteq> None)
    \<and> (\<exists>c. fo_reason_code out = FreshnessGateReasonCode_code c)"
  proof cases
    case stale
    show ?thesis
      using evaluate_stale[OF assms stale] ok(1) optional_unwrap[OF ts(1) ok(1)] optional_unwrap[OF ts(2) ok(1)]
      by simp
  next
    case opened
    show ?thesis
      using evaluate_fresh_open[OF assms opened] by (auto simp del: FreshnessGateReasonCode_code.simps)
  next
    case paused
    show ?thesis
      by (rule evaluate_fresh_paused[OF assms paused])
        (use ok(1) ts(1,2) act[OF paused(2)] elapsed_utc_ok in \<open>simp split: if_splits\<close>)
  qed
  then show "optional_ok (utc_ok T) (fo_stale_breach_detected_at_utc out)"
    "optional_ok (utc_ok T) (fo_pause_activated_at_utc out)"
    "optional_ok (utc_ok T) (fo_recovery_window_started_at_utc out)"
    "optional_ok (utc_ok T) (fo_recovery_confirmed_at_utc out)"
    "fo_pause_active out \<Longrightarrow> fo_pause_activated_at_utc out \<noteq> None"
    "\<exists>c. fo_reason_code out = FreshnessGateReasonCode_code c"
    by blast+
qed

lemma outcome_state_wf:
  assumes "evaluate_freshness_gate T s st p = Inr out"
  shows "freshness_state_wf T (FreshnessGateEvaluationOutcome_to_state out)"
proof -
  obtain c where "fo_reason_code out = FreshnessGateReasonCode_code c" using outcome_timestamps(7)[OF assms] ..
  then show ?thesis
    using outcome_timestamps[OF assms] by (auto simp: freshness_state_wf_def FreshnessGateEvaluationOutcome_to_state_def)
qed

lemma latency_issues_Nil:
  "amount_ok m \<Longrightarrow> freshness_latency_issues v m = [] \<longleftrightarrow> optional_ok (\<lambda>x. amount_ok x \<and> f_le x m) v"
proof (cases v)
  case (Some x)
  then show "amount_ok m \<Longrightarrow> ?thesis"
    by (cases x; cases m) (auto simp: freshness_latency_issues_def amount_ok_def)
qed (simp add: freshness_latency_issues_def)

lemma event_valid_iff:
  "validate_freshness_gate_event T e = Inr u \<longleftrightarrow>
     \<not> blank (fe_event_id e) \<and> \<not> blank (fe_reason_code e) \<and> \<not> blank (fe_correlation_id e)
   \<and> optional_ok amount_ok (fe_market_data_age_seconds e) \<and> optional_ok amount_ok (fe_user_data_age_seconds e)
   \<and> amount_ok (fe_stale_threshold_seconds e) \<and> amount_ok (fe_stability_window_seconds e)
   \<and> amount_ok (fe_max_breach_to_pause_seconds e) \<and> utc_ok T (fe_evaluated_at_utc e)
   \<and> optional_ok (utc_ok T) (fe_stale_breach_detected_at_utc e)
   \<and> optional_ok (utc_ok T) (fe_pause_activated_at_utc e)
   \<and> optional_ok (utc_ok T) (fe_recovery_window_started_at_utc e)
   \<and> optional_ok (utc_ok T) (fe_recovery_confirmed_at_utc e)
   \<and> optional_ok (\<lambda>x. amount_ok x \<and> f_le x (fe_max_breach_to_pause_seconds e)) (fe_breach_to_pause_latency_seconds e)
   \<and> \<not> isl (FreshnessGateReasonCode_parse (fe_reason_code e))
   \<and> freshness_transition_issues (fe_transition e) e = []"
  using latency_issues_Nil[of "fe_max_breach_to_pause_seconds e" "fe_breach_to_pause_latency_seconds e"]
  by (cases "amount_ok (fe_max_breach_to_pause_seconds e)")
    (simp_all add: validate_freshness_gate_event_def issue_specs)

lemma outcome_event_valid:
  assumes "time_crate_ok T" and e: "evaluate_freshness_gate T s st p = Inr out"
    and "FreshnessGateEvaluationOutcome_to_event out event_id p = Some ev" and "\<not> blank event_id"
  shows "validate_freshness_gate_event T ev = Inr ()"
proof -
  obtain tr where tr: "fo_transition out = Some tr"
    using assms(3) by (auto simp: FreshnessGateEvaluationOutcome_to_event_def)
  have inputs: "freshness_snapshot_wf T s" "freshness_policy_wf p" by (rule evaluate_inputs_ok[OF e])+
  have zero: "dur_as_seconds_f64 T 0 = Fin 0" using assms(1) by (simp add: time_crate_ok_def)
  have amount0: "amount_ok (Fin 0)" "amount_ok x \<Longrightarrow> f_le (Fin 0) x" for x by (simp_all add: amount_ok_def)
  obtain c where c: "fo_reason_code out = FreshnessGateReasonCode_code c" using outcome_timestamps(7)[OF e] ..
  have latency: "optional_ok (\<lambda>x. amount_ok x \<and> f_le x (fp_max_breach_to_pause_seconds p))
      (fo_breach_to_pause_latency_seconds out)"
  proof (cases "snapshot_fresh p s")
    case False
    then show ?thesis
      using evaluate_stale(7)[OF e False] inputs(2) zero amount0 by (simp add: freshness_policy_wf_def)
  next
    case True
    show ?thesis
    proof (cases "gate_paused st")
      case False
      then show ?thesis using evaluate_fresh_open(7)[OF e True] by simp
    next
      case paused: True
      show ?thesis by (rule evaluate_fresh_paused[OF e True paused]) simp
    qed
  qed
  have transition: "freshness_transition_issues tr ev = []"
  proof (cases "snapshot_fresh p s")
    case False
    note st = evaluate_stale[OF e False]
    have "tr = FreshnessGateTransition.PauseMaintained \<or> tr = FreshnessGateTransition.PauseActivated"
      using st(4) tr by (auto split: if_splits)
    then show ?thesis
      using st(1,5,6) evaluate_carries(5)[OF e] assms(3) tr
      by (auto simp: FreshnessGateEvaluationOutcome_to_event_def)
  next
    case True
    have g: "gate_paused st" using evaluate_fresh_open(2)[OF e True] tr by auto
    show ?thesis
      by (rule evaluate_fresh_paused[OF e True g])
        (use tr assms(3) evaluate_carries(5)[OF e] in \<open>auto simp: FreshnessGateEvaluationOutcome_to_event_def
          split: if_splits\<close>)
  qed
  show ?thesis
    unfolding event_valid_iff
    using assms(3,4) tr inputs c latency transition outcome_timestamps(1-5)[OF e] evaluate_carries(2-4)[OF e]
    by (auto simp: FreshnessGateEvaluationOutcome_to_event_def freshness_snapshot_wf_def freshness_policy_wf_def)
qed

section \<open>Runs of the gate\<close>

text \<open>
  The states the gate reaches from a cold start, with the snapshots evaluated so far, newest
  first. An evaluation that fails leaves the state as it is.
\<close>

inductive freshness_reach :: "time_crate \<Rightarrow> FreshnessGatePolicy \<Rightarrow> FreshnessSnapshot list \<Rightarrow> FreshnessGateState option \<Rightarrow> bool"
  for T p where
  start: "freshness_reach T p [] None"
| evaluated: "freshness_reach T p hist st \<Longrightarrow> evaluate_freshness_gate T s st p = Inr out \<Longrightarrow>
    freshness_reach T p (s # hist) (Some (FreshnessGateEvaluationOutcome_to_state out))"
| failed: "freshness_reach T p hist st \<Longrightarrow> isl (evaluate_freshness_gate T s st p) \<Longrightarrow> freshness_reach T p hist st"

inductive_cases freshness_reach_None [elim!]: "freshness_reach T p (s # hist) None"

text \<open>
  What a reachable state says about its past: an open gate was opened by a fresh snapshot; a
  recovery window that has started at \<open>w\<close> has seen only fresh snapshots since one sampled at \<open>w\<close>.
\<close>

definition fresh_since :: "FreshnessGatePolicy \<Rightarrow> string \<Rightarrow> FreshnessSnapshot list \<Rightarrow> bool" where
  "fresh_since p w hist \<longleftrightarrow> (\<exists>recent first older. hist = recent @ first # older
     \<and> list_all (snapshot_fresh p) (recent @ [first]) \<and> fs_sampled_at_utc first = w)"

definition gate_state_inv :: "FreshnessGatePolicy \<Rightarrow> FreshnessSnapshot list \<Rightarrow> FreshnessGateState option \<Rightarrow> bool" where
  "gate_state_inv p hist st = (case st of
     None \<Rightarrow> hist = []
   | Some state \<Rightarrow> hist \<noteq> []
       \<and> (fg_pause_active state \<or> snapshot_fresh p (hd hist))
       \<and> (fg_pause_active state \<longrightarrow> (case fg_recovery_window_started_at_utc state of
            None \<Rightarrow> \<not> snapshot_fresh p (hd hist) | Some w \<Rightarrow> fresh_since p w hist)))"

lemma fresh_since_first: "snapshot_fresh p s \<Longrightarrow> fresh_since p (fs_sampled_at_utc s) (s # hist)"
  unfolding fresh_since_def by (rule exI[of _ "[]"]) auto

lemma fresh_since_step:
  assumes "fresh_since p w hist" "snapshot_fresh p s"
  shows "fresh_since p w (s # hist)"
proof -
  obtain recent first older where "hist = recent @ first # older"
      "list_all (snapshot_fresh p) (recent @ [first])" "fs_sampled_at_utc first = w"
    using assms(1) by (auto simp: fresh_since_def)
  then have "s # hist = (s # recent) @ first # older" "list_all (snapshot_fresh p) ((s # recent) @ [first])"
    "fs_sampled_at_utc first = w"
    using assms(2) by simp_all
  then show ?thesis unfolding fresh_since_def by blast
qed

lemma window_fresh_since:
  assumes "gate_state_inv p hist st" "gate_paused st" "snapshot_fresh p s"
  shows "fresh_since p (window_start s st) (s # hist)"
  using assms by (auto simp: gate_state_inv_def gate_paused_def window_start_def
      intro: fresh_since_first fresh_since_step split: option.splits)

lemma freshness_reach_inv:
  assumes "freshness_reach T p hist st"
  shows "gate_state_inv p hist st"
  using assms
proof induction
  case start
  then show ?case by (simp add: gate_state_inv_def)
next
  case (evaluated hist st s out)
  show ?case
  proof (cases "snapshot_fresh p s")
    case False
    then show ?thesis
      using evaluate_stale(1,2)[OF evaluated.hyps(2)]
      by (simp add: gate_state_inv_def FreshnessGateEvaluationOutcome_to_state_def)
  next
    case True
    show ?thesis
    proof (cases "gate_paused st")
      case False
      then show ?thesis
        using True evaluate_fresh_open(1)[OF evaluated.hyps(2) True False]
        by (simp add: gate_state_inv_def FreshnessGateEvaluationOutcome_to_state_def)
    next
      case paused: True
      show ?thesis
        by (rule evaluate_fresh_paused[OF evaluated.hyps(2) True paused])
          (use True window_fresh_since[OF evaluated.IH paused True] in
            \<open>simp add: gate_state_inv_def FreshnessGateEvaluationOutcome_to_state_def\<close>)
    qed
  qed
qed

text \<open>
  A full window of fresh snapshots has passed since the last one that was not fresh: the run
  ends in fresh snapshots only, and already at \<open>s\<close>, one of them, the time since \<open>w\<close> was at least
  the stability window.
\<close>

definition fresh_window :: "time_crate \<Rightarrow> FreshnessGatePolicy \<Rightarrow> FreshnessSnapshot list \<Rightarrow> bool" where
  "fresh_window T p hist \<longleftrightarrow> (\<exists>later s earlier w elapsed. hist = later @ s # earlier
     \<and> list_all (snapshot_fresh p) later \<and> fresh_since p w (s # earlier)
     \<and> compute_elapsed_seconds T w (fs_sampled_at_utc s) = Inr elapsed
     \<and> f_ge elapsed (fp_stability_window_seconds p))"

lemma fresh_window_step: "fresh_window T p hist \<Longrightarrow> snapshot_fresh p s \<Longrightarrow> fresh_window T p (s # hist)"
  unfolding fresh_window_def by (metis append_Cons list.pred_inject(2))

lemma confirmed_window:
  assumes "freshness_reach T p hist st" and "evaluate_freshness_gate T s st p = Inr out"
    and "snapshot_fresh p s" "gate_paused st"
    and "\<not> fo_pause_active out \<or> fo_transition out = Some FreshnessGateTransition.RecoveryConfirmed"
  shows "\<exists>w elapsed. fresh_since p w (s # hist)
    \<and> compute_elapsed_seconds T w (fs_sampled_at_utc s) = Inr elapsed
    \<and> f_ge elapsed (fp_stability_window_seconds p)"
  by (rule evaluate_fresh_paused[OF assms(2-4)])
    (use assms(5) window_fresh_since[OF freshness_reach_inv[OF assms(1)] assms(4,3)] in \<open>auto split: if_splits\<close>)

lemma open_gate_step:
  assumes "freshness_reach T p hist st" and "evaluate_freshness_gate T s st p = Inr out"
    and "\<not> gate_paused st \<Longrightarrow> list_all (snapshot_fresh p) hist \<or> fresh_window T p hist"
    and "\<not> fo_pause_active out"
  shows "list_all (snapshot_fresh p) (s # hist) \<or> fresh_window T p (s # hist)"
proof -
  have fresh: "snapshot_fresh p s" using evaluate_stale(1)[OF assms(2)] assms(4) by blast
  show ?thesis
  proof (cases "gate_paused st")
    case True
    then obtain w elapsed where "fresh_since p w (s # hist)"
      "compute_elapsed_seconds T w (fs_sampled_at_utc s) = Inr elapsed" "f_ge elapsed (fp_stability_window_seconds p)"
      using confirmed_window[OF assms(1,2) fresh] assms(4) by blast
    moreover have "s # hist = [] @ s # hist" "list_all (snapshot_fresh p) []" by simp_all
    ultimately have "fresh_window T p (s # hist)" unfolding fresh_window_def by blast
    then show ?thesis by simp
  next
    case False
    then show ?thesis using assms(3) fresh fresh_window_step by auto
  qed
qed

lemma open_gate_run:
  assumes "freshness_reach T p hist st" "\<not> gate_paused st"
  shows "list_all (snapshot_fresh p) hist \<or> fresh_window T p hist"
  using assms
proof induction
  case (evaluated hist st s out)
  then show ?case
    using open_gate_step[OF evaluated.hyps evaluated.IH]
    by (simp add: gate_paused_def FreshnessGateEvaluationOutcome_to_state_def)
qed simp_all

section \<open>Properties\<close>

text \<open>
  C4: The gate fails closed: an evaluation that succeeds pauses and blocks new orders whenever
  an input is missing or older than the threshold, opens only on fresh inputs, and blocks
  exactly while it pauses; what it reports always passes the validators of the gate's state and
  of its event (for an event id that is not blank), so a pause is never lost to a contract error.
\<close>

theorem freshness_gate_fails_closed:
  assumes "time_crate_ok T" and "evaluate_freshness_gate T s st p = Inr out" and "\<not> blank event_id"
  shows "(snapshot_fresh p s \<or> fo_pause_active out)
    \<and> fo_block_new_order_creation out = fo_pause_active out
    \<and> validate_freshness_gate_state T (FreshnessGateEvaluationOutcome_to_state out) = Inr ()
    \<and> (case FreshnessGateEvaluationOutcome_to_event out event_id p of
         None \<Rightarrow> snapshot_fresh p s \<and> \<not> gate_paused st
       | Some ev \<Rightarrow> validate_freshness_gate_event T ev = Inr ())"
proof -
  have "fo_transition out \<noteq> None" if "\<not> snapshot_fresh p s \<or> gate_paused st"
    using that evaluate_stale(4)[OF assms(2)] evaluate_fresh_paused[OF assms(2)]
    by (cases "snapshot_fresh p s") auto
  then have "FreshnessGateEvaluationOutcome_to_event out i p = None \<Longrightarrow> snapshot_fresh p s \<and> \<not> gate_paused st" for i
    by (auto simp: FreshnessGateEvaluationOutcome_to_event_def)
  then show ?thesis
    using evaluate_stale(1)[OF assms(2)] evaluate_carries(5)[OF assms(2)] outcome_state_wf[OF assms(2)]
      outcome_event_valid[OF assms(1,2) _ assms(3)]
    by (auto split: option.splits)
qed

text \<open>The evaluations of a run, one after the other; a failed one leaves the state.\<close>

definition freshness_step ::
    "time_crate \<Rightarrow> FreshnessGatePolicy \<Rightarrow> FreshnessSnapshot \<Rightarrow> FreshnessGateState option \<Rightarrow> FreshnessGateState option" where
  "freshness_step T p s st = (case evaluate_freshness_gate T s st p of
      Inl _ \<Rightarrow> st | Inr out \<Rightarrow> Some (FreshnessGateEvaluationOutcome_to_state out))"

lemma freshness_reach_step:
  assumes "freshness_reach T p hist st" and "\<not> isl (evaluate_freshness_gate T s st p)"
  shows "freshness_reach T p (s # hist) (freshness_step T p s st)"
  using assms by (cases "evaluate_freshness_gate T s st p") (auto simp: freshness_step_def intro: evaluated)

definition demo_sample :: "rat option \<Rightarrow> string \<Rightarrow> FreshnessSnapshot" where
  "demo_sample age t = \<lparr>fs_market_data_age_seconds = map_option Fin age, fs_user_data_age_seconds = Some (Fin 1),
     fs_sampled_at_utc = t, fs_correlation_id = ''corr-1''\<rparr>"

theorem freshness_gate_fails_closed_witness:
  "\<exists>out. evaluate_freshness_gate demo_time (demo_sample (Some 31) ''2026-04-06T00:00:00Z'') None
       FreshnessGatePolicy_default = Inr out \<and> fo_block_new_order_creation out"
proof -
  have stale: "\<not> snapshot_fresh FreshnessGatePolicy_default (demo_sample (Some 31) ''2026-04-06T00:00:00Z'')"
    by (simp add: snapshot_fresh_def demo_sample_def FreshnessGatePolicy_default_def)
  obtain out where out: "evaluate_freshness_gate demo_time (demo_sample (Some 31) ''2026-04-06T00:00:00Z'') None
       FreshnessGatePolicy_default = Inr out"
  proof -
    have "\<not> isl (evaluate_freshness_gate demo_time (demo_sample (Some 31) ''2026-04-06T00:00:00Z'') None
       FreshnessGatePolicy_default)" by code_simp
    then show ?thesis by (rule is_okE) (rule that)
  qed
  have "\<not> blank ''freshness''" by (simp add: trim_id ws_defs)
  from freshness_gate_fails_closed[OF demo_time_ok out this] stale out show ?thesis by blast
qed

text \<open>
  C5: The gate is open only after a full window of uninterrupted freshness: in any run from a
  cold start, with failed evaluations in between, an evaluation that does not pause, or does not
  block, comes either after fresh samples only, or at or after a sample at which every evaluation
  for at least the stability window had been fresh, with none since that was not. A recovery is
  confirmed only at such a sample itself.
\<close>

theorem recovery_needs_a_fresh_window:
  assumes "freshness_reach T p hist st" and "evaluate_freshness_gate T s st p = Inr out"
  shows "(\<not> fo_pause_active out \<or> \<not> fo_block_new_order_creation out \<longrightarrow>
      list_all (snapshot_fresh p) (s # hist) \<or> fresh_window T p (s # hist))
    \<and> (fo_transition out = Some FreshnessGateTransition.RecoveryConfirmed \<longrightarrow>
      (\<exists>w elapsed. fresh_since p w (s # hist)
        \<and> compute_elapsed_seconds T w (fs_sampled_at_utc s) = Inr elapsed
        \<and> f_ge elapsed (fp_stability_window_seconds p)))"
proof (intro conjI impI)
  assume "\<not> fo_pause_active out \<or> \<not> fo_block_new_order_creation out"
  then have "\<not> fo_pause_active out" using evaluate_carries(5)[OF assms(2)] by auto
  with open_gate_step[OF assms open_gate_run[OF assms(1)]]
  show "list_all (snapshot_fresh p) (s # hist) \<or> fresh_window T p (s # hist)" by blast
next
  assume confirmed: "fo_transition out = Some FreshnessGateTransition.RecoveryConfirmed"
  have fresh: "snapshot_fresh p s"
    using evaluate_stale(4)[OF assms(2)] confirmed by (cases "snapshot_fresh p s"; cases "gate_paused st") auto
  have paused: "gate_paused st" using evaluate_fresh_open(2)[OF assms(2) fresh] confirmed by auto
  show "\<exists>w elapsed. fresh_since p w (s # hist)
        \<and> compute_elapsed_seconds T w (fs_sampled_at_utc s) = Inr elapsed
        \<and> f_ge elapsed (fp_stability_window_seconds p)"
    using confirmed_window[OF assms fresh paused] confirmed by blast
qed

lemma demo_sample_time: "fs_sampled_at_utc (demo_sample age t) = t"
  by (simp add: demo_sample_def)

lemma stability_default: "fp_stability_window_seconds FreshnessGatePolicy_default = Fin 10"
  by (simp add: FreshnessGatePolicy_default_def)

definition demo_run :: "FreshnessSnapshot list" where
  "demo_run = [demo_sample (Some 2) ''2026-04-06T00:00:05Z'', demo_sample None ''2026-04-06T00:00:01Z'',
     demo_sample (Some 1) ''2026-04-06T00:00:00Z'']"

theorem recovery_needs_a_fresh_window_witness:
  "fresh_window demo_time FreshnessGatePolicy_default (demo_sample (Some 3) ''2026-04-06T00:00:30Z'' # demo_run)
     \<and> (\<exists>w. fresh_since FreshnessGatePolicy_default w (demo_sample (Some 3) ''2026-04-06T00:00:30Z'' # demo_run)
          \<and> (\<exists>e. compute_elapsed_seconds demo_time w ''2026-04-06T00:00:30Z'' = Inr e \<and> f_ge e (Fin 10)))"
proof -
  let ?step = "freshness_step demo_time FreshnessGatePolicy_default"
  let ?a = "demo_sample (Some 1) ''2026-04-06T00:00:00Z''" and ?b = "demo_sample None ''2026-04-06T00:00:01Z''"
  let ?c = "demo_sample (Some 2) ''2026-04-06T00:00:05Z''" and ?d = "demo_sample (Some 3) ''2026-04-06T00:00:30Z''"
  have a: "freshness_reach demo_time FreshnessGatePolicy_default [?a] (?step ?a None)"
    by (rule freshness_reach_step[OF start]) code_simp
  have b: "freshness_reach demo_time FreshnessGatePolicy_default [?b, ?a] (?step ?b (?step ?a None))"
    by (rule freshness_reach_step[OF a]) code_simp
  have c: "freshness_reach demo_time FreshnessGatePolicy_default demo_run (?step ?c (?step ?b (?step ?a None)))"
    unfolding demo_run_def by (rule freshness_reach_step[OF b]) code_simp
  have "case evaluate_freshness_gate demo_time ?d (?step ?c (?step ?b (?step ?a None))) FreshnessGatePolicy_default of
      Inr out \<Rightarrow> fo_transition out = Some FreshnessGateTransition.RecoveryConfirmed \<and> \<not> fo_pause_active out | Inl _ \<Rightarrow> False"
    by code_simp
  then obtain out where out:
      "evaluate_freshness_gate demo_time ?d (?step ?c (?step ?b (?step ?a None))) FreshnessGatePolicy_default = Inr out"
      "fo_transition out = Some FreshnessGateTransition.RecoveryConfirmed" "\<not> fo_pause_active out"
    by (auto split: sum.splits)
  have "\<not> list_all (snapshot_fresh FreshnessGatePolicy_default) (?d # demo_run)" by code_simp
  then show ?thesis
    using recovery_needs_a_fresh_window[OF c out(1)] out(2,3)
    by (metis (no_types) demo_sample_time stability_default)
qed

end
