(* ===== verification/Governance.thy ===== *)
theory Governance
  imports Prelude
begin

text \<open>
  Roles, permissions and control actions, the role matrix and its evaluator, and the approval
  contract, from \<open>crates/domain/src/governance.rs\<close>. A \<open>BTreeMap\<close> is a map and a
  \<open>BTreeSet\<close> a set; the time a decision is stamped with is an argument. The credential
  rotation contract of the same file is in \<open>CredentialContract\<close>.
\<close>

section \<open>Errors\<close>

datatype AuthorizationReason = RolePermissionGranted | InsufficientRole | UnknownRole | UnknownPermission
  | UnknownAction | InvalidRoleAssignment | DuplicateRolePermissionMapping | InvalidActorContext

fun AuthorizationReason_code :: "AuthorizationReason \<Rightarrow> string" where
  "AuthorizationReason_code AuthorizationReason.RolePermissionGranted = ''authorization_allowed''"
| "AuthorizationReason_code AuthorizationReason.InsufficientRole = ''authorization_denied''"
| "AuthorizationReason_code AuthorizationReason.UnknownRole = ''unknown_role''"
| "AuthorizationReason_code AuthorizationReason.UnknownPermission = ''unknown_permission''"
| "AuthorizationReason_code AuthorizationReason.UnknownAction = ''unknown_action''"
| "AuthorizationReason_code AuthorizationReason.InvalidRoleAssignment = ''invalid_role_assignment''"
| "AuthorizationReason_code AuthorizationReason.DuplicateRolePermissionMapping = ''duplicate_role_permission_mapping''"
| "AuthorizationReason_code AuthorizationReason.InvalidActorContext = ''invalid_actor_context''"

record AuthorizationError =
  ae_code :: string
  ae_reason :: AuthorizationReason
  ae_message :: string

definition AuthorizationError_unknown_role :: "string \<Rightarrow> AuthorizationError" where
  "AuthorizationError_unknown_role r = \<lparr>ae_code = AuthorizationReason_code AuthorizationReason.UnknownRole,
     ae_reason = AuthorizationReason.UnknownRole, ae_message = ''unknown role `'' @ r @ ''`''\<rparr>"

definition AuthorizationError_unknown_permission :: "string \<Rightarrow> AuthorizationError" where
  "AuthorizationError_unknown_permission p = \<lparr>ae_code = AuthorizationReason_code AuthorizationReason.UnknownPermission,
     ae_reason = AuthorizationReason.UnknownPermission, ae_message = ''unknown permission `'' @ p @ ''`''\<rparr>"

definition AuthorizationError_unknown_action :: "string \<Rightarrow> AuthorizationError" where
  "AuthorizationError_unknown_action a = \<lparr>ae_code = AuthorizationReason_code AuthorizationReason.UnknownAction,
     ae_reason = AuthorizationReason.UnknownAction, ae_message = ''unknown action `'' @ a @ ''`''\<rparr>"

definition AuthorizationError_invalid_role_assignment :: "string \<Rightarrow> AuthorizationError" where
  "AuthorizationError_invalid_role_assignment message =
     \<lparr>ae_code = AuthorizationReason_code AuthorizationReason.InvalidRoleAssignment,
      ae_reason = AuthorizationReason.InvalidRoleAssignment, ae_message = message\<rparr>"

definition AuthorizationError_duplicate_role_permission_mapping :: "string \<Rightarrow> string \<Rightarrow> AuthorizationError" where
  "AuthorizationError_duplicate_role_permission_mapping r p =
     \<lparr>ae_code = AuthorizationReason_code AuthorizationReason.DuplicateRolePermissionMapping,
      ae_reason = AuthorizationReason.DuplicateRolePermissionMapping,
      ae_message = ''duplicate role_permission mapping for `'' @ r @ ''` / `'' @ p @ ''`''\<rparr>"

section \<open>Roles, permissions and actions\<close>

datatype GovernanceRole = ReadOnlyAnalytics | OperationalControl | AdministrativeActions

definition GovernanceRole_ALL :: "GovernanceRole list" where
  "GovernanceRole_ALL = [GovernanceRole.ReadOnlyAnalytics, GovernanceRole.OperationalControl, GovernanceRole.AdministrativeActions]"

fun GovernanceRole_as_str :: "GovernanceRole \<Rightarrow> string" where
  "GovernanceRole_as_str GovernanceRole.ReadOnlyAnalytics = ''read_only_analytics''"
| "GovernanceRole_as_str GovernanceRole.OperationalControl = ''operational_control''"
| "GovernanceRole_as_str GovernanceRole.AdministrativeActions = ''administrative_actions''"

definition GovernanceRole_parse :: "string \<Rightarrow> AuthorizationError + GovernanceRole" where
  "GovernanceRole_parse = parse_arms
     [(''read_only_analytics'', GovernanceRole.ReadOnlyAnalytics),
      (''operational_control'', GovernanceRole.OperationalControl),
      (''administrative_actions'', GovernanceRole.AdministrativeActions)]
     AuthorizationError_unknown_role"

interpretation governance_role: enum_codec "\<lambda>v. v" GovernanceRole_as_str GovernanceRole_parse
  by (unfold GovernanceRole_parse_def, rule enum_codec_arms, case_tac x) simp_all

datatype GovernancePermission = ReadAnalytics | ExecuteControlAction | ManageRoleAssignments

fun GovernancePermission_as_str :: "GovernancePermission \<Rightarrow> string" where
  "GovernancePermission_as_str GovernancePermission.ReadAnalytics = ''read_analytics''"
| "GovernancePermission_as_str GovernancePermission.ExecuteControlAction = ''execute_control_action''"
| "GovernancePermission_as_str GovernancePermission.ManageRoleAssignments = ''manage_role_assignments''"

definition GovernancePermission_parse :: "string \<Rightarrow> AuthorizationError + GovernancePermission" where
  "GovernancePermission_parse = parse_arms
     [(''read_analytics'', GovernancePermission.ReadAnalytics),
      (''execute_control_action'', GovernancePermission.ExecuteControlAction),
      (''manage_role_assignments'', GovernancePermission.ManageRoleAssignments)]
     AuthorizationError_unknown_permission"

interpretation governance_permission: enum_codec "\<lambda>v. v" GovernancePermission_as_str GovernancePermission_parse
  by (unfold GovernancePermission_parse_def, rule enum_codec_arms, case_tac x) simp_all

datatype ControlAction = ReadAnalyticsDashboard | ExecuteControlPlaneAction | ManageRoleAssignments

fun ControlAction_as_str :: "ControlAction \<Rightarrow> string" where
  "ControlAction_as_str ControlAction.ReadAnalyticsDashboard = ''read_analytics_dashboard''"
| "ControlAction_as_str ControlAction.ExecuteControlPlaneAction = ''execute_control_plane_action''"
| "ControlAction_as_str ControlAction.ManageRoleAssignments = ''manage_role_assignments''"

definition ControlAction_parse :: "string \<Rightarrow> AuthorizationError + ControlAction" where
  "ControlAction_parse = parse_arms
     [(''read_analytics_dashboard'', ControlAction.ReadAnalyticsDashboard),
      (''execute_control_plane_action'', ControlAction.ExecuteControlPlaneAction),
      (''manage_role_assignments'', ControlAction.ManageRoleAssignments)]
     AuthorizationError_unknown_action"

interpretation control_action: enum_codec "\<lambda>v. v" ControlAction_as_str ControlAction_parse
  by (unfold ControlAction_parse_def, rule enum_codec_arms, case_tac x) simp_all

fun required_permission :: "ControlAction \<Rightarrow> GovernancePermission" where
  "required_permission ControlAction.ReadAnalyticsDashboard = GovernancePermission.ReadAnalytics"
| "required_permission ControlAction.ExecuteControlPlaneAction = GovernancePermission.ExecuteControlAction"
| "required_permission ControlAction.ManageRoleAssignments = GovernancePermission.ManageRoleAssignments"

section \<open>The role matrix\<close>

type_synonym RolePermissionMatrix = "GovernanceRole \<rightharpoonup> GovernancePermission set"

definition RolePermissionMatrix_canonical :: RolePermissionMatrix where
  "RolePermissionMatrix_canonical =
     [GovernanceRole.ReadOnlyAnalytics \<mapsto> {GovernancePermission.ReadAnalytics},
      GovernanceRole.OperationalControl \<mapsto>
        {GovernancePermission.ReadAnalytics, GovernancePermission.ExecuteControlAction},
      GovernanceRole.AdministrativeActions \<mapsto>
        {GovernancePermission.ReadAnalytics, GovernancePermission.ExecuteControlAction,
         GovernancePermission.ManageRoleAssignments}]"

fun expected_permissions :: "GovernanceRole \<Rightarrow> GovernancePermission set" where
  "expected_permissions GovernanceRole.ReadOnlyAnalytics = {GovernancePermission.ReadAnalytics}"
| "expected_permissions GovernanceRole.OperationalControl =
     {GovernancePermission.ReadAnalytics, GovernancePermission.ExecuteControlAction}"
| "expected_permissions GovernanceRole.AdministrativeActions =
     {GovernancePermission.ReadAnalytics, GovernancePermission.ExecuteControlAction,
      GovernancePermission.ManageRoleAssignments}"

text \<open>The iterator of a \<open>BTreeSet\<close> follows the order the permissions are declared in.\<close>

definition to_permission_keys :: "GovernancePermission set \<Rightarrow> string list" where
  "to_permission_keys s = map GovernancePermission_as_str
     (filter (\<lambda>p. p \<in> s) [GovernancePermission.ReadAnalytics, GovernancePermission.ExecuteControlAction,
        GovernancePermission.ManageRoleAssignments])"

text \<open>\<open>{:?}\<close> of a list of keys.\<close>

fun debug_keys :: "string list \<Rightarrow> string" where
  "debug_keys [] = ''''"
| "debug_keys [k] = ''\"'' @ k @ ''\"''"
| "debug_keys (k # ks) = ''\"'' @ k @ ''\", '' @ debug_keys ks"

definition check_role :: "RolePermissionMatrix \<Rightarrow> GovernanceRole \<Rightarrow> AuthorizationError + unit" where
  "check_role m r = (case m r of
      None \<Rightarrow> Inl (AuthorizationError_invalid_role_assignment
        (''missing mapping for role `'' @ GovernanceRole_as_str r @ ''`''))
    | Some actual \<Rightarrow>
        if actual \<noteq> expected_permissions r then
          Inl (AuthorizationError_invalid_role_assignment
            (''invalid permission set for role `'' @ GovernanceRole_as_str r @ ''`; expected [''
              @ debug_keys (to_permission_keys (expected_permissions r)) @ ''], got [''
              @ debug_keys (to_permission_keys actual) @ '']''))
        else Inr ())"

fun check_roles :: "RolePermissionMatrix \<Rightarrow> GovernanceRole list \<Rightarrow> AuthorizationError + unit" where
  "check_roles m [] = Inr ()"
| "check_roles m (r # rs) = and_then (check_role m r) (\<lambda>_. check_roles m rs)"

definition validate_canonical_boundaries :: "RolePermissionMatrix \<Rightarrow> AuthorizationError + unit" where
  "validate_canonical_boundaries m =
     and_then (check_roles m GovernanceRole_ALL) (\<lambda>_.
     if card (dom m) \<noteq> length GovernanceRole_ALL then
       Inl (AuthorizationError_invalid_role_assignment ''role map contains unsupported role entries'')
     else Inr ())"

fun insert_assignments ::
    "(string \<times> string) list \<Rightarrow> RolePermissionMatrix \<Rightarrow> AuthorizationError + RolePermissionMatrix" where
  "insert_assignments [] m = Inr m"
| "insert_assignments ((role_key, permission_key) # raw) m =
     and_then (GovernanceRole_parse role_key) (\<lambda>r.
     and_then (GovernancePermission_parse permission_key) (\<lambda>p.
     let role_set = (case m r of Some s \<Rightarrow> s | None \<Rightarrow> {})
     in if p \<in> role_set
        then Inl (AuthorizationError_duplicate_role_permission_mapping role_key permission_key)
        else insert_assignments raw (m(r \<mapsto> insert p role_set))))"

definition RolePermissionMatrix_from_raw_assignments ::
    "(string \<times> string) list \<Rightarrow> AuthorizationError + RolePermissionMatrix" where
  "RolePermissionMatrix_from_raw_assignments raw =
     and_then (insert_assignments raw Map.empty) (\<lambda>matrix.
     and_then (validate_canonical_boundaries matrix) (\<lambda>_. Inr matrix))"

definition permissions_for_role ::
    "RolePermissionMatrix \<Rightarrow> GovernanceRole \<Rightarrow> AuthorizationError + GovernancePermission set" where
  "permissions_for_role m r = (case m r of
      Some s \<Rightarrow> Inr s
    | None \<Rightarrow> Inl (AuthorizationError_invalid_role_assignment ''role not configured''))"

definition has_permission ::
    "RolePermissionMatrix \<Rightarrow> GovernanceRole \<Rightarrow> GovernancePermission \<Rightarrow> AuthorizationError + bool" where
  "has_permission m r p = (case m r of
      None \<Rightarrow> Inl (AuthorizationError_invalid_role_assignment ''role not configured'')
    | Some role_permissions \<Rightarrow> Inr (p \<in> role_permissions))"

section \<open>Decisions\<close>

datatype AuthorizationOutcome = Allow | Deny

record AuthorizationDecision =
  au_actor_id :: string
  au_role :: string
  au_action :: string
  au_outcome :: AuthorizationOutcome
  au_reason :: AuthorizationReason
  au_timestamp_utc :: string
  au_correlation_id :: string

definition machine_error :: "AuthorizationDecision \<Rightarrow> AuthorizationError option" where
  "machine_error d =
     (if au_outcome d = AuthorizationOutcome.Allow then None
      else Some \<lparr>ae_code = AuthorizationReason_code (au_reason d), ae_reason = au_reason d,
        ae_message = ''authorization denied for actor `'' @ au_actor_id d @ ''` on action `'' @ au_action d
          @ ''` ('' @ au_role d @ '')''\<rparr>)"

record AuthorizationRequest =
  aq_actor_id :: string
  aq_role :: string
  aq_action :: string
  aq_request_correlation_id :: string

record AuthorizationEvaluator =
  ev_matrix :: RolePermissionMatrix

definition AuthorizationEvaluator_default :: AuthorizationEvaluator where
  "AuthorizationEvaluator_default = \<lparr>ev_matrix = RolePermissionMatrix_canonical\<rparr>"

definition AuthorizationEvaluator_with_matrix :: "RolePermissionMatrix \<Rightarrow> AuthorizationError + AuthorizationEvaluator" where
  "AuthorizationEvaluator_with_matrix m =
     and_then (validate_canonical_boundaries m) (\<lambda>_. Inr \<lparr>ev_matrix = m\<rparr>)"

definition allowed_decision :: "string \<Rightarrow> AuthorizationRequest \<Rightarrow> AuthorizationDecision" where
  "allowed_decision now request =
     \<lparr>au_actor_id = aq_actor_id request, au_role = aq_role request, au_action = aq_action request,
      au_outcome = AuthorizationOutcome.Allow, au_reason = AuthorizationReason.RolePermissionGranted,
      au_timestamp_utc = now, au_correlation_id = aq_request_correlation_id request\<rparr>"

definition denied_decision :: "string \<Rightarrow> AuthorizationRequest \<Rightarrow> AuthorizationReason \<Rightarrow> AuthorizationDecision" where
  "denied_decision now request reason =
     \<lparr>au_actor_id = aq_actor_id request, au_role = aq_role request, au_action = aq_action request,
      au_outcome = AuthorizationOutcome.Deny, au_reason = reason,
      au_timestamp_utc = now, au_correlation_id = aq_request_correlation_id request\<rparr>"

definition AuthorizationEvaluator_evaluate ::
    "string \<Rightarrow> AuthorizationEvaluator \<Rightarrow> AuthorizationRequest \<Rightarrow> AuthorizationDecision" where
  "AuthorizationEvaluator_evaluate now self request =
     (if blank (aq_actor_id request) \<or> blank (aq_request_correlation_id request) then
        denied_decision now request AuthorizationReason.InvalidActorContext
      else case GovernanceRole_parse (aq_role request) of
        Inl _ \<Rightarrow> denied_decision now request AuthorizationReason.UnknownRole
      | Inr r \<Rightarrow> (case ControlAction_parse (aq_action request) of
          Inl _ \<Rightarrow> denied_decision now request AuthorizationReason.UnknownAction
        | Inr a \<Rightarrow> (case has_permission (ev_matrix self) r (required_permission a) of
            Inr True \<Rightarrow> allowed_decision now request
          | Inr False \<Rightarrow> denied_decision now request AuthorizationReason.InsufficientRole
          | Inl _ \<Rightarrow> denied_decision now request AuthorizationReason.InvalidRoleAssignment)))"

text \<open>\<open>GovernanceAuthorizationService::evaluate\<close> of \<open>services/governance-service/src/rbac/mod.rs\<close>.\<close>

definition GovernanceAuthorizationService_evaluate ::
    "string \<Rightarrow> AuthorizationEvaluator \<Rightarrow> string \<Rightarrow> string \<Rightarrow> string \<Rightarrow> string \<Rightarrow> AuthorizationDecision" where
  "GovernanceAuthorizationService_evaluate now evaluator actor_id r a correlation_id =
     AuthorizationEvaluator_evaluate now evaluator
       \<lparr>aq_actor_id = actor_id, aq_role = r, aq_action = a, aq_request_correlation_id = correlation_id\<rparr>"

fun outcome_key :: "AuthorizationOutcome \<Rightarrow> string" where
  "outcome_key AuthorizationOutcome.Allow = ''allow''"
| "outcome_key AuthorizationOutcome.Deny = ''deny''"

fun reason_key :: "AuthorizationReason \<Rightarrow> string" where
  "reason_key AuthorizationReason.RolePermissionGranted = ''role_permission_granted''"
| "reason_key AuthorizationReason.InsufficientRole = ''insufficient_role''"
| "reason_key AuthorizationReason.UnknownRole = ''unknown_role''"
| "reason_key AuthorizationReason.UnknownPermission = ''unknown_permission''"
| "reason_key AuthorizationReason.UnknownAction = ''unknown_action''"
| "reason_key AuthorizationReason.InvalidRoleAssignment = ''invalid_role_assignment''"
| "reason_key AuthorizationReason.DuplicateRolePermissionMapping = ''duplicate_role_permission_mapping''"
| "reason_key AuthorizationReason.InvalidActorContext = ''invalid_actor_context''"

record AuthorizationTelemetryEvidence =
  at_event_name :: string
  at_actor_id :: string
  at_role :: string
  at_action :: string
  at_outcome :: string
  at_reason :: string
  at_correlation_id :: string
  at_timestamp_utc :: string

definition telemetry_evidence :: "AuthorizationDecision \<Rightarrow> AuthorizationTelemetryEvidence" where
  "telemetry_evidence d =
     \<lparr>at_event_name = ''authorization_decision_v1'', at_actor_id = au_actor_id d, at_role = au_role d,
      at_action = au_action d, at_outcome = outcome_key (au_outcome d), at_reason = reason_key (au_reason d),
      at_correlation_id = au_correlation_id d, at_timestamp_utc = au_timestamp_utc d\<rparr>"

section \<open>Audit records\<close>

datatype PrivilegedAuditOutcome = Allow | AuthorizationDenied | AuthenticationDenied

fun PrivilegedAuditOutcome_as_str :: "PrivilegedAuditOutcome \<Rightarrow> string" where
  "PrivilegedAuditOutcome_as_str PrivilegedAuditOutcome.Allow = ''allow''"
| "PrivilegedAuditOutcome_as_str PrivilegedAuditOutcome.AuthorizationDenied = ''authorization_denied''"
| "PrivilegedAuditOutcome_as_str PrivilegedAuditOutcome.AuthenticationDenied = ''authentication_denied''"

record 'json PrivilegedAuditRecord =
  pa_actor_id :: string
  pa_role :: string
  pa_action_type :: string
  pa_parameters :: 'json
  pa_approval_reference :: "string option"
  pa_timestamp :: string
  pa_outcome :: PrivilegedAuditOutcome
  pa_reason_code :: string
  pa_authentication_outcome :: string
  pa_correlation_id :: string

definition from_authorization_decision :: "AuthorizationDecision \<Rightarrow> string \<Rightarrow> 'json \<Rightarrow> 'json PrivilegedAuditRecord" where
  "from_authorization_decision d authentication_outcome parameters =
     \<lparr>pa_actor_id = au_actor_id d, pa_role = au_role d, pa_action_type = au_action d, pa_parameters = parameters,
      pa_approval_reference = None, pa_timestamp = au_timestamp_utc d,
      pa_outcome = (case au_outcome d of
          AuthorizationOutcome.Allow \<Rightarrow> PrivilegedAuditOutcome.Allow
        | AuthorizationOutcome.Deny \<Rightarrow> PrivilegedAuditOutcome.AuthorizationDenied),
      pa_reason_code = AuthorizationReason_code (au_reason d),
      pa_authentication_outcome = authentication_outcome, pa_correlation_id = au_correlation_id d\<rparr>"

definition non_blank_or :: "string \<Rightarrow> string option \<Rightarrow> string" where
  "non_blank_or fallback v = (case v of Some s \<Rightarrow> if blank s then fallback else s | None \<Rightarrow> fallback)"

definition from_authentication_denial ::
    "string option \<Rightarrow> string option \<Rightarrow> string \<Rightarrow> string \<Rightarrow> string \<Rightarrow> string \<Rightarrow> 'json \<Rightarrow> 'json PrivilegedAuditRecord" where
  "from_authentication_denial actor_id r action_type reason_code correlation_id timestamp parameters =
     \<lparr>pa_actor_id = non_blank_or ''unauthenticated'' actor_id, pa_role = non_blank_or ''unknown_role'' r,
      pa_action_type = action_type, pa_parameters = parameters, pa_approval_reference = None,
      pa_timestamp = timestamp, pa_outcome = PrivilegedAuditOutcome.AuthenticationDenied,
      pa_reason_code = reason_code, pa_authentication_outcome = ''denied'', pa_correlation_id = correlation_id\<rparr>"

section \<open>The only matrix that can be configured\<close>

lemma check_role_Inr [simp]: "check_role m r = Inr () \<longleftrightarrow> m r = Some (expected_permissions r)"
  by (auto simp: check_role_def split: option.splits)

lemma check_roles_Inr [simp]:
  "check_roles m rs = Inr () \<longleftrightarrow> (\<forall>r\<in>set rs. m r = Some (expected_permissions r))"
  by (induction rs) (auto simp: and_then_Inr_iff)

lemma GovernanceRole_ALL_all [simp]: "r \<in> set GovernanceRole_ALL"
  by (cases r) (simp_all add: GovernanceRole_ALL_def)

lemma canonical_expected: "RolePermissionMatrix_canonical = (\<lambda>r. Some (expected_permissions r))"
proof
  fix r
  show "RolePermissionMatrix_canonical r = Some (expected_permissions r)"
    by (cases r) (simp_all add: RolePermissionMatrix_canonical_def)
qed

lemma canonical_at [simp]: "RolePermissionMatrix_canonical r = Some (expected_permissions r)"
  by (simp add: canonical_expected)

lemma and_then_Inr_right [simp]: "and_then r Inr = r"
  by (cases r) simp_all

lemma card_roles: "card (UNIV :: GovernanceRole set) = 3"
proof -
  have "UNIV = set GovernanceRole_ALL" by auto
  then have "card (UNIV :: GovernanceRole set) = card (set GovernanceRole_ALL)" by simp
  also have "\<dots> = 3" by (simp add: GovernanceRole_ALL_def)
  finally show ?thesis .
qed

lemma length_roles: "length GovernanceRole_ALL = 3"
  by (simp add: GovernanceRole_ALL_def)

lemma canonical_boundaries_iff: "validate_canonical_boundaries m = Inr () \<longleftrightarrow> m = RolePermissionMatrix_canonical"
proof
  assume "validate_canonical_boundaries m = Inr ()"
  then show "m = RolePermissionMatrix_canonical"
    by (intro ext) (auto simp: validate_canonical_boundaries_def and_then_Inr_iff)
next
  assume m: "m = RolePermissionMatrix_canonical"
  then have "dom m = UNIV" by auto
  moreover have "check_roles m GovernanceRole_ALL = Inr ()" using m by simp
  ultimately show "validate_canonical_boundaries m = Inr ()"
    by (simp add: validate_canonical_boundaries_def card_roles length_roles)
qed

lemma canonical_boundaries_ok [simp]: "validate_canonical_boundaries RolePermissionMatrix_canonical = Inr ()"
  by (simp add: canonical_boundaries_iff)

text \<open>What a matrix grants, and the assignments that configure it.\<close>

definition grants :: "RolePermissionMatrix \<Rightarrow> (GovernanceRole \<times> GovernancePermission) set" where
  "grants m = {(r, p). \<exists>s. m r = Some s \<and> p \<in> s}"

definition assignment_keys :: "GovernanceRole \<times> GovernancePermission \<Rightarrow> string \<times> string" where
  "assignment_keys a = (GovernanceRole_as_str (fst a), GovernancePermission_as_str (snd a))"

lemma inj_assignment_keys: "inj assignment_keys"
  by (auto simp: inj_def assignment_keys_def)

lemma grants_insert:
  "grants (m(r \<mapsto> insert p (case m r of Some s \<Rightarrow> s | None \<Rightarrow> {}))) = insert (r, p) (grants m)"
  by (auto simp: grants_def split: option.splits if_splits)

lemma member_grants: "p \<in> (case m r of Some s \<Rightarrow> s | None \<Rightarrow> {}) \<longleftrightarrow> (r, p) \<in> grants m"
  by (auto simp: grants_def split: option.splits)

lemma insert_assignments_Inr:
  "insert_assignments raw m = Inr m' \<Longrightarrow> \<exists>ps. raw = map assignment_keys ps \<and> distinct ps
     \<and> set ps \<inter> grants m = {} \<and> grants m' = grants m \<union> set ps \<and> dom m' = dom m \<union> fst ` set ps"
proof (induction raw m rule: insert_assignments.induct)
  case (1 m)
  then show ?case by simp
next
  case (2 role_key permission_key raw m)
  then obtain r p where rp: "GovernanceRole_parse role_key = Inr r" "GovernancePermission_parse permission_key = Inr p"
    by (auto simp: and_then_Inr_iff)
  let ?m = "m(r \<mapsto> insert p (case m r of Some s \<Rightarrow> s | None \<Rightarrow> {}))"
  have new: "(r, p) \<notin> grants m" and step: "insert_assignments raw ?m = Inr m'"
    using "2.prems" rp by (simp_all add: Let_def member_grants split: if_splits)
  have fresh: "p \<notin> (case m r of Some s \<Rightarrow> s | None \<Rightarrow> {})" using new by (simp add: member_grants)
  from "2.IH"[OF refl fresh step] obtain ps where ps: "raw = map assignment_keys ps" "distinct ps"
    "set ps \<inter> grants ?m = {}" "grants m' = grants ?m \<union> set ps" "dom m' = dom ?m \<union> fst ` set ps" by blast
  have keys: "assignment_keys (r, p) = (role_key, permission_key)"
    using rp by (simp add: assignment_keys_def governance_role.parse_iff governance_permission.parse_iff)
  show ?case
    using ps new keys unfolding grants_insert
    by (intro exI[of _ "(r, p) # ps"]) (auto simp: insert_absorb)
qed

lemma insert_assignments_ok:
  "distinct ps \<Longrightarrow> set ps \<inter> grants m = {} \<Longrightarrow> \<exists>m'. insert_assignments (map assignment_keys ps) m = Inr m'"
proof (induction ps arbitrary: m)
  case (Cons a ps)
  obtain r p where a: "a = (r, p)" by fastforce
  let ?m = "m(r \<mapsto> insert p (case m r of Some s \<Rightarrow> s | None \<Rightarrow> {}))"
  have "set ps \<inter> grants ?m = {}" using Cons.prems a unfolding grants_insert by auto
  then obtain m' where "insert_assignments (map assignment_keys ps) ?m = Inr m'" using Cons by force
  moreover have "p \<notin> (case m r of Some s \<Rightarrow> s | None \<Rightarrow> {})" using Cons.prems(2) a by (simp add: member_grants)
  moreover have "map assignment_keys (a # ps) = (GovernanceRole_as_str r, GovernancePermission_as_str p) # map assignment_keys ps"
    by (simp add: a assignment_keys_def)
  ultimately show ?case by (simp add: Let_def)
qed simp

lemma matrix_of_grants:
  assumes "grants m = grants RolePermissionMatrix_canonical" "dom m = UNIV"
  shows "m = RolePermissionMatrix_canonical"
proof
  fix r
  obtain s where s: "m r = Some s" using assms(2) by blast
  have "p \<in> s \<longleftrightarrow> p \<in> expected_permissions r" for p
  proof -
    have "p \<in> s \<longleftrightarrow> (r, p) \<in> grants m" using s by (simp add: grants_def)
    also have "\<dots> \<longleftrightarrow> p \<in> expected_permissions r" unfolding assms(1) by (simp add: grants_def)
    finally show ?thesis .
  qed
  then show "m r = RolePermissionMatrix_canonical r" using s by auto
qed

lemma roles_granted: "fst ` grants RolePermissionMatrix_canonical = UNIV"
proof -
  have "(r, GovernancePermission.ReadAnalytics) \<in> grants RolePermissionMatrix_canonical" for r
    by (cases r) (simp_all add: grants_def)
  then show ?thesis by force
qed

text \<open>
  C36: A role matrix can be configured from a list of role and permission keys exactly when the
  list names each assignment of the canonical matrix once and nothing else, in any order; the
  matrix built is then the canonical one.
\<close>

theorem configured_matrix_is_canonical:
  "RolePermissionMatrix_from_raw_assignments raw = Inr m \<longleftrightarrow>
     distinct raw \<and> set raw = assignment_keys ` grants RolePermissionMatrix_canonical
     \<and> m = RolePermissionMatrix_canonical"
proof
  assume ok: "RolePermissionMatrix_from_raw_assignments raw = Inr m"
  then have ins: "insert_assignments raw Map.empty = Inr m" and m: "m = RolePermissionMatrix_canonical"
    by (auto simp: RolePermissionMatrix_from_raw_assignments_def and_then_Inr_iff canonical_boundaries_iff)
  obtain ps where "raw = map assignment_keys ps" "distinct ps" "grants m = set ps"
    using insert_assignments_Inr[OF ins] by (auto simp: grants_def)
  then show "distinct raw \<and> set raw = assignment_keys ` grants RolePermissionMatrix_canonical
     \<and> m = RolePermissionMatrix_canonical"
    using m inj_on_subset[OF inj_assignment_keys subset_UNIV] by (simp add: distinct_map)
next
  assume raw: "distinct raw \<and> set raw = assignment_keys ` grants RolePermissionMatrix_canonical
     \<and> m = RolePermissionMatrix_canonical"
  then obtain ps where ps: "raw = map assignment_keys ps" by (metis ex_map_conv imageE)
  have dist: "distinct ps" using raw ps by (simp add: distinct_map)
  have set_ps: "set ps = grants RolePermissionMatrix_canonical"
    using raw ps inj_image_eq_iff[OF inj_assignment_keys] by simp
  obtain m' where ins: "insert_assignments raw Map.empty = Inr m'"
    using insert_assignments_ok[OF dist, of Map.empty] ps by (auto simp: grants_def)
  from insert_assignments_Inr[OF ins] obtain qs where
    qs: "raw = map assignment_keys qs" "grants m' = set qs" "dom m' = fst ` set qs" by (auto simp: grants_def)
  have "qs = ps" using qs(1) ps inj_assignment_keys by simp
  then have "m' = RolePermissionMatrix_canonical"
    using qs set_ps roles_granted by (intro matrix_of_grants) simp_all
  then show "RolePermissionMatrix_from_raw_assignments raw = Inr m"
    using raw ins by (simp add: RolePermissionMatrix_from_raw_assignments_def)
qed

text \<open>What each role may do, by the keys of the interface: the written contract of the matrix.\<close>

definition role_keys :: "string list" where
  "role_keys = [''read_only_analytics'', ''operational_control'', ''administrative_actions'']"

definition action_keys :: "string list" where
  "action_keys = [''read_analytics_dashboard'', ''execute_control_plane_action'', ''manage_role_assignments'']"

definition permitted_keys :: "(string \<times> string) list" where
  "permitted_keys =
     [(''read_only_analytics'', ''read_analytics_dashboard''),
      (''operational_control'', ''read_analytics_dashboard''),
      (''operational_control'', ''execute_control_plane_action''),
      (''administrative_actions'', ''read_analytics_dashboard''),
      (''administrative_actions'', ''execute_control_plane_action''),
      (''administrative_actions'', ''manage_role_assignments'')]"

definition due_reason :: "AuthorizationRequest \<Rightarrow> AuthorizationReason" where
  "due_reason q =
     (if blank (aq_actor_id q) \<or> blank (aq_request_correlation_id q) then AuthorizationReason.InvalidActorContext
      else if aq_role q \<notin> set role_keys then AuthorizationReason.UnknownRole
      else if aq_action q \<notin> set action_keys then AuthorizationReason.UnknownAction
      else if (aq_role q, aq_action q) \<in> set permitted_keys then AuthorizationReason.RolePermissionGranted
      else AuthorizationReason.InsufficientRole)"

lemma role_key_iff: "r \<in> set role_keys \<longleftrightarrow> \<not> isl (GovernanceRole_parse r)"
proof -
  have "r \<in> set role_keys \<longleftrightarrow> (\<exists>v. r = GovernanceRole_as_str v)"
  proof
    assume "r \<in> set role_keys"
    then show "\<exists>v. r = GovernanceRole_as_str v"
      unfolding role_keys_def
      by (metis GovernanceRole_as_str.simps list.distinct(1) list.set_cases set_ConsD)
  next
    assume "\<exists>v. r = GovernanceRole_as_str v"
    then show "r \<in> set role_keys" unfolding role_keys_def by (metis GovernanceRole.exhaust GovernanceRole_as_str.simps list.set_intros)
  qed
  then show ?thesis by (simp add: governance_role.parse_ok_iff)
qed

lemma action_key_iff: "a \<in> set action_keys \<longleftrightarrow> \<not> isl (ControlAction_parse a)"
proof -
  have "a \<in> set action_keys \<longleftrightarrow> (\<exists>v. a = ControlAction_as_str v)"
  proof
    assume "a \<in> set action_keys"
    then show "\<exists>v. a = ControlAction_as_str v"
      unfolding action_keys_def
      by (metis ControlAction_as_str.simps list.distinct(1) list.set_cases set_ConsD)
  next
    assume "\<exists>v. a = ControlAction_as_str v"
    then show "a \<in> set action_keys" unfolding action_keys_def by (metis ControlAction.exhaust ControlAction_as_str.simps list.set_intros)
  qed
  then show ?thesis by (simp add: control_action.parse_ok_iff)
qed

lemma permitted_iff:
  "(GovernanceRole_as_str r, ControlAction_as_str a) \<in> set permitted_keys \<longleftrightarrow> required_permission a \<in> expected_permissions r"
  by (cases r; cases a; simp add: permitted_keys_def)

text \<open>
  C35: With an evaluator that could be built, every request is decided by the first of these that
  applies: a blank actor or correlation id is an invalid actor context, a role that is none of the
  three keys an unknown role, an action that is none of the three keys an unknown action, one of
  the six permitted pairs of keys is granted, and any other an insufficient role. The decision
  allows exactly the granted requests, repeats the request, and its machine error is absent when
  it allows and otherwise has the code and the reason of the denial.
\<close>

theorem authorization_allows_iff:
  assumes "AuthorizationEvaluator_with_matrix m = Inr ev"
    and "d = AuthorizationEvaluator_evaluate now ev request"
  shows "au_reason d = due_reason request
    \<and> au_outcome d = (if due_reason request = AuthorizationReason.RolePermissionGranted
         then AuthorizationOutcome.Allow else AuthorizationOutcome.Deny)
    \<and> (au_actor_id d, au_role d, au_action d, au_correlation_id d, au_timestamp_utc d)
       = (aq_actor_id request, aq_role request, aq_action request, aq_request_correlation_id request, now)
    \<and> map_option (\<lambda>e. (ae_code e, ae_reason e)) (machine_error d) =
       map_of [(AuthorizationReason.InvalidActorContext, (''invalid_actor_context'', AuthorizationReason.InvalidActorContext)),
         (AuthorizationReason.UnknownRole, (''unknown_role'', AuthorizationReason.UnknownRole)),
         (AuthorizationReason.UnknownAction, (''unknown_action'', AuthorizationReason.UnknownAction)),
         (AuthorizationReason.InsufficientRole, (''authorization_denied'', AuthorizationReason.InsufficientRole))]
         (due_reason request)"
proof -
  have ev: "ev_matrix ev = RolePermissionMatrix_canonical"
    using assms(1) by (auto simp: AuthorizationEvaluator_with_matrix_def and_then_Inr_iff canonical_boundaries_iff)
  have decision: "d = (if due_reason request = AuthorizationReason.RolePermissionGranted
      then allowed_decision now request else denied_decision now request (due_reason request))"
    unfolding assms(2) AuthorizationEvaluator_evaluate_def due_reason_def role_key_iff action_key_iff
    by (cases "GovernanceRole_parse (aq_role request)"; cases "ControlAction_parse (aq_action request)")
      (auto simp: ev has_permission_def permitted_iff governance_role.parse_iff control_action.parse_iff
        split: bool.splits)
  have "due_reason request \<in> {AuthorizationReason.InvalidActorContext, AuthorizationReason.UnknownRole,
      AuthorizationReason.UnknownAction, AuthorizationReason.InsufficientRole, AuthorizationReason.RolePermissionGranted}"
    by (simp add: due_reason_def)
  then show ?thesis
    unfolding decision by (auto simp: allowed_decision_def denied_decision_def machine_error_def)
qed

theorem authorization_allows_iff_witness:
  "au_reason (AuthorizationEvaluator_evaluate ''now'' AuthorizationEvaluator_default
     \<lparr>aq_actor_id = ''ops'', aq_role = ''operational_control'', aq_action = ''execute_control_plane_action'',
      aq_request_correlation_id = ''c''\<rparr>) = AuthorizationReason.RolePermissionGranted
   \<and> au_reason (AuthorizationEvaluator_evaluate ''now'' AuthorizationEvaluator_default
     \<lparr>aq_actor_id = ''ops'', aq_role = ''operational_control'', aq_action = ''manage_role_assignments'',
      aq_request_correlation_id = ''c''\<rparr>) = AuthorizationReason.InsufficientRole
   \<and> au_reason (AuthorizationEvaluator_evaluate ''now'' AuthorizationEvaluator_default
     \<lparr>aq_actor_id = ''ops'', aq_role = ''superuser'', aq_action = ''anything'',
      aq_request_correlation_id = ''c''\<rparr>) = AuthorizationReason.UnknownRole"
proof -
  have ev: "AuthorizationEvaluator_with_matrix RolePermissionMatrix_canonical = Inr AuthorizationEvaluator_default"
    by (simp add: AuthorizationEvaluator_with_matrix_def AuthorizationEvaluator_default_def)
  note reason = conjunct1[OF authorization_allows_iff[OF ev refl, of "''now''"]]
  show ?thesis unfolding reason by (intro conjI; code_simp)
qed

end
