(* ===== verification/Reconciliation.thy ===== *)
theory Reconciliation
  imports MarketStream Governance "HOL-Library.Product_Lexorder"
begin

text \<open>
  The reconciliation contract of \<open>crates/domain/src/reconciliation.rs\<close>: order records of the
  internal and the venue window, the differences between them, the mismatch rate that halts
  trading, the run and its summary, and the exposure snapshot. A \<open>BTreeMap\<close> of a window is
  the association list of its records; where the code iterates over keys, they are sorted.
\<close>

section \<open>Codes, errors and data\<close>

datatype ReconciliationRunStatus =
    Succeeded
  | CriticalHalt
  | Failed

fun ReconciliationRunStatus_as_str :: "ReconciliationRunStatus \<Rightarrow> string" where
  "ReconciliationRunStatus_as_str ReconciliationRunStatus.Succeeded = ''succeeded''"
| "ReconciliationRunStatus_as_str ReconciliationRunStatus.CriticalHalt = ''critical_halt''"
| "ReconciliationRunStatus_as_str ReconciliationRunStatus.Failed = ''failed''"

datatype ReconciliationDiffClass =
    MissingInternalRecord
  | MissingVenueRecord
  | MarketMismatch
  | LifecycleStateMismatch
  | QuantityMismatch
  | PriceMismatch

fun ReconciliationDiffClass_as_str :: "ReconciliationDiffClass \<Rightarrow> string" where
  "ReconciliationDiffClass_as_str ReconciliationDiffClass.MissingInternalRecord = ''missing_internal_record''"
| "ReconciliationDiffClass_as_str ReconciliationDiffClass.MissingVenueRecord = ''missing_venue_record''"
| "ReconciliationDiffClass_as_str ReconciliationDiffClass.MarketMismatch = ''market_mismatch''"
| "ReconciliationDiffClass_as_str ReconciliationDiffClass.LifecycleStateMismatch = ''lifecycle_state_mismatch''"
| "ReconciliationDiffClass_as_str ReconciliationDiffClass.QuantityMismatch = ''quantity_mismatch''"
| "ReconciliationDiffClass_as_str ReconciliationDiffClass.PriceMismatch = ''price_mismatch''"

datatype ReconciliationReasonCode =
    Matched
  | NonCriticalMismatch
  | CriticalMismatch
  | WindowUnavailable
  | VenueUnavailable
  | PersistenceUnavailable
  | Unauthorized
  | StateHydrationFailed
  | InvalidPayload

fun ReconciliationReasonCode_code :: "ReconciliationReasonCode \<Rightarrow> string" where
  "ReconciliationReasonCode_code ReconciliationReasonCode.Matched = ''reconciliation_matched''"
| "ReconciliationReasonCode_code ReconciliationReasonCode.NonCriticalMismatch = ''reconciliation_non_critical_mismatch''"
| "ReconciliationReasonCode_code ReconciliationReasonCode.CriticalMismatch = ''reconciliation_critical_mismatch''"
| "ReconciliationReasonCode_code ReconciliationReasonCode.WindowUnavailable = ''reconciliation_window_unavailable''"
| "ReconciliationReasonCode_code ReconciliationReasonCode.VenueUnavailable = ''reconciliation_venue_unavailable''"
| "ReconciliationReasonCode_code ReconciliationReasonCode.PersistenceUnavailable = ''reconciliation_persistence_unavailable''"
| "ReconciliationReasonCode_code ReconciliationReasonCode.Unauthorized = ''reconciliation_unauthorized''"
| "ReconciliationReasonCode_code ReconciliationReasonCode.StateHydrationFailed = ''reconciliation_state_hydration_failed''"
| "ReconciliationReasonCode_code ReconciliationReasonCode.InvalidPayload = ''reconciliation_invalid_payload''"

type_synonym ReconciliationValidationIssue = issue
type_synonym ReconciliationContractError = contract_error

definition ReconciliationContractError_invalid_payload :: "string \<Rightarrow> ReconciliationContractError" where
  "ReconciliationContractError_invalid_payload message =
     contract_error_of (ReconciliationReasonCode_code ReconciliationReasonCode.InvalidPayload) message []"

definition ReconciliationContractError_window_unavailable :: "string \<Rightarrow> ReconciliationContractError" where
  "ReconciliationContractError_window_unavailable message =
     contract_error_of (ReconciliationReasonCode_code ReconciliationReasonCode.WindowUnavailable) message []"

definition ReconciliationContractError_unauthorized :: "string \<Rightarrow> ReconciliationContractError" where
  "ReconciliationContractError_unauthorized message =
     contract_error_of (ReconciliationReasonCode_code ReconciliationReasonCode.Unauthorized) message []"

definition ReconciliationRunStatus_parse :: "string \<Rightarrow> ReconciliationContractError + ReconciliationRunStatus" where
  "ReconciliationRunStatus_parse = parse_arms
     [(''succeeded'', ReconciliationRunStatus.Succeeded),
      (''critical_halt'', ReconciliationRunStatus.CriticalHalt),
      (''failed'', ReconciliationRunStatus.Failed)]
     (\<lambda>value. ReconciliationContractError_invalid_payload (''unknown reconciliation run status `'' @ value @ ''`''))"

interpretation recon_status: enum_codec "\<lambda>v. v" ReconciliationRunStatus_as_str ReconciliationRunStatus_parse
  by (unfold ReconciliationRunStatus_parse_def, rule enum_codec_arms, case_tac x) simp_all

definition ReconciliationDiffClass_parse :: "string \<Rightarrow> ReconciliationContractError + ReconciliationDiffClass" where
  "ReconciliationDiffClass_parse = parse_arms
     [(''missing_internal_record'', ReconciliationDiffClass.MissingInternalRecord),
      (''missing_venue_record'', ReconciliationDiffClass.MissingVenueRecord),
      (''market_mismatch'', ReconciliationDiffClass.MarketMismatch),
      (''lifecycle_state_mismatch'', ReconciliationDiffClass.LifecycleStateMismatch),
      (''quantity_mismatch'', ReconciliationDiffClass.QuantityMismatch),
      (''price_mismatch'', ReconciliationDiffClass.PriceMismatch)]
     (\<lambda>value. ReconciliationContractError_invalid_payload (''unknown reconciliation diff class `'' @ value @ ''`''))"

interpretation recon_diff: enum_codec "\<lambda>v. v" ReconciliationDiffClass_as_str ReconciliationDiffClass_parse
  by (unfold ReconciliationDiffClass_parse_def, rule enum_codec_arms, case_tac x) simp_all

definition ReconciliationReasonCode_parse :: "string \<Rightarrow> ReconciliationContractError + ReconciliationReasonCode" where
  "ReconciliationReasonCode_parse = parse_arms
     [(''reconciliation_matched'', ReconciliationReasonCode.Matched),
      (''reconciliation_non_critical_mismatch'', ReconciliationReasonCode.NonCriticalMismatch),
      (''reconciliation_critical_mismatch'', ReconciliationReasonCode.CriticalMismatch),
      (''reconciliation_window_unavailable'', ReconciliationReasonCode.WindowUnavailable),
      (''reconciliation_venue_unavailable'', ReconciliationReasonCode.VenueUnavailable),
      (''reconciliation_persistence_unavailable'', ReconciliationReasonCode.PersistenceUnavailable),
      (''reconciliation_unauthorized'', ReconciliationReasonCode.Unauthorized),
      (''reconciliation_state_hydration_failed'', ReconciliationReasonCode.StateHydrationFailed),
      (''reconciliation_invalid_payload'', ReconciliationReasonCode.InvalidPayload)]
     (\<lambda>value. ReconciliationContractError_invalid_payload (''unknown reconciliation reason code `'' @ value @ ''`''))"

interpretation recon_reason: enum_codec "\<lambda>v. v" ReconciliationReasonCode_code ReconciliationReasonCode_parse
  by (unfold ReconciliationReasonCode_parse_def, rule enum_codec_arms, case_tac x) simp_all

record ReconciliationOrderRecord =
  ro_order_id :: string
  ro_market_id :: string
  ro_lifecycle_state :: string
  ro_quantity :: "f64 option"
  ro_price :: "f64 option"
  ro_observed_at_utc :: string
  ro_correlation_id :: string

record ReconciliationDiffRecord =
  rdf_diff_id :: string
  rdf_run_id :: string
  rdf_order_id :: string
  rdf_market_id :: string
  rdf_diff_class :: ReconciliationDiffClass
  rdf_reason_code :: string
  rdf_internal_value :: "string option"
  rdf_venue_value :: "string option"
  rdf_observed_at_utc :: string
  rdf_correlation_id :: string

record ReconciliationRunSummary =
  rq_run_id :: string
  rq_window_started_at_utc :: string
  rq_window_ended_at_utc :: string
  rq_compared_records :: int
  rq_mismatch_count :: int
  rq_mismatch_rate :: f64
  rq_critical_halt :: bool
  rq_status :: ReconciliationRunStatus
  rq_reason_code :: string
  rq_evaluated_at_utc :: string
  rq_correlation_id :: string

record ReconciliationRunResult =
  rn_summary :: ReconciliationRunSummary
  rn_diffs :: "ReconciliationDiffRecord list"

record ExposureSnapshot =
  ex_snapshot_id :: string
  ex_run_id :: string
  ex_market_id :: "string option"
  ex_net_exposure :: f64
  ex_gross_exposure :: f64
  ex_open_order_count :: int
  ex_reason_code :: string
  ex_captured_at_utc :: string
  ex_correlation_id :: string

record DiffDetails =
  dd_diff_class :: ReconciliationDiffClass
  dd_market_id :: string
  dd_internal_value :: "string option"
  dd_venue_value :: "string option"
  dd_observed_at_utc :: string
  dd_correlation_id :: string

text \<open>\<open>derive(PartialOrd, Ord)\<close>: the classes are ordered as they are declared.\<close>

fun diff_class_rank :: "ReconciliationDiffClass \<Rightarrow> nat" where
  "diff_class_rank MissingInternalRecord = 0"
| "diff_class_rank MissingVenueRecord = 1"
| "diff_class_rank MarketMismatch = 2"
| "diff_class_rank LifecycleStateMismatch = 3"
| "diff_class_rank QuantityMismatch = 4"
| "diff_class_rank PriceMismatch = 5"

lemma diff_class_rank_inject: "diff_class_rank a = diff_class_rank b \<Longrightarrow> a = b"
  by (cases a; cases b) simp_all

instantiation ReconciliationDiffClass :: linorder
begin

definition less_eq_ReconciliationDiffClass :: "ReconciliationDiffClass \<Rightarrow> ReconciliationDiffClass \<Rightarrow> bool" where
  "less_eq_ReconciliationDiffClass a b \<longleftrightarrow> diff_class_rank a \<le> diff_class_rank b"

definition less_ReconciliationDiffClass :: "ReconciliationDiffClass \<Rightarrow> ReconciliationDiffClass \<Rightarrow> bool" where
  "less_ReconciliationDiffClass a b \<longleftrightarrow> diff_class_rank a < diff_class_rank b"

instance
  by standard
    (auto simp: less_eq_ReconciliationDiffClass_def less_ReconciliationDiffClass_def dest: diff_class_rank_inject)

end

definition RECONCILIATION_CRITICAL_MISMATCH_THRESHOLD :: f64 where
  "RECONCILIATION_CRITICAL_MISMATCH_THRESHOLD = round_f64 (1 / 1000)"

section \<open>Validation\<close>

definition validate_recon_non_empty :: "string \<Rightarrow> string \<Rightarrow> issue list" where
  "validate_recon_non_empty field value =
     push_if (blank value) field
        (ReconciliationReasonCode_code ReconciliationReasonCode.InvalidPayload)
        (field @ '' cannot be blank'')"

definition validate_recon_non_negative :: "string \<Rightarrow> f64 \<Rightarrow> issue list" where
  "validate_recon_non_negative field value =
     push_if (\<not> f_is_finite value \<or> f_lt value (Fin 0)) field
        (ReconciliationReasonCode_code ReconciliationReasonCode.InvalidPayload)
        (field @ '' must be finite and >= 0'')"

definition validate_recon_optional_non_negative :: "string \<Rightarrow> f64 option \<Rightarrow> issue list" where
  "validate_recon_optional_non_negative field value =
     (case value of Some number \<Rightarrow> validate_recon_non_negative field number | None \<Rightarrow> [])"

definition validate_recon_timestamp_utc :: "time_crate \<Rightarrow> string \<Rightarrow> string \<Rightarrow> issue list" where
  "validate_recon_timestamp_utc T field value =
     (case rfc3339_parse T value of
        Some (_, offset) \<Rightarrow> push_if (offset \<noteq> 0) field
          (ReconciliationReasonCode_code ReconciliationReasonCode.InvalidPayload)
          (field @ '' must use UTC `Z` offset'')
      | None \<Rightarrow> push_if True field
          (ReconciliationReasonCode_code ReconciliationReasonCode.InvalidPayload)
          (field @ '' must be an RFC3339 UTC timestamp: '' @ rfc3339_error T value))"

definition validate_reconciliation_order_record ::
    "time_crate \<Rightarrow> ReconciliationOrderRecord \<Rightarrow> ReconciliationContractError + unit" where
  "validate_reconciliation_order_record T record = reject_if
     (validate_recon_non_empty ''order_id'' (ro_order_id record)
    @ validate_recon_non_empty ''market_id'' (ro_market_id record)
    @ validate_recon_non_empty ''lifecycle_state'' (ro_lifecycle_state record)
    @ validate_recon_non_empty ''observed_at_utc'' (ro_observed_at_utc record)
    @ validate_recon_timestamp_utc T ''observed_at_utc'' (ro_observed_at_utc record)
    @ validate_recon_non_empty ''correlation_id'' (ro_correlation_id record)
    @ validate_recon_optional_non_negative ''quantity'' (ro_quantity record)
    @ validate_recon_optional_non_negative ''price'' (ro_price record))
     (contract_error_of (ReconciliationReasonCode_code ReconciliationReasonCode.InvalidPayload)
        ''reconciliation order record payload failed validation'')"

definition validate_reconciliation_diff_record ::
    "time_crate \<Rightarrow> ReconciliationDiffRecord \<Rightarrow> ReconciliationContractError + unit" where
  "validate_reconciliation_diff_record T diff = reject_if
     (validate_recon_non_empty ''diff_id'' (rdf_diff_id diff)
    @ validate_recon_non_empty ''run_id'' (rdf_run_id diff)
    @ validate_recon_non_empty ''order_id'' (rdf_order_id diff)
    @ validate_recon_non_empty ''market_id'' (rdf_market_id diff)
    @ (case ReconciliationReasonCode_parse (rdf_reason_code diff) of
         Inl error \<Rightarrow> push_if True ''reason_code'' (ce_code error) (ce_message error)
       | Inr _ \<Rightarrow> [])
    @ validate_recon_non_empty ''observed_at_utc'' (rdf_observed_at_utc diff)
    @ validate_recon_timestamp_utc T ''observed_at_utc'' (rdf_observed_at_utc diff)
    @ validate_recon_non_empty ''correlation_id'' (rdf_correlation_id diff))
     (contract_error_of (ReconciliationReasonCode_code ReconciliationReasonCode.InvalidPayload)
        ''reconciliation diff payload failed validation'')"

text \<open>The check of the rate: in range, and then against the counts.\<close>

definition mismatch_rate_issues :: "ReconciliationRunSummary \<Rightarrow> issue list" where
  "mismatch_rate_issues summary =
     (if \<not> f_is_finite (rq_mismatch_rate summary)
         \<or> \<not> (f_le (Fin 0) (rq_mismatch_rate summary) \<and> f_le (rq_mismatch_rate summary) (Fin 1)) then
        push_if (True) ''mismatch_rate''
        (ReconciliationReasonCode_code ReconciliationReasonCode.InvalidPayload)
        (''mismatch_rate must be a finite ratio between 0 and 1'')
      else if rq_compared_records summary > 0 then
        (let expected = f_div (round_f64 (of_int (rq_mismatch_count summary))) (round_f64 (of_int (rq_compared_records summary)))
         in push_if (f_gt (f_abs (f_sub (rq_mismatch_rate summary) expected)) (round_f64 (1 / 1000000000000))) ''mismatch_rate''
        (ReconciliationReasonCode_code ReconciliationReasonCode.InvalidPayload)
        (''mismatch_rate must equal mismatch_count/compared_records''))
      else [])"

definition validate_reconciliation_run_summary ::
    "time_crate \<Rightarrow> ReconciliationRunSummary \<Rightarrow> ReconciliationContractError + unit" where
  "validate_reconciliation_run_summary T summary = reject_if
     (validate_recon_non_empty ''run_id'' (rq_run_id summary)
    @ validate_recon_non_empty ''window_started_at_utc'' (rq_window_started_at_utc summary)
    @ validate_recon_non_empty ''window_ended_at_utc'' (rq_window_ended_at_utc summary)
    @ validate_recon_non_empty ''evaluated_at_utc'' (rq_evaluated_at_utc summary)
    @ validate_recon_non_empty ''correlation_id'' (rq_correlation_id summary)
    @ validate_recon_timestamp_utc T ''window_started_at_utc'' (rq_window_started_at_utc summary)
    @ validate_recon_timestamp_utc T ''window_ended_at_utc'' (rq_window_ended_at_utc summary)
    @ validate_recon_timestamp_utc T ''evaluated_at_utc'' (rq_evaluated_at_utc summary)
    @ push_if (rq_compared_records summary \<le> 0) ''compared_records''
        (ReconciliationReasonCode_code ReconciliationReasonCode.InvalidPayload)
        (''compared_records must be greater than zero'')
    @ push_if (rq_mismatch_count summary < 0) ''mismatch_count''
        (ReconciliationReasonCode_code ReconciliationReasonCode.InvalidPayload)
        (''mismatch_count cannot be negative'')
    @ push_if (rq_mismatch_count summary > rq_compared_records summary) ''mismatch_count''
        (ReconciliationReasonCode_code ReconciliationReasonCode.InvalidPayload)
        (''mismatch_count cannot exceed compared_records'')
    @ mismatch_rate_issues summary
    @ (case ReconciliationReasonCode_parse (rq_reason_code summary) of
         Inl error \<Rightarrow> push_if True ''reason_code'' (ce_code error) (ce_message error)
       | Inr _ \<Rightarrow> [])
    @ push_if (rq_critical_halt summary \<noteq> f_gt (rq_mismatch_rate summary) RECONCILIATION_CRITICAL_MISMATCH_THRESHOLD) ''critical_halt''
        (ReconciliationReasonCode_code ReconciliationReasonCode.InvalidPayload)
        (''critical_halt must reflect mismatch threshold semantics (> 0.1%)'')
    @ push_if (rq_critical_halt summary \<and> rq_status summary \<noteq> ReconciliationRunStatus.CriticalHalt) ''status''
        (ReconciliationReasonCode_code ReconciliationReasonCode.InvalidPayload)
        (''critical reconciliation runs must use `critical_halt` status'')
    @ push_if (\<not> rq_critical_halt summary \<and> rq_status summary = ReconciliationRunStatus.CriticalHalt
          \<and> rq_mismatch_count summary \<le> rq_compared_records summary) ''status''
        (ReconciliationReasonCode_code ReconciliationReasonCode.InvalidPayload)
        (''non-critical reconciliation runs cannot use `critical_halt` status''))
     (contract_error_of (ReconciliationReasonCode_code ReconciliationReasonCode.InvalidPayload)
        ''reconciliation run summary failed validation'')"

definition validate_exposure_snapshot ::
    "time_crate \<Rightarrow> ExposureSnapshot \<Rightarrow> ReconciliationContractError + unit" where
  "validate_exposure_snapshot T snapshot = reject_if
     (validate_recon_non_empty ''snapshot_id'' (ex_snapshot_id snapshot)
    @ validate_recon_non_empty ''run_id'' (ex_run_id snapshot)
    @ (case ex_market_id snapshot of Some market_id \<Rightarrow> validate_recon_non_empty ''market_id'' market_id | None \<Rightarrow> [])
    @ validate_recon_non_empty ''captured_at_utc'' (ex_captured_at_utc snapshot)
    @ validate_recon_timestamp_utc T ''captured_at_utc'' (ex_captured_at_utc snapshot)
    @ validate_recon_non_empty ''correlation_id'' (ex_correlation_id snapshot)
    @ (case ReconciliationReasonCode_parse (ex_reason_code snapshot) of
         Inl error \<Rightarrow> push_if True ''reason_code'' (ce_code error) (ce_message error)
       | Inr _ \<Rightarrow> [])
    @ validate_recon_non_negative ''gross_exposure'' (ex_gross_exposure snapshot)
    @ push_if (\<not> f_is_finite (ex_net_exposure snapshot)) ''net_exposure''
        (ReconciliationReasonCode_code ReconciliationReasonCode.InvalidPayload)
        (''net_exposure must be finite'')
    @ push_if (ex_open_order_count snapshot < 0) ''open_order_count''
        (ReconciliationReasonCode_code ReconciliationReasonCode.InvalidPayload)
        (''open_order_count cannot be negative''))
     (contract_error_of (ReconciliationReasonCode_code ReconciliationReasonCode.InvalidPayload)
        ''exposure snapshot payload failed validation'')"

section \<open>The mismatch rate\<close>

definition calculate_mismatch_rate :: "int \<Rightarrow> int \<Rightarrow> ReconciliationContractError + f64" where
  "calculate_mismatch_rate mismatch_count compared_records =
     (if compared_records \<le> 0 then
        Inl (ReconciliationContractError_window_unavailable ''cannot reconcile an empty internal/venue window'')
      else if mismatch_count < 0 \<or> mismatch_count > compared_records then
        Inl (ReconciliationContractError_invalid_payload ''mismatch_count must be between 0 and compared_records'')
      else Inr (f_div (round_f64 (of_int mismatch_count)) (round_f64 (of_int compared_records))))"

definition mismatch_rate_triggers_halt :: "f64 \<Rightarrow> ReconciliationContractError + bool" where
  "mismatch_rate_triggers_halt mismatch_rate =
     (if \<not> f_is_finite mismatch_rate \<or> \<not> (f_le (Fin 0) mismatch_rate \<and> f_le mismatch_rate (Fin 1)) then
        Inl (ReconciliationContractError_invalid_payload ''mismatch_rate must be a finite ratio between 0 and 1'')
      else Inr (f_gt mismatch_rate RECONCILIATION_CRITICAL_MISMATCH_THRESHOLD))"

section \<open>Differences\<close>

text \<open>\<open>format!("{number:.8}")\<close>: the exact value to eight places, ties to even.\<close>

fun f64_to_fixed8 :: "f64 \<Rightarrow> string" where
  "f64_to_fixed8 (Fin q) =
     (let n = nat (rhe (\<bar>q\<bar> * 100000000));
          fraction = nat_to_dec (n mod 100000000)
      in (if q < 0 then ''-'' else []) @ nat_to_dec (n div 100000000) @ ''.''
         @ replicate (8 - length fraction) (CHR ''0'') @ fraction)"
| "f64_to_fixed8 PInf = ''inf''"
| "f64_to_fixed8 NInf = ''-inf''"
| "f64_to_fixed8 NaN = ''NaN''"

definition format_optional_quantity :: "f64 option \<Rightarrow> string" where
  "format_optional_quantity value = (case value of Some number \<Rightarrow> f64_to_fixed8 number | None \<Rightarrow> ''none'')"

definition compact_order_record :: "ReconciliationOrderRecord \<Rightarrow> string" where
  "compact_order_record record =
     ''order_id='' @ ro_order_id record @ '',market_id='' @ ro_market_id record @ '',state=''
     @ ro_lifecycle_state record @ '',quantity='' @ format_optional_quantity (ro_quantity record)
     @ '',price='' @ format_optional_quantity (ro_price record)"

text \<open>\<open>Option<f64>\<close> equality: NaN differs from itself.\<close>

fun option_f64_eq :: "f64 option \<Rightarrow> f64 option \<Rightarrow> bool" where
  "option_f64_eq None None = True"
| "option_f64_eq (Some x) (Some y) = (f_le x y \<and> f_le y x)"
| "option_f64_eq _ _ = False"

fun classify_diff ::
    "string \<Rightarrow> ReconciliationOrderRecord option \<Rightarrow> ReconciliationOrderRecord option \<Rightarrow> DiffDetails option" where
  "classify_diff order_id None None = None"
| "classify_diff order_id None (Some venue_record) =
     Some \<lparr>dd_diff_class = ReconciliationDiffClass.MissingInternalRecord, dd_market_id = ro_market_id venue_record,
       dd_internal_value = None, dd_venue_value = Some (compact_order_record venue_record),
       dd_observed_at_utc = ro_observed_at_utc venue_record, dd_correlation_id = ro_correlation_id venue_record\<rparr>"
| "classify_diff order_id (Some internal_record) None =
     Some \<lparr>dd_diff_class = ReconciliationDiffClass.MissingVenueRecord, dd_market_id = ro_market_id internal_record,
       dd_internal_value = Some (compact_order_record internal_record), dd_venue_value = None,
       dd_observed_at_utc = ro_observed_at_utc internal_record, dd_correlation_id = ro_correlation_id internal_record\<rparr>"
| "classify_diff order_id (Some internal_record) (Some venue_record) =
     (let details = (\<lambda>diff_class internal_value venue_value.
            Some \<lparr>dd_diff_class = diff_class, dd_market_id = ro_market_id internal_record,
              dd_internal_value = Some internal_value, dd_venue_value = Some venue_value,
              dd_observed_at_utc = ro_observed_at_utc internal_record,
              dd_correlation_id = ro_correlation_id internal_record\<rparr>)
      in if ro_market_id internal_record \<noteq> ro_market_id venue_record then
           details ReconciliationDiffClass.MarketMismatch (ro_market_id internal_record) (ro_market_id venue_record)
         else if ro_lifecycle_state internal_record \<noteq> ro_lifecycle_state venue_record then
           details ReconciliationDiffClass.LifecycleStateMismatch
             (ro_lifecycle_state internal_record) (ro_lifecycle_state venue_record)
         else if \<not> option_f64_eq (ro_quantity internal_record) (ro_quantity venue_record) then
           details ReconciliationDiffClass.QuantityMismatch
             (format_optional_quantity (ro_quantity internal_record)) (format_optional_quantity (ro_quantity venue_record))
         else if \<not> option_f64_eq (ro_price internal_record) (ro_price venue_record) then
           details ReconciliationDiffClass.PriceMismatch
             (format_optional_quantity (ro_price internal_record)) (format_optional_quantity (ro_price venue_record))
         else None)"

definition build_diff ::
    "time_crate \<Rightarrow> string \<Rightarrow> string \<Rightarrow> ReconciliationOrderRecord option \<Rightarrow> ReconciliationOrderRecord option
      \<Rightarrow> ReconciliationContractError + ReconciliationDiffRecord option" where
  "build_diff T run_id order_id internal venue =
     (case classify_diff order_id internal venue of
        None \<Rightarrow> Inr None
      | Some diff_details \<Rightarrow>
          let diff = \<lparr>rdf_diff_id = ''diff::'' @ run_id @ ''::'' @ normalize order_id @ ''::''
                  @ ReconciliationDiffClass_as_str (dd_diff_class diff_details),
                rdf_run_id = run_id, rdf_order_id = order_id, rdf_market_id = dd_market_id diff_details,
                rdf_diff_class = dd_diff_class diff_details,
                rdf_reason_code = ReconciliationReasonCode_code ReconciliationReasonCode.NonCriticalMismatch,
                rdf_internal_value = dd_internal_value diff_details, rdf_venue_value = dd_venue_value diff_details,
                rdf_observed_at_utc = dd_observed_at_utc diff_details,
                rdf_correlation_id = dd_correlation_id diff_details\<rparr>
          in and_then (validate_reconciliation_diff_record T diff) (\<lambda>_. Inr (Some diff)))"

section \<open>The window\<close>

definition validate_recon_non_empty_or_error :: "string \<Rightarrow> string \<Rightarrow> ReconciliationContractError + unit" where
  "validate_recon_non_empty_or_error field value =
     (if blank value then Inl (ReconciliationContractError_invalid_payload (field @ '' cannot be blank'')) else Inr ())"

definition parse_recon_timestamp_or_error ::
    "time_crate \<Rightarrow> string \<Rightarrow> string \<Rightarrow> ReconciliationContractError + int" where
  "parse_recon_timestamp_or_error T field value =
     (case rfc3339_parse T value of
        None \<Rightarrow> Inl (ReconciliationContractError_invalid_payload
          (field @ '' must be an RFC3339 UTC timestamp: '' @ rfc3339_error T value))
      | Some (parsed, offset) \<Rightarrow>
          if offset \<noteq> 0 then Inl (ReconciliationContractError_invalid_payload (field @ '' must use UTC `Z` offset''))
          else Inr parsed)"

definition validate_recon_timestamp_or_error ::
    "time_crate \<Rightarrow> string \<Rightarrow> string \<Rightarrow> ReconciliationContractError + unit" where
  "validate_recon_timestamp_or_error T field value =
     and_then (parse_recon_timestamp_or_error T field value) (\<lambda>_. Inr ())"

fun normalize_window_loop ::
    "time_crate \<Rightarrow> string \<Rightarrow> (string \<times> ReconciliationOrderRecord) list \<Rightarrow> ReconciliationOrderRecord list
      \<Rightarrow> ReconciliationContractError + (string \<times> ReconciliationOrderRecord) list" where
  "normalize_window_loop T field normalized [] = Inr normalized"
| "normalize_window_loop T field normalized (record # records) =
     and_then (validate_reconciliation_order_record T record) (\<lambda>_.
     if map_of normalized (ro_order_id record) \<noteq> None then
       Inl (ReconciliationContractError_invalid_payload
         (field @ '' contains duplicate order_id `'' @ ro_order_id record @ ''`''))
     else normalize_window_loop T field ((ro_order_id record, record) # normalized) records)"

definition normalize_window_records ::
    "time_crate \<Rightarrow> string \<Rightarrow> ReconciliationOrderRecord list
      \<Rightarrow> ReconciliationContractError + (string \<times> ReconciliationOrderRecord) list" where
  "normalize_window_records T field records = normalize_window_loop T field [] records"

text \<open>The loop over the compared identifiers, in ascending order.\<close>

fun build_diffs ::
    "time_crate \<Rightarrow> string \<Rightarrow> (string \<rightharpoonup> ReconciliationOrderRecord) \<Rightarrow> (string \<rightharpoonup> ReconciliationOrderRecord)
      \<Rightarrow> string list \<Rightarrow> ReconciliationContractError + ReconciliationDiffRecord list" where
  "build_diffs T run_id internal venue [] = Inr []"
| "build_diffs T run_id internal venue (order_id # order_ids) =
     and_then (build_diff T run_id order_id (internal order_id) (venue order_id)) (\<lambda>diff.
     and_then (build_diffs T run_id internal venue order_ids) (\<lambda>diffs.
     Inr (case diff of Some diff \<Rightarrow> diff # diffs | None \<Rightarrow> diffs)))"

definition i64_try_from :: "string \<Rightarrow> nat \<Rightarrow> ReconciliationContractError + int" where
  "i64_try_from message n =
     (if n < 2 ^ 63 then Inr (int n) else Inl (ReconciliationContractError_invalid_payload message))"

definition reconcile_window ::
    "time_crate \<Rightarrow> string \<Rightarrow> string \<Rightarrow> string \<Rightarrow> string \<Rightarrow> string \<Rightarrow> ReconciliationOrderRecord list
      \<Rightarrow> ReconciliationOrderRecord list \<Rightarrow> ReconciliationContractError + ReconciliationRunResult" where
  "reconcile_window T run_id window_started_at_utc window_ended_at_utc evaluated_at_utc correlation_id
      internal_window venue_window =
     (if internal_window = [] \<and> venue_window = [] then
        Inl (ReconciliationContractError_window_unavailable
          ''internal and venue reconciliation windows are both empty'')
      else
      and_then (validate_recon_non_empty_or_error ''run_id'' run_id) (\<lambda>_.
      and_then (validate_recon_non_empty_or_error ''window_started_at_utc'' window_started_at_utc) (\<lambda>_.
      and_then (validate_recon_non_empty_or_error ''window_ended_at_utc'' window_ended_at_utc) (\<lambda>_.
      and_then (validate_recon_non_empty_or_error ''evaluated_at_utc'' evaluated_at_utc) (\<lambda>_.
      and_then (validate_recon_non_empty_or_error ''correlation_id'' correlation_id) (\<lambda>_.
      and_then (validate_recon_timestamp_or_error T ''window_started_at_utc'' window_started_at_utc) (\<lambda>_.
      and_then (validate_recon_timestamp_or_error T ''window_ended_at_utc'' window_ended_at_utc) (\<lambda>_.
      and_then (validate_recon_timestamp_or_error T ''evaluated_at_utc'' evaluated_at_utc) (\<lambda>_.
      and_then (parse_recon_timestamp_or_error T ''window_started_at_utc'' window_started_at_utc) (\<lambda>start.
      and_then (parse_recon_timestamp_or_error T ''window_ended_at_utc'' window_ended_at_utc) (\<lambda>ended.
      if ended < start then
        Inl (ReconciliationContractError_invalid_payload
          ''window_ended_at_utc must be greater than or equal to window_started_at_utc'')
      else let normalized_run_id = normalize run_id in
      and_then (normalize_window_records T ''internal_window'' internal_window) (\<lambda>internal_records.
      and_then (normalize_window_records T ''venue_window'' venue_window) (\<lambda>venue_records.
      let compared_ids = sort (remdups (map fst internal_records @ map fst venue_records)) in
      and_then (i64_try_from ''compared record count exceeds supported reconciliation limits''
        (length compared_ids)) (\<lambda>compared_records.
      and_then (build_diffs T normalized_run_id (map_of internal_records) (map_of venue_records) compared_ids) (\<lambda>unsorted.
      let diffs = sort_key (\<lambda>d. (rdf_order_id d, rdf_diff_class d, rdf_diff_id d)) unsorted in
      and_then (i64_try_from ''mismatch count exceeds supported limits'' (length diffs)) (\<lambda>mismatch_count.
      and_then (calculate_mismatch_rate mismatch_count compared_records) (\<lambda>mismatch_rate.
      and_then (mismatch_rate_triggers_halt mismatch_rate) (\<lambda>critical_halt.
      let summary =
        \<lparr>rq_run_id = normalized_run_id, rq_window_started_at_utc = trim window_started_at_utc,
         rq_window_ended_at_utc = trim window_ended_at_utc, rq_compared_records = compared_records,
         rq_mismatch_count = mismatch_count, rq_mismatch_rate = mismatch_rate, rq_critical_halt = critical_halt,
         rq_status = (if critical_halt then ReconciliationRunStatus.CriticalHalt else ReconciliationRunStatus.Succeeded),
         rq_reason_code = ReconciliationReasonCode_code
           (if mismatch_count = 0 then ReconciliationReasonCode.Matched
            else if critical_halt then ReconciliationReasonCode.CriticalMismatch
            else ReconciliationReasonCode.NonCriticalMismatch),
         rq_evaluated_at_utc = trim evaluated_at_utc, rq_correlation_id = trim correlation_id\<rparr> in
      and_then (validate_reconciliation_run_summary T summary) (\<lambda>_.
      Inr \<lparr>rn_summary = summary, rn_diffs = diffs\<rparr>)))))))))))))))))))"

section \<open>Exposure\<close>

definition is_terminal_lifecycle_state :: "string \<Rightarrow> bool" where
  "is_terminal_lifecycle_state value \<longleftrightarrow> normalize value \<in> {''filled'', ''canceled'', ''expired''}"

text \<open>The loop over the records of the market: net and gross exposure and the open orders so far.\<close>

fun exposure_loop ::
    "time_crate \<Rightarrow> f64 \<Rightarrow> f64 \<Rightarrow> int \<Rightarrow> ReconciliationOrderRecord list
      \<Rightarrow> ReconciliationContractError + f64 \<times> f64 \<times> int" where
  "exposure_loop T net_exposure gross_exposure open_order_count [] =
     Inr (net_exposure, gross_exposure, open_order_count)"
| "exposure_loop T net_exposure gross_exposure open_order_count (record # records) =
     and_then (validate_reconciliation_order_record T record) (\<lambda>_.
     let quantity = (case ro_quantity record of Some quantity \<Rightarrow> quantity | None \<Rightarrow> Fin 0)
     in exposure_loop T (f_add net_exposure quantity) (f_add gross_exposure (f_abs quantity))
          (if \<not> is_terminal_lifecycle_state (ro_lifecycle_state record) then open_order_count + 1 else open_order_count)
          records)"

definition build_exposure_snapshot ::
    "time_crate \<Rightarrow> string \<Rightarrow> string \<Rightarrow> string option \<Rightarrow> ReconciliationOrderRecord list \<Rightarrow> ReconciliationReasonCode
      \<Rightarrow> string \<Rightarrow> string \<Rightarrow> ReconciliationContractError + ExposureSnapshot" where
  "build_exposure_snapshot T snapshot_id run_id market_id records reason_code captured_at_utc correlation_id =
     and_then (validate_recon_non_empty_or_error ''snapshot_id'' snapshot_id) (\<lambda>_.
     and_then (validate_recon_non_empty_or_error ''run_id'' run_id) (\<lambda>_.
     and_then (validate_recon_non_empty_or_error ''captured_at_utc'' captured_at_utc) (\<lambda>_.
     and_then (validate_recon_non_empty_or_error ''correlation_id'' correlation_id) (\<lambda>_.
     and_then (validate_recon_timestamp_or_error T ''captured_at_utc'' captured_at_utc) (\<lambda>_.
     let normalized_market_id = (case market_id of
             Some value \<Rightarrow> if blank value then None else Some (trim value)
           | None \<Rightarrow> None);
         filtered = filter (\<lambda>record. case normalized_market_id of
             Some market \<Rightarrow> ro_market_id record = market | None \<Rightarrow> True) records
     in and_then (exposure_loop T (Fin 0) (Fin 0) 0 filtered) (\<lambda>(net_exposure, gross_exposure, open_order_count).
     let snapshot =
       \<lparr>ex_snapshot_id = trim snapshot_id, ex_run_id = normalize run_id, ex_market_id = normalized_market_id,
        ex_net_exposure = net_exposure, ex_gross_exposure = gross_exposure,
        ex_open_order_count = open_order_count, ex_reason_code = ReconciliationReasonCode_code reason_code,
        ex_captured_at_utc = trim captured_at_utc, ex_correlation_id = trim correlation_id\<rparr>
     in and_then (validate_exposure_snapshot T snapshot) (\<lambda>_. Inr snapshot)))))))"

section \<open>Read access\<close>

definition authorize_reconciliation_read :: "string \<Rightarrow> ReconciliationContractError + unit" where
  "authorize_reconciliation_read role =
     and_then (map_err (\<lambda>error. ReconciliationContractError_unauthorized (ae_message error)) (GovernanceRole_parse role)) (\<lambda>role.
     and_then (map_err (\<lambda>error. ReconciliationContractError_unauthorized (ae_message error))
       (has_permission RolePermissionMatrix_canonical role GovernancePermission.ReadAnalytics)) (\<lambda>allowed.
     if \<not> allowed then
       Inl (ReconciliationContractError_unauthorized ''role does not permit reconciliation/exposure read access'')
     else Inr ()))"

text \<open>Every role may read; who has none may not.\<close>

lemma reconciliation_readers: "authorize_reconciliation_read v = Inr () \<longleftrightarrow> (\<exists>r. v = GovernanceRole_as_str r)"
proof -
  have "GovernancePermission.ReadAnalytics \<in> expected_permissions r" for r
    by (cases r) simp_all
  then show ?thesis
    by (auto simp: authorize_reconciliation_read_def and_then_Inr_iff has_permission_def governance_role.parse_iff)
qed

section \<open>What the validators accept\<close>

abbreviation optional_amount_ok :: "f64 option \<Rightarrow> bool" where
  "optional_amount_ok x \<equiv> (case x of Some y \<Rightarrow> amount_ok y | None \<Rightarrow> True)"

definition recon_record_wf :: "time_crate \<Rightarrow> ReconciliationOrderRecord \<Rightarrow> bool" where
  "recon_record_wf T r \<longleftrightarrow>
     list_all (\<lambda>v. \<not> blank v)
       [ro_order_id r, ro_market_id r, ro_lifecycle_state r, ro_observed_at_utc r, ro_correlation_id r]
   \<and> utc_ok T (ro_observed_at_utc r) \<and> optional_amount_ok (ro_quantity r) \<and> optional_amount_ok (ro_price r)"

lemma recon_field_specs [issue_specs]:
  "validate_recon_non_empty f v = [] \<longleftrightarrow> \<not> blank v"
  "validate_recon_timestamp_utc T f v = [] \<longleftrightarrow> utc_ok T v"
  "validate_recon_non_negative f x = [] \<longleftrightarrow> amount_ok x"
  "validate_recon_optional_non_negative f y = [] \<longleftrightarrow> optional_amount_ok y"
proof -
  show non_negative: "validate_recon_non_negative f x = [] \<longleftrightarrow> amount_ok x" for x
    by (cases x) (auto simp: validate_recon_non_negative_def amount_ok_def)
  show "validate_recon_optional_non_negative f y = [] \<longleftrightarrow> optional_amount_ok y"
    by (cases y) (simp_all add: validate_recon_optional_non_negative_def non_negative)
  show "validate_recon_timestamp_utc T f v = [] \<longleftrightarrow> utc_ok T v"
    by (auto simp: validate_recon_timestamp_utc_def parse_utc_timestamp_def split: option.splits)
qed (simp add: validate_recon_non_empty_def)

lemma validate_recon_record_Inr [simp]:
  "validate_reconciliation_order_record T r = Inr u \<longleftrightarrow> recon_record_wf T r"
  unfolding validate_reconciliation_order_record_def recon_record_wf_def by (auto simp: issue_specs)

lemma parse_recon_timestamp_Inr [simp]:
  "parse_recon_timestamp_or_error T f v = Inr t \<longleftrightarrow> parse_utc_timestamp T v = Some t"
  by (auto simp: parse_recon_timestamp_or_error_def parse_utc_timestamp_def split: option.splits)

lemma validate_recon_or_error_Inr [simp]:
  "validate_recon_timestamp_or_error T f v = Inr u \<longleftrightarrow> utc_ok T v"
  "validate_recon_non_empty_or_error f v = Inr u \<longleftrightarrow> \<not> blank v"
  by (auto simp: validate_recon_timestamp_or_error_def and_then_Inr_iff validate_recon_non_empty_or_error_def)

section \<open>The halt threshold\<close>

lemma critical_threshold: "RECONCILIATION_CRITICAL_MISMATCH_THRESHOLD = Fin (4611686018427388 / 2 ^ 62)"
  unfolding RECONCILIATION_CRITICAL_MISMATCH_THRESHOLD_def
  using round_f64_literal[where m = 10 and n = 4611686018427388 and q = "1 / 1000"] by simp

lemma rate_tolerance: "round_f64 (1 / 1000000000000) = Fin (4951760157141521 / 2 ^ 92)"
  using round_f64_literal[where m = 40 and n = 4951760157141521 and q = "1 / 1000000000000"] by simp

text \<open>The literals, the integers and the zero, for evaluation.\<close>

lemma fixed8_zero: "f64_to_fixed8 (Fin 0) = ''0.00000000''"
proof -
  have "rhe 0 = 0" using rhe_of_int[of 0] by simp
  moreover have "replicate 7 c = [c, c, c, c, c, c, c]" for c :: char by (simp add: numeral_eq_Suc)
  moreover have "nat_to_dec 0 = ''0''" by code_simp
  ultimately show ?thesis by (simp add: Let_def)
qed

lemma f64_to_fixed8_code [code]:
  "f64_to_fixed8 (Fin q) = (if q = 0 then ''0.00000000'' else
     (let n = nat (rhe (\<bar>q\<bar> * 100000000));
          fraction = nat_to_dec (n mod 100000000)
      in (if q < 0 then ''-'' else []) @ nat_to_dec (n div 100000000) @ ''.''
         @ replicate (8 - length fraction) (CHR ''0'') @ fraction))"
  "f64_to_fixed8 PInf = ''inf''" "f64_to_fixed8 NInf = ''-inf''" "f64_to_fixed8 NaN = ''NaN''"
  using fixed8_zero by (cases "q = 0") (simp_all only: f64_to_fixed8.simps if_True if_False simp_thms)

lemma i64_try_from_code [code]:
  "i64_try_from message n = (if int n < 2 ^ 63 then Inr (int n) else Inl (ReconciliationContractError_invalid_payload message))"
  using of_nat_less_iff[of n "2 ^ 63", where 'a = int] by (simp add: i64_try_from_def)

lemmas reconciliation_code [code] = critical_threshold mismatch_rate_issues_def[unfolded rate_tolerance]

text \<open>
  The rate is divided in floating point and compared with the inexact literal 0.001; up to 2^40
  records that is the comparison of the integers.
\<close>

lemma halt_iff_counts:
  assumes "0 \<le> m" "m \<le> n" "0 < n" "n \<le> 2 ^ 40"
  shows "\<exists>rate. calculate_mismatch_rate m n = Inr rate \<and> mismatch_rate_triggers_halt rate = Inr (1000 * m > n)"
proof -
  define q :: rat where "q = of_int m / of_int n"
  have q: "0 \<le> q" "q \<le> 1" using assms by (simp_all add: q_def divide_le_eq)
  have round: "round_f64 (of_int k) = Fin (of_int k)" if "0 \<le> k" "k \<le> n" for k
    using that assms by (intro round_f64_of_int) auto
  have rate: "calculate_mismatch_rate m n = Inr (round_f64 q)"
    using assms round[of m] round[of n] by (simp add: calculate_mismatch_rate_def q_def)
  have bounds: "f_le (Fin 0) (round_f64 q)" "f_le (round_f64 q) (Fin 1)"
    using round_f64_mono[OF q(1)] round_f64_mono[OF q(2)] by simp_all
  then obtain x where x: "round_f64 q = Fin x" by (cases "round_f64 q") auto
  have "f_gt (round_f64 q) RECONCILIATION_CRITICAL_MISMATCH_THRESHOLD \<longleftrightarrow> 1000 * m > n"
  proof
    assume gt: "f_gt (round_f64 q) RECONCILIATION_CRITICAL_MISMATCH_THRESHOLD"
    show "1000 * m > n"
    proof (rule ccontr)
      assume "\<not> 1000 * m > n"
      then have "of_int (1000 * m) \<le> (of_int n :: rat)" by (simp only: of_int_le_iff)
      then have "q \<le> 1 / 1000" using assms(3) by (simp add: q_def divide_le_eq)
      then have "f_le (round_f64 q) RECONCILIATION_CRITICAL_MISMATCH_THRESHOLD"
        unfolding RECONCILIATION_CRITICAL_MISMATCH_THRESHOLD_def by (rule round_f64_mono)
      then show False using gt f_lt_not_le by blast
    qed
  next
    assume "1000 * m > n"
    then have m: "n + 1 \<le> 1000 * m" by simp
    define d :: rat where "d = 4611686018427389 / 2 ^ 62"
    have "of_int (n + 1) \<le> (of_int (1000 * m) :: rat)" using m by (simp only: of_int_le_iff)
    then have qn: "of_int n + 1 \<le> 1000 * (of_int m :: rat)" by simp
    have nb: "of_int n \<le> (2 ^ 40 :: rat)" using assms(4) by (metis of_int_le_iff of_int_numeral of_int_power)
    have n0: "0 < (of_int n :: rat)" using assms(3) by simp
    have "d * of_int n \<le> of_int m"
      using qn nb n0 by (simp add: d_def field_simps)
    then have "d \<le> q" using n0 by (simp add: q_def pos_le_divide_eq)
    then have "f_le (round_f64 d) (round_f64 q)" by (rule round_f64_mono)
    moreover have "round_f64 d = Fin d"
      by (rule round_f64_dyadic[where j = 62 and m = 4611686018427389]) (simp_all add: d_def)
    ultimately show "f_gt (round_f64 q) RECONCILIATION_CRITICAL_MISMATCH_THRESHOLD"
      unfolding critical_threshold by (auto simp: x d_def)
  qed
  then show ?thesis
    using rate bounds x by (auto simp: mismatch_rate_triggers_halt_def)
qed

section \<open>The differences of a window\<close>

text \<open>The record of a window under an identifier, and when two windows agree on one.\<close>

definition window_record :: "ReconciliationOrderRecord list \<Rightarrow> string \<Rightarrow> ReconciliationOrderRecord option" where
  "window_record window order_id = map_of (map (\<lambda>r. (ro_order_id r, r)) window) order_id"

definition records_agree :: "ReconciliationOrderRecord \<Rightarrow> ReconciliationOrderRecord \<Rightarrow> bool" where
  "records_agree r s \<longleftrightarrow> ro_market_id r = ro_market_id s \<and> ro_lifecycle_state r = ro_lifecycle_state s
     \<and> option_f64_eq (ro_quantity r) (ro_quantity s) \<and> option_f64_eq (ro_price r) (ro_price s)"

definition windows_agree ::
    "ReconciliationOrderRecord list \<Rightarrow> ReconciliationOrderRecord list \<Rightarrow> string \<Rightarrow> bool" where
  "windows_agree internal venue order_id \<longleftrightarrow>
     (case (window_record internal order_id, window_record venue order_id) of
        (Some r, Some s) \<Rightarrow> records_agree r s | (None, None) \<Rightarrow> True | _ \<Rightarrow> False)"

lemma classify_None:
  "classify_diff i a b = None \<longleftrightarrow> (case (a, b) of
     (Some r, Some s) \<Rightarrow> records_agree r s | (None, None) \<Rightarrow> True | _ \<Rightarrow> False)"
  by (cases a; cases b) (auto simp: records_agree_def Let_def)

lemma normalize_loop_Inr:
  "normalize_window_loop T f acc rs = Inr m \<longleftrightarrow> list_all (recon_record_wf T) rs \<and> distinct (map ro_order_id rs)
     \<and> set (map ro_order_id rs) \<inter> set (map fst acc) = {} \<and> m = rev (map (\<lambda>r. (ro_order_id r, r)) rs) @ acc"
proof (induction rs arbitrary: acc)
  case (Cons r rs)
  show ?case by (auto simp: and_then_Inr_iff Cons.IH map_of_eq_None_iff)
qed auto

lemma normalize_window_Inr:
  "normalize_window_records T f rs = Inr m \<longleftrightarrow> list_all (recon_record_wf T) rs \<and> distinct (map ro_order_id rs)
     \<and> m = rev (map (\<lambda>r. (ro_order_id r, r)) rs)"
  by (auto simp: normalize_window_records_def normalize_loop_Inr)

lemma map_of_rev_distinct: "distinct (map fst xs) \<Longrightarrow> map_of (rev xs) = map_of xs"
  by (subst map_of_inject_set) (auto simp: rev_map [symmetric])

lemma normalized_record:
  assumes "distinct (map ro_order_id rs)"
  shows "map_of (rev (map (\<lambda>r. (ro_order_id r, r)) rs)) = window_record rs"
  using assms by (subst map_of_rev_distinct) (auto simp: window_record_def o_def)

lemma build_diffs_ids:
  "build_diffs T i a b ids = Inr ds \<Longrightarrow> map rdf_order_id ds = filter (\<lambda>k. classify_diff k (a k) (b k) \<noteq> None) ids"
proof (induction ids arbitrary: ds)
  case (Cons k ids)
  then show ?case
    by (cases "classify_diff k (a k) (b k)") (auto simp: and_then_Inr_iff build_diff_def Let_def)
qed auto

lemma sort_key_sorted: "sorted (map f xs) \<Longrightarrow> sort_key f xs = xs"
  by (induction xs) (auto intro!: insort_is_Cons)

text \<open>Sorting by identifier, class and diff identifier changes nothing: the identifiers are ascending.\<close>

lemma sort_diffs:
  assumes "map rdf_order_id ds = filter P (sort (remdups xs))"
  shows "sort_key (\<lambda>d. (rdf_order_id d, rdf_diff_class d, rdf_diff_id d)) ds = ds"
proof (rule sort_key_sorted)
  have "sorted_wrt (<) (map rdf_order_id ds)"
    unfolding assms by (intro sorted_wrt_filter) (simp add: strict_sorted_iff)
  then show "sorted (map (\<lambda>d. (rdf_order_id d, rdf_diff_class d, rdf_diff_id d)) ds)"
    unfolding sorted_wrt_map by (rule sorted_wrt_mono_rel[rotated]) auto
qed

section \<open>Runs succeed\<close>

lemma build_diff_ok:
  assumes "a \<noteq> None \<or> b \<noteq> None" "\<not> blank run" "\<not> blank k"
    and "\<And>r. a = Some r \<Longrightarrow> recon_record_wf T r" "\<And>r. b = Some r \<Longrightarrow> recon_record_wf T r"
  shows "\<exists>d. build_diff T run k a b = Inr d"
proof (cases "classify_diff k a b")
  case (Some dd)
  define r where "r = (case a of Some r \<Rightarrow> r | None \<Rightarrow> the b)"
  have r: "recon_record_wf T r" using assms(1,4,5) by (auto simp: r_def split: option.splits)
  have dd: "dd_market_id dd = ro_market_id r" "dd_observed_at_utc dd = ro_observed_at_utc r"
    "dd_correlation_id dd = ro_correlation_id r"
    using Some by (cases a; cases b; auto simp: r_def Let_def split: if_splits)+
  have id: "\<not> blank (''diff::'' @ run @ ''::'' @ normalize k @ ''::'' @ ReconciliationDiffClass_as_str c)" for c
    by (simp add: not_blank_literal plain_def less_char_def)
  show ?thesis
    using r assms(2,3) id
    by (auto simp: build_diff_def Some Let_def dd validate_reconciliation_diff_record_def issue_specs
        recon_record_wf_def and_then_Inr_iff simp del: ReconciliationReasonCode_code.simps)
qed (simp add: build_diff_def)

lemma build_diffs_ok:
  assumes "list_all (\<lambda>k. \<exists>d. build_diff T run k (a k) (b k) = Inr d) ids"
  shows "\<exists>ds. build_diffs T run a b ids = Inr ds"
  using assms by (induction ids) (auto simp: and_then_Inr_iff)

lemma window_record_Some:
  assumes "list_all (recon_record_wf T) rs" "window_record rs k = Some r"
  shows "recon_record_wf T r" "ro_order_id r = k"
  using assms map_of_SomeD[of "map (\<lambda>r. (ro_order_id r, r)) rs" k r]
  by (auto simp: window_record_def list_all_iff)

lemma window_record_None: "window_record rs k = None \<longleftrightarrow> k \<notin> set (map ro_order_id rs)"
  by (force simp: window_record_def map_of_eq_None_iff)

text \<open>A summary built from a rate that is the quotient of its counts is in order.\<close>

lemma built_summary_valid:
  assumes "calculate_mismatch_rate (rq_mismatch_count s) (rq_compared_records s) = Inr (rq_mismatch_rate s)"
    and "mismatch_rate_triggers_halt (rq_mismatch_rate s) = Inr (rq_critical_halt s)"
    and "rq_status s = (if rq_critical_halt s then ReconciliationRunStatus.CriticalHalt else ReconciliationRunStatus.Succeeded)"
    and "rq_reason_code s = ReconciliationReasonCode_code c"
    and "list_all (\<lambda>v. \<not> blank v) [rq_run_id s, rq_correlation_id s]"
    and "list_all (\<lambda>v. \<not> blank v \<and> utc_ok T v)
      [rq_window_started_at_utc s, rq_window_ended_at_utc s, rq_evaluated_at_utc s]"
  shows "validate_reconciliation_run_summary T s = Inr ()"
proof -
  obtain x where x: "rq_mismatch_rate s = Fin x"
    using assms(2) by (cases "rq_mismatch_rate s") (auto simp: mismatch_rate_triggers_halt_def)
  have "f_le (Fin 0) (round_f64 (1 / 1000000000000))" by (rule round_f64_nonneg) simp
  moreover have "f_abs (f_sub (Fin x) (Fin x)) = Fin 0" by (simp add: f_sub_def)
  ultimately have tiny: "\<not> f_gt (f_abs (f_sub (Fin x) (Fin x))) (round_f64 (1 / 1000000000000))"
    using f_lt_not_le by metis
  show ?thesis
    using assms x tiny
    by (auto simp: validate_reconciliation_run_summary_def issue_specs mismatch_rate_issues_def
        mismatch_rate_triggers_halt_def calculate_mismatch_rate_def Let_def
        simp del: ReconciliationReasonCode_code.simps split: if_splits)
qed

lemma reconcile_window_ok:
  assumes "list_all (\<lambda>v. \<not> blank v) [run, correlation]"
    and "list_all (\<lambda>v. \<not> blank v \<and> utc_ok T v \<and> trim v = v) [start, stop, evaluated]"
    and "the (parse_utc_timestamp T start) \<le> the (parse_utc_timestamp T stop)"
    and "internal \<noteq> [] \<or> venue \<noteq> []" "length internal + length venue \<le> 2 ^ 40"
    and "list_all (recon_record_wf T) internal" "distinct (map ro_order_id internal)"
    and "list_all (recon_record_wf T) venue" "distinct (map ro_order_id venue)"
  shows "\<exists>result. reconcile_window T run start stop evaluated correlation internal venue = Inr result"
proof -
  define im where "im = rev (map (\<lambda>r. (ro_order_id r, r)) internal)"
  define vm where "vm = rev (map (\<lambda>r. (ro_order_id r, r)) venue)"
  define ids where "ids = sort (remdups (map fst im @ map fst vm))"
  have windows: "normalize_window_records T ''internal_window'' internal = Inr im"
    "normalize_window_records T ''venue_window'' venue = Inr vm"
    using assms by (simp_all add: normalize_window_Inr im_def vm_def)
  have maps: "map_of im = window_record internal" "map_of vm = window_record venue"
    using assms by (simp_all add: im_def vm_def normalized_record)
  have idset: "set ids = set (map ro_order_id internal) \<union> set (map ro_order_id venue)"
    by (force simp: ids_def im_def vm_def)
  have run: "\<not> blank (normalize run)" using assms(1) normalize_Nil[of run] by simp
  have "list_all (\<lambda>k. \<exists>d. build_diff T (normalize run) k (map_of im k) (map_of vm k) = Inr d) ids"
    unfolding list_all_iff
  proof
    fix k assume "k \<in> set ids"
    then have some: "map_of im k \<noteq> None \<or> map_of vm k \<noteq> None"
      using idset unfolding maps window_record_None by blast
    have wf: "recon_record_wf T r \<and> ro_order_id r = k" if "map_of im k = Some r \<or> map_of vm k = Some r" for r
      using that window_record_Some assms(6,8) unfolding maps by metis
    obtain r where "map_of im k = Some r \<or> map_of vm k = Some r" using some by blast
    then have "\<not> blank k" using wf by (fastforce simp: recon_record_wf_def)
    then show "\<exists>d. build_diff T (normalize run) k (map_of im k) (map_of vm k) = Inr d"
      using build_diff_ok[OF some run] wf by blast
  qed
  then obtain ds where ds: "build_diffs T (normalize run) (map_of im) (map_of vm) ids = Inr ds"
    using build_diffs_ok by blast
  have len: "length ds \<le> length ids"
    using arg_cong[OF build_diffs_ids[OF ds], of length] length_filter_le[of _ ids] by simp
  have ids_len: "length ids \<le> 2 ^ 40"
    using assms(5) length_remdups_leq[of "map fst im @ map fst vm"] by (simp add: ids_def im_def vm_def)
  have "ids \<noteq> []" using assms(4) idset by auto
  then have pos: "0 < length ids" by simp
  define n m where "n = int (length ids)" and "m = int (length ds)"
  obtain rate where rate: "calculate_mismatch_rate m n = Inr rate" "mismatch_rate_triggers_halt rate = Inr (1000 * m > n)"
    using halt_iff_counts[of m n] len ids_len pos by (auto simp: m_def n_def)
  have i64: "i64_try_from msg (length ids) = Inr n" "i64_try_from msg (length ds) = Inr m" for msg
    using ids_len len by (simp_all add: i64_try_from_def n_def m_def)
  define summary where "summary =
    \<lparr>rq_run_id = normalize run, rq_window_started_at_utc = start, rq_window_ended_at_utc = stop,
     rq_compared_records = n, rq_mismatch_count = m, rq_mismatch_rate = rate, rq_critical_halt = (1000 * m > n),
     rq_status = (if 1000 * m > n then ReconciliationRunStatus.CriticalHalt else ReconciliationRunStatus.Succeeded),
     rq_reason_code = ReconciliationReasonCode_code
       (if m = 0 then ReconciliationReasonCode.Matched
        else if 1000 * m > n then ReconciliationReasonCode.CriticalMismatch
        else ReconciliationReasonCode.NonCriticalMismatch),
     rq_evaluated_at_utc = evaluated, rq_correlation_id = trim correlation\<rparr>"
  have valid: "validate_reconciliation_run_summary T summary = Inr ()"
    using assms(1,2) run rate by (intro built_summary_valid) (auto simp: summary_def)
  have texts: "validate_recon_non_empty_or_error f v = Inr ()" if "v \<in> {run, start, stop, evaluated, correlation}" for f v
    using assms(1,2) that by auto
  have times: "validate_recon_timestamp_or_error T f v = Inr ()" if "v \<in> {start, stop, evaluated}" for f v
    using assms(2) that by auto
  obtain t u where tu: "parse_recon_timestamp_or_error T f start = Inr t" "parse_recon_timestamp_or_error T g stop = Inr u"
    "t \<le> u" for f g
    using assms(2,3) by auto
  have nonempty: "(internal = [] \<and> venue = []) = False" "(u < t) = False" using assms(4) tu(3) by auto
  have "reconcile_window T run start stop evaluated correlation internal venue =
      and_then (validate_reconciliation_run_summary T summary) (\<lambda>_. Inr \<lparr>rn_summary = summary,
        rn_diffs = sort_key (\<lambda>d. (rdf_order_id d, rdf_diff_class d, rdf_diff_id d)) ds\<rparr>)"
    using assms(2) tu(3) unfolding summary_def
    by (simp add: nonempty reconcile_window_def Let_def texts times tu windows ids_def [symmetric] i64 ds rate not_less
          i64[unfolded ids_def length_sort]
        del: validate_recon_or_error_Inr ReconciliationReasonCode_code.simps)
  then show ?thesis unfolding valid by simp
qed

definition demo_recon_record :: "string \<Rightarrow> rat \<Rightarrow> ReconciliationOrderRecord" where
  "demo_recon_record order_id quantity =
     \<lparr>ro_order_id = order_id, ro_market_id = ''market-1'', ro_lifecycle_state = ''live'',
      ro_quantity = Some (Fin quantity), ro_price = None, ro_observed_at_utc = ''2026-04-06T00:00:00Z'',
      ro_correlation_id = ''corr-1''\<rparr>"

text \<open>The outcome of a run in terms of the windows, with the halt as a comparison of integers.\<close>

lemma reconcile_window_outcome:
  assumes "reconcile_window T run start stop evaluated correlation internal venue = Inr result"
    and "length internal + length venue \<le> 2 ^ 40"
  shows "(let ids = sort (remdups (map ro_order_id internal @ map ro_order_id venue));
      differing = filter (\<lambda>k. \<not> windows_agree internal venue k) ids;
      s = rn_summary result; halt = (1000 * length differing > length ids) in
    map rdf_order_id (rn_diffs result) = differing
    \<and> rq_compared_records s = int (length ids) \<and> rq_mismatch_count s = int (length differing)
    \<and> rq_critical_halt s = halt
    \<and> rq_status s = (if halt then ReconciliationRunStatus.CriticalHalt else ReconciliationRunStatus.Succeeded)
    \<and> rq_reason_code s = ReconciliationReasonCode_code
        (if differing = [] then ReconciliationReasonCode.Matched
         else if halt then ReconciliationReasonCode.CriticalMismatch else ReconciliationReasonCode.NonCriticalMismatch)
    \<and> validate_reconciliation_run_summary T s = Inr ())"
proof -
  define ids where "ids = sort (remdups (map ro_order_id internal @ map ro_order_id venue))"
  define differing where "differing = filter (\<lambda>k. \<not> windows_agree internal venue k) ids"
  obtain im vm n ds m rate halt where
    im: "normalize_window_records T ''internal_window'' internal = Inr im"
    and vm: "normalize_window_records T ''venue_window'' venue = Inr vm"
    and n: "i64_try_from ''compared record count exceeds supported reconciliation limits''
        (length (sort (remdups (map fst im @ map fst vm)))) = Inr n"
    and ds: "build_diffs T (normalize run) (map_of im) (map_of vm) (sort (remdups (map fst im @ map fst vm))) = Inr ds"
    and m: "i64_try_from ''mismatch count exceeds supported limits''
        (length (sort_key (\<lambda>d. (rdf_order_id d, rdf_diff_class d, rdf_diff_id d)) ds)) = Inr m"
    and rate: "calculate_mismatch_rate m n = Inr rate" and halt: "mismatch_rate_triggers_halt rate = Inr halt"
    and diffs: "rn_diffs result = sort_key (\<lambda>d. (rdf_order_id d, rdf_diff_class d, rdf_diff_id d)) ds"
    and summary: "rq_compared_records (rn_summary result) = n" "rq_mismatch_count (rn_summary result) = m"
      "rq_critical_halt (rn_summary result) = halt"
      "rq_status (rn_summary result) = (if halt then ReconciliationRunStatus.CriticalHalt else ReconciliationRunStatus.Succeeded)"
      "rq_reason_code (rn_summary result) = ReconciliationReasonCode_code
        (if m = 0 then ReconciliationReasonCode.Matched else if halt then ReconciliationReasonCode.CriticalMismatch
         else ReconciliationReasonCode.NonCriticalMismatch)"
      "validate_reconciliation_run_summary T (rn_summary result) = Inr ()"
    using assms(1) unfolding reconcile_window_def Let_def
    by (auto simp: and_then_Inr_iff simp del: ReconciliationReasonCode_code.simps split: if_splits)
  have ids: "sort (remdups (map fst im @ map fst vm)) = ids"
  proof -
    have "map fst im = rev (map ro_order_id internal)" "map fst vm = rev (map ro_order_id venue)"
      using im vm by (auto simp: normalize_window_Inr rev_map o_def)
    then show ?thesis unfolding ids_def by (intro sorted_distinct_set_unique) auto
  qed
  have maps: "map_of im = window_record internal" "map_of vm = window_record venue"
    using im vm by (auto simp: normalize_window_Inr normalized_record)
  have order: "map rdf_order_id ds = differing"
    using build_diffs_ids[OF ds] unfolding ids maps differing_def windows_agree_def classify_None by simp
  have sorted: "sort_key (\<lambda>d. (rdf_order_id d, rdf_diff_class d, rdf_diff_id d)) ds = ds"
    using order unfolding differing_def ids_def by (rule sort_diffs)
  have counts: "n = int (length ids)" "m = int (length differing)"
    using n m order by (auto simp: i64_try_from_def ids sorted split: if_splits dest: arg_cong[where f = length])
  have "length ids \<le> length internal + length venue"
    unfolding ids_def by (simp only: length_sort) (metis length_append length_map length_remdups_leq)
  then have small: "n \<le> 2 ^ 40" using assms(2) counts(1) by simp
  have "0 < n" "0 \<le> m" "m \<le> n"
    using rate by (auto simp: calculate_mismatch_rate_def split: if_splits)
  then have halt_eq: "halt = (1000 * m > n)"
    using halt_iff_counts[OF _ _ _ small] rate halt by fastforce
  have "(1000 * m > n) = (1000 * length differing > length ids)" "(m = 0) = (differing = [])"
    unfolding counts by (linarith, simp)
  then show ?thesis
    unfolding Let_def ids_def [symmetric] differing_def [symmetric]
    using order summary counts diffs sorted halt_eq by simp
qed

section \<open>Properties\<close>

text \<open>
  C32: A reconciliation run compares every order of either window once and reports a difference
  for exactly the orders the two windows do not agree on, in ascending order; it halts exactly
  when more than one compared order in a thousand differs (exactly, though the rate is a
  floating-point quotient compared with an inexact literal), and its status and reason say so.
\<close>

theorem reconciliation_run_contract:
  assumes "reconcile_window T run start stop evaluated correlation internal venue = Inr result"
    and "length internal + length venue \<le> 2 ^ 40"
  shows "(let ids = sort (remdups (map ro_order_id internal @ map ro_order_id venue));
      differing = filter (\<lambda>k. \<not> windows_agree internal venue k) ids;
      s = rn_summary result; halt = (1000 * length differing > length ids) in
    map rdf_order_id (rn_diffs result) = differing
    \<and> rq_compared_records s = int (length ids) \<and> rq_mismatch_count s = int (length differing)
    \<and> rq_critical_halt s = halt
    \<and> rq_status s = (if halt then ReconciliationRunStatus.CriticalHalt else ReconciliationRunStatus.Succeeded)
    \<and> rq_reason_code s = ReconciliationReasonCode_code
        (if differing = [] then ReconciliationReasonCode.Matched
         else if halt then ReconciliationReasonCode.CriticalMismatch else ReconciliationReasonCode.NonCriticalMismatch)
    \<and> validate_reconciliation_run_summary T s = Inr ())"
  using assms by (rule reconcile_window_outcome)

definition demo_reconcile :: "ReconciliationOrderRecord list \<Rightarrow> ReconciliationOrderRecord list
      \<Rightarrow> ReconciliationContractError + ReconciliationRunResult" where
  "demo_reconcile internal venue = reconcile_window demo_time ''run-1'' ''2026-04-06T00:00:00Z'' ''2026-04-06T00:00:30Z''
     ''2026-04-06T00:00:31Z'' ''corr-1'' internal venue"

lemma demo_recon_record_wf: "k \<noteq> [] \<Longrightarrow> plain (hd k) \<Longrightarrow> 0 \<le> q \<Longrightarrow> recon_record_wf demo_time (demo_recon_record k q)"
  using not_blank_plain[of "hd k" k]
  by (simp add: recon_record_wf_def demo_recon_record_def amount_ok_def not_blank_literal plain_def less_char_def)

lemma demo_timestamps:
  "list_all (\<lambda>v. \<not> blank v \<and> utc_ok demo_time v \<and> trim v = v)
     [''2026-04-06T00:00:00Z'', ''2026-04-06T00:00:30Z'', ''2026-04-06T00:00:31Z'']"
  by (simp add: trim_id ws_defs)

lemma demo_reconcile_ok:
  "\<exists>result. demo_reconcile [demo_recon_record ''b'' 2, demo_recon_record ''a'' 1] [demo_recon_record ''a'' 1] = Inr result"
  unfolding demo_reconcile_def
  by (rule reconcile_window_ok)
    (use demo_timestamps in \<open>simp_all add: demo_recon_record_wf plain_def less_char_def not_blank_literal\<close>,
     simp_all add: demo_recon_record_def)

theorem reconciliation_run_contract_witness:
  "\<exists>result. demo_reconcile [demo_recon_record ''b'' 2, demo_recon_record ''a'' 1] [demo_recon_record ''a'' 1] = Inr result
     \<and> map rdf_order_id (rn_diffs result) = [''b''] \<and> rq_critical_halt (rn_summary result)"
proof -
  let ?i = "[demo_recon_record ''b'' 2, demo_recon_record ''a'' 1]" and ?v = "[demo_recon_record ''a'' 1]"
  obtain result where r: "demo_reconcile ?i ?v = Inr result"
    unfolding demo_reconcile_def using demo_reconcile_ok[unfolded demo_reconcile_def] by blast
  have "filter (\<lambda>k. \<not> windows_agree ?i ?v k) (sort (remdups (map ro_order_id ?i @ map ro_order_id ?v))) = [''b'']"
    by code_simp
  then show ?thesis
    using reconciliation_run_contract[OF r[unfolded demo_reconcile_def]] r
    by (auto simp: Let_def demo_recon_record_def)
qed

text \<open>
  A run over windows in order always produces a result: with a run and correlation identifier,
  UTC timestamps of which the window's are ascending, at least one record, and records that are
  valid and under distinct identifiers, no error is left to return.
\<close>

theorem reconciliation_total:
  assumes "list_all (\<lambda>v. \<not> blank v) [run, correlation]"
    and "list_all (\<lambda>v. \<not> blank v \<and> utc_ok T v \<and> trim v = v) [start, stop, evaluated]"
    and "the (parse_utc_timestamp T start) \<le> the (parse_utc_timestamp T stop)"
    and "internal \<noteq> [] \<or> venue \<noteq> []" "length internal + length venue \<le> 2 ^ 40"
    and "list_all (recon_record_wf T) internal" "distinct (map ro_order_id internal)"
    and "list_all (recon_record_wf T) venue" "distinct (map ro_order_id venue)"
  shows "\<exists>result. reconcile_window T run start stop evaluated correlation internal venue = Inr result"
  by (rule reconcile_window_ok) (fact assms)+

theorem reconciliation_total_witness:
  "\<exists>result. demo_reconcile [] [demo_recon_record ''a'' 1] = Inr result"
  unfolding demo_reconcile_def
  by (rule reconciliation_total)
    (use demo_timestamps in \<open>simp_all add: demo_recon_record_wf plain_def less_char_def not_blank_literal\<close>)

text \<open>
  The exposure of a snapshot has no direction: quantities are checked to be non-negative, so
  net and gross exposure are always the same number, and the open orders counted are those of
  the market in a state other than filled, canceled or expired.
\<close>

theorem exposure_net_is_gross:
  assumes "build_exposure_snapshot T sid run market records reason captured correlation = Inr snapshot"
  shows "ex_net_exposure snapshot = ex_gross_exposure snapshot
    \<and> ex_open_order_count snapshot = int (length (filter (\<lambda>r. \<not> is_terminal_lifecycle_state (ro_lifecycle_state r)
        \<and> (case ex_market_id snapshot of Some m \<Rightarrow> ro_market_id r = m | None \<Rightarrow> True)) records))"
proof -
  have loop: "exposure_loop T e e c rs = Inr (net, gross, opens) \<Longrightarrow> net = gross
      \<and> opens = c + int (length (filter (\<lambda>r. \<not> is_terminal_lifecycle_state (ro_lifecycle_state r)) rs))" for e c rs net gross opens
  proof (induction rs arbitrary: e c)
    case (Cons r rs)
    define quantity where "quantity = (case ro_quantity r of Some quantity \<Rightarrow> quantity | None \<Rightarrow> Fin 0)"
    have "recon_record_wf T r" using Cons.prems by (auto simp: and_then_Inr_iff)
    then have "f_abs quantity = quantity"
      by (cases quantity) (auto simp: recon_record_wf_def quantity_def amount_ok_def split: option.splits)
    then show ?case
      using Cons.prems Cons.IH[of "f_add e quantity"]
      by (fastforce simp: and_then_Inr_iff Let_def quantity_def [symmetric] split: if_splits)
  qed auto
  define market_of where "market_of = (case market of Some v \<Rightarrow> if blank v then None else Some (trim v) | None \<Rightarrow> None)"
  obtain net gross opens where l: "exposure_loop T (Fin 0) (Fin 0) 0
      (filter (\<lambda>r. case market_of of Some m \<Rightarrow> ro_market_id r = m | None \<Rightarrow> True) records) = Inr (net, gross, opens)"
    and s: "ex_net_exposure snapshot = net" "ex_gross_exposure snapshot = gross" "ex_open_order_count snapshot = opens"
      "ex_market_id snapshot = market_of"
    using assms unfolding build_exposure_snapshot_def Let_def market_of_def [symmetric]
    by (auto simp: and_then_Inr_iff simp del: ReconciliationReasonCode_code.simps)
  show ?thesis using loop[OF l] s by (auto simp: conj_commute)
qed

theorem exposure_net_is_gross_witness:
  "\<exists>s. build_exposure_snapshot demo_time ''s'' ''r'' None [demo_recon_record ''a'' 1, demo_recon_record ''b'' 2]
       ReconciliationReasonCode.Matched ''2026-04-06T00:00:00Z'' ''corr-1'' = Inr s
     \<and> ex_net_exposure s = ex_gross_exposure s \<and> ex_open_order_count s = 2"
proof -
  let ?e = "build_exposure_snapshot demo_time ''s'' ''r'' None [demo_recon_record ''a'' 1, demo_recon_record ''b'' 2]
       ReconciliationReasonCode.Matched ''2026-04-06T00:00:00Z'' ''corr-1''"
  have live: "\<not> is_terminal_lifecycle_state ''live''" by code_simp
  have demo: "ro_quantity (demo_recon_record k q) = Some (Fin q)" "ro_lifecycle_state (demo_recon_record k q) = ''live''" for k q
    by (simp_all add: demo_recon_record_def)
  have loop: "exposure_loop demo_time (Fin 0) (Fin 0) 0 [demo_recon_record ''a'' 1, demo_recon_record ''b'' 2] =
      Inr (Fin 3, Fin 3, 2)"
    by (simp add: and_then_Inr_iff demo_recon_record_wf demo live plain_def less_char_def)
  have "\<exists>s. ?e = Inr s \<and> ex_market_id s = None"
    using demo_timestamps
    by (simp add: build_exposure_snapshot_def Let_def and_then_Inr_iff loop plain_def less_char_def
        not_blank_literal validate_exposure_snapshot_def issue_specs amount_ok_def
        del: ReconciliationReasonCode_code.simps exposure_loop.simps)
  then obtain s where s: "?e = Inr s" "ex_market_id s = None" by blast
  show ?thesis using exposure_net_is_gross[OF s(1)] s live by (simp add: demo)
qed

text \<open>
  Identifiers are compared exactly, but a diff's own identifier is built from the normal form:
  two orders that differ in letter case alone are both compared, and their diffs collide.
\<close>

lemma diff_identifiers_collide:
  assumes "build_diff T run ''A'' (Some r) None = Inr (Some d)" "build_diff T run ''a'' (Some s) None = Inr (Some e)"
  shows "rdf_order_id d \<noteq> rdf_order_id e \<and> rdf_diff_id d = rdf_diff_id e"
proof -
  have "normalize ''A'' = normalize ''a''" by code_simp
  then show ?thesis
    using assms by (auto simp: build_diff_def Let_def and_then_Inr_iff)
qed

end
