(* ===== verification/KeyedStore.thy ===== *)
theory KeyedStore
  imports Prelude
begin

text \<open>
  The interface of the in-memory maps of the services: an upsert stores a value under the key
  computed from it, a lookup computes the key of its query in the same way. The clients rely on
  no more than the two laws; every run-time map of the services is an interpretation.
\<close>

locale keyed_store =
  fixes upsert :: "'v \<Rightarrow> 's \<Rightarrow> 's"
    and lookup :: "'q \<Rightarrow> 's \<Rightarrow> 'v option"
    and value_key :: "'v \<Rightarrow> 'k"
    and query_key :: "'q \<Rightarrow> 'k"
  assumes lookup_upsert: "lookup q (upsert v s) = (if query_key q = value_key v then Some v else lookup q s)"
begin

lemma read_your_write: "query_key q = value_key v \<Longrightarrow> lookup q (upsert v s) = Some v"
  by (simp add: lookup_upsert)

lemma other_keys_kept: "query_key q \<noteq> value_key v \<Longrightarrow> lookup q (upsert v s) = lookup q s"
  by (simp add: lookup_upsert)

text \<open>After any sequence of upserts a lookup returns the last value written under its key.\<close>

lemma last_write_wins:
  "lookup q (fold upsert vs s) =
     (case filter (\<lambda>v. value_key v = query_key q) vs of [] \<Rightarrow> lookup q s | ws \<Rightarrow> Some (last ws))"
proof (induction vs arbitrary: s)
  case (Cons v vs)
  then show ?case by (auto simp: lookup_upsert split: list.splits)
qed simp

text \<open>A value found after a run was put there by it, or was there before.\<close>

lemma found_was_written:
  "lookup q (fold upsert vs s) = Some v \<Longrightarrow> (v \<in> set vs \<and> value_key v = query_key q) \<or> lookup q s = Some v"
proof -
  assume "lookup q (fold upsert vs s) = Some v"
  then show ?thesis
    unfolding last_write_wins using last_in_set[of "filter (\<lambda>v. value_key v = query_key q) vs"]
    by (auto split: list.splits if_splits)
qed

end

text \<open>Stores whose two keys normalise an identifier: letter case and outer white space do not matter.\<close>

locale identifier_store = keyed_store upsert lookup "\<lambda>v. normalize (name_of v)" normalize
  for upsert :: "'v \<Rightarrow> 's \<Rightarrow> 's" and lookup :: "string \<Rightarrow> 's \<Rightarrow> 'v option" and name_of :: "'v \<Rightarrow> string" +
  assumes lookup_normalize: "normalize q = normalize r \<Longrightarrow> lookup q s = lookup r s"
begin

lemma lookup_normalized: "lookup (normalize q) s = lookup q s"
  by (rule lookup_normalize) simp

lemma read_own_identifier: "lookup (name_of v) (upsert v s) = Some v"
  by (simp add: read_your_write)

end

end
