(* ===== verification/RuntimeState.thy ===== *)
theory RuntimeState
  imports RewardRisk RegimeShift FreshnessGate Reconciliation KeyedStore
begin

text \<open>
  The run-time policy state of \<open>services/risk-engine/src/gates/mod.rs\<close>: the in-memory state,
  the operations that feed it, and the reader interface the gates are generic in. The
  \<open>BTreeMap\<close>s behind their locks are maps, the atomic flag is a boolean; every operation is
  one step on the whole state.
\<close>

section \<open>State\<close>

record FreshnessRuntimeState =
  zf_pause_active :: bool
  zf_reason_code :: string

record RuntimeStreamHealthState =
  zh_backlog_seconds :: f64
  zh_sustained_backlog_seconds :: f64
  zh_heartbeat_gap_seconds :: f64
  zh_heartbeat_timeout_seconds :: f64
  zh_observed_at_utc :: string

record RuntimeDrawdownState =
  zd_current_drawdown_pct :: f64
  zd_configured_stop_threshold_pct :: f64
  zd_observed_at_utc :: string

record RuntimeStrategyApprovalState =
  zs_is_active :: bool
  zs_reason_code :: string
  zs_observed_at_utc :: string

record InMemoryRuntimePolicyState =
  im_overrides :: "string \<rightharpoonup> MarketClusterOverride"
  im_auth_block_active :: bool
  im_freshness_state :: "FreshnessRuntimeState option"
  im_reconciliation_halt_reason_code :: "string option"
  im_stream_health_state :: "RuntimeStreamHealthState option"
  im_drawdown_state :: "RuntimeDrawdownState option"
  im_strategy_approval_state :: "RuntimeStrategyApprovalState option"
  im_market_snapshots :: "string \<rightharpoonup> MarketSnapshot"
  im_market_policy_profiles :: "string \<rightharpoonup> MarketPolicyProfile"
  im_market_bucket_profiles :: "string \<rightharpoonup> MarketBucketProfile"
  im_reward_risk_policies :: "string \<rightharpoonup> RewardRiskPolicy"
  im_regime_shift_detections :: "RegimeShiftDetection list"
  im_regime_shift_error :: "RegimeShiftContractError option"

definition InMemoryRuntimePolicyState_default :: InMemoryRuntimePolicyState where
  "InMemoryRuntimePolicyState_default =
     \<lparr>im_overrides = Map.empty, im_auth_block_active = False, im_freshness_state = None,
      im_reconciliation_halt_reason_code = None, im_stream_health_state = None, im_drawdown_state = None,
      im_strategy_approval_state = None, im_market_snapshots = Map.empty,
      im_market_policy_profiles = Map.empty, im_market_bucket_profiles = Map.empty,
      im_reward_risk_policies = Map.empty, im_regime_shift_detections = [], im_regime_shift_error = None\<rparr>"

section \<open>Keys and reasons\<close>

definition sanitize_identifier :: "string \<Rightarrow> string \<Rightarrow> string" where
  "sanitize_identifier value fallback =
     (let normalized = normalize value in if normalized = [] then fallback else normalized)"

definition market_bucket_map_key :: "string \<Rightarrow> string \<Rightarrow> string" where
  "market_bucket_map_key market_id cluster_id =
     sanitize_identifier market_id ''unknown_market'' @ ''::'' @ sanitize_identifier cluster_id ''unknown_cluster''"

definition normalize_freshness_pause_reason :: "bool \<Rightarrow> string \<Rightarrow> string" where
  "normalize_freshness_pause_reason is_active reason_code =
     (let parsed = (case FreshnessGateReasonCode_parse reason_code of
            Inr code \<Rightarrow> code | Inl _ \<Rightarrow> FreshnessGateReasonCode.StateUnavailable)
      in if \<not> is_active then FreshnessGateReasonCode_code FreshnessGateReasonCode.BoundarySafe
         else FreshnessGateReasonCode_code
           (if parsed = FreshnessGateReasonCode.BoundarySafe \<or> parsed = FreshnessGateReasonCode.RecoveryConfirmed
            then FreshnessGateReasonCode.StateUnavailable else parsed))"

definition normalize_reconciliation_halt_reason :: "string \<Rightarrow> string" where
  "normalize_reconciliation_halt_reason reason_code =
     (let parsed = (case ReconciliationReasonCode_parse reason_code of
            Inr code \<Rightarrow> code | Inl _ \<Rightarrow> ReconciliationReasonCode.CriticalMismatch)
      in ReconciliationReasonCode_code
           (if parsed \<in> {ReconciliationReasonCode.Matched, ReconciliationReasonCode.NonCriticalMismatch,
                ReconciliationReasonCode.Unauthorized, ReconciliationReasonCode.InvalidPayload}
            then ReconciliationReasonCode.CriticalMismatch else parsed))"

section \<open>Operations\<close>

definition upsert_cluster_override :: "MarketClusterOverride \<Rightarrow> InMemoryRuntimePolicyState \<Rightarrow> InMemoryRuntimePolicyState" where
  "upsert_cluster_override override_state st =
     st\<lparr>im_overrides := (im_overrides st)(normalize (co_cluster_id override_state) \<mapsto> override_state)\<rparr>"

definition set_user_stream_auth_block :: "bool \<Rightarrow> InMemoryRuntimePolicyState \<Rightarrow> InMemoryRuntimePolicyState" where
  "set_user_stream_auth_block is_active st = st\<lparr>im_auth_block_active := is_active\<rparr>"

definition set_freshness_pause :: "bool \<Rightarrow> string \<Rightarrow> InMemoryRuntimePolicyState \<Rightarrow> InMemoryRuntimePolicyState" where
  "set_freshness_pause is_active reason_code st =
     st\<lparr>im_freshness_state := Some \<lparr>zf_pause_active = is_active,
          zf_reason_code = normalize_freshness_pause_reason is_active reason_code\<rparr>\<rparr>"

definition clear_freshness_state :: "InMemoryRuntimePolicyState \<Rightarrow> InMemoryRuntimePolicyState" where
  "clear_freshness_state st = st\<lparr>im_freshness_state := None\<rparr>"

definition set_reconciliation_halt :: "bool \<Rightarrow> string \<Rightarrow> InMemoryRuntimePolicyState \<Rightarrow> InMemoryRuntimePolicyState" where
  "set_reconciliation_halt is_active reason_code st =
     st\<lparr>im_reconciliation_halt_reason_code :=
          (if is_active then Some (normalize_reconciliation_halt_reason reason_code) else None)\<rparr>"

definition set_stream_health_state :: "RuntimeStreamHealthState \<Rightarrow> InMemoryRuntimePolicyState \<Rightarrow> InMemoryRuntimePolicyState" where
  "set_stream_health_state state st = st\<lparr>im_stream_health_state := Some state\<rparr>"

definition clear_stream_health_state :: "InMemoryRuntimePolicyState \<Rightarrow> InMemoryRuntimePolicyState" where
  "clear_stream_health_state st = st\<lparr>im_stream_health_state := None\<rparr>"

definition set_drawdown_state :: "RuntimeDrawdownState \<Rightarrow> InMemoryRuntimePolicyState \<Rightarrow> InMemoryRuntimePolicyState" where
  "set_drawdown_state state st = st\<lparr>im_drawdown_state := Some state\<rparr>"

definition clear_drawdown_state :: "InMemoryRuntimePolicyState \<Rightarrow> InMemoryRuntimePolicyState" where
  "clear_drawdown_state st = st\<lparr>im_drawdown_state := None\<rparr>"

definition set_strategy_approval_state ::
    "RuntimeStrategyApprovalState \<Rightarrow> InMemoryRuntimePolicyState \<Rightarrow> InMemoryRuntimePolicyState" where
  "set_strategy_approval_state state st = st\<lparr>im_strategy_approval_state := Some state\<rparr>"

definition clear_strategy_approval_state :: "InMemoryRuntimePolicyState \<Rightarrow> InMemoryRuntimePolicyState" where
  "clear_strategy_approval_state st = st\<lparr>im_strategy_approval_state := None\<rparr>"

definition upsert_market_snapshot ::
    "time_crate \<Rightarrow> MarketSnapshot \<Rightarrow> InMemoryRuntimePolicyState \<Rightarrow> InMemoryRuntimePolicyState" where
  "upsert_market_snapshot T snapshot st =
     (let market_key = normalize (ms_market_id snapshot);
          previous = im_market_snapshots st market_key;
          st' = st\<lparr>im_market_snapshots := (im_market_snapshots st)(market_key \<mapsto> snapshot)\<rparr>
      in case previous of
           None \<Rightarrow> st'\<lparr>im_regime_shift_error := None\<rparr>
         | Some previous_snapshot \<Rightarrow>
             (case evaluate_fr40_regime_shift T previous_snapshot snapshot (''runtime-regime-shift-'' @ market_key) None of
                Inr detections \<Rightarrow> st'\<lparr>im_regime_shift_detections := im_regime_shift_detections st' @ detections,
                                   im_regime_shift_error := None\<rparr>
              | Inl error \<Rightarrow> st'\<lparr>im_regime_shift_error := Some error\<rparr>))"

definition upsert_market_policy_profile :: "MarketPolicyProfile \<Rightarrow> InMemoryRuntimePolicyState \<Rightarrow> InMemoryRuntimePolicyState" where
  "upsert_market_policy_profile profile st =
     st\<lparr>im_market_policy_profiles := (im_market_policy_profiles st)(normalize (mp_cluster_id profile) \<mapsto> profile)\<rparr>"

definition upsert_market_bucket_profile :: "MarketBucketProfile \<Rightarrow> InMemoryRuntimePolicyState \<Rightarrow> InMemoryRuntimePolicyState" where
  "upsert_market_bucket_profile profile st =
     st\<lparr>im_market_bucket_profiles := (im_market_bucket_profiles st)
          (market_bucket_map_key (bp_market_id profile) (bp_cluster_id profile) \<mapsto> profile)\<rparr>"

definition upsert_reward_risk_policy :: "RewardRiskPolicy \<Rightarrow> InMemoryRuntimePolicyState \<Rightarrow> InMemoryRuntimePolicyState" where
  "upsert_reward_risk_policy policy st =
     st\<lparr>im_reward_risk_policies := (im_reward_risk_policies st)(normalize (rr_policy_key policy) \<mapsto> policy)\<rparr>"

definition take_regime_shift_detections ::
    "InMemoryRuntimePolicyState \<Rightarrow> RegimeShiftDetection list \<times> InMemoryRuntimePolicyState" where
  "take_regime_shift_detections st = (im_regime_shift_detections st, st\<lparr>im_regime_shift_detections := []\<rparr>)"

definition latest_regime_shift_error :: "InMemoryRuntimePolicyState \<Rightarrow> RegimeShiftContractError option" where
  "latest_regime_shift_error st = im_regime_shift_error st"

section \<open>The reader\<close>

definition cluster_override :: "string \<Rightarrow> InMemoryRuntimePolicyState \<Rightarrow> MarketClusterOverride option" where
  "cluster_override cluster_id st = im_overrides st (normalize cluster_id)"

definition market_snapshot :: "string \<Rightarrow> InMemoryRuntimePolicyState \<Rightarrow> MarketSnapshot option" where
  "market_snapshot market_id st = im_market_snapshots st (normalize market_id)"

definition market_policy_profile :: "string \<Rightarrow> InMemoryRuntimePolicyState \<Rightarrow> MarketPolicyProfile option" where
  "market_policy_profile cluster_id st = im_market_policy_profiles st (normalize cluster_id)"

definition market_bucket_profile :: "string \<times> string \<Rightarrow> InMemoryRuntimePolicyState \<Rightarrow> MarketBucketProfile option" where
  "market_bucket_profile q st = im_market_bucket_profiles st (market_bucket_map_key (fst q) (snd q))"

definition reward_risk_policy :: "string \<Rightarrow> InMemoryRuntimePolicyState \<Rightarrow> RewardRiskPolicy option" where
  "reward_risk_policy policy_key st = im_reward_risk_policies st (normalize policy_key)"

text \<open>The trait the gates are generic in, as the record of its methods.\<close>

record RuntimePolicyStateReader =
  pr_cluster_override :: "string \<Rightarrow> MarketClusterOverride option"
  pr_user_stream_auth_block_active :: bool
  pr_freshness_state :: "FreshnessRuntimeState option"
  pr_reconciliation_halt_reason_code :: "string option"
  pr_stream_health_state :: "RuntimeStreamHealthState option"
  pr_drawdown_state :: "RuntimeDrawdownState option"
  pr_strategy_approval_state :: "RuntimeStrategyApprovalState option"
  pr_market_snapshot :: "string \<Rightarrow> MarketSnapshot option"
  pr_market_policy_profile :: "string \<Rightarrow> MarketPolicyProfile option"
  pr_market_bucket_profile :: "string \<Rightarrow> string \<Rightarrow> MarketBucketProfile option"
  pr_reward_risk_policy :: "string \<Rightarrow> RewardRiskPolicy option"

definition in_memory_policy_reader :: "InMemoryRuntimePolicyState \<Rightarrow> RuntimePolicyStateReader" where
  "in_memory_policy_reader st =
     \<lparr>pr_cluster_override = (\<lambda>cluster_id. cluster_override cluster_id st),
      pr_user_stream_auth_block_active = im_auth_block_active st,
      pr_freshness_state = im_freshness_state st,
      pr_reconciliation_halt_reason_code = im_reconciliation_halt_reason_code st,
      pr_stream_health_state = im_stream_health_state st,
      pr_drawdown_state = im_drawdown_state st,
      pr_strategy_approval_state = im_strategy_approval_state st,
      pr_market_snapshot = (\<lambda>market_id. market_snapshot market_id st),
      pr_market_policy_profile = (\<lambda>cluster_id. market_policy_profile cluster_id st),
      pr_market_bucket_profile = (\<lambda>market_id cluster_id. market_bucket_profile (market_id, cluster_id) st),
      pr_reward_risk_policy = (\<lambda>policy_key. reward_risk_policy policy_key st)\<rparr>"

section \<open>Stores\<close>

interpretation cluster_overrides: identifier_store upsert_cluster_override cluster_override co_cluster_id
  by unfold_locales (auto simp: upsert_cluster_override_def cluster_override_def)

interpretation market_policies: identifier_store upsert_market_policy_profile market_policy_profile mp_cluster_id
  by unfold_locales (auto simp: upsert_market_policy_profile_def market_policy_profile_def)

interpretation reward_risk_policies: identifier_store upsert_reward_risk_policy reward_risk_policy rr_policy_key
  by unfold_locales (auto simp: upsert_reward_risk_policy_def reward_risk_policy_def)

interpretation market_snapshots: identifier_store "upsert_market_snapshot T" market_snapshot ms_market_id for T
  by unfold_locales
    (auto simp: upsert_market_snapshot_def market_snapshot_def Let_def split: option.splits sum.splits)

interpretation market_buckets: keyed_store upsert_market_bucket_profile market_bucket_profile
    "\<lambda>p. market_bucket_map_key (bp_market_id p) (bp_cluster_id p)" "\<lambda>q. market_bucket_map_key (fst q) (snd q)"
  by unfold_locales (auto simp: upsert_market_bucket_profile_def market_bucket_profile_def)

lemma sanitize_not_blank: "\<not> blank fallback \<Longrightarrow> \<not> blank (sanitize_identifier v fallback)"
  using normalize_Nil[of v] by (auto simp: sanitize_identifier_def Let_def)

lemma sanitize_normal: "normalize fallback = fallback \<Longrightarrow> normalize (sanitize_identifier v fallback) = sanitize_identifier v fallback"
  by (simp add: sanitize_identifier_def Let_def)

lemma freshness_pause_reason_known:
  "\<exists>c. normalize_freshness_pause_reason b r = FreshnessGateReasonCode_code c
     \<and> (b \<longrightarrow> c \<noteq> FreshnessGateReasonCode.BoundarySafe \<and> c \<noteq> FreshnessGateReasonCode.RecoveryConfirmed)"
  by (cases b; cases "FreshnessGateReasonCode_parse r")
    (auto simp: normalize_freshness_pause_reason_def Let_def simp del: FreshnessGateReasonCode_code.simps)

text \<open>A detection is lost only by being taken: an upsert appends to the buffer.\<close>

lemma detections_grow:
  "\<exists>ds. im_regime_shift_detections (upsert_market_snapshot T s st) = im_regime_shift_detections st @ ds"
  by (auto simp: upsert_market_snapshot_def Let_def split: option.splits sum.splits)

section \<open>Properties\<close>

text \<open>
  After any sequence of market snapshots the state holds, for each market (up to letter case
  and outer white space), the last one written, and the regime-shift buffer has lost nothing it
  held before: it has only grown at its end.
\<close>

theorem snapshots_last_write_wins:
  "market_snapshot m (fold (upsert_market_snapshot T) ss st) =
     (case filter (\<lambda>s. normalize (ms_market_id s) = normalize m) ss of
        [] \<Rightarrow> market_snapshot m st | ws \<Rightarrow> Some (last ws))
   \<and> (\<exists>ds. im_regime_shift_detections (fold (upsert_market_snapshot T) ss st) = im_regime_shift_detections st @ ds)"
proof
  show "\<exists>ds. im_regime_shift_detections (fold (upsert_market_snapshot T) ss st) = im_regime_shift_detections st @ ds"
  proof (induction ss arbitrary: st)
    case (Cons s ss)
    obtain ds where "im_regime_shift_detections (upsert_market_snapshot T s st) = im_regime_shift_detections st @ ds"
      using detections_grow by blast
    then show ?case using Cons.IH[of "upsert_market_snapshot T s st"] by auto
  qed simp
qed (rule market_snapshots.last_write_wins)

text \<open>
  The key of a bucket joins its two parts without escaping, so two pairs can share it; the
  resolution of the links compares market and cluster again.
\<close>

lemma bucket_keys_collide: "market_bucket_map_key ''a::b'' ''c'' = market_bucket_map_key ''a'' ''b::c''"
  by code_simp

end
