(* ===== verification/LimitState.thy ===== *)
theory LimitState
  imports RiskLimits KeyedStore
begin

text \<open>
  The risk limit state of \<open>services/risk-engine/src/limits/mod.rs\<close>: the in-memory state and
  its operations, the reader interface, and the snapshot the pre-trade gate asks for. The
  \<open>BTreeMap\<close>s are maps; their locks serialise the operations, which are the steps here.
\<close>

section \<open>State and operations\<close>

definition LIMIT_STATE_STALE_THRESHOLD_SECONDS :: int where [simp]: "LIMIT_STATE_STALE_THRESHOLD_SECONDS = 60"

record InMemoryRiskLimitState =
  lm_active_profiles :: "string \<rightharpoonup> RiskLimitProfileVersion"
  lm_pending_profiles :: "string \<rightharpoonup> RiskLimitProfileVersion list"
  lm_inventory_rules :: "string \<rightharpoonup> InventoryLimitRule list"
  lm_unavailable_reason_code :: "string option"

definition InMemoryRiskLimitState_default :: InMemoryRiskLimitState where
  "InMemoryRiskLimitState_default =
     \<lparr>lm_active_profiles = Map.empty, lm_pending_profiles = Map.empty, lm_inventory_rules = Map.empty,
      lm_unavailable_reason_code = None\<rparr>"

definition upsert_active_profile :: "RiskLimitProfileVersion \<Rightarrow> InMemoryRiskLimitState \<Rightarrow> InMemoryRiskLimitState" where
  "upsert_active_profile profile st =
     st\<lparr>lm_active_profiles := (lm_active_profiles st)(normalize (rp_profile_key profile) \<mapsto> profile)\<rparr>"

definition upsert_pending_profile :: "RiskLimitProfileVersion \<Rightarrow> InMemoryRiskLimitState \<Rightarrow> InMemoryRiskLimitState" where
  "upsert_pending_profile profile st =
     (let key = normalize (rp_profile_key profile);
          entry = (case lm_pending_profiles st key of Some profiles \<Rightarrow> profiles | None \<Rightarrow> [])
      in st\<lparr>lm_pending_profiles := (lm_pending_profiles st)(key \<mapsto> entry @ [profile])\<rparr>)"

definition upsert_inventory_rules ::
    "string \<Rightarrow> InventoryLimitRule list \<Rightarrow> InMemoryRiskLimitState \<Rightarrow> InMemoryRiskLimitState" where
  "upsert_inventory_rules profile_key rules st =
     st\<lparr>lm_inventory_rules := (lm_inventory_rules st)(normalize profile_key \<mapsto> rules)\<rparr>"

definition set_state_unavailable :: "string \<Rightarrow> InMemoryRiskLimitState \<Rightarrow> InMemoryRiskLimitState" where
  "set_state_unavailable reason_code st =
     (let reason = (case RiskLimitReasonCode_parse reason_code of
          Inr parsed \<Rightarrow> RiskLimitReasonCode_code parsed
        | Inl _ \<Rightarrow> RiskLimitReasonCode_code RiskLimitReasonCode.PolicyStateUnavailable)
      in st\<lparr>lm_unavailable_reason_code := Some reason\<rparr>)"

definition clear_state_unavailable :: "InMemoryRiskLimitState \<Rightarrow> InMemoryRiskLimitState" where
  "clear_state_unavailable st = st\<lparr>lm_unavailable_reason_code := None\<rparr>"

section \<open>The reader\<close>

text \<open>The trait object the gates are generic in: its four methods.\<close>

record RuntimeRiskLimitStateReader =
  lr_active_profile :: "string \<Rightarrow> RiskLimitProfileVersion option"
  lr_pending_profiles :: "string \<Rightarrow> RiskLimitProfileVersion list"
  lr_normal_max_order_size_units :: "string \<Rightarrow> string \<Rightarrow> string \<Rightarrow> f64 option"
  lr_state_unavailable_reason_code :: "string option"

definition active_profile :: "string \<Rightarrow> InMemoryRiskLimitState \<Rightarrow> RiskLimitProfileVersion option" where
  "active_profile profile_key st = lm_active_profiles st (normalize profile_key)"

definition pending_profiles :: "string \<Rightarrow> InMemoryRiskLimitState \<Rightarrow> RiskLimitProfileVersion list" where
  "pending_profiles profile_key st =
     (case lm_pending_profiles st (normalize profile_key) of Some profiles \<Rightarrow> profiles | None \<Rightarrow> [])"

text \<open>The closure \<open>select_rule\<close>.\<close>

definition select_rule :: "InventoryLimitRule list \<Rightarrow> RiskLimitScope \<Rightarrow> string list \<Rightarrow> f64 option" where
  "select_rule rules scope candidates =
     (case find (\<lambda>rule. ir_scope rule = scope
                  \<and> list_ex (\<lambda>candidate. eq_ignore_ascii_case (trim (ir_scope_id rule)) candidate) candidates) rules of
        None \<Rightarrow> None
      | Some rule \<Rightarrow>
          let value = ir_max_order_size_units rule
          in if f_is_finite value \<and> f_gt value (Fin 0) then Some value else None)"

definition normal_max_order_size_units :: "string \<Rightarrow> string \<Rightarrow> string \<Rightarrow> InMemoryRiskLimitState \<Rightarrow> f64 option" where
  "normal_max_order_size_units profile_key market_id cluster_id st =
     (let normalized_market_id = normalize market_id;
          normalized_cluster_id = normalize cluster_id;
          market_scope_candidates = [normalized_market_id, ''market::'' @ normalized_market_id];
          strategy_scope_candidates = [normalized_cluster_id, ''strategy::'' @ normalized_cluster_id];
          rules = (case lm_inventory_rules st (normalize profile_key) of Some rules \<Rightarrow> rules | None \<Rightarrow> [])
      in case select_rule rules RiskLimitScope.Market market_scope_candidates of
           Some value \<Rightarrow> Some value
         | None \<Rightarrow> select_rule rules RiskLimitScope.Strategy strategy_scope_candidates)"

definition in_memory_limit_reader :: "InMemoryRiskLimitState \<Rightarrow> RuntimeRiskLimitStateReader" where
  "in_memory_limit_reader st =
     \<lparr>lr_active_profile = (\<lambda>profile_key. active_profile profile_key st),
      lr_pending_profiles = (\<lambda>profile_key. pending_profiles profile_key st),
      lr_normal_max_order_size_units = (\<lambda>profile_key market_id cluster_id.
        normal_max_order_size_units profile_key market_id cluster_id st),
      lr_state_unavailable_reason_code = lm_unavailable_reason_code st\<rparr>"

section \<open>The snapshot\<close>

record RiskLimitStateSnapshot =
  lz_profile_key :: string
  lz_available :: bool
  lz_reason_code :: string
  lz_pending_profile_count :: nat
  lz_evaluated_at_utc :: string

definition profile_stale :: "time_crate \<Rightarrow> RiskLimitProfileVersion \<Rightarrow> string \<Rightarrow> bool" where
  "profile_stale T profile now_utc = (case parse_utc_timestamp T now_utc of
      None \<Rightarrow> True
    | Some now \<Rightarrow> (case parse_utc_timestamp T (rp_updated_at_utc profile) of
        None \<Rightarrow> True
      | Some updated_at \<Rightarrow> dur_whole_seconds T (now - updated_at) > LIMIT_STATE_STALE_THRESHOLD_SECONDS))"

definition evaluate_risk_limit_state_snapshot ::
    "time_crate \<Rightarrow> RuntimeRiskLimitStateReader \<Rightarrow> string \<Rightarrow> string \<Rightarrow> RiskLimitStateSnapshot" where
  "evaluate_risk_limit_state_snapshot T state profile_key now_utc =
     (let normalized_profile_key = normalize profile_key;
          pending_profile_count = length (lr_pending_profiles state normalized_profile_key);
          snapshot = (\<lambda>available reason_code.
            \<lparr>lz_profile_key = normalized_profile_key, lz_available = available, lz_reason_code = reason_code,
             lz_pending_profile_count = pending_profile_count, lz_evaluated_at_utc = now_utc\<rparr>)
      in if normalized_profile_key = [] \<or> parse_utc_timestamp T now_utc = None then
           snapshot False (RiskLimitReasonCode_code RiskLimitReasonCode.InvalidPayload)
         else (case lr_state_unavailable_reason_code state of
           Some reason_code \<Rightarrow>
             snapshot False (case RiskLimitReasonCode_parse reason_code of
               Inr code \<Rightarrow> RiskLimitReasonCode_code code
             | Inl _ \<Rightarrow> RiskLimitReasonCode_code RiskLimitReasonCode.PolicyStateUnavailable)
         | None \<Rightarrow> (case lr_active_profile state normalized_profile_key of
             None \<Rightarrow> snapshot False (RiskLimitReasonCode_code RiskLimitReasonCode.PolicyStateUnavailable)
           | Some profile \<Rightarrow>
               if rp_status profile \<noteq> RiskLimitProfileStatus.Active
                  \<or> is_err (validate_risk_limit_profile_version T profile) \<or> profile_stale T profile now_utc
               then snapshot False (RiskLimitReasonCode_code RiskLimitReasonCode.PolicyStateUnavailable)
               else snapshot True (rp_reason_code profile))))"

section \<open>Stores\<close>

interpretation active_profiles: identifier_store upsert_active_profile active_profile rp_profile_key
  by unfold_locales (auto simp: upsert_active_profile_def active_profile_def)

lemma pending_profiles_append:
  "pending_profiles k (upsert_pending_profile p st) =
     (if normalize k = normalize (rp_profile_key p) then pending_profiles k st @ [p] else pending_profiles k st)"
  by (simp add: pending_profiles_def upsert_pending_profile_def Let_def)

lemma unavailable_reason_known:
  "\<exists>c. lm_unavailable_reason_code (set_state_unavailable r st) = Some (RiskLimitReasonCode_code c)"
  by (cases "RiskLimitReasonCode_parse r") (auto simp: set_state_unavailable_def simp del: RiskLimitReasonCode_code.simps)

lemma select_rule_positive: "select_rule rules scope cs = Some x \<Longrightarrow> f_is_finite x \<and> f_gt x (Fin 0)"
  by (auto simp: select_rule_def Let_def split: option.splits if_splits)

lemma normal_size_positive: "normal_max_order_size_units p m c st = Some x \<Longrightarrow> f_is_finite x \<and> f_gt x (Fin 0)"
  by (auto simp: normal_max_order_size_units_def Let_def dest: select_rule_positive split: option.splits)

section \<open>Properties\<close>

text \<open>
  Limits are available exactly when the key is not blank, the time is UTC, nothing is
  declared unavailable, and there is an active profile under the key that is valid and was
  updated at most 60 whole seconds before; every other case is unavailable under a known reason
  code. A profile dated in the future counts as fresh.
\<close>

theorem limit_snapshot_available_iff:
  "(let s = evaluate_risk_limit_state_snapshot T reader key now in
     (lz_available s \<longleftrightarrow> \<not> blank key \<and> lr_state_unavailable_reason_code reader = None
        \<and> (\<exists>p t u. lr_active_profile reader (normalize key) = Some p
             \<and> rp_status p = RiskLimitProfileStatus.Active \<and> profile_wf T p
             \<and> parse_utc_timestamp T now = Some t \<and> parse_utc_timestamp T (rp_updated_at_utc p) = Some u
             \<and> dur_whole_seconds T (t - u) \<le> 60))
     \<and> (\<exists>c. lz_reason_code s = RiskLimitReasonCode_code c))"
proof -
  have valid: "isl (validate_risk_limit_profile_version T p) \<longleftrightarrow> \<not> profile_wf T p" for p
    using validate_profile_ok_iff[of T p] by (cases "validate_risk_limit_profile_version T p") auto
  have known: "profile_wf T p \<Longrightarrow> \<exists>c. rp_reason_code p = RiskLimitReasonCode_code c" for p
    using risk_limit_reason.parse_ok_iff[of "rp_reason_code p"] by (auto simp: profile_wf_def)
  show ?thesis
    using known
    by (auto simp: evaluate_risk_limit_state_snapshot_def Let_def valid profile_stale_def not_less
        simp del: RiskLimitReasonCode_code.simps split: option.splits sum.splits)
qed

end
