(* ===== verification/Participation.thy ===== *)
theory Participation
  imports RegimeShift MarketStream
begin

text \<open>
  The participation guardrail (FR41) of \<open>crates/domain/src/risk.rs\<close>: a thin or inactive
  market pauses participation, an overnight gap caps the order size at a quarter, and the
  evidence of a decision is checked against its own contract.
\<close>

section \<open>Codes, errors and data\<close>

definition FR41_LOW_LIQUIDITY_DEPTH_USD_THRESHOLD :: f64 where [simp]: "FR41_LOW_LIQUIDITY_DEPTH_USD_THRESHOLD = Fin 10000"
definition FR41_INACTIVITY_PAUSE_THRESHOLD_SECONDS :: f64 where [simp]: "FR41_INACTIVITY_PAUSE_THRESHOLD_SECONDS = Fin 900"
definition FR41_OVERNIGHT_CAP_THRESHOLD_SECONDS :: f64 where [simp]: "FR41_OVERNIGHT_CAP_THRESHOLD_SECONDS = Fin 14400"
definition FR41_OVERNIGHT_CAP_FACTOR :: f64 where [simp]: "FR41_OVERNIGHT_CAP_FACTOR = Fin (1 / 4)"

datatype ParticipationGuardrailReasonCode =
    NoTrigger
  | LowLiquidityPause
  | InactivityPause
  | OvernightSizeCapActive
  | DependencyUnavailable
  | InvalidPayload
  | PersistenceUnavailable
  | EvidencePersisted
  | EvidenceRead

fun ParticipationGuardrailReasonCode_code :: "ParticipationGuardrailReasonCode \<Rightarrow> string" where
  "ParticipationGuardrailReasonCode_code ParticipationGuardrailReasonCode.NoTrigger = ''fr41_participation_no_trigger''"
| "ParticipationGuardrailReasonCode_code ParticipationGuardrailReasonCode.LowLiquidityPause = ''fr41_participation_low_liquidity_pause''"
| "ParticipationGuardrailReasonCode_code ParticipationGuardrailReasonCode.InactivityPause = ''fr41_participation_inactivity_pause''"
| "ParticipationGuardrailReasonCode_code ParticipationGuardrailReasonCode.OvernightSizeCapActive = ''fr41_participation_overnight_size_cap_active''"
| "ParticipationGuardrailReasonCode_code ParticipationGuardrailReasonCode.DependencyUnavailable = ''fr41_participation_dependency_unavailable''"
| "ParticipationGuardrailReasonCode_code ParticipationGuardrailReasonCode.InvalidPayload = ''fr41_participation_invalid_payload''"
| "ParticipationGuardrailReasonCode_code ParticipationGuardrailReasonCode.PersistenceUnavailable = ''fr41_participation_persistence_unavailable''"
| "ParticipationGuardrailReasonCode_code ParticipationGuardrailReasonCode.EvidencePersisted = ''fr41_participation_evidence_persisted''"
| "ParticipationGuardrailReasonCode_code ParticipationGuardrailReasonCode.EvidenceRead = ''fr41_participation_evidence_read''"

type_synonym ParticipationGuardrailValidationIssue = issue
type_synonym ParticipationGuardrailContractError = contract_error

definition ParticipationGuardrailContractError_invalid_payload :: "string \<Rightarrow> ParticipationGuardrailContractError" where
  "ParticipationGuardrailContractError_invalid_payload message =
     contract_error_of (ParticipationGuardrailReasonCode_code ParticipationGuardrailReasonCode.InvalidPayload) message []"

definition ParticipationGuardrailContractError_invalid_payload_with_issues :: "string \<Rightarrow> ParticipationGuardrailValidationIssue list \<Rightarrow> ParticipationGuardrailContractError" where
  "ParticipationGuardrailContractError_invalid_payload_with_issues message field_errors =
     contract_error_of (ParticipationGuardrailReasonCode_code ParticipationGuardrailReasonCode.InvalidPayload) message field_errors"

definition ParticipationGuardrailContractError_dependency_unavailable_with_issues :: "string \<Rightarrow> ParticipationGuardrailValidationIssue list \<Rightarrow> ParticipationGuardrailContractError" where
  "ParticipationGuardrailContractError_dependency_unavailable_with_issues message field_errors =
     contract_error_of (ParticipationGuardrailReasonCode_code ParticipationGuardrailReasonCode.DependencyUnavailable) message field_errors"

definition ParticipationGuardrailReasonCode_parse :: "string \<Rightarrow> ParticipationGuardrailContractError + ParticipationGuardrailReasonCode" where
  "ParticipationGuardrailReasonCode_parse = parse_arms
     [(''fr41_participation_no_trigger'', ParticipationGuardrailReasonCode.NoTrigger),
      (''fr41_participation_low_liquidity_pause'', ParticipationGuardrailReasonCode.LowLiquidityPause),
      (''fr41_participation_inactivity_pause'', ParticipationGuardrailReasonCode.InactivityPause),
      (''fr41_participation_overnight_size_cap_active'', ParticipationGuardrailReasonCode.OvernightSizeCapActive),
      (''fr41_participation_dependency_unavailable'', ParticipationGuardrailReasonCode.DependencyUnavailable),
      (''fr41_participation_invalid_payload'', ParticipationGuardrailReasonCode.InvalidPayload),
      (''fr41_participation_persistence_unavailable'', ParticipationGuardrailReasonCode.PersistenceUnavailable),
      (''fr41_participation_evidence_persisted'', ParticipationGuardrailReasonCode.EvidencePersisted),
      (''fr41_participation_evidence_read'', ParticipationGuardrailReasonCode.EvidenceRead)]
     (\<lambda>value. ParticipationGuardrailContractError_invalid_payload (''unknown FR41 reason code `'' @ value @ ''`''))"

interpretation participation_reason: enum_codec "\<lambda>v. v" ParticipationGuardrailReasonCode_code ParticipationGuardrailReasonCode_parse
  by (unfold ParticipationGuardrailReasonCode_parse_def, rule enum_codec_arms, case_tac x) simp_all

datatype ParticipationGuardrailMode =
    Pass
  | Pause
  | SizeCap
  | Unavailable

fun ParticipationGuardrailMode_as_str :: "ParticipationGuardrailMode \<Rightarrow> string" where
  "ParticipationGuardrailMode_as_str ParticipationGuardrailMode.Pass = ''pass''"
| "ParticipationGuardrailMode_as_str ParticipationGuardrailMode.Pause = ''pause''"
| "ParticipationGuardrailMode_as_str ParticipationGuardrailMode.SizeCap = ''size_cap''"
| "ParticipationGuardrailMode_as_str ParticipationGuardrailMode.Unavailable = ''unavailable''"

definition ParticipationGuardrailMode_parse :: "string \<Rightarrow> ParticipationGuardrailContractError + ParticipationGuardrailMode" where
  "ParticipationGuardrailMode_parse = parse_arms
     [(''pass'', ParticipationGuardrailMode.Pass),
      (''pause'', ParticipationGuardrailMode.Pause),
      (''size_cap'', ParticipationGuardrailMode.SizeCap),
      (''unavailable'', ParticipationGuardrailMode.Unavailable)]
     (\<lambda>value. ParticipationGuardrailContractError_invalid_payload (''unknown FR41 guardrail mode `'' @ value @ ''`''))"

interpretation participation_mode: enum_codec "\<lambda>v. v" ParticipationGuardrailMode_as_str ParticipationGuardrailMode_parse
  by (unfold ParticipationGuardrailMode_parse_def, rule enum_codec_arms, case_tac x) simp_all

record ParticipationGuardrailEvaluationInput =
  pi_market_id :: string
  pi_cluster_id :: string
  pi_correlation_id :: string
  pi_observed_at_utc :: string
  pi_liquidity_depth_usd :: "f64 option"
  pi_inactivity_gap_seconds :: "f64 option"
  pi_normal_max_order_size_units :: "f64 option"

record ParticipationGuardrailEvaluationOutcome =
  po_market_id :: string
  po_cluster_id :: string
  po_correlation_id :: string
  po_observed_at_utc :: string
  po_guardrail_mode :: ParticipationGuardrailMode
  po_reason_code :: string
  po_liquidity_depth_usd :: f64
  po_inactivity_gap_seconds :: f64
  po_threshold_liquidity_depth_usd :: f64
  po_threshold_inactivity_pause_seconds :: f64
  po_threshold_overnight_gap_seconds :: f64
  po_normal_max_order_size_units :: "f64 option"
  po_capped_max_order_size_units :: "f64 option"

record PreTradeParticipationGuardrailEvidence =
  pe_event_id :: string
  pe_guardrail_mode :: string
  pe_reason_code :: string
  pe_market_id :: string
  pe_cluster_id :: string
  pe_correlation_id :: string
  pe_observed_at_utc :: string
  pe_evaluated_at_utc :: string
  pe_liquidity_depth_usd :: f64
  pe_inactivity_gap_seconds :: f64
  pe_threshold_liquidity_depth_usd :: f64
  pe_threshold_inactivity_pause_seconds :: f64
  pe_threshold_overnight_gap_seconds :: f64
  pe_normal_max_order_size_units :: "f64 option"
  pe_capped_max_order_size_units :: "f64 option"

section \<open>Validators\<close>

definition validate_participation_guardrail_identifier_field ::
    "string \<Rightarrow> string \<Rightarrow> issue list" where
  "validate_participation_guardrail_identifier_field field value =
     (if normalize value = [] then push_if True field
        (ParticipationGuardrailReasonCode_code ParticipationGuardrailReasonCode.InvalidPayload)
        (field @ '' cannot be blank'')
      else push_if (\<not> is_canonical_identifier (normalize value)) field
        (ParticipationGuardrailReasonCode_code ParticipationGuardrailReasonCode.InvalidPayload)
        (field @ '' must contain 3-120 canonical characters''))"

definition validate_participation_guardrail_timestamp_field ::
    "time_crate \<Rightarrow> string \<Rightarrow> string \<Rightarrow> issue list" where
  "validate_participation_guardrail_timestamp_field T field value =
     push_if (\<not> utc_ok T value) field
        (ParticipationGuardrailReasonCode_code ParticipationGuardrailReasonCode.InvalidPayload)
        (field @ '' must be an RFC3339 UTC timestamp'')"

definition validate_participation_guardrail_non_empty_field ::
    "string \<Rightarrow> string \<Rightarrow> issue list" where
  "validate_participation_guardrail_non_empty_field field value =
     push_if (blank value) field
        (ParticipationGuardrailReasonCode_code ParticipationGuardrailReasonCode.InvalidPayload)
        (field @ '' cannot be blank'')"

definition validate_participation_guardrail_finite_field ::
    "string \<Rightarrow> f64 \<Rightarrow> bool \<Rightarrow> issue list" where
  "validate_participation_guardrail_finite_field field value strictly_positive =
     (if \<not> f_is_finite value then push_if True field
        (ParticipationGuardrailReasonCode_code ParticipationGuardrailReasonCode.InvalidPayload)
        (field @ '' must be finite'')
      else (if strictly_positive \<and> f_le value (Fin 0)
      then push_if True field
        (ParticipationGuardrailReasonCode_code ParticipationGuardrailReasonCode.InvalidPayload)
        (field @ '' must be > 0'')
      else push_if (\<not> strictly_positive \<and> f_lt value (Fin 0)) field
        (ParticipationGuardrailReasonCode_code ParticipationGuardrailReasonCode.InvalidPayload)
        (field @ '' must be >= 0'')))"

text \<open>What size-cap mode asks of the two sizes; 0.0000001 is rounded to a binary64 value.\<close>

definition size_cap_issues :: "f64 option \<Rightarrow> f64 option \<Rightarrow> issue list" where
  "size_cap_issues normal capped =
     push_if (normal = None) ''normal_max_order_size_units''
       (ParticipationGuardrailReasonCode_code ParticipationGuardrailReasonCode.InvalidPayload)
       ''size_cap mode requires normal_max_order_size_units''
   @ push_if (capped = None) ''capped_max_order_size_units''
       (ParticipationGuardrailReasonCode_code ParticipationGuardrailReasonCode.InvalidPayload)
       ''size_cap mode requires capped_max_order_size_units''
   @ (case (normal, capped) of
        (Some normal, Some capped) \<Rightarrow>
          push_if (f_gt (f_abs (f_sub capped (f_mul normal FR41_OVERNIGHT_CAP_FACTOR))) (round_f64 (1 / 10000000)))
            ''capped_max_order_size_units''
            (ParticipationGuardrailReasonCode_code ParticipationGuardrailReasonCode.InvalidPayload)
            ''capped_max_order_size_units must equal normal_max_order_size_units * 0.25''
      | _ \<Rightarrow> [])"

definition validate_pretrade_participation_guardrail_evidence ::
    "time_crate \<Rightarrow> PreTradeParticipationGuardrailEvidence \<Rightarrow> ParticipationGuardrailContractError + unit" where
  "validate_pretrade_participation_guardrail_evidence T evidence = reject_if
     (validate_participation_guardrail_identifier_field ''event_id'' (pe_event_id evidence)
    @ validate_participation_guardrail_identifier_field ''market_id'' (pe_market_id evidence)
    @ validate_participation_guardrail_identifier_field ''cluster_id'' (pe_cluster_id evidence)
    @ validate_participation_guardrail_identifier_field ''correlation_id'' (pe_correlation_id evidence)
    @ validate_participation_guardrail_non_empty_field ''reason_code'' (pe_reason_code evidence)
    @ validate_participation_guardrail_non_empty_field ''guardrail_mode'' (pe_guardrail_mode evidence)
    @ validate_participation_guardrail_timestamp_field T ''observed_at_utc'' (pe_observed_at_utc evidence)
    @ validate_participation_guardrail_timestamp_field T ''evaluated_at_utc'' (pe_evaluated_at_utc evidence)
    @ validate_participation_guardrail_finite_field ''liquidity_depth_usd'' (pe_liquidity_depth_usd evidence) False
    @ validate_participation_guardrail_finite_field ''inactivity_gap_seconds'' (pe_inactivity_gap_seconds evidence) False
    @ validate_participation_guardrail_finite_field ''threshold_liquidity_depth_usd'' (pe_threshold_liquidity_depth_usd evidence) False
    @ validate_participation_guardrail_finite_field ''threshold_inactivity_pause_seconds'' (pe_threshold_inactivity_pause_seconds evidence) False
    @ validate_participation_guardrail_finite_field ''threshold_overnight_gap_seconds'' (pe_threshold_overnight_gap_seconds evidence) False
    @ (case pe_normal_max_order_size_units evidence of None \<Rightarrow> []
       | Some value \<Rightarrow> validate_participation_guardrail_finite_field ''normal_max_order_size_units'' value True)
    @ (case pe_capped_max_order_size_units evidence of None \<Rightarrow> []
       | Some value \<Rightarrow> validate_participation_guardrail_finite_field ''capped_max_order_size_units'' value True)
    @ push_if (is_err (ParticipationGuardrailReasonCode_parse (pe_reason_code evidence))) ''reason_code''
        (ParticipationGuardrailReasonCode_code ParticipationGuardrailReasonCode.InvalidPayload)
        (''reason_code must be a supported FR41 reason code'')
    @ push_if (is_err (ParticipationGuardrailMode_parse (pe_guardrail_mode evidence))) ''guardrail_mode''
        (ParticipationGuardrailReasonCode_code ParticipationGuardrailReasonCode.InvalidPayload)
        (''guardrail_mode must be one of: pass, pause, size_cap, unavailable'')
    @ push_if (pe_observed_at_utc evidence > pe_evaluated_at_utc evidence) ''evaluated_at_utc''
        (ParticipationGuardrailReasonCode_code ParticipationGuardrailReasonCode.InvalidPayload)
        (''evaluated_at_utc must be greater than or equal to observed_at_utc'')
    @ (if ParticipationGuardrailMode_parse (pe_guardrail_mode evidence) = Inr ParticipationGuardrailMode.SizeCap
       then size_cap_issues (pe_normal_max_order_size_units evidence) (pe_capped_max_order_size_units evidence)
       else []))
     (ParticipationGuardrailContractError_invalid_payload_with_issues ''FR41 participation guardrail evidence is invalid'')"

section \<open>Evaluation\<close>

text \<open>The issue the helper pushes, and the value it lets through.\<close>

fun require_participation_guardrail_signal ::
    "string \<Rightarrow> f64 option \<Rightarrow> bool \<Rightarrow> ParticipationGuardrailValidationIssue list \<times> f64 option" where
  "require_participation_guardrail_signal field (Some value) strictly_positive =
     (let issue = (\<lambda>message. push_if True field
            (ParticipationGuardrailReasonCode_code ParticipationGuardrailReasonCode.DependencyUnavailable)
            (field @ message))
      in if f_is_finite value \<and> (\<not> strictly_positive \<or> f_gt value (Fin 0)) \<and> f_ge value (Fin 0)
         then ([], Some value)
         else if \<not> f_is_finite value then (issue '' must be finite'', None)
         else if strictly_positive then (issue '' must be > 0'', None)
         else (issue '' must be >= 0'', None))"
| "require_participation_guardrail_signal field None strictly_positive =
     (push_if True field
        (ParticipationGuardrailReasonCode_code ParticipationGuardrailReasonCode.DependencyUnavailable)
        (field @ '' is required for FR41 evaluation''), None)"

text \<open>The mode, its reason and the two sizes of the cap, from the two signals.\<close>

definition fr41_mode ::
    "f64 \<Rightarrow> f64 \<Rightarrow> f64 option \<Rightarrow> ParticipationGuardrailContractError
      + ParticipationGuardrailMode \<times> ParticipationGuardrailReasonCode \<times> f64 option \<times> f64 option" where
  "fr41_mode liquidity_depth_usd inactivity_gap_seconds normal_max_order_size_units =
     (if f_lt liquidity_depth_usd FR41_LOW_LIQUIDITY_DEPTH_USD_THRESHOLD then
        Inr (ParticipationGuardrailMode.Pause, ParticipationGuardrailReasonCode.LowLiquidityPause, None, None)
      else if f_gt inactivity_gap_seconds FR41_INACTIVITY_PAUSE_THRESHOLD_SECONDS
         \<and> f_le inactivity_gap_seconds FR41_OVERNIGHT_CAP_THRESHOLD_SECONDS then
        Inr (ParticipationGuardrailMode.Pause, ParticipationGuardrailReasonCode.InactivityPause, None, None)
      else if f_gt inactivity_gap_seconds FR41_OVERNIGHT_CAP_THRESHOLD_SECONDS then
        (let nb = require_participation_guardrail_signal ''normal_max_order_size_units''
               normal_max_order_size_units True
         in if fst nb \<noteq> [] then
              Inl (ParticipationGuardrailContractError_dependency_unavailable_with_issues
                ''required FR41 size-cap baseline is unavailable'' (fst nb))
            else let normal_baseline = the (snd nb);
                     capped = f_mul normal_baseline FR41_OVERNIGHT_CAP_FACTOR
            in if \<not> f_is_finite capped \<or> f_le capped (Fin 0) then
              Inl (ParticipationGuardrailContractError_dependency_unavailable_with_issues
                ''required FR41 size-cap baseline is unavailable''
                [\<lparr>is_field = ''normal_max_order_size_units'',
                  is_code = ParticipationGuardrailReasonCode_code ParticipationGuardrailReasonCode.DependencyUnavailable,
                  is_message = ''normal_max_order_size_units must produce a finite capped order size''\<rparr>])
            else Inr (ParticipationGuardrailMode.SizeCap, ParticipationGuardrailReasonCode.OvernightSizeCapActive,
                   Some normal_baseline, Some capped))
      else Inr (ParticipationGuardrailMode.Pass, ParticipationGuardrailReasonCode.NoTrigger, None, None))"

definition evaluate_fr41_participation_guardrail ::
    "time_crate \<Rightarrow> ParticipationGuardrailEvaluationInput
      \<Rightarrow> ParticipationGuardrailContractError + ParticipationGuardrailEvaluationOutcome" where
  "evaluate_fr41_participation_guardrail T input =
     and_then (reject_if
       (validate_participation_guardrail_identifier_field ''market_id'' (pi_market_id input)
      @ validate_participation_guardrail_identifier_field ''cluster_id'' (pi_cluster_id input)
      @ validate_participation_guardrail_identifier_field ''correlation_id'' (pi_correlation_id input)
      @ validate_participation_guardrail_timestamp_field T ''observed_at_utc'' (pi_observed_at_utc input))
       (ParticipationGuardrailContractError_invalid_payload_with_issues
          ''FR41 participation guardrail payload is invalid'')) (\<lambda>_.
     let ld = require_participation_guardrail_signal ''liquidity_depth_usd'' (pi_liquidity_depth_usd input) False;
         ig = require_participation_guardrail_signal ''inactivity_gap_seconds'' (pi_inactivity_gap_seconds input) False
     in if fst ld @ fst ig \<noteq> [] then
       Inl (ParticipationGuardrailContractError_dependency_unavailable_with_issues
         ''required FR41 dependencies are unavailable'' (fst ld @ fst ig))
     else and_then (fr41_mode (the (snd ld)) (the (snd ig)) (pi_normal_max_order_size_units input))
       (\<lambda>(guardrail_mode, reason_code, normal, capped).
       Inr \<lparr>po_market_id = normalize (pi_market_id input), po_cluster_id = normalize (pi_cluster_id input),
            po_correlation_id = normalize (pi_correlation_id input),
            po_observed_at_utc = pi_observed_at_utc input, po_guardrail_mode = guardrail_mode,
            po_reason_code = ParticipationGuardrailReasonCode_code reason_code,
            po_liquidity_depth_usd = the (snd ld), po_inactivity_gap_seconds = the (snd ig),
            po_threshold_liquidity_depth_usd = FR41_LOW_LIQUIDITY_DEPTH_USD_THRESHOLD,
            po_threshold_inactivity_pause_seconds = FR41_INACTIVITY_PAUSE_THRESHOLD_SECONDS,
            po_threshold_overnight_gap_seconds = FR41_OVERNIGHT_CAP_THRESHOLD_SECONDS,
            po_normal_max_order_size_units = normal, po_capped_max_order_size_units = capped\<rparr>))"

section \<open>What the validators accept\<close>

definition size_ok :: "f64 \<Rightarrow> bool" where
  "size_ok x \<longleftrightarrow> f_is_finite x \<and> f_lt (Fin 0) x"

lemma participation_field_specs [issue_specs]:
  "validate_participation_guardrail_identifier_field f v = [] \<longleftrightarrow> is_canonical_identifier (normalize v)"
  "validate_participation_guardrail_timestamp_field T f v = [] \<longleftrightarrow> utc_ok T v"
  "validate_participation_guardrail_non_empty_field f v = [] \<longleftrightarrow> \<not> blank v"
  "validate_participation_guardrail_finite_field f x False = [] \<longleftrightarrow> amount_ok x"
  "validate_participation_guardrail_finite_field f x True = [] \<longleftrightarrow> size_ok x"
proof -
  have "is_canonical_identifier (normalize v) \<Longrightarrow> \<not> blank v"
    by (auto simp: is_canonical_identifier_def normalize_def to_ascii_lowercase_def)
  then show "validate_participation_guardrail_identifier_field f v = [] \<longleftrightarrow> is_canonical_identifier (normalize v)"
    by (auto simp: validate_participation_guardrail_identifier_field_def)
qed (cases x; auto simp: validate_participation_guardrail_timestamp_field_def
    validate_participation_guardrail_non_empty_field_def validate_participation_guardrail_finite_field_def
    amount_ok_def size_ok_def)+

lemma require_signal_iff:
  "fst (require_participation_guardrail_signal f (Some x) False) = [] \<longleftrightarrow> amount_ok x"
  "fst (require_participation_guardrail_signal f (Some x) True) = [] \<longleftrightarrow> size_ok x"
  "fst (require_participation_guardrail_signal f None b) \<noteq> []"
  "amount_ok x \<Longrightarrow> snd (require_participation_guardrail_signal f (Some x) False) = Some x"
  "size_ok x \<Longrightarrow> snd (require_participation_guardrail_signal f (Some x) True) = Some x"
  by (cases x; auto simp: amount_ok_def size_ok_def)+

lemma require_signal_cases:
  assumes "fst (require_participation_guardrail_signal f v False) = []"
  obtains x where "v = Some x" "amount_ok x" "snd (require_participation_guardrail_signal f v False) = Some x"
  using assms require_signal_iff by (cases v) (auto simp del: require_participation_guardrail_signal.simps)

definition size_cap_wf :: "f64 option \<Rightarrow> f64 option \<Rightarrow> bool" where
  "size_cap_wf normal capped \<longleftrightarrow> (case (normal, capped) of
      (Some n, Some c) \<Rightarrow> \<not> f_gt (f_abs (f_sub c (f_mul n (Fin (1 / 4))))) (round_f64 (1 / 10000000))
    | _ \<Rightarrow> False)"

definition evidence_wf :: "time_crate \<Rightarrow> PreTradeParticipationGuardrailEvidence \<Rightarrow> bool" where
  "evidence_wf T e \<longleftrightarrow>
     list_all (\<lambda>v. is_canonical_identifier (normalize v))
       [pe_event_id e, pe_market_id e, pe_cluster_id e, pe_correlation_id e]
   \<and> utc_ok T (pe_observed_at_utc e) \<and> utc_ok T (pe_evaluated_at_utc e)
   \<and> pe_observed_at_utc e \<le> pe_evaluated_at_utc e
   \<and> list_all amount_ok
       [pe_liquidity_depth_usd e, pe_inactivity_gap_seconds e, pe_threshold_liquidity_depth_usd e,
        pe_threshold_inactivity_pause_seconds e, pe_threshold_overnight_gap_seconds e]
   \<and> (case pe_normal_max_order_size_units e of Some n \<Rightarrow> size_ok n | None \<Rightarrow> True)
   \<and> (case pe_capped_max_order_size_units e of Some c \<Rightarrow> size_ok c | None \<Rightarrow> True)
   \<and> \<not> isl (ParticipationGuardrailReasonCode_parse (pe_reason_code e))
   \<and> \<not> isl (ParticipationGuardrailMode_parse (pe_guardrail_mode e))
   \<and> (ParticipationGuardrailMode_parse (pe_guardrail_mode e) = Inr ParticipationGuardrailMode.SizeCap \<longrightarrow>
        size_cap_wf (pe_normal_max_order_size_units e) (pe_capped_max_order_size_units e))"

lemma participation_codes_not_blank [simp]:
  "\<not> blank (ParticipationGuardrailReasonCode_code c)" "\<not> blank (ParticipationGuardrailMode_as_str m)"
  by (cases c; simp add: trim_id ws_defs) (cases m; simp add: trim_id ws_defs)

lemma size_cap_issues_Nil: "size_cap_issues n c = [] \<longleftrightarrow> size_cap_wf n c"
  by (cases n; cases c) (auto simp: size_cap_issues_def size_cap_wf_def)

lemma participation_parse_not_blank:
  "\<not> isl (ParticipationGuardrailReasonCode_parse v) \<Longrightarrow> \<not> blank v"
  "\<not> isl (ParticipationGuardrailMode_parse v) \<Longrightarrow> \<not> blank v"
  using participation_reason.parse_ok_iff[of v] participation_mode.parse_ok_iff[of v] by auto

lemma validate_evidence_Inr [simp]:
  "validate_pretrade_participation_guardrail_evidence T e = Inr u \<longleftrightarrow> evidence_wf T e"
  unfolding validate_pretrade_participation_guardrail_evidence_def reject_if_Inr append_is_Nil_conv
    participation_field_specs push_if_Nil evidence_wf_def
  by (auto simp: issue_specs size_cap_issues_Nil not_less participation_parse_not_blank
      simp del: ParticipationGuardrailReasonCode_code.simps split: option.splits)

section \<open>The mode by the signals\<close>

definition fr41_expected_mode :: "f64 \<Rightarrow> f64 \<Rightarrow> ParticipationGuardrailMode" where
  "fr41_expected_mode liquidity gap =
     (if f_lt liquidity (Fin 10000) then ParticipationGuardrailMode.Pause
      else if f_le gap (Fin 900) then ParticipationGuardrailMode.Pass
      else if f_le gap (Fin 14400) then ParticipationGuardrailMode.Pause
      else ParticipationGuardrailMode.SizeCap)"

lemma quarter_not_above:
  assumes "size_ok n" "f64_exact n"
  shows "f_le (f_mul n (Fin (1 / 4))) n"
  using assms f_mul_le_left[of n "1 / 4"] by (cases n) (auto simp: size_ok_def)

lemma fr41_mode_cases:
  assumes "fr41_mode l g b = Inr (mode, reason, n, c)" and "amount_ok g"
  shows "mode = fr41_expected_mode l g"
    and "mode \<noteq> ParticipationGuardrailMode.Unavailable"
    and "(if mode = ParticipationGuardrailMode.SizeCap
      then \<exists>x. b = Some x \<and> n = Some x \<and> c = Some (f_mul x (Fin (1 / 4))) \<and> size_ok x \<and> size_ok (f_mul x (Fin (1 / 4)))
      else n = None \<and> c = None)"
proof -
  have gap: "f_lt (Fin q) g \<longleftrightarrow> \<not> f_le g (Fin q)" for q
    using assms(2) by (auto simp: amount_ok_def f_lt_finite)
  have size: "\<not> (\<not> f_is_finite x \<or> f_le x (Fin 0)) \<longleftrightarrow> size_ok x" for x
    by (cases x) (auto simp: size_ok_def)
  have mono: "f_le g (Fin 900) \<Longrightarrow> f_le g (Fin 14400)"
    by (cases g) auto
  show "mode = fr41_expected_mode l g" "mode \<noteq> ParticipationGuardrailMode.Unavailable"
    using assms(1) mono unfolding fr41_mode_def fr41_expected_mode_def
    by (auto simp: gap Let_def split: if_splits)
  show "(if mode = ParticipationGuardrailMode.SizeCap
      then \<exists>x. b = Some x \<and> n = Some x \<and> c = Some (f_mul x (Fin (1 / 4))) \<and> size_ok x \<and> size_ok (f_mul x (Fin (1 / 4)))
      else n = None \<and> c = None)"
  proof (cases b)
    case None
    then show ?thesis
      using assms(1) require_signal_iff(3) unfolding fr41_mode_def by (auto simp: Let_def split: if_splits)
  next
    case (Some x)
    show ?thesis
    proof (cases "size_ok x")
      case True
      then show ?thesis
        using assms(1) require_signal_iff(2)[of _ x] require_signal_iff(5)[OF True]
        unfolding fr41_mode_def Some Let_def size
        by (auto simp: size [symmetric] simp del: require_participation_guardrail_signal.simps split: if_splits)
    next
      case False
      then have "fst (require_participation_guardrail_signal ''normal_max_order_size_units'' b True) \<noteq> []"
        unfolding Some using require_signal_iff(2) by blast
      then show ?thesis
        using assms(1) unfolding fr41_mode_def Let_def
        by (auto simp del: require_participation_guardrail_signal.simps split: if_splits)
    qed
  qed
qed

lemma fr41_evaluate_cases:
  assumes "evaluate_fr41_participation_guardrail T i = Inr out"
  obtains reason where
    "list_all (\<lambda>v. is_canonical_identifier (normalize v)) [pi_market_id i, pi_cluster_id i, pi_correlation_id i]"
    "utc_ok T (pi_observed_at_utc i)"
    "pi_liquidity_depth_usd i = Some (po_liquidity_depth_usd out)" "amount_ok (po_liquidity_depth_usd out)"
    "pi_inactivity_gap_seconds i = Some (po_inactivity_gap_seconds out)" "amount_ok (po_inactivity_gap_seconds out)"
    "fr41_mode (po_liquidity_depth_usd out) (po_inactivity_gap_seconds out) (pi_normal_max_order_size_units i) =
       Inr (po_guardrail_mode out, reason, po_normal_max_order_size_units out, po_capped_max_order_size_units out)"
    "po_reason_code out = ParticipationGuardrailReasonCode_code reason"
    "po_market_id out = normalize (pi_market_id i)" "po_cluster_id out = normalize (pi_cluster_id i)"
    "po_correlation_id out = normalize (pi_correlation_id i)" "po_observed_at_utc out = pi_observed_at_utc i"
    "po_threshold_liquidity_depth_usd out = Fin 10000" "po_threshold_inactivity_pause_seconds out = Fin 900"
    "po_threshold_overnight_gap_seconds out = Fin 14400"
proof -
  let ?ld = "require_participation_guardrail_signal ''liquidity_depth_usd'' (pi_liquidity_depth_usd i) False"
  let ?ig = "require_participation_guardrail_signal ''inactivity_gap_seconds'' (pi_inactivity_gap_seconds i) False"
  have deps: "fst ?ld = []" "fst ?ig = []"
    using assms by (auto simp: evaluate_fr41_participation_guardrail_def and_then_Inr_iff Let_def split: if_splits)
  obtain l g where l: "pi_liquidity_depth_usd i = Some l" "amount_ok l" "snd ?ld = Some l"
    and g: "pi_inactivity_gap_seconds i = Some g" "amount_ok g" "snd ?ig = Some g"
    using require_signal_cases[OF deps(1)] require_signal_cases[OF deps(2)] by metis
  show thesis
    using assms unfolding evaluate_fr41_participation_guardrail_def Let_def deps l(3) g(3)
    by (auto simp: and_then_Inr_iff issue_specs l g intro!: that)
qed

section \<open>Properties\<close>

text \<open>
  The participation guardrail follows its two signals alone: below 10000 USD of depth it
  pauses, otherwise a gap up to 900 seconds passes, one up to 14400 seconds pauses and a longer
  one caps the size. It never answers with the mode unavailable. Under a cap the size is a
  quarter (rounded) of the known normal size, positive, and not above it.
\<close>

theorem participation_mode_by_signals:
  assumes "evaluate_fr41_participation_guardrail T i = Inr out"
  shows "po_guardrail_mode out = fr41_expected_mode (po_liquidity_depth_usd out) (po_inactivity_gap_seconds out)
    \<and> po_guardrail_mode out \<noteq> ParticipationGuardrailMode.Unavailable
    \<and> (if po_guardrail_mode out = ParticipationGuardrailMode.SizeCap
       then \<exists>n c. pi_normal_max_order_size_units i = Some n \<and> po_capped_max_order_size_units out = Some c
         \<and> c = f_mul n (Fin (1 / 4)) \<and> f_lt (Fin 0) c \<and> (\<not> f64_exact n \<or> f_le c n)
       else po_capped_max_order_size_units out = None)"
proof -
  obtain reason where m: "fr41_mode (po_liquidity_depth_usd out) (po_inactivity_gap_seconds out)
      (pi_normal_max_order_size_units i) = Inr (po_guardrail_mode out, reason,
      po_normal_max_order_size_units out, po_capped_max_order_size_units out)"
    and g: "amount_ok (po_inactivity_gap_seconds out)"
    using fr41_evaluate_cases[OF assms] by metis
  show ?thesis
    using fr41_mode_cases[OF m g] quarter_not_above by (auto simp: size_ok_def split: if_splits)
qed

definition demo_participation :: "rat \<Rightarrow> rat \<Rightarrow> ParticipationGuardrailEvaluationInput" where
  "demo_participation depth gap =
     \<lparr>pi_market_id = ''market-1'', pi_cluster_id = ''cluster-1'', pi_correlation_id = ''corr-1'',
      pi_observed_at_utc = ''2026-04-06T00:00:00Z'', pi_liquidity_depth_usd = Some (Fin depth),
      pi_inactivity_gap_seconds = Some (Fin gap), pi_normal_max_order_size_units = Some (Fin 100)\<rparr>"

theorem participation_mode_by_signals_witness:
  "(\<exists>out. evaluate_fr41_participation_guardrail demo_time (demo_participation 10000 14401) = Inr out
     \<and> po_guardrail_mode out = ParticipationGuardrailMode.SizeCap
     \<and> po_capped_max_order_size_units out = Some (Fin 25))
   \<and> (\<exists>out. evaluate_fr41_participation_guardrail demo_time (demo_participation 10000 14400) = Inr out
     \<and> po_guardrail_mode out = ParticipationGuardrailMode.Pause)"
proof -
  have ids: "list_all (\<lambda>v. is_canonical_identifier (normalize v)) [''market-1'', ''cluster-1'', ''corr-1'']"
    by code_simp
  have ok: "\<not> isl (evaluate_fr41_participation_guardrail demo_time (demo_participation 10000 gap))"
    if "0 \<le> gap" "\<not> isl (fr41_mode (Fin 10000) (Fin gap) (Some (Fin 100)))" for gap
    using that ids
    by (auto simp: evaluate_fr41_participation_guardrail_def demo_participation_def issue_specs is_ok_unit reject_if_def
        elim!: is_okE)
  have "\<not> isl (fr41_mode (Fin 10000) (Fin 14401) (Some (Fin 100)))" "\<not> isl (fr41_mode (Fin 10000) (Fin 14400) (Some (Fin 100)))"
    by (simp_all add: fr41_mode_def FR41_LOW_LIQUIDITY_DEPTH_USD_THRESHOLD_def FR41_INACTIVITY_PAUSE_THRESHOLD_SECONDS_def
        FR41_OVERNIGHT_CAP_THRESHOLD_SECONDS_def FR41_OVERNIGHT_CAP_FACTOR_def)
  then have cap: "\<not> isl (evaluate_fr41_participation_guardrail demo_time (demo_participation 10000 14401))"
    and pause: "\<not> isl (evaluate_fr41_participation_guardrail demo_time (demo_participation 10000 14400))"
    using ok by simp_all
  obtain a where a: "evaluate_fr41_participation_guardrail demo_time (demo_participation 10000 14401) = Inr a"
    using cap by (rule is_okE)
  obtain b where b: "evaluate_fr41_participation_guardrail demo_time (demo_participation 10000 14400) = Inr b"
    using pause by (rule is_okE)
  have sig: "Some (po_liquidity_depth_usd a) = Some (Fin 10000)" "Some (po_inactivity_gap_seconds a) = Some (Fin 14401)"
    "Some (po_liquidity_depth_usd b) = Some (Fin 10000)" "Some (po_inactivity_gap_seconds b) = Some (Fin 14400)"
    using fr41_evaluate_cases[OF a] fr41_evaluate_cases[OF b] by (simp_all add: demo_participation_def) metis+
  show ?thesis
    using participation_mode_by_signals[OF a] participation_mode_by_signals[OF b] a b sig
    by (auto simp: fr41_expected_mode_def demo_participation_def)
qed

text \<open>
  The evidence compares its two timestamps as strings. RFC 3339 lets a writer leave out a
  fraction of zero, and "." sorts before "Z": evidence observed on a full second is refused as
  evaluated before it was observed when it is evaluated within that same second.
\<close>

definition demo_evidence :: "string \<Rightarrow> string \<Rightarrow> PreTradeParticipationGuardrailEvidence" where
  "demo_evidence observed evaluated =
     \<lparr>pe_event_id = ''fr41-1'', pe_guardrail_mode = ''pass'', pe_reason_code = ''fr41_participation_no_trigger'',
      pe_market_id = ''market-1'', pe_cluster_id = ''cluster-1'', pe_correlation_id = ''corr-1'',
      pe_observed_at_utc = observed, pe_evaluated_at_utc = evaluated, pe_liquidity_depth_usd = Fin 20000,
      pe_inactivity_gap_seconds = Fin 1, pe_threshold_liquidity_depth_usd = Fin 10000,
      pe_threshold_inactivity_pause_seconds = Fin 900, pe_threshold_overnight_gap_seconds = Fin 14400,
      pe_normal_max_order_size_units = None, pe_capped_max_order_size_units = None\<rparr>"

lemma evidence_refused_within_the_second:
  "evidence_wf demo_time (demo_evidence ''2026-04-06T00:00:00Z'' ''2026-04-06T00:00:01Z'')
   \<and> \<not> evidence_wf demo_time (demo_evidence ''2026-04-06T00:00:00Z'' ''2026-04-06T00:00:00.5Z'')
   \<and> parse_utc_timestamp demo_time ''2026-04-06T00:00:00Z'' = Some 0
   \<and> parse_utc_timestamp demo_time ''2026-04-06T00:00:00.5Z'' = Some 500000000"
  by code_simp

end
