(* ===== verification/Pretrade.thy ===== *)
theory Pretrade
  imports Participation
begin

text \<open>
  The pre-trade gate contract of \<open>crates/domain/src/risk.rs\<close>: the gates and their reason
  codes, the decision and its validator, the drawdown stop, and the adjudication that turns
  gate results into an allow or deny decision.
\<close>

section \<open>Codes, errors and data\<close>

datatype PreTradeGateDimension =
    Freshness
  | StreamHealth
  | ExposureLimitState
  | ReconciliationHalt
  | UserStreamAuth
  | DrawdownStop
  | StrategyApproval
  | VenueEligibility
  | RewardPerRisk
  | ParticipationGuardrail

fun PreTradeGateDimension_as_str :: "PreTradeGateDimension \<Rightarrow> string" where
  "PreTradeGateDimension_as_str PreTradeGateDimension.Freshness = ''freshness''"
| "PreTradeGateDimension_as_str PreTradeGateDimension.StreamHealth = ''stream_health''"
| "PreTradeGateDimension_as_str PreTradeGateDimension.ExposureLimitState = ''exposure_limit_state''"
| "PreTradeGateDimension_as_str PreTradeGateDimension.ReconciliationHalt = ''reconciliation_halt''"
| "PreTradeGateDimension_as_str PreTradeGateDimension.UserStreamAuth = ''user_stream_auth''"
| "PreTradeGateDimension_as_str PreTradeGateDimension.DrawdownStop = ''drawdown_stop''"
| "PreTradeGateDimension_as_str PreTradeGateDimension.StrategyApproval = ''strategy_approval''"
| "PreTradeGateDimension_as_str PreTradeGateDimension.VenueEligibility = ''venue_eligibility''"
| "PreTradeGateDimension_as_str PreTradeGateDimension.RewardPerRisk = ''reward_per_risk''"
| "PreTradeGateDimension_as_str PreTradeGateDimension.ParticipationGuardrail = ''participation_guardrail''"

datatype PreTradeDecisionOutcome =
    Allow
  | Deny

fun PreTradeDecisionOutcome_as_str :: "PreTradeDecisionOutcome \<Rightarrow> string" where
  "PreTradeDecisionOutcome_as_str PreTradeDecisionOutcome.Allow = ''allow''"
| "PreTradeDecisionOutcome_as_str PreTradeDecisionOutcome.Deny = ''deny''"

datatype PreTradeReasonCode =
    Pass
  | FreshnessStateUnavailable
  | FreshnessStaleBreach
  | StreamHealthStateUnavailable
  | StreamHealthDegraded
  | RiskLimitStateUnavailable
  | StratificationStateUnavailable
  | ReconciliationCriticalHalt
  | UserStreamAuthExpired
  | DrawdownStateUnavailable
  | DrawdownStopTriggered
  | StrategyApprovalUnavailable
  | StrategyApprovalRequired
  | VenueEligibilityUnavailable
  | VenueIneligible
  | RewardRiskStateUnavailable
  | RewardRiskBelowThreshold
  | ParticipationGuardrailUnavailable
  | ParticipationGuardrailLowLiquidityPause
  | ParticipationGuardrailInactivityPause
  | ParticipationGuardrailOvernightCapExceeded
  | AdjudicationUnavailable
  | AdjudicationTimeout
  | PersistenceUnavailable
  | InvalidPayload

fun PreTradeReasonCode_code :: "PreTradeReasonCode \<Rightarrow> string" where
  "PreTradeReasonCode_code PreTradeReasonCode.Pass = ''pretrade_gate_pass''"
| "PreTradeReasonCode_code PreTradeReasonCode.FreshnessStateUnavailable = ''pretrade_freshness_state_unavailable''"
| "PreTradeReasonCode_code PreTradeReasonCode.FreshnessStaleBreach = ''pretrade_freshness_stale_breach''"
| "PreTradeReasonCode_code PreTradeReasonCode.StreamHealthStateUnavailable = ''pretrade_stream_health_state_unavailable''"
| "PreTradeReasonCode_code PreTradeReasonCode.StreamHealthDegraded = ''pretrade_stream_health_degraded''"
| "PreTradeReasonCode_code PreTradeReasonCode.RiskLimitStateUnavailable = ''pretrade_risk_limit_state_unavailable''"
| "PreTradeReasonCode_code PreTradeReasonCode.StratificationStateUnavailable = ''pretrade_stratification_state_unavailable''"
| "PreTradeReasonCode_code PreTradeReasonCode.ReconciliationCriticalHalt = ''pretrade_reconciliation_critical_halt''"
| "PreTradeReasonCode_code PreTradeReasonCode.UserStreamAuthExpired = ''pretrade_user_stream_auth_expired''"
| "PreTradeReasonCode_code PreTradeReasonCode.DrawdownStateUnavailable = ''pretrade_drawdown_state_unavailable''"
| "PreTradeReasonCode_code PreTradeReasonCode.DrawdownStopTriggered = ''pretrade_drawdown_stop_triggered''"
| "PreTradeReasonCode_code PreTradeReasonCode.StrategyApprovalUnavailable = ''pretrade_strategy_approval_unavailable''"
| "PreTradeReasonCode_code PreTradeReasonCode.StrategyApprovalRequired = ''pretrade_strategy_approval_required''"
| "PreTradeReasonCode_code PreTradeReasonCode.VenueEligibilityUnavailable = ''pretrade_venue_eligibility_unavailable''"
| "PreTradeReasonCode_code PreTradeReasonCode.VenueIneligible = ''pretrade_venue_ineligible''"
| "PreTradeReasonCode_code PreTradeReasonCode.RewardRiskStateUnavailable = ''pretrade_reward_risk_state_unavailable''"
| "PreTradeReasonCode_code PreTradeReasonCode.RewardRiskBelowThreshold = ''pretrade_reward_risk_below_threshold''"
| "PreTradeReasonCode_code PreTradeReasonCode.ParticipationGuardrailUnavailable = ''pretrade_participation_guardrail_unavailable''"
| "PreTradeReasonCode_code PreTradeReasonCode.ParticipationGuardrailLowLiquidityPause = ''pretrade_participation_guardrail_low_liquidity_pause''"
| "PreTradeReasonCode_code PreTradeReasonCode.ParticipationGuardrailInactivityPause = ''pretrade_participation_guardrail_inactivity_pause''"
| "PreTradeReasonCode_code PreTradeReasonCode.ParticipationGuardrailOvernightCapExceeded = ''pretrade_participation_guardrail_overnight_cap_exceeded''"
| "PreTradeReasonCode_code PreTradeReasonCode.AdjudicationUnavailable = ''pretrade_adjudication_unavailable''"
| "PreTradeReasonCode_code PreTradeReasonCode.AdjudicationTimeout = ''pretrade_adjudication_timeout''"
| "PreTradeReasonCode_code PreTradeReasonCode.PersistenceUnavailable = ''pretrade_persistence_unavailable''"
| "PreTradeReasonCode_code PreTradeReasonCode.InvalidPayload = ''pretrade_invalid_payload''"

type_synonym PreTradeGateValidationIssue = issue
type_synonym PreTradeGateContractError = contract_error

definition PreTradeGateContractError_invalid_payload :: "string \<Rightarrow> PreTradeGateContractError" where
  "PreTradeGateContractError_invalid_payload message =
     contract_error_of (PreTradeReasonCode_code PreTradeReasonCode.InvalidPayload) message []"

definition PreTradeGateContractError_invalid_payload_with_issues :: "string \<Rightarrow> PreTradeGateValidationIssue list \<Rightarrow> PreTradeGateContractError" where
  "PreTradeGateContractError_invalid_payload_with_issues message field_errors =
     contract_error_of (PreTradeReasonCode_code PreTradeReasonCode.InvalidPayload) message field_errors"

definition PreTradeGateDimension_parse :: "string \<Rightarrow> PreTradeGateContractError + PreTradeGateDimension" where
  "PreTradeGateDimension_parse = parse_arms
     [(''freshness'', PreTradeGateDimension.Freshness),
      (''stream_health'', PreTradeGateDimension.StreamHealth),
      (''exposure_limit_state'', PreTradeGateDimension.ExposureLimitState),
      (''reconciliation_halt'', PreTradeGateDimension.ReconciliationHalt),
      (''user_stream_auth'', PreTradeGateDimension.UserStreamAuth),
      (''drawdown_stop'', PreTradeGateDimension.DrawdownStop),
      (''strategy_approval'', PreTradeGateDimension.StrategyApproval),
      (''venue_eligibility'', PreTradeGateDimension.VenueEligibility),
      (''reward_per_risk'', PreTradeGateDimension.RewardPerRisk),
      (''participation_guardrail'', PreTradeGateDimension.ParticipationGuardrail)]
     (\<lambda>value. PreTradeGateContractError_invalid_payload (''unknown pre-trade gate dimension `'' @ value @ ''`''))"

interpretation pretrade_gate: enum_codec "\<lambda>v. v" PreTradeGateDimension_as_str PreTradeGateDimension_parse
  by (unfold PreTradeGateDimension_parse_def, rule enum_codec_arms, case_tac x) simp_all

definition PreTradeDecisionOutcome_parse :: "string \<Rightarrow> PreTradeGateContractError + PreTradeDecisionOutcome" where
  "PreTradeDecisionOutcome_parse = parse_arms
     [(''allow'', PreTradeDecisionOutcome.Allow),
      (''deny'', PreTradeDecisionOutcome.Deny)]
     (\<lambda>value. PreTradeGateContractError_invalid_payload (''unknown pre-trade decision outcome `'' @ value @ ''`''))"

interpretation pretrade_outcome: enum_codec "\<lambda>v. v" PreTradeDecisionOutcome_as_str PreTradeDecisionOutcome_parse
  by (unfold PreTradeDecisionOutcome_parse_def, rule enum_codec_arms, case_tac x) simp_all

definition PreTradeReasonCode_parse :: "string \<Rightarrow> PreTradeGateContractError + PreTradeReasonCode" where
  "PreTradeReasonCode_parse = parse_arms
     [(''pretrade_gate_pass'', PreTradeReasonCode.Pass),
      (''pretrade_freshness_state_unavailable'', PreTradeReasonCode.FreshnessStateUnavailable),
      (''pretrade_freshness_stale_breach'', PreTradeReasonCode.FreshnessStaleBreach),
      (''pretrade_stream_health_state_unavailable'', PreTradeReasonCode.StreamHealthStateUnavailable),
      (''pretrade_stream_health_degraded'', PreTradeReasonCode.StreamHealthDegraded),
      (''pretrade_risk_limit_state_unavailable'', PreTradeReasonCode.RiskLimitStateUnavailable),
      (''pretrade_stratification_state_unavailable'', PreTradeReasonCode.StratificationStateUnavailable),
      (''pretrade_reconciliation_critical_halt'', PreTradeReasonCode.ReconciliationCriticalHalt),
      (''pretrade_user_stream_auth_expired'', PreTradeReasonCode.UserStreamAuthExpired),
      (''pretrade_drawdown_state_unavailable'', PreTradeReasonCode.DrawdownStateUnavailable),
      (''pretrade_drawdown_stop_triggered'', PreTradeReasonCode.DrawdownStopTriggered),
      (''pretrade_strategy_approval_unavailable'', PreTradeReasonCode.StrategyApprovalUnavailable),
      (''pretrade_strategy_approval_required'', PreTradeReasonCode.StrategyApprovalRequired),
      (''pretrade_venue_eligibility_unavailable'', PreTradeReasonCode.VenueEligibilityUnavailable),
      (''pretrade_venue_ineligible'', PreTradeReasonCode.VenueIneligible),
      (''pretrade_reward_risk_state_unavailable'', PreTradeReasonCode.RewardRiskStateUnavailable),
      (''pretrade_reward_risk_below_threshold'', PreTradeReasonCode.RewardRiskBelowThreshold),
      (''pretrade_participation_guardrail_unavailable'', PreTradeReasonCode.ParticipationGuardrailUnavailable),
      (''pretrade_participation_guardrail_low_liquidity_pause'', PreTradeReasonCode.ParticipationGuardrailLowLiquidityPause),
      (''pretrade_participation_guardrail_inactivity_pause'', PreTradeReasonCode.ParticipationGuardrailInactivityPause),
      (''pretrade_participation_guardrail_overnight_cap_exceeded'', PreTradeReasonCode.ParticipationGuardrailOvernightCapExceeded),
      (''pretrade_adjudication_unavailable'', PreTradeReasonCode.AdjudicationUnavailable),
      (''pretrade_adjudication_timeout'', PreTradeReasonCode.AdjudicationTimeout),
      (''pretrade_persistence_unavailable'', PreTradeReasonCode.PersistenceUnavailable),
      (''pretrade_invalid_payload'', PreTradeReasonCode.InvalidPayload)]
     (\<lambda>value. PreTradeGateContractError_invalid_payload (''unknown pre-trade reason code `'' @ value @ ''`''))"

interpretation pretrade_reason: enum_codec "\<lambda>v. v" PreTradeReasonCode_code PreTradeReasonCode_parse
  by (unfold PreTradeReasonCode_parse_def, rule enum_codec_arms, case_tac x) simp_all

record PreTradeGateResult =
  gr_gate :: PreTradeGateDimension
  gr_passed :: bool
  gr_reason_code :: string
  gr_evaluated_at_utc :: string

record PreTradeGateDecision =
  gd_decision_id :: string
  gd_intent_id :: string
  gd_market_id :: string
  gd_cluster_id :: string
  gd_profile_key :: string
  gd_outcome :: PreTradeDecisionOutcome
  gd_reason_code :: string
  gd_protective_mode_active :: bool
  gd_gate_results :: "PreTradeGateResult list"
  gd_participation_guardrail :: "PreTradeParticipationGuardrailEvidence option"
  gd_correlation_id :: string
  gd_evaluated_at_utc :: string

text \<open>\<open>derive(PartialOrd, Ord)\<close>: the gates are ordered as they are declared.\<close>

fun gate_rank :: "PreTradeGateDimension \<Rightarrow> nat" where
  "gate_rank Freshness = 0"
| "gate_rank StreamHealth = 1"
| "gate_rank ExposureLimitState = 2"
| "gate_rank ReconciliationHalt = 3"
| "gate_rank UserStreamAuth = 4"
| "gate_rank DrawdownStop = 5"
| "gate_rank StrategyApproval = 6"
| "gate_rank VenueEligibility = 7"
| "gate_rank RewardPerRisk = 8"
| "gate_rank ParticipationGuardrail = 9"

lemma gate_rank_inject: "gate_rank a = gate_rank b \<Longrightarrow> a = b"
  by (cases a; cases b) simp_all

instantiation PreTradeGateDimension :: linorder
begin

definition less_eq_PreTradeGateDimension :: "PreTradeGateDimension \<Rightarrow> PreTradeGateDimension \<Rightarrow> bool" where
  "less_eq_PreTradeGateDimension a b \<longleftrightarrow> gate_rank a \<le> gate_rank b"

definition less_PreTradeGateDimension :: "PreTradeGateDimension \<Rightarrow> PreTradeGateDimension \<Rightarrow> bool" where
  "less_PreTradeGateDimension a b \<longleftrightarrow> gate_rank a < gate_rank b"

instance
  by standard (auto simp: less_eq_PreTradeGateDimension_def less_PreTradeGateDimension_def dest: gate_rank_inject)

end

section \<open>Validation\<close>

definition validate_non_empty_pretrade_field ::
    "string \<Rightarrow> string \<Rightarrow> issue list" where
  "validate_non_empty_pretrade_field field value =
     push_if (blank value) field
        (PreTradeReasonCode_code PreTradeReasonCode.InvalidPayload)
        (field @ '' cannot be blank'')"

definition validate_pretrade_timestamp_field ::
    "time_crate \<Rightarrow> string \<Rightarrow> string \<Rightarrow> issue list" where
  "validate_pretrade_timestamp_field T field value =
     push_if (\<not> utc_ok T value) field
        (PreTradeReasonCode_code PreTradeReasonCode.InvalidPayload)
        (field @ '' must be an RFC3339 UTC timestamp'')"

definition validate_non_negative_pretrade_numeric ::
    "string \<Rightarrow> f64 \<Rightarrow> issue list" where
  "validate_non_negative_pretrade_numeric field value =
     (if \<not> f_is_finite value
      then push_if True field
        (PreTradeReasonCode_code PreTradeReasonCode.InvalidPayload)
        (field @ '' must be finite'')
      else push_if (f_lt value (Fin 0)) field
        (PreTradeReasonCode_code PreTradeReasonCode.InvalidPayload)
        (field @ '' must be greater than or equal to 0''))"

definition validate_normalized_pretrade_identifier ::
    "string \<Rightarrow> string \<Rightarrow> issue list" where
  "validate_normalized_pretrade_identifier field value =
     push_if (normalize value \<noteq> value) field
        (PreTradeReasonCode_code PreTradeReasonCode.InvalidPayload)
        (field @ '' must be normalized (trimmed lowercase)'')"

definition validate_pretrade_gate_result ::
    "time_crate \<Rightarrow> PreTradeGateResult \<Rightarrow> PreTradeGateContractError + unit" where
  "validate_pretrade_gate_result T result = reject_if
     (validate_non_empty_pretrade_field ''reason_code'' (gr_reason_code result)
    @ validate_pretrade_timestamp_field T ''evaluated_at_utc'' (gr_evaluated_at_utc result)
    @ push_if (is_err (PreTradeReasonCode_parse (gr_reason_code result))) ''reason_code''
        (PreTradeReasonCode_code PreTradeReasonCode.InvalidPayload)
        (''reason_code must be a known pre-trade reason'')
    @ push_if (gr_passed result \<and> gr_reason_code result \<noteq> PreTradeReasonCode_code PreTradeReasonCode.Pass) ''reason_code''
        (PreTradeReasonCode_code PreTradeReasonCode.InvalidPayload)
        (''passed gate results must use pretrade_gate_pass reason_code'')
    @ push_if (\<not> gr_passed result \<and> gr_reason_code result = PreTradeReasonCode_code PreTradeReasonCode.Pass) ''reason_code''
        (PreTradeReasonCode_code PreTradeReasonCode.InvalidPayload)
        (''failed gate results cannot use pretrade_gate_pass reason_code''))
     (PreTradeGateContractError_invalid_payload_with_issues ''pre-trade gate result payload is invalid'')"

text \<open>The evidence a decision carries, checked on its own and against the decision.\<close>

definition decision_evidence_issues ::
    "time_crate \<Rightarrow> PreTradeGateDecision \<Rightarrow> PreTradeParticipationGuardrailEvidence \<Rightarrow> issue list" where
  "decision_evidence_issues T decision evidence =
     (case validate_pretrade_participation_guardrail_evidence T evidence of Inl error \<Rightarrow> ce_field_errors error | Inr _ \<Rightarrow> [])
    @ push_if (normalize (pe_market_id evidence) \<noteq> gd_market_id decision) ''participation_guardrail.market_id''
        (PreTradeReasonCode_code PreTradeReasonCode.InvalidPayload)
        (''participation_guardrail.market_id must match decision market_id'')
    @ push_if (normalize (pe_cluster_id evidence) \<noteq> gd_cluster_id decision) ''participation_guardrail.cluster_id''
        (PreTradeReasonCode_code PreTradeReasonCode.InvalidPayload)
        (''participation_guardrail.cluster_id must match decision cluster_id'')
    @ push_if (normalize (pe_correlation_id evidence) \<noteq> gd_correlation_id decision) ''participation_guardrail.correlation_id''
        (PreTradeReasonCode_code PreTradeReasonCode.InvalidPayload)
        (''participation_guardrail.correlation_id must match decision correlation_id'')
    @ push_if (pe_evaluated_at_utc evidence \<noteq> gd_evaluated_at_utc decision) ''participation_guardrail.evaluated_at_utc''
        (PreTradeReasonCode_code PreTradeReasonCode.InvalidPayload)
        (''participation_guardrail.evaluated_at_utc must match decision evaluated_at_utc'')"

text \<open>The outcome against the gate results and the reason.\<close>

fun decision_outcome_issues :: "PreTradeGateDecision \<Rightarrow> PreTradeDecisionOutcome \<Rightarrow> issue list" where
  "decision_outcome_issues decision PreTradeDecisionOutcome.Allow =
     push_if (length (filter (\<lambda>result. \<not> gr_passed result) (gd_gate_results decision)) \<noteq> 0) ''outcome''
        (PreTradeReasonCode_code PreTradeReasonCode.InvalidPayload)
        (''allow outcome cannot include failed gate results'')
    @ push_if (gd_reason_code decision \<noteq> PreTradeReasonCode_code PreTradeReasonCode.Pass) ''reason_code''
        (PreTradeReasonCode_code PreTradeReasonCode.InvalidPayload)
        (''allow outcome must use pretrade_gate_pass reason_code'')
    @ push_if (gd_protective_mode_active decision) ''protective_mode_active''
        (PreTradeReasonCode_code PreTradeReasonCode.InvalidPayload)
        (''allow outcome cannot assert protective_mode_active'')"
| "decision_outcome_issues decision PreTradeDecisionOutcome.Deny =
     push_if (length (filter (\<lambda>result. \<not> gr_passed result) (gd_gate_results decision)) \<noteq> 1) ''gate_results''
        (PreTradeReasonCode_code PreTradeReasonCode.InvalidPayload)
        (''deny outcome must contain exactly one failed gate for deterministic reason precedence'')
    @ (case find (\<lambda>result. \<not> gr_passed result) (gd_gate_results decision) of None \<Rightarrow> []
       | Some failed_result \<Rightarrow> push_if (gd_reason_code decision \<noteq> gr_reason_code failed_result) ''reason_code''
        (PreTradeReasonCode_code PreTradeReasonCode.InvalidPayload)
        (''deny outcome reason_code must match the failed gate reason_code''))"

definition validate_pretrade_gate_decision ::
    "time_crate \<Rightarrow> PreTradeGateDecision \<Rightarrow> PreTradeGateContractError + unit" where
  "validate_pretrade_gate_decision T decision = reject_if
     (validate_non_empty_pretrade_field ''decision_id'' (gd_decision_id decision)
    @ validate_non_empty_pretrade_field ''intent_id'' (gd_intent_id decision)
    @ validate_non_empty_pretrade_field ''market_id'' (gd_market_id decision)
    @ validate_non_empty_pretrade_field ''cluster_id'' (gd_cluster_id decision)
    @ validate_non_empty_pretrade_field ''profile_key'' (gd_profile_key decision)
    @ validate_non_empty_pretrade_field ''correlation_id'' (gd_correlation_id decision)
    @ validate_non_empty_pretrade_field ''reason_code'' (gd_reason_code decision)
    @ validate_pretrade_timestamp_field T ''evaluated_at_utc'' (gd_evaluated_at_utc decision)
    @ validate_normalized_pretrade_identifier ''decision_id'' (gd_decision_id decision)
    @ validate_normalized_pretrade_identifier ''intent_id'' (gd_intent_id decision)
    @ validate_normalized_pretrade_identifier ''market_id'' (gd_market_id decision)
    @ validate_normalized_pretrade_identifier ''cluster_id'' (gd_cluster_id decision)
    @ validate_normalized_pretrade_identifier ''profile_key'' (gd_profile_key decision)
    @ validate_normalized_pretrade_identifier ''correlation_id'' (gd_correlation_id decision)
    @ push_if (is_err (PreTradeReasonCode_parse (gd_reason_code decision))) ''reason_code''
        (PreTradeReasonCode_code PreTradeReasonCode.InvalidPayload)
        (''reason_code must be a known pre-trade reason'')
    @ push_if (gd_gate_results decision = []) ''gate_results''
        (PreTradeReasonCode_code PreTradeReasonCode.InvalidPayload)
        (''gate_results must include at least one gate entry'')
    @ concat (map (\<lambda>result. case validate_pretrade_gate_result T result of Inl error \<Rightarrow> ce_field_errors error | Inr _ \<Rightarrow> [])
        (gd_gate_results decision))
    @ (case gd_participation_guardrail decision of None \<Rightarrow> []
       | Some participation_guardrail \<Rightarrow> decision_evidence_issues T decision participation_guardrail)
    @ decision_outcome_issues decision (gd_outcome decision)
    @ push_if (gd_protective_mode_active decision
          \<and> gd_reason_code decision \<noteq> PreTradeReasonCode_code PreTradeReasonCode.DrawdownStopTriggered) ''protective_mode_active''
        (PreTradeReasonCode_code PreTradeReasonCode.InvalidPayload)
        (''protective_mode_active is only valid for drawdown-stop-triggered deny decisions''))
     (PreTradeGateContractError_invalid_payload_with_issues ''pre-trade gate decision payload is invalid'')"

definition normalize_pretrade_identifier :: "string \<Rightarrow> string" where
  "normalize_pretrade_identifier raw = normalize raw"

section \<open>Drawdown stop and adjudication\<close>

definition drawdown_stop_triggered :: "f64 \<Rightarrow> f64 \<Rightarrow> PreTradeGateContractError + bool" where
  "drawdown_stop_triggered current_drawdown_pct configured_stop_threshold_pct =
     and_then (reject_if
       (validate_non_negative_pretrade_numeric ''current_drawdown_pct'' current_drawdown_pct
      @ validate_non_negative_pretrade_numeric ''configured_stop_threshold_pct'' configured_stop_threshold_pct)
       (PreTradeGateContractError_invalid_payload_with_issues ''drawdown stop inputs are invalid''))
     (\<lambda>_. Inr (f_ge current_drawdown_pct configured_stop_threshold_pct))"

definition compact_utc_timestamp_token :: "string \<Rightarrow> string" where
  "compact_utc_timestamp_token value = filter is_ascii_digit value"

definition pretrade_decision_id :: "string \<Rightarrow> string \<Rightarrow> string" where
  "pretrade_decision_id intent_id evaluated_at_utc =
     ''pretrade::'' @ intent_id @ ''::'' @ compact_utc_timestamp_token evaluated_at_utc"

text \<open>\<open>for gate_result in &gate_results { validate_pretrade_gate_result(gate_result)?; }\<close>\<close>

fun validate_all_gate_results :: "time_crate \<Rightarrow> PreTradeGateResult list \<Rightarrow> PreTradeGateContractError + unit" where
  "validate_all_gate_results T [] = Inr ()"
| "validate_all_gate_results T (gate_result # rest) =
     and_then (validate_pretrade_gate_result T gate_result) (\<lambda>_. validate_all_gate_results T rest)"

definition adjudicate_pretrade_gate_results ::
    "time_crate \<Rightarrow> string \<Rightarrow> string \<Rightarrow> string \<Rightarrow> string \<Rightarrow> string \<Rightarrow> string \<Rightarrow> PreTradeGateResult list
      \<Rightarrow> PreTradeParticipationGuardrailEvidence option \<Rightarrow> bool
      \<Rightarrow> PreTradeGateContractError + PreTradeGateDecision" where
  "adjudicate_pretrade_gate_results T intent_id market_id cluster_id profile_key correlation_id
      evaluated_at_utc gate_results participation_guardrail protective_mode_active =
     (if gate_results = [] then
        Inl (PreTradeGateContractError_invalid_payload ''gate_results must include at least one entry'')
      else and_then (validate_all_gate_results T gate_results) (\<lambda>_.
        if \<not> utc_ok T evaluated_at_utc then
          Inl (PreTradeGateContractError_invalid_payload ''evaluated_at_utc must be an RFC3339 UTC timestamp'')
        else let (outcome, reason_code) = (case find (\<lambda>result. \<not> gr_passed result) gate_results of
                   Some result \<Rightarrow> (PreTradeDecisionOutcome.Deny, gr_reason_code result)
                 | None \<Rightarrow> (PreTradeDecisionOutcome.Allow, PreTradeReasonCode_code PreTradeReasonCode.Pass));
               normalized_intent_id = normalize intent_id;
               decision = \<lparr>gd_decision_id = pretrade_decision_id normalized_intent_id evaluated_at_utc,
                   gd_intent_id = normalized_intent_id, gd_market_id = normalize market_id,
                   gd_cluster_id = normalize cluster_id, gd_profile_key = normalize profile_key,
                   gd_outcome = outcome, gd_reason_code = reason_code,
                   gd_protective_mode_active = protective_mode_active, gd_gate_results = gate_results,
                   gd_participation_guardrail = participation_guardrail,
                   gd_correlation_id = normalize correlation_id, gd_evaluated_at_utc = evaluated_at_utc\<rparr>
             in and_then (validate_pretrade_gate_decision T decision) (\<lambda>_. Inr decision)))"

section \<open>What the validators accept\<close>

abbreviation failed_gate_results :: "PreTradeGateResult list \<Rightarrow> PreTradeGateResult list" where
  "failed_gate_results results \<equiv> filter (\<lambda>result. \<not> gr_passed result) results"

definition gate_result_wf :: "time_crate \<Rightarrow> PreTradeGateResult \<Rightarrow> bool" where
  "gate_result_wf T r \<longleftrightarrow> utc_ok T (gr_evaluated_at_utc r)
     \<and> (case PreTradeReasonCode_parse (gr_reason_code r) of
          Inr c \<Rightarrow> gr_passed r \<longleftrightarrow> c = PreTradeReasonCode.Pass
        | Inl _ \<Rightarrow> False)"

definition decision_evidence_wf ::
    "time_crate \<Rightarrow> PreTradeGateDecision \<Rightarrow> PreTradeParticipationGuardrailEvidence \<Rightarrow> bool" where
  "decision_evidence_wf T d e \<longleftrightarrow> evidence_wf T e
     \<and> normalize (pe_market_id e) = gd_market_id d \<and> normalize (pe_cluster_id e) = gd_cluster_id d
     \<and> normalize (pe_correlation_id e) = gd_correlation_id d \<and> pe_evaluated_at_utc e = gd_evaluated_at_utc d"

definition outcome_wf :: "PreTradeGateDecision \<Rightarrow> bool" where
  "outcome_wf d \<longleftrightarrow> (case gd_outcome d of
      PreTradeDecisionOutcome.Allow \<Rightarrow> failed_gate_results (gd_gate_results d) = []
        \<and> gd_reason_code d = PreTradeReasonCode_code PreTradeReasonCode.Pass \<and> \<not> gd_protective_mode_active d
    | PreTradeDecisionOutcome.Deny \<Rightarrow> (case failed_gate_results (gd_gate_results d) of
        [r] \<Rightarrow> gd_reason_code d = gr_reason_code r
      | _ \<Rightarrow> False))"

definition decision_wf :: "time_crate \<Rightarrow> PreTradeGateDecision \<Rightarrow> bool" where
  "decision_wf T d \<longleftrightarrow>
     list_all (\<lambda>v. \<not> blank v \<and> normalize v = v)
       [gd_decision_id d, gd_intent_id d, gd_market_id d, gd_cluster_id d, gd_profile_key d, gd_correlation_id d]
   \<and> utc_ok T (gd_evaluated_at_utc d)
   \<and> gd_gate_results d \<noteq> [] \<and> list_all (gate_result_wf T) (gd_gate_results d)
   \<and> (case gd_participation_guardrail d of Some e \<Rightarrow> decision_evidence_wf T d e | None \<Rightarrow> True)
   \<and> outcome_wf d
   \<and> (gd_protective_mode_active d \<longrightarrow>
        gd_reason_code d = PreTradeReasonCode_code PreTradeReasonCode.DrawdownStopTriggered)"

lemma pretrade_field_specs [issue_specs]:
  "validate_non_empty_pretrade_field f v = [] \<longleftrightarrow> \<not> blank v"
  "validate_pretrade_timestamp_field T f v = [] \<longleftrightarrow> utc_ok T v"
  "validate_non_negative_pretrade_numeric f x = [] \<longleftrightarrow> f_nonneg x"
  "validate_normalized_pretrade_identifier f v = [] \<longleftrightarrow> normalize v = v"
  by (cases x; auto simp: validate_non_empty_pretrade_field_def validate_pretrade_timestamp_field_def
      validate_non_negative_pretrade_numeric_def validate_normalized_pretrade_identifier_def)+

lemma pretrade_codes_not_blank [simp]: "\<not> blank (PreTradeReasonCode_code c)"
  by (cases c; simp add: trim_id ws_defs)

lemma validate_gate_result_Inr [simp]:
  "validate_pretrade_gate_result T r = Inr u \<longleftrightarrow> gate_result_wf T r"
proof (cases "PreTradeReasonCode_parse (gr_reason_code r)")
  case (Inr c)
  then have "gr_reason_code r = PreTradeReasonCode_code c"
    using pretrade_reason.parse_ok_iff[of "gr_reason_code r"] by auto
  then show ?thesis
    by (auto simp: validate_pretrade_gate_result_def gate_result_wf_def issue_specs
        simp del: PreTradeReasonCode_code.simps)
qed (auto simp: validate_pretrade_gate_result_def gate_result_wf_def issue_specs)

lemma decision_evidence_issues_Nil:
  "decision_evidence_issues T d e = [] \<longleftrightarrow> decision_evidence_wf T d e"
proof (cases "validate_pretrade_participation_guardrail_evidence T e")
  case (Inl a)
  then have "ce_field_errors a \<noteq> []"
    by (auto simp: validate_pretrade_participation_guardrail_evidence_def reject_if_Inl
        ParticipationGuardrailContractError_invalid_payload_with_issues_def)
  with Inl show ?thesis
    using validate_evidence_Inr[of T e "()"]
    by (simp add: decision_evidence_issues_def decision_evidence_wf_def)
next
  case (Inr a)
  then have "evidence_wf T e" by simp
  then show ?thesis unfolding decision_evidence_issues_def decision_evidence_wf_def Inr by simp
qed

lemma decision_outcome_issues_Nil: "decision_outcome_issues d (gd_outcome d) = [] \<longleftrightarrow> outcome_wf d"
proof (cases "gd_outcome d")
  case Deny
  have "find (\<lambda>r. \<not> gr_passed r) rs = (case failed_gate_results rs of [] \<Rightarrow> None | r # _ \<Rightarrow> Some r)" for rs
    by (induction rs) auto
  with Deny show ?thesis
    by (auto simp: outcome_wf_def length_Suc_conv simp del: PreTradeReasonCode_code.simps split: list.splits)
qed (auto simp: outcome_wf_def simp del: PreTradeReasonCode_code.simps)

lemma gate_result_wf_known: "gate_result_wf T r \<Longrightarrow> \<exists>c. gr_reason_code r = PreTradeReasonCode_code c"
  using pretrade_reason.parse_ok_iff[of "gr_reason_code r"] by (auto simp: gate_result_wf_def split: sum.splits)

lemma outcome_reason_known:
  assumes "outcome_wf d" "list_all (gate_result_wf T) (gd_gate_results d)"
  obtains c where "gd_reason_code d = PreTradeReasonCode_code c"
proof (cases "gd_outcome d")
  case Allow
  with assms(1) that show thesis by (auto simp: outcome_wf_def simp del: PreTradeReasonCode_code.simps)
next
  case Deny
  with assms(1) obtain r where r: "failed_gate_results (gd_gate_results d) = [r]" "gd_reason_code d = gr_reason_code r"
    by (auto simp: outcome_wf_def split: list.splits)
  then have "r \<in> set (gd_gate_results d)"
    using filter_is_subset[of "\<lambda>r. \<not> gr_passed r" "gd_gate_results d"] by simp
  with assms(2) have "gate_result_wf T r" by (simp add: list_all_iff)
  with r(2) that show thesis using gate_result_wf_known by metis
qed

lemma validate_decision_Inr [simp]:
  "validate_pretrade_gate_decision T d = Inr u \<longleftrightarrow> decision_wf T d"
proof -
  have "(case validate_pretrade_gate_result T r of Inl e \<Rightarrow> ce_field_errors e | Inr _ \<Rightarrow> []) = []
      \<longleftrightarrow> gate_result_wf T r" for r
  proof (cases "validate_pretrade_gate_result T r")
    case (Inl e)
    then have "ce_field_errors e \<noteq> []"
      by (auto simp: validate_pretrade_gate_result_def reject_if_Inl
          PreTradeGateContractError_invalid_payload_with_issues_def)
    with Inl show ?thesis using validate_gate_result_Inr[of T r "()"] by simp
  next
    case (Inr u)
    then have "gate_result_wf T r" by simp
    then show ?thesis unfolding Inr by simp
  qed
  then have results: "concat (map (\<lambda>r. case validate_pretrade_gate_result T r of
        Inl e \<Rightarrow> ce_field_errors e | Inr _ \<Rightarrow> []) rs) = [] \<longleftrightarrow> list_all (gate_result_wf T) rs" for rs
    by (auto simp: list_all_iff)
  have reason: "\<not> blank (gd_reason_code d) \<and> \<not> is_err (PreTradeReasonCode_parse (gd_reason_code d))"
    if wf: "outcome_wf d" "list_all (gate_result_wf T) (gd_gate_results d)"
  proof -
    obtain c where "gd_reason_code d = PreTradeReasonCode_code c"
      by (rule outcome_reason_known[OF wf])
    then show ?thesis by (simp del: PreTradeReasonCode_code.simps)
  qed
  have evidence: "(case gd_participation_guardrail d of None \<Rightarrow> [] | Some e \<Rightarrow> decision_evidence_issues T d e) = []
      \<longleftrightarrow> (case gd_participation_guardrail d of Some e \<Rightarrow> decision_evidence_wf T d e | None \<Rightarrow> True)"
    by (cases "gd_participation_guardrail d") (auto simp: decision_evidence_issues_Nil)
  show ?thesis
    unfolding validate_pretrade_gate_decision_def reject_if_Inr append_is_Nil_conv results evidence
      pretrade_field_specs push_if_Nil decision_wf_def decision_outcome_issues_Nil
    using reason by (auto simp del: PreTradeReasonCode_code.simps)
qed

lemma validate_all_gate_results_Inr [simp]:
  "validate_all_gate_results T rs = Inr u \<longleftrightarrow> list_all (gate_result_wf T) rs"
  by (induction rs) (auto simp: and_then_Inr_iff)

section \<open>Adjudication\<close>

text \<open>The identifier of a decision is in normal form whatever the timestamp.\<close>

lemma digits_lower [simp]: "map ascii_lower (filter is_ascii_digit s) = filter is_ascii_digit s"
  by (induction s) (auto simp: is_ascii_digit_def less_eq_char_def intro!: ascii_lower_id)

lemma digit_no_ws:
  assumes "is_ascii_digit c"
  shows "\<not> ws1 c" "\<not> ws2 a c" "\<not> ws3 a b c"
proof -
  have c: "48 \<le> (of_char c :: nat)" "(of_char c :: nat) \<le> 57"
    using assms by (auto simp: is_ascii_digit_def less_eq_char_def)
  show "\<not> ws1 c" using c by (auto simp: ws1_def less_eq_char_def)
  show "\<not> ws2 a c" using c by (auto simp: ws2_def)
  show "\<not> ws3 a b c" using c by (auto simp: ws3_def less_eq_char_def)
qed

lemma ws_last_digits: "ws_last (rev (filter is_ascii_digit t) @ CHR '':'' # r) = 0"
proof (cases "rev (filter is_ascii_digit t)")
  case Nil
  then show ?thesis by (cases r rule: ws_last.cases) (auto simp: ws_defs)
next
  case (Cons c cs)
  then have "is_ascii_digit c"
    by (metis filter_set list.set_intros(1) mem_Collect_eq set_filter set_rev)
  with Cons show ?thesis
    by (cases "c # cs @ CHR '':'' # r" rule: ws_last.cases) (auto simp: digit_no_ws)
qed

lemma decision_id_normal [simp]: "normalize (pretrade_decision_id (normalize i) t) = pretrade_decision_id (normalize i) t"
proof (rule normalize_id)
  have lower: "map ascii_lower (normalize i) = normalize i"
    using to_ascii_lowercase_idem[of "trim i"]
    by (simp add: normalize_def to_ascii_lowercase_def del: to_ascii_lowercase_idem)
  show "ws_head (pretrade_decision_id (normalize i) t) = 0"
    by (simp add: pretrade_decision_id_def ws_defs)
  show "ws_last (rev (pretrade_decision_id (normalize i) t)) = 0"
    using ws_last_digits by (simp add: pretrade_decision_id_def compact_utc_timestamp_token_def)
  show "map ascii_lower (pretrade_decision_id (normalize i) t) = pretrade_decision_id (normalize i) t"
    using lower by (simp add: pretrade_decision_id_def compact_utc_timestamp_token_def)
qed

lemma decision_id_not_blank [simp]: "\<not> blank (pretrade_decision_id (normalize i) t)"
proof -
  have "normalize (pretrade_decision_id (normalize i) t) \<noteq> []"
    unfolding decision_id_normal by (simp add: pretrade_decision_id_def)
  then show ?thesis using normalize_Nil by blast
qed

text \<open>The decision adjudication builds before it validates it.\<close>

definition built_decision ::
    "string \<Rightarrow> string \<Rightarrow> string \<Rightarrow> string \<Rightarrow> string \<Rightarrow> string \<Rightarrow> PreTradeGateResult list
      \<Rightarrow> PreTradeParticipationGuardrailEvidence option \<Rightarrow> bool \<Rightarrow> PreTradeGateDecision" where
  "built_decision i m c p k t rs e b =
     \<lparr>gd_decision_id = pretrade_decision_id (normalize i) t,
      gd_intent_id = normalize i, gd_market_id = normalize m, gd_cluster_id = normalize c,
      gd_profile_key = normalize p,
      gd_outcome = (if failed_gate_results rs = [] then PreTradeDecisionOutcome.Allow else PreTradeDecisionOutcome.Deny),
      gd_reason_code = (case failed_gate_results rs of
          [] \<Rightarrow> PreTradeReasonCode_code PreTradeReasonCode.Pass | r # _ \<Rightarrow> gr_reason_code r),
      gd_protective_mode_active = b, gd_gate_results = rs, gd_participation_guardrail = e,
      gd_correlation_id = normalize k, gd_evaluated_at_utc = t\<rparr>"

lemma find_failed:
  "find (\<lambda>r. \<not> gr_passed r) rs = (case failed_gate_results rs of [] \<Rightarrow> None | r # _ \<Rightarrow> Some r)"
  by (induction rs) auto

lemma adjudicate_Inr:
  "adjudicate_pretrade_gate_results T i m c p k t rs e b = Inr d \<longleftrightarrow>
     d = built_decision i m c p k t rs e b \<and> decision_wf T d"
proof -
  let ?b = "built_decision i m c p k t rs e b"
  have "adjudicate_pretrade_gate_results T i m c p k t rs e b =
      (if rs = [] then Inl (PreTradeGateContractError_invalid_payload ''gate_results must include at least one entry'')
       else and_then (validate_all_gate_results T rs) (\<lambda>_.
         if \<not> utc_ok T t
         then Inl (PreTradeGateContractError_invalid_payload ''evaluated_at_utc must be an RFC3339 UTC timestamp'')
         else and_then (validate_pretrade_gate_decision T ?b) (\<lambda>_. Inr ?b)))"
    unfolding adjudicate_pretrade_gate_results_def built_decision_def find_failed Let_def
    by (cases "failed_gate_results rs") simp_all
  moreover have "gd_gate_results ?b = rs" "gd_evaluated_at_utc ?b = t"
    by (simp_all add: built_decision_def)
  ultimately show ?thesis
    unfolding decision_wf_def[of T d] by (auto simp: and_then_Inr_iff decision_wf_def[of T ?b])
qed

text \<open>When the built decision is in order: nothing but its inputs' own contracts is needed.\<close>

lemma built_decision_wf:
  assumes "list_all (\<lambda>v. \<not> blank v) [i, m, c, p, k]" "utc_ok T t"
    and "rs \<noteq> []" "list_all (gate_result_wf T) rs" "length (failed_gate_results rs) \<le> 1"
    and "\<And>e'. e = Some e' \<Longrightarrow> evidence_wf T e' \<and> normalize (pe_market_id e') = normalize m
          \<and> normalize (pe_cluster_id e') = normalize c \<and> normalize (pe_correlation_id e') = normalize k
          \<and> pe_evaluated_at_utc e' = t"
    and "b \<Longrightarrow> \<exists>r. failed_gate_results rs = [r]
          \<and> gr_reason_code r = PreTradeReasonCode_code PreTradeReasonCode.DrawdownStopTriggered"
  shows "decision_wf T (built_decision i m c p k t rs e b)"
proof -
  have id: "\<not> blank (normalize v)" if "\<not> blank v" for v
    using that normalize_Nil[of v] by simp
  have outcome: "outcome_wf (built_decision i m c p k t rs e b)"
    using assms(5,7) by (cases "failed_gate_results rs")
      (auto simp: outcome_wf_def built_decision_def simp del: PreTradeReasonCode_code.simps)
  show ?thesis
    unfolding decision_wf_def
    using assms outcome id
    by (cases e) (auto simp: built_decision_def decision_evidence_wf_def simp del: PreTradeReasonCode_code.simps)
qed

lemma outcome_wf_cases:
  assumes "outcome_wf d"
  shows "gd_outcome d = PreTradeDecisionOutcome.Allow \<longleftrightarrow> list_all gr_passed (gd_gate_results d)"
    and "gd_outcome d = PreTradeDecisionOutcome.Deny \<Longrightarrow> \<exists>pre r post. gd_gate_results d = pre @ r # post
      \<and> \<not> gr_passed r \<and> list_all gr_passed (pre @ post) \<and> gd_reason_code d = gr_reason_code r"
proof -
  have none: "failed_gate_results rs = [] \<longleftrightarrow> list_all gr_passed rs" for rs
    by (induction rs) auto
  have one: "failed_gate_results rs = [r] \<Longrightarrow> \<exists>pre post. rs = pre @ r # post \<and> \<not> gr_passed r \<and> list_all gr_passed (pre @ post)"
    for rs r
  proof -
    assume "failed_gate_results rs = [r]"
    then obtain us vs where "rs = us @ r # vs" "\<forall>u\<in>set us. gr_passed u" "\<not> gr_passed r" "[] = failed_gate_results vs"
      unfolding filter_eq_Cons_iff by auto
    then show ?thesis using none[of vs] by (auto simp: list_all_iff)
  qed
  show "gd_outcome d = PreTradeDecisionOutcome.Allow \<longleftrightarrow> list_all gr_passed (gd_gate_results d)"
    using assms none[of "gd_gate_results d"]
    by (cases "gd_outcome d") (auto simp: outcome_wf_def split: list.splits)
  show "\<exists>pre r post. gd_gate_results d = pre @ r # post
      \<and> \<not> gr_passed r \<and> list_all gr_passed (pre @ post) \<and> gd_reason_code d = gr_reason_code r"
    if "gd_outcome d = PreTradeDecisionOutcome.Deny"
    using assms that one[of "gd_gate_results d"] by (auto simp: outcome_wf_def split: list.splits)
qed

lemma drawdown_stop_iff:
  "drawdown_stop_triggered c t = Inr b \<longleftrightarrow> f_nonneg c \<and> f_nonneg t \<and> b = f_ge c t"
  by (auto simp: drawdown_stop_triggered_def and_then_Inr_iff issue_specs)

section \<open>Properties\<close>

text \<open>
  C7: An adjudicated decision allows exactly when every gate passed; otherwise a single gate
  failed and its reason is the decision's. Protective mode is asserted only with the drawdown
  stop, the identifiers are in normal form, and the decision passes its own validator.
\<close>

theorem adjudication_decides:
  assumes "adjudicate_pretrade_gate_results T i m c p k t results evidence protective = Inr d"
  shows "(if list_all gr_passed results
      then gd_outcome d = PreTradeDecisionOutcome.Allow \<and> \<not> protective
         \<and> gd_reason_code d = PreTradeReasonCode_code PreTradeReasonCode.Pass
      else gd_outcome d = PreTradeDecisionOutcome.Deny
         \<and> (\<exists>pre r post. results = pre @ r # post \<and> \<not> gr_passed r \<and> list_all gr_passed (pre @ post)
              \<and> gd_reason_code d = gr_reason_code r)
         \<and> (\<not> protective \<or> gd_reason_code d = PreTradeReasonCode_code PreTradeReasonCode.DrawdownStopTriggered))
    \<and> gd_gate_results d = results \<and> gd_intent_id d = normalize i
    \<and> gd_decision_id d = pretrade_decision_id (normalize i) t
    \<and> validate_pretrade_gate_decision T d = Inr ()"
proof -
  have d: "d = built_decision i m c p k t results evidence protective" and wf: "decision_wf T d"
    using assms by (auto simp: adjudicate_Inr)
  have f: "gd_gate_results d = results" "gd_protective_mode_active d = protective" "gd_intent_id d = normalize i"
    "gd_decision_id d = pretrade_decision_id (normalize i) t"
    by (simp_all add: d built_decision_def)
  have outcome: "outcome_wf d" and prot: "protective \<Longrightarrow>
      gd_reason_code d = PreTradeReasonCode_code PreTradeReasonCode.DrawdownStopTriggered"
    using wf f by (auto simp: decision_wf_def)
  have allow: "\<not> protective \<and> gd_reason_code d = PreTradeReasonCode_code PreTradeReasonCode.Pass"
    if "gd_outcome d = PreTradeDecisionOutcome.Allow"
    using outcome that by (simp add: outcome_wf_def f del: PreTradeReasonCode_code.simps)
  show ?thesis
    using wf allow prot outcome_wf_cases[OF outcome]
    by (cases "gd_outcome d") (auto simp: f simp del: PreTradeReasonCode_code.simps)
qed

definition demo_gate_result :: "PreTradeGateDimension \<Rightarrow> PreTradeReasonCode \<Rightarrow> PreTradeGateResult" where
  "demo_gate_result gate reason =
     \<lparr>gr_gate = gate, gr_passed = (reason = PreTradeReasonCode.Pass), gr_reason_code = PreTradeReasonCode_code reason,
      gr_evaluated_at_utc = ''2026-04-06T00:00:00Z''\<rparr>"

definition demo_adjudication :: "PreTradeGateResult list \<Rightarrow> PreTradeGateContractError + PreTradeGateDecision" where
  "demo_adjudication results = adjudicate_pretrade_gate_results demo_time '' Intent-1'' ''market-1'' ''cluster-1''
     ''Profile-1'' ''corr-1'' ''2026-04-06T00:00:00Z'' results None False"

theorem adjudication_decides_witness:
  "\<exists>d. demo_adjudication [demo_gate_result Freshness PreTradeReasonCode.Pass,
        demo_gate_result StreamHealth PreTradeReasonCode.StreamHealthDegraded] = Inr d
     \<and> gd_outcome d = PreTradeDecisionOutcome.Deny \<and> gd_intent_id d = ''intent-1''"
proof -
  let ?rs = "[demo_gate_result Freshness PreTradeReasonCode.Pass,
        demo_gate_result StreamHealth PreTradeReasonCode.StreamHealthDegraded]"
  have "\<not> isl (demo_adjudication ?rs)" by code_simp
  then obtain d where d: "demo_adjudication ?rs = Inr d" by (rule is_okE)
  have i: "normalize '' Intent-1'' = ''intent-1''" by code_simp
  have "\<not> list_all gr_passed ?rs" by (simp add: demo_gate_result_def)
  then show ?thesis
    using adjudication_decides[OF d[unfolded demo_adjudication_def]] d i by auto
qed

text \<open>
  Adjudication is total on what its callers hand it: non-blank identifiers, a UTC timestamp,
  well-formed results of which at most one failed, evidence that is valid and about the same
  market, cluster, correlation and instant, and protective mode only with the drawdown stop.
\<close>

theorem adjudication_total:
  assumes "list_all (\<lambda>v. \<not> blank v) [i, m, c, p, k]" "utc_ok T t"
    and "results \<noteq> []" "list_all (gate_result_wf T) results" "length (failed_gate_results results) \<le> 1"
    and "\<And>e. evidence = Some e \<Longrightarrow> evidence_wf T e \<and> normalize (pe_market_id e) = normalize m
          \<and> normalize (pe_cluster_id e) = normalize c \<and> normalize (pe_correlation_id e) = normalize k
          \<and> pe_evaluated_at_utc e = t"
    and "protective \<Longrightarrow> \<exists>r. failed_gate_results results = [r]
          \<and> gr_reason_code r = PreTradeReasonCode_code PreTradeReasonCode.DrawdownStopTriggered"
  shows "adjudicate_pretrade_gate_results T i m c p k t results evidence protective =
    Inr (built_decision i m c p k t results evidence protective)"
  using built_decision_wf[OF assms] by (simp add: adjudicate_Inr)

theorem adjudication_total_witness:
  "adjudicate_pretrade_gate_results demo_time ''i'' ''m'' ''c'' ''p'' ''k'' ''2026-04-06T00:00:00Z''
     [demo_gate_result Freshness PreTradeReasonCode.Pass,
      demo_gate_result DrawdownStop PreTradeReasonCode.DrawdownStopTriggered] None True =
   Inr (built_decision ''i'' ''m'' ''c'' ''p'' ''k'' ''2026-04-06T00:00:00Z''
     [demo_gate_result Freshness PreTradeReasonCode.Pass,
      demo_gate_result DrawdownStop PreTradeReasonCode.DrawdownStopTriggered] None True)"
proof (rule adjudication_total)
  show "list_all (\<lambda>v. \<not> blank v) [''i'', ''m'', ''c'', ''p'', ''k'']" by code_simp
  show "utc_ok demo_time ''2026-04-06T00:00:00Z''" by simp
qed (simp_all add: demo_gate_result_def gate_result_wf_def del: PreTradeReasonCode_code.simps)

text \<open>Two failed gates are refused: a caller has to stop at the first failure.\<close>

lemma two_failures_refused:
  assumes "2 \<le> length (failed_gate_results results)"
  shows "isl (adjudicate_pretrade_gate_results T i m c p k t results evidence protective)"
proof (rule ccontr)
  assume "\<not> ?thesis"
  then obtain d where d: "d = built_decision i m c p k t results evidence protective" "decision_wf T d"
    by (metis is_okE adjudicate_Inr)
  then have "length (failed_gate_results results) \<le> 1"
    by (auto simp: decision_wf_def outcome_wf_def built_decision_def split: list.splits if_splits)
  with assms show False by simp
qed

end
