(* ===== verification/OrderLifecycle.thy ===== *)
theory OrderLifecycle
  imports Prelude
begin

text \<open>
  The order lifecycle contract of \<open>crates/domain/src/order.rs\<close>: modes, states, reason
  codes, idempotency keys, the transition relation, and the validators of an order record and
  of a state transition.
\<close>

section \<open>Codes, errors and data\<close>

datatype OrderMode =
    Limit
  | ReduceOnly

fun OrderMode_as_str :: "OrderMode \<Rightarrow> string" where
  "OrderMode_as_str OrderMode.Limit = ''limit''"
| "OrderMode_as_str OrderMode.ReduceOnly = ''reduce_only''"

datatype OrderLifecycleState =
    Pending
  | Live
  | PartiallyFilled
  | Filled
  | Canceled
  | Expired

fun OrderLifecycleState_as_str :: "OrderLifecycleState \<Rightarrow> string" where
  "OrderLifecycleState_as_str OrderLifecycleState.Pending = ''pending''"
| "OrderLifecycleState_as_str OrderLifecycleState.Live = ''live''"
| "OrderLifecycleState_as_str OrderLifecycleState.PartiallyFilled = ''partially_filled''"
| "OrderLifecycleState_as_str OrderLifecycleState.Filled = ''filled''"
| "OrderLifecycleState_as_str OrderLifecycleState.Canceled = ''canceled''"
| "OrderLifecycleState_as_str OrderLifecycleState.Expired = ''expired''"

datatype OrderLifecycleReasonCode =
    SubmissionAccepted
  | CancelAccepted
  | BatchCancelAccepted
  | VenueUpdateAccepted
  | TransitionRejected
  | UnsupportedVenueState
  | AlreadyTerminal
  | DuplicateIdempotencyKey
  | RetryableFailure
  | HardFailure
  | PersistenceUnavailable
  | VenueUnavailable
  | Unauthorized
  | AuthExpired
  | InvalidPayload

fun OrderLifecycleReasonCode_code :: "OrderLifecycleReasonCode \<Rightarrow> string" where
  "OrderLifecycleReasonCode_code OrderLifecycleReasonCode.SubmissionAccepted = ''order_lifecycle_submission_accepted''"
| "OrderLifecycleReasonCode_code OrderLifecycleReasonCode.CancelAccepted = ''order_lifecycle_cancel_accepted''"
| "OrderLifecycleReasonCode_code OrderLifecycleReasonCode.BatchCancelAccepted = ''order_lifecycle_batch_cancel_accepted''"
| "OrderLifecycleReasonCode_code OrderLifecycleReasonCode.VenueUpdateAccepted = ''order_lifecycle_venue_update_accepted''"
| "OrderLifecycleReasonCode_code OrderLifecycleReasonCode.TransitionRejected = ''order_lifecycle_transition_rejected''"
| "OrderLifecycleReasonCode_code OrderLifecycleReasonCode.UnsupportedVenueState = ''order_lifecycle_unsupported_venue_state''"
| "OrderLifecycleReasonCode_code OrderLifecycleReasonCode.AlreadyTerminal = ''order_lifecycle_already_terminal''"
| "OrderLifecycleReasonCode_code OrderLifecycleReasonCode.DuplicateIdempotencyKey = ''order_lifecycle_duplicate_idempotency_key''"
| "OrderLifecycleReasonCode_code OrderLifecycleReasonCode.RetryableFailure = ''order_lifecycle_retryable_failure''"
| "OrderLifecycleReasonCode_code OrderLifecycleReasonCode.HardFailure = ''order_lifecycle_hard_failure''"
| "OrderLifecycleReasonCode_code OrderLifecycleReasonCode.PersistenceUnavailable = ''order_lifecycle_persistence_unavailable''"
| "OrderLifecycleReasonCode_code OrderLifecycleReasonCode.VenueUnavailable = ''order_lifecycle_venue_unavailable''"
| "OrderLifecycleReasonCode_code OrderLifecycleReasonCode.Unauthorized = ''order_lifecycle_unauthorized''"
| "OrderLifecycleReasonCode_code OrderLifecycleReasonCode.AuthExpired = ''order_lifecycle_auth_expired''"
| "OrderLifecycleReasonCode_code OrderLifecycleReasonCode.InvalidPayload = ''order_lifecycle_invalid_payload''"

type_synonym OrderLifecycleValidationIssue = issue
type_synonym OrderLifecycleContractError = contract_error

definition OrderLifecycleContractError_invalid_payload :: "string \<Rightarrow> OrderLifecycleContractError" where
  "OrderLifecycleContractError_invalid_payload message =
     contract_error_of (OrderLifecycleReasonCode_code OrderLifecycleReasonCode.InvalidPayload) message []"

definition OrderLifecycleContractError_invalid_payload_with_issues :: "string \<Rightarrow> OrderLifecycleValidationIssue list \<Rightarrow> OrderLifecycleContractError" where
  "OrderLifecycleContractError_invalid_payload_with_issues message field_errors =
     contract_error_of (OrderLifecycleReasonCode_code OrderLifecycleReasonCode.InvalidPayload) message field_errors"

definition OrderLifecycleContractError_already_terminal :: "string \<Rightarrow> OrderLifecycleContractError" where
  "OrderLifecycleContractError_already_terminal message =
     contract_error_of (OrderLifecycleReasonCode_code OrderLifecycleReasonCode.AlreadyTerminal) message []"

definition OrderMode_parse :: "string \<Rightarrow> OrderLifecycleContractError + OrderMode" where
  "OrderMode_parse = parse_arms
     [(''limit'', OrderMode.Limit),
      (''reduce_only'', OrderMode.ReduceOnly)]
     (\<lambda>value. OrderLifecycleContractError_invalid_payload (''unknown order mode `'' @ value @ ''`''))"

interpretation order_mode: enum_codec "\<lambda>v. v" OrderMode_as_str OrderMode_parse
  by (unfold OrderMode_parse_def, rule enum_codec_arms, case_tac x) simp_all

definition OrderLifecycleState_parse :: "string \<Rightarrow> OrderLifecycleContractError + OrderLifecycleState" where
  "OrderLifecycleState_parse = parse_arms
     [(''pending'', OrderLifecycleState.Pending),
      (''live'', OrderLifecycleState.Live),
      (''partially_filled'', OrderLifecycleState.PartiallyFilled),
      (''filled'', OrderLifecycleState.Filled),
      (''canceled'', OrderLifecycleState.Canceled),
      (''expired'', OrderLifecycleState.Expired)]
     (\<lambda>value. OrderLifecycleContractError_invalid_payload (''unknown order lifecycle state `'' @ value @ ''`''))"

interpretation order_state: enum_codec "\<lambda>v. v" OrderLifecycleState_as_str OrderLifecycleState_parse
  by (unfold OrderLifecycleState_parse_def, rule enum_codec_arms, case_tac x) simp_all

definition OrderLifecycleReasonCode_parse :: "string \<Rightarrow> OrderLifecycleContractError + OrderLifecycleReasonCode" where
  "OrderLifecycleReasonCode_parse = parse_arms
     [(''order_lifecycle_submission_accepted'', OrderLifecycleReasonCode.SubmissionAccepted),
      (''order_lifecycle_cancel_accepted'', OrderLifecycleReasonCode.CancelAccepted),
      (''order_lifecycle_batch_cancel_accepted'', OrderLifecycleReasonCode.BatchCancelAccepted),
      (''order_lifecycle_venue_update_accepted'', OrderLifecycleReasonCode.VenueUpdateAccepted),
      (''order_lifecycle_transition_rejected'', OrderLifecycleReasonCode.TransitionRejected),
      (''order_lifecycle_unsupported_venue_state'', OrderLifecycleReasonCode.UnsupportedVenueState),
      (''order_lifecycle_already_terminal'', OrderLifecycleReasonCode.AlreadyTerminal),
      (''order_lifecycle_duplicate_idempotency_key'', OrderLifecycleReasonCode.DuplicateIdempotencyKey),
      (''order_lifecycle_retryable_failure'', OrderLifecycleReasonCode.RetryableFailure),
      (''order_lifecycle_hard_failure'', OrderLifecycleReasonCode.HardFailure),
      (''order_lifecycle_persistence_unavailable'', OrderLifecycleReasonCode.PersistenceUnavailable),
      (''order_lifecycle_venue_unavailable'', OrderLifecycleReasonCode.VenueUnavailable),
      (''order_lifecycle_unauthorized'', OrderLifecycleReasonCode.Unauthorized),
      (''order_lifecycle_auth_expired'', OrderLifecycleReasonCode.AuthExpired),
      (''order_lifecycle_invalid_payload'', OrderLifecycleReasonCode.InvalidPayload)]
     (\<lambda>value. OrderLifecycleContractError_invalid_payload (''unknown order lifecycle reason code `'' @ value @ ''`''))"

interpretation order_reason: enum_codec "\<lambda>v. v" OrderLifecycleReasonCode_code OrderLifecycleReasonCode_parse
  by (unfold OrderLifecycleReasonCode_parse_def, rule enum_codec_arms, case_tac x) simp_all

record OrderKey =
  ok_order_id :: string
  ok_market_id :: string

record OrderRecord =
  or_order_id :: string
  or_market_id :: string
  or_mode :: OrderMode
  or_state :: OrderLifecycleState
  or_submission_idempotency_key :: string
  or_cancel_idempotency_key :: "string option"
  or_last_transition_sequence :: int
  or_last_reason_code :: string
  or_correlation_id :: string
  or_created_at_utc :: string
  or_updated_at_utc :: string

record OrderStateTransition =
  ot_transition_id :: string
  ot_order_id :: string
  ot_market_id :: string
  ot_mode :: OrderMode
  ot_from_state :: "OrderLifecycleState option"
  ot_to_state :: OrderLifecycleState
  ot_reason_code :: string
  ot_idempotency_key :: string
  ot_correlation_id :: string
  ot_transition_sequence :: int
  ot_transitioned_at_utc :: string

section \<open>Idempotency keys\<close>

definition normalize_order_idempotency_key :: "string \<Rightarrow> string" where
  "normalize_order_idempotency_key raw = normalize raw"

definition normalize_order_submission_idempotency_key :: "string \<Rightarrow> string \<Rightarrow> string" where
  "normalize_order_submission_idempotency_key order_id raw =
     (let normalized = normalize_order_idempotency_key raw
      in if normalized = [] then ''submit::'' @ normalize_order_idempotency_key (trim order_id) else normalized)"

definition normalize_order_cancel_idempotency_key :: "string \<Rightarrow> string \<Rightarrow> string" where
  "normalize_order_cancel_idempotency_key order_id raw =
     (let normalized = normalize_order_idempotency_key raw
      in if normalized = [] then ''cancel::'' @ normalize_order_idempotency_key (trim order_id) else normalized)"

definition normalize_order_batch_cancel_idempotency_key :: "string \<Rightarrow> string \<Rightarrow> string" where
  "normalize_order_batch_cancel_idempotency_key batch_key order_id =
     (let batch = normalize_order_idempotency_key batch_key;
          order = normalize_order_idempotency_key order_id
      in if batch = [] then ''batch-cancel::'' @ order else ''batch-cancel::'' @ batch @ ''::'' @ order)"

definition is_duplicate_order_idempotency_key :: "string list \<Rightarrow> string \<Rightarrow> bool" where
  "is_duplicate_order_idempotency_key existing_keys candidate =
     (let normalized_candidate = normalize_order_idempotency_key candidate
      in list_ex (\<lambda>key. normalize_order_idempotency_key key = normalized_candidate) existing_keys)"

section \<open>The lifecycle\<close>

fun is_terminal :: "OrderLifecycleState \<Rightarrow> bool" where
  "is_terminal OrderLifecycleState.Filled = True"
| "is_terminal OrderLifecycleState.Canceled = True"
| "is_terminal OrderLifecycleState.Expired = True"
| "is_terminal _ = False"

text \<open>The \<open>matches!\<close> of each state, in the order of the source.\<close>

fun order_transition_targets :: "OrderLifecycleState \<Rightarrow> OrderLifecycleState list" where
  "order_transition_targets OrderLifecycleState.Pending =
     [OrderLifecycleState.Pending, OrderLifecycleState.Live, OrderLifecycleState.Canceled, OrderLifecycleState.Expired]"
| "order_transition_targets OrderLifecycleState.Live =
     [OrderLifecycleState.Live, OrderLifecycleState.PartiallyFilled, OrderLifecycleState.Filled,
      OrderLifecycleState.Canceled, OrderLifecycleState.Expired]"
| "order_transition_targets OrderLifecycleState.PartiallyFilled =
     [OrderLifecycleState.PartiallyFilled, OrderLifecycleState.Filled, OrderLifecycleState.Canceled,
      OrderLifecycleState.Expired]"
| "order_transition_targets OrderLifecycleState.Filled = []"
| "order_transition_targets OrderLifecycleState.Canceled = []"
| "order_transition_targets OrderLifecycleState.Expired = []"

definition validate_order_transition ::
    "OrderLifecycleState option \<Rightarrow> OrderLifecycleState \<Rightarrow> OrderLifecycleContractError + unit" where
  "validate_order_transition from_state to_state = (case from_state of
      None \<Rightarrow> Inr ()
    | Some from \<Rightarrow>
        if is_terminal from then
          Inl (OrderLifecycleContractError_already_terminal
            (''terminal state `'' @ OrderLifecycleState_as_str from @ ''` cannot transition to `''
              @ OrderLifecycleState_as_str to_state @ ''`''))
        else if to_state \<notin> set (order_transition_targets from) then
          Inl (OrderLifecycleContractError_invalid_payload
            (''invalid lifecycle transition `'' @ OrderLifecycleState_as_str from @ ''` -> `''
              @ OrderLifecycleState_as_str to_state @ ''`''))
        else Inr ())"

section \<open>Validation\<close>

definition validate_order_non_empty_field ::
    "string \<Rightarrow> string \<Rightarrow> issue list" where
  "validate_order_non_empty_field field value =
     push_if (blank value) field
        (OrderLifecycleReasonCode_code OrderLifecycleReasonCode.InvalidPayload)
        (field @ '' cannot be blank'')"

definition validate_timestamp_field ::
    "time_crate \<Rightarrow> string \<Rightarrow> string \<Rightarrow> issue list" where
  "validate_timestamp_field T field value =
     push_if (\<not> utc_ok T value) field
        (OrderLifecycleReasonCode_code OrderLifecycleReasonCode.InvalidPayload)
        (field @ '' must be an RFC3339 UTC timestamp'')"

definition validate_order_record ::
    "time_crate \<Rightarrow> OrderRecord \<Rightarrow> OrderLifecycleContractError + unit" where
  "validate_order_record T record = reject_if
     (validate_order_non_empty_field ''order_id'' (or_order_id record)
    @ validate_order_non_empty_field ''market_id'' (or_market_id record)
    @ validate_order_non_empty_field ''submission_idempotency_key'' (or_submission_idempotency_key record)
    @ validate_order_non_empty_field ''last_reason_code'' (or_last_reason_code record)
    @ validate_order_non_empty_field ''correlation_id'' (or_correlation_id record)
    @ validate_timestamp_field T ''created_at_utc'' (or_created_at_utc record)
    @ validate_timestamp_field T ''updated_at_utc'' (or_updated_at_utc record)
    @ push_if (normalize_order_idempotency_key (or_submission_idempotency_key record)
          \<noteq> or_submission_idempotency_key record) ''submission_idempotency_key''
        (OrderLifecycleReasonCode_code OrderLifecycleReasonCode.InvalidPayload)
        (''submission_idempotency_key must be normalized (trimmed lowercase)'')
    @ (case or_cancel_idempotency_key record of None \<Rightarrow> []
       | Some cancel_key \<Rightarrow> validate_order_non_empty_field ''cancel_idempotency_key'' cancel_key
          @ push_if (normalize_order_idempotency_key cancel_key \<noteq> cancel_key) ''cancel_idempotency_key''
              (OrderLifecycleReasonCode_code OrderLifecycleReasonCode.InvalidPayload)
              (''cancel_idempotency_key must be normalized (trimmed lowercase)''))
    @ push_if (is_err (OrderLifecycleReasonCode_parse (or_last_reason_code record))) ''last_reason_code''
        (OrderLifecycleReasonCode_code OrderLifecycleReasonCode.InvalidPayload)
        (''last_reason_code must be a known order lifecycle reason'')
    @ push_if ((or_last_transition_sequence record) \<le> 0) ''last_transition_sequence''
        (OrderLifecycleReasonCode_code OrderLifecycleReasonCode.InvalidPayload)
        (''last_transition_sequence must be greater than 0'')
    @ push_if (case (parse_utc_timestamp T (or_created_at_utc record), parse_utc_timestamp T (or_updated_at_utc record)) of
          (Some created_at, Some updated_at) \<Rightarrow> updated_at < created_at | _ \<Rightarrow> False) ''updated_at_utc''
        (OrderLifecycleReasonCode_code OrderLifecycleReasonCode.InvalidPayload)
        (''updated_at_utc cannot be earlier than created_at_utc''))
     (OrderLifecycleContractError_invalid_payload_with_issues ''order record is invalid'')"

definition validate_order_state_transition ::
    "time_crate \<Rightarrow> OrderStateTransition \<Rightarrow> OrderLifecycleContractError + unit" where
  "validate_order_state_transition T transition = reject_if
     (validate_order_non_empty_field ''transition_id'' (ot_transition_id transition)
    @ validate_order_non_empty_field ''order_id'' (ot_order_id transition)
    @ validate_order_non_empty_field ''market_id'' (ot_market_id transition)
    @ validate_order_non_empty_field ''reason_code'' (ot_reason_code transition)
    @ validate_order_non_empty_field ''idempotency_key'' (ot_idempotency_key transition)
    @ validate_order_non_empty_field ''correlation_id'' (ot_correlation_id transition)
    @ validate_timestamp_field T ''transitioned_at_utc'' (ot_transitioned_at_utc transition)
    @ push_if ((ot_transition_sequence transition) \<le> 0) ''transition_sequence''
        (OrderLifecycleReasonCode_code OrderLifecycleReasonCode.InvalidPayload)
        (''transition_sequence must be greater than 0'')
    @ push_if (normalize_order_idempotency_key (ot_idempotency_key transition) \<noteq> ot_idempotency_key transition) ''idempotency_key''
        (OrderLifecycleReasonCode_code OrderLifecycleReasonCode.InvalidPayload)
        (''idempotency_key must be normalized (trimmed lowercase)'')
    @ push_if (ot_from_state transition = None \<and> ot_transition_sequence transition \<noteq> 1) ''transition_sequence''
        (OrderLifecycleReasonCode_code OrderLifecycleReasonCode.InvalidPayload)
        (''first transition must use sequence 1'')
    @ push_if (is_err (OrderLifecycleReasonCode_parse (ot_reason_code transition))) ''reason_code''
        (OrderLifecycleReasonCode_code OrderLifecycleReasonCode.InvalidPayload)
        (''reason_code must be a known order lifecycle reason'')
    @ (case validate_order_transition (ot_from_state transition) (ot_to_state transition) of
         Inl error \<Rightarrow> push_if True ''to_state'' (ce_code error) (ce_message error)
       | Inr _ \<Rightarrow> []))
     (OrderLifecycleContractError_invalid_payload_with_issues ''order state transition is invalid'')"

section \<open>What the validators accept\<close>

definition order_record_wf :: "time_crate \<Rightarrow> OrderRecord \<Rightarrow> bool" where
  "order_record_wf T r \<longleftrightarrow>
     list_all (\<lambda>v. \<not> blank v)
       [or_order_id r, or_market_id r, or_submission_idempotency_key r, or_correlation_id r]
   \<and> normalize (or_submission_idempotency_key r) = or_submission_idempotency_key r
   \<and> (case or_cancel_idempotency_key r of Some key \<Rightarrow> \<not> blank key \<and> normalize key = key | None \<Rightarrow> True)
   \<and> \<not> isl (OrderLifecycleReasonCode_parse (or_last_reason_code r))
   \<and> 0 < or_last_transition_sequence r
   \<and> (case (parse_utc_timestamp T (or_created_at_utc r), parse_utc_timestamp T (or_updated_at_utc r)) of
        (Some created_at, Some updated_at) \<Rightarrow> created_at \<le> updated_at | _ \<Rightarrow> False)"

definition transition_wf :: "time_crate \<Rightarrow> OrderStateTransition \<Rightarrow> bool" where
  "transition_wf T t \<longleftrightarrow>
     list_all (\<lambda>v. \<not> blank v)
       [ot_transition_id t, ot_order_id t, ot_market_id t, ot_idempotency_key t, ot_correlation_id t]
   \<and> utc_ok T (ot_transitioned_at_utc t) \<and> normalize (ot_idempotency_key t) = ot_idempotency_key t
   \<and> \<not> isl (OrderLifecycleReasonCode_parse (ot_reason_code t))
   \<and> 0 < ot_transition_sequence t
   \<and> (case ot_from_state t of
        None \<Rightarrow> ot_transition_sequence t = 1
      | Some from \<Rightarrow> ot_to_state t \<in> set (order_transition_targets from))"

lemma order_field_specs [issue_specs]:
  "validate_order_non_empty_field f v = [] \<longleftrightarrow> \<not> blank v"
  "validate_timestamp_field T f v = [] \<longleftrightarrow> utc_ok T v"
  by (auto simp: validate_order_non_empty_field_def validate_timestamp_field_def)

lemma order_code_not_blank: "\<not> isl (OrderLifecycleReasonCode_parse v) \<Longrightarrow> \<not> blank v"
proof -
  have "\<not> blank (OrderLifecycleReasonCode_code c)" for c
    by (cases c; simp add: trim_id ws_defs)
  then show "\<not> isl (OrderLifecycleReasonCode_parse v) \<Longrightarrow> \<not> blank v"
    using order_reason.parse_ok_iff[of v] by auto
qed

lemma terminal_iff: "is_terminal s \<longleftrightarrow> order_transition_targets s = []"
  by (cases s) simp_all

lemma validate_transition_Inr [simp]:
  "validate_order_transition from to = Inr u \<longleftrightarrow>
     (case from of None \<Rightarrow> True | Some s \<Rightarrow> to \<in> set (order_transition_targets s))"
  by (auto simp: validate_order_transition_def terminal_iff split: option.splits)

lemma validate_order_record_Inr [simp]: "validate_order_record T r = Inr u \<longleftrightarrow> order_record_wf T r"
  unfolding validate_order_record_def order_record_wf_def
  by (auto simp: issue_specs normalize_order_idempotency_key_def order_code_not_blank
      simp del: OrderLifecycleReasonCode_code.simps split: option.splits)

lemma validate_order_state_transition_Inr [simp]:
  "validate_order_state_transition T t = Inr u \<longleftrightarrow> transition_wf T t"
proof -
  have "(case validate_order_transition f s of Inl e \<Rightarrow> push_if True ''to_state'' (ce_code e) (ce_message e) | Inr _ \<Rightarrow> []) = []
      \<longleftrightarrow> validate_order_transition f s = Inr ()" for f s
    using is_ok_unit[of "validate_order_transition f s"]
    by (cases "validate_order_transition f s") (simp_all del: validate_transition_Inr)
  then show ?thesis
    unfolding validate_order_state_transition_def transition_wf_def
    by (auto simp: issue_specs normalize_order_idempotency_key_def order_code_not_blank
        simp del: OrderLifecycleReasonCode_code.simps split: option.splits)
qed

section \<open>The life of an order\<close>

text \<open>
  The states an order passes through, newest first: the first one is free (a first transition
  has no source state), every later one is a transition the validator admits.
\<close>

inductive lifecycle_run :: "OrderLifecycleState list \<Rightarrow> bool" where
  first: "validate_order_transition None s = Inr () \<Longrightarrow> lifecycle_run [s]"
| advance: "lifecycle_run (s # ss) \<Longrightarrow> validate_order_transition (Some s) t = Inr () \<Longrightarrow> lifecycle_run (t # s # ss)"

inductive_cases lifecycle_runE: "lifecycle_run (t # s # ss)"

fun progress_rank :: "OrderLifecycleState \<Rightarrow> nat" where
  "progress_rank OrderLifecycleState.Pending = 0"
| "progress_rank OrderLifecycleState.Live = 1"
| "progress_rank OrderLifecycleState.PartiallyFilled = 2"
| "progress_rank _ = 3"

lemma step_progress:
  assumes "t \<in> set (order_transition_targets s)"
  shows "progress_rank s \<le> progress_rank t" "\<not> is_terminal s" "progress_rank s = progress_rank t \<Longrightarrow> s = t"
  using assms by (cases s; auto)+

text \<open>
  C31: An order only advances: along any run of admitted transitions the states never go back
  (pending, live, partially filled, then filled, canceled or expired), a state of the same rank
  is the same state, and no transition at all leaves a terminal state.
\<close>

theorem order_states_only_advance:
  assumes "lifecycle_run states"
  shows "sorted_wrt (\<lambda>newer older. progress_rank older \<le> progress_rank newer
      \<and> (progress_rank older = progress_rank newer \<longrightarrow> older = newer)) states
    \<and> list_all (\<lambda>s. \<not> is_terminal s) (tl states)"
  using assms
proof (induction rule: lifecycle_run.induct)
  case (advance s ss t)
  then have step: "t \<in> set (order_transition_targets s)" by simp
  then show ?case
    using advance.IH step_progress[OF step] by (auto simp: list_all_iff intro: order_trans)
qed simp

theorem order_states_only_advance_witness:
  "list_all (\<lambda>s. \<not> is_terminal s) (tl [OrderLifecycleState.Filled, OrderLifecycleState.PartiallyFilled,
     OrderLifecycleState.Live, OrderLifecycleState.Pending])"
proof -
  have "lifecycle_run [OrderLifecycleState.Filled, OrderLifecycleState.PartiallyFilled,
     OrderLifecycleState.Live, OrderLifecycleState.Pending]"
    by (auto intro!: lifecycle_run.intros)
  then show ?thesis using order_states_only_advance by blast
qed

text \<open>
  The written contract of a transition, over the stored texts: the admitted pairs of states, the
  terminal states, the known reasons, and every check with the error it gives when it fails.
\<close>

definition admitted_transitions :: "(string \<times> string) list" where
  "admitted_transitions =
     [(''pending'', ''pending''), (''pending'', ''live''), (''pending'', ''canceled''), (''pending'', ''expired''),
      (''live'', ''live''), (''live'', ''partially_filled''), (''live'', ''filled''), (''live'', ''canceled''),
      (''live'', ''expired''),
      (''partially_filled'', ''partially_filled''), (''partially_filled'', ''filled''),
      (''partially_filled'', ''canceled''), (''partially_filled'', ''expired'')]"

definition final_states :: "string list" where
  "final_states = [''filled'', ''canceled'', ''expired'']"

definition known_reasons :: "string list" where
  "known_reasons =
     [''order_lifecycle_submission_accepted'', ''order_lifecycle_cancel_accepted'',
      ''order_lifecycle_batch_cancel_accepted'', ''order_lifecycle_venue_update_accepted'',
      ''order_lifecycle_transition_rejected'', ''order_lifecycle_unsupported_venue_state'',
      ''order_lifecycle_already_terminal'', ''order_lifecycle_duplicate_idempotency_key'',
      ''order_lifecycle_retryable_failure'', ''order_lifecycle_hard_failure'',
      ''order_lifecycle_persistence_unavailable'', ''order_lifecycle_venue_unavailable'',
      ''order_lifecycle_unauthorized'', ''order_lifecycle_auth_expired'', ''order_lifecycle_invalid_payload'']"

abbreviation (input) state_key :: "OrderLifecycleState \<Rightarrow> string" where
  "state_key \<equiv> OrderLifecycleState_as_str"

definition step_error :: "OrderLifecycleState option \<Rightarrow> OrderLifecycleState \<Rightarrow> (string \<times> string) option" where
  "step_error from_state to_state = (case from_state of
      None \<Rightarrow> None
    | Some s \<Rightarrow>
        if state_key s \<in> set final_states then Some (''order_lifecycle_already_terminal'',
          ''terminal state `'' @ state_key s @ ''` cannot transition to `'' @ state_key to_state @ ''`'')
        else if (state_key s, state_key to_state) \<in> set admitted_transitions then None
        else Some (''order_lifecycle_invalid_payload'',
          ''invalid lifecycle transition `'' @ state_key s @ ''` -> `'' @ state_key to_state @ ''`''))"

definition payload_checks :: "time_crate \<Rightarrow> OrderStateTransition \<Rightarrow> (bool \<times> string \<times> string) list" where
  "payload_checks T t =
     [(blank (ot_transition_id t), ''transition_id'', ''transition_id cannot be blank''),
      (blank (ot_order_id t), ''order_id'', ''order_id cannot be blank''),
      (blank (ot_market_id t), ''market_id'', ''market_id cannot be blank''),
      (blank (ot_reason_code t), ''reason_code'', ''reason_code cannot be blank''),
      (blank (ot_idempotency_key t), ''idempotency_key'', ''idempotency_key cannot be blank''),
      (blank (ot_correlation_id t), ''correlation_id'', ''correlation_id cannot be blank''),
      (\<not> utc_ok T (ot_transitioned_at_utc t), ''transitioned_at_utc'',
         ''transitioned_at_utc must be an RFC3339 UTC timestamp''),
      (ot_transition_sequence t \<le> 0, ''transition_sequence'', ''transition_sequence must be greater than 0''),
      (normalize (ot_idempotency_key t) \<noteq> ot_idempotency_key t, ''idempotency_key'',
         ''idempotency_key must be normalized (trimmed lowercase)''),
      (ot_from_state t = None \<and> ot_transition_sequence t \<noteq> 1, ''transition_sequence'',
         ''first transition must use sequence 1''),
      (ot_reason_code t \<notin> set known_reasons, ''reason_code'',
         ''reason_code must be a known order lifecycle reason'')]"

definition due_issues :: "time_crate \<Rightarrow> OrderStateTransition \<Rightarrow> issue list" where
  "due_issues T t =
     [\<lparr>is_field = field, is_code = ''order_lifecycle_invalid_payload'', is_message = message\<rparr>.
        (failed, field, message) \<leftarrow> payload_checks T t, failed]
     @ (case step_error (ot_from_state t) (ot_to_state t) of
          None \<Rightarrow> []
        | Some (code, message) \<Rightarrow> [\<lparr>is_field = ''to_state'', is_code = code, is_message = message\<rparr>])"

lemma known_reason_iff: "r \<in> set known_reasons \<longleftrightarrow> \<not> isl (OrderLifecycleReasonCode_parse r)"
proof -
  let ?all = "[OrderLifecycleReasonCode.SubmissionAccepted, OrderLifecycleReasonCode.CancelAccepted,
    OrderLifecycleReasonCode.BatchCancelAccepted, OrderLifecycleReasonCode.VenueUpdateAccepted,
    OrderLifecycleReasonCode.TransitionRejected, OrderLifecycleReasonCode.UnsupportedVenueState,
    OrderLifecycleReasonCode.AlreadyTerminal, OrderLifecycleReasonCode.DuplicateIdempotencyKey,
    OrderLifecycleReasonCode.RetryableFailure, OrderLifecycleReasonCode.HardFailure,
    OrderLifecycleReasonCode.PersistenceUnavailable, OrderLifecycleReasonCode.VenueUnavailable,
    OrderLifecycleReasonCode.Unauthorized, OrderLifecycleReasonCode.AuthExpired,
    OrderLifecycleReasonCode.InvalidPayload]"
  have "v \<in> set ?all" for v by (cases v) simp_all
  then have all: "set ?all = UNIV" by blast
  have keys: "known_reasons = map OrderLifecycleReasonCode_code ?all" by (simp add: known_reasons_def)
  have "set known_reasons = OrderLifecycleReasonCode_code ` set ?all"
    unfolding keys by (rule list.set_map)
  then have "set known_reasons = range OrderLifecycleReasonCode_code"
    by (simp only: all)
  then show ?thesis by (simp only: order_reason.parse_ok_iff image_iff UNIV_I bex_UNIV)
qed

lemma final_iff: "is_terminal s \<longleftrightarrow> state_key s \<in> set final_states"
  by (cases s) (simp_all add: final_states_def)

lemma admitted_iff:
  "(state_key s, state_key to_state) \<in> set admitted_transitions \<longleftrightarrow> to_state \<in> set (order_transition_targets s)"
  by (cases s; cases to_state; simp add: admitted_transitions_def)

lemma step_error_of_code:
  "validate_order_transition from_state to_state = (case step_error from_state to_state of
      None \<Rightarrow> Inr () | Some (code, message) \<Rightarrow> Inl (contract_error_of code message []))"
  by (auto simp: validate_order_transition_def step_error_def final_iff admitted_iff
      OrderLifecycleContractError_already_terminal_def OrderLifecycleContractError_invalid_payload_def
      split: option.splits)

lemma due_issues_of_code:
  "validate_order_state_transition T t = reject_if (due_issues T t)
     (OrderLifecycleContractError_invalid_payload_with_issues ''order state transition is invalid'')"
proof -
  have step: "(case validate_order_transition f to of
        Inl error \<Rightarrow> push_if True ''to_state'' (ce_code error) (ce_message error) | Inr _ \<Rightarrow> [])
      = (case step_error f to of None \<Rightarrow> []
        | Some (code, message) \<Rightarrow> [\<lparr>is_field = ''to_state'', is_code = code, is_message = message\<rparr>])" for f to
    by (simp add: step_error_of_code push_if_def split: option.split)
  show ?thesis
    unfolding validate_order_state_transition_def step due_issues_def payload_checks_def known_reason_iff
    by (simp only: push_if_def validate_order_non_empty_field_def validate_timestamp_field_def
        normalize_order_idempotency_key_def OrderLifecycleReasonCode_code.simps
        list.map concat.simps prod.case append_assoc append.simps not_not)
qed


section \<open>Idempotency keys\<close>

lemma idempotency_key_idem:
  "normalize_order_idempotency_key (normalize_order_idempotency_key k) = normalize_order_idempotency_key k"
  by (simp add: normalize_order_idempotency_key_def)

lemma duplicate_key_iff:
  "is_duplicate_order_idempotency_key ks k \<longleftrightarrow> normalize k \<in> normalize ` set ks"
  by (auto simp: is_duplicate_order_idempotency_key_def list_ex_iff normalize_order_idempotency_key_def image_iff
      eq_commute[of "normalize k"])

text \<open>Two different cancellations can share a batch key: the parts are joined without escaping.\<close>

lemma batch_key_collision:
  "normalize_order_batch_cancel_idempotency_key ''a'' ''b::c'' = normalize_order_batch_cancel_idempotency_key ''a::b'' ''c''"
  by code_simp

end
