(* ===== verification/EmergencyControl.thy ===== *)
theory EmergencyControl
  imports FreshnessGate Pretrade OrderLifecycle
begin

text \<open>
  The emergency controls of \<open>crates/domain/src/risk.rs\<close>: the command, the record of an
  action taken, the modes and the order modes they admit, and the latency boundaries.
\<close>

section \<open>Codes, errors and data\<close>

datatype EmergencyControlAction =
    Pause
  | ReduceOnly
  | CancelAll

fun EmergencyControlAction_as_str :: "EmergencyControlAction \<Rightarrow> string" where
  "EmergencyControlAction_as_str EmergencyControlAction.Pause = ''pause''"
| "EmergencyControlAction_as_str EmergencyControlAction.ReduceOnly = ''reduce_only''"
| "EmergencyControlAction_as_str EmergencyControlAction.CancelAll = ''cancel_all''"

datatype EmergencyControlSource =
    Manual
  | Automatic

fun EmergencyControlSource_as_str :: "EmergencyControlSource \<Rightarrow> string" where
  "EmergencyControlSource_as_str EmergencyControlSource.Manual = ''manual''"
| "EmergencyControlSource_as_str EmergencyControlSource.Automatic = ''automatic''"

datatype EmergencyControlTriggerSource =
    OperatorCommand
  | StaleFeed
  | ReconciliationCritical
  | ControlUncertainty

fun EmergencyControlTriggerSource_as_str :: "EmergencyControlTriggerSource \<Rightarrow> string" where
  "EmergencyControlTriggerSource_as_str EmergencyControlTriggerSource.OperatorCommand = ''operator_command''"
| "EmergencyControlTriggerSource_as_str EmergencyControlTriggerSource.StaleFeed = ''stale_feed''"
| "EmergencyControlTriggerSource_as_str EmergencyControlTriggerSource.ReconciliationCritical = ''reconciliation_critical''"
| "EmergencyControlTriggerSource_as_str EmergencyControlTriggerSource.ControlUncertainty = ''control_uncertainty''"

datatype EmergencyControlMode =
    Normal
  | Paused
  | ReduceOnly

fun EmergencyControlMode_as_str :: "EmergencyControlMode \<Rightarrow> string" where
  "EmergencyControlMode_as_str EmergencyControlMode.Normal = ''normal''"
| "EmergencyControlMode_as_str EmergencyControlMode.Paused = ''paused''"
| "EmergencyControlMode_as_str EmergencyControlMode.ReduceOnly = ''reduce_only''"

datatype EmergencyControlReasonCode =
    PauseActivated
  | PauseActive
  | ReduceOnlyActivated
  | ReduceOnlyActive
  | CancelAllAccepted
  | StaleFeedTriggered
  | ReconciliationCriticalTriggered
  | ControlUncertaintyTriggered
  | PersistenceUnavailable
  | OrchestrationUnavailable
  | UnauthorizedRole
  | NotFound
  | InvalidPayload

fun EmergencyControlReasonCode_code :: "EmergencyControlReasonCode \<Rightarrow> string" where
  "EmergencyControlReasonCode_code EmergencyControlReasonCode.PauseActivated = ''emergency_control_pause_activated''"
| "EmergencyControlReasonCode_code EmergencyControlReasonCode.PauseActive = ''emergency_control_pause_active''"
| "EmergencyControlReasonCode_code EmergencyControlReasonCode.ReduceOnlyActivated = ''emergency_control_reduce_only_activated''"
| "EmergencyControlReasonCode_code EmergencyControlReasonCode.ReduceOnlyActive = ''emergency_control_reduce_only_active''"
| "EmergencyControlReasonCode_code EmergencyControlReasonCode.CancelAllAccepted = ''emergency_control_cancel_all_accepted''"
| "EmergencyControlReasonCode_code EmergencyControlReasonCode.StaleFeedTriggered = ''emergency_control_stale_feed_triggered''"
| "EmergencyControlReasonCode_code EmergencyControlReasonCode.ReconciliationCriticalTriggered = ''emergency_control_reconciliation_critical_triggered''"
| "EmergencyControlReasonCode_code EmergencyControlReasonCode.ControlUncertaintyTriggered = ''emergency_control_control_uncertainty_triggered''"
| "EmergencyControlReasonCode_code EmergencyControlReasonCode.PersistenceUnavailable = ''emergency_control_persistence_unavailable''"
| "EmergencyControlReasonCode_code EmergencyControlReasonCode.OrchestrationUnavailable = ''emergency_control_orchestration_unavailable''"
| "EmergencyControlReasonCode_code EmergencyControlReasonCode.UnauthorizedRole = ''emergency_control_unauthorized_role''"
| "EmergencyControlReasonCode_code EmergencyControlReasonCode.NotFound = ''emergency_control_not_found''"
| "EmergencyControlReasonCode_code EmergencyControlReasonCode.InvalidPayload = ''emergency_control_invalid_payload''"

type_synonym EmergencyControlValidationIssue = issue
type_synonym EmergencyControlContractError = contract_error

definition EmergencyControlContractError_invalid_payload :: "string \<Rightarrow> EmergencyControlContractError" where
  "EmergencyControlContractError_invalid_payload message =
     contract_error_of (EmergencyControlReasonCode_code EmergencyControlReasonCode.InvalidPayload) message []"

definition EmergencyControlContractError_invalid_payload_with_issues :: "string \<Rightarrow> EmergencyControlValidationIssue list \<Rightarrow> EmergencyControlContractError" where
  "EmergencyControlContractError_invalid_payload_with_issues message field_errors =
     contract_error_of (EmergencyControlReasonCode_code EmergencyControlReasonCode.InvalidPayload) message field_errors"

definition EmergencyControlAction_parse :: "string \<Rightarrow> EmergencyControlContractError + EmergencyControlAction" where
  "EmergencyControlAction_parse = parse_arms
     [(''pause'', EmergencyControlAction.Pause),
      (''reduce_only'', EmergencyControlAction.ReduceOnly),
      (''cancel_all'', EmergencyControlAction.CancelAll)]
     (\<lambda>value. EmergencyControlContractError_invalid_payload (''unknown emergency control action `'' @ value @ ''`''))"

interpretation emergency_action: enum_codec "\<lambda>v. v" EmergencyControlAction_as_str EmergencyControlAction_parse
  by (unfold EmergencyControlAction_parse_def, rule enum_codec_arms, case_tac x) simp_all

definition EmergencyControlSource_parse :: "string \<Rightarrow> EmergencyControlContractError + EmergencyControlSource" where
  "EmergencyControlSource_parse = parse_arms
     [(''manual'', EmergencyControlSource.Manual),
      (''automatic'', EmergencyControlSource.Automatic)]
     (\<lambda>value. EmergencyControlContractError_invalid_payload (''unknown emergency control source `'' @ value @ ''`''))"

interpretation emergency_source: enum_codec "\<lambda>v. v" EmergencyControlSource_as_str EmergencyControlSource_parse
  by (unfold EmergencyControlSource_parse_def, rule enum_codec_arms, case_tac x) simp_all

definition EmergencyControlTriggerSource_parse :: "string \<Rightarrow> EmergencyControlContractError + EmergencyControlTriggerSource" where
  "EmergencyControlTriggerSource_parse = parse_arms
     [(''operator_command'', EmergencyControlTriggerSource.OperatorCommand),
      (''stale_feed'', EmergencyControlTriggerSource.StaleFeed),
      (''reconciliation_critical'', EmergencyControlTriggerSource.ReconciliationCritical),
      (''control_uncertainty'', EmergencyControlTriggerSource.ControlUncertainty)]
     (\<lambda>value. EmergencyControlContractError_invalid_payload (''unknown emergency trigger source `'' @ value @ ''`''))"

interpretation emergency_trigger: enum_codec "\<lambda>v. v" EmergencyControlTriggerSource_as_str EmergencyControlTriggerSource_parse
  by (unfold EmergencyControlTriggerSource_parse_def, rule enum_codec_arms, case_tac x) simp_all

definition EmergencyControlMode_parse :: "string \<Rightarrow> EmergencyControlContractError + EmergencyControlMode" where
  "EmergencyControlMode_parse = parse_arms
     [(''normal'', EmergencyControlMode.Normal),
      (''paused'', EmergencyControlMode.Paused),
      (''reduce_only'', EmergencyControlMode.ReduceOnly)]
     (\<lambda>value. EmergencyControlContractError_invalid_payload (''unknown emergency control mode `'' @ value @ ''`''))"

interpretation emergency_mode: enum_codec "\<lambda>v. v" EmergencyControlMode_as_str EmergencyControlMode_parse
  by (unfold EmergencyControlMode_parse_def, rule enum_codec_arms, case_tac x) simp_all

definition EmergencyControlReasonCode_parse :: "string \<Rightarrow> EmergencyControlContractError + EmergencyControlReasonCode" where
  "EmergencyControlReasonCode_parse = parse_arms
     [(''emergency_control_pause_activated'', EmergencyControlReasonCode.PauseActivated),
      (''emergency_control_pause_active'', EmergencyControlReasonCode.PauseActive),
      (''emergency_control_reduce_only_activated'', EmergencyControlReasonCode.ReduceOnlyActivated),
      (''emergency_control_reduce_only_active'', EmergencyControlReasonCode.ReduceOnlyActive),
      (''emergency_control_cancel_all_accepted'', EmergencyControlReasonCode.CancelAllAccepted),
      (''emergency_control_stale_feed_triggered'', EmergencyControlReasonCode.StaleFeedTriggered),
      (''emergency_control_reconciliation_critical_triggered'', EmergencyControlReasonCode.ReconciliationCriticalTriggered),
      (''emergency_control_control_uncertainty_triggered'', EmergencyControlReasonCode.ControlUncertaintyTriggered),
      (''emergency_control_persistence_unavailable'', EmergencyControlReasonCode.PersistenceUnavailable),
      (''emergency_control_orchestration_unavailable'', EmergencyControlReasonCode.OrchestrationUnavailable),
      (''emergency_control_unauthorized_role'', EmergencyControlReasonCode.UnauthorizedRole),
      (''emergency_control_not_found'', EmergencyControlReasonCode.NotFound),
      (''emergency_control_invalid_payload'', EmergencyControlReasonCode.InvalidPayload)]
     (\<lambda>value. EmergencyControlContractError_invalid_payload (''unknown emergency control reason code `'' @ value @ ''`''))"

interpretation emergency_reason: enum_codec "\<lambda>v. v" EmergencyControlReasonCode_code EmergencyControlReasonCode_parse
  by (unfold EmergencyControlReasonCode_parse_def, rule enum_codec_arms, case_tac x) simp_all

record EmergencyControlCommand =
  ec_action_id :: string
  ec_action :: EmergencyControlAction
  ec_source :: EmergencyControlSource
  ec_trigger_source :: EmergencyControlTriggerSource
  ec_actor_id :: "string option"
  ec_actor_role :: "string option"
  ec_correlation_id :: string
  ec_requested_at_utc :: string

record SafetyControlActionRecord =
  sa_action_id :: string
  sa_source :: EmergencyControlSource
  sa_action :: EmergencyControlAction
  sa_trigger_source :: EmergencyControlTriggerSource
  sa_actor_id :: "string option"
  sa_actor_role :: "string option"
  sa_resulting_mode :: EmergencyControlMode
  sa_reason_code :: string
  sa_correlation_id :: string
  sa_audit_reference :: string
  sa_dedupe_key :: string
  sa_requested_at_utc :: string
  sa_acknowledged_at_utc :: string
  sa_effective_at_utc :: string
  sa_completed_at_utc :: string

record EmergencyControlLatencyEvaluation =
  el_acknowledgement_latency_seconds :: f64
  el_state_reflection_latency_seconds :: f64
  el_acknowledgement_within_boundary :: bool
  el_state_reflection_within_boundary :: bool

section \<open>Modes and boundaries\<close>

definition EMERGENCY_CONTROL_ACK_MAX_SECONDS :: f64 where [simp]: "EMERGENCY_CONTROL_ACK_MAX_SECONDS = Fin 1"
definition EMERGENCY_CONTROL_STATE_REFLECTION_MAX_SECONDS :: f64 where [simp]: "EMERGENCY_CONTROL_STATE_REFLECTION_MAX_SECONDS = Fin 5"
definition EMERGENCY_CONTROL_SAFE_STATE_MAX_SECONDS :: f64 where [simp]: "EMERGENCY_CONTROL_SAFE_STATE_MAX_SECONDS = Fin 5"

definition normalize_emergency_control_identifier :: "string \<Rightarrow> string" where
  "normalize_emergency_control_identifier raw = normalize_pretrade_identifier raw"

fun emergency_mode_allows_order_mode :: "EmergencyControlMode \<Rightarrow> OrderMode \<Rightarrow> bool" where
  "emergency_mode_allows_order_mode EmergencyControlMode.Normal order_mode = True"
| "emergency_mode_allows_order_mode EmergencyControlMode.Paused order_mode = False"
| "emergency_mode_allows_order_mode EmergencyControlMode.ReduceOnly order_mode = (order_mode = OrderMode.ReduceOnly)"

definition stale_feed_triggers_safe_state :: "f64 \<Rightarrow> EmergencyControlContractError + bool" where
  "stale_feed_triggers_safe_state feed_age_seconds =
     (if \<not> f_is_finite feed_age_seconds \<or> f_lt feed_age_seconds (Fin 0)
      then Inl (EmergencyControlContractError_invalid_payload
        ''feed_age_seconds must be finite and greater than or equal to 0'')
      else Inr (f_gt feed_age_seconds FRESHNESS_STALE_THRESHOLD_SECONDS))"

definition evaluate_emergency_control_latency_boundaries ::
    "f64 \<Rightarrow> f64 \<Rightarrow> EmergencyControlContractError + EmergencyControlLatencyEvaluation" where
  "evaluate_emergency_control_latency_boundaries acknowledgement_latency_seconds state_reflection_latency_seconds =
     (if \<not> f_is_finite acknowledgement_latency_seconds \<or> f_lt acknowledgement_latency_seconds (Fin 0)
      then Inl (EmergencyControlContractError_invalid_payload
        ''acknowledgement_latency_seconds must be finite and greater than or equal to 0'')
      else if \<not> f_is_finite state_reflection_latency_seconds \<or> f_lt state_reflection_latency_seconds (Fin 0)
      then Inl (EmergencyControlContractError_invalid_payload
        ''state_reflection_latency_seconds must be finite and greater than or equal to 0'')
      else Inr \<lparr>el_acknowledgement_latency_seconds = acknowledgement_latency_seconds,
                el_state_reflection_latency_seconds = state_reflection_latency_seconds,
                el_acknowledgement_within_boundary =
                  f_le acknowledgement_latency_seconds EMERGENCY_CONTROL_ACK_MAX_SECONDS,
                el_state_reflection_within_boundary =
                  f_le state_reflection_latency_seconds EMERGENCY_CONTROL_STATE_REFLECTION_MAX_SECONDS\<rparr>)"

definition emergency_timestamp_delta_seconds ::
    "time_crate \<Rightarrow> string \<Rightarrow> string \<Rightarrow> EmergencyControlContractError + f64" where
  "emergency_timestamp_delta_seconds T from_utc to_utc =
     (case parse_utc_timestamp T from_utc of
        None \<Rightarrow> Inl (EmergencyControlContractError_invalid_payload ''from_utc must be an RFC3339 UTC timestamp'')
      | Some start \<Rightarrow> (case parse_utc_timestamp T to_utc of
          None \<Rightarrow> Inl (EmergencyControlContractError_invalid_payload ''to_utc must be an RFC3339 UTC timestamp'')
        | Some end_ \<Rightarrow>
            let delta_seconds = dur_as_seconds_f64 T (end_ - start)
            in if \<not> f_is_finite delta_seconds \<or> f_lt delta_seconds (Fin 0)
               then Inl (EmergencyControlContractError_invalid_payload ''timestamp ordering must be monotonically increasing'')
               else Inr delta_seconds))"

section \<open>Validation\<close>

definition validate_non_empty_emergency_field ::
    "string \<Rightarrow> string \<Rightarrow> issue list" where
  "validate_non_empty_emergency_field field value =
     push_if (blank value) field
        (EmergencyControlReasonCode_code EmergencyControlReasonCode.InvalidPayload)
        (field @ '' cannot be blank'')"

definition validate_optional_non_empty_emergency_field ::
    "string \<Rightarrow> string option \<Rightarrow> issue list" where
  "validate_optional_non_empty_emergency_field field value =
     push_if (case value of None \<Rightarrow> True | Some candidate \<Rightarrow> blank candidate) field
        (EmergencyControlReasonCode_code EmergencyControlReasonCode.InvalidPayload)
        (field @ '' is required'')"

definition validate_emergency_timestamp_field ::
    "time_crate \<Rightarrow> string \<Rightarrow> string \<Rightarrow> issue list" where
  "validate_emergency_timestamp_field T field value =
     push_if (\<not> utc_ok T value) field
        (EmergencyControlReasonCode_code EmergencyControlReasonCode.InvalidPayload)
        (field @ '' must be an RFC3339 UTC timestamp'')"

definition validate_normalized_emergency_identifier ::
    "string \<Rightarrow> string \<Rightarrow> issue list" where
  "validate_normalized_emergency_identifier field value =
     push_if (normalize_emergency_control_identifier value \<noteq> value) field
        (EmergencyControlReasonCode_code EmergencyControlReasonCode.InvalidPayload)
        (field @ '' must be normalized (trimmed lowercase)'')"

text \<open>The match of \<open>validate_emergency_control_command\<close> on the source.\<close>

fun command_source_issues :: "EmergencyControlCommand \<Rightarrow> EmergencyControlSource \<Rightarrow> issue list" where
  "command_source_issues command EmergencyControlSource.Manual =
     push_if (ec_trigger_source command \<noteq> EmergencyControlTriggerSource.OperatorCommand) ''trigger_source''
        (EmergencyControlReasonCode_code EmergencyControlReasonCode.InvalidPayload)
        (''manual controls must use trigger_source `operator_command`'')
    @ validate_optional_non_empty_emergency_field ''actor_id'' (ec_actor_id command)
    @ validate_optional_non_empty_emergency_field ''actor_role'' (ec_actor_role command)"
| "command_source_issues command EmergencyControlSource.Automatic =
     push_if (ec_trigger_source command = EmergencyControlTriggerSource.OperatorCommand) ''trigger_source''
        (EmergencyControlReasonCode_code EmergencyControlReasonCode.InvalidPayload)
        (''automatic controls must use non-manual trigger source'')"

definition validate_emergency_control_command ::
    "time_crate \<Rightarrow> EmergencyControlCommand \<Rightarrow> EmergencyControlContractError + unit" where
  "validate_emergency_control_command T command = reject_if
     (validate_non_empty_emergency_field ''action_id'' (ec_action_id command)
    @ validate_non_empty_emergency_field ''correlation_id'' (ec_correlation_id command)
    @ validate_emergency_timestamp_field T ''requested_at_utc'' (ec_requested_at_utc command)
    @ validate_normalized_emergency_identifier ''action_id'' (ec_action_id command)
    @ validate_normalized_emergency_identifier ''correlation_id'' (ec_correlation_id command)
    @ command_source_issues command (ec_source command))
     (EmergencyControlContractError_invalid_payload_with_issues ''emergency control command payload is invalid'')"

text \<open>The guarded arms on the action, and the latency checks.\<close>

definition action_mode_issues :: "EmergencyControlAction \<Rightarrow> EmergencyControlMode \<Rightarrow> issue list" where
  "action_mode_issues action resulting_mode =
     (if action = EmergencyControlAction.Pause \<and> resulting_mode \<noteq> EmergencyControlMode.Paused then
        push_if (True) ''resulting_mode''
        (EmergencyControlReasonCode_code EmergencyControlReasonCode.InvalidPayload)
        (''pause actions must set resulting_mode to `paused`'')
      else if action = EmergencyControlAction.ReduceOnly \<and> resulting_mode \<noteq> EmergencyControlMode.ReduceOnly then
        push_if (True) ''resulting_mode''
        (EmergencyControlReasonCode_code EmergencyControlReasonCode.InvalidPayload)
        (''reduce-only actions must set resulting_mode to `reduce_only`'')
      else if action = EmergencyControlAction.CancelAll \<and> resulting_mode \<noteq> EmergencyControlMode.Paused then
        push_if (True) ''resulting_mode''
        (EmergencyControlReasonCode_code EmergencyControlReasonCode.InvalidPayload)
        (''cancel-all actions must set resulting_mode to `paused`'')
      else [])"

definition acknowledgement_issues :: "time_crate \<Rightarrow> SafetyControlActionRecord \<Rightarrow> issue list" where
  "acknowledgement_issues T record =
     (case emergency_timestamp_delta_seconds T (sa_requested_at_utc record) (sa_acknowledged_at_utc record) of
        Inr acknowledgement_latency_seconds \<Rightarrow>
          push_if (f_gt acknowledgement_latency_seconds EMERGENCY_CONTROL_ACK_MAX_SECONDS) ''acknowledged_at_utc''
        (EmergencyControlReasonCode_code EmergencyControlReasonCode.InvalidPayload)
        (''acknowledgement latency must be <= 1s'')
      | Inl error \<Rightarrow> ce_field_errors error)"

definition reflection_issues :: "time_crate \<Rightarrow> SafetyControlActionRecord \<Rightarrow> issue list" where
  "reflection_issues T record =
     (case emergency_timestamp_delta_seconds T (sa_requested_at_utc record) (sa_effective_at_utc record) of
        Inr reflection_latency_seconds \<Rightarrow>
          push_if (f_gt reflection_latency_seconds EMERGENCY_CONTROL_STATE_REFLECTION_MAX_SECONDS) ''effective_at_utc''
        (EmergencyControlReasonCode_code EmergencyControlReasonCode.InvalidPayload)
        (''state reflection latency must be <= 5s'')
        @ push_if (sa_source record = EmergencyControlSource.Automatic
            \<and> f_gt reflection_latency_seconds EMERGENCY_CONTROL_SAFE_STATE_MAX_SECONDS) ''effective_at_utc''
        (EmergencyControlReasonCode_code EmergencyControlReasonCode.InvalidPayload)
        (''automatic safe-state transition latency must be <= 5s'')
      | Inl error \<Rightarrow> ce_field_errors error)"

definition validate_safety_control_action_record ::
    "time_crate \<Rightarrow> SafetyControlActionRecord \<Rightarrow> EmergencyControlContractError + unit" where
  "validate_safety_control_action_record T record =
     and_then (validate_emergency_control_command T
       \<lparr>ec_action_id = sa_action_id record, ec_action = sa_action record, ec_source = sa_source record,
        ec_trigger_source = sa_trigger_source record, ec_actor_id = sa_actor_id record,
        ec_actor_role = sa_actor_role record, ec_correlation_id = sa_correlation_id record,
        ec_requested_at_utc = sa_requested_at_utc record\<rparr>) (\<lambda>_. reject_if
     (validate_non_empty_emergency_field ''reason_code'' (sa_reason_code record)
    @ validate_non_empty_emergency_field ''audit_reference'' (sa_audit_reference record)
    @ validate_non_empty_emergency_field ''dedupe_key'' (sa_dedupe_key record)
    @ validate_emergency_timestamp_field T ''acknowledged_at_utc'' (sa_acknowledged_at_utc record)
    @ validate_emergency_timestamp_field T ''effective_at_utc'' (sa_effective_at_utc record)
    @ validate_emergency_timestamp_field T ''completed_at_utc'' (sa_completed_at_utc record)
    @ validate_normalized_emergency_identifier ''dedupe_key'' (sa_dedupe_key record)
    @ push_if (is_err (EmergencyControlReasonCode_parse (sa_reason_code record))) ''reason_code''
        (EmergencyControlReasonCode_code EmergencyControlReasonCode.InvalidPayload)
        (''reason_code must be a known emergency control reason'')
    @ action_mode_issues (sa_action record) (sa_resulting_mode record)
    @ push_if (sa_source record = EmergencyControlSource.Automatic
          \<and> sa_resulting_mode record \<noteq> EmergencyControlMode.Paused) ''resulting_mode''
        (EmergencyControlReasonCode_code EmergencyControlReasonCode.InvalidPayload)
        (''automatic triggers must transition to `paused` mode'')
    @ acknowledgement_issues T record
    @ reflection_issues T record
    @ push_if (is_err (emergency_timestamp_delta_seconds T (sa_effective_at_utc record) (sa_completed_at_utc record))) ''completed_at_utc''
        (EmergencyControlReasonCode_code EmergencyControlReasonCode.InvalidPayload)
        (''completed_at_utc must be greater than or equal to effective_at_utc''))
     (EmergencyControlContractError_invalid_payload_with_issues ''safety control action record is invalid''))"

section \<open>What the validators accept\<close>

definition command_wf :: "time_crate \<Rightarrow> EmergencyControlCommand \<Rightarrow> bool" where
  "command_wf T c \<longleftrightarrow>
     list_all (\<lambda>v. \<not> blank v \<and> normalize v = v) [ec_action_id c, ec_correlation_id c]
   \<and> utc_ok T (ec_requested_at_utc c)
   \<and> (case ec_source c of
        EmergencyControlSource.Manual \<Rightarrow> ec_trigger_source c = EmergencyControlTriggerSource.OperatorCommand
          \<and> list_all (\<lambda>v. case v of Some w \<Rightarrow> \<not> blank w | None \<Rightarrow> False) [ec_actor_id c, ec_actor_role c]
      | EmergencyControlSource.Automatic \<Rightarrow> ec_trigger_source c \<noteq> EmergencyControlTriggerSource.OperatorCommand)"

definition record_command :: "SafetyControlActionRecord \<Rightarrow> EmergencyControlCommand" where
  "record_command record =
     \<lparr>ec_action_id = sa_action_id record, ec_action = sa_action record, ec_source = sa_source record,
      ec_trigger_source = sa_trigger_source record, ec_actor_id = sa_actor_id record,
      ec_actor_role = sa_actor_role record, ec_correlation_id = sa_correlation_id record,
      ec_requested_at_utc = sa_requested_at_utc record\<rparr>"

fun action_mode :: "EmergencyControlAction \<Rightarrow> EmergencyControlMode" where
  "action_mode EmergencyControlAction.Pause = EmergencyControlMode.Paused"
| "action_mode EmergencyControlAction.ReduceOnly = EmergencyControlMode.ReduceOnly"
| "action_mode EmergencyControlAction.CancelAll = EmergencyControlMode.Paused"

text \<open>The delay from one timestamp to another is not above a bound, where there is a delay at all.\<close>

definition not_later_than :: "time_crate \<Rightarrow> f64 \<Rightarrow> string \<Rightarrow> string \<Rightarrow> bool" where
  "not_later_than T bound from to \<longleftrightarrow> (case emergency_timestamp_delta_seconds T from to of
      Inr delay \<Rightarrow> f_le delay bound
    | Inl _ \<Rightarrow> True)"

definition action_record_wf :: "time_crate \<Rightarrow> SafetyControlActionRecord \<Rightarrow> bool" where
  "action_record_wf T r \<longleftrightarrow> command_wf T (record_command r)
   \<and> list_all (\<lambda>v. \<not> blank v) [sa_audit_reference r, sa_dedupe_key r] \<and> normalize (sa_dedupe_key r) = sa_dedupe_key r
   \<and> \<not> isl (EmergencyControlReasonCode_parse (sa_reason_code r))
   \<and> list_all (utc_ok T) [sa_acknowledged_at_utc r, sa_effective_at_utc r, sa_completed_at_utc r]
   \<and> sa_resulting_mode r = action_mode (sa_action r)
   \<and> (sa_source r = EmergencyControlSource.Automatic \<longrightarrow> sa_resulting_mode r = EmergencyControlMode.Paused)
   \<and> not_later_than T (Fin 1) (sa_requested_at_utc r) (sa_acknowledged_at_utc r)
   \<and> not_later_than T (Fin 5) (sa_requested_at_utc r) (sa_effective_at_utc r)
   \<and> \<not> isl (emergency_timestamp_delta_seconds T (sa_effective_at_utc r) (sa_completed_at_utc r))"

lemma emergency_field_specs [issue_specs]:
  "validate_non_empty_emergency_field f v = [] \<longleftrightarrow> \<not> blank v"
  "validate_optional_non_empty_emergency_field f w = [] \<longleftrightarrow> (case w of Some v \<Rightarrow> \<not> blank v | None \<Rightarrow> False)"
  "validate_emergency_timestamp_field T f v = [] \<longleftrightarrow> utc_ok T v"
  "validate_normalized_emergency_identifier f v = [] \<longleftrightarrow> normalize v = v"
  by (auto simp: validate_non_empty_emergency_field_def validate_optional_non_empty_emergency_field_def
      validate_emergency_timestamp_field_def validate_normalized_emergency_identifier_def
      normalize_emergency_control_identifier_def normalize_pretrade_identifier_def split: option.splits)

lemma validate_command_Inr [simp]: "validate_emergency_control_command T c = Inr u \<longleftrightarrow> command_wf T c"
  by (cases "ec_source c") (auto simp: validate_emergency_control_command_def command_wf_def issue_specs
      simp del: EmergencyControlReasonCode_code.simps)

lemma emergency_code_not_blank: "\<not> isl (EmergencyControlReasonCode_parse v) \<Longrightarrow> \<not> blank v"
proof -
  have "\<not> blank (EmergencyControlReasonCode_code c)" for c
    by (cases c; simp add: trim_id ws_defs)
  then show "\<not> isl (EmergencyControlReasonCode_parse v) \<Longrightarrow> \<not> blank v"
    using emergency_reason.parse_ok_iff[of v] by auto
qed

lemma delta_Inl: "emergency_timestamp_delta_seconds T f t = Inl e \<Longrightarrow> ce_field_errors e = []"
  by (auto simp: emergency_timestamp_delta_seconds_def EmergencyControlContractError_invalid_payload_def Let_def
      split: option.splits if_splits)

lemma delta_Inr: "emergency_timestamp_delta_seconds T f t = Inr d \<Longrightarrow> f_nonneg d"
  by (auto simp: emergency_timestamp_delta_seconds_def Let_def f_lt_finite split: option.splits if_splits)

lemma f_gt_nonneg: "f_nonneg d \<Longrightarrow> f_gt d (Fin q) \<longleftrightarrow> \<not> f_le d (Fin q)"
  by (cases d) auto

lemma control_latency_issues_Nil:
  "acknowledgement_issues T r = [] \<longleftrightarrow> not_later_than T (Fin 1) (sa_requested_at_utc r) (sa_acknowledged_at_utc r)"
  "reflection_issues T r = [] \<longleftrightarrow> not_later_than T (Fin 5) (sa_requested_at_utc r) (sa_effective_at_utc r)"
proof -
  show "acknowledgement_issues T r = [] \<longleftrightarrow> not_later_than T (Fin 1) (sa_requested_at_utc r) (sa_acknowledged_at_utc r)"
    by (cases "emergency_timestamp_delta_seconds T (sa_requested_at_utc r) (sa_acknowledged_at_utc r)")
      (auto simp: acknowledgement_issues_def not_later_than_def delta_Inl f_gt_nonneg dest: delta_Inr)
  show "reflection_issues T r = [] \<longleftrightarrow> not_later_than T (Fin 5) (sa_requested_at_utc r) (sa_effective_at_utc r)"
    by (cases "emergency_timestamp_delta_seconds T (sa_requested_at_utc r) (sa_effective_at_utc r)")
      (auto simp: reflection_issues_def not_later_than_def delta_Inl f_gt_nonneg dest: delta_Inr)
qed

lemma action_mode_issues_Nil: "action_mode_issues a m = [] \<longleftrightarrow> m = action_mode a"
  by (cases a) (auto simp: action_mode_issues_def)

lemma validate_record_Inr [simp]:
  "validate_safety_control_action_record T r = Inr u \<longleftrightarrow> action_record_wf T r"
  unfolding validate_safety_control_action_record_def record_command_def [symmetric]
  by (auto simp: and_then_Inr_iff action_record_wf_def issue_specs control_latency_issues_Nil action_mode_issues_Nil
      emergency_code_not_blank simp del: EmergencyControlReasonCode_code.simps)

section \<open>Properties\<close>

text \<open>
  An accepted record of an automatic control has paused trading: its action is a pause or a
  cancel-all, its mode is paused, no order mode at all is admitted under it, and it did not come
  from an operator command. A manual one names an actor and a role.
\<close>

theorem automatic_controls_only_pause:
  assumes "validate_safety_control_action_record T r = Inr ()"
  shows "(case sa_source r of
      EmergencyControlSource.Automatic \<Rightarrow>
        sa_action r \<noteq> EmergencyControlAction.ReduceOnly \<and> sa_resulting_mode r = EmergencyControlMode.Paused
        \<and> sa_trigger_source r \<noteq> EmergencyControlTriggerSource.OperatorCommand
    | EmergencyControlSource.Manual \<Rightarrow>
        sa_trigger_source r = EmergencyControlTriggerSource.OperatorCommand \<and> sa_actor_id r \<noteq> None \<and> sa_actor_role r \<noteq> None)
    \<and> (sa_action r \<noteq> EmergencyControlAction.ReduceOnly
        \<longrightarrow> (\<forall>mode. \<not> emergency_mode_allows_order_mode (sa_resulting_mode r) mode))
    \<and> \<not> emergency_mode_allows_order_mode (sa_resulting_mode r) OrderMode.Limit"
proof -
  have wf: "action_record_wf T r" using assms by simp
  show ?thesis
  proof (cases "sa_source r")
    case Manual
    with wf show ?thesis
      by (cases "sa_action r")
        (auto simp: action_record_wf_def command_wf_def record_command_def split: option.splits)
  next
    case Automatic
    with wf show ?thesis
      by (cases "sa_action r")
        (auto simp: action_record_wf_def command_wf_def record_command_def split: option.splits)
  qed
qed

definition demo_record :: "string \<Rightarrow> string \<Rightarrow> SafetyControlActionRecord" where
  "demo_record acknowledged effective =
     \<lparr>sa_action_id = ''act-1'', sa_source = EmergencyControlSource.Automatic, sa_action = EmergencyControlAction.Pause,
      sa_trigger_source = EmergencyControlTriggerSource.StaleFeed, sa_actor_id = None, sa_actor_role = None,
      sa_resulting_mode = EmergencyControlMode.Paused,
      sa_reason_code = EmergencyControlReasonCode_code EmergencyControlReasonCode.StaleFeedTriggered,
      sa_correlation_id = ''corr-1'', sa_audit_reference = ''audit-1'', sa_dedupe_key = ''key-1'',
      sa_requested_at_utc = ''2026-04-06T00:00:30Z'', sa_acknowledged_at_utc = acknowledged,
      sa_effective_at_utc = effective, sa_completed_at_utc = ''2026-04-06T00:00:45Z''\<rparr>"

theorem automatic_controls_only_pause_witness:
  "\<not> emergency_mode_allows_order_mode
     (sa_resulting_mode (demo_record ''2026-04-06T00:00:31Z'' ''2026-04-06T00:00:31Z'')) OrderMode.Limit"
proof -
  have "validate_safety_control_action_record demo_time
      (demo_record ''2026-04-06T00:00:31Z'' ''2026-04-06T00:00:31Z'') = Inr ()"
    by code_simp
  then show ?thesis using automatic_controls_only_pause by blast
qed

text \<open>
  The delays are only bounded above. An error of the delay computation carries no field errors,
  and its field errors are all the validator looks at: a record acknowledged and in effect
  before it was requested is accepted.
\<close>

lemma effect_before_request_accepted:
  "validate_safety_control_action_record demo_time
     (demo_record ''2026-04-06T00:00:00Z'' ''2026-04-06T00:00:00Z'') = Inr ()
   \<and> isl (emergency_timestamp_delta_seconds demo_time
       (sa_requested_at_utc (demo_record ''2026-04-06T00:00:00Z'' ''2026-04-06T00:00:00Z''))
       (sa_effective_at_utc (demo_record ''2026-04-06T00:00:00Z'' ''2026-04-06T00:00:00Z'')))"
  by code_simp

end
