(* ===== verification/SafeState.thy ===== *)
theory SafeState
  imports EmergencyControl
begin

text \<open>
  The safe-state port of \<open>services/risk-engine/src/safe_state/mod.rs\<close>: the two signals the
  gates raise, the in-memory port that keeps the latest of each, and the port that drops them.
\<close>

record DrawdownProtectiveModeSignal =
  ds_active :: bool
  ds_reason_code :: string
  ds_correlation_id :: string
  ds_triggered_at_utc :: string

record EmergencySafeStateSignal =
  es_action :: EmergencyControlAction
  es_trigger_source :: EmergencyControlTriggerSource
  es_reason_code :: string
  es_correlation_id :: string
  es_triggered_at_utc :: string

text \<open>The calls of a port, as values: \<open>RuntimeSafeStateSignalPort\<close> has these two methods.\<close>

datatype RuntimeSafeStateSignalPort =
    signal_drawdown_protective_mode DrawdownProtectiveModeSignal
  | signal_emergency_safe_state EmergencySafeStateSignal

record InMemorySafeStateSignals =
  latest_drawdown_signal :: "DrawdownProtectiveModeSignal option"
  latest_emergency_signal :: "EmergencySafeStateSignal option"

definition InMemorySafeStateSignals_default :: InMemorySafeStateSignals where
  "InMemorySafeStateSignals_default = \<lparr>latest_drawdown_signal = None, latest_emergency_signal = None\<rparr>"

fun InMemorySafeStateSignals_signal :: "RuntimeSafeStateSignalPort \<Rightarrow> InMemorySafeStateSignals \<Rightarrow> InMemorySafeStateSignals" where
  "InMemorySafeStateSignals_signal (signal_drawdown_protective_mode signal) st = st\<lparr>latest_drawdown_signal := Some signal\<rparr>"
| "InMemorySafeStateSignals_signal (signal_emergency_safe_state signal) st = st\<lparr>latest_emergency_signal := Some signal\<rparr>"

text \<open>The no-op port only reports: it has no state to change.\<close>

fun NoopSafeStateSignals_signal :: "RuntimeSafeStateSignalPort \<Rightarrow> unit \<Rightarrow> unit" where
  "NoopSafeStateSignals_signal (signal_drawdown_protective_mode signal) st = st"
| "NoopSafeStateSignals_signal (signal_emergency_safe_state signal) st = st"

text \<open>Once raised, a signal is replaced only by a later one of its kind.\<close>

lemma drawdown_signal_kept:
  "latest_drawdown_signal (InMemorySafeStateSignals_signal c st) = None \<longleftrightarrow>
     latest_drawdown_signal st = None \<and> (\<exists>e. c = signal_emergency_safe_state e)"
  by (cases c) simp_all

lemma signals_commute:
  "InMemorySafeStateSignals_signal (signal_drawdown_protective_mode d)
     (InMemorySafeStateSignals_signal (signal_emergency_safe_state e) st) =
   InMemorySafeStateSignals_signal (signal_emergency_safe_state e)
     (InMemorySafeStateSignals_signal (signal_drawdown_protective_mode d) st)"
  by simp

end
