(* ===== verification/UserStream.thy ===== *)
theory UserStream
  imports MarketStream
begin

text \<open>
  The authenticated user stream of \<open>crates/domain/src/risk.rs\<close>: order and trade events, the
  offset cursor of a partition, authentication transitions, their validators and the decision
  whether an event comes after the cursor of its partition.
\<close>

section \<open>Codes, errors and data\<close>

definition USER_STREAM_LATENCY_TARGET_SECONDS :: f64 where [simp]: "USER_STREAM_LATENCY_TARGET_SECONDS = Fin 2"
definition USER_STREAM_AUTH_STATE_PARTITION_KEY :: string where
  "USER_STREAM_AUTH_STATE_PARTITION_KEY = ''__user_stream_auth_state__''"

datatype UserStreamEventKind =
    Order
  | Trade

fun UserStreamEventKind_as_str :: "UserStreamEventKind \<Rightarrow> string" where
  "UserStreamEventKind_as_str UserStreamEventKind.Order = ''order''"
| "UserStreamEventKind_as_str UserStreamEventKind.Trade = ''trade''"

datatype UserStreamEventStatus =
    Placement
  | Update
  | Cancellation
  | Matched
  | Mined
  | Confirmed

fun UserStreamEventStatus_as_str :: "UserStreamEventStatus \<Rightarrow> string" where
  "UserStreamEventStatus_as_str UserStreamEventStatus.Placement = ''placement''"
| "UserStreamEventStatus_as_str UserStreamEventStatus.Update = ''update''"
| "UserStreamEventStatus_as_str UserStreamEventStatus.Cancellation = ''cancellation''"
| "UserStreamEventStatus_as_str UserStreamEventStatus.Matched = ''matched''"
| "UserStreamEventStatus_as_str UserStreamEventStatus.Mined = ''mined''"
| "UserStreamEventStatus_as_str UserStreamEventStatus.Confirmed = ''confirmed''"

datatype UserStreamAuthState =
    Authenticated
  | AuthExpired

fun UserStreamAuthState_as_str :: "UserStreamAuthState \<Rightarrow> string" where
  "UserStreamAuthState_as_str UserStreamAuthState.Authenticated = ''authenticated''"
| "UserStreamAuthState_as_str UserStreamAuthState.AuthExpired = ''auth_expired''"

datatype UserStreamReasonCode =
    EventAccepted
  | DuplicateEvent
  | OutOfOrderEvent
  | EqualOffsetTieBreakAccepted
  | EqualOffsetTieBreakRejected
  | AuthExpired
  | AuthRecoveredPendingEvent
  | Authenticated
  | PersistenceUnavailable
  | StreamDisconnected
  | InvalidPayload
  | LatencySloBreached

fun UserStreamReasonCode_code :: "UserStreamReasonCode \<Rightarrow> string" where
  "UserStreamReasonCode_code UserStreamReasonCode.EventAccepted = ''user_stream_event_accepted''"
| "UserStreamReasonCode_code UserStreamReasonCode.DuplicateEvent = ''user_stream_duplicate_event''"
| "UserStreamReasonCode_code UserStreamReasonCode.OutOfOrderEvent = ''user_stream_out_of_order_event''"
| "UserStreamReasonCode_code UserStreamReasonCode.EqualOffsetTieBreakAccepted = ''user_stream_equal_offset_tie_break_accepted''"
| "UserStreamReasonCode_code UserStreamReasonCode.EqualOffsetTieBreakRejected = ''user_stream_equal_offset_tie_break_rejected''"
| "UserStreamReasonCode_code UserStreamReasonCode.AuthExpired = ''user_stream_auth_expired''"
| "UserStreamReasonCode_code UserStreamReasonCode.AuthRecoveredPendingEvent = ''user_stream_auth_recovered_pending_event''"
| "UserStreamReasonCode_code UserStreamReasonCode.Authenticated = ''user_stream_authenticated''"
| "UserStreamReasonCode_code UserStreamReasonCode.PersistenceUnavailable = ''user_stream_persistence_unavailable''"
| "UserStreamReasonCode_code UserStreamReasonCode.StreamDisconnected = ''user_stream_disconnected''"
| "UserStreamReasonCode_code UserStreamReasonCode.InvalidPayload = ''user_stream_invalid_payload''"
| "UserStreamReasonCode_code UserStreamReasonCode.LatencySloBreached = ''user_stream_latency_slo_breached''"

type_synonym UserStreamValidationIssue = issue
type_synonym UserStreamContractError = contract_error

definition UserStreamContractError_invalid_payload :: "string \<Rightarrow> UserStreamContractError" where
  "UserStreamContractError_invalid_payload message =
     contract_error_of (UserStreamReasonCode_code UserStreamReasonCode.InvalidPayload) message []"

definition UserStreamContractError_invalid_payload_with_issues :: "string \<Rightarrow> UserStreamValidationIssue list \<Rightarrow> UserStreamContractError" where
  "UserStreamContractError_invalid_payload_with_issues message field_errors =
     contract_error_of (UserStreamReasonCode_code UserStreamReasonCode.InvalidPayload) message field_errors"

definition UserStreamReasonCode_parse :: "string \<Rightarrow> UserStreamContractError + UserStreamReasonCode" where
  "UserStreamReasonCode_parse = parse_arms
     [(''user_stream_event_accepted'', UserStreamReasonCode.EventAccepted),
      (''user_stream_duplicate_event'', UserStreamReasonCode.DuplicateEvent),
      (''user_stream_out_of_order_event'', UserStreamReasonCode.OutOfOrderEvent),
      (''user_stream_equal_offset_tie_break_accepted'', UserStreamReasonCode.EqualOffsetTieBreakAccepted),
      (''user_stream_equal_offset_tie_break_rejected'', UserStreamReasonCode.EqualOffsetTieBreakRejected),
      (''user_stream_auth_expired'', UserStreamReasonCode.AuthExpired),
      (''user_stream_auth_recovered_pending_event'', UserStreamReasonCode.AuthRecoveredPendingEvent),
      (''user_stream_authenticated'', UserStreamReasonCode.Authenticated),
      (''user_stream_persistence_unavailable'', UserStreamReasonCode.PersistenceUnavailable),
      (''user_stream_disconnected'', UserStreamReasonCode.StreamDisconnected),
      (''user_stream_invalid_payload'', UserStreamReasonCode.InvalidPayload),
      (''user_stream_latency_slo_breached'', UserStreamReasonCode.LatencySloBreached)]
     (\<lambda>value. UserStreamContractError_invalid_payload (''unknown user stream reason code `'' @ value @ ''`''))"

interpretation user_stream_reason: enum_codec "\<lambda>v. v" UserStreamReasonCode_code UserStreamReasonCode_parse
  by (unfold UserStreamReasonCode_parse_def, rule enum_codec_arms, case_tac x) simp_all

definition UserStreamAuthState_parse :: "string \<Rightarrow> UserStreamContractError + UserStreamAuthState" where
  "UserStreamAuthState_parse = parse_arms
     [(''authenticated'', UserStreamAuthState.Authenticated),
      (''auth_expired'', UserStreamAuthState.AuthExpired)]
     (\<lambda>value. UserStreamContractError_invalid_payload (''unknown user stream auth state `'' @ value @ ''`''))"

interpretation user_stream_auth: enum_codec "\<lambda>v. v" UserStreamAuthState_as_str UserStreamAuthState_parse
  by (unfold UserStreamAuthState_parse_def, rule enum_codec_arms, case_tac x) simp_all

record UserStreamEvent =
  ue_event_id :: string
  ue_event_kind :: UserStreamEventKind
  ue_event_status :: UserStreamEventStatus
  ue_market_id :: string
  ue_asset_id :: string
  ue_order_id :: string
  ue_trade_id :: "string option"
  ue_partition_key :: string
  ue_idempotency_key :: string
  ue_event_offset :: int
  ue_event_timestamp_utc :: string
  ue_observed_at_utc :: string
  ue_ingested_at_utc :: string
  ue_ingestion_latency_seconds :: f64
  ue_correlation_id :: string
  ue_reason_code :: string

record OrderEventOffsetCursor =
  oc_partition_key :: string
  oc_last_event_id :: string
  oc_last_event_key :: string
  oc_last_event_offset :: int
  oc_auth_state :: UserStreamAuthState
  oc_block_new_intents :: bool
  oc_reason_code :: string
  oc_correlation_id :: string
  oc_updated_at_utc :: string

record UserStreamAuthTransition =
  ut_transition_id :: string
  ut_transition_offset :: int
  ut_auth_state :: UserStreamAuthState
  ut_block_new_intents :: bool
  ut_reason_code :: string
  ut_correlation_id :: string
  ut_observed_at_utc :: string

datatype UserStreamOrderingDecision =
    Accept string
  | Duplicate string
  | OutOfOrder string

section \<open>Validators\<close>

definition validate_non_empty_user_stream_field ::
    "string \<Rightarrow> string \<Rightarrow> issue list" where
  "validate_non_empty_user_stream_field field value =
     push_if (blank value) field
        (UserStreamReasonCode_code UserStreamReasonCode.InvalidPayload)
        (field @ '' cannot be blank'')"

definition validate_non_negative_user_stream_offset ::
    "string \<Rightarrow> int \<Rightarrow> issue list" where
  "validate_non_negative_user_stream_offset field value =
     push_if (value < 0) field
        (UserStreamReasonCode_code UserStreamReasonCode.InvalidPayload)
        (field @ '' must be greater than or equal to 0'')"

definition validate_non_negative_user_stream_value ::
    "string \<Rightarrow> f64 \<Rightarrow> issue list" where
  "validate_non_negative_user_stream_value field value =
     (if \<not> f_is_finite value
      then push_if True field
        (UserStreamReasonCode_code UserStreamReasonCode.InvalidPayload)
        (field @ '' must be finite'')
      else push_if (f_lt value (Fin 0)) field
        (UserStreamReasonCode_code UserStreamReasonCode.InvalidPayload)
        (field @ '' must be greater than or equal to 0''))"

definition validate_user_stream_timestamp_field ::
    "time_crate \<Rightarrow> string \<Rightarrow> string \<Rightarrow> issue list" where
  "validate_user_stream_timestamp_field T field value =
     push_if (\<not> utc_ok T value) field
        (UserStreamReasonCode_code UserStreamReasonCode.InvalidPayload)
        (field @ '' must be an RFC3339 UTC timestamp'')"

definition validate_user_stream_event ::
    "time_crate \<Rightarrow> UserStreamEvent \<Rightarrow> UserStreamContractError + unit" where
  "validate_user_stream_event T event = reject_if
     (validate_non_empty_user_stream_field ''event_id'' (ue_event_id event)
    @ validate_non_empty_user_stream_field ''market_id'' (ue_market_id event)
    @ validate_non_empty_user_stream_field ''asset_id'' (ue_asset_id event)
    @ validate_non_empty_user_stream_field ''order_id'' (ue_order_id event)
    @ validate_non_empty_user_stream_field ''partition_key'' (ue_partition_key event)
    @ validate_non_empty_user_stream_field ''idempotency_key'' (ue_idempotency_key event)
    @ validate_non_empty_user_stream_field ''correlation_id'' (ue_correlation_id event)
    @ validate_non_empty_user_stream_field ''reason_code'' (ue_reason_code event)
    @ validate_user_stream_timestamp_field T ''event_timestamp_utc'' (ue_event_timestamp_utc event)
    @ validate_user_stream_timestamp_field T ''observed_at_utc'' (ue_observed_at_utc event)
    @ validate_user_stream_timestamp_field T ''ingested_at_utc'' (ue_ingested_at_utc event)
    @ validate_non_negative_user_stream_offset ''event_offset'' (ue_event_offset event)
    @ validate_non_negative_user_stream_value ''ingestion_latency_seconds'' (ue_ingestion_latency_seconds event)
    @ push_if (ue_event_kind event = UserStreamEventKind.Trade
               \<and> (case ue_trade_id event of Some value \<Rightarrow> blank value | None \<Rightarrow> True)) ''trade_id''
        (UserStreamReasonCode_code UserStreamReasonCode.InvalidPayload)
        (''trade events require non-empty trade_id'')
    @ push_if (ue_event_kind event = UserStreamEventKind.Order
               \<and> (case ue_trade_id event of Some value \<Rightarrow> blank value | None \<Rightarrow> False)) ''trade_id''
        (UserStreamReasonCode_code UserStreamReasonCode.InvalidPayload)
        (''order events cannot carry blank trade_id'')
    @ push_if (is_err (UserStreamReasonCode_parse (ue_reason_code event))) ''reason_code''
        (UserStreamReasonCode_code UserStreamReasonCode.InvalidPayload)
        (''reason_code must be a known user stream reason'')
    @ (case (parse_utc_timestamp T (ue_event_timestamp_utc event), parse_utc_timestamp T (ue_observed_at_utc event),
               parse_utc_timestamp T (ue_ingested_at_utc event)) of
         (Some event_ts, Some observed_at, Some ingested_at) \<Rightarrow>
           push_if (observed_at < event_ts) ''observed_at_utc''
             (UserStreamReasonCode_code UserStreamReasonCode.InvalidPayload)
             (''observed_at_utc cannot be earlier than event_timestamp_utc'')
         @ push_if (ingested_at < observed_at) ''ingested_at_utc''
             (UserStreamReasonCode_code UserStreamReasonCode.InvalidPayload)
             (''ingested_at_utc cannot be earlier than observed_at_utc'')
       | _ \<Rightarrow> []))
     (UserStreamContractError_invalid_payload_with_issues ''user stream event payload is invalid'')"

definition validate_order_event_offset_cursor ::
    "time_crate \<Rightarrow> OrderEventOffsetCursor \<Rightarrow> UserStreamContractError + unit" where
  "validate_order_event_offset_cursor T cursor = reject_if
     (validate_non_empty_user_stream_field ''partition_key'' (oc_partition_key cursor)
    @ validate_non_empty_user_stream_field ''last_event_id'' (oc_last_event_id cursor)
    @ validate_non_empty_user_stream_field ''last_event_key'' (oc_last_event_key cursor)
    @ validate_non_empty_user_stream_field ''reason_code'' (oc_reason_code cursor)
    @ validate_non_empty_user_stream_field ''correlation_id'' (oc_correlation_id cursor)
    @ validate_user_stream_timestamp_field T ''updated_at_utc'' (oc_updated_at_utc cursor)
    @ validate_non_negative_user_stream_offset ''last_event_offset'' (oc_last_event_offset cursor)
    @ push_if (is_err (UserStreamReasonCode_parse (oc_reason_code cursor))) ''reason_code''
        (UserStreamReasonCode_code UserStreamReasonCode.InvalidPayload)
        (''reason_code must be a known user stream reason'')
    @ push_if (oc_auth_state cursor = UserStreamAuthState.AuthExpired \<and> \<not> oc_block_new_intents cursor) ''block_new_intents''
        (UserStreamReasonCode_code UserStreamReasonCode.InvalidPayload)
        (''auth_expired state must set block_new_intents to true''))
     (UserStreamContractError_invalid_payload_with_issues ''order event offset cursor is invalid'')"

definition validate_user_stream_auth_transition ::
    "time_crate \<Rightarrow> UserStreamAuthTransition \<Rightarrow> UserStreamContractError + unit" where
  "validate_user_stream_auth_transition T transition = reject_if
     (validate_non_empty_user_stream_field ''transition_id'' (ut_transition_id transition)
    @ validate_non_empty_user_stream_field ''reason_code'' (ut_reason_code transition)
    @ validate_non_empty_user_stream_field ''correlation_id'' (ut_correlation_id transition)
    @ validate_user_stream_timestamp_field T ''observed_at_utc'' (ut_observed_at_utc transition)
    @ validate_non_negative_user_stream_offset ''transition_offset'' (ut_transition_offset transition)
    @ push_if (is_err (UserStreamReasonCode_parse (ut_reason_code transition))) ''reason_code''
        (UserStreamReasonCode_code UserStreamReasonCode.InvalidPayload)
        (''reason_code must be a known user stream reason'')
    @ push_if (ut_auth_state transition = UserStreamAuthState.AuthExpired \<and> \<not> ut_block_new_intents transition) ''block_new_intents''
        (UserStreamReasonCode_code UserStreamReasonCode.InvalidPayload)
        (''auth_expired transitions must enforce block_new_intents=true''))
     (UserStreamContractError_invalid_payload_with_issues ''user stream auth transition is invalid'')"

section \<open>Ordering\<close>

definition normalize_user_stream_idempotency_key :: "string \<Rightarrow> string" where
  "normalize_user_stream_idempotency_key raw = normalize raw"

definition user_stream_latency_slo_met :: "f64 list \<Rightarrow> bool" where
  "user_stream_latency_slo_met latencies_seconds = ingestion_latency_slo_met latencies_seconds"

definition evaluate_user_stream_ordering ::
    "time_crate \<Rightarrow> OrderEventOffsetCursor option \<Rightarrow> UserStreamEvent
      \<Rightarrow> UserStreamContractError + UserStreamOrderingDecision" where
  "evaluate_user_stream_ordering T cursor event =
     and_then (validate_user_stream_event T event) (\<lambda>_.
     case cursor of
       None \<Rightarrow> Inr (UserStreamOrderingDecision.Accept (UserStreamReasonCode_code UserStreamReasonCode.EventAccepted))
     | Some cursor \<Rightarrow>
         and_then (validate_order_event_offset_cursor T cursor) (\<lambda>_.
         if ue_event_offset event < oc_last_event_offset cursor
         then Inr (UserStreamOrderingDecision.OutOfOrder (UserStreamReasonCode_code UserStreamReasonCode.OutOfOrderEvent))
         else if ue_event_offset event > oc_last_event_offset cursor
         then Inr (UserStreamOrderingDecision.Accept (UserStreamReasonCode_code UserStreamReasonCode.EventAccepted))
         else let normalized_event_key = normalize_user_stream_idempotency_key (ue_idempotency_key event);
                  normalized_cursor_key = normalize_user_stream_idempotency_key (oc_last_event_key cursor)
              in if normalized_event_key = normalized_cursor_key
                 then Inr (UserStreamOrderingDecision.Duplicate
                        (UserStreamReasonCode_code UserStreamReasonCode.DuplicateEvent))
                 else if normalized_event_key > normalized_cursor_key
                 then Inr (UserStreamOrderingDecision.Accept
                        (UserStreamReasonCode_code UserStreamReasonCode.EqualOffsetTieBreakAccepted))
                 else Inr (UserStreamOrderingDecision.OutOfOrder
                        (UserStreamReasonCode_code UserStreamReasonCode.EqualOffsetTieBreakRejected))))"

section \<open>What the validators accept\<close>

lemma user_stream_field_specs [issue_specs]:
  "validate_non_empty_user_stream_field f v = [] \<longleftrightarrow> \<not> blank v"
  "validate_non_negative_user_stream_offset f i = [] \<longleftrightarrow> 0 \<le> i"
  "validate_non_negative_user_stream_value f x = [] \<longleftrightarrow> amount_ok x"
  "validate_user_stream_timestamp_field T f v = [] \<longleftrightarrow> utc_ok T v"
  by (cases x; auto simp: validate_non_empty_user_stream_field_def validate_non_negative_user_stream_offset_def
      validate_non_negative_user_stream_value_def validate_user_stream_timestamp_field_def amount_ok_def)+

definition known_user_stream_reason :: "string \<Rightarrow> bool" where
  "known_user_stream_reason v \<longleftrightarrow> \<not> isl (UserStreamReasonCode_parse v)"

lemma known_user_stream_reason_code [simp]: "known_user_stream_reason (UserStreamReasonCode_code c)"
  by (simp add: known_user_stream_reason_def user_stream_reason.code_known)

lemma user_stream_code_not_blank [simp]: "\<not> blank (UserStreamReasonCode_code c)"
  by (cases c) (simp_all add: trim_id ws_defs)

definition user_event_wf :: "time_crate \<Rightarrow> UserStreamEvent \<Rightarrow> bool" where
  "user_event_wf T e \<longleftrightarrow>
     list_all (\<lambda>v. \<not> blank v)
       [ue_event_id e, ue_market_id e, ue_asset_id e, ue_order_id e, ue_partition_key e,
        ue_idempotency_key e, ue_correlation_id e, ue_reason_code e]
   \<and> known_user_stream_reason (ue_reason_code e)
   \<and> 0 \<le> ue_event_offset e \<and> amount_ok (ue_ingestion_latency_seconds e)
   \<and> (case ue_trade_id e of Some v \<Rightarrow> \<not> blank v | None \<Rightarrow> ue_event_kind e = UserStreamEventKind.Order)
   \<and> (case (parse_utc_timestamp T (ue_event_timestamp_utc e), parse_utc_timestamp T (ue_observed_at_utc e),
            parse_utc_timestamp T (ue_ingested_at_utc e)) of
        (Some t, Some o', Some i) \<Rightarrow> t \<le> o' \<and> o' \<le> i | _ \<Rightarrow> False)"

definition cursor_wf :: "time_crate \<Rightarrow> OrderEventOffsetCursor \<Rightarrow> bool" where
  "cursor_wf T c \<longleftrightarrow>
     list_all (\<lambda>v. \<not> blank v)
       [oc_partition_key c, oc_last_event_id c, oc_last_event_key c, oc_reason_code c, oc_correlation_id c]
   \<and> known_user_stream_reason (oc_reason_code c) \<and> utc_ok T (oc_updated_at_utc c)
   \<and> 0 \<le> oc_last_event_offset c
   \<and> (oc_auth_state c = UserStreamAuthState.Authenticated \<or> oc_block_new_intents c)"

definition auth_transition_wf :: "time_crate \<Rightarrow> UserStreamAuthTransition \<Rightarrow> bool" where
  "auth_transition_wf T t \<longleftrightarrow>
     \<not> blank (ut_transition_id t) \<and> \<not> blank (ut_reason_code t) \<and> \<not> blank (ut_correlation_id t)
   \<and> known_user_stream_reason (ut_reason_code t) \<and> utc_ok T (ut_observed_at_utc t)
   \<and> 0 \<le> ut_transition_offset t
   \<and> (ut_auth_state t = UserStreamAuthState.Authenticated \<or> ut_block_new_intents t)"

lemma auth_state_dichotomy: "s \<noteq> UserStreamAuthState.AuthExpired \<longleftrightarrow> s = UserStreamAuthState.Authenticated"
  by (cases s) auto

lemma event_kind_dichotomy: "k \<noteq> UserStreamEventKind.Trade \<longleftrightarrow> k = UserStreamEventKind.Order"
  by (cases k) auto

lemma user_stream_validators_ok [simp]:
  "isl (validate_user_stream_event T e) \<longleftrightarrow> \<not> user_event_wf T e"
  "isl (validate_order_event_offset_cursor T c) \<longleftrightarrow> \<not> cursor_wf T c"
  "isl (validate_user_stream_auth_transition T t) \<longleftrightarrow> \<not> auth_transition_wf T t"
proof -
  show "isl (validate_user_stream_event T e) \<longleftrightarrow> \<not> user_event_wf T e"
    by (cases "ue_event_kind e")
      (auto simp: validate_user_stream_event_def user_event_wf_def issue_specs known_user_stream_reason_def
        split: option.splits)
qed (auto simp: validate_order_event_offset_cursor_def cursor_wf_def validate_user_stream_auth_transition_def
      auth_transition_wf_def issue_specs known_user_stream_reason_def auth_state_dichotomy)

lemma user_stream_validators_Inr [simp]:
  "validate_user_stream_event T e = Inr u \<longleftrightarrow> user_event_wf T e"
  "validate_order_event_offset_cursor T c = Inr u \<longleftrightarrow> cursor_wf T c"
  "validate_user_stream_auth_transition T t = Inr u \<longleftrightarrow> auth_transition_wf T t"
  using user_stream_validators_ok[of T] by (metis is_ok_unit old.unit.exhaust)+

section \<open>Events in order\<close>

text \<open>The position of an event and of a cursor; positions are compared lexicographically.\<close>

definition event_pos :: "UserStreamEvent \<Rightarrow> int \<times> string" where
  "event_pos e = (ue_event_offset e, normalize (ue_idempotency_key e))"

definition cursor_pos :: "OrderEventOffsetCursor \<Rightarrow> int \<times> string" where
  "cursor_pos c = (oc_last_event_offset c, normalize (oc_last_event_key c))"

definition pos_less :: "int \<times> string \<Rightarrow> int \<times> string \<Rightarrow> bool" where
  "pos_less p q \<longleftrightarrow> fst p < fst q \<or> fst p = fst q \<and> snd p < snd q"

lemma pos_less_irrefl [simp]: "\<not> pos_less p p"
  by (simp add: pos_less_def)

lemma pos_less_trans: "pos_less p q \<Longrightarrow> pos_less q r \<Longrightarrow> pos_less p r"
  by (auto simp: pos_less_def)

lemma pos_less_total: "p \<noteq> q \<Longrightarrow> pos_less p q \<or> pos_less q p"
  by (auto simp: pos_less_def prod_eq_iff)

lemma pos_sorted_distinct:
  "sorted_wrt (\<lambda>newer older. pos_less (f older) (f newer)) xs \<Longrightarrow> distinct (map f xs)"
  by (induction xs) auto

lemma ordering_iff:
  assumes "user_event_wf T e" "cursor_wf T c"
  shows "(\<exists>r. evaluate_user_stream_ordering T (Some c) e = Inr (UserStreamOrderingDecision.Accept r)) \<longleftrightarrow>
      pos_less (cursor_pos c) (event_pos e)"
    and "(\<exists>r. evaluate_user_stream_ordering T (Some c) e = Inr (UserStreamOrderingDecision.Duplicate r)) \<longleftrightarrow>
      cursor_pos c = event_pos e"
    and "(\<exists>r. evaluate_user_stream_ordering T (Some c) e = Inr (UserStreamOrderingDecision.OutOfOrder r)) \<longleftrightarrow>
      pos_less (event_pos e) (cursor_pos c)"
  using assms
  by (auto simp: evaluate_user_stream_ordering_def and_then_ok Let_def pos_less_def event_pos_def
      cursor_pos_def normalize_user_stream_idempotency_key_def)

lemma ordering_first:
  "user_event_wf T e \<Longrightarrow> evaluate_user_stream_ordering T None e =
     Inr (UserStreamOrderingDecision.Accept (UserStreamReasonCode_code UserStreamReasonCode.EventAccepted))"
  by (simp add: evaluate_user_stream_ordering_def and_then_ok)

lemma ordering_err:
  "isl (evaluate_user_stream_ordering T c e) \<longleftrightarrow>
     \<not> user_event_wf T e \<or> (\<exists>k. c = Some k \<and> \<not> cursor_wf T k)"
  by (cases c) (auto simp: evaluate_user_stream_ordering_def isl_and_then Let_def)

end
