(* ===== verification/RuntimeGates.thy ===== *)
theory RuntimeGates
  imports RuntimeState LimitState SafeState UserStream Pretrade
begin

text \<open>
  The gates of \<open>services/risk-engine/src/gates/mod.rs\<close>: each gate reads the run-time state and
  passes or fails with a reason; the pipeline stops at the first failure and adjudicates; a
  contract violation falls back to a denial. The state readers are arbitrary (the code is
  generic in them), the calls on the safe-state port are returned in order, and the telemetry
  (lines printed) is left out.
\<close>

section \<open>Intents and results\<close>

definition FALLBACK_PRETRADE_EVALUATED_AT_UTC :: string where
  "FALLBACK_PRETRADE_EVALUATED_AT_UTC = ''1970-01-01T00:00:00Z''"

record OrderIntent =
  oi_intent_id :: string
  oi_market_id :: string
  oi_cluster_id :: string
  oi_correlation_id :: string
  oi_requested_at_utc :: string

record OrderIntentGateDecision =
  og_intent_id :: string
  og_market_id :: string
  og_cluster_id :: string
  og_allowed :: bool
  og_reason_code :: string
  og_correlation_id :: string
  og_decided_at_utc :: string

record PreTradeDecisionPersistenceError =
  dp_code :: string
  dp_message :: string

record ResolvedPretradePolicyContext =
  pc_risk_policy_key :: string
  pc_allocation_policy_key :: string

definition is_utc_timestamp :: "time_crate \<Rightarrow> string \<Rightarrow> bool" where
  "is_utc_timestamp T value = (case rfc3339_parse T value of None \<Rightarrow> False | Some (_, offset) \<Rightarrow> offset = 0)"

definition validate_pretrade_intent_inputs :: "time_crate \<Rightarrow> OrderIntent \<Rightarrow> string \<Rightarrow> bool" where
  "validate_pretrade_intent_inputs T intent profile_key \<longleftrightarrow>
     blank (oi_intent_id intent) \<or> blank (oi_market_id intent) \<or> blank (oi_cluster_id intent)
   \<or> blank (oi_correlation_id intent) \<or> \<not> is_utc_timestamp T (oi_requested_at_utc intent)"

definition normalized_pretrade_evaluated_at_utc :: "time_crate \<Rightarrow> string \<Rightarrow> string" where
  "normalized_pretrade_evaluated_at_utc T value =
     (if is_utc_timestamp T value then value else FALLBACK_PRETRADE_EVALUATED_AT_UTC)"

definition compact_timestamp_token :: "string \<Rightarrow> string" where
  "compact_timestamp_token value = filter is_ascii_digit value"

definition build_pretrade_gate_result ::
    "PreTradeGateDimension \<Rightarrow> bool \<Rightarrow> PreTradeReasonCode \<Rightarrow> string \<Rightarrow> PreTradeGateResult" where
  "build_pretrade_gate_result gate passed reason_code evaluated_at_utc =
     \<lparr>gr_gate = gate, gr_passed = passed, gr_reason_code = PreTradeReasonCode_code reason_code,
      gr_evaluated_at_utc = evaluated_at_utc\<rparr>"

section \<open>The gates\<close>

definition map_freshness_reason_to_pretrade :: "string \<Rightarrow> PreTradeReasonCode" where
  "map_freshness_reason_to_pretrade reason_code =
     (if FreshnessGateReasonCode_parse reason_code = Inr FreshnessGateReasonCode.StaleBreach
      then PreTradeReasonCode.FreshnessStaleBreach else PreTradeReasonCode.FreshnessStateUnavailable)"

definition evaluate_pretrade_freshness_gate :: "RuntimePolicyStateReader \<Rightarrow> string \<Rightarrow> PreTradeGateResult" where
  "evaluate_pretrade_freshness_gate state now_utc = (case pr_freshness_state state of
      None \<Rightarrow> build_pretrade_gate_result PreTradeGateDimension.Freshness False
                PreTradeReasonCode.FreshnessStateUnavailable now_utc
    | Some freshness \<Rightarrow>
        if zf_pause_active freshness
        then build_pretrade_gate_result PreTradeGateDimension.Freshness False
               (map_freshness_reason_to_pretrade (zf_reason_code freshness)) now_utc
        else build_pretrade_gate_result PreTradeGateDimension.Freshness True PreTradeReasonCode.Pass now_utc)"

definition evaluate_pretrade_stream_health_gate ::
    "time_crate \<Rightarrow> RuntimePolicyStateReader \<Rightarrow> string \<Rightarrow> PreTradeGateResult" where
  "evaluate_pretrade_stream_health_gate T state now_utc =
     (let unavailable = build_pretrade_gate_result PreTradeGateDimension.StreamHealth False
            PreTradeReasonCode.StreamHealthStateUnavailable now_utc
      in case pr_stream_health_state state of
           None \<Rightarrow> unavailable
         | Some metrics \<Rightarrow>
             if \<not> is_utc_timestamp T (zh_observed_at_utc metrics) then unavailable
             else (case assess_market_stream_health (zh_backlog_seconds metrics)
                      (zh_sustained_backlog_seconds metrics) (zh_heartbeat_gap_seconds metrics)
                      (zh_heartbeat_timeout_seconds metrics) of
                 Inr assessment \<Rightarrow>
                   if ha_status assessment = MarketStreamHealthStatus.Healthy
                   then build_pretrade_gate_result PreTradeGateDimension.StreamHealth True PreTradeReasonCode.Pass now_utc
                   else build_pretrade_gate_result PreTradeGateDimension.StreamHealth False
                          PreTradeReasonCode.StreamHealthDegraded now_utc
               | Inl _ \<Rightarrow> unavailable))"

definition resolve_pretrade_policy_context ::
    "time_crate \<Rightarrow> RuntimePolicyStateReader \<Rightarrow> OrderIntent \<Rightarrow> string
      \<Rightarrow> PreTradeGateResult + ResolvedPretradePolicyContext" where
  "resolve_pretrade_policy_context T state intent now_utc =
     (let unavailable = build_pretrade_gate_result PreTradeGateDimension.ExposureLimitState False
            PreTradeReasonCode.StratificationStateUnavailable now_utc
      in case pr_market_bucket_profile state (oi_market_id intent) (oi_cluster_id intent) of
           None \<Rightarrow> Inl unavailable
         | Some profile \<Rightarrow>
             and_then (map_err (\<lambda>_. unavailable)
               (resolve_market_bucket_policy_links T (oi_market_id intent) (oi_cluster_id intent) [profile]))
             (\<lambda>resolved. Inr \<lparr>pc_risk_policy_key = rl_risk_policy_key resolved,
                             pc_allocation_policy_key = rl_allocation_policy_key resolved\<rparr>))"

definition evaluate_pretrade_exposure_limit_gate ::
    "time_crate \<Rightarrow> RuntimeRiskLimitStateReader \<Rightarrow> string \<Rightarrow> string \<Rightarrow> PreTradeGateResult" where
  "evaluate_pretrade_exposure_limit_gate T limits profile_key now_utc =
     (if lz_available (evaluate_risk_limit_state_snapshot T limits profile_key now_utc)
      then build_pretrade_gate_result PreTradeGateDimension.ExposureLimitState True PreTradeReasonCode.Pass now_utc
      else build_pretrade_gate_result PreTradeGateDimension.ExposureLimitState False
             PreTradeReasonCode.RiskLimitStateUnavailable now_utc)"

definition evaluate_pretrade_reconciliation_gate :: "RuntimePolicyStateReader \<Rightarrow> string \<Rightarrow> PreTradeGateResult" where
  "evaluate_pretrade_reconciliation_gate state now_utc =
     (if pr_reconciliation_halt_reason_code state \<noteq> None
      then build_pretrade_gate_result PreTradeGateDimension.ReconciliationHalt False
             PreTradeReasonCode.ReconciliationCriticalHalt now_utc
      else build_pretrade_gate_result PreTradeGateDimension.ReconciliationHalt True PreTradeReasonCode.Pass now_utc)"

definition evaluate_pretrade_user_stream_auth_gate :: "RuntimePolicyStateReader \<Rightarrow> string \<Rightarrow> PreTradeGateResult" where
  "evaluate_pretrade_user_stream_auth_gate state now_utc =
     (if pr_user_stream_auth_block_active state
      then build_pretrade_gate_result PreTradeGateDimension.UserStreamAuth False
             PreTradeReasonCode.UserStreamAuthExpired now_utc
      else build_pretrade_gate_result PreTradeGateDimension.UserStreamAuth True PreTradeReasonCode.Pass now_utc)"

definition evaluate_pretrade_drawdown_gate ::
    "time_crate \<Rightarrow> RuntimePolicyStateReader \<Rightarrow> string \<Rightarrow> PreTradeGateResult" where
  "evaluate_pretrade_drawdown_gate T state now_utc =
     (let unavailable = build_pretrade_gate_result PreTradeGateDimension.DrawdownStop False
            PreTradeReasonCode.DrawdownStateUnavailable now_utc
      in case pr_drawdown_state state of
           None \<Rightarrow> unavailable
         | Some drawdown_state \<Rightarrow>
             if \<not> is_utc_timestamp T (zd_observed_at_utc drawdown_state) then unavailable
             else (case drawdown_stop_triggered (zd_current_drawdown_pct drawdown_state)
                      (zd_configured_stop_threshold_pct drawdown_state) of
                 Inr True \<Rightarrow> build_pretrade_gate_result PreTradeGateDimension.DrawdownStop False
                   PreTradeReasonCode.DrawdownStopTriggered now_utc
               | Inr False \<Rightarrow> build_pretrade_gate_result PreTradeGateDimension.DrawdownStop True PreTradeReasonCode.Pass now_utc
               | Inl _ \<Rightarrow> unavailable))"

definition evaluate_pretrade_strategy_approval_gate ::
    "time_crate \<Rightarrow> RuntimePolicyStateReader \<Rightarrow> string \<Rightarrow> PreTradeGateResult" where
  "evaluate_pretrade_strategy_approval_gate T state now_utc =
     (let unavailable = build_pretrade_gate_result PreTradeGateDimension.StrategyApproval False
            PreTradeReasonCode.StrategyApprovalUnavailable now_utc
      in case pr_strategy_approval_state state of
           None \<Rightarrow> unavailable
         | Some approval \<Rightarrow>
             if \<not> is_utc_timestamp T (zs_observed_at_utc approval) then unavailable
             else if zs_is_active approval
             then build_pretrade_gate_result PreTradeGateDimension.StrategyApproval True PreTradeReasonCode.Pass now_utc
             else build_pretrade_gate_result PreTradeGateDimension.StrategyApproval False
                    PreTradeReasonCode.StrategyApprovalRequired now_utc)"

definition map_market_eligibility_reason_to_pretrade :: "string \<Rightarrow> PreTradeReasonCode" where
  "map_market_eligibility_reason_to_pretrade reason_code = (case MarketPolicyReasonCode_parse reason_code of
      Inr code \<Rightarrow>
        if code \<in> {MarketPolicyReasonCode.PolicyStateUnavailable, MarketPolicyReasonCode.UnknownCluster,
             MarketPolicyReasonCode.InvalidPayload, MarketPolicyReasonCode.InvalidClusterId,
             MarketPolicyReasonCode.InvalidThreshold, MarketPolicyReasonCode.PersistenceUnavailable}
        then PreTradeReasonCode.VenueEligibilityUnavailable
        else if code = MarketPolicyReasonCode.MarketEligible then PreTradeReasonCode.Pass
        else PreTradeReasonCode.VenueIneligible
    | Inl _ \<Rightarrow> PreTradeReasonCode.VenueEligibilityUnavailable)"

definition evaluate_pretrade_venue_eligibility_gate ::
    "time_crate \<Rightarrow> RuntimePolicyStateReader \<Rightarrow> OrderIntent \<Rightarrow> PreTradeGateResult" where
  "evaluate_pretrade_venue_eligibility_gate T state intent =
     (let now_utc = oi_requested_at_utc intent;
          eligibility = evaluate_market_eligibility T (pr_market_snapshot state (oi_market_id intent))
            (pr_market_policy_profile state (oi_cluster_id intent)) (pr_cluster_override state (oi_cluster_id intent))
            (oi_correlation_id intent) now_utc
      in if ed_outcome eligibility = MarketEligibilityOutcome.Tradable
         then build_pretrade_gate_result PreTradeGateDimension.VenueEligibility True PreTradeReasonCode.Pass now_utc
         else build_pretrade_gate_result PreTradeGateDimension.VenueEligibility False
                (map_market_eligibility_reason_to_pretrade (ed_reason_code eligibility)) now_utc)"

definition evaluate_pretrade_reward_risk_gate ::
    "time_crate \<Rightarrow> RuntimePolicyStateReader \<Rightarrow> OrderIntent \<Rightarrow> string \<Rightarrow> PreTradeGateResult" where
  "evaluate_pretrade_reward_risk_gate T state intent policy_key =
     (let now_utc = oi_requested_at_utc intent;
          unavailable = build_pretrade_gate_result PreTradeGateDimension.RewardPerRisk False
            PreTradeReasonCode.RewardRiskStateUnavailable now_utc
      in case pr_market_snapshot state (oi_market_id intent) of
           None \<Rightarrow> unavailable
         | Some snapshot \<Rightarrow> (case reward_risk_score_input_from_snapshot snapshot of
             Inl _ \<Rightarrow> unavailable
           | Inr score_input \<Rightarrow> (case compute_reward_per_risk_score score_input of
               Inl _ \<Rightarrow> unavailable
             | Inr score \<Rightarrow>
                 let policy_override = pr_reward_risk_policy state policy_key
                 in if (case policy_override of Some policy \<Rightarrow> is_err (validate_reward_risk_policy T policy) | None \<Rightarrow> False)
                    then unavailable
                    else if f_lt score (reward_risk_threshold_for_policy policy_override)
                    then build_pretrade_gate_result PreTradeGateDimension.RewardPerRisk False
                           PreTradeReasonCode.RewardRiskBelowThreshold now_utc
                    else build_pretrade_gate_result PreTradeGateDimension.RewardPerRisk True
                           PreTradeReasonCode.Pass now_utc)))"

definition map_participation_guardrail_pause_reason_to_pretrade :: "string \<Rightarrow> PreTradeReasonCode" where
  "map_participation_guardrail_pause_reason_to_pretrade reason_code =
     (case ParticipationGuardrailReasonCode_parse reason_code of
        Inr ParticipationGuardrailReasonCode.LowLiquidityPause \<Rightarrow> PreTradeReasonCode.ParticipationGuardrailLowLiquidityPause
      | Inr ParticipationGuardrailReasonCode.InactivityPause \<Rightarrow> PreTradeReasonCode.ParticipationGuardrailInactivityPause
      | _ \<Rightarrow> PreTradeReasonCode.ParticipationGuardrailUnavailable)"

definition build_unavailable_participation_guardrail_evidence ::
    "OrderIntent \<Rightarrow> string \<Rightarrow> f64 option \<Rightarrow> f64 option \<Rightarrow> f64 option \<Rightarrow> PreTradeParticipationGuardrailEvidence" where
  "build_unavailable_participation_guardrail_evidence intent now_utc liquidity_depth_usd inactivity_gap_seconds normal =
     \<lparr>pe_event_id = ''fr41::'' @ sanitize_identifier (oi_intent_id intent) ''unknown_intent'' @ ''::''
        @ compact_timestamp_token now_utc @ ''::unavailable'',
      pe_guardrail_mode = ParticipationGuardrailMode_as_str ParticipationGuardrailMode.Unavailable,
      pe_reason_code = ParticipationGuardrailReasonCode_code ParticipationGuardrailReasonCode.DependencyUnavailable,
      pe_market_id = sanitize_identifier (oi_market_id intent) ''unknown_market'',
      pe_cluster_id = sanitize_identifier (oi_cluster_id intent) ''unknown_cluster'',
      pe_correlation_id = sanitize_identifier (oi_correlation_id intent) ''unknown_correlation'',
      pe_observed_at_utc = now_utc, pe_evaluated_at_utc = now_utc,
      pe_liquidity_depth_usd = (case liquidity_depth_usd of Some v \<Rightarrow> v | None \<Rightarrow> Fin 0),
      pe_inactivity_gap_seconds = (case inactivity_gap_seconds of Some v \<Rightarrow> v | None \<Rightarrow> Fin 0),
      pe_threshold_liquidity_depth_usd = FR41_LOW_LIQUIDITY_DEPTH_USD_THRESHOLD,
      pe_threshold_inactivity_pause_seconds = FR41_INACTIVITY_PAUSE_THRESHOLD_SECONDS,
      pe_threshold_overnight_gap_seconds = FR41_OVERNIGHT_CAP_THRESHOLD_SECONDS,
      pe_normal_max_order_size_units = normal,
      pe_capped_max_order_size_units = None\<rparr>"

text \<open>The evidence and the gate result of an outcome.\<close>

definition outcome_evidence ::
    "OrderIntent \<Rightarrow> string \<Rightarrow> ParticipationGuardrailEvaluationOutcome \<Rightarrow> PreTradeParticipationGuardrailEvidence" where
  "outcome_evidence intent now_utc outcome =
     \<lparr>pe_event_id = ''fr41::'' @ sanitize_identifier (oi_intent_id intent) ''unknown_intent'' @ ''::''
        @ compact_timestamp_token now_utc,
      pe_guardrail_mode = ParticipationGuardrailMode_as_str (po_guardrail_mode outcome),
      pe_reason_code = po_reason_code outcome, pe_market_id = po_market_id outcome,
      pe_cluster_id = po_cluster_id outcome, pe_correlation_id = po_correlation_id outcome,
      pe_observed_at_utc = po_observed_at_utc outcome, pe_evaluated_at_utc = now_utc,
      pe_liquidity_depth_usd = po_liquidity_depth_usd outcome,
      pe_inactivity_gap_seconds = po_inactivity_gap_seconds outcome,
      pe_threshold_liquidity_depth_usd = po_threshold_liquidity_depth_usd outcome,
      pe_threshold_inactivity_pause_seconds = po_threshold_inactivity_pause_seconds outcome,
      pe_threshold_overnight_gap_seconds = po_threshold_overnight_gap_seconds outcome,
      pe_normal_max_order_size_units = po_normal_max_order_size_units outcome,
      pe_capped_max_order_size_units = po_capped_max_order_size_units outcome\<rparr>"

fun outcome_gate_result :: "ParticipationGuardrailMode \<Rightarrow> string \<Rightarrow> string \<Rightarrow> PreTradeGateResult" where
  "outcome_gate_result ParticipationGuardrailMode.Pause reason_code now_utc =
     build_pretrade_gate_result PreTradeGateDimension.ParticipationGuardrail False
       (map_participation_guardrail_pause_reason_to_pretrade reason_code) now_utc"
| "outcome_gate_result ParticipationGuardrailMode.Unavailable reason_code now_utc =
     build_pretrade_gate_result PreTradeGateDimension.ParticipationGuardrail False
       PreTradeReasonCode.ParticipationGuardrailUnavailable now_utc"
| "outcome_gate_result _ reason_code now_utc =
     build_pretrade_gate_result PreTradeGateDimension.ParticipationGuardrail True PreTradeReasonCode.Pass now_utc"

definition evaluate_pretrade_participation_guardrail_gate ::
    "time_crate \<Rightarrow> RuntimePolicyStateReader \<Rightarrow> RuntimeRiskLimitStateReader \<Rightarrow> OrderIntent \<Rightarrow> string \<Rightarrow> string
      \<Rightarrow> PreTradeGateResult \<times> PreTradeParticipationGuardrailEvidence option" where
  "evaluate_pretrade_participation_guardrail_gate T state limits intent profile_key now_utc =
     (let unavailable = build_pretrade_gate_result PreTradeGateDimension.ParticipationGuardrail False
            PreTradeReasonCode.ParticipationGuardrailUnavailable now_utc
      in case pr_market_snapshot state (oi_market_id intent) of
           None \<Rightarrow> (unavailable,
             Some (build_unavailable_participation_guardrail_evidence intent now_utc None None None))
         | Some snapshot \<Rightarrow>
             let normal = lr_normal_max_order_size_units limits profile_key (oi_market_id intent) (oi_cluster_id intent);
                 input = \<lparr>pi_market_id = oi_market_id intent, pi_cluster_id = oi_cluster_id intent,
                     pi_correlation_id = oi_correlation_id intent, pi_observed_at_utc = ms_observed_at_utc snapshot,
                     pi_liquidity_depth_usd = Some (ms_liquidity_depth_usd snapshot),
                     pi_inactivity_gap_seconds = ms_inactivity_gap_seconds snapshot,
                     pi_normal_max_order_size_units = normal\<rparr>
             in case evaluate_fr41_participation_guardrail T input of
                  Inr outcome \<Rightarrow>
                    (outcome_gate_result (po_guardrail_mode outcome) (po_reason_code outcome) now_utc,
                     Some (outcome_evidence intent now_utc outcome))
                | Inl _ \<Rightarrow> (unavailable, Some (build_unavailable_participation_guardrail_evidence intent now_utc
                     (Some (ms_liquidity_depth_usd snapshot)) (ms_inactivity_gap_seconds snapshot) normal)))"

section \<open>The decision\<close>

definition build_fail_closed_pretrade_decision ::
    "string \<Rightarrow> string \<Rightarrow> string \<Rightarrow> string \<Rightarrow> string \<Rightarrow> string \<Rightarrow> PreTradeGateDecision" where
  "build_fail_closed_pretrade_decision intent_id market_id cluster_id profile_key correlation_id now_utc =
     \<lparr>gd_decision_id = ''pretrade::'' @ intent_id @ ''::'' @ compact_timestamp_token now_utc,
      gd_intent_id = intent_id, gd_market_id = market_id, gd_cluster_id = cluster_id, gd_profile_key = profile_key,
      gd_outcome = PreTradeDecisionOutcome.Deny,
      gd_reason_code = PreTradeReasonCode_code PreTradeReasonCode.InvalidPayload,
      gd_protective_mode_active = False,
      gd_gate_results = [build_pretrade_gate_result PreTradeGateDimension.Freshness False
        PreTradeReasonCode.InvalidPayload now_utc],
      gd_participation_guardrail = None, gd_correlation_id = correlation_id, gd_evaluated_at_utc = now_utc\<rparr>"

fun emergency_of_reason :: "PreTradeReasonCode \<Rightarrow> (EmergencyControlTriggerSource \<times> EmergencyControlReasonCode) option" where
  "emergency_of_reason PreTradeReasonCode.FreshnessStaleBreach =
     Some (EmergencyControlTriggerSource.StaleFeed, EmergencyControlReasonCode.StaleFeedTriggered)"
| "emergency_of_reason PreTradeReasonCode.ReconciliationCriticalHalt =
     Some (EmergencyControlTriggerSource.ReconciliationCritical, EmergencyControlReasonCode.ReconciliationCriticalTriggered)"
| "emergency_of_reason reason =
     (if reason \<in> {PreTradeReasonCode.FreshnessStateUnavailable, PreTradeReasonCode.StreamHealthStateUnavailable,
           PreTradeReasonCode.RiskLimitStateUnavailable, PreTradeReasonCode.StratificationStateUnavailable,
           PreTradeReasonCode.StrategyApprovalUnavailable, PreTradeReasonCode.VenueEligibilityUnavailable,
           PreTradeReasonCode.RewardRiskStateUnavailable, PreTradeReasonCode.ParticipationGuardrailUnavailable}
      then Some (EmergencyControlTriggerSource.ControlUncertainty, EmergencyControlReasonCode.ControlUncertaintyTriggered)
      else None)"

definition map_pretrade_reason_to_emergency_signal :: "PreTradeGateDecision \<Rightarrow> EmergencySafeStateSignal option" where
  "map_pretrade_reason_to_emergency_signal decision =
     (if gd_outcome decision \<noteq> PreTradeDecisionOutcome.Deny then None
      else case PreTradeReasonCode_parse (gd_reason_code decision) of
        Inl _ \<Rightarrow> None
      | Inr pretrade_reason \<Rightarrow> map_option (\<lambda>(trigger_source, reason_code).
          \<lparr>es_action = EmergencyControlAction.Pause, es_trigger_source = trigger_source,
           es_reason_code = EmergencyControlReasonCode_code reason_code,
           es_correlation_id = gd_correlation_id decision, es_triggered_at_utc = gd_evaluated_at_utc decision\<rparr>)
          (emergency_of_reason pretrade_reason))"

text \<open>The calls a decision makes on the safe-state port, in order.\<close>

definition decision_signals :: "PreTradeGateDecision \<Rightarrow> RuntimeSafeStateSignalPort list" where
  "decision_signals decision =
     (if gd_protective_mode_active decision
      then [signal_drawdown_protective_mode
              \<lparr>ds_active = True, ds_reason_code = gd_reason_code decision,
               ds_correlation_id = gd_correlation_id decision, ds_triggered_at_utc = gd_evaluated_at_utc decision\<rparr>]
      else [])
   @ (case map_pretrade_reason_to_emergency_signal decision of
        Some emergency_signal \<Rightarrow> [signal_emergency_safe_state emergency_signal] | None \<Rightarrow> [])"

definition finalize_pretrade_decision_with_guardrail ::
    "time_crate \<Rightarrow> OrderIntent \<Rightarrow> string \<Rightarrow> PreTradeGateResult list \<Rightarrow> bool \<Rightarrow> string
      \<Rightarrow> PreTradeParticipationGuardrailEvidence option \<Rightarrow> PreTradeGateDecision \<times> RuntimeSafeStateSignalPort list" where
  "finalize_pretrade_decision_with_guardrail T intent profile_key gate_results protective_mode_active
      evaluated_at_utc participation_guardrail =
     (let intent_id = sanitize_identifier (oi_intent_id intent) ''unknown_intent'';
          market_id = sanitize_identifier (oi_market_id intent) ''unknown_market'';
          cluster_id = sanitize_identifier (oi_cluster_id intent) ''unknown_cluster'';
          normalized_profile_key = sanitize_identifier profile_key ''unknown_profile'';
          correlation_id = sanitize_identifier (oi_correlation_id intent) ''unknown_correlation'';
          now_utc = normalized_pretrade_evaluated_at_utc T evaluated_at_utc;
          decision = (case adjudicate_pretrade_gate_results T intent_id market_id cluster_id normalized_profile_key
                correlation_id now_utc gate_results participation_guardrail protective_mode_active of
              Inr decision \<Rightarrow> decision
            | Inl _ \<Rightarrow> build_fail_closed_pretrade_decision intent_id market_id cluster_id normalized_profile_key
                correlation_id now_utc)
      in (decision, decision_signals decision))"

definition finalize_pretrade_decision ::
    "time_crate \<Rightarrow> OrderIntent \<Rightarrow> string \<Rightarrow> PreTradeGateResult list \<Rightarrow> bool \<Rightarrow> string
      \<Rightarrow> PreTradeGateDecision \<times> RuntimeSafeStateSignalPort list" where
  "finalize_pretrade_decision T intent profile_key gate_results protective_mode_active evaluated_at_utc =
     finalize_pretrade_decision_with_guardrail T intent profile_key gate_results protective_mode_active
       evaluated_at_utc None"

text \<open>An intent that is not valid is denied on the no-op port: its signals reach nobody.\<close>

definition build_invalid_payload_decision :: "time_crate \<Rightarrow> OrderIntent \<Rightarrow> string \<Rightarrow> PreTradeGateDecision" where
  "build_invalid_payload_decision T intent profile_key =
     (let fallback_timestamp = normalized_pretrade_evaluated_at_utc T (oi_requested_at_utc intent)
      in fst (finalize_pretrade_decision T intent profile_key
        [build_pretrade_gate_result PreTradeGateDimension.Freshness False PreTradeReasonCode.InvalidPayload
           fallback_timestamp] False fallback_timestamp))"

text \<open>
  The pipeline: the decision and the calls on the port. It returns at the first gate that
  fails; from the policy context on, the profile key is the one the bucket resolves to.
\<close>

definition evaluate_pretrade_gate_decision_with_limit_state_and_safe_state ::
    "time_crate \<Rightarrow> RuntimePolicyStateReader \<Rightarrow> RuntimeRiskLimitStateReader \<Rightarrow> OrderIntent \<Rightarrow> string
      \<Rightarrow> PreTradeGateDecision \<times> RuntimeSafeStateSignalPort list" where
  "evaluate_pretrade_gate_decision_with_limit_state_and_safe_state T state limits intent profile_key =
     (if validate_pretrade_intent_inputs T intent profile_key
      then (build_invalid_payload_decision T intent profile_key, []) else
      let now_utc = oi_requested_at_utc intent;
          freshness_gate = evaluate_pretrade_freshness_gate state now_utc;
          gate_results = [freshness_gate] in
      if \<not> gr_passed freshness_gate
      then finalize_pretrade_decision T intent profile_key gate_results False now_utc else
      let stream_health_gate = evaluate_pretrade_stream_health_gate T state now_utc;
          gate_results = gate_results @ [stream_health_gate] in
      if \<not> gr_passed stream_health_gate
      then finalize_pretrade_decision T intent profile_key gate_results False now_utc else
      case resolve_pretrade_policy_context T state intent now_utc of
        Inl gate_result \<Rightarrow>
          finalize_pretrade_decision T intent profile_key (gate_results @ [gate_result]) False now_utc
      | Inr policy_context \<Rightarrow>
      let effective_profile_key = pc_risk_policy_key policy_context;
          exposure_gate = evaluate_pretrade_exposure_limit_gate T limits effective_profile_key now_utc;
          gate_results = gate_results @ [exposure_gate] in
      if \<not> gr_passed exposure_gate
      then finalize_pretrade_decision T intent effective_profile_key gate_results False now_utc else
      let reconciliation_gate = evaluate_pretrade_reconciliation_gate state now_utc;
          gate_results = gate_results @ [reconciliation_gate] in
      if \<not> gr_passed reconciliation_gate
      then finalize_pretrade_decision T intent effective_profile_key gate_results False now_utc else
      let user_stream_gate = evaluate_pretrade_user_stream_auth_gate state now_utc;
          gate_results = gate_results @ [user_stream_gate] in
      if \<not> gr_passed user_stream_gate
      then finalize_pretrade_decision T intent effective_profile_key gate_results False now_utc else
      let drawdown_gate = evaluate_pretrade_drawdown_gate T state now_utc;
          protective_mode_active =
            (gr_reason_code drawdown_gate = PreTradeReasonCode_code PreTradeReasonCode.DrawdownStopTriggered);
          gate_results = gate_results @ [drawdown_gate] in
      if \<not> gr_passed drawdown_gate
      then finalize_pretrade_decision T intent effective_profile_key gate_results protective_mode_active now_utc else
      let strategy_approval_gate = evaluate_pretrade_strategy_approval_gate T state now_utc;
          gate_results = gate_results @ [strategy_approval_gate] in
      if \<not> gr_passed strategy_approval_gate
      then finalize_pretrade_decision T intent effective_profile_key gate_results False now_utc else
      let venue_gate = evaluate_pretrade_venue_eligibility_gate T state intent;
          gate_results = gate_results @ [venue_gate] in
      if \<not> gr_passed venue_gate
      then finalize_pretrade_decision T intent effective_profile_key gate_results False now_utc else
      let reward_risk_gate = evaluate_pretrade_reward_risk_gate T state intent effective_profile_key;
          gate_results = gate_results @ [reward_risk_gate] in
      if \<not> gr_passed reward_risk_gate
      then finalize_pretrade_decision T intent effective_profile_key gate_results False now_utc else
      let (participation_guardrail_gate, participation_guardrail) =
            evaluate_pretrade_participation_guardrail_gate T state limits intent effective_profile_key now_utc;
          gate_results = gate_results @ [participation_guardrail_gate] in
      finalize_pretrade_decision_with_guardrail T intent effective_profile_key gate_results False now_utc
        participation_guardrail)"

definition evaluate_pretrade_gate_decision_with_limit_state ::
    "time_crate \<Rightarrow> RuntimePolicyStateReader \<Rightarrow> RuntimeRiskLimitStateReader \<Rightarrow> OrderIntent \<Rightarrow> string
      \<Rightarrow> PreTradeGateDecision" where
  "evaluate_pretrade_gate_decision_with_limit_state T state limits intent profile_key =
     fst (evaluate_pretrade_gate_decision_with_limit_state_and_safe_state T state limits intent profile_key)"

section \<open>The order-intent gates\<close>

definition to_legacy_gate_decision :: "PreTradeGateDecision \<Rightarrow> OrderIntentGateDecision" where
  "to_legacy_gate_decision d =
     \<lparr>og_intent_id = gd_intent_id d, og_market_id = gd_market_id d, og_cluster_id = gd_cluster_id d,
      og_allowed = (gd_outcome d = PreTradeDecisionOutcome.Allow), og_reason_code = gd_reason_code d,
      og_correlation_id = gd_correlation_id d, og_decided_at_utc = gd_evaluated_at_utc d\<rparr>"

definition evaluate_order_intent_gate :: "RuntimePolicyStateReader \<Rightarrow> OrderIntent \<Rightarrow> OrderIntentGateDecision" where
  "evaluate_order_intent_gate state intent =
     (let after_freshness =
            (case pr_reconciliation_halt_reason_code state of
               Some reconciliation_reason_code \<Rightarrow> (False, reconciliation_reason_code)
             | None \<Rightarrow>
                 if pr_user_stream_auth_block_active state
                 then (False, UserStreamReasonCode_code UserStreamReasonCode.AuthExpired)
                 else if blank (oi_cluster_id intent)
                 then (False, MarketPolicyReasonCode_code MarketPolicyReasonCode.InvalidClusterId)
                 else (case pr_cluster_override state (oi_cluster_id intent) of
                   Some cluster_state \<Rightarrow>
                     if co_is_enabled cluster_state
                     then (True, MarketPolicyReasonCode_code MarketPolicyReasonCode.MarketEligible)
                     else (False, MarketPolicyReasonCode_code MarketPolicyReasonCode.ClusterDisabled)
                 | None \<Rightarrow> (False, MarketPolicyReasonCode_code MarketPolicyReasonCode.PolicyStateUnavailable)));
          (allowed, reason_code) = (case pr_freshness_state state of
             Some freshness_state \<Rightarrow>
               if zf_pause_active freshness_state then (False, zf_reason_code freshness_state) else after_freshness
           | None \<Rightarrow> after_freshness)
      in \<lparr>og_intent_id = oi_intent_id intent, og_market_id = oi_market_id intent,
          og_cluster_id = oi_cluster_id intent, og_allowed = allowed, og_reason_code = reason_code,
          og_correlation_id = oi_correlation_id intent, og_decided_at_utc = oi_requested_at_utc intent\<rparr>)"

definition evaluate_order_intent_gate_with_limit_state_and_safe_state ::
    "time_crate \<Rightarrow> RuntimePolicyStateReader \<Rightarrow> RuntimeRiskLimitStateReader \<Rightarrow> OrderIntent \<Rightarrow> string
      \<Rightarrow> OrderIntentGateDecision \<times> RuntimeSafeStateSignalPort list" where
  "evaluate_order_intent_gate_with_limit_state_and_safe_state T state limits intent profile_key =
     (let (pretrade_decision, signals) =
            evaluate_pretrade_gate_decision_with_limit_state_and_safe_state T state limits intent profile_key
      in (to_legacy_gate_decision pretrade_decision, signals))"

definition evaluate_order_intent_gate_with_limit_state ::
    "time_crate \<Rightarrow> RuntimePolicyStateReader \<Rightarrow> RuntimeRiskLimitStateReader \<Rightarrow> OrderIntent \<Rightarrow> string
      \<Rightarrow> OrderIntentGateDecision" where
  "evaluate_order_intent_gate_with_limit_state T state limits intent profile_key =
     fst (evaluate_order_intent_gate_with_limit_state_and_safe_state T state limits intent profile_key)"

text \<open>
  With persistence: the store is handed the decision before anything is returned, and its error
  is the result. The signals have been raised by then.
\<close>

definition evaluate_order_intent_gate_with_limit_state_and_safe_state_and_persistence ::
    "time_crate \<Rightarrow> RuntimePolicyStateReader \<Rightarrow> RuntimeRiskLimitStateReader \<Rightarrow> OrderIntent \<Rightarrow> string
      \<Rightarrow> (PreTradeGateDecision \<Rightarrow> 's \<Rightarrow> (PreTradeDecisionPersistenceError + unit) \<times> 's) \<Rightarrow> 's
      \<Rightarrow> (PreTradeDecisionPersistenceError + OrderIntentGateDecision) \<times> RuntimeSafeStateSignalPort list \<times> 's" where
  "evaluate_order_intent_gate_with_limit_state_and_safe_state_and_persistence T state limits intent profile_key
      persist_pretrade_decision store =
     (let (pretrade_decision, signals) =
            evaluate_pretrade_gate_decision_with_limit_state_and_safe_state T state limits intent profile_key;
          (persisted, store') = persist_pretrade_decision pretrade_decision store
      in (and_then persisted (\<lambda>_. Inr (to_legacy_gate_decision pretrade_decision)), signals, store'))"

end
