(* ===== verification/GatePipeline.thy ===== *)
theory GatePipeline
  imports RuntimeGates
begin

text \<open>
  What the pre-trade pipeline guarantees: each gate answers with one of its own reasons, the
  pipeline is the sequence of the gates cut after the first failure, every decision it hands
  out is valid, and an order is allowed only when every gate's condition holds.
\<close>

section \<open>Gate results\<close>

lemma is_utc_iff [simp]: "is_utc_timestamp T v \<longleftrightarrow> utc_ok T v"
  by (auto simp: is_utc_timestamp_def parse_utc_timestamp_def split: option.splits)

lemma valid_intent_iff:
  "validate_pretrade_intent_inputs T intent k \<longleftrightarrow> \<not> (list_all (\<lambda>v. \<not> blank v)
     [oi_intent_id intent, oi_market_id intent, oi_cluster_id intent, oi_correlation_id intent]
   \<and> utc_ok T (oi_requested_at_utc intent))"
  by (auto simp: validate_pretrade_intent_inputs_def)

lemma build_result_fields [simp]:
  "gr_passed (build_pretrade_gate_result g b c t) = b"
  "gr_gate (build_pretrade_gate_result g b c t) = g"
  "gr_reason_code (build_pretrade_gate_result g b c t) = PreTradeReasonCode_code c"
  "gate_result_wf T (build_pretrade_gate_result g b c t) \<longleftrightarrow> utc_ok T t \<and> (b \<longleftrightarrow> c = PreTradeReasonCode.Pass)"
  by (auto simp: build_pretrade_gate_result_def gate_result_wf_def simp del: PreTradeReasonCode_code.simps)

text \<open>The reasons a gate may fail with.\<close>

fun gate_reasons :: "PreTradeGateDimension \<Rightarrow> PreTradeReasonCode set" where
  "gate_reasons Freshness = {FreshnessStaleBreach, FreshnessStateUnavailable}"
| "gate_reasons StreamHealth = {StreamHealthDegraded, StreamHealthStateUnavailable}"
| "gate_reasons ExposureLimitState = {RiskLimitStateUnavailable, StratificationStateUnavailable}"
| "gate_reasons ReconciliationHalt = {ReconciliationCriticalHalt}"
| "gate_reasons UserStreamAuth = {UserStreamAuthExpired}"
| "gate_reasons DrawdownStop = {DrawdownStopTriggered, DrawdownStateUnavailable}"
| "gate_reasons StrategyApproval = {StrategyApprovalRequired, StrategyApprovalUnavailable}"
| "gate_reasons VenueEligibility = {VenueIneligible, VenueEligibilityUnavailable}"
| "gate_reasons RewardPerRisk = {RewardRiskBelowThreshold, RewardRiskStateUnavailable}"
| "gate_reasons PreTradeGateDimension.ParticipationGuardrail =
     {ParticipationGuardrailLowLiquidityPause, ParticipationGuardrailInactivityPause, ParticipationGuardrailUnavailable}"

definition gate_answer :: "PreTradeGateDimension \<Rightarrow> string \<Rightarrow> PreTradeGateResult \<Rightarrow> bool" where
  "gate_answer g t r \<longleftrightarrow>
     r = build_pretrade_gate_result g True PreTradeReasonCode.Pass t
   \<or> (\<exists>c\<in>gate_reasons g. r = build_pretrade_gate_result g False c t)"

lemma gate_answer_build [simp]:
  "gate_answer g t (build_pretrade_gate_result g True PreTradeReasonCode.Pass t)"
  "c \<in> gate_reasons g \<Longrightarrow> gate_answer g t (build_pretrade_gate_result g False c t)"
  by (auto simp: gate_answer_def)

lemma gate_reason_not_pass: "c \<in> gate_reasons g \<Longrightarrow> c \<noteq> PreTradeReasonCode.Pass \<and> c \<noteq> PreTradeReasonCode.InvalidPayload"
  by (cases g) auto

lemma gate_reason_drawdown: "PreTradeReasonCode.DrawdownStopTriggered \<in> gate_reasons g \<longleftrightarrow> g = DrawdownStop"
  by (cases g) auto

lemma gate_answer_wf: "gate_answer g t r \<Longrightarrow> utc_ok T t \<Longrightarrow> gate_result_wf T r"
  by (auto simp: gate_answer_def gate_reason_not_pass dest: gate_reason_not_pass)

lemma gate_answer_gate: "gate_answer g t r \<Longrightarrow> gr_gate r = g"
  by (auto simp: gate_answer_def)

lemma gate_answer_drawdown:
  "gate_answer g t r \<Longrightarrow> gr_reason_code r = PreTradeReasonCode_code PreTradeReasonCode.DrawdownStopTriggered
     \<Longrightarrow> g = DrawdownStop \<and> \<not> gr_passed r"
  by (auto simp: gate_answer_def gate_reason_drawdown[symmetric] simp del: PreTradeReasonCode_code.simps)

lemma map_freshness_reason: "map_freshness_reason_to_pretrade r \<in> gate_reasons Freshness"
  by (simp add: map_freshness_reason_to_pretrade_def)

lemma map_eligibility_reason:
  assumes "r \<noteq> MarketPolicyReasonCode_code MarketPolicyReasonCode.MarketEligible"
    and "\<exists>c. r = MarketPolicyReasonCode_code c"
  shows "map_market_eligibility_reason_to_pretrade r \<in> gate_reasons VenueEligibility"
  using assms by (auto simp: map_market_eligibility_reason_to_pretrade_def simp del: MarketPolicyReasonCode_code.simps)

lemma eligibility_reason_known:
  "\<exists>c. ed_reason_code (evaluate_market_eligibility T s p o' k t) = MarketPolicyReasonCode_code c"
  by (auto simp: evaluate_market_eligibility_def Let_def MarketEligibilityDecision_tradable_def
      MarketEligibilityDecision_blocked_def simp del: MarketPolicyReasonCode_code.simps split: option.splits)

lemma gate_answers:
  "gate_answer Freshness t (evaluate_pretrade_freshness_gate S t)"
  "gate_answer StreamHealth t (evaluate_pretrade_stream_health_gate T S t)"
  "gate_answer ExposureLimitState t (evaluate_pretrade_exposure_limit_gate T L k t)"
  "gate_answer ReconciliationHalt t (evaluate_pretrade_reconciliation_gate S t)"
  "gate_answer UserStreamAuth t (evaluate_pretrade_user_stream_auth_gate S t)"
  "gate_answer DrawdownStop t (evaluate_pretrade_drawdown_gate T S t)"
  "gate_answer StrategyApproval t (evaluate_pretrade_strategy_approval_gate T S t)"
  by (simp_all add: gate_answer_build(2)[OF map_freshness_reason] evaluate_pretrade_freshness_gate_def
      evaluate_pretrade_stream_health_gate_def
      evaluate_pretrade_exposure_limit_gate_def evaluate_pretrade_reconciliation_gate_def
      evaluate_pretrade_user_stream_auth_gate_def evaluate_pretrade_drawdown_gate_def
      evaluate_pretrade_strategy_approval_gate_def Let_def
      split: option.splits sum.splits bool.splits)

lemma context_answer:
  "resolve_pretrade_policy_context T S intent t = Inl r \<Longrightarrow> gate_answer ExposureLimitState t r \<and> \<not> gr_passed r"
  by (cases "pr_market_bucket_profile S (oi_market_id intent) (oi_cluster_id intent)";
      cases "resolve_market_bucket_policy_links T (oi_market_id intent) (oi_cluster_id intent)
        [the (pr_market_bucket_profile S (oi_market_id intent) (oi_cluster_id intent))]")
    (auto simp: resolve_pretrade_policy_context_def Let_def)

lemma intent_gate_answers:
  "gate_answer VenueEligibility (oi_requested_at_utc intent) (evaluate_pretrade_venue_eligibility_gate T S intent)"
  "gate_answer RewardPerRisk (oi_requested_at_utc intent) (evaluate_pretrade_reward_risk_gate T S intent k)"
  "gate_answer PreTradeGateDimension.ParticipationGuardrail t
     (fst (evaluate_pretrade_participation_guardrail_gate T S L intent k t))"
proof -
  show "gate_answer VenueEligibility (oi_requested_at_utc intent) (evaluate_pretrade_venue_eligibility_gate T S intent)"
    using map_eligibility_reason[OF _ eligibility_reason_known]
    by (auto simp: evaluate_pretrade_venue_eligibility_gate_def Let_def decision_consistent
        simp del: MarketPolicyReasonCode_code.simps gate_reasons.simps)
  show "gate_answer RewardPerRisk (oi_requested_at_utc intent) (evaluate_pretrade_reward_risk_gate T S intent k)"
    by (simp add: evaluate_pretrade_reward_risk_gate_def Let_def split: option.splits sum.splits)
  have "map_participation_guardrail_pause_reason_to_pretrade r \<in> gate_reasons PreTradeGateDimension.ParticipationGuardrail" for r
    by (simp add: map_participation_guardrail_pause_reason_to_pretrade_def
        split: sum.splits ParticipationGuardrailReasonCode.splits)
  then have "gate_answer PreTradeGateDimension.ParticipationGuardrail t (outcome_gate_result mode r t)" for mode r
    by (cases mode) (simp_all del: gate_reasons.simps(10), simp)
  then show "gate_answer PreTradeGateDimension.ParticipationGuardrail t
      (fst (evaluate_pretrade_participation_guardrail_gate T S L intent k t))"
    by (simp add: evaluate_pretrade_participation_guardrail_gate_def Let_def split: option.splits sum.splits)
qed

section \<open>The sequence of the gates\<close>

text \<open>A list cut after its first failed result.\<close>

fun upto_failure :: "PreTradeGateResult list \<Rightarrow> PreTradeGateResult list" where
  "upto_failure [] = []"
| "upto_failure (r # rs) = r # (if gr_passed r then upto_failure rs else [])"

lemma upto_failure_props:
  "upto_failure rs = [] \<longleftrightarrow> rs = []"
  "list_all P rs \<Longrightarrow> list_all P (upto_failure rs)"
  "length (failed_gate_results (upto_failure rs)) \<le> 1"
  "list_all gr_passed (upto_failure rs) \<longleftrightarrow> list_all gr_passed rs"
  by (induction rs) auto

lemma upto_failure_prefix: "\<exists>post. rs = upto_failure rs @ post"
  by (induction rs) auto

lemma upto_failure_sorted:
  assumes "sorted_wrt (<) (map gr_gate rs)"
  shows "sorted_wrt (<) (map gr_gate (upto_failure rs))"
proof -
  obtain post where "rs = upto_failure rs @ post" using upto_failure_prefix by blast
  then show ?thesis using assms by (metis map_append sorted_wrt_append)
qed

text \<open>The gates that come after the policy context, under the key it resolves to.\<close>

definition keyed_gates ::
    "time_crate \<Rightarrow> RuntimePolicyStateReader \<Rightarrow> RuntimeRiskLimitStateReader \<Rightarrow> OrderIntent \<Rightarrow> string
      \<Rightarrow> PreTradeGateResult list" where
  "keyed_gates T S L intent key =
     (let t = oi_requested_at_utc intent in
      [evaluate_pretrade_exposure_limit_gate T L key t, evaluate_pretrade_reconciliation_gate S t,
       evaluate_pretrade_user_stream_auth_gate S t, evaluate_pretrade_drawdown_gate T S t,
       evaluate_pretrade_strategy_approval_gate T S t, evaluate_pretrade_venue_eligibility_gate T S intent,
       evaluate_pretrade_reward_risk_gate T S intent key,
       fst (evaluate_pretrade_participation_guardrail_gate T S L intent key t)])"

definition gate_sequence ::
    "time_crate \<Rightarrow> RuntimePolicyStateReader \<Rightarrow> RuntimeRiskLimitStateReader \<Rightarrow> OrderIntent
      \<Rightarrow> PreTradeGateResult list" where
  "gate_sequence T S L intent =
     (let t = oi_requested_at_utc intent in
      evaluate_pretrade_freshness_gate S t # evaluate_pretrade_stream_health_gate T S t
      # (case resolve_pretrade_policy_context T S intent t of
           Inl r \<Rightarrow> [r] | Inr context \<Rightarrow> keyed_gates T S L intent (pc_risk_policy_key context)))"

text \<open>The participation evidence travels with the decision only when its gate was reached.\<close>

definition sequence_evidence ::
    "time_crate \<Rightarrow> RuntimePolicyStateReader \<Rightarrow> RuntimeRiskLimitStateReader \<Rightarrow> OrderIntent
      \<Rightarrow> PreTradeParticipationGuardrailEvidence option" where
  "sequence_evidence T S L intent =
     (let t = oi_requested_at_utc intent in
      if PreTradeGateDimension.ParticipationGuardrail \<in> set (map gr_gate (upto_failure (gate_sequence T S L intent)))
      then (case resolve_pretrade_policy_context T S intent t of
          Inl _ \<Rightarrow> None
        | Inr context \<Rightarrow>
            snd (evaluate_pretrade_participation_guardrail_gate T S L intent (pc_risk_policy_key context) t))
      else None)"

definition sequence_key ::
    "time_crate \<Rightarrow> RuntimePolicyStateReader \<Rightarrow> OrderIntent \<Rightarrow> string \<Rightarrow> string" where
  "sequence_key T S intent key =
     (let t = oi_requested_at_utc intent in
      if gr_passed (evaluate_pretrade_freshness_gate S t) \<and> gr_passed (evaluate_pretrade_stream_health_gate T S t)
      then (case resolve_pretrade_policy_context T S intent t of
          Inl _ \<Rightarrow> key | Inr context \<Rightarrow> pc_risk_policy_key context)
      else key)"

definition drawdown_stopped :: "PreTradeGateResult list \<Rightarrow> bool" where
  "drawdown_stopped rs \<longleftrightarrow>
     (\<exists>r\<in>set rs. gr_reason_code r = PreTradeReasonCode_code PreTradeReasonCode.DrawdownStopTriggered)"

lemmas sequence_gates =
  gate_answers[THEN gate_answer_gate] intent_gate_answers[THEN gate_answer_gate]

lemma sequence_reasons:
  "gate_answer g t r \<Longrightarrow> g \<noteq> DrawdownStop
     \<Longrightarrow> gr_reason_code r \<noteq> PreTradeReasonCode_code PreTradeReasonCode.DrawdownStopTriggered"
  using gate_answer_drawdown by blast

lemma passed_reason:
  "gate_answer g t r \<Longrightarrow> gr_passed r
     \<Longrightarrow> gr_reason_code r \<noteq> PreTradeReasonCode_code PreTradeReasonCode.DrawdownStopTriggered"
  using gate_answer_drawdown by blast

lemmas sequence_no_drawdown =
  gate_answers(1-5,7)[THEN sequence_reasons] intent_gate_answers[THEN sequence_reasons]
  gate_answers(6)[THEN passed_reason]

text \<open>The pipeline of the code is the sequence cut after its first failure.\<close>

lemma pipeline_is_sequence:
  assumes "\<not> validate_pretrade_intent_inputs T intent key"
  shows "evaluate_pretrade_gate_decision_with_limit_state_and_safe_state T S L intent key =
    finalize_pretrade_decision_with_guardrail T intent (sequence_key T S intent key)
      (upto_failure (gate_sequence T S L intent)) (drawdown_stopped (upto_failure (gate_sequence T S L intent)))
      (oi_requested_at_utc intent) (sequence_evidence T S L intent)"
proof -
  let ?t = "oi_requested_at_utc intent"
  let ?fresh = "evaluate_pretrade_freshness_gate S ?t" and ?health = "evaluate_pretrade_stream_health_gate T S ?t"
  note defs = evaluate_pretrade_gate_decision_with_limit_state_and_safe_state_def finalize_pretrade_decision_def
    sequence_key_def sequence_evidence_def gate_sequence_def drawdown_stopped_def sequence_gates
    sequence_no_drawdown Let_def assms
  show ?thesis
  proof (cases "gr_passed ?fresh \<and> gr_passed ?health")
    case False
    then show ?thesis by (auto simp: defs simp del: PreTradeReasonCode_code.simps)
  next
    case True
    note passed = True
    show ?thesis
    proof (cases "resolve_pretrade_policy_context T S intent ?t")
      case (Inl r)
      then have "\<not> gr_passed r" "gr_gate r = ExposureLimitState"
        "gr_reason_code r \<noteq> PreTradeReasonCode_code PreTradeReasonCode.DrawdownStopTriggered"
        using context_answer[OF Inl] gate_answer_gate sequence_reasons by blast+
      then show ?thesis using passed Inl by (simp add: defs del: PreTradeReasonCode_code.simps)
    next
      case (Inr c)
      let ?k = "pc_risk_policy_key c"
      consider "\<not> gr_passed (evaluate_pretrade_exposure_limit_gate T L ?k ?t)"
        | "gr_passed (evaluate_pretrade_exposure_limit_gate T L ?k ?t)"
          "\<not> gr_passed (evaluate_pretrade_reconciliation_gate S ?t)"
        | "gr_passed (evaluate_pretrade_exposure_limit_gate T L ?k ?t)"
          "gr_passed (evaluate_pretrade_reconciliation_gate S ?t)"
          "\<not> gr_passed (evaluate_pretrade_user_stream_auth_gate S ?t)"
        | "gr_passed (evaluate_pretrade_exposure_limit_gate T L ?k ?t)"
          "gr_passed (evaluate_pretrade_reconciliation_gate S ?t)"
          "gr_passed (evaluate_pretrade_user_stream_auth_gate S ?t)"
          "\<not> gr_passed (evaluate_pretrade_drawdown_gate T S ?t)"
        | "gr_passed (evaluate_pretrade_exposure_limit_gate T L ?k ?t)"
          "gr_passed (evaluate_pretrade_reconciliation_gate S ?t)"
          "gr_passed (evaluate_pretrade_user_stream_auth_gate S ?t)"
          "gr_passed (evaluate_pretrade_drawdown_gate T S ?t)"
        by blast
      then show ?thesis
      proof cases
        case 5
        then show ?thesis
          using passed Inr
          by (cases "gr_passed (evaluate_pretrade_strategy_approval_gate T S ?t)";
              cases "gr_passed (evaluate_pretrade_venue_eligibility_gate T S intent)";
              cases "gr_passed (evaluate_pretrade_reward_risk_gate T S intent ?k)")
            (simp_all add: defs keyed_gates_def case_prod_beta del: PreTradeReasonCode_code.simps)
      qed (use passed Inr in \<open>simp_all add: defs keyed_gates_def case_prod_beta del: PreTradeReasonCode_code.simps\<close>)
    qed
  qed
qed

section \<open>The decision\<close>

definition intent_decision ::
    "OrderIntent \<Rightarrow> string \<Rightarrow> PreTradeGateResult list \<Rightarrow> bool \<Rightarrow> string
      \<Rightarrow> PreTradeParticipationGuardrailEvidence option \<Rightarrow> PreTradeGateDecision" where
  "intent_decision intent key rs b t e =
     built_decision (sanitize_identifier (oi_intent_id intent) ''unknown_intent'')
       (sanitize_identifier (oi_market_id intent) ''unknown_market'')
       (sanitize_identifier (oi_cluster_id intent) ''unknown_cluster'')
       (sanitize_identifier key ''unknown_profile'')
       (sanitize_identifier (oi_correlation_id intent) ''unknown_correlation'') t rs e b"

definition intent_fallback :: "OrderIntent \<Rightarrow> string \<Rightarrow> string \<Rightarrow> PreTradeGateDecision" where
  "intent_fallback intent key t =
     build_fail_closed_pretrade_decision (sanitize_identifier (oi_intent_id intent) ''unknown_intent'')
       (sanitize_identifier (oi_market_id intent) ''unknown_market'')
       (sanitize_identifier (oi_cluster_id intent) ''unknown_cluster'')
       (sanitize_identifier key ''unknown_profile'')
       (sanitize_identifier (oi_correlation_id intent) ''unknown_correlation'') t"

lemma finalize_decision:
  "finalize_pretrade_decision_with_guardrail T intent key rs b t e =
     (let t' = normalized_pretrade_evaluated_at_utc T t;
          d = (if decision_wf T (intent_decision intent key rs b t' e)
               then intent_decision intent key rs b t' e else intent_fallback intent key t')
      in (d, decision_signals d))"
proof -
  have "(case adjudicate_pretrade_gate_results T i m c p k t' rs e b of Inr d \<Rightarrow> d | Inl _ \<Rightarrow> f) =
      (if decision_wf T (built_decision i m c p k t' rs e b) then built_decision i m c p k t' rs e b else f)"
    for i m c p k t' f
    using adjudicate_Inr[of T i m c p k t' rs e b]
    by (cases "adjudicate_pretrade_gate_results T i m c p k t' rs e b") auto
  then show ?thesis
    by (simp add: finalize_pretrade_decision_with_guardrail_def intent_decision_def intent_fallback_def Let_def)
qed

lemma sanitized_props:
  "\<not> blank (sanitize_identifier v ''unknown_intent'')" "\<not> blank (sanitize_identifier v ''unknown_market'')"
  "\<not> blank (sanitize_identifier v ''unknown_cluster'')" "\<not> blank (sanitize_identifier v ''unknown_profile'')"
  "\<not> blank (sanitize_identifier v ''unknown_correlation'')"
  "normalize (sanitize_identifier v ''unknown_intent'') = sanitize_identifier v ''unknown_intent''"
  "normalize (sanitize_identifier v ''unknown_market'') = sanitize_identifier v ''unknown_market''"
  "normalize (sanitize_identifier v ''unknown_cluster'') = sanitize_identifier v ''unknown_cluster''"
  "normalize (sanitize_identifier v ''unknown_profile'') = sanitize_identifier v ''unknown_profile''"
  "normalize (sanitize_identifier v ''unknown_correlation'') = sanitize_identifier v ''unknown_correlation''"
  by ((rule sanitize_not_blank, simp add: not_blank_literal plain_def less_char_def)+)
    (rule sanitize_normal, code_simp)+

lemma fallback_wf:
  assumes "utc_ok T t"
  shows "decision_wf T (intent_fallback intent key t)"
proof -
  have id: "''pretrade::'' @ sanitize_identifier v ''unknown_intent'' @ ''::'' @ compact_timestamp_token t =
      pretrade_decision_id (normalize (sanitize_identifier v ''unknown_intent'')) t" for v
    by (simp add: pretrade_decision_id_def compact_utc_timestamp_token_def compact_timestamp_token_def sanitized_props)
  show ?thesis
    unfolding intent_fallback_def build_fail_closed_pretrade_decision_def id
    using assms decision_id_normal[of "sanitize_identifier (oi_intent_id intent) ''unknown_intent''" t]
      decision_id_not_blank[of "sanitize_identifier (oi_intent_id intent) ''unknown_intent''" t]
    by (simp add: decision_wf_def outcome_wf_def sanitized_props del: PreTradeReasonCode_code.simps
        decision_id_normal decision_id_not_blank)
qed

lemma normalized_time_ok:
  "utc_ok T FALLBACK_PRETRADE_EVALUATED_AT_UTC \<Longrightarrow> utc_ok T (normalized_pretrade_evaluated_at_utc T t)"
  by (simp add: normalized_pretrade_evaluated_at_utc_def)

lemma finalize_wf:
  assumes "utc_ok T FALLBACK_PRETRADE_EVALUATED_AT_UTC"
  shows "decision_wf T (fst (finalize_pretrade_decision_with_guardrail T intent key rs b t e))"
  using fallback_wf normalized_time_ok[OF assms] by (simp add: finalize_decision Let_def)

text \<open>Without evidence nothing can go wrong: the sequence adjudicates.\<close>

lemma intent_decision_wf:
  assumes "utc_ok T t" "rs \<noteq> []" "list_all (gate_result_wf T) rs" "length (failed_gate_results rs) \<le> 1"
    and "\<And>e'. e = Some e' \<Longrightarrow> evidence_wf T e' \<and> normalize (pe_market_id e') = sanitize_identifier (oi_market_id intent) ''unknown_market''
          \<and> normalize (pe_cluster_id e') = sanitize_identifier (oi_cluster_id intent) ''unknown_cluster''
          \<and> normalize (pe_correlation_id e') = sanitize_identifier (oi_correlation_id intent) ''unknown_correlation''
          \<and> pe_evaluated_at_utc e' = t"
    and "b \<Longrightarrow> \<exists>r. failed_gate_results rs = [r]
          \<and> gr_reason_code r = PreTradeReasonCode_code PreTradeReasonCode.DrawdownStopTriggered"
  shows "decision_wf T (intent_decision intent key rs b t e)"
  unfolding intent_decision_def using assms by (intro built_decision_wf) (auto simp: sanitized_props)

section \<open>The sequence is well formed\<close>

lemma gate_sequence_ascending: "sorted_wrt (<) (map gr_gate (gate_sequence T S L intent))"
  using context_answer[THEN conjunct1, THEN gate_answer_gate]
  by (cases "resolve_pretrade_policy_context T S intent (oi_requested_at_utc intent)")
    (simp_all add: gate_sequence_def keyed_gates_def sequence_gates less_PreTradeGateDimension_def Let_def)

lemma gate_sequence_answers:
  "list_all (\<lambda>r. gate_answer (gr_gate r) (oi_requested_at_utc intent) r) (gate_sequence T S L intent)"
  using context_answer[THEN conjunct1] context_answer[THEN conjunct1, THEN gate_answer_gate]
    gate_answers intent_gate_answers
  by (cases "resolve_pretrade_policy_context T S intent (oi_requested_at_utc intent)")
    (simp_all add: gate_sequence_def keyed_gates_def sequence_gates Let_def)

lemma gate_sequence_wf:
  "utc_ok T (oi_requested_at_utc intent) \<Longrightarrow> list_all (gate_result_wf T) (gate_sequence T S L intent)"
  using gate_sequence_answers[of intent T S L] gate_answer_wf by (auto simp: list_all_iff)

lemma drawdown_stopped_failed:
  assumes "drawdown_stopped (upto_failure (gate_sequence T S L intent))"
  shows "\<exists>r. failed_gate_results (upto_failure (gate_sequence T S L intent)) = [r]
    \<and> gr_reason_code r = PreTradeReasonCode_code PreTradeReasonCode.DrawdownStopTriggered"
proof -
  let ?rs = "upto_failure (gate_sequence T S L intent)"
  obtain r where r: "r \<in> set ?rs" "gr_reason_code r = PreTradeReasonCode_code PreTradeReasonCode.DrawdownStopTriggered"
    using assms by (auto simp: drawdown_stopped_def)
  have "list_all (\<lambda>r. gate_answer (gr_gate r) (oi_requested_at_utc intent) r) ?rs"
    using gate_sequence_answers upto_failure_props(2) by blast
  then have "\<not> gr_passed r"
    using r gate_answer_drawdown by (auto simp: list_all_iff simp del: PreTradeReasonCode_code.simps)
  then have "r \<in> set (failed_gate_results ?rs)" using r by simp
  moreover have "length (failed_gate_results ?rs) \<le> 1" by (rule upto_failure_props(3))
  ultimately have "failed_gate_results ?rs = [r]"
    by (cases "failed_gate_results ?rs") auto
  then show ?thesis using r by blast
qed

section \<open>When an order is allowed\<close>

definition participation_admits ::
    "time_crate \<Rightarrow> RuntimePolicyStateReader \<Rightarrow> RuntimeRiskLimitStateReader \<Rightarrow> OrderIntent \<Rightarrow> string \<Rightarrow> bool" where
  "participation_admits T S L intent key \<longleftrightarrow>
     (\<exists>s out. pr_market_snapshot S (oi_market_id intent) = Some s
       \<and> evaluate_fr41_participation_guardrail T
          \<lparr>pi_market_id = oi_market_id intent, pi_cluster_id = oi_cluster_id intent,
           pi_correlation_id = oi_correlation_id intent, pi_observed_at_utc = ms_observed_at_utc s,
           pi_liquidity_depth_usd = Some (ms_liquidity_depth_usd s),
           pi_inactivity_gap_seconds = ms_inactivity_gap_seconds s,
           pi_normal_max_order_size_units =
             lr_normal_max_order_size_units L key (oi_market_id intent) (oi_cluster_id intent)\<rparr> = Inr out
       \<and> po_guardrail_mode out \<in> {ParticipationGuardrailMode.Pass, ParticipationGuardrailMode.SizeCap}
       \<and> evidence_wf T (outcome_evidence intent (oi_requested_at_utc intent) out))"

definition reward_risk_admits ::
    "time_crate \<Rightarrow> RuntimePolicyStateReader \<Rightarrow> OrderIntent \<Rightarrow> string \<Rightarrow> bool" where
  "reward_risk_admits T S intent key \<longleftrightarrow>
     (\<exists>s i score. pr_market_snapshot S (oi_market_id intent) = Some s
       \<and> reward_risk_score_input_from_snapshot s = Inr i \<and> compute_reward_per_risk_score i = Inr score
       \<and> (\<forall>p. pr_reward_risk_policy S key = Some p \<longrightarrow> validate_reward_risk_policy T p = Inr ())
       \<and> \<not> f_lt score (reward_risk_threshold_for_policy (pr_reward_risk_policy S key)))"

definition state_admits :: "time_crate \<Rightarrow> RuntimePolicyStateReader \<Rightarrow> bool" where
  "state_admits T S \<longleftrightarrow>
     (\<exists>f. pr_freshness_state S = Some f \<and> \<not> zf_pause_active f)
   \<and> (\<exists>m a. pr_stream_health_state S = Some m \<and> utc_ok T (zh_observed_at_utc m)
        \<and> assess_market_stream_health (zh_backlog_seconds m) (zh_sustained_backlog_seconds m)
            (zh_heartbeat_gap_seconds m) (zh_heartbeat_timeout_seconds m) = Inr a
        \<and> ha_status a = MarketStreamHealthStatus.Healthy)
   \<and> pr_reconciliation_halt_reason_code S = None
   \<and> \<not> pr_user_stream_auth_block_active S
   \<and> (\<exists>d. pr_drawdown_state S = Some d \<and> utc_ok T (zd_observed_at_utc d)
        \<and> f_nonneg (zd_current_drawdown_pct d) \<and> f_nonneg (zd_configured_stop_threshold_pct d)
        \<and> \<not> f_ge (zd_current_drawdown_pct d) (zd_configured_stop_threshold_pct d))
   \<and> (\<exists>a. pr_strategy_approval_state S = Some a \<and> utc_ok T (zs_observed_at_utc a) \<and> zs_is_active a)"

definition context_key :: "time_crate \<Rightarrow> RuntimePolicyStateReader \<Rightarrow> OrderIntent \<Rightarrow> string \<Rightarrow> bool" where
  "context_key T S intent key \<longleftrightarrow>
     (\<exists>p l. pr_market_bucket_profile S (oi_market_id intent) (oi_cluster_id intent) = Some p
       \<and> resolve_market_bucket_policy_links T (oi_market_id intent) (oi_cluster_id intent) [p] = Inr l
       \<and> key = rl_risk_policy_key l)"

lemma context_key_iff:
  "context_key T S intent key \<longleftrightarrow>
     (\<exists>c. resolve_pretrade_policy_context T S intent t = Inr c \<and> pc_risk_policy_key c = key)"
  by (cases "pr_market_bucket_profile S (oi_market_id intent) (oi_cluster_id intent)")
    (auto simp: context_key_def resolve_pretrade_policy_context_def Let_def and_then_Inr_iff)

lemma state_gates_pass:
  "gr_passed (evaluate_pretrade_freshness_gate S t) \<and> gr_passed (evaluate_pretrade_stream_health_gate T S t)
   \<and> gr_passed (evaluate_pretrade_reconciliation_gate S t) \<and> gr_passed (evaluate_pretrade_user_stream_auth_gate S t)
   \<and> gr_passed (evaluate_pretrade_drawdown_gate T S t) \<and> gr_passed (evaluate_pretrade_strategy_approval_gate T S t)
   \<longleftrightarrow> state_admits T S"
proof -
  have "gr_passed (evaluate_pretrade_drawdown_gate T S t) \<longleftrightarrow>
     (\<exists>d. pr_drawdown_state S = Some d \<and> utc_ok T (zd_observed_at_utc d)
        \<and> drawdown_stop_triggered (zd_current_drawdown_pct d) (zd_configured_stop_threshold_pct d) = Inr False)"
    by (auto simp: evaluate_pretrade_drawdown_gate_def Let_def split: option.splits sum.splits bool.splits)
  moreover have "gr_passed (evaluate_pretrade_stream_health_gate T S t) \<longleftrightarrow>
     (\<exists>m a. pr_stream_health_state S = Some m \<and> utc_ok T (zh_observed_at_utc m)
        \<and> assess_market_stream_health (zh_backlog_seconds m) (zh_sustained_backlog_seconds m)
            (zh_heartbeat_gap_seconds m) (zh_heartbeat_timeout_seconds m) = Inr a
        \<and> ha_status a = MarketStreamHealthStatus.Healthy)"
    by (auto simp: evaluate_pretrade_stream_health_gate_def Let_def split: option.splits sum.splits)
  ultimately show ?thesis
    unfolding state_admits_def drawdown_stop_iff
    by (auto simp: evaluate_pretrade_freshness_gate_def evaluate_pretrade_reconciliation_gate_def
        evaluate_pretrade_user_stream_auth_gate_def evaluate_pretrade_strategy_approval_gate_def Let_def
        split: option.splits)
qed

lemma reward_risk_gate_pass:
  "gr_passed (evaluate_pretrade_reward_risk_gate T S intent key) \<longleftrightarrow> reward_risk_admits T S intent key"
  by (auto simp: evaluate_pretrade_reward_risk_gate_def reward_risk_admits_def Let_def is_ok_unit[symmetric]
      split: option.splits sum.splits)

lemma participation_gate_pass:
  "gr_passed (fst (evaluate_pretrade_participation_guardrail_gate T S L intent key t))
     \<and> (\<forall>e. snd (evaluate_pretrade_participation_guardrail_gate T S L intent key t) = Some e \<longrightarrow> evidence_wf T e)
   \<longleftrightarrow> (\<exists>s out. pr_market_snapshot S (oi_market_id intent) = Some s
       \<and> evaluate_fr41_participation_guardrail T
          \<lparr>pi_market_id = oi_market_id intent, pi_cluster_id = oi_cluster_id intent,
           pi_correlation_id = oi_correlation_id intent, pi_observed_at_utc = ms_observed_at_utc s,
           pi_liquidity_depth_usd = Some (ms_liquidity_depth_usd s),
           pi_inactivity_gap_seconds = ms_inactivity_gap_seconds s,
           pi_normal_max_order_size_units =
             lr_normal_max_order_size_units L key (oi_market_id intent) (oi_cluster_id intent)\<rparr> = Inr out
       \<and> po_guardrail_mode out \<in> {ParticipationGuardrailMode.Pass, ParticipationGuardrailMode.SizeCap}
       \<and> evidence_wf T (outcome_evidence intent t out))"
proof -
  have "gr_passed (outcome_gate_result m r t) \<longleftrightarrow> m \<in> {ParticipationGuardrailMode.Pass, ParticipationGuardrailMode.SizeCap}" for m r
    by (cases m) simp_all
  then show ?thesis
    by (auto simp: evaluate_pretrade_participation_guardrail_gate_def Let_def split: option.splits sum.splits)
qed

lemma participation_evidence_ids:
  assumes "snd (evaluate_pretrade_participation_guardrail_gate T S L intent key t) = Some e"
    and "\<not> blank (oi_market_id intent)" "\<not> blank (oi_cluster_id intent)" "\<not> blank (oi_correlation_id intent)"
  shows "normalize (pe_market_id e) = sanitize_identifier (oi_market_id intent) ''unknown_market''
    \<and> normalize (pe_cluster_id e) = sanitize_identifier (oi_cluster_id intent) ''unknown_cluster''
    \<and> normalize (pe_correlation_id e) = sanitize_identifier (oi_correlation_id intent) ''unknown_correlation''
    \<and> pe_evaluated_at_utc e = t"
proof -
  have sane: "sanitize_identifier v f = normalize v" if "\<not> blank v" for v f
    using that by (simp add: sanitize_identifier_def Let_def)
  show ?thesis
    using assms
    by (auto simp: evaluate_pretrade_participation_guardrail_gate_def Let_def sane outcome_evidence_def
        build_unavailable_participation_guardrail_evidence_def
        elim!: fr41_evaluate_cases split: option.splits sum.splits)
qed

lemma sequence_evidence_from_gate:
  "sequence_evidence T S L intent = Some e \<Longrightarrow>
     \<exists>k. snd (evaluate_pretrade_participation_guardrail_gate T S L intent k (oi_requested_at_utc intent)) = Some e"
  by (auto simp: sequence_evidence_def Let_def split: if_splits sum.splits)

text \<open>On a valid intent the decision is the sequence's, or the fallback when the evidence is invalid.\<close>

definition sequence_decision ::
    "time_crate \<Rightarrow> RuntimePolicyStateReader \<Rightarrow> RuntimeRiskLimitStateReader \<Rightarrow> OrderIntent \<Rightarrow> string
      \<Rightarrow> PreTradeGateDecision" where
  "sequence_decision T S L intent key =
     intent_decision intent (sequence_key T S intent key) (upto_failure (gate_sequence T S L intent))
       (drawdown_stopped (upto_failure (gate_sequence T S L intent))) (oi_requested_at_utc intent)
       (sequence_evidence T S L intent)"

lemma sequence_decision_wf:
  assumes "\<not> validate_pretrade_intent_inputs T intent key"
  shows "decision_wf T (sequence_decision T S L intent key) \<longleftrightarrow>
    (\<forall>e. sequence_evidence T S L intent = Some e \<longrightarrow> evidence_wf T e)"
proof
  assume "decision_wf T (sequence_decision T S L intent key)"
  then show "\<forall>e. sequence_evidence T S L intent = Some e \<longrightarrow> evidence_wf T e"
    by (auto simp: decision_wf_def sequence_decision_def intent_decision_def built_decision_def decision_evidence_wf_def)
next
  let ?rs = "upto_failure (gate_sequence T S L intent)"
  assume evidence: "\<forall>e. sequence_evidence T S L intent = Some e \<longrightarrow> evidence_wf T e"
  have valid: "\<not> blank (oi_market_id intent)" "\<not> blank (oi_cluster_id intent)" "\<not> blank (oi_correlation_id intent)"
    "utc_ok T (oi_requested_at_utc intent)"
    using assms by (simp_all add: valid_intent_iff)
  have "gate_sequence T S L intent \<noteq> []" by (simp add: gate_sequence_def Let_def)
  then show "decision_wf T (sequence_decision T S L intent key)"
    unfolding sequence_decision_def
  proof (intro intent_decision_wf)
    show "list_all (gate_result_wf T) ?rs" using upto_failure_props(2) gate_sequence_wf[OF valid(4)] .
    show "length (failed_gate_results ?rs) \<le> 1" by (rule upto_failure_props(3))
    show "?rs \<noteq> []" using \<open>gate_sequence T S L intent \<noteq> []\<close> by (simp add: upto_failure_props)
    show "\<exists>r. failed_gate_results ?rs = [r]
        \<and> gr_reason_code r = PreTradeReasonCode_code PreTradeReasonCode.DrawdownStopTriggered"
      if "drawdown_stopped ?rs" using drawdown_stopped_failed[OF that] .
    fix e assume e: "sequence_evidence T S L intent = Some e"
    obtain k where "snd (evaluate_pretrade_participation_guardrail_gate T S L intent k
        (oi_requested_at_utc intent)) = Some e"
      using sequence_evidence_from_gate[OF e] by blast
    then show "evidence_wf T e \<and> normalize (pe_market_id e) = sanitize_identifier (oi_market_id intent) ''unknown_market''
          \<and> normalize (pe_cluster_id e) = sanitize_identifier (oi_cluster_id intent) ''unknown_cluster''
          \<and> normalize (pe_correlation_id e) = sanitize_identifier (oi_correlation_id intent) ''unknown_correlation''
          \<and> pe_evaluated_at_utc e = oi_requested_at_utc intent"
      using participation_evidence_ids[OF _ valid(1-3)] evidence e by blast
  qed (use valid(4) in simp)
qed

lemma pipeline_decision:
  assumes "\<not> validate_pretrade_intent_inputs T intent key"
  shows "fst (evaluate_pretrade_gate_decision_with_limit_state_and_safe_state T S L intent key) =
    (if \<forall>e. sequence_evidence T S L intent = Some e \<longrightarrow> evidence_wf T e
     then sequence_decision T S L intent key
     else intent_fallback intent (sequence_key T S intent key) (oi_requested_at_utc intent))"
proof -
  have "normalized_pretrade_evaluated_at_utc T (oi_requested_at_utc intent) = oi_requested_at_utc intent"
    using assms by (simp add: valid_intent_iff normalized_pretrade_evaluated_at_utc_def)
  then show ?thesis
    using sequence_decision_wf[OF assms, of S L]
    unfolding pipeline_is_sequence[OF assms] finalize_decision Let_def fst_conv sequence_decision_def by presburger
qed

lemma outcome_simps [simp]:
  "gd_outcome (intent_fallback intent key t) = PreTradeDecisionOutcome.Deny"
  "gd_outcome (intent_decision intent key rs b t e) = PreTradeDecisionOutcome.Allow \<longleftrightarrow> list_all gr_passed rs"
proof -
  have "failed_gate_results rs = [] \<longleftrightarrow> list_all gr_passed rs" by (induction rs) auto
  then show "gd_outcome (intent_decision intent key rs b t e) = PreTradeDecisionOutcome.Allow \<longleftrightarrow> list_all gr_passed rs"
    by (simp add: intent_decision_def built_decision_def)
qed (simp add: intent_fallback_def build_fail_closed_pretrade_decision_def)

lemma invalid_intent_denied:
  assumes "validate_pretrade_intent_inputs T intent key"
  shows "gd_outcome (fst (evaluate_pretrade_gate_decision_with_limit_state_and_safe_state T S L intent key))
    \<noteq> PreTradeDecisionOutcome.Allow"
  using assms
  by (simp add: evaluate_pretrade_gate_decision_with_limit_state_and_safe_state_def build_invalid_payload_decision_def
      finalize_pretrade_decision_def finalize_decision Let_def)

lemma sequence_passes:
  "list_all gr_passed (gate_sequence T S L intent) \<longleftrightarrow> state_admits T S \<and> (\<exists>k. context_key T S intent k
     \<and> lz_available (evaluate_risk_limit_state_snapshot T L k (oi_requested_at_utc intent))
     \<and> gr_passed (evaluate_pretrade_venue_eligibility_gate T S intent)
     \<and> reward_risk_admits T S intent k
     \<and> gr_passed (fst (evaluate_pretrade_participation_guardrail_gate T S L intent k (oi_requested_at_utc intent))))"
proof -
  let ?t = "oi_requested_at_utc intent"
  have exposure: "gr_passed (evaluate_pretrade_exposure_limit_gate T L k ?t) \<longleftrightarrow>
      lz_available (evaluate_risk_limit_state_snapshot T L k ?t)" for k
    by (simp add: evaluate_pretrade_exposure_limit_gate_def)
  have "list_all gr_passed (gate_sequence T S L intent) \<longleftrightarrow>
      gr_passed (evaluate_pretrade_freshness_gate S ?t) \<and> gr_passed (evaluate_pretrade_stream_health_gate T S ?t)
    \<and> (\<exists>c. resolve_pretrade_policy_context T S intent ?t = Inr c
        \<and> list_all gr_passed (keyed_gates T S L intent (pc_risk_policy_key c)))"
    using context_answer[THEN conjunct2]
    by (cases "resolve_pretrade_policy_context T S intent ?t") (simp_all add: gate_sequence_def Let_def)
  then show ?thesis
    unfolding state_gates_pass[of S ?t T, symmetric] context_key_iff[of T S intent _ ?t]
      reward_risk_gate_pass[symmetric] exposure[symmetric]
    by (auto simp: keyed_gates_def Let_def)
qed

lemma all_passed_evidence:
  assumes "list_all gr_passed (gate_sequence T S L intent)" "context_key T S intent k"
  shows "sequence_evidence T S L intent =
    snd (evaluate_pretrade_participation_guardrail_gate T S L intent k (oi_requested_at_utc intent))"
proof -
  obtain c where c: "resolve_pretrade_policy_context T S intent (oi_requested_at_utc intent) = Inr c"
    "pc_risk_policy_key c = k"
    using assms(2) context_key_iff by blast
  have "list_all gr_passed rs \<Longrightarrow> upto_failure rs = rs" for rs by (induction rs) auto
  then have "upto_failure (gate_sequence T S L intent) = gate_sequence T S L intent" using assms(1) by blast
  then show ?thesis
    using c by (simp add: sequence_evidence_def Let_def) (simp add: gate_sequence_def keyed_gates_def sequence_gates Let_def)
qed

lemma invalid_pipeline:
  assumes "validate_pretrade_intent_inputs T intent key"
  defines "t \<equiv> normalized_pretrade_evaluated_at_utc T (oi_requested_at_utc intent)"
  shows "fst (evaluate_pretrade_gate_decision_with_limit_state_and_safe_state T S L intent key) =
    fst (finalize_pretrade_decision_with_guardrail T intent key
      [build_pretrade_gate_result Freshness False PreTradeReasonCode.InvalidPayload t] False t None)"
  using assms by (simp add: evaluate_pretrade_gate_decision_with_limit_state_and_safe_state_def Let_def
      build_invalid_payload_decision_def finalize_pretrade_decision_def)

lemma pipeline_wf:
  assumes "utc_ok T FALLBACK_PRETRADE_EVALUATED_AT_UTC"
  shows "decision_wf T (fst (evaluate_pretrade_gate_decision_with_limit_state_and_safe_state T S L intent key))"
  using finalize_wf[OF assms]
  by (cases "validate_pretrade_intent_inputs T intent key") (simp_all add: invalid_pipeline pipeline_is_sequence)

lemma pipeline_allows_iff:
  "gd_outcome (fst (evaluate_pretrade_gate_decision_with_limit_state_and_safe_state T S L intent key)) =
     PreTradeDecisionOutcome.Allow \<longleftrightarrow>
   (list_all (\<lambda>v. \<not> blank v)
      [oi_intent_id intent, oi_market_id intent, oi_cluster_id intent, oi_correlation_id intent]
    \<and> utc_ok T (oi_requested_at_utc intent))
   \<and> state_admits T S
   \<and> (\<exists>k. context_key T S intent k
       \<and> lz_available (evaluate_risk_limit_state_snapshot T L k (oi_requested_at_utc intent))
       \<and> ed_tradable (evaluate_market_eligibility T (pr_market_snapshot S (oi_market_id intent))
           (pr_market_policy_profile S (oi_cluster_id intent)) (pr_cluster_override S (oi_cluster_id intent))
           (oi_correlation_id intent) (oi_requested_at_utc intent))
       \<and> reward_risk_admits T S intent k \<and> participation_admits T S L intent k)"
proof (cases "validate_pretrade_intent_inputs T intent key")
  case True
  then show ?thesis using invalid_intent_denied[OF True] unfolding valid_intent_iff by blast
next
  case False
  let ?t = "oi_requested_at_utc intent"
  have venue: "gr_passed (evaluate_pretrade_venue_eligibility_gate T S intent) \<longleftrightarrow>
      ed_tradable (evaluate_market_eligibility T (pr_market_snapshot S (oi_market_id intent))
        (pr_market_policy_profile S (oi_cluster_id intent)) (pr_cluster_override S (oi_cluster_id intent))
        (oi_correlation_id intent) ?t)"
    by (simp add: evaluate_pretrade_venue_eligibility_gate_def Let_def decision_consistent)
  have "gd_outcome (fst (evaluate_pretrade_gate_decision_with_limit_state_and_safe_state T S L intent key)) =
      PreTradeDecisionOutcome.Allow \<longleftrightarrow>
      list_all gr_passed (gate_sequence T S L intent) \<and> (\<forall>e. sequence_evidence T S L intent = Some e \<longrightarrow> evidence_wf T e)"
    by (auto simp: pipeline_decision[OF False] sequence_decision_def upto_failure_props)
  also have "\<dots> \<longleftrightarrow> state_admits T S \<and> (\<exists>k. context_key T S intent k
       \<and> lz_available (evaluate_risk_limit_state_snapshot T L k ?t)
       \<and> gr_passed (evaluate_pretrade_venue_eligibility_gate T S intent)
       \<and> reward_risk_admits T S intent k \<and> participation_admits T S L intent k)"
    unfolding participation_admits_def participation_gate_pass[symmetric]
    using sequence_passes[of T S L intent] all_passed_evidence[of T S L intent] by metis
  finally show ?thesis using False unfolding venue valid_intent_iff by blast
qed

lemma order_allowed_only_if_admitted:
  "gd_outcome (fst (evaluate_pretrade_gate_decision_with_limit_state_and_safe_state T S L intent key)) =
     PreTradeDecisionOutcome.Allow \<Longrightarrow> state_admits T S"
  by (simp add: pipeline_allows_iff)

section \<open>Properties\<close>

text \<open>
  C1: The pipeline allows an order exactly when the intent is valid and every gate's condition
  holds: known and unpaused freshness, a healthy stream, no reconciliation halt, no expired
  user-stream authorisation, a drawdown below the stop, an active strategy, and - under the risk
  policy key the market's bucket resolves to - available limits, a tradable market, a reward
  per risk at or above the threshold, and a participation guardrail that passes or caps with
  evidence its own validator accepts. Anything missing, stale or malformed denies.
\<close>

theorem order_allowed_iff:
  "gd_outcome (fst (evaluate_pretrade_gate_decision_with_limit_state_and_safe_state T S L intent key)) =
     PreTradeDecisionOutcome.Allow \<longleftrightarrow>
   (list_all (\<lambda>v. \<not> blank v)
      [oi_intent_id intent, oi_market_id intent, oi_cluster_id intent, oi_correlation_id intent]
    \<and> utc_ok T (oi_requested_at_utc intent))
   \<and> state_admits T S
   \<and> (\<exists>k. context_key T S intent k
       \<and> lz_available (evaluate_risk_limit_state_snapshot T L k (oi_requested_at_utc intent))
       \<and> ed_tradable (evaluate_market_eligibility T (pr_market_snapshot S (oi_market_id intent))
           (pr_market_policy_profile S (oi_cluster_id intent)) (pr_cluster_override S (oi_cluster_id intent))
           (oi_correlation_id intent) (oi_requested_at_utc intent))
       \<and> reward_risk_admits T S intent k \<and> participation_admits T S L intent k)"
  by (rule pipeline_allows_iff)

text \<open>
  C6: Every decision the pipeline hands out, the fallback included, passes the decision
  validator, lists its gate results in strictly ascending gate order, and fails at most one
  gate, the last one it lists.
\<close>

theorem pipeline_decisions_valid:
  assumes "utc_ok T FALLBACK_PRETRADE_EVALUATED_AT_UTC"
  shows "(let d = fst (evaluate_pretrade_gate_decision_with_limit_state_and_safe_state T S L intent key) in
     validate_pretrade_gate_decision T d = Inr ()
   \<and> sorted_wrt (<) (map gr_gate (gd_gate_results d))
   \<and> list_all gr_passed (butlast (gd_gate_results d))
   \<and> (gd_outcome d = PreTradeDecisionOutcome.Deny \<longleftrightarrow> \<not> gr_passed (last (gd_gate_results d))))"
proof (cases "validate_pretrade_intent_inputs T intent key")
  case True
  let ?t = "normalized_pretrade_evaluated_at_utc T (oi_requested_at_utc intent)"
  let ?rs = "[build_pretrade_gate_result Freshness False PreTradeReasonCode.InvalidPayload ?t]"
  note eq = invalid_pipeline[OF True, of S L]
  have denied: "\<exists>u. gd_gate_results (fst (finalize_pretrade_decision_with_guardrail T intent key ?rs False ?t None)) =
      [build_pretrade_gate_result Freshness False PreTradeReasonCode.InvalidPayload u]"
    unfolding finalize_decision Let_def fst_conv
    by (simp only: if_distrib[of gd_gate_results] intent_decision_def built_decision_def intent_fallback_def
        build_fail_closed_pretrade_decision_def PreTradeGateDecision.simps split: if_split) blast
  show ?thesis
    using denied finalize_wf[OF assms, of intent key ?rs False ?t None] invalid_intent_denied[OF True, of S L]
    unfolding eq by (cases "gd_outcome (fst (finalize_pretrade_decision_with_guardrail T intent key ?rs False ?t None))")
      (auto simp: Let_def)
next
  case False
  let ?d = "fst (evaluate_pretrade_gate_decision_with_limit_state_and_safe_state T S L intent key)"
  have wf: "decision_wf T ?d" by (rule pipeline_wf[OF assms])
  have results: "gd_gate_results ?d = upto_failure (gate_sequence T S L intent)
      \<or> gd_gate_results ?d = [build_pretrade_gate_result Freshness False PreTradeReasonCode.InvalidPayload
          (oi_requested_at_utc intent)]"
    by (simp add: pipeline_decision[OF False] sequence_decision_def intent_decision_def built_decision_def
        intent_fallback_def build_fail_closed_pretrade_decision_def)
  have cut: "list_all gr_passed (butlast (upto_failure rs))" for rs
    by (induction rs) (auto simp: upto_failure_props)
  have last: "list_all gr_passed rs \<longleftrightarrow> gr_passed (last rs)" if "list_all gr_passed (butlast rs)" "rs \<noteq> []" for rs
    using that by (induction rs) auto
  have "outcome_wf ?d" "gd_gate_results ?d \<noteq> []" using wf by (auto simp: decision_wf_def)
  moreover have "list_all gr_passed (butlast (gd_gate_results ?d))"
    using results cut by (elim disjE) simp_all
  moreover have "sorted_wrt (<) (map gr_gate (gd_gate_results ?d))"
    using results upto_failure_sorted[OF gate_sequence_ascending, of T S L intent] by (elim disjE) simp_all
  moreover have "gd_outcome ?d = PreTradeDecisionOutcome.Deny \<longleftrightarrow> gd_outcome ?d \<noteq> PreTradeDecisionOutcome.Allow"
    by (cases "gd_outcome ?d") auto
  ultimately show ?thesis
    unfolding Let_def using wf last[of "gd_gate_results ?d"] outcome_wf_cases(1)[of ?d] by simp
qed

theorem pipeline_decisions_valid_witness:
  "gd_outcome (fst (evaluate_pretrade_gate_decision_with_limit_state_and_safe_state demo_time
     (in_memory_policy_reader InMemoryRuntimePolicyState_default)
     (in_memory_limit_reader InMemoryRiskLimitState_default)
     \<lparr>oi_intent_id = ''i'', oi_market_id = ''m'', oi_cluster_id = ''c'', oi_correlation_id = ''k'',
      oi_requested_at_utc = ''2026-04-06T00:00:00Z''\<rparr> ''p'')) = PreTradeDecisionOutcome.Deny"
  (is "gd_outcome (fst ?d) = _")
proof -
  have "utc_ok demo_time FALLBACK_PRETRADE_EVALUATED_AT_UTC" by code_simp
  note valid = pipeline_decisions_valid[OF this, of "in_memory_policy_reader InMemoryRuntimePolicyState_default"
    "in_memory_limit_reader InMemoryRiskLimitState_default" "\<lparr>oi_intent_id = ''i'', oi_market_id = ''m'',
      oi_cluster_id = ''c'', oi_correlation_id = ''k'', oi_requested_at_utc = ''2026-04-06T00:00:00Z''\<rparr>" "''p''"]
  have "\<not> gr_passed (last (gd_gate_results (fst ?d)))" by code_simp
  then show ?thesis using valid by (simp add: Let_def)
qed

section \<open>Signals\<close>

lemma emergency_needs_denial: "emergency_of_reason PreTradeReasonCode.Pass = None"
  by simp

lemma decision_reason_known: "decision_wf T d \<Longrightarrow> \<exists>c. gd_reason_code d = PreTradeReasonCode_code c"
  by (rule outcome_reason_known) (auto simp: decision_wf_def)

lemma pipeline_signals:
  "snd (evaluate_pretrade_gate_decision_with_limit_state_and_safe_state T S L intent key) =
    (if validate_pretrade_intent_inputs T intent key then []
     else decision_signals (fst (evaluate_pretrade_gate_decision_with_limit_state_and_safe_state T S L intent key)))"
proof (cases "validate_pretrade_intent_inputs T intent key")
  case True
  then show ?thesis by (simp add: evaluate_pretrade_gate_decision_with_limit_state_and_safe_state_def)
next
  case False
  then show ?thesis by (simp add: pipeline_is_sequence[OF False] finalize_decision Let_def)
qed

text \<open>Protective mode is exactly the drawdown stop.\<close>

lemma pipeline_protective_iff:
  fixes T S L intent key
  assumes "\<not> validate_pretrade_intent_inputs T intent key"
  defines "d \<equiv> fst (evaluate_pretrade_gate_decision_with_limit_state_and_safe_state T S L intent key)"
  shows "gd_protective_mode_active d \<longleftrightarrow>
    gd_reason_code d = PreTradeReasonCode_code PreTradeReasonCode.DrawdownStopTriggered"
proof (cases "\<forall>e. sequence_evidence T S L intent = Some e \<longrightarrow> evidence_wf T e")
  case False
  then have "d = intent_fallback intent (sequence_key T S intent key) (oi_requested_at_utc intent)"
    unfolding d_def pipeline_decision[OF assms(1)] by (rule if_not_P)
  then show ?thesis by (simp add: intent_fallback_def build_fail_closed_pretrade_decision_def)
next
  case True
  let ?rs = "upto_failure (gate_sequence T S L intent)"
  have d: "d = sequence_decision T S L intent key"
    unfolding d_def pipeline_decision[OF assms(1)] using True by (rule if_P)
  show ?thesis
  proof (cases "failed_gate_results ?rs")
    case Nil
    then have "\<not> drawdown_stopped ?rs" using drawdown_stopped_failed by fastforce
    then show ?thesis using Nil by (simp add: d sequence_decision_def intent_decision_def built_decision_def)
  next
    case (Cons r rest)
    then have "r \<in> set ?rs" using filter_set[of "\<lambda>r. \<not> gr_passed r" ?rs] by (metis list.set_intros(1) filter_is_subset subsetD)
    then show ?thesis
      using Cons drawdown_stopped_failed[of T S L intent]
      by (auto simp: d sequence_decision_def intent_decision_def built_decision_def drawdown_stopped_def
          simp del: PreTradeReasonCode_code.simps)
  qed
qed

text \<open>The emergency signal of a denial, by the text of its reason.\<close>

lemma emergency_signal_of_code:
  assumes "outcome_wf d" "gd_reason_code d = PreTradeReasonCode_code c"
  shows "map_pretrade_reason_to_emergency_signal d = map_option (\<lambda>(source, code).
      \<lparr>es_action = EmergencyControlAction.Pause, es_trigger_source = source, es_reason_code = EmergencyControlReasonCode_code code,
       es_correlation_id = gd_correlation_id d, es_triggered_at_utc = gd_evaluated_at_utc d\<rparr>) (emergency_of_reason c)"
  using assms emergency_needs_denial
  by (cases "gd_outcome d")
    (auto simp: map_pretrade_reason_to_emergency_signal_def outcome_wf_def
      simp del: PreTradeReasonCode_code.simps emergency_of_reason.simps)

lemma emergency_table:
  "map_option (\<lambda>(source, code). (source, EmergencyControlReasonCode_code code)) (emergency_of_reason c) =
    (let reason = PreTradeReasonCode_code c in
     if reason = ''pretrade_freshness_stale_breach''
     then Some (EmergencyControlTriggerSource.StaleFeed, ''emergency_control_stale_feed_triggered'')
     else if reason = ''pretrade_reconciliation_critical_halt''
     then Some (EmergencyControlTriggerSource.ReconciliationCritical, ''emergency_control_reconciliation_critical_triggered'')
     else if reason \<in> {''pretrade_freshness_state_unavailable'', ''pretrade_stream_health_state_unavailable'',
         ''pretrade_risk_limit_state_unavailable'', ''pretrade_stratification_state_unavailable'',
         ''pretrade_strategy_approval_unavailable'', ''pretrade_venue_eligibility_unavailable'',
         ''pretrade_reward_risk_state_unavailable'', ''pretrade_participation_guardrail_unavailable''}
     then Some (EmergencyControlTriggerSource.ControlUncertainty, ''emergency_control_control_uncertainty_triggered'')
     else None)"
  by (cases c) simp_all

text \<open>
  C8: Which signals a decision raises. An intent that is not valid raises none. A denial by the
  drawdown stop asserts the protective mode, and nothing else does; a denial for a stale feed, a
  critical reconciliation halt or a state that is missing (of freshness, stream health, limits,
  stratification, approval, eligibility, reward or participation) asks for an emergency pause
  with the trigger and the reason of its kind; every other decision raises none. A signal carries
  the correlation id and the time of its decision.
\<close>

theorem signals_by_reason:
  assumes "utc_ok T FALLBACK_PRETRADE_EVALUATED_AT_UTC"
  shows "(let (d, signals) = evaluate_pretrade_gate_decision_with_limit_state_and_safe_state T S L intent key;
      valid = (\<not> validate_pretrade_intent_inputs T intent key);
      reason = gd_reason_code d;
      pause = (\<lambda>source code. [signal_emergency_safe_state
        \<lparr>es_action = EmergencyControlAction.Pause, es_trigger_source = source, es_reason_code = code,
         es_correlation_id = gd_correlation_id d, es_triggered_at_utc = gd_evaluated_at_utc d\<rparr>]) in
     signals =
       (if \<not> valid then []
        else if reason = ''pretrade_drawdown_stop_triggered''
        then [signal_drawdown_protective_mode \<lparr>ds_active = True, ds_reason_code = reason,
            ds_correlation_id = gd_correlation_id d, ds_triggered_at_utc = gd_evaluated_at_utc d\<rparr>]
        else if reason = ''pretrade_freshness_stale_breach''
        then pause EmergencyControlTriggerSource.StaleFeed ''emergency_control_stale_feed_triggered''
        else if reason = ''pretrade_reconciliation_critical_halt''
        then pause EmergencyControlTriggerSource.ReconciliationCritical ''emergency_control_reconciliation_critical_triggered''
        else if reason \<in> {''pretrade_freshness_state_unavailable'', ''pretrade_stream_health_state_unavailable'',
            ''pretrade_risk_limit_state_unavailable'', ''pretrade_stratification_state_unavailable'',
            ''pretrade_strategy_approval_unavailable'', ''pretrade_venue_eligibility_unavailable'',
            ''pretrade_reward_risk_state_unavailable'', ''pretrade_participation_guardrail_unavailable''}
        then pause EmergencyControlTriggerSource.ControlUncertainty ''emergency_control_control_uncertainty_triggered''
        else [])
   \<and> (signals = [] \<or> gd_outcome d = PreTradeDecisionOutcome.Deny)
   \<and> (gd_protective_mode_active d \<longleftrightarrow> valid \<and> reason = ''pretrade_drawdown_stop_triggered''))"
proof -
  let ?p = "evaluate_pretrade_gate_decision_with_limit_state_and_safe_state T S L intent key"
  have valid: "validate_pretrade_gate_decision T (fst ?p) = Inr ()"
    using pipeline_wf[OF assms, of S L intent key] by simp
  then obtain c where wf: "outcome_wf (fst ?p)" and c: "gd_reason_code (fst ?p) = PreTradeReasonCode_code c"
    using decision_reason_known by (auto simp: decision_wf_def)
  show ?thesis
  proof (cases "validate_pretrade_intent_inputs T intent key")
    case True
    then have "\<not> gd_protective_mode_active (fst ?p)"
      by (simp add: evaluate_pretrade_gate_decision_with_limit_state_and_safe_state_def build_invalid_payload_decision_def
          finalize_pretrade_decision_def finalize_decision Let_def intent_decision_def built_decision_def
          intent_fallback_def build_fail_closed_pretrade_decision_def)
    then show ?thesis using True pipeline_signals[of T S L intent key] by (simp add: Let_def case_prod_beta)
  next
    case False
    have prot: "gd_protective_mode_active (fst ?p) \<longleftrightarrow> PreTradeReasonCode_code c = ''pretrade_drawdown_stop_triggered''"
      using pipeline_protective_iff[OF False, of S L] c by simp
    have deny: "gd_outcome (fst ?p) = PreTradeDecisionOutcome.Deny"
      if "map_pretrade_reason_to_emergency_signal (fst ?p) \<noteq> None \<or> gd_protective_mode_active (fst ?p)"
      using that wf(1) pipeline_protective_iff[OF False, of S L] by (cases "gd_outcome (fst ?p)")
        (auto simp: map_pretrade_reason_to_emergency_signal_def outcome_wf_def simp del: PreTradeReasonCode_code.simps)
    have signals: "snd ?p = decision_signals (fst ?p)"
      using False pipeline_signals[of T S L intent key] by simp
    note mapped = emergency_signal_of_code[OF wf c]
    show ?thesis
      unfolding Let_def case_prod_beta signals decision_signals_def mapped c prot
      using False deny[unfolded mapped prot] by (cases c) simp_all
  qed
qed

definition demo_intent :: OrderIntent where
  "demo_intent = \<lparr>oi_intent_id = ''i'', oi_market_id = ''m'', oi_cluster_id = ''c'', oi_correlation_id = ''k'',
     oi_requested_at_utc = ''2026-04-06T00:00:00Z''\<rparr>"

theorem signals_by_reason_witness:
  "\<exists>x. signal_emergency_safe_state x \<in> set (snd (evaluate_pretrade_gate_decision_with_limit_state_and_safe_state
     demo_time (in_memory_policy_reader InMemoryRuntimePolicyState_default)
     (in_memory_limit_reader InMemoryRiskLimitState_default) demo_intent ''p''))"
  (is "\<exists>x. _ \<in> set (snd ?p)")
proof -
  have ok: "utc_ok demo_time FALLBACK_PRETRADE_EVALUATED_AT_UTC" by code_simp
  have valid: "\<not> validate_pretrade_intent_inputs demo_time demo_intent ''p''" by code_simp
  have reason: "gd_reason_code (fst ?p) = PreTradeReasonCode_code PreTradeReasonCode.FreshnessStateUnavailable" by code_simp
  have "emergency_of_reason PreTradeReasonCode.FreshnessStateUnavailable \<noteq> None" by simp
  then show ?thesis
    using signals_by_reason[OF ok, of "in_memory_policy_reader InMemoryRuntimePolicyState_default"
        "in_memory_limit_reader InMemoryRiskLimitState_default" demo_intent "''p''"] valid reason
    unfolding Let_def case_prod_beta by auto
qed

text \<open>
  The older order-intent gate has no freshness state of its own to demand: it opens where the
  pipeline denies.
\<close>

lemma order_intent_gate_opens_without_freshness:
  "og_allowed (evaluate_order_intent_gate
      (in_memory_policy_reader (InMemoryRuntimePolicyState_default
        \<lparr>im_overrides := [''c'' \<mapsto> \<lparr>co_cluster_id = ''c'', co_is_enabled = True, co_reason_code = [], co_actor_id = [],
           co_correlation_id = [], co_updated_at_utc = []\<rparr>]\<rparr>)) demo_intent)
   \<and> im_freshness_state InMemoryRuntimePolicyState_default = None"
  by code_simp

end
