(* ===== verification/RuntimeControl.thy ===== *)
theory RuntimeControl
  imports GatePipeline
begin

text \<open>
  The run-time state and the pipeline together: a reconciliation halt, an expired user-stream
  authorisation or a freshness pause denies every order, and stays until the operation that
  lifts it is called.
\<close>

section \<open>Histories of the state\<close>

datatype PolicyOperation =
    upsert_cluster_override_op MarketClusterOverride
  | set_user_stream_auth_block_op bool
  | set_freshness_pause_op bool string
  | clear_freshness_state_op
  | set_reconciliation_halt_op bool string
  | set_stream_health_state_op RuntimeStreamHealthState
  | clear_stream_health_state_op
  | set_drawdown_state_op RuntimeDrawdownState
  | clear_drawdown_state_op
  | set_strategy_approval_state_op RuntimeStrategyApprovalState
  | clear_strategy_approval_state_op
  | upsert_market_snapshot_op MarketSnapshot
  | upsert_market_policy_profile_op MarketPolicyProfile
  | upsert_market_bucket_profile_op MarketBucketProfile
  | upsert_reward_risk_policy_op RewardRiskPolicy
  | take_regime_shift_detections_op

inductive policy_step ::
    "time_crate \<Rightarrow> InMemoryRuntimePolicyState \<Rightarrow> PolicyOperation \<Rightarrow> InMemoryRuntimePolicyState \<Rightarrow> bool" for T where
  "policy_step T st (upsert_cluster_override_op x) (upsert_cluster_override x st)"
| "policy_step T st (set_user_stream_auth_block_op b) (set_user_stream_auth_block b st)"
| "policy_step T st (set_freshness_pause_op b r) (set_freshness_pause b r st)"
| "policy_step T st clear_freshness_state_op (clear_freshness_state st)"
| "policy_step T st (set_reconciliation_halt_op b r) (set_reconciliation_halt b r st)"
| "policy_step T st (set_stream_health_state_op x) (set_stream_health_state x st)"
| "policy_step T st clear_stream_health_state_op (clear_stream_health_state st)"
| "policy_step T st (set_drawdown_state_op x) (set_drawdown_state x st)"
| "policy_step T st clear_drawdown_state_op (clear_drawdown_state st)"
| "policy_step T st (set_strategy_approval_state_op x) (set_strategy_approval_state x st)"
| "policy_step T st clear_strategy_approval_state_op (clear_strategy_approval_state st)"
| "policy_step T st (upsert_market_snapshot_op x) (upsert_market_snapshot T x st)"
| "policy_step T st (upsert_market_policy_profile_op x) (upsert_market_policy_profile x st)"
| "policy_step T st (upsert_market_bucket_profile_op x) (upsert_market_bucket_profile x st)"
| "policy_step T st (upsert_reward_risk_policy_op x) (upsert_reward_risk_policy x st)"
| "policy_step T st take_regime_shift_detections_op (snd (take_regime_shift_detections st))"

inductive policy_history ::
    "time_crate \<Rightarrow> InMemoryRuntimePolicyState \<Rightarrow> PolicyOperation list \<Rightarrow> InMemoryRuntimePolicyState \<Rightarrow> bool" for T where
  history_empty: "policy_history T st [] st"
| history_step: "policy_history T st ops st' \<Longrightarrow> policy_step T st' op st'' \<Longrightarrow> policy_history T st (ops @ [op]) st''"

section \<open>What blocks\<close>

datatype Block = ReconciliationBlock | AuthBlock | FreshnessBlock

fun block_active :: "Block \<Rightarrow> InMemoryRuntimePolicyState \<Rightarrow> bool" where
  "block_active ReconciliationBlock st \<longleftrightarrow> im_reconciliation_halt_reason_code st \<noteq> None"
| "block_active AuthBlock st \<longleftrightarrow> im_auth_block_active st"
| "block_active FreshnessBlock st \<longleftrightarrow> (case im_freshness_state st of None \<Rightarrow> True | Some f \<Rightarrow> zf_pause_active f)"

fun lifts :: "Block \<Rightarrow> PolicyOperation \<Rightarrow> bool" where
  "lifts ReconciliationBlock (set_reconciliation_halt_op b r) \<longleftrightarrow> \<not> b"
| "lifts AuthBlock (set_user_stream_auth_block_op b) \<longleftrightarrow> \<not> b"
| "lifts FreshnessBlock (set_freshness_pause_op b r) \<longleftrightarrow> \<not> b"
| "lifts _ _ \<longleftrightarrow> False"

lemmas policy_operations =
  upsert_cluster_override_def set_user_stream_auth_block_def set_freshness_pause_def clear_freshness_state_def
  set_reconciliation_halt_def set_stream_health_state_def clear_stream_health_state_def set_drawdown_state_def
  clear_drawdown_state_def set_strategy_approval_state_def clear_strategy_approval_state_def
  upsert_market_policy_profile_def upsert_market_bucket_profile_def
  upsert_reward_risk_policy_def take_regime_shift_detections_def

lemma snapshot_keeps_blocks:
  "im_reconciliation_halt_reason_code (upsert_market_snapshot T s st) = im_reconciliation_halt_reason_code st"
  "im_auth_block_active (upsert_market_snapshot T s st) = im_auth_block_active st"
  "im_freshness_state (upsert_market_snapshot T s st) = im_freshness_state st"
  by (simp_all add: upsert_market_snapshot_def Let_def split: option.split sum.split)

lemma block_step:
  assumes "policy_step T st op st'" "block_active b st" "\<not> lifts b op"
  shows "block_active b st'"
  using assms snapshot_keeps_blocks
  by (cases b) (cases rule: policy_step.cases, assumption, simp_all add: policy_operations)+

lemma block_history:
  assumes "policy_history T st ops st'" "block_active b st" "list_all (\<lambda>op. \<not> lifts b op) ops"
  shows "block_active b st'"
  using assms by induction (auto intro: block_step)

lemma blocked_denied:
  assumes "block_active b st"
  shows "\<not> state_admits T (in_memory_policy_reader st)"
  using assms by (cases b) (auto simp: state_admits_def in_memory_policy_reader_def)

section \<open>Properties\<close>

text \<open>
  C3: Once a reconciliation halt, an expired user-stream authorisation or a freshness pause (or
  the loss of the freshness state) is in place, every order is denied after any history of
  operations on the state that does not call the one operation that lifts it, whatever the
  limits, the intent and the rest of the state.
\<close>

theorem block_denies_until_lifted:
  assumes "policy_history T st ops st'" "block_active b st" "list_all (\<lambda>op. \<not> lifts b op) ops"
  shows "gd_outcome (fst (evaluate_pretrade_gate_decision_with_limit_state_and_safe_state T
      (in_memory_policy_reader st') L intent key)) = PreTradeDecisionOutcome.Deny"
  using blocked_denied[OF block_history[OF assms], of T]
    order_allowed_only_if_admitted[of T "in_memory_policy_reader st'" L intent key]
  by (cases "gd_outcome (fst (evaluate_pretrade_gate_decision_with_limit_state_and_safe_state T
      (in_memory_policy_reader st') L intent key))") auto

theorem block_denies_until_lifted_witness:
  "gd_outcome (fst (evaluate_pretrade_gate_decision_with_limit_state_and_safe_state demo_time
      (in_memory_policy_reader (set_user_stream_auth_block False
        (set_reconciliation_halt True ''x'' InMemoryRuntimePolicyState_default)))
      (in_memory_limit_reader InMemoryRiskLimitState_default) demo_intent ''p'')) = PreTradeDecisionOutcome.Deny"
proof (rule block_denies_until_lifted)
  let ?s = "set_reconciliation_halt True ''x'' InMemoryRuntimePolicyState_default"
  show "policy_history demo_time ?s [set_user_stream_auth_block_op False] (set_user_stream_auth_block False ?s)"
    using history_step[OF history_empty policy_step.intros(2)] by simp
  show "block_active ReconciliationBlock ?s" by (simp add: set_reconciliation_halt_def)
qed simp

end
