(* ===== verification/Database.thy ===== *)
theory Database
  imports Prelude
begin

text \<open>
  What the persistence modules of \<open>crates/persistence/src/postgres\<close> share: the faults the
  database may answer a statement with, and one statement of a transaction. PostgreSQL is not
  modelled: a call is given the fault of each of its statements.
\<close>

text \<open>What \<open>sqlx\<close> reports for a failed statement: the code of a database error, and a text.\<close>

record db_fault =
  df_code :: "string option"
  df_text :: string

type_synonym db_faults = "string \<Rightarrow> db_fault option"

definition is_constraint_error :: "'f db_fault_scheme \<Rightarrow> bool" where
  "is_constraint_error error = (case df_code error of
      Some code \<Rightarrow> take 2 code = ''23'' \<or> code = ''55000''
    | None \<Rightarrow> False)"

text \<open>\<open>sqlx::query(..)..await.map_err(|error| classify(operation, error))?\<close>\<close>

definition statement :: "(string \<Rightarrow> 'f \<Rightarrow> 'e) \<Rightarrow> (string \<Rightarrow> 'f option) \<Rightarrow> string \<Rightarrow> 'a \<Rightarrow> 'e + 'a" where
  "statement classify faults operation value = (case faults operation of
      Some error \<Rightarrow> Inl (classify operation error)
    | None \<Rightarrow> Inr value)"

lemma statement_Inr [simp]: "statement classify faults op v = Inr w \<longleftrightarrow> faults op = None \<and> v = w"
  by (auto simp: statement_def split: option.splits)

lemma statement_ok [simp]: "faults op = None \<Longrightarrow> statement classify faults op v = Inr v"
  by simp

text \<open>
  A database error with the constraint it names and its own message, and the violation an insert
  meets when no other fault comes first.
\<close>

record constraint_fault = db_fault +
  df_constraint :: "string option"
  df_message :: string

type_synonym constraint_faults = "string \<Rightarrow> constraint_fault option"

definition violation :: "string \<Rightarrow> string \<Rightarrow> constraint_fault" where
  "violation code constraint =
     \<lparr>df_code = Some code, df_text = ''error returned from database: '' @ constraint,
      df_constraint = Some constraint, df_message = constraint\<rparr>"

definition constrained :: "constraint_faults \<Rightarrow> constraint_fault option \<Rightarrow> constraint_faults" where
  "constrained faults violated operation = (case faults operation of Some error \<Rightarrow> Some error | None \<Rightarrow> violated)"

lemma constrained_None [simp]: "constrained faults violated op = None \<longleftrightarrow> faults op = None \<and> violated = None"
  by (simp add: constrained_def split: option.splits)

text \<open>
  What the queries rely on in PostgreSQL: the instant of a stored timestamp, how it is read
  back, the order of texts, and \<open>lower(trim(..))\<close>.
\<close>

record pg_types =
  pg_instant :: "string \<Rightarrow> int"
  pg_to_char :: "string \<Rightarrow> string"
  pg_text_less :: "string \<Rightarrow> string \<Rightarrow> bool"
  pg_lower_trim :: "string \<Rightarrow> string"

text \<open>An instance, for concrete runs.\<close>

definition demo_pg :: pg_types where
  "demo_pg = \<lparr>pg_instant = (\<lambda>v. case parse_utc_timestamp demo_time v of Some t \<Rightarrow> t | None \<Rightarrow> 0),
     pg_to_char = (\<lambda>v. v), pg_text_less = (\<lambda>a b. length a < length b), pg_lower_trim = normalize\<rparr>"

text \<open>A transaction: an error rolls the tables back.\<close>

definition transact :: "('s \<Rightarrow> 'e + 'a \<times> 's) \<Rightarrow> 's \<Rightarrow> ('e + 'a) \<times> 's" where
  "transact tx st = (case tx st of Inl error \<Rightarrow> (Inl error, st) | Inr (outcome, st') \<Rightarrow> (Inr outcome, st'))"

lemma transact_cases:
  assumes "transact tx st = (r, st')"
  obtains e where "tx st = Inl e" "r = Inl e" "st' = st"
  | a where "tx st = Inr (a, st')" "r = Inr a"
  using assms by (auto simp: transact_def split: sum.splits prod.splits)

lemma transact_error_keeps: "fst (transact tx st) = Inl e \<Longrightarrow> snd (transact tx st) = st"
  by (auto simp: transact_def split: sum.splits prod.splits)

lemma transact_Inr: "transact tx st = (Inr a, st') \<longleftrightarrow> tx st = Inr (a, st')"
  by (auto simp: transact_def split: sum.splits prod.splits)

lemma transact_Inl: "transact tx st = (Inl e, st') \<Longrightarrow> st' = st"
  by (erule transact_cases) simp_all

lemma map_err_Inl_iff: "map_err g r = Inl e \<longleftrightarrow> (\<exists>x. r = Inl x \<and> e = g x)"
  by (cases r) auto

text \<open>Rows found by their key.\<close>

lemma find_map_key: "(\<And>x. key (f x) = key x) \<Longrightarrow> find (\<lambda>x. key x = k) (map f xs) = map_option f (find (\<lambda>x. key x = k) xs)"
  by (induction xs) auto

lemma find_key: "find (\<lambda>x. key x = k) xs = Some x \<Longrightarrow> key x = k"
  by (induction xs) (auto split: if_splits)

text \<open>\<open>ORDER BY\<close> over a strict order.\<close>

fun insert_by :: "('a \<Rightarrow> 'a \<Rightarrow> bool) \<Rightarrow> 'a \<Rightarrow> 'a list \<Rightarrow> 'a list" where
  "insert_by before x [] = [x]"
| "insert_by before x (y # ys) = (if before y x then y # insert_by before x ys else x # y # ys)"

definition order_by :: "('a \<Rightarrow> 'a \<Rightarrow> bool) \<Rightarrow> 'a list \<Rightarrow> 'a list" where
  "order_by before xs = foldr (insert_by before) xs []"

text \<open>\<open>rows.into_iter().map(decode).collect()\<close>\<close>

fun collect_rows :: "('a \<Rightarrow> 'e + 'b) \<Rightarrow> 'a list \<Rightarrow> 'e + 'b list" where
  "collect_rows f [] = Inr []"
| "collect_rows f (x # xs) = and_then (f x) (\<lambda>b. and_then (collect_rows f xs) (\<lambda>bs. Inr (b # bs)))"

end
