(* ===== verification/UserStreamStore.thy ===== *)
theory UserStreamStore
  imports UserStream Database
begin

text \<open>
  The transactions of \<open>crates/persistence/src/postgres/user_stream.rs\<close>: an event is
  written, and the cursor of its partition advanced, only where the ordering decision accepts
  it. The two tables are a list of accepted rows and a map of cursors; PostgreSQL itself is the
  parameter \<open>render\<close> (how a stored timestamp is read back) and, for every call, the faults
  of its statements. A statement that fails rolls the transaction back.
\<close>

section \<open>Errors and outcomes\<close>

type_synonym UserStreamPersistenceError = contract_error

definition UserStreamPersistenceError_invalid_payload ::
    "string \<Rightarrow> UserStreamValidationIssue list \<Rightarrow> UserStreamPersistenceError" where
  "UserStreamPersistenceError_invalid_payload message field_errors =
     contract_error_of (UserStreamReasonCode_code UserStreamReasonCode.InvalidPayload) message field_errors"

definition UserStreamPersistenceError_persistence_unavailable ::
    "string \<Rightarrow> db_fault \<Rightarrow> UserStreamPersistenceError" where
  "UserStreamPersistenceError_persistence_unavailable operation error =
     contract_error_of (UserStreamReasonCode_code UserStreamReasonCode.PersistenceUnavailable)
       (operation @ '' failed: '' @ df_text error) []"

definition UserStreamPersistenceError_constraint_violation ::
    "string \<Rightarrow> db_fault \<Rightarrow> UserStreamPersistenceError" where
  "UserStreamPersistenceError_constraint_violation operation error =
     contract_error_of (UserStreamReasonCode_code UserStreamReasonCode.PersistenceUnavailable)
       (operation @ '' rejected by constraint: '' @ df_text error) []"

definition map_user_stream_contract_error :: "UserStreamContractError \<Rightarrow> UserStreamPersistenceError" where
  "map_user_stream_contract_error error =
     UserStreamPersistenceError_invalid_payload (ce_message error) (ce_field_errors error)"

definition classify_user_stream_query_error :: "string \<Rightarrow> db_fault \<Rightarrow> UserStreamPersistenceError" where
  "classify_user_stream_query_error operation error =
     (if is_constraint_error error then UserStreamPersistenceError_constraint_violation operation error
      else UserStreamPersistenceError_persistence_unavailable operation error)"

datatype UserStreamPersistDisposition = Accepted | Duplicate | OutOfOrder

record UserStreamPersistOutcome =
  uo_disposition :: UserStreamPersistDisposition
  uo_reason_code :: string

section \<open>Tables\<close>

text \<open>A row of \<open>order_event_offsets\<close>, with the columns as they are bound.\<close>

record offset_row =
  rw_partition_key :: string
  rw_last_event_id :: string
  rw_last_event_key :: string
  rw_last_event_offset :: int
  rw_auth_state :: string
  rw_block_new_intents :: bool
  rw_reason_code :: string
  rw_correlation_id :: string
  rw_updated_at_utc :: string

text \<open>
  A row of \<open>user_stream_events\<close> has the columns of the event, three of them replaced: the
  normalised partition and idempotency keys and the reason of the ordering decision.
\<close>

record user_store =
  us_events :: "UserStreamEvent list" \<comment> \<open>newest first\<close>
  us_cursors :: "string \<rightharpoonup> offset_row"

definition empty_user_store :: user_store where
  "empty_user_store = \<lparr>us_events = [], us_cursors = Map.empty\<rparr>"

abbreviation sql :: "db_faults \<Rightarrow> string \<Rightarrow> 'a \<Rightarrow> UserStreamPersistenceError + 'a" where
  "sql \<equiv> statement classify_user_stream_query_error"

section \<open>Operations\<close>

definition decode_order_event_offset_cursor_row ::
    "time_crate \<Rightarrow> (string \<Rightarrow> string) \<Rightarrow> offset_row \<Rightarrow> UserStreamPersistenceError + OrderEventOffsetCursor" where
  "decode_order_event_offset_cursor_row T render row =
     and_then (map_err map_user_stream_contract_error (UserStreamAuthState_parse (rw_auth_state row))) (\<lambda>auth_state.
     let cursor =
       \<lparr>oc_partition_key = rw_partition_key row, oc_last_event_id = rw_last_event_id row,
        oc_last_event_key = rw_last_event_key row, oc_last_event_offset = rw_last_event_offset row,
        oc_auth_state = auth_state, oc_block_new_intents = rw_block_new_intents row,
        oc_reason_code = rw_reason_code row, oc_correlation_id = rw_correlation_id row,
        oc_updated_at_utc = render (rw_updated_at_utc row)\<rparr>
     in and_then (map_err map_user_stream_contract_error (validate_order_event_offset_cursor T cursor))
          (\<lambda>_. Inr cursor))"

text \<open>\<open>row.map(decode).transpose()?\<close>\<close>

definition decode_optional_row ::
    "time_crate \<Rightarrow> (string \<Rightarrow> string) \<Rightarrow> offset_row option
      \<Rightarrow> UserStreamPersistenceError + OrderEventOffsetCursor option" where
  "decode_optional_row T render row = (case row of
      None \<Rightarrow> Inr None
    | Some row \<Rightarrow> and_then (decode_order_event_offset_cursor_row T render row) (\<lambda>c. Inr (Some c)))"

text \<open>The row an accepted event is bound to, and the cursor row that follows it.\<close>

definition accepted_row :: "UserStreamEvent \<Rightarrow> string \<Rightarrow> UserStreamEvent" where
  "accepted_row event reason = event
     \<lparr>ue_partition_key := normalize_user_stream_idempotency_key (ue_partition_key event),
      ue_idempotency_key := normalize_user_stream_idempotency_key (ue_idempotency_key event),
      ue_reason_code := reason\<rparr>"

definition cursor_row :: "UserStreamEvent \<Rightarrow> UserStreamAuthState \<Rightarrow> bool \<Rightarrow> string \<Rightarrow> offset_row" where
  "cursor_row event auth_state block_new_intents reason =
     \<lparr>rw_partition_key = normalize_user_stream_idempotency_key (ue_partition_key event),
      rw_last_event_id = ue_event_id event,
      rw_last_event_key = normalize_user_stream_idempotency_key (ue_idempotency_key event),
      rw_last_event_offset = ue_event_offset event,
      rw_auth_state = UserStreamAuthState_as_str auth_state,
      rw_block_new_intents = block_new_intents, rw_reason_code = reason,
      rw_correlation_id = ue_correlation_id event, rw_updated_at_utc = ue_ingested_at_utc event\<rparr>"

text \<open>The match on the ordering decision.\<close>

fun apply_ordering ::
    "db_faults \<Rightarrow> UserStreamEvent \<Rightarrow> UserStreamAuthState \<Rightarrow> bool \<Rightarrow> user_store \<Rightarrow> UserStreamOrderingDecision
      \<Rightarrow> UserStreamPersistenceError + (UserStreamPersistOutcome \<times> user_store)" where
  "apply_ordering faults event auth_state block_new_intents st (UserStreamOrderingDecision.Duplicate reason) =
     Inr (\<lparr>uo_disposition = UserStreamPersistDisposition.Duplicate, uo_reason_code = reason\<rparr>, st)"
| "apply_ordering faults event auth_state block_new_intents st (UserStreamOrderingDecision.OutOfOrder reason) =
     Inr (\<lparr>uo_disposition = UserStreamPersistDisposition.OutOfOrder, uo_reason_code = reason\<rparr>, st)"
| "apply_ordering faults event auth_state block_new_intents st (UserStreamOrderingDecision.Accept reason) =
     and_then (sql faults ''insert_accepted_user_stream_event'' ()) (\<lambda>_.
     and_then (sql faults ''upsert_order_event_cursor'' ()) (\<lambda>_.
     and_then (sql faults ''commit_user_stream_event_tx'' ()) (\<lambda>_.
     Inr (\<lparr>uo_disposition = UserStreamPersistDisposition.Accepted, uo_reason_code = reason\<rparr>,
          st\<lparr>us_events := accepted_row event reason # us_events st,
             us_cursors := (us_cursors st)
               (normalize_user_stream_idempotency_key (ue_partition_key event) \<mapsto>
                  cursor_row event auth_state block_new_intents reason)\<rparr>))))"

definition user_stream_event_tx ::
    "time_crate \<Rightarrow> (string \<Rightarrow> string) \<Rightarrow> ('json \<Rightarrow> bool) \<Rightarrow> db_faults \<Rightarrow> UserStreamEvent \<Rightarrow> 'json
      \<Rightarrow> UserStreamAuthState \<Rightarrow> bool \<Rightarrow> user_store
      \<Rightarrow> UserStreamPersistenceError + (UserStreamPersistOutcome \<times> user_store)" where
  "user_stream_event_tx T render is_null faults event raw_payload auth_state block_new_intents st =
     and_then (map_err map_user_stream_contract_error (validate_user_stream_event T event)) (\<lambda>_.
     and_then (if is_null raw_payload
               then Inl (UserStreamPersistenceError_invalid_payload ''raw_payload cannot be null'' [])
               else Inr ()) (\<lambda>_.
     and_then (sql faults ''begin_user_stream_event_tx'' ()) (\<lambda>_.
     and_then (sql faults ''load_order_event_cursor_for_update''
                 (us_cursors st (normalize_user_stream_idempotency_key (ue_partition_key event)))) (\<lambda>row.
     and_then (decode_optional_row T render row) (\<lambda>cursor.
     and_then (map_err map_user_stream_contract_error (evaluate_user_stream_ordering T cursor event))
       (apply_ordering faults event auth_state block_new_intents st))))))"

definition persist_user_stream_event ::
    "time_crate \<Rightarrow> (string \<Rightarrow> string) \<Rightarrow> ('json \<Rightarrow> bool) \<Rightarrow> db_faults \<Rightarrow> UserStreamEvent \<Rightarrow> 'json
      \<Rightarrow> UserStreamAuthState \<Rightarrow> bool \<Rightarrow> user_store
      \<Rightarrow> (UserStreamPersistenceError + UserStreamPersistOutcome) \<times> user_store" where
  "persist_user_stream_event T render is_null faults event raw_payload auth_state block_new_intents st =
     (case user_stream_event_tx T render is_null faults event raw_payload auth_state block_new_intents st of
        Inl error \<Rightarrow> (Inl error, st)
      | Inr (outcome, st') \<Rightarrow> (Inr outcome, st'))"

text \<open>The row an authentication transition is bound to.\<close>

definition auth_row :: "UserStreamAuthTransition \<Rightarrow> offset_row" where
  "auth_row transition =
     \<lparr>rw_partition_key = USER_STREAM_AUTH_STATE_PARTITION_KEY,
      rw_last_event_id = ut_transition_id transition,
      rw_last_event_key = ''auth_state_transition'',
      rw_last_event_offset = ut_transition_offset transition,
      rw_auth_state = UserStreamAuthState_as_str (ut_auth_state transition),
      rw_block_new_intents = ut_block_new_intents transition,
      rw_reason_code = ut_reason_code transition, rw_correlation_id = ut_correlation_id transition,
      rw_updated_at_utc = ut_observed_at_utc transition\<rparr>"

definition persist_user_stream_auth_transition ::
    "time_crate \<Rightarrow> db_faults \<Rightarrow> UserStreamAuthTransition \<Rightarrow> user_store
      \<Rightarrow> (UserStreamPersistenceError + unit) \<times> user_store" where
  "persist_user_stream_auth_transition T faults transition st =
     (case and_then (map_err map_user_stream_contract_error (validate_user_stream_auth_transition T transition)) (\<lambda>_.
           and_then (sql faults ''begin_user_stream_auth_transition_tx'' ()) (\<lambda>_.
           and_then (sql faults ''upsert_user_stream_auth_transition'' ()) (\<lambda>_.
           sql faults ''commit_user_stream_auth_transition_tx'' ()))) of
        Inl e \<Rightarrow> (Inl e, st)
      | Inr _ \<Rightarrow> (Inr (), st\<lparr>us_cursors :=
          (us_cursors st)(USER_STREAM_AUTH_STATE_PARTITION_KEY \<mapsto> auth_row transition)\<rparr>))"

definition load_user_stream_auth_cursor ::
    "time_crate \<Rightarrow> (string \<Rightarrow> string) \<Rightarrow> db_faults \<Rightarrow> user_store
      \<Rightarrow> UserStreamPersistenceError + OrderEventOffsetCursor option" where
  "load_user_stream_auth_cursor T render faults st =
     and_then (sql faults ''load_user_stream_auth_cursor''
                 (us_cursors st USER_STREAM_AUTH_STATE_PARTITION_KEY))
       (decode_optional_row T render)"

section \<open>What an operation does to the tables\<close>

definition row_pos :: "offset_row \<Rightarrow> int \<times> string" where
  "row_pos r = (rw_last_event_offset r, normalize (rw_last_event_key r))"

lemma decode_row_pos:
  "decode_order_event_offset_cursor_row T render r = Inr c \<Longrightarrow> cursor_wf T c \<and> cursor_pos c = row_pos r
     \<and> oc_block_new_intents c = rw_block_new_intents r \<and> oc_last_event_offset c = rw_last_event_offset r
     \<and> UserStreamAuthState_as_str (oc_auth_state c) = rw_auth_state r"
  by (auto simp: decode_order_event_offset_cursor_row_def and_then_Inr_iff Let_def cursor_pos_def row_pos_def
      user_stream_auth.parse_iff)

text \<open>An event is refused, or it comes after the cursor of its partition and becomes it.\<close>

lemma event_tx_iff:
  "user_stream_event_tx T render is_null faults e p a b st = Inr res \<longleftrightarrow>
     user_event_wf T e \<and> \<not> is_null p \<and> faults ''begin_user_stream_event_tx'' = None
   \<and> faults ''load_order_event_cursor_for_update'' = None
   \<and> (\<exists>cursor ordering. decode_optional_row T render (us_cursors st (normalize (ue_partition_key e))) = Inr cursor
        \<and> evaluate_user_stream_ordering T cursor e = Inr ordering
        \<and> apply_ordering faults e a b st ordering = Inr res)"
  by (auto simp: user_stream_event_tx_def and_then_Inr_iff normalize_user_stream_idempotency_key_def)

lemma persist_event_cases:
  assumes "persist_user_stream_event T render is_null faults e p a b st = (r, st')"
  obtains (refused) "st' = st" "\<forall>out. r = Inr out \<longrightarrow> uo_disposition out \<noteq> UserStreamPersistDisposition.Accepted"
  | (accepted) reason where "user_event_wf T e"
      "r = Inr \<lparr>uo_disposition = UserStreamPersistDisposition.Accepted, uo_reason_code = reason\<rparr>"
      "\<forall>old. us_cursors st (normalize (ue_partition_key e)) = Some old \<longrightarrow> pos_less (row_pos old) (event_pos e)"
      "st' = st\<lparr>us_events := accepted_row e reason # us_events st,
        us_cursors := (us_cursors st)(normalize (ue_partition_key e) \<mapsto> cursor_row e a b reason)\<rparr>"
proof (cases "user_stream_event_tx T render is_null faults e p a b st")
  case (Inl x)
  with assms refused show thesis by (auto simp: persist_user_stream_event_def)
next
  case (Inr res)
  then obtain cursor ordering where wf: "user_event_wf T e"
    and cur: "decode_optional_row T render (us_cursors st (normalize (ue_partition_key e))) = Inr cursor"
    and ord: "evaluate_user_stream_ordering T cursor e = Inr ordering"
    and res: "apply_ordering faults e a b st ordering = Inr res"
    unfolding event_tx_iff by blast
  have r: "r = Inr (fst res)" "st' = snd res"
    using assms Inr by (auto simp: persist_user_stream_event_def split: prod.splits)
  show thesis
  proof (cases ordering)
    case (Accept reason)
    have less: "\<forall>old. us_cursors st (normalize (ue_partition_key e)) = Some old \<longrightarrow> pos_less (row_pos old) (event_pos e)"
    proof (intro allI impI)
      fix old assume "us_cursors st (normalize (ue_partition_key e)) = Some old"
      with cur obtain c where c: "cursor = Some c" "decode_order_event_offset_cursor_row T render old = Inr c"
        by (auto simp: decode_optional_row_def and_then_Inr_iff)
      with ord Accept ordering_iff(1)[OF wf] decode_row_pos[OF c(2)] show "pos_less (row_pos old) (event_pos e)"
        by metis
    qed
    show thesis
      by (rule accepted[OF wf _ less])
        (use r res Accept in \<open>auto simp: and_then_Inr_iff normalize_user_stream_idempotency_key_def\<close>)
  qed (use r res refused in auto)
qed

lemma persist_auth_cases:
  assumes "persist_user_stream_auth_transition T faults t st = (r, st')"
  obtains e where "r = Inl e" "st' = st"
  | "r = Inr ()" "auth_transition_wf T t"
      "st' = st\<lparr>us_cursors := (us_cursors st)(USER_STREAM_AUTH_STATE_PARTITION_KEY \<mapsto> auth_row t)\<rparr>"
proof (cases r)
  case (Inl e)
  with assms have "st' = st"
    by (simp add: persist_user_stream_auth_transition_def split: sum.splits)
  with Inl that(1) show thesis by blast
next
  case (Inr u)
  with assms have "auth_transition_wf T t"
    "st' = st\<lparr>us_cursors := (us_cursors st)(USER_STREAM_AUTH_STATE_PARTITION_KEY \<mapsto> auth_row t)\<rparr>"
    by (auto simp: persist_user_stream_auth_transition_def and_then_Inr_iff split: sum.splits)
  with Inr that(2) show thesis by simp
qed

section \<open>Every event at most once, in order\<close>

text \<open>The stores that any sequence of calls reaches, with any faults.\<close>

inductive user_store_reach :: "time_crate \<Rightarrow> (string \<Rightarrow> string) \<Rightarrow> ('json \<Rightarrow> bool) \<Rightarrow> user_store \<Rightarrow> bool"
  for T render is_null where
  init: "user_store_reach T render is_null empty_user_store"
| event: "user_store_reach T render is_null st \<Longrightarrow>
    user_store_reach T render is_null (snd (persist_user_stream_event T render is_null faults e p a b st))"
| auth: "user_store_reach T render is_null st \<Longrightarrow>
    user_store_reach T render is_null (snd (persist_user_stream_auth_transition T faults t st))"

definition rows_of :: "string \<Rightarrow> user_store \<Rightarrow> UserStreamEvent list" where
  "rows_of k st = filter (\<lambda>r. ue_partition_key r = k) (us_events st)"

definition partition_ok :: "user_store \<Rightarrow> string \<Rightarrow> bool" where
  "partition_ok st k \<longleftrightarrow>
     (case us_cursors st k of
        None \<Rightarrow> rows_of k st = []
      | Some c \<Rightarrow> (\<exists>r rs. rows_of k st = r # rs \<and> event_pos r = row_pos c))
   \<and> sorted_wrt (\<lambda>newer older. pos_less (event_pos older) (event_pos newer)) (rows_of k st)"

lemma accepted_row_simps [simp]:
  "event_pos (accepted_row e reason) = event_pos e"
  "ue_partition_key (accepted_row e reason) = normalize (ue_partition_key e)"
  "row_pos (cursor_row e a b reason) = event_pos e"
  by (simp_all add: accepted_row_def cursor_row_def event_pos_def row_pos_def normalize_user_stream_idempotency_key_def)

lemma rows_of_simps [simp]:
  "rows_of k \<lparr>us_events = [], us_cursors = f\<rparr> = []"
  "rows_of k (st\<lparr>us_cursors := f\<rparr>) = rows_of k st"
  "rows_of k (st\<lparr>us_events := e # us_events st\<rparr>) =
     (if ue_partition_key e = k then e # rows_of k st else rows_of k st)"
  "rows_of k (st\<lparr>us_events := e # us_events st, us_cursors := f\<rparr>) =
     (if ue_partition_key e = k then e # rows_of k st else rows_of k st)"
  by (simp_all add: rows_of_def)

lemma partition_ok_accept:
  assumes ok: "partition_ok st k"
    and less: "\<forall>old. us_cursors st (normalize (ue_partition_key e)) = Some old \<longrightarrow>
      pos_less (row_pos old) (event_pos e)"
  shows "partition_ok (st\<lparr>us_events := accepted_row e reason # us_events st,
      us_cursors := (us_cursors st)(normalize (ue_partition_key e) \<mapsto> cursor_row e a b reason)\<rparr>) k"
proof (cases "k = normalize (ue_partition_key e)")
  case False
  then show ?thesis using ok by (auto simp: partition_ok_def split: option.splits)
next
  case True
  have "\<forall>r \<in> set (rows_of k st). pos_less (event_pos r) (event_pos e)"
  proof (cases "us_cursors st k")
    case None
    then show ?thesis using ok by (simp add: partition_ok_def)
  next
    case (Some old)
    with ok obtain r rs where r: "rows_of k st = r # rs" "event_pos r = row_pos old"
      by (auto simp: partition_ok_def)
    then have "\<forall>x \<in> set rs. pos_less (event_pos x) (row_pos old)"
      using ok by (auto simp: partition_ok_def)
    moreover have "pos_less (row_pos old) (event_pos e)" using less Some True by simp
    ultimately show ?thesis using r by (auto intro: pos_less_trans)
  qed
  then show ?thesis using ok True by (simp add: partition_ok_def)
qed

lemma store_reach_partition_ok:
  assumes "user_store_reach T render is_null st" and "k \<noteq> USER_STREAM_AUTH_STATE_PARTITION_KEY"
  shows "partition_ok st k"
  using assms
proof (induction rule: user_store_reach.induct)
  case init
  then show ?case by (simp add: partition_ok_def empty_user_store_def)
next
  case (event st faults e p a b)
  obtain r st' where step: "persist_user_stream_event T render is_null faults e p a b st = (r, st')"
    by fastforce
  then show ?case
    by (cases rule: persist_event_cases) (use event step partition_ok_accept in auto)
next
  case (auth st faults t)
  obtain r st' where step: "persist_user_stream_auth_transition T faults t st = (r, st')" by fastforce
  then show ?case
    by (cases rule: persist_auth_cases) (use auth step in \<open>auto simp: partition_ok_def split: option.splits\<close>)
qed

section \<open>Properties\<close>

text \<open>
  C2: Whatever events and authentication transitions arrive, in whatever order, however often
  and with whatever database faults, the accepted events of a partition are stored in strictly
  increasing position (offset, then normalised idempotency key): nothing is accepted twice,
  nothing late is accepted, and the cursor stands at the last accepted event. The one partition
  excepted is the key under which the authentication state itself is kept.
\<close>

theorem accepted_events_strictly_ordered:
  assumes "user_store_reach T render is_null st" and "k \<noteq> USER_STREAM_AUTH_STATE_PARTITION_KEY"
  shows "sorted_wrt (\<lambda>newer older. pos_less (event_pos older) (event_pos newer)) (rows_of k st)
    \<and> distinct (map event_pos (rows_of k st))
    \<and> map_option row_pos (us_cursors st k) = map_option event_pos (case rows_of k st of [] \<Rightarrow> None | r # _ \<Rightarrow> Some r)"
proof -
  have ok: "partition_ok st k" by (rule store_reach_partition_ok[OF assms])
  then have s: "sorted_wrt (\<lambda>newer older. pos_less (event_pos older) (event_pos newer)) (rows_of k st)"
    by (simp add: partition_ok_def)
  then have "distinct (map event_pos (rows_of k st))" by (rule pos_sorted_distinct)
  then show ?thesis using s ok by (auto simp: partition_ok_def split: option.splits)
qed

definition demo_user_event :: "int \<Rightarrow> string \<Rightarrow> UserStreamEvent" where
  "demo_user_event offset key =
     \<lparr>ue_event_id = ''event-1'', ue_event_kind = UserStreamEventKind.Order,
      ue_event_status = UserStreamEventStatus.Placement, ue_market_id = ''market-1'',
      ue_asset_id = ''asset-1'', ue_order_id = ''order-1'', ue_trade_id = None,
      ue_partition_key = ''Order-1'', ue_idempotency_key = key, ue_event_offset = offset,
      ue_event_timestamp_utc = ''2026-04-06T00:00:00Z'', ue_observed_at_utc = ''2026-04-06T00:00:00Z'',
      ue_ingested_at_utc = ''2026-04-06T00:00:01Z'', ue_ingestion_latency_seconds = Fin 1,
      ue_correlation_id = ''corr-1'', ue_reason_code = ''user_stream_event_accepted''\<rparr>"

definition demo_persist :: "UserStreamEvent \<Rightarrow> user_store \<Rightarrow> user_store" where
  "demo_persist e st = snd (persist_user_stream_event demo_time id (\<lambda>_. False) (\<lambda>_. None) e ()
     UserStreamAuthState.Authenticated False st)"

definition demo_user_store :: user_store where
  "demo_user_store = demo_persist (demo_user_event 4 ''late'') (demo_persist (demo_user_event 7 '' KEY-b '')
     (demo_persist (demo_user_event 7 ''key-b'') (demo_persist (demo_user_event 5 ''key-a'') empty_user_store)))"

theorem accepted_events_strictly_ordered_witness:
  "map event_pos (rows_of ''order-1'' demo_user_store) = [(7, ''key-b''), (5, ''key-a'')]
   \<and> distinct (map event_pos (rows_of ''order-1'' demo_user_store))"
proof -
  have "user_store_reach demo_time id (\<lambda>_ :: unit. False) demo_user_store"
    unfolding demo_user_store_def demo_persist_def by (intro user_store_reach.intros)
  moreover have "''order-1'' \<noteq> USER_STREAM_AUTH_STATE_PARTITION_KEY"
    by (simp add: USER_STREAM_AUTH_STATE_PARTITION_KEY_def)
  moreover have "map event_pos (rows_of ''order-1'' demo_user_store) = [(7, ''key-b''), (5, ''key-a'')]"
    by code_simp
  ultimately show ?thesis using accepted_events_strictly_ordered by blast
qed

end
