(* ===== verification/FreshnessRuntime.thy ===== *)
theory FreshnessRuntime
  imports FreshnessGate Database
begin

text \<open>
  The freshness gate at run time: the event log of
  \<open>crates/persistence/src/postgres/freshness_gate.rs\<close> and the controller of
  \<open>services/execution-engine/src/ingestion/freshness_gate.rs\<close>, which samples the age of the two
  streams, evaluates the gate, logs every transition and restores its state from the log after a
  restart. The signals behind the lock are passed along; telemetry and the configuration from
  the environment are left out.
\<close>

section \<open>The event log\<close>

type_synonym FreshnessGatePersistenceError = contract_error

definition FreshnessGatePersistenceError_invalid_payload ::
    "string \<Rightarrow> FreshnessGateValidationIssue list \<Rightarrow> FreshnessGatePersistenceError" where
  "FreshnessGatePersistenceError_invalid_payload message field_errors =
     contract_error_of (FreshnessGateReasonCode_code FreshnessGateReasonCode.InvalidPayload) message field_errors"

definition FreshnessGatePersistenceError_persistence_unavailable ::
    "string \<Rightarrow> db_fault \<Rightarrow> FreshnessGatePersistenceError" where
  "FreshnessGatePersistenceError_persistence_unavailable operation error =
     contract_error_of (FreshnessGateReasonCode_code FreshnessGateReasonCode.PersistenceUnavailable)
       (operation @ '' failed: '' @ df_text error) []"

definition FreshnessGatePersistenceError_constraint_violation ::
    "string \<Rightarrow> db_fault \<Rightarrow> FreshnessGatePersistenceError" where
  "FreshnessGatePersistenceError_constraint_violation operation error =
     contract_error_of (FreshnessGateReasonCode_code FreshnessGateReasonCode.PersistenceUnavailable)
       (operation @ '' rejected by constraint: '' @ df_text error) []"

definition map_freshness_contract_error :: "FreshnessGateContractError \<Rightarrow> FreshnessGatePersistenceError" where
  "map_freshness_contract_error error =
     FreshnessGatePersistenceError_invalid_payload (ce_message error) (ce_field_errors error)"

definition classify_freshness_query_error :: "string \<Rightarrow> db_fault \<Rightarrow> FreshnessGatePersistenceError" where
  "classify_freshness_query_error operation error =
     (if is_constraint_error error then FreshnessGatePersistenceError_constraint_violation operation error
      else FreshnessGatePersistenceError_persistence_unavailable operation error)"

text \<open>
  A row of \<open>freshness_gate_events\<close> has the columns of the event, the transition as its code; the
  column \<open>evidence\<close>, which repeats them as JSON and is never read back, is left out.
\<close>

record freshness_row =
  fz_transition :: string
  fz_event :: FreshnessGateEvent

type_synonym freshness_log = "freshness_row list" \<comment> \<open>newest first\<close>

definition insert_freshness_gate_event ::
    "time_crate \<Rightarrow> db_faults \<Rightarrow> FreshnessGateEvent \<Rightarrow> freshness_log
      \<Rightarrow> (FreshnessGatePersistenceError + unit) \<times> freshness_log" where
  "insert_freshness_gate_event T faults event rows =
     transact (\<lambda>rows.
       and_then (map_err map_freshness_contract_error (validate_freshness_gate_event T event)) (\<lambda>_.
       and_then (statement classify_freshness_query_error faults ''insert_freshness_gate_event'' ()) (\<lambda>_.
       Inr ((), \<lparr>fz_transition = FreshnessGateTransition_as_str (fe_transition event), fz_event = event\<rparr> # rows)))) rows"

text \<open>\<open>ORDER BY evaluated_at_utc DESC, event_id DESC LIMIT 1\<close>\<close>

definition row_after :: "pg_types \<Rightarrow> freshness_row \<Rightarrow> freshness_row \<Rightarrow> bool" where
  "row_after P a b \<longleftrightarrow>
     (let x = pg_instant P (fe_evaluated_at_utc (fz_event a)); y = pg_instant P (fe_evaluated_at_utc (fz_event b))
      in y < x \<or> (x = y \<and> pg_text_less P (fe_event_id (fz_event b)) (fe_event_id (fz_event a))))"

fun latest_row :: "pg_types \<Rightarrow> freshness_log \<Rightarrow> freshness_row option" where
  "latest_row P [] = None"
| "latest_row P (row # rows) = (case latest_row P rows of
     None \<Rightarrow> Some row
   | Some best \<Rightarrow> if row_after P best row then Some best else Some row)"

definition decode_freshness_gate_event_row ::
    "time_crate \<Rightarrow> pg_types \<Rightarrow> freshness_row \<Rightarrow> FreshnessGatePersistenceError + FreshnessGateEvent" where
  "decode_freshness_gate_event_row T P row =
     and_then (map_err map_freshness_contract_error (FreshnessGateTransition_parse (fz_transition row))) (\<lambda>transition.
     let stored = fz_event row;
         event = stored
           \<lparr>fe_transition := transition,
            fe_stale_breach_detected_at_utc := map_option (pg_to_char P) (fe_stale_breach_detected_at_utc stored),
            fe_pause_activated_at_utc := map_option (pg_to_char P) (fe_pause_activated_at_utc stored),
            fe_recovery_window_started_at_utc := map_option (pg_to_char P) (fe_recovery_window_started_at_utc stored),
            fe_recovery_confirmed_at_utc := map_option (pg_to_char P) (fe_recovery_confirmed_at_utc stored),
            fe_evaluated_at_utc := pg_to_char P (fe_evaluated_at_utc stored)\<rparr>
     in and_then (map_err map_freshness_contract_error (validate_freshness_gate_event T event)) (\<lambda>_. Inr event))"

definition load_latest_freshness_gate_event ::
    "time_crate \<Rightarrow> pg_types \<Rightarrow> db_faults \<Rightarrow> freshness_log
      \<Rightarrow> FreshnessGatePersistenceError + FreshnessGateEvent option" where
  "load_latest_freshness_gate_event T P faults rows =
     and_then (statement classify_freshness_query_error faults ''load_latest_freshness_gate_event'' (latest_row P rows))
       (\<lambda>row. case row of
          None \<Rightarrow> Inr None
        | Some row \<Rightarrow> and_then (decode_freshness_gate_event_row T P row) (\<lambda>event. Inr (Some event)))"

section \<open>The controller\<close>

record FreshnessGateRuntimeError =
  fx_code :: string
  fx_message :: string

definition FreshnessGateRuntimeError_new :: "string \<Rightarrow> string \<Rightarrow> FreshnessGateRuntimeError" where
  "FreshnessGateRuntimeError_new code message = \<lparr>fx_code = code, fx_message = message\<rparr>"

definition map_freshness_persistence_error :: "FreshnessGatePersistenceError \<Rightarrow> FreshnessGateRuntimeError" where
  "map_freshness_persistence_error error =
     FreshnessGateRuntimeError_new (ce_code error) (ce_code error @ '': '' @ ce_message error)"

definition map_freshness_runtime_contract_error :: "FreshnessGateContractError \<Rightarrow> FreshnessGateRuntimeError" where
  "map_freshness_runtime_contract_error error = FreshnessGateRuntimeError_new (ce_code error) (ce_message error)"

record FreshnessGateRuntimeConfig =
  fc_evaluation_interval_seconds :: f64
  fc_policy :: FreshnessGatePolicy

definition FreshnessGateRuntimeConfig_default :: FreshnessGateRuntimeConfig where
  "FreshnessGateRuntimeConfig_default =
     \<lparr>fc_evaluation_interval_seconds = Fin 1, fc_policy = FreshnessGatePolicy_default\<rparr>"

record FreshnessSignalState =
  sg_market_last_observed_at_utc :: "string option"
  sg_user_last_observed_at_utc :: "string option"

definition FreshnessSignalState_default :: FreshnessSignalState where
  "FreshnessSignalState_default = \<lparr>sg_market_last_observed_at_utc = None, sg_user_last_observed_at_utc = None\<rparr>"

definition freshness_parse_rfc3339_utc :: "time_crate \<Rightarrow> string \<Rightarrow> FreshnessGateRuntimeError + int" where
  "freshness_parse_rfc3339_utc T value = (case rfc3339_parse T value of
      None \<Rightarrow> Inl (FreshnessGateRuntimeError_new
        (FreshnessGateReasonCode_code FreshnessGateReasonCode.InvalidPayload)
        (''invalid freshness timestamp `'' @ value @ ''`: '' @ rfc3339_error T value))
    | Some (parsed, offset) \<Rightarrow>
        if offset \<noteq> 0 then Inl (FreshnessGateRuntimeError_new
          (FreshnessGateReasonCode_code FreshnessGateReasonCode.InvalidPayload)
          ''freshness timestamps must use UTC `Z` offset'')
        else Inr parsed)"

definition record_market_update ::
    "time_crate \<Rightarrow> string \<Rightarrow> FreshnessSignalState \<Rightarrow> (FreshnessGateRuntimeError + unit) \<times> FreshnessSignalState" where
  "record_market_update T observed_at_utc signals = (case freshness_parse_rfc3339_utc T observed_at_utc of
      Inl error \<Rightarrow> (Inl error, signals)
    | Inr _ \<Rightarrow> (Inr (), signals\<lparr>sg_market_last_observed_at_utc := Some observed_at_utc\<rparr>))"

definition record_user_update ::
    "time_crate \<Rightarrow> string \<Rightarrow> FreshnessSignalState \<Rightarrow> (FreshnessGateRuntimeError + unit) \<times> FreshnessSignalState" where
  "record_user_update T observed_at_utc signals = (case freshness_parse_rfc3339_utc T observed_at_utc of
      Inl error \<Rightarrow> (Inl error, signals)
    | Inr _ \<Rightarrow> (Inr (), signals\<lparr>sg_user_last_observed_at_utc := Some observed_at_utc\<rparr>))"

definition age_seconds :: "time_crate \<Rightarrow> int \<Rightarrow> string \<Rightarrow> FreshnessGateRuntimeError + f64" where
  "age_seconds T sampled_at last_observed_at_utc =
     and_then (freshness_parse_rfc3339_utc T last_observed_at_utc) (\<lambda>last_observed_at.
     if sampled_at < last_observed_at then Inl (FreshnessGateRuntimeError_new
       (FreshnessGateReasonCode_code FreshnessGateReasonCode.InvalidPayload)
       ''sampled freshness timestamp cannot be earlier than latest observed timestamp'')
     else Inr (dur_as_seconds_f64 T (sampled_at - last_observed_at)))"

text \<open>\<open>value.map(age_seconds).transpose()?\<close>\<close>

definition optional_age :: "time_crate \<Rightarrow> int \<Rightarrow> string option \<Rightarrow> FreshnessGateRuntimeError + f64 option" where
  "optional_age T sampled_at observed = (case observed of
      None \<Rightarrow> Inr None
    | Some value \<Rightarrow> and_then (age_seconds T sampled_at value) (\<lambda>age. Inr (Some age)))"

definition SharedFreshnessSignals_snapshot ::
    "time_crate \<Rightarrow> FreshnessSignalState \<Rightarrow> string \<Rightarrow> string \<Rightarrow> FreshnessGateRuntimeError + FreshnessSnapshot" where
  "SharedFreshnessSignals_snapshot T signals sampled_at_utc correlation_id =
     and_then (freshness_parse_rfc3339_utc T sampled_at_utc) (\<lambda>sampled_at.
     and_then (optional_age T sampled_at (sg_market_last_observed_at_utc signals)) (\<lambda>market_data_age_seconds.
     and_then (optional_age T sampled_at (sg_user_last_observed_at_utc signals)) (\<lambda>user_data_age_seconds.
     Inr \<lparr>fs_market_data_age_seconds = market_data_age_seconds, fs_user_data_age_seconds = user_data_age_seconds,
          fs_sampled_at_utc = sampled_at_utc, fs_correlation_id = correlation_id\<rparr>)))"

definition freshness_compact_timestamp_token :: "string \<Rightarrow> string" where
  "freshness_compact_timestamp_token value = filter is_ascii_digit value"

definition freshness_event_id :: "FreshnessGateEvaluationOutcome \<Rightarrow> string" where
  "freshness_event_id outcome =
     ''freshness::''
       @ (case fo_transition outcome of
            Some value \<Rightarrow> FreshnessGateTransition_as_str value | None \<Rightarrow> ''no_transition'')
       @ ''::'' @ freshness_compact_timestamp_token (fo_evaluated_at_utc outcome)
       @ ''::'' @ map (\<lambda>c. if c = CHR '':'' then CHR ''_'' else c) (fo_correlation_id outcome)"

text \<open>The state of the controller is its gate state; the store and the signals are passed along.\<close>

definition hydrate_latest_state ::
    "time_crate \<Rightarrow> pg_types \<Rightarrow> db_faults \<Rightarrow> freshness_log \<Rightarrow> FreshnessGateState option
      \<Rightarrow> (FreshnessGateRuntimeError + unit) \<times> FreshnessGateState option" where
  "hydrate_latest_state T P faults rows st =
     (case map_err map_freshness_persistence_error (load_latest_freshness_gate_event T P faults rows) of
        Inl error \<Rightarrow> (Inl error, st)
      | Inr None \<Rightarrow> (Inr (), st)
      | Inr (Some event) \<Rightarrow> (Inr (), Some
          \<lparr>fg_pause_active = fe_pause_active event, fg_reason_code = fe_reason_code event,
           fg_stale_breach_detected_at_utc = fe_stale_breach_detected_at_utc event,
           fg_pause_activated_at_utc = fe_pause_activated_at_utc event,
           fg_recovery_window_started_at_utc = fe_recovery_window_started_at_utc event,
           fg_last_evaluated_at_utc = fe_evaluated_at_utc event\<rparr>))"

text \<open>The event of an outcome is checked and written before the state changes.\<close>

definition log_outcome ::
    "time_crate \<Rightarrow> FreshnessGatePolicy \<Rightarrow> db_faults \<Rightarrow> FreshnessGateEvaluationOutcome \<Rightarrow> freshness_log
      \<Rightarrow> (FreshnessGateRuntimeError + unit) \<times> freshness_log" where
  "log_outcome T policy faults outcome rows =
     (case FreshnessGateEvaluationOutcome_to_event outcome (freshness_event_id outcome) policy of
        None \<Rightarrow> (Inr (), rows)
      | Some event \<Rightarrow> (case map_err map_freshness_runtime_contract_error (validate_freshness_gate_event T event) of
          Inl error \<Rightarrow> (Inl error, rows)
        | Inr _ \<Rightarrow> (let (result, rows') = insert_freshness_gate_event T faults event rows
                    in (map_err map_freshness_persistence_error result, rows'))))"

definition evaluate_once ::
    "time_crate \<Rightarrow> FreshnessGatePolicy \<Rightarrow> db_faults \<Rightarrow> FreshnessSignalState \<Rightarrow> string \<Rightarrow> string
      \<Rightarrow> FreshnessGateState option \<times> freshness_log
      \<Rightarrow> (FreshnessGateRuntimeError + FreshnessGateEvaluationOutcome) \<times> (FreshnessGateState option \<times> freshness_log)" where
  "evaluate_once T policy faults signals sampled_at_utc correlation_id s =
     (case and_then (SharedFreshnessSignals_snapshot T signals sampled_at_utc correlation_id) (\<lambda>snapshot.
           map_err map_freshness_runtime_contract_error (evaluate_freshness_gate T snapshot (fst s) policy)) of
        Inl error \<Rightarrow> (Inl error, s)
      | Inr outcome \<Rightarrow> (let (logged, rows') = log_outcome T policy faults outcome (snd s)
          in case logged of
               Inl error \<Rightarrow> (Inl error, (fst s, rows'))
             | Inr _ \<Rightarrow> (Inr outcome, (Some (FreshnessGateEvaluationOutcome_to_state outcome), rows'))))"

text \<open>
  The loop, over the ticks it lives through: what each tick finds in the signals, what the clock
  says, and what the database does. The first error ends it.
\<close>

record gate_tick =
  tk_signals :: FreshnessSignalState
  tk_now :: "FreshnessGateRuntimeError + string"
  tk_faults :: db_faults

fun run_freshness_gate_ticks ::
    "time_crate \<Rightarrow> FreshnessGatePolicy \<Rightarrow> gate_tick list \<Rightarrow> FreshnessGateState option \<times> freshness_log
      \<Rightarrow> (FreshnessGateRuntimeError + unit) \<times> (FreshnessGateState option \<times> freshness_log)" where
  "run_freshness_gate_ticks T policy [] s = (Inr (), s)"
| "run_freshness_gate_ticks T policy (tick # ticks) s = (case tk_now tick of
     Inl error \<Rightarrow> (Inl error, s)
   | Inr sampled_at_utc \<Rightarrow>
       (let correlation_id = ''freshness-gate-eval::'' @ freshness_compact_timestamp_token sampled_at_utc;
            (result, s') = evaluate_once T policy (tk_faults tick) (tk_signals tick) sampled_at_utc correlation_id s
        in case result of
             Inl error \<Rightarrow> (Inl error, s')
           | Inr _ \<Rightarrow> run_freshness_gate_ticks T policy ticks s'))"

definition run_freshness_gate_loop ::
    "time_crate \<Rightarrow> pg_types \<Rightarrow> FreshnessGatePolicy \<Rightarrow> db_faults \<Rightarrow> gate_tick list
      \<Rightarrow> FreshnessGateState option \<times> freshness_log
      \<Rightarrow> (FreshnessGateRuntimeError + unit) \<times> (FreshnessGateState option \<times> freshness_log)" where
  "run_freshness_gate_loop T P policy faults ticks s =
     (case hydrate_latest_state T P faults (snd s) (fst s) of
        (Inl error, st) \<Rightarrow> (Inl error, (st, snd s))
      | (Inr _, st) \<Rightarrow> run_freshness_gate_ticks T policy ticks (st, snd s))"

section \<open>The log determines the pause\<close>

lemma latest_row_in: "latest_row P rows = Some row \<Longrightarrow> row \<in> set rows"
  by (induction rows) (auto split: option.splits if_splits)

lemma latest_row_None [simp]: "latest_row P rows = None \<longleftrightarrow> rows = []"
  by (cases rows) (auto split: option.splits)

lemma latest_row_newest:
  assumes "\<forall>row\<in>set rows. pg_instant P (fe_evaluated_at_utc (fz_event row)) < pg_instant P (fe_evaluated_at_utc (fz_event new))"
  shows "latest_row P (new # rows) = Some new"
proof -
  have "\<not> row_after P best new" if "latest_row P rows = Some best" for best
    using assms latest_row_in[OF that] by (auto simp: row_after_def Let_def)
  then show ?thesis by (auto split: option.splits)
qed

lemma freshness_event_id_not_blank: "\<not> blank (freshness_event_id outcome)"
  unfolding freshness_event_id_def by (rule not_blank_plain[of "CHR ''f''"]) (simp_all add: plain_def)

text \<open>One evaluation: an error changes nothing, an outcome without a transition leaves an open gate open.\<close>

lemma log_outcome_cases:
  assumes "log_outcome T policy faults out rows = (r, rows')"
  obtains (failed) e where "r = Inl e" "rows' = rows"
  | (silent) "r = Inr ()" "rows' = rows" "fo_transition out = None"
  | (logged) event where "r = Inr ()" "validate_freshness_gate_event T event = Inr ()"
      "FreshnessGateEvaluationOutcome_to_event out (freshness_event_id out) policy = Some event"
      "rows' = \<lparr>fz_transition = FreshnessGateTransition_as_str (fe_transition event), fz_event = event\<rparr> # rows"
proof (cases "FreshnessGateEvaluationOutcome_to_event out (freshness_event_id out) policy")
  case None
  then show thesis using assms silent
    by (auto simp: log_outcome_def FreshnessGateEvaluationOutcome_to_event_def)
next
  case (Some event)
  show thesis
  proof (cases "validate_freshness_gate_event T event")
    case (Inl e)
    then show thesis using assms Some failed by (auto simp: log_outcome_def)
  next
    case (Inr u)
    then have "(r, rows') = (let (result, rows') = insert_freshness_gate_event T faults event rows
        in (map_err map_freshness_persistence_error result, rows'))"
      using assms Some by (simp add: log_outcome_def)
    then show thesis
      using Inr Some failed logged
      by (cases "faults ''insert_freshness_gate_event''")
        (auto simp: insert_freshness_gate_event_def transact_def statement_def)
  qed
qed

lemma outcome_without_transition:
  assumes "evaluate_freshness_gate T s st p = Inr out" "fo_transition out = None"
  shows "\<not> gate_paused st" "\<not> fo_pause_active out"
proof -
  have fresh: "snapshot_fresh p s" using evaluate_stale(4)[OF assms(1)] assms(2) by force
  show open_gate: "\<not> gate_paused st"
  proof
    assume "gate_paused st"
    from evaluate_fresh_paused[OF assms(1) fresh this] assms(2) show False by force
  qed
  show "\<not> fo_pause_active out" by (rule evaluate_fresh_open(1)[OF assms(1) fresh open_gate])
qed

lemma evaluate_once_cases:
  assumes "evaluate_once T policy faults signals now corr (st, rows) = (r, s')"
  obtains (failed) e where "r = Inl e" "s' = (st, rows)"
  | (silent) out where "r = Inr out" "\<not> gate_paused st" "\<not> fo_pause_active out"
      "s' = (Some (FreshnessGateEvaluationOutcome_to_state out), rows)"
  | (logged) out event where "r = Inr out"
      "s' = (Some (FreshnessGateEvaluationOutcome_to_state out),
        \<lparr>fz_transition = FreshnessGateTransition_as_str (fe_transition event), fz_event = event\<rparr> # rows)"
      "validate_freshness_gate_event T event = Inr ()" "fe_pause_active event = fo_pause_active out"
      "fe_evaluated_at_utc event = now"
proof (cases "and_then (SharedFreshnessSignals_snapshot T signals now corr) (\<lambda>snapshot.
      map_err map_freshness_runtime_contract_error (evaluate_freshness_gate T snapshot st policy))")
  case (Inl e)
  then show thesis using assms by (intro failed[of e]) (simp_all add: evaluate_once_def)
next
  case (Inr out)
  then obtain snapshot where snapshot: "SharedFreshnessSignals_snapshot T signals now corr = Inr snapshot"
    and eval: "evaluate_freshness_gate T snapshot st policy = Inr out"
    by (auto simp: and_then_Inr_iff)
  have now: "fo_evaluated_at_utc out = now"
    using snapshot evaluate_carries(1)[OF eval] by (auto simp: SharedFreshnessSignals_snapshot_def and_then_Inr_iff)
  obtain logged rows' where log_run: "log_outcome T policy faults out rows = (logged, rows')" by fastforce
  have result: "(r, s') = (case logged of Inl error \<Rightarrow> (Inl error, (st, rows'))
      | Inr _ \<Rightarrow> (Inr out, (Some (FreshnessGateEvaluationOutcome_to_state out), rows')))"
    unfolding assms[symmetric] evaluate_once_def using Inr log_run by (cases logged) simp_all
  from log_run show thesis
  proof (cases rule: log_outcome_cases)
    case (failed e)
    then show thesis using result that(1) by auto
  next
    case silent
    then show thesis using result that(2) outcome_without_transition[OF eval] by auto
  next
    case (logged event)
    then have "fe_pause_active event = fo_pause_active out" "fe_evaluated_at_utc event = now"
      using now by (auto simp: FreshnessGateEvaluationOutcome_to_event_def)
    then show thesis using result logged that(3) by auto
  qed
qed

text \<open>
  The runs of the controller: evaluations with any signals, any clock (it may step back) and any
  faults, and restarts, which begin with the state of the log.
\<close>

inductive gate_run :: "time_crate \<Rightarrow> pg_types \<Rightarrow> FreshnessGatePolicy \<Rightarrow> FreshnessGateState option \<times> freshness_log \<Rightarrow> bool"
  for T P policy where
  cold: "gate_run T P policy (None, [])"
| tick: "gate_run T P policy s \<Longrightarrow> evaluate_once T policy faults signals now corr s = (r, s') \<Longrightarrow>
    gate_run T P policy s'"
| restart: "gate_run T P policy s \<Longrightarrow> hydrate_latest_state T P faults (snd s) None = (Inr (), st) \<Longrightarrow>
    gate_run T P policy (st, snd s)"

text \<open>The instant of a logged event, and a log whose last event is later than all before it.\<close>

definition row_instant :: "pg_types \<Rightarrow> freshness_row \<Rightarrow> int" where
  "row_instant P row = pg_instant P (fe_evaluated_at_utc (fz_event row))"

definition newest_is_latest :: "pg_types \<Rightarrow> freshness_log \<Rightarrow> bool" where
  "newest_is_latest P rows \<longleftrightarrow> (\<forall>row\<in>set (tl rows). row_instant P row < row_instant P (hd rows))"

definition row_ok :: "time_crate \<Rightarrow> freshness_row \<Rightarrow> bool" where
  "row_ok T row \<longleftrightarrow> validate_freshness_gate_event T (fz_event row) = Inr ()
     \<and> fz_transition row = FreshnessGateTransition_as_str (fe_transition (fz_event row))"

definition log_pauses :: "pg_types \<Rightarrow> freshness_log \<Rightarrow> bool" where
  "log_pauses P rows = (case latest_row P rows of None \<Rightarrow> False | Some row \<Rightarrow> fe_pause_active (fz_event row))"

lemma decode_pause:
  "decode_freshness_gate_event_row T P row = Inr event \<Longrightarrow> fe_pause_active event = fe_pause_active (fz_event row)"
  by (auto simp: decode_freshness_gate_event_row_def and_then_Inr_iff Let_def)

lemma hydrate_pause:
  assumes "hydrate_latest_state T P faults rows None = (Inr (), st)"
  shows "gate_paused st = log_pauses P rows"
proof (cases "latest_row P rows")
  case None
  then show ?thesis using assms
    by (auto simp: hydrate_latest_state_def load_latest_freshness_gate_event_def log_pauses_def gate_paused_def
        and_then_Inr_iff split: sum.splits option.splits)
next
  case (Some row)
  then obtain event where "decode_freshness_gate_event_row T P row = Inr event" "gate_paused st = fe_pause_active event"
    using assms
    by (auto simp: hydrate_latest_state_def load_latest_freshness_gate_event_def gate_paused_def
        and_then_Inr_iff split: sum.splits option.splits)
  then show ?thesis using Some decode_pause by (simp add: log_pauses_def)
qed

lemma latest_row_greatest:
  "latest_row P rows = Some row \<Longrightarrow> row \<in> set rows \<and> (\<forall>other\<in>set rows. row_instant P other \<le> row_instant P row)"
proof (induction rows arbitrary: row)
  case (Cons a rows)
  show ?case
  proof (cases "latest_row P rows")
    case None
    then show ?thesis using Cons.prems by simp
  next
    case (Some best)
    then show ?thesis
      using Cons.prems Cons.IH[OF Some]
      by (force simp: row_after_def row_instant_def Let_def split: if_splits)
  qed
qed simp

lemma log_pauses_newest:
  "newest_is_latest P (row # rows) \<Longrightarrow> log_pauses P (row # rows) = fe_pause_active (fz_event row)"
  using latest_row_newest[of rows P row]
  by (simp add: log_pauses_def newest_is_latest_def row_instant_def del: latest_row.simps)

text \<open>
  Every logged event is a valid one, and the gate is as the event logged last says unless a
  restart has found a later one.
\<close>

lemma gate_run_inv:
  "gate_run T P policy s \<Longrightarrow> list_all (row_ok T) (snd s)
     \<and> (newest_is_latest P (snd s) \<longrightarrow> gate_paused (fst s) = log_pauses P (snd s))"
proof (induction rule: gate_run.induct)
  case cold
  show ?case by (simp add: gate_paused_def log_pauses_def)
next
  case (tick s faults signals now corr r s')
  from tick.hyps(2) have "evaluate_once T policy faults signals now corr (fst s, snd s) = (r, s')" by simp
  then show ?case
  proof (cases rule: evaluate_once_cases)
    case failed
    then show ?thesis using tick.IH by simp
  next
    case silent
    then show ?thesis using tick.IH by (simp add: gate_paused_def FreshnessGateEvaluationOutcome_to_state_def)
  next
    case (logged out event)
    then show ?thesis
      using tick.IH
      by (simp add: log_pauses_newest gate_paused_def FreshnessGateEvaluationOutcome_to_state_def row_ok_def)
  qed
next
  case (restart s faults st)
  then show ?case using hydrate_pause by simp
qed

lemma decode_valid_row:
  assumes "row_ok T row" and "\<And>v. utc_ok T v \<Longrightarrow> utc_ok T (pg_to_char P v)"
  shows "\<exists>event. decode_freshness_gate_event_row T P row = Inr event"
proof -
  have opt: "optional_ok (utc_ok T) v \<Longrightarrow> optional_ok (utc_ok T) (map_option (pg_to_char P) v)" for v
    using assms(2) by (cases v) auto
  have tr: "freshness_transition_issues tr e = [] \<Longrightarrow> freshness_transition_issues tr (e
           \<lparr>fe_stale_breach_detected_at_utc := map_option f (fe_stale_breach_detected_at_utc e),
            fe_pause_activated_at_utc := map_option f (fe_pause_activated_at_utc e),
            fe_recovery_window_started_at_utc := map_option f (fe_recovery_window_started_at_utc e),
            fe_recovery_confirmed_at_utc := map_option f (fe_recovery_confirmed_at_utc e),
            fe_evaluated_at_utc := g\<rparr>) = []" for tr e f g
    by (cases tr) simp_all
  from assms(1) show ?thesis
    using opt assms(2) tr
    by (auto simp: row_ok_def event_valid_iff decode_freshness_gate_event_row_def and_then_Inr_iff Let_def
        freshness_transition.parse_code)
qed

text \<open>
  C27: After any run of evaluations, database failures and earlier restarts, under any clock,
  restoring the gate from its event log either fails because the database does, or gives a gate
  that is paused exactly when a logged event whose instant no other exceeds is a pausing one (and
  open when nothing was logged). When the event logged last is later than every event logged
  before it, the restart therefore neither lifts nor invents a pause. Nothing in the controller
  enforces that order: \<open>pause_lost_when_clock_steps_back\<close> is a run where it fails.
\<close>

theorem restart_keeps_the_pause:
  assumes "gate_run T P policy (st, rows)" and "\<And>v. utc_ok T v \<Longrightarrow> utc_ok T (pg_to_char P v)"
  shows "(case hydrate_latest_state T P faults rows None of
      (Inl e, st') \<Rightarrow> faults ''load_latest_freshness_gate_event'' \<noteq> None \<and> st' = None
    | (Inr _, st') \<Rightarrow>
        (if rows = [] then \<not> gate_paused st'
         else \<exists>row\<in>set rows. (\<forall>other\<in>set rows. row_instant P other \<le> row_instant P row)
           \<and> gate_paused st' = fe_pause_active (fz_event row))
      \<and> (newest_is_latest P rows \<longrightarrow> gate_paused st' = gate_paused st))"
proof -
  have inv: "newest_is_latest P rows \<longrightarrow> gate_paused st = log_pauses P rows" "list_all (row_ok T) rows"
    using gate_run_inv[OF assms(1)] by simp_all
  have loaded: "\<exists>r. load_latest_freshness_gate_event T P faults rows = Inr r"
    if "faults ''load_latest_freshness_gate_event'' = None"
  proof (cases "latest_row P rows")
    case (Some row)
    then have "row_ok T row" using inv(2) latest_row_in by (auto simp: list_all_iff)
    with decode_valid_row[OF this assms(2)] Some that show ?thesis
      by (auto simp: load_latest_freshness_gate_event_def)
  qed (use that in \<open>simp add: load_latest_freshness_gate_event_def\<close>)
  obtain r st' where run: "hydrate_latest_state T P faults rows None = (r, st')" by fastforce
  show ?thesis
  proof (cases r)
    case (Inl e)
    then have "isl (load_latest_freshness_gate_event T P faults rows) \<and> st' = None"
      using run by (cases "load_latest_freshness_gate_event T P faults rows")
        (auto simp: hydrate_latest_state_def split: option.splits)
    then show ?thesis using run loaded Inl by force
  next
    case (Inr u)
    then have paused: "gate_paused st' = log_pauses P rows" using run hydrate_pause by simp
    have "rows \<noteq> [] \<Longrightarrow> \<exists>row\<in>set rows. (\<forall>other\<in>set rows. row_instant P other \<le> row_instant P row)
        \<and> gate_paused st' = fe_pause_active (fz_event row)"
      using paused latest_row_greatest by (cases "latest_row P rows") (force simp: log_pauses_def)+
    then show ?thesis using run Inr paused inv(1) by (simp add: log_pauses_def)
  qed
qed

definition demo_tick ::
    "string option \<Rightarrow> string \<Rightarrow> FreshnessGateState option \<times> freshness_log \<Rightarrow> FreshnessGateState option \<times> freshness_log" where
  "demo_tick observed now s = snd (evaluate_once demo_time FreshnessGatePolicy_default (\<lambda>_. None)
     \<lparr>sg_market_last_observed_at_utc = observed, sg_user_last_observed_at_utc = observed\<rparr> now ''c'' s)"

abbreviation demo_gate_run :: "FreshnessGateState option \<times> freshness_log \<Rightarrow> bool" where
  "demo_gate_run \<equiv> gate_run demo_time demo_pg FreshnessGatePolicy_default"

lemma demo_tick_run: "demo_gate_run s \<Longrightarrow> demo_gate_run (demo_tick observed now s)"
  by (rule gate_run.tick[of _ _ _ s]) (auto simp: demo_tick_def prod_eq_iff)

definition demo_gate :: "FreshnessGateState option \<times> freshness_log" where
  "demo_gate = demo_tick None ''2026-04-06T00:00:01Z'' (None, [])"

lemma demo_gate_run: "demo_gate_run demo_gate"
  unfolding demo_gate_def by (intro demo_tick_run gate_run.cold)

theorem restart_keeps_the_pause_witness:
  "gate_paused (snd (hydrate_latest_state demo_time demo_pg (\<lambda>_. None) (snd demo_gate) None))"
proof -
  have paused: "gate_paused (fst demo_gate)" "newest_is_latest demo_pg (snd demo_gate)"
    unfolding newest_is_latest_def by code_simp+
  have run: "demo_gate_run (fst demo_gate, snd demo_gate)" using demo_gate_run by simp
  from restart_keeps_the_pause[OF run, of "\<lambda>_. None"] paused show ?thesis
    by (cases "hydrate_latest_state demo_time demo_pg (\<lambda>_. None) (snd demo_gate) None")
      (auto simp: demo_pg_def split: sum.splits)
qed

text \<open>
  A pause is lost when the clock steps back: its recovery is confirmed at :45 and it is set again at :30, so
  the log's latest event is the recovery and a restart opens the gate.
\<close>

definition backward_clock_gate :: "FreshnessGateState option \<times> freshness_log" where
  "backward_clock_gate =
     demo_tick None ''2026-04-06T00:00:30Z''
      (demo_tick (Some ''2026-04-06T00:00:45Z'') ''2026-04-06T00:00:45Z''
      (demo_tick (Some ''2026-04-06T00:00:05Z'') ''2026-04-06T00:00:05Z'' demo_gate))"

lemma pause_lost_when_clock_steps_back:
  "demo_gate_run backward_clock_gate \<and> gate_paused (fst backward_clock_gate)
   \<and> (case hydrate_latest_state demo_time demo_pg (\<lambda>_. None) (snd backward_clock_gate) None of
        (r, st) \<Rightarrow> r = Inr () \<and> \<not> gate_paused st)"
proof (intro conjI)
  show "demo_gate_run backward_clock_gate"
    unfolding backward_clock_gate_def by (intro demo_tick_run demo_gate_run)
  show "gate_paused (fst backward_clock_gate)" by code_simp
  show "case hydrate_latest_state demo_time demo_pg (\<lambda>_. None) (snd backward_clock_gate) None of
        (r, st) \<Rightarrow> r = Inr () \<and> \<not> gate_paused st" by code_simp
qed

end
