(* ===== verification/OrderStore.thy ===== *)
theory OrderStore
  imports OrderLifecycle Database
begin

text \<open>
  The order transaction of \<open>crates/persistence/src/postgres/orders.rs\<close>: a transition is checked
  for a repeated key, a terminal order and the transition relation, projected, and written
  together with its log entry. The tables are a map of order rows and a list of transition
  rows; \<open>render\<close> is how PostgreSQL reads a stored timestamp back, and every statement has its
  fault. A decoded row whose columns have the wrong SQL type cannot occur here: the rows are
  typed.
\<close>

section \<open>Errors, commands and outcomes\<close>

type_synonym OrderLifecyclePersistenceError = contract_error

definition OrderLifecyclePersistenceError_invalid_payload ::
    "string \<Rightarrow> OrderLifecycleValidationIssue list \<Rightarrow> OrderLifecyclePersistenceError" where
  "OrderLifecyclePersistenceError_invalid_payload message field_errors =
     contract_error_of (OrderLifecycleReasonCode_code OrderLifecycleReasonCode.InvalidPayload) message field_errors"

definition OrderLifecyclePersistenceError_persistence_unavailable ::
    "string \<Rightarrow> db_fault \<Rightarrow> OrderLifecyclePersistenceError" where
  "OrderLifecyclePersistenceError_persistence_unavailable operation error =
     contract_error_of (OrderLifecycleReasonCode_code OrderLifecycleReasonCode.PersistenceUnavailable)
       (operation @ '' failed: '' @ df_text error) []"

definition OrderLifecyclePersistenceError_constraint_violation ::
    "string \<Rightarrow> db_fault \<Rightarrow> OrderLifecyclePersistenceError" where
  "OrderLifecyclePersistenceError_constraint_violation operation error =
     contract_error_of (OrderLifecycleReasonCode_code OrderLifecycleReasonCode.PersistenceUnavailable)
       (operation @ '' rejected by constraint: '' @ df_text error) []"

definition map_order_contract_error :: "OrderLifecycleContractError \<Rightarrow> OrderLifecyclePersistenceError" where
  "map_order_contract_error error = contract_error_of (ce_code error) (ce_message error) (ce_field_errors error)"

definition classify_order_query_error :: "string \<Rightarrow> db_fault \<Rightarrow> OrderLifecyclePersistenceError" where
  "classify_order_query_error operation error =
     (if is_constraint_error error then OrderLifecyclePersistenceError_constraint_violation operation error
      else OrderLifecyclePersistenceError_persistence_unavailable operation error)"

abbreviation order_sql :: "db_faults \<Rightarrow> string \<Rightarrow> 'a \<Rightarrow> OrderLifecyclePersistenceError + 'a" where
  "order_sql \<equiv> statement classify_order_query_error"

datatype OrderLifecyclePersistDisposition = Applied | Duplicate | Rejected | AlreadyTerminal

record OrderLifecyclePersistOutcome =
  po_disposition :: OrderLifecyclePersistDisposition
  po_reason :: string
  po_order :: OrderRecord
  po_transition :: "OrderStateTransition option"

record OrderLifecycleTransitionCommand =
  tc_order_id :: string
  tc_market_id :: string
  tc_mode :: OrderMode
  tc_target_state :: OrderLifecycleState
  tc_reason_code :: string
  tc_correlation_id :: string
  tc_idempotency_key :: string
  tc_transitioned_at_utc :: string

section \<open>Tables\<close>

record order_row =
  ow_order_id :: string
  ow_market_id :: string
  ow_order_mode :: string
  ow_lifecycle_state :: string
  ow_submission_idempotency_key :: string
  ow_cancel_idempotency_key :: "string option"
  ow_last_transition_sequence :: int
  ow_last_reason_code :: string
  ow_correlation_id :: string
  ow_created_at_utc :: string
  ow_updated_at_utc :: string

record transition_row =
  tr_transition_id :: string
  tr_order_id :: string
  tr_market_id :: string
  tr_order_mode :: string
  tr_from_state :: "string option"
  tr_to_state :: string
  tr_reason_code :: string
  tr_idempotency_key :: string
  tr_correlation_id :: string
  tr_transition_sequence :: int
  tr_transitioned_at_utc :: string

record order_store =
  os_orders :: "string \<rightharpoonup> order_row"
  os_transitions :: "transition_row list" \<comment> \<open>newest first\<close>

definition empty_order_store :: order_store where
  "empty_order_store = \<lparr>os_orders = Map.empty, os_transitions = []\<rparr>"

text \<open>The columns as they are bound.\<close>

definition order_row_of :: "OrderRecord \<Rightarrow> order_row" where
  "order_row_of next_order =
     \<lparr>ow_order_id = or_order_id next_order, ow_market_id = or_market_id next_order,
      ow_order_mode = OrderMode_as_str (or_mode next_order),
      ow_lifecycle_state = OrderLifecycleState_as_str (or_state next_order),
      ow_submission_idempotency_key = or_submission_idempotency_key next_order,
      ow_cancel_idempotency_key = or_cancel_idempotency_key next_order,
      ow_last_transition_sequence = or_last_transition_sequence next_order,
      ow_last_reason_code = or_last_reason_code next_order, ow_correlation_id = or_correlation_id next_order,
      ow_created_at_utc = or_created_at_utc next_order, ow_updated_at_utc = or_updated_at_utc next_order\<rparr>"

definition transition_row_of :: "OrderStateTransition \<Rightarrow> transition_row" where
  "transition_row_of transition =
     \<lparr>tr_transition_id = ot_transition_id transition, tr_order_id = ot_order_id transition,
      tr_market_id = ot_market_id transition, tr_order_mode = OrderMode_as_str (ot_mode transition),
      tr_from_state = map_option OrderLifecycleState_as_str (ot_from_state transition),
      tr_to_state = OrderLifecycleState_as_str (ot_to_state transition),
      tr_reason_code = ot_reason_code transition, tr_idempotency_key = ot_idempotency_key transition,
      tr_correlation_id = ot_correlation_id transition,
      tr_transition_sequence = ot_transition_sequence transition,
      tr_transitioned_at_utc = ot_transitioned_at_utc transition\<rparr>"

text \<open>\<open>UPDATE orders SET .. WHERE order_id = $1\<close>\<close>

definition update_order_row :: "OrderRecord \<Rightarrow> order_row \<Rightarrow> order_row" where
  "update_order_row next_order row = row
     \<lparr>ow_lifecycle_state := OrderLifecycleState_as_str (or_state next_order),
      ow_cancel_idempotency_key := or_cancel_idempotency_key next_order,
      ow_last_transition_sequence := or_last_transition_sequence next_order,
      ow_last_reason_code := or_last_reason_code next_order,
      ow_correlation_id := or_correlation_id next_order,
      ow_updated_at_utc := or_updated_at_utc next_order\<rparr>"

section \<open>Decoding\<close>

definition decode_order_row ::
    "time_crate \<Rightarrow> (string \<Rightarrow> string) \<Rightarrow> order_row \<Rightarrow> OrderLifecyclePersistenceError + OrderRecord" where
  "decode_order_row T render row =
     and_then (map_err map_order_contract_error (OrderMode_parse (ow_order_mode row))) (\<lambda>mode.
     and_then (map_err map_order_contract_error (OrderLifecycleState_parse (ow_lifecycle_state row))) (\<lambda>state.
     let order =
       \<lparr>or_order_id = ow_order_id row, or_market_id = ow_market_id row, or_mode = mode, or_state = state,
        or_submission_idempotency_key = ow_submission_idempotency_key row,
        or_cancel_idempotency_key = ow_cancel_idempotency_key row,
        or_last_transition_sequence = ow_last_transition_sequence row,
        or_last_reason_code = ow_last_reason_code row, or_correlation_id = ow_correlation_id row,
        or_created_at_utc = render (ow_created_at_utc row), or_updated_at_utc = render (ow_updated_at_utc row)\<rparr>
     in and_then (map_err map_order_contract_error (validate_order_record T order)) (\<lambda>_. Inr order)))"

definition decode_transition_row ::
    "time_crate \<Rightarrow> (string \<Rightarrow> string) \<Rightarrow> transition_row \<Rightarrow> OrderLifecyclePersistenceError + OrderStateTransition" where
  "decode_transition_row T render row =
     and_then (map_err map_order_contract_error (OrderMode_parse (tr_order_mode row))) (\<lambda>mode.
     and_then (map_err map_order_contract_error (OrderLifecycleState_parse (tr_to_state row))) (\<lambda>to_state.
     and_then (case tr_from_state row of
         Some value \<Rightarrow> and_then (map_err map_order_contract_error (OrderLifecycleState_parse value)) (\<lambda>s. Inr (Some s))
       | None \<Rightarrow> Inr None) (\<lambda>from_state.
     let transition =
       \<lparr>ot_transition_id = tr_transition_id row, ot_order_id = tr_order_id row, ot_market_id = tr_market_id row,
        ot_mode = mode, ot_from_state = from_state, ot_to_state = to_state,
        ot_reason_code = tr_reason_code row, ot_idempotency_key = tr_idempotency_key row,
        ot_correlation_id = tr_correlation_id row, ot_transition_sequence = tr_transition_sequence row,
        ot_transitioned_at_utc = render (tr_transitioned_at_utc row)\<rparr>
     in and_then (map_err map_order_contract_error (validate_order_state_transition T transition))
          (\<lambda>_. Inr transition))))"

text \<open>\<open>row.map(decode).transpose()?\<close>, and the collection of a list of decoded rows.\<close>

fun decode_option :: "('r \<Rightarrow> 'e + 'a) \<Rightarrow> 'r option \<Rightarrow> 'e + 'a option" where
  "decode_option decode None = Inr None"
| "decode_option decode (Some row) = and_then (decode row) (\<lambda>value. Inr (Some value))"

fun decode_all :: "('r \<Rightarrow> 'e + 'a) \<Rightarrow> 'r list \<Rightarrow> 'e + 'a list" where
  "decode_all decode [] = Inr []"
| "decode_all decode (row # rows) =
     and_then (decode row) (\<lambda>value. and_then (decode_all decode rows) (\<lambda>values. Inr (value # values)))"

section \<open>Projection\<close>

definition transition_id :: "string \<Rightarrow> int \<Rightarrow> string \<Rightarrow> string" where
  "transition_id order_id sequence timestamp_utc =
     ''transition::'' @ trim order_id @ ''::'' @ int_to_dec sequence @ ''::'' @ filter is_ascii_digit timestamp_utc"

definition validate_order_command_non_empty :: "string \<Rightarrow> string \<Rightarrow> OrderLifecyclePersistenceError + unit" where
  "validate_order_command_non_empty field value =
     (if blank value then Inl (OrderLifecyclePersistenceError_invalid_payload (field @ '' cannot be blank'') [])
      else Inr ())"

text \<open>The first transition of an order as the command names it.\<close>

definition initial_transition :: "OrderLifecycleTransitionCommand \<Rightarrow> string \<Rightarrow> OrderStateTransition" where
  "initial_transition command key =
     \<lparr>ot_transition_id = transition_id (tc_order_id command) 1 (tc_transitioned_at_utc command),
      ot_order_id = trim (tc_order_id command), ot_market_id = trim (tc_market_id command),
      ot_mode = tc_mode command, ot_from_state = None, ot_to_state = tc_target_state command,
      ot_reason_code = tc_reason_code command, ot_idempotency_key = key,
      ot_correlation_id = trim (tc_correlation_id command), ot_transition_sequence = 1,
      ot_transitioned_at_utc = trim (tc_transitioned_at_utc command)\<rparr>"

definition validate_transition_command ::
    "time_crate \<Rightarrow> OrderLifecycleTransitionCommand \<Rightarrow> OrderLifecyclePersistenceError + unit" where
  "validate_transition_command T command =
     and_then (validate_order_command_non_empty ''order_id'' (tc_order_id command)) (\<lambda>_.
     and_then (validate_order_command_non_empty ''market_id'' (tc_market_id command)) (\<lambda>_.
     and_then (validate_order_command_non_empty ''reason_code'' (tc_reason_code command)) (\<lambda>_.
     and_then (validate_order_command_non_empty ''correlation_id'' (tc_correlation_id command)) (\<lambda>_.
     and_then (validate_order_command_non_empty ''idempotency_key'' (tc_idempotency_key command)) (\<lambda>_.
     and_then (validate_order_command_non_empty ''transitioned_at_utc'' (tc_transitioned_at_utc command)) (\<lambda>_.
     and_then (map_err map_order_contract_error (OrderLifecycleReasonCode_parse (tc_reason_code command))) (\<lambda>_.
     if normalize_order_idempotency_key (tc_idempotency_key command) \<noteq> tc_idempotency_key command
     then Inl (OrderLifecyclePersistenceError_invalid_payload
       ''idempotency_key must be normalized (trimmed lowercase)'' [])
     else and_then (map_err map_order_contract_error
       (validate_order_state_transition T (initial_transition command (tc_idempotency_key command)))) (\<lambda>_. Inr ()))))))))"

definition project_initial_transition ::
    "time_crate \<Rightarrow> OrderLifecycleTransitionCommand \<Rightarrow> string
      \<Rightarrow> OrderLifecyclePersistenceError + OrderRecord \<times> OrderStateTransition" where
  "project_initial_transition T command normalized_idempotency_key =
     and_then (map_err map_order_contract_error (validate_order_transition None (tc_target_state command))) (\<lambda>_.
     let order =
       \<lparr>or_order_id = trim (tc_order_id command), or_market_id = trim (tc_market_id command),
        or_mode = tc_mode command, or_state = tc_target_state command,
        or_submission_idempotency_key =
          normalize_order_submission_idempotency_key (tc_order_id command) normalized_idempotency_key,
        or_cancel_idempotency_key = (if tc_target_state command = OrderLifecycleState.Canceled
          then Some (normalize_order_cancel_idempotency_key (tc_order_id command) normalized_idempotency_key)
          else None),
        or_last_transition_sequence = 1, or_last_reason_code = tc_reason_code command,
        or_correlation_id = trim (tc_correlation_id command),
        or_created_at_utc = trim (tc_transitioned_at_utc command),
        or_updated_at_utc = trim (tc_transitioned_at_utc command)\<rparr>;
         transition = initial_transition command normalized_idempotency_key
     in and_then (map_err map_order_contract_error (validate_order_record T order)) (\<lambda>_.
        and_then (map_err map_order_contract_error (validate_order_state_transition T transition)) (\<lambda>_.
        Inr (order, transition))))"

definition project_follow_up_transition ::
    "time_crate \<Rightarrow> OrderRecord \<Rightarrow> OrderLifecycleTransitionCommand \<Rightarrow> string
      \<Rightarrow> OrderLifecyclePersistenceError + OrderRecord \<times> OrderStateTransition" where
  "project_follow_up_transition T current_order command normalized_idempotency_key =
     (if or_market_id current_order \<noteq> trim (tc_market_id command) then
        Inl (OrderLifecyclePersistenceError_invalid_payload ''market_id does not match existing order projection'' [])
      else if or_mode current_order \<noteq> tc_mode command then
        Inl (OrderLifecyclePersistenceError_invalid_payload ''order_mode does not match existing order projection'' [])
      else and_then (map_err map_order_contract_error
          (validate_order_transition (Some (or_state current_order)) (tc_target_state command))) (\<lambda>_.
      let next_sequence = or_last_transition_sequence current_order + 1;
          next_order = current_order
            \<lparr>or_state := tc_target_state command,
             or_cancel_idempotency_key := (if tc_target_state command = OrderLifecycleState.Canceled
               then Some (normalize_order_cancel_idempotency_key (tc_order_id command) normalized_idempotency_key)
               else or_cancel_idempotency_key current_order),
             or_last_transition_sequence := next_sequence,
             or_last_reason_code := tc_reason_code command,
             or_correlation_id := trim (tc_correlation_id command),
             or_updated_at_utc := trim (tc_transitioned_at_utc command)\<rparr>;
          transition =
            \<lparr>ot_transition_id = transition_id (tc_order_id command) next_sequence (tc_transitioned_at_utc command),
             ot_order_id = trim (tc_order_id command), ot_market_id = trim (tc_market_id command),
             ot_mode = tc_mode command, ot_from_state = Some (or_state current_order),
             ot_to_state = tc_target_state command, ot_reason_code = tc_reason_code command,
             ot_idempotency_key = normalized_idempotency_key,
             ot_correlation_id = trim (tc_correlation_id command), ot_transition_sequence = next_sequence,
             ot_transitioned_at_utc = trim (tc_transitioned_at_utc command)\<rparr>
      in and_then (map_err map_order_contract_error (validate_order_record T next_order)) (\<lambda>_.
         and_then (map_err map_order_contract_error (validate_order_state_transition T transition)) (\<lambda>_.
         Inr (next_order, transition)))))"

section \<open>The transaction\<close>

definition order_outcome ::
    "OrderLifecyclePersistDisposition \<Rightarrow> string \<Rightarrow> OrderRecord \<Rightarrow> OrderStateTransition option
      \<Rightarrow> OrderLifecyclePersistOutcome" where
  "order_outcome disposition reason_code order transition =
     \<lparr>po_disposition = disposition, po_reason = reason_code, po_order = order, po_transition = transition\<rparr>"

text \<open>The statements of an applied transition, in the order of its kind.\<close>

definition write_transition ::
    "db_faults \<Rightarrow> OrderRecord \<Rightarrow> OrderStateTransition \<Rightarrow> order_store
      \<Rightarrow> OrderLifecyclePersistenceError + OrderLifecyclePersistOutcome \<times> order_store" where
  "write_transition faults next_order transition st =
     (let logged = transition_row_of transition # os_transitions st
      in and_then
        (if ot_transition_sequence transition = 1 then
           and_then (order_sql faults ''insert_order_projection'' ()) (\<lambda>_.
           and_then (order_sql faults ''insert_order_state_transition'' ()) (\<lambda>_.
           Inr (st\<lparr>os_orders := (os_orders st)(or_order_id next_order \<mapsto> order_row_of next_order),
                   os_transitions := logged\<rparr>)))
         else
           and_then (order_sql faults ''insert_order_state_transition'' ()) (\<lambda>_.
           and_then (order_sql faults ''update_order_projection'' ()) (\<lambda>_.
           Inr (st\<lparr>os_orders := (os_orders st)(or_order_id next_order :=
                     map_option (update_order_row next_order) (os_orders st (or_order_id next_order))),
                   os_transitions := logged\<rparr>))))
        (\<lambda>st'. and_then (order_sql faults ''commit_order_transition_tx'' ()) (\<lambda>_.
           Inr (order_outcome OrderLifecyclePersistDisposition.Applied (or_last_reason_code next_order) next_order (Some transition), st'))))"

definition order_transition_tx ::
    "time_crate \<Rightarrow> (string \<Rightarrow> string) \<Rightarrow> db_faults \<Rightarrow> OrderLifecycleTransitionCommand \<Rightarrow> order_store
      \<Rightarrow> OrderLifecyclePersistenceError + OrderLifecyclePersistOutcome \<times> order_store" where
  "order_transition_tx T render faults command st =
     and_then (validate_transition_command T command) (\<lambda>_.
     let normalized_idempotency_key = normalize_order_idempotency_key (tc_idempotency_key command)
     in and_then (order_sql faults ''begin_order_transition_tx'' ()) (\<lambda>_.
     and_then (order_sql faults ''load_order_for_update'' (os_orders st (trim (tc_order_id command)))) (\<lambda>row.
     and_then (decode_option (decode_order_row T render) row) (\<lambda>current_order.
     and_then (order_sql faults ''load_transition_by_idempotency_key''
         (find (\<lambda>r. tr_order_id r = trim (tc_order_id command) \<and> tr_idempotency_key r = normalized_idempotency_key)
            (os_transitions st))) (\<lambda>row.
     and_then (decode_option (decode_transition_row T render) row) (\<lambda>duplicate_transition.
     if duplicate_transition \<noteq> None then
       and_then (order_sql faults ''commit_duplicate_order_transition_tx'' ()) (\<lambda>_. case current_order of
           Some order \<Rightarrow> Inr (order_outcome OrderLifecyclePersistDisposition.Duplicate
             (OrderLifecycleReasonCode_code OrderLifecycleReasonCode.DuplicateIdempotencyKey) order None, st)
         | None \<Rightarrow> Inl (OrderLifecyclePersistenceError_invalid_payload
             (''duplicate transition found for missing order `'' @ tc_order_id command @ ''`'') []))
     else case current_order of
       Some current_order \<Rightarrow>
         if is_terminal (or_state current_order) then
           and_then (order_sql faults ''commit_already_terminal_order_transition_tx'' ()) (\<lambda>_.
           Inr (order_outcome OrderLifecyclePersistDisposition.AlreadyTerminal
             (OrderLifecycleReasonCode_code OrderLifecycleReasonCode.AlreadyTerminal) current_order None, st))
         else if is_err (validate_order_transition (Some (or_state current_order)) (tc_target_state command)) then
           and_then (order_sql faults ''commit_rejected_order_transition_tx'' ()) (\<lambda>_.
           Inr (order_outcome OrderLifecyclePersistDisposition.Rejected
             (OrderLifecycleReasonCode_code OrderLifecycleReasonCode.TransitionRejected) current_order None, st))
         else and_then (project_follow_up_transition T current_order command normalized_idempotency_key)
           (\<lambda>(next_order, transition). write_transition faults next_order transition st)
     | None \<Rightarrow> and_then (project_initial_transition T command normalized_idempotency_key)
           (\<lambda>(next_order, transition). write_transition faults next_order transition st)))))))"

definition persist_order_transition ::
    "time_crate \<Rightarrow> (string \<Rightarrow> string) \<Rightarrow> db_faults \<Rightarrow> OrderLifecycleTransitionCommand \<Rightarrow> order_store
      \<Rightarrow> (OrderLifecyclePersistenceError + OrderLifecyclePersistOutcome) \<times> order_store" where
  "persist_order_transition T render faults command = transact (order_transition_tx T render faults command)"

definition load_order ::
    "time_crate \<Rightarrow> (string \<Rightarrow> string) \<Rightarrow> db_faults \<Rightarrow> string \<Rightarrow> order_store
      \<Rightarrow> OrderLifecyclePersistenceError + OrderRecord option" where
  "load_order T render faults order_id st =
     and_then (validate_order_command_non_empty ''order_id'' order_id) (\<lambda>_.
     and_then (order_sql faults ''load_order'' (os_orders st (trim order_id)))
       (decode_option (decode_order_row T render)))"

text \<open>The log of an order, \<open>ORDER BY transition_sequence ASC\<close>.\<close>

definition order_log :: "string \<Rightarrow> order_store \<Rightarrow> transition_row list" where
  "order_log k st = filter (\<lambda>r. tr_order_id r = k) (os_transitions st)"

definition load_order_state_transitions ::
    "time_crate \<Rightarrow> (string \<Rightarrow> string) \<Rightarrow> db_faults \<Rightarrow> string \<Rightarrow> order_store
      \<Rightarrow> OrderLifecyclePersistenceError + OrderStateTransition list" where
  "load_order_state_transitions T render faults order_id st =
     and_then (validate_order_command_non_empty ''order_id'' order_id) (\<lambda>_.
     and_then (order_sql faults ''load_order_state_transitions''
         (sort_key tr_transition_sequence (order_log (trim order_id) st)))
       (decode_all (decode_transition_row T render)))"

section \<open>What the transaction does\<close>

lemma decode_order_row_Inr:
  "decode_order_row T render row = Inr c \<Longrightarrow> order_record_wf T c
     \<and> or_order_id c = ow_order_id row \<and> or_market_id c = ow_market_id row
     \<and> OrderMode_as_str (or_mode c) = ow_order_mode row
     \<and> OrderLifecycleState_as_str (or_state c) = ow_lifecycle_state row
     \<and> or_last_transition_sequence c = ow_last_transition_sequence row"
  by (auto simp: decode_order_row_def and_then_Inr_iff Let_def order_mode.parse_iff order_state.parse_iff)

lemma decode_option_Inr_None [simp]: "decode_option f r = Inr None \<longleftrightarrow> r = None"
  by (cases r) (auto simp: and_then_Inr_iff)

lemma decode_option_Inr_Some: "decode_option f r = Inr (Some v) \<longleftrightarrow> (\<exists>x. r = Some x \<and> f x = Inr v)"
  by (cases r) (auto simp: and_then_Inr_iff)

definition key_logged :: "string \<Rightarrow> string \<Rightarrow> order_store \<Rightarrow> bool" where
  "key_logged k key st \<longleftrightarrow> (\<exists>r\<in>set (os_transitions st). tr_order_id r = k \<and> tr_idempotency_key r = key)"

lemma find_key_None:
  "find (\<lambda>r. tr_order_id r = k \<and> tr_idempotency_key r = key) (os_transitions st) = None \<longleftrightarrow> \<not> key_logged k key st"
  by (auto simp: find_None_iff key_logged_def)

definition next_transition_row ::
    "order_row option \<Rightarrow> OrderLifecycleTransitionCommand \<Rightarrow> transition_row" where
  "next_transition_row row command =
     (let n = (case row of None \<Rightarrow> 1 | Some row \<Rightarrow> ow_last_transition_sequence row + 1) in
      \<lparr>tr_transition_id = transition_id (tc_order_id command) n (tc_transitioned_at_utc command),
       tr_order_id = trim (tc_order_id command), tr_market_id = trim (tc_market_id command),
       tr_order_mode = OrderMode_as_str (tc_mode command),
       tr_from_state = map_option ow_lifecycle_state row,
       tr_to_state = OrderLifecycleState_as_str (tc_target_state command),
       tr_reason_code = tc_reason_code command, tr_idempotency_key = normalize (tc_idempotency_key command),
       tr_correlation_id = trim (tc_correlation_id command), tr_transition_sequence = n,
       tr_transitioned_at_utc = trim (tc_transitioned_at_utc command)\<rparr>)"

text \<open>The row an applied command leaves behind follows its transition.\<close>

definition row_follows :: "order_row \<Rightarrow> transition_row \<Rightarrow> bool" where
  "row_follows row t \<longleftrightarrow> ow_order_id row = tr_order_id t \<and> ow_market_id row = tr_market_id t
     \<and> ow_order_mode row = tr_order_mode t \<and> ow_lifecycle_state row = tr_to_state t
     \<and> ow_last_transition_sequence row = tr_transition_sequence t"

lemma initial_applied:
  assumes "project_initial_transition T command (normalize (tc_idempotency_key command)) = Inr (order, transition)"
    and "write_transition faults order transition st = Inr (out, st')"
  shows "\<exists>row. st' = st\<lparr>os_orders := (os_orders st)(trim (tc_order_id command) \<mapsto> row),
      os_transitions := next_transition_row None command # os_transitions st\<rparr>
    \<and> row_follows row (next_transition_row None command)
    \<and> po_disposition out = OrderLifecyclePersistDisposition.Applied"
  using assms
  by (auto simp: project_initial_transition_def write_transition_def and_then_Inr_iff Let_def initial_transition_def
      next_transition_row_def row_follows_def order_row_of_def transition_row_of_def order_outcome_def)

lemma follow_up_applied:
  assumes "project_follow_up_transition T current command (normalize (tc_idempotency_key command)) = Inr (order, transition)"
    and "write_transition faults order transition st = Inr (out, st')"
    and "decode_order_row T render row = Inr current" "os_orders st k = Some row"
    and "ow_order_id row = k" "k = trim (tc_order_id command)"
  shows "\<exists>row'. st' = st\<lparr>os_orders := (os_orders st)(k \<mapsto> row'),
      os_transitions := next_transition_row (Some row) command # os_transitions st\<rparr>
    \<and> row_follows row' (next_transition_row (Some row) command)
    \<and> po_disposition out = OrderLifecyclePersistDisposition.Applied
    \<and> ow_market_id row = trim (tc_market_id command) \<and> ow_order_mode row = OrderMode_as_str (tc_mode command)
    \<and> (\<exists>s. ow_lifecycle_state row = OrderLifecycleState_as_str s
        \<and> tc_target_state command \<in> set (order_transition_targets s))"
proof -
  note row = decode_order_row_Inr[OF assms(3)]
  have n: "0 < ow_last_transition_sequence row" using row by (simp add: order_record_wf_def)
  have order: "or_market_id current = trim (tc_market_id command)" "or_mode current = tc_mode command"
    "tc_target_state command \<in> set (order_transition_targets (or_state current))"
    "or_order_id order = or_order_id current" "or_state order = tc_target_state command"
    "or_last_transition_sequence order = or_last_transition_sequence current + 1"
    and transition: "transition_row_of transition = next_transition_row (Some row) command"
    "ot_transition_sequence transition = or_last_transition_sequence current + 1"
    using assms(1) row
    by (auto simp: project_follow_up_transition_def and_then_Inr_iff Let_def next_transition_row_def
        transition_row_of_def split: if_splits)
  have st': "st' = st\<lparr>os_orders := (os_orders st)(k \<mapsto> update_order_row order row),
      os_transitions := next_transition_row (Some row) command # os_transitions st\<rparr>"
    "po_disposition out = OrderLifecyclePersistDisposition.Applied"
    using assms(2,4-6) order transition row n
    by (auto simp: write_transition_def and_then_Inr_iff Let_def order_outcome_def)
  have "row_follows (update_order_row order row) (next_transition_row (Some row) command)"
    using order row assms(5,6) by (simp add: row_follows_def update_order_row_def next_transition_row_def Let_def)
  then show ?thesis using st' order row by metis
qed

text \<open>A command leaves the tables alone, or it is the first or the next transition of its order.\<close>

lemma persist_order_cases:
  assumes "persist_order_transition T render faults command st = (r, st')"
    and "\<And>row. os_orders st (trim (tc_order_id command)) = Some row \<Longrightarrow> ow_order_id row = trim (tc_order_id command)"
  obtains (kept) "st' = st"
      "\<forall>out. r = Inr out \<longrightarrow> po_disposition out \<noteq> OrderLifecyclePersistDisposition.Applied"
  | (applied) out row where "r = Inr out" "po_disposition out = OrderLifecyclePersistDisposition.Applied"
      "st' = st\<lparr>os_orders := (os_orders st)(trim (tc_order_id command) \<mapsto> row),
         os_transitions := next_transition_row (os_orders st (trim (tc_order_id command))) command # os_transitions st\<rparr>"
      "row_follows row (next_transition_row (os_orders st (trim (tc_order_id command))) command)"
      "\<not> key_logged (trim (tc_order_id command)) (normalize (tc_idempotency_key command)) st"
      "\<forall>old. os_orders st (trim (tc_order_id command)) = Some old \<longrightarrow>
         ow_market_id old = trim (tc_market_id command) \<and> ow_order_mode old = OrderMode_as_str (tc_mode command)
       \<and> (\<exists>s. ow_lifecycle_state old = OrderLifecycleState_as_str s
            \<and> tc_target_state command \<in> set (order_transition_targets s))"
proof -
  let ?k = "trim (tc_order_id command)" and ?key = "normalize (tc_idempotency_key command)"
  from assms(1) show thesis unfolding persist_order_transition_def
  proof (cases rule: transact_cases)
    case (1 e)
    then show thesis using kept by simp
  next
    case (2 out)
    note tx = 2(1)[unfolded order_transition_tx_def Let_def normalize_order_idempotency_key_def]
    then obtain current duplicate where
        current: "decode_option (decode_order_row T render) (os_orders st ?k) = Inr current"
      and duplicate: "decode_option (decode_transition_row T render)
        (find (\<lambda>r. tr_order_id r = ?k \<and> tr_idempotency_key r = ?key) (os_transitions st)) = Inr duplicate"
      by (auto simp: and_then_Inr_iff)
    show thesis
    proof (cases duplicate)
      case (Some d)
      then show thesis using tx current duplicate 2 kept
        by (auto simp: and_then_Inr_iff order_outcome_def split: option.splits)
    next
      case None
      then have fresh: "\<not> key_logged ?k ?key st" using duplicate by (simp add: find_key_None)
      show thesis
      proof (cases current)
        case None
        then have free: "os_orders st ?k = None" using current by simp
        obtain order transition where "project_initial_transition T command ?key = Inr (order, transition)"
          "write_transition faults order transition st = Inr (out, st')"
          using tx current duplicate None \<open>duplicate = None\<close> by (auto simp: and_then_Inr_iff)
        from initial_applied[OF this] show thesis using applied fresh free 2 by auto
      next
        case (Some c)
        then obtain row where row: "os_orders st ?k = Some row" "decode_order_row T render row = Inr c"
          using current by (auto simp: decode_option_Inr_Some)
        show thesis
        proof (cases "is_terminal (or_state c) \<or> is_err (validate_order_transition (Some (or_state c)) (tc_target_state command))")
          case True
          then show thesis using tx current duplicate Some \<open>duplicate = None\<close> 2 kept
            by (auto simp: and_then_Inr_iff order_outcome_def split: if_splits)
        next
          case False
          then obtain order transition where
              "project_follow_up_transition T c command ?key = Inr (order, transition)"
              "write_transition faults order transition st = Inr (out, st')"
            using tx current duplicate Some \<open>duplicate = None\<close> by (auto simp: and_then_Inr_iff)
          from follow_up_applied[OF this row(2,1) assms(2)[OF row(1)] refl] show thesis
            using applied fresh row 2 by auto
        qed
      qed
    qed
  qed
qed

section \<open>The projection follows the log\<close>

inductive order_store_step ::
    "time_crate \<Rightarrow> (string \<Rightarrow> string) \<Rightarrow> order_store \<Rightarrow> order_store \<Rightarrow> bool" for T render where
  "persist_order_transition T render faults command st = (r, st') \<Longrightarrow> order_store_step T render st st'"

inductive order_store_reach :: "time_crate \<Rightarrow> (string \<Rightarrow> string) \<Rightarrow> order_store \<Rightarrow> bool" for T render where
  init: "order_store_reach T render empty_order_store"
| step: "order_store_reach T render st \<Longrightarrow> order_store_step T render st st' \<Longrightarrow> order_store_reach T render st'"

inductive_simps order_store_step_iff: "order_store_step T render st st'"

text \<open>
  The log of an order, newest first: its states are a run of the lifecycle, every entry names
  the state before it, the sequence numbers count down to one, and no key comes twice.
\<close>

definition log_wf :: "transition_row list \<Rightarrow> bool" where
  "log_wf entries \<longleftrightarrow>
     (\<exists>states. lifecycle_run states \<and> map tr_to_state entries = map OrderLifecycleState_as_str states)
   \<and> map tr_from_state entries = map Some (tl (map tr_to_state entries)) @ [None]
   \<and> map tr_transition_sequence entries = rev (map int [1..<Suc (length entries)])
   \<and> distinct (map tr_idempotency_key entries)
   \<and> (\<forall>t\<in>set entries. tr_market_id t = tr_market_id (hd entries) \<and> tr_order_mode t = tr_order_mode (hd entries))"

definition order_ok :: "order_store \<Rightarrow> string \<Rightarrow> bool" where
  "order_ok st k \<longleftrightarrow> (case os_orders st k of
      None \<Rightarrow> order_log k st = []
    | Some row \<Rightarrow> order_log k st \<noteq> [] \<and> row_follows row (hd (order_log k st)) \<and> log_wf (order_log k st))"

lemma order_log_cons:
  "os_transitions st' = t # os_transitions st \<Longrightarrow>
     order_log k st' = (if tr_order_id t = k then t # order_log k st else order_log k st)"
  by (simp add: order_log_def)

lemma key_logged_iff: "key_logged k key st \<longleftrightarrow> key \<in> set (map tr_idempotency_key (order_log k st))"
  by (auto simp: key_logged_def order_log_def)

lemma log_wf_first:
  "log_wf [next_transition_row None command]"
proof -
  have "lifecycle_run [tc_target_state command]" by (simp add: lifecycle_run.first)
  then show ?thesis by (auto simp: log_wf_def next_transition_row_def intro!: exI[of _ "[tc_target_state command]"])
qed

lemma log_wf_next:
  assumes "log_wf entries" "entries \<noteq> []" "row_follows row (hd entries)"
    and "ow_market_id row = trim (tc_market_id command)" "ow_order_mode row = OrderMode_as_str (tc_mode command)"
    and "ow_lifecycle_state row = OrderLifecycleState_as_str s" "tc_target_state command \<in> set (order_transition_targets s)"
    and "normalize (tc_idempotency_key command) \<notin> set (map tr_idempotency_key entries)"
  shows "log_wf (next_transition_row (Some row) command # entries)"
proof -
  obtain t rest where entries: "entries = t # rest" using assms(2) by (cases entries) auto
  obtain states where states: "lifecycle_run states" "map tr_to_state entries = map OrderLifecycleState_as_str states"
    using assms(1) by (auto simp: log_wf_def)
  then obtain ss where ss: "states = s # ss"
    using entries assms(3,6) by (cases states) (auto simp: row_follows_def)
  then have "lifecycle_run (tc_target_state command # states)"
    using states(1) assms(7) by (auto intro: lifecycle_run.advance)
  moreover have "map tr_to_state (next_transition_row (Some row) command # entries) =
      map OrderLifecycleState_as_str (tc_target_state command # states)"
    using states(2) by (simp add: next_transition_row_def Let_def)
  moreover have "map tr_from_state (next_transition_row (Some row) command # entries) =
      map Some (tl (map tr_to_state (next_transition_row (Some row) command # entries))) @ [None]"
    using assms(1,3) entries by (simp add: log_wf_def next_transition_row_def row_follows_def Let_def)
  moreover have "tr_transition_sequence t = int (length entries)"
    using assms(1) entries by (auto simp: log_wf_def)
  then have "map tr_transition_sequence (next_transition_row (Some row) command # entries) =
      rev (map int [1..<Suc (length (next_transition_row (Some row) command # entries))])"
    using assms(1,3) entries by (simp add: log_wf_def next_transition_row_def row_follows_def Let_def)
  ultimately show ?thesis
    using assms(1,3-5,8) entries unfolding log_wf_def
    by (intro conjI exI[of _ "tc_target_state command # states"])
      (assumption | simp add: next_transition_row_def row_follows_def Let_def)+
qed

lemma order_ok_applied:
  assumes "\<And>k. order_ok st k" "k0 = trim (tc_order_id command)"
    and "st' = st\<lparr>os_orders := (os_orders st)(k0 \<mapsto> row),
         os_transitions := next_transition_row (os_orders st k0) command # os_transitions st\<rparr>"
    and "row_follows row (next_transition_row (os_orders st k0) command)"
    and "\<not> key_logged k0 (normalize (tc_idempotency_key command)) st"
    and "\<forall>old. os_orders st k0 = Some old \<longrightarrow>
         ow_market_id old = trim (tc_market_id command) \<and> ow_order_mode old = OrderMode_as_str (tc_mode command)
       \<and> (\<exists>s. ow_lifecycle_state old = OrderLifecycleState_as_str s
            \<and> tc_target_state command \<in> set (order_transition_targets s))"
  shows "order_ok st' k"
proof -
  have id: "tr_order_id (next_transition_row row' command) = k0" for row'
    using assms(2) by (simp add: next_transition_row_def Let_def)
  have log': "order_log k st' = (if k = k0 then next_transition_row (os_orders st k0) command # order_log k st
      else order_log k st)"
    by (subst order_log_cons[of st' "next_transition_row (os_orders st k0) command" st])
      (auto simp: assms(3) id)
  show ?thesis
  proof (cases "k = k0")
    case False
    then show ?thesis using assms(1)[of k] log' assms(3) id by (simp add: order_ok_def split: option.splits)
  next
    case True
    have "log_wf (next_transition_row (os_orders st k0) command # order_log k0 st)"
    proof (cases "os_orders st k0")
      case None
      then have "order_log k0 st = []" using assms(1)[of k0] by (simp add: order_ok_def)
      then show ?thesis using None log_wf_first by simp
    next
      case (Some old)
      then have "log_wf (order_log k0 st)" "order_log k0 st \<noteq> []" "row_follows old (hd (order_log k0 st))"
        using assms(1)[of k0] by (simp_all add: order_ok_def)
      then show ?thesis
        using Some log_wf_next assms(5,6) unfolding key_logged_iff by fastforce
    qed
    then show ?thesis using True assms(3,4) log' id by (simp add: order_ok_def)
  qed
qed

lemma order_ok_id: "order_ok st k \<Longrightarrow> os_orders st k = Some row \<Longrightarrow> ow_order_id row = k"
proof -
  assume a: "order_ok st k" "os_orders st k = Some row"
  then have "hd (order_log k st) \<in> set (order_log k st)" by (simp add: order_ok_def)
  then have "tr_order_id (hd (order_log k st)) = k" by (auto simp: order_log_def)
  with a show ?thesis by (simp add: order_ok_def row_follows_def)
qed

lemma order_store_step_ok:
  assumes "order_store_step T render st st'" "\<And>k. order_ok st k"
  shows "order_ok st' k"
proof -
  obtain faults command r where step: "persist_order_transition T render faults command st = (r, st')"
    using assms(1) by (auto simp: order_store_step_iff)
  show ?thesis
  proof (cases rule: persist_order_cases[OF step])
    case 1
    then show ?case using order_ok_id[OF assms(2)] by blast
  next
    case 2
    then show ?thesis using assms(2) by simp
  next
    case (3 out row)
    then show ?thesis using order_ok_applied[OF assms(2) refl 3(3-6)] by blast
  qed
qed

lemma order_store_reach_ok: "order_store_reach T render st \<Longrightarrow> order_ok st k"
proof (induction arbitrary: k rule: order_store_reach.induct)
  case init
  then show ?case by (simp add: order_ok_def empty_order_store_def order_log_def)
next
  case (step st st')
  then show ?case using order_store_step_ok by blast
qed

section \<open>Properties\<close>

text \<open>
  C10: Whatever transitions are submitted, with whatever database faults, an order and its log
  stay one: an order row exists exactly when its log is not empty, it stands at the newest
  entry (state, sequence number, market and mode), the log's states are a run of the lifecycle,
  every entry starts where the one before it ended, the sequence numbers are 1, 2, 3 without a
  gap, and no idempotency key was applied twice.
\<close>

theorem order_projection_follows_log:
  assumes "order_store_reach T render st"
  shows "(case os_orders st k of
      None \<Rightarrow> order_log k st = []
    | Some row \<Rightarrow> order_log k st \<noteq> [] \<and> row_follows row (hd (order_log k st)) \<and> log_wf (order_log k st))"
  using order_store_reach_ok[OF assms, of k] by (simp add: order_ok_def)

definition demo_order_command :: "string \<Rightarrow> OrderLifecycleState \<Rightarrow> OrderLifecycleTransitionCommand" where
  "demo_order_command key target =
     \<lparr>tc_order_id = ''order-1'', tc_market_id = ''market-1'', tc_mode = OrderMode.Limit, tc_target_state = target,
      tc_reason_code = ''order_lifecycle_submission_accepted'', tc_correlation_id = ''corr-1'',
      tc_idempotency_key = key, tc_transitioned_at_utc = ''2026-04-06T00:00:00Z''\<rparr>"

definition demo_order_store :: order_store where
  "demo_order_store = fold (\<lambda>c st. snd (persist_order_transition demo_time id (\<lambda>_. None) c st))
     [demo_order_command ''key-1'' OrderLifecycleState.Pending,
      demo_order_command ''key-2'' OrderLifecycleState.Live,
      demo_order_command ''key-1'' OrderLifecycleState.Canceled,
      demo_order_command ''key-3'' OrderLifecycleState.Filled,
      demo_order_command ''key-4'' OrderLifecycleState.Canceled] empty_order_store"

lemma demo_order_store_reach: "order_store_reach demo_time id demo_order_store"
proof -
  have "order_store_reach demo_time id st \<Longrightarrow>
      order_store_reach demo_time id (fold (\<lambda>c st. snd (persist_order_transition demo_time id (\<lambda>_. None) c st)) cs st)"
    for st cs
  proof (induction cs arbitrary: st)
    case (Cons c cs)
    have "order_store_step demo_time id st (snd (persist_order_transition demo_time id (\<lambda>_. None) c st))"
      unfolding order_store_step_iff by (metis prod.collapse)
    from Cons.IH[OF order_store_reach.step[OF Cons.prems this]] show ?case by (simp only: fold.simps o_apply)
  qed simp
  then show ?thesis unfolding demo_order_store_def using order_store_reach.init by blast
qed

theorem order_projection_follows_log_witness:
  "map tr_to_state (order_log ''order-1'' demo_order_store) = [''filled'', ''live'', ''pending'']
   \<and> map_option ow_lifecycle_state (os_orders demo_order_store ''order-1'') = Some ''filled''"
proof -
  have states: "map tr_to_state (order_log ''order-1'' demo_order_store) = [''filled'', ''live'', ''pending'']" by code_simp
  then show ?thesis
    using order_projection_follows_log[OF demo_order_store_reach, of "''order-1''"]
    by (auto simp: row_follows_def split: option.splits)
qed

text \<open>A logged key answers with a duplicate, or with an error.\<close>

lemma logged_key_outcome:
  assumes "persist_order_transition T render faults command st = (Inr out, st')"
    and "key_logged (trim (tc_order_id command)) (normalize (tc_idempotency_key command)) st"
  shows "po_disposition out = OrderLifecyclePersistDisposition.Duplicate"
proof -
  let ?find = "find (\<lambda>r. tr_order_id r = trim (tc_order_id command)
      \<and> tr_idempotency_key r = normalize (tc_idempotency_key command)) (os_transitions st)"
  have "?find \<noteq> None" using assms(2) find_key_None by blast
  then have "decode_option (decode_transition_row T render) ?find = Inr d \<Longrightarrow> d \<noteq> None" for d
    by (cases d) auto
  then show ?thesis
    by (cases rule: transact_cases[OF assms(1)[unfolded persist_order_transition_def]])
      (auto simp: order_transition_tx_def normalize_order_idempotency_key_def Let_def and_then_Inr_iff order_outcome_def
        split: option.splits if_splits)
qed

text \<open>What each outcome that changes nothing says of the tables.\<close>

lemma unchanged_outcome:
  assumes "persist_order_transition T render faults command st = (Inr out, st')"
    and "po_disposition out \<noteq> OrderLifecyclePersistDisposition.Applied"
  shows "(case po_disposition out of
      OrderLifecyclePersistDisposition.Duplicate \<Rightarrow>
        key_logged (trim (tc_order_id command)) (normalize (tc_idempotency_key command)) st
    | OrderLifecyclePersistDisposition.AlreadyTerminal \<Rightarrow>
        (\<exists>row s. os_orders st (trim (tc_order_id command)) = Some row
          \<and> ow_lifecycle_state row = OrderLifecycleState_as_str s \<and> is_terminal s)
    | _ \<Rightarrow> (\<exists>row s. os_orders st (trim (tc_order_id command)) = Some row
          \<and> ow_lifecycle_state row = OrderLifecycleState_as_str s
          \<and> \<not> is_terminal s \<and> tc_target_state command \<notin> set (order_transition_targets s)))"
proof (cases "key_logged (trim (tc_order_id command)) (normalize (tc_idempotency_key command)) st")
  case True
  then show ?thesis using logged_key_outcome[OF assms(1)] by simp
next
  case False
  let ?find = "find (\<lambda>r. tr_order_id r = trim (tc_order_id command)
      \<and> tr_idempotency_key r = normalize (tc_idempotency_key command)) (os_transitions st)"
  have none: "?find = None" using False find_key_None by blast
  have "order_transition_tx T render faults command st = Inr (out, st')"
    by (cases rule: transact_cases[OF assms(1)[unfolded persist_order_transition_def]]) auto
  note tx = this[unfolded order_transition_tx_def Let_def normalize_order_idempotency_key_def]
  obtain current where current: "decode_option (decode_order_row T render) (os_orders st (trim (tc_order_id command))) = Inr current"
    using tx by (auto simp: and_then_Inr_iff)
  have applied: "po_disposition out = OrderLifecyclePersistDisposition.Applied"
    if "write_transition faults order transition st = Inr (out, st')" for order transition
    using that by (auto simp: write_transition_def and_then_Inr_iff Let_def order_outcome_def split: if_splits)
  show ?thesis
  proof (cases current)
    case None
    then show ?thesis using tx current none assms(2) applied by (auto simp: and_then_Inr_iff)
  next
    case (Some c)
    then obtain row where row: "os_orders st (trim (tc_order_id command)) = Some row" "decode_order_row T render row = Inr c"
      using current by (auto simp: decode_option_Inr_Some)
    have s: "ow_lifecycle_state row = OrderLifecycleState_as_str (or_state c)" using decode_order_row_Inr[OF row(2)] by simp
    have target: "isl (validate_order_transition (Some (or_state c)) (tc_target_state command)) \<longleftrightarrow>
        tc_target_state command \<notin> set (order_transition_targets (or_state c))"
      using is_ok_unit[of "validate_order_transition (Some (or_state c)) (tc_target_state command)"] by auto
    show ?thesis
      using tx current none Some row s target assms(2) applied
      by (auto simp: and_then_Inr_iff order_outcome_def split: if_splits)
  qed
qed

lemma key_logged_kept:
  assumes "order_store_step T render st st'" "\<And>k. order_ok st k" "key_logged k key st"
  shows "key_logged k key st'"
proof -
  obtain faults command r where step: "persist_order_transition T render faults command st = (r, st')"
    using assms(1) by (auto simp: order_store_step_iff)
  show ?thesis
    by (cases rule: persist_order_cases[OF step])
      (use order_ok_id[OF assms(2)] assms(3) in \<open>auto simp: key_logged_def\<close>)
qed

lemma steps_keep:
  assumes "rtranclp (order_store_step T render) st st'" "\<And>k. order_ok st k" "key_logged k key st"
  shows "key_logged k key st' \<and> (\<forall>k. order_ok st' k)"
  using assms(1)
proof induction
  case base
  then show ?case using assms by blast
next
  case (step st1 st2)
  then show ?case using key_logged_kept order_store_step_ok by blast
qed

text \<open>
  C29: A transition once applied is never applied again: repeating its command after any further
  history answers with a duplicate (or fails) and leaves the tables as they are.
\<close>

theorem applied_transition_never_repeats:
  assumes "order_store_reach T render st"
    and "persist_order_transition T render faults command st = (Inr out, st1)"
    and "po_disposition out = OrderLifecyclePersistDisposition.Applied"
    and "rtranclp (order_store_step T render) st1 st2"
    and "persist_order_transition T render faults' command st2 = (r, st3)"
  shows "st3 = st2 \<and> (case r of Inl _ \<Rightarrow> True
    | Inr out' \<Rightarrow> po_disposition out' = OrderLifecyclePersistDisposition.Duplicate)"
proof -
  let ?k = "trim (tc_order_id command)" and ?key = "normalize (tc_idempotency_key command)"
  have ok: "order_ok st k" for k by (rule order_store_reach_ok[OF assms(1)])
  have "key_logged ?k ?key st1"
  proof (cases rule: persist_order_cases[OF assms(2)])
    case (3 out row)
    then show ?thesis by (auto simp: key_logged_def next_transition_row_def Let_def)
  qed (use order_ok_id[OF ok] assms(3) in auto)
  moreover have "order_ok st1 k" for k
    using order_store_step_ok[OF order_store_step.intros[OF assms(2)]] ok by blast
  ultimately have later: "key_logged ?k ?key st2" "order_ok st2 k" for k
    using steps_keep[OF assms(4)] by blast+
  have "st3 = st2"
    by (cases rule: persist_order_cases[OF assms(5)]) (use order_ok_id later in auto)
  then show ?thesis
    using logged_key_outcome[of T render faults' command st2] later(1) assms(5) by (cases r) auto
qed

theorem applied_transition_never_repeats_witness:
  "snd (persist_order_transition demo_time id (\<lambda>_. None) (demo_order_command ''key-1'' OrderLifecycleState.Pending)
     (snd (persist_order_transition demo_time id (\<lambda>_. None) (demo_order_command ''key-1'' OrderLifecycleState.Pending)
       empty_order_store))) =
   snd (persist_order_transition demo_time id (\<lambda>_. None) (demo_order_command ''key-1'' OrderLifecycleState.Pending)
       empty_order_store)"
  (is "snd (?persist (snd (?persist _))) = _")
proof -
  have "\<not> isl (fst (?persist empty_order_store))" by code_simp
  then obtain out where out: "fst (?persist empty_order_store) = Inr out" by (rule is_okE)
  have "po_disposition (projr (fst (?persist empty_order_store))) = OrderLifecyclePersistDisposition.Applied" by code_simp
  then have applied: "po_disposition out = OrderLifecyclePersistDisposition.Applied" using out by simp
  have eqs: "?persist empty_order_store = (Inr out, snd (?persist empty_order_store))" using out by (metis prod.collapse)
  show ?thesis
    using applied_transition_never_repeats[OF order_store_reach.init eqs applied rtranclp.rtrancl_refl]
    by (metis prod.collapse)
qed

end
