(* ===== verification/OrderRuntime.thy ===== *)
theory OrderRuntime
  imports OrderStore Pretrade EmergencyControl UserStream
begin

text \<open>
  The order service of \<open>services/execution-engine/src/orders/mod.rs\<close>: submissions behind the
  emergency mode and the pre-trade adjudication, cancellations, batches, and venue events, over
  a store of orders. The runtime is a record of its ports; what the adjudication port answers
  within the timeout is an option, and the store is passed along. Telemetry is left out.
\<close>

section \<open>Errors, commands and outcomes\<close>

record OrderLifecycleRuntimeError =
  oe_code :: string
  oe_message :: string

definition OrderLifecycleRuntimeError_new :: "string \<Rightarrow> string \<Rightarrow> OrderLifecycleRuntimeError" where
  "OrderLifecycleRuntimeError_new code message = \<lparr>oe_code = code, oe_message = message\<rparr>"

definition DEFAULT_PRETRADE_ADJUDICATION_TIMEOUT_MS :: nat where
  "DEFAULT_PRETRADE_ADJUDICATION_TIMEOUT_MS = 1000"

record PreTradeAdjudicationRequest =
  aq_order_id :: string
  aq_market_id :: string
  aq_correlation_id :: string
  aq_requested_at_utc :: string
  aq_requested_order_size_units :: f64

record PreTradeAdjudicationDecision =
  ad_allowed :: bool
  ad_reason_code :: string
  ad_decided_at_utc :: string
  ad_participation_guardrail :: "PreTradeParticipationGuardrailEvidence option"

record PreTradeAdjudicationPortError =
  ap_code :: string
  ap_message :: string

definition PreTradeAdjudicationPortError_new :: "string \<Rightarrow> string \<Rightarrow> PreTradeAdjudicationPortError" where
  "PreTradeAdjudicationPortError_new code message = \<lparr>ap_code = code, ap_message = message\<rparr>"

datatype OrderLifecycleCommandDisposition = Applied | Duplicate | Rejected | AlreadyTerminal

record OrderLifecycleCommandOutcome =
  co_disposition :: OrderLifecycleCommandDisposition
  co_outcome_reason_code :: string
  co_order_id :: string
  co_market_id :: string
  co_idempotency_key :: string
  co_from_state :: "OrderLifecycleState option"
  co_to_state :: "OrderLifecycleState option"
  co_outcome_correlation_id :: string
  co_timestamp_utc :: string

record SubmitOrderCommand =
  so_order_id :: string
  so_market_id :: string
  so_mode :: OrderMode
  so_requested_order_size_units :: f64
  so_idempotency_key :: string
  so_correlation_id :: string
  so_requested_at_utc :: string

record CancelOrderCommand =
  cc_order_id :: string
  cc_market_id :: string
  cc_mode :: OrderMode
  cc_idempotency_key :: string
  cc_correlation_id :: string
  cc_requested_at_utc :: string

record BatchCancelOrderRequest =
  bo_order_id :: string
  bo_mode :: OrderMode
  bo_idempotency_key :: "string option"

record BatchCancelCommand =
  bc_market_id :: string
  bc_correlation_id :: string
  bc_requested_at_utc :: string
  bc_batch_idempotency_key :: string
  bc_orders :: "BatchCancelOrderRequest list"

record EmergencyCancelOrderRequest =
  eo_order_id :: string
  eo_mode :: OrderMode

record EmergencyCancelAllCommand =
  ea_market_id :: string
  ea_correlation_id :: string
  ea_requested_at_utc :: string
  ea_orders :: "EmergencyCancelOrderRequest list"

datatype BatchCancelOutcomeKind = Canceled | AlreadyTerminal | RetryableFailure | HardFailure

fun BatchCancelOutcomeKind_as_str :: "BatchCancelOutcomeKind \<Rightarrow> string" where
  "BatchCancelOutcomeKind_as_str BatchCancelOutcomeKind.Canceled = ''canceled''"
| "BatchCancelOutcomeKind_as_str BatchCancelOutcomeKind.AlreadyTerminal = ''already_terminal''"
| "BatchCancelOutcomeKind_as_str BatchCancelOutcomeKind.RetryableFailure = ''retryable_failure''"
| "BatchCancelOutcomeKind_as_str BatchCancelOutcomeKind.HardFailure = ''hard_failure''"

record BatchCancelOrderOutcome =
  bx_order_id :: string
  bx_market_id :: string
  bx_outcome :: BatchCancelOutcomeKind
  bx_reason_code :: string
  bx_idempotency_key :: string
  bx_correlation_id :: string
  bx_timestamp_utc :: string

text \<open>
  The runtime and its ports. \<open>rt_adjudicate_submit\<close> is \<open>None\<close> when the port does not answer
  within the timeout.
\<close>

record 's OrderLifecycleRuntime =
  rt_persist_transition ::
    "OrderLifecycleTransitionCommand \<Rightarrow> 's \<Rightarrow> (OrderLifecycleRuntimeError + OrderLifecyclePersistOutcome) \<times> 's"
  rt_load_order :: "string \<Rightarrow> 's \<Rightarrow> OrderLifecycleRuntimeError + OrderRecord option"
  rt_load_order_state_transitions :: "string \<Rightarrow> 's \<Rightarrow> OrderLifecycleRuntimeError + OrderStateTransition list"
  rt_adjudicate_submit ::
    "PreTradeAdjudicationRequest \<Rightarrow> (PreTradeAdjudicationPortError + PreTradeAdjudicationDecision) option"
  rt_load_current_mode :: "OrderLifecycleRuntimeError + EmergencyControlMode"
  rt_pretrade_adjudication_timeout_ms :: nat

section \<open>Checks\<close>

definition normalize_pretrade_reason_code :: "string \<Rightarrow> string" where
  "normalize_pretrade_reason_code reason_code = (case PreTradeReasonCode_parse reason_code of
      Inr reason \<Rightarrow> PreTradeReasonCode_code reason
    | Inl _ \<Rightarrow> PreTradeReasonCode_code PreTradeReasonCode.InvalidPayload)"

definition map_user_stream_event_state :: "UserStreamEventStatus \<Rightarrow> OrderLifecycleRuntimeError + OrderLifecycleState" where
  "map_user_stream_event_state status = Inr (case status of
      UserStreamEventStatus.Placement \<Rightarrow> OrderLifecycleState.Live
    | UserStreamEventStatus.Update \<Rightarrow> OrderLifecycleState.Live
    | UserStreamEventStatus.Matched \<Rightarrow> OrderLifecycleState.PartiallyFilled
    | UserStreamEventStatus.Mined \<Rightarrow> OrderLifecycleState.Filled
    | UserStreamEventStatus.Confirmed \<Rightarrow> OrderLifecycleState.Filled
    | UserStreamEventStatus.Cancellation \<Rightarrow> OrderLifecycleState.Canceled)"

definition is_retryable_runtime_error :: "OrderLifecycleRuntimeError \<Rightarrow> bool" where
  "is_retryable_runtime_error error \<longleftrightarrow>
     oe_code error = OrderLifecycleReasonCode_code OrderLifecycleReasonCode.PersistenceUnavailable
   \<or> oe_code error = OrderLifecycleReasonCode_code OrderLifecycleReasonCode.VenueUnavailable"

definition validate_runtime_non_empty :: "string \<Rightarrow> string \<Rightarrow> OrderLifecycleRuntimeError + unit" where
  "validate_runtime_non_empty field value =
     (if blank value then Inl (OrderLifecycleRuntimeError_new
        (OrderLifecycleReasonCode_code OrderLifecycleReasonCode.InvalidPayload) (field @ '' cannot be blank''))
      else Inr ())"

definition validate_runtime_timestamp_utc ::
    "time_crate \<Rightarrow> string \<Rightarrow> string \<Rightarrow> OrderLifecycleRuntimeError + unit" where
  "validate_runtime_timestamp_utc T field value = (case rfc3339_parse T value of
      None \<Rightarrow> Inl (OrderLifecycleRuntimeError_new
        (OrderLifecycleReasonCode_code OrderLifecycleReasonCode.InvalidPayload)
        (field @ '' must be an RFC3339 UTC timestamp: '' @ rfc3339_error T value))
    | Some (parsed, offset) \<Rightarrow>
        if offset \<noteq> 0 then Inl (OrderLifecycleRuntimeError_new
          (OrderLifecycleReasonCode_code OrderLifecycleReasonCode.InvalidPayload)
          (field @ '' must use UTC `Z` offset''))
        else Inr ())"

definition validate_runtime_command_fields ::
    "time_crate \<Rightarrow> string \<Rightarrow> string \<Rightarrow> string \<Rightarrow> string \<Rightarrow> OrderLifecycleRuntimeError + unit" where
  "validate_runtime_command_fields T order_id market_id correlation_id requested_at_utc =
     and_then (validate_runtime_non_empty ''order_id'' order_id) (\<lambda>_.
     and_then (validate_runtime_non_empty ''market_id'' market_id) (\<lambda>_.
     and_then (validate_runtime_non_empty ''correlation_id'' correlation_id) (\<lambda>_.
     and_then (validate_runtime_non_empty ''requested_at_utc'' requested_at_utc) (\<lambda>_.
     validate_runtime_timestamp_utc T ''requested_at_utc'' requested_at_utc))))"

definition validate_requested_order_size_units :: "f64 \<Rightarrow> OrderLifecycleRuntimeError + unit" where
  "validate_requested_order_size_units requested_order_size_units =
     (if f_is_finite requested_order_size_units \<and> f_gt requested_order_size_units (Fin 0) then Inr ()
      else Inl (OrderLifecycleRuntimeError_new
        (OrderLifecycleReasonCode_code OrderLifecycleReasonCode.InvalidPayload)
        ''requested_order_size_units must be finite and > 0''))"

definition participation_guardrail_size_cap_exceeded ::
    "f64 \<Rightarrow> PreTradeParticipationGuardrailEvidence option \<Rightarrow> bool" where
  "participation_guardrail_size_cap_exceeded requested_order_size_units participation_guardrail =
     (case participation_guardrail of
        Some evidence \<Rightarrow> pe_guardrail_mode evidence = ''size_cap''
          \<and> (case pe_capped_max_order_size_units evidence of
                Some cap \<Rightarrow> f_gt requested_order_size_units cap | None \<Rightarrow> False)
      | None \<Rightarrow> False)"

section \<open>Ports\<close>

definition AllowAllRiskAdjudicationPort ::
    "PreTradeAdjudicationRequest \<Rightarrow> PreTradeAdjudicationPortError + PreTradeAdjudicationDecision" where
  "AllowAllRiskAdjudicationPort request = Inr
     \<lparr>ad_allowed = True, ad_reason_code = PreTradeReasonCode_code PreTradeReasonCode.Pass,
      ad_decided_at_utc = aq_requested_at_utc request, ad_participation_guardrail = None\<rparr>"

definition UnavailableRiskAdjudicationPort ::
    "PreTradeAdjudicationRequest \<Rightarrow> PreTradeAdjudicationPortError + PreTradeAdjudicationDecision" where
  "UnavailableRiskAdjudicationPort request = Inl (PreTradeAdjudicationPortError_new
     (PreTradeReasonCode_code PreTradeReasonCode.AdjudicationUnavailable)
     ''pre-trade adjudication port is unavailable'')"

text \<open>The port on the persisted decisions; \<open>lookup\<close> loads the latest decision of an intent.\<close>

definition map_pretrade_lookup_error_to_adjudication_error ::
    "contract_error \<Rightarrow> PreTradeAdjudicationPortError" where
  "map_pretrade_lookup_error_to_adjudication_error error = PreTradeAdjudicationPortError_new
     (case PreTradeReasonCode_parse (ce_code error) of
        Inr reason \<Rightarrow> PreTradeReasonCode_code reason
      | Inl _ \<Rightarrow> PreTradeReasonCode_code PreTradeReasonCode.AdjudicationUnavailable)
     (ce_code error @ '': '' @ ce_message error)"

definition PostgresRiskAdjudicationPort ::
    "(string \<Rightarrow> contract_error + PreTradeGateDecision option) \<Rightarrow> PreTradeAdjudicationRequest
      \<Rightarrow> PreTradeAdjudicationPortError + PreTradeAdjudicationDecision" where
  "PostgresRiskAdjudicationPort lookup request =
     and_then (map_err map_pretrade_lookup_error_to_adjudication_error (lookup (aq_order_id request))) (\<lambda>found.
     case found of
       None \<Rightarrow> Inl (PreTradeAdjudicationPortError_new
         (PreTradeReasonCode_code PreTradeReasonCode.AdjudicationUnavailable)
         (''no persisted pre-trade decision found for intent `'' @ trim (aq_order_id request) @ ''`''))
     | Some persisted_decision \<Rightarrow>
         let allowed = (gd_outcome persisted_decision = PreTradeDecisionOutcome.Allow);
             exceeded = (allowed \<and> participation_guardrail_size_cap_exceeded
               (aq_requested_order_size_units request) (gd_participation_guardrail persisted_decision))
         in Inr \<lparr>ad_allowed = (allowed \<and> \<not> exceeded),
              ad_reason_code = (if exceeded
                then PreTradeReasonCode_code PreTradeReasonCode.ParticipationGuardrailOvernightCapExceeded
                else gd_reason_code persisted_decision),
              ad_decided_at_utc = gd_evaluated_at_utc persisted_decision,
              ad_participation_guardrail = gd_participation_guardrail persisted_decision\<rparr>)"

definition DefaultEmergencyControlModePort :: "OrderLifecycleRuntimeError + EmergencyControlMode" where
  "DefaultEmergencyControlModePort = Inr EmergencyControlMode.Normal"

text \<open>The port on the persisted safety mode: no mode found refuses.\<close>

definition PostgresEmergencyControlModePort ::
    "contract_error + EmergencyControlMode option \<Rightarrow> OrderLifecycleRuntimeError + EmergencyControlMode" where
  "PostgresEmergencyControlModePort loaded =
     and_then (map_err (\<lambda>error. OrderLifecycleRuntimeError_new
         (EmergencyControlReasonCode_code EmergencyControlReasonCode.OrchestrationUnavailable)
         (''failed to load emergency safety mode: '' @ ce_code error @ '': '' @ ce_message error)) loaded) (\<lambda>mode.
     case mode of
       Some mode \<Rightarrow> Inr mode
     | None \<Rightarrow> Inl (OrderLifecycleRuntimeError_new
         (EmergencyControlReasonCode_code EmergencyControlReasonCode.OrchestrationUnavailable)
         ''no effective emergency safety mode found; refusing submit path open by default''))"

definition map_order_persistence_error :: "OrderLifecyclePersistenceError \<Rightarrow> OrderLifecycleRuntimeError" where
  "map_order_persistence_error error =
     OrderLifecycleRuntimeError_new (ce_code error) (ce_code error @ '': '' @ ce_message error)"

text \<open>The store on PostgreSQL; each call has its own faults.\<close>

definition PostgresOrderLifecycleStore_persist_transition ::
    "time_crate \<Rightarrow> (string \<Rightarrow> string) \<Rightarrow> db_faults \<Rightarrow> OrderLifecycleTransitionCommand \<Rightarrow> order_store
      \<Rightarrow> (OrderLifecycleRuntimeError + OrderLifecyclePersistOutcome) \<times> order_store" where
  "PostgresOrderLifecycleStore_persist_transition T render faults command st =
     (let (result, st') = persist_order_transition T render faults command st
      in (map_err map_order_persistence_error result, st'))"

definition PostgresOrderLifecycleStore_load_order ::
    "time_crate \<Rightarrow> (string \<Rightarrow> string) \<Rightarrow> db_faults \<Rightarrow> string \<Rightarrow> order_store
      \<Rightarrow> OrderLifecycleRuntimeError + OrderRecord option" where
  "PostgresOrderLifecycleStore_load_order T render faults order_id st =
     map_err map_order_persistence_error (load_order T render faults order_id st)"

definition PostgresOrderLifecycleStore_load_order_state_transitions ::
    "time_crate \<Rightarrow> (string \<Rightarrow> string) \<Rightarrow> db_faults \<Rightarrow> string \<Rightarrow> order_store
      \<Rightarrow> OrderLifecycleRuntimeError + OrderStateTransition list" where
  "PostgresOrderLifecycleStore_load_order_state_transitions T render faults order_id st =
     map_err map_order_persistence_error (load_order_state_transitions T render faults order_id st)"

section \<open>Operations\<close>

fun command_disposition :: "OrderLifecyclePersistDisposition \<Rightarrow> OrderLifecycleCommandDisposition" where
  "command_disposition OrderLifecyclePersistDisposition.Applied = OrderLifecycleCommandDisposition.Applied"
| "command_disposition OrderLifecyclePersistDisposition.Duplicate = OrderLifecycleCommandDisposition.Duplicate"
| "command_disposition OrderLifecyclePersistDisposition.Rejected = OrderLifecycleCommandDisposition.Rejected"
| "command_disposition OrderLifecyclePersistDisposition.AlreadyTerminal = OrderLifecycleCommandDisposition.AlreadyTerminal"

definition persist_with_telemetry ::
    "'s OrderLifecycleRuntime \<Rightarrow> OrderLifecycleTransitionCommand \<Rightarrow> 's
      \<Rightarrow> (OrderLifecycleRuntimeError + OrderLifecycleCommandOutcome) \<times> 's" where
  "persist_with_telemetry rt command s =
     (case rt_load_order rt (tc_order_id command) s of
        Inl error \<Rightarrow> (Inl error, s)
      | Inr prior \<Rightarrow>
          let (result, s') = rt_persist_transition rt command s
          in (and_then result (\<lambda>persist_outcome. Inr
              \<lparr>co_disposition = command_disposition (po_disposition persist_outcome),
               co_outcome_reason_code = po_reason persist_outcome,
               co_order_id = tc_order_id command, co_market_id = tc_market_id command,
               co_idempotency_key = tc_idempotency_key command,
               co_from_state = map_option or_state prior,
               co_to_state = Some (or_state (po_order persist_outcome)),
               co_outcome_correlation_id = tc_correlation_id command,
               co_timestamp_utc = tc_transitioned_at_utc command\<rparr>), s'))"

definition enforce_emergency_mode_for_submit ::
    "'s OrderLifecycleRuntime \<Rightarrow> SubmitOrderCommand \<Rightarrow> OrderLifecycleRuntimeError + unit" where
  "enforce_emergency_mode_for_submit rt command =
     and_then (rt_load_current_mode rt) (\<lambda>mode. case mode of
         EmergencyControlMode.Normal \<Rightarrow> Inr ()
       | EmergencyControlMode.Paused \<Rightarrow> Inl (OrderLifecycleRuntimeError_new
           (EmergencyControlReasonCode_code EmergencyControlReasonCode.PauseActive)
           (''submit denied for `'' @ so_order_id command @ ''` because emergency mode is paused''))
       | EmergencyControlMode.ReduceOnly \<Rightarrow>
           if so_mode command \<noteq> OrderMode.ReduceOnly
           then Inl (OrderLifecycleRuntimeError_new
             (EmergencyControlReasonCode_code EmergencyControlReasonCode.ReduceOnlyActive)
             (''submit denied for `'' @ so_order_id command @ ''` because emergency mode requires reduce_only orders''))
           else Inr ())"

definition adjudicate_submit_order_request ::
    "'s OrderLifecycleRuntime \<Rightarrow> PreTradeAdjudicationRequest
      \<Rightarrow> OrderLifecycleRuntimeError + PreTradeAdjudicationDecision" where
  "adjudicate_submit_order_request rt request = (case rt_adjudicate_submit rt request of
      None \<Rightarrow> Inl (OrderLifecycleRuntimeError_new
        (PreTradeReasonCode_code PreTradeReasonCode.AdjudicationTimeout)
        (''pre-trade adjudication timed out after '' @ nat_to_dec (rt_pretrade_adjudication_timeout_ms rt)
          @ ''ms for order `'' @ aq_order_id request @ ''`''))
    | Some (Inl error) \<Rightarrow> Inl (OrderLifecycleRuntimeError_new
        (normalize_pretrade_reason_code (ap_code error)) (ap_message error))
    | Some (Inr decision) \<Rightarrow>
        let exceeded = (ad_allowed decision \<and> participation_guardrail_size_cap_exceeded
              (aq_requested_order_size_units request) (ad_participation_guardrail decision));
            allowed = (ad_allowed decision \<and> \<not> exceeded);
            normalized_reason_code = (if exceeded
              then PreTradeReasonCode_code PreTradeReasonCode.ParticipationGuardrailOvernightCapExceeded
              else normalize_pretrade_reason_code (ad_reason_code decision))
        in if allowed \<and> normalized_reason_code \<noteq> PreTradeReasonCode_code PreTradeReasonCode.Pass
           then Inl (OrderLifecycleRuntimeError_new
             (PreTradeReasonCode_code PreTradeReasonCode.InvalidPayload)
             (''pre-trade adjudication allow decision must use `''
               @ PreTradeReasonCode_code PreTradeReasonCode.Pass @ ''` reason_code''))
           else if \<not> allowed \<and> normalized_reason_code = PreTradeReasonCode_code PreTradeReasonCode.Pass
           then Inl (OrderLifecycleRuntimeError_new
             (PreTradeReasonCode_code PreTradeReasonCode.InvalidPayload)
             ''pre-trade adjudication deny decision cannot use pretrade_gate_pass reason_code'')
           else Inr \<lparr>ad_allowed = allowed, ad_reason_code = normalized_reason_code,
                  ad_decided_at_utc = ad_decided_at_utc decision,
                  ad_participation_guardrail = ad_participation_guardrail decision\<rparr>)"

text \<open>The checks before a submission reaches the store.\<close>

definition submit_order_checks ::
    "time_crate \<Rightarrow> 's OrderLifecycleRuntime \<Rightarrow> SubmitOrderCommand \<Rightarrow> OrderLifecycleRuntimeError + unit" where
  "submit_order_checks T rt command =
     and_then (validate_runtime_command_fields T (so_order_id command) (so_market_id command)
       (so_correlation_id command) (so_requested_at_utc command)) (\<lambda>_.
     and_then (validate_requested_order_size_units (so_requested_order_size_units command)) (\<lambda>_.
     and_then (enforce_emergency_mode_for_submit rt command) (\<lambda>_.
     let request = \<lparr>aq_order_id = so_order_id command, aq_market_id = so_market_id command,
           aq_correlation_id = so_correlation_id command, aq_requested_at_utc = so_requested_at_utc command,
           aq_requested_order_size_units = so_requested_order_size_units command\<rparr>
     in case adjudicate_submit_order_request rt request of
          Inl error \<Rightarrow> Inl (OrderLifecycleRuntimeError_new
            (normalize_pretrade_reason_code (oe_code error)) (oe_message error))
        | Inr adjudication_decision \<Rightarrow>
            if \<not> ad_allowed adjudication_decision
            then let reason_code = normalize_pretrade_reason_code (ad_reason_code adjudication_decision)
              in Inl (OrderLifecycleRuntimeError_new reason_code
                (''pre-trade adjudication denied submit for `'' @ aq_order_id request @ ''` with reason `''
                  @ reason_code @ ''`''))
            else Inr ())))"

definition submit_order ::
    "time_crate \<Rightarrow> 's OrderLifecycleRuntime \<Rightarrow> SubmitOrderCommand \<Rightarrow> 's
      \<Rightarrow> (OrderLifecycleRuntimeError + OrderLifecycleCommandOutcome) \<times> 's" where
  "submit_order T rt command s = (case submit_order_checks T rt command of
      Inl error \<Rightarrow> (Inl error, s)
    | Inr _ \<Rightarrow> persist_with_telemetry rt
        \<lparr>tc_order_id = so_order_id command, tc_market_id = so_market_id command, tc_mode = so_mode command,
         tc_target_state = OrderLifecycleState.Pending,
         tc_reason_code = OrderLifecycleReasonCode_code OrderLifecycleReasonCode.SubmissionAccepted,
         tc_correlation_id = so_correlation_id command,
         tc_idempotency_key = normalize_order_submission_idempotency_key (so_order_id command) (so_idempotency_key command),
         tc_transitioned_at_utc = so_requested_at_utc command\<rparr> s)"

definition cancel_order ::
    "time_crate \<Rightarrow> 's OrderLifecycleRuntime \<Rightarrow> CancelOrderCommand \<Rightarrow> 's
      \<Rightarrow> (OrderLifecycleRuntimeError + OrderLifecycleCommandOutcome) \<times> 's" where
  "cancel_order T rt command s =
     (case validate_runtime_command_fields T (cc_order_id command) (cc_market_id command)
        (cc_correlation_id command) (cc_requested_at_utc command) of
      Inl error \<Rightarrow> (Inl error, s)
    | Inr _ \<Rightarrow> persist_with_telemetry rt
        \<lparr>tc_order_id = cc_order_id command, tc_market_id = cc_market_id command, tc_mode = cc_mode command,
         tc_target_state = OrderLifecycleState.Canceled,
         tc_reason_code = OrderLifecycleReasonCode_code OrderLifecycleReasonCode.CancelAccepted,
         tc_correlation_id = cc_correlation_id command,
         tc_idempotency_key = normalize_order_cancel_idempotency_key (cc_order_id command) (cc_idempotency_key command),
         tc_transitioned_at_utc = cc_requested_at_utc command\<rparr> s)"

definition batch_idempotency_key :: "BatchCancelCommand \<Rightarrow> BatchCancelOrderRequest \<Rightarrow> string" where
  "batch_idempotency_key command request = (case bo_idempotency_key request of
      Some key \<Rightarrow> normalize_order_idempotency_key key
    | None \<Rightarrow> normalize_order_batch_cancel_idempotency_key (bc_batch_idempotency_key command) (bo_order_id request))"

definition batch_transition ::
    "BatchCancelCommand \<Rightarrow> BatchCancelOrderRequest \<Rightarrow> OrderLifecycleTransitionCommand" where
  "batch_transition command request =
     \<lparr>tc_order_id = bo_order_id request, tc_market_id = bc_market_id command, tc_mode = bo_mode request,
      tc_target_state = OrderLifecycleState.Canceled,
      tc_reason_code = OrderLifecycleReasonCode_code OrderLifecycleReasonCode.BatchCancelAccepted,
      tc_correlation_id = bc_correlation_id command,
      tc_idempotency_key = batch_idempotency_key command request,
      tc_transitioned_at_utc = bc_requested_at_utc command\<rparr>"

fun batch_kind :: "OrderLifecycleCommandDisposition \<Rightarrow> BatchCancelOutcomeKind" where
  "batch_kind OrderLifecycleCommandDisposition.Applied = BatchCancelOutcomeKind.Canceled"
| "batch_kind OrderLifecycleCommandDisposition.Duplicate = BatchCancelOutcomeKind.Canceled"
| "batch_kind OrderLifecycleCommandDisposition.AlreadyTerminal = BatchCancelOutcomeKind.AlreadyTerminal"
| "batch_kind OrderLifecycleCommandDisposition.Rejected = BatchCancelOutcomeKind.HardFailure"

text \<open>One order of the batch, and the loop: a blank order identifier ends it with an error.\<close>

definition batch_outcome ::
    "BatchCancelCommand \<Rightarrow> BatchCancelOrderRequest \<Rightarrow> OrderLifecycleRuntimeError + OrderLifecycleCommandOutcome
      \<Rightarrow> BatchCancelOrderOutcome" where
  "batch_outcome command request result =
     (let (kind, reason_code) = (case result of
            Inr outcome \<Rightarrow> (batch_kind (co_disposition outcome), co_outcome_reason_code outcome)
          | Inl error \<Rightarrow> (if is_retryable_runtime_error error then BatchCancelOutcomeKind.RetryableFailure
              else BatchCancelOutcomeKind.HardFailure, oe_code error))
      in \<lparr>bx_order_id = bo_order_id request, bx_market_id = bc_market_id command, bx_outcome = kind,
          bx_reason_code = reason_code, bx_idempotency_key = batch_idempotency_key command request,
          bx_correlation_id = bc_correlation_id command, bx_timestamp_utc = bc_requested_at_utc command\<rparr>)"

fun batch_cancel_loop ::
    "'s OrderLifecycleRuntime \<Rightarrow> BatchCancelCommand \<Rightarrow> BatchCancelOrderRequest list \<Rightarrow> 's
      \<Rightarrow> (OrderLifecycleRuntimeError + BatchCancelOrderOutcome list) \<times> 's" where
  "batch_cancel_loop rt command [] s = (Inr [], s)"
| "batch_cancel_loop rt command (request # requests) s =
     (case validate_runtime_non_empty ''order_id'' (bo_order_id request) of
        Inl error \<Rightarrow> (Inl error, s)
      | Inr _ \<Rightarrow>
          let (result, s') = persist_with_telemetry rt (batch_transition command request) s;
              (outcomes, s'') = batch_cancel_loop rt command requests s'
          in (and_then outcomes (\<lambda>outcomes. Inr (batch_outcome command request result # outcomes)), s''))"

definition batch_cancel ::
    "time_crate \<Rightarrow> 's OrderLifecycleRuntime \<Rightarrow> BatchCancelCommand \<Rightarrow> 's
      \<Rightarrow> (OrderLifecycleRuntimeError + BatchCancelOrderOutcome list) \<times> 's" where
  "batch_cancel T rt command s =
     (case and_then (validate_runtime_non_empty ''market_id'' (bc_market_id command)) (\<lambda>_.
           and_then (validate_runtime_non_empty ''correlation_id'' (bc_correlation_id command)) (\<lambda>_.
           and_then (validate_runtime_non_empty ''requested_at_utc'' (bc_requested_at_utc command)) (\<lambda>_.
           and_then (validate_runtime_timestamp_utc T ''requested_at_utc'' (bc_requested_at_utc command)) (\<lambda>_.
           if bc_orders command = [] then Inl (OrderLifecycleRuntimeError_new
             (OrderLifecycleReasonCode_code OrderLifecycleReasonCode.InvalidPayload)
             ''batch-cancel requires at least one order'')
           else Inr ())))) of
        Inl error \<Rightarrow> (Inl error, s)
      | Inr _ \<Rightarrow> batch_cancel_loop rt command (bc_orders command) s)"

definition emergency_batch :: "EmergencyCancelAllCommand \<Rightarrow> BatchCancelCommand" where
  "emergency_batch command =
     \<lparr>bc_market_id = ea_market_id command, bc_correlation_id = ea_correlation_id command,
      bc_requested_at_utc = ea_requested_at_utc command,
      bc_batch_idempotency_key = ''emergency-cancel-all::''
        @ normalize_order_idempotency_key (ea_correlation_id command) @ ''::''
        @ filter is_ascii_digit (ea_requested_at_utc command),
      bc_orders = map (\<lambda>order. \<lparr>bo_order_id = eo_order_id order, bo_mode = eo_mode order, bo_idempotency_key = None\<rparr>)
        (ea_orders command)\<rparr>"

definition cancel_all_orders ::
    "time_crate \<Rightarrow> 's OrderLifecycleRuntime \<Rightarrow> EmergencyCancelAllCommand \<Rightarrow> 's
      \<Rightarrow> (OrderLifecycleRuntimeError + BatchCancelOrderOutcome list) \<times> 's" where
  "cancel_all_orders T rt command s = batch_cancel T rt (emergency_batch command) s"

definition hydrate_order :: "'s OrderLifecycleRuntime \<Rightarrow> string \<Rightarrow> 's \<Rightarrow> OrderLifecycleRuntimeError + OrderRecord option" where
  "hydrate_order rt order_id s = rt_load_order rt order_id s"

definition replay_order ::
    "'s OrderLifecycleRuntime \<Rightarrow> string \<Rightarrow> 's \<Rightarrow> OrderLifecycleRuntimeError + OrderStateTransition list" where
  "replay_order rt order_id s = rt_load_order_state_transitions rt order_id s"

definition apply_user_stream_event ::
    "time_crate \<Rightarrow> 's OrderLifecycleRuntime \<Rightarrow> UserStreamEvent \<Rightarrow> 's
      \<Rightarrow> (OrderLifecycleRuntimeError + OrderLifecycleCommandOutcome) \<times> 's" where
  "apply_user_stream_event T rt event s =
     (case and_then (validate_runtime_non_empty ''event.order_id'' (ue_order_id event)) (\<lambda>_.
           and_then (validate_runtime_non_empty ''event.market_id'' (ue_market_id event)) (\<lambda>_.
           and_then (validate_runtime_non_empty ''event.correlation_id'' (ue_correlation_id event)) (\<lambda>_.
           and_then (validate_runtime_non_empty ''event.idempotency_key'' (ue_idempotency_key event)) (\<lambda>_.
           and_then (validate_runtime_non_empty ''event.observed_at_utc'' (ue_observed_at_utc event)) (\<lambda>_.
           and_then (validate_runtime_timestamp_utc T ''event.observed_at_utc'' (ue_observed_at_utc event)) (\<lambda>_.
           and_then (map_user_stream_event_state (ue_event_status event)) (\<lambda>target_state.
           and_then (rt_load_order rt (ue_order_id event) s) (\<lambda>order.
           Inr (target_state, case order of Some order \<Rightarrow> or_mode order | None \<Rightarrow> OrderMode.Limit))))))))) of
        Inl error \<Rightarrow> (Inl error, s)
      | Inr (target_state, mode) \<Rightarrow> persist_with_telemetry rt
          \<lparr>tc_order_id = ue_order_id event, tc_market_id = ue_market_id event, tc_mode = mode,
           tc_target_state = target_state,
           tc_reason_code = OrderLifecycleReasonCode_code
             (if ue_event_status event = UserStreamEventStatus.Cancellation
              then OrderLifecycleReasonCode.CancelAccepted else OrderLifecycleReasonCode.VenueUpdateAccepted),
           tc_correlation_id = ue_correlation_id event,
           tc_idempotency_key = normalize_order_idempotency_key (ue_idempotency_key event),
           tc_transitioned_at_utc = ue_observed_at_utc event\<rparr> s)"

end
