(* ===== verification/UserStreamRuntime.thy ===== *)
theory UserStreamRuntime
  imports UserStreamStore FreshnessRuntime OrderRuntime
begin

text \<open>
  The user stream ingestion of \<open>services/execution-engine/src/ingestion/user_stream.rs\<close>: venue
  messages become events, an accepted event refreshes the freshness signal and moves its order,
  and the authentication state blocks new intents from a failure until the first accepted event
  after recovery. The messages are those of the venue's client library, with the fields the code
  reads; the JSON copy of a message is a parameter.
\<close>

section \<open>Messages, errors and state\<close>

record UserStreamIngestionError =
  ux_code :: string
  ux_message :: string

definition UserStreamIngestionError_new :: "string \<Rightarrow> string \<Rightarrow> UserStreamIngestionError" where
  "UserStreamIngestionError_new code message = \<lparr>ux_code = code, ux_message = message\<rparr>"

abbreviation user_invalid :: "string \<Rightarrow> UserStreamIngestionError" where
  "user_invalid message \<equiv>
     UserStreamIngestionError_new (UserStreamReasonCode_code UserStreamReasonCode.InvalidPayload) message"

text \<open>The enumerations of the client library are open: \<open>Other\<close> stands for the variants it may add.\<close>

datatype OrderMessageType = Placement | Update | Cancellation | Unknown string | Other
datatype OrderStatusType = Live | Matched | Canceled | Delayed | Unmatched | Unknown string | Other
datatype TradeMessageStatus = Matched | Mined | Confirmed | Unknown string | Other

record OrderMessage =
  om_id :: string
  om_market :: string
  om_asset_id :: string
  om_msg_type :: "OrderMessageType option"
  om_status :: "OrderStatusType option"
  om_timestamp :: "int option"

record TradeMessage =
  tm_id :: string
  tm_market :: string
  tm_asset_id :: string
  tm_status :: TradeMessageStatus
  tm_timestamp :: "int option"
  tm_matchtime :: "int option"
  tm_last_update :: "int option"
  tm_taker_order_id :: "string option"
  tm_maker_order_ids :: "string list"

datatype UserIngestionDisposition = Accepted | Duplicate | OutOfOrder

record UserStreamIngestionOutcome =
  uq_disposition :: UserIngestionDisposition
  uq_reason_code :: string
  uq_correlation_id :: string

record UserStreamRuntimeState =
  ur_latencies_seconds :: "f64 list"
  ur_auth_state :: UserStreamAuthState
  ur_block_new_intents :: bool
  ur_recovery_pending_first_event :: bool
  ur_next_transition_offset :: int

definition UserStreamRuntimeState_default :: UserStreamRuntimeState where
  "UserStreamRuntimeState_default =
     \<lparr>ur_latencies_seconds = [], ur_auth_state = UserStreamAuthState.Authenticated,
      ur_block_new_intents = False, ur_recovery_pending_first_event = False, ur_next_transition_offset = 1\<rparr>"

text \<open>
  The runtime: its state, the freshness signals and the order service where they are attached;
  the order service works on the orders \<open>'o\<close>.
\<close>

record 'o UserStreamIngestionRuntime =
  un_state :: UserStreamRuntimeState
  un_freshness_signals :: "FreshnessSignalState option"
  un_order_lifecycle_port :: "(UserStreamEvent \<Rightarrow> 'o \<Rightarrow> (OrderLifecycleRuntimeError + unit) \<times> 'o) option"

text \<open>\<open>OffsetDateTime::from_unix_timestamp_nanos\<close> and \<open>format\<close> of the \<open>time\<close> crate.\<close>

record time_format =
  from_unix_timestamp_nanos :: "int \<Rightarrow> string + int"
  rfc3339_format :: "int \<Rightarrow> string + string"

section \<open>The store\<close>

definition map_user_stream_persistence_error :: "UserStreamPersistenceError \<Rightarrow> UserStreamIngestionError" where
  "map_user_stream_persistence_error error =
     UserStreamIngestionError_new (ce_code error) (ce_code error @ '': '' @ ce_message error)"

definition PostgresUserStreamStore_persist_event ::
    "time_crate \<Rightarrow> (string \<Rightarrow> string) \<Rightarrow> ('json \<Rightarrow> bool) \<Rightarrow> db_faults \<Rightarrow> UserStreamEvent \<Rightarrow> 'json
      \<Rightarrow> UserStreamAuthState \<Rightarrow> bool \<Rightarrow> user_store
      \<Rightarrow> (UserStreamIngestionError + UserStreamPersistOutcome) \<times> user_store" where
  "PostgresUserStreamStore_persist_event T render is_null faults event raw_payload auth_state block_new_intents st =
     (let (result, st') = persist_user_stream_event T render is_null faults event raw_payload auth_state block_new_intents st
      in (map_err map_user_stream_persistence_error result, st'))"

definition PostgresUserStreamStore_persist_auth_transition ::
    "time_crate \<Rightarrow> db_faults \<Rightarrow> UserStreamAuthTransition \<Rightarrow> user_store
      \<Rightarrow> (UserStreamIngestionError + unit) \<times> user_store" where
  "PostgresUserStreamStore_persist_auth_transition T faults transition st =
     (let (result, st') = persist_user_stream_auth_transition T faults transition st
      in (map_err map_user_stream_persistence_error result, st'))"

definition PostgresUserStreamStore_load_auth_cursor ::
    "time_crate \<Rightarrow> (string \<Rightarrow> string) \<Rightarrow> db_faults \<Rightarrow> user_store
      \<Rightarrow> UserStreamIngestionError + OrderEventOffsetCursor option" where
  "PostgresUserStreamStore_load_auth_cursor T render faults st =
     map_err map_user_stream_persistence_error (load_user_stream_auth_cursor T render faults st)"

section \<open>Messages to events\<close>

definition user_parse_rfc3339_utc :: "time_crate \<Rightarrow> string \<Rightarrow> UserStreamIngestionError + int" where
  "user_parse_rfc3339_utc T value = (case rfc3339_parse T value of
      None \<Rightarrow> Inl (user_invalid (''invalid RFC3339 timestamp `'' @ value @ ''`: '' @ rfc3339_error T value))
    | Some (parsed, offset) \<Rightarrow>
        if offset \<noteq> 0 then Inl (user_invalid ''timestamps must use UTC `Z` offset'') else Inr parsed)"

text \<open>The product is formed in 128 bits.\<close>

definition user_timestamp_millis_to_rfc3339_utc :: "time_format \<Rightarrow> int \<Rightarrow> UserStreamIngestionError + string" where
  "user_timestamp_millis_to_rfc3339_utc F timestamp_millis =
     (let nanos = timestamp_millis * 1000000
      in if nanos < - (2 ^ 127) \<or> 2 ^ 127 \<le> nanos then Inl (user_invalid ''user stream timestamp overflow'')
         else and_then (map_err (\<lambda>error. user_invalid (''invalid user stream timestamp: '' @ error))
                (from_unix_timestamp_nanos F nanos)) (\<lambda>observed.
              map_err (\<lambda>error. user_invalid (''unable to format user stream timestamp: '' @ error))
                (rfc3339_format F observed)))"

fun order_type_status :: "OrderMessageType \<Rightarrow> UserStreamIngestionError + UserStreamEventStatus" where
  "order_type_status OrderMessageType.Placement = Inr UserStreamEventStatus.Placement"
| "order_type_status OrderMessageType.Update = Inr UserStreamEventStatus.Update"
| "order_type_status OrderMessageType.Cancellation = Inr UserStreamEventStatus.Cancellation"
| "order_type_status (OrderMessageType.Unknown value) =
     Inl (user_invalid (''unsupported order message type `'' @ value @ ''`''))"
| "order_type_status OrderMessageType.Other = Inl (user_invalid ''unsupported non-exhaustive order message type'')"

fun order_status_status :: "OrderStatusType \<Rightarrow> UserStreamIngestionError + UserStreamEventStatus" where
  "order_status_status OrderStatusType.Live = Inr UserStreamEventStatus.Placement"
| "order_status_status OrderStatusType.Unmatched = Inr UserStreamEventStatus.Placement"
| "order_status_status OrderStatusType.Matched = Inr UserStreamEventStatus.Matched"
| "order_status_status OrderStatusType.Canceled = Inr UserStreamEventStatus.Cancellation"
| "order_status_status OrderStatusType.Delayed = Inr UserStreamEventStatus.Update"
| "order_status_status (OrderStatusType.Unknown value) =
     Inl (user_invalid (''unsupported order status `'' @ value @ ''`''))"
| "order_status_status OrderStatusType.Other = Inl (user_invalid ''unsupported non-exhaustive order status'')"

definition derive_order_event_status :: "OrderMessage \<Rightarrow> UserStreamIngestionError + UserStreamEventStatus" where
  "derive_order_event_status order = (case om_msg_type order of
      Some message_type \<Rightarrow> order_type_status message_type
    | None \<Rightarrow> (case om_status order of
        Some status \<Rightarrow> order_status_status status
      | None \<Rightarrow> Inl (user_invalid ''order event requires either message type or status'')))"

definition derive_trade_event_status :: "TradeMessage \<Rightarrow> UserStreamIngestionError + UserStreamEventStatus" where
  "derive_trade_event_status trade = (case tm_status trade of
      TradeMessageStatus.Matched \<Rightarrow> Inr UserStreamEventStatus.Matched
    | TradeMessageStatus.Mined \<Rightarrow> Inr UserStreamEventStatus.Mined
    | TradeMessageStatus.Confirmed \<Rightarrow> Inr UserStreamEventStatus.Confirmed
    | TradeMessageStatus.Unknown value \<Rightarrow> Inl (user_invalid (''unsupported trade status `'' @ value @ ''`''))
    | TradeMessageStatus.Other \<Rightarrow> Inl (user_invalid ''unsupported non-exhaustive trade status''))"

definition derive_trade_partition_key :: "TradeMessage \<Rightarrow> string \<times> string" where
  "derive_trade_partition_key trade =
     (case Option.bind (tm_taker_order_id trade) (\<lambda>v. if blank v then None else Some v) of
        Some order_id \<Rightarrow> (order_id, normalize_user_stream_idempotency_key order_id)
      | None \<Rightarrow>
          (case tm_maker_order_ids trade of
             order_id # _ \<Rightarrow>
               if blank order_id then (tm_id trade, normalize_user_stream_idempotency_key (tm_id trade))
               else (order_id, normalize_user_stream_idempotency_key order_id)
           | [] \<Rightarrow> (tm_id trade, normalize_user_stream_idempotency_key (tm_id trade))))"

text \<open>The instant of a message and how long ago it was; a message from the future is refused.\<close>

definition message_age ::
    "time_crate \<Rightarrow> time_format \<Rightarrow> string \<Rightarrow> int \<Rightarrow> int \<Rightarrow> UserStreamIngestionError + string \<times> f64" where
  "message_age T F kind event_offset ingested_at =
     and_then (user_timestamp_millis_to_rfc3339_utc F event_offset) (\<lambda>event_timestamp_utc.
     and_then (user_parse_rfc3339_utc T event_timestamp_utc) (\<lambda>observed_at.
     let ingestion_latency_seconds = dur_as_seconds_f64 T (ingested_at - observed_at)
     in if f_lt ingestion_latency_seconds (Fin 0)
        then Inl (user_invalid (kind @ '' event observed_at_utc is later than ingested_at_utc''))
        else Inr (event_timestamp_utc, ingestion_latency_seconds)))"

definition order_message_to_event ::
    "time_crate \<Rightarrow> time_format \<Rightarrow> OrderMessage \<Rightarrow> string \<Rightarrow> int \<Rightarrow> UserStreamIngestionError + UserStreamEvent" where
  "order_message_to_event T F order ingested_at_utc ingested_at =
     and_then (case om_timestamp order of Some t \<Rightarrow> Inr t
       | None \<Rightarrow> Inl (user_invalid ''order event missing timestamp offset'')) (\<lambda>event_offset.
     and_then (message_age T F ''order'' event_offset ingested_at) (\<lambda>(event_timestamp_utc, ingestion_latency_seconds).
     and_then (derive_order_event_status order) (\<lambda>event_status.
     let place = om_id order @ ''::'' @ int_to_dec event_offset
     in Inr
       \<lparr>ue_event_id = ''order::'' @ place, ue_event_kind = UserStreamEventKind.Order,
        ue_event_status = event_status, ue_market_id = om_market order, ue_asset_id = om_asset_id order,
        ue_order_id = om_id order, ue_trade_id = None,
        ue_partition_key = normalize_user_stream_idempotency_key (om_id order),
        ue_idempotency_key = normalize_user_stream_idempotency_key
          (''order::'' @ place @ ''::'' @ UserStreamEventStatus_as_str event_status),
        ue_event_offset = event_offset, ue_event_timestamp_utc = event_timestamp_utc,
        ue_observed_at_utc = event_timestamp_utc, ue_ingested_at_utc = ingested_at_utc,
        ue_ingestion_latency_seconds = ingestion_latency_seconds,
        ue_correlation_id = ''user-stream::order::'' @ place,
        ue_reason_code = UserStreamReasonCode_code UserStreamReasonCode.EventAccepted\<rparr>)))"

definition trade_message_to_event ::
    "time_crate \<Rightarrow> time_format \<Rightarrow> TradeMessage \<Rightarrow> string \<Rightarrow> int \<Rightarrow> UserStreamIngestionError + UserStreamEvent" where
  "trade_message_to_event T F trade ingested_at_utc ingested_at =
     and_then (case (tm_timestamp trade, tm_matchtime trade, tm_last_update trade) of
         (Some t, _, _) \<Rightarrow> Inr t
       | (None, Some t, _) \<Rightarrow> Inr t
       | (None, None, Some t) \<Rightarrow> Inr t
       | (None, None, None) \<Rightarrow> Inl (user_invalid ''trade event missing timestamp offset'')) (\<lambda>event_offset.
     and_then (message_age T F ''trade'' event_offset ingested_at) (\<lambda>(event_timestamp_utc, ingestion_latency_seconds).
     and_then (derive_trade_event_status trade) (\<lambda>event_status.
     let place = tm_id trade @ ''::'' @ int_to_dec event_offset;
         (order_id, partition_key) = derive_trade_partition_key trade
     in Inr
       \<lparr>ue_event_id = ''trade::'' @ place, ue_event_kind = UserStreamEventKind.Trade,
        ue_event_status = event_status, ue_market_id = tm_market trade, ue_asset_id = tm_asset_id trade,
        ue_order_id = order_id, ue_trade_id = Some (tm_id trade), ue_partition_key = partition_key,
        ue_idempotency_key = normalize_user_stream_idempotency_key
          (''trade::'' @ place @ ''::'' @ UserStreamEventStatus_as_str event_status),
        ue_event_offset = event_offset, ue_event_timestamp_utc = event_timestamp_utc,
        ue_observed_at_utc = event_timestamp_utc, ue_ingested_at_utc = ingested_at_utc,
        ue_ingestion_latency_seconds = ingestion_latency_seconds,
        ue_correlation_id = ''user-stream::trade::'' @ place,
        ue_reason_code = UserStreamReasonCode_code UserStreamReasonCode.EventAccepted\<rparr>)))"

section \<open>Authentication state\<close>

text \<open>\<open>i64::saturating_add(1)\<close>\<close>

definition saturating_succ :: "int \<Rightarrow> int" where
  "saturating_succ n = min (n + 1) (2 ^ 63 - 1)"

definition hydrate_auth_state_from_store ::
    "time_crate \<Rightarrow> (string \<Rightarrow> string) \<Rightarrow> db_faults \<Rightarrow> user_store \<Rightarrow> UserStreamRuntimeState
      \<Rightarrow> (UserStreamIngestionError + unit) \<times> UserStreamRuntimeState" where
  "hydrate_auth_state_from_store T render faults store state =
     (case PostgresUserStreamStore_load_auth_cursor T render faults store of
        Inl error \<Rightarrow> (Inl error, state)
      | Inr None \<Rightarrow> (Inr (), state)
      | Inr (Some cursor) \<Rightarrow> (Inr (), state
          \<lparr>ur_auth_state := oc_auth_state cursor, ur_block_new_intents := oc_block_new_intents cursor,
           ur_recovery_pending_first_event :=
             (oc_auth_state cursor = UserStreamAuthState.Authenticated \<and> oc_block_new_intents cursor),
           ur_next_transition_offset := saturating_succ (oc_last_event_offset cursor)\<rparr>))"

definition user_compact_timestamp_token :: "string \<Rightarrow> string" where
  "user_compact_timestamp_token value = filter is_ascii_digit value"

definition persist_auth_transition_state ::
    "time_crate \<Rightarrow> db_faults \<Rightarrow> UserStreamAuthState \<Rightarrow> bool \<Rightarrow> UserStreamReasonCode \<Rightarrow> string \<Rightarrow> string
      \<Rightarrow> UserStreamRuntimeState \<times> user_store
      \<Rightarrow> (UserStreamIngestionError + unit) \<times> (UserStreamRuntimeState \<times> user_store)" where
  "persist_auth_transition_state T faults auth_state block_new_intents reason_code correlation_id observed_at_utc s =
     (let transition =
        \<lparr>ut_transition_id = ''auth::'' @ UserStreamAuthState_as_str auth_state @ ''::''
           @ user_compact_timestamp_token observed_at_utc,
         ut_transition_offset = ur_next_transition_offset (fst s), ut_auth_state = auth_state,
         ut_block_new_intents = block_new_intents, ut_reason_code = UserStreamReasonCode_code reason_code,
         ut_correlation_id = correlation_id, ut_observed_at_utc = observed_at_utc\<rparr>;
         (result, store') = PostgresUserStreamStore_persist_auth_transition T faults transition (snd s)
      in case result of
           Inl error \<Rightarrow> (Inl error, (fst s, store'))
         | Inr _ \<Rightarrow> (Inr (), ((fst s)
             \<lparr>ur_next_transition_offset := saturating_succ (ur_next_transition_offset (fst s)),
              ur_auth_state := auth_state, ur_block_new_intents := block_new_intents,
              ur_recovery_pending_first_event :=
                (auth_state = UserStreamAuthState.Authenticated \<and> block_new_intents)\<rparr>, store')))"

section \<open>Ingestion\<close>

definition user_latency_slo_met :: "'o UserStreamIngestionRuntime \<Rightarrow> bool" where
  "user_latency_slo_met self = user_stream_latency_slo_met (ur_latencies_seconds (un_state self))"

definition push_latency :: "f64 \<Rightarrow> UserStreamRuntimeState \<Rightarrow> UserStreamRuntimeState" where
  "push_latency latency state =
     (let latencies = ur_latencies_seconds state @ [latency]
      in state\<lparr>ur_latencies_seconds := if 2000 < length latencies then tl latencies else latencies\<rparr>)"

text \<open>The attached parties hear of an accepted event: first the freshness signal, then the orders.\<close>

definition notify_signals ::
    "time_crate \<Rightarrow> UserStreamEvent \<Rightarrow> FreshnessSignalState option
      \<Rightarrow> (UserStreamIngestionError + unit) \<times> FreshnessSignalState option" where
  "notify_signals T event signals = (case signals of
      None \<Rightarrow> (Inr (), None)
    | Some signals \<Rightarrow> (let (result, signals') = record_user_update T (ue_observed_at_utc event) signals
        in (map_err (\<lambda>error. UserStreamIngestionError_new (fx_code error) (fx_message error)) result, Some signals')))"

definition notify_orders ::
    "UserStreamEvent \<Rightarrow> (UserStreamEvent \<Rightarrow> 'o \<Rightarrow> (OrderLifecycleRuntimeError + unit) \<times> 'o) option \<Rightarrow> 'o
      \<Rightarrow> (UserStreamIngestionError + unit) \<times> 'o" where
  "notify_orders event port orders = (case port of
      None \<Rightarrow> (Inr (), orders)
    | Some port \<Rightarrow> (let (result, orders') = port event orders
        in (map_err (\<lambda>error. UserStreamIngestionError_new (oe_code error) (oe_message error)) result, orders')))"

text \<open>What follows an accepted event: each step may end it with an error, after the event is stored.\<close>

definition after_accepted ::
    "time_crate \<Rightarrow> db_faults \<Rightarrow> UserStreamEvent \<Rightarrow> string \<Rightarrow> 'o UserStreamIngestionRuntime \<Rightarrow> user_store \<times> 'o
      \<Rightarrow> (UserStreamIngestionError + UserStreamIngestionOutcome) \<times> ('o UserStreamIngestionRuntime \<times> (user_store \<times> 'o))" where
  "after_accepted T faults event reason_code self w =
     (let (recorded, signals) = notify_signals T event (un_freshness_signals self);
          self1 = self\<lparr>un_freshness_signals := signals\<rparr>
      in case recorded of
           Inl error \<Rightarrow> (Inl error, (self1, w))
         | Inr _ \<Rightarrow> let (applied, orders) = notify_orders event (un_order_lifecycle_port self) (snd w)
             in case applied of
                  Inl error \<Rightarrow> (Inl error, (self1, (fst w, orders)))
                | Inr _ \<Rightarrow> let state = push_latency (ue_ingestion_latency_seconds event) (un_state self1);
                      outcome = \<lparr>uq_disposition = UserIngestionDisposition.Accepted,
                        uq_reason_code = reason_code, uq_correlation_id = ue_correlation_id event\<rparr>
                    in if ur_recovery_pending_first_event state
                       then let (result, (state', store')) = persist_auth_transition_state T faults
                              UserStreamAuthState.Authenticated False UserStreamReasonCode.Authenticated
                              (''user-stream-auth-recovery::'' @ user_compact_timestamp_token (ue_ingested_at_utc event))
                              (ue_ingested_at_utc event) (state, fst w)
                            in (and_then result (\<lambda>_. Inr outcome), (self1\<lparr>un_state := state'\<rparr>, (store', orders)))
                       else (Inr outcome, (self1\<lparr>un_state := state\<rparr>, (fst w, orders))))"

definition runtime_persist_event ::
    "time_crate \<Rightarrow> (string \<Rightarrow> string) \<Rightarrow> ('json \<Rightarrow> bool) \<Rightarrow> db_faults \<Rightarrow> UserStreamEvent \<Rightarrow> 'json
      \<Rightarrow> 'o UserStreamIngestionRuntime \<times> (user_store \<times> 'o)
      \<Rightarrow> (UserStreamIngestionError + UserStreamIngestionOutcome) \<times> ('o UserStreamIngestionRuntime \<times> (user_store \<times> 'o))" where
  "runtime_persist_event T render is_null faults event raw_payload s =
     (let (self, w) = s;
          (result, store') = PostgresUserStreamStore_persist_event T render is_null faults event raw_payload
            (ur_auth_state (un_state self)) (ur_block_new_intents (un_state self)) (fst w)
      in case result of
           Inl error \<Rightarrow> (Inl error, (self, (store', snd w)))
         | Inr outcome \<Rightarrow> (case uo_disposition outcome of
             UserStreamPersistDisposition.Accepted \<Rightarrow>
               after_accepted T faults event (uo_reason_code outcome) self (store', snd w)
           | UserStreamPersistDisposition.Duplicate \<Rightarrow>
               (Inr \<lparr>uq_disposition = UserIngestionDisposition.Duplicate,
                  uq_reason_code = uo_reason_code outcome, uq_correlation_id = ue_correlation_id event\<rparr>,
                (self, (store', snd w)))
           | UserStreamPersistDisposition.OutOfOrder \<Rightarrow>
               (Inr \<lparr>uq_disposition = UserIngestionDisposition.OutOfOrder,
                  uq_reason_code = uo_reason_code outcome, uq_correlation_id = ue_correlation_id event\<rparr>,
                (self, (store', snd w)))))"

definition process_order_message ::
    "time_crate \<Rightarrow> time_format \<Rightarrow> (string \<Rightarrow> string) \<Rightarrow> ('json \<Rightarrow> bool) \<Rightarrow> (OrderMessage \<Rightarrow> 'json) \<Rightarrow> db_faults
      \<Rightarrow> OrderMessage \<Rightarrow> string \<Rightarrow> 'o UserStreamIngestionRuntime \<times> (user_store \<times> 'o)
      \<Rightarrow> (UserStreamIngestionError + UserStreamIngestionOutcome) \<times> ('o UserStreamIngestionRuntime \<times> (user_store \<times> 'o))" where
  "process_order_message T F render is_null payload faults order ingested_at_utc s =
     (case and_then (user_parse_rfc3339_utc T ingested_at_utc)
             (order_message_to_event T F order ingested_at_utc) of
        Inl error \<Rightarrow> (Inl error, s)
      | Inr event \<Rightarrow> runtime_persist_event T render is_null faults event (payload order) s)"

definition process_trade_message ::
    "time_crate \<Rightarrow> time_format \<Rightarrow> (string \<Rightarrow> string) \<Rightarrow> ('json \<Rightarrow> bool) \<Rightarrow> (TradeMessage \<Rightarrow> 'json) \<Rightarrow> db_faults
      \<Rightarrow> TradeMessage \<Rightarrow> string \<Rightarrow> 'o UserStreamIngestionRuntime \<times> (user_store \<times> 'o)
      \<Rightarrow> (UserStreamIngestionError + UserStreamIngestionOutcome) \<times> ('o UserStreamIngestionRuntime \<times> (user_store \<times> 'o))" where
  "process_trade_message T F render is_null payload faults trade ingested_at_utc s =
     (case and_then (user_parse_rfc3339_utc T ingested_at_utc)
             (trade_message_to_event T F trade ingested_at_utc) of
        Inl error \<Rightarrow> (Inl error, s)
      | Inr event \<Rightarrow> runtime_persist_event T render is_null faults event (payload trade) s)"

section \<open>The connection loop\<close>

text \<open>An error of the client library: whether it is its authentication error, and its text.\<close>

record ws_error =
  we_authentication_failed :: bool
  we_text :: string

definition is_authentication_failure :: "ws_error \<Rightarrow> bool" where
  "is_authentication_failure error \<longleftrightarrow>
     we_authentication_failed error \<or> text_contains (map ascii_lower (we_text error)) ''auth''"

text \<open>What the loop meets: a step of the connection that fails or succeeds, or an item of a stream.\<close>

datatype ws_input =
    ClientFailed ws_error
  | AuthenticationFailed ws_error
  | AuthenticationSucceeded
  | SubscriptionFailed string ws_error
  | OrderItem OrderMessage
  | TradeItem TradeMessage
  | StreamFailed string ws_error
  | StreamEnded string

record ws_event =
  wv_input :: ws_input
  wv_now :: "UserStreamIngestionError + string"
  wv_faults :: db_faults

text \<open>Every failure expires the authentication before the attempts are counted.\<close>

definition record_stream_failure ::
    "time_crate \<Rightarrow> db_faults \<Rightarrow> UserStreamReasonCode \<Rightarrow> string \<Rightarrow> string \<Rightarrow> string \<Rightarrow> nat \<Rightarrow> nat
      \<Rightarrow> 'o UserStreamIngestionRuntime \<times> (user_store \<times> 'o)
      \<Rightarrow> (UserStreamIngestionError + nat) \<times> ('o UserStreamIngestionRuntime \<times> (user_store \<times> 'o))" where
  "record_stream_failure T faults reason correlation_prefix message now max_attempts attempts s =
     (let (self, (store, orders)) = s;
          (result, (state', store')) = persist_auth_transition_state T faults UserStreamAuthState.AuthExpired True reason
            (correlation_prefix @ ''::'' @ user_compact_timestamp_token now) now (un_state self, store)
      in (and_then result (\<lambda>_.
            if max_attempts < attempts + 1
            then Inl (UserStreamIngestionError_new (UserStreamReasonCode_code reason) message)
            else Inr (attempts + 1)),
          (self\<lparr>un_state := state'\<rparr>, (store', orders))))"

definition failure_reason :: "ws_error \<Rightarrow> UserStreamReasonCode \<times> string" where
  "failure_reason error =
     (if is_authentication_failure error then (UserStreamReasonCode.AuthExpired, ''user-stream-auth-expired'')
      else (UserStreamReasonCode.StreamDisconnected, ''user-stream-disconnect''))"

text \<open>The message loop and the attempts: a stored message resets them, an error ends the loop.\<close>

definition handle_message ::
    "(UserStreamIngestionError + UserStreamIngestionOutcome) \<times> 'w \<Rightarrow> (UserStreamIngestionError + nat) \<times> 'w" where
  "handle_message processed = (and_then (fst processed) (\<lambda>_. Inr 0), snd processed)"

definition handle_ws_input ::
    "time_crate \<Rightarrow> time_format \<Rightarrow> (string \<Rightarrow> string) \<Rightarrow> ('json \<Rightarrow> bool) \<Rightarrow> (OrderMessage \<Rightarrow> 'json) \<Rightarrow> (TradeMessage \<Rightarrow> 'json)
      \<Rightarrow> db_faults \<Rightarrow> string \<Rightarrow> nat \<Rightarrow> nat \<Rightarrow> ws_input \<Rightarrow> 'o UserStreamIngestionRuntime \<times> (user_store \<times> 'o)
      \<Rightarrow> (UserStreamIngestionError + nat) \<times> ('o UserStreamIngestionRuntime \<times> (user_store \<times> 'o))" where
  "handle_ws_input T F render is_null order_json trade_json faults now max_attempts attempts input s =
     (let after = '' after '' @ nat_to_dec max_attempts @ '' reconnect attempts''
      in case input of
         ClientFailed error \<Rightarrow> record_stream_failure T faults UserStreamReasonCode.StreamDisconnected
           ''user-stream-disconnect'' (''unable to initialize user websocket client'' @ after @ '': '' @ we_text error)
           now max_attempts attempts s
       | AuthenticationFailed error \<Rightarrow> record_stream_failure T faults UserStreamReasonCode.AuthExpired
           ''user-stream-auth-expired'' (''unable to authenticate user websocket client'' @ after @ '': '' @ we_text error)
           now max_attempts attempts s
       | AuthenticationSucceeded \<Rightarrow>
           if ur_block_new_intents (un_state (fst s))
           then let (result, (state', store')) = persist_auth_transition_state T faults
                  UserStreamAuthState.Authenticated True UserStreamReasonCode.AuthRecoveredPendingEvent
                  (''user-stream-auth-recovered::'' @ user_compact_timestamp_token now) now
                  (un_state (fst s), fst (snd s))
                in (and_then result (\<lambda>_. Inr attempts), ((fst s)\<lparr>un_state := state'\<rparr>, (store', snd (snd s))))
           else (Inr attempts, s)
       | SubscriptionFailed stream error \<Rightarrow>
           let (reason, correlation_prefix) = failure_reason error
           in record_stream_failure T faults reason correlation_prefix
             (''unable to subscribe to authenticated '' @ stream @ '' stream'' @ after @ '': '' @ we_text error)
             now max_attempts attempts s
       | OrderItem order \<Rightarrow> handle_message (process_order_message T F render is_null order_json faults order now s)
       | TradeItem trade \<Rightarrow> handle_message (process_trade_message T F render is_null trade_json faults trade now s)
       | StreamFailed stream error \<Rightarrow>
           let (reason, correlation_prefix) = failure_reason error
           in record_stream_failure T faults reason correlation_prefix
             (''authenticated '' @ stream @ '' stream disconnected'' @ after @ '': '' @ we_text error)
             now max_attempts attempts s
       | StreamEnded stream \<Rightarrow> record_stream_failure T faults UserStreamReasonCode.StreamDisconnected
           ''user-stream-disconnect'' (''authenticated '' @ stream @ '' stream terminated unexpectedly'' @ after)
           now max_attempts attempts s)"

text \<open>The loop over the inputs it meets; the first error ends it.\<close>

fun run_user_ws ::
    "time_crate \<Rightarrow> time_format \<Rightarrow> (string \<Rightarrow> string) \<Rightarrow> ('json \<Rightarrow> bool) \<Rightarrow> (OrderMessage \<Rightarrow> 'json) \<Rightarrow> (TradeMessage \<Rightarrow> 'json)
      \<Rightarrow> nat \<Rightarrow> nat \<Rightarrow> ws_event list \<Rightarrow> 'o UserStreamIngestionRuntime \<times> (user_store \<times> 'o)
      \<Rightarrow> (UserStreamIngestionError + nat) \<times> ('o UserStreamIngestionRuntime \<times> (user_store \<times> 'o))" where
  "run_user_ws T F render is_null order_json trade_json max_attempts attempts [] s = (Inr attempts, s)"
| "run_user_ws T F render is_null order_json trade_json max_attempts attempts (event # events) s =
     (case wv_now event of
        Inl error \<Rightarrow> (Inl error, s)
      | Inr now \<Rightarrow>
          (let (result, s') = handle_ws_input T F render is_null order_json trade_json (wv_faults event) now
                 max_attempts attempts (wv_input event) s
           in case result of
                Inl error \<Rightarrow> (Inl error, s')
              | Inr attempts' \<Rightarrow> run_user_ws T F render is_null order_json trade_json max_attempts attempts' events s'))"

section \<open>Blocked until recovered\<close>

abbreviation auth_of :: "'o UserStreamIngestionRuntime \<times> 'w \<Rightarrow> UserStreamAuthState" where
  "auth_of s \<equiv> ur_auth_state (un_state (fst s))"

abbreviation blocks :: "'o UserStreamIngestionRuntime \<times> 'w \<Rightarrow> bool" where
  "blocks s \<equiv> ur_block_new_intents (un_state (fst s))"

text \<open>The pending recovery is what its name says.\<close>

definition recovery_consistent :: "UserStreamRuntimeState \<Rightarrow> bool" where
  "recovery_consistent state \<longleftrightarrow>
     ur_recovery_pending_first_event state \<longleftrightarrow>
       ur_auth_state state = UserStreamAuthState.Authenticated \<and> ur_block_new_intents state"

fun is_message :: "ws_input \<Rightarrow> bool" where
  "is_message (OrderItem m) = True"
| "is_message (TradeItem m) = True"
| "is_message _ = False"

text \<open>How a step may change the authentication state.\<close>

lemma persist_auth_state:
  assumes "persist_auth_transition_state T faults a b reason corr now (state, store) = (r, (state', store'))"
  obtains e where "r = Inl e" "state' = state" "store' = store"
  | "r = Inr ()" "ur_auth_state state' = a" "ur_block_new_intents state' = b" "recovery_consistent state'"
    "ur_next_transition_offset state' = saturating_succ (ur_next_transition_offset state)"
    "\<exists>t. ut_auth_state t = a \<and> ut_block_new_intents t = b \<and> ut_transition_offset t = ur_next_transition_offset state
      \<and> store' = store\<lparr>us_cursors := (us_cursors store)(USER_STREAM_AUTH_STATE_PARTITION_KEY \<mapsto> auth_row t)\<rparr>"
proof -
  let ?t = "\<lparr>ut_transition_id = ''auth::'' @ UserStreamAuthState_as_str a @ ''::'' @ user_compact_timestamp_token now,
         ut_transition_offset = ur_next_transition_offset state, ut_auth_state = a,
         ut_block_new_intents = b, ut_reason_code = UserStreamReasonCode_code reason,
         ut_correlation_id = corr, ut_observed_at_utc = now\<rparr>"
  obtain r0 store0 where run: "persist_user_stream_auth_transition T faults ?t store = (r0, store0)" by fastforce
  from run show thesis
  proof (cases rule: persist_auth_cases)
    case (1 e)
    then show thesis using assms run
      by (intro that(1)) (auto simp: persist_auth_transition_state_def
          PostgresUserStreamStore_persist_auth_transition_def Let_def simp del: UserStreamAuthState_as_str.simps)
  next
    case 2
    then show thesis using assms run
      by (intro that(2) exI[of _ ?t]) (auto simp: persist_auth_transition_state_def recovery_consistent_def
          PostgresUserStreamStore_persist_auth_transition_def Let_def simp del: UserStreamAuthState_as_str.simps)
  qed
qed

definition auth_view :: "UserStreamRuntimeState \<Rightarrow> UserStreamAuthState \<times> bool \<times> bool \<times> int" where
  "auth_view state = (ur_auth_state state, ur_block_new_intents state, ur_recovery_pending_first_event state,
     ur_next_transition_offset state)"

lemma auth_view_latency [simp]: "auth_view (push_latency l state) = auth_view state"
  by (simp add: auth_view_def push_latency_def Let_def)

lemma push_latency_simps [simp]:
  "ur_recovery_pending_first_event (push_latency l state) = ur_recovery_pending_first_event state"
  "ur_next_transition_offset (push_latency l state) = ur_next_transition_offset state"
  by (simp_all add: push_latency_def Let_def)

text \<open>The row of the authentication state, as the transition \<open>t\<close> writes it.\<close>

definition auth_written :: "UserStreamRuntimeState \<Rightarrow> user_store \<Rightarrow> UserStreamRuntimeState \<Rightarrow> user_store \<Rightarrow> bool" where
  "auth_written state store state' store' \<longleftrightarrow> recovery_consistent state'
     \<and> ur_next_transition_offset state' = saturating_succ (ur_next_transition_offset state)
     \<and> (\<exists>t. ut_auth_state t = ur_auth_state state' \<and> ut_block_new_intents t = ur_block_new_intents state'
          \<and> ut_transition_offset t = ur_next_transition_offset state
          \<and> store' = store\<lparr>us_cursors := (us_cursors store)(USER_STREAM_AUTH_STATE_PARTITION_KEY \<mapsto> auth_row t)\<rparr>)"

lemma persist_auth_written:
  assumes "persist_auth_transition_state T faults a b reason corr now (state, store) = (r, (state', store'))"
  obtains "state' = state" "store' = store" "isl r"
  | "r = Inr ()" "ur_auth_state state' = a" "ur_block_new_intents state' = b" "auth_written state store state' store'"
  using assms by (cases rule: persist_auth_state) (auto simp: auth_written_def)

text \<open>What a message does to the authentication state: nothing, or it completes a recovery.\<close>

lemma after_accepted_cases:
  assumes "after_accepted T faults event reason self (store, orders) = (r, (self', (store', orders')))"
  obtains (same) "auth_view (un_state self') = auth_view (un_state self)" "store' = store"
  | (recovered) "ur_recovery_pending_first_event (un_state self)"
      "ur_auth_state (un_state self') = UserStreamAuthState.Authenticated" "\<not> ur_block_new_intents (un_state self')"
      "auth_written (push_latency (ue_ingestion_latency_seconds event) (un_state self)) store (un_state self') store'"
proof -
  obtain recorded signals where signals: "notify_signals T event (un_freshness_signals self) = (recorded, signals)" by fastforce
  obtain applied orders1 where orders: "notify_orders event (un_order_lifecycle_port self) orders = (applied, orders1)" by fastforce
  note run = assms[unfolded after_accepted_def, simplified signals orders Let_def prod.case fst_conv snd_conv]
  show thesis
  proof (cases "isl recorded \<or> isl applied \<or> \<not> ur_recovery_pending_first_event (un_state self)")
    case True
    then show thesis using run by (intro same) (auto split: sum.splits if_splits)
  next
    case False
    obtain res state' st where persist: "persist_auth_transition_state T faults UserStreamAuthState.Authenticated False
        UserStreamReasonCode.Authenticated
        (''user-stream-auth-recovery::'' @ user_compact_timestamp_token (ue_ingested_at_utc event))
        (ue_ingested_at_utc event) (push_latency (ue_ingestion_latency_seconds event) (un_state self), store)
        = (res, (state', st))" by (metis prod.collapse)
    have self': "un_state self' = state'" "store' = st"
      using run persist False by (auto split: sum.splits)
    from persist show thesis
    proof (cases rule: persist_auth_written)
      case 1
      then show thesis using self' by (intro same) simp_all
    next
      case 2
      then show thesis using self' False by (intro recovered) simp_all
    qed
  qed
qed

lemma message_cases:
  assumes "runtime_persist_event T render is_null faults event raw (self, (store, orders)) = (r, (self', (store', orders')))"
  obtains (same) "auth_view (un_state self') = auth_view (un_state self)" "store' = store"
  | (stored) reason where "auth_view (un_state self') = auth_view (un_state self)"
      "us_events store' = accepted_row event reason # us_events store"
      "us_cursors store' = (us_cursors store)(normalize (ue_partition_key event) \<mapsto>
         cursor_row event (ur_auth_state (un_state self)) (ur_block_new_intents (un_state self)) reason)"
  | (recovered) reason middle state where "ur_recovery_pending_first_event (un_state self)"
      "ur_auth_state (un_state self') = UserStreamAuthState.Authenticated" "\<not> ur_block_new_intents (un_state self')"
      "us_events middle = accepted_row event reason # us_events store"
      "us_cursors middle = (us_cursors store)(normalize (ue_partition_key event) \<mapsto>
         cursor_row event (ur_auth_state (un_state self)) (ur_block_new_intents (un_state self)) reason)"
      "auth_view state = auth_view (un_state self)" "auth_written state middle (un_state self') store'"
proof -
  obtain res st where persist: "persist_user_stream_event T render is_null faults event raw
      (ur_auth_state (un_state self)) (ur_block_new_intents (un_state self)) store = (res, st)" by fastforce
  have run: "(r, (self', (store', orders'))) = (case res of
      Inl error \<Rightarrow> (Inl (map_user_stream_persistence_error error), (self, (st, orders)))
    | Inr outcome \<Rightarrow> (case uo_disposition outcome of
        UserStreamPersistDisposition.Accepted \<Rightarrow> after_accepted T faults event (uo_reason_code outcome) self (st, orders)
      | UserStreamPersistDisposition.Duplicate \<Rightarrow> (Inr \<lparr>uq_disposition = UserIngestionDisposition.Duplicate,
          uq_reason_code = uo_reason_code outcome, uq_correlation_id = ue_correlation_id event\<rparr>, (self, (st, orders)))
      | UserStreamPersistDisposition.OutOfOrder \<Rightarrow> (Inr \<lparr>uq_disposition = UserIngestionDisposition.OutOfOrder,
          uq_reason_code = uo_reason_code outcome, uq_correlation_id = ue_correlation_id event\<rparr>, (self, (st, orders)))))"
    unfolding assms[symmetric] runtime_persist_event_def PostgresUserStreamStore_persist_event_def
    using persist by (cases res) (simp_all split: UserStreamPersistDisposition.split)
  from persist show thesis
  proof (cases rule: persist_event_cases)
    case refused
    then show thesis using run
      by (intro same) (auto split: sum.splits UserStreamPersistDisposition.splits)
  next
    case (accepted reason)
    then have step: "after_accepted T faults event reason self (st, orders) = (r, (self', (store', orders')))"
      using run by simp
    from step show thesis
    proof (cases rule: after_accepted_cases)
      case same
      then show thesis using accepted by (intro stored) simp_all
    next
      case recovered
      then show thesis using accepted
        by (intro that(3)[of st reason "push_latency (ue_ingestion_latency_seconds event) (un_state self)"]) simp_all
    qed
  qed
qed

section \<open>The state and its row\<close>

text \<open>The runtime state is what its row in the store says; without a row it is the initial one.\<close>

definition auth_mirrors :: "UserStreamRuntimeState \<Rightarrow> user_store \<Rightarrow> bool" where
  "auth_mirrors state store \<longleftrightarrow> (case us_cursors store USER_STREAM_AUTH_STATE_PARTITION_KEY of
      None \<Rightarrow> auth_view state = auth_view UserStreamRuntimeState_default
    | Some row \<Rightarrow> rw_auth_state row = UserStreamAuthState_as_str (ur_auth_state state)
        \<and> rw_block_new_intents row = ur_block_new_intents state
        \<and> ur_next_transition_offset state = saturating_succ (rw_last_event_offset row)
        \<and> recovery_consistent state)"

lemma auth_mirrors_view: "auth_view a = auth_view b \<Longrightarrow> auth_mirrors a store = auth_mirrors b store"
  by (auto simp: auth_mirrors_def auth_view_def recovery_consistent_def split: option.splits)

lemma auth_mirrors_cursors:
  "us_cursors a USER_STREAM_AUTH_STATE_PARTITION_KEY = us_cursors b USER_STREAM_AUTH_STATE_PARTITION_KEY \<Longrightarrow>
     auth_mirrors state a = auth_mirrors state b"
  by (simp add: auth_mirrors_def)

lemma auth_written_mirrors: "auth_written state store state' store' \<Longrightarrow> auth_mirrors state' store'"
  by (auto simp: auth_written_def auth_mirrors_def auth_row_def)

lemma auth_mirrors_consistent: "auth_mirrors state store \<Longrightarrow> recovery_consistent state"
  by (auto simp: auth_mirrors_def recovery_consistent_def auth_view_def UserStreamRuntimeState_default_def
      split: option.splits)

lemma message_mirrors:
  assumes "runtime_persist_event T render is_null faults event raw (self, (store, orders)) = (r, (self', (store', orders')))"
    and "auth_mirrors (un_state self) store"
    and "normalize (ue_partition_key event) \<noteq> USER_STREAM_AUTH_STATE_PARTITION_KEY"
  shows "auth_mirrors (un_state self') store'"
  using assms(1)
proof (cases rule: message_cases)
  case same
  then show ?thesis using assms(2) auth_mirrors_view by metis
next
  case (stored reason)
  then have "auth_mirrors (un_state self') store' = auth_mirrors (un_state self) store"
    using assms(3) auth_mirrors_view[OF stored(1)] auth_mirrors_cursors[of store' store] by auto
  then show ?thesis using assms(2) by simp
next
  case recovered
  then show ?thesis using auth_written_mirrors by blast
qed

text \<open>One input of the connection.\<close>

lemma failure_cases:
  assumes "record_stream_failure T faults reason prefix message now m n (self, (store, orders)) = (r, (self', (store', orders')))"
  obtains "un_state self' = un_state self" "store' = store"
  | "ur_auth_state (un_state self') = UserStreamAuthState.AuthExpired" "ur_block_new_intents (un_state self')"
    "auth_written (un_state self) store (un_state self') store'"
proof -
  obtain res state' st where persist: "persist_auth_transition_state T faults UserStreamAuthState.AuthExpired True reason
      (prefix @ ''::'' @ user_compact_timestamp_token now) now (un_state self, store) = (res, (state', st))"
    by (metis prod.collapse)
  have "un_state self' = state'" "store' = st"
    using assms persist by (auto simp: record_stream_failure_def)
  with persist that show thesis by (cases rule: persist_auth_written) auto
qed

lemma message_input:
  assumes "handle_message (runtime_persist_event T render is_null faults event raw s) = (r, s')"
  obtains r0 where "runtime_persist_event T render is_null faults event raw s = (r0, s')"
  using assms by (cases "runtime_persist_event T render is_null faults event raw s") (auto simp: handle_message_def)

definition message_event ::
    "time_crate \<Rightarrow> time_format \<Rightarrow> string \<Rightarrow> ws_input \<Rightarrow> UserStreamIngestionError + UserStreamEvent" where
  "message_event T F now input = (case input of
      OrderItem order \<Rightarrow> and_then (user_parse_rfc3339_utc T now) (order_message_to_event T F order now)
    | TradeItem trade \<Rightarrow> and_then (user_parse_rfc3339_utc T now) (trade_message_to_event T F trade now)
    | _ \<Rightarrow> Inl (user_invalid ''not a message''))"

lemma input_cases:
  assumes "handle_ws_input T F render is_null oj tj faults now m n input (self, (store, orders)) = (r, (self', (store', orders')))"
  obtains (same) "un_state self' = un_state self" "store' = store"
  | (message) event raw r0 where "is_message input" "message_event T F now input = Inr event"
      "runtime_persist_event T render is_null faults event raw (self, (store, orders)) = (r0, (self', (store', orders')))"
  | (failed) "ur_auth_state (un_state self') = UserStreamAuthState.AuthExpired" "ur_block_new_intents (un_state self')"
      "auth_written (un_state self) store (un_state self') store'"
  | (authenticated) "input = AuthenticationSucceeded" "ur_block_new_intents (un_state self')"
      "auth_written (un_state self) store (un_state self') store'"
proof -
  note run = assms[unfolded handle_ws_input_def Let_def]
  have failure: thesis if "record_stream_failure T faults reason prefix message now m n (self, (store, orders))
      = (r, (self', (store', orders')))" for reason prefix message
    using that by (cases rule: failure_cases) (use same failed in auto)
  show thesis
  proof (cases input)
    case AuthenticationSucceeded
    show thesis
    proof (cases "ur_block_new_intents (un_state self)")
      case False
      then show thesis using run AuthenticationSucceeded same by simp
    next
      case True
      obtain res state' st where persist: "persist_auth_transition_state T faults UserStreamAuthState.Authenticated True
          UserStreamReasonCode.AuthRecoveredPendingEvent
          (''user-stream-auth-recovered::'' @ user_compact_timestamp_token now) now (un_state self, store) = (res, (state', st))"
        by (metis prod.collapse)
      have self': "un_state self' = state'" "store' = st" using run persist AuthenticationSucceeded True by auto
      from persist show thesis
        by (cases rule: persist_auth_written) (use self' same authenticated AuthenticationSucceeded in auto)
    qed
  next
    case (OrderItem order)
    show thesis
    proof (cases "message_event T F now input")
      case (Inl e)
      then show thesis using run OrderItem
        by (intro same) (auto simp: process_order_message_def message_event_def handle_message_def)
    next
      case (Inr event)
      then have "handle_message (runtime_persist_event T render is_null faults event (oj order) (self, (store, orders)))
          = (r, (self', (store', orders')))"
        using run OrderItem by (simp add: process_order_message_def message_event_def)
      then show thesis by (rule message_input) (use message Inr OrderItem in auto)
    qed
  next
    case (TradeItem trade)
    show thesis
    proof (cases "message_event T F now input")
      case (Inl e)
      then show thesis using run TradeItem
        by (intro same) (auto simp: process_trade_message_def message_event_def handle_message_def)
    next
      case (Inr event)
      then have "handle_message (runtime_persist_event T render is_null faults event (tj trade) (self, (store, orders)))
          = (r, (self', (store', orders')))"
        using run TradeItem by (simp add: process_trade_message_def message_event_def)
      then show thesis by (rule message_input) (use message Inr TradeItem in auto)
    qed
  qed (use run failure in \<open>auto simp: case_prod_beta\<close>)
qed

text \<open>
  The runs of the ingestion: any inputs with any faults, and restarts, which begin with the state
  of the store. The key of the authentication row is not the partition of an event.
\<close>

inductive user_run :: "time_crate \<Rightarrow> time_format \<Rightarrow> (string \<Rightarrow> string) \<Rightarrow> ('json \<Rightarrow> bool) \<Rightarrow> (OrderMessage \<Rightarrow> 'json)
    \<Rightarrow> (TradeMessage \<Rightarrow> 'json) \<Rightarrow> 'o UserStreamIngestionRuntime \<times> (user_store \<times> 'o) \<Rightarrow> bool"
  for T F render is_null oj tj where
  start: "un_state self = UserStreamRuntimeState_default \<Longrightarrow>
    user_run T F render is_null oj tj (self, (empty_user_store, orders))"
| input: "user_run T F render is_null oj tj s \<Longrightarrow>
    handle_ws_input T F render is_null oj tj faults now m n input s = (r, s') \<Longrightarrow>
    \<forall>event. message_event T F now input = Inr event \<longrightarrow>
      normalize (ue_partition_key event) \<noteq> USER_STREAM_AUTH_STATE_PARTITION_KEY \<Longrightarrow>
    user_run T F render is_null oj tj s'"
| restart: "user_run T F render is_null oj tj (self, (store, orders)) \<Longrightarrow>
    hydrate_auth_state_from_store T render faults store UserStreamRuntimeState_default = (Inr (), un_state self') \<Longrightarrow>
    user_run T F render is_null oj tj (self', (store, orders'))"

lemma hydrate_mirrors:
  assumes "hydrate_auth_state_from_store T render faults store UserStreamRuntimeState_default = (Inr (), state)"
  shows "auth_mirrors state store"
proof (cases "us_cursors store USER_STREAM_AUTH_STATE_PARTITION_KEY")
  case None
  then show ?thesis using assms
    by (auto simp: hydrate_auth_state_from_store_def PostgresUserStreamStore_load_auth_cursor_def
        load_user_stream_auth_cursor_def decode_optional_row_def auth_mirrors_def statement_def split: option.splits)
next
  case (Some row)
  then obtain cursor where cursor: "decode_order_event_offset_cursor_row T render row = Inr cursor"
    "state = UserStreamRuntimeState_default
       \<lparr>ur_auth_state := oc_auth_state cursor, ur_block_new_intents := oc_block_new_intents cursor,
        ur_recovery_pending_first_event :=
          (oc_auth_state cursor = UserStreamAuthState.Authenticated \<and> oc_block_new_intents cursor),
        ur_next_transition_offset := saturating_succ (oc_last_event_offset cursor)\<rparr>"
    using assms
    by (cases "decode_order_event_offset_cursor_row T render row")
      (auto simp: hydrate_auth_state_from_store_def PostgresUserStreamStore_load_auth_cursor_def
        load_user_stream_auth_cursor_def decode_optional_row_def statement_def split: option.splits)
  then show ?thesis
    using Some decode_row_pos[OF cursor(1)]
    by (simp add: auth_mirrors_def recovery_consistent_def del: UserStreamAuthState_as_str.simps)
qed

lemma user_run_mirrors:
  "user_run T F render is_null oj tj s \<Longrightarrow> auth_mirrors (un_state (fst s)) (fst (snd s))"
proof (induction rule: user_run.induct)
  case (start self orders)
  then show ?case by (simp add: auth_mirrors_def empty_user_store_def)
next
  case (input s faults now m n input r s')
  obtain self store orders self' store' orders' where s: "s = (self, (store, orders))" "s' = (self', (store', orders'))"
    by (metis prod.collapse)
  have step: "handle_ws_input T F render is_null oj tj faults now m n input (self, (store, orders)) = (r, (self', (store', orders')))"
    using input.hyps(2) s by simp
  have "auth_mirrors (un_state self') store'"
    using step
  proof (cases rule: input_cases)
    case same
    then show ?thesis using input.IH s by simp
  next
    case (message event raw r0)
    then show ?thesis using message_mirrors[OF message(3)] input.IH input.hyps(3) s by simp
  next
    case failed
    then show ?thesis using auth_written_mirrors by blast
  next
    case authenticated
    then show ?thesis using auth_written_mirrors by blast
  qed
  then show ?case using s by simp
next
  case (restart self store orders faults self' orders')
  then show ?case using hydrate_mirrors by simp
qed

lemma mirrors_unique:
  "auth_mirrors a store \<Longrightarrow> auth_mirrors b store \<Longrightarrow> auth_view a = auth_view b"
proof (cases "us_cursors store USER_STREAM_AUTH_STATE_PARTITION_KEY")
  case (Some row)
  assume m: "auth_mirrors a store" "auth_mirrors b store"
  then have "UserStreamAuthState_as_str (ur_auth_state a) = UserStreamAuthState_as_str (ur_auth_state b)"
    using Some by (simp add: auth_mirrors_def del: UserStreamAuthState_as_str.simps)
  then have "ur_auth_state a = ur_auth_state b" by (simp only: user_stream_auth.code_inject)
  then show ?thesis using m Some by (simp add: auth_mirrors_def auth_view_def recovery_consistent_def)
qed (simp add: auth_mirrors_def)

text \<open>
  C28: A restart of the user stream neither lifts nor invents its block: after any run of messages,
  failures, recoveries and earlier restarts, the state restored from the store has the same
  authentication state, the same block on new intents, the same pending recovery and the same next
  transition offset as the state before the restart.
\<close>

theorem restart_keeps_the_block:
  assumes "user_run T F render is_null oj tj (self, (store, orders))"
    and "hydrate_auth_state_from_store T render faults store UserStreamRuntimeState_default = (Inr (), state)"
  shows "auth_view state = auth_view (un_state self)"
proof -
  have "auth_mirrors (un_state self) store" using user_run_mirrors[OF assms(1)] by simp
  then show ?thesis by (rule mirrors_unique[OF hydrate_mirrors[OF assms(2)]])
qed

section \<open>Lifting the block\<close>

text \<open>A message is stored when its event is among the accepted rows.\<close>

definition message_stored :: "time_crate \<Rightarrow> time_format \<Rightarrow> ws_event \<Rightarrow> user_store \<Rightarrow> bool" where
  "message_stored T F e store \<longleftrightarrow> is_message (wv_input e) \<and> (\<exists>now event reason. wv_now e = Inr now
     \<and> message_event T F now (wv_input e) = Inr event \<and> accepted_row event reason \<in> set (us_events store))"

lemma input_step:
  assumes "handle_ws_input T F render is_null oj tj faults now m n input (self, (store, orders)) = (r, (self', (store', orders')))"
    and "recovery_consistent (un_state self)" "ur_block_new_intents (un_state self)"
  shows "recovery_consistent (un_state self')" "set (us_events store) \<subseteq> set (us_events store')"
    and "ur_auth_state (un_state self) = UserStreamAuthState.AuthExpired \<Longrightarrow> ur_block_new_intents (un_state self')
      \<and> (input \<noteq> AuthenticationSucceeded \<longrightarrow> ur_auth_state (un_state self') = UserStreamAuthState.AuthExpired)"
    and "\<not> ur_block_new_intents (un_state self') \<Longrightarrow> is_message input
      \<and> (\<exists>event reason. message_event T F now input = Inr event \<and> accepted_row event reason \<in> set (us_events store'))"
proof -
  have view: "recovery_consistent b" "ur_auth_state b = ur_auth_state a" "ur_block_new_intents b = ur_block_new_intents a"
    if "auth_view b = auth_view a" "recovery_consistent a" for a b
    using that by (auto simp: auth_view_def recovery_consistent_def)
  have written: "recovery_consistent b" "us_events t = us_events s" if "auth_written a s b t" for a s b t
    using that by (auto simp: auth_written_def)
  have "recovery_consistent (un_state self') \<and> set (us_events store) \<subseteq> set (us_events store')
    \<and> (ur_auth_state (un_state self) = UserStreamAuthState.AuthExpired \<longrightarrow> ur_block_new_intents (un_state self')
      \<and> (input \<noteq> AuthenticationSucceeded \<longrightarrow> ur_auth_state (un_state self') = UserStreamAuthState.AuthExpired))
    \<and> (\<not> ur_block_new_intents (un_state self') \<longrightarrow> is_message input
      \<and> (\<exists>event reason. message_event T F now input = Inr event \<and> accepted_row event reason \<in> set (us_events store')))"
    using assms(1)
  proof (cases rule: input_cases)
    case (message event raw r0)
    from message(3) show ?thesis
    proof (cases rule: message_cases)
      case (recovered reason middle state)
      then have "ur_auth_state (un_state self) \<noteq> UserStreamAuthState.AuthExpired"
        using assms(2) by (auto simp: recovery_consistent_def)
      then show ?thesis using recovered(4) written[OF recovered(7)] message(1,2) by auto
    next
      case same
      then show ?thesis using view[OF same(1) assms(2)] assms(3) by simp
    next
      case (stored reason)
      then show ?thesis using view[OF stored(1) assms(2)] assms(3) by auto
    qed
  next
    case same
    then show ?thesis using assms(2,3) by simp
  next
    case failed
    then show ?thesis using written[OF failed(3)] by simp
  next
    case authenticated
    then show ?thesis using written[OF authenticated(3)] by simp
  qed
  then show "recovery_consistent (un_state self')" "set (us_events store) \<subseteq> set (us_events store')"
    "ur_auth_state (un_state self) = UserStreamAuthState.AuthExpired \<Longrightarrow> ur_block_new_intents (un_state self')
      \<and> (input \<noteq> AuthenticationSucceeded \<longrightarrow> ur_auth_state (un_state self') = UserStreamAuthState.AuthExpired)"
    "\<not> ur_block_new_intents (un_state self') \<Longrightarrow> is_message input
      \<and> (\<exists>event reason. message_event T F now input = Inr event \<and> accepted_row event reason \<in> set (us_events store'))"
    by blast+
qed

lemma run_cons:
  assumes "run_user_ws T F render is_null oj tj m n (e # es) (self, (store, orders)) = (r, (self', (store', orders')))"
  obtains (stopped) "self' = self" "store' = store"
  | (moved) now r1 self1 store1 orders1 where "wv_now e = Inr now"
      "handle_ws_input T F render is_null oj tj (wv_faults e) now m n (wv_input e) (self, (store, orders))
         = (r1, (self1, (store1, orders1)))"
      "(self', (store', orders')) = (self1, (store1, orders1))
         \<or> (\<exists>n1. run_user_ws T F render is_null oj tj m n1 es (self1, (store1, orders1)) = (r, (self', (store', orders'))))"
proof (cases "wv_now e")
  case (Inl x)
  then show thesis using assms by (intro stopped) auto
next
  case (Inr now)
  obtain r1 self1 store1 orders1 where step: "handle_ws_input T F render is_null oj tj (wv_faults e) now m n (wv_input e)
      (self, (store, orders)) = (r1, (self1, (store1, orders1)))" by (metis prod.collapse)
  then show thesis using assms Inr by (intro moved[OF Inr step]) (auto split: sum.splits)
qed

lemma run_events_kept:
  "run_user_ws T F render is_null oj tj m n es (self, (store, orders)) = (r, (self', (store', orders'))) \<Longrightarrow>
     set (us_events store) \<subseteq> set (us_events store')"
proof (induction es arbitrary: n self store orders)
  case (Cons e es)
  have kept: "set (us_events store) \<subseteq> set (us_events store1)"
    if "handle_ws_input T F render is_null oj tj (wv_faults e) now m n (wv_input e) (self, (store, orders))
      = (r1, (self1, (store1, orders1)))" for now r1 self1 store1 orders1
    using that
  proof (cases rule: input_cases)
    case (message event raw r0)
    from message(3) show ?thesis by (cases rule: message_cases) (auto simp: auth_written_def)
  qed (auto simp: auth_written_def)
  from Cons.prems show ?case
  proof (cases rule: run_cons)
    case (moved now r1 self1 store1 orders1)
    then show ?thesis using kept[OF moved(2)] Cons.IH by blast
  qed simp
qed simp

lemma stored_later: "message_stored T F e store \<Longrightarrow> set (us_events store) \<subseteq> set (us_events store') \<Longrightarrow> message_stored T F e store'"
  by (auto simp: message_stored_def)

text \<open>From a block, only a stored message lifts it; while expired, only after an authentication.\<close>

lemma block_lifted_by_message:
  assumes "run_user_ws T F render is_null oj tj m n es (self, (store, orders)) = (r, (self', (store', orders')))"
    and "recovery_consistent (un_state self)" "ur_block_new_intents (un_state self)"
    and "\<not> ur_block_new_intents (un_state self')"
  shows "\<exists>e\<in>set es. message_stored T F e store'"
  using assms
proof (induction es arbitrary: n self store orders)
  case (Cons e es)
  from Cons.prems(1) show ?case
  proof (cases rule: run_cons)
    case stopped
    then show ?thesis using Cons.prems(3,4) by simp
  next
    case (moved now r1 self1 store1 orders1)
    note step = input_step[OF moved(2) Cons.prems(2,3)]
    have later: "set (us_events store1) \<subseteq> set (us_events store')" 
      using moved(3) by (elim disjE exE) (simp, rule run_events_kept)
    show ?thesis
    proof (cases "ur_block_new_intents (un_state self1)")
      case True
      then show ?thesis using moved(3) Cons.IH step(1) Cons.prems(4) by auto
    next
      case False
      then have "message_stored T F e store1" using step(4) moved(1) by (auto simp: message_stored_def)
      then show ?thesis using stored_later[OF _ later] by auto
    qed
  qed
qed simp

text \<open>
  C12: Once the user stream has lost its authentication, new intents stay blocked until two things
  have happened in this order: the connection authenticated again, and after that a message of the
  venue was accepted into the store. No other sequence of failures, reconnections, messages, clock
  errors and database faults lifts the block.
\<close>

theorem blocked_until_authenticated_event:
  assumes "run_user_ws T F render is_null oj tj m n es (self, (store, orders)) = (r, (self', (store', orders')))"
    and "ur_auth_state (un_state self) = UserStreamAuthState.AuthExpired" "ur_block_new_intents (un_state self)"
    and "recovery_consistent (un_state self)" and "\<not> ur_block_new_intents (un_state self')"
  shows "\<exists>before a after. es = before @ a # after \<and> wv_input a = AuthenticationSucceeded
    \<and> (\<exists>e\<in>set after. message_stored T F e store')"
  using assms
proof (induction es arbitrary: n self store orders)
  case (Cons e es)
  from Cons.prems(1) show ?case
  proof (cases rule: run_cons)
    case stopped
    then show ?thesis using Cons.prems(3,5) by simp
  next
    case (moved now r1 self1 store1 orders1)
    note step = input_step[OF moved(2) Cons.prems(4,3)]
    have blocked: "ur_block_new_intents (un_state self1)" using step(3) Cons.prems(2) by blast
    then obtain n1 where rest: "run_user_ws T F render is_null oj tj m n1 es (self1, (store1, orders1)) = (r, (self', (store', orders')))"
      using moved(3) Cons.prems(5) by auto
    show ?thesis
    proof (cases "wv_input e = AuthenticationSucceeded")
      case True
      then show ?thesis
        using block_lifted_by_message[OF rest step(1) blocked Cons.prems(5)] by (intro exI[of _ "[]"]) auto
    next
      case False
      then have "ur_auth_state (un_state self1) = UserStreamAuthState.AuthExpired" using step(3) Cons.prems(2) by blast
      from Cons.IH[OF rest this blocked step(1) Cons.prems(5)] obtain before a after where
        "es = before @ a # after" "wv_input a = AuthenticationSucceeded" "\<exists>e\<in>set after. message_stored T F e store'" by blast
      then show ?thesis by (intro exI[of _ "e # before"]) auto
    qed
  qed
qed simp

section \<open>A small run\<close>

definition demo_format :: time_format where
  "demo_format = \<lparr>from_unix_timestamp_nanos = Inr,
     rfc3339_format = (\<lambda>n. if n = 0 then Inr ''2026-04-06T00:00:00Z'' else Inl ''out of the demo'')\<rparr>"

definition demo_order_message :: OrderMessage where
  "demo_order_message = \<lparr>om_id = ''order-1'', om_market = ''market-1'', om_asset_id = ''asset-1'',
     om_msg_type = Some OrderMessageType.Placement, om_status = None, om_timestamp = Some 0\<rparr>"

definition demo_user_runtime :: "unit UserStreamIngestionRuntime" where
  "demo_user_runtime = \<lparr>un_state = UserStreamRuntimeState_default, un_freshness_signals = None,
     un_order_lifecycle_port = None\<rparr>"

definition demo_ws :: "ws_input \<Rightarrow> ws_event" where
  "demo_ws input = \<lparr>wv_input = input, wv_now = Inr ''2026-04-06T00:00:01Z'', wv_faults = (\<lambda>_. None)\<rparr>"

definition demo_user_run :: "ws_event list \<Rightarrow> unit UserStreamIngestionRuntime \<times> (user_store \<times> unit)
    \<Rightarrow> (UserStreamIngestionError + nat) \<times> (unit UserStreamIngestionRuntime \<times> (user_store \<times> unit))" where
  "demo_user_run es = run_user_ws demo_time demo_format id (\<lambda>_ :: unit. False) (\<lambda>_. ()) (\<lambda>_. ()) 5 0 es"

definition demo_expired :: "unit UserStreamIngestionRuntime \<times> (user_store \<times> unit)" where
  "demo_expired = snd (demo_user_run [demo_ws (StreamEnded ''order'')] (demo_user_runtime, (empty_user_store, ())))"

lemma demo_expired_eta: "(fst demo_expired, (fst (snd demo_expired), ())) = demo_expired"
  by (simp add: prod_eq_iff)

theorem blocked_until_authenticated_event_witness:
  "\<exists>before a after. [demo_ws AuthenticationSucceeded, demo_ws (OrderItem demo_order_message)] = before @ a # after
    \<and> wv_input a = AuthenticationSucceeded
    \<and> (\<exists>e\<in>set after. message_stored demo_time demo_format e
         (fst (snd (snd (demo_user_run [demo_ws AuthenticationSucceeded, demo_ws (OrderItem demo_order_message)] demo_expired)))))"
proof -
  let ?run = "demo_user_run [demo_ws AuthenticationSucceeded, demo_ws (OrderItem demo_order_message)] demo_expired"
  have run: "run_user_ws demo_time demo_format id (\<lambda>_ :: unit. False) (\<lambda>_. ()) (\<lambda>_. ()) 5 0
      [demo_ws AuthenticationSucceeded, demo_ws (OrderItem demo_order_message)] (fst demo_expired, (fst (snd demo_expired), ()))
      = (fst ?run, (fst (snd ?run), (fst (snd (snd ?run)), ())))"
    unfolding demo_expired_eta demo_user_run_def by (simp add: prod_eq_iff del: run_user_ws.simps)
  show ?thesis
  proof (rule blocked_until_authenticated_event[OF run])
    show "ur_auth_state (un_state (fst demo_expired)) = UserStreamAuthState.AuthExpired"
      "ur_block_new_intents (un_state (fst demo_expired))" "recovery_consistent (un_state (fst demo_expired))"
      "\<not> ur_block_new_intents (un_state (fst (snd ?run)))"
      by code_simp+
  qed
qed

theorem restart_keeps_the_block_witness:
  "\<exists>state. hydrate_auth_state_from_store demo_time id (\<lambda>_. None) (fst (snd demo_expired)) UserStreamRuntimeState_default
      = (Inr (), state) \<and> auth_view state = auth_view (un_state (fst demo_expired))"
proof -
  let ?hydrated = "hydrate_auth_state_from_store demo_time id (\<lambda>_. None) (fst (snd demo_expired)) UserStreamRuntimeState_default"
  have start: "user_run demo_time demo_format id (\<lambda>_ :: unit. False) (\<lambda>_. ()) (\<lambda>_. ())
      (demo_user_runtime, (empty_user_store, ()))"
    by (rule user_run.start) (simp add: demo_user_runtime_def)
  have "snd (handle_ws_input demo_time demo_format id (\<lambda>_ :: unit. False) (\<lambda>_. ()) (\<lambda>_. ()) (\<lambda>_. None)
      ''2026-04-06T00:00:01Z'' 5 0 (StreamEnded ''order'') (demo_user_runtime, (empty_user_store, ()))) = demo_expired"
    by (auto simp: demo_expired_def demo_user_run_def demo_ws_def Let_def case_prod_beta split: sum.splits)
  then have "user_run demo_time demo_format id (\<lambda>_ :: unit. False) (\<lambda>_. ()) (\<lambda>_. ()) demo_expired"
    by (intro user_run.input[OF start, of "\<lambda>_. None" "''2026-04-06T00:00:01Z''" 5 0 "StreamEnded ''order''"])
      (simp_all add: prod_eq_iff message_event_def)
  then have run: "user_run demo_time demo_format id (\<lambda>_ :: unit. False) (\<lambda>_. ()) (\<lambda>_. ())
      (fst demo_expired, (fst (snd demo_expired), ()))" unfolding demo_expired_eta .
  have "\<not> isl (fst ?hydrated)" by code_simp
  then have "?hydrated = (Inr (), snd ?hydrated)" by (cases "fst ?hydrated") (auto simp: prod_eq_iff)
  then show ?thesis using restart_keeps_the_block[OF run] by blast
qed

end
