(* ===== verification/OrderControl.thy ===== *)
theory OrderControl
  imports OrderRuntime
begin

text \<open>
  What the order service guarantees, over the interface of its store: no submission passes
  without the emergency mode and an allowing adjudication, and what a cancellation batch
  reports is true of the store.
\<close>

section \<open>Submissions\<close>

definition submit_request :: "SubmitOrderCommand \<Rightarrow> PreTradeAdjudicationRequest" where
  "submit_request c =
     \<lparr>aq_order_id = so_order_id c, aq_market_id = so_market_id c, aq_correlation_id = so_correlation_id c,
      aq_requested_at_utc = so_requested_at_utc c, aq_requested_order_size_units = so_requested_order_size_units c\<rparr>"

lemma normalized_pass: "normalize_pretrade_reason_code r = PreTradeReasonCode_code PreTradeReasonCode.Pass
    \<longleftrightarrow> r = PreTradeReasonCode_code PreTradeReasonCode.Pass"
proof (cases "PreTradeReasonCode_parse r")
  case (Inl e)
  then have "r \<noteq> PreTradeReasonCode_code c" for c
    using pretrade_reason.parse_code[of c] by (auto simp del: PreTradeReasonCode_code.simps pretrade_reason.parse_code)
  then show ?thesis using Inl
    by (simp add: normalize_pretrade_reason_code_def del: PreTradeReasonCode_code.simps)
next
  case (Inr c)
  then show ?thesis
    by (auto simp: normalize_pretrade_reason_code_def pretrade_reason.parse_iff simp del: PreTradeReasonCode_code.simps)
qed

lemma adjudicate_submit_allows:
  "(\<exists>d. adjudicate_submit_order_request rt request = Inr d \<and> ad_allowed d) \<longleftrightarrow>
   (\<exists>d. rt_adjudicate_submit rt request = Some (Inr d) \<and> ad_allowed d
      \<and> ad_reason_code d = PreTradeReasonCode_code PreTradeReasonCode.Pass
      \<and> \<not> participation_guardrail_size_cap_exceeded (aq_requested_order_size_units request)
          (ad_participation_guardrail d))"
  by (auto simp: adjudicate_submit_order_request_def Let_def normalized_pass
      simp del: PreTradeReasonCode_code.simps split: option.splits sum.splits if_splits)

definition mode_permits :: "EmergencyControlMode \<Rightarrow> OrderMode \<Rightarrow> bool" where
  "mode_permits mode order_mode \<longleftrightarrow> mode = EmergencyControlMode.Normal
     \<or> (mode = EmergencyControlMode.ReduceOnly \<and> order_mode = OrderMode.ReduceOnly)"

lemma emergency_mode_Inr:
  "enforce_emergency_mode_for_submit rt c = Inr u \<longleftrightarrow>
     (\<exists>m. rt_load_current_mode rt = Inr m \<and> mode_permits m (so_mode c))"
proof (cases "rt_load_current_mode rt")
  case (Inr m)
  then show ?thesis by (cases m) (auto simp: enforce_emergency_mode_for_submit_def mode_permits_def)
qed (simp add: enforce_emergency_mode_for_submit_def)

definition submit_permitted :: "'s OrderLifecycleRuntime \<Rightarrow> SubmitOrderCommand \<Rightarrow> bool" where
  "submit_permitted rt c \<longleftrightarrow>
     (\<exists>m. rt_load_current_mode rt = Inr m \<and> mode_permits m (so_mode c))
   \<and> (\<exists>d. rt_adjudicate_submit rt (submit_request c) = Some (Inr d) \<and> ad_allowed d
        \<and> ad_reason_code d = PreTradeReasonCode_code PreTradeReasonCode.Pass
        \<and> \<not> participation_guardrail_size_cap_exceeded (so_requested_order_size_units c) (ad_participation_guardrail d))"

lemma submit_checks_permit:
  assumes "submit_order_checks T rt c = Inr u"
  shows "submit_permitted rt c"
proof -
  obtain d where "adjudicate_submit_order_request rt (submit_request c) = Inr d" "ad_allowed d"
    using assms by (auto simp: submit_order_checks_def submit_request_def and_then_Inr_iff Let_def
        split: sum.splits if_splits)
  then show ?thesis
    using assms adjudicate_submit_allows[of rt "submit_request c"]
    unfolding submit_permitted_def submit_order_checks_def
    by (auto simp: and_then_Inr_iff emergency_mode_Inr submit_request_def simp del: PreTradeReasonCode_code.simps)
qed

lemma denied_submit:
  assumes "\<not> submit_permitted rt c"
  obtains e where "submit_order T rt c s = (Inl e, s)"
proof (cases "submit_order_checks T rt c")
  case (Inl e)
  then show thesis by (intro that[of e]) (simp add: submit_order_def)
next
  case (Inr u)
  then show thesis using assms submit_checks_permit by blast
qed

text \<open>
  C9: A submission that succeeds or changes the store was permitted: the emergency mode admits the
  order, and the adjudication answered in time with an allowing decision under the passing reason
  whose size cap admits the order's size.
\<close>

theorem submit_only_when_permitted:
  assumes "submit_order T rt c s = (r, s')" and "is_ok r \<or> s' \<noteq> s"
  shows "submit_permitted rt c"
proof (rule ccontr)
  assume "\<not> submit_permitted rt c"
  then obtain e where "submit_order T rt c s = (Inl e, s)" by (rule denied_submit)
  then show False using assms by simp
qed

section \<open>The store's contract\<close>

text \<open>
  What the service relies on: the state of each order, the keys applied to it, an invariant the
  store keeps, and the meaning of each outcome.
\<close>

locale order_port =
  fixes persist :: "OrderLifecycleTransitionCommand \<Rightarrow> 's
      \<Rightarrow> (OrderLifecycleRuntimeError + OrderLifecyclePersistOutcome) \<times> 's"
    and state_of :: "'s \<Rightarrow> string \<Rightarrow> OrderLifecycleState option"
    and used :: "'s \<Rightarrow> string \<Rightarrow> string \<Rightarrow> bool"
    and inv :: "'s \<Rightarrow> bool"
  assumes inv_kept: "inv s \<Longrightarrow> persist c s = (r, s') \<Longrightarrow> inv s'"
    and unchanged: "inv s \<Longrightarrow> persist c s = (r, s')
      \<Longrightarrow> \<not> (\<exists>out. r = Inr out \<and> po_disposition out = OrderLifecyclePersistDisposition.Applied)
      \<Longrightarrow> state_of s' = state_of s \<and> used s' = used s"
    and applied: "inv s \<Longrightarrow> persist c s = (Inr out, s')
      \<Longrightarrow> po_disposition out = OrderLifecyclePersistDisposition.Applied
      \<Longrightarrow> state_of s' = (state_of s)(trim (tc_order_id c) \<mapsto> tc_target_state c)
        \<and> (\<forall>k key. used s' k key \<longleftrightarrow> used s k key
              \<or> (k = trim (tc_order_id c) \<and> key = normalize (tc_idempotency_key c)))
        \<and> (\<forall>x. state_of s (trim (tc_order_id c)) = Some x \<longrightarrow> \<not> is_terminal x)"
    and duplicate: "inv s \<Longrightarrow> persist c s = (Inr out, s')
      \<Longrightarrow> po_disposition out = OrderLifecyclePersistDisposition.Duplicate
      \<Longrightarrow> used s (trim (tc_order_id c)) (normalize (tc_idempotency_key c))"
    and already_terminal: "inv s \<Longrightarrow> persist c s = (Inr out, s')
      \<Longrightarrow> po_disposition out = OrderLifecyclePersistDisposition.AlreadyTerminal
      \<Longrightarrow> \<exists>x. state_of s (trim (tc_order_id c)) = Some x \<and> is_terminal x"
begin

lemma terminal_kept:
  assumes "inv s" "persist c s = (r, s')" "state_of s k = Some x" "is_terminal x"
  shows "state_of s' k = Some x"
proof (cases "\<exists>out. r = Inr out \<and> po_disposition out = OrderLifecyclePersistDisposition.Applied")
  case True
  then show ?thesis using applied assms by (cases "k = trim (tc_order_id c)") fastforce+
next
  case False
  then show ?thesis using unchanged assms by metis
qed

text \<open>One persisted command of the service.\<close>

lemma service_step:
  assumes "rt_persist_transition rt = persist" "persist_with_telemetry rt c s = (r, s')"
  obtains e where "r = Inl e" "s' = s"
  | e where "r = Inl e" "persist c s = (Inl e, s')"
  | out outcome where "r = Inr outcome" "persist c s = (Inr out, s')"
      "co_disposition outcome = command_disposition (po_disposition out)"
proof (cases "rt_load_order rt (tc_order_id c) s")
  case (Inl e)
  then show thesis using assms(2) by (intro that(1)[of e]) (simp_all add: persist_with_telemetry_def)
next
  case (Inr prior)
  obtain res st where run: "persist c s = (res, st)" by fastforce
  show thesis
  proof (cases res)
    case (Inl e)
    then show thesis using assms \<open>rt_load_order rt _ s = _\<close> run
      by (intro that(2)[of e]) (simp_all add: persist_with_telemetry_def)
  next
    case (Inr out)
    define outcome where "outcome = case_sum (\<lambda>_. undefined) id r"
    have "r = Inr outcome" "persist c s = (Inr out, s')" "co_disposition outcome = command_disposition (po_disposition out)"
      using assms \<open>rt_load_order rt _ s = _\<close> run Inr by (auto simp: persist_with_telemetry_def outcome_def)
    then show thesis by (rule that(3))
  qed
qed

definition terminal_in :: "'s \<Rightarrow> string \<Rightarrow> bool" where
  "terminal_in s k \<longleftrightarrow> (\<exists>x. state_of s k = Some x \<and> is_terminal x)"

lemma service_keeps:
  assumes "rt_persist_transition rt = persist" "persist_with_telemetry rt c s = (r, s')" "inv s"
  shows "inv s'" "terminal_in s k \<Longrightarrow> terminal_in s' k"
  by (cases rule: service_step[OF assms(1,2)];
      use assms(3) inv_kept terminal_kept in \<open>auto simp: terminal_in_def\<close>)+

text \<open>
  The keys of a batch that are in use belong to terminal orders, apart from those of \<open>U\<close>, which
  were in use before; and that stays so.
\<close>

definition keys_accounted ::
    "(string \<Rightarrow> string \<Rightarrow> bool) \<Rightarrow> BatchCancelCommand \<Rightarrow> BatchCancelOrderRequest set \<Rightarrow> 's \<Rightarrow> bool" where
  "keys_accounted U command R s \<longleftrightarrow> (\<forall>q\<in>R. used s (trim (bo_order_id q)) (normalize (batch_idempotency_key command q)) \<longrightarrow>
     terminal_in s (trim (bo_order_id q)) \<or> U (trim (bo_order_id q)) (normalize (batch_idempotency_key command q)))"

definition outcome_true ::
    "(string \<Rightarrow> string \<Rightarrow> bool) \<Rightarrow> BatchCancelCommand \<Rightarrow> 's \<Rightarrow> BatchCancelOrderRequest \<Rightarrow> BatchCancelOrderOutcome \<Rightarrow> bool" where
  "outcome_true U command s q out \<longleftrightarrow> bx_order_id out = bo_order_id q
     \<and> (bx_outcome out = BatchCancelOutcomeKind.AlreadyTerminal \<longrightarrow> terminal_in s (trim (bo_order_id q)))
     \<and> (bx_outcome out = BatchCancelOutcomeKind.Canceled \<longrightarrow> terminal_in s (trim (bo_order_id q))
          \<or> U (trim (bo_order_id q)) (normalize (batch_idempotency_key command q)))"

lemma batch_step:
  assumes "rt_persist_transition rt = persist" "inv s" "request \<in> R"
    and "persist_with_telemetry rt (batch_transition command request) s = (r, s')"
    and "keys_accounted U command R s"
  shows "keys_accounted U command R s'"
    and "outcome_true U command s' request (batch_outcome command request r)"
proof -
  let ?c = "batch_transition command request"
  have c: "tc_order_id ?c = bo_order_id request" "tc_idempotency_key ?c = batch_idempotency_key command request"
    "tc_target_state ?c = OrderLifecycleState.Canceled"
    by (simp_all add: batch_transition_def)
  have id: "bx_order_id (batch_outcome command request r) = bo_order_id request" for r
    by (simp add: batch_outcome_def Let_def case_prod_beta)
  have fails: "outcome_true U command s' request (batch_outcome command request (Inl e))" for e
    using id[of "Inl e"] by (simp add: outcome_true_def) (simp add: batch_outcome_def)
  have keep: "used s' = used s \<Longrightarrow> keys_accounted U command R s'"
    using assms(5) service_keeps(2)[OF assms(1,4,2)] by (auto simp: keys_accounted_def)
  show "keys_accounted U command R s'"
    using assms(4)
  proof (cases rule: service_step[OF assms(1,4)])
    case (3 out outcome)
    show ?thesis
    proof (cases "po_disposition out = OrderLifecyclePersistDisposition.Applied")
      case True
      then have "used s' k key \<longleftrightarrow> used s k key \<or> (k = trim (bo_order_id request) \<and> key = normalize (batch_idempotency_key command request))"
        "terminal_in s' (trim (bo_order_id request))" for k key
        using applied[OF assms(2) 3(2)] c by (auto simp: terminal_in_def)
      then show ?thesis using assms(5) service_keeps(2)[OF assms(1,4,2)] by (auto simp: keys_accounted_def)
    next
      case False
      then show ?thesis using unchanged[OF assms(2) 3(2)] keep by auto
    qed
  qed (use keep unchanged[OF assms(2)] in blast)+
  show "outcome_true U command s' request (batch_outcome command request r)"
    using assms(4)
  proof (cases rule: service_step[OF assms(1,4)])
    case (3 out outcome)
    note known = id[of r] service_keeps(2)[OF assms(1,4,2), of "trim (bo_order_id request)"]
    show ?thesis
    proof (cases "po_disposition out")
      case Applied
      then show ?thesis using applied[OF assms(2) 3(2)] c known by (auto simp: terminal_in_def outcome_true_def)
    next
      case Duplicate
      then have "terminal_in s (trim (bo_order_id request))
          \<or> U (trim (bo_order_id request)) (normalize (batch_idempotency_key command request))"
        using duplicate[OF assms(2) 3(2)] c assms(3,5) by (auto simp: keys_accounted_def)
      moreover have "bx_outcome (batch_outcome command request r) \<noteq> BatchCancelOutcomeKind.AlreadyTerminal"
        using Duplicate 3 by (simp add: batch_outcome_def)
      ultimately show ?thesis using known by (auto simp: outcome_true_def)
    next
      case Rejected
      then show ?thesis using known 3 by (simp add: outcome_true_def) (simp add: batch_outcome_def)
    next
      case AlreadyTerminal
      then have "terminal_in s (trim (bo_order_id request))"
        using already_terminal[OF assms(2) 3(2)] c by (auto simp: terminal_in_def)
      then show ?thesis using known by (auto simp: outcome_true_def)
    qed
  qed (use fails in blast)+
qed

lemma batch_loop_true:
  assumes "rt_persist_transition rt = persist" "inv s" "set requests \<subseteq> R"
    and "batch_cancel_loop rt command requests s = (Inr outs, s')"
    and "keys_accounted U command R s"
  shows "list_all2 (outcome_true U command s') requests outs \<and> (\<forall>k. terminal_in s k \<longrightarrow> terminal_in s' k)"
  using assms(2-)
proof (induction requests arbitrary: s outs)
  case (Cons q qs)
  obtain r s1 where step: "persist_with_telemetry rt (batch_transition command q) s = (r, s1)" by fastforce
  obtain os where os: "batch_cancel_loop rt command qs s1 = (Inr os, s')" "outs = batch_outcome command q r # os"
    using Cons.prems(3) step
    by (cases "batch_cancel_loop rt command qs s1"; cases "fst (batch_cancel_loop rt command qs s1)")
      (auto split: sum.splits)
  note keys = batch_step[OF assms(1) Cons.prems(1) _ step Cons.prems(4)]
  have q: "q \<in> R" "set qs \<subseteq> R" using Cons.prems(2) by auto
  note IH = Cons.IH[OF service_keeps(1)[OF assms(1) step Cons.prems(1)] q(2) os(1) keys(1)[OF q(1)]]
  have "outcome_true U command s' q (batch_outcome command q r)"
    using keys(2)[OF q(1)] IH by (auto simp: outcome_true_def)
  then show ?case
    using IH service_keeps(2)[OF assms(1) step Cons.prems(1)] os(2) by auto
qed simp

end

section \<open>The store on PostgreSQL\<close>

text \<open>The state of the store and the number of calls made; call \<open>n\<close> meets the faults \<open>schedule n\<close>.\<close>

definition postgres_persist ::
    "time_crate \<Rightarrow> (string \<Rightarrow> string) \<Rightarrow> (nat \<Rightarrow> db_faults) \<Rightarrow> OrderLifecycleTransitionCommand \<Rightarrow> order_store \<times> nat
      \<Rightarrow> (OrderLifecycleRuntimeError + OrderLifecyclePersistOutcome) \<times> (order_store \<times> nat)" where
  "postgres_persist T render schedule command s =
     (let (r, st) = PostgresOrderLifecycleStore_persist_transition T render (schedule (snd s)) command (fst s)
      in (r, (st, Suc (snd s))))"

definition order_state :: "order_store \<Rightarrow> string \<Rightarrow> OrderLifecycleState option" where
  "order_state st k = (case os_orders st k of
      None \<Rightarrow> None
    | Some row \<Rightarrow> (case OrderLifecycleState_parse (ow_lifecycle_state row) of Inr s \<Rightarrow> Some s | Inl _ \<Rightarrow> None))"

lemma order_state_Some: "order_state st k = Some s \<longleftrightarrow>
    (\<exists>row. os_orders st k = Some row \<and> ow_lifecycle_state row = OrderLifecycleState_as_str s)"
  by (auto simp: order_state_def order_state.parse_iff split: option.splits sum.splits)

text \<open>The service reads and writes through this store under any schedule of faults.\<close>

lemma postgres_applied:
  assumes "\<forall>k. order_ok st k"
    and "PostgresOrderLifecycleStore_persist_transition T render faults c st = (Inr out, st')"
    and "po_disposition out = OrderLifecyclePersistDisposition.Applied"
  shows "order_state st' = (order_state st)(trim (tc_order_id c) \<mapsto> tc_target_state c)"
    and "key_logged k key st' \<longleftrightarrow> key_logged k key st
          \<or> (k = trim (tc_order_id c) \<and> key = normalize (tc_idempotency_key c))"
    and "order_state st (trim (tc_order_id c)) = Some x \<Longrightarrow> \<not> is_terminal x"
proof -
  have run: "persist_order_transition T render faults c st = (Inr out, st')"
    using assms(2) by (cases "fst (persist_order_transition T render faults c st)")
      (auto simp: PostgresOrderLifecycleStore_persist_transition_def case_prod_beta prod_eq_iff)
  obtain row where row: "st' = st\<lparr>os_orders := (os_orders st)(trim (tc_order_id c) \<mapsto> row),
         os_transitions := next_transition_row (os_orders st (trim (tc_order_id c))) c # os_transitions st\<rparr>"
      "row_follows row (next_transition_row (os_orders st (trim (tc_order_id c))) c)"
      "\<forall>old. os_orders st (trim (tc_order_id c)) = Some old \<longrightarrow>
         (\<exists>s. ow_lifecycle_state old = OrderLifecycleState_as_str s \<and> tc_target_state c \<in> set (order_transition_targets s))"
    by (cases rule: persist_order_cases[OF run]) (use assms(3) order_ok_id[OF spec[OF assms(1)]] in auto)
  show "order_state st' = (order_state st)(trim (tc_order_id c) \<mapsto> tc_target_state c)"
    using row(2) by (auto simp: fun_eq_iff order_state_def row(1) row_follows_def next_transition_row_def Let_def order_state.parse_code)
  show "key_logged k key st' \<longleftrightarrow> key_logged k key st
          \<or> (k = trim (tc_order_id c) \<and> key = normalize (tc_idempotency_key c))"
    by (auto simp: key_logged_def row(1) next_transition_row_def Let_def)
  show "\<not> is_terminal x" if "order_state st (trim (tc_order_id c)) = Some x"
    using that row(3) by (fastforce simp: order_state_Some terminal_iff order_state.code_inject)
qed

lemma postgres_unchanged:
  assumes "\<forall>k. order_ok st k"
    and "PostgresOrderLifecycleStore_persist_transition T render faults c st = (r, st')"
  shows "\<not> (\<exists>out. r = Inr out \<and> po_disposition out = OrderLifecyclePersistDisposition.Applied) \<Longrightarrow> st' = st"
    and "r = Inr out \<Longrightarrow> persist_order_transition T render faults c st = (Inr out, st')"
proof -
  obtain r0 where run: "persist_order_transition T render faults c st = (r0, st')" "r = map_err map_order_persistence_error r0"
    using assms(2) by (auto simp: PostgresOrderLifecycleStore_persist_transition_def case_prod_beta prod_eq_iff)
  show "st' = st" if "\<not> (\<exists>out. r = Inr out \<and> po_disposition out = OrderLifecyclePersistDisposition.Applied)"
    by (cases rule: persist_order_cases[OF run(1)]) (use order_ok_id[OF spec[OF assms(1)]] that run(2) in auto)
  show "persist_order_transition T render faults c st = (Inr out, st')" if "r = Inr out"
    using run that by (cases r0) auto
qed

interpretation postgres_port: order_port "postgres_persist T render schedule"
    "\<lambda>s. order_state (fst s)" "\<lambda>s k key. key_logged k key (fst s)" "\<lambda>s. \<forall>k. order_ok (fst s) k"
  for T render schedule
proof
  fix s c r s'
  assume inv: "\<forall>k. order_ok (fst s) k" and run: "postgres_persist T render schedule c s = (r, s')"
  from run have step: "PostgresOrderLifecycleStore_persist_transition T render (schedule (snd s)) c (fst s) = (r, fst s')"
    by (auto simp: postgres_persist_def case_prod_beta prod_eq_iff)
  show "\<forall>k. order_ok (fst s') k"
  proof
    fix k
    have "order_store_step T render (fst s) (fst s')"
      using step by (auto simp: PostgresOrderLifecycleStore_persist_transition_def case_prod_beta prod_eq_iff order_store_step_iff)
    then show "order_ok (fst s') k" by (rule order_store_step_ok) (use inv in blast)
  qed
  show "order_state (fst s') = order_state (fst s) \<and> (\<lambda>k key. key_logged k key (fst s')) = (\<lambda>k key. key_logged k key (fst s))"
    if "\<not> (\<exists>out. r = Inr out \<and> po_disposition out = OrderLifecyclePersistDisposition.Applied)"
    using postgres_unchanged(1)[OF inv step] that by simp
next
  fix s c out s'
  assume inv: "\<forall>k. order_ok (fst s) k" and run: "postgres_persist T render schedule c s = (Inr out, s')"
  from run have step: "PostgresOrderLifecycleStore_persist_transition T render (schedule (snd s)) c (fst s) = (Inr out, fst s')"
    by (auto simp: postgres_persist_def case_prod_beta prod_eq_iff)
  note sql = postgres_unchanged(2)[OF inv step refl]
  show "order_state (fst s') = (order_state (fst s))(trim (tc_order_id c) \<mapsto> tc_target_state c)
      \<and> (\<forall>k key. key_logged k key (fst s') \<longleftrightarrow> key_logged k key (fst s)
            \<or> (k = trim (tc_order_id c) \<and> key = normalize (tc_idempotency_key c)))
      \<and> (\<forall>x. order_state (fst s) (trim (tc_order_id c)) = Some x \<longrightarrow> \<not> is_terminal x)"
    if "po_disposition out = OrderLifecyclePersistDisposition.Applied"
    using postgres_applied[OF inv step that] by blast
  show "key_logged (trim (tc_order_id c)) (normalize (tc_idempotency_key c)) (fst s)"
    if "po_disposition out = OrderLifecyclePersistDisposition.Duplicate"
    using unchanged_outcome[OF sql] that by simp
  show "\<exists>x. order_state (fst s) (trim (tc_order_id c)) = Some x \<and> is_terminal x"
    if "po_disposition out = OrderLifecyclePersistDisposition.AlreadyTerminal"
    using unchanged_outcome[OF sql] that by (auto simp: order_state_Some)
qed

text \<open>An order in a terminal state.\<close>

definition order_terminal :: "order_store \<Rightarrow> string \<Rightarrow> bool" where
  "order_terminal st k = (case order_state st k of Some x \<Rightarrow> is_terminal x | None \<Rightarrow> False)"

lemma order_terminal_iff: "order_terminal st k \<longleftrightarrow> (\<exists>x. order_state st k = Some x \<and> is_terminal x)"
  by (simp add: order_terminal_def split: option.splits)

lemma batch_cancel_Inr:
  "batch_cancel T rt command s = (Inr outs, s') \<Longrightarrow> batch_cancel_loop rt command (bc_orders command) s = (Inr outs, s')"
  by (auto simp: batch_cancel_def split: sum.splits)

lemma batch_cancel_true:
  assumes "rt_persist_transition rt = postgres_persist T render schedule"
    and "\<forall>k. order_ok st k"
    and "batch_cancel T rt command (st, n) = (Inr outs, (st', n'))"
  shows "list_all2 (\<lambda>q out. bx_order_id out = bo_order_id q
      \<and> (bx_outcome out = BatchCancelOutcomeKind.AlreadyTerminal \<longrightarrow> order_terminal st' (trim (bo_order_id q)))
      \<and> (bx_outcome out = BatchCancelOutcomeKind.Canceled \<longrightarrow> order_terminal st' (trim (bo_order_id q))
           \<or> key_logged (trim (bo_order_id q)) (normalize (batch_idempotency_key command q)) st)) (bc_orders command) outs"
proof -
  have "postgres_port.keys_accounted (\<lambda>k key. key_logged k key st) command (set (bc_orders command)) (st, n)"
    by (simp add: postgres_port.keys_accounted_def)
  then have "list_all2 (postgres_port.outcome_true (\<lambda>k key. key_logged k key st) command (st', n')) (bc_orders command) outs"
    using postgres_port.batch_loop_true[OF assms(1) _ order_refl batch_cancel_Inr[OF assms(3)]] assms(2) by simp
  then show ?thesis
    by (rule list_all2_mono) (simp add: postgres_port.outcome_true_def postgres_port.terminal_in_def order_terminal_iff)
qed

text \<open>
  C11: An emergency cancel-all over a reachable store reports one outcome per order, in the order
  of the request, whatever faults the database had on the way: an order reported as already
  terminal is in a terminal state in the store afterwards; an order reported as canceled is in a
  terminal state afterwards, or the key the batch gives it was in its transition log before the
  batch began, in which case the report repeats what an earlier command was told.
\<close>

theorem cancel_all_outcomes_true:
  assumes "rt_persist_transition rt = postgres_persist T render schedule"
    and "order_store_reach T render st"
    and "cancel_all_orders T rt command (st, n) = (Inr outs, (st', n'))"
  shows "list_all2 (\<lambda>order out. bx_order_id out = eo_order_id order
      \<and> (bx_outcome out = BatchCancelOutcomeKind.AlreadyTerminal \<longrightarrow> order_terminal st' (trim (eo_order_id order)))
      \<and> (bx_outcome out = BatchCancelOutcomeKind.Canceled \<longrightarrow> order_terminal st' (trim (eo_order_id order))
           \<or> key_logged (trim (eo_order_id order)) (normalize (batch_idempotency_key (emergency_batch command)
               \<lparr>bo_order_id = eo_order_id order, bo_mode = eo_mode order, bo_idempotency_key = None\<rparr>)) st))
    (ea_orders command) outs"
proof -
  have "\<forall>k. order_ok st k" using order_store_reach_ok[OF assms(2)] by blast
  from batch_cancel_true[OF assms(1) this assms(3)[unfolded cancel_all_orders_def]] show ?thesis
    by (simp add: emergency_batch_def list_all2_map1)
qed

section \<open>A service on a small store\<close>

definition demo_runtime :: "(order_store \<times> nat) OrderLifecycleRuntime" where
  "demo_runtime =
     \<lparr>rt_persist_transition = postgres_persist demo_time id (\<lambda>_ _. None),
      rt_load_order = (\<lambda>k s. PostgresOrderLifecycleStore_load_order demo_time id (\<lambda>_. None) k (fst s)),
      rt_load_order_state_transitions =
        (\<lambda>k s. PostgresOrderLifecycleStore_load_order_state_transitions demo_time id (\<lambda>_. None) k (fst s)),
      rt_adjudicate_submit = (\<lambda>r. Some (AllowAllRiskAdjudicationPort r)),
      rt_load_current_mode = DefaultEmergencyControlModePort,
      rt_pretrade_adjudication_timeout_ms = DEFAULT_PRETRADE_ADJUDICATION_TIMEOUT_MS\<rparr>"

definition demo_submit :: SubmitOrderCommand where
  "demo_submit = \<lparr>so_order_id = ''o'', so_market_id = ''m'', so_mode = OrderMode.Limit,
     so_requested_order_size_units = Fin 1, so_idempotency_key = ''k'', so_correlation_id = ''c'',
     so_requested_at_utc = ''2026-04-06T00:00:00Z''\<rparr>"

definition demo_cancel_all :: EmergencyCancelAllCommand where
  "demo_cancel_all = \<lparr>ea_market_id = ''market-1'', ea_correlation_id = ''c'', ea_requested_at_utc = ''2026-04-06T00:00:00Z'',
     ea_orders = [\<lparr>eo_order_id = ''order-1'', eo_mode = OrderMode.Limit\<rparr>]\<rparr>"

definition demo_open_store :: order_store where
  "demo_open_store = snd (persist_order_transition demo_time id (\<lambda>_. None)
     (demo_order_command ''key-1'' OrderLifecycleState.Pending) empty_order_store)"

lemma demo_open_store_reach: "order_store_reach demo_time id demo_open_store"
  unfolding demo_open_store_def
  by (rule order_store_reach.step[OF order_store_reach.init]) (auto simp: order_store_step_iff prod_eq_iff)

theorem submit_only_when_permitted_witness:
  "submit_permitted demo_runtime demo_submit"
proof -
  have "is_ok (fst (submit_order demo_time demo_runtime demo_submit (empty_order_store, 0)))" by code_simp
  then show ?thesis by (intro submit_only_when_permitted[OF surjective_pairing disjI1])
qed

theorem cancel_all_outcomes_true_witness:
  "order_terminal (fst (snd (cancel_all_orders demo_time demo_runtime demo_cancel_all (demo_open_store, 0)))) ''order-1''"
  (is "order_terminal (fst (snd ?run)) _")
proof -
  have "is_ok (fst ?run)" by code_simp
  then obtain outs where outs: "fst ?run = Inr outs" by (rule is_okE)
  have "map bx_outcome (projr (fst ?run)) = [BatchCancelOutcomeKind.Canceled]" by code_simp
  then obtain out where out: "outs = [out]" "bx_outcome out = BatchCancelOutcomeKind.Canceled" using outs by auto
  have fresh: "\<not> key_logged ''order-1'' (normalize (batch_idempotency_key (emergency_batch demo_cancel_all)
      \<lparr>bo_order_id = ''order-1'', bo_mode = OrderMode.Limit, bo_idempotency_key = None\<rparr>)) demo_open_store"
    by code_simp
  have run: "cancel_all_orders demo_time demo_runtime demo_cancel_all (demo_open_store, 0)
      = (Inr outs, (fst (snd ?run), snd (snd ?run)))"
    using outs by (simp add: prod_eq_iff)
  have persist: "rt_persist_transition demo_runtime = postgres_persist demo_time id (\<lambda>_ _. None)"
    by (simp add: demo_runtime_def)
  have "trim ''order-1'' = ''order-1''" by code_simp
  then show ?thesis
    using cancel_all_outcomes_true[OF persist demo_open_store_reach run] out fresh
    by (simp add: demo_cancel_all_def)
qed

section \<open>Corners of the service\<close>

text \<open>
  A batch that reuses the key of an order's submission reports the order as canceled, though the
  order is open before and after.
\<close>

definition reused_key_batch :: BatchCancelCommand where
  "reused_key_batch = \<lparr>bc_market_id = ''market-1'', bc_correlation_id = ''c'',
     bc_requested_at_utc = ''2026-04-06T00:00:00Z'', bc_batch_idempotency_key = ''b'',
     bc_orders = [\<lparr>bo_order_id = ''order-1'', bo_mode = OrderMode.Limit, bo_idempotency_key = Some ''key-1''\<rparr>]\<rparr>"

lemma duplicate_key_reported_canceled:
  "map bx_outcome (projr (fst (batch_cancel demo_time demo_runtime reused_key_batch (demo_open_store, 0))))
     = [BatchCancelOutcomeKind.Canceled]"
  "order_state (fst (snd (batch_cancel demo_time demo_runtime reused_key_batch (demo_open_store, 0)))) ''order-1''
     = Some OrderLifecycleState.Pending"
  subgoal by code_simp
  subgoal by code_simp
  done

text \<open>A blank order identifier ends a batch with an error after the orders before it were canceled.\<close>

lemma blank_order_aborts_batch:
  "isl (fst (batch_cancel demo_time demo_runtime
     (reused_key_batch\<lparr>bc_orders := [\<lparr>bo_order_id = ''order-1'', bo_mode = OrderMode.Limit, bo_idempotency_key = None\<rparr>,
        \<lparr>bo_order_id = '' '', bo_mode = OrderMode.Limit, bo_idempotency_key = None\<rparr>]\<rparr>) (demo_open_store, 0)))"
  "order_state (fst (snd (batch_cancel demo_time demo_runtime
     (reused_key_batch\<lparr>bc_orders := [\<lparr>bo_order_id = ''order-1'', bo_mode = OrderMode.Limit, bo_idempotency_key = None\<rparr>,
        \<lparr>bo_order_id = '' '', bo_mode = OrderMode.Limit, bo_idempotency_key = None\<rparr>]\<rparr>) (demo_open_store, 0)))) ''order-1''
     = Some OrderLifecycleState.Canceled"
  by code_simp+

text \<open>
  The persisted adjudication is looked up by the order identifier alone: the market asked for and
  the age of the decision do not matter.
\<close>

lemma adjudication_ignores_market_and_time:
  "PostgresRiskAdjudicationPort lookup (request\<lparr>aq_market_id := m, aq_requested_at_utc := t\<rparr>)
     = PostgresRiskAdjudicationPort lookup request"
  by (simp add: PostgresRiskAdjudicationPort_def Let_def cong: option.case_cong)

end
