(* ===== verification/AcceptedEvents.thy ===== *)
theory AcceptedEvents
  imports UserStreamRuntime OrderControl
begin

text \<open>
  The user stream and the order service together, as \<open>services/execution-engine/src/main.rs\<close>
  wires them: the order service, on its store, is the port that hears of every accepted event.
\<close>

section \<open>The order service as the port\<close>

definition order_lifecycle_port ::
    "time_crate \<Rightarrow> 's OrderLifecycleRuntime \<Rightarrow> UserStreamEvent \<Rightarrow> 's \<Rightarrow> (OrderLifecycleRuntimeError + unit) \<times> 's" where
  "order_lifecycle_port T rt event s =
     (let (result, s') = apply_user_stream_event T rt event s in (and_then result (\<lambda>_. Inr ()), s'))"

lemma order_known:
  assumes "order_ok st k" "os_orders st k = Some row"
  shows "\<exists>s. order_state st k = Some s"
proof -
  have log: "order_log k st \<noteq> []" "row_follows row (hd (order_log k st))" "log_wf (order_log k st)"
    using assms by (simp_all add: order_ok_def)
  then obtain s where "tr_to_state (hd (order_log k st)) = OrderLifecycleState_as_str s"
    by (cases "order_log k st") (auto simp: log_wf_def)
  then show ?thesis using log(2) assms(2) by (auto simp: order_state_Some row_follows_def)
qed

lemma key_logged_known:
  assumes "order_ok st k" "key_logged k key st"
  shows "\<exists>s. order_state st k = Some s"
proof -
  have "order_log k st \<noteq> []" using assms(2) by (auto simp: key_logged_iff)
  then obtain row where "os_orders st k = Some row" using assms(1) by (auto simp: order_ok_def split: option.splits)
  then show ?thesis by (rule order_known[OF assms(1)])
qed

text \<open>A transition the store answers leaves its order in the target state, or as it was and known.\<close>

definition order_settled :: "order_store \<Rightarrow> string \<Rightarrow> OrderLifecycleState \<Rightarrow> order_store \<Rightarrow> bool" where
  "order_settled st k target st' \<longleftrightarrow> order_state st' k = Some target
     \<or> (order_state st' k = order_state st k \<and> order_state st k \<noteq> None)"

lemma persisted_settles:
  assumes "\<forall>k. order_ok (fst s) k" and "postgres_persist T render schedule c s = (Inr out, s')"
  shows "order_settled (fst s) (trim (tc_order_id c)) (tc_target_state c) (fst s')"
proof -
  have step: "PostgresOrderLifecycleStore_persist_transition T render (schedule (snd s)) c (fst s) = (Inr out, fst s')"
    using assms(2) by (auto simp: postgres_persist_def case_prod_beta prod_eq_iff)
  show ?thesis
  proof (cases "po_disposition out = OrderLifecyclePersistDisposition.Applied")
    case True
    then show ?thesis using postgres_port.applied[OF assms] by (simp add: order_settled_def)
  next
    case False
    note sql = postgres_unchanged(2)[OF assms(1) step refl]
    have same: "fst s' = fst s" using postgres_unchanged(1)[OF assms(1) step] False by simp
    have "order_state (fst s) (trim (tc_order_id c)) \<noteq> None"
      using unchanged_outcome[OF sql False] key_logged_known[OF spec[OF assms(1)]] order_known[OF spec[OF assms(1)]] False
      by (cases "po_disposition out") auto
    then show ?thesis using same by (simp add: order_settled_def)
  qed
qed

fun event_target :: "UserStreamEventStatus \<Rightarrow> OrderLifecycleState" where
  "event_target UserStreamEventStatus.Placement = OrderLifecycleState.Live"
| "event_target UserStreamEventStatus.Update = OrderLifecycleState.Live"
| "event_target UserStreamEventStatus.Matched = OrderLifecycleState.PartiallyFilled"
| "event_target UserStreamEventStatus.Mined = OrderLifecycleState.Filled"
| "event_target UserStreamEventStatus.Confirmed = OrderLifecycleState.Filled"
| "event_target UserStreamEventStatus.Cancellation = OrderLifecycleState.Canceled"

lemma map_status_target: "map_user_stream_event_state status = Inr (event_target status)"
  by (cases status) (simp_all add: map_user_stream_event_state_def)

lemma applied_event_command:
  assumes "apply_user_stream_event T rt event s = (Inr outcome, s')"
  shows "\<exists>c. persist_with_telemetry rt c s = (Inr outcome, s') \<and> tc_order_id c = ue_order_id event
    \<and> tc_target_state c = event_target (ue_event_status event)"
  using assms
  by (auto simp: apply_user_stream_event_def and_then_Inr_iff map_status_target split: sum.splits intro!: exI)

lemma applied_event_settles:
  assumes "rt_persist_transition rt = postgres_persist T0 render schedule" and "\<forall>k. order_ok (fst s) k"
    and "order_lifecycle_port T rt event s = (Inr u, s')"
  shows "order_settled (fst s) (trim (ue_order_id event)) (event_target (ue_event_status event)) (fst s')"
proof -
  obtain outcome where "apply_user_stream_event T rt event s = (Inr outcome, s')"
    using assms(3) by (cases "apply_user_stream_event T rt event s"; cases "fst (apply_user_stream_event T rt event s)")
      (auto simp: order_lifecycle_port_def)
  from applied_event_command[OF this] obtain c where c: "tc_order_id c = ue_order_id event"
    "tc_target_state c = event_target (ue_event_status event)"
    and step: "persist_with_telemetry rt c s = (Inr outcome, s')" by blast
  show ?thesis
  proof (cases rule: postgres_port.service_step[OF assms(1) step])
    case (3 out o')
    then show ?thesis using persisted_settles[OF assms(2)] c by metis
  qed auto
qed

text \<open>A message answered as accepted went through the port.\<close>

lemma accepted_message_port:
  assumes "runtime_persist_event T render is_null faults event raw (self, (store, orders)) = (Inr out, (self', (store', orders')))"
    and "uq_disposition out = UserIngestionDisposition.Accepted" and "un_order_lifecycle_port self = Some port"
  shows "port event orders = (Inr (), orders')"
proof -
  obtain res st where persist: "persist_user_stream_event T render is_null faults event raw
      (ur_auth_state (un_state self)) (ur_block_new_intents (un_state self)) store = (res, st)" by fastforce
  obtain reason where "after_accepted T faults event reason self (st, orders) = (Inr out, (self', (store', orders')))"
    using assms(1,2) persist
    by (cases res) (auto simp: runtime_persist_event_def PostgresUserStreamStore_persist_event_def
        split: UserStreamPersistDisposition.splits)
  then show ?thesis
    using assms(3)
    by (cases "port event orders"; cases "fst (port event orders)"; cases "fst (notify_signals T event (un_freshness_signals self))")
      (auto simp: after_accepted_def notify_orders_def Let_def case_prod_beta split: if_splits)
qed

text \<open>
  C13: An event the ingestion answers as accepted has reached its order: with the order service on
  a reachable store attached, the order is afterwards in the state the event stands for, or it was
  known to the store and stays as it was (its key already used, the order terminal, or the move not
  one of the lifecycle). An order no transition was ever stored for cannot come out unknown.
\<close>

theorem accepted_event_settles_its_order:
  assumes "rt_persist_transition rt = postgres_persist T0 render0 schedule"
    and "order_store_reach T0 render0 ost"
    and "un_order_lifecycle_port self = Some (order_lifecycle_port T rt)"
    and "runtime_persist_event T render is_null faults event raw (self, (store, (ost, n))) = (Inr out, (self', (store', (ost', n'))))"
    and "uq_disposition out = UserIngestionDisposition.Accepted"
  shows "order_settled ost (trim (ue_order_id event)) (event_target (ue_event_status event)) ost'"
proof -
  have "\<forall>k. order_ok (fst (ost, n)) k" using order_store_reach_ok[OF assms(2)] by simp
  from applied_event_settles[OF assms(1) this accepted_message_port[OF assms(4,5,3)]] show ?thesis by simp
qed

section \<open>A small run, and two corners\<close>

definition demo_ingestion :: "(order_store \<times> nat) UserStreamIngestionRuntime" where
  "demo_ingestion = \<lparr>un_state = UserStreamRuntimeState_default, un_freshness_signals = Some FreshnessSignalState_default,
     un_order_lifecycle_port = Some (order_lifecycle_port demo_time demo_runtime)\<rparr>"

definition demo_status_event :: "UserStreamEventStatus \<Rightarrow> UserStreamEvent" where
  "demo_status_event status = (demo_user_event 5 ''venue-key'')\<lparr>ue_event_status := status\<rparr>"

abbreviation demo_ingest ::
    "UserStreamEventStatus \<Rightarrow> (UserStreamIngestionError + UserStreamIngestionOutcome)
      \<times> ((order_store \<times> nat) UserStreamIngestionRuntime \<times> (user_store \<times> (order_store \<times> nat)))" where
  "demo_ingest status \<equiv> runtime_persist_event demo_time id (\<lambda>_. False) (\<lambda>_. None) (demo_status_event status) ()
     (demo_ingestion, (empty_user_store, (demo_open_store, 0)))"

theorem accepted_event_settles_its_order_witness:
  "order_settled demo_open_store (trim ''order-1'') OrderLifecycleState.Live
     (fst (snd (snd (snd (demo_ingest UserStreamEventStatus.Placement)))))"
proof -
  let ?run = "demo_ingest UserStreamEventStatus.Placement"
  have "\<not> isl (fst ?run)" by code_simp
  then obtain out where out: "fst ?run = Inr out" by (rule is_okE)
  have "uq_disposition (projr (fst ?run)) = UserIngestionDisposition.Accepted" by code_simp
  then have accepted: "uq_disposition out = UserIngestionDisposition.Accepted" using out by simp
  have run: "?run = (Inr out, (fst (snd ?run), (fst (snd (snd ?run)), (fst (snd (snd (snd ?run))), snd (snd (snd (snd ?run)))))))"
    using out by (simp add: prod_eq_iff)
  have ports: "rt_persist_transition demo_runtime = postgres_persist demo_time id (\<lambda>_ _. None)"
    "un_order_lifecycle_port demo_ingestion = Some (order_lifecycle_port demo_time demo_runtime)"
    by (simp_all add: demo_runtime_def demo_ingestion_def)
  from accepted_event_settles_its_order[OF ports(1) demo_open_store_reach ports(2) run accepted] show ?thesis
    by (simp add: demo_status_event_def demo_user_event_def)
qed

text \<open>
  A match that arrives while the order is still pending is accepted and lost: pending orders have
  no move to partially filled, and the refusal of the order service is not an error.
\<close>

lemma match_before_placement_is_dropped:
  "uq_disposition (projr (fst (demo_ingest UserStreamEventStatus.Matched))) = UserIngestionDisposition.Accepted"
  "order_state (fst (snd (snd (snd (demo_ingest UserStreamEventStatus.Matched))))) ''order-1'' = Some OrderLifecycleState.Pending"
  by code_simp+

text \<open>
  An event whose order update fails is stored all the same: delivered again, it is a duplicate
  that no longer reaches its order.
\<close>

definition failing_runtime :: "(order_store \<times> nat) OrderLifecycleRuntime" where
  "failing_runtime = demo_runtime\<lparr>rt_persist_transition := postgres_persist demo_time id
     (\<lambda>n. if n = 0 then (\<lambda>_. Some \<lparr>df_code = None, df_text = ''connection lost''\<rparr>) else (\<lambda>_. None))\<rparr>"

abbreviation demo_deliver ::
    "(order_store \<times> nat) UserStreamIngestionRuntime \<times> (user_store \<times> (order_store \<times> nat))
      \<Rightarrow> (UserStreamIngestionError + UserStreamIngestionOutcome)
        \<times> ((order_store \<times> nat) UserStreamIngestionRuntime \<times> (user_store \<times> (order_store \<times> nat)))" where
  "demo_deliver s \<equiv> runtime_persist_event demo_time id (\<lambda>_ :: unit. False) (\<lambda>_. None)
     (demo_status_event UserStreamEventStatus.Placement) () s"

definition failing_ingestion :: "(order_store \<times> nat) UserStreamIngestionRuntime \<times> (user_store \<times> (order_store \<times> nat))" where
  "failing_ingestion =
     (demo_ingestion\<lparr>un_order_lifecycle_port := Some (order_lifecycle_port demo_time failing_runtime)\<rparr>,
      (empty_user_store, (demo_open_store, 0)))"

lemma failed_update_is_not_retried:
  "isl (fst (demo_deliver failing_ingestion))"
  "uq_disposition (projr (fst (demo_deliver (snd (demo_deliver failing_ingestion))))) = UserIngestionDisposition.Duplicate"
  "order_state (fst (snd (snd (snd (demo_deliver (snd (demo_deliver failing_ingestion))))))) ''order-1''
     = Some OrderLifecycleState.Pending"
  subgoal by code_simp
  subgoal by code_simp
  subgoal by code_simp
  done

end
