(* ===== verification/ApprovalContract.thy ===== *)
theory ApprovalContract
  imports Governance
begin

text \<open>
  The approval contract of \<open>crates/domain/src/governance.rs\<close>: critical actions, request states,
  votes, evidence, the two-person test, the expiry test and the reference of an approval.
\<close>

section \<open>Errors\<close>

record ApprovalContractError =
  ac_code :: string
  ac_message :: string

definition ApprovalContractError_invalid_action :: "string \<Rightarrow> ApprovalContractError" where
  "ApprovalContractError_invalid_action v =
     \<lparr>ac_code = ''approval_invalid_action'', ac_message = ''unknown critical action `'' @ v @ ''`''\<rparr>"

definition ApprovalContractError_invalid_state :: "string \<Rightarrow> ApprovalContractError" where
  "ApprovalContractError_invalid_state v =
     \<lparr>ac_code = ''approval_invalid_state'', ac_message = ''unknown approval state `'' @ v @ ''`''\<rparr>"

definition ApprovalContractError_invalid_vote :: "string \<Rightarrow> ApprovalContractError" where
  "ApprovalContractError_invalid_vote v =
     \<lparr>ac_code = ''approval_invalid_vote'', ac_message = ''unknown approval vote `'' @ v @ ''`''\<rparr>"

definition ApprovalContractError_invalid_timestamp :: "string \<Rightarrow> string \<Rightarrow> ApprovalContractError" where
  "ApprovalContractError_invalid_timestamp field v =
     \<lparr>ac_code = ''approval_invalid_timestamp'',
      ac_message = ''invalid RFC3339 UTC timestamp for `'' @ field @ ''`: `'' @ v @ ''`''\<rparr>"

definition ApprovalContractError_invalid_reference_component :: "string \<Rightarrow> ApprovalContractError" where
  "ApprovalContractError_invalid_reference_component field =
     \<lparr>ac_code = ''approval_invalid_reference_component'',
      ac_message = ''approval reference component `'' @ field @ ''` cannot be blank''\<rparr>"

section \<open>Actions, states and votes\<close>

datatype CriticalActionId = StrategyPromotionOverride | RiskLimitIncrease | KillSwitchDisable | ProductionConfigChange

fun CriticalActionId_as_str :: "CriticalActionId \<Rightarrow> string" where
  "CriticalActionId_as_str CriticalActionId.StrategyPromotionOverride = ''strategy_promotion_override''"
| "CriticalActionId_as_str CriticalActionId.RiskLimitIncrease = ''risk_limit_increase''"
| "CriticalActionId_as_str CriticalActionId.KillSwitchDisable = ''kill_switch_disable''"
| "CriticalActionId_as_str CriticalActionId.ProductionConfigChange = ''production_config_change''"

definition CriticalActionId_parse :: "string \<Rightarrow> ApprovalContractError + CriticalActionId" where
  "CriticalActionId_parse = parse_arms
     [(''strategy_promotion_override'', CriticalActionId.StrategyPromotionOverride),
      (''risk_limit_increase'', CriticalActionId.RiskLimitIncrease),
      (''kill_switch_disable'', CriticalActionId.KillSwitchDisable),
      (''production_config_change'', CriticalActionId.ProductionConfigChange)]
     ApprovalContractError_invalid_action"

interpretation critical_action: enum_codec "\<lambda>v. v" CriticalActionId_as_str CriticalActionId_parse
  by (unfold CriticalActionId_parse_def, rule enum_codec_arms, case_tac x) simp_all

datatype ApprovalState = Pending | Approved | Rejected | Expired

fun ApprovalState_as_str :: "ApprovalState \<Rightarrow> string" where
  "ApprovalState_as_str ApprovalState.Pending = ''pending''"
| "ApprovalState_as_str ApprovalState.Approved = ''approved''"
| "ApprovalState_as_str ApprovalState.Rejected = ''rejected''"
| "ApprovalState_as_str ApprovalState.Expired = ''expired''"

definition ApprovalState_parse :: "string \<Rightarrow> ApprovalContractError + ApprovalState" where
  "ApprovalState_parse = parse_arms
     [(''pending'', ApprovalState.Pending),
      (''approved'', ApprovalState.Approved),
      (''rejected'', ApprovalState.Rejected),
      (''expired'', ApprovalState.Expired)]
     ApprovalContractError_invalid_state"

interpretation approval_state: enum_codec "\<lambda>v. v" ApprovalState_as_str ApprovalState_parse
  by (unfold ApprovalState_parse_def, rule enum_codec_arms, case_tac x) simp_all

datatype ApprovalVoteDecision = Approve | Reject

fun ApprovalVoteDecision_as_str :: "ApprovalVoteDecision \<Rightarrow> string" where
  "ApprovalVoteDecision_as_str ApprovalVoteDecision.Approve = ''approve''"
| "ApprovalVoteDecision_as_str ApprovalVoteDecision.Reject = ''reject''"

definition ApprovalVoteDecision_parse :: "string \<Rightarrow> ApprovalContractError + ApprovalVoteDecision" where
  "ApprovalVoteDecision_parse = parse_arms
     [(''approve'', ApprovalVoteDecision.Approve), (''reject'', ApprovalVoteDecision.Reject)]
     ApprovalContractError_invalid_vote"

interpretation approval_vote: enum_codec "\<lambda>v. v" ApprovalVoteDecision_as_str ApprovalVoteDecision_parse
  by (unfold ApprovalVoteDecision_parse_def, rule enum_codec_arms, case_tac x) simp_all

datatype ApprovalDecisionOutcome = Allow | Deny | Pending

fun ApprovalDecisionOutcome_as_str :: "ApprovalDecisionOutcome \<Rightarrow> string" where
  "ApprovalDecisionOutcome_as_str ApprovalDecisionOutcome.Allow = ''allow''"
| "ApprovalDecisionOutcome_as_str ApprovalDecisionOutcome.Deny = ''deny''"
| "ApprovalDecisionOutcome_as_str ApprovalDecisionOutcome.Pending = ''pending''"

datatype ApprovalReasonCode = ApprovalAllowed | ApprovalPending | MissingApprovalRequest | UnknownRequest
  | MissingSecondApprover | SelfApprovalAttempt | DuplicateVote | ExpiredWindow | UnauthorizedRole
  | RateLimitedActor | InvalidStateTransition | ExplicitlyRejected

fun ApprovalReasonCode_code :: "ApprovalReasonCode \<Rightarrow> string" where
  "ApprovalReasonCode_code ApprovalReasonCode.ApprovalAllowed = ''approval_allowed''"
| "ApprovalReasonCode_code ApprovalReasonCode.ApprovalPending = ''approval_pending''"
| "ApprovalReasonCode_code ApprovalReasonCode.MissingApprovalRequest = ''approval_missing_request''"
| "ApprovalReasonCode_code ApprovalReasonCode.UnknownRequest = ''approval_unknown_request''"
| "ApprovalReasonCode_code ApprovalReasonCode.MissingSecondApprover = ''approval_missing_second_approver''"
| "ApprovalReasonCode_code ApprovalReasonCode.SelfApprovalAttempt = ''approval_self_approval_attempt''"
| "ApprovalReasonCode_code ApprovalReasonCode.DuplicateVote = ''approval_duplicate_vote''"
| "ApprovalReasonCode_code ApprovalReasonCode.ExpiredWindow = ''approval_expired_window''"
| "ApprovalReasonCode_code ApprovalReasonCode.UnauthorizedRole = ''approval_unauthorized_role''"
| "ApprovalReasonCode_code ApprovalReasonCode.RateLimitedActor = ''approval_rate_limited_actor''"
| "ApprovalReasonCode_code ApprovalReasonCode.InvalidStateTransition = ''approval_invalid_state_transition''"
| "ApprovalReasonCode_code ApprovalReasonCode.ExplicitlyRejected = ''approval_rejected''"

section \<open>Records\<close>

record ApprovalRequest =
  ar_request_id :: string
  ar_action_id :: string
  ar_proposer_actor_id :: string
  ar_status :: ApprovalState
  ar_reason_code :: string
  ar_correlation_id :: string
  ar_approval_reference :: "string option"
  ar_created_at_utc :: string
  ar_expires_at_utc :: string

record ApprovalVoteRecord =
  av_request_id :: string
  av_actor_id :: string
  av_decision :: ApprovalVoteDecision
  av_correlation_id :: string
  av_voted_at_utc :: string

record ApprovalDecisionEvidence =
  ade_request_id :: "string option"
  ade_actor_id :: string
  ade_action_id :: string
  ade_outcome :: ApprovalDecisionOutcome
  ade_state :: ApprovalState
  ade_reason_code :: string
  ade_correlation_id :: string
  ade_approval_reference :: "string option"
  ade_timestamp_utc :: string

section \<open>Actors, windows and references\<close>

definition canonical_actor_id :: "string \<Rightarrow> string" where
  "canonical_actor_id actor_id = normalize actor_id"

definition actors_are_distinct :: "string \<Rightarrow> string \<Rightarrow> bool" where
  "actors_are_distinct proposer_actor_id approver_actor_id =
     (canonical_actor_id proposer_actor_id \<noteq> [] \<and> canonical_actor_id approver_actor_id \<noteq> []
      \<and> canonical_actor_id proposer_actor_id \<noteq> canonical_actor_id approver_actor_id)"

definition parse_approval_timestamp :: "time_crate \<Rightarrow> string \<Rightarrow> string \<Rightarrow> ApprovalContractError + int" where
  "parse_approval_timestamp T field v = (case rfc3339_parse T v of
      None \<Rightarrow> Inl (ApprovalContractError_invalid_timestamp field v)
    | Some (t, off) \<Rightarrow> if off \<noteq> 0 then Inl (ApprovalContractError_invalid_timestamp field v) else Inr t)"

definition approval_window_expired :: "time_crate \<Rightarrow> string \<Rightarrow> string \<Rightarrow> ApprovalContractError + bool" where
  "approval_window_expired T now_utc expires_at_utc =
     and_then (parse_approval_timestamp T ''now_utc'' now_utc) (\<lambda>now.
     and_then (parse_approval_timestamp T ''expires_at_utc'' expires_at_utc) (\<lambda>expires.
     Inr (expires \<le> now)))"

definition is_expired_at :: "time_crate \<Rightarrow> ApprovalRequest \<Rightarrow> string \<Rightarrow> ApprovalContractError + bool" where
  "is_expired_at T self now_utc = approval_window_expired T now_utc (ar_expires_at_utc self)"

text \<open>
  A character outside ASCII is several bytes: its first byte becomes the underscore, and its
  continuation bytes are dropped.
\<close>

definition reference_char :: "char \<Rightarrow> string" where
  "reference_char c =
     (if CHR 0x80 \<le> c \<and> c \<le> CHR 0xBF then []
      else if is_ascii_alphanumeric c \<or> c = CHR ''-'' \<or> c = CHR ''_'' then [c] else ''_'')"

definition sanitize_reference_component :: "string \<Rightarrow> string \<Rightarrow> ApprovalContractError + string" where
  "sanitize_reference_component field v =
     (let canonical = canonical_actor_id v
      in if canonical = [] then Inl (ApprovalContractError_invalid_reference_component field)
         else Inr (concat (map reference_char canonical)))"

text \<open>\<open>OffsetDateTime::unix_timestamp\<close>: the whole seconds of an instant, rounded down.\<close>

definition unix_timestamp :: "int \<Rightarrow> int" where
  "unix_timestamp t = t div 1000000000"

definition generate_approval_reference ::
    "time_crate \<Rightarrow> string \<Rightarrow> CriticalActionId \<Rightarrow> string \<Rightarrow> string \<Rightarrow> string \<Rightarrow> ApprovalContractError + string" where
  "generate_approval_reference T request_id action_id proposer_actor_id approver_actor_id approved_at_utc =
     and_then (sanitize_reference_component ''request_id'' request_id) (\<lambda>sanitized_request_id.
     and_then (sanitize_reference_component ''proposer_actor_id'' proposer_actor_id) (\<lambda>sanitized_proposer.
     and_then (sanitize_reference_component ''approver_actor_id'' approver_actor_id) (\<lambda>sanitized_approver.
     and_then (parse_approval_timestamp T ''approved_at_utc'' approved_at_utc) (\<lambda>approved_at.
     Inr (''apr_'' @ CriticalActionId_as_str action_id @ ''_'' @ sanitized_request_id @ ''_'' @ sanitized_proposer
       @ ''_'' @ sanitized_approver @ ''_'' @ int_to_dec (unix_timestamp approved_at))))))"

section \<open>What they decide\<close>

lemma parse_approval_timestamp_Inr [simp]:
  "parse_approval_timestamp T field v = Inr t \<longleftrightarrow> parse_utc_timestamp T v = Some t"
  by (auto simp: parse_approval_timestamp_def parse_utc_timestamp_def split: option.splits)

lemma window_expired_Inr:
  "approval_window_expired T now expires = Inr b \<longleftrightarrow>
     (\<exists>n e. parse_utc_timestamp T now = Some n \<and> parse_utc_timestamp T expires = Some e \<and> (b \<longleftrightarrow> e \<le> n))"
  by (auto simp: approval_window_expired_def and_then_Inr_iff)

lemma actors_are_distinct_iff:
  "actors_are_distinct p a \<longleftrightarrow> \<not> blank p \<and> \<not> blank a \<and> normalize p \<noteq> normalize a"
  by (simp add: actors_are_distinct_def canonical_actor_id_def)

lemma distinct_canonical [simp]:
  "actors_are_distinct p (canonical_actor_id a) = actors_are_distinct p a"
  "actors_are_distinct (canonical_actor_id p) a = actors_are_distinct p a"
  by (simp_all add: actors_are_distinct_def canonical_actor_id_def)

lemma distinct_sym: "actors_are_distinct p a = actors_are_distinct a p"
  by (auto simp: actors_are_distinct_def)

text \<open>A reference can be made of every request with a name, two named actors and a time.\<close>

lemma sanitize_ok: "\<not> isl (sanitize_reference_component f v) \<longleftrightarrow> \<not> blank v"
  by (simp add: sanitize_reference_component_def Let_def canonical_actor_id_def)

lemma reference_made:
  assumes "\<not> blank request_id" "actors_are_distinct p a" "utc_ok T t"
  shows "\<exists>r. generate_approval_reference T request_id action_id p a t = Inr r"
proof -
  obtain x where "parse_utc_timestamp T t = Some x" using assms(3) by blast
  then show ?thesis
    using assms unfolding actors_are_distinct_iff
    by (auto simp: generate_approval_reference_def sanitize_reference_component_def Let_def canonical_actor_id_def
        parse_approval_timestamp_def parse_utc_timestamp_def split: option.splits if_splits)
qed

text \<open>
  The components are joined by a character they may contain, and sanitizing is not injective:
  different approvals of different requests share a reference.
\<close>

lemma references_collide:
  "generate_approval_reference demo_time ''r_a'' CriticalActionId.RiskLimitIncrease ''b'' ''c'' ''2026-04-06T00:00:00Z''
   = generate_approval_reference demo_time ''r'' CriticalActionId.RiskLimitIncrease ''a_b'' ''c'' ''2026-04-06T00:00:00Z''
   \<and> sanitize_reference_component f ''ops.1'' = sanitize_reference_component f ''ops@1''"
proof -
  have "generate_approval_reference demo_time ''r_a'' CriticalActionId.RiskLimitIncrease ''b'' ''c'' ''2026-04-06T00:00:00Z''
   = generate_approval_reference demo_time ''r'' CriticalActionId.RiskLimitIncrease ''a_b'' ''c'' ''2026-04-06T00:00:00Z''"
    by code_simp
  moreover have "canonical_actor_id ''ops.1'' = ''ops.1''" "canonical_actor_id ''ops@1'' = ''ops@1''" by code_simp+
  ultimately show ?thesis
    by (simp add: sanitize_reference_component_def Let_def reference_char_def is_ascii_alphanumeric_def is_ascii_digit_def less_eq_char_def)
qed

end
