(* ===== verification/ApprovalStore.thy ===== *)
theory ApprovalStore
  imports ApprovalContract Database
begin

text \<open>
  The approval tables and their statements, from \<open>crates/persistence/src/postgres/approvals.rs\<close>
  and the constraints of its migration \<open>20260405074300_approval_requests_votes.sql\<close>. The tables
  are lists of rows, newest first; a statement may fail with an injected fault, and an insert
  that violates a key does fail with the constraint's violation. \<open>updated_at_utc\<close>, which is
  written and never read, is left out.
\<close>

section \<open>Errors\<close>

record ApprovalPersistenceError =
  ap_error_code :: string
  ap_error_message :: string

definition ApprovalPersistenceError_invalid_payload :: "string \<Rightarrow> ApprovalPersistenceError" where
  "ApprovalPersistenceError_invalid_payload message =
     \<lparr>ap_error_code = ''approval_invalid_payload'', ap_error_message = message\<rparr>"

definition ApprovalPersistenceError_unexpected_row_count :: "string \<Rightarrow> nat \<Rightarrow> ApprovalPersistenceError" where
  "ApprovalPersistenceError_unexpected_row_count operation rows_affected =
     \<lparr>ap_error_code = ''approval_constraint_violation'',
      ap_error_message = operation @ '' rejected by constraint: expected 1 row, got '' @ nat_to_dec rows_affected\<rparr>"

definition ApprovalPersistenceError_request_not_found :: "string \<Rightarrow> ApprovalPersistenceError" where
  "ApprovalPersistenceError_request_not_found request_id =
     \<lparr>ap_error_code = ''approval_request_not_found'',
      ap_error_message = ''approval request `'' @ request_id @ ''` was not found''\<rparr>"

definition ApprovalPersistenceError_query_failure :: "string \<Rightarrow> constraint_fault \<Rightarrow> ApprovalPersistenceError" where
  "ApprovalPersistenceError_query_failure operation error =
     \<lparr>ap_error_code = ''approval_query_failed'', ap_error_message = operation @ '' failed: '' @ df_text error\<rparr>"

definition ApprovalPersistenceError_constraint_violation :: "string \<Rightarrow> constraint_fault \<Rightarrow> ApprovalPersistenceError" where
  "ApprovalPersistenceError_constraint_violation operation error =
     \<lparr>ap_error_code = ''approval_constraint_violation'',
      ap_error_message = operation @ '' rejected by constraint: '' @ df_text error\<rparr>"

definition ApprovalPersistenceError_duplicate_request :: "string \<Rightarrow> constraint_fault \<Rightarrow> ApprovalPersistenceError" where
  "ApprovalPersistenceError_duplicate_request operation error =
     \<lparr>ap_error_code = ''approval_duplicate_request'',
      ap_error_message = operation @ '' rejected: duplicate approval request ('' @ df_text error @ '')''\<rparr>"

definition ApprovalPersistenceError_duplicate_vote :: "string \<Rightarrow> constraint_fault \<Rightarrow> ApprovalPersistenceError" where
  "ApprovalPersistenceError_duplicate_vote operation error =
     \<lparr>ap_error_code = ''approval_duplicate_vote'',
      ap_error_message = operation @ '' rejected: duplicate actor vote ('' @ df_text error @ '')''\<rparr>"

datatype DuplicateConstraintKind = Request | Vote

definition duplicate_constraint_kind :: "constraint_fault \<Rightarrow> DuplicateConstraintKind option" where
  "duplicate_constraint_kind error =
     (if df_code error \<noteq> Some ''23505'' then None
      else let constraint = (case df_constraint error of Some c \<Rightarrow> c | None \<Rightarrow> ''''); message = df_message error
      in if constraint = ''approval_requests_pkey'' \<or> text_contains message ''approval_requests_pkey''
         then Some DuplicateConstraintKind.Request
         else if constraint = ''approval_votes_pkey'' \<or> constraint = ''idx_approval_votes_request_actor_canonical_unique''
           \<or> text_contains message ''approval_votes_pkey''
           \<or> text_contains message ''idx_approval_votes_request_actor_canonical_unique''
         then Some DuplicateConstraintKind.Vote
         else None)"

definition classify_approval_query_error :: "string \<Rightarrow> constraint_fault \<Rightarrow> ApprovalPersistenceError" where
  "classify_approval_query_error operation error = (case duplicate_constraint_kind error of
      Some DuplicateConstraintKind.Request \<Rightarrow> ApprovalPersistenceError_duplicate_request operation error
    | Some DuplicateConstraintKind.Vote \<Rightarrow> ApprovalPersistenceError_duplicate_vote operation error
    | None \<Rightarrow>
        if is_constraint_error error then ApprovalPersistenceError_constraint_violation operation error
        else ApprovalPersistenceError_query_failure operation error)"

definition approval_sql :: "constraint_faults \<Rightarrow> string \<Rightarrow> constraint_fault option \<Rightarrow> 'a \<Rightarrow> ApprovalPersistenceError + 'a" where
  "approval_sql faults operation violated value =
     statement classify_approval_query_error (constrained faults violated) operation value"

section \<open>Tables\<close>

record approval_request_row =
  aw_request_id :: string
  aw_action_id :: string
  aw_proposer_actor_id :: string
  aw_status :: string
  aw_reason_code :: string
  aw_correlation_id :: string
  aw_approval_reference :: "string option"
  aw_created_at_utc :: string
  aw_expires_at_utc :: string

record approval_vote_row =
  vw_request_id :: string
  vw_actor_id :: string
  vw_decision :: string
  vw_correlation_id :: string
  vw_voted_at_utc :: string

record approval_store =
  as_requests :: "approval_request_row list"
  as_votes :: "approval_vote_row list"

definition empty_approval_store :: approval_store where
  "empty_approval_store = \<lparr>as_requests = [], as_votes = []\<rparr>"

definition request_row :: "string \<Rightarrow> approval_store \<Rightarrow> approval_request_row option" where
  "request_row request_id st = find (\<lambda>r. aw_request_id r = request_id) (as_requests st)"

definition request_violation :: "string \<Rightarrow> approval_store \<Rightarrow> constraint_fault option" where
  "request_violation request_id st =
     (if request_row request_id st \<noteq> None then Some (violation ''23505'' ''approval_requests_pkey'') else None)"

definition vote_violation :: "pg_types \<Rightarrow> ApprovalVoteRecord \<Rightarrow> approval_store \<Rightarrow> constraint_fault option" where
  "vote_violation P vote st =
     (if list_ex (\<lambda>r. vw_request_id r = av_request_id vote \<and> vw_actor_id r = av_actor_id vote) (as_votes st)
      then Some (violation ''23505'' ''approval_votes_pkey'')
      else if list_ex (\<lambda>r. vw_request_id r = av_request_id vote
          \<and> pg_lower_trim P (vw_actor_id r) = pg_lower_trim P (av_actor_id vote)) (as_votes st)
      then Some (violation ''23505'' ''idx_approval_votes_request_actor_canonical_unique'')
      else if request_row (av_request_id vote) st = None
      then Some (violation ''23503'' ''approval_votes_request_id_fkey'')
      else None)"

section \<open>Validation\<close>

definition validate_approval_non_empty :: "string \<Rightarrow> string \<Rightarrow> ApprovalPersistenceError + unit" where
  "validate_approval_non_empty field v =
     (if blank v then Inl (ApprovalPersistenceError_invalid_payload (field @ '' cannot be blank'')) else Inr ())"

definition parse_approval_store_timestamp :: "time_crate \<Rightarrow> string \<Rightarrow> string \<Rightarrow> ApprovalPersistenceError + int" where
  "parse_approval_store_timestamp T field v = (case rfc3339_parse T v of
      None \<Rightarrow> Inl (ApprovalPersistenceError_invalid_payload
        (''`'' @ field @ ''` must be RFC3339 UTC timestamp; got `'' @ v @ ''`''))
    | Some (t, off) \<Rightarrow> if off \<noteq> 0 then Inl (ApprovalPersistenceError_invalid_payload
        (''`'' @ field @ ''` must use UTC `Z` offset'')) else Inr t)"

definition validate_request :: "time_crate \<Rightarrow> ApprovalRequest \<Rightarrow> ApprovalPersistenceError + unit" where
  "validate_request T request =
     and_then (validate_approval_non_empty ''request_id'' (ar_request_id request)) (\<lambda>_.
     and_then (validate_approval_non_empty ''action_id'' (ar_action_id request)) (\<lambda>_.
     and_then (validate_approval_non_empty ''proposer_actor_id'' (ar_proposer_actor_id request)) (\<lambda>_.
     and_then (validate_approval_non_empty ''reason_code'' (ar_reason_code request)) (\<lambda>_.
     and_then (validate_approval_non_empty ''correlation_id'' (ar_correlation_id request)) (\<lambda>_.
     and_then (case ar_approval_reference request of
         Some reference \<Rightarrow> validate_approval_non_empty ''approval_reference'' reference
       | None \<Rightarrow> Inr ()) (\<lambda>_.
     and_then (map_err (\<lambda>error. ApprovalPersistenceError_invalid_payload (ac_message error))
       (CriticalActionId_parse (ar_action_id request))) (\<lambda>_.
     and_then (parse_approval_store_timestamp T ''created_at_utc'' (ar_created_at_utc request)) (\<lambda>created.
     and_then (parse_approval_store_timestamp T ''expires_at_utc'' (ar_expires_at_utc request)) (\<lambda>expires.
     if expires \<le> created then
       Inl (ApprovalPersistenceError_invalid_payload ''expires_at_utc must be greater than created_at_utc'')
     else Inr ())))))))))"

definition validate_vote :: "time_crate \<Rightarrow> ApprovalVoteRecord \<Rightarrow> ApprovalPersistenceError + unit" where
  "validate_vote T vote =
     and_then (validate_approval_non_empty ''request_id'' (av_request_id vote)) (\<lambda>_.
     and_then (validate_approval_non_empty ''actor_id'' (av_actor_id vote)) (\<lambda>_.
     and_then (validate_approval_non_empty ''correlation_id'' (av_correlation_id vote)) (\<lambda>_.
     and_then (parse_approval_store_timestamp T ''voted_at_utc'' (av_voted_at_utc vote)) (\<lambda>_. Inr ()))))"

section \<open>Statements\<close>

definition approval_request_row_of :: "ApprovalRequest \<Rightarrow> approval_request_row" where
  "approval_request_row_of request =
     \<lparr>aw_request_id = ar_request_id request, aw_action_id = ar_action_id request,
      aw_proposer_actor_id = ar_proposer_actor_id request, aw_status = ApprovalState_as_str (ar_status request),
      aw_reason_code = ar_reason_code request, aw_correlation_id = ar_correlation_id request,
      aw_approval_reference = ar_approval_reference request, aw_created_at_utc = ar_created_at_utc request,
      aw_expires_at_utc = ar_expires_at_utc request\<rparr>"

definition approval_vote_row_of :: "ApprovalVoteRecord \<Rightarrow> approval_vote_row" where
  "approval_vote_row_of vote =
     \<lparr>vw_request_id = av_request_id vote, vw_actor_id = av_actor_id vote,
      vw_decision = ApprovalVoteDecision_as_str (av_decision vote), vw_correlation_id = av_correlation_id vote,
      vw_voted_at_utc = av_voted_at_utc vote\<rparr>"

definition create_approval_request ::
    "time_crate \<Rightarrow> constraint_faults \<Rightarrow> ApprovalRequest \<Rightarrow> approval_store
      \<Rightarrow> (ApprovalPersistenceError + unit) \<times> approval_store" where
  "create_approval_request T faults request = transact (\<lambda>st.
     and_then (validate_request T request) (\<lambda>_.
     and_then (approval_sql faults ''create_approval_request'' (request_violation (ar_request_id request) st) ()) (\<lambda>_.
     Inr ((), st\<lparr>as_requests := approval_request_row_of request # as_requests st\<rparr>))))"

definition record_approval_vote ::
    "time_crate \<Rightarrow> pg_types \<Rightarrow> constraint_faults \<Rightarrow> ApprovalVoteRecord \<Rightarrow> approval_store
      \<Rightarrow> (ApprovalPersistenceError + unit) \<times> approval_store" where
  "record_approval_vote T P faults vote = transact (\<lambda>st.
     and_then (validate_vote T vote) (\<lambda>_.
     and_then (approval_sql faults ''record_approval_vote'' (vote_violation P vote st) ()) (\<lambda>_.
     Inr ((), st\<lparr>as_votes := approval_vote_row_of vote # as_votes st\<rparr>))))"

definition decode_approval_request_row ::
    "pg_types \<Rightarrow> approval_request_row \<Rightarrow> ApprovalPersistenceError + ApprovalRequest" where
  "decode_approval_request_row P row =
     and_then (map_err (\<lambda>error. ApprovalPersistenceError_invalid_payload (ac_message error))
       (CriticalActionId_parse (aw_action_id row))) (\<lambda>_.
     and_then (map_err (\<lambda>error. ApprovalPersistenceError_invalid_payload (ac_message error))
       (ApprovalState_parse (aw_status row))) (\<lambda>status.
     Inr \<lparr>ar_request_id = aw_request_id row, ar_action_id = aw_action_id row,
       ar_proposer_actor_id = aw_proposer_actor_id row, ar_status = status, ar_reason_code = aw_reason_code row,
       ar_correlation_id = aw_correlation_id row, ar_approval_reference = aw_approval_reference row,
       ar_created_at_utc = pg_to_char P (aw_created_at_utc row),
       ar_expires_at_utc = pg_to_char P (aw_expires_at_utc row)\<rparr>))"

definition load_approval_request ::
    "pg_types \<Rightarrow> constraint_faults \<Rightarrow> string \<Rightarrow> approval_store
      \<Rightarrow> ApprovalPersistenceError + ApprovalRequest option" where
  "load_approval_request P faults request_id st =
     and_then (validate_approval_non_empty ''request_id'' request_id) (\<lambda>_.
     and_then (approval_sql faults ''load_approval_request'' None (request_row request_id st)) (\<lambda>row.
     case row of None \<Rightarrow> Inr None
     | Some row \<Rightarrow> and_then (decode_approval_request_row P row) (\<lambda>request. Inr (Some request))))"

definition decode_approval_vote_row ::
    "pg_types \<Rightarrow> approval_vote_row \<Rightarrow> ApprovalPersistenceError + ApprovalVoteRecord" where
  "decode_approval_vote_row P row =
     and_then (map_err (\<lambda>error. ApprovalPersistenceError_invalid_payload (ac_message error))
       (ApprovalVoteDecision_parse (vw_decision row))) (\<lambda>decision.
     Inr \<lparr>av_request_id = vw_request_id row, av_actor_id = vw_actor_id row, av_decision = decision,
       av_correlation_id = vw_correlation_id row, av_voted_at_utc = pg_to_char P (vw_voted_at_utc row)\<rparr>)"

fun collect_results :: "('e + 'a) list \<Rightarrow> 'e + 'a list" where
  "collect_results [] = Inr []"
| "collect_results (r # rs) = and_then r (\<lambda>a. and_then (collect_results rs) (\<lambda>as. Inr (a # as)))"

text \<open>
  \<open>ORDER BY voted_at_utc ASC\<close>; votes of the same instant, whose order the query leaves open, come
  newest first.
\<close>

definition load_approval_votes ::
    "pg_types \<Rightarrow> constraint_faults \<Rightarrow> string \<Rightarrow> approval_store
      \<Rightarrow> ApprovalPersistenceError + ApprovalVoteRecord list" where
  "load_approval_votes P faults request_id st =
     and_then (validate_approval_non_empty ''request_id'' request_id) (\<lambda>_.
     and_then (approval_sql faults ''load_approval_votes'' None
       (sort_key (\<lambda>r. pg_instant P (vw_voted_at_utc r)) (filter (\<lambda>r. vw_request_id r = request_id) (as_votes st)))) (\<lambda>rows.
     collect_results (map (decode_approval_vote_row P) rows)))"

definition U32_MAX :: int where
  "U32_MAX = 4294967295"

definition actor_requests_since :: "pg_types \<Rightarrow> string \<Rightarrow> string \<Rightarrow> approval_store \<Rightarrow> approval_request_row list" where
  "actor_requests_since P actor_id since_utc st =
     filter (\<lambda>r. pg_lower_trim P (aw_proposer_actor_id r) = pg_lower_trim P actor_id
       \<and> pg_instant P since_utc \<le> pg_instant P (aw_created_at_utc r)) (as_requests st)"

definition count_actor_requests_since ::
    "time_crate \<Rightarrow> pg_types \<Rightarrow> constraint_faults \<Rightarrow> string \<Rightarrow> string \<Rightarrow> approval_store
      \<Rightarrow> ApprovalPersistenceError + nat" where
  "count_actor_requests_since T P faults actor_id since_utc st =
     and_then (validate_approval_non_empty ''actor_id'' actor_id) (\<lambda>_.
     and_then (parse_approval_store_timestamp T ''since_utc'' since_utc) (\<lambda>_.
     and_then (approval_sql faults ''count_actor_requests_since'' None
       (length (actor_requests_since P actor_id since_utc st))) (\<lambda>count.
     if int count \<le> U32_MAX then Inr count
     else Inl (ApprovalPersistenceError_invalid_payload ''request_count exceeded u32 range''))))"

definition update_approval_request ::
    "constraint_faults \<Rightarrow> string \<Rightarrow> ApprovalState \<Rightarrow> string \<Rightarrow> string option \<Rightarrow> approval_store
      \<Rightarrow> (ApprovalPersistenceError + unit) \<times> approval_store" where
  "update_approval_request faults request_id status reason_code approval_reference = transact (\<lambda>st.
     and_then (validate_approval_non_empty ''request_id'' request_id) (\<lambda>_.
     and_then (validate_approval_non_empty ''reason_code'' reason_code) (\<lambda>_.
     and_then (case approval_reference of
         Some reference \<Rightarrow> validate_approval_non_empty ''approval_reference'' reference
       | None \<Rightarrow> Inr ()) (\<lambda>_.
     and_then (approval_sql faults ''update_approval_request'' None ()) (\<lambda>_.
     if request_row request_id st = None then Inl (ApprovalPersistenceError_request_not_found request_id)
     else Inr ((), st\<lparr>as_requests := map (\<lambda>r. if aw_request_id r = request_id
         then r\<lparr>aw_status := ApprovalState_as_str status, aw_reason_code := reason_code,
                aw_approval_reference := approval_reference\<rparr>
         else r) (as_requests st)\<rparr>))))))"

end
