(* ===== verification/Effects.thy ===== *)
theory Effects
  imports Prelude
begin

text \<open>
  Fallible operations on a state, and the \<open>?\<close> operator over them: an error returns at once,
  with the state as it was left. The services that call a repository through a port are written
  in it.
\<close>

type_synonym ('s, 'e, 'a) effect = "'s \<Rightarrow> ('e + 'a) \<times> 's"

definition answer :: "'a \<Rightarrow> ('s, 'e, 'a) effect" where
  "answer a s = (Inr a, s)"

definition refuse :: "'e \<Rightarrow> ('s, 'e, 'a) effect" where
  "refuse e s = (Inl e, s)"

definition pure_result :: "'e + 'a \<Rightarrow> ('s, 'e, 'a) effect" where
  "pure_result r s = (r, s)"

definition run_then :: "('s, 'e, 'a) effect \<Rightarrow> ('a \<Rightarrow> ('s, 'e, 'b) effect) \<Rightarrow> ('s, 'e, 'b) effect" where
  "run_then m f s = (case m s of (Inl e, t) \<Rightarrow> (Inl e, t) | (Inr a, t) \<Rightarrow> f a t)"

text \<open>\<open>if let Err(error) = ... { ... }\<close>: an error is handled instead of returned.\<close>

definition run_catch :: "('s, 'e, 'a) effect \<Rightarrow> ('e \<Rightarrow> ('s, 'f, 'b) effect) \<Rightarrow> ('a \<Rightarrow> ('s, 'f, 'b) effect)
    \<Rightarrow> ('s, 'f, 'b) effect" where
  "run_catch m h f s = (case m s of (Inl e, t) \<Rightarrow> h e t | (Inr a, t) \<Rightarrow> f a t)"

lemma run_answer [simp]: "answer a s = (r, t) \<longleftrightarrow> r = Inr a \<and> t = s"
  by (auto simp: answer_def)

lemma run_refuse [simp]: "refuse e s = (r, t) \<longleftrightarrow> r = Inl e \<and> t = s"
  by (auto simp: refuse_def)

lemma run_pure [simp]: "pure_result r s = (r', t) \<longleftrightarrow> r' = r \<and> t = s"
  by (auto simp: pure_result_def)

lemma run_then_iff:
  "run_then m f s = (r, t) \<longleftrightarrow>
     (\<exists>e. m s = (Inl e, t) \<and> r = Inl e) \<or> (\<exists>a u. m s = (Inr a, u) \<and> f a u = (r, t))"
  by (auto simp: run_then_def split: prod.splits sum.splits)

lemma run_catch_iff:
  "run_catch m h f s = (r, t) \<longleftrightarrow>
     (\<exists>e u. m s = (Inl e, u) \<and> h e u = (r, t)) \<or> (\<exists>a u. m s = (Inr a, u) \<and> f a u = (r, t))"
  by (auto simp: run_catch_def split: prod.splits sum.splits)

lemma run_then_Inr: "run_then m f s = (Inr b, t) \<longleftrightarrow> (\<exists>a u. m s = (Inr a, u) \<and> f a u = (Inr b, t))"
  by (simp add: run_then_iff)

lemma run_then_step: "m s = (Inr a, u) \<Longrightarrow> run_then m f s = f a u"
  by (simp add: run_then_def)

lemma run_then_error: "m s = (Inl e, u) \<Longrightarrow> run_then m f s = (Inl e, u)"
  by (simp add: run_then_def)

lemma run_then_pure [simp]:
  "run_then (pure_result (Inr a)) f = f a" "run_then (pure_result (Inl e)) f = refuse e"
  "run_then (answer a) f = f a"
  by (auto simp: run_then_def pure_result_def answer_def refuse_def)

text \<open>
  Every run of \<open>m\<close> from \<open>s\<close> ends with a result and a state that satisfy \<open>Q\<close>. The equations
  reduce the statement to the port calls of an operation, in the order it makes them.
\<close>

definition wp :: "('s, 'e, 'a) effect \<Rightarrow> 's \<Rightarrow> ('e + 'a \<Rightarrow> 's \<Rightarrow> bool) \<Rightarrow> bool" where
  "wp m s Q \<longleftrightarrow> (\<forall>r t. m s = (r, t) \<longrightarrow> Q r t)"

lemma wpD: "wp m s Q \<Longrightarrow> m s = (r, t) \<Longrightarrow> Q r t"
  by (simp add: wp_def)

lemma wpI: "(\<And>r t. m s = (r, t) \<Longrightarrow> Q r t) \<Longrightarrow> wp m s Q"
  by (simp add: wp_def)

lemma wp_mono: "wp m s P \<Longrightarrow> (\<And>r t. P r t \<Longrightarrow> Q r t) \<Longrightarrow> wp m s Q"
  by (simp add: wp_def)

lemma wp_return [simp]:
  "wp (answer a) s Q \<longleftrightarrow> Q (Inr a) s" "wp (refuse e) s Q \<longleftrightarrow> Q (Inl e) s" "wp (pure_result r) s Q \<longleftrightarrow> Q r s"
  by (auto simp: wp_def)

lemma wp_then: "wp (run_then m f) s Q \<longleftrightarrow> wp m s (\<lambda>r t. case r of Inl e \<Rightarrow> Q (Inl e) t | Inr a \<Rightarrow> wp (f a) t Q)"
  by (auto simp: wp_def run_then_def split: prod.splits sum.splits)

lemma wp_catch: "wp (run_catch m h f) s Q \<longleftrightarrow> wp m s (\<lambda>r t. case r of Inl e \<Rightarrow> wp (h e) t Q | Inr a \<Rightarrow> wp (f a) t Q)"
  by (auto simp: wp_def run_catch_def split: prod.splits sum.splits)

end
