(* ===== verification/ApprovalRepository.thy ===== *)
theory ApprovalRepository
  imports ApprovalStore Effects
begin

text \<open>
  The repository port of \<open>services/governance-service/src/approvals/mod.rs\<close> and its two
  implementations: the one over PostgreSQL, whose statements fail as a schedule of faults says,
  and the one in memory. The locale states what the service relies on, and both implementations
  are interpretations of it.
\<close>

section \<open>Errors\<close>

record ApprovalServiceError =
  as_error_code :: string
  as_error_message :: string

definition ApprovalServiceError_invalid_payload :: "string \<Rightarrow> ApprovalServiceError" where
  "ApprovalServiceError_invalid_payload message =
     \<lparr>as_error_code = ''approval_invalid_payload'', as_error_message = message\<rparr>"

definition ApprovalServiceError_persistence_unavailable :: "string \<Rightarrow> ApprovalServiceError" where
  "ApprovalServiceError_persistence_unavailable message =
     \<lparr>as_error_code = ''approval_persistence_unavailable'', as_error_message = message\<rparr>"

definition ApprovalServiceError_duplicate_request :: "string \<Rightarrow> ApprovalServiceError" where
  "ApprovalServiceError_duplicate_request request_id =
     \<lparr>as_error_code = ''approval_duplicate_request'',
      as_error_message = ''approval request `'' @ request_id @ ''` already exists''\<rparr>"

definition map_approval_persistence_error :: "ApprovalPersistenceError \<Rightarrow> ApprovalServiceError" where
  "map_approval_persistence_error error =
     (if ap_error_code error = ''approval_query_failed'' \<or> ap_error_code error = ''approval_row_decode_failed''
      then ApprovalServiceError_persistence_unavailable (ap_error_message error)
      else \<lparr>as_error_code = ap_error_code error, as_error_message = ap_error_message error\<rparr>)"

definition parse_service_utc :: "time_crate \<Rightarrow> string \<Rightarrow> string \<Rightarrow> ApprovalServiceError + int" where
  "parse_service_utc T field v = (case rfc3339_parse T v of
      None \<Rightarrow> Inl (ApprovalServiceError_invalid_payload
        (''`'' @ field @ ''` must be RFC3339 UTC timestamp; got `'' @ v @ ''`''))
    | Some (t, off) \<Rightarrow> if off \<noteq> 0 then Inl (ApprovalServiceError_invalid_payload
        (''`'' @ field @ ''` must use UTC `Z` offset'')) else Inr t)"

lemma parse_service_utc_Inr [simp]: "parse_service_utc T field v = Inr t \<longleftrightarrow> parse_utc_timestamp T v = Some t"
  by (auto simp: parse_service_utc_def parse_utc_timestamp_def split: option.splits)

section \<open>The port\<close>

record 's ApprovalRepositoryPort =
  repo_create_request :: "ApprovalRequest \<Rightarrow> ('s, ApprovalServiceError, unit) effect"
  repo_fetch_request :: "string \<Rightarrow> ('s, ApprovalServiceError, ApprovalRequest option) effect"
  repo_update_request :: "string \<Rightarrow> ApprovalState \<Rightarrow> ApprovalReasonCode \<Rightarrow> string option
      \<Rightarrow> ('s, ApprovalServiceError, unit) effect"
  repo_record_vote :: "ApprovalVoteRecord \<Rightarrow> ('s, ApprovalServiceError, unit) effect"
  repo_fetch_votes :: "string \<Rightarrow> ('s, ApprovalServiceError, ApprovalVoteRecord list) effect"
  repo_count_actor_requests_since :: "string \<Rightarrow> string \<Rightarrow> ('s, ApprovalServiceError, nat) effect"

section \<open>Over PostgreSQL\<close>

text \<open>\<open>run_with_runtime\<close>: the n-th call meets the n-th faults of the schedule.\<close>

definition pg_call ::
    "(constraint_faults \<Rightarrow> approval_store \<Rightarrow> (ApprovalPersistenceError + 'a) \<times> approval_store)
      \<Rightarrow> (nat \<Rightarrow> constraint_faults) \<Rightarrow> (approval_store \<times> nat, ApprovalServiceError, 'a) effect" where
  "pg_call f schedule s =
     (let (r, st) = f (schedule (snd s)) (fst s)
      in (map_err map_approval_persistence_error r, (st, Suc (snd s))))"

definition PostgresApprovalRepository ::
    "time_crate \<Rightarrow> pg_types \<Rightarrow> (nat \<Rightarrow> constraint_faults) \<Rightarrow> (approval_store \<times> nat) ApprovalRepositoryPort" where
  "PostgresApprovalRepository T P schedule =
     \<lparr>repo_create_request = (\<lambda>request. pg_call (\<lambda>faults. create_approval_request T faults request) schedule),
      repo_fetch_request = (\<lambda>request_id. pg_call (\<lambda>faults st. (load_approval_request P faults request_id st, st)) schedule),
      repo_update_request = (\<lambda>request_id status reason_code approval_reference.
        pg_call (\<lambda>faults. update_approval_request faults request_id status
          (ApprovalReasonCode_code reason_code) approval_reference) schedule),
      repo_record_vote = (\<lambda>vote. pg_call (\<lambda>faults. record_approval_vote T P faults vote) schedule),
      repo_fetch_votes = (\<lambda>request_id. pg_call (\<lambda>faults st. (load_approval_votes P faults request_id st, st)) schedule),
      repo_count_actor_requests_since = (\<lambda>actor_id since_utc.
        pg_call (\<lambda>faults st. (count_actor_requests_since T P faults actor_id since_utc st, st)) schedule)\<rparr>"

section \<open>In memory\<close>

text \<open>The request map is a list of its values, newest first: the keys are their ids.\<close>

record InMemoryApprovalRepository =
  ma_requests :: "ApprovalRequest list"
  ma_votes :: "ApprovalVoteRecord list"

definition InMemoryApprovalRepository_default :: InMemoryApprovalRepository where
  "InMemoryApprovalRepository_default = \<lparr>ma_requests = [], ma_votes = []\<rparr>"

definition ma_find :: "string \<Rightarrow> InMemoryApprovalRepository \<Rightarrow> ApprovalRequest option" where
  "ma_find request_id s = find (\<lambda>q. ar_request_id q = request_id) (ma_requests s)"

definition memory_create_request ::
    "ApprovalRequest \<Rightarrow> (InMemoryApprovalRepository, ApprovalServiceError, unit) effect" where
  "memory_create_request request s =
     (if ma_find (ar_request_id request) s \<noteq> None
      then refuse (ApprovalServiceError_duplicate_request (ar_request_id request)) s
      else answer () (s\<lparr>ma_requests := request # ma_requests s\<rparr>))"

definition memory_update_request ::
    "string \<Rightarrow> ApprovalState \<Rightarrow> ApprovalReasonCode \<Rightarrow> string option
      \<Rightarrow> (InMemoryApprovalRepository, ApprovalServiceError, unit) effect" where
  "memory_update_request request_id status reason_code approval_reference s =
     (if ma_find request_id s = None
      then refuse (ApprovalServiceError_invalid_payload (''approval request `'' @ request_id @ ''` does not exist'')) s
      else answer () (s\<lparr>ma_requests := map (\<lambda>q. if ar_request_id q = request_id
          then q\<lparr>ar_status := status, ar_reason_code := ApprovalReasonCode_code reason_code,
                 ar_approval_reference := approval_reference\<rparr>
          else q) (ma_requests s)\<rparr>))"

definition memory_count_actor_requests_since ::
    "time_crate \<Rightarrow> string \<Rightarrow> string \<Rightarrow> (InMemoryApprovalRepository, ApprovalServiceError, nat) effect" where
  "memory_count_actor_requests_since T actor_id since_utc =
     run_then (pure_result (parse_service_utc T ''since_utc'' since_utc)) (\<lambda>since s.
       answer (nat (int (length (filter (\<lambda>q.
           canonical_actor_id (ar_proposer_actor_id q) = canonical_actor_id actor_id
           \<and> (case rfc3339_parse T (ar_created_at_utc q) of Some (timestamp, _) \<Rightarrow> since \<le> timestamp | None \<Rightarrow> False))
         (ma_requests s))) mod (U32_MAX + 1))) s)"

definition InMemoryApprovalRepository_port :: "time_crate \<Rightarrow> InMemoryApprovalRepository ApprovalRepositoryPort" where
  "InMemoryApprovalRepository_port T =
     \<lparr>repo_create_request = memory_create_request,
      repo_fetch_request = (\<lambda>request_id s. answer (ma_find request_id s) s),
      repo_update_request = memory_update_request,
      repo_record_vote = (\<lambda>vote s. answer () (s\<lparr>ma_votes := ma_votes s @ [vote]\<rparr>)),
      repo_fetch_votes = (\<lambda>request_id s. answer (filter (\<lambda>v. av_request_id v = request_id) (ma_votes s)) s),
      repo_count_actor_requests_since = memory_count_actor_requests_since T\<rparr>"

section \<open>The contract\<close>

text \<open>
  What a repository is to the service: the request each id reads as, and the votes of each id. A
  call that fails changes neither, a read changes neither, and a write that succeeds changes what
  it says. What a request is read back as may differ from what was written in its times only.
\<close>

definition same_request :: "ApprovalRequest \<Rightarrow> ApprovalRequest \<Rightarrow> bool" where
  "same_request q r \<longleftrightarrow> ar_request_id q = ar_request_id r \<and> ar_action_id q = ar_action_id r
     \<and> ar_proposer_actor_id q = ar_proposer_actor_id r \<and> ar_status q = ar_status r
     \<and> ar_reason_code q = ar_reason_code r \<and> ar_correlation_id q = ar_correlation_id r
     \<and> ar_approval_reference q = ar_approval_reference r"

definition same_vote :: "ApprovalVoteRecord \<Rightarrow> ApprovalVoteRecord \<Rightarrow> bool" where
  "same_vote v w \<longleftrightarrow> av_request_id v = av_request_id w \<and> av_actor_id v = av_actor_id w
     \<and> av_decision v = av_decision w \<and> av_correlation_id v = av_correlation_id w"

definition settled :: "ApprovalState \<Rightarrow> ApprovalReasonCode \<Rightarrow> string option \<Rightarrow> ApprovalRequest \<Rightarrow> ApprovalRequest" where
  "settled status reason_code approval_reference q =
     q\<lparr>ar_status := status, ar_reason_code := ApprovalReasonCode_code reason_code,
       ar_approval_reference := approval_reference\<rparr>"

locale approval_repository =
  fixes repo :: "'s ApprovalRepositoryPort"
    and request_of :: "'s \<Rightarrow> string \<Rightarrow> ApprovalRequest option"
    and votes_of :: "'s \<Rightarrow> string \<Rightarrow> ApprovalVoteRecord set"
    and inv :: "'s \<Rightarrow> bool"
  assumes named: "request_of s k = Some q \<Longrightarrow> ar_request_id q = k"
    and create_error: "inv s \<Longrightarrow> repo_create_request repo q s = (Inl e, t)
      \<Longrightarrow> inv t \<and> request_of t = request_of s \<and> votes_of t = votes_of s"
    and create: "inv s \<Longrightarrow> repo_create_request repo q s = (Inr (), t) \<Longrightarrow> inv t \<and> request_of s (ar_request_id q) = None
      \<and> (\<exists>q'. same_request q' q \<and> request_of t = (request_of s)(ar_request_id q \<mapsto> q')) \<and> votes_of t = votes_of s"
    and fetch: "inv s \<Longrightarrow> repo_fetch_request repo k s = (rq, t)
      \<Longrightarrow> inv t \<and> request_of t = request_of s \<and> votes_of t = votes_of s \<and> (\<forall>q. rq = Inr q \<longrightarrow> q = request_of s k)"
    and update_error: "inv s \<Longrightarrow> repo_update_request repo k status reason_code reference s = (Inl e, t)
      \<Longrightarrow> inv t \<and> request_of t = request_of s \<and> votes_of t = votes_of s"
    and update: "inv s \<Longrightarrow> repo_update_request repo k status reason_code reference s = (Inr (), t)
      \<Longrightarrow> inv t \<and> request_of t = (request_of s)(k := map_option (settled status reason_code reference) (request_of s k))
        \<and> votes_of t = votes_of s"
    and vote_error: "inv s \<Longrightarrow> repo_record_vote repo v s = (Inl e, t)
      \<Longrightarrow> inv t \<and> request_of t = request_of s \<and> votes_of t = votes_of s"
    and vote: "inv s \<Longrightarrow> repo_record_vote repo v s = (Inr (), t) \<Longrightarrow> inv t \<and> request_of t = request_of s
      \<and> (\<exists>v'. same_vote v' v \<and> votes_of t = (votes_of s)(av_request_id v := insert v' (votes_of s (av_request_id v))))"
    and fetch_votes: "inv s \<Longrightarrow> repo_fetch_votes repo k s = (rv, t) \<Longrightarrow> inv t \<and> request_of t = request_of s \<and> votes_of t = votes_of s
      \<and> (\<forall>vs. rv = Inr vs \<longrightarrow> set vs = votes_of s k)"
    and count: "inv s \<Longrightarrow> repo_count_actor_requests_since repo a since s = (rn, t)
      \<Longrightarrow> inv t \<and> request_of t = request_of s \<and> votes_of t = votes_of s"

section \<open>Both implementations satisfy it\<close>

lemma collect_results_Inr: "collect_results rs = Inr vs \<Longrightarrow> rs = map Inr vs"
  by (induction rs arbitrary: vs) (auto simp: and_then_Inr_iff)

subsection \<open>In memory\<close>

definition memory_votes :: "InMemoryApprovalRepository \<Rightarrow> string \<Rightarrow> ApprovalVoteRecord set" where
  "memory_votes s k = {v \<in> set (ma_votes s). av_request_id v = k}"

lemma ma_find_update:
  "ma_find j (s\<lparr>ma_requests := map (\<lambda>q. if ar_request_id q = k then q\<lparr>ar_status := a, ar_reason_code := b,
     ar_approval_reference := c\<rparr> else q) (ma_requests s)\<rparr>)
   = (if j = k then map_option (\<lambda>q. q\<lparr>ar_status := a, ar_reason_code := b, ar_approval_reference := c\<rparr>) (ma_find j s)
      else ma_find j s)"
proof -
  let ?f = "\<lambda>q. if ar_request_id q = k then q\<lparr>ar_status := a, ar_reason_code := b, ar_approval_reference := c\<rparr> else q"
  have "ma_find j (s\<lparr>ma_requests := map ?f (ma_requests s)\<rparr>) = map_option ?f (ma_find j s)"
    unfolding ma_find_def by (simp add: find_map_key[where key = ar_request_id])
  also have "\<dots> = (if j = k then map_option (\<lambda>q. q\<lparr>ar_status := a, ar_reason_code := b, ar_approval_reference := c\<rparr>)
      (ma_find j s) else ma_find j s)"
    unfolding ma_find_def by (cases "find (\<lambda>q. ar_request_id q = j) (ma_requests s)") (auto dest: find_key)
  finally show ?thesis .
qed

interpretation memory_repository: approval_repository "InMemoryApprovalRepository_port T"
  "\<lambda>s k. ma_find k s" memory_votes "\<lambda>_. True" for T
proof (unfold_locales, goal_cases)
  case (1 s k q)
  then show ?case unfolding ma_find_def by (rule find_key)
next
  case (3 s q t)
  then show ?case
    by (auto simp: InMemoryApprovalRepository_port_def memory_create_request_def same_request_def fun_eq_iff ma_find_def
        memory_votes_def answer_def refuse_def split: if_splits)
next
  case (6 s k status reason_code reference t)
  then have t: "t = s\<lparr>ma_requests := map (\<lambda>q. if ar_request_id q = k then q\<lparr>ar_status := status,
      ar_reason_code := ApprovalReasonCode_code reason_code, ar_approval_reference := reference\<rparr> else q) (ma_requests s)\<rparr>"
    by (auto simp: InMemoryApprovalRepository_port_def memory_update_request_def answer_def refuse_def split: if_splits)
  have eq: "settled status reason_code reference = (\<lambda>q. q\<lparr>ar_status := status,
      ar_reason_code := ApprovalReasonCode_code reason_code, ar_approval_reference := reference\<rparr>)"
    by (simp add: settled_def fun_eq_iff)
  then show ?case
    unfolding t ma_find_update eq by (auto simp: fun_eq_iff memory_votes_def)
next
  case (8 s v t)
  then show ?case
    by (auto simp: InMemoryApprovalRepository_port_def answer_def same_vote_def memory_votes_def fun_eq_iff ma_find_def
        intro!: exI[of _ v])
next
  case (10 s a since rn t)
  then show ?case
    by (auto simp: InMemoryApprovalRepository_port_def memory_count_actor_requests_since_def run_then_iff)
qed (auto simp: InMemoryApprovalRepository_port_def memory_create_request_def memory_update_request_def answer_def
    refuse_def memory_votes_def split: if_splits)

subsection \<open>Over PostgreSQL\<close>

definition stored_request :: "pg_types \<Rightarrow> approval_store \<times> nat \<Rightarrow> string \<Rightarrow> ApprovalRequest option" where
  "stored_request P s k = Option.bind (request_row k (fst s))
     (\<lambda>row. case decode_approval_request_row P row of Inr q \<Rightarrow> Some q | Inl _ \<Rightarrow> None)"

definition stored_votes :: "pg_types \<Rightarrow> approval_store \<times> nat \<Rightarrow> string \<Rightarrow> ApprovalVoteRecord set" where
  "stored_votes P s k =
     {v. \<exists>row\<in>set (as_votes (fst s)). vw_request_id row = k \<and> decode_approval_vote_row P row = Inr v}"

text \<open>The stored rows have the actions and states the migration's checks allow.\<close>

definition readable_row :: "approval_request_row \<Rightarrow> bool" where
  "readable_row row \<longleftrightarrow> \<not> isl (CriticalActionId_parse (aw_action_id row)) \<and> \<not> isl (ApprovalState_parse (aw_status row))"

definition readable_store :: "approval_store \<times> nat \<Rightarrow> bool" where
  "readable_store s \<longleftrightarrow> (\<forall>row\<in>set (as_requests (fst s)). readable_row row)"

lemma approval_sql_Inr [simp]:
  "approval_sql faults op violated v = Inr w \<longleftrightarrow> faults op = None \<and> violated = None \<and> v = w"
  by (auto simp: approval_sql_def constrained_def split: option.splits)

lemma pg_call_iff:
  "pg_call f schedule s = (r, t) \<longleftrightarrow>
     (\<exists>r' st. f (schedule (snd s)) (fst s) = (r', st) \<and> map_err map_approval_persistence_error r' = r \<and> t = (st, Suc (snd s)))"
  by (auto simp: pg_call_def Let_def split: prod.splits)

lemma pg_call_error:
  assumes "pg_call f schedule s = (Inl e, t)" and "\<And>faults. f faults = transact (tx faults)"
  shows "t = (fst s, Suc (snd s))"
  using assms by (auto simp: pg_call_iff map_err_Inl_iff dest: transact_Inl)

lemma stored_counter [simp]:
  "stored_request P (fst s, n) = stored_request P s" "stored_votes P (fst s, n) = stored_votes P s"
  "readable_store (fst s, n) = readable_store s"
  by (simp_all add: stored_request_def stored_votes_def readable_store_def fun_eq_iff)

lemma decode_row_of:
  assumes "validate_request T q = Inr ()"
  shows "\<exists>q'. decode_approval_request_row P (approval_request_row_of q) = Inr q' \<and> same_request q' q"
proof -
  obtain a where "CriticalActionId_parse (ar_action_id q) = Inr a"
    using assms by (auto simp: validate_request_def and_then_Inr_iff)
  then show ?thesis
    by (simp add: decode_approval_request_row_def approval_request_row_of_def same_request_def)
qed

lemma decode_vote_row_of: "\<exists>v'. decode_approval_vote_row P (approval_vote_row_of v) = Inr v' \<and> same_vote v' v"
  by (simp add: decode_approval_vote_row_def approval_vote_row_of_def same_vote_def)

lemma readable_decodes: "readable_row row \<Longrightarrow> \<exists>q. decode_approval_request_row P row = Inr q \<and> ar_request_id q = aw_request_id row"
  by (auto simp: readable_row_def decode_approval_request_row_def elim!: is_okE)

lemma decode_request_id: "decode_approval_request_row P row = Inr q \<Longrightarrow> ar_request_id q = aw_request_id row"
  by (auto simp: decode_approval_request_row_def and_then_Inr_iff)

lemma decode_updated_row:
  assumes "readable_row row" "decode_approval_request_row P row = Inr q"
  shows "decode_approval_request_row P (row\<lparr>aw_status := ApprovalState_as_str status,
      aw_reason_code := ApprovalReasonCode_code reason_code, aw_approval_reference := reference\<rparr>)
    = Inr (settled status reason_code reference q)"
  using assms by (auto simp: readable_row_def decode_approval_request_row_def settled_def elim!: is_okE)

lemma load_request_Inr:
  "load_approval_request P faults k st = Inr q \<Longrightarrow> q = stored_request P (st, n) k"
  by (auto simp: load_approval_request_def and_then_Inr_iff stored_request_def split: option.splits)

lemma load_votes_Inr:
  assumes "load_approval_votes P faults k st = Inr vs"
  shows "set vs = stored_votes P (st, n) k"
proof -
  let ?rows = "sort_key (\<lambda>r. pg_instant P (vw_voted_at_utc r)) (filter (\<lambda>r. vw_request_id r = k) (as_votes st))"
  have eq: "map (decode_approval_vote_row P) ?rows = map Inr vs"
    using assms by (auto simp: load_approval_votes_def and_then_Inr_iff dest: collect_results_Inr)
  have "Inr ` set vs = decode_approval_vote_row P ` set ?rows"
    by (metis eq set_map)
  then have "v \<in> set vs \<longleftrightarrow> (\<exists>row\<in>set ?rows. decode_approval_vote_row P row = Inr v)" for v
    by (metis (no_types, lifting) image_iff sum.inject(2))
  then show ?thesis by (auto simp: stored_votes_def)
qed

lemma create_Inr:
  assumes "create_approval_request T faults q st = (Inr (), st')"
  shows "validate_request T q = Inr ()" "request_row (ar_request_id q) st = None"
    "st' = st\<lparr>as_requests := approval_request_row_of q # as_requests st\<rparr>"
  using assms
  by (auto simp: create_approval_request_def transact_Inr and_then_Inr_iff request_violation_def split: if_splits)

lemma created_row:
  "request_row k (st\<lparr>as_requests := approval_request_row_of q # as_requests st\<rparr>)
   = (if k = ar_request_id q then Some (approval_request_row_of q) else request_row k st)"
  by (simp add: request_row_def approval_request_row_of_def)

lemma update_Inr:
  assumes "update_approval_request faults k status reason_code reference st = (Inr (), st')"
  shows "st' = st\<lparr>as_requests := map (\<lambda>r. if aw_request_id r = k
         then r\<lparr>aw_status := ApprovalState_as_str status, aw_reason_code := reason_code,
                aw_approval_reference := reference\<rparr> else r) (as_requests st)\<rparr>"
  using assms
  by (auto simp: update_approval_request_def transact_Inr and_then_Inr_iff split: if_splits)

lemma updated_row:
  "request_row j (st\<lparr>as_requests := map (\<lambda>r. if aw_request_id r = k
         then r\<lparr>aw_status := a, aw_reason_code := b, aw_approval_reference := c\<rparr> else r) (as_requests st)\<rparr>)
   = (if j = k then map_option (\<lambda>r. r\<lparr>aw_status := a, aw_reason_code := b, aw_approval_reference := c\<rparr>) (request_row j st)
      else request_row j st)"
proof -
  let ?f = "\<lambda>r. if aw_request_id r = k then r\<lparr>aw_status := a, aw_reason_code := b, aw_approval_reference := c\<rparr> else r"
  have "request_row j (st\<lparr>as_requests := map ?f (as_requests st)\<rparr>) = map_option ?f (request_row j st)"
    unfolding request_row_def by (simp add: find_map_key[where key = aw_request_id])
  also have "\<dots> = (if j = k then map_option (\<lambda>r. r\<lparr>aw_status := a, aw_reason_code := b, aw_approval_reference := c\<rparr>)
      (request_row j st) else request_row j st)"
    unfolding request_row_def by (cases "find (\<lambda>r. aw_request_id r = j) (as_requests st)") (auto dest: find_key)
  finally show ?thesis .
qed

lemma request_row_mem: "request_row k st = Some row \<Longrightarrow> row \<in> set (as_requests st)"
  by (auto simp: request_row_def find_Some_iff)

interpretation postgres_repository: approval_repository "PostgresApprovalRepository T P schedule"
  "stored_request P" "stored_votes P" readable_store for T P schedule
proof (unfold_locales, goal_cases)
  case (1 s k q)
  then obtain row where row: "request_row k (fst s) = Some row" "decode_approval_request_row P row = Inr q"
    by (cases "request_row k (fst s)"; cases "decode_approval_request_row P (the (request_row k (fst s)))")
      (auto simp: stored_request_def)
  then show ?case unfolding request_row_def by (auto dest: find_key decode_request_id)
next
  case (2 s q e t)
  then have "t = (fst s, Suc (snd s))"
    by (intro pg_call_error[OF _ create_approval_request_def]) (simp add: PostgresApprovalRepository_def)
  then show ?case using 2(1) by simp
next
  case (3 s q t)
  then obtain st where create: "create_approval_request T (schedule (snd s)) q (fst s) = (Inr (), st)" "t = (st, Suc (snd s))"
    by (auto simp: PostgresApprovalRepository_def pg_call_iff)
  note new = create_Inr[OF create(1)]
  obtain q' where q': "decode_approval_request_row P (approval_request_row_of q) = Inr q'" "same_request q' q"
    using decode_row_of[OF new(1)] by blast
  have "readable_row (approval_request_row_of q)"
    using q'(1) by (auto simp: readable_row_def decode_approval_request_row_def and_then_Inr_iff)
  moreover have "stored_request P t = (stored_request P s)(ar_request_id q \<mapsto> q')"
    unfolding create(2) new(3) by (auto simp: fun_eq_iff stored_request_def created_row q'(1))
  ultimately show ?case
    using 3(1) new(2) q'(2) unfolding create(2) new(3)
    by (auto simp: readable_store_def stored_request_def stored_votes_def fun_eq_iff)
next
  case (4 s k rq t)
  then show ?case
    by (auto simp: PostgresApprovalRepository_def pg_call_iff stored_request_def stored_votes_def readable_store_def fun_eq_iff
        dest!: load_request_Inr[where n = "snd s"])
next
  case (5 s k status reason_code reference e t)
  then have "t = (fst s, Suc (snd s))"
    by (intro pg_call_error[OF _ update_approval_request_def]) (simp add: PostgresApprovalRepository_def)
  then show ?case using 5(1) by simp
next
  case (6 s k status reason_code reference t)
  then obtain st where upd: "update_approval_request (schedule (snd s)) k status (ApprovalReasonCode_code reason_code)
      reference (fst s) = (Inr (), st)" "t = (st, Suc (snd s))"
    by (auto simp: PostgresApprovalRepository_def pg_call_iff)
  note st = update_Inr[OF upd(1)]
  have inv: "readable_store t" using 6(1) unfolding upd(2) st by (auto simp: readable_store_def readable_row_def)
  have "stored_request P t j = (if j = k then map_option (settled status reason_code reference) (stored_request P s k)
      else stored_request P s j)" for j
  proof (cases "request_row j (fst s)")
    case None
    then show ?thesis unfolding upd(2) st stored_request_def fst_conv updated_row by auto
  next
    case (Some row)
    then have "readable_row row" using 6(1) by (auto simp: readable_store_def dest: request_row_mem)
    then show ?thesis
      using Some readable_decodes[of row P] unfolding upd(2) st stored_request_def fst_conv updated_row
      by (auto simp: decode_updated_row)
  qed
  then show ?case using inv unfolding upd(2) st by (auto simp: fun_eq_iff stored_votes_def)
next
  case (7 s v e t)
  then have "t = (fst s, Suc (snd s))"
    by (intro pg_call_error[OF _ record_approval_vote_def]) (simp add: PostgresApprovalRepository_def)
  then show ?case using 7(1) by simp
next
  case (8 s v t)
  then have t: "t = ((fst s)\<lparr>as_votes := approval_vote_row_of v # as_votes (fst s)\<rparr>, Suc (snd s))"
    by (auto simp: PostgresApprovalRepository_def pg_call_iff record_approval_vote_def transact_Inr and_then_Inr_iff)
  obtain v' where v': "decode_approval_vote_row P (approval_vote_row_of v) = Inr v'" "same_vote v' v"
    using decode_vote_row_of by blast
  have "stored_votes P t = (stored_votes P s)(av_request_id v := insert v' (stored_votes P s (av_request_id v)))"
    unfolding t using v'(1) by (auto simp: fun_eq_iff stored_votes_def) (auto simp: approval_vote_row_of_def)
  then show ?case
    using 8(1) v'(2) unfolding t
    by (auto simp: readable_store_def stored_request_def request_row_def fun_eq_iff)
next
  case (9 s k rv t)
  then show ?case
    by (auto simp: PostgresApprovalRepository_def pg_call_iff stored_request_def readable_store_def fun_eq_iff
        load_votes_Inr[where n = "snd s"])
next
  case (10 s a since rn t)
  then show ?case
    by (auto simp: PostgresApprovalRepository_def pg_call_iff stored_request_def stored_votes_def readable_store_def fun_eq_iff)
qed

end
