(* ===== verification/ApprovalService.thy ===== *)
theory ApprovalService
  imports ApprovalRepository
begin

text \<open>
  The approval service of \<open>services/governance-service/src/approvals/mod.rs\<close>: requests, votes and
  the decision whether an approved action may be executed, over any repository. The operation
  lock makes the operations sequential, which they are here; a poisoned lock and the telemetry
  line each decision prints are left out. \<open>rfc3339_format\<close> stands for the formatting of a time,
  which the \<open>time\<close> crate does.
\<close>

section \<open>Inputs and checks\<close>

definition MAX_REQUESTS_PER_HOUR :: nat where
  "MAX_REQUESTS_PER_HOUR = 5"

record SubmitApprovalRequestInput =
  si_request_id :: string
  si_action_id :: string
  si_proposer_actor_id :: string
  si_proposer_role :: string
  si_correlation_id :: string
  si_now_utc :: string
  si_expires_at_utc :: string

record RecordApprovalVoteInput =
  vi_request_id :: string
  vi_action_id :: string
  vi_actor_id :: string
  vi_actor_role :: string
  vi_vote :: ApprovalVoteDecision
  vi_correlation_id :: string
  vi_now_utc :: string

record EvaluateApprovalExecutionInput =
  ei_request_id :: string
  ei_action_id :: string
  ei_actor_id :: string
  ei_actor_role :: string
  ei_correlation_id :: string
  ei_now_utc :: string

definition validate_service_non_empty :: "string \<Rightarrow> string \<Rightarrow> ApprovalServiceError + unit" where
  "validate_service_non_empty field v =
     (if blank v then Inl (ApprovalServiceError_invalid_payload (field @ '' cannot be blank'')) else Inr ())"

definition validate_actor_role :: "string \<Rightarrow> ApprovalServiceError + unit" where
  "validate_actor_role r =
     (if r = ''operational_control'' \<or> r = ''administrative_actions'' then Inr ()
      else Inl \<lparr>as_error_code = ApprovalReasonCode_code ApprovalReasonCode.UnauthorizedRole,
        as_error_message = ''actor role is not authorized for critical approval workflow''\<rparr>)"

definition approval_error :: "ApprovalContractError \<Rightarrow> ApprovalServiceError" where
  "approval_error error = ApprovalServiceError_invalid_payload (ac_message error)"

definition decision_evidence ::
    "ApprovalDecisionOutcome \<Rightarrow> string option \<Rightarrow> string \<Rightarrow> string \<Rightarrow> ApprovalState \<Rightarrow> ApprovalReasonCode
      \<Rightarrow> string \<Rightarrow> string \<Rightarrow> string option \<Rightarrow> ApprovalDecisionEvidence" where
  "decision_evidence outcome request_id actor_id action_id state reason_code correlation_id timestamp_utc approval_reference =
     \<lparr>ade_request_id = request_id, ade_actor_id = actor_id, ade_action_id = action_id, ade_outcome = outcome,
      ade_state = state, ade_reason_code = ApprovalReasonCode_code reason_code, ade_correlation_id = correlation_id,
      ade_approval_reference = approval_reference, ade_timestamp_utc = timestamp_utc\<rparr>"

abbreviation "allow_decision \<equiv> decision_evidence ApprovalDecisionOutcome.Allow"
abbreviation "deny_decision \<equiv> decision_evidence ApprovalDecisionOutcome.Deny"

section \<open>Submitting\<close>

text \<open>What is checked before the operation takes its lock.\<close>

definition submit_input_checks ::
    "time_crate \<Rightarrow> SubmitApprovalRequestInput \<Rightarrow> ApprovalServiceError + CriticalActionId \<times> int \<times> bool" where
  "submit_input_checks T inp =
     and_then (map_err approval_error (CriticalActionId_parse (si_action_id inp))) (\<lambda>action.
     and_then (validate_actor_role (si_proposer_role inp)) (\<lambda>_.
     and_then (validate_service_non_empty ''request_id'' (si_request_id inp)) (\<lambda>_.
     and_then (validate_service_non_empty ''proposer_actor_id'' (si_proposer_actor_id inp)) (\<lambda>_.
     and_then (validate_service_non_empty ''correlation_id'' (si_correlation_id inp)) (\<lambda>_.
     and_then (parse_service_utc T ''now_utc'' (si_now_utc inp)) (\<lambda>now.
     and_then (parse_service_utc T ''expires_at_utc'' (si_expires_at_utc inp)) (\<lambda>_.
     and_then (map_err approval_error (approval_window_expired T (si_now_utc inp) (si_expires_at_utc inp))) (\<lambda>expired.
     Inr (action, now, expired)))))))))"

definition pending_request :: "SubmitApprovalRequestInput \<Rightarrow> CriticalActionId \<Rightarrow> ApprovalRequest" where
  "pending_request inp action =
     \<lparr>ar_request_id = si_request_id inp, ar_action_id = CriticalActionId_as_str action,
      ar_proposer_actor_id = canonical_actor_id (si_proposer_actor_id inp), ar_status = ApprovalState.Pending,
      ar_reason_code = ApprovalReasonCode_code ApprovalReasonCode.ApprovalPending,
      ar_correlation_id = si_correlation_id inp, ar_approval_reference = None,
      ar_created_at_utc = si_now_utc inp, ar_expires_at_utc = si_expires_at_utc inp\<rparr>"

definition submit_decision ::
    "ApprovalDecisionOutcome \<Rightarrow> SubmitApprovalRequestInput \<Rightarrow> CriticalActionId \<Rightarrow> ApprovalState \<Rightarrow> ApprovalReasonCode
      \<Rightarrow> ApprovalDecisionEvidence" where
  "submit_decision outcome inp action state reason_code =
     decision_evidence outcome (Some (si_request_id inp)) (si_proposer_actor_id inp) (CriticalActionId_as_str action)
       state reason_code (si_correlation_id inp) (si_now_utc inp) None"

definition submit_approval_request ::
    "time_crate \<Rightarrow> (int \<Rightarrow> string) \<Rightarrow> 's ApprovalRepositoryPort \<Rightarrow> SubmitApprovalRequestInput
      \<Rightarrow> ('s, ApprovalServiceError, ApprovalDecisionEvidence) effect" where
  "submit_approval_request T rfc3339_format repo inp =
     run_then (pure_result (submit_input_checks T inp)) (\<lambda>(action, now, expired).
     if expired then
       answer (submit_decision ApprovalDecisionOutcome.Deny inp action ApprovalState.Expired ApprovalReasonCode.ExpiredWindow)
     else
     run_then (repo_fetch_request repo (si_request_id inp)) (\<lambda>existing.
     if existing \<noteq> None then refuse (ApprovalServiceError_duplicate_request (si_request_id inp))
     else
     run_then (repo_count_actor_requests_since repo (canonical_actor_id (si_proposer_actor_id inp))
         (rfc3339_format (now - 3600000000000))) (\<lambda>recent_count.
     if MAX_REQUESTS_PER_HOUR \<le> recent_count then
       answer (submit_decision ApprovalDecisionOutcome.Deny inp action ApprovalState.Pending ApprovalReasonCode.RateLimitedActor)
     else
     run_catch (repo_create_request repo (pending_request inp action))
       (\<lambda>error. if as_error_code error = ''approval_duplicate_request''
          then refuse (ApprovalServiceError_duplicate_request (si_request_id inp)) else refuse error)
       (\<lambda>_. answer (submit_decision ApprovalDecisionOutcome.Pending inp action ApprovalState.Pending
          ApprovalReasonCode.ApprovalPending)))))"

section \<open>Voting\<close>

definition vote_input_checks :: "time_crate \<Rightarrow> RecordApprovalVoteInput \<Rightarrow> ApprovalServiceError + CriticalActionId" where
  "vote_input_checks T inp =
     and_then (map_err approval_error (CriticalActionId_parse (vi_action_id inp))) (\<lambda>action.
     and_then (validate_actor_role (vi_actor_role inp)) (\<lambda>_.
     and_then (validate_service_non_empty ''request_id'' (vi_request_id inp)) (\<lambda>_.
     and_then (validate_service_non_empty ''actor_id'' (vi_actor_id inp)) (\<lambda>_.
     and_then (validate_service_non_empty ''correlation_id'' (vi_correlation_id inp)) (\<lambda>_.
     and_then (parse_service_utc T ''now_utc'' (vi_now_utc inp)) (\<lambda>_. Inr action))))))"

definition vote_decision ::
    "ApprovalDecisionOutcome \<Rightarrow> RecordApprovalVoteInput \<Rightarrow> string \<Rightarrow> CriticalActionId \<Rightarrow> ApprovalState \<Rightarrow> ApprovalReasonCode
      \<Rightarrow> string option \<Rightarrow> ApprovalDecisionEvidence" where
  "vote_decision outcome inp request_id action state reason_code approval_reference =
     decision_evidence outcome (Some request_id) (vi_actor_id inp) (CriticalActionId_as_str action)
       state reason_code (vi_correlation_id inp) (vi_now_utc inp) approval_reference"

definition vote_of :: "RecordApprovalVoteInput \<Rightarrow> ApprovalRequest \<Rightarrow> ApprovalVoteRecord" where
  "vote_of inp request =
     \<lparr>av_request_id = ar_request_id request, av_actor_id = canonical_actor_id (vi_actor_id inp),
      av_decision = vi_vote inp, av_correlation_id = vi_correlation_id inp, av_voted_at_utc = vi_now_utc inp\<rparr>"

text \<open>What follows a vote that was stored.\<close>

definition after_vote ::
    "time_crate \<Rightarrow> 's ApprovalRepositoryPort \<Rightarrow> RecordApprovalVoteInput \<Rightarrow> CriticalActionId \<Rightarrow> ApprovalRequest
      \<Rightarrow> ('s, ApprovalServiceError, ApprovalDecisionEvidence) effect" where
  "after_vote T repo inp action request =
     (if vi_vote inp = ApprovalVoteDecision.Reject then
        run_then (repo_update_request repo (ar_request_id request) ApprovalState.Rejected
          ApprovalReasonCode.ExplicitlyRejected None) (\<lambda>_.
        answer (vote_decision ApprovalDecisionOutcome.Deny inp (ar_request_id request) action ApprovalState.Rejected
          ApprovalReasonCode.ExplicitlyRejected None))
      else
        run_then (pure_result (map_err approval_error (generate_approval_reference T (ar_request_id request) action
            (ar_proposer_actor_id request) (canonical_actor_id (vi_actor_id inp)) (vi_now_utc inp)))) (\<lambda>approval_reference.
        run_then (repo_update_request repo (ar_request_id request) ApprovalState.Approved
          ApprovalReasonCode.ApprovalAllowed (Some approval_reference)) (\<lambda>_.
        answer (vote_decision ApprovalDecisionOutcome.Allow inp (ar_request_id request) action ApprovalState.Approved
          ApprovalReasonCode.ApprovalAllowed (Some approval_reference)))))"

text \<open>What follows the request's lookup.\<close>

definition vote_on_request ::
    "time_crate \<Rightarrow> 's ApprovalRepositoryPort \<Rightarrow> RecordApprovalVoteInput \<Rightarrow> CriticalActionId \<Rightarrow> ApprovalRequest
      \<Rightarrow> ('s, ApprovalServiceError, ApprovalDecisionEvidence) effect" where
  "vote_on_request T repo inp action request =
     (if ar_action_id request \<noteq> CriticalActionId_as_str action then
       answer (vote_decision ApprovalDecisionOutcome.Deny inp (ar_request_id request) action (ar_status request)
         ApprovalReasonCode.InvalidStateTransition None)
     else
     run_then (pure_result (map_err approval_error (is_expired_at T request (vi_now_utc inp)))) (\<lambda>expired.
     if expired then
       run_then (repo_update_request repo (ar_request_id request) ApprovalState.Expired
         ApprovalReasonCode.ExpiredWindow None) (\<lambda>_.
       answer (vote_decision ApprovalDecisionOutcome.Deny inp (ar_request_id request) action ApprovalState.Expired
         ApprovalReasonCode.ExpiredWindow None))
     else
     run_then (repo_fetch_votes repo (ar_request_id request)) (\<lambda>existing_votes.
     if list_ex (\<lambda>vote. canonical_actor_id (av_actor_id vote) = canonical_actor_id (vi_actor_id inp)) existing_votes then
       answer (vote_decision ApprovalDecisionOutcome.Deny inp (ar_request_id request) action ApprovalState.Pending
         ApprovalReasonCode.DuplicateVote None)
     else if ar_status request \<noteq> ApprovalState.Pending then
       answer (vote_decision ApprovalDecisionOutcome.Deny inp (ar_request_id request) action (ar_status request)
         ApprovalReasonCode.InvalidStateTransition (ar_approval_reference request))
     else if \<not> actors_are_distinct (ar_proposer_actor_id request) (vi_actor_id inp) then
       answer (vote_decision ApprovalDecisionOutcome.Deny inp (ar_request_id request) action ApprovalState.Pending
         ApprovalReasonCode.SelfApprovalAttempt None)
     else
     run_catch (repo_record_vote repo (vote_of inp request))
       (\<lambda>error. if as_error_code error = ApprovalReasonCode_code ApprovalReasonCode.DuplicateVote
          then answer (vote_decision ApprovalDecisionOutcome.Deny inp (ar_request_id request) action ApprovalState.Pending
            ApprovalReasonCode.DuplicateVote None)
          else refuse error)
       (\<lambda>_. after_vote T repo inp action request))))"

definition record_vote ::
    "time_crate \<Rightarrow> 's ApprovalRepositoryPort \<Rightarrow> RecordApprovalVoteInput
      \<Rightarrow> ('s, ApprovalServiceError, ApprovalDecisionEvidence) effect" where
  "record_vote T repo inp =
     run_then (pure_result (vote_input_checks T inp)) (\<lambda>action.
     run_then (repo_fetch_request repo (vi_request_id inp)) (\<lambda>found. case found of
       None \<Rightarrow> answer (vote_decision ApprovalDecisionOutcome.Deny inp (vi_request_id inp) action ApprovalState.Pending
         ApprovalReasonCode.UnknownRequest None)
     | Some request \<Rightarrow> vote_on_request T repo inp action request))"

section \<open>Executing\<close>

definition execution_input_checks ::
    "time_crate \<Rightarrow> EvaluateApprovalExecutionInput \<Rightarrow> ApprovalServiceError + CriticalActionId" where
  "execution_input_checks T inp =
     and_then (map_err approval_error (CriticalActionId_parse (ei_action_id inp))) (\<lambda>action.
     and_then (validate_actor_role (ei_actor_role inp)) (\<lambda>_.
     and_then (validate_service_non_empty ''request_id'' (ei_request_id inp)) (\<lambda>_.
     and_then (validate_service_non_empty ''actor_id'' (ei_actor_id inp)) (\<lambda>_.
     and_then (validate_service_non_empty ''correlation_id'' (ei_correlation_id inp)) (\<lambda>_.
     and_then (parse_service_utc T ''now_utc'' (ei_now_utc inp)) (\<lambda>_. Inr action))))))"

definition execution_decision ::
    "ApprovalDecisionOutcome \<Rightarrow> EvaluateApprovalExecutionInput \<Rightarrow> string \<Rightarrow> CriticalActionId \<Rightarrow> ApprovalState \<Rightarrow> ApprovalReasonCode
      \<Rightarrow> string option \<Rightarrow> ApprovalDecisionEvidence" where
  "execution_decision outcome inp request_id action state reason_code approval_reference =
     decision_evidence outcome (Some request_id) (ei_actor_id inp) (CriticalActionId_as_str action)
       state reason_code (ei_correlation_id inp) (ei_now_utc inp) approval_reference"

text \<open>The arm of a pending request: its votes are read again.\<close>

definition evaluate_pending ::
    "time_crate \<Rightarrow> 's ApprovalRepositoryPort \<Rightarrow> EvaluateApprovalExecutionInput \<Rightarrow> CriticalActionId \<Rightarrow> ApprovalRequest
      \<Rightarrow> ('s, ApprovalServiceError, ApprovalDecisionEvidence) effect" where
  "evaluate_pending T repo inp action request =
     run_then (repo_fetch_votes repo (ar_request_id request)) (\<lambda>votes.
     if list_ex (\<lambda>vote. av_decision vote = ApprovalVoteDecision.Reject
         \<and> actors_are_distinct (ar_proposer_actor_id request) (av_actor_id vote)) votes then
       run_then (repo_update_request repo (ar_request_id request) ApprovalState.Rejected
         ApprovalReasonCode.ExplicitlyRejected None) (\<lambda>_.
       answer (execution_decision ApprovalDecisionOutcome.Deny inp (ar_request_id request) action ApprovalState.Rejected
         ApprovalReasonCode.ExplicitlyRejected None))
     else case find (\<lambda>vote. av_decision vote = ApprovalVoteDecision.Approve
         \<and> actors_are_distinct (ar_proposer_actor_id request) (av_actor_id vote)) votes of
       None \<Rightarrow> answer (execution_decision ApprovalDecisionOutcome.Deny inp (ar_request_id request) action ApprovalState.Pending
         ApprovalReasonCode.MissingSecondApprover None)
     | Some approve_vote \<Rightarrow>
       run_then (pure_result (map_err approval_error (generate_approval_reference T (ar_request_id request) action
           (ar_proposer_actor_id request) (canonical_actor_id (av_actor_id approve_vote))
           (av_voted_at_utc approve_vote)))) (\<lambda>approval_reference.
       run_then (repo_update_request repo (ar_request_id request) ApprovalState.Approved
         ApprovalReasonCode.ApprovalAllowed (Some approval_reference)) (\<lambda>_.
       answer (execution_decision ApprovalDecisionOutcome.Allow inp (ar_request_id request) action ApprovalState.Approved
         ApprovalReasonCode.ApprovalAllowed (Some approval_reference)))))"

definition execute_on_request ::
    "time_crate \<Rightarrow> 's ApprovalRepositoryPort \<Rightarrow> EvaluateApprovalExecutionInput \<Rightarrow> CriticalActionId \<Rightarrow> ApprovalRequest
      \<Rightarrow> ('s, ApprovalServiceError, ApprovalDecisionEvidence) effect" where
  "execute_on_request T repo inp action request =
     (if ar_action_id request \<noteq> CriticalActionId_as_str action then
       answer (execution_decision ApprovalDecisionOutcome.Deny inp (ar_request_id request) action (ar_status request)
         ApprovalReasonCode.MissingApprovalRequest None)
     else
     run_then (pure_result (map_err approval_error (is_expired_at T request (ei_now_utc inp)))) (\<lambda>expired.
     if expired then
       run_then (repo_update_request repo (ar_request_id request) ApprovalState.Expired
         ApprovalReasonCode.ExpiredWindow None) (\<lambda>_.
       answer (execution_decision ApprovalDecisionOutcome.Deny inp (ar_request_id request) action ApprovalState.Expired
         ApprovalReasonCode.ExpiredWindow None))
     else case ar_status request of
       ApprovalState.Approved \<Rightarrow>
         if ar_approval_reference request = None then
           answer (execution_decision ApprovalDecisionOutcome.Deny inp (ar_request_id request) action ApprovalState.Approved
             ApprovalReasonCode.InvalidStateTransition None)
         else answer (execution_decision ApprovalDecisionOutcome.Allow inp (ar_request_id request) action ApprovalState.Approved
           ApprovalReasonCode.ApprovalAllowed (ar_approval_reference request))
     | ApprovalState.Pending \<Rightarrow> evaluate_pending T repo inp action request
     | ApprovalState.Rejected \<Rightarrow> answer (execution_decision ApprovalDecisionOutcome.Deny inp (ar_request_id request) action
         ApprovalState.Rejected ApprovalReasonCode.ExplicitlyRejected None)
     | ApprovalState.Expired \<Rightarrow> answer (execution_decision ApprovalDecisionOutcome.Deny inp (ar_request_id request) action
         ApprovalState.Expired ApprovalReasonCode.ExpiredWindow None)))"

definition evaluate_execution ::
    "time_crate \<Rightarrow> 's ApprovalRepositoryPort \<Rightarrow> EvaluateApprovalExecutionInput
      \<Rightarrow> ('s, ApprovalServiceError, ApprovalDecisionEvidence) effect" where
  "evaluate_execution T repo inp =
     run_then (pure_result (execution_input_checks T inp)) (\<lambda>action.
     run_then (repo_fetch_request repo (ei_request_id inp)) (\<lambda>found. case found of
       None \<Rightarrow> answer (execution_decision ApprovalDecisionOutcome.Deny inp (ei_request_id inp) action ApprovalState.Pending
         ApprovalReasonCode.MissingApprovalRequest None)
     | Some request \<Rightarrow> execute_on_request T repo inp action request))"

text \<open>Equations that evaluate a step before what follows it.\<close>

lemmas approval_step_code [code] =
  record_vote_def[THEN fun_cong, unfolded run_then_def]
  evaluate_execution_def[THEN fun_cong, unfolded run_then_def]
  submit_approval_request_def[THEN fun_cong, unfolded run_then_def]

end
