(* ===== verification/ApprovalSafety.thy ===== *)
theory ApprovalSafety
  imports ApprovalService
begin

text \<open>
  What the approval service guarantees over any history of submissions, votes and execution
  checks, under any faults of its repository: nobody approves alone, and a request that was
  rejected or has expired is never approved. The proofs are made once over the repository's
  contract and rest on the interpretation over PostgreSQL.
\<close>

section \<open>Runs\<close>

datatype approval_operation =
    Submit SubmitApprovalRequestInput
  | Vote RecordApprovalVoteInput
  | Execute EvaluateApprovalExecutionInput

fun run_operation ::
    "time_crate \<Rightarrow> (int \<Rightarrow> string) \<Rightarrow> 's ApprovalRepositoryPort \<Rightarrow> approval_operation
      \<Rightarrow> ('s, ApprovalServiceError, ApprovalDecisionEvidence) effect" where
  "run_operation T fmt repo (approval_operation.Submit inp) = submit_approval_request T fmt repo inp"
| "run_operation T fmt repo (approval_operation.Vote inp) = record_vote T repo inp"
| "run_operation T fmt repo (approval_operation.Execute inp) = evaluate_execution T repo inp"

inductive approval_run ::
    "time_crate \<Rightarrow> (int \<Rightarrow> string) \<Rightarrow> 's ApprovalRepositoryPort \<Rightarrow> 's \<Rightarrow> 's \<Rightarrow> bool"
  for T fmt repo where
  start: "approval_run T fmt repo s s"
| step: "approval_run T fmt repo s t \<Longrightarrow> run_operation T fmt repo operation t = (r, u) \<Longrightarrow> approval_run T fmt repo s u"

section \<open>What a run keeps\<close>

text \<open>A second person approved.\<close>

definition second_approval :: "ApprovalRequest \<Rightarrow> ApprovalVoteRecord set \<Rightarrow> bool" where
  "second_approval q votes \<longleftrightarrow> (\<exists>v\<in>votes. av_decision v = ApprovalVoteDecision.Approve
     \<and> actors_are_distinct (ar_proposer_actor_id q) (av_actor_id v))"

text \<open>A pending request goes anywhere, every other one only expires.\<close>

definition status_follows :: "ApprovalState \<Rightarrow> ApprovalState \<Rightarrow> bool" where
  "status_follows x y \<longleftrightarrow> x = y \<or> x = ApprovalState.Pending \<or> y = ApprovalState.Expired"

definition request_follows :: "ApprovalRequest \<Rightarrow> ApprovalRequest \<Rightarrow> bool" where
  "request_follows q q' \<longleftrightarrow> ar_action_id q' = ar_action_id q \<and> ar_proposer_actor_id q' = ar_proposer_actor_id q
     \<and> ar_expires_at_utc q' = ar_expires_at_utc q \<and> status_follows (ar_status q) (ar_status q')"

lemma request_follows_refl [simp]: "request_follows q q"
  by (simp add: request_follows_def status_follows_def)

lemma request_follows_trans: "request_follows q q' \<Longrightarrow> request_follows q' q'' \<Longrightarrow> request_follows q q''"
  by (auto simp: request_follows_def status_follows_def)

context approval_repository
begin

definition approved_twice :: "'s \<Rightarrow> bool" where
  "approved_twice s \<longleftrightarrow> (\<forall>k q. request_of s k = Some q \<longrightarrow> ar_status q = ApprovalState.Approved
     \<longrightarrow> second_approval q (votes_of s k) \<and> ar_approval_reference q \<noteq> None)"

definition leads_to :: "'s \<Rightarrow> 's \<Rightarrow> bool" where
  "leads_to s t \<longleftrightarrow> inv t \<and> approved_twice t
     \<and> (\<forall>k q. request_of s k = Some q \<longrightarrow> (\<exists>q'. request_of t k = Some q' \<and> request_follows q q'))"

definition same_view :: "'s \<Rightarrow> 's \<Rightarrow> bool" where
  "same_view s t \<longleftrightarrow> inv t \<and> request_of t = request_of s \<and> votes_of t = votes_of s"

lemma same_view_trans: "same_view s t \<Longrightarrow> same_view t u \<Longrightarrow> same_view s u"
  by (simp add: same_view_def)

lemma same_view_leads: "approved_twice s \<Longrightarrow> same_view s t \<Longrightarrow> leads_to s t"
  by (simp add: same_view_def leads_to_def approved_twice_def)

lemma leads_to_refl: "inv s \<Longrightarrow> approved_twice s \<Longrightarrow> leads_to s s"
  by (rule same_view_leads) (simp_all add: same_view_def)

lemma leads_to_trans: "leads_to s t \<Longrightarrow> leads_to t u \<Longrightarrow> leads_to s u"
  unfolding leads_to_def by (meson request_follows_trans)

lemma fetch_wp:
  "inv s \<Longrightarrow> (\<And>t. same_view s t \<Longrightarrow> Q (Inr (request_of s k)) t) \<Longrightarrow> (\<And>e t. same_view s t \<Longrightarrow> Q (Inl e) t)
    \<Longrightarrow> wp (repo_fetch_request repo k) s Q"
  unfolding same_view_def by (rule wpI) (metis fetch sum.exhaust)

lemma votes_wp:
  "inv s \<Longrightarrow> (\<And>vs t. same_view s t \<Longrightarrow> set vs = votes_of s k \<Longrightarrow> Q (Inr vs) t) \<Longrightarrow> (\<And>e t. same_view s t \<Longrightarrow> Q (Inl e) t)
    \<Longrightarrow> wp (repo_fetch_votes repo k) s Q"
  unfolding same_view_def by (rule wpI) (metis fetch_votes sum.exhaust)

lemma count_wp:
  "inv s \<Longrightarrow> (\<And>r t. same_view s t \<Longrightarrow> Q r t) \<Longrightarrow> wp (repo_count_actor_requests_since repo a since) s Q"
  unfolding same_view_def by (rule wpI) (metis count)

lemma update_wp:
  assumes "inv s" "\<And>e t. same_view s t \<Longrightarrow> Q (Inl e) t"
    and "\<And>t. inv t \<Longrightarrow> request_of t = (request_of s)(k := map_option (settled status reason reference) (request_of s k))
      \<Longrightarrow> votes_of t = votes_of s \<Longrightarrow> Q (Inr ()) t"
  shows "wp (repo_update_request repo k status reason reference) s Q"
proof (rule wpI)
  fix r t
  assume run: "repo_update_request repo k status reason reference s = (r, t)"
  show "Q r t"
  proof (cases r)
    case (Inl e)
    then show ?thesis using run assms(2) update_error[OF assms(1)] by (simp add: same_view_def)
  next
    case (Inr u)
    then show ?thesis using run assms(3) update[OF assms(1)] by simp
  qed
qed

lemma vote_wp:
  assumes "inv s" "\<And>e t. same_view s t \<Longrightarrow> Q (Inl e) t"
    and "\<And>v' t. inv t \<Longrightarrow> request_of t = request_of s \<Longrightarrow> same_vote v' v
      \<Longrightarrow> votes_of t = (votes_of s)(av_request_id v := insert v' (votes_of s (av_request_id v))) \<Longrightarrow> Q (Inr ()) t"
  shows "wp (repo_record_vote repo v) s Q"
proof (rule wpI)
  fix r t
  assume run: "repo_record_vote repo v s = (r, t)"
  show "Q r t"
  proof (cases r)
    case (Inl e)
    then show ?thesis using run assms(2) vote_error[OF assms(1)] by (simp add: same_view_def)
  next
    case (Inr u)
    then obtain v' where "inv t" "request_of t = request_of s" "same_vote v' v"
      "votes_of t = (votes_of s)(av_request_id v := insert v' (votes_of s (av_request_id v)))"
      using run vote[OF assms(1)] by auto
    then show ?thesis using Inr assms(3) by simp
  qed
qed

lemma create_wp:
  assumes "inv s" "\<And>e t. same_view s t \<Longrightarrow> Q (Inl e) t"
    and "\<And>q' t. inv t \<Longrightarrow> request_of s (ar_request_id q) = None \<Longrightarrow> same_request q' q
      \<Longrightarrow> request_of t = (request_of s)(ar_request_id q \<mapsto> q') \<Longrightarrow> votes_of t = votes_of s \<Longrightarrow> Q (Inr ()) t"
  shows "wp (repo_create_request repo q) s Q"
proof (rule wpI)
  fix r t
  assume run: "repo_create_request repo q s = (r, t)"
  show "Q r t"
  proof (cases r)
    case (Inl e)
    then show ?thesis using run assms(2) create_error[OF assms(1)] by (simp add: same_view_def)
  next
    case (Inr u)
    then obtain q' where "inv t" "request_of s (ar_request_id q) = None" "same_request q' q"
      "request_of t = (request_of s)(ar_request_id q \<mapsto> q')" "votes_of t = votes_of s"
      using run create[OF assms(1)] by auto
    then show ?thesis using Inr assms(3) by simp
  qed
qed

text \<open>Settling a request of the state, with a second approval where it becomes approved.\<close>

lemma settled_leads:
  assumes "approved_twice s" "request_of s k = Some q" "inv t"
    and "request_of t = (request_of s)(k := map_option (settled status reason reference) (request_of s k))"
    and "votes_of t = votes_of s" "status_follows (ar_status q) status"
    and "status = ApprovalState.Approved \<Longrightarrow> second_approval q (votes_of s k) \<and> reference \<noteq> None"
  shows "leads_to s t"
  using assms
  by (auto simp: leads_to_def approved_twice_def settled_def request_follows_def status_follows_def second_approval_def)

lemma voted_leads:
  assumes "approved_twice s" "inv t" "request_of t = request_of s"
    and "votes_of t = (votes_of s)(k := insert v (votes_of s k))"
  shows "leads_to s t"
  using assms by (auto simp: leads_to_def approved_twice_def second_approval_def)

lemma created_leads:
  assumes "approved_twice s" "inv t" "request_of s k = None" "request_of t = (request_of s)(k \<mapsto> q)"
    and "votes_of t = votes_of s" "ar_status q = ApprovalState.Pending"
  shows "leads_to s t"
  using assms by (auto simp: leads_to_def approved_twice_def second_approval_def)

lemma leads_twice: "leads_to s t \<Longrightarrow> approved_twice t" "leads_to s t \<Longrightarrow> inv t" "same_view s t \<Longrightarrow> inv t"
  "same_view s t \<Longrightarrow> approved_twice s \<Longrightarrow> approved_twice t"
  "same_view s t \<Longrightarrow> request_of t = request_of s" "same_view s t \<Longrightarrow> votes_of t = votes_of s"
  by (auto simp: leads_to_def same_view_def approved_twice_def)

lemma submit_leads:
  assumes "inv s" "approved_twice s"
  shows "wp (submit_approval_request T fmt repo inp) s (\<lambda>_ t. leads_to s t)"
proof -
  have same: "leads_to s t" if "same_view s t" for t
    using assms(2) that by (rule same_view_leads)
  have new: "wp (repo_create_request repo (pending_request inp action)) u (\<lambda>r t. leads_to s t)"
    if "same_view s u" for u action
  proof (rule create_wp)
    show "inv u" using that by (rule leads_twice)
    show "leads_to s t" if "same_view u t" for t
      using same_view_trans[OF \<open>same_view s u\<close> that] by (rule same)
    fix q' t
    assume "inv t" "request_of u (ar_request_id (pending_request inp action)) = None"
      "same_request q' (pending_request inp action)" "votes_of t = votes_of u"
      "request_of t = (request_of u)(ar_request_id (pending_request inp action) \<mapsto> q')"
    then show "leads_to s t"
      using assms that
      by (intro created_leads[of s t]) (auto simp: leads_twice pending_request_def same_request_def)
  qed
  show ?thesis
    unfolding submit_approval_request_def
    by (auto simp: wp_then wp_catch assms same leads_twice leads_to_refl split: sum.splits prod.splits if_splits
        intro!: fetch_wp count_wp wp_mono[OF new] dest: same_view_trans)
qed

text \<open>What stands behind a decision that allows an action.\<close>

definition backed :: "time_crate \<Rightarrow> string \<Rightarrow> string \<Rightarrow> string \<Rightarrow> ApprovalDecisionEvidence \<Rightarrow> 's \<Rightarrow> bool" where
  "backed T k action now d t \<longleftrightarrow> ade_outcome d = ApprovalDecisionOutcome.Allow \<longrightarrow>
     (\<exists>q. request_of t k = Some q \<and> ar_status q = ApprovalState.Approved \<and> ar_action_id q = action
        \<and> second_approval q (votes_of t k) \<and> ade_approval_reference d \<noteq> None
        \<and> ar_approval_reference q = ade_approval_reference d \<and> is_expired_at T q now = Inr False)"

definition allows_backed :: "time_crate \<Rightarrow> string \<Rightarrow> string \<Rightarrow> string \<Rightarrow> 's
    \<Rightarrow> ApprovalServiceError + ApprovalDecisionEvidence \<Rightarrow> 's \<Rightarrow> bool" where
  "allows_backed T k action now s r t \<longleftrightarrow> leads_to s t \<and> (\<forall>d. r = Inr d \<longrightarrow> backed T k action now d t)"

lemma denied_backed [simp]:
  "outcome \<noteq> ApprovalDecisionOutcome.Allow \<Longrightarrow> backed T k action now (decision_evidence outcome i x a st rc c ts ref) t"
  by (simp add: backed_def decision_evidence_def)

lemma decision_outcomes [simp]:
  "ade_outcome (decision_evidence outcome i x a st rc c ts ref) = outcome"
  "ade_approval_reference (decision_evidence outcome i x a st rc c ts ref) = ref"
  by (simp_all add: decision_evidence_def)

text \<open>Settling and answering.\<close>

lemma settle_wp:
  assumes "inv u" "approved_twice u" "leads_to s u" "request_of u k = Some q"
    and "status_follows (ar_status q) status"
    and "status = ApprovalState.Approved \<Longrightarrow> second_approval q (votes_of u k) \<and> reference \<noteq> None"
    and "ade_outcome d = ApprovalDecisionOutcome.Allow \<Longrightarrow> status = ApprovalState.Approved
      \<and> ar_action_id q = action \<and> ade_approval_reference d = reference \<and> is_expired_at T q now = Inr False"
  shows "wp (run_then (repo_update_request repo k status reason reference) (\<lambda>_. answer d)) u (allows_backed T k action now s)"
  unfolding wp_then
proof (rule update_wp[OF assms(1)], goal_cases)
  case (1 e t)
  then show ?case
    using assms(2,3) by (auto simp: allows_backed_def intro: leads_to_trans same_view_leads)
next
  case (2 t)
  have "leads_to u t" using assms(2,4) 2 assms(5,6) by (rule settled_leads)
  moreover have "backed T k action now d t"
    using 2 assms(4,6,7) by (auto simp: backed_def settled_def second_approval_def is_expired_at_def)
  ultimately show ?case
    using assms(3) by (auto simp: allows_backed_def intro: leads_to_trans)
qed

lemma after_vote_wp:
  assumes "inv u" "approved_twice u" "leads_to s u" "request_of u (ar_request_id q) = Some q"
    and "ar_status q = ApprovalState.Pending" "actors_are_distinct (ar_proposer_actor_id q) (vi_actor_id inp)"
    and "same_vote v (vote_of inp q)" "v \<in> votes_of u (ar_request_id q)" "is_expired_at T q now = Inr False"
  shows "wp (after_vote T repo inp action q) u (allows_backed T (ar_request_id q) (ar_action_id q) now s)"
proof (cases "vi_vote inp")
  case Approve
  have "second_approval q (votes_of u (ar_request_id q))"
    using assms(6,7,8) Approve by (auto simp: second_approval_def same_vote_def vote_of_def intro!: bexI[of _ v])
  then have settle: "wp (run_then (repo_update_request repo (ar_request_id q) ApprovalState.Approved
      ApprovalReasonCode.ApprovalAllowed (Some reference)) (\<lambda>_. answer (vote_decision ApprovalDecisionOutcome.Allow inp
        (ar_request_id q) action ApprovalState.Approved ApprovalReasonCode.ApprovalAllowed (Some reference)))) u
      (allows_backed T (ar_request_id q) (ar_action_id q) now s)" for reference
    using assms by (intro settle_wp[where q = q]) (simp_all add: status_follows_def vote_decision_def)
  show ?thesis
    using Approve assms(1,2,3)
    by (simp add: after_vote_def wp_then[of "pure_result _"] settle split: sum.splits) (simp add: allows_backed_def)
next
  case Reject
  have "wp (run_then (repo_update_request repo (ar_request_id q) ApprovalState.Rejected
      ApprovalReasonCode.ExplicitlyRejected None) (\<lambda>_. answer (vote_decision ApprovalDecisionOutcome.Deny inp
        (ar_request_id q) action ApprovalState.Rejected ApprovalReasonCode.ExplicitlyRejected None))) u
      (allows_backed T (ar_request_id q) (ar_action_id q) now s)"
    using assms by (intro settle_wp[where q = q]) (simp_all add: status_follows_def vote_decision_def)
  then show ?thesis using Reject by (simp add: after_vote_def)
qed

lemma answered:
  "leads_to s t \<Longrightarrow> allows_backed T k action now s (Inl e) t"
  "leads_to s t \<Longrightarrow> ade_outcome d \<noteq> ApprovalDecisionOutcome.Allow \<Longrightarrow> allows_backed T k action now s (Inr d) t"
  by (simp_all add: allows_backed_def backed_def)

lemma answered_decisions [simp]:
  "ade_outcome (vote_decision outcome vi i a st rc ref) = outcome"
  "ade_outcome (execution_decision outcome ei i a st rc ref) = outcome"
  "ade_approval_reference (execution_decision outcome ei i a st rc ref) = ref"
  by (simp_all add: vote_decision_def execution_decision_def)

lemma vote_stored_wp:
  assumes "inv u" "approved_twice u" "leads_to s u" "request_of u (ar_request_id q) = Some q"
    and "ar_status q = ApprovalState.Pending" "actors_are_distinct (ar_proposer_actor_id q) (vi_actor_id inp)"
    and "is_expired_at T q now = Inr False"
  shows "wp (run_catch (repo_record_vote repo (vote_of inp q))
       (\<lambda>error. if as_error_code error = ApprovalReasonCode_code ApprovalReasonCode.DuplicateVote
          then answer (vote_decision ApprovalDecisionOutcome.Deny inp (ar_request_id q) action ApprovalState.Pending
            ApprovalReasonCode.DuplicateVote None)
          else refuse error)
       (\<lambda>_. after_vote T repo inp action q)) u (allows_backed T (ar_request_id q) (ar_action_id q) now s)"
  unfolding wp_catch
proof (rule vote_wp[OF assms(1)], goal_cases)
  case (1 e t)
  then have "leads_to s t" using assms(2,3) leads_to_trans same_view_leads by blast
  then show ?case by (simp add: answered)
next
  case (2 v t)
  have "leads_to u t" using voted_leads[OF assms(2) 2(1,2,4)] .
  then have "approved_twice t" "leads_to s t" using assms(3) leads_to_trans leads_twice by blast+
  then show ?case
    using after_vote_wp[OF 2(1), of s q inp v T now action] 2 assms by (simp add: vote_of_def)
qed

lemma vote_on_request_wp:
  assumes "inv u" "approved_twice u" "same_view s u" "leads_to s u" "request_of u (ar_request_id q) = Some q"
  shows "wp (vote_on_request T repo inp action q) u
    (allows_backed T (ar_request_id q) (CriticalActionId_as_str action) (vi_now_utc inp) s)"
proof (cases "ar_action_id q = CriticalActionId_as_str action")
  case True
  let ?Q = "allows_backed T (ar_request_id q) (CriticalActionId_as_str action) (vi_now_utc inp) s"
  have view: "leads_to s t" if "same_view u t" for t
    using assms that leads_to_trans same_view_leads by blast
  have expire: "wp (run_then (repo_update_request repo (ar_request_id q) ApprovalState.Expired
         ApprovalReasonCode.ExpiredWindow None) (\<lambda>_. answer (vote_decision ApprovalDecisionOutcome.Deny inp
           (ar_request_id q) action ApprovalState.Expired ApprovalReasonCode.ExpiredWindow None))) u ?Q"
    using assms by (intro settle_wp[where q = q]) (simp_all add: status_follows_def)
  have vote: "wp (run_catch (repo_record_vote repo (vote_of inp q))
       (\<lambda>error. if as_error_code error = ApprovalReasonCode_code ApprovalReasonCode.DuplicateVote
          then answer (vote_decision ApprovalDecisionOutcome.Deny inp (ar_request_id q) action ApprovalState.Pending
            ApprovalReasonCode.DuplicateVote None)
          else refuse error)
       (\<lambda>_. after_vote T repo inp action q)) t ?Q"
    if "same_view u t" "ar_status q = ApprovalState.Pending" "actors_are_distinct (ar_proposer_actor_id q) (vi_actor_id inp)"
      "is_expired_at T q (vi_now_utc inp) = Inr False" for t
    unfolding True[symmetric]
    using that assms view by (intro vote_stored_wp) (auto simp: leads_twice)
  show ?thesis
    using True
    by (auto simp: vote_on_request_def wp_then[of "pure_result _"] wp_then[of "repo_fetch_votes _ _"] expire answered view
        assms(1,4) vote simp del: ApprovalReasonCode_code.simps split: sum.splits intro!: votes_wp)
next
  case False
  then show ?thesis using assms(4) by (simp add: vote_on_request_def answered)
qed

lemma record_vote_wp:
  assumes "inv s" "approved_twice s"
  shows "wp (record_vote T repo inp) s
    (allows_backed T (vi_request_id inp) (vi_action_id inp) (vi_now_utc inp) s)"
proof (cases "vote_input_checks T inp")
  case (Inl e)
  then show ?thesis using assms by (simp add: record_vote_def wp_then leads_to_refl answered)
next
  case (Inr action)
  then have action: "vi_action_id inp = CriticalActionId_as_str action"
    by (auto simp: vote_input_checks_def and_then_Inr_iff critical_action.parse_iff)
  have view: "leads_to s t" "inv t" "approved_twice t" if "same_view s t" for t
    using assms(2) that same_view_leads leads_twice by blast+
  have found: "wp (vote_on_request T repo inp action q) t
      (allows_backed T (vi_request_id inp) (CriticalActionId_as_str action) (vi_now_utc inp) s)"
    if "same_view s t" "request_of s (vi_request_id inp) = Some q" for t q
    using vote_on_request_wp[of t s q T inp action] that view[OF that(1)] named[OF that(2)] leads_twice(5)[OF that(1)] by simp
  show ?thesis
    unfolding record_vote_def action
    by (auto simp: wp_then Inr answered view found split: option.splits intro!: fetch_wp assms)
qed

lemma evaluate_pending_wp:
  assumes "inv u" "approved_twice u" "leads_to s u" "request_of u (ar_request_id q) = Some q"
    and "ar_status q = ApprovalState.Pending" "is_expired_at T q now = Inr False"
  shows "wp (evaluate_pending T repo inp action q) u (allows_backed T (ar_request_id q) (ar_action_id q) now s)"
proof -
  let ?Q = "allows_backed T (ar_request_id q) (ar_action_id q) now s"
  have view: "leads_to s t" "approved_twice t" "inv t" if "same_view u t" for t
    using assms that leads_to_trans same_view_leads leads_twice by blast+
  have reject: "wp (run_then (repo_update_request repo (ar_request_id q) ApprovalState.Rejected
         ApprovalReasonCode.ExplicitlyRejected None) (\<lambda>_. answer (execution_decision ApprovalDecisionOutcome.Deny inp
           (ar_request_id q) action ApprovalState.Rejected ApprovalReasonCode.ExplicitlyRejected None))) t ?Q"
    if "same_view u t" for t
    using assms that view[OF that] by (intro settle_wp[where q = q]) (simp_all add: status_follows_def leads_twice)
  have approve: "wp (run_then (repo_update_request repo (ar_request_id q) ApprovalState.Approved
         ApprovalReasonCode.ApprovalAllowed (Some reference)) (\<lambda>_. answer (execution_decision ApprovalDecisionOutcome.Allow inp
           (ar_request_id q) action ApprovalState.Approved ApprovalReasonCode.ApprovalAllowed (Some reference)))) t ?Q"
    if "same_view u t" "set vs = votes_of u (ar_request_id q)"
      "find (\<lambda>vote. av_decision vote = ApprovalVoteDecision.Approve
        \<and> actors_are_distinct (ar_proposer_actor_id q) (av_actor_id vote)) vs = Some v" for t vs v reference
  proof -
    have "second_approval q (votes_of u (ar_request_id q))"
      using that(2,3) by (auto simp: second_approval_def find_Some_iff dest: nth_mem)
    then show ?thesis
      using assms that(1) view[OF that(1)]
      by (intro settle_wp[where q = q]) (simp_all add: status_follows_def leads_twice)
  qed
  show ?thesis
    unfolding evaluate_pending_def
    by (auto simp: wp_then[of "pure_result _"] wp_then[of "repo_fetch_votes _ _"] reject approve answered view assms(1)
        split: sum.splits option.splits intro!: votes_wp)
qed

lemma execute_on_request_wp:
  assumes "inv u" "approved_twice u" "leads_to s u" "request_of u (ar_request_id q) = Some q"
  shows "wp (execute_on_request T repo inp action q) u
    (allows_backed T (ar_request_id q) (CriticalActionId_as_str action) (ei_now_utc inp) s)"
proof (cases "ar_action_id q = CriticalActionId_as_str action")
  case True
  let ?Q = "allows_backed T (ar_request_id q) (CriticalActionId_as_str action) (ei_now_utc inp) s"
  have expire: "wp (run_then (repo_update_request repo (ar_request_id q) ApprovalState.Expired
         ApprovalReasonCode.ExpiredWindow None) (\<lambda>_. answer (execution_decision ApprovalDecisionOutcome.Deny inp
           (ar_request_id q) action ApprovalState.Expired ApprovalReasonCode.ExpiredWindow None))) u ?Q"
    using assms by (intro settle_wp[where q = q]) (simp_all add: status_follows_def)
  have pending: "wp (evaluate_pending T repo inp action q) u ?Q"
    if "ar_status q = ApprovalState.Pending" "is_expired_at T q (ei_now_utc inp) = Inr False"
    using evaluate_pending_wp[OF assms that] True by simp
  have approved: "?Q (Inr (execution_decision ApprovalDecisionOutcome.Allow inp (ar_request_id q) action
      ApprovalState.Approved ApprovalReasonCode.ApprovalAllowed (ar_approval_reference q))) u"
    if "ar_status q = ApprovalState.Approved" "is_expired_at T q (ei_now_utc inp) = Inr False"
    using assms that True by (simp add: allows_backed_def backed_def approved_twice_def)
  show ?thesis
    using True
    by (auto simp: execute_on_request_def wp_then[of "pure_result _"] expire answered pending approved assms(3)
        split: sum.splits ApprovalState.splits)
next
  case False
  then show ?thesis using assms(3) by (simp add: execute_on_request_def answered)
qed

lemma evaluate_execution_wp:
  assumes "inv s" "approved_twice s"
  shows "wp (evaluate_execution T repo inp) s
    (allows_backed T (ei_request_id inp) (ei_action_id inp) (ei_now_utc inp) s)"
proof (cases "execution_input_checks T inp")
  case (Inl e)
  then show ?thesis using assms by (simp add: evaluate_execution_def wp_then leads_to_refl answered)
next
  case (Inr action)
  then have action: "ei_action_id inp = CriticalActionId_as_str action"
    by (auto simp: execution_input_checks_def and_then_Inr_iff critical_action.parse_iff)
  have view: "leads_to s t" "inv t" "approved_twice t" if "same_view s t" for t
    using assms(2) that same_view_leads leads_twice by blast+
  have found: "wp (execute_on_request T repo inp action q) t
      (allows_backed T (ei_request_id inp) (CriticalActionId_as_str action) (ei_now_utc inp) s)"
    if "same_view s t" "request_of s (ei_request_id inp) = Some q" for t q
    using execute_on_request_wp[of t s q T inp action] that view[OF that(1)] named[OF that(2)] leads_twice(5)[OF that(1)] by simp
  show ?thesis
    unfolding evaluate_execution_def action
    by (auto simp: wp_then Inr answered view found split: option.splits intro!: fetch_wp assms)
qed

lemma operation_leads:
  assumes "inv s" "approved_twice s" "run_operation T fmt repo operation s = (r, t)"
  shows "leads_to s t"
proof (cases operation)
  case (Submit inp)
  then show ?thesis using submit_leads[OF assms(1,2)] assms(3) by (auto dest: wpD)
next
  case (Vote inp)
  then show ?thesis using wpD[OF record_vote_wp[OF assms(1,2)]] assms(3) by (auto simp: allows_backed_def)
next
  case (Execute inp)
  then show ?thesis using wpD[OF evaluate_execution_wp[OF assms(1,2)]] assms(3) by (auto simp: allows_backed_def)
qed

lemma run_leads:
  assumes "approval_run T fmt repo s t" "inv s" "approved_twice s"
  shows "leads_to s t"
  using assms
proof (induction rule: approval_run.induct)
  case (start s)
  then show ?case by (rule leads_to_refl)
next
  case (step s t operation r u)
  then show ?case using operation_leads leads_to_trans leads_twice by blast
qed

lemma allowed_is_backed:
  assumes "approval_run T fmt repo s0 s" "inv s0" "approved_twice s0"
    and "evaluate_execution T repo inp s = (Inr d, t)" "ade_outcome d = ApprovalDecisionOutcome.Allow"
  shows "backed T (ei_request_id inp) (ei_action_id inp) (ei_now_utc inp) d t"
proof -
  have "inv s" "approved_twice s" using run_leads[OF assms(1-3)] leads_twice by blast+
  from wpD[OF evaluate_execution_wp[OF this] assms(4)] show ?thesis by (simp add: allows_backed_def)
qed

end

section \<open>Over PostgreSQL\<close>

abbreviation "pg_approvals \<equiv> PostgresApprovalRepository"

lemma empty_twice: "postgres_repository.approved_twice P (empty_approval_store, 0)"
  "readable_store (empty_approval_store, 0)"
  by (simp_all add: postgres_repository.approved_twice_def stored_request_def request_row_def empty_approval_store_def
      readable_store_def)

lemma run_append: "approval_run T fmt repo t u \<Longrightarrow> approval_run T fmt repo s t \<Longrightarrow> approval_run T fmt repo s u"
  by (induction rule: approval_run.induct) (auto intro: approval_run.intros)

text \<open>
  C14: In every state any history of submissions, votes and execution checks can lead to,
  whatever faults the database answers with, an execution is allowed only for a stored request
  of that very action whose window is open, on which an actor other than its proposer has a
  stored approving vote, and under the reference the request was approved with.
\<close>

theorem two_person_rule:
  assumes "approval_run T fmt (pg_approvals T P schedule) (empty_approval_store, 0) s"
    and "evaluate_execution T (pg_approvals T P schedule) inp s = (Inr d, t)"
    and "ade_outcome d = ApprovalDecisionOutcome.Allow"
  shows "\<exists>q v. stored_request P t (ei_request_id inp) = Some q \<and> ar_action_id q = ei_action_id inp
    \<and> approval_window_expired T (ei_now_utc inp) (ar_expires_at_utc q) = Inr False
    \<and> v \<in> stored_votes P t (ei_request_id inp) \<and> av_decision v = ApprovalVoteDecision.Approve
    \<and> actors_are_distinct (ar_proposer_actor_id q) (av_actor_id v)
    \<and> ade_approval_reference d = ar_approval_reference q \<and> ar_approval_reference q \<noteq> None"
proof -
  have "postgres_repository.backed P T (ei_request_id inp) (ei_action_id inp) (ei_now_utc inp) d t"
    using postgres_repository.allowed_is_backed[OF assms(1) empty_twice(2,1) assms(2,3)] .
  then show ?thesis
    using assms(3) unfolding postgres_repository.backed_def second_approval_def is_expired_at_def by metis
qed

text \<open>
  C15: A request that was rejected or expired at any moment of a history is never executed
  afterwards, and what a request asks for and who proposed it never change.
\<close>

theorem closed_requests_stay_closed:
  assumes "approval_run T fmt (pg_approvals T P schedule) (empty_approval_store, 0) s"
    and "approval_run T fmt (pg_approvals T P schedule) s t"
    and "stored_request P s k = Some q"
  shows "(\<exists>q'. stored_request P t k = Some q' \<and> ar_action_id q' = ar_action_id q
      \<and> ar_proposer_actor_id q' = ar_proposer_actor_id q \<and> ar_expires_at_utc q' = ar_expires_at_utc q
      \<and> (ar_status q' = ApprovalState.Approved \<longrightarrow> ar_status q \<in> {ApprovalState.Pending, ApprovalState.Approved}))
    \<and> (ar_status q \<in> {ApprovalState.Rejected, ApprovalState.Expired} \<and> ei_request_id inp = k
      \<and> evaluate_execution T (pg_approvals T P schedule) inp t = (Inr d, u)
      \<longrightarrow> ade_outcome d \<noteq> ApprovalDecisionOutcome.Allow)"
proof -
  have at_s: "readable_store s" "postgres_repository.approved_twice P s"
    using postgres_repository.run_leads[OF assms(1) empty_twice(2,1)] postgres_repository.leads_twice by blast+
  have "postgres_repository.leads_to P s t" using postgres_repository.run_leads[OF assms(2) at_s] .
  then obtain q' where q': "stored_request P t k = Some q'" "request_follows q q'"
    using assms(3) unfolding postgres_repository.leads_to_def by blast
  have "ade_outcome d \<noteq> ApprovalDecisionOutcome.Allow"
    if closed: "ar_status q \<in> {ApprovalState.Rejected, ApprovalState.Expired}" and k: "ei_request_id inp = k"
      and run: "evaluate_execution T (pg_approvals T P schedule) inp t = (Inr d, u)"
  proof
    assume allow: "ade_outcome d = ApprovalDecisionOutcome.Allow"
    have "run_operation T fmt (pg_approvals T P schedule) (approval_operation.Execute inp) t = (Inr d, u)"
      using run by simp
    then have "approval_run T fmt (pg_approvals T P schedule) s u" by (rule approval_run.step[OF assms(2)])
    then have "postgres_repository.leads_to P s u" using postgres_repository.run_leads[OF _ at_s] by blast
    then obtain q2 where "stored_request P u k = Some q2" "request_follows q q2"
      using assms(3) unfolding postgres_repository.leads_to_def by blast
    moreover have "postgres_repository.backed P T k (ei_action_id inp) (ei_now_utc inp) d u"
      using postgres_repository.allowed_is_backed[OF run_append[OF assms(2,1)] empty_twice(2,1) run allow] k by simp
    ultimately show False
      using allow closed by (auto simp: postgres_repository.backed_def request_follows_def status_follows_def)
  qed
  then show ?thesis using q' by (auto simp: request_follows_def status_follows_def)
qed

subsection \<open>Without faults\<close>

definition no_faults :: "nat \<Rightarrow> constraint_faults" where
  "no_faults _ _ = None"

lemma fetch_without_faults:
  assumes "\<not> blank k" "stored_request P s k = Some q"
  shows "repo_fetch_request (pg_approvals T P no_faults) k s = (Inr (Some q), (fst s, Suc (snd s)))"
proof -
  obtain row where "request_row k (fst s) = Some row" "decode_approval_request_row P row = Inr q"
    using assms(2) by (cases "request_row k (fst s)"; cases "decode_approval_request_row P (the (request_row k (fst s)))")
      (auto simp: stored_request_def)
  then show ?thesis
    using assms(1)
    by (simp add: PostgresApprovalRepository_def pg_call_def load_approval_request_def validate_approval_non_empty_def
        approval_sql_def constrained_def statement_def no_faults_def)
qed

text \<open>
  C16: While the database works, an approval that a second person gave is enough: every later
  execution check of the same action with valid inputs, before the window closes, is allowed
  under the same reference.
\<close>

theorem approved_request_executes:
  assumes "approval_run T fmt (pg_approvals T P no_faults) (empty_approval_store, 0) s"
    and "record_vote T (pg_approvals T P no_faults) vin s = (Inr d, t)"
    and "ade_outcome d = ApprovalDecisionOutcome.Allow"
    and "execution_input_checks T ein = Inr action"
    and "ei_request_id ein = vi_request_id vin" "ei_action_id ein = vi_action_id vin"
    and "\<And>q. stored_request P t (vi_request_id vin) = Some q
      \<Longrightarrow> approval_window_expired T (ei_now_utc ein) (ar_expires_at_utc q) = Inr False"
  shows "\<exists>d' u. evaluate_execution T (pg_approvals T P no_faults) ein t = (Inr d', u)
    \<and> ade_outcome d' = ApprovalDecisionOutcome.Allow \<and> ade_approval_reference d' = ade_approval_reference d"
proof -
  have at_s: "readable_store s" "postgres_repository.approved_twice P s"
    using postgres_repository.run_leads[OF assms(1) empty_twice(2,1)] postgres_repository.leads_twice by blast+
  have "postgres_repository.backed P T (vi_request_id vin) (vi_action_id vin) (vi_now_utc vin) d t"
    using wpD[OF postgres_repository.record_vote_wp[OF at_s] assms(2)]
    by (simp add: postgres_repository.allows_backed_def)
  then obtain q where q: "stored_request P t (vi_request_id vin) = Some q" "ar_status q = ApprovalState.Approved"
      "ar_action_id q = vi_action_id vin" "ade_approval_reference d \<noteq> None"
      "ar_approval_reference q = ade_approval_reference d"
    using assms(3) unfolding postgres_repository.backed_def by blast
  have input: "\<not> blank (vi_request_id vin)" "ei_action_id ein = CriticalActionId_as_str action"
    using assms(4,5) by (auto simp: execution_input_checks_def and_then_Inr_iff validate_service_non_empty_def
        critical_action.parse_iff split: if_splits)
  note fetch = fetch_without_faults[OF input(1) q(1), of T]
  show ?thesis
    using assms(4-6) input(2) q(2-5) assms(7)[OF q(1)]
    by (auto simp: evaluate_execution_def run_then_def[of "repo_fetch_request _ _"] fetch execute_on_request_def is_expired_at_def answer_def)
qed

section \<open>A concrete history\<close>

definition demo_submission :: SubmitApprovalRequestInput where
  "demo_submission = \<lparr>si_request_id = ''req-1'', si_action_id = ''kill_switch_disable'',
     si_proposer_actor_id = ''ops-1'', si_proposer_role = ''operational_control'', si_correlation_id = ''c'',
     si_now_utc = ''2026-04-06T00:00:00Z'', si_expires_at_utc = ''2026-04-06T00:00:45Z''\<rparr>"

definition demo_vote :: "string \<Rightarrow> ApprovalVoteDecision \<Rightarrow> RecordApprovalVoteInput" where
  "demo_vote actor decision = \<lparr>vi_request_id = ''req-1'', vi_action_id = ''kill_switch_disable'',
     vi_actor_id = actor, vi_actor_role = ''administrative_actions'', vi_vote = decision,
     vi_correlation_id = ''c'', vi_now_utc = ''2026-04-06T00:00:05Z''\<rparr>"

definition demo_execution :: EvaluateApprovalExecutionInput where
  "demo_execution = \<lparr>ei_request_id = ''req-1'', ei_action_id = ''kill_switch_disable'',
     ei_actor_id = ''ops-1'', ei_actor_role = ''operational_control'', ei_correlation_id = ''c'',
     ei_now_utc = ''2026-04-06T00:00:30Z''\<rparr>"

text \<open>The timestamps of the hour before; every request of the history is later.\<close>

definition demo_hour_format :: "int \<Rightarrow> string" where
  "demo_hour_format t = ''1970-01-01T00:00:00Z''"

definition demo_history :: "(nat \<Rightarrow> constraint_faults) \<Rightarrow> approval_operation list \<Rightarrow> approval_store \<times> nat" where
  "demo_history schedule operations = foldl (\<lambda>s operation.
     snd (run_operation demo_time demo_hour_format (pg_approvals demo_time demo_pg schedule) operation s))
     (empty_approval_store, 0) operations"

lemma foldl_run:
  "approval_run T fmt repo s (foldl (\<lambda>s operation. snd (run_operation T fmt repo operation s)) s operations)"
proof (induction operations rule: rev_induct)
  case Nil
  then show ?case by (simp add: approval_run.start)
next
  case (snoc operation operations)
  let ?t = "foldl (\<lambda>s operation. snd (run_operation T fmt repo operation s)) s operations"
  obtain r u where "run_operation T fmt repo operation ?t = (r, u)" by fastforce
  with approval_run.step[OF snoc this] show ?case by simp
qed

lemma demo_history_run:
  "approval_run demo_time demo_hour_format (pg_approvals demo_time demo_pg schedule) (empty_approval_store, 0)
     (demo_history schedule operations)"
  unfolding demo_history_def by (rule foldl_run)

abbreviation "demo_approved \<equiv> demo_history no_faults
  [approval_operation.Submit demo_submission, approval_operation.Vote (demo_vote ''Admin-1'' ApprovalVoteDecision.Approve)]"

lemma demo_allowed:
  "ade_outcome (projr (fst (evaluate_execution demo_time (pg_approvals demo_time demo_pg no_faults) demo_execution demo_approved)))
     = ApprovalDecisionOutcome.Allow
   \<and> \<not> isl (fst (evaluate_execution demo_time (pg_approvals demo_time demo_pg no_faults) demo_execution demo_approved))"
  by code_simp

theorem two_person_rule_witness:
  "\<exists>d t q. evaluate_execution demo_time (pg_approvals demo_time demo_pg no_faults) demo_execution demo_approved = (Inr d, t)
     \<and> stored_request demo_pg t ''req-1'' = Some q \<and> ar_action_id q = ''kill_switch_disable''"
proof -
  obtain d t where run: "evaluate_execution demo_time (pg_approvals demo_time demo_pg no_faults) demo_execution demo_approved = (Inr d, t)"
    using demo_allowed by (metis is_okE prod.collapse)
  moreover have "ade_outcome d = ApprovalDecisionOutcome.Allow" using demo_allowed run by simp
  ultimately show ?thesis
    using two_person_rule[OF demo_history_run run] by (auto simp: demo_execution_def)
qed

lemma demo_rejected: "\<exists>q. stored_request demo_pg (demo_history no_faults [approval_operation.Submit demo_submission,
    approval_operation.Vote (demo_vote ''admin-1'' ApprovalVoteDecision.Reject)]) ''req-1'' = Some q \<and> ar_status q = ApprovalState.Rejected"
proof -
  have "map_option ar_status (stored_request demo_pg (demo_history no_faults [approval_operation.Submit demo_submission,
    approval_operation.Vote (demo_vote ''admin-1'' ApprovalVoteDecision.Reject)]) ''req-1'') = Some ApprovalState.Rejected"
    by code_simp
  then show ?thesis by auto
qed

theorem closed_requests_stay_closed_witness:
  "\<exists>s. approval_run demo_time demo_hour_format (pg_approvals demo_time demo_pg no_faults) (empty_approval_store, 0) s
     \<and> (\<forall>t d u. approval_run demo_time demo_hour_format (pg_approvals demo_time demo_pg no_faults) s t
        \<longrightarrow> evaluate_execution demo_time (pg_approvals demo_time demo_pg no_faults) demo_execution t = (Inr d, u)
        \<longrightarrow> ade_outcome d \<noteq> ApprovalDecisionOutcome.Allow)"
proof -
  let ?s = "demo_history no_faults [approval_operation.Submit demo_submission,
    approval_operation.Vote (demo_vote ''admin-1'' ApprovalVoteDecision.Reject)]"
  obtain q where q: "stored_request demo_pg ?s ''req-1'' = Some q" "ar_status q = ApprovalState.Rejected"
    using demo_rejected by blast
  have "ade_outcome d \<noteq> ApprovalDecisionOutcome.Allow"
    if "approval_run demo_time demo_hour_format (pg_approvals demo_time demo_pg no_faults) ?s t"
      "evaluate_execution demo_time (pg_approvals demo_time demo_pg no_faults) demo_execution t = (Inr d, u)" for t d u
    using closed_requests_stay_closed[OF demo_history_run that(1) q(1), of demo_execution d u] that(2) q(2)
    by (simp add: demo_execution_def)
  then show ?thesis using demo_history_run[of no_faults] by blast
qed

theorem approved_request_executes_witness:
  "\<exists>d' u. evaluate_execution demo_time (pg_approvals demo_time demo_pg no_faults) demo_execution demo_approved = (Inr d', u)
     \<and> ade_outcome d' = ApprovalDecisionOutcome.Allow"
proof -
  let ?s = "demo_history no_faults [approval_operation.Submit demo_submission]"
  let ?v = "demo_vote ''Admin-1'' ApprovalVoteDecision.Approve"
  let ?repo = "pg_approvals demo_time demo_pg no_faults"
  have voted: "\<not> isl (fst (record_vote demo_time ?repo ?v ?s))"
    "ade_outcome (projr (fst (record_vote demo_time ?repo ?v ?s))) = ApprovalDecisionOutcome.Allow"
    by code_simp+
  have after: "demo_approved = snd (record_vote demo_time ?repo ?v ?s)" by (simp add: demo_history_def)
  obtain d where run: "record_vote demo_time ?repo ?v ?s = (Inr d, demo_approved)"
    unfolding after using voted(1) by (metis is_okE prod.collapse)
  have allow: "ade_outcome d = ApprovalDecisionOutcome.Allow" using voted(2) run by simp
  have input: "execution_input_checks demo_time demo_execution = Inr CriticalActionId.KillSwitchDisable" by code_simp
  have expires: "map_option ar_expires_at_utc (stored_request demo_pg demo_approved ''req-1'') = Some ''2026-04-06T00:00:45Z''"
    by code_simp
  have "approval_window_expired demo_time ''2026-04-06T00:00:30Z'' ''2026-04-06T00:00:45Z'' = Inr False" by code_simp
  then have "approval_window_expired demo_time (ei_now_utc demo_execution) (ar_expires_at_utc q) = Inr False"
    if "stored_request demo_pg demo_approved (vi_request_id ?v) = Some q" for q
    using that expires by (simp add: demo_vote_def demo_execution_def)
  then show ?thesis
    using approved_request_executes[OF demo_history_run run allow input] by (auto simp: demo_vote_def demo_execution_def)
qed

text \<open>
  A rejection whose status update fails leaves the request pending with the rejecting vote
  stored; a third actor's approving vote then approves it, although a rejection stands.
\<close>

definition update_fails_once :: "nat \<Rightarrow> constraint_faults" where
  "update_fails_once n operation =
     (if n = 6 \<and> operation = ''update_approval_request''
      then Some \<lparr>df_code = None, df_text = ''connection reset'', df_constraint = None, df_message = []\<rparr> else None)"

lemma rejection_can_be_outvoted:
  "let s = demo_history update_fails_once [approval_operation.Submit demo_submission,
      approval_operation.Vote (demo_vote ''admin-1'' ApprovalVoteDecision.Reject),
      approval_operation.Vote (demo_vote ''admin-2'' ApprovalVoteDecision.Approve)]
   in map_option ar_status (stored_request demo_pg s ''req-1'') = Some ApprovalState.Approved
     \<and> list_ex (\<lambda>r. vw_request_id r = ''req-1'' \<and> vw_decision r = ''reject'') (as_votes (fst s))"
  by code_simp

end
