(* ===== verification/Json.thy ===== *)
theory Json
  imports Prelude F64
begin

text \<open>
  The values of \<open>serde_json\<close> the contracts carry. A number is an integer or a binary64 number;
  an object is the list of its members in the order its map iterates over them, by key.
\<close>

datatype json = JNull | JBool bool | JInt int | JFloat f64 | JString string | JArray "json list"
  | JObject "(string \<times> json) list"

text \<open>\<open>Value::is_object\<close>\<close>

fun is_object :: "json \<Rightarrow> bool" where
  "is_object (JObject _) = True"
| "is_object _ = False"

text \<open>\<open>json!\<close> of a number that is not finite is null.\<close>

definition json_f64 :: "f64 \<Rightarrow> json" where
  "json_f64 x = (if f_is_finite x then JFloat x else JNull)"

end
