(* ===== verification/CredentialContract.thy ===== *)
theory CredentialContract
  imports Json
begin

text \<open>
  The credential rotation contract of \<open>crates/domain/src/governance.rs\<close>: triggers, states and
  reasons, the deadlines, and the metadata that may not carry secrets.
\<close>

section \<open>Codes and errors\<close>

datatype CredentialRotationReasonCode = RotationAllowed | RotationPending | ScheduledNotDue | EmergencyWindowExpired
  | UnauthorizedRole | MissingMetadata | InvalidPayload | ProviderUnavailable | RuntimeUnavailable
  | ReadinessAmbiguous | SecretMaterialRejected | InvalidStateTransition

fun CredentialRotationReasonCode_code :: "CredentialRotationReasonCode \<Rightarrow> string" where
  "CredentialRotationReasonCode_code CredentialRotationReasonCode.RotationAllowed = ''credential_rotation_allowed''"
| "CredentialRotationReasonCode_code CredentialRotationReasonCode.RotationPending = ''credential_rotation_pending''"
| "CredentialRotationReasonCode_code CredentialRotationReasonCode.ScheduledNotDue = ''credential_rotation_scheduled_not_due''"
| "CredentialRotationReasonCode_code CredentialRotationReasonCode.EmergencyWindowExpired = ''credential_rotation_emergency_window_expired''"
| "CredentialRotationReasonCode_code CredentialRotationReasonCode.UnauthorizedRole = ''credential_rotation_unauthorized_role''"
| "CredentialRotationReasonCode_code CredentialRotationReasonCode.MissingMetadata = ''credential_rotation_missing_metadata''"
| "CredentialRotationReasonCode_code CredentialRotationReasonCode.InvalidPayload = ''credential_rotation_invalid_payload''"
| "CredentialRotationReasonCode_code CredentialRotationReasonCode.ProviderUnavailable = ''credential_rotation_provider_unavailable''"
| "CredentialRotationReasonCode_code CredentialRotationReasonCode.RuntimeUnavailable = ''credential_rotation_runtime_unavailable''"
| "CredentialRotationReasonCode_code CredentialRotationReasonCode.ReadinessAmbiguous = ''credential_rotation_readiness_ambiguous''"
| "CredentialRotationReasonCode_code CredentialRotationReasonCode.SecretMaterialRejected = ''credential_rotation_secret_material_rejected''"
| "CredentialRotationReasonCode_code CredentialRotationReasonCode.InvalidStateTransition = ''credential_rotation_invalid_state_transition''"

record CredentialRotationContractError =
  cr_code :: string
  cr_message :: string

definition CredentialRotationContractError_invalid_trigger :: "string \<Rightarrow> CredentialRotationContractError" where
  "CredentialRotationContractError_invalid_trigger v =
     \<lparr>cr_code = ''credential_rotation_invalid_trigger'', cr_message = ''unknown credential rotation trigger `'' @ v @ ''`''\<rparr>"

definition CredentialRotationContractError_invalid_state :: "string \<Rightarrow> CredentialRotationContractError" where
  "CredentialRotationContractError_invalid_state v =
     \<lparr>cr_code = ''credential_rotation_invalid_state'', cr_message = ''unknown credential rotation state `'' @ v @ ''`''\<rparr>"

definition CredentialRotationContractError_invalid_reason :: "string \<Rightarrow> CredentialRotationContractError" where
  "CredentialRotationContractError_invalid_reason v =
     \<lparr>cr_code = ''credential_rotation_invalid_reason'', cr_message = ''unknown credential rotation reason `'' @ v @ ''`''\<rparr>"

definition CredentialRotationContractError_invalid_timestamp :: "string \<Rightarrow> string \<Rightarrow> CredentialRotationContractError" where
  "CredentialRotationContractError_invalid_timestamp field v =
     \<lparr>cr_code = CredentialRotationReasonCode_code CredentialRotationReasonCode.InvalidPayload,
      cr_message = ''invalid RFC3339 UTC timestamp for `'' @ field @ ''`: `'' @ v @ ''`''\<rparr>"

definition CredentialRotationContractError_invalid_payload :: "string \<Rightarrow> CredentialRotationContractError" where
  "CredentialRotationContractError_invalid_payload message =
     \<lparr>cr_code = CredentialRotationReasonCode_code CredentialRotationReasonCode.InvalidPayload, cr_message = message\<rparr>"

definition CredentialRotationContractError_missing_metadata :: "string \<Rightarrow> CredentialRotationContractError" where
  "CredentialRotationContractError_missing_metadata message =
     \<lparr>cr_code = CredentialRotationReasonCode_code CredentialRotationReasonCode.MissingMetadata, cr_message = message\<rparr>"

definition CredentialRotationContractError_secret_material :: "string \<Rightarrow> CredentialRotationContractError" where
  "CredentialRotationContractError_secret_material message =
     \<lparr>cr_code = CredentialRotationReasonCode_code CredentialRotationReasonCode.SecretMaterialRejected, cr_message = message\<rparr>"

definition CredentialRotationReasonCode_parse :: "string \<Rightarrow> CredentialRotationContractError + CredentialRotationReasonCode" where
  "CredentialRotationReasonCode_parse = parse_arms
     [(''credential_rotation_allowed'', CredentialRotationReasonCode.RotationAllowed),
      (''credential_rotation_pending'', CredentialRotationReasonCode.RotationPending),
      (''credential_rotation_scheduled_not_due'', CredentialRotationReasonCode.ScheduledNotDue),
      (''credential_rotation_emergency_window_expired'', CredentialRotationReasonCode.EmergencyWindowExpired),
      (''credential_rotation_unauthorized_role'', CredentialRotationReasonCode.UnauthorizedRole),
      (''credential_rotation_missing_metadata'', CredentialRotationReasonCode.MissingMetadata),
      (''credential_rotation_invalid_payload'', CredentialRotationReasonCode.InvalidPayload),
      (''credential_rotation_provider_unavailable'', CredentialRotationReasonCode.ProviderUnavailable),
      (''credential_rotation_runtime_unavailable'', CredentialRotationReasonCode.RuntimeUnavailable),
      (''credential_rotation_readiness_ambiguous'', CredentialRotationReasonCode.ReadinessAmbiguous),
      (''credential_rotation_secret_material_rejected'', CredentialRotationReasonCode.SecretMaterialRejected),
      (''credential_rotation_invalid_state_transition'', CredentialRotationReasonCode.InvalidStateTransition)]
     CredentialRotationContractError_invalid_reason"

interpretation rotation_reason: enum_codec "\<lambda>v. v" CredentialRotationReasonCode_code CredentialRotationReasonCode_parse
  by (unfold CredentialRotationReasonCode_parse_def, rule enum_codec_arms, case_tac x) simp_all

datatype CredentialRotationTrigger = ScheduledCadence | EmergencyCompromise

fun CredentialRotationTrigger_as_str :: "CredentialRotationTrigger \<Rightarrow> string" where
  "CredentialRotationTrigger_as_str CredentialRotationTrigger.ScheduledCadence = ''scheduled_cadence''"
| "CredentialRotationTrigger_as_str CredentialRotationTrigger.EmergencyCompromise = ''emergency_compromise''"

definition CredentialRotationTrigger_parse :: "string \<Rightarrow> CredentialRotationContractError + CredentialRotationTrigger" where
  "CredentialRotationTrigger_parse = parse_arms
     [(''scheduled_cadence'', CredentialRotationTrigger.ScheduledCadence),
      (''emergency_compromise'', CredentialRotationTrigger.EmergencyCompromise)]
     CredentialRotationContractError_invalid_trigger"

interpretation rotation_trigger: enum_codec "\<lambda>v. v" CredentialRotationTrigger_as_str CredentialRotationTrigger_parse
  by (unfold CredentialRotationTrigger_parse_def, rule enum_codec_arms, case_tac x) simp_all

datatype CredentialRotationState = Pending | InProgress | Succeeded | Denied | Failed

fun CredentialRotationState_as_str :: "CredentialRotationState \<Rightarrow> string" where
  "CredentialRotationState_as_str CredentialRotationState.Pending = ''pending''"
| "CredentialRotationState_as_str CredentialRotationState.InProgress = ''in_progress''"
| "CredentialRotationState_as_str CredentialRotationState.Succeeded = ''succeeded''"
| "CredentialRotationState_as_str CredentialRotationState.Denied = ''denied''"
| "CredentialRotationState_as_str CredentialRotationState.Failed = ''failed''"

definition CredentialRotationState_parse :: "string \<Rightarrow> CredentialRotationContractError + CredentialRotationState" where
  "CredentialRotationState_parse = parse_arms
     [(''pending'', CredentialRotationState.Pending),
      (''in_progress'', CredentialRotationState.InProgress),
      (''succeeded'', CredentialRotationState.Succeeded),
      (''denied'', CredentialRotationState.Denied),
      (''failed'', CredentialRotationState.Failed)]
     CredentialRotationContractError_invalid_state"

interpretation rotation_state: enum_codec "\<lambda>v. v" CredentialRotationState_as_str CredentialRotationState_parse
  by (unfold CredentialRotationState_parse_def, rule enum_codec_arms, case_tac x) simp_all

datatype CredentialRotationDecisionOutcome = Allow | Deny | Pending

fun CredentialRotationDecisionOutcome_as_str :: "CredentialRotationDecisionOutcome \<Rightarrow> string" where
  "CredentialRotationDecisionOutcome_as_str CredentialRotationDecisionOutcome.Allow = ''allow''"
| "CredentialRotationDecisionOutcome_as_str CredentialRotationDecisionOutcome.Deny = ''deny''"
| "CredentialRotationDecisionOutcome_as_str CredentialRotationDecisionOutcome.Pending = ''pending''"

section \<open>Times\<close>

definition ROTATION_SCHEDULE_DUE_DAYS :: int where
  "ROTATION_SCHEDULE_DUE_DAYS = 90"

definition ROTATION_EMERGENCY_DEADLINE_MINUTES :: int where
  "ROTATION_EMERGENCY_DEADLINE_MINUTES = 30"

definition duration_minutes :: "int \<Rightarrow> int" where
  "duration_minutes n = n * 60000000000"

definition duration_days :: "int \<Rightarrow> int" where
  "duration_days n = n * 86400000000000"

definition parse_rotation_utc_timestamp :: "time_crate \<Rightarrow> string \<Rightarrow> string \<Rightarrow> CredentialRotationContractError + int" where
  "parse_rotation_utc_timestamp T field v = (case rfc3339_parse T v of
      None \<Rightarrow> Inl (CredentialRotationContractError_invalid_timestamp field v)
    | Some (t, off) \<Rightarrow> if off \<noteq> 0 then Inl (CredentialRotationContractError_invalid_timestamp field v) else Inr t)"

lemma parse_rotation_Inr [simp]:
  "parse_rotation_utc_timestamp T field v = Inr t \<longleftrightarrow> parse_utc_timestamp T v = Some t"
  by (auto simp: parse_rotation_utc_timestamp_def parse_utc_timestamp_def split: option.splits)

definition scheduled_rotation_due :: "time_crate \<Rightarrow> string \<Rightarrow> string \<Rightarrow> CredentialRotationContractError + bool" where
  "scheduled_rotation_due T last_rotated_at_utc now_utc =
     and_then (parse_rotation_utc_timestamp T ''last_rotated_at_utc'' last_rotated_at_utc) (\<lambda>last_rotated.
     and_then (parse_rotation_utc_timestamp T ''now_utc'' now_utc) (\<lambda>now.
     if now < last_rotated then
       Inl (CredentialRotationContractError_invalid_payload ''`now_utc` cannot be earlier than `last_rotated_at_utc`'')
     else Inr (duration_days ROTATION_SCHEDULE_DUE_DAYS \<le> now - last_rotated)))"

definition emergency_rotation_within_deadline ::
    "time_crate \<Rightarrow> string \<Rightarrow> string \<Rightarrow> CredentialRotationContractError + bool" where
  "emergency_rotation_within_deadline T compromise_triggered_at_utc completed_at_utc =
     and_then (parse_rotation_utc_timestamp T ''compromise_triggered_at_utc'' compromise_triggered_at_utc) (\<lambda>triggered.
     and_then (parse_rotation_utc_timestamp T ''completed_at_utc'' completed_at_utc) (\<lambda>completed.
     if completed < triggered then
       Inl (CredentialRotationContractError_invalid_payload
         ''`completed_at_utc` cannot be earlier than `compromise_triggered_at_utc`'')
     else Inr (completed - triggered \<le> duration_minutes ROTATION_EMERGENCY_DEADLINE_MINUTES)))"

text \<open>\<open>fmt\<close> formats a time, which the \<open>time\<close> crate does.\<close>

definition emergency_rotation_deadline_utc ::
    "time_crate \<Rightarrow> (int \<Rightarrow> string) \<Rightarrow> string \<Rightarrow> CredentialRotationContractError + string" where
  "emergency_rotation_deadline_utc T fmt compromise_triggered_at_utc =
     and_then (parse_rotation_utc_timestamp T ''compromise_triggered_at_utc'' compromise_triggered_at_utc) (\<lambda>triggered.
     Inr (fmt (triggered + duration_minutes ROTATION_EMERGENCY_DEADLINE_MINUTES)))"

section \<open>Metadata\<close>

definition MAX_ROTATION_METADATA_DEPTH :: nat where
  "MAX_ROTATION_METADATA_DEPTH = 8"

definition MAX_ROTATION_METADATA_TEXT_LEN :: int where
  "MAX_ROTATION_METADATA_TEXT_LEN = 256"

definition looks_like_secret_token :: "string \<Rightarrow> bool" where
  "looks_like_secret_token v = list_ex (text_contains (to_ascii_lowercase v))
     [''api_key'', ''authorization'', ''password'', ''private_key'', ''secret'', ''token'', ''credential_value'']"

definition reference_safe_char :: "char \<Rightarrow> bool" where
  "reference_safe_char c = (is_ascii_alphanumeric c \<or> c \<in> set ''-_.:/'')"

definition validate_non_blank_rotation_field :: "string \<Rightarrow> string \<Rightarrow> CredentialRotationContractError + unit" where
  "validate_non_blank_rotation_field field v =
     (if blank v then Inl (CredentialRotationContractError_invalid_payload (field @ '' cannot be blank'')) else Inr ())"

definition validate_reference_like_field :: "string \<Rightarrow> string \<Rightarrow> CredentialRotationContractError + unit" where
  "validate_reference_like_field field v =
     (let candidate = trim v
      in if candidate = [] then Inl (CredentialRotationContractError_invalid_payload (field @ '' cannot be blank''))
         else if MAX_ROTATION_METADATA_TEXT_LEN < int (length candidate) then
           Inl (CredentialRotationContractError_invalid_payload (field @ '' exceeds maximum supported length''))
         else if looks_like_secret_token candidate then
           Inl (CredentialRotationContractError_secret_material (field @ '' appears to contain secret material''))
         else if \<not> list_all reference_safe_char candidate then
           Inl (CredentialRotationContractError_invalid_payload (field @ '' must use reference-safe characters only''))
         else Inr ())"

fun validate_metadata_value :: "json \<Rightarrow> nat \<Rightarrow> CredentialRotationContractError + unit"
  and validate_metadata_members :: "(string \<times> json) list \<Rightarrow> nat \<Rightarrow> CredentialRotationContractError + unit"
  and validate_metadata_elements :: "json list \<Rightarrow> nat \<Rightarrow> CredentialRotationContractError + unit" where
  "validate_metadata_value v depth =
     (if MAX_ROTATION_METADATA_DEPTH < depth then
        Inl (CredentialRotationContractError_invalid_payload ''rotation metadata exceeds maximum nesting depth'')
      else case v of
        JObject members \<Rightarrow> validate_metadata_members members depth
      | JArray vs \<Rightarrow> validate_metadata_elements vs depth
      | JString text \<Rightarrow> validate_reference_like_field ''metadata'' text
      | _ \<Rightarrow> Inr ())"
| "validate_metadata_members [] depth = Inr ()"
| "validate_metadata_members ((key, child) # members) depth =
     (if blank key then
        Inl (CredentialRotationContractError_missing_metadata ''rotation metadata keys cannot be blank'')
      else if looks_like_secret_token key then
        Inl (CredentialRotationContractError_secret_material (''rotation metadata key `'' @ key @ ''` is not allowed''))
      else and_then (validate_metadata_value child (depth + 1)) (\<lambda>_. validate_metadata_members members depth))"
| "validate_metadata_elements [] depth = Inr ()"
| "validate_metadata_elements (child # vs) depth =
     and_then (validate_metadata_value child (depth + 1)) (\<lambda>_. validate_metadata_elements vs depth)"

definition validate_rotation_metadata :: "json \<Rightarrow> CredentialRotationContractError + unit" where
  "validate_rotation_metadata metadata =
     (if \<not> is_object metadata then
        Inl (CredentialRotationContractError_missing_metadata ''rotation metadata must be a JSON object'')
      else validate_metadata_value metadata 0)"

section \<open>Evidence\<close>

record CredentialRotationEvidence =
  cv_rotation_id :: string
  cv_actor_id :: string
  cv_trigger_type :: CredentialRotationTrigger
  cv_credential_scope :: string
  cv_credential_reference :: string
  cv_outcome :: CredentialRotationDecisionOutcome
  cv_status :: CredentialRotationState
  cv_reason_code :: string
  cv_correlation_id :: string
  cv_initiated_at_utc :: string
  cv_deadline_at_utc :: "string option"
  cv_completed_at_utc :: "string option"
  cv_rotation_reference :: "string option"
  cv_metadata :: json

definition optional_check :: "('a \<Rightarrow> 'e + 'b) \<Rightarrow> 'a option \<Rightarrow> 'e + unit" where
  "optional_check check v = (case v of Some a \<Rightarrow> and_then (check a) (\<lambda>_. Inr ()) | None \<Rightarrow> Inr ())"

definition validate_contract :: "time_crate \<Rightarrow> CredentialRotationEvidence \<Rightarrow> CredentialRotationContractError + unit" where
  "validate_contract T self =
     and_then (validate_non_blank_rotation_field ''rotation_id'' (cv_rotation_id self)) (\<lambda>_.
     and_then (validate_non_blank_rotation_field ''actor_id'' (cv_actor_id self)) (\<lambda>_.
     and_then (validate_non_blank_rotation_field ''credential_scope'' (cv_credential_scope self)) (\<lambda>_.
     and_then (validate_reference_like_field ''credential_reference'' (cv_credential_reference self)) (\<lambda>_.
     and_then (validate_non_blank_rotation_field ''correlation_id'' (cv_correlation_id self)) (\<lambda>_.
     and_then (CredentialRotationReasonCode_parse (cv_reason_code self)) (\<lambda>_.
     and_then (parse_rotation_utc_timestamp T ''initiated_at_utc'' (cv_initiated_at_utc self)) (\<lambda>_.
     and_then (optional_check (parse_rotation_utc_timestamp T ''deadline_at_utc'') (cv_deadline_at_utc self)) (\<lambda>_.
     and_then (optional_check (parse_rotation_utc_timestamp T ''completed_at_utc'') (cv_completed_at_utc self)) (\<lambda>_.
     and_then (optional_check (validate_reference_like_field ''rotation_reference'') (cv_rotation_reference self)) (\<lambda>_.
     and_then (validate_rotation_metadata (cv_metadata self)) (\<lambda>_. Inr ())))))))))))"

section \<open>What the metadata check accepts\<close>

text \<open>A text the evidence may carry, and what a value is made of.\<close>

definition reference_like :: "string \<Rightarrow> bool" where
  "reference_like v \<longleftrightarrow> \<not> blank v \<and> int (length (trim v)) \<le> MAX_ROTATION_METADATA_TEXT_LEN
     \<and> \<not> looks_like_secret_token (trim v) \<and> list_all reference_safe_char (trim v)"

lemma validate_reference_like_Inr [simp]: "validate_reference_like_field f v = Inr () \<longleftrightarrow> reference_like v"
  by (simp add: validate_reference_like_field_def Let_def reference_like_def not_less)

fun nesting :: "json \<Rightarrow> nat" where
  "nesting (JArray vs) = fold max (map (\<lambda>v. Suc (nesting v)) vs) 0"
| "nesting (JObject members) = fold max (map (\<lambda>m. Suc (nesting (snd m))) members) 0"
| "nesting _ = 0"

fun keys_in :: "json \<Rightarrow> string set" where
  "keys_in (JArray vs) = (\<Union>v\<in>set vs. keys_in v)"
| "keys_in (JObject members) = (\<Union>m\<in>set members. insert (fst m) (keys_in (snd m)))"
| "keys_in _ = {}"

fun texts_in :: "json \<Rightarrow> string set" where
  "texts_in (JString text) = {text}"
| "texts_in (JArray vs) = (\<Union>v\<in>set vs. texts_in v)"
| "texts_in (JObject members) = (\<Union>m\<in>set members. texts_in (snd m))"
| "texts_in _ = {}"

lemma fold_max_le: "fold max xs (n :: nat) \<le> k \<longleftrightarrow> n \<le> k \<and> (\<forall>x\<in>set xs. x \<le> k)"
  by (induction xs arbitrary: n) auto

definition clean :: "json \<Rightarrow> bool" where
  "clean v \<longleftrightarrow> (\<forall>k\<in>keys_in v. \<not> blank k \<and> \<not> looks_like_secret_token k) \<and> (\<forall>t\<in>texts_in v. reference_like t)"

lemma validate_members_Inr:
  "validate_metadata_members members depth = Inr () \<longleftrightarrow> (\<forall>m\<in>set members. \<not> blank (fst m)
     \<and> \<not> looks_like_secret_token (fst m) \<and> validate_metadata_value (snd m) (Suc depth) = Inr ())"
  by (induction members) (auto simp: and_then_Inr_iff simp del: validate_metadata_value.simps split: if_splits)

lemma validate_elements_Inr:
  "validate_metadata_elements vs depth = Inr () \<longleftrightarrow> (\<forall>v\<in>set vs. validate_metadata_value v (Suc depth) = Inr ())"
  by (induction vs) (auto simp: and_then_Inr_iff simp del: validate_metadata_value.simps)

lemma nesting_below:
  "d + nesting (JArray vs) \<le> n \<longleftrightarrow> d \<le> n \<and> (\<forall>v\<in>set vs. Suc d + nesting v \<le> n)"
  "d + nesting (JObject members) \<le> n \<longleftrightarrow> d \<le> n \<and> (\<forall>m\<in>set members. Suc d + nesting (snd m) \<le> n)"
proof -
  have diff: "d + x \<le> n \<longleftrightarrow> d \<le> n \<and> x \<le> n - d" for x :: nat by auto
  show "d + nesting (JArray vs) \<le> n \<longleftrightarrow> d \<le> n \<and> (\<forall>v\<in>set vs. Suc d + nesting v \<le> n)"
    using diff[of "Suc (nesting _)"] by (auto simp: diff fold_max_le)
  show "d + nesting (JObject members) \<le> n \<longleftrightarrow> d \<le> n \<and> (\<forall>m\<in>set members. Suc d + nesting (snd m) \<le> n)"
    using diff[of "Suc (nesting _)"] by (auto simp: diff fold_max_le)
qed

text \<open>The recursive check decides a property of the whole value.\<close>

lemma validate_value_Inr:
  "validate_metadata_value v depth = Inr () \<longleftrightarrow> depth + nesting v \<le> MAX_ROTATION_METADATA_DEPTH \<and> clean v"
proof (induction v arbitrary: depth)
  case (JArray vs)
  then show ?case
    by (subst validate_metadata_value.simps)
      (auto simp: validate_elements_Inr nesting_below clean_def simp del: nesting.simps validate_metadata_value.simps)
next
  case (JObject members)
  then have IH: "m \<in> set members \<Longrightarrow> validate_metadata_value (snd m) d = Inr ()
      \<longleftrightarrow> d + nesting (snd m) \<le> MAX_ROTATION_METADATA_DEPTH \<and> clean (snd m)" for m d
    by (cases m) auto
  show ?case
    by (subst validate_metadata_value.simps)
      (auto simp: validate_members_Inr IH nesting_below clean_def simp del: nesting.simps validate_metadata_value.simps)
qed (auto simp: clean_def)

text \<open>
  C39: Rotation metadata is accepted exactly when it is an object nested at most eight levels deep
  none of whose keys, at any depth, is blank or looks like a secret, and none of whose texts is
  blank, longer than 256 bytes, secret-looking or outside the reference-safe characters.
\<close>

theorem rotation_metadata_accepted_iff:
  "validate_rotation_metadata metadata = Inr () \<longleftrightarrow>
     is_object metadata \<and> nesting metadata \<le> 8
     \<and> (\<forall>k\<in>keys_in metadata. \<not> blank k \<and> \<not> looks_like_secret_token k)
     \<and> (\<forall>t\<in>texts_in metadata. \<not> blank t \<and> length (trim t) \<le> 256 \<and> \<not> looks_like_secret_token (trim t)
          \<and> (\<forall>c\<in>set (trim t). reference_safe_char c))"
  by (auto simp: validate_rotation_metadata_def validate_value_Inr clean_def reference_like_def list_all_iff
      MAX_ROTATION_METADATA_DEPTH_def MAX_ROTATION_METADATA_TEXT_LEN_def simp del: validate_metadata_value.simps)

lemma rotation_metadata_accepted_iff_witness:
  "\<not> looks_like_secret_token ''provider_ref''
   \<and> nesting (JObject [(''provider_ref'', JArray [JString ''vault/one'', JBool True])]) \<le> 8"
proof -
  have "validate_rotation_metadata (JObject [(''provider_ref'', JArray [JString ''vault/one'', JBool True])]) = Inr ()"
    by code_simp
  then show ?thesis
    unfolding rotation_metadata_accepted_iff by (simp del: nesting.simps)
qed

lemma optional_check_Inr [simp]: "optional_check check v = Inr () \<longleftrightarrow> (\<forall>a. v = Some a \<longrightarrow> \<not> isl (check a))"
  by (auto simp: optional_check_def and_then_Inr_iff split: option.splits elim: is_okE)

lemma scheduled_due_Inr:
  "scheduled_rotation_due T rotated now = Inr b \<longleftrightarrow> (\<exists>l n. parse_utc_timestamp T rotated = Some l
     \<and> parse_utc_timestamp T now = Some n \<and> l \<le> n \<and> (b \<longleftrightarrow> duration_days 90 \<le> n - l))"
  by (auto simp: scheduled_rotation_due_def and_then_Inr_iff ROTATION_SCHEDULE_DUE_DAYS_def not_less split: if_splits)

lemma within_deadline_Inr:
  "emergency_rotation_within_deadline T triggered done_at = Inr b \<longleftrightarrow> (\<exists>t c. parse_utc_timestamp T triggered = Some t
     \<and> parse_utc_timestamp T done_at = Some c \<and> t \<le> c \<and> (b \<longleftrightarrow> c - t \<le> duration_minutes 30))"
  by (auto simp: emergency_rotation_within_deadline_def and_then_Inr_iff ROTATION_EMERGENCY_DEADLINE_MINUTES_def
      not_less split: if_splits)

end
