(* ===== verification/CredentialStore.thy ===== *)
theory CredentialStore
  imports CredentialContract Database
begin

text \<open>
  The credential rotation table and its statements, from
  \<open>crates/persistence/src/postgres/credential_rotation.rs\<close> and the keys and time checks of the
  migration \<open>20260405103000_credential_rotation_events.sql\<close>. The table is a list of rows, newest
  first; a JSON value is read back as it was stored.
\<close>

section \<open>Errors\<close>

record CredentialRotationPersistenceError =
  cp_code :: string
  cp_message :: string

definition CredentialRotationPersistenceError_invalid_payload :: "string \<Rightarrow> CredentialRotationPersistenceError" where
  "CredentialRotationPersistenceError_invalid_payload message =
     \<lparr>cp_code = CredentialRotationReasonCode_code CredentialRotationReasonCode.InvalidPayload, cp_message = message\<rparr>"

definition CredentialRotationPersistenceError_invalid_transition :: "string \<Rightarrow> CredentialRotationPersistenceError" where
  "CredentialRotationPersistenceError_invalid_transition message =
     \<lparr>cp_code = CredentialRotationReasonCode_code CredentialRotationReasonCode.InvalidStateTransition, cp_message = message\<rparr>"

definition CredentialRotationPersistenceError_query_failure :: "string \<Rightarrow> constraint_fault \<Rightarrow> CredentialRotationPersistenceError" where
  "CredentialRotationPersistenceError_query_failure operation error =
     \<lparr>cp_code = ''credential_rotation_query_failed'', cp_message = operation @ '' failed: '' @ df_text error\<rparr>"

definition CredentialRotationPersistenceError_constraint_violation :: "string \<Rightarrow> constraint_fault \<Rightarrow> CredentialRotationPersistenceError" where
  "CredentialRotationPersistenceError_constraint_violation operation error =
     \<lparr>cp_code = ''credential_rotation_constraint_violation'',
      cp_message = operation @ '' rejected by constraint: '' @ df_text error\<rparr>"

definition CredentialRotationPersistenceError_duplicate_rotation :: "string \<Rightarrow> CredentialRotationPersistenceError" where
  "CredentialRotationPersistenceError_duplicate_rotation rotation_id =
     \<lparr>cp_code = ''credential_rotation_duplicate_rotation_id'',
      cp_message = ''rotation event `'' @ rotation_id @ ''` already exists''\<rparr>"

definition CredentialRotationPersistenceError_duplicate_reference :: "string \<Rightarrow> CredentialRotationPersistenceError" where
  "CredentialRotationPersistenceError_duplicate_reference reference =
     \<lparr>cp_code = ''credential_rotation_duplicate_reference'',
      cp_message = ''rotation reference `'' @ reference @ ''` is already associated to another event''\<rparr>"

definition CredentialRotationPersistenceError_not_found :: "string \<Rightarrow> CredentialRotationPersistenceError" where
  "CredentialRotationPersistenceError_not_found rotation_id =
     \<lparr>cp_code = ''credential_rotation_not_found'',
      cp_message = ''rotation event `'' @ rotation_id @ ''` was not found''\<rparr>"

definition map_domain_contract_error :: "CredentialRotationContractError \<Rightarrow> CredentialRotationPersistenceError" where
  "map_domain_contract_error error = \<lparr>cp_code = cr_code error, cp_message = cr_message error\<rparr>"

definition rotation_payload_error :: "CredentialRotationContractError \<Rightarrow> CredentialRotationPersistenceError" where
  "rotation_payload_error error = CredentialRotationPersistenceError_invalid_payload (cr_message error)"

datatype rotation_constraint_kind = RotationId | Reference

definition rotation_constraint_kind_of :: "constraint_fault \<Rightarrow> rotation_constraint_kind option" where
  "rotation_constraint_kind_of error =
     (if df_code error \<noteq> Some ''23505'' then None
      else let constraint = (case df_constraint error of Some c \<Rightarrow> c | None \<Rightarrow> ''''); message = df_message error
      in if constraint = ''credential_rotation_events_pkey'' \<or> text_contains message ''credential_rotation_events_pkey''
         then Some rotation_constraint_kind.RotationId
         else if constraint = ''idx_credential_rotation_events_reference_unique''
           \<or> text_contains message ''idx_credential_rotation_events_reference_unique''
         then Some rotation_constraint_kind.Reference
         else None)"

definition classify_rotation_query_error ::
    "CredentialRotationEvidence \<Rightarrow> string \<Rightarrow> constraint_fault \<Rightarrow> CredentialRotationPersistenceError" where
  "classify_rotation_query_error event operation error = (case rotation_constraint_kind_of error of
      Some rotation_constraint_kind.RotationId \<Rightarrow>
        CredentialRotationPersistenceError_duplicate_rotation (cv_rotation_id event)
    | Some rotation_constraint_kind.Reference \<Rightarrow>
        CredentialRotationPersistenceError_duplicate_reference
          (case cv_rotation_reference event of Some r \<Rightarrow> r | None \<Rightarrow> ''<missing>'')
    | None \<Rightarrow>
        if is_constraint_error error then CredentialRotationPersistenceError_constraint_violation operation error
        else CredentialRotationPersistenceError_query_failure operation error)"

section \<open>The table\<close>

record rotation_row =
  rw_rotation_id :: string
  rw_trigger_type :: string
  rw_status :: string
  rw_reason_code :: string
  rw_actor_id :: string
  rw_credential_scope :: string
  rw_credential_reference :: string
  rw_correlation_id :: string
  rw_rotation_reference :: "string option"
  rw_initiated_at_utc :: string
  rw_deadline_at_utc :: "string option"
  rw_completed_at_utc :: "string option"
  rw_metadata :: json

type_synonym rotation_table = "rotation_row list"

definition rotation_row_at :: "string \<Rightarrow> rotation_table \<Rightarrow> rotation_row option" where
  "rotation_row_at rotation_id rows = find (\<lambda>r. rw_rotation_id r = rotation_id) rows"

definition rotation_row_of :: "CredentialRotationEvidence \<Rightarrow> rotation_row" where
  "rotation_row_of event =
     \<lparr>rw_rotation_id = cv_rotation_id event, rw_trigger_type = CredentialRotationTrigger_as_str (cv_trigger_type event),
      rw_status = CredentialRotationState_as_str (cv_status event), rw_reason_code = cv_reason_code event,
      rw_actor_id = cv_actor_id event, rw_credential_scope = cv_credential_scope event,
      rw_credential_reference = cv_credential_reference event, rw_correlation_id = cv_correlation_id event,
      rw_rotation_reference = cv_rotation_reference event, rw_initiated_at_utc = cv_initiated_at_utc event,
      rw_deadline_at_utc = cv_deadline_at_utc event, rw_completed_at_utc = cv_completed_at_utc event,
      rw_metadata = cv_metadata event\<rparr>"

text \<open>
  The time checks, the primary key and the unique index of the references, for a row about to be
  stored beside the others.
\<close>

definition not_before :: "pg_types \<Rightarrow> string \<Rightarrow> string option \<Rightarrow> bool" where
  "not_before P initiated v = (case v of None \<Rightarrow> True | Some t \<Rightarrow> pg_instant P initiated \<le> pg_instant P t)"

definition times_violation :: "pg_types \<Rightarrow> rotation_row \<Rightarrow> constraint_fault option" where
  "times_violation P row =
     (if not_before P (rw_initiated_at_utc row) (rw_completed_at_utc row)
        \<and> not_before P (rw_initiated_at_utc row) (rw_deadline_at_utc row) then None
      else Some (violation ''23514'' ''credential_rotation_events_check''))"

definition reference_violation :: "pg_types \<Rightarrow> rotation_row \<Rightarrow> rotation_table \<Rightarrow> constraint_fault option" where
  "reference_violation P row others = (case rw_rotation_reference row of
      None \<Rightarrow> None
    | Some reference \<Rightarrow>
        if list_ex (\<lambda>r. map_option (pg_lower_trim P) (rw_rotation_reference r) = Some (pg_lower_trim P reference)) others
        then Some (violation ''23505'' ''idx_credential_rotation_events_reference_unique'')
        else None)"

definition insert_violation :: "pg_types \<Rightarrow> rotation_row \<Rightarrow> rotation_table \<Rightarrow> constraint_fault option" where
  "insert_violation P row rows = (case times_violation P row of
      Some error \<Rightarrow> Some error
    | None \<Rightarrow>
        if rotation_row_at (rw_rotation_id row) rows \<noteq> None
        then Some (violation ''23505'' ''credential_rotation_events_pkey'')
        else reference_violation P row rows)"

definition update_violation :: "pg_types \<Rightarrow> rotation_row \<Rightarrow> rotation_table \<Rightarrow> constraint_fault option" where
  "update_violation P row rows = (case times_violation P row of
      Some error \<Rightarrow> Some error
    | None \<Rightarrow> reference_violation P row (filter (\<lambda>r. rw_rotation_id r \<noteq> rw_rotation_id row) rows))"

section \<open>Validation\<close>

definition validate_state_shape :: "CredentialRotationEvidence \<Rightarrow> CredentialRotationPersistenceError + unit" where
  "validate_state_shape event = (case cv_status event of
      CredentialRotationState.Succeeded \<Rightarrow>
        if cv_rotation_reference event = None then
          Inl (CredentialRotationPersistenceError_invalid_payload ''rotation_reference is required when status is `succeeded`'')
        else if cv_completed_at_utc event = None then
          Inl (CredentialRotationPersistenceError_invalid_payload ''completed_at_utc is required when status is `succeeded`'')
        else Inr ()
    | CredentialRotationState.Denied \<Rightarrow>
        if cv_completed_at_utc event = None then
          Inl (CredentialRotationPersistenceError_invalid_payload ''completed_at_utc is required for denied/failed terminal states'')
        else Inr ()
    | CredentialRotationState.Failed \<Rightarrow>
        if cv_completed_at_utc event = None then
          Inl (CredentialRotationPersistenceError_invalid_payload ''completed_at_utc is required for denied/failed terminal states'')
        else Inr ()
    | CredentialRotationState.Pending \<Rightarrow>
        if cv_completed_at_utc event \<noteq> None then
          Inl (CredentialRotationPersistenceError_invalid_payload ''completed_at_utc must be absent for non-terminal states'')
        else Inr ()
    | CredentialRotationState.InProgress \<Rightarrow>
        if cv_completed_at_utc event \<noteq> None then
          Inl (CredentialRotationPersistenceError_invalid_payload ''completed_at_utc must be absent for non-terminal states'')
        else Inr ())"

definition validate_rotation_event_for_create ::
    "time_crate \<Rightarrow> CredentialRotationEvidence \<Rightarrow> CredentialRotationPersistenceError + unit" where
  "validate_rotation_event_for_create T event =
     and_then (map_err map_domain_contract_error (validate_contract T event)) (\<lambda>_. validate_state_shape event)"

definition validate_rotation_event_for_update ::
    "time_crate \<Rightarrow> CredentialRotationEvidence \<Rightarrow> CredentialRotationPersistenceError + unit" where
  "validate_rotation_event_for_update T event =
     and_then (map_err map_domain_contract_error (validate_contract T event)) (\<lambda>_. validate_state_shape event)"

definition validate_rotation_non_empty :: "string \<Rightarrow> string \<Rightarrow> CredentialRotationPersistenceError + unit" where
  "validate_rotation_non_empty field v =
     (if blank v then Inl (CredentialRotationPersistenceError_invalid_payload (field @ '' cannot be blank'')) else Inr ())"

definition parse_rotation_store_timestamp :: "time_crate \<Rightarrow> string \<Rightarrow> string \<Rightarrow> CredentialRotationPersistenceError + int" where
  "parse_rotation_store_timestamp T field v = (case rfc3339_parse T v of
      None \<Rightarrow> Inl (CredentialRotationPersistenceError_invalid_payload
        (''`'' @ field @ ''` must be RFC3339 UTC timestamp; got `'' @ v @ ''`''))
    | Some (t, off) \<Rightarrow> if off \<noteq> 0 then Inl (CredentialRotationPersistenceError_invalid_payload
        (''`'' @ field @ ''` must use UTC `Z` offset'')) else Inr t)"

fun is_valid_rotation_transition :: "CredentialRotationState \<Rightarrow> CredentialRotationState \<Rightarrow> bool" where
  "is_valid_rotation_transition CredentialRotationState.Pending after = (after \<in>
     {CredentialRotationState.Pending, CredentialRotationState.InProgress, CredentialRotationState.Succeeded,
      CredentialRotationState.Denied, CredentialRotationState.Failed})"
| "is_valid_rotation_transition CredentialRotationState.InProgress after = (after \<in>
     {CredentialRotationState.InProgress, CredentialRotationState.Succeeded, CredentialRotationState.Denied,
      CredentialRotationState.Failed})"
| "is_valid_rotation_transition CredentialRotationState.Succeeded after = (after = CredentialRotationState.Succeeded)"
| "is_valid_rotation_transition CredentialRotationState.Denied after = (after = CredentialRotationState.Denied)"
| "is_valid_rotation_transition CredentialRotationState.Failed after = (after = CredentialRotationState.Failed)"

fun outcome_for_state :: "CredentialRotationState \<Rightarrow> CredentialRotationDecisionOutcome" where
  "outcome_for_state CredentialRotationState.Succeeded = CredentialRotationDecisionOutcome.Allow"
| "outcome_for_state CredentialRotationState.Pending = CredentialRotationDecisionOutcome.Pending"
| "outcome_for_state CredentialRotationState.InProgress = CredentialRotationDecisionOutcome.Pending"
| "outcome_for_state CredentialRotationState.Denied = CredentialRotationDecisionOutcome.Deny"
| "outcome_for_state CredentialRotationState.Failed = CredentialRotationDecisionOutcome.Deny"

section \<open>Statements\<close>

definition create_credential_rotation_event ::
    "time_crate \<Rightarrow> pg_types \<Rightarrow> constraint_faults \<Rightarrow> CredentialRotationEvidence \<Rightarrow> rotation_table
      \<Rightarrow> (CredentialRotationPersistenceError + unit) \<times> rotation_table" where
  "create_credential_rotation_event T P faults event = transact (\<lambda>rows.
     and_then (validate_rotation_event_for_create T event) (\<lambda>_.
     and_then (statement (classify_rotation_query_error event)
       (constrained faults (insert_violation P (rotation_row_of event) rows)) ''create_credential_rotation_event'' ()) (\<lambda>_.
     Inr ((), rotation_row_of event # rows))))"

definition decode_rotation_event_row ::
    "time_crate \<Rightarrow> pg_types \<Rightarrow> rotation_row \<Rightarrow> CredentialRotationPersistenceError + CredentialRotationEvidence" where
  "decode_rotation_event_row T P row =
     and_then (map_err rotation_payload_error (CredentialRotationTrigger_parse (rw_trigger_type row))) (\<lambda>trigger_type.
     and_then (map_err rotation_payload_error (CredentialRotationState_parse (rw_status row))) (\<lambda>status.
     and_then (map_err rotation_payload_error (CredentialRotationReasonCode_parse (rw_reason_code row))) (\<lambda>_.
     let initiated_at_utc = pg_to_char P (rw_initiated_at_utc row);
         deadline_at_utc = map_option (pg_to_char P) (rw_deadline_at_utc row);
         completed_at_utc = map_option (pg_to_char P) (rw_completed_at_utc row)
     in and_then (parse_rotation_store_timestamp T ''initiated_at_utc'' initiated_at_utc) (\<lambda>_.
     and_then (optional_check (parse_rotation_store_timestamp T ''deadline_at_utc'') deadline_at_utc) (\<lambda>_.
     and_then (optional_check (parse_rotation_store_timestamp T ''completed_at_utc'') completed_at_utc) (\<lambda>_.
     let evidence = \<lparr>cv_rotation_id = rw_rotation_id row, cv_actor_id = rw_actor_id row, cv_trigger_type = trigger_type,
           cv_credential_scope = rw_credential_scope row, cv_credential_reference = rw_credential_reference row,
           cv_outcome = outcome_for_state status, cv_status = status, cv_reason_code = rw_reason_code row,
           cv_correlation_id = rw_correlation_id row, cv_initiated_at_utc = initiated_at_utc,
           cv_deadline_at_utc = deadline_at_utc, cv_completed_at_utc = completed_at_utc,
           cv_rotation_reference = rw_rotation_reference row, cv_metadata = rw_metadata row\<rparr>
     in and_then (map_err map_domain_contract_error (validate_contract T evidence)) (\<lambda>_. Inr evidence)))))))"

definition load_credential_rotation_event ::
    "time_crate \<Rightarrow> pg_types \<Rightarrow> constraint_faults \<Rightarrow> string \<Rightarrow> rotation_table
      \<Rightarrow> CredentialRotationPersistenceError + CredentialRotationEvidence option" where
  "load_credential_rotation_event T P faults rotation_id rows =
     and_then (validate_rotation_non_empty ''rotation_id'' rotation_id) (\<lambda>_.
     and_then (statement CredentialRotationPersistenceError_query_failure faults ''load_credential_rotation_event''
       (rotation_row_at rotation_id rows)) (\<lambda>row. case row of
         None \<Rightarrow> Inr None
       | Some row \<Rightarrow> and_then (decode_rotation_event_row T P row) (\<lambda>event. Inr (Some event))))"

definition update_rotation_row :: "CredentialRotationEvidence \<Rightarrow> rotation_row \<Rightarrow> rotation_row" where
  "update_rotation_row event row =
     row\<lparr>rw_status := CredentialRotationState_as_str (cv_status event), rw_reason_code := cv_reason_code event,
         rw_rotation_reference := cv_rotation_reference event, rw_deadline_at_utc := cv_deadline_at_utc event,
         rw_completed_at_utc := cv_completed_at_utc event, rw_metadata := cv_metadata event\<rparr>"

text \<open>The guard is read first, under the name of its own statement in the fault schedule.\<close>

definition update_credential_rotation_event ::
    "time_crate \<Rightarrow> pg_types \<Rightarrow> constraint_faults \<Rightarrow> CredentialRotationEvidence \<Rightarrow> rotation_table
      \<Rightarrow> (CredentialRotationPersistenceError + unit) \<times> rotation_table" where
  "update_credential_rotation_event T P faults event = transact (\<lambda>rows.
     and_then (validate_rotation_event_for_update T event) (\<lambda>_.
     and_then (statement (\<lambda>_. CredentialRotationPersistenceError_query_failure ''update_credential_rotation_event'') faults
       ''load_rotation_transition_guard'' (rotation_row_at (cv_rotation_id event) rows)) (\<lambda>current. case current of
       None \<Rightarrow> Inl (CredentialRotationPersistenceError_not_found (cv_rotation_id event))
     | Some current \<Rightarrow>
     and_then (map_err rotation_payload_error (CredentialRotationState_parse (rw_status current))) (\<lambda>current_status.
     if \<not> is_valid_rotation_transition current_status (cv_status event) then
       Inl (CredentialRotationPersistenceError_invalid_transition
         (''invalid credential-rotation transition from `'' @ CredentialRotationState_as_str current_status @ ''` to `''
           @ CredentialRotationState_as_str (cv_status event) @ ''`''))
     else if (case (rw_rotation_reference current, cv_rotation_reference event) of
         (Some existing, Some after) \<Rightarrow> trim existing \<noteq> trim after | _ \<Rightarrow> False) then
       Inl (CredentialRotationPersistenceError_invalid_transition ''rotation_reference cannot change once assigned'')
     else
     and_then (statement (classify_rotation_query_error event)
       (constrained faults (update_violation P (update_rotation_row event current) rows)) ''update_credential_rotation_event'' ()) (\<lambda>_.
     Inr ((), map (\<lambda>r. if rw_rotation_id r = cv_rotation_id event then update_rotation_row event r else r) rows))))))"

definition rotation_row_before :: "pg_types \<Rightarrow> rotation_row \<Rightarrow> rotation_row \<Rightarrow> bool" where
  "rotation_row_before P a b =
     (let x = pg_instant P (rw_initiated_at_utc a); y = pg_instant P (rw_initiated_at_utc b)
      in y < x \<or> (x = y \<and> pg_text_less P (rw_rotation_id a) (rw_rotation_id b)))"

definition query_credential_rotation_events ::
    "time_crate \<Rightarrow> pg_types \<Rightarrow> constraint_faults \<Rightarrow> CredentialRotationTrigger option \<Rightarrow> CredentialRotationState option \<Rightarrow> int
      \<Rightarrow> rotation_table \<Rightarrow> CredentialRotationPersistenceError + CredentialRotationEvidence list" where
  "query_credential_rotation_events T P faults trigger_type status limit rows =
     (if limit = 0 \<or> 1000 < limit then
        Inl (CredentialRotationPersistenceError_invalid_payload ''`limit` must be between 1 and 1000'')
      else and_then (statement CredentialRotationPersistenceError_query_failure faults ''query_credential_rotation_events''
        (take (nat limit) (order_by (rotation_row_before P) (filter (\<lambda>r.
           (case trigger_type of None \<Rightarrow> True | Some t \<Rightarrow> rw_trigger_type r = CredentialRotationTrigger_as_str t)
           \<and> (case status of None \<Rightarrow> True | Some s \<Rightarrow> rw_status r = CredentialRotationState_as_str s)) rows))))
        (collect_rows (decode_rotation_event_row T P)))"

end
