(* ===== verification/CredentialService.thy ===== *)
theory CredentialService
  imports CredentialStore Effects
begin

text \<open>
  The credential rotation service of \<open>services/governance-service/src/credentials/mod.rs\<close>:
  scheduled and emergency rotations over a repository of events and a port to the secret
  provider. Both ports act on one state. The operation lock makes operations sequential; a
  poisoned lock and the telemetry lines are left out.
\<close>

section \<open>Errors, inputs and ports\<close>

record CredentialRotationServiceError =
  cs_code :: string
  cs_message :: string

definition CredentialRotationServiceError_invalid_payload :: "string \<Rightarrow> CredentialRotationServiceError" where
  "CredentialRotationServiceError_invalid_payload message =
     \<lparr>cs_code = CredentialRotationReasonCode_code CredentialRotationReasonCode.InvalidPayload, cs_message = message\<rparr>"

definition CredentialRotationServiceError_missing_metadata :: "string \<Rightarrow> CredentialRotationServiceError" where
  "CredentialRotationServiceError_missing_metadata message =
     \<lparr>cs_code = CredentialRotationReasonCode_code CredentialRotationReasonCode.MissingMetadata, cs_message = message\<rparr>"

definition CredentialRotationServiceError_from_contract_error ::
    "CredentialRotationContractError \<Rightarrow> CredentialRotationServiceError" where
  "CredentialRotationServiceError_from_contract_error error = \<lparr>cs_code = cr_code error, cs_message = cr_message error\<rparr>"

definition CredentialRotationServiceError_unauthorized_role :: CredentialRotationServiceError where
  "CredentialRotationServiceError_unauthorized_role =
     \<lparr>cs_code = CredentialRotationReasonCode_code CredentialRotationReasonCode.UnauthorizedRole,
      cs_message = ''actor role is not authorized for credential rotation workflow''\<rparr>"

definition CredentialRotationServiceError_persistence_unavailable :: "string \<Rightarrow> CredentialRotationServiceError" where
  "CredentialRotationServiceError_persistence_unavailable message =
     \<lparr>cs_code = ''credential_rotation_persistence_unavailable'', cs_message = message\<rparr>"

definition map_rotation_persistence_error :: "CredentialRotationPersistenceError \<Rightarrow> CredentialRotationServiceError" where
  "map_rotation_persistence_error error =
     (if cp_code error = ''credential_rotation_query_failed'' \<or> cp_code error = ''credential_rotation_row_decode_failed''
      then CredentialRotationServiceError_persistence_unavailable (cp_message error)
      else \<lparr>cs_code = cp_code error, cs_message = cp_message error\<rparr>)"

record TriggerScheduledRotationInput =
  ts_actor_id :: string
  ts_actor_role :: string
  ts_credential_scope :: string
  ts_credential_reference :: string
  ts_metadata :: json
  ts_correlation_id :: string
  ts_now_utc :: string
  ts_last_rotated_at_utc :: string

record TriggerEmergencyRotationInput =
  te_actor_id :: string
  te_actor_role :: string
  te_credential_scope :: string
  te_credential_reference :: string
  te_metadata :: json
  te_correlation_id :: string
  te_now_utc :: string
  te_compromise_triggered_at_utc :: string

record SecretRotationRequest =
  sq_trigger_type :: CredentialRotationTrigger
  sq_credential_scope :: string
  sq_credential_reference :: string
  sq_correlation_id :: string
  sq_requested_at_utc :: string
  sq_deadline_at_utc :: "string option"
  sq_metadata :: json

record SecretRotationResult =
  sr_rotation_reference :: string
  sr_completed_at_utc :: string

datatype SecretRotationPortErrorCode = ProviderUnavailable | RuntimeUnavailable

fun SecretRotationPortErrorCode_reason_code :: "SecretRotationPortErrorCode \<Rightarrow> CredentialRotationReasonCode" where
  "SecretRotationPortErrorCode_reason_code SecretRotationPortErrorCode.ProviderUnavailable = CredentialRotationReasonCode.ProviderUnavailable"
| "SecretRotationPortErrorCode_reason_code SecretRotationPortErrorCode.RuntimeUnavailable = CredentialRotationReasonCode.RuntimeUnavailable"

record SecretRotationPortError =
  se_code :: SecretRotationPortErrorCode
  se_message :: string

definition SecretRotationPortError_provider_unavailable :: "string \<Rightarrow> SecretRotationPortError" where
  "SecretRotationPortError_provider_unavailable message =
     \<lparr>se_code = SecretRotationPortErrorCode.ProviderUnavailable, se_message = message\<rparr>"

definition SecretRotationPortError_runtime_unavailable :: "string \<Rightarrow> SecretRotationPortError" where
  "SecretRotationPortError_runtime_unavailable message =
     \<lparr>se_code = SecretRotationPortErrorCode.RuntimeUnavailable, se_message = message\<rparr>"

record 's CredentialRotationService =
  crs_create_event :: "CredentialRotationEvidence \<Rightarrow> ('s, CredentialRotationServiceError, unit) effect"
  crs_load_event :: "string \<Rightarrow> ('s, CredentialRotationServiceError, CredentialRotationEvidence option) effect"
  crs_update_event :: "CredentialRotationEvidence \<Rightarrow> ('s, CredentialRotationServiceError, unit) effect"
  crs_query_events :: "CredentialRotationTrigger option \<Rightarrow> CredentialRotationState option \<Rightarrow> int
      \<Rightarrow> ('s, CredentialRotationServiceError, CredentialRotationEvidence list) effect"
  crs_rotate :: "SecretRotationRequest \<Rightarrow> ('s, SecretRotationPortError, SecretRotationResult) effect"

section \<open>Checks\<close>

definition validate_rotation_role :: "string \<Rightarrow> CredentialRotationServiceError + unit" where
  "validate_rotation_role r =
     (if r = ''operational_control'' \<or> r = ''administrative_actions'' then Inr ()
      else Inl CredentialRotationServiceError_unauthorized_role)"

definition validate_rotation_service_non_empty :: "string \<Rightarrow> string \<Rightarrow> CredentialRotationServiceError + unit" where
  "validate_rotation_service_non_empty field v =
     (if blank v then Inl (CredentialRotationServiceError_invalid_payload (field @ '' cannot be blank'')) else Inr ())"

text \<open>\<open>Map::get\<close> with \<open>Value::as_str\<close> and \<open>Value::as_bool\<close>.\<close>

definition member_str :: "(string \<times> json) list \<Rightarrow> string \<Rightarrow> string option" where
  "member_str members key = (case map_of members key of Some (JString s) \<Rightarrow> Some s | _ \<Rightarrow> None)"

definition member_bool :: "(string \<times> json) list \<Rightarrow> string \<Rightarrow> bool option" where
  "member_bool members key = (case map_of members key of Some (JBool b) \<Rightarrow> Some b | _ \<Rightarrow> None)"

definition validate_required_metadata_fields :: "json \<Rightarrow> CredentialRotationServiceError + unit" where
  "validate_required_metadata_fields metadata = (case metadata of
      JObject members \<Rightarrow>
        if member_bool members ''crypto_posture_verified'' = None then
          Inl (CredentialRotationServiceError_missing_metadata
            ''rotation metadata must include boolean `crypto_posture_verified`'')
        else if member_str members ''runtime_injection_mode'' \<in> {None, Some ''''} then
          Inl (CredentialRotationServiceError_missing_metadata
            ''rotation metadata must include non-empty `runtime_injection_mode`'')
        else if member_str members ''provider_ref'' \<in> {None, Some ''''} then
          Inl (CredentialRotationServiceError_missing_metadata
            ''rotation metadata must include non-empty `provider_ref`'')
        else Inr ()
    | _ \<Rightarrow> Inl (CredentialRotationServiceError_missing_metadata ''rotation metadata must be a JSON object''))"

definition validate_common_inputs ::
    "string \<Rightarrow> string \<Rightarrow> string \<Rightarrow> string \<Rightarrow> string \<Rightarrow> json \<Rightarrow> CredentialRotationServiceError + unit" where
  "validate_common_inputs actor_id credential_scope credential_reference correlation_id now_utc metadata =
     and_then (validate_rotation_service_non_empty ''actor_id'' actor_id) (\<lambda>_.
     and_then (validate_rotation_service_non_empty ''credential_scope'' credential_scope) (\<lambda>_.
     and_then (validate_rotation_service_non_empty ''credential_reference'' credential_reference) (\<lambda>_.
     and_then (validate_rotation_service_non_empty ''correlation_id'' correlation_id) (\<lambda>_.
     and_then (validate_rotation_service_non_empty ''now_utc'' now_utc) (\<lambda>_.
     and_then (map_err CredentialRotationServiceError_from_contract_error (validate_rotation_metadata metadata)) (\<lambda>_.
     and_then (validate_required_metadata_fields metadata) (\<lambda>_. Inr ())))))))"

definition readiness_is_ambiguous :: "json \<Rightarrow> bool" where
  "readiness_is_ambiguous metadata = (case metadata of
      JObject members \<Rightarrow>
        \<not> ((case member_bool members ''crypto_posture_verified'' of Some b \<Rightarrow> b | None \<Rightarrow> False)
          \<and> (case member_str members ''runtime_injection_mode'' of Some v \<Rightarrow> v = ''runtime_only'' | None \<Rightarrow> False))
    | _ \<Rightarrow> True)"

section \<open>Events\<close>

definition build_pending_event ::
    "string \<Rightarrow> string \<Rightarrow> CredentialRotationTrigger \<Rightarrow> string \<Rightarrow> string \<Rightarrow> string \<Rightarrow> string \<Rightarrow> json \<Rightarrow> string option
      \<Rightarrow> CredentialRotationEvidence" where
  "build_pending_event rotation_id actor_id trigger_type credential_scope credential_reference correlation_id
       initiated_at_utc metadata deadline_at_utc =
     \<lparr>cv_rotation_id = rotation_id, cv_actor_id = actor_id, cv_trigger_type = trigger_type,
      cv_credential_scope = credential_scope, cv_credential_reference = credential_reference,
      cv_outcome = CredentialRotationDecisionOutcome.Pending, cv_status = CredentialRotationState.Pending,
      cv_reason_code = CredentialRotationReasonCode_code CredentialRotationReasonCode.RotationPending,
      cv_correlation_id = correlation_id, cv_initiated_at_utc = initiated_at_utc, cv_deadline_at_utc = deadline_at_utc,
      cv_completed_at_utc = None, cv_rotation_reference = None, cv_metadata = metadata\<rparr>"

definition build_pending_like_event ::
    "CredentialRotationEvidence \<Rightarrow> CredentialRotationState \<Rightarrow> CredentialRotationReasonCode \<Rightarrow> CredentialRotationEvidence" where
  "build_pending_like_event base status reason_code =
     base\<lparr>cv_status := status, cv_reason_code := CredentialRotationReasonCode_code reason_code,
          cv_outcome := CredentialRotationDecisionOutcome.Pending, cv_completed_at_utc := None,
          cv_rotation_reference := None\<rparr>"

definition build_terminal_event ::
    "CredentialRotationEvidence \<Rightarrow> CredentialRotationDecisionOutcome \<Rightarrow> CredentialRotationState \<Rightarrow> CredentialRotationReasonCode
      \<Rightarrow> string option \<Rightarrow> string \<Rightarrow> CredentialRotationEvidence" where
  "build_terminal_event base outcome status reason_code rotation_reference completed_at_utc =
     base\<lparr>cv_outcome := outcome, cv_status := status, cv_reason_code := CredentialRotationReasonCode_code reason_code,
          cv_rotation_reference := rotation_reference, cv_completed_at_utc := Some completed_at_utc\<rparr>"

text \<open>Of a character outside ASCII the first byte becomes the underscore, the others are dropped.\<close>

definition identifier_char :: "char \<Rightarrow> string" where
  "identifier_char c =
     (if CHR 0x80 \<le> c \<and> c \<le> CHR 0xBF then []
      else if is_ascii_alphanumeric c \<or> c \<in> set ''-_.'' then [ascii_lower c] else ''_'')"

definition sanitize_for_identifier :: "string \<Rightarrow> string" where
  "sanitize_for_identifier raw =
     (let sanitized = concat (map identifier_char (trim raw)) in if sanitized = [] then ''unknown'' else sanitized)"

definition generate_rotation_id :: "CredentialRotationTrigger \<Rightarrow> string \<Rightarrow> string \<Rightarrow> string" where
  "generate_rotation_id trigger_type credential_scope correlation_id =
     ''rot_'' @ CredentialRotationTrigger_as_str trigger_type @ ''_'' @ sanitize_for_identifier credential_scope
       @ ''_'' @ sanitize_for_identifier correlation_id"

section \<open>Rotations\<close>

text \<open>\<open>update_event(event)?; Ok(event)\<close>\<close>

definition conclude ::
    "'s CredentialRotationService \<Rightarrow> CredentialRotationEvidence
      \<Rightarrow> ('s, CredentialRotationServiceError, CredentialRotationEvidence) effect" where
  "conclude self event = run_then (crs_update_event self event) (\<lambda>_. answer event)"

definition deny_rotation ::
    "'s CredentialRotationService \<Rightarrow> CredentialRotationEvidence \<Rightarrow> CredentialRotationReasonCode \<Rightarrow> string
      \<Rightarrow> ('s, CredentialRotationServiceError, CredentialRotationEvidence) effect" where
  "deny_rotation self pending reason_code now_utc =
     conclude self (build_terminal_event pending CredentialRotationDecisionOutcome.Deny CredentialRotationState.Denied
       reason_code None now_utc)"

definition scheduled_request :: "TriggerScheduledRotationInput \<Rightarrow> SecretRotationRequest" where
  "scheduled_request inp =
     \<lparr>sq_trigger_type = CredentialRotationTrigger.ScheduledCadence, sq_credential_scope = ts_credential_scope inp,
      sq_credential_reference = ts_credential_reference inp, sq_correlation_id = ts_correlation_id inp,
      sq_requested_at_utc = ts_now_utc inp, sq_deadline_at_utc = None, sq_metadata = ts_metadata inp\<rparr>"

text \<open>After the pending event is stored.\<close>

definition scheduled_steps ::
    "'s CredentialRotationService \<Rightarrow> TriggerScheduledRotationInput \<Rightarrow> CredentialRotationEvidence \<Rightarrow> bool
      \<Rightarrow> ('s, CredentialRotationServiceError, CredentialRotationEvidence) effect" where
  "scheduled_steps self inp pending due =
     (if readiness_is_ambiguous (ts_metadata inp) then
        deny_rotation self pending CredentialRotationReasonCode.ReadinessAmbiguous (ts_now_utc inp)
      else if \<not> due then
        deny_rotation self pending CredentialRotationReasonCode.ScheduledNotDue (ts_now_utc inp)
      else
        run_then (crs_update_event self (build_pending_like_event pending CredentialRotationState.InProgress
          CredentialRotationReasonCode.RotationPending)) (\<lambda>_.
        run_catch (crs_rotate self (scheduled_request inp))
          (\<lambda>error. conclude self (build_terminal_event pending CredentialRotationDecisionOutcome.Deny
            CredentialRotationState.Failed (SecretRotationPortErrorCode_reason_code (se_code error)) None (ts_now_utc inp)))
          (\<lambda>result. conclude self (build_terminal_event pending CredentialRotationDecisionOutcome.Allow
            CredentialRotationState.Succeeded CredentialRotationReasonCode.RotationAllowed
            (Some (sr_rotation_reference result)) (sr_completed_at_utc result)))))"

definition scheduled_pending :: "TriggerScheduledRotationInput \<Rightarrow> CredentialRotationEvidence" where
  "scheduled_pending inp = build_pending_event
     (generate_rotation_id CredentialRotationTrigger.ScheduledCadence (ts_credential_scope inp) (ts_correlation_id inp))
     (ts_actor_id inp) CredentialRotationTrigger.ScheduledCadence (ts_credential_scope inp) (ts_credential_reference inp)
     (ts_correlation_id inp) (ts_now_utc inp) (ts_metadata inp) None"

definition trigger_scheduled_rotation ::
    "time_crate \<Rightarrow> 's CredentialRotationService \<Rightarrow> TriggerScheduledRotationInput
      \<Rightarrow> ('s, CredentialRotationServiceError, CredentialRotationEvidence) effect" where
  "trigger_scheduled_rotation T self inp =
     run_then (pure_result (validate_rotation_role (ts_actor_role inp))) (\<lambda>_.
     run_then (pure_result (validate_common_inputs (ts_actor_id inp) (ts_credential_scope inp)
       (ts_credential_reference inp) (ts_correlation_id inp) (ts_now_utc inp) (ts_metadata inp))) (\<lambda>_.
     run_then (crs_load_event self (cv_rotation_id (scheduled_pending inp))) (\<lambda>found. case found of
       Some existing \<Rightarrow> answer existing
     | None \<Rightarrow>
     run_then (pure_result (map_err (\<lambda>error. CredentialRotationServiceError_invalid_payload (cr_message error))
       (scheduled_rotation_due T (ts_last_rotated_at_utc inp) (ts_now_utc inp)))) (\<lambda>due.
     run_then (crs_create_event self (scheduled_pending inp)) (\<lambda>_.
     scheduled_steps self inp (scheduled_pending inp) due)))))"

definition emergency_request :: "TriggerEmergencyRotationInput \<Rightarrow> string \<Rightarrow> SecretRotationRequest" where
  "emergency_request inp deadline_at_utc =
     \<lparr>sq_trigger_type = CredentialRotationTrigger.EmergencyCompromise, sq_credential_scope = te_credential_scope inp,
      sq_credential_reference = te_credential_reference inp, sq_correlation_id = te_correlation_id inp,
      sq_requested_at_utc = te_now_utc inp, sq_deadline_at_utc = Some deadline_at_utc, sq_metadata = te_metadata inp\<rparr>"

text \<open>What an emergency rotation becomes when the provider has rotated.\<close>

definition emergency_result ::
    "time_crate \<Rightarrow> TriggerEmergencyRotationInput \<Rightarrow> CredentialRotationEvidence \<Rightarrow> SecretRotationResult
      \<Rightarrow> CredentialRotationServiceError + CredentialRotationEvidence" where
  "emergency_result T inp pending result =
     and_then (map_err (\<lambda>error. CredentialRotationServiceError_invalid_payload (cr_message error))
       (emergency_rotation_within_deadline T (te_compromise_triggered_at_utc inp) (sr_completed_at_utc result))) (\<lambda>within_completion_deadline.
     Inr (if \<not> within_completion_deadline then
         build_terminal_event pending CredentialRotationDecisionOutcome.Deny CredentialRotationState.Failed
           CredentialRotationReasonCode.EmergencyWindowExpired None (sr_completed_at_utc result)
       else
         build_terminal_event pending CredentialRotationDecisionOutcome.Allow CredentialRotationState.Succeeded
           CredentialRotationReasonCode.RotationAllowed (Some (sr_rotation_reference result)) (sr_completed_at_utc result)))"

definition emergency_steps ::
    "time_crate \<Rightarrow> 's CredentialRotationService \<Rightarrow> TriggerEmergencyRotationInput \<Rightarrow> string \<Rightarrow> CredentialRotationEvidence \<Rightarrow> bool
      \<Rightarrow> ('s, CredentialRotationServiceError, CredentialRotationEvidence) effect" where
  "emergency_steps T self inp deadline_at_utc pending within_deadline =
     (if readiness_is_ambiguous (te_metadata inp) then
        deny_rotation self pending CredentialRotationReasonCode.ReadinessAmbiguous (te_now_utc inp)
      else if \<not> within_deadline then
        deny_rotation self pending CredentialRotationReasonCode.EmergencyWindowExpired (te_now_utc inp)
      else
        run_then (crs_update_event self (build_pending_like_event pending CredentialRotationState.InProgress
          CredentialRotationReasonCode.RotationPending)) (\<lambda>_.
        run_catch (crs_rotate self (emergency_request inp deadline_at_utc))
          (\<lambda>error. conclude self (build_terminal_event pending CredentialRotationDecisionOutcome.Deny
            CredentialRotationState.Failed (SecretRotationPortErrorCode_reason_code (se_code error)) None (te_now_utc inp)))
          (\<lambda>result. run_then (pure_result (emergency_result T inp pending result)) (conclude self))))"

definition emergency_pending :: "TriggerEmergencyRotationInput \<Rightarrow> string \<Rightarrow> CredentialRotationEvidence" where
  "emergency_pending inp deadline_at_utc = build_pending_event
     (generate_rotation_id CredentialRotationTrigger.EmergencyCompromise (te_credential_scope inp) (te_correlation_id inp))
     (te_actor_id inp) CredentialRotationTrigger.EmergencyCompromise (te_credential_scope inp) (te_credential_reference inp)
     (te_correlation_id inp) (te_now_utc inp) (te_metadata inp) (Some deadline_at_utc)"

definition emergency_input_checks ::
    "time_crate \<Rightarrow> (int \<Rightarrow> string) \<Rightarrow> TriggerEmergencyRotationInput \<Rightarrow> CredentialRotationServiceError + string \<times> bool" where
  "emergency_input_checks T fmt inp =
     and_then (validate_rotation_role (te_actor_role inp)) (\<lambda>_.
     and_then (validate_common_inputs (te_actor_id inp) (te_credential_scope inp) (te_credential_reference inp)
       (te_correlation_id inp) (te_now_utc inp) (te_metadata inp)) (\<lambda>_.
     and_then (map_err (\<lambda>error. CredentialRotationServiceError_invalid_payload (cr_message error))
       (emergency_rotation_deadline_utc T fmt (te_compromise_triggered_at_utc inp))) (\<lambda>deadline_at_utc.
     and_then (map_err (\<lambda>error. CredentialRotationServiceError_invalid_payload (cr_message error))
       (emergency_rotation_within_deadline T (te_compromise_triggered_at_utc inp) (te_now_utc inp))) (\<lambda>within_deadline.
     Inr (deadline_at_utc, within_deadline)))))"

definition trigger_emergency_rotation ::
    "time_crate \<Rightarrow> (int \<Rightarrow> string) \<Rightarrow> 's CredentialRotationService \<Rightarrow> TriggerEmergencyRotationInput
      \<Rightarrow> ('s, CredentialRotationServiceError, CredentialRotationEvidence) effect" where
  "trigger_emergency_rotation T fmt self inp =
     run_then (pure_result (emergency_input_checks T fmt inp)) (\<lambda>(deadline_at_utc, within_deadline).
     run_then (crs_load_event self (cv_rotation_id (emergency_pending inp deadline_at_utc))) (\<lambda>found. case found of
       Some existing \<Rightarrow> answer existing
     | None \<Rightarrow>
     run_then (crs_create_event self (emergency_pending inp deadline_at_utc)) (\<lambda>_.
     emergency_steps T self inp deadline_at_utc (emergency_pending inp deadline_at_utc) within_deadline)))"

section \<open>The secret port in memory\<close>

definition metadata_flag :: "json \<Rightarrow> string \<Rightarrow> bool" where
  "metadata_flag metadata key = (case metadata of
      JObject members \<Rightarrow> member_bool members key = Some True
    | _ \<Rightarrow> False)"

definition in_memory_rotate :: "SecretRotationRequest \<Rightarrow> SecretRotationPortError + SecretRotationResult" where
  "in_memory_rotate request =
     (if metadata_flag (sq_metadata request) ''force_provider_failure'' then
        Inl (SecretRotationPortError_provider_unavailable ''secret provider dependency unavailable'')
      else if metadata_flag (sq_metadata request) ''force_runtime_failure'' then
        Inl (SecretRotationPortError_runtime_unavailable ''runtime adapter verification failed'')
      else if sq_deadline_at_utc request = Some '''' then
        Inl (SecretRotationPortError_runtime_unavailable ''deadline timestamp payload is invalid'')
      else Inr \<lparr>sr_rotation_reference = ''rotref://'' @ sanitize_for_identifier (sq_credential_scope request) @ ''/''
          @ CredentialRotationTrigger_as_str (sq_trigger_type request) @ ''/''
          @ sanitize_for_identifier (sq_correlation_id request),
        sr_completed_at_utc = sq_requested_at_utc request\<rparr>)"

section \<open>The service over PostgreSQL\<close>

text \<open>
  The state is the table, the requests the provider has answered, newest first, and the number
  of database calls made, which selects the faults. The provider is any function.
\<close>

record rotation_world =
  wo_table :: rotation_table
  wo_rotated :: "SecretRotationRequest list"
  wo_calls :: nat

definition empty_rotation_world :: rotation_world where
  "empty_rotation_world = \<lparr>wo_table = [], wo_rotated = [], wo_calls = 0\<rparr>"

definition rotation_call ::
    "(constraint_faults \<Rightarrow> rotation_table \<Rightarrow> (CredentialRotationPersistenceError + 'a) \<times> rotation_table)
      \<Rightarrow> (nat \<Rightarrow> constraint_faults) \<Rightarrow> (rotation_world, CredentialRotationServiceError, 'a) effect" where
  "rotation_call f schedule w =
     (let (r, rows) = f (schedule (wo_calls w)) (wo_table w)
      in (map_err map_rotation_persistence_error r, w\<lparr>wo_table := rows, wo_calls := Suc (wo_calls w)\<rparr>))"

definition provider_call ::
    "(SecretRotationRequest \<Rightarrow> SecretRotationPortError + SecretRotationResult) \<Rightarrow> SecretRotationRequest
      \<Rightarrow> (rotation_world, SecretRotationPortError, SecretRotationResult) effect" where
  "provider_call provider request w = (provider request, w\<lparr>wo_rotated := request # wo_rotated w\<rparr>)"

definition PostgresCredentialRotationService ::
    "time_crate \<Rightarrow> pg_types \<Rightarrow> (nat \<Rightarrow> constraint_faults)
      \<Rightarrow> (SecretRotationRequest \<Rightarrow> SecretRotationPortError + SecretRotationResult) \<Rightarrow> rotation_world CredentialRotationService" where
  "PostgresCredentialRotationService T P schedule provider =
     \<lparr>crs_create_event = (\<lambda>event. rotation_call (\<lambda>faults. create_credential_rotation_event T P faults event) schedule),
      crs_load_event = (\<lambda>rotation_id.
        rotation_call (\<lambda>faults rows. (load_credential_rotation_event T P faults rotation_id rows, rows)) schedule),
      crs_update_event = (\<lambda>event. rotation_call (\<lambda>faults. update_credential_rotation_event T P faults event) schedule),
      crs_query_events = (\<lambda>trigger_type status limit. rotation_call (\<lambda>faults rows.
        (query_credential_rotation_events T P faults trigger_type status limit rows, rows)) schedule),
      crs_rotate = provider_call provider\<rparr>"


section \<open>The service in memory\<close>

text \<open>The map of events is the list of its values: the keys are their ids.\<close>

record memory_rotations =
  mr_events :: "CredentialRotationEvidence list"
  mr_rotated :: "SecretRotationRequest list"

definition mr_find :: "string \<Rightarrow> memory_rotations \<Rightarrow> CredentialRotationEvidence option" where
  "mr_find rotation_id s = find (\<lambda>e. cv_rotation_id e = rotation_id) (mr_events s)"

definition reference_taken :: "string option \<Rightarrow> CredentialRotationEvidence list \<Rightarrow> bool" where
  "reference_taken reference events =
     (reference \<noteq> None \<and> list_ex (\<lambda>existing. cv_rotation_reference existing = reference) events)"

definition duplicate_reference_error :: "string option \<Rightarrow> CredentialRotationServiceError" where
  "duplicate_reference_error reference =
     \<lparr>cs_code = ''credential_rotation_duplicate_reference'',
      cs_message = ''rotation reference `'' @ (case reference of Some r \<Rightarrow> r | None \<Rightarrow> []) @ ''` already exists''\<rparr>"

definition memory_create_event :: "CredentialRotationEvidence \<Rightarrow> (memory_rotations, CredentialRotationServiceError, unit) effect" where
  "memory_create_event event s =
     (if mr_find (cv_rotation_id event) s \<noteq> None then
        refuse \<lparr>cs_code = ''credential_rotation_duplicate_rotation_id'',
          cs_message = ''rotation event `'' @ cv_rotation_id event @ ''` already exists''\<rparr> s
      else if reference_taken (cv_rotation_reference event) (mr_events s) then
        refuse (duplicate_reference_error (cv_rotation_reference event)) s
      else answer () (s\<lparr>mr_events := event # mr_events s\<rparr>))"

definition memory_update_event :: "CredentialRotationEvidence \<Rightarrow> (memory_rotations, CredentialRotationServiceError, unit) effect" where
  "memory_update_event event s = (case mr_find (cv_rotation_id event) s of
      None \<Rightarrow> refuse \<lparr>cs_code = ''credential_rotation_not_found'',
        cs_message = ''rotation event `'' @ cv_rotation_id event @ ''` does not exist''\<rparr> s
    | Some existing \<Rightarrow>
      if \<not> is_valid_rotation_transition (cv_status existing) (cv_status event) then
        refuse \<lparr>cs_code = CredentialRotationReasonCode_code CredentialRotationReasonCode.InvalidStateTransition,
          cs_message = ''invalid state transition from `'' @ CredentialRotationState_as_str (cv_status existing)
            @ ''` to `'' @ CredentialRotationState_as_str (cv_status event) @ ''`''\<rparr> s
      else if cv_rotation_reference existing \<noteq> None \<and> cv_rotation_reference event \<noteq> None
          \<and> cv_rotation_reference existing \<noteq> cv_rotation_reference event then
        refuse \<lparr>cs_code = CredentialRotationReasonCode_code CredentialRotationReasonCode.InvalidStateTransition,
          cs_message = ''rotation_reference cannot change once assigned''\<rparr> s
      else if reference_taken (cv_rotation_reference event)
          (filter (\<lambda>candidate. cv_rotation_id candidate \<noteq> cv_rotation_id event) (mr_events s)) then
        refuse (duplicate_reference_error (cv_rotation_reference event)) s
      else answer () (s\<lparr>mr_events := map (\<lambda>e. if cv_rotation_id e = cv_rotation_id event then event else e) (mr_events s)\<rparr>))"

definition memory_query_events ::
    "CredentialRotationTrigger option \<Rightarrow> CredentialRotationState option \<Rightarrow> int
      \<Rightarrow> (memory_rotations, CredentialRotationServiceError, CredentialRotationEvidence list) effect" where
  "memory_query_events trigger_type status limit s =
     answer (take (nat limit) (order_by (\<lambda>left right. cv_initiated_at_utc right < cv_initiated_at_utc left
         \<or> (cv_initiated_at_utc left = cv_initiated_at_utc right \<and> cv_rotation_id left < cv_rotation_id right))
       (filter (\<lambda>e. (trigger_type = None \<or> trigger_type = Some (cv_trigger_type e)) \<and> (status = None \<or> status = Some (cv_status e)))
         (mr_events s)))) s"

definition InMemoryCredentialRotationService ::
    "(SecretRotationRequest \<Rightarrow> SecretRotationPortError + SecretRotationResult) \<Rightarrow> memory_rotations CredentialRotationService" where
  "InMemoryCredentialRotationService provider =
     \<lparr>crs_create_event = memory_create_event,
      crs_load_event = (\<lambda>rotation_id s. answer (mr_find rotation_id s) s),
      crs_update_event = memory_update_event,
      crs_query_events = memory_query_events,
      crs_rotate = (\<lambda>request s. (provider request, s\<lparr>mr_rotated := request # mr_rotated s\<rparr>))\<rparr>"

text \<open>Equations that evaluate a step before what follows it.\<close>

lemmas rotation_step_code [code] =
  trigger_scheduled_rotation_def[THEN fun_cong, unfolded run_then_def]
  trigger_emergency_rotation_def[THEN fun_cong, unfolded run_then_def]

end
