(* ===== verification/CredentialSafety.thy ===== *)
theory CredentialSafety
  imports CredentialService
begin

text \<open>
  What the credential rotation service guarantees over any history, with any provider and any
  faults of the database: the provider is asked at most once per rotation, a concluded rotation
  stays as it is, no secret material is stored, and what success means. The service's part is
  proved over the contract of its ports, which the tables of \<open>CredentialStore\<close> satisfy.
\<close>

section \<open>The contract of the ports\<close>

text \<open>The rotation a request to the provider belongs to.\<close>

definition rotation_of :: "SecretRotationRequest \<Rightarrow> string" where
  "rotation_of q = generate_rotation_id (sq_trigger_type q) (sq_credential_scope q) (sq_correlation_id q)"

locale rotation_ports =
  fixes self :: "'s CredentialRotationService"
    and status_of :: "'s \<Rightarrow> string \<Rightarrow> CredentialRotationState option"
    and entry_of :: "'s \<Rightarrow> string \<Rightarrow> 'r option"
    and rotated :: "'s \<Rightarrow> SecretRotationRequest list"
    and sound :: "'s \<Rightarrow> bool"
  assumes create_error: "sound s \<Longrightarrow> crs_create_event self e s = (Inl err, t)
      \<Longrightarrow> sound t \<and> rotated t = rotated s \<and> status_of t = status_of s \<and> entry_of t = entry_of s"
    and create: "sound s \<Longrightarrow> crs_create_event self e s = (Inr (), t)
      \<Longrightarrow> sound t \<and> rotated t = rotated s \<and> status_of s (cv_rotation_id e) = None
        \<and> status_of t = (status_of s)(cv_rotation_id e \<mapsto> cv_status e)
        \<and> (\<forall>k. k \<noteq> cv_rotation_id e \<longrightarrow> entry_of t k = entry_of s k)"
    and load: "sound s \<Longrightarrow> crs_load_event self k s = (r, t)
      \<Longrightarrow> sound t \<and> rotated t = rotated s \<and> status_of t = status_of s \<and> entry_of t = entry_of s
        \<and> (\<forall>x. r = Inr x \<longrightarrow> (x = None \<longleftrightarrow> status_of s k = None))"
    and update_error: "sound s \<Longrightarrow> crs_update_event self e s = (Inl err, t)
      \<Longrightarrow> sound t \<and> rotated t = rotated s \<and> status_of t = status_of s \<and> entry_of t = entry_of s"
    and update: "sound s \<Longrightarrow> crs_update_event self e s = (Inr (), t)
      \<Longrightarrow> sound t \<and> rotated t = rotated s
        \<and> (\<exists>x. status_of s (cv_rotation_id e) = Some x \<and> is_valid_rotation_transition x (cv_status e))
        \<and> status_of t = (status_of s)(cv_rotation_id e \<mapsto> cv_status e)
        \<and> (\<forall>k. k \<noteq> cv_rotation_id e \<longrightarrow> entry_of t k = entry_of s k)"
    and rotate: "sound s \<Longrightarrow> crs_rotate self q s = (rr, t)
      \<Longrightarrow> sound t \<and> rotated t = q # rotated s \<and> status_of t = status_of s \<and> entry_of t = entry_of s"

text \<open>A valid transition is reflexive and transitive.\<close>

lemma valid_transition_refl [simp]: "is_valid_rotation_transition x x"
  by (cases x) auto

lemma valid_transition_trans:
  "is_valid_rotation_transition x y \<Longrightarrow> is_valid_rotation_transition y z \<Longrightarrow> is_valid_rotation_transition x z"
  by (cases x; cases y) auto

text \<open>A rotation is concluded once it has succeeded, was denied or has failed.\<close>

definition concluded :: "CredentialRotationState \<Rightarrow> bool" where
  "concluded x \<longleftrightarrow> x \<in> {CredentialRotationState.Succeeded, CredentialRotationState.Denied, CredentialRotationState.Failed}"

lemma concluded_stays: "concluded x \<Longrightarrow> is_valid_rotation_transition x y \<Longrightarrow> y = x"
  by (auto simp: concluded_def)

context rotation_ports
begin

definition once :: "'s \<Rightarrow> bool" where
  "once s \<longleftrightarrow> sound s \<and> distinct (map rotation_of (rotated s)) \<and> (\<forall>q\<in>set (rotated s). status_of s (rotation_of q) \<noteq> None)"

definition advances :: "'s \<Rightarrow> 's \<Rightarrow> bool" where
  "advances s t \<longleftrightarrow> once t
     \<and> (\<forall>k x. status_of s k = Some x \<longrightarrow> (\<exists>y. status_of t k = Some y \<and> is_valid_rotation_transition x y)
          \<and> (concluded x \<longrightarrow> entry_of t k = entry_of s k))"

lemma advances_refl: "once s \<Longrightarrow> advances s s"
  by (auto simp: advances_def)

lemma advances_trans: "advances s t \<Longrightarrow> advances t u \<Longrightarrow> advances s u"
  unfolding advances_def by (metis valid_transition_trans concluded_stays)

lemma advances_once: "advances s t \<Longrightarrow> once t"
  by (simp add: advances_def)

lemma unchanged_advances:
  "once s \<Longrightarrow> sound t \<Longrightarrow> rotated t = rotated s \<Longrightarrow> status_of t = status_of s \<Longrightarrow> entry_of t = entry_of s \<Longrightarrow> advances s t"
  by (auto simp: advances_def once_def)

lemma load_wp:
  assumes "once s" "\<And>t. advances s t \<Longrightarrow> status_of t = status_of s \<Longrightarrow> rotated t = rotated s \<Longrightarrow> status_of s k = None \<Longrightarrow> Q (Inr None) t"
    and "\<And>e t. advances s t \<Longrightarrow> status_of s k \<noteq> None \<Longrightarrow> Q (Inr (Some e)) t" "\<And>e t. advances s t \<Longrightarrow> Q (Inl e) t"
  shows "wp (crs_load_event self k) s Q"
proof (rule wpI)
  fix r t
  assume run: "crs_load_event self k s = (r, t)"
  have at_t: "sound t" "rotated t = rotated s" "status_of t = status_of s" "entry_of t = entry_of s" "\<forall>x. r = Inr x \<longrightarrow> (x = None \<longleftrightarrow> status_of s k = None)"
    using load[OF _ run] assms(1) by (auto simp: once_def)
  then have "advances s t" using assms(1) by (intro unchanged_advances)
  then show "Q r t"
    using assms(2-4) at_t by (cases r; cases "projr r") auto
qed

lemma create_wp:
  assumes "once s" "\<And>e t. advances s t \<Longrightarrow> Q (Inl e) t"
    and "\<And>t. advances s t \<Longrightarrow> rotated t = rotated s \<Longrightarrow> status_of s (cv_rotation_id e) = None
      \<Longrightarrow> status_of t = (status_of s)(cv_rotation_id e \<mapsto> cv_status e) \<Longrightarrow> Q (Inr ()) t"
  shows "wp (crs_create_event self e) s Q"
proof (rule wpI)
  fix r t
  assume run: "crs_create_event self e s = (r, t)"
  have sound: "sound s" using assms(1) by (simp add: once_def)
  show "Q r t"
  proof (cases r)
    case (Inl err)
    then have "sound t" "rotated t = rotated s" "status_of t = status_of s" "entry_of t = entry_of s"
      using run create_error[OF sound] by blast+
    then show ?thesis using Inl assms(1,2) by (simp add: unchanged_advances)
  next
    case (Inr u)
    then have new: "sound t" "rotated t = rotated s" "status_of s (cv_rotation_id e) = None"
      "status_of t = (status_of s)(cv_rotation_id e \<mapsto> cv_status e)" "\<forall>k. k \<noteq> cv_rotation_id e \<longrightarrow> entry_of t k = entry_of s k"
      using run create[OF sound] by auto
    have "advances s t" using new assms(1) by (auto simp: advances_def once_def)
    then show ?thesis using Inr new assms(3) by simp
  qed
qed

lemma update_wp:
  assumes "once s" "\<exists>x. status_of s (cv_rotation_id e) = Some x \<and> \<not> concluded x" "\<And>e t. advances s t \<Longrightarrow> Q (Inl e) t"
    and "\<And>t. advances s t \<Longrightarrow> rotated t = rotated s
      \<Longrightarrow> status_of t = (status_of s)(cv_rotation_id e \<mapsto> cv_status e) \<Longrightarrow> Q (Inr ()) t"
  shows "wp (crs_update_event self e) s Q"
proof (rule wpI)
  fix r t
  assume run: "crs_update_event self e s = (r, t)"
  have sound: "sound s" using assms(1) by (simp add: once_def)
  show "Q r t"
  proof (cases r)
    case (Inl err)
    then have "sound t" "rotated t = rotated s" "status_of t = status_of s" "entry_of t = entry_of s"
      using run update_error[OF sound] by blast+
    then show ?thesis using Inl assms(1,3) by (simp add: unchanged_advances)
  next
    case (Inr u)
    then obtain x where new: "sound t" "rotated t = rotated s" "status_of s (cv_rotation_id e) = Some x"
      "is_valid_rotation_transition x (cv_status e)" "status_of t = (status_of s)(cv_rotation_id e \<mapsto> cv_status e)"
      "\<forall>k. k \<noteq> cv_rotation_id e \<longrightarrow> entry_of t k = entry_of s k"
      using run update[OF sound, of e t] by auto
    have "advances s t" using new assms(1,2) by (auto simp: advances_def once_def)
    then show ?thesis using Inr new assms(4) by simp
  qed
qed

lemma rotate_wp:
  assumes "once s" "status_of s (rotation_of q) \<noteq> None" "rotation_of q \<notin> rotation_of ` set (rotated s)"
    and "\<And>r t. advances s t \<Longrightarrow> rotated t = q # rotated s \<Longrightarrow> status_of t = status_of s \<Longrightarrow> Q r t"
  shows "wp (crs_rotate self q) s Q"
proof (rule wpI)
  fix r t
  assume run: "crs_rotate self q s = (r, t)"
  have new: "sound t" "rotated t = q # rotated s" "status_of t = status_of s" "entry_of t = entry_of s"
    using rotate[OF _ run] assms(1) by (auto simp: once_def)
  have "advances s t" using new assms(1-3) by (auto simp: advances_def once_def)
  then show "Q r t" using new assms(4) by simp
qed

text \<open>
  What a triggered rotation comes to: the state advances, and a success of a rotation that did
  not exist before was asked of the provider, is stored, and meets its condition.
\<close>

definition comes_to :: "'s \<Rightarrow> SecretRotationRequest \<Rightarrow> (CredentialRotationEvidence \<Rightarrow> bool)
    \<Rightarrow> CredentialRotationServiceError + CredentialRotationEvidence \<Rightarrow> 's \<Rightarrow> bool" where
  "comes_to s q C r t \<longleftrightarrow> advances s t
     \<and> (\<forall>d. r = Inr d \<longrightarrow> cv_status d = CredentialRotationState.Succeeded \<longrightarrow> status_of s (rotation_of q) = None
        \<longrightarrow> cv_rotation_id d = rotation_of q \<and> rotated t = q # rotated s
          \<and> status_of t (rotation_of q) = Some CredentialRotationState.Succeeded \<and> C d)"

lemma comes_to_error: "advances s t \<Longrightarrow> comes_to s q C (Inl e) t"
  "advances s t \<Longrightarrow> cv_status d \<noteq> CredentialRotationState.Succeeded \<Longrightarrow> comes_to s q C (Inr d) t"
  "advances s t \<Longrightarrow> status_of s (rotation_of q) \<noteq> None \<Longrightarrow> comes_to s q C (Inr d) t"
  by (auto simp: comes_to_def)

lemma conclude_wp:
  assumes "advances s u" "cv_rotation_id d = rotation_of q"
    and "\<exists>x. status_of u (rotation_of q) = Some x \<and> \<not> concluded x"
    and "cv_status d = CredentialRotationState.Succeeded \<Longrightarrow> rotated u = q # rotated s \<and> C d"
  shows "wp (conclude self d) u (comes_to s q C)"
  unfolding conclude_def wp_then
proof (rule update_wp[OF advances_once[OF assms(1)]], goal_cases)
  case 1
  then show ?case using assms(2,3) by simp
next
  case (2 e t)
  then show ?case using assms(1) by (auto intro: comes_to_error advances_trans)
next
  case (3 t)
  then show ?case
    using assms by (auto simp: comes_to_def intro: advances_trans)
qed

lemma terminal_event_simps [simp]:
  "cv_rotation_id (build_terminal_event base outcome status reason ref completed) = cv_rotation_id base"
  "cv_status (build_terminal_event base outcome status reason ref completed) = status"
  "cv_completed_at_utc (build_terminal_event base outcome status reason ref completed) = Some completed"
  "cv_rotation_id (build_pending_like_event base status reason) = cv_rotation_id base"
  "cv_status (build_pending_like_event base status reason) = status"
  by (simp_all add: build_terminal_event_def build_pending_like_event_def)

lemma deny_wp:
  assumes "advances s u" "cv_rotation_id pending = rotation_of q"
    and "\<exists>x. status_of u (rotation_of q) = Some x \<and> \<not> concluded x"
  shows "wp (deny_rotation self pending reason now) u (comes_to s q C)"
  unfolding deny_rotation_def using assms by (intro conclude_wp) simp_all

text \<open>The steps both kinds of rotation share once their pending event is stored.\<close>

lemma rotate_steps_wp:
  assumes "advances s u" "rotated u = rotated s" "status_of u = (status_of s)(rotation_of q \<mapsto> CredentialRotationState.Pending)"
    and "status_of s (rotation_of q) = None" "once s" "cv_rotation_id pending = rotation_of q"
    and "\<And>t e. advances s t \<Longrightarrow> rotated t = q # rotated s
      \<Longrightarrow> \<exists>x. status_of t (rotation_of q) = Some x \<and> \<not> concluded x \<Longrightarrow> wp (h e) t (comes_to s q C)"
    and "\<And>t a. advances s t \<Longrightarrow> rotated t = q # rotated s
      \<Longrightarrow> \<exists>x. status_of t (rotation_of q) = Some x \<and> \<not> concluded x \<Longrightarrow> wp (f a) t (comes_to s q C)"
  shows "wp (run_then (crs_update_event self (build_pending_like_event pending CredentialRotationState.InProgress
          CredentialRotationReasonCode.RotationPending)) (\<lambda>_. run_catch (crs_rotate self q) h f)) u (comes_to s q C)"
  unfolding wp_then
proof (rule update_wp[OF advances_once[OF assms(1)]], goal_cases)
  case 1
  then show ?case using assms(3,6) by (simp add: concluded_def)
next
  case (2 e t)
  then show ?case using assms(1) by (auto intro: comes_to_error advances_trans)
next
  case (3 t)
  have fresh: "rotation_of q \<notin> rotation_of ` set (rotated t)"
    using assms(2,4,5) 3(2) by (auto simp: once_def)
  have "advances s t" using assms(1) 3(1) advances_trans by blast
  have "wp (crs_rotate self q) t (\<lambda>r v. case r of Inl e \<Rightarrow> wp (h e) v (comes_to s q C) | Inr a \<Rightarrow> wp (f a) v (comes_to s q C))"
  proof (rule rotate_wp[OF advances_once[OF 3(1)] _ fresh])
    show "status_of t (rotation_of q) \<noteq> None" using 3(3) assms(6) by simp
    fix r v
    assume v: "advances t v" "rotated v = q # rotated t" "status_of v = status_of t"
    then have "advances s v" "rotated v = q # rotated s"
      "\<exists>x. status_of v (rotation_of q) = Some x \<and> \<not> concluded x"
      using 3(3) assms(6) \<open>advances s t\<close> advances_trans 3(2) assms(2) by (auto simp: concluded_def)
    then show "case r of Inl e \<Rightarrow> wp (h e) v (comes_to s q C) | Inr a \<Rightarrow> wp (f a) v (comes_to s q C)"
      using assms(7,8) by (cases r) simp_all
  qed
  then show ?case by (simp add: wp_catch)
qed

lemma scheduled_wp:
  assumes "once s"
  shows "wp (trigger_scheduled_rotation T self inp) s (comes_to s (scheduled_request inp)
    (\<lambda>d. scheduled_rotation_due T (ts_last_rotated_at_utc inp) (ts_now_utc inp) = Inr True
      \<and> \<not> readiness_is_ambiguous (ts_metadata inp)))"
proof -
  let ?q = "scheduled_request inp"
  obtain C :: "CredentialRotationEvidence \<Rightarrow> bool" where
    C: "C = (\<lambda>d. scheduled_rotation_due T (ts_last_rotated_at_utc inp) (ts_now_utc inp) = Inr True
      \<and> \<not> readiness_is_ambiguous (ts_metadata inp))" by blast
  have ids: "cv_rotation_id (scheduled_pending inp) = rotation_of ?q" "cv_status (scheduled_pending inp) = CredentialRotationState.Pending"
    by (simp_all add: scheduled_pending_def build_pending_event_def rotation_of_def scheduled_request_def)
  have steps: "wp (scheduled_steps self inp (scheduled_pending inp) due) u (comes_to s ?q C)"
    if "advances s u" "rotated u = rotated s" "status_of u = (status_of s)(rotation_of ?q \<mapsto> CredentialRotationState.Pending)"
      "status_of s (rotation_of ?q) = None" "scheduled_rotation_due T (ts_last_rotated_at_utc inp) (ts_now_utc inp) = Inr due"
    for u due
  proof (cases "readiness_is_ambiguous (ts_metadata inp) \<or> \<not> due")
    case True
    then show ?thesis using that(1,3) ids by (auto simp: scheduled_steps_def concluded_def intro!: deny_wp)
  next
    case False
    have "wp (scheduled_steps self inp (scheduled_pending inp) True) u (comes_to s ?q C)"
      unfolding scheduled_steps_def using False that ids assms
      by (auto simp: C intro!: rotate_steps_wp conclude_wp)
    then show ?thesis using False by simp
  qed
  have created: "wp (run_then (crs_create_event self (scheduled_pending inp)) (\<lambda>_. scheduled_steps self inp (scheduled_pending inp) due))
      t (comes_to s ?q C)"
    if "advances s t" "status_of t = status_of s" "rotated t = rotated s"
      "scheduled_rotation_due T (ts_last_rotated_at_utc inp) (ts_now_utc inp) = Inr due" for t due
    unfolding wp_then
  proof (rule create_wp[OF advances_once[OF that(1)]], goal_cases)
    case (1 e v)
    then show ?case using that(1) by (auto intro: comes_to_error advances_trans)
  next
    case (2 v)
    then show ?case using that ids steps[of v due] by (auto intro: advances_trans)
  qed
  show ?thesis
    unfolding trigger_scheduled_rotation_def ids C[symmetric]
    by (auto simp: wp_then[of "pure_result _"] wp_then[of "crs_load_event _ _"] comes_to_error advances_refl assms created
        split: sum.splits intro!: load_wp)
qed

lemma emergency_wp:
  assumes "once s"
  shows "wp (trigger_emergency_rotation T fmt self inp) s (\<lambda>r t. \<exists>deadline. comes_to s (emergency_request inp deadline)
    (\<lambda>d. (\<exists>completed. cv_completed_at_utc d = Some completed
        \<and> emergency_rotation_within_deadline T (te_compromise_triggered_at_utc inp) completed = Inr True)
      \<and> \<not> readiness_is_ambiguous (te_metadata inp)) r t)"
proof (cases "emergency_input_checks T fmt inp")
  case (Inl e)
  then show ?thesis using assms by (auto simp: trigger_emergency_rotation_def wp_then intro: comes_to_error advances_refl)
next
  case (Inr checked)
  obtain deadline ontime where checked: "checked = (deadline, ontime)" by fastforce
  let ?q = "emergency_request inp deadline"
  obtain C :: "CredentialRotationEvidence \<Rightarrow> bool" where
    C: "C = (\<lambda>d. (\<exists>completed. cv_completed_at_utc d = Some completed
        \<and> emergency_rotation_within_deadline T (te_compromise_triggered_at_utc inp) completed = Inr True)
      \<and> \<not> readiness_is_ambiguous (te_metadata inp))" by blast
  have ids: "cv_rotation_id (emergency_pending inp deadline) = rotation_of ?q"
    "cv_status (emergency_pending inp deadline) = CredentialRotationState.Pending"
    by (simp_all add: emergency_pending_def build_pending_event_def rotation_of_def emergency_request_def)
  have rotated_result: "wp (run_then (pure_result (emergency_result T inp (emergency_pending inp deadline) result)) (conclude self))
      t (comes_to s ?q C)"
    if "advances s t" "rotated t = ?q # rotated s" "\<exists>x. status_of t (rotation_of ?q) = Some x \<and> \<not> concluded x"
      "\<not> readiness_is_ambiguous (te_metadata inp)" for t result
  proof (cases "emergency_result T inp (emergency_pending inp deadline) result")
    case (Inl e)
    then show ?thesis using that(1) by (simp add: wp_then comes_to_error)
  next
    case (Inr d)
    then have "cv_rotation_id d = rotation_of ?q" "cv_status d = CredentialRotationState.Succeeded \<Longrightarrow> C d"
      using that(4) ids by (auto simp: emergency_result_def and_then_Inr_iff C split: if_splits)
    then show ?thesis
      using Inr that by (simp add: wp_then) (intro conclude_wp; simp)
  qed
  have steps: "wp (emergency_steps T self inp deadline (emergency_pending inp deadline) ontime) u (comes_to s ?q C)"
    if "advances s u" "rotated u = rotated s" "status_of u = (status_of s)(rotation_of ?q \<mapsto> CredentialRotationState.Pending)"
      "status_of s (rotation_of ?q) = None" for u
  proof (cases "readiness_is_ambiguous (te_metadata inp) \<or> \<not> ontime")
    case True
    then show ?thesis using that(1,3) ids by (auto simp: emergency_steps_def concluded_def intro!: deny_wp)
  next
    case False
    then show ?thesis
      unfolding emergency_steps_def using that ids assms
      by (auto intro!: rotate_steps_wp conclude_wp rotated_result)
  qed
  have created: "wp (run_then (crs_create_event self (emergency_pending inp deadline))
      (\<lambda>_. emergency_steps T self inp deadline (emergency_pending inp deadline) ontime)) t (comes_to s ?q C)"
    if "advances s t" "status_of t = status_of s" "rotated t = rotated s" for t
    unfolding wp_then
  proof (rule create_wp[OF advances_once[OF that(1)]], goal_cases)
    case (1 e v)
    then show ?case using that(1) by (auto intro: comes_to_error advances_trans)
  next
    case (2 v)
    then show ?case using that ids steps[of v] by (auto intro: advances_trans)
  qed
  have "wp (trigger_emergency_rotation T fmt self inp) s (comes_to s ?q C)"
    unfolding trigger_emergency_rotation_def
    by (auto simp: Inr checked ids wp_then[of "pure_result _"] wp_then[of "crs_load_event _ _"] comes_to_error assms created
        intro!: load_wp)
  then show ?thesis unfolding C by (rule wp_mono) blast
qed

end

section \<open>Histories\<close>

datatype rotation_operation = Scheduled TriggerScheduledRotationInput | Emergency TriggerEmergencyRotationInput

fun run_rotation ::
    "time_crate \<Rightarrow> (int \<Rightarrow> string) \<Rightarrow> 's CredentialRotationService \<Rightarrow> rotation_operation
      \<Rightarrow> ('s, CredentialRotationServiceError, CredentialRotationEvidence) effect" where
  "run_rotation T fmt self (rotation_operation.Scheduled inp) = trigger_scheduled_rotation T self inp"
| "run_rotation T fmt self (rotation_operation.Emergency inp) = trigger_emergency_rotation T fmt self inp"

inductive rotation_run ::
    "time_crate \<Rightarrow> (int \<Rightarrow> string) \<Rightarrow> 's CredentialRotationService \<Rightarrow> 's \<Rightarrow> 's \<Rightarrow> bool"
  for T fmt self where
  start: "rotation_run T fmt self s s"
| step: "rotation_run T fmt self s t \<Longrightarrow> run_rotation T fmt self operation t = (r, u) \<Longrightarrow> rotation_run T fmt self s u"

context rotation_ports
begin

lemma operation_advances: "once s \<Longrightarrow> run_rotation T fmt self operation s = (r, t) \<Longrightarrow> advances s t"
proof (cases operation)
  case (Scheduled inp)
  then show "once s \<Longrightarrow> run_rotation T fmt self operation s = (r, t) \<Longrightarrow> advances s t"
    using wpD[OF scheduled_wp[of s T inp]] by (auto simp: comes_to_def)
next
  case (Emergency inp)
  then show "once s \<Longrightarrow> run_rotation T fmt self operation s = (r, t) \<Longrightarrow> advances s t"
    using wpD[OF emergency_wp[of s T fmt inp]] by (auto simp: comes_to_def)
qed

lemma run_advances:
  assumes "rotation_run T fmt self s t" "once s"
  shows "advances s t"
  using assms
proof (induction rule: rotation_run.induct)
  case (start s)
  then show ?case by (rule advances_refl)
next
  case (step s t operation r u)
  then show ?case using operation_advances advances_trans advances_once by blast
qed

end

section \<open>The tables satisfy the contract\<close>

subsection \<open>In memory\<close>

definition memory_status :: "memory_rotations \<Rightarrow> string \<Rightarrow> CredentialRotationState option" where
  "memory_status s k = map_option cv_status (mr_find k s)"

lemma mr_find_update:
  assumes "mr_find (cv_rotation_id e) s = Some x"
  shows "mr_find k (s\<lparr>mr_events := map (\<lambda>x. if cv_rotation_id x = cv_rotation_id e then e else x) (mr_events s)\<rparr>)
    = (if k = cv_rotation_id e then Some e else mr_find k s)"
proof -
  let ?f = "\<lambda>x. if cv_rotation_id x = cv_rotation_id e then e else x"
  have "mr_find k (s\<lparr>mr_events := map ?f (mr_events s)\<rparr>) = map_option ?f (mr_find k s)"
    unfolding mr_find_def by (simp add: find_map_key[where key = cv_rotation_id])
  also have "\<dots> = (if k = cv_rotation_id e then Some e else mr_find k s)"
    using assms unfolding mr_find_def by (cases "find (\<lambda>x. cv_rotation_id x = k) (mr_events s)") (auto dest: find_key)
  finally show ?thesis .
qed

interpretation memory_rotations: rotation_ports "InMemoryCredentialRotationService provider"
  memory_status "\<lambda>s k. mr_find k s" mr_rotated "\<lambda>_. True" for provider
proof (unfold_locales, goal_cases)
  case (2 s e t)
  then show ?case
    by (auto simp: InMemoryCredentialRotationService_def memory_create_event_def memory_status_def fun_eq_iff mr_find_def
        answer_def refuse_def split: if_splits)
next
  case (5 s e t)
  then obtain x where x: "mr_find (cv_rotation_id e) s = Some x"
    by (auto simp: InMemoryCredentialRotationService_def memory_update_event_def split: option.splits)
  then have "is_valid_rotation_transition (cv_status x) (cv_status e)
      \<and> t = s\<lparr>mr_events := map (\<lambda>x. if cv_rotation_id x = cv_rotation_id e then e else x) (mr_events s)\<rparr>"
    using 5 by (auto simp: InMemoryCredentialRotationService_def memory_update_event_def split: if_splits)
  then show ?case using x mr_find_update[OF x] by (auto simp: memory_status_def fun_eq_iff)
qed (auto simp: InMemoryCredentialRotationService_def memory_create_event_def memory_update_event_def memory_status_def
    mr_find_def fun_eq_iff answer_def refuse_def split: if_splits option.splits)

subsection \<open>Over PostgreSQL\<close>

text \<open>A stored row carries no secret material and a status and times that decode.\<close>

definition sound_row :: "rotation_row \<Rightarrow> bool" where
  "sound_row row \<longleftrightarrow> \<not> isl (CredentialRotationState_parse (rw_status row))
     \<and> reference_like (rw_credential_reference row) \<and> (\<forall>r. rw_rotation_reference row = Some r \<longrightarrow> reference_like r)
     \<and> is_object (rw_metadata row) \<and> nesting (rw_metadata row) \<le> 8 \<and> clean (rw_metadata row)
     \<and> (rw_status row = ''succeeded'' \<longrightarrow> rw_rotation_reference row \<noteq> None \<and> rw_completed_at_utc row \<noteq> None)"

definition sound_world :: "rotation_world \<Rightarrow> bool" where
  "sound_world w \<longleftrightarrow> (\<forall>row\<in>set (wo_table w). sound_row row)"

definition row_status :: "rotation_row \<Rightarrow> CredentialRotationState" where
  "row_status row = projr (CredentialRotationState_parse (rw_status row))"

definition stored_status :: "rotation_world \<Rightarrow> string \<Rightarrow> CredentialRotationState option" where
  "stored_status w k = map_option row_status (rotation_row_at k (wo_table w))"

lemma rotation_call_iff:
  "rotation_call f schedule w = (r, t) \<longleftrightarrow>
     (\<exists>r' rows. f (schedule (wo_calls w)) (wo_table w) = (r', rows) \<and> map_err map_rotation_persistence_error r' = r
        \<and> t = w\<lparr>wo_table := rows, wo_calls := Suc (wo_calls w)\<rparr>)"
  by (auto simp: rotation_call_def Let_def split: prod.splits)

lemma valid_contract:
  assumes "validate_contract T e = Inr ()"
  shows "reference_like (cv_credential_reference e)" "\<forall>r. cv_rotation_reference e = Some r \<longrightarrow> reference_like r"
    "is_object (cv_metadata e)" "nesting (cv_metadata e) \<le> 8" "clean (cv_metadata e)"
  using assms
  by (auto simp: validate_contract_def and_then_Inr_iff is_ok_unit rotation_metadata_accepted_iff clean_def reference_like_def
      list_all_iff MAX_ROTATION_METADATA_TEXT_LEN_def)


lemma row_of_sound:
  assumes "validate_rotation_event_for_create T e = Inr ()"
  shows "sound_row (rotation_row_of e)" "row_status (rotation_row_of e) = cv_status e"
  using assms
  by (auto simp: validate_rotation_event_for_create_def and_then_Inr_iff sound_row_def rotation_row_of_def row_status_def
      valid_contract validate_state_shape_def split: CredentialRotationState.splits if_splits)

lemma update_row_sound:
  assumes "validate_rotation_event_for_update T e = Inr ()" "sound_row row"
  shows "sound_row (update_rotation_row e row)" "row_status (update_rotation_row e row) = cv_status e"
  using assms
  by (auto simp: validate_rotation_event_for_update_def and_then_Inr_iff sound_row_def update_rotation_row_def row_status_def
      valid_contract validate_state_shape_def split: CredentialRotationState.splits if_splits)

lemma updated_key: "rotation_row_at k (map (\<lambda>r. if rw_rotation_id r = j then update_rotation_row e r else r) rows)
    = (if k = j then map_option (update_rotation_row e) (rotation_row_at j rows) else rotation_row_at k rows)"
proof -
  let ?f = "\<lambda>r. if rw_rotation_id r = j then update_rotation_row e r else r"
  have "rotation_row_at k (map ?f rows) = map_option ?f (rotation_row_at k rows)"
    unfolding rotation_row_at_def by (rule find_map_key) (simp add: update_rotation_row_def)
  also have "\<dots> = (if k = j then map_option (update_rotation_row e) (rotation_row_at j rows) else rotation_row_at k rows)"
    unfolding rotation_row_at_def by (cases "find (\<lambda>r. rw_rotation_id r = k) rows") (auto dest: find_key)
  finally show ?thesis .
qed

lemma row_at_mem: "rotation_row_at k rows = Some row \<Longrightarrow> row \<in> set rows"
  by (auto simp: rotation_row_at_def find_Some_iff)

lemma create_event_Inr:
  assumes "create_credential_rotation_event T P faults e rows = (Inr (), rows')"
  shows "validate_rotation_event_for_create T e = Inr ()" "rotation_row_at (cv_rotation_id e) rows = None"
    "rows' = rotation_row_of e # rows"
  using assms
  by (auto simp: create_credential_rotation_event_def transact_Inr and_then_Inr_iff insert_violation_def rotation_row_of_def
      split: option.splits if_splits)

lemma update_event_Inr:
  assumes "update_credential_rotation_event T P faults e rows = (Inr (), rows')"
  obtains row where "rotation_row_at (cv_rotation_id e) rows = Some row" "validate_rotation_event_for_update T e = Inr ()"
    "is_valid_rotation_transition (row_status row) (cv_status e)"
    "rows' = map (\<lambda>r. if rw_rotation_id r = cv_rotation_id e then update_rotation_row e r else r) rows"
proof -
  obtain row where "rotation_row_at (cv_rotation_id e) rows = Some row"
    using assms by (auto simp: update_credential_rotation_event_def transact_Inr and_then_Inr_iff split: option.splits)
  then show thesis
    using assms that
    by (auto simp: update_credential_rotation_event_def transact_Inr and_then_Inr_iff row_status_def
        split: option.splits if_splits)
qed

lemma rotation_call_error:
  assumes "rotation_call f schedule w = (Inl e, t)" and "\<And>faults. f faults = transact (tx faults)"
  shows "wo_table t = wo_table w" "wo_rotated t = wo_rotated w"
  using assms by (auto simp: rotation_call_iff map_err_Inl_iff dest: transact_Inl)

lemma load_event_found:
  "load_credential_rotation_event T P faults k rows = Inr x \<Longrightarrow> x = None \<longleftrightarrow> rotation_row_at k rows = None"
  by (auto simp: load_credential_rotation_event_def and_then_Inr_iff split: option.splits)

interpretation postgres_rotations: rotation_ports "PostgresCredentialRotationService T P schedule provider"
  stored_status "\<lambda>w k. rotation_row_at k (wo_table w)" wo_rotated sound_world for T P schedule provider
proof (unfold_locales, goal_cases)
  case (1 w e err t)
  then have "rotation_call (\<lambda>faults. create_credential_rotation_event T P faults e) schedule w = (Inl err, t)"
    by (simp add: PostgresCredentialRotationService_def)
  note same = rotation_call_error[OF this create_credential_rotation_event_def]
  show ?case using 1(1) same by (simp add: sound_world_def stored_status_def fun_eq_iff)
next
  case (2 w e t)
  then obtain rows where create: "create_credential_rotation_event T P (schedule (wo_calls w)) e (wo_table w) = (Inr (), rows)"
    "t = w\<lparr>wo_table := rows, wo_calls := Suc (wo_calls w)\<rparr>"
    by (auto simp: PostgresCredentialRotationService_def rotation_call_iff)
  note new = create_event_Inr[OF create(1)]
  have "stored_status t = (stored_status w)(cv_rotation_id e \<mapsto> cv_status e)"
    using row_of_sound(2)[OF new(1)] unfolding create(2) new(3)
    by (auto simp: fun_eq_iff stored_status_def rotation_row_at_def) (auto simp: rotation_row_of_def)
  then show ?case
    using 2(1) new(2) row_of_sound(1)[OF new(1)] unfolding create(2) new(3)
    by (simp add: sound_world_def stored_status_def) (simp add: rotation_row_at_def rotation_row_of_def)
next
  case (3 w k r t)
  then show ?case
    by (auto simp: PostgresCredentialRotationService_def rotation_call_iff sound_world_def stored_status_def fun_eq_iff
        dest!: load_event_found)
next
  case (4 w e err t)
  then have "rotation_call (\<lambda>faults. update_credential_rotation_event T P faults e) schedule w = (Inl err, t)"
    by (simp add: PostgresCredentialRotationService_def)
  note same = rotation_call_error[OF this update_credential_rotation_event_def]
  show ?case using 4(1) same by (simp add: sound_world_def stored_status_def fun_eq_iff)
next
  case (5 w e t)
  then obtain rows where upd: "update_credential_rotation_event T P (schedule (wo_calls w)) e (wo_table w) = (Inr (), rows)"
    "t = w\<lparr>wo_table := rows, wo_calls := Suc (wo_calls w)\<rparr>"
    by (auto simp: PostgresCredentialRotationService_def rotation_call_iff)
  from upd(1) obtain row where row: "rotation_row_at (cv_rotation_id e) (wo_table w) = Some row"
    "validate_rotation_event_for_update T e = Inr ()" "is_valid_rotation_transition (row_status row) (cv_status e)"
    "rows = map (\<lambda>r. if rw_rotation_id r = cv_rotation_id e then update_rotation_row e r else r) (wo_table w)"
    by (rule update_event_Inr)
  have "sound_row row" using 5(1) row_at_mem[OF row(1)] by (simp add: sound_world_def)
  then have "stored_status t = (stored_status w)(cv_rotation_id e \<mapsto> cv_status e)"
    using row(1) update_row_sound(2)[OF row(2)] unfolding upd(2) row(4) by (auto simp: fun_eq_iff stored_status_def updated_key)
  then show ?case
    using 5(1) row(1,3) update_row_sound(1)[OF row(2)] unfolding upd(2) row(4)
    by (auto simp: sound_world_def stored_status_def updated_key)
next
  case (6 w q rr t)
  then show ?case
    by (auto simp: PostgresCredentialRotationService_def provider_call_def sound_world_def stored_status_def fun_eq_iff)
qed


section \<open>What the service guarantees\<close>

lemma empty_world_once: "postgres_rotations.once empty_rotation_world"
  by (simp add: postgres_rotations.once_def sound_world_def empty_rotation_world_def)

lemma state_texts:
  "CredentialRotationState_as_str x \<in> {''succeeded'', ''denied'', ''failed''} \<longleftrightarrow> concluded x"
  "CredentialRotationState_as_str x = ''in_progress'' \<longleftrightarrow> x = CredentialRotationState.InProgress"
  "CredentialRotationState_as_str x = ''pending'' \<longleftrightarrow> x = CredentialRotationState.Pending"
  by (cases x; simp add: concluded_def)+

lemma sound_row_status: "sound_row row \<Longrightarrow> rw_status row = CredentialRotationState_as_str (row_status row)"
  by (cases "CredentialRotationState_parse (rw_status row)") (simp_all add: sound_row_def row_status_def rotation_state.parse_iff)

lemma rows_advance:
  assumes "postgres_rotations.once u" "postgres_rotations.advances u w" "rotation_row_at k (wo_table u) = Some row"
  shows "\<exists>row'. rotation_row_at k (wo_table w) = Some row'
    \<and> (rw_status row \<in> {''succeeded'', ''denied'', ''failed''} \<longrightarrow> row' = row)
    \<and> (rw_status row = ''in_progress'' \<longrightarrow> rw_status row' \<noteq> ''pending'')"
proof -
  have status: "stored_status u k = Some (row_status row)" using assms(3) by (simp add: stored_status_def)
  with assms(2) obtain y where y: "stored_status w k = Some y" "is_valid_rotation_transition (row_status row) y"
    and same: "concluded (row_status row) \<Longrightarrow> rotation_row_at k (wo_table w) = rotation_row_at k (wo_table u)"
    unfolding postgres_rotations.advances_def by blast
  obtain row' where row': "rotation_row_at k (wo_table w) = Some row'" "row_status row' = y"
    using y(1) by (auto simp: stored_status_def)
  have "sound_row row" "sound_row row'"
    using assms(1,2) row_at_mem[OF assms(3)] row_at_mem[OF row'(1)]
    by (auto simp: postgres_rotations.advances_def postgres_rotations.once_def sound_world_def)
  then have texts: "rw_status row = CredentialRotationState_as_str (row_status row)" "rw_status row' = CredentialRotationState_as_str y"
    using row'(2) sound_row_status by auto
  show ?thesis
    using row' same y(2) assms(3) unfolding texts state_texts by (cases "row_status row") (auto simp: texts state_texts)
qed

text \<open>
  C17: Over every history of the credential rotation service over PostgreSQL, with any provider and
  any database faults, the provider is asked at most once for each rotation id; the credential
  reference, the rotation reference and every key and text of the metadata that are stored look
  like references and not like secrets (the identifiers, the scope and the actor are not
  screened); and a stored event is never lost, stays exactly as it is once it has succeeded, was
  denied or has failed, and never returns from in progress to pending.
\<close>

theorem rotation_asked_once:
  assumes "rotation_run T fmt (PostgresCredentialRotationService T P schedule provider) empty_rotation_world u"
    and "rotation_run T fmt (PostgresCredentialRotationService T P schedule provider) u w"
  shows "distinct (map (\<lambda>q. generate_rotation_id (sq_trigger_type q) (sq_credential_scope q) (sq_correlation_id q)) (wo_rotated w))
    \<and> (\<forall>row\<in>set (wo_table w). reference_like (rw_credential_reference row)
         \<and> (\<forall>reference. rw_rotation_reference row = Some reference \<longrightarrow> reference_like reference)
         \<and> (\<forall>key\<in>keys_in (rw_metadata row). \<not> looks_like_secret_token key)
         \<and> (\<forall>text\<in>texts_in (rw_metadata row). reference_like text))
    \<and> (\<forall>k row. rotation_row_at k (wo_table u) = Some row \<longrightarrow> (\<exists>row'. rotation_row_at k (wo_table w) = Some row'
         \<and> (rw_status row \<in> {''succeeded'', ''denied'', ''failed''} \<longrightarrow> row' = row)
         \<and> (rw_status row = ''in_progress'' \<longrightarrow> rw_status row' \<noteq> ''pending'')))"
proof -
  have once: "postgres_rotations.once u"
    using postgres_rotations.run_advances[OF assms(1) empty_world_once] by (rule postgres_rotations.advances_once)
  note advances = postgres_rotations.run_advances[OF assms(2) once]
  then show ?thesis
    using rows_advance[OF once advances]
    by (auto simp: postgres_rotations.advances_def postgres_rotations.once_def sound_world_def sound_row_def clean_def
        rotation_of_def[abs_def])
qed

fun operation_rotation_id :: "rotation_operation \<Rightarrow> string" where
  "operation_rotation_id (rotation_operation.Scheduled inp) =
     generate_rotation_id CredentialRotationTrigger.ScheduledCadence (ts_credential_scope inp) (ts_correlation_id inp)"
| "operation_rotation_id (rotation_operation.Emergency inp) =
     generate_rotation_id CredentialRotationTrigger.EmergencyCompromise (te_credential_scope inp) (te_correlation_id inp)"

text \<open>When a rotation of each kind may be reported as succeeded.\<close>

fun rotation_justified :: "time_crate \<Rightarrow> rotation_operation \<Rightarrow> CredentialRotationEvidence \<Rightarrow> bool" where
  "rotation_justified T (rotation_operation.Scheduled inp) d \<longleftrightarrow> \<not> readiness_is_ambiguous (ts_metadata inp)
     \<and> (\<exists>rotated now. parse_utc_timestamp T (ts_last_rotated_at_utc inp) = Some rotated
          \<and> parse_utc_timestamp T (ts_now_utc inp) = Some now \<and> duration_days 90 \<le> now - rotated)"
| "rotation_justified T (rotation_operation.Emergency inp) d \<longleftrightarrow> \<not> readiness_is_ambiguous (te_metadata inp)
     \<and> (\<exists>triggered ended completed. cv_completed_at_utc d = Some ended
          \<and> parse_utc_timestamp T (te_compromise_triggered_at_utc inp) = Some triggered
          \<and> parse_utc_timestamp T ended = Some completed
          \<and> triggered \<le> completed \<and> completed - triggered \<le> duration_minutes 30)"

text \<open>
  C18: After any history, a new rotation that is reported as succeeded has been asked of the
  provider exactly then, is stored as succeeded under its id, had verified crypto posture and
  run-time injection, and is either a scheduled one at least ninety days after the last rotation
  or an emergency one that the provider completed within thirty minutes of the compromise.
\<close>

theorem rotation_success_justified:
  assumes "rotation_run T fmt (PostgresCredentialRotationService T P schedule provider) empty_rotation_world w"
    and "run_rotation T fmt (PostgresCredentialRotationService T P schedule provider) operation w = (Inr d, t)"
    and "cv_status d = CredentialRotationState.Succeeded" "stored_status w (operation_rotation_id operation) = None"
  shows "cv_rotation_id d = operation_rotation_id operation
    \<and> stored_status t (operation_rotation_id operation) = Some CredentialRotationState.Succeeded
    \<and> (\<exists>q. wo_rotated t = q # wo_rotated w
         \<and> generate_rotation_id (sq_trigger_type q) (sq_credential_scope q) (sq_correlation_id q) = operation_rotation_id operation)
    \<and> rotation_justified T operation d"
proof -
  have once: "postgres_rotations.once w"
    using postgres_rotations.run_advances[OF assms(1) empty_world_once] by (rule postgres_rotations.advances_once)
  show ?thesis
  proof (cases operation)
    case (Scheduled inp)
    then have "trigger_scheduled_rotation T (PostgresCredentialRotationService T P schedule provider) inp w = (Inr d, t)"
      using assms(2) by simp
    from wpD[OF postgres_rotations.scheduled_wp[OF once] this] show ?thesis
      using assms(3,4) Scheduled by (auto simp: postgres_rotations.comes_to_def rotation_of_def scheduled_request_def scheduled_due_Inr)
  next
    case (Emergency inp)
    then have "trigger_emergency_rotation T fmt (PostgresCredentialRotationService T P schedule provider) inp w = (Inr d, t)"
      using assms(2) by simp
    from wpD[OF postgres_rotations.emergency_wp[OF once] this] show ?thesis
      using assms(3,4) Emergency by (auto simp: postgres_rotations.comes_to_def rotation_of_def emergency_request_def within_deadline_Inr)
  qed
qed


section \<open>Concrete runs\<close>

definition demo_readiness :: json where
  "demo_readiness = JObject [(''crypto_posture_verified'', JBool True), (''provider_ref'', JString ''vault/one''),
     (''runtime_injection_mode'', JString ''runtime_only'')]"

definition demo_scheduled :: "string \<Rightarrow> string \<Rightarrow> TriggerScheduledRotationInput" where
  "demo_scheduled scope reference = \<lparr>ts_actor_id = ''ops-1'', ts_actor_role = ''operational_control'', ts_credential_scope = scope,
     ts_credential_reference = reference, ts_metadata = demo_readiness, ts_correlation_id = ''corr-1'',
     ts_now_utc = ''2026-04-06T00:00:00Z'', ts_last_rotated_at_utc = ''1970-01-01T00:00:00Z''\<rparr>"

definition demo_emergency :: "string \<Rightarrow> TriggerEmergencyRotationInput" where
  "demo_emergency compromised = \<lparr>te_actor_id = ''ops-1'', te_actor_role = ''operational_control'', te_credential_scope = ''venue'',
     te_credential_reference = ''vault/venue'', te_metadata = demo_readiness, te_correlation_id = ''corr-1'',
     te_now_utc = ''2026-04-06T00:00:30Z'', te_compromise_triggered_at_utc = compromised\<rparr>"

text \<open>Times of the runs, and their format.\<close>

definition rotation_times :: "(string \<times> int) list" where
  "rotation_times = [(''2026-04-06T00:00:00Z'', 0), (''2026-04-06T00:00:30Z'', 30000000000),
     (''2026-04-06T00:30:00Z'', 1800000000000), (''1970-01-01T00:00:00Z'', - 1775433600000000000),
     (''1970-01-01T00:30:00Z'', - 1775431800000000000)]"

definition rotation_time :: time_crate where
  "rotation_time = demo_time\<lparr>rfc3339_parse := (\<lambda>v. map_option (\<lambda>t. (t, 0)) (map_of rotation_times v))\<rparr>"

definition rotation_format :: "int \<Rightarrow> string" where
  "rotation_format t = (case map_of (map prod.swap rotation_times) t of Some v \<Rightarrow> v | None \<Rightarrow> [])"

definition rotation_pg :: pg_types where
  "rotation_pg = demo_pg\<lparr>pg_instant := (\<lambda>v. case map_of rotation_times v of Some t \<Rightarrow> t | None \<Rightarrow> 0)\<rparr>"

definition demo_rotations :: "rotation_world CredentialRotationService" where
  "demo_rotations = PostgresCredentialRotationService rotation_time rotation_pg (\<lambda>_ _. None) in_memory_rotate"

definition demo_rotate :: "rotation_operation \<Rightarrow> rotation_world \<Rightarrow> (CredentialRotationServiceError + CredentialRotationEvidence) \<times> rotation_world" where
  "demo_rotate operation = run_rotation rotation_time rotation_format demo_rotations operation"

abbreviation "demo_routine \<equiv> rotation_operation.Scheduled (demo_scheduled ''venue'' ''vault/venue'')"

lemma demo_rotate_run: "rotation_run rotation_time rotation_format demo_rotations w (snd (demo_rotate operation w))"
  using rotation_run.step[OF rotation_run.start, of rotation_time rotation_format demo_rotations operation w
    "fst (demo_rotate operation w)" "snd (demo_rotate operation w)"]
  by (simp add: demo_rotate_def)

lemma demo_routine_succeeds:
  "map_option cv_status (case fst (demo_rotate demo_routine empty_rotation_world) of Inr d \<Rightarrow> Some d | Inl _ \<Rightarrow> None)
     = Some CredentialRotationState.Succeeded
   \<and> map sq_credential_scope (wo_rotated (snd (demo_rotate demo_routine empty_rotation_world))) = [''venue'']"
  by code_simp

text \<open>
  The pending event of an emergency rotation past its deadline breaks the check of the table that
  the deadline does not precede the initiation, so the denial is not recorded.
\<close>

lemma late_emergency_not_recorded:
  "demo_rotate (rotation_operation.Emergency (demo_emergency ''1970-01-01T00:00:00Z'')) empty_rotation_world
   = (Inl \<lparr>cs_code = ''credential_rotation_constraint_violation'', cs_message =
       ''create_credential_rotation_event rejected by constraint: error returned from database: credential_rotation_events_check''\<rparr>,
      empty_rotation_world\<lparr>wo_calls := 2\<rparr>)"
  by code_simp

text \<open>
  A scope named after a token passes every check, is rotated by the provider, and then cannot be
  completed, because the reference the provider answers contains the scope. A retry does not
  resume it.
\<close>

lemma secret_named_scope_stuck:
  "let (first, w) = demo_rotate (rotation_operation.Scheduled (demo_scheduled ''api-token'' ''vault/venue'')) empty_rotation_world;
       (again, w') = demo_rotate (rotation_operation.Scheduled (demo_scheduled ''api-token'' ''vault/venue'')) w
   in first = Inl \<lparr>cs_code = ''credential_rotation_secret_material_rejected'',
          cs_message = ''rotation_reference appears to contain secret material''\<rparr>
      \<and> length (wo_rotated w) = 1 \<and> length (wo_rotated w') = 1
      \<and> map_option cv_status (case again of Inr d \<Rightarrow> Some d | Inl _ \<Rightarrow> None) = Some CredentialRotationState.InProgress"
  by code_simp


lemma rotation_asked_once_witness:
  "map sq_credential_scope (wo_rotated (snd (demo_rotate demo_routine empty_rotation_world))) = [''venue'']
   \<and> (\<exists>row. rotation_row_at ''rot_scheduled_cadence_venue_corr-1'' (wo_table (snd (demo_rotate demo_routine empty_rotation_world))) = Some row
        \<and> rw_status row = ''succeeded''
        \<and> rotation_row_at ''rot_scheduled_cadence_venue_corr-1''
            (wo_table (snd (demo_rotate demo_routine (snd (demo_rotate demo_routine empty_rotation_world))))) = Some row)"
proof -
  have "map_option rw_status (rotation_row_at ''rot_scheduled_cadence_venue_corr-1''
      (wo_table (snd (demo_rotate demo_routine empty_rotation_world)))) = Some ''succeeded''"
    by code_simp
  then obtain row where row: "rotation_row_at ''rot_scheduled_cadence_venue_corr-1''
      (wo_table (snd (demo_rotate demo_routine empty_rotation_world))) = Some row" "rw_status row = ''succeeded''"
    by auto
  then show ?thesis
    using demo_routine_succeeds rotation_asked_once[OF demo_rotate_run[of empty_rotation_world demo_routine, unfolded demo_rotations_def]
        demo_rotate_run[of "snd (demo_rotate demo_routine empty_rotation_world)" demo_routine, unfolded demo_rotations_def]]
    by fastforce
qed

lemma rotation_success_justified_witness:
  "\<exists>d t. demo_rotate demo_routine empty_rotation_world = (Inr d, t)
     \<and> rotation_justified rotation_time demo_routine d
     \<and> stored_status t ''rot_scheduled_cadence_venue_corr-1'' = Some CredentialRotationState.Succeeded"
proof -
  obtain d t where run: "demo_rotate demo_routine empty_rotation_world = (Inr d, t)"
    using demo_routine_succeeds
    by (cases "demo_rotate demo_routine empty_rotation_world"; cases "fst (demo_rotate demo_routine empty_rotation_world)") auto
  have succeeded: "cv_status d = CredentialRotationState.Succeeded" using demo_routine_succeeds unfolding run by simp
  have k: "operation_rotation_id demo_routine = ''rot_scheduled_cadence_venue_corr-1''" by code_simp
  have fresh: "stored_status empty_rotation_world (operation_rotation_id demo_routine) = None"
    by (simp add: stored_status_def empty_rotation_world_def rotation_row_at_def)
  show ?thesis
    using rotation_success_justified[OF rotation_run.start run[unfolded demo_rotate_def demo_rotations_def] succeeded fresh] run
    unfolding k by blast
qed

end
