(* ===== verification/Allocation.thy ===== *)
theory Allocation
  imports Json
begin

text \<open>
  The allocation contract of \<open>crates/domain/src/allocation.rs\<close>: policy versions, rebalance
  recommendations, their validators, the rule for critical increases and the evaluation of drift;
  and the read model \<open>services/portfolio-engine/src/allocation/mod.rs\<close> builds from it. The whole
  milliseconds of a duration (\<open>whole_ms\<close>, of the \<open>time\<close> crate) and the text of a floating-point
  number (\<open>show_f64\<close>, of the formatter) are parameters.
\<close>

section \<open>Codes and errors\<close>

definition DEFAULT_EXPOSURE_DRIFT_THRESHOLD_PCT :: f64 where
  "DEFAULT_EXPOSURE_DRIFT_THRESHOLD_PCT = Fin 10"

definition DEFAULT_RELATIVE_ALPHA_DRIFT_THRESHOLD_PCT :: f64 where
  "DEFAULT_RELATIVE_ALPHA_DRIFT_THRESHOLD_PCT = Fin 15"

type_synonym AllocationValidationIssue = issue
type_synonym AllocationContractError = contract_error

datatype RebalanceReasonCode = AllocationPolicyUpdated | AllocationPolicyPendingApproval | AllocationPolicyDenied
  | InBounds | DriftThresholdExceeded | PolicyStateUnavailable | PolicyStateStale | InvalidPayload | InvalidThreshold
  | ApprovalRequired | RecommendationProposed | RecommendationApproved | RecommendationExecuted | RecommendationDenied
  | RecommendationNotFound | PersistenceUnavailable

fun RebalanceReasonCode_code :: "RebalanceReasonCode \<Rightarrow> string" where
  "RebalanceReasonCode_code RebalanceReasonCode.AllocationPolicyUpdated = ''allocation_policy_updated''"
| "RebalanceReasonCode_code RebalanceReasonCode.AllocationPolicyPendingApproval = ''allocation_policy_pending_approval''"
| "RebalanceReasonCode_code RebalanceReasonCode.AllocationPolicyDenied = ''allocation_policy_denied''"
| "RebalanceReasonCode_code RebalanceReasonCode.InBounds = ''rebalance_in_bounds''"
| "RebalanceReasonCode_code RebalanceReasonCode.DriftThresholdExceeded = ''rebalance_drift_threshold_exceeded''"
| "RebalanceReasonCode_code RebalanceReasonCode.PolicyStateUnavailable = ''rebalance_policy_state_unavailable''"
| "RebalanceReasonCode_code RebalanceReasonCode.PolicyStateStale = ''rebalance_policy_state_stale''"
| "RebalanceReasonCode_code RebalanceReasonCode.InvalidPayload = ''rebalance_invalid_payload''"
| "RebalanceReasonCode_code RebalanceReasonCode.InvalidThreshold = ''rebalance_invalid_threshold''"
| "RebalanceReasonCode_code RebalanceReasonCode.ApprovalRequired = ''rebalance_approval_required''"
| "RebalanceReasonCode_code RebalanceReasonCode.RecommendationProposed = ''rebalance_recommendation_proposed''"
| "RebalanceReasonCode_code RebalanceReasonCode.RecommendationApproved = ''rebalance_recommendation_approved''"
| "RebalanceReasonCode_code RebalanceReasonCode.RecommendationExecuted = ''rebalance_recommendation_executed''"
| "RebalanceReasonCode_code RebalanceReasonCode.RecommendationDenied = ''rebalance_recommendation_denied''"
| "RebalanceReasonCode_code RebalanceReasonCode.RecommendationNotFound = ''rebalance_recommendation_not_found''"
| "RebalanceReasonCode_code RebalanceReasonCode.PersistenceUnavailable = ''rebalance_persistence_unavailable''"

definition AllocationContractError_invalid_payload :: "string \<Rightarrow> AllocationContractError" where
  "AllocationContractError_invalid_payload message =
     contract_error_of (RebalanceReasonCode_code RebalanceReasonCode.InvalidPayload) message []"

definition AllocationContractError_invalid_payload_with_issues ::
    "string \<Rightarrow> AllocationValidationIssue list \<Rightarrow> AllocationContractError" where
  "AllocationContractError_invalid_payload_with_issues message field_errors =
     contract_error_of (RebalanceReasonCode_code RebalanceReasonCode.InvalidPayload) message field_errors"

definition RebalanceReasonCode_parse :: "string \<Rightarrow> AllocationContractError + RebalanceReasonCode" where
  "RebalanceReasonCode_parse = parse_arms
     [(''allocation_policy_updated'', RebalanceReasonCode.AllocationPolicyUpdated),
      (''allocation_policy_pending_approval'', RebalanceReasonCode.AllocationPolicyPendingApproval),
      (''allocation_policy_denied'', RebalanceReasonCode.AllocationPolicyDenied),
      (''rebalance_in_bounds'', RebalanceReasonCode.InBounds),
      (''rebalance_drift_threshold_exceeded'', RebalanceReasonCode.DriftThresholdExceeded),
      (''rebalance_policy_state_unavailable'', RebalanceReasonCode.PolicyStateUnavailable),
      (''rebalance_policy_state_stale'', RebalanceReasonCode.PolicyStateStale),
      (''rebalance_invalid_payload'', RebalanceReasonCode.InvalidPayload),
      (''rebalance_invalid_threshold'', RebalanceReasonCode.InvalidThreshold),
      (''rebalance_approval_required'', RebalanceReasonCode.ApprovalRequired),
      (''rebalance_recommendation_proposed'', RebalanceReasonCode.RecommendationProposed),
      (''rebalance_recommendation_approved'', RebalanceReasonCode.RecommendationApproved),
      (''rebalance_recommendation_executed'', RebalanceReasonCode.RecommendationExecuted),
      (''rebalance_recommendation_denied'', RebalanceReasonCode.RecommendationDenied),
      (''rebalance_recommendation_not_found'', RebalanceReasonCode.RecommendationNotFound),
      (''rebalance_persistence_unavailable'', RebalanceReasonCode.PersistenceUnavailable)]
     (\<lambda>v. AllocationContractError_invalid_payload (''unknown rebalance reason code `'' @ v @ ''`''))"

interpretation rebalance_reason: enum_codec "\<lambda>v. v" RebalanceReasonCode_code RebalanceReasonCode_parse
  by (unfold RebalanceReasonCode_parse_def, rule enum_codec_arms, case_tac x) simp_all

datatype AllocationApprovalStatus = NotRequired | Pending | Approved | Denied

fun AllocationApprovalStatus_as_str :: "AllocationApprovalStatus \<Rightarrow> string" where
  "AllocationApprovalStatus_as_str AllocationApprovalStatus.NotRequired = ''not_required''"
| "AllocationApprovalStatus_as_str AllocationApprovalStatus.Pending = ''pending''"
| "AllocationApprovalStatus_as_str AllocationApprovalStatus.Approved = ''approved''"
| "AllocationApprovalStatus_as_str AllocationApprovalStatus.Denied = ''denied''"

definition AllocationApprovalStatus_parse :: "string \<Rightarrow> AllocationContractError + AllocationApprovalStatus" where
  "AllocationApprovalStatus_parse = parse_arms
     [(''not_required'', AllocationApprovalStatus.NotRequired),
      (''pending'', AllocationApprovalStatus.Pending),
      (''approved'', AllocationApprovalStatus.Approved),
      (''denied'', AllocationApprovalStatus.Denied)]
     (\<lambda>v. AllocationContractError_invalid_payload (''unknown allocation approval status `'' @ v @ ''`''))"

interpretation allocation_approval: enum_codec "\<lambda>v. v" AllocationApprovalStatus_as_str AllocationApprovalStatus_parse
  by (unfold AllocationApprovalStatus_parse_def, rule enum_codec_arms, case_tac x) simp_all

datatype RebalanceRecommendationStatus = Proposed | PendingApproval | Approved | Executed | Denied

fun RebalanceRecommendationStatus_as_str :: "RebalanceRecommendationStatus \<Rightarrow> string" where
  "RebalanceRecommendationStatus_as_str RebalanceRecommendationStatus.Proposed = ''proposed''"
| "RebalanceRecommendationStatus_as_str RebalanceRecommendationStatus.PendingApproval = ''pending_approval''"
| "RebalanceRecommendationStatus_as_str RebalanceRecommendationStatus.Approved = ''approved''"
| "RebalanceRecommendationStatus_as_str RebalanceRecommendationStatus.Executed = ''executed''"
| "RebalanceRecommendationStatus_as_str RebalanceRecommendationStatus.Denied = ''denied''"

definition RebalanceRecommendationStatus_parse :: "string \<Rightarrow> AllocationContractError + RebalanceRecommendationStatus" where
  "RebalanceRecommendationStatus_parse = parse_arms
     [(''proposed'', RebalanceRecommendationStatus.Proposed),
      (''pending_approval'', RebalanceRecommendationStatus.PendingApproval),
      (''approved'', RebalanceRecommendationStatus.Approved),
      (''executed'', RebalanceRecommendationStatus.Executed),
      (''denied'', RebalanceRecommendationStatus.Denied)]
     (\<lambda>v. AllocationContractError_invalid_payload (''unknown recommendation status `'' @ v @ ''`''))"

interpretation recommendation_status:
  enum_codec "\<lambda>v. v" RebalanceRecommendationStatus_as_str RebalanceRecommendationStatus_parse
  by (unfold RebalanceRecommendationStatus_parse_def, rule enum_codec_arms, case_tac x) simp_all

section \<open>Data\<close>

record AllocationPolicyVersion =
  al_policy_key :: string
  al_version :: int
  al_portfolio_scope_id :: string
  al_target_exposure_pct_nav :: f64
  al_target_relative_alpha_weight :: f64
  al_exposure_drift_threshold_pct :: f64
  al_relative_alpha_drift_threshold_pct :: f64
  al_approval_status :: AllocationApprovalStatus
  al_approval_reference :: "string option"
  al_actor_id :: string
  al_reason_code :: string
  al_correlation_id :: string
  al_updated_at_utc :: string
  al_advanced_parameters :: json

record RebalanceRecommendation =
  rb_recommendation_id :: string
  rb_policy_key :: string
  rb_policy_version :: int
  rb_status :: RebalanceRecommendationStatus
  rb_approval_status :: AllocationApprovalStatus
  rb_approval_reference :: "string option"
  rb_action_type :: string
  rb_rationale :: string
  rb_reason_code :: string
  rb_actor_id :: string
  rb_correlation_id :: string
  rb_created_at_utc :: string
  rb_updated_at_utc :: string
  rb_parameters :: json
  rb_evidence :: json

datatype DriftEvaluationOutcome = InBounds | RecommendationRequired | FailClosed

record RebalanceDriftEvaluation =
  de_policy_key :: string
  de_outcome :: DriftEvaluationOutcome
  de_reason_code :: string
  de_exposure_drift_pct :: f64
  de_relative_alpha_drift_pct :: f64
  de_exposure_threshold_pct :: f64
  de_relative_alpha_threshold_pct :: f64
  de_exceeded_dimensions :: "string list"
  de_evaluated_at_utc :: string

definition normalize_allocation_identifier :: "string \<Rightarrow> string" where
  "normalize_allocation_identifier raw = normalize raw"

section \<open>Validators\<close>

abbreviation allocation_issue :: "bool \<Rightarrow> string \<Rightarrow> string \<Rightarrow> AllocationValidationIssue list" where
  "allocation_issue b field message \<equiv> push_if b field (RebalanceReasonCode_code RebalanceReasonCode.InvalidPayload) message"

definition validate_allocation_non_empty_field :: "string \<Rightarrow> string \<Rightarrow> AllocationValidationIssue list" where
  "validate_allocation_non_empty_field field v = allocation_issue (blank v) field (field @ '' cannot be blank'')"

definition validate_allocation_identifier :: "string \<Rightarrow> string \<Rightarrow> AllocationValidationIssue list" where
  "validate_allocation_identifier field v =
     validate_allocation_non_empty_field field v
     @ allocation_issue (trim v \<noteq> normalize_allocation_identifier v) field (field @ '' must be lowercase and whitespace-trimmed'')"

definition validate_allocation_non_negative :: "string \<Rightarrow> f64 \<Rightarrow> AllocationValidationIssue list" where
  "validate_allocation_non_negative field v =
     (if \<not> f_is_finite v then push_if True field (RebalanceReasonCode_code RebalanceReasonCode.InvalidThreshold)
        (field @ '' must be finite'')
      else push_if (f_lt v (Fin 0)) field (RebalanceReasonCode_code RebalanceReasonCode.InvalidThreshold)
        (field @ '' must be greater than or equal to 0''))"

definition validate_allocation_percent :: "string \<Rightarrow> f64 \<Rightarrow> AllocationValidationIssue list" where
  "validate_allocation_percent field v =
     validate_allocation_non_negative field v
     @ push_if (f_is_finite v \<and> \<not> (f_le (Fin 0) v \<and> f_le v (Fin 100))) field
         (RebalanceReasonCode_code RebalanceReasonCode.InvalidThreshold) (field @ '' must be between 0 and 100'')"

definition validate_allocation_timestamp_field :: "time_crate \<Rightarrow> string \<Rightarrow> string \<Rightarrow> AllocationValidationIssue list" where
  "validate_allocation_timestamp_field T field v =
     allocation_issue (\<not> utc_ok T v) field (field @ '' must be an RFC3339 UTC timestamp'')"

text \<open>\<open>as_deref().is_some_and(|value| !value.trim().is_empty())\<close> and its converse.\<close>

definition some_text :: "string option \<Rightarrow> bool" where
  "some_text v = (case v of Some s \<Rightarrow> \<not> blank s | None \<Rightarrow> False)"

definition some_blank :: "string option \<Rightarrow> bool" where
  "some_blank v = (case v of Some s \<Rightarrow> blank s | None \<Rightarrow> False)"

definition policy_reference_issues :: "AllocationPolicyVersion \<Rightarrow> AllocationValidationIssue list" where
  "policy_reference_issues policy = (case al_approval_status policy of
      AllocationApprovalStatus.Pending \<Rightarrow> allocation_issue (some_text (al_approval_reference policy)) ''approval_reference''
        ''pending allocation policy versions cannot include approval_reference''
    | AllocationApprovalStatus.Approved \<Rightarrow> allocation_issue (some_blank (al_approval_reference policy)) ''approval_reference''
        ''approval_reference cannot be blank when provided''
    | _ \<Rightarrow> allocation_issue (some_text (al_approval_reference policy)) ''approval_reference''
        ''approval_reference is only permitted for approved allocation policies'')"

definition validate_allocation_policy_version :: "time_crate \<Rightarrow> AllocationPolicyVersion \<Rightarrow> AllocationContractError + unit" where
  "validate_allocation_policy_version T policy = reject_if
     (validate_allocation_identifier ''policy_key'' (al_policy_key policy)
    @ validate_allocation_identifier ''portfolio_scope_id'' (al_portfolio_scope_id policy)
    @ validate_allocation_non_empty_field ''actor_id'' (al_actor_id policy)
    @ validate_allocation_non_empty_field ''correlation_id'' (al_correlation_id policy)
    @ validate_allocation_non_empty_field ''reason_code'' (al_reason_code policy)
    @ validate_allocation_timestamp_field T ''updated_at_utc'' (al_updated_at_utc policy)
    @ allocation_issue (al_version policy \<le> 0) ''version'' ''version must be greater than 0''
    @ allocation_issue (isl (RebalanceReasonCode_parse (al_reason_code policy))) ''reason_code''
        ''reason_code must be a known rebalance reason''
    @ validate_allocation_percent ''target_exposure_pct_nav'' (al_target_exposure_pct_nav policy)
    @ validate_allocation_non_negative ''target_relative_alpha_weight'' (al_target_relative_alpha_weight policy)
    @ validate_allocation_percent ''exposure_drift_threshold_pct'' (al_exposure_drift_threshold_pct policy)
    @ validate_allocation_percent ''relative_alpha_drift_threshold_pct'' (al_relative_alpha_drift_threshold_pct policy)
    @ allocation_issue (\<not> is_object (al_advanced_parameters policy)) ''advanced_parameters''
        ''advanced_parameters must be a JSON object''
    @ policy_reference_issues policy)
     (AllocationContractError_invalid_payload_with_issues ''allocation policy payload is invalid'')"

definition recommendation_status_issues :: "RebalanceRecommendation \<Rightarrow> AllocationValidationIssue list" where
  "recommendation_status_issues recommendation = (case rb_status recommendation of
      RebalanceRecommendationStatus.PendingApproval \<Rightarrow>
        allocation_issue (rb_approval_status recommendation \<noteq> AllocationApprovalStatus.Pending) ''approval_status''
          ''pending_approval recommendations must carry approval_status `pending`''
    | RebalanceRecommendationStatus.Approved \<Rightarrow>
        allocation_issue (rb_approval_status recommendation = AllocationApprovalStatus.Pending) ''approval_status''
          ''approved or executed recommendations cannot keep approval_status `pending`''
    | RebalanceRecommendationStatus.Executed \<Rightarrow>
        allocation_issue (rb_approval_status recommendation = AllocationApprovalStatus.Pending) ''approval_status''
          ''approved or executed recommendations cannot keep approval_status `pending`''
    | _ \<Rightarrow> [])"

definition recommendation_reference_issues :: "RebalanceRecommendation \<Rightarrow> AllocationValidationIssue list" where
  "recommendation_reference_issues recommendation = (case rb_approval_status recommendation of
      AllocationApprovalStatus.Approved \<Rightarrow>
        allocation_issue (\<not> some_text (rb_approval_reference recommendation)) ''approval_reference''
          ''approval_reference is required when approval_status is `approved`''
    | _ \<Rightarrow> allocation_issue (some_text (rb_approval_reference recommendation)) ''approval_reference''
          ''approval_reference is only valid when approval_status is `approved`'')"

definition validate_rebalance_recommendation :: "time_crate \<Rightarrow> RebalanceRecommendation \<Rightarrow> AllocationContractError + unit" where
  "validate_rebalance_recommendation T recommendation = reject_if
     (validate_allocation_identifier ''recommendation_id'' (rb_recommendation_id recommendation)
    @ validate_allocation_identifier ''policy_key'' (rb_policy_key recommendation)
    @ validate_allocation_non_empty_field ''action_type'' (rb_action_type recommendation)
    @ validate_allocation_non_empty_field ''rationale'' (rb_rationale recommendation)
    @ validate_allocation_non_empty_field ''reason_code'' (rb_reason_code recommendation)
    @ validate_allocation_non_empty_field ''actor_id'' (rb_actor_id recommendation)
    @ validate_allocation_non_empty_field ''correlation_id'' (rb_correlation_id recommendation)
    @ validate_allocation_timestamp_field T ''created_at_utc'' (rb_created_at_utc recommendation)
    @ validate_allocation_timestamp_field T ''updated_at_utc'' (rb_updated_at_utc recommendation)
    @ allocation_issue (rb_policy_version recommendation \<le> 0) ''policy_version'' ''policy_version must be greater than 0''
    @ allocation_issue (isl (RebalanceReasonCode_parse (rb_reason_code recommendation))) ''reason_code''
        ''reason_code must be a known rebalance reason''
    @ allocation_issue (rb_action_type recommendation \<noteq> ''recommend'' \<and> rb_action_type recommendation \<noteq> ''execute'')
        ''action_type'' ''action_type must be `recommend` or `execute`''
    @ allocation_issue (\<not> is_object (rb_parameters recommendation)) ''parameters'' ''parameters must be a JSON object''
    @ allocation_issue (\<not> is_object (rb_evidence recommendation)) ''evidence'' ''evidence must be a JSON object''
    @ recommendation_status_issues recommendation
    @ recommendation_reference_issues recommendation)
     (AllocationContractError_invalid_payload_with_issues ''rebalance recommendation payload is invalid'')"

section \<open>Critical increases\<close>

definition requires_allocation_critical_increase_approval ::
    "AllocationPolicyVersion option \<Rightarrow> AllocationPolicyVersion \<Rightarrow> bool" where
  "requires_allocation_critical_increase_approval current_policy proposed = (case current_policy of
      None \<Rightarrow> False
    | Some current \<Rightarrow>
        if normalize_allocation_identifier (al_policy_key current) \<noteq> normalize_allocation_identifier (al_policy_key proposed)
        then False
        else f_gt (al_target_exposure_pct_nav proposed) (al_target_exposure_pct_nav current)
          \<or> f_gt (al_target_relative_alpha_weight proposed) (al_target_relative_alpha_weight current)
          \<or> f_gt (al_exposure_drift_threshold_pct proposed) (al_exposure_drift_threshold_pct current)
          \<or> f_gt (al_relative_alpha_drift_threshold_pct proposed) (al_relative_alpha_drift_threshold_pct current))"

section \<open>Drift\<close>

definition allocation_elapsed_seconds :: "(int \<Rightarrow> int) \<Rightarrow> int \<Rightarrow> int \<Rightarrow> f64" where
  "allocation_elapsed_seconds whole_ms start stop =
     (let millis = whole_ms (stop - start)
      in if millis \<le> 0 then Fin 0 else f_div (round_f64 (of_int millis)) (Fin 1000))"

definition parse_allocation_timestamp :: "time_crate \<Rightarrow> string \<Rightarrow> string \<Rightarrow> string \<Rightarrow> AllocationContractError + int" where
  "parse_allocation_timestamp T message field v = (case parse_utc_timestamp T v of
      Some t \<Rightarrow> Inr t
    | None \<Rightarrow> Inl (AllocationContractError_invalid_payload_with_issues message
        (allocation_issue True field (field @ '' must be an RFC3339 UTC timestamp''))))"

definition drift_evaluation ::
    "AllocationPolicyVersion \<Rightarrow> f64 \<Rightarrow> f64 \<Rightarrow> string \<Rightarrow> DriftEvaluationOutcome \<Rightarrow> RebalanceReasonCode \<Rightarrow> string list
      \<Rightarrow> RebalanceDriftEvaluation" where
  "drift_evaluation policy exposure_drift_pct relative_alpha_drift_pct observed_at_utc outcome reason_code exceeded =
     \<lparr>de_policy_key = al_policy_key policy, de_outcome = outcome, de_reason_code = RebalanceReasonCode_code reason_code,
      de_exposure_drift_pct = exposure_drift_pct, de_relative_alpha_drift_pct = relative_alpha_drift_pct,
      de_exposure_threshold_pct = al_exposure_drift_threshold_pct policy,
      de_relative_alpha_threshold_pct = al_relative_alpha_drift_threshold_pct policy,
      de_exceeded_dimensions = exceeded, de_evaluated_at_utc = observed_at_utc\<rparr>"

definition evaluate_rebalance_drift ::
    "time_crate \<Rightarrow> (int \<Rightarrow> int) \<Rightarrow> AllocationPolicyVersion option \<Rightarrow> f64 \<Rightarrow> f64 \<Rightarrow> string \<Rightarrow> f64
      \<Rightarrow> AllocationContractError + RebalanceDriftEvaluation" where
  "evaluate_rebalance_drift T whole_ms policy exposure_drift_pct relative_alpha_drift_pct observed_at_utc stale_after_seconds =
     and_then (reject_if
       (validate_allocation_non_negative ''exposure_drift_pct'' exposure_drift_pct
      @ validate_allocation_non_negative ''relative_alpha_drift_pct'' relative_alpha_drift_pct
      @ validate_allocation_timestamp_field T ''observed_at_utc'' observed_at_utc
      @ allocation_issue (\<not> f_is_finite stale_after_seconds \<or> f_le stale_after_seconds (Fin 0)) ''stale_after_seconds''
          ''stale_after_seconds must be finite and greater than 0'')
       (AllocationContractError_invalid_payload_with_issues ''rebalance drift input is invalid'')) (\<lambda>_.
     and_then (parse_allocation_timestamp T ''rebalance drift input is invalid'' ''observed_at_utc'' observed_at_utc) (\<lambda>observed_timestamp.
     case policy of
       None \<Rightarrow> Inr \<lparr>de_policy_key = ''unavailable_policy'', de_outcome = DriftEvaluationOutcome.FailClosed,
         de_reason_code = RebalanceReasonCode_code RebalanceReasonCode.PolicyStateUnavailable,
         de_exposure_drift_pct = exposure_drift_pct, de_relative_alpha_drift_pct = relative_alpha_drift_pct,
         de_exposure_threshold_pct = DEFAULT_EXPOSURE_DRIFT_THRESHOLD_PCT,
         de_relative_alpha_threshold_pct = DEFAULT_RELATIVE_ALPHA_DRIFT_THRESHOLD_PCT,
         de_exceeded_dimensions = [], de_evaluated_at_utc = observed_at_utc\<rparr>
     | Some policy \<Rightarrow>
     and_then (validate_allocation_policy_version T policy) (\<lambda>_.
     and_then (parse_allocation_timestamp T ''allocation policy payload is invalid'' ''updated_at_utc'' (al_updated_at_utc policy)) (\<lambda>policy_timestamp.
     let result = drift_evaluation policy exposure_drift_pct relative_alpha_drift_pct observed_at_utc
     in if f_gt (allocation_elapsed_seconds whole_ms policy_timestamp observed_timestamp) stale_after_seconds
        then Inr (result DriftEvaluationOutcome.FailClosed RebalanceReasonCode.PolicyStateStale [])
        else let exceeded_dimensions =
               (if f_gt exposure_drift_pct (al_exposure_drift_threshold_pct policy) then [''exposure_drift_pct''] else [])
               @ (if f_gt relative_alpha_drift_pct (al_relative_alpha_drift_threshold_pct policy)
                  then [''relative_alpha_drift_pct''] else [])
             in if exceeded_dimensions = []
                then Inr (result DriftEvaluationOutcome.InBounds RebalanceReasonCode.InBounds exceeded_dimensions)
                else Inr (result DriftEvaluationOutcome.RecommendationRequired RebalanceReasonCode.DriftThresholdExceeded
                  exceeded_dimensions)))))"

section \<open>The outcome of an evaluation\<close>

lemma allocation_field_specs [issue_specs]:
  "validate_allocation_non_negative f x = [] \<longleftrightarrow> f_is_finite x \<and> f_le (Fin 0) x"
  "validate_allocation_percent f x = [] \<longleftrightarrow> f_is_finite x \<and> f_le (Fin 0) x \<and> f_le x (Fin 100)"
  "validate_allocation_timestamp_field T f v = [] \<longleftrightarrow> utc_ok T v"
  by (cases x; auto simp: validate_allocation_non_negative_def validate_allocation_percent_def
      validate_allocation_timestamp_field_def)+

lemma parse_allocation_Inr [simp]: "parse_allocation_timestamp T m f v = Inr t \<longleftrightarrow> parse_utc_timestamp T v = Some t"
  by (auto simp: parse_allocation_timestamp_def split: option.splits)

definition policy_stale :: "time_crate \<Rightarrow> (int \<Rightarrow> int) \<Rightarrow> AllocationPolicyVersion \<Rightarrow> string \<Rightarrow> f64 \<Rightarrow> bool" where
  "policy_stale T whole_ms policy observed_at_utc stale_after_seconds =
     (case (parse_utc_timestamp T (al_updated_at_utc policy), parse_utc_timestamp T observed_at_utc) of
        (Some updated, Some observed) \<Rightarrow> f_gt (allocation_elapsed_seconds whole_ms updated observed) stale_after_seconds
      | _ \<Rightarrow> True)"

lemma evaluate_drift_None:
  assumes "evaluate_rebalance_drift T whole_ms None exposure alpha observed_at stale_after = Inr e"
  shows "de_outcome e = DriftEvaluationOutcome.FailClosed"
  using assms unfolding evaluate_rebalance_drift_def and_then_Inr_iff option.case by clarsimp

lemma drift_evaluation_simps [simp]:
  "de_outcome (drift_evaluation p x a o' outcome reason exceeded) = outcome"
  "de_exceeded_dimensions (drift_evaluation p x a o' outcome reason exceeded) = exceeded"
  by (simp_all add: drift_evaluation_def)

lemma evaluate_drift_Some:
  assumes "evaluate_rebalance_drift T whole_ms (Some p) exposure alpha observed_at stale_after = Inr e"
  defines "exceeded \<equiv> (if f_gt exposure (al_exposure_drift_threshold_pct p) then [''exposure_drift_pct''] else [])
      @ (if f_gt alpha (al_relative_alpha_drift_threshold_pct p) then [''relative_alpha_drift_pct''] else [])"
  shows "de_outcome e = (if policy_stale T whole_ms p observed_at stale_after then DriftEvaluationOutcome.FailClosed
      else if exceeded = [] then DriftEvaluationOutcome.InBounds else DriftEvaluationOutcome.RecommendationRequired)"
    and "\<not> policy_stale T whole_ms p observed_at stale_after \<Longrightarrow> de_exceeded_dimensions e = exceeded"
proof -
  obtain updated observed where times: "parse_utc_timestamp T (al_updated_at_utc p) = Some updated"
      "parse_utc_timestamp T observed_at = Some observed"
    and result: "(if f_gt (allocation_elapsed_seconds whole_ms updated observed) stale_after
      then Inr (drift_evaluation p exposure alpha observed_at DriftEvaluationOutcome.FailClosed RebalanceReasonCode.PolicyStateStale [])
      else if exceeded = []
      then Inr (drift_evaluation p exposure alpha observed_at DriftEvaluationOutcome.InBounds RebalanceReasonCode.InBounds exceeded)
      else Inr (drift_evaluation p exposure alpha observed_at DriftEvaluationOutcome.RecommendationRequired
        RebalanceReasonCode.DriftThresholdExceeded exceeded)) = (Inr e :: AllocationContractError + RebalanceDriftEvaluation)"
    using assms(1) unfolding evaluate_rebalance_drift_def and_then_Inr_iff option.case Let_def exceeded_def[symmetric]
      parse_allocation_Inr
    by (elim exE conjE) (rule that)
  have "policy_stale T whole_ms p observed_at stale_after \<longleftrightarrow> f_gt (allocation_elapsed_seconds whole_ms updated observed) stale_after"
    by (simp add: policy_stale_def times)
  then show "de_outcome e = (if policy_stale T whole_ms p observed_at stale_after then DriftEvaluationOutcome.FailClosed
      else if exceeded = [] then DriftEvaluationOutcome.InBounds else DriftEvaluationOutcome.RecommendationRequired)"
    and "\<not> policy_stale T whole_ms p observed_at stale_after \<Longrightarrow> de_exceeded_dimensions e = exceeded"
    using result by (auto split: if_split_asm)
qed

text \<open>
  An evaluation of drift fails closed exactly when there is no policy or the policy is older
  than the bound; it asks for a rebalance exactly when the policy is fresh and one of the two
  drifts is above its threshold, and then names exactly the exceeded ones; otherwise the drift is
  in bounds.
\<close>

theorem rebalance_drift_outcome:
  assumes "evaluate_rebalance_drift T whole_ms policy exposure alpha observed_at stale_after = Inr e"
  shows "(de_outcome e = DriftEvaluationOutcome.FailClosed \<longleftrightarrow>
      (case policy of None \<Rightarrow> True | Some p \<Rightarrow> policy_stale T whole_ms p observed_at stale_after))
    \<and> (de_outcome e = DriftEvaluationOutcome.RecommendationRequired \<longleftrightarrow>
      (\<exists>p. policy = Some p \<and> \<not> policy_stale T whole_ms p observed_at stale_after
        \<and> (f_gt exposure (al_exposure_drift_threshold_pct p) \<or> f_gt alpha (al_relative_alpha_drift_threshold_pct p))))
    \<and> (de_outcome e \<noteq> DriftEvaluationOutcome.FailClosed \<longrightarrow> (\<exists>p. policy = Some p
        \<and> (''exposure_drift_pct'' \<in> set (de_exceeded_dimensions e) \<longleftrightarrow> f_gt exposure (al_exposure_drift_threshold_pct p))
        \<and> (''relative_alpha_drift_pct'' \<in> set (de_exceeded_dimensions e)
            \<longleftrightarrow> f_gt alpha (al_relative_alpha_drift_threshold_pct p))))"
proof (cases policy)
  case None
  then show ?thesis using evaluate_drift_None assms by simp
next
  case (Some p)
  show ?thesis
    using evaluate_drift_Some[OF assms[unfolded Some]] unfolding Some by simp
qed

definition demo_allocation_policy :: AllocationPolicyVersion where
  "demo_allocation_policy = \<lparr>al_policy_key = ''core'', al_version = 1, al_portfolio_scope_id = ''portfolio'',
     al_target_exposure_pct_nav = Fin 40, al_target_relative_alpha_weight = Fin 1, al_exposure_drift_threshold_pct = Fin 10,
     al_relative_alpha_drift_threshold_pct = Fin 15, al_approval_status = AllocationApprovalStatus.Approved,
     al_approval_reference = None, al_actor_id = ''ops-1'', al_reason_code = ''allocation_policy_updated'',
     al_correlation_id = ''corr-1'', al_updated_at_utc = ''2026-04-06T00:00:00Z'', al_advanced_parameters = JObject []\<rparr>"

definition demo_whole_ms :: "int \<Rightarrow> int" where
  "demo_whole_ms d = sgn d * (\<bar>d\<bar> div 1000000)"

lemma rebalance_drift_outcome_witness:
  "\<exists>e. evaluate_rebalance_drift demo_time demo_whole_ms (Some demo_allocation_policy) (Fin 12) (Fin 3)
     ''2026-04-06T00:00:00Z'' (Fin 60) = Inr e \<and> de_outcome e = DriftEvaluationOutcome.RecommendationRequired"
proof -
  have "\<not> isl (evaluate_rebalance_drift demo_time demo_whole_ms (Some demo_allocation_policy) (Fin 12) (Fin 3)
     ''2026-04-06T00:00:00Z'' (Fin 60))" by code_simp
  then obtain e where e: "evaluate_rebalance_drift demo_time demo_whole_ms (Some demo_allocation_policy) (Fin 12) (Fin 3)
     ''2026-04-06T00:00:00Z'' (Fin 60) = Inr e" by (rule is_okE)
  moreover have "\<not> policy_stale demo_time demo_whole_ms demo_allocation_policy ''2026-04-06T00:00:00Z'' (Fin 60)"
    by code_simp
  ultimately show ?thesis
    using rebalance_drift_outcome[OF e] by (auto simp: demo_allocation_policy_def)
qed

end
