(* ===== verification/AllocationStore.thy ===== *)
theory AllocationStore
  imports Allocation Database
begin

text \<open>
  The allocation tables and their statements, from
  \<open>crates/persistence/src/postgres/allocation_policies.rs\<close>, with the keys, the foreign key and the
  status checks of the migration \<open>20260406113000_allocation_policies_rebalance_recommendations.sql\<close>
  (the checks that repeat the contract are left out). The tables are lists of rows, newest first.
\<close>

section \<open>Errors\<close>

type_synonym AllocationPersistenceError = contract_error

definition AllocationPersistenceError_invalid_payload ::
    "string \<Rightarrow> AllocationValidationIssue list \<Rightarrow> AllocationPersistenceError" where
  "AllocationPersistenceError_invalid_payload message field_errors =
     contract_error_of (RebalanceReasonCode_code RebalanceReasonCode.InvalidPayload) message field_errors"

definition AllocationPersistenceError_query_failure :: "string \<Rightarrow> constraint_fault \<Rightarrow> AllocationPersistenceError" where
  "AllocationPersistenceError_query_failure operation error =
     contract_error_of ''allocation_query_failed'' (operation @ '' failed: '' @ df_text error) []"

definition AllocationPersistenceError_constraint_violation :: "string \<Rightarrow> constraint_fault \<Rightarrow> AllocationPersistenceError" where
  "AllocationPersistenceError_constraint_violation operation error =
     contract_error_of ''allocation_constraint_violation'' (operation @ '' rejected by constraint: '' @ df_text error) []"

definition classify_allocation_query_error :: "string \<Rightarrow> constraint_fault \<Rightarrow> AllocationPersistenceError" where
  "classify_allocation_query_error operation error =
     (if is_constraint_error error then AllocationPersistenceError_constraint_violation operation error
      else AllocationPersistenceError_query_failure operation error)"

definition validate_allocation_store_non_empty :: "string \<Rightarrow> string \<Rightarrow> AllocationPersistenceError + unit" where
  "validate_allocation_store_non_empty field v =
     (if blank v then Inl (AllocationPersistenceError_invalid_payload (field @ '' cannot be blank'')
        (allocation_issue True field (field @ '' cannot be blank'')))
      else Inr ())"

section \<open>The tables\<close>

record allocation_policy_row =
  lw_policy_key :: string
  lw_version :: int
  lw_portfolio_scope_id :: string
  lw_target_exposure_pct_nav :: f64
  lw_target_relative_alpha_weight :: f64
  lw_exposure_drift_threshold_pct :: f64
  lw_relative_alpha_drift_threshold_pct :: f64
  lw_approval_status :: string
  lw_is_active :: bool
  lw_approval_reference :: "string option"
  lw_actor_id :: string
  lw_reason_code :: string
  lw_correlation_id :: string
  lw_updated_at_utc :: string
  lw_advanced_parameters :: json

record rebalance_row =
  bw_recommendation_id :: string
  bw_policy_key :: string
  bw_policy_version :: int
  bw_status :: string
  bw_approval_status :: string
  bw_approval_reference :: "string option"
  bw_action_type :: string
  bw_rationale :: string
  bw_reason_code :: string
  bw_actor_id :: string
  bw_correlation_id :: string
  bw_parameters :: json
  bw_evidence :: json
  bw_created_at_utc :: string
  bw_updated_at_utc :: string

record allocation_store =
  at_policies :: "allocation_policy_row list"
  at_recommendations :: "rebalance_row list"

definition empty_allocation_store :: allocation_store where
  "empty_allocation_store = \<lparr>at_policies = [], at_recommendations = []\<rparr>"

definition allocation_policy_row_of :: "AllocationPolicyVersion \<Rightarrow> allocation_policy_row" where
  "allocation_policy_row_of policy =
     \<lparr>lw_policy_key = normalize_allocation_identifier (al_policy_key policy), lw_version = al_version policy,
      lw_portfolio_scope_id = normalize_allocation_identifier (al_portfolio_scope_id policy),
      lw_target_exposure_pct_nav = al_target_exposure_pct_nav policy,
      lw_target_relative_alpha_weight = al_target_relative_alpha_weight policy,
      lw_exposure_drift_threshold_pct = al_exposure_drift_threshold_pct policy,
      lw_relative_alpha_drift_threshold_pct = al_relative_alpha_drift_threshold_pct policy,
      lw_approval_status = AllocationApprovalStatus_as_str (al_approval_status policy),
      lw_is_active = (al_approval_status policy = AllocationApprovalStatus.Approved),
      lw_approval_reference = al_approval_reference policy, lw_actor_id = al_actor_id policy,
      lw_reason_code = al_reason_code policy, lw_correlation_id = al_correlation_id policy,
      lw_updated_at_utc = al_updated_at_utc policy, lw_advanced_parameters = al_advanced_parameters policy\<rparr>"

definition rebalance_row_of :: "RebalanceRecommendation \<Rightarrow> rebalance_row" where
  "rebalance_row_of recommendation =
     \<lparr>bw_recommendation_id = normalize_allocation_identifier (rb_recommendation_id recommendation),
      bw_policy_key = normalize_allocation_identifier (rb_policy_key recommendation),
      bw_policy_version = rb_policy_version recommendation,
      bw_status = RebalanceRecommendationStatus_as_str (rb_status recommendation),
      bw_approval_status = AllocationApprovalStatus_as_str (rb_approval_status recommendation),
      bw_approval_reference = rb_approval_reference recommendation, bw_action_type = rb_action_type recommendation,
      bw_rationale = rb_rationale recommendation, bw_reason_code = rb_reason_code recommendation,
      bw_actor_id = rb_actor_id recommendation, bw_correlation_id = rb_correlation_id recommendation,
      bw_parameters = rb_parameters recommendation, bw_evidence = rb_evidence recommendation,
      bw_created_at_utc = rb_created_at_utc recommendation, bw_updated_at_utc = rb_updated_at_utc recommendation\<rparr>"

text \<open>
  The checks of the status columns, the time order, the partial unique index of the active
  policies and the foreign key.
\<close>

definition policy_status_allowed :: "allocation_policy_row \<Rightarrow> bool" where
  "policy_status_allowed row =
     ((lw_approval_status row = ''active'' \<and> lw_is_active row)
      \<or> (lw_approval_status row \<in> {''pending'', ''denied''} \<and> \<not> lw_is_active row))"

definition same_policy_version :: "allocation_policy_row \<Rightarrow> allocation_policy_row \<Rightarrow> bool" where
  "same_policy_version row r = (lw_policy_key r = lw_policy_key row \<and> lw_version r = lw_version row)"

definition policy_violation :: "allocation_policy_row \<Rightarrow> allocation_policy_row list \<Rightarrow> constraint_fault option" where
  "policy_violation row rows =
     (if \<not> policy_status_allowed row then Some (violation ''23514'' ''allocation_policies_approval_status_check'')
      else if lw_is_active row \<and> list_ex (\<lambda>r. lw_is_active r \<and> lw_policy_key r = lw_policy_key row)
          (filter (\<lambda>r. \<not> same_policy_version row r) rows)
      then Some (violation ''23505'' ''idx_allocation_policies_active_policy_unique'')
      else None)"

definition recommendation_violation :: "pg_types \<Rightarrow> rebalance_row \<Rightarrow> allocation_store \<Rightarrow> constraint_fault option" where
  "recommendation_violation P row st =
     (if pg_instant P (bw_updated_at_utc row) < pg_instant P (bw_created_at_utc row) then
        Some (violation ''23514'' ''rebalance_recommendations_check'')
      else if \<not> list_ex (\<lambda>r. lw_policy_key r = bw_policy_key row \<and> lw_version r = bw_policy_version row) (at_policies st) then
        Some (violation ''23503'' ''rebalance_recommendations_policy_key_policy_version_fkey'')
      else None)"

section \<open>Policies\<close>

definition deactivate_active_policy :: "string \<Rightarrow> string \<Rightarrow> allocation_policy_row list \<Rightarrow> allocation_policy_row list" where
  "deactivate_active_policy policy_key updated_at_utc rows =
     map (\<lambda>r. if lw_policy_key r = policy_key \<and> lw_is_active r
       then r\<lparr>lw_approval_status := ''denied'', lw_is_active := False,
              lw_reason_code := RebalanceReasonCode_code RebalanceReasonCode.AllocationPolicyDenied,
              lw_updated_at_utc := updated_at_utc\<rparr>
       else r) rows"

definition upsert_allocation_policy_version ::
    "time_crate \<Rightarrow> constraint_faults \<Rightarrow> AllocationPolicyVersion \<Rightarrow> allocation_store
      \<Rightarrow> (AllocationPersistenceError + unit) \<times> allocation_store" where
  "upsert_allocation_policy_version T faults policy = transact (\<lambda>st.
     and_then (validate_allocation_policy_version T policy) (\<lambda>_.
     and_then (statement classify_allocation_query_error faults ''begin_allocation_policy_tx'' ()) (\<lambda>_.
     and_then (if al_approval_status policy = AllocationApprovalStatus.Approved
       then statement classify_allocation_query_error faults ''deactivate_active_allocation_policy''
         (deactivate_active_policy (normalize_allocation_identifier (al_policy_key policy)) (al_updated_at_utc policy)
           (at_policies st))
       else Inr (at_policies st)) (\<lambda>rows.
     and_then (statement classify_allocation_query_error
       (constrained faults (policy_violation (allocation_policy_row_of policy) rows)) ''upsert_allocation_policy_version'' ()) (\<lambda>_.
     and_then (statement classify_allocation_query_error faults ''commit_allocation_policy_tx'' ()) (\<lambda>_.
     Inr ((), st\<lparr>at_policies := allocation_policy_row_of policy
       # filter (\<lambda>r. \<not> same_policy_version (allocation_policy_row_of policy) r) rows\<rparr>)))))))"

definition decode_allocation_policy_row ::
    "time_crate \<Rightarrow> pg_types \<Rightarrow> allocation_policy_row \<Rightarrow> AllocationPersistenceError + AllocationPolicyVersion" where
  "decode_allocation_policy_row T P row =
     and_then (AllocationApprovalStatus_parse (lw_approval_status row)) (\<lambda>approval_status.
     and_then (RebalanceReasonCode_parse (lw_reason_code row)) (\<lambda>_.
     let policy = \<lparr>al_policy_key = lw_policy_key row, al_version = lw_version row,
           al_portfolio_scope_id = lw_portfolio_scope_id row,
           al_target_exposure_pct_nav = lw_target_exposure_pct_nav row,
           al_target_relative_alpha_weight = lw_target_relative_alpha_weight row,
           al_exposure_drift_threshold_pct = lw_exposure_drift_threshold_pct row,
           al_relative_alpha_drift_threshold_pct = lw_relative_alpha_drift_threshold_pct row,
           al_approval_status = approval_status, al_approval_reference = lw_approval_reference row,
           al_actor_id = lw_actor_id row, al_reason_code = lw_reason_code row, al_correlation_id = lw_correlation_id row,
           al_updated_at_utc = pg_to_char P (lw_updated_at_utc row), al_advanced_parameters = lw_advanced_parameters row\<rparr>
     in and_then (validate_allocation_policy_version T policy) (\<lambda>_. Inr policy)))"

definition policy_row_before :: "pg_types \<Rightarrow> allocation_policy_row \<Rightarrow> allocation_policy_row \<Rightarrow> bool" where
  "policy_row_before P a b =
     (lw_version b < lw_version a
      \<or> (lw_version a = lw_version b \<and> pg_instant P (lw_updated_at_utc b) < pg_instant P (lw_updated_at_utc a)))"

definition first_row :: "('a \<Rightarrow> 'e + 'b) \<Rightarrow> 'a list \<Rightarrow> 'e + 'b option" where
  "first_row decode rows = (case rows of
      [] \<Rightarrow> Inr None
    | row # _ \<Rightarrow> and_then (decode row) (\<lambda>value. Inr (Some value)))"

definition load_active_allocation_policy_version ::
    "time_crate \<Rightarrow> pg_types \<Rightarrow> constraint_faults \<Rightarrow> string \<Rightarrow> allocation_store
      \<Rightarrow> AllocationPersistenceError + AllocationPolicyVersion option" where
  "load_active_allocation_policy_version T P faults policy_key st =
     and_then (validate_allocation_store_non_empty ''policy_key'' policy_key) (\<lambda>_.
     and_then (statement classify_allocation_query_error faults ''load_active_allocation_policy_version''
       (order_by (policy_row_before P)
         (filter (\<lambda>r. lw_policy_key r = normalize_allocation_identifier policy_key \<and> lw_is_active r) (at_policies st))))
       (first_row (decode_allocation_policy_row T P)))"

section \<open>Recommendations\<close>

definition upsert_rebalance_recommendation ::
    "time_crate \<Rightarrow> pg_types \<Rightarrow> constraint_faults \<Rightarrow> RebalanceRecommendation \<Rightarrow> allocation_store
      \<Rightarrow> (AllocationPersistenceError + unit) \<times> allocation_store" where
  "upsert_rebalance_recommendation T P faults recommendation = transact (\<lambda>st.
     and_then (validate_rebalance_recommendation T recommendation) (\<lambda>_.
     and_then (statement classify_allocation_query_error
       (constrained faults (recommendation_violation P (rebalance_row_of recommendation) st)) ''upsert_rebalance_recommendation'' ()) (\<lambda>_.
     Inr ((), st\<lparr>at_recommendations := rebalance_row_of recommendation
       # filter (\<lambda>r. bw_recommendation_id r \<noteq> bw_recommendation_id (rebalance_row_of recommendation)) (at_recommendations st)\<rparr>))))"

definition decode_rebalance_recommendation_row ::
    "time_crate \<Rightarrow> pg_types \<Rightarrow> rebalance_row \<Rightarrow> AllocationPersistenceError + RebalanceRecommendation" where
  "decode_rebalance_recommendation_row T P row =
     and_then (RebalanceRecommendationStatus_parse (bw_status row)) (\<lambda>status.
     and_then (AllocationApprovalStatus_parse (bw_approval_status row)) (\<lambda>approval_status.
     and_then (RebalanceReasonCode_parse (bw_reason_code row)) (\<lambda>_.
     let recommendation = \<lparr>rb_recommendation_id = bw_recommendation_id row, rb_policy_key = bw_policy_key row,
           rb_policy_version = bw_policy_version row, rb_status = status, rb_approval_status = approval_status,
           rb_approval_reference = bw_approval_reference row, rb_action_type = bw_action_type row,
           rb_rationale = bw_rationale row, rb_reason_code = bw_reason_code row, rb_actor_id = bw_actor_id row,
           rb_correlation_id = bw_correlation_id row, rb_created_at_utc = pg_to_char P (bw_created_at_utc row),
           rb_updated_at_utc = pg_to_char P (bw_updated_at_utc row), rb_parameters = bw_parameters row,
           rb_evidence = bw_evidence row\<rparr>
     in and_then (validate_rebalance_recommendation T recommendation) (\<lambda>_. Inr recommendation))))"

definition newest_first :: "pg_types \<Rightarrow> rebalance_row \<Rightarrow> rebalance_row \<Rightarrow> bool" where
  "newest_first P a b =
     (let x = pg_instant P (bw_created_at_utc a); y = pg_instant P (bw_created_at_utc b)
      in y < x \<or> (x = y \<and> pg_text_less P (bw_recommendation_id b) (bw_recommendation_id a)))"

definition by_policy_newest_first :: "pg_types \<Rightarrow> rebalance_row \<Rightarrow> rebalance_row \<Rightarrow> bool" where
  "by_policy_newest_first P a b =
     (pg_text_less P (bw_policy_key a) (bw_policy_key b) \<or> (bw_policy_key a = bw_policy_key b \<and> newest_first P a b))"

definition load_pending_rebalance_recommendations ::
    "time_crate \<Rightarrow> pg_types \<Rightarrow> constraint_faults \<Rightarrow> string option \<Rightarrow> allocation_store
      \<Rightarrow> AllocationPersistenceError + RebalanceRecommendation list" where
  "load_pending_rebalance_recommendations T P faults policy_key st =
     (let pending = filter (\<lambda>r. bw_approval_status r = ''pending'') (at_recommendations st)
      in and_then (case policy_key of
           Some key \<Rightarrow>
             and_then (validate_allocation_store_non_empty ''policy_key'' key) (\<lambda>_.
             statement classify_allocation_query_error faults ''load_pending_rebalance_recommendations_for_key''
               (order_by (newest_first P) (filter (\<lambda>r. bw_policy_key r = normalize_allocation_identifier key) pending)))
         | None \<Rightarrow>
             statement classify_allocation_query_error faults ''load_pending_rebalance_recommendations''
               (order_by (by_policy_newest_first P) pending))
         (collect_rows (decode_rebalance_recommendation_row T P)))"

definition load_latest_rebalance_recommendation_for_policy ::
    "time_crate \<Rightarrow> pg_types \<Rightarrow> constraint_faults \<Rightarrow> string \<Rightarrow> allocation_store
      \<Rightarrow> AllocationPersistenceError + RebalanceRecommendation option" where
  "load_latest_rebalance_recommendation_for_policy T P faults policy_key st =
     and_then (validate_allocation_store_non_empty ''policy_key'' policy_key) (\<lambda>_.
     and_then (statement classify_allocation_query_error faults ''load_latest_rebalance_recommendation_for_policy''
       (order_by (newest_first P)
         (filter (\<lambda>r. bw_policy_key r = normalize_allocation_identifier policy_key) (at_recommendations st))))
       (first_row (decode_rebalance_recommendation_row T P)))"

definition load_rebalance_recommendation_by_id ::
    "time_crate \<Rightarrow> pg_types \<Rightarrow> constraint_faults \<Rightarrow> string \<Rightarrow> allocation_store
      \<Rightarrow> AllocationPersistenceError + RebalanceRecommendation option" where
  "load_rebalance_recommendation_by_id T P faults recommendation_id st =
     and_then (validate_allocation_store_non_empty ''recommendation_id'' recommendation_id) (\<lambda>_.
     and_then (statement classify_allocation_query_error faults ''load_rebalance_recommendation_by_id''
       (filter (\<lambda>r. bw_recommendation_id r = normalize_allocation_identifier recommendation_id) (at_recommendations st)))
       (first_row (decode_rebalance_recommendation_row T P)))"

text \<open>What a stored policy has passed.\<close>

lemma upsert_policy_Inr:
  assumes "upsert_allocation_policy_version T faults policy st = (Inr (), st')"
  obtains rows where "validate_allocation_policy_version T policy = Inr ()"
    "policy_violation (allocation_policy_row_of policy) rows = None"
    "rows = (if al_approval_status policy = AllocationApprovalStatus.Approved
       then deactivate_active_policy (normalize_allocation_identifier (al_policy_key policy)) (al_updated_at_utc policy) (at_policies st)
       else at_policies st)"
    "st' = st\<lparr>at_policies := allocation_policy_row_of policy
       # filter (\<lambda>r. \<not> same_policy_version (allocation_policy_row_of policy) r) rows\<rparr>"
proof -
  obtain V D W where defs: "V = validate_allocation_policy_version T policy"
    "D = deactivate_active_policy (normalize_allocation_identifier (al_policy_key policy)) (al_updated_at_utc policy) (at_policies st)"
    "W = policy_violation (allocation_policy_row_of policy)" by blast
  show thesis
    using assms that unfolding upsert_allocation_policy_version_def transact_Inr and_then_Inr_iff defs[symmetric]
    by (cases "al_approval_status policy = AllocationApprovalStatus.Approved") auto
qed

text \<open>
  The migration names the approved state of a policy \<open>active\<close>, the contract writes \<open>approved\<close>:
  the check refuses every approved version.
\<close>

lemma approved_policy_refused:
  assumes "al_approval_status policy = AllocationApprovalStatus.Approved"
  shows "isl (fst (upsert_allocation_policy_version T faults policy st))"
    "snd (upsert_allocation_policy_version T faults policy st) = st"
proof -
  have "policy_violation (allocation_policy_row_of policy) rows \<noteq> None" for rows
    using assms by (simp add: policy_violation_def policy_status_allowed_def allocation_policy_row_of_def)
  then have "upsert_allocation_policy_version T faults policy st \<noteq> (Inr (), st')" for st'
    by (metis upsert_policy_Inr)
  then show fails: "isl (fst (upsert_allocation_policy_version T faults policy st))"
    by (metis is_ok_unit prod.collapse)
  then obtain e where "fst (upsert_allocation_policy_version T faults policy st) = Inl e"
    unfolding isl_def by (rule exE)
  then show "snd (upsert_allocation_policy_version T faults policy st) = st"
    unfolding upsert_allocation_policy_version_def by (rule transact_error_keeps)
qed

end
