(* ===== verification/AllocationService.thy ===== *)
theory AllocationService
  imports AllocationStore Effects
begin

text \<open>
  The allocation policy service of
  \<open>services/governance-service/src/allocation_policy/mod.rs\<close> over its repository port, and the two
  repositories: the tables of \<open>AllocationStore\<close> and the maps in memory. The operation lock makes
  the operations sequential; a poisoned lock and the telemetry lines are left out.
\<close>

section \<open>Errors, inputs and the port\<close>

type_synonym AllocationPolicyServiceError = contract_error

definition AllocationPolicyServiceError_invalid_payload ::
    "string \<Rightarrow> AllocationValidationIssue list \<Rightarrow> AllocationPolicyServiceError" where
  "AllocationPolicyServiceError_invalid_payload message field_errors =
     contract_error_of (RebalanceReasonCode_code RebalanceReasonCode.InvalidPayload) message field_errors"

definition AllocationPolicyServiceError_unauthorized_role :: AllocationPolicyServiceError where
  "AllocationPolicyServiceError_unauthorized_role =
     contract_error_of ''allocation_policy_unauthorized_role'' ''actor role is not authorized for allocation policy workflows'' []"

definition AllocationPolicyServiceError_persistence_unavailable :: "string \<Rightarrow> AllocationPolicyServiceError" where
  "AllocationPolicyServiceError_persistence_unavailable message =
     contract_error_of (RebalanceReasonCode_code RebalanceReasonCode.PersistenceUnavailable) message []"

definition map_allocation_persistence_error :: "AllocationPersistenceError \<Rightarrow> AllocationPolicyServiceError" where
  "map_allocation_persistence_error error =
     (if ce_code error = ''allocation_query_failed'' \<or> ce_code error = ''allocation_row_decode_failed''
      then AllocationPolicyServiceError_persistence_unavailable (ce_message error) else error)"

definition allocation_invalid :: "AllocationContractError \<Rightarrow> AllocationPolicyServiceError" where
  "allocation_invalid error = AllocationPolicyServiceError_invalid_payload (ce_message error) (ce_field_errors error)"

record UpsertAllocationPolicyInput =
  ua_actor_id :: string
  ua_actor_role :: string
  ua_policy_key :: string
  ua_version :: int
  ua_portfolio_scope_id :: string
  ua_target_exposure_pct_nav :: f64
  ua_target_relative_alpha_weight :: f64
  ua_exposure_drift_threshold_pct :: f64
  ua_relative_alpha_drift_threshold_pct :: f64
  ua_advanced_parameters :: json
  ua_correlation_id :: string
  ua_updated_at_utc :: string
  ua_approval_reference :: "string option"

record EvaluateRebalanceDriftInput =
  ed_actor_id :: string
  ed_actor_role :: string
  ed_policy_key :: string
  ed_exposure_drift_pct :: f64
  ed_relative_alpha_drift_pct :: f64
  ed_observed_at_utc :: string
  ed_stale_after_seconds :: f64
  ed_correlation_id :: string
  ed_require_execution :: bool
  ed_approval_reference :: "string option"

record ExecuteRebalanceRecommendationInput =
  xr_actor_id :: string
  xr_actor_role :: string
  xr_recommendation_id :: string
  xr_correlation_id :: string
  xr_executed_at_utc :: string
  xr_approval_reference :: "string option"

record PendingRebalanceRecommendationsInput =
  pd_actor_id :: string
  pd_actor_role :: string
  pd_correlation_id :: string
  pd_queried_at_utc :: string
  pd_policy_key :: "string option"

record AllocationPolicyMutationEvidence =
  pm_policy_key :: string
  pm_version :: int
  pm_approval_status :: string
  pm_actor_id :: string
  pm_reason_code :: string
  pm_correlation_id :: string
  pm_updated_at_utc :: string
  pm_approval_reference :: "string option"

record RebalanceRecommendationEvidence =
  re_recommendation_id :: string
  re_policy_key :: string
  re_policy_version :: int
  re_status :: string
  re_approval_status :: string
  re_action_type :: string
  re_rationale :: string
  re_recommended_next_action :: string
  re_actor_id :: string
  re_reason_code :: string
  re_correlation_id :: string
  re_created_at_utc :: string
  re_updated_at_utc :: string
  re_approval_reference :: "string option"

record 's AllocationPolicyRepositoryPort =
  alr_upsert_policy :: "AllocationPolicyVersion \<Rightarrow> ('s, AllocationPolicyServiceError, unit) effect"
  alr_load_active_policy :: "string \<Rightarrow> ('s, AllocationPolicyServiceError, AllocationPolicyVersion option) effect"
  alr_upsert_recommendation :: "RebalanceRecommendation \<Rightarrow> ('s, AllocationPolicyServiceError, unit) effect"
  alr_load_pending :: "string option \<Rightarrow> ('s, AllocationPolicyServiceError, RebalanceRecommendation list) effect"
  alr_load_latest :: "string \<Rightarrow> ('s, AllocationPolicyServiceError, RebalanceRecommendation option) effect"
  alr_load_by_id :: "string \<Rightarrow> ('s, AllocationPolicyServiceError, RebalanceRecommendation option) effect"

section \<open>Checks\<close>

definition validate_allocation_role :: "string \<Rightarrow> AllocationPolicyServiceError + unit" where
  "validate_allocation_role r =
     (if r = ''operational_control'' \<or> r = ''administrative_actions'' then Inr ()
      else Inl AllocationPolicyServiceError_unauthorized_role)"

definition validate_allocation_service_non_empty :: "string \<Rightarrow> string \<Rightarrow> AllocationPolicyServiceError + unit" where
  "validate_allocation_service_non_empty field v =
     (if blank v then Inl (AllocationPolicyServiceError_invalid_payload (field @ '' cannot be blank'')
        (allocation_issue True field (field @ '' cannot be blank'')))
      else Inr ())"

text \<open>The checks every operation starts with: the role, then four texts.\<close>

definition allocation_input_checks ::
    "string \<Rightarrow> (string \<times> string) list \<Rightarrow> AllocationPolicyServiceError + unit" where
  "allocation_input_checks role texts =
     and_then (validate_allocation_role role) (\<lambda>_.
     foldr (\<lambda>(field, v) rest. and_then (validate_allocation_service_non_empty field v) (\<lambda>_. rest)) texts (Inr ()))"

definition build_recommendation_id :: "string \<Rightarrow> int \<Rightarrow> string \<Rightarrow> string" where
  "build_recommendation_id policy_key policy_version correlation_id =
     ''reco::'' @ normalize_allocation_identifier policy_key @ ''::'' @ int_to_dec policy_version @ ''::''
       @ normalize_allocation_identifier correlation_id"

definition recommendation_evidence :: "string \<Rightarrow> RebalanceRecommendation \<Rightarrow> RebalanceRecommendationEvidence" where
  "recommendation_evidence recommended_next_action r =
     \<lparr>re_recommendation_id = rb_recommendation_id r, re_policy_key = rb_policy_key r,
      re_policy_version = rb_policy_version r, re_status = RebalanceRecommendationStatus_as_str (rb_status r),
      re_approval_status = AllocationApprovalStatus_as_str (rb_approval_status r), re_action_type = rb_action_type r,
      re_rationale = rb_rationale r, re_recommended_next_action = recommended_next_action, re_actor_id = rb_actor_id r,
      re_reason_code = rb_reason_code r, re_correlation_id = rb_correlation_id r, re_created_at_utc = rb_created_at_utc r,
      re_updated_at_utc = rb_updated_at_utc r, re_approval_reference = rb_approval_reference r\<rparr>"

section \<open>Policies\<close>

definition proposed_policy ::
    "UpsertAllocationPolicyInput \<Rightarrow> AllocationApprovalStatus \<Rightarrow> RebalanceReasonCode \<Rightarrow> AllocationPolicyVersion" where
  "proposed_policy inp approval_status reason_code =
     \<lparr>al_policy_key = normalize_allocation_identifier (ua_policy_key inp), al_version = ua_version inp,
      al_portfolio_scope_id = normalize_allocation_identifier (ua_portfolio_scope_id inp),
      al_target_exposure_pct_nav = ua_target_exposure_pct_nav inp,
      al_target_relative_alpha_weight = ua_target_relative_alpha_weight inp,
      al_exposure_drift_threshold_pct = ua_exposure_drift_threshold_pct inp,
      al_relative_alpha_drift_threshold_pct = ua_relative_alpha_drift_threshold_pct inp,
      al_approval_status = approval_status, al_approval_reference = ua_approval_reference inp,
      al_actor_id = ua_actor_id inp, al_reason_code = RebalanceReasonCode_code reason_code,
      al_correlation_id = ua_correlation_id inp, al_updated_at_utc = ua_updated_at_utc inp,
      al_advanced_parameters = ua_advanced_parameters inp\<rparr>"

definition decided_policy :: "AllocationPolicyVersion option \<Rightarrow> UpsertAllocationPolicyInput \<Rightarrow> AllocationPolicyVersion" where
  "decided_policy active_policy inp =
     (if requires_allocation_critical_increase_approval active_policy
          (proposed_policy inp AllocationApprovalStatus.Approved RebalanceReasonCode.AllocationPolicyUpdated)
          \<and> ua_approval_reference inp = None
      then proposed_policy inp AllocationApprovalStatus.Pending RebalanceReasonCode.AllocationPolicyPendingApproval
      else proposed_policy inp AllocationApprovalStatus.Approved RebalanceReasonCode.AllocationPolicyUpdated)"

definition upsert_allocation_policy ::
    "time_crate \<Rightarrow> 's AllocationPolicyRepositoryPort \<Rightarrow> UpsertAllocationPolicyInput
      \<Rightarrow> ('s, AllocationPolicyServiceError, AllocationPolicyMutationEvidence) effect" where
  "upsert_allocation_policy T repo inp =
     run_then (pure_result (allocation_input_checks (ua_actor_role inp)
       [(''actor_id'', ua_actor_id inp), (''policy_key'', ua_policy_key inp),
        (''correlation_id'', ua_correlation_id inp), (''updated_at_utc'', ua_updated_at_utc inp)])) (\<lambda>_.
     run_then (alr_load_active_policy repo (normalize_allocation_identifier (ua_policy_key inp))) (\<lambda>active_policy.
     let policy = decided_policy active_policy inp
     in run_then (pure_result (map_err allocation_invalid (validate_allocation_policy_version T policy))) (\<lambda>_.
     run_then (alr_upsert_policy repo policy) (\<lambda>_.
     answer \<lparr>pm_policy_key = al_policy_key policy, pm_version = al_version policy,
       pm_approval_status = AllocationApprovalStatus_as_str (al_approval_status policy), pm_actor_id = al_actor_id policy,
       pm_reason_code = al_reason_code policy, pm_correlation_id = al_correlation_id policy,
       pm_updated_at_utc = al_updated_at_utc policy, pm_approval_reference = al_approval_reference policy\<rparr>))))"

section \<open>Recommendations\<close>

definition in_bounds_evidence :: "EvaluateRebalanceDriftInput \<Rightarrow> AllocationPolicyVersion \<Rightarrow> RebalanceRecommendationEvidence" where
  "in_bounds_evidence inp policy =
     \<lparr>re_recommendation_id = build_recommendation_id (al_policy_key policy) (al_version policy) (ed_correlation_id inp),
      re_policy_key = al_policy_key policy, re_policy_version = al_version policy,
      re_status = RebalanceRecommendationStatus_as_str RebalanceRecommendationStatus.Denied,
      re_approval_status = AllocationApprovalStatus_as_str AllocationApprovalStatus.NotRequired,
      re_action_type = ''recommend'',
      re_rationale = ''Drift remains within configured thresholds; no rebalance recommendation generated.'',
      re_recommended_next_action = ''Continue monitoring drift telemetry; no rebalance action is required.'',
      re_actor_id = ed_actor_id inp, re_reason_code = RebalanceReasonCode_code RebalanceReasonCode.InBounds,
      re_correlation_id = ed_correlation_id inp, re_created_at_utc = ed_observed_at_utc inp,
      re_updated_at_utc = ed_observed_at_utc inp, re_approval_reference = None\<rparr>"

definition recommendation_decision ::
    "bool \<Rightarrow> string option \<Rightarrow> RebalanceRecommendationStatus \<times> AllocationApprovalStatus \<times> RebalanceReasonCode \<times> string" where
  "recommendation_decision require_execution approval_reference =
     (if require_execution \<and> approval_reference = None then
        (RebalanceRecommendationStatus.PendingApproval, AllocationApprovalStatus.Pending, RebalanceReasonCode.ApprovalRequired,
         ''Complete dual approval for rebalance execution, then re-run execution with approval evidence.'')
      else if require_execution then
        (RebalanceRecommendationStatus.Approved, AllocationApprovalStatus.Approved, RebalanceReasonCode.RecommendationApproved,
         ''Execute the approved rebalance recommendation and verify post-trade drift contraction.'')
      else
        (RebalanceRecommendationStatus.Proposed, AllocationApprovalStatus.NotRequired, RebalanceReasonCode.RecommendationProposed,
         ''Review rationale and execute rebalance if portfolio intent remains valid.''))"

definition drift_rationale :: "(f64 \<Rightarrow> string) \<Rightarrow> f64 \<Rightarrow> f64 \<Rightarrow> RebalanceDriftEvaluation \<Rightarrow> string" where
  "drift_rationale show_f64 exposure_drift_pct relative_alpha_drift_pct evaluation =
     ''Drift exceeded threshold (exposure: '' @ show_f64 exposure_drift_pct @ ''%, alpha: '' @ show_f64 relative_alpha_drift_pct
       @ ''%; thresholds: '' @ show_f64 (de_exposure_threshold_pct evaluation) @ ''% / ''
       @ show_f64 (de_relative_alpha_threshold_pct evaluation) @ ''%).''"

definition drift_thresholds :: "RebalanceDriftEvaluation \<Rightarrow> json" where
  "drift_thresholds evaluation = JObject
     [(''exposure_drift_threshold_pct'', json_f64 (de_exposure_threshold_pct evaluation)),
      (''relative_alpha_drift_threshold_pct'', json_f64 (de_relative_alpha_threshold_pct evaluation))]"

definition drift_recommendation ::
    "(f64 \<Rightarrow> string) \<Rightarrow> EvaluateRebalanceDriftInput \<Rightarrow> AllocationPolicyVersion \<Rightarrow> RebalanceDriftEvaluation \<Rightarrow> RebalanceRecommendation" where
  "drift_recommendation show_f64 inp policy evaluation =
     (let (status, approval_status, reason_code, _) = recommendation_decision (ed_require_execution inp) (ed_approval_reference inp)
      in \<lparr>rb_recommendation_id = build_recommendation_id (al_policy_key policy) (al_version policy) (ed_correlation_id inp),
          rb_policy_key = al_policy_key policy, rb_policy_version = al_version policy, rb_status = status,
          rb_approval_status = approval_status, rb_approval_reference = ed_approval_reference inp,
          rb_action_type = (if ed_require_execution inp then ''execute'' else ''recommend''),
          rb_rationale = drift_rationale show_f64 (ed_exposure_drift_pct inp) (ed_relative_alpha_drift_pct inp) evaluation,
          rb_reason_code = RebalanceReasonCode_code reason_code, rb_actor_id = ed_actor_id inp,
          rb_correlation_id = ed_correlation_id inp, rb_created_at_utc = ed_observed_at_utc inp,
          rb_updated_at_utc = ed_observed_at_utc inp,
          rb_parameters = JObject [(''exposure_drift_pct'', json_f64 (ed_exposure_drift_pct inp)),
            (''relative_alpha_drift_pct'', json_f64 (ed_relative_alpha_drift_pct inp)),
            (''require_execution'', JBool (ed_require_execution inp))],
          rb_evidence = JObject [(''actor_id'', JString (ed_actor_id inp)), (''correlation_id'', JString (ed_correlation_id inp)),
            (''exceeded_dimensions'', JArray (map JString (de_exceeded_dimensions evaluation))),
            (''policy_key'', JString (al_policy_key policy)), (''policy_version'', JInt (al_version policy)),
            (''thresholds'', drift_thresholds evaluation)]\<rparr>)"

definition fail_closed_error :: "RebalanceDriftEvaluation \<Rightarrow> string \<Rightarrow> contract_error" where
  "fail_closed_error evaluation message =
     contract_error_of (RebalanceReasonCode_code (case RebalanceReasonCode_parse (de_reason_code evaluation) of
       Inr reason \<Rightarrow> reason | Inl _ \<Rightarrow> RebalanceReasonCode.InvalidPayload)) message []"

definition after_evaluation ::
    "time_crate \<Rightarrow> (f64 \<Rightarrow> string) \<Rightarrow> 's AllocationPolicyRepositoryPort \<Rightarrow> EvaluateRebalanceDriftInput
      \<Rightarrow> AllocationPolicyVersion option \<Rightarrow> RebalanceDriftEvaluation
      \<Rightarrow> ('s, AllocationPolicyServiceError, RebalanceRecommendationEvidence) effect" where
  "after_evaluation T show_f64 repo inp policy evaluation =
     (if de_outcome evaluation = DriftEvaluationOutcome.FailClosed then
        refuse (fail_closed_error evaluation ''rebalance evaluation failed closed due to unavailable or stale policy state'')
      else case policy of
        None \<Rightarrow> refuse (contract_error_of (RebalanceReasonCode_code RebalanceReasonCode.PolicyStateUnavailable)
          ''allocation policy state is unavailable'' [])
      | Some policy \<Rightarrow>
        if de_outcome evaluation = DriftEvaluationOutcome.InBounds then answer (in_bounds_evidence inp policy)
        else
          let recommendation = drift_recommendation show_f64 inp policy evaluation;
              (_, _, _, recommended_next_action) = recommendation_decision (ed_require_execution inp) (ed_approval_reference inp)
          in run_then (pure_result (map_err allocation_invalid (validate_rebalance_recommendation T recommendation))) (\<lambda>_.
             run_then (alr_upsert_recommendation repo recommendation) (\<lambda>_.
             answer (recommendation_evidence recommended_next_action recommendation))))"

definition service_evaluate_rebalance_drift ::
    "time_crate \<Rightarrow> (int \<Rightarrow> int) \<Rightarrow> (f64 \<Rightarrow> string) \<Rightarrow> 's AllocationPolicyRepositoryPort \<Rightarrow> EvaluateRebalanceDriftInput
      \<Rightarrow> ('s, AllocationPolicyServiceError, RebalanceRecommendationEvidence) effect" where
  "service_evaluate_rebalance_drift T whole_ms show_f64 repo inp =
     run_then (pure_result (allocation_input_checks (ed_actor_role inp)
       [(''actor_id'', ed_actor_id inp), (''policy_key'', ed_policy_key inp),
        (''correlation_id'', ed_correlation_id inp), (''observed_at_utc'', ed_observed_at_utc inp)])) (\<lambda>_.
     run_then (alr_load_active_policy repo (normalize_allocation_identifier (ed_policy_key inp))) (\<lambda>policy.
     run_then (pure_result (map_err allocation_invalid (evaluate_rebalance_drift T whole_ms policy (ed_exposure_drift_pct inp)
       (ed_relative_alpha_drift_pct inp) (ed_observed_at_utc inp) (ed_stale_after_seconds inp)))) (\<lambda>evaluation.
     after_evaluation T show_f64 repo inp policy evaluation)))"

definition approved_for_execution ::
    "ExecuteRebalanceRecommendationInput \<Rightarrow> RebalanceRecommendation \<Rightarrow> AllocationPolicyServiceError + RebalanceRecommendation" where
  "approved_for_execution inp recommendation =
     (if rb_approval_status recommendation = AllocationApprovalStatus.Pending then
        (if some_text (xr_approval_reference inp)
         then Inr (recommendation\<lparr>rb_approval_status := AllocationApprovalStatus.Approved,
           rb_approval_reference := map_option trim (xr_approval_reference inp),
           rb_status := RebalanceRecommendationStatus.Approved,
           rb_reason_code := RebalanceReasonCode_code RebalanceReasonCode.RecommendationApproved\<rparr>)
         else Inl (contract_error_of (RebalanceReasonCode_code RebalanceReasonCode.ApprovalRequired)
           ''rebalance execution requires approval_reference for pending recommendation'' []))
      else Inr recommendation)"

definition executed_recommendation ::
    "ExecuteRebalanceRecommendationInput \<Rightarrow> RebalanceRecommendation \<Rightarrow> RebalanceRecommendation" where
  "executed_recommendation inp recommendation =
     recommendation\<lparr>rb_status := RebalanceRecommendationStatus.Executed,
       rb_approval_status := (if rb_approval_status recommendation = AllocationApprovalStatus.NotRequired
         then AllocationApprovalStatus.NotRequired else AllocationApprovalStatus.Approved),
       rb_action_type := ''execute'',
       rb_reason_code := RebalanceReasonCode_code RebalanceReasonCode.RecommendationExecuted,
       rb_actor_id := xr_actor_id inp, rb_correlation_id := xr_correlation_id inp, rb_updated_at_utc := xr_executed_at_utc inp\<rparr>"

definition execute_rebalance_recommendation ::
    "time_crate \<Rightarrow> 's AllocationPolicyRepositoryPort \<Rightarrow> ExecuteRebalanceRecommendationInput
      \<Rightarrow> ('s, AllocationPolicyServiceError, RebalanceRecommendationEvidence) effect" where
  "execute_rebalance_recommendation T repo inp =
     run_then (pure_result (allocation_input_checks (xr_actor_role inp)
       [(''actor_id'', xr_actor_id inp), (''recommendation_id'', xr_recommendation_id inp),
        (''correlation_id'', xr_correlation_id inp), (''executed_at_utc'', xr_executed_at_utc inp)])) (\<lambda>_.
     run_then (alr_load_by_id repo (normalize_allocation_identifier (xr_recommendation_id inp))) (\<lambda>found. case found of
       None \<Rightarrow> refuse (contract_error_of (RebalanceReasonCode_code RebalanceReasonCode.RecommendationNotFound)
         ''rebalance recommendation not found'' [])
     | Some recommendation \<Rightarrow>
       if rb_status recommendation = RebalanceRecommendationStatus.Denied then
         refuse (contract_error_of (RebalanceReasonCode_code RebalanceReasonCode.RecommendationDenied)
           ''denied recommendations cannot be executed'' [])
       else run_then (pure_result (approved_for_execution inp recommendation)) (\<lambda>approved.
         let executed = executed_recommendation inp approved
         in run_then (pure_result (map_err allocation_invalid (validate_rebalance_recommendation T executed))) (\<lambda>_.
            run_then (alr_upsert_recommendation repo executed) (\<lambda>_.
            answer (recommendation_evidence
              ''Monitor post-execution drift and confirm correlation IDs in audit records.'' executed))))))"

definition list_pending_rebalance_recommendations ::
    "'s AllocationPolicyRepositoryPort \<Rightarrow> PendingRebalanceRecommendationsInput
      \<Rightarrow> ('s, AllocationPolicyServiceError, RebalanceRecommendationEvidence list) effect" where
  "list_pending_rebalance_recommendations repo inp =
     run_then (pure_result (allocation_input_checks (pd_actor_role inp)
       [(''actor_id'', pd_actor_id inp), (''correlation_id'', pd_correlation_id inp), (''queried_at_utc'', pd_queried_at_utc inp)])) (\<lambda>_.
     run_then (alr_load_pending repo (map_option normalize_allocation_identifier (pd_policy_key inp))) (\<lambda>pending.
     answer (map (recommendation_evidence
       ''Complete dual approval and execute recommendation when governance evidence is ready.'') pending)))"

section \<open>Over PostgreSQL\<close>

definition allocation_call ::
    "(constraint_faults \<Rightarrow> allocation_store \<Rightarrow> (AllocationPersistenceError + 'a) \<times> allocation_store)
      \<Rightarrow> (nat \<Rightarrow> constraint_faults) \<Rightarrow> (allocation_store \<times> nat, AllocationPolicyServiceError, 'a) effect" where
  "allocation_call f schedule s =
     (let (r, st) = f (schedule (snd s)) (fst s)
      in (map_err map_allocation_persistence_error r, (st, Suc (snd s))))"

definition PostgresAllocationPolicyRepository ::
    "time_crate \<Rightarrow> pg_types \<Rightarrow> (nat \<Rightarrow> constraint_faults) \<Rightarrow> (allocation_store \<times> nat) AllocationPolicyRepositoryPort" where
  "PostgresAllocationPolicyRepository T P schedule =
     \<lparr>alr_upsert_policy = (\<lambda>policy. allocation_call (\<lambda>faults. upsert_allocation_policy_version T faults policy) schedule),
      alr_load_active_policy = (\<lambda>policy_key.
        allocation_call (\<lambda>faults st. (load_active_allocation_policy_version T P faults policy_key st, st)) schedule),
      alr_upsert_recommendation = (\<lambda>recommendation.
        allocation_call (\<lambda>faults. upsert_rebalance_recommendation T P faults recommendation) schedule),
      alr_load_pending = (\<lambda>policy_key.
        allocation_call (\<lambda>faults st. (load_pending_rebalance_recommendations T P faults policy_key st, st)) schedule),
      alr_load_latest = (\<lambda>policy_key.
        allocation_call (\<lambda>faults st. (load_latest_rebalance_recommendation_for_policy T P faults policy_key st, st)) schedule),
      alr_load_by_id = (\<lambda>recommendation_id.
        allocation_call (\<lambda>faults st. (load_rebalance_recommendation_by_id T P faults recommendation_id st, st)) schedule)\<rparr>"

section \<open>In memory\<close>

text \<open>The maps are association lists.\<close>

record InMemoryAllocationPolicyRepository =
  ml_policies :: "((string \<times> int) \<times> AllocationPolicyVersion) list"
  ml_recommendations :: "(string \<times> RebalanceRecommendation) list"

definition InMemoryAllocationPolicyRepository_default :: InMemoryAllocationPolicyRepository where
  "InMemoryAllocationPolicyRepository_default = \<lparr>ml_policies = [], ml_recommendations = []\<rparr>"

text \<open>\<open>BTreeMap::insert\<close>\<close>

definition map_insert :: "'k \<Rightarrow> 'v \<Rightarrow> ('k \<times> 'v) list \<Rightarrow> ('k \<times> 'v) list" where
  "map_insert k v m = (k, v) # filter (\<lambda>e. fst e \<noteq> k) m"

definition superseded :: "AllocationPolicyVersion \<Rightarrow> AllocationPolicyVersion \<Rightarrow> AllocationPolicyVersion" where
  "superseded policy existing =
     (if normalize_allocation_identifier (al_policy_key existing) = normalize_allocation_identifier (al_policy_key policy)
         \<and> al_approval_status existing = AllocationApprovalStatus.Approved
      then existing\<lparr>al_approval_status := AllocationApprovalStatus.Denied,
        al_reason_code := RebalanceReasonCode_code RebalanceReasonCode.AllocationPolicyDenied, al_approval_reference := None\<rparr>
      else existing)"

definition memory_upsert_policy ::
    "AllocationPolicyVersion \<Rightarrow> (InMemoryAllocationPolicyRepository, AllocationPolicyServiceError, unit) effect" where
  "memory_upsert_policy policy s =
     (let existing = (if al_approval_status policy = AllocationApprovalStatus.Approved
           then map (\<lambda>(k, v). (k, superseded policy v)) (ml_policies s) else ml_policies s)
      in answer () (s\<lparr>ml_policies :=
           map_insert (normalize_allocation_identifier (al_policy_key policy), al_version policy) policy existing\<rparr>))"

text \<open>\<open>max_by_key\<close> over the version, the last of equals.\<close>

definition latest_version :: "((string \<times> int) \<times> AllocationPolicyVersion) list \<Rightarrow> ((string \<times> int) \<times> AllocationPolicyVersion) option" where
  "latest_version es = fold (\<lambda>e best. case best of
      None \<Rightarrow> Some e
    | Some b \<Rightarrow> if snd (fst b) \<le> snd (fst e) then Some e else Some b) es None"

definition memory_active_policy :: "InMemoryAllocationPolicyRepository \<Rightarrow> string \<Rightarrow> AllocationPolicyVersion option" where
  "memory_active_policy s policy_key =
     map_option snd (latest_version (filter (\<lambda>((key, _), policy). key = normalize_allocation_identifier policy_key
       \<and> al_approval_status policy = AllocationApprovalStatus.Approved) (ml_policies s)))"

definition memory_load_pending ::
    "string option \<Rightarrow> (InMemoryAllocationPolicyRepository, AllocationPolicyServiceError, RebalanceRecommendation list) effect" where
  "memory_load_pending policy_key s =
     answer (order_by (\<lambda>left right. rb_policy_key left < rb_policy_key right
         \<or> (rb_policy_key left = rb_policy_key right \<and> (rb_created_at_utc right < rb_created_at_utc left
         \<or> (rb_created_at_utc left = rb_created_at_utc right \<and> rb_recommendation_id right < rb_recommendation_id left))))
       (filter (\<lambda>r. rb_approval_status r = AllocationApprovalStatus.Pending
           \<and> (policy_key = None \<or> Some (normalize_allocation_identifier (rb_policy_key r)) = map_option normalize_allocation_identifier policy_key))
         (map snd (ml_recommendations s)))) s"

definition memory_load_latest ::
    "string \<Rightarrow> (InMemoryAllocationPolicyRepository, AllocationPolicyServiceError, RebalanceRecommendation option) effect" where
  "memory_load_latest policy_key s =
     (let before = (\<lambda>left right. rb_created_at_utc right < rb_created_at_utc left
           \<or> (rb_created_at_utc left = rb_created_at_utc right \<and> rb_recommendation_id right < rb_recommendation_id left))
      in answer (case order_by before (filter (\<lambda>r. normalize_allocation_identifier (rb_policy_key r)
             = normalize_allocation_identifier policy_key) (map snd (ml_recommendations s))) of
           [] \<Rightarrow> None | r # _ \<Rightarrow> Some r) s)"

definition memory_recommendation :: "InMemoryAllocationPolicyRepository \<Rightarrow> string \<Rightarrow> RebalanceRecommendation option" where
  "memory_recommendation s recommendation_id = map_of (ml_recommendations s) (normalize_allocation_identifier recommendation_id)"

definition InMemoryAllocationPolicyRepository_port :: "InMemoryAllocationPolicyRepository AllocationPolicyRepositoryPort" where
  "InMemoryAllocationPolicyRepository_port =
     \<lparr>alr_upsert_policy = memory_upsert_policy,
      alr_load_active_policy = (\<lambda>policy_key s. answer (memory_active_policy s policy_key) s),
      alr_upsert_recommendation = (\<lambda>r s. answer () (s\<lparr>ml_recommendations :=
        map_insert (normalize_allocation_identifier (rb_recommendation_id r)) r (ml_recommendations s)\<rparr>)),
      alr_load_pending = memory_load_pending,
      alr_load_latest = memory_load_latest,
      alr_load_by_id = (\<lambda>recommendation_id s. answer (memory_recommendation s recommendation_id) s)\<rparr>"

text \<open>Equations that evaluate a step before what follows it.\<close>

lemmas allocation_step_code [code] =
  upsert_allocation_policy_def[unfolded Let_def, THEN fun_cong, unfolded run_then_def]
  service_evaluate_rebalance_drift_def[THEN fun_cong, unfolded run_then_def]
  execute_rebalance_recommendation_def[THEN fun_cong, unfolded run_then_def]

end
