(* ===== verification/AllocationSafety.thy ===== *)
theory AllocationSafety
  imports AllocationService
begin

text \<open>
  What the allocation service guarantees over its repositories. The service's part is proved over
  the contract of the port; the maps in memory and the tables satisfy it. Over the tables no
  policy is ever active, because the migration refuses the state the code writes.
\<close>

section \<open>The contract of the port\<close>

text \<open>
  A recommendation as it is read back may differ from the one written in its times and in the
  spelling of its identifiers.
\<close>

definition same_recommendation :: "RebalanceRecommendation \<Rightarrow> RebalanceRecommendation \<Rightarrow> bool" where
  "same_recommendation q r \<longleftrightarrow> rb_status q = rb_status r
     \<and> rb_approval_status q = rb_approval_status r \<and> rb_approval_reference q = rb_approval_reference r"

text \<open>Which policy is active once \<open>p\<close> has been stored where \<open>current\<close> was active.\<close>

definition activated :: "AllocationPolicyVersion \<Rightarrow> AllocationPolicyVersion option \<Rightarrow> AllocationPolicyVersion option" where
  "activated p current =
     (if al_approval_status p = AllocationApprovalStatus.Approved then Some p
      else case current of
        Some a \<Rightarrow> if al_version a = al_version p then None else Some a
      | None \<Rightarrow> None)"

locale allocation_repository =
  fixes repo :: "'s AllocationPolicyRepositoryPort"
    and active_of :: "'s \<Rightarrow> string \<Rightarrow> AllocationPolicyVersion option"
    and recommendation_of :: "'s \<Rightarrow> string \<Rightarrow> RebalanceRecommendation option"
    and inv :: "'s \<Rightarrow> bool"
  assumes named: "inv s \<Longrightarrow> active_of s k = Some p \<Longrightarrow> normalize_allocation_identifier (al_policy_key p) = k"
    and load_active: "inv s \<Longrightarrow> alr_load_active_policy repo (normalize_allocation_identifier k) s = (r, t)
      \<Longrightarrow> inv t \<and> active_of t = active_of s \<and> recommendation_of t = recommendation_of s
        \<and> (\<forall>x. r = Inr x \<longrightarrow> x = active_of s (normalize_allocation_identifier k))"
    and upsert_policy_error: "inv s \<Longrightarrow> alr_upsert_policy repo p s = (Inl e, t)
      \<Longrightarrow> inv t \<and> active_of t = active_of s \<and> recommendation_of t = recommendation_of s"
    and upsert_policy: "inv s \<Longrightarrow> alr_upsert_policy repo p s = (Inr (), t)
      \<Longrightarrow> inv t \<and> recommendation_of t = recommendation_of s
        \<and> active_of t = (active_of s)(normalize_allocation_identifier (al_policy_key p) :=
             activated p (active_of s (normalize_allocation_identifier (al_policy_key p))))"
    and upsert_recommendation_error: "inv s \<Longrightarrow> alr_upsert_recommendation repo q s = (Inl e, t)
      \<Longrightarrow> inv t \<and> active_of t = active_of s \<and> recommendation_of t = recommendation_of s"
    and upsert_recommendation: "inv s \<Longrightarrow> alr_upsert_recommendation repo q s = (Inr (), t)
      \<Longrightarrow> inv t \<and> active_of t = active_of s
        \<and> (\<exists>v. recommendation_of t = (recommendation_of s)(normalize_allocation_identifier (rb_recommendation_id q) := v)
             \<and> (\<forall>q'. v = Some q' \<longrightarrow> same_recommendation q' q))"
    and load_by_id: "inv s \<Longrightarrow> alr_load_by_id repo (normalize_allocation_identifier k) s = (rq, t)
      \<Longrightarrow> inv t \<and> active_of t = active_of s \<and> recommendation_of t = recommendation_of s
        \<and> (\<forall>x. rq = Inr x \<longrightarrow> x = recommendation_of s (normalize_allocation_identifier k))"
    and load_pending: "inv s \<Longrightarrow> alr_load_pending repo k' s = (rs, t)
      \<Longrightarrow> inv t \<and> active_of t = active_of s \<and> recommendation_of t = recommendation_of s"

section \<open>Histories\<close>

datatype allocation_operation =
    UpsertPolicy UpsertAllocationPolicyInput
  | EvaluateDrift EvaluateRebalanceDriftInput
  | ExecuteRecommendation ExecuteRebalanceRecommendationInput
  | ListPending PendingRebalanceRecommendationsInput

fun run_allocation ::
    "time_crate \<Rightarrow> (int \<Rightarrow> int) \<Rightarrow> (f64 \<Rightarrow> string) \<Rightarrow> 's AllocationPolicyRepositoryPort \<Rightarrow> allocation_operation \<Rightarrow> 's \<Rightarrow> 's" where
  "run_allocation T whole_ms show_f64 repo (UpsertPolicy inp) s = snd (upsert_allocation_policy T repo inp s)"
| "run_allocation T whole_ms show_f64 repo (EvaluateDrift inp) s = snd (service_evaluate_rebalance_drift T whole_ms show_f64 repo inp s)"
| "run_allocation T whole_ms show_f64 repo (ExecuteRecommendation inp) s = snd (execute_rebalance_recommendation T repo inp s)"
| "run_allocation T whole_ms show_f64 repo (ListPending inp) s = snd (list_pending_rebalance_recommendations repo inp s)"

text \<open>Histories each of whose operations is allowed where it is made.\<close>

inductive allocation_run ::
    "time_crate \<Rightarrow> (int \<Rightarrow> int) \<Rightarrow> (f64 \<Rightarrow> string) \<Rightarrow> 's AllocationPolicyRepositoryPort
      \<Rightarrow> (allocation_operation \<Rightarrow> 's \<Rightarrow> bool) \<Rightarrow> 's \<Rightarrow> 's \<Rightarrow> bool"
  for T whole_ms show_f64 repo allowed where
  start: "allocation_run T whole_ms show_f64 repo allowed s s"
| step: "allocation_run T whole_ms show_f64 repo allowed s t \<Longrightarrow> allowed operation t
    \<Longrightarrow> allocation_run T whole_ms show_f64 repo allowed s (run_allocation T whole_ms show_f64 repo operation t)"

section \<open>Executions\<close>

definition execution_backed :: "RebalanceRecommendation \<Rightarrow> bool" where
  "execution_backed q \<longleftrightarrow>
     (rb_status q = RebalanceRecommendationStatus.Executed \<longrightarrow>
        rb_approval_status q \<in> {AllocationApprovalStatus.NotRequired, AllocationApprovalStatus.Approved})
     \<and> (rb_approval_status q = AllocationApprovalStatus.Approved \<longrightarrow> some_text (rb_approval_reference q))"

lemma same_backed: "same_recommendation q r \<Longrightarrow> execution_backed r \<Longrightarrow> execution_backed q"
  by (simp add: same_recommendation_def execution_backed_def)

lemma valid_recommendation_reference:
  "validate_rebalance_recommendation T q = Inr () \<Longrightarrow> rb_approval_status q = AllocationApprovalStatus.Approved
    \<Longrightarrow> some_text (rb_approval_reference q)"
  by (simp add: validate_rebalance_recommendation_def recommendation_reference_issues_def)

lemma drift_recommendation_backed:
  assumes "validate_rebalance_recommendation T (drift_recommendation show_f64 inp policy evaluation) = Inr ()"
  shows "execution_backed (drift_recommendation show_f64 inp policy evaluation)"
proof -
  have "rb_status (drift_recommendation show_f64 inp policy evaluation) \<noteq> RebalanceRecommendationStatus.Executed"
    by (simp add: drift_recommendation_def recommendation_decision_def)
  then show ?thesis using valid_recommendation_reference[OF assms] by (simp add: execution_backed_def)
qed

lemma executed_backed:
  assumes "validate_rebalance_recommendation T (executed_recommendation inp q) = Inr ()"
  shows "execution_backed (executed_recommendation inp q)"
proof -
  have "rb_approval_status (executed_recommendation inp q) \<in> {AllocationApprovalStatus.NotRequired, AllocationApprovalStatus.Approved}"
    by (simp add: executed_recommendation_def)
  then show ?thesis using valid_recommendation_reference[OF assms] by (auto simp: execution_backed_def)
qed

context allocation_repository
begin

definition recommendations_backed :: "'s \<Rightarrow> bool" where
  "recommendations_backed s \<longleftrightarrow> inv s \<and> (\<forall>k q. recommendation_of s k = Some q \<longrightarrow> execution_backed q)"

text \<open>An operation keeps the recommendations backed, and only \<open>UpsertPolicy\<close> changes what is active.\<close>

definition keeps :: "'s \<Rightarrow> 's \<Rightarrow> bool" where
  "keeps s t \<longleftrightarrow> recommendations_backed t \<and> active_of t = active_of s"

lemma keeps_same:
  "recommendations_backed s \<Longrightarrow> inv t \<Longrightarrow> active_of t = active_of s \<Longrightarrow> recommendation_of t = recommendation_of s \<Longrightarrow> keeps s t"
  by (simp add: keeps_def recommendations_backed_def)

lemma keeps_refl: "recommendations_backed s \<Longrightarrow> keeps s s"
  by (simp add: keeps_def)

lemma keeps_trans: "keeps s t \<Longrightarrow> keeps t u \<Longrightarrow> keeps s u"
  by (simp add: keeps_def)

lemma keeps_backed: "keeps s t \<Longrightarrow> recommendations_backed t"
  by (simp add: keeps_def)

lemma load_active_wp:
  assumes "recommendations_backed s" "\<And>e t. keeps s t \<Longrightarrow> Q (Inl e) t"
    and "\<And>t. keeps s t \<Longrightarrow> Q (Inr (active_of s (normalize_allocation_identifier k))) t"
  shows "wp (alr_load_active_policy repo (normalize_allocation_identifier k)) s Q"
proof (rule wpI)
  fix r t
  assume run: "alr_load_active_policy repo (normalize_allocation_identifier k) s = (r, t)"
  note law = load_active[OF _ run]
  have "keeps s t" using law assms(1) by (auto simp: recommendations_backed_def intro!: keeps_same)
  then show "Q r t" using assms law by (cases r) (auto simp: recommendations_backed_def)
qed

lemma load_by_id_wp:
  assumes "recommendations_backed s" "\<And>r t. keeps s t \<Longrightarrow> (\<forall>x. r = Inr x \<longrightarrow> x = recommendation_of s (normalize_allocation_identifier k)) \<Longrightarrow> Q r t"
  shows "wp (alr_load_by_id repo (normalize_allocation_identifier k)) s Q"
proof (rule wpI)
  fix r t
  assume run: "alr_load_by_id repo (normalize_allocation_identifier k) s = (r, t)"
  note law = load_by_id[OF _ run]
  have "keeps s t" using law assms(1) by (auto simp: recommendations_backed_def intro!: keeps_same)
  then show "Q r t" using assms(1) law by (intro assms(2)) (auto simp: recommendations_backed_def)
qed

lemma load_pending_wp:
  assumes "recommendations_backed s" "\<And>r t. keeps s t \<Longrightarrow> Q r t"
  shows "wp (alr_load_pending repo k) s Q"
proof (rule wpI)
  fix r t
  assume "alr_load_pending repo k s = (r, t)"
  then show "Q r t" using load_pending assms(1) by (intro assms(2) keeps_same) (auto simp: recommendations_backed_def)
qed

lemma upsert_recommendation_wp:
  assumes "recommendations_backed s" "execution_backed q" "\<And>r t. keeps s t \<Longrightarrow> Q r t"
  shows "wp (alr_upsert_recommendation repo q) s Q"
proof (rule wpI)
  fix r t
  assume run: "alr_upsert_recommendation repo q s = (r, t)"
  have inv: "inv s" using assms(1) by (simp add: recommendations_backed_def)
  have "keeps s t"
  proof (cases r)
    case (Inl e)
    then show ?thesis using upsert_recommendation_error[OF inv] run assms(1) by (auto intro!: keeps_same)
  next
    case (Inr u)
    then have "alr_upsert_recommendation repo q s = (Inr (), t)" using run by simp
    from upsert_recommendation[OF inv this] obtain v where "inv t" "active_of t = active_of s"
      "recommendation_of t = (recommendation_of s)(normalize_allocation_identifier (rb_recommendation_id q) := v)"
      "\<forall>q'. v = Some q' \<longrightarrow> same_recommendation q' q" by blast
    then show ?thesis
      using assms(1,2) same_backed by (auto simp: keeps_def recommendations_backed_def)
  qed
  then show "Q r t" by (rule assms(3))
qed

lemma evaluate_keeps:
  assumes "recommendations_backed s"
  shows "wp (service_evaluate_rebalance_drift T whole_ms show_f64 repo inp) s (\<lambda>r t. keeps s t)"
proof -
  have after: "wp (after_evaluation T show_f64 repo inp policy evaluation) t (\<lambda>r u. keeps s u)" if t: "keeps s t" for policy evaluation t
  proof (cases "de_outcome evaluation = DriftEvaluationOutcome.RecommendationRequired \<and> policy \<noteq> None")
    case False
    then show ?thesis
      using t by (cases "de_outcome evaluation") (auto simp: after_evaluation_def split: option.splits)
  next
    case True
    then obtain p where p: "policy = Some p" by blast
    obtain q where q: "q = drift_recommendation show_f64 inp p evaluation" by blast
    obtain d1 d2 d3 d4 where d: "recommendation_decision (ed_require_execution inp) (ed_approval_reference inp) = (d1, d2, d3, d4)"
      by (metis prod_cases4)
    show ?thesis
    proof (cases "validate_rebalance_recommendation T q")
      case (Inl e)
      then show ?thesis using True t by (simp add: after_evaluation_def p q[symmetric] d wp_then)
    next
      case (Inr u)
      then have "execution_backed q" using drift_recommendation_backed unfolding q by simp
      then have "wp (alr_upsert_recommendation repo q) t (\<lambda>r u. keeps s u)"
        using keeps_backed[OF t] keeps_trans[OF t] by (intro upsert_recommendation_wp) auto
      then have "wp (alr_upsert_recommendation repo q) t
          (\<lambda>r u. case r of Inl e \<Rightarrow> keeps s u | Inr a \<Rightarrow> wp (answer (recommendation_evidence d4 q)) u (\<lambda>r v. keeps s v))"
        by (rule wp_mono) (auto split: sum.split)
      then show ?thesis
        using True Inr by (simp add: after_evaluation_def p q[symmetric] d wp_then)
    qed
  qed
  have loaded: "wp (run_then (pure_result (map_err allocation_invalid (evaluate_rebalance_drift T whole_ms policy a b c d)))
      (after_evaluation T show_f64 repo inp policy)) t (\<lambda>r u. keeps s u)" if "keeps s t" for policy t a b c d
    using that after by (auto simp: wp_then split: sum.split)
  show ?thesis
    unfolding service_evaluate_rebalance_drift_def
    using assms by (auto simp: wp_then[of "pure_result (allocation_input_checks _ _)"] wp_then[of "alr_load_active_policy _ _"]
        keeps_refl loaded split: sum.split intro!: load_active_wp)
qed

lemma execute_keeps:
  assumes "recommendations_backed s"
  shows "wp (execute_rebalance_recommendation T repo inp) s (\<lambda>r t. keeps s t
    \<and> (\<forall>e. r = Inr e \<longrightarrow> (\<exists>q. recommendation_of s (normalize_allocation_identifier (xr_recommendation_id inp)) = Some q
         \<and> rb_status q \<noteq> RebalanceRecommendationStatus.Denied
         \<and> (rb_approval_status q = AllocationApprovalStatus.Pending \<longrightarrow> some_text (xr_approval_reference inp)))))"
proof -
  obtain Q where Q: "Q = (\<lambda>(r :: AllocationPolicyServiceError + RebalanceRecommendationEvidence) t. keeps s t
    \<and> (\<forall>e. r = Inr e \<longrightarrow> (\<exists>q. recommendation_of s (normalize_allocation_identifier (xr_recommendation_id inp)) = Some q
         \<and> rb_status q \<noteq> RebalanceRecommendationStatus.Denied
         \<and> (rb_approval_status q = AllocationApprovalStatus.Pending \<longrightarrow> some_text (xr_approval_reference inp)))))" by blast
  have error: "Q (Inl e) t" if "keeps s t" for e t using that by (simp add: Q)
  have found: "wp (if rb_status q = RebalanceRecommendationStatus.Denied then refuse e
      else run_then (pure_result (approved_for_execution inp q)) (\<lambda>approved.
        let executed = executed_recommendation inp approved
        in run_then (pure_result (map_err allocation_invalid (validate_rebalance_recommendation T executed))) (\<lambda>_.
           run_then (alr_upsert_recommendation repo executed) (\<lambda>_. answer (f executed))))) t Q"
    if t: "keeps s t" and q: "recommendation_of s (normalize_allocation_identifier (xr_recommendation_id inp)) = Some q" for q t e f
  proof (cases "rb_status q = RebalanceRecommendationStatus.Denied \<or> isl (approved_for_execution inp q)")
    case True
    then show ?thesis using error[OF t] by (cases "approved_for_execution inp q") (auto simp: wp_then)
  next
    case False
    then obtain approved where approved: "approved_for_execution inp q = Inr approved" by (auto elim: is_okE)
    obtain x where x: "x = executed_recommendation inp approved" by blast
    have reference: "rb_approval_status q = AllocationApprovalStatus.Pending \<longrightarrow> some_text (xr_approval_reference inp)"
      using approved by (auto simp: approved_for_execution_def split: if_splits)
    show ?thesis
    proof (cases "validate_rebalance_recommendation T x")
      case (Inl e)
      then show ?thesis using False approved error[OF t] by (simp add: wp_then x[symmetric])
    next
      case (Inr u)
      then have "execution_backed x" using executed_backed unfolding x by simp
      then have "wp (alr_upsert_recommendation repo x) t (\<lambda>r u. keeps s u)"
        using keeps_backed[OF t] keeps_trans[OF t] by (intro upsert_recommendation_wp) auto
      then have "wp (alr_upsert_recommendation repo x) t (\<lambda>r u. case r of Inl e \<Rightarrow> Q (Inl e) u | Inr a \<Rightarrow> wp (answer (f x)) u Q)"
        using False q reference by (elim wp_mono) (auto simp: Q split: sum.split)
      then show ?thesis using False approved Inr by (simp add: wp_then x[symmetric])
    qed
  qed
  have "wp (execute_rebalance_recommendation T repo inp) s Q"
    unfolding execute_rebalance_recommendation_def
    using assms by (auto simp: wp_then[of "pure_result (allocation_input_checks _ _)"] wp_then[of "alr_load_by_id _ _"]
        keeps_refl error split: sum.split option.split split del: if_split intro!: load_by_id_wp found[OF _ sym])
  then show ?thesis unfolding Q .
qed

lemma list_keeps: "recommendations_backed s \<Longrightarrow> wp (list_pending_rebalance_recommendations repo inp) s (\<lambda>r t. keeps s t)"
  unfolding list_pending_rebalance_recommendations_def
  by (auto simp: wp_then keeps_refl split: sum.split intro!: load_pending_wp)

end

section \<open>Policies\<close>

definition finite_limits :: "AllocationPolicyVersion \<Rightarrow> bool" where
  "finite_limits p \<longleftrightarrow> f_is_finite (al_target_exposure_pct_nav p) \<and> f_is_finite (al_target_relative_alpha_weight p)
     \<and> f_is_finite (al_exposure_drift_threshold_pct p) \<and> f_is_finite (al_relative_alpha_drift_threshold_pct p)"

definition not_above :: "AllocationPolicyVersion \<Rightarrow> AllocationPolicyVersion \<Rightarrow> bool" where
  "not_above p q \<longleftrightarrow> f_le (al_target_exposure_pct_nav p) (al_target_exposure_pct_nav q)
     \<and> f_le (al_target_relative_alpha_weight p) (al_target_relative_alpha_weight q)
     \<and> f_le (al_exposure_drift_threshold_pct p) (al_exposure_drift_threshold_pct q)
     \<and> f_le (al_relative_alpha_drift_threshold_pct p) (al_relative_alpha_drift_threshold_pct q)"

lemma not_above_refl: "finite_limits p \<Longrightarrow> not_above p p"
  by (auto simp: finite_limits_def not_above_def f_is_finite_iff)

lemma not_above_trans: "not_above p q \<Longrightarrow> not_above q r \<Longrightarrow> not_above p r"
  unfolding not_above_def by (meson f_le_trans)

lemma valid_policy_finite: "validate_allocation_policy_version T p = Inr () \<Longrightarrow> finite_limits p"
  by (simp add: validate_allocation_policy_version_def finite_limits_def issue_specs)

text \<open>An operation that gives no approval reference and does not reuse the version in force.\<close>

definition unapproved :: "('s \<Rightarrow> string \<Rightarrow> AllocationPolicyVersion option) \<Rightarrow> allocation_operation \<Rightarrow> 's \<Rightarrow> bool" where
  "unapproved active operation s \<longleftrightarrow> (case operation of
      UpsertPolicy inp \<Rightarrow> ua_approval_reference inp = None
        \<and> (\<forall>a. active s (normalize_allocation_identifier (ua_policy_key inp)) = Some a \<longrightarrow> ua_version inp \<noteq> al_version a)
    | _ \<Rightarrow> True)"

lemma decided_key: "al_policy_key (decided_policy current inp) = normalize_allocation_identifier (ua_policy_key inp)"
  and decided_version: "al_version (decided_policy current inp) = ua_version inp"
  by (simp_all add: decided_policy_def proposed_policy_def)

text \<open>Without an approval reference, what becomes active does not exceed what was.\<close>

lemma unapproved_activation:
  assumes "ua_approval_reference inp = None" "finite_limits a" "finite_limits (decided_policy (Some a) inp)"
    and "ua_version inp \<noteq> al_version a"
    and "normalize_allocation_identifier (al_policy_key a) = normalize_allocation_identifier (ua_policy_key inp)"
  shows "\<exists>p. activated (decided_policy (Some a) inp) (Some a) = Some p \<and> not_above p a \<and> finite_limits p"
proof (cases "al_approval_status (decided_policy (Some a) inp) = AllocationApprovalStatus.Approved")
  case False
  then show ?thesis using assms(2,4) by (simp add: activated_def decided_version not_above_refl)
next
  case True
  then have "\<not> requires_allocation_critical_increase_approval (Some a)
      (proposed_policy inp AllocationApprovalStatus.Approved RebalanceReasonCode.AllocationPolicyUpdated)"
    using assms(1) by (auto simp: decided_policy_def proposed_policy_def split: if_splits)
  moreover have "normalize_allocation_identifier (normalize_allocation_identifier k) = normalize_allocation_identifier k" for k
    by (simp add: normalize_allocation_identifier_def)
  ultimately have "not_above (decided_policy (Some a) inp) a"
    using assms(2,3,5)
    by (auto simp: decided_policy_def requires_allocation_critical_increase_approval_def not_above_def finite_limits_def
        proposed_policy_def f_lt_finite)
  then show ?thesis using True assms(3) by (simp add: activated_def)
qed

context allocation_repository
begin

definition sound :: "'s \<Rightarrow> bool" where
  "sound s \<longleftrightarrow> recommendations_backed s \<and> (\<forall>k p. active_of s k = Some p \<longrightarrow> finite_limits p)"

lemma keeps_sound: "sound s \<Longrightarrow> keeps s t \<Longrightarrow> sound t"
  by (simp add: sound_def keeps_def)

lemma upsert_policy_wp:
  assumes "sound s"
  shows "wp (upsert_allocation_policy T repo inp) s (\<lambda>r t. sound t \<and> (active_of t = active_of s
    \<or> (let k = normalize_allocation_identifier (ua_policy_key inp); p = decided_policy (active_of s k) inp
       in finite_limits p \<and> active_of t = (active_of s)(k := activated p (active_of s k)))))"
proof -
  let ?k = "normalize_allocation_identifier (ua_policy_key inp)"
  obtain p where p: "p = decided_policy (active_of s ?k) inp" by blast
  obtain Q where Q: "Q = (\<lambda>(r :: AllocationPolicyServiceError + AllocationPolicyMutationEvidence) t. sound t
    \<and> (active_of t = active_of s \<or> (finite_limits p \<and> active_of t = (active_of s)(?k := activated p (active_of s ?k)))))" by blast
  have key: "normalize_allocation_identifier (al_policy_key p) = ?k"
    by (simp add: p decided_key normalize_allocation_identifier_def)
  have backed: "recommendations_backed s" using assms by (simp add: sound_def)
  have error: "Q (Inl e) t" if "keeps s t" for e t
    using keeps_sound[OF assms that] that by (simp add: Q keeps_def)
  have store: "wp (run_then (pure_result (map_err allocation_invalid (validate_allocation_policy_version T p))) (\<lambda>_.
      run_then (alr_upsert_policy repo p) (\<lambda>_. answer ev))) t Q" if t: "keeps s t" for t ev
  proof (cases "validate_allocation_policy_version T p")
    case (Inl e)
    then show ?thesis using error[OF t] by (simp add: wp_then)
  next
    case (Inr u)
    then have fin: "finite_limits p" using valid_policy_finite by simp
    have inv: "inv t" using keeps_backed[OF t] by (simp add: recommendations_backed_def)
    have "wp (alr_upsert_policy repo p) t (\<lambda>r v. case r of Inl e \<Rightarrow> Q (Inl e) v | Inr a \<Rightarrow> wp (answer ev) v Q)"
    proof (rule wpI)
      fix r v
      assume run: "alr_upsert_policy repo p t = (r, v)"
      show "case r of Inl e \<Rightarrow> Q (Inl e) v | Inr a \<Rightarrow> wp (answer ev) v Q"
      proof (cases r)
        case (Inl e)
        then have "keeps t v" using upsert_policy_error[OF inv] run keeps_backed[OF t] by (auto intro!: keeps_same)
        then show ?thesis using Inl error keeps_trans[OF t] by simp
      next
        case (Inr u)
        then have "alr_upsert_policy repo p t = (Inr (), v)" using run by simp
        from upsert_policy[OF inv this] have v: "inv v" "recommendation_of v = recommendation_of t"
          "active_of v = (active_of s)(?k := activated p (active_of s ?k))"
          using t key by (auto simp: keeps_def)
        have "finite_limits q" if "active_of v k = Some q" for k q
          using that assms fin unfolding v(3) by (auto simp: sound_def activated_def split: if_splits option.splits)
        then have "sound v" using v(1,2) keeps_backed[OF t] by (simp add: sound_def recommendations_backed_def)
        then show ?thesis using Inr v(3) fin by (simp add: Q)
      qed
    qed
    then show ?thesis using Inr by (simp add: wp_then)
  qed
  have "wp (upsert_allocation_policy T repo inp) s Q"
    unfolding upsert_allocation_policy_def Let_def
    using assms backed by (auto simp: wp_then[of "pure_result (allocation_input_checks _ _)"] wp_then[of "alr_load_active_policy _ _"]
        error keeps_refl store p[symmetric] split: sum.split intro!: load_active_wp)
  then show ?thesis unfolding Q Let_def p .
qed

lemma run_sound:
  assumes "allocation_run T whole_ms show_f64 repo allowed s t" "sound s"
  shows "sound t"
  using assms
proof (induction rule: allocation_run.induct)
  case (step s t operation)
  then have t: "sound t" "recommendations_backed t" by (simp_all add: sound_def)
  show ?case
  proof (cases operation)
    case (UpsertPolicy inp)
    then show ?thesis using wpD[OF upsert_policy_wp[OF t(1)] prod.collapse[symmetric]] by simp
  next
    case (EvaluateDrift inp)
    then show ?thesis using wpD[OF evaluate_keeps[OF t(2)] prod.collapse[symmetric]] keeps_sound[OF t(1)] by simp
  next
    case (ExecuteRecommendation inp)
    then show ?thesis using wpD[OF execute_keeps[OF t(2)] prod.collapse[symmetric]] keeps_sound[OF t(1)] by simp
  next
    case (ListPending inp)
    then show ?thesis using wpD[OF list_keeps[OF t(2)] prod.collapse[symmetric]] keeps_sound[OF t(1)] by simp
  qed
qed

lemma unapproved_step:
  assumes "sound t" "unapproved active_of operation t" "active_of t k = Some a"
  shows "\<exists>p. active_of (run_allocation T whole_ms show_f64 repo operation t) k = Some p \<and> not_above p a"
proof -
  have fin: "finite_limits a" using assms(1,3) by (simp add: sound_def)
  have t: "recommendations_backed t" using assms(1) by (simp add: sound_def)
  show ?thesis
  proof (cases operation)
    case (UpsertPolicy inp)
    let ?k = "normalize_allocation_identifier (ua_policy_key inp)"
    have "active_of (snd (upsert_allocation_policy T repo inp t)) = active_of t
        \<or> finite_limits (decided_policy (active_of t ?k) inp)
          \<and> active_of (snd (upsert_allocation_policy T repo inp t))
            = (active_of t)(?k := activated (decided_policy (active_of t ?k) inp) (active_of t ?k))"
      using wpD[OF upsert_policy_wp[OF assms(1)] prod.collapse[symmetric]] by (simp add: Let_def)
    moreover have "normalize_allocation_identifier (al_policy_key a) = k"
      using named[OF _ assms(3)] t by (simp add: recommendations_backed_def)
    ultimately show ?thesis
      using UpsertPolicy assms(2,3) fin not_above_refl[OF fin] unapproved_activation[of inp a]
      by (auto simp: unapproved_def)
  next
    case (EvaluateDrift inp)
    then show ?thesis
      using wpD[OF evaluate_keeps[OF t] prod.collapse[symmetric]] assms(3) not_above_refl[OF fin] by (simp add: keeps_def)
  next
    case (ExecuteRecommendation inp)
    then show ?thesis
      using wpD[OF execute_keeps[OF t] prod.collapse[symmetric]] assms(3) not_above_refl[OF fin] by (simp add: keeps_def)
  next
    case (ListPending inp)
    then show ?thesis
      using wpD[OF list_keeps[OF t] prod.collapse[symmetric]] assms(3) not_above_refl[OF fin] by (simp add: keeps_def)
  qed
qed

lemma unapproved_run:
  assumes "allocation_run T whole_ms show_f64 repo (unapproved active_of) s t" "sound s" "active_of s k = Some a"
  shows "\<exists>p. active_of t k = Some p \<and> not_above p a"
  using assms
proof (induction rule: allocation_run.induct)
  case (start s)
  then show ?case using not_above_refl by (auto simp: sound_def)
next
  case (step s t operation)
  then obtain p where "active_of t k = Some p" "not_above p a" by blast
  then show ?case
    using unapproved_step[OF run_sound[OF step.hyps(1) step.prems(1)] step.hyps(2)] not_above_trans by metis
qed

end

section \<open>In memory\<close>

definition approved_for :: "string \<Rightarrow> (string \<times> int) \<times> AllocationPolicyVersion \<Rightarrow> bool" where
  "approved_for k e \<longleftrightarrow> fst (fst e) = k \<and> al_approval_status (snd e) = AllocationApprovalStatus.Approved"

text \<open>The keys are those of the values, and each policy key has at most one approved version.\<close>

definition memory_consistent :: "InMemoryAllocationPolicyRepository \<Rightarrow> bool" where
  "memory_consistent s \<longleftrightarrow> (\<forall>e\<in>set (ml_policies s). fst e = (normalize_allocation_identifier (al_policy_key (snd e)), al_version (snd e)))
     \<and> (\<forall>k. length (filter (approved_for k) (ml_policies s)) \<le> 1)"

definition memory_active :: "InMemoryAllocationPolicyRepository \<Rightarrow> string \<Rightarrow> AllocationPolicyVersion option" where
  "memory_active s k = (case filter (approved_for k) (ml_policies s) of [] \<Rightarrow> None | e # _ \<Rightarrow> Some (snd e))"

lemma at_most_one: "length xs \<le> 1 \<Longrightarrow> xs = [] \<or> (\<exists>x. xs = [x])"
  by (cases xs) auto

lemma memory_active_eq:
  assumes "memory_consistent s"
  shows "memory_active_policy s k = memory_active s (normalize_allocation_identifier k)"
proof -
  have "filter (\<lambda>((key, _), policy). key = normalize_allocation_identifier k \<and> al_approval_status policy = AllocationApprovalStatus.Approved)
      (ml_policies s) = filter (approved_for (normalize_allocation_identifier k)) (ml_policies s)"
    by (rule filter_cong) (auto simp: approved_for_def)
  then show ?thesis
    using at_most_one[of "filter (approved_for (normalize_allocation_identifier k)) (ml_policies s)"] assms
    by (auto simp: memory_active_policy_def memory_active_def memory_consistent_def latest_version_def)
qed

lemma superseded_simps [simp]:
  "al_policy_key (superseded p x) = al_policy_key x" "al_version (superseded p x) = al_version x"
  by (simp_all add: superseded_def)

lemma superseded_approved:
  "al_approval_status (superseded p x) = AllocationApprovalStatus.Approved \<longleftrightarrow> al_approval_status x = AllocationApprovalStatus.Approved
     \<and> normalize_allocation_identifier (al_policy_key x) \<noteq> normalize_allocation_identifier (al_policy_key p)"
  "normalize_allocation_identifier (al_policy_key x) \<noteq> normalize_allocation_identifier (al_policy_key p) \<Longrightarrow> superseded p x = x"
  by (auto simp: superseded_def)

lemma filter_superseded:
  assumes "\<forall>e\<in>set m. fst e = (normalize_allocation_identifier (al_policy_key (snd e)), al_version (snd e))"
  shows "filter (approved_for k) (map (\<lambda>(j, v). (j, superseded p v)) m)
    = (if k = normalize_allocation_identifier (al_policy_key p) then [] else filter (approved_for k) m)"
  using assms by (induction m) (auto simp: approved_for_def superseded_approved)

lemma filter_approved_insert:
  "filter (approved_for k) (map_insert (K, n) p m)
    = (if approved_for k ((K, n), p) then ((K, n), p) # filter (\<lambda>e. fst e \<noteq> (K, n)) (filter (approved_for k) m)
       else filter (\<lambda>e. fst e \<noteq> (K, n)) (filter (approved_for k) m))"
  by (simp add: map_insert_def conj_commute)

lemma filter_other_key: "k \<noteq> K \<Longrightarrow> filter (\<lambda>e. fst e \<noteq> (K, n)) (filter (approved_for k) m) = filter (approved_for k) m"
  by (induction m) (auto simp: approved_for_def)

lemma memory_upsert_active:
  assumes "memory_consistent s" "memory_upsert_policy p s = (r, t)"
  shows "memory_consistent t" "ml_recommendations t = ml_recommendations s"
    "memory_active t = (memory_active s)(normalize_allocation_identifier (al_policy_key p) :=
       activated p (memory_active s (normalize_allocation_identifier (al_policy_key p))))"
proof -
  let ?K = "normalize_allocation_identifier (al_policy_key p)"
  obtain m where m: "m = (if al_approval_status p = AllocationApprovalStatus.Approved
      then map (\<lambda>(k, v). (k, superseded p v)) (ml_policies s) else ml_policies s)" by blast
  have t: "t = s\<lparr>ml_policies := map_insert (?K, al_version p) p m\<rparr>"
    using assms(2) by (simp add: memory_upsert_policy_def Let_def m)
  have keys: "\<forall>e\<in>set m. fst e = (normalize_allocation_identifier (al_policy_key (snd e)), al_version (snd e))"
    using assms(1) unfolding m memory_consistent_def by auto
  have sel: "filter (approved_for k) (ml_policies t) =
      (if k = ?K then (if al_approval_status p = AllocationApprovalStatus.Approved then [((?K, al_version p), p)]
         else filter (\<lambda>e. fst e \<noteq> (?K, al_version p)) (filter (approved_for k) (ml_policies s)))
       else filter (approved_for k) (ml_policies s))" for k
  proof (cases "al_approval_status p = AllocationApprovalStatus.Approved")
    case True
    have "filter (approved_for k) m = (if k = ?K then [] else filter (approved_for k) (ml_policies s))"
      using filter_superseded[of "ml_policies s" k p] assms(1) True by (simp add: m memory_consistent_def)
    then show ?thesis using True
      by (cases "k = ?K") (simp_all add: t filter_approved_insert filter_other_key approved_for_def[of _ "(_, p)"] del: filter_filter)
  next
    case False
    then show ?thesis by (simp add: t m filter_approved_insert filter_other_key approved_for_def[of _ "(_, p)"] del: filter_filter)
  qed
  have one: "length (filter (approved_for k) (ml_policies s)) \<le> 1" for k
    using assms(1) by (simp add: memory_consistent_def)
  have "length (filter (approved_for k) (ml_policies t)) \<le> 1" for k
    unfolding sel using one[of k] length_filter_le[of "\<lambda>e. fst e \<noteq> (?K, al_version p)" "filter (approved_for k) (ml_policies s)"]
    by (cases "k = ?K") (simp_all del: length_filter_le filter_filter)
  then show "memory_consistent t"
    using keys unfolding memory_consistent_def by (auto simp: t map_insert_def)
  show "ml_recommendations t = ml_recommendations s" by (simp add: t)
  have named: "fst e = (?K, al_version (snd e))" if "filter (approved_for ?K) (ml_policies s) = [e]" for e
  proof -
    have "e \<in> set (filter (approved_for ?K) (ml_policies s))" unfolding that by simp
    then show ?thesis using assms(1) by (auto simp: memory_consistent_def approved_for_def)
  qed
  show "memory_active t = (memory_active s)(?K := activated p (memory_active s ?K))"
  proof
    fix k
    show "memory_active t k = ((memory_active s)(?K := activated p (memory_active s ?K))) k"
      using at_most_one[OF one[of ?K]] named
      by (auto simp: memory_active_def sel activated_def simp del: filter_filter)
  qed
qed

lemma memory_active_named:
  "memory_consistent s \<Longrightarrow> memory_active s k = Some p \<Longrightarrow> normalize_allocation_identifier (al_policy_key p) = k"
proof -
  assume a: "memory_consistent s" "memory_active s k = Some p"
  then obtain e where "e \<in> set (filter (approved_for k) (ml_policies s))" "p = snd e"
    unfolding memory_active_def by (cases "filter (approved_for k) (ml_policies s)") auto
  then show ?thesis using a(1) by (auto simp: memory_consistent_def approved_for_def)
qed

lemma normalize_allocation_idem [simp]:
  "normalize_allocation_identifier (normalize_allocation_identifier k) = normalize_allocation_identifier k"
  by (simp add: normalize_allocation_identifier_def)

lemma map_of_map_insert: "map_of (map_insert k v m) = (map_of m)(k \<mapsto> v)"
proof -
  have "map_of (filter (\<lambda>e. fst e \<noteq> k) m) j = (if j = k then None else map_of m j)" for j
    by (induction m) auto
  then show ?thesis by (auto simp: map_insert_def fun_eq_iff)
qed

interpretation memory_allocation: allocation_repository InMemoryAllocationPolicyRepository_port
  memory_active "\<lambda>s. map_of (ml_recommendations s)" memory_consistent
proof (unfold_locales, goal_cases)
  case (1 s k p)
  then show ?case by (rule memory_active_named)
next
  case (4 s p t)
  then have "memory_upsert_policy p s = (Inr (), t)" by (simp add: InMemoryAllocationPolicyRepository_port_def)
  from memory_upsert_active[OF 4(1) this] show ?case by simp
next
  case (6 s q t)
  then have t: "t = s\<lparr>ml_recommendations :=
      map_insert (normalize_allocation_identifier (rb_recommendation_id q)) q (ml_recommendations s)\<rparr>"
    by (simp add: InMemoryAllocationPolicyRepository_port_def)
  show ?case
    using 6(1) unfolding t
    by (auto simp: memory_consistent_def memory_active_def[abs_def] map_of_map_insert same_recommendation_def intro!: exI[of _ "Some q"])
qed (auto simp: InMemoryAllocationPolicyRepository_port_def memory_upsert_policy_def memory_active_eq memory_recommendation_def
    memory_load_pending_def Let_def)

section \<open>Over PostgreSQL\<close>

definition none_active :: "allocation_store \<times> nat \<Rightarrow> bool" where
  "none_active s \<longleftrightarrow> (\<forall>r\<in>set (at_policies (fst s)). \<not> lw_is_active r)"

definition stored_recommendation :: "time_crate \<Rightarrow> pg_types \<Rightarrow> allocation_store \<times> nat \<Rightarrow> string \<Rightarrow> RebalanceRecommendation option" where
  "stored_recommendation T P s k =
     Option.bind (find (\<lambda>r. bw_recommendation_id r = k) (at_recommendations (fst s)))
       (\<lambda>row. case decode_rebalance_recommendation_row T P row of Inr q \<Rightarrow> Some q | Inl _ \<Rightarrow> None)"

lemma allocation_call_iff:
  "allocation_call f schedule s = (r, t) \<longleftrightarrow>
     (\<exists>r' st. f (schedule (snd s)) (fst s) = (r', st) \<and> map_err map_allocation_persistence_error r' = r \<and> t = (st, Suc (snd s)))"
  by (auto simp: allocation_call_def Let_def split: prod.splits)

lemma allocation_call_error:
  assumes "allocation_call f schedule s = (Inl e, t)" and "\<And>faults. f faults = transact (tx faults)"
  shows "t = (fst s, Suc (snd s))"
  using assms by (auto simp: allocation_call_iff map_err_Inl_iff dest: transact_Inl)

lemma allocation_counter [simp]:
  "none_active (fst s, n) = none_active s" "stored_recommendation T P (fst s, n) = stored_recommendation T P s"
  by (simp_all add: none_active_def stored_recommendation_def fun_eq_iff)

lemma find_filter: "find P xs = (case filter P xs of [] \<Rightarrow> None | x # _ \<Rightarrow> Some x)"
  by (induction xs) auto

lemma find_without: "find (\<lambda>r. key r = k) (filter (\<lambda>r. key r \<noteq> j) xs) = (if k = j then None else find (\<lambda>r. key r = k) xs)"
  by (induction xs) auto

lemma decode_own_row:
  assumes "decode_rebalance_recommendation_row T P (rebalance_row_of q) = Inr q'"
  shows "rb_status q' = rb_status q" "rb_approval_status q' = rb_approval_status q" "rb_approval_reference q' = rb_approval_reference q"
  using assms by (auto simp: decode_rebalance_recommendation_row_def rebalance_row_of_def Let_def and_then_Inr_iff)


interpretation postgres_allocation: allocation_repository "PostgresAllocationPolicyRepository T P schedule"
  "\<lambda>_ _. None" "stored_recommendation T P" none_active for T P schedule
proof (unfold_locales, goal_cases)
  case (2 s k r t)
  then have "filter (\<lambda>r. lw_policy_key r = normalize_allocation_identifier k \<and> lw_is_active r) (at_policies (fst s)) = []"
    by (auto simp: none_active_def filter_empty_conv)
  then show ?case
    using 2 by (auto simp: PostgresAllocationPolicyRepository_def allocation_call_iff load_active_allocation_policy_version_def
        and_then_Inr_iff first_row_def order_by_def normalize_allocation_identifier_def)
next
  case (3 s p e t)
  then have "allocation_call (\<lambda>faults. upsert_allocation_policy_version T faults p) schedule s = (Inl e, t)"
    by (simp add: PostgresAllocationPolicyRepository_def)
  from allocation_call_error[OF this upsert_allocation_policy_version_def] show ?case using 3(1) by simp
next
  case (4 s p t)
  then obtain st where upsert: "upsert_allocation_policy_version T (schedule (snd s)) p (fst s) = (Inr (), st)" "t = (st, Suc (snd s))"
    by (auto simp: PostgresAllocationPolicyRepository_def allocation_call_iff)
  have status: "al_approval_status p \<noteq> AllocationApprovalStatus.Approved"
    using approved_policy_refused(1)[of p T "schedule (snd s)" "fst s"] upsert(1) by auto
  from upsert(1) have st: "st = (fst s)\<lparr>at_policies := allocation_policy_row_of p
      # filter (\<lambda>r. \<not> same_policy_version (allocation_policy_row_of p) r) (at_policies (fst s))\<rparr>"
    by (rule upsert_policy_Inr) (simp add: status)
  have "\<not> lw_is_active (allocation_policy_row_of p)" using status by (simp add: allocation_policy_row_of_def)
  then show ?case
    using 4(1) status unfolding upsert(2) st
    by (auto simp: none_active_def stored_recommendation_def activated_def fun_eq_iff)
next
  case (5 s q e t)
  then have "allocation_call (\<lambda>faults. upsert_rebalance_recommendation T P faults q) schedule s = (Inl e, t)"
    by (simp add: PostgresAllocationPolicyRepository_def)
  from allocation_call_error[OF this upsert_rebalance_recommendation_def] show ?case using 5(1) by simp
next
  case (6 s q t)
  then obtain st where upsert: "upsert_rebalance_recommendation T P (schedule (snd s)) q (fst s) = (Inr (), st)" "t = (st, Suc (snd s))"
    by (auto simp: PostgresAllocationPolicyRepository_def allocation_call_iff)
  have st: "st = (fst s)\<lparr>at_recommendations := rebalance_row_of q
      # filter (\<lambda>r. bw_recommendation_id r \<noteq> bw_recommendation_id (rebalance_row_of q)) (at_recommendations (fst s))\<rparr>"
    using upsert(1) unfolding upsert_rebalance_recommendation_def transact_Inr and_then_Inr_iff by auto
  let ?k = "normalize_allocation_identifier (rb_recommendation_id q)"
  have k: "bw_recommendation_id (rebalance_row_of q) = ?k" by (simp add: rebalance_row_of_def)
  define v where "v = (case decode_rebalance_recommendation_row T P (rebalance_row_of q) of Inr q \<Rightarrow> Some q | Inl _ \<Rightarrow> None)"
  have "stored_recommendation T P t = (stored_recommendation T P s)(?k := v)"
    unfolding upsert(2) st by (auto simp: stored_recommendation_def fun_eq_iff k v_def find_without[where key = bw_recommendation_id])
  moreover have "\<forall>q'. v = Some q' \<longrightarrow> same_recommendation q' q"
    using decode_own_row by (auto simp: v_def same_recommendation_def split: sum.splits)
  moreover have "none_active t" using 6(1) unfolding upsert(2) st by (simp add: none_active_def)
  ultimately show ?case by blast
next
  case (7 s k rq t)
  have eq: "(case filter (\<lambda>r. bw_recommendation_id r = normalize_allocation_identifier k) xs of [] \<Rightarrow> None | x # _ \<Rightarrow> Some x)
      = find (\<lambda>r. bw_recommendation_id r = normalize_allocation_identifier k) xs" for xs
    by (simp add: find_filter)
  from 7 show ?case
    by (auto simp: PostgresAllocationPolicyRepository_def allocation_call_iff load_rebalance_recommendation_by_id_def
        and_then_Inr_iff first_row_def stored_recommendation_def find_filter split: list.splits)
next
  case (8 s k' rs t)
  then show ?case by (auto simp: PostgresAllocationPolicyRepository_def allocation_call_iff)
qed auto

section \<open>What the service guarantees\<close>

lemma memory_default_sound: "memory_allocation.sound InMemoryAllocationPolicyRepository_default"
  by (simp add: memory_allocation.sound_def memory_allocation.recommendations_backed_def memory_consistent_def
      memory_active_def InMemoryAllocationPolicyRepository_default_def)

text \<open>
  C22: Over any history of the service in memory, however the policy in force came about: as long
  as no approval reference is given and no proposal reuses the version in force, a policy stays in
  force and none of its four limits, the exposure target, the relative alpha weight and the two
  drift thresholds, ever rises.
\<close>

theorem unapproved_policies_never_raise:
  assumes "allocation_run T whole_ms show_f64 InMemoryAllocationPolicyRepository_port (\<lambda>_ _. True)
      InMemoryAllocationPolicyRepository_default s"
    and "memory_active_policy s key = Some policy"
    and "allocation_run T whole_ms show_f64 InMemoryAllocationPolicyRepository_port (unapproved memory_active_policy) s t"
  shows "\<exists>q. memory_active_policy t key = Some q
    \<and> f_le (al_target_exposure_pct_nav q) (al_target_exposure_pct_nav policy)
    \<and> f_le (al_target_relative_alpha_weight q) (al_target_relative_alpha_weight policy)
    \<and> f_le (al_exposure_drift_threshold_pct q) (al_exposure_drift_threshold_pct policy)
    \<and> f_le (al_relative_alpha_drift_threshold_pct q) (al_relative_alpha_drift_threshold_pct policy)"
proof -
  have s: "memory_allocation.sound s"
    using memory_allocation.run_sound[OF assms(1) memory_default_sound] .
  have consistent: "memory_allocation.sound u \<Longrightarrow> memory_consistent u" for u
    by (simp add: memory_allocation.sound_def memory_allocation.recommendations_backed_def)
  have run: "allocation_run T whole_ms show_f64 InMemoryAllocationPolicyRepository_port (unapproved memory_active) s t"
    using assms(3) s
  proof (induction rule: allocation_run.induct)
    case (step s t operation)
    have t: "memory_consistent t"
      using consistent[OF memory_allocation.run_sound[OF step.hyps(1) step.prems]] .
    have "unapproved memory_active operation t"
      using step.hyps(2) memory_active_eq[OF t] by (auto simp: unapproved_def split: allocation_operation.splits)
    then show ?case using step by (auto intro: allocation_run.step)
  qed (rule allocation_run.start)
  have t: "memory_consistent t" using consistent[OF memory_allocation.run_sound[OF assms(3) s]] .
  obtain q where "memory_active t (normalize_allocation_identifier key) = Some q" "not_above q policy"
    using memory_allocation.unapproved_run[OF run s] assms(2) memory_active_eq[OF consistent[OF s]] by metis
  then show ?thesis using memory_active_eq[OF t] by (auto simp: not_above_def)
qed

text \<open>
  C23: After any history of the service in memory, an execution succeeds only for a stored
  recommendation that is not denied, with a non-blank approval reference where it awaits approval;
  and from then on every recommendation stored as executed either needs no approval or carries a
  non-blank approval reference.
\<close>

theorem executions_are_backed:
  assumes "allocation_run T whole_ms show_f64 InMemoryAllocationPolicyRepository_port (\<lambda>_ _. True)
      InMemoryAllocationPolicyRepository_default s"
    and "execute_rebalance_recommendation T InMemoryAllocationPolicyRepository_port inp s = (Inr e, t)"
  shows "(\<exists>q. memory_recommendation s (xr_recommendation_id inp) = Some q
      \<and> rb_status q \<noteq> RebalanceRecommendationStatus.Denied
      \<and> (rb_approval_status q = AllocationApprovalStatus.Pending \<longrightarrow> some_text (xr_approval_reference inp)))
    \<and> (\<forall>k q. memory_recommendation t k = Some q \<longrightarrow> rb_status q = RebalanceRecommendationStatus.Executed \<longrightarrow>
      rb_approval_status q = AllocationApprovalStatus.NotRequired \<or> some_text (rb_approval_reference q))"
proof -
  have "memory_allocation.recommendations_backed s"
    using memory_allocation.run_sound[OF assms(1) memory_default_sound] by (simp add: memory_allocation.sound_def)
  from wpD[OF memory_allocation.execute_keeps[OF this] assms(2)] show ?thesis
    by (auto simp: memory_allocation.keeps_def memory_allocation.recommendations_backed_def memory_recommendation_def execution_backed_def)
qed

text \<open>
  Over the tables no policy ever comes into force, and with it no drift is ever evaluated: the
  migration refuses the state of an approved policy.
\<close>

lemma tables_never_evaluate:
  assumes "allocation_run T whole_ms show_f64 (PostgresAllocationPolicyRepository T P schedule) (\<lambda>_ _. True)
      (empty_allocation_store, 0) s"
  shows "isl (fst (service_evaluate_rebalance_drift T whole_ms show_f64 (PostgresAllocationPolicyRepository T P schedule) inp s))"
proof -
  have "postgres_allocation.sound T P (empty_allocation_store, 0)"
    by (simp add: postgres_allocation.sound_def postgres_allocation.recommendations_backed_def none_active_def
        stored_recommendation_def empty_allocation_store_def)
  from postgres_allocation.run_sound[OF assms this]
  have s: "postgres_allocation.recommendations_backed T P s" by (simp add: postgres_allocation.sound_def)
  have none: "wp (run_then (pure_result (map_err allocation_invalid (evaluate_rebalance_drift T whole_ms None a b c d)))
      (after_evaluation T show_f64 repo inp None)) u (\<lambda>r v. isl r)" for a b c d repo u
    by (cases "evaluate_rebalance_drift T whole_ms None a b c d") (auto simp: wp_then after_evaluation_def dest: evaluate_drift_None)
  have "wp (service_evaluate_rebalance_drift T whole_ms show_f64 (PostgresAllocationPolicyRepository T P schedule) inp) s
      (\<lambda>r t. isl r)"
    unfolding service_evaluate_rebalance_drift_def
    using s by (auto simp: wp_then[of "pure_result (allocation_input_checks _ _)"] wp_then[of "alr_load_active_policy _ _"]
        none split: sum.split intro!: postgres_allocation.load_active_wp)
  then show ?thesis by (rule wpD) (rule prod.collapse[symmetric])
qed

section \<open>Concrete runs\<close>

definition demo_proposal :: "int \<Rightarrow> rat \<Rightarrow> UpsertAllocationPolicyInput" where
  "demo_proposal version exposure = \<lparr>ua_actor_id = ''ops-1'', ua_actor_role = ''operational_control'', ua_policy_key = ''core'',
     ua_version = version, ua_portfolio_scope_id = ''portfolio'', ua_target_exposure_pct_nav = Fin exposure,
     ua_target_relative_alpha_weight = Fin 1, ua_exposure_drift_threshold_pct = Fin 10,
     ua_relative_alpha_drift_threshold_pct = Fin 15, ua_advanced_parameters = JObject [], ua_correlation_id = ''corr-1'',
     ua_updated_at_utc = ''2026-04-06T00:00:00Z'', ua_approval_reference = None\<rparr>"

definition demo_drift :: EvaluateRebalanceDriftInput where
  "demo_drift = \<lparr>ed_actor_id = ''ops-1'', ed_actor_role = ''operational_control'', ed_policy_key = ''core'',
     ed_exposure_drift_pct = Fin 12, ed_relative_alpha_drift_pct = Fin 3, ed_observed_at_utc = ''2026-04-06T00:00:00Z'',
     ed_stale_after_seconds = Fin 60, ed_correlation_id = ''corr-2'', ed_require_execution = False, ed_approval_reference = None\<rparr>"

definition demo_execution_of :: "string \<Rightarrow> ExecuteRebalanceRecommendationInput" where
  "demo_execution_of i = \<lparr>xr_actor_id = ''ops-1'', xr_actor_role = ''operational_control'', xr_recommendation_id = i,
     xr_correlation_id = ''corr-3'', xr_executed_at_utc = ''2026-04-06T00:00:01Z'', xr_approval_reference = None\<rparr>"

definition demo_show :: "f64 \<Rightarrow> string" where
  "demo_show x = ''0''"

definition demo_allocations :: "allocation_operation list \<Rightarrow> InMemoryAllocationPolicyRepository" where
  "demo_allocations operations = foldl (\<lambda>s operation. run_allocation demo_time demo_whole_ms demo_show
     InMemoryAllocationPolicyRepository_port operation s) InMemoryAllocationPolicyRepository_default operations"

lemma demo_allocations_run:
  "allocation_run demo_time demo_whole_ms demo_show InMemoryAllocationPolicyRepository_port (\<lambda>_ _. True)
     InMemoryAllocationPolicyRepository_default (demo_allocations operations)"
proof (induction operations rule: rev_induct)
  case Nil
  then show ?case by (simp add: demo_allocations_def allocation_run.start)
next
  case (snoc operation operations)
  have "demo_allocations (operations @ [operation]) = run_allocation demo_time demo_whole_ms demo_show
      InMemoryAllocationPolicyRepository_port operation (demo_allocations operations)"
    by (simp add: demo_allocations_def)
  then show ?case using allocation_run.step[OF snoc, of operation] by simp
qed

abbreviation "demo_first \<equiv> UpsertPolicy (demo_proposal 1 40)"

abbreviation demo_step :: "allocation_operation \<Rightarrow> InMemoryAllocationPolicyRepository \<Rightarrow> InMemoryAllocationPolicyRepository" where
  "demo_step \<equiv> run_allocation demo_time demo_whole_ms demo_show InMemoryAllocationPolicyRepository_port"

lemma demo_allocations_snoc: "demo_allocations (operations @ [operation]) = demo_step operation (demo_allocations operations)"
  by (simp add: demo_allocations_def)

definition demo_policies :: "AllocationPolicyVersion \<Rightarrow> InMemoryAllocationPolicyRepository" where
  "demo_policies p = \<lparr>ml_policies = [((''core'', al_version p), p)], ml_recommendations = []\<rparr>"

definition demo_active :: InMemoryAllocationPolicyRepository where
  "demo_active = demo_policies (decided_policy None (demo_proposal 1 40))"

definition demo_withdrawn :: InMemoryAllocationPolicyRepository where
  "demo_withdrawn = demo_policies (decided_policy (Some (decided_policy None (demo_proposal 1 40))) (demo_proposal 1 60))"

lemma demo_active: "demo_allocations [demo_first] = demo_active"
  by code_simp

lemma demo_withdrawn: "demo_step (UpsertPolicy (demo_proposal 1 60)) demo_active = demo_withdrawn"
  by code_simp

text \<open>
  A proposal that needs approval but reuses the version in force takes that policy out of force;
  the next proposal then counts as the first one and needs no approval.
\<close>

lemma raise_by_reusing_the_version:
  "map_option al_target_exposure_pct_nav (memory_active_policy (demo_allocations [demo_first]) ''core'') = Some (Fin 40)"
  "memory_active_policy (demo_allocations [demo_first, UpsertPolicy (demo_proposal 1 60)]) ''core'' = None"
  "map_option al_target_exposure_pct_nav (memory_active_policy
     (demo_allocations [demo_first, UpsertPolicy (demo_proposal 1 60), UpsertPolicy (demo_proposal 2 90)]) ''core'') = Some (Fin 90)"
proof -
  have two: "demo_allocations [demo_first, UpsertPolicy (demo_proposal 1 60)] = demo_withdrawn"
    using demo_allocations_snoc[of "[demo_first]"] by (simp add: demo_active demo_withdrawn del: run_allocation.simps)
  have three: "demo_allocations [demo_first, UpsertPolicy (demo_proposal 1 60), UpsertPolicy (demo_proposal 2 90)]
      = demo_step (UpsertPolicy (demo_proposal 2 90)) demo_withdrawn"
    using demo_allocations_snoc[of "[demo_first, UpsertPolicy (demo_proposal 1 60)]"] by (simp add: two del: run_allocation.simps)
  show "map_option al_target_exposure_pct_nav (memory_active_policy (demo_allocations [demo_first]) ''core'') = Some (Fin 40)"
    unfolding demo_active by code_simp
  show "memory_active_policy (demo_allocations [demo_first, UpsertPolicy (demo_proposal 1 60)]) ''core'' = None"
    unfolding two by code_simp
  show "map_option al_target_exposure_pct_nav (memory_active_policy
      (demo_allocations [demo_first, UpsertPolicy (demo_proposal 1 60), UpsertPolicy (demo_proposal 2 90)]) ''core'') = Some (Fin 90)"
    unfolding three by code_simp
qed

text \<open>An executed recommendation can be executed again, and a repeated evaluation reopens it.\<close>

definition demo_executed :: InMemoryAllocationPolicyRepository where
  "demo_executed = demo_allocations [demo_first, EvaluateDrift demo_drift, ExecuteRecommendation (demo_execution_of ''reco::core::1::corr-2'')]"

lemma demo_executed: "demo_executed = demo_step (ExecuteRecommendation (demo_execution_of ''reco::core::1::corr-2''))
    (demo_step (EvaluateDrift demo_drift) demo_active)"
  using demo_allocations_snoc[of "[demo_first, EvaluateDrift demo_drift]"] demo_allocations_snoc[of "[demo_first]"]
  by (simp add: demo_executed_def demo_active del: run_allocation.simps)

lemma executed_again:
  "map_option rb_status (memory_recommendation demo_executed ''reco::core::1::corr-2'') = Some RebalanceRecommendationStatus.Executed"
  "\<not> isl (fst (execute_rebalance_recommendation demo_time InMemoryAllocationPolicyRepository_port
     (demo_execution_of ''reco::core::1::corr-2'') demo_executed))"
  "map_option rb_status (memory_recommendation (demo_step (EvaluateDrift demo_drift) demo_executed) ''reco::core::1::corr-2'')
   = Some RebalanceRecommendationStatus.Proposed"
  unfolding demo_executed
  subgoal by code_simp
  subgoal by code_simp
  subgoal by code_simp
  done

lemma unapproved_policies_never_raise_witness:
  "map_option al_target_exposure_pct_nav (memory_active_policy (demo_allocations [demo_first, UpsertPolicy (demo_proposal 2 30)]) ''core'')
     = Some (Fin 30)
   \<and> (\<exists>q. memory_active_policy (demo_allocations [demo_first, UpsertPolicy (demo_proposal 2 30)]) ''core'' = Some q
        \<and> f_le (al_target_exposure_pct_nav q) (Fin 40))"
proof -
  let ?s = "demo_allocations [demo_first]" and ?t = "demo_allocations [demo_first, UpsertPolicy (demo_proposal 2 30)]"
  have "map_option (\<lambda>p. (al_target_exposure_pct_nav p, al_version p)) (memory_active_policy ?s ''core'') = Some (Fin 40, 1)"
    unfolding demo_active by code_simp
  then obtain p where p: "memory_active_policy ?s ''core'' = Some p" "al_target_exposure_pct_nav p = Fin 40" "al_version p = 1"
    by auto
  have "normalize_allocation_identifier ''core'' = ''core''" by code_simp
  then have allowed: "unapproved memory_active_policy (UpsertPolicy (demo_proposal 2 30)) ?s"
    using p by (simp add: unapproved_def demo_proposal_def[of 2])
  have t: "?t = demo_step (UpsertPolicy (demo_proposal 2 30)) ?s"
    by (simp add: demo_allocations_def del: run_allocation.simps)
  have "allocation_run demo_time demo_whole_ms demo_show InMemoryAllocationPolicyRepository_port
      (unapproved memory_active_policy) ?s ?t"
    unfolding t by (rule allocation_run.step[OF allocation_run.start]) (rule allowed)
  from unapproved_policies_never_raise[OF demo_allocations_run p(1) this] p(2)
  have "\<exists>q. memory_active_policy ?t ''core'' = Some q \<and> f_le (al_target_exposure_pct_nav q) (Fin 40)" by auto
  moreover have "map_option al_target_exposure_pct_nav (memory_active_policy ?t ''core'') = Some (Fin 30)"
    unfolding t demo_active by code_simp
  ultimately show ?thesis by blast
qed

lemma executions_are_backed_witness:
  "\<exists>e t q. execute_rebalance_recommendation demo_time InMemoryAllocationPolicyRepository_port
      (demo_execution_of ''reco::core::1::corr-2'') demo_executed = (Inr e, t)
    \<and> memory_recommendation demo_executed ''reco::core::1::corr-2'' = Some q \<and> rb_status q \<noteq> RebalanceRecommendationStatus.Denied"
proof -
  obtain e t where run: "execute_rebalance_recommendation demo_time InMemoryAllocationPolicyRepository_port
      (demo_execution_of ''reco::core::1::corr-2'') demo_executed = (Inr e, t)"
    using executed_again(2) by (metis is_okE prod.collapse)
  have "xr_recommendation_id (demo_execution_of ''reco::core::1::corr-2'') = ''reco::core::1::corr-2''"
    by (simp add: demo_execution_of_def)
  then show ?thesis
    using executions_are_backed[OF demo_allocations_run run[unfolded demo_executed_def]] run unfolding demo_executed_def by metis
qed

end
