(* ===== verification/RebalanceReadModel.thy ===== *)
theory RebalanceReadModel
  imports AllocationSafety
begin

text \<open>
  The rebalance read model of \<open>services/portfolio-engine/src/allocation/mod.rs\<close>, which evaluates
  the drift a second time, and its agreement with what the allocation service answers.
\<close>

section \<open>The read model\<close>

record AllocationDriftObservation =
  ao_policy_key :: string
  ao_exposure_drift_pct :: f64
  ao_relative_alpha_drift_pct :: f64
  ao_observed_at_utc :: string
  ao_stale_after_seconds :: f64
  ao_correlation_id :: string
  ao_require_execution :: bool
  ao_approval_reference :: "string option"

record RebalanceRecommendationReadModel =
  rm_recommendation_id :: string
  rm_policy_key :: string
  rm_policy_version :: int
  rm_recommendation_status :: string
  rm_approval_status :: string
  rm_action_type :: string
  rm_rationale :: string
  rm_recommended_next_action :: string
  rm_reason_code :: string
  rm_correlation_id :: string
  rm_observed_at_utc :: string
  rm_approval_reference :: "string option"
  rm_evidence :: json

definition evaluate_drift_boundaries ::
    "time_crate \<Rightarrow> (int \<Rightarrow> int) \<Rightarrow> AllocationPolicyVersion option \<Rightarrow> AllocationDriftObservation
      \<Rightarrow> AllocationContractError + RebalanceDriftEvaluation" where
  "evaluate_drift_boundaries T whole_ms policy observation =
     evaluate_rebalance_drift T whole_ms policy (ao_exposure_drift_pct observation) (ao_relative_alpha_drift_pct observation)
       (ao_observed_at_utc observation) (ao_stale_after_seconds observation)"

definition read_model_evidence ::
    "AllocationDriftObservation \<Rightarrow> AllocationPolicyVersion \<Rightarrow> RebalanceDriftEvaluation \<Rightarrow> json" where
  "read_model_evidence observation policy evaluation =
     JObject [(''exceeded_dimensions'', JArray (map JString (de_exceeded_dimensions evaluation))),
       (''policy_key'', JString (al_policy_key policy)), (''policy_version'', JInt (al_version policy)),
       (''require_execution'', JBool (ao_require_execution observation)), (''thresholds'', drift_thresholds evaluation)]"

definition read_model_decision ::
    "bool \<Rightarrow> string option \<Rightarrow> RebalanceRecommendationStatus \<times> AllocationApprovalStatus \<times> RebalanceReasonCode \<times> string" where
  "read_model_decision require_execution approval_reference =
     (if require_execution \<and> approval_reference = None then
        (RebalanceRecommendationStatus.PendingApproval, AllocationApprovalStatus.Pending, RebalanceReasonCode.ApprovalRequired,
         ''Complete dual approval for rebalance execution, then execute through control-api.'')
      else if require_execution then
        (RebalanceRecommendationStatus.Approved, AllocationApprovalStatus.Approved, RebalanceReasonCode.RecommendationApproved,
         ''Execute the approved rebalance recommendation and verify post-trade drift contraction.'')
      else
        (RebalanceRecommendationStatus.Proposed, AllocationApprovalStatus.NotRequired, RebalanceReasonCode.RecommendationProposed,
         ''Review recommendation rationale and execute rebalance if portfolio intent remains valid.''))"

definition read_model ::
    "AllocationDriftObservation \<Rightarrow> AllocationPolicyVersion \<Rightarrow> RebalanceDriftEvaluation
      \<Rightarrow> RebalanceRecommendationStatus \<times> AllocationApprovalStatus \<times> RebalanceReasonCode \<times> string
      \<Rightarrow> string \<Rightarrow> string \<Rightarrow> string option \<Rightarrow> RebalanceRecommendationReadModel" where
  "read_model observation policy evaluation decision action_type rationale approval_reference =
     (let (status, approval_status, reason_code, recommended_next_action) = decision
      in \<lparr>rm_recommendation_id = build_recommendation_id (ao_policy_key observation) (al_version policy) (ao_correlation_id observation),
          rm_policy_key = normalize_allocation_identifier (ao_policy_key observation), rm_policy_version = al_version policy,
          rm_recommendation_status = RebalanceRecommendationStatus_as_str status,
          rm_approval_status = AllocationApprovalStatus_as_str approval_status, rm_action_type = action_type,
          rm_rationale = rationale, rm_recommended_next_action = recommended_next_action,
          rm_reason_code = RebalanceReasonCode_code reason_code, rm_correlation_id = ao_correlation_id observation,
          rm_observed_at_utc = ao_observed_at_utc observation, rm_approval_reference = approval_reference,
          rm_evidence = read_model_evidence observation policy evaluation\<rparr>)"

definition build_rebalance_recommendation_read_model ::
    "time_crate \<Rightarrow> (int \<Rightarrow> int) \<Rightarrow> (f64 \<Rightarrow> string) \<Rightarrow> AllocationPolicyVersion option \<Rightarrow> AllocationDriftObservation
      \<Rightarrow> AllocationContractError + RebalanceRecommendationReadModel" where
  "build_rebalance_recommendation_read_model T whole_ms show_f64 policy observation =
     and_then (evaluate_drift_boundaries T whole_ms policy observation) (\<lambda>evaluation.
     if de_outcome evaluation = DriftEvaluationOutcome.FailClosed then
       Inl (fail_closed_error evaluation
         ''rebalance recommendation evaluation failed closed due to unavailable or stale policy state'')
     else case policy of
       None \<Rightarrow> Inl (contract_error_of (RebalanceReasonCode_code RebalanceReasonCode.PolicyStateUnavailable)
         ''allocation policy state is unavailable'' [])
     | Some policy \<Rightarrow>
       if de_outcome evaluation = DriftEvaluationOutcome.InBounds then
         Inr (read_model observation policy evaluation
           (RebalanceRecommendationStatus.Denied, AllocationApprovalStatus.NotRequired, RebalanceReasonCode.InBounds,
            ''Continue monitoring drift telemetry; no rebalance action is required.'')
           ''recommend'' ''Drift remains within configured thresholds; no rebalance recommendation generated.'' None)
       else
         Inr (read_model observation policy evaluation
           (read_model_decision (ao_require_execution observation) (ao_approval_reference observation))
           (if ao_require_execution observation then ''execute'' else ''recommend'')
           (drift_rationale show_f64 (ao_exposure_drift_pct observation) (ao_relative_alpha_drift_pct observation) evaluation)
           (ao_approval_reference observation)))"

section \<open>Agreement with the service\<close>

definition observation_of :: "EvaluateRebalanceDriftInput \<Rightarrow> AllocationDriftObservation" where
  "observation_of inp =
     \<lparr>ao_policy_key = ed_policy_key inp, ao_exposure_drift_pct = ed_exposure_drift_pct inp,
      ao_relative_alpha_drift_pct = ed_relative_alpha_drift_pct inp, ao_observed_at_utc = ed_observed_at_utc inp,
      ao_stale_after_seconds = ed_stale_after_seconds inp, ao_correlation_id = ed_correlation_id inp,
      ao_require_execution = ed_require_execution inp, ao_approval_reference = ed_approval_reference inp\<rparr>"

definition agree :: "RebalanceRecommendationReadModel \<Rightarrow> RebalanceRecommendationEvidence \<Rightarrow> bool" where
  "agree m e \<longleftrightarrow> rm_recommendation_id m = re_recommendation_id e \<and> rm_policy_version m = re_policy_version e
     \<and> rm_recommendation_status m = re_status e \<and> rm_approval_status m = re_approval_status e
     \<and> rm_action_type m = re_action_type e \<and> rm_rationale m = re_rationale e \<and> rm_reason_code m = re_reason_code e
     \<and> rm_correlation_id m = re_correlation_id e \<and> rm_observed_at_utc m = re_created_at_utc e
     \<and> rm_approval_reference m = re_approval_reference e"

lemma agree_in_bounds:
  assumes "normalize_allocation_identifier (al_policy_key p) = normalize_allocation_identifier (ed_policy_key inp)"
  shows "agree (read_model (observation_of inp) p ev
      (RebalanceRecommendationStatus.Denied, AllocationApprovalStatus.NotRequired, RebalanceReasonCode.InBounds, hint)
      ''recommend'' ''Drift remains within configured thresholds; no rebalance recommendation generated.'' None) (in_bounds_evidence inp p)"
  using assms by (simp add: agree_def read_model_def in_bounds_evidence_def observation_of_def build_recommendation_id_def
      del: RebalanceReasonCode_code.simps)

lemma agree_recommendation:
  assumes "normalize_allocation_identifier (al_policy_key p) = normalize_allocation_identifier (ed_policy_key inp)"
  shows "agree (read_model (observation_of inp) p ev (read_model_decision (ed_require_execution inp) (ed_approval_reference inp))
      (if ed_require_execution inp then ''execute'' else ''recommend'')
      (drift_rationale show_f64 (ed_exposure_drift_pct inp) (ed_relative_alpha_drift_pct inp) ev) (ed_approval_reference inp))
    (recommendation_evidence hint (drift_recommendation show_f64 inp p ev))"
  using assms
  by (simp add: agree_def read_model_def recommendation_evidence_def drift_recommendation_def observation_of_def
      build_recommendation_id_def read_model_decision_def recommendation_decision_def del: RebalanceReasonCode_code.simps)

lemma after_evaluation_agrees:
  assumes "evaluate_rebalance_drift T whole_ms policy (ed_exposure_drift_pct inp) (ed_relative_alpha_drift_pct inp)
      (ed_observed_at_utc inp) (ed_stale_after_seconds inp) = Inr ev"
    and "\<And>p. policy = Some p \<Longrightarrow> normalize_allocation_identifier (al_policy_key p) = normalize_allocation_identifier (ed_policy_key inp)"
  shows "wp (after_evaluation T show_f64 repo inp policy ev) s (\<lambda>r t. \<forall>e. r = Inr e \<longrightarrow>
    (\<exists>m. build_rebalance_recommendation_read_model T whole_ms show_f64 policy (observation_of inp) = Inr m \<and> agree m e))"
proof -
  have ev: "evaluate_drift_boundaries T whole_ms policy (observation_of inp) = Inr ev"
    using assms(1) by (simp add: evaluate_drift_boundaries_def observation_of_def)
  show ?thesis
  proof (cases "de_outcome ev = DriftEvaluationOutcome.FailClosed \<or> policy = None")
    case True
    then show ?thesis by (auto simp: after_evaluation_def)
  next
    case False
    then obtain p where p: "policy = Some p" by blast
    note key = assms(2)[OF p]
    show ?thesis
    proof (cases "de_outcome ev = DriftEvaluationOutcome.InBounds")
      case True
      then show ?thesis
        using agree_in_bounds[OF key] by (simp add: after_evaluation_def p build_rebalance_recommendation_read_model_def ev[unfolded p])
    next
      case out: False
      have built: "build_rebalance_recommendation_read_model T whole_ms show_f64 policy (observation_of inp)
          = Inr (read_model (observation_of inp) p ev (read_model_decision (ed_require_execution inp) (ed_approval_reference inp))
              (if ed_require_execution inp then ''execute'' else ''recommend'')
              (drift_rationale show_f64 (ed_exposure_drift_pct inp) (ed_relative_alpha_drift_pct inp) ev) (ed_approval_reference inp))"
        using False out by (simp add: build_rebalance_recommendation_read_model_def ev p[symmetric]) (simp add: p observation_of_def)
      show ?thesis
      proof (rule wpI, intro allI impI)
        fix r t e
        assume "after_evaluation T show_f64 repo inp policy ev s = (r, t)" "r = Inr e"
        then obtain hint where "e = recommendation_evidence hint (drift_recommendation show_f64 inp p ev)"
          using False out by (auto simp: after_evaluation_def p Let_def run_then_iff split: prod.splits)
        then show "\<exists>m. build_rebalance_recommendation_read_model T whole_ms show_f64 policy (observation_of inp) = Inr m \<and> agree m e"
          using agree_recommendation[OF key] built by blast
      qed
    qed
  qed
qed

text \<open>
  C33: After any history of the allocation service in memory, whatever evidence the service answers
  to a drift evaluation, the read model built from the policy in force and the same observation
  exists and agrees with it in identity, version, status, approval, action, rationale, reason,
  correlation and time.
\<close>

theorem read_model_agrees_with_service:
  assumes "allocation_run T whole_ms show_f64 InMemoryAllocationPolicyRepository_port (\<lambda>_ _. True)
      InMemoryAllocationPolicyRepository_default s"
    and "service_evaluate_rebalance_drift T whole_ms show_f64 InMemoryAllocationPolicyRepository_port inp s = (Inr e, t)"
  shows "\<exists>m. build_rebalance_recommendation_read_model T whole_ms show_f64
      (memory_active_policy s (ed_policy_key inp)) (observation_of inp) = Inr m \<and> agree m e"
proof -
  have backed: "memory_allocation.recommendations_backed s"
    using memory_allocation.run_sound[OF assms(1) memory_default_sound] by (simp add: memory_allocation.sound_def)
  then have s: "memory_consistent s" by (simp add: memory_allocation.recommendations_backed_def)
  obtain policy where policy: "policy = memory_active s (normalize_allocation_identifier (ed_policy_key inp))" by blast
  obtain Q where Q: "Q = (\<lambda>(r :: AllocationPolicyServiceError + RebalanceRecommendationEvidence) (t :: InMemoryAllocationPolicyRepository).
      \<forall>e. r = Inr e \<longrightarrow> (\<exists>m. build_rebalance_recommendation_read_model T whole_ms show_f64 policy (observation_of inp) = Inr m
        \<and> agree m e))" by blast
  have error: "Q (Inl e) t" for e t by (simp add: Q)
  have loaded: "wp (run_then (pure_result (map_err allocation_invalid (evaluate_rebalance_drift T whole_ms policy
      (ed_exposure_drift_pct inp) (ed_relative_alpha_drift_pct inp) (ed_observed_at_utc inp) (ed_stale_after_seconds inp))))
      (after_evaluation T show_f64 repo inp policy)) t Q" for repo t
  proof -
    have "wp (after_evaluation T show_f64 repo inp policy ev) t Q"
      if "evaluate_rebalance_drift T whole_ms policy (ed_exposure_drift_pct inp) (ed_relative_alpha_drift_pct inp)
        (ed_observed_at_utc inp) (ed_stale_after_seconds inp) = Inr ev" for ev
      unfolding Q using that memory_active_named[OF s] by (intro after_evaluation_agrees) (auto simp: policy)
    then show ?thesis by (cases "evaluate_rebalance_drift T whole_ms policy (ed_exposure_drift_pct inp) (ed_relative_alpha_drift_pct inp) (ed_observed_at_utc inp) (ed_stale_after_seconds inp)") (simp_all add: wp_then error)
  qed
  have "wp (service_evaluate_rebalance_drift T whole_ms show_f64 InMemoryAllocationPolicyRepository_port inp) s Q"
    unfolding service_evaluate_rebalance_drift_def
    using backed by (auto simp: wp_then[of "pure_result (allocation_input_checks _ _)"] wp_then[of "alr_load_active_policy _ _"]
        error loaded policy[symmetric] split: sum.split intro!: memory_allocation.load_active_wp)
  from wpD[OF this assms(2)] show ?thesis by (simp add: Q policy memory_active_eq[OF s])
qed

lemma read_model_agrees_with_service_witness:
  "\<exists>e t m. service_evaluate_rebalance_drift demo_time demo_whole_ms demo_show InMemoryAllocationPolicyRepository_port
      demo_drift (demo_allocations [demo_first]) = (Inr e, t)
    \<and> build_rebalance_recommendation_read_model demo_time demo_whole_ms demo_show
        (memory_active_policy (demo_allocations [demo_first]) ''core'') (observation_of demo_drift) = Inr m
    \<and> agree m e"
proof -
  let ?run = "service_evaluate_rebalance_drift demo_time demo_whole_ms demo_show InMemoryAllocationPolicyRepository_port
      demo_drift (demo_allocations [demo_first])"
  have "\<not> isl (fst ?run)" by code_simp
  then obtain e t where run: "?run = (Inr e, t)" by (metis is_okE prod.collapse)
  have "ed_policy_key demo_drift = ''core''" by (simp add: demo_drift_def)
  then show ?thesis using read_model_agrees_with_service[OF demo_allocations_run run] run by metis
qed

section \<open>Blank references\<close>

text \<open>
  The read model calls a rebalance approved as soon as an approval reference is present; the
  contract refuses one that is blank.
\<close>

lemma blank_reference_reads_as_approved:
  "read_model_decision True (Some []) = (RebalanceRecommendationStatus.Approved, AllocationApprovalStatus.Approved,
     RebalanceReasonCode.RecommendationApproved,
     ''Execute the approved rebalance recommendation and verify post-trade drift contraction.'')"
  "rb_approval_status r = AllocationApprovalStatus.Approved \<Longrightarrow> rb_approval_reference r = Some []
     \<Longrightarrow> validate_rebalance_recommendation T r \<noteq> Inr ()"
  subgoal by (simp add: read_model_decision_def)
  subgoal using valid_recommendation_reference[of T r] by (auto simp: some_text_def)
  done

end
