(* ===== verification/MarketStreamStore.thy ===== *)
theory MarketStreamStore
  imports MarketStream Database Json
begin

text \<open>
  The market stream tables of \<open>crates/persistence/src/postgres/market_stream.rs\<close>: accepted ticks
  and quarantined events in \<open>market_ticks\<close>, and the health log. The keys and the check of the
  cluster are those of the migration; what else it checks the validators have checked before.
\<close>

section \<open>Errors\<close>

type_synonym MarketStreamPersistenceError = contract_error

definition MarketStreamPersistenceError_invalid_payload ::
    "string \<Rightarrow> MarketStreamValidationIssue list \<Rightarrow> MarketStreamPersistenceError" where
  "MarketStreamPersistenceError_invalid_payload message field_errors =
     contract_error_of (MarketStreamReasonCode_code MarketStreamReasonCode.InvalidPayload) message field_errors"

definition MarketStreamPersistenceError_query_failure :: "string \<Rightarrow> constraint_fault \<Rightarrow> MarketStreamPersistenceError" where
  "MarketStreamPersistenceError_query_failure operation error =
     contract_error_of ''market_stream_query_failed'' (operation @ '' failed: '' @ df_text error) []"

definition MarketStreamPersistenceError_constraint_violation :: "string \<Rightarrow> constraint_fault \<Rightarrow> MarketStreamPersistenceError" where
  "MarketStreamPersistenceError_constraint_violation operation error =
     contract_error_of ''market_stream_constraint_violation'' (operation @ '' rejected by constraint: '' @ df_text error) []"

definition map_market_contract_error :: "MarketStreamContractError \<Rightarrow> MarketStreamPersistenceError" where
  "map_market_contract_error error =
     MarketStreamPersistenceError_invalid_payload (ce_message error) (ce_field_errors error)"

definition classify_market_query_error :: "string \<Rightarrow> constraint_fault \<Rightarrow> MarketStreamPersistenceError" where
  "classify_market_query_error operation error =
     (if is_constraint_error error then MarketStreamPersistenceError_constraint_violation operation error
      else MarketStreamPersistenceError_query_failure operation error)"

definition validate_market_store_non_empty :: "string \<Rightarrow> string \<Rightarrow> MarketStreamPersistenceError + unit" where
  "validate_market_store_non_empty field value =
     (if blank value then Inl (MarketStreamPersistenceError_invalid_payload (field @ '' cannot be blank'') [])
      else Inr ())"

section \<open>Tables\<close>

record market_tick_row =
  mt_tick_id :: string
  mt_market_id :: "string option"
  mt_asset_id :: "string option"
  mt_cluster_id :: "string option"
  mt_best_bid :: "f64 option"
  mt_best_ask :: "f64 option"
  mt_top_bid_depth :: json
  mt_top_ask_depth :: json
  mt_last_trade_price :: "f64 option"
  mt_tick_size :: "f64 option"
  mt_market_status :: "string option"
  mt_ingest_status :: string
  mt_quarantine_reason_code :: "string option"
  mt_raw_payload :: json
  mt_ingestion_latency_seconds :: f64
  mt_correlation_id :: string
  mt_observed_at_utc :: string
  mt_ingested_at_utc :: string

record market_health_row =
  mh_health_event_id :: string
  mh_stream_name :: string
  mh_health_status :: string
  mh_reason_code :: string
  mh_backlog_seconds :: f64
  mh_sustained_backlog_seconds :: f64
  mh_heartbeat_gap_seconds :: f64
  mh_correlation_id :: string
  mh_observed_at_utc :: string
  mh_evidence :: json

record market_store =
  mk_ticks :: "market_tick_row list" \<comment> \<open>newest first\<close>
  mk_health :: "market_health_row list" \<comment> \<open>newest first\<close>

definition empty_market_store :: market_store where
  "empty_market_store = \<lparr>mk_ticks = [], mk_health = []\<rparr>"

definition depth_json :: "MarketDepthLevel list \<Rightarrow> json" where
  "depth_json levels =
     JArray (map (\<lambda>level. JObject [(''price'', json_f64 (dl_price level)), (''size'', json_f64 (dl_size level))]) levels)"

definition tick_payload :: "MarketStreamTick \<Rightarrow> json" where
  "tick_payload tick = JObject
     [(''asset_id'', JString (tk_asset_id tick)), (''best_ask'', json_f64 (tk_best_ask tick)),
      (''best_bid'', json_f64 (tk_best_bid tick)), (''cluster_id'', JString (tk_cluster_id tick)),
      (''last_trade_price'', json_f64 (tk_last_trade_price tick)), (''market_id'', JString (tk_market_id tick)),
      (''market_status'', JString (MarketStatus_as_str (tk_market_status tick))),
      (''tick_size'', json_f64 (tk_tick_size tick)), (''top_ask_depth'', depth_json (tk_top_ask_depth tick)),
      (''top_bid_depth'', depth_json (tk_top_bid_depth tick))]"

definition accepted_tick_row :: "MarketStreamTick \<Rightarrow> market_tick_row" where
  "accepted_tick_row tick =
     \<lparr>mt_tick_id = tk_tick_id tick, mt_market_id = Some (tk_market_id tick), mt_asset_id = Some (tk_asset_id tick),
      mt_cluster_id = Some (normalize (tk_cluster_id tick)), mt_best_bid = Some (tk_best_bid tick),
      mt_best_ask = Some (tk_best_ask tick), mt_top_bid_depth = depth_json (tk_top_bid_depth tick),
      mt_top_ask_depth = depth_json (tk_top_ask_depth tick), mt_last_trade_price = Some (tk_last_trade_price tick),
      mt_tick_size = Some (tk_tick_size tick), mt_market_status = Some (MarketStatus_as_str (tk_market_status tick)),
      mt_ingest_status = ''accepted'', mt_quarantine_reason_code = None, mt_raw_payload = tick_payload tick,
      mt_ingestion_latency_seconds = tk_ingestion_latency_seconds tick, mt_correlation_id = tk_correlation_id tick,
      mt_observed_at_utc = tk_observed_at_utc tick, mt_ingested_at_utc = tk_ingested_at_utc tick\<rparr>"

definition quarantined_row :: "json QuarantinedMarketEvent \<Rightarrow> market_tick_row" where
  "quarantined_row event =
     \<lparr>mt_tick_id = qe_event_id event, mt_market_id = None, mt_asset_id = None, mt_cluster_id = None,
      mt_best_bid = None, mt_best_ask = None, mt_top_bid_depth = JArray [], mt_top_ask_depth = JArray [],
      mt_last_trade_price = None, mt_tick_size = None, mt_market_status = None,
      mt_ingest_status = ''quarantined'', mt_quarantine_reason_code = Some (qe_reason_code event),
      mt_raw_payload = qe_raw_payload event, mt_ingestion_latency_seconds = qe_ingestion_latency_seconds event,
      mt_correlation_id = qe_correlation_id event, mt_observed_at_utc = qe_observed_at_utc event,
      mt_ingested_at_utc = qe_quarantined_at_utc event\<rparr>"

definition market_health_row_of :: "MarketStreamHealth \<Rightarrow> market_health_row" where
  "market_health_row_of health =
     \<lparr>mh_health_event_id = sh_health_event_id health, mh_stream_name = sh_stream_name health,
      mh_health_status = MarketStreamHealthStatus_as_str (sh_status health), mh_reason_code = sh_reason_code health,
      mh_backlog_seconds = sh_backlog_seconds health,
      mh_sustained_backlog_seconds = sh_sustained_backlog_seconds health,
      mh_heartbeat_gap_seconds = sh_heartbeat_gap_seconds health, mh_correlation_id = sh_correlation_id health,
      mh_observed_at_utc = sh_observed_at_utc health,
      mh_evidence = JObject
        [(''backlog_seconds'', json_f64 (sh_backlog_seconds health)),
         (''heartbeat_gap_seconds'', json_f64 (sh_heartbeat_gap_seconds health)),
         (''reason_code'', JString (sh_reason_code health)),
         (''status'', JString (MarketStreamHealthStatus_as_str (sh_status health))),
         (''sustained_backlog_seconds'', json_f64 (sh_sustained_backlog_seconds health))]\<rparr>"

definition market_tick_violation :: "pg_types \<Rightarrow> market_tick_row \<Rightarrow> market_tick_row list \<Rightarrow> constraint_fault option" where
  "market_tick_violation P row rows =
     (if (case mt_cluster_id row of Some v \<Rightarrow> v \<noteq> pg_lower_trim P v | None \<Rightarrow> False)
      then Some (violation ''23514'' ''market_ticks_cluster_id_check'')
      else if mt_tick_id row \<in> set (map mt_tick_id rows) then Some (violation ''23505'' ''market_ticks_pkey'')
      else None)"

definition market_health_violation :: "market_health_row \<Rightarrow> market_health_row list \<Rightarrow> constraint_fault option" where
  "market_health_violation row rows =
     (if mh_health_event_id row \<in> set (map mh_health_event_id rows)
      then Some (violation ''23505'' ''market_stream_health_pkey'') else None)"

section \<open>Statements\<close>

definition insert_accepted_market_tick ::
    "time_crate \<Rightarrow> pg_types \<Rightarrow> constraint_faults \<Rightarrow> MarketStreamTick \<Rightarrow> market_store
      \<Rightarrow> (MarketStreamPersistenceError + unit) \<times> market_store" where
  "insert_accepted_market_tick T P faults tick = transact (\<lambda>st.
     and_then (map_err map_market_contract_error (validate_market_stream_tick T tick)) (\<lambda>_.
     and_then (statement classify_market_query_error
       (constrained faults (market_tick_violation P (accepted_tick_row tick) (mk_ticks st))) ''insert_accepted_market_tick'' ()) (\<lambda>_.
     Inr ((), st\<lparr>mk_ticks := accepted_tick_row tick # mk_ticks st\<rparr>))))"

definition insert_quarantined_market_event ::
    "time_crate \<Rightarrow> pg_types \<Rightarrow> constraint_faults \<Rightarrow> json QuarantinedMarketEvent \<Rightarrow> market_store
      \<Rightarrow> (MarketStreamPersistenceError + unit) \<times> market_store" where
  "insert_quarantined_market_event T P faults event = transact (\<lambda>st.
     and_then (map_err map_market_contract_error (validate_quarantined_market_event (\<lambda>v. v = JNull) T event)) (\<lambda>_.
     and_then (statement classify_market_query_error
       (constrained faults (market_tick_violation P (quarantined_row event) (mk_ticks st))) ''insert_quarantined_market_event'' ()) (\<lambda>_.
     Inr ((), st\<lparr>mk_ticks := quarantined_row event # mk_ticks st\<rparr>))))"

definition insert_market_stream_health ::
    "time_crate \<Rightarrow> constraint_faults \<Rightarrow> MarketStreamHealth \<Rightarrow> market_store
      \<Rightarrow> (MarketStreamPersistenceError + unit) \<times> market_store" where
  "insert_market_stream_health T faults health = transact (\<lambda>st.
     and_then (map_err map_market_contract_error (validate_market_stream_health T health)) (\<lambda>_.
     and_then (statement classify_market_query_error
       (constrained faults (market_health_violation (market_health_row_of health) (mk_health st))) ''insert_market_stream_health'' ()) (\<lambda>_.
     Inr ((), st\<lparr>mk_health := market_health_row_of health # mk_health st\<rparr>))))"

definition market_health_row_before :: "pg_types \<Rightarrow> market_health_row \<Rightarrow> market_health_row \<Rightarrow> bool" where
  "market_health_row_before P a b =
     (pg_instant P (mh_observed_at_utc b) < pg_instant P (mh_observed_at_utc a)
      \<or> (pg_instant P (mh_observed_at_utc a) = pg_instant P (mh_observed_at_utc b)
         \<and> pg_text_less P (mh_health_event_id a) (mh_health_event_id b)))"

definition decode_market_stream_health_row ::
    "time_crate \<Rightarrow> pg_types \<Rightarrow> market_health_row \<Rightarrow> MarketStreamPersistenceError + MarketStreamHealth" where
  "decode_market_stream_health_row T P row =
     and_then (if mh_health_status row = ''healthy'' then Inr MarketStreamHealthStatus.Healthy
       else if mh_health_status row = ''degraded'' then Inr MarketStreamHealthStatus.Degraded
       else Inl (MarketStreamPersistenceError_invalid_payload (''unexpected health status `'' @ mh_health_status row @ ''`'') []))
     (\<lambda>status.
       let health = \<lparr>sh_health_event_id = mh_health_event_id row, sh_stream_name = mh_stream_name row, sh_status = status,
             sh_reason_code = mh_reason_code row, sh_backlog_seconds = mh_backlog_seconds row,
             sh_sustained_backlog_seconds = mh_sustained_backlog_seconds row,
             sh_heartbeat_gap_seconds = mh_heartbeat_gap_seconds row, sh_correlation_id = mh_correlation_id row,
             sh_observed_at_utc = pg_to_char P (mh_observed_at_utc row)\<rparr>
       in and_then (map_err map_market_contract_error (validate_market_stream_health T health)) (\<lambda>_. Inr health))"

definition load_latest_market_stream_health ::
    "time_crate \<Rightarrow> pg_types \<Rightarrow> constraint_faults \<Rightarrow> string \<Rightarrow> market_store
      \<Rightarrow> MarketStreamPersistenceError + MarketStreamHealth option" where
  "load_latest_market_stream_health T P faults stream_name st =
     and_then (validate_market_store_non_empty ''stream_name'' stream_name) (\<lambda>_.
     and_then (statement MarketStreamPersistenceError_query_failure faults ''load_latest_market_stream_health''
       (order_by (market_health_row_before P) (filter (\<lambda>r. mh_stream_name r = trim stream_name) (mk_health st)))) (\<lambda>rows.
     case rows of
       [] \<Rightarrow> Inr None
     | row # _ \<Rightarrow> and_then (decode_market_stream_health_row T P row) (\<lambda>health. Inr (Some health))))"

section \<open>What the statements do\<close>

lemma insert_tick_ok:
  "insert_accepted_market_tick T P faults tick st = (Inr u, st') \<longleftrightarrow>
     tick_wf T tick \<and> faults ''insert_accepted_market_tick'' = None
     \<and> market_tick_violation P (accepted_tick_row tick) (mk_ticks st) = None
     \<and> st' = st\<lparr>mk_ticks := accepted_tick_row tick # mk_ticks st\<rparr>"
  using validate_tick_ok[of T tick]
  by (cases "validate_market_stream_tick T tick") (auto simp: insert_accepted_market_tick_def transact_Inr and_then_Inr_iff)

lemma insert_tick_error: "insert_accepted_market_tick T P faults tick st = (Inl e, st') \<Longrightarrow> st' = st"
  unfolding insert_accepted_market_tick_def by (rule transact_Inl)

lemma insert_quarantined_ok:
  "insert_quarantined_market_event T P faults event st = (Inr u, st') \<Longrightarrow>
     st' = st\<lparr>mk_ticks := quarantined_row event # mk_ticks st\<rparr>
     \<and> validate_quarantined_market_event (\<lambda>v. v = JNull) T event = Inr ()"
  by (auto simp: insert_quarantined_market_event_def transact_Inr and_then_Inr_iff)

lemma insert_quarantined_error: "insert_quarantined_market_event T P faults event st = (Inl e, st') \<Longrightarrow> st' = st"
  unfolding insert_quarantined_market_event_def by (rule transact_Inl)

lemma insert_health_ok:
  "insert_market_stream_health T faults health st = (Inr u, st') \<Longrightarrow>
     st' = st\<lparr>mk_health := market_health_row_of health # mk_health st\<rparr>"
  by (auto simp: insert_market_stream_health_def transact_Inr and_then_Inr_iff)

lemma insert_health_error: "insert_market_stream_health T faults health st = (Inl e, st') \<Longrightarrow> st' = st"
  unfolding insert_market_stream_health_def by (rule transact_Inl)

text \<open>A health row is read back as it was written, up to the format of its time.\<close>

lemma decode_own_health:
  assumes "validate_market_stream_health T (health\<lparr>sh_observed_at_utc := pg_to_char P (sh_observed_at_utc health)\<rparr>) = Inr ()"
  shows "decode_market_stream_health_row T P (market_health_row_of health)
    = Inr (health\<lparr>sh_observed_at_utc := pg_to_char P (sh_observed_at_utc health)\<rparr>)"
proof -
  have same: "\<lparr>sh_health_event_id = sh_health_event_id health, sh_stream_name = sh_stream_name health, sh_status = sh_status health,
      sh_reason_code = sh_reason_code health, sh_backlog_seconds = sh_backlog_seconds health,
      sh_sustained_backlog_seconds = sh_sustained_backlog_seconds health,
      sh_heartbeat_gap_seconds = sh_heartbeat_gap_seconds health, sh_correlation_id = sh_correlation_id health,
      sh_observed_at_utc = pg_to_char P (sh_observed_at_utc health)\<rparr>
    = health\<lparr>sh_observed_at_utc := pg_to_char P (sh_observed_at_utc health)\<rparr>" by simp
  have status: "(if MarketStreamHealthStatus_as_str (sh_status health) = ''healthy'' then Inr MarketStreamHealthStatus.Healthy
      else if MarketStreamHealthStatus_as_str (sh_status health) = ''degraded'' then Inr MarketStreamHealthStatus.Degraded
      else Inl e) = Inr (sh_status health)" for e :: MarketStreamPersistenceError
    by (cases "sh_status health") simp_all
  show ?thesis
    unfolding decode_market_stream_health_row_def market_health_row_of_def market_health_row.simps status and_then.simps Let_def same assms
    by simp
qed

end
