(* ===== verification/TextNumbers.thy ===== *)
theory TextNumbers
  imports Prelude F64
begin

text \<open>
  Numbers read from texts: \<open>str::parse\<close> of the standard library for binary64 numbers and for
  unsigned integers of 32 bits, and the checks of \<open>services/execution-engine\<close> over them.
\<close>

section \<open>Digits\<close>

definition digit_value :: "char \<Rightarrow> nat" where
  "digit_value c = of_char c - 48"

text \<open>The number a sequence of digits stands for.\<close>

definition dec_to_nat :: "string \<Rightarrow> nat" where
  "dec_to_nat s = foldl (\<lambda>n c. 10 * n + digit_value c) 0 s"

abbreviation all_digits :: "string \<Rightarrow> bool" where
  "all_digits s \<equiv> list_all is_ascii_digit s"

lemma dec_to_nat_Nil [simp]: "dec_to_nat [] = 0"
  by (simp add: dec_to_nat_def)

lemma dec_to_nat_snoc: "dec_to_nat (s @ [c]) = 10 * dec_to_nat s + digit_value c"
  by (simp add: dec_to_nat_def)

text \<open>What \<open>format!\<close> writes for a natural number is read back as that number.\<close>

lemma dec_to_nat_digit:
  assumes "n < 10"
  shows "digit_value (char_of (48 + n)) = n \<and> is_ascii_digit (char_of (48 + n))"
proof -
  from assms have "n = 0 \<or> n = 1 \<or> n = 2 \<or> n = 3 \<or> n = 4 \<or> n = 5 \<or> n = 6 \<or> n = 7 \<or> n = 8 \<or> n = 9" by arith
  then show ?thesis by (elim disjE) (simp_all add: digit_value_def is_ascii_digit_def less_eq_char_def)
qed

lemma nat_to_dec_reads: "all_digits (nat_to_dec n) \<and> dec_to_nat (nat_to_dec n) = n \<and> nat_to_dec n \<noteq> []"
proof (induction n rule: nat_to_dec.induct)
  case (1 n)
  show ?case
  proof (cases "n < 10")
    case True
    then show ?thesis using dec_to_nat_digit[of n] dec_to_nat_snoc[of "[]"] by (subst (1 2 3) nat_to_dec.simps) simp
  next
    case False
    have "n mod 10 < 10" by simp
    from dec_to_nat_digit[OF this] show ?thesis using 1 False
      by (subst (1 2 3) nat_to_dec.simps) (simp add: dec_to_nat_snoc)
  qed
qed

section \<open>\<open>str::parse\<close>\<close>

definition u32_from_str :: "string \<Rightarrow> nat option" where
  "u32_from_str s =
     (let digits = (case s of c # cs \<Rightarrow> if c = CHR ''+'' then cs else s | [] \<Rightarrow> [])
      in if digits = [] \<or> \<not> all_digits digits \<or> 2 ^ 32 \<le> dec_to_nat digits then None else Some (dec_to_nat digits))"

text \<open>
  The grammar of \<open>f64::from_str\<close>: an optional sign, then \<open>inf\<close>, \<open>infinity\<close> or \<open>nan\<close> in any case,
  or digits with an optional point and an optional exponent. The result is the number rounded
  once; the model has one zero.
\<close>

fun exponent_from_str :: "string \<Rightarrow> int option" where
  "exponent_from_str [] = Some 0"
| "exponent_from_str (c # s) =
     (if c = CHR ''e'' \<or> c = CHR ''E'' then
        (let (negative, digits) = (case s of
           d # ds \<Rightarrow> if d = CHR ''-'' then (True, ds) else if d = CHR ''+'' then (False, ds) else (False, s)
         | [] \<Rightarrow> (False, []))
         in if digits = [] \<or> \<not> all_digits digits then None
            else Some (if negative then - int (dec_to_nat digits) else int (dec_to_nat digits)))
      else None)"

definition power_of_ten :: "int \<Rightarrow> rat" where
  "power_of_ten e = (if 0 \<le> e then 10 ^ nat e else 1 / 10 ^ nat (- e))"

definition number_from_str :: "string \<Rightarrow> rat option" where
  "number_from_str s =
     (let whole = takeWhile is_ascii_digit s;
          rest = dropWhile is_ascii_digit s;
          (fraction, tail) = (case rest of
             c # cs \<Rightarrow> if c = CHR ''.'' then (takeWhile is_ascii_digit cs, dropWhile is_ascii_digit cs) else ([], rest)
           | [] \<Rightarrow> ([], []))
      in if whole = [] \<and> fraction = [] then None
         else map_option (\<lambda>e. of_nat (dec_to_nat (whole @ fraction)) * power_of_ten (e - int (length fraction)))
           (exponent_from_str tail))"

definition f64_from_str :: "string \<Rightarrow> string + f64" where
  "f64_from_str s =
     (if s = [] then Inl ''cannot parse float from empty string''
      else let (negative, body) = (if hd s = CHR ''-'' then (True, tl s) else if hd s = CHR ''+'' then (False, tl s) else (False, s));
               name = to_ascii_lowercase body
           in if name = ''nan'' then Inr NaN
              else if name = ''inf'' \<or> name = ''infinity'' then Inr (if negative then NInf else PInf)
              else case number_from_str body of
                     None \<Rightarrow> Inl ''invalid float literal''
                   | Some q \<Rightarrow> Inr (round_f64 (if negative then - q else q)))"

section \<open>Positive settings\<close>

definition parse_positive_f64 :: "(string \<Rightarrow> 'e) \<Rightarrow> string \<Rightarrow> string \<Rightarrow> 'e + f64" where
  "parse_positive_f64 invalid key value = (case f64_from_str value of
      Inl _ \<Rightarrow> Inl (invalid (key @ '' must be a floating-point number''))
    | Inr parsed \<Rightarrow>
        if \<not> f_is_finite parsed \<or> f_le parsed (Fin 0) then Inl (invalid (key @ '' must be finite and greater than 0''))
        else Inr parsed)"

definition parse_positive_u32 :: "(string \<Rightarrow> 'e) \<Rightarrow> string \<Rightarrow> string \<Rightarrow> 'e + nat" where
  "parse_positive_u32 invalid key value = (case u32_from_str value of
      None \<Rightarrow> Inl (invalid (key @ '' must be an integer''))
    | Some parsed \<Rightarrow> if parsed = 0 then Inl (invalid (key @ '' must be greater than 0'')) else Inr parsed)"

lemma parse_positive_f64_Inr:
  "parse_positive_f64 invalid key value = Inr x \<Longrightarrow> f_is_finite x \<and> f_lt (Fin 0) x"
  by (cases x) (auto simp: parse_positive_f64_def split: sum.splits if_splits)

lemma parse_positive_u32_Inr: "parse_positive_u32 invalid key value = Inr n \<Longrightarrow> 0 < n \<and> n < 2 ^ 32"
  by (auto simp: parse_positive_u32_def u32_from_str_def Let_def split: option.splits if_splits list.splits)

text \<open>A 32-bit number is read back from its digits.\<close>

lemma u32_from_digits:
  assumes "n < 2 ^ 32"
  shows "u32_from_str (nat_to_dec n) = Some n"
proof -
  obtain c cs where digits: "nat_to_dec n = c # cs" using nat_to_dec_reads[of n] by (cases "nat_to_dec n") auto
  have "is_ascii_digit c" using nat_to_dec_reads[of n] unfolding digits by simp
  then have "c \<noteq> CHR ''+''" by (auto simp: is_ascii_digit_def)
  then have "u32_from_str (nat_to_dec n) =
      (if nat_to_dec n = [] \<or> \<not> all_digits (nat_to_dec n) \<or> 2 ^ 32 \<le> dec_to_nat (nat_to_dec n) then None
       else Some (dec_to_nat (nat_to_dec n)))"
    unfolding u32_from_str_def Let_def digits by simp
  then show ?thesis using nat_to_dec_reads[of n] assms by simp
qed

lemma f64_from_str_examples:
  "number_from_str ''0.5'' = Some (1 / 2)" "number_from_str ''125e-2'' = Some (5 / 4)" "number_from_str ''1.'' = Some 1"
  "f64_from_str ''-Inf'' = Inr NInf" "isl (f64_from_str ''.'')" "isl (f64_from_str ''1e'')"
  subgoal by (simp add: number_from_str_def power_of_ten_def dec_to_nat_def digit_value_def is_ascii_digit_def)
  subgoal by (simp add: number_from_str_def power_of_ten_def dec_to_nat_def digit_value_def is_ascii_digit_def)
  subgoal by (simp add: number_from_str_def power_of_ten_def dec_to_nat_def digit_value_def is_ascii_digit_def)
  subgoal by code_simp
  subgoal by code_simp
  subgoal by code_simp
  done

end
