(* ===== verification/MarketStreamRuntime.thy ===== *)
theory MarketStreamRuntime
  imports MarketStreamStore UserStreamRuntime TextNumbers Effects
begin

text \<open>
  The market stream ingestion of \<open>services/execution-engine/src/ingestion/mod.rs\<close>: order books
  become ticks, valid ticks are stored and refresh the freshness signal, everything else is
  quarantined, and the health of the stream is assessed after every tick and after every loss of
  the connection. The book messages are those of the venue's client library, with the fields the
  code reads and decimals as the texts they print; telemetry is left out.
\<close>

section \<open>Messages, errors and state\<close>

record MarketIngestionError =
  mx_code :: string
  mx_message :: string

definition MarketIngestionError_new :: "string \<Rightarrow> string \<Rightarrow> MarketIngestionError" where
  "MarketIngestionError_new code message = \<lparr>mx_code = code, mx_message = message\<rparr>"

abbreviation market_invalid :: "string \<Rightarrow> MarketIngestionError" where
  "market_invalid message \<equiv>
     MarketIngestionError_new (MarketStreamReasonCode_code MarketStreamReasonCode.InvalidPayload) message"

abbreviation market_unsupported :: "string \<Rightarrow> MarketIngestionError" where
  "market_unsupported message \<equiv>
     MarketIngestionError_new (MarketStreamReasonCode_code MarketStreamReasonCode.UnsupportedEventShape) message"

record OrderBookLevel =
  ol_price :: string
  ol_size :: string

record BookUpdate =
  bu_market :: string
  bu_asset_id :: string
  bu_timestamp :: int
  bu_bids :: "OrderBookLevel list"
  bu_asks :: "OrderBookLevel list"

record MarketStreamRuntimeConfig =
  mc_stream_name :: string
  mc_stream_endpoint :: string
  mc_cluster_id :: string
  mc_asset_ids :: "string list"
  mc_default_tick_size :: f64
  mc_heartbeat_timeout_seconds :: f64
  mc_reconnect_backoff_seconds :: f64
  mc_max_reconnect_attempts :: nat

definition MarketStreamRuntimeConfig_default :: MarketStreamRuntimeConfig where
  "MarketStreamRuntimeConfig_default =
     \<lparr>mc_stream_name = ''polymarket_market_stream'',
      mc_stream_endpoint = ''wss://ws-subscriptions-clob.polymarket.com'', mc_cluster_id = ''cluster_default'',
      mc_asset_ids = [], mc_default_tick_size = round_f64 (1 / 100), mc_heartbeat_timeout_seconds = Fin 15,
      mc_reconnect_backoff_seconds = Fin 1, mc_max_reconnect_attempts = 5\<rparr>"

datatype IngestionDisposition = Accepted | Quarantined

record MarketIngestionOutcome =
  mo_disposition :: IngestionDisposition
  mo_reason_code :: string
  mo_correlation_id :: string

record IngestionRuntimeState =
  ig_latencies_seconds :: "f64 list"
  ig_last_observed_at :: "int option"
  ig_last_ingested_at :: "int option"
  ig_sustained_backlog_seconds :: f64
  ig_backlog_above_threshold :: bool
  ig_last_health_signature :: "(MarketStreamHealthStatus \<times> string) option"

definition IngestionRuntimeState_default :: IngestionRuntimeState where
  "IngestionRuntimeState_default =
     \<lparr>ig_latencies_seconds = [], ig_last_observed_at = None, ig_last_ingested_at = None,
      ig_sustained_backlog_seconds = Fin 0, ig_backlog_above_threshold = False, ig_last_health_signature = None\<rparr>"

record MarketStreamIngestionRuntime =
  mg_config :: MarketStreamRuntimeConfig
  mg_state :: IngestionRuntimeState
  mg_freshness_signals :: "FreshnessSignalState option"

definition MarketStreamIngestionRuntime_new :: "MarketStreamRuntimeConfig \<Rightarrow> MarketStreamIngestionRuntime" where
  "MarketStreamIngestionRuntime_new config =
     \<lparr>mg_config = config, mg_state = IngestionRuntimeState_default, mg_freshness_signals = None\<rparr>"

definition attach_freshness_signals ::
    "FreshnessSignalState \<Rightarrow> MarketStreamIngestionRuntime \<Rightarrow> MarketStreamIngestionRuntime" where
  "attach_freshness_signals signals self = self\<lparr>mg_freshness_signals := Some signals\<rparr>"

definition market_latency_slo_met :: "MarketStreamIngestionRuntime \<Rightarrow> bool" where
  "market_latency_slo_met self = ingestion_latency_slo_met (ig_latencies_seconds (mg_state self))"

text \<open>The runtime and its store, and the steps over them.\<close>

type_synonym market_world = "MarketStreamIngestionRuntime \<times> market_store"
type_synonym 'a market_step = "(market_world, MarketIngestionError, 'a) effect"

definition map_market_persistence_error :: "MarketStreamPersistenceError \<Rightarrow> MarketIngestionError" where
  "map_market_persistence_error error =
     MarketIngestionError_new (MarketStreamReasonCode_code MarketStreamReasonCode.PersistenceUnavailable)
       (ce_code error @ '': '' @ ce_message error)"

text \<open>A call of \<open>PostgresMarketStreamStore\<close>.\<close>

definition market_store_call ::
    "(market_store \<Rightarrow> (MarketStreamPersistenceError + unit) \<times> market_store) \<Rightarrow> unit market_step" where
  "market_store_call call s =
     (let (result, store') = call (snd s) in (map_err map_market_persistence_error result, (fst s, store')))"

definition on_market_state :: "(IngestionRuntimeState \<Rightarrow> 'a \<times> IngestionRuntimeState) \<Rightarrow> 'a market_step" where
  "on_market_state f s =
     (let (a, state) = f (mg_state (fst s)) in (Inr a, ((fst s)\<lparr>mg_state := state\<rparr>, snd s)))"

section \<open>Books to ticks\<close>

definition market_parse_rfc3339_utc :: "time_crate \<Rightarrow> string \<Rightarrow> MarketIngestionError + int" where
  "market_parse_rfc3339_utc T value = (case rfc3339_parse T value of
      None \<Rightarrow> Inl (market_invalid (''invalid RFC3339 timestamp `'' @ value @ ''`: '' @ rfc3339_error T value))
    | Some (parsed, offset) \<Rightarrow>
        if offset \<noteq> 0 then Inl (market_invalid ''timestamps must use UTC `Z` offset'') else Inr parsed)"

text \<open>The product is formed in 128 bits.\<close>

definition market_timestamp_millis_to_rfc3339_utc :: "time_format \<Rightarrow> int \<Rightarrow> MarketIngestionError + string" where
  "market_timestamp_millis_to_rfc3339_utc F timestamp_millis =
     (let nanos = timestamp_millis * 1000000
      in if nanos < - (2 ^ 127) \<or> 2 ^ 127 \<le> nanos then Inl (market_invalid ''market timestamp overflow'')
         else and_then (map_err (\<lambda>error. market_invalid (''invalid market timestamp: '' @ error))
                (from_unix_timestamp_nanos F nanos)) (\<lambda>observed.
              map_err (\<lambda>error. market_invalid (''unable to format market timestamp: '' @ error))
                (rfc3339_format F observed)))"

definition decimal_to_f64 :: "string \<Rightarrow> string \<Rightarrow> MarketIngestionError + f64" where
  "decimal_to_f64 value field =
     map_err (\<lambda>error. market_invalid (''unable to parse `'' @ field @ ''` decimal value: '' @ error)) (f64_from_str value)"

definition normalize_depth_level :: "OrderBookLevel \<Rightarrow> MarketIngestionError + MarketDepthLevel" where
  "normalize_depth_level level =
     and_then (decimal_to_f64 (ol_price level) ''price'') (\<lambda>price.
     and_then (decimal_to_f64 (ol_size level) ''size'') (\<lambda>size.
     Inr \<lparr>dl_price = price, dl_size = size\<rparr>))"

definition normalize_depth_levels :: "string \<Rightarrow> OrderBookLevel list \<Rightarrow> MarketIngestionError + MarketDepthLevel list" where
  "normalize_depth_levels field levels =
     (if levels = [] then Inl (market_unsupported (field @ '' cannot be empty''))
      else collect_rows normalize_depth_level (take 5 levels))"

definition derive_tick_size :: "MarketDepthLevel list \<Rightarrow> MarketDepthLevel list \<Rightarrow> f64 \<Rightarrow> f64" where
  "derive_tick_size bids asks default_tick_size =
     (let increments = sort (filter (\<lambda>value. f_is_finite value \<and> f_gt value (Fin 0))
        (map (\<lambda>(a, b). f_abs (f_sub (dl_price a) (dl_price b))) (zip bids (tl bids))
         @ map (\<lambda>(a, b). f_abs (f_sub (dl_price b) (dl_price a))) (zip asks (tl asks))))
      in case increments of [] \<Rightarrow> default_tick_size | first # _ \<Rightarrow> first)"

definition best_level :: "string \<Rightarrow> MarketDepthLevel list \<Rightarrow> MarketIngestionError + f64" where
  "best_level side levels = (case levels of
      level # _ \<Rightarrow> Inr (dl_price level)
    | [] \<Rightarrow> Inl (market_unsupported (''orderbook event missing best '' @ side)))"

definition book_update_to_tick ::
    "time_crate \<Rightarrow> time_format \<Rightarrow> MarketStreamRuntimeConfig \<Rightarrow> BookUpdate \<Rightarrow> string \<Rightarrow> int
      \<Rightarrow> MarketIngestionError + MarketStreamTick" where
  "book_update_to_tick T F config event ingested_at_utc ingested_at =
     and_then (market_timestamp_millis_to_rfc3339_utc F (bu_timestamp event)) (\<lambda>observed_at_utc.
     and_then (market_parse_rfc3339_utc T observed_at_utc) (\<lambda>observed_at.
     let ingestion_latency_seconds = dur_as_seconds_f64 T (ingested_at - observed_at)
     in if f_lt ingestion_latency_seconds (Fin 0)
        then Inl (market_invalid ''observed_at_utc is later than ingested_at_utc'')
        else
     and_then (normalize_depth_levels ''bids'' (bu_bids event)) (\<lambda>top_bid_depth.
     and_then (normalize_depth_levels ''asks'' (bu_asks event)) (\<lambda>top_ask_depth.
     and_then (best_level ''bid'' top_bid_depth) (\<lambda>best_bid.
     and_then (best_level ''ask'' top_ask_depth) (\<lambda>best_ask.
     Inr \<lparr>tk_tick_id = ''tick::'' @ bu_market event @ ''::'' @ bu_asset_id event @ ''::'' @ int_to_dec (bu_timestamp event),
          tk_market_id = bu_market event, tk_asset_id = bu_asset_id event, tk_cluster_id = mc_cluster_id config,
          tk_best_bid = best_bid, tk_best_ask = best_ask, tk_top_bid_depth = top_bid_depth,
          tk_top_ask_depth = top_ask_depth, tk_last_trade_price = f_div (f_add best_bid best_ask) (Fin 2),
          tk_tick_size = derive_tick_size top_bid_depth top_ask_depth (mc_default_tick_size config),
          tk_market_status = MarketStatus.Trading,
          tk_correlation_id = ''market-stream::'' @ bu_market event @ ''::'' @ int_to_dec (bu_timestamp event),
          tk_observed_at_utc = observed_at_utc, tk_ingested_at_utc = ingested_at_utc,
          tk_ingestion_latency_seconds = ingestion_latency_seconds\<rparr>))))))"

section \<open>Quarantine\<close>

definition book_levels_json :: "OrderBookLevel list \<Rightarrow> json" where
  "book_levels_json levels =
     JArray (map (\<lambda>level. JObject [(''price'', JString (ol_price level)), (''size'', JString (ol_size level))]) levels)"

definition serialize_book_event_payload :: "BookUpdate \<Rightarrow> json" where
  "serialize_book_event_payload event = JObject
     [(''asks'', book_levels_json (bu_asks event)), (''asset_id'', JString (bu_asset_id event)),
      (''bids'', book_levels_json (bu_bids event)), (''event_type'', JString ''book''),
      (''market'', JString (bu_market event)), (''timestamp'', JInt (bu_timestamp event))]"

definition market_compact_timestamp_token :: "string \<Rightarrow> string" where
  "market_compact_timestamp_token value = filter is_ascii_digit value"

definition quarantined_event ::
    "time_crate \<Rightarrow> time_format \<Rightarrow> BookUpdate \<Rightarrow> string \<Rightarrow> string \<Rightarrow> string \<Rightarrow> string \<Rightarrow> json QuarantinedMarketEvent" where
  "quarantined_event T F event correlation_id ingested_at_utc reason_code reason_message =
     (let observed_at_utc = (case market_timestamp_millis_to_rfc3339_utc F (bu_timestamp event) of
            Inr value \<Rightarrow> value | Inl _ \<Rightarrow> ingested_at_utc);
          latency_seconds = (case and_then (market_parse_rfc3339_utc T ingested_at_utc) (\<lambda>ingested.
              and_then (market_parse_rfc3339_utc T observed_at_utc) (\<lambda>observed.
              Inr (f_max (dur_as_seconds_f64 T (ingested - observed)) (Fin 0)))) of
            Inr value \<Rightarrow> value | Inl _ \<Rightarrow> Fin 0)
      in \<lparr>qe_event_id = ''quarantine::'' @ bu_market event @ ''::'' @ int_to_dec (bu_timestamp event) @ ''::''
            @ market_compact_timestamp_token ingested_at_utc,
          qe_reason_code = reason_code, qe_correlation_id = correlation_id, qe_observed_at_utc = observed_at_utc,
          qe_quarantined_at_utc = ingested_at_utc, qe_ingestion_latency_seconds = latency_seconds,
          qe_raw_payload = JObject [(''event'', serialize_book_event_payload event), (''reason_message'', JString reason_message)]\<rparr>)"

definition quarantine_book_event ::
    "time_crate \<Rightarrow> time_format \<Rightarrow> pg_types \<Rightarrow> constraint_faults \<Rightarrow> BookUpdate \<Rightarrow> string \<Rightarrow> string \<Rightarrow> string \<Rightarrow> string
      \<Rightarrow> MarketIngestionOutcome market_step" where
  "quarantine_book_event T F P faults event correlation_id ingested_at_utc reason_code reason_message =
     run_then (market_store_call (insert_quarantined_market_event T P faults
       (quarantined_event T F event correlation_id ingested_at_utc reason_code reason_message))) (\<lambda>_.
     answer \<lparr>mo_disposition = IngestionDisposition.Quarantined, mo_reason_code = reason_code,
       mo_correlation_id = correlation_id\<rparr>)"

section \<open>Health\<close>

definition update_runtime_state ::
    "time_crate \<Rightarrow> int \<Rightarrow> int \<Rightarrow> f64 \<Rightarrow> IngestionRuntimeState \<Rightarrow> f64 \<times> IngestionRuntimeState" where
  "update_runtime_state T observed_at ingested_at backlog_seconds state =
     (let heartbeat_gap_seconds = (case ig_last_observed_at state of
            Some last_observed \<Rightarrow> f_max (dur_as_seconds_f64 T (observed_at - last_observed)) (Fin 0)
          | None \<Rightarrow> Fin 0);
          above = f_gt backlog_seconds MARKET_STREAM_BACKLOG_DEGRADED_SECONDS;
          sustained = (if above \<and> ig_backlog_above_threshold state
            then f_add (ig_sustained_backlog_seconds state) (case ig_last_ingested_at state of
                Some last_ingested \<Rightarrow> f_max (dur_as_seconds_f64 T (ingested_at - last_ingested)) (Fin 0)
              | None \<Rightarrow> Fin 0)
            else Fin 0)
      in (heartbeat_gap_seconds, state
            \<lparr>ig_sustained_backlog_seconds := sustained, ig_backlog_above_threshold := above,
             ig_last_observed_at := Some observed_at, ig_last_ingested_at := Some ingested_at\<rparr>))"

definition health_event_id :: "string \<Rightarrow> string \<Rightarrow> string \<Rightarrow> string \<Rightarrow> string" where
  "health_event_id stream_name suffix observed_at_utc correlation_id =
     ''health::'' @ stream_name @ ''::'' @ suffix @ ''::''
       @ filter (\<lambda>c. c \<notin> {CHR ''-'', CHR '':'', CHR ''T'', CHR ''Z''}) observed_at_utc
       @ ''::'' @ map (\<lambda>c. if c = CHR '':'' then CHR ''_'' else c) correlation_id"

definition assessed_health ::
    "MarketStreamIngestionRuntime \<Rightarrow> MarketStreamHealthAssessment \<Rightarrow> f64 \<Rightarrow> f64 \<Rightarrow> string \<Rightarrow> string \<Rightarrow> MarketStreamHealth" where
  "assessed_health self assessment latency heartbeat_gap_seconds correlation_id observed_at_utc =
     \<lparr>sh_health_event_id = health_event_id (mc_stream_name (mg_config self))
        (MarketStreamHealthStatus_as_str (ha_status assessment)) observed_at_utc correlation_id,
      sh_stream_name = mc_stream_name (mg_config self), sh_status = ha_status assessment,
      sh_reason_code = ha_reason_code assessment, sh_backlog_seconds = latency,
      sh_sustained_backlog_seconds = ig_sustained_backlog_seconds (mg_state self),
      sh_heartbeat_gap_seconds = heartbeat_gap_seconds, sh_correlation_id = correlation_id,
      sh_observed_at_utc = observed_at_utc\<rparr>"

definition set_health_signature :: "MarketStreamHealthStatus \<times> string \<Rightarrow> unit market_step" where
  "set_health_signature signature =
     on_market_state (\<lambda>state. ((), state\<lparr>ig_last_health_signature := Some signature\<rparr>))"

definition persist_health_transition ::
    "time_crate \<Rightarrow> constraint_faults \<Rightarrow> f64 \<Rightarrow> f64 \<Rightarrow> string \<Rightarrow> string \<Rightarrow> unit market_step" where
  "persist_health_transition T faults latency heartbeat_gap_seconds correlation_id observed_at_utc s =
     (case assess_market_stream_health latency (ig_sustained_backlog_seconds (mg_state (fst s)))
             heartbeat_gap_seconds (mc_heartbeat_timeout_seconds (mg_config (fst s))) of
        Inl error \<Rightarrow> (Inl (MarketIngestionError_new (ce_code error) (ce_message error)), s)
      | Inr assessment \<Rightarrow>
          let signature = (ha_status assessment, ha_reason_code assessment)
          in if ig_last_health_signature (mg_state (fst s)) = Some signature then (Inr (), s)
             else run_then (market_store_call (insert_market_stream_health T faults
                    (assessed_health (fst s) assessment latency heartbeat_gap_seconds correlation_id observed_at_utc)))
                  (\<lambda>_. set_health_signature signature) s)"

definition disconnect_health :: "time_crate \<Rightarrow> int \<Rightarrow> string \<Rightarrow> string \<Rightarrow> MarketStreamIngestionRuntime \<Rightarrow> MarketStreamHealth" where
  "disconnect_health T observed_at correlation_id observed_at_utc self =
     \<lparr>sh_health_event_id = health_event_id (mc_stream_name (mg_config self)) ''disconnected'' observed_at_utc correlation_id,
      sh_stream_name = mc_stream_name (mg_config self), sh_status = MarketStreamHealthStatus.Degraded,
      sh_reason_code = MarketStreamReasonCode_code MarketStreamReasonCode.StreamDisconnected,
      sh_backlog_seconds = (if ig_latencies_seconds (mg_state self) = [] then Fin 0
        else List.last (ig_latencies_seconds (mg_state self))),
      sh_sustained_backlog_seconds = ig_sustained_backlog_seconds (mg_state self),
      sh_heartbeat_gap_seconds = (case ig_last_observed_at (mg_state self) of
          Some last_observed \<Rightarrow> f_max (dur_as_seconds_f64 T (observed_at - last_observed)) (Fin 0)
        | None \<Rightarrow> f_add (mc_heartbeat_timeout_seconds (mg_config self)) (Fin 1)),
      sh_correlation_id = correlation_id, sh_observed_at_utc = observed_at_utc\<rparr>"

definition record_stream_disconnect :: "time_crate \<Rightarrow> constraint_faults \<Rightarrow> string \<Rightarrow> string \<Rightarrow> unit market_step" where
  "record_stream_disconnect T faults correlation_id observed_at_utc =
     run_then (pure_result (market_parse_rfc3339_utc T observed_at_utc)) (\<lambda>observed_at s.
     run_then (market_store_call (insert_market_stream_health T faults
       (disconnect_health T observed_at correlation_id observed_at_utc (fst s)))) (\<lambda>_.
     set_health_signature (MarketStreamHealthStatus.Degraded,
       MarketStreamReasonCode_code MarketStreamReasonCode.StreamDisconnected)) s)"

section \<open>Ingestion\<close>

definition push_market_latency :: "f64 \<Rightarrow> IngestionRuntimeState \<Rightarrow> IngestionRuntimeState" where
  "push_market_latency latency state =
     (let latencies = ig_latencies_seconds state @ [latency]
      in state\<lparr>ig_latencies_seconds := if 2000 < length latencies then tl latencies else latencies\<rparr>)"

definition notify_market_signals :: "time_crate \<Rightarrow> string \<Rightarrow> unit market_step" where
  "notify_market_signals T observed_at_utc s = (case mg_freshness_signals (fst s) of
      None \<Rightarrow> (Inr (), s)
    | Some signals \<Rightarrow> (let (result, signals') = record_market_update T observed_at_utc signals
        in (map_err (\<lambda>error. MarketIngestionError_new (fx_code error) (fx_message error)) result,
            ((fst s)\<lparr>mg_freshness_signals := Some signals'\<rparr>, snd s))))"

definition ingest_tick ::
    "time_crate \<Rightarrow> pg_types \<Rightarrow> constraint_faults \<Rightarrow> MarketStreamTick \<Rightarrow> int \<Rightarrow> MarketIngestionOutcome market_step" where
  "ingest_tick T P faults tick ingested_at =
     run_then (market_store_call (insert_accepted_market_tick T P faults tick)) (\<lambda>_.
     run_then (notify_market_signals T (tk_observed_at_utc tick)) (\<lambda>_.
     run_then (on_market_state (\<lambda>state. ((), push_market_latency (tk_ingestion_latency_seconds tick) state))) (\<lambda>_.
     run_then (pure_result (market_parse_rfc3339_utc T (tk_observed_at_utc tick))) (\<lambda>observed_at.
     run_then (on_market_state (update_runtime_state T observed_at ingested_at (tk_ingestion_latency_seconds tick)))
       (\<lambda>heartbeat_gap_seconds.
     run_then (persist_health_transition T faults (tk_ingestion_latency_seconds tick) heartbeat_gap_seconds
       (tk_correlation_id tick) (tk_observed_at_utc tick)) (\<lambda>_.
     answer \<lparr>mo_disposition = IngestionDisposition.Accepted,
       mo_reason_code = MarketStreamReasonCode_code MarketStreamReasonCode.TickAccepted,
       mo_correlation_id = tk_correlation_id tick\<rparr>))))))"

definition process_orderbook_event ::
    "time_crate \<Rightarrow> time_format \<Rightarrow> pg_types \<Rightarrow> constraint_faults \<Rightarrow> BookUpdate \<Rightarrow> string \<Rightarrow> MarketIngestionOutcome market_step" where
  "process_orderbook_event T F P faults event ingested_at_utc =
     run_then (pure_result (market_parse_rfc3339_utc T ingested_at_utc)) (\<lambda>ingested_at s.
     case book_update_to_tick T F (mg_config (fst s)) event ingested_at_utc ingested_at of
       Inr tick \<Rightarrow> (case validate_market_stream_tick T tick of
           Inl error \<Rightarrow> quarantine_book_event T F P faults event (tk_correlation_id tick) ingested_at_utc
             (ce_code error) (ce_message error) s
         | Inr _ \<Rightarrow> ingest_tick T P faults tick ingested_at s)
     | Inl error \<Rightarrow> quarantine_book_event T F P faults event
         (''market-stream-quarantine::'' @ int_to_dec (bu_timestamp event)) ingested_at_utc (mx_code error) (mx_message error) s)"

section \<open>The connection loop\<close>

text \<open>What the loop meets: a step of the connection that fails, an item of the stream, or its end.\<close>

datatype market_input =
    ClientFailed string
  | SubscriptionFailed string
  | BookItem BookUpdate
  | StreamFailed string
  | StreamEnded

record market_event =
  me_input :: market_input
  me_now :: "MarketIngestionError + string"
  me_faults :: constraint_faults

fun disconnect_message :: "nat \<Rightarrow> market_input \<Rightarrow> string" where
  "disconnect_message max_attempts (market_input.ClientFailed error) =
     ''unable to initialize market websocket client after '' @ nat_to_dec max_attempts @ '' reconnect attempts: '' @ error"
| "disconnect_message max_attempts (market_input.SubscriptionFailed error) =
     ''unable to subscribe to market websocket stream after '' @ nat_to_dec max_attempts @ '' reconnect attempts: '' @ error"
| "disconnect_message max_attempts (market_input.StreamFailed error) =
     ''market websocket stream disconnected after '' @ nat_to_dec max_attempts @ '' reconnect attempts: '' @ error"
| "disconnect_message max_attempts _ =
     ''market websocket stream terminated unexpectedly after '' @ nat_to_dec max_attempts @ '' reconnect attempts''"

definition after_disconnect :: "time_crate \<Rightarrow> constraint_faults \<Rightarrow> string \<Rightarrow> string \<Rightarrow> nat \<Rightarrow> nat \<Rightarrow> nat market_step" where
  "after_disconnect T faults message now max_attempts reconnect_attempts =
     run_then (record_stream_disconnect T faults (''market-stream-disconnect::'' @ now) now) (\<lambda>_.
     if max_attempts < reconnect_attempts + 1
     then refuse (MarketIngestionError_new (MarketStreamReasonCode_code MarketStreamReasonCode.StreamDisconnected) message)
     else answer (reconnect_attempts + 1))"

definition handle_market_input ::
    "time_crate \<Rightarrow> time_format \<Rightarrow> pg_types \<Rightarrow> constraint_faults \<Rightarrow> string \<Rightarrow> nat \<Rightarrow> nat \<Rightarrow> market_input \<Rightarrow> nat market_step" where
  "handle_market_input T F P faults now max_attempts reconnect_attempts input = (case input of
      market_input.BookItem event \<Rightarrow> run_then (process_orderbook_event T F P faults event now) (\<lambda>_. answer 0)
    | _ \<Rightarrow> after_disconnect T faults (disconnect_message max_attempts input) now max_attempts reconnect_attempts)"

text \<open>The loop over the inputs it meets; the first error ends it.\<close>

fun run_market_inputs ::
    "time_crate \<Rightarrow> time_format \<Rightarrow> pg_types \<Rightarrow> nat \<Rightarrow> nat \<Rightarrow> market_event list \<Rightarrow> nat market_step" where
  "run_market_inputs T F P max_attempts reconnect_attempts [] = answer reconnect_attempts"
| "run_market_inputs T F P max_attempts reconnect_attempts (event # events) =
     run_then (pure_result (me_now event)) (\<lambda>now.
     run_then (handle_market_input T F P (me_faults event) now max_attempts reconnect_attempts (me_input event))
       (\<lambda>attempts. run_market_inputs T F P max_attempts attempts events))"

text \<open>\<open>U256::from_str\<close> is the client library's.\<close>

definition run_polymarket_ws_ingestion ::
    "time_crate \<Rightarrow> time_format \<Rightarrow> (string \<Rightarrow> bool) \<Rightarrow> pg_types \<Rightarrow> market_event list \<Rightarrow> nat market_step" where
  "run_polymarket_ws_ingestion T F is_u256 P events s =
     (case find (\<lambda>asset_id. \<not> is_u256 asset_id) (mc_asset_ids (mg_config (fst s))) of
        Some asset_id \<Rightarrow> (Inl (market_invalid (''invalid market stream asset id `'' @ asset_id @ ''`'')), s)
      | None \<Rightarrow> run_market_inputs T F P (mc_max_reconnect_attempts (mg_config (fst s))) 0 events s)"

text \<open>Equations that evaluate a step before what follows it.\<close>

lemmas market_step_code [code] =
  quarantine_book_event_def[THEN fun_cong, unfolded run_then_def]
  record_stream_disconnect_def[THEN fun_cong, unfolded run_then_def]
  ingest_tick_def[THEN fun_cong, unfolded run_then_def]
  process_orderbook_event_def[THEN fun_cong, unfolded run_then_def]
  after_disconnect_def[THEN fun_cong, unfolded run_then_def]
  run_market_inputs.simps(1)
  run_market_inputs.simps(2)[THEN fun_cong, unfolded run_then_def]

end
