(* ===== verification/MarketStreamSafety.thy ===== *)
theory MarketStreamSafety
  imports MarketStreamRuntime
begin

text \<open>
  What the market stream ingestion guarantees: every book is stored once, as a valid tick or in
  quarantine; the run-time state is what the tables say; only stored ticks refresh the freshness
  signal; and the loop gives up after a bounded number of reconnections.
\<close>

section \<open>Steps\<close>

lemma market_store_call_iff:
  "market_store_call call s = (r, t) \<longleftrightarrow>
     (\<exists>r' store. call (snd s) = (r', store) \<and> r = map_err map_market_persistence_error r' \<and> t = (fst s, store))"
  by (auto simp: market_store_call_def Let_def split: prod.splits)

lemma on_market_state_iff:
  "on_market_state f s = (r, t) \<longleftrightarrow>
     r = Inr (fst (f (mg_state (fst s)))) \<and> t = ((fst s)\<lparr>mg_state := snd (f (mg_state (fst s)))\<rparr>, snd s)"
  by (auto simp: on_market_state_def Let_def split: prod.splits)

lemma market_parse_iff: "market_parse_rfc3339_utc T v = Inr t \<longleftrightarrow> parse_utc_timestamp T v = Some t"
  by (auto simp: market_parse_rfc3339_utc_def parse_utc_timestamp_def split: option.splits)

lemma record_market_update_ok:
  "utc_ok T v \<Longrightarrow> record_market_update T v signals = (Inr (), signals\<lparr>sg_market_last_observed_at_utc := Some v\<rparr>)"
  by (auto simp: record_market_update_def freshness_parse_rfc3339_utc_def parse_utc_timestamp_def split: option.splits)

text \<open>The parts of the state that mirror the tick table.\<close>

definition market_window :: "f64 list \<Rightarrow> f64 list" where
  "market_window latencies = rev (take 2000 latencies)"

lemma push_market_window:
  assumes "ig_latencies_seconds state = market_window latencies"
  shows "ig_latencies_seconds (push_market_latency l state) = market_window (l # latencies)"
proof (cases "length latencies < 2000")
  case True
  then show ?thesis using assms by (simp add: push_market_latency_def market_window_def Let_def)
next
  case False
  then have "latencies \<noteq> []" "take 2000 latencies = take 1999 latencies @ [latencies ! 1999]"
    using take_Suc_conv_app_nth[of 1999 latencies] by (auto simp: numeral_eq_Suc)
  then show ?thesis using assms False by (simp add: push_market_latency_def market_window_def Let_def)
qed

definition refreshed :: "market_tick_row list \<Rightarrow> FreshnessSignalState \<Rightarrow> FreshnessSignalState" where
  "refreshed accepted signals = (case accepted of
      [] \<Rightarrow> signals
    | row # _ \<Rightarrow> signals\<lparr>sg_market_last_observed_at_utc := Some (mt_observed_at_utc row)\<rparr>)"

definition newest_observation :: "time_crate \<Rightarrow> market_tick_row list \<Rightarrow> int option" where
  "newest_observation T accepted = (case accepted of [] \<Rightarrow> None | row # _ \<Rightarrow> parse_utc_timestamp T (mt_observed_at_utc row))"

definition health_entry :: "market_health_row \<Rightarrow> string \<times> string" where
  "health_entry row = (mh_health_status row, mh_reason_code row)"

definition written_signature :: "MarketStreamHealthStatus \<times> string \<Rightarrow> string \<times> string" where
  "written_signature signature = (MarketStreamHealthStatus_as_str (fst signature), snd signature)"

definition disconnect_entry :: "string \<times> string" where
  "disconnect_entry = (MarketStreamHealthStatus_as_str MarketStreamHealthStatus.Degraded,
     MarketStreamReasonCode_code MarketStreamReasonCode.StreamDisconnected)"

text \<open>A health row differs from the one before it, unless it reports a lost connection.\<close>

fun health_log_changes :: "market_health_row list \<Rightarrow> bool" where
  "health_log_changes (newer # older # rows) \<longleftrightarrow>
     (health_entry newer = disconnect_entry \<or> health_entry newer \<noteq> health_entry older) \<and> health_log_changes (older # rows)"
| "health_log_changes _ \<longleftrightarrow> True"

text \<open>
  The tables may hold rows of earlier runs, \<open>base\<close>: the state mirrors the rows added since.
\<close>

abbreviation accepted_among :: "market_tick_row list \<Rightarrow> market_tick_row list" where
  "accepted_among rows \<equiv> filter (\<lambda>r. mt_ingest_status r = ''accepted'') rows"

definition ticks_mirrored :: "time_crate \<Rightarrow> market_store \<Rightarrow> FreshnessSignalState option \<Rightarrow> market_world \<Rightarrow> bool" where
  "ticks_mirrored T base signals s \<longleftrightarrow> (\<exists>new. mk_ticks (snd s) = new @ mk_ticks base
   \<and> ig_latencies_seconds (mg_state (fst s)) = market_window (map mt_ingestion_latency_seconds (accepted_among new))
   \<and> ig_last_observed_at (mg_state (fst s)) = newest_observation T (accepted_among new)
   \<and> mg_freshness_signals (fst s) = map_option (refreshed (accepted_among new)) signals
   \<and> (\<forall>row\<in>set (accepted_among new). \<exists>tick. tick_wf T tick \<and> row = accepted_tick_row tick)
   \<and> (distinct (map mt_tick_id (mk_ticks base)) \<longrightarrow> distinct (map mt_tick_id (mk_ticks (snd s)))))"

definition health_mirrored :: "market_store \<Rightarrow> market_world \<Rightarrow> bool" where
  "health_mirrored base s \<longleftrightarrow> (\<exists>new. mk_health (snd s) = new @ mk_health base
   \<and> map_option written_signature (ig_last_health_signature (mg_state (fst s)))
       = (case new of [] \<Rightarrow> None | row # _ \<Rightarrow> Some (health_entry row))
   \<and> health_log_changes new)"

text \<open>Health rows leave the ticks alone, and ticks the health log.\<close>

definition same_ticks :: "market_world \<Rightarrow> market_world \<Rightarrow> bool" where
  "same_ticks s t \<longleftrightarrow> mk_ticks (snd t) = mk_ticks (snd s)
     \<and> mg_freshness_signals (fst t) = mg_freshness_signals (fst s)
     \<and> ig_latencies_seconds (mg_state (fst t)) = ig_latencies_seconds (mg_state (fst s))
     \<and> ig_last_observed_at (mg_state (fst t)) = ig_last_observed_at (mg_state (fst s))"

definition same_health :: "market_world \<Rightarrow> market_world \<Rightarrow> bool" where
  "same_health s t \<longleftrightarrow> mk_health (snd t) = mk_health (snd s)
     \<and> ig_last_health_signature (mg_state (fst t)) = ig_last_health_signature (mg_state (fst s))"

lemma same_ticks_mirrored: "same_ticks s t \<Longrightarrow> ticks_mirrored T base signals s \<Longrightarrow> ticks_mirrored T base signals t"
  by (simp add: same_ticks_def ticks_mirrored_def)

lemma same_health_mirrored: "same_health s t \<Longrightarrow> health_mirrored base s \<Longrightarrow> health_mirrored base t"
  by (simp add: same_health_def health_mirrored_def)

lemma same_refl [simp]: "same_ticks s s" "same_health s s"
  by (simp_all add: same_ticks_def same_health_def)

lemma written_signature_inj: "written_signature a = written_signature b \<Longrightarrow> a = b"
  by (cases "fst a"; cases "fst b") (auto simp: written_signature_def prod_eq_iff)

text \<open>A health row is written with the signature it leaves, or nothing changes.\<close>

lemma log_health:
  assumes run: "run_then (market_store_call (insert_market_stream_health T faults health)) (\<lambda>_. set_health_signature signature) s = (r, t)"
    and sig: "written_signature signature = (MarketStreamHealthStatus_as_str (sh_status health), sh_reason_code health)"
    and fresh: "written_signature signature = disconnect_entry \<or> ig_last_health_signature (mg_state (fst s)) \<noteq> Some signature"
    and inv: "health_mirrored base s"
  shows "same_ticks s t" "health_mirrored base t" "isl r \<Longrightarrow> t = s"
proof -
  obtain r' store where store: "insert_market_stream_health T faults health (snd s) = (r', store)" by fastforce
  show "same_ticks s t" "health_mirrored base t" "isl r \<Longrightarrow> t = s"
  proof (atomize (full), cases r')
    case (Inl e)
    then have "t = s" using run store insert_health_error[of T faults health "snd s" e store]
      by (auto simp: run_then_iff market_store_call_iff)
    then show "same_ticks s t \<and> health_mirrored base t \<and> (isl r \<longrightarrow> t = s)" using inv by simp
  next
    case (Inr u)
    then have st: "store = (snd s)\<lparr>mk_health := market_health_row_of health # mk_health (snd s)\<rparr>"
      using store insert_health_ok by blast
    have t: "r = Inr ()" "t = ((fst s)\<lparr>mg_state := (mg_state (fst s))\<lparr>ig_last_health_signature := Some signature\<rparr>\<rparr>, store)"
      using run store Inr by (auto simp: run_then_iff market_store_call_iff set_health_signature_def on_market_state_iff)
    have entry: "health_entry (market_health_row_of health) = written_signature signature"
      using sig by (simp add: health_entry_def market_health_row_of_def)
    obtain new where new: "mk_health (snd s) = new @ mk_health base" "health_log_changes new"
      "map_option written_signature (ig_last_health_signature (mg_state (fst s)))
        = (case new of [] \<Rightarrow> None | row # _ \<Rightarrow> Some (health_entry row))"
      using inv by (auto simp: health_mirrored_def)
    have "health_log_changes (market_health_row_of health # new)"
    proof (cases new)
      case (Cons row rows)
      have "health_entry row = written_signature signature \<Longrightarrow> ig_last_health_signature (mg_state (fst s)) = Some signature"
        using new(3) Cons by (auto dest: written_signature_inj)
      then show ?thesis using new(2) Cons fresh entry by auto
    qed simp
    then show "same_ticks s t \<and> health_mirrored base t \<and> (isl r \<longrightarrow> t = s)"
      using entry new(1) by (auto simp: t st same_ticks_def health_mirrored_def intro!: exI[of _ "market_health_row_of health # new"])
  qed
qed

lemma health_transition:
  assumes "persist_health_transition T faults latency gap corr now s = (r, t)" "health_mirrored base s"
  shows "same_ticks s t" "health_mirrored base t"
proof -
  show "same_ticks s t" "health_mirrored base t"
  proof (atomize (full), cases "assess_market_stream_health latency (ig_sustained_backlog_seconds (mg_state (fst s))) gap
      (mc_heartbeat_timeout_seconds (mg_config (fst s)))")
    case (Inl e)
    then show "same_ticks s t \<and> health_mirrored base t" using assms by (simp add: persist_health_transition_def)
  next
    case (Inr a)
    show "same_ticks s t \<and> health_mirrored base t"
    proof (cases "ig_last_health_signature (mg_state (fst s)) = Some (ha_status a, ha_reason_code a)")
      case True
      then show ?thesis using assms Inr by (simp add: persist_health_transition_def)
    next
      case False
      then have "run_then (market_store_call (insert_market_stream_health T faults (assessed_health (fst s) a latency gap corr now)))
          (\<lambda>_. set_health_signature (ha_status a, ha_reason_code a)) s = (r, t)"
        using assms(1) Inr by (simp add: persist_health_transition_def)
      from log_health[OF this _ _ assms(2)] False show ?thesis
        by (simp add: written_signature_def assessed_health_def)
    qed
  qed
qed

lemma disconnect_keeps:
  assumes "record_stream_disconnect T faults corr now s = (r, t)" "health_mirrored base s"
  shows "same_ticks s t" "health_mirrored base t"
proof -
  have "same_ticks s t \<and> health_mirrored base t"
  proof (cases "market_parse_rfc3339_utc T now")
    case (Inl e)
    then show ?thesis using assms by (simp add: record_stream_disconnect_def)
  next
    case (Inr at')
    then have "run_then (market_store_call (insert_market_stream_health T faults (disconnect_health T at' corr now (fst s))))
        (\<lambda>_. set_health_signature (MarketStreamHealthStatus.Degraded,
          MarketStreamReasonCode_code MarketStreamReasonCode.StreamDisconnected)) s = (r, t)"
      using assms(1) by (simp add: record_stream_disconnect_def)
    from log_health[OF this _ _ assms(2)] show ?thesis
      by (simp add: written_signature_def disconnect_entry_def disconnect_health_def del: MarketStreamReasonCode_code.simps)
  qed
  then show "same_ticks s t" "health_mirrored base t" by simp_all
qed

section \<open>Books\<close>

text \<open>A tick is refused by the store and nothing changes, or it is stored and the state follows.\<close>

lemma ingest_tick_cases:
  assumes run: "ingest_tick T P faults tick ingested_at s = (r, t)"
    and inv: "ticks_mirrored T base signals s" "health_mirrored base s"
  obtains (refused) "isl r" "t = s"
  | (stored) "tick_wf T tick" "mk_ticks (snd t) = accepted_tick_row tick # mk_ticks (snd s)"
      "ticks_mirrored T base signals t" "health_mirrored base t"
      "\<And>outcome. r = Inr outcome \<Longrightarrow> mo_disposition outcome = IngestionDisposition.Accepted
         \<and> mo_correlation_id outcome = tk_correlation_id tick"
proof -
  obtain r1 s1 where insert: "market_store_call (insert_accepted_market_tick T P faults tick) s = (r1, s1)"
    by (meson surj_pair)
  obtain r' store where store: "insert_accepted_market_tick T P faults tick (snd s) = (r', store)" by fastforce
  then have s1: "r1 = map_err map_market_persistence_error r'" "s1 = (fst s, store)"
    using insert by (auto simp: market_store_call_iff)
  show thesis
  proof (cases r')
    case (Inl e)
    then have "s1 = s" using insert_tick_error store s1 by (metis prod.collapse)
    then show thesis using run s1 Inl insert by (intro refused) (auto simp: ingest_tick_def run_then_iff)
  next
    case (Inr u)
    then have wf: "tick_wf T tick" and new: "market_tick_violation P (accepted_tick_row tick) (mk_ticks (snd s)) = None"
      and st: "store = (snd s)\<lparr>mk_ticks := accepted_tick_row tick # mk_ticks (snd s)\<rparr>"
      using store insert_tick_ok[of T P faults tick "snd s" u store] by auto
    obtain observed where observed: "parse_utc_timestamp T (tk_observed_at_utc tick) = Some observed"
      using wf by (auto simp: tick_wf_def split: option.splits)
    have parsed: "market_parse_rfc3339_utc T (tk_observed_at_utc tick) = Inr observed"
      using observed by (simp add: market_parse_iff)
    define s2 where "s2 = ((fst s)\<lparr>mg_freshness_signals := map_option
        (\<lambda>sg. sg\<lparr>sg_market_last_observed_at_utc := Some (tk_observed_at_utc tick)\<rparr>) (mg_freshness_signals (fst s))\<rparr>, store)"
    have notify: "notify_market_signals T (tk_observed_at_utc tick) s1 = (Inr (), s2)"
      using record_market_update_ok[of T "tk_observed_at_utc tick"] observed
      by (simp add: notify_market_signals_def s1 s2_def split: option.split)
    define state where "state = snd (update_runtime_state T observed ingested_at (tk_ingestion_latency_seconds tick)
        (push_market_latency (tk_ingestion_latency_seconds tick) (mg_state (fst s))))"
    define gap where "gap = fst (update_runtime_state T observed ingested_at (tk_ingestion_latency_seconds tick)
        (push_market_latency (tk_ingestion_latency_seconds tick) (mg_state (fst s))))"
    define s3 where "s3 = ((fst s2)\<lparr>mg_state := state\<rparr>, store)"
    have insert': "market_store_call (insert_accepted_market_tick T P faults tick) s = (Inr (), s1)"
      using insert s1 Inr by simp
    define s2' where "s2' = ((fst s2)\<lparr>mg_state := push_market_latency (tk_ingestion_latency_seconds tick) (mg_state (fst s))\<rparr>, store)"
    have push: "on_market_state (\<lambda>state. ((), push_market_latency (tk_ingestion_latency_seconds tick) state)) s2 = (Inr (), s2')"
      by (simp add: on_market_state_iff s2'_def s2_def)
    have update: "on_market_state (update_runtime_state T observed ingested_at (tk_ingestion_latency_seconds tick)) s2' = (Inr gap, s3)"
      by (simp add: on_market_state_iff s2'_def s3_def gap_def state_def)
    have rest: "run_then (persist_health_transition T faults (tk_ingestion_latency_seconds tick) gap (tk_correlation_id tick)
          (tk_observed_at_utc tick)) (\<lambda>_. answer \<lparr>mo_disposition = IngestionDisposition.Accepted,
            mo_reason_code = MarketStreamReasonCode_code MarketStreamReasonCode.TickAccepted,
            mo_correlation_id = tk_correlation_id tick\<rparr>) s3 = (r, t)"
      using run by (simp add: ingest_tick_def run_then_def insert' notify push parsed update pure_result_def
          del: MarketStreamReasonCode_code.simps)
    have view: "ig_latencies_seconds state = ig_latencies_seconds (push_market_latency (tk_ingestion_latency_seconds tick) (mg_state (fst s)))"
      "ig_last_observed_at state = Some observed" "ig_last_health_signature state = ig_last_health_signature (mg_state (fst s))"
      by (simp_all add: state_def update_runtime_state_def push_market_latency_def Let_def)
    have row: "mt_ingest_status (accepted_tick_row tick) = ''accepted''"
      "mt_ingestion_latency_seconds (accepted_tick_row tick) = tk_ingestion_latency_seconds tick"
      "mt_observed_at_utc (accepted_tick_row tick) = tk_observed_at_utc tick"
      by (simp_all add: accepted_tick_row_def)
    have "mt_tick_id (accepted_tick_row tick) \<notin> set (map mt_tick_id (mk_ticks (snd s)))"
      using new by (auto simp: market_tick_violation_def split: if_splits)
    then have key: "distinct (map mt_tick_id (mk_ticks (snd s))) \<Longrightarrow> distinct (map mt_tick_id (mk_ticks (snd s3)))"
      by (simp add: s3_def st)
    obtain rows where rows: "mk_ticks (snd s) = rows @ mk_ticks base"
      "ig_latencies_seconds (mg_state (fst s)) = market_window (map mt_ingestion_latency_seconds (accepted_among rows))"
      "mg_freshness_signals (fst s) = map_option (refreshed (accepted_among rows)) signals"
      "\<forall>row\<in>set (accepted_among rows). \<exists>tick. tick_wf T tick \<and> row = accepted_tick_row tick"
      "distinct (map mt_tick_id (mk_ticks base)) \<longrightarrow> distinct (map mt_tick_id (mk_ticks (snd s)))"
      using inv(1) by (auto simp: ticks_mirrored_def)
    have ticks3: "ticks_mirrored T base signals s3"
      unfolding ticks_mirrored_def
      using rows wf push_market_window view observed key
      by (intro exI[of _ "accepted_tick_row tick # rows"])
        (auto simp: s3_def s2_def st row refreshed_def newest_observation_def option.map_comp o_def
          split: list.split intro!: map_option_cong)
    have health3: "health_mirrored base s3"
      using inv(2) view by (simp add: health_mirrored_def s3_def st)
    obtain r4 s4 where health: "persist_health_transition T faults (tk_ingestion_latency_seconds tick) gap (tk_correlation_id tick)
        (tk_observed_at_utc tick) s3 = (r4, s4)" by (meson surj_pair)
    note kept = health_transition[OF health health3]
    have t: "t = s4" using rest health by (auto simp: run_then_iff)
    show thesis
    proof (rule stored)
      show "mk_ticks (snd t) = accepted_tick_row tick # mk_ticks (snd s)"
        using kept(1) by (simp add: t same_ticks_def s3_def st)
      show "ticks_mirrored T base signals t" using same_ticks_mirrored[OF kept(1) ticks3] by (simp add: t)
      show "mo_disposition outcome = IngestionDisposition.Accepted \<and> mo_correlation_id outcome = tk_correlation_id tick"
        if "r = Inr outcome" for outcome
        using rest that by (auto simp: run_then_iff)
    qed (use wf kept t in auto)
  qed
qed

text \<open>An event put in quarantine is a row of its own and touches nothing else.\<close>

lemma quarantine_cases:
  assumes run: "quarantine_book_event T F P faults event corr now reason message s = (r, t)"
  obtains (refused) "isl r" "t = s"
  | (quarantined) "r = Inr \<lparr>mo_disposition = IngestionDisposition.Quarantined, mo_reason_code = reason, mo_correlation_id = corr\<rparr>"
      "fst t = fst s" "mk_health (snd t) = mk_health (snd s)"
      "mk_ticks (snd t) = quarantined_row (quarantined_event T F event corr now reason message) # mk_ticks (snd s)"
      "mt_tick_id (quarantined_row (quarantined_event T F event corr now reason message)) \<notin> set (map mt_tick_id (mk_ticks (snd s)))"
proof -
  obtain q where q: "q = quarantined_event T F event corr now reason message" by blast
  obtain r' store where store: "insert_quarantined_market_event T P faults q (snd s) = (r', store)" by fastforce
  have run': "run_then (market_store_call (insert_quarantined_market_event T P faults q))
      (\<lambda>_. answer \<lparr>mo_disposition = IngestionDisposition.Quarantined, mo_reason_code = reason, mo_correlation_id = corr\<rparr>) s = (r, t)"
    using run by (simp add: quarantine_book_event_def q)
  show thesis
  proof (cases r')
    case (Inl e)
    then have "store = snd s" using store insert_quarantined_error by blast
    then show thesis using run' store Inl by (intro refused) (auto simp: run_then_iff market_store_call_iff)
  next
    case (Inr u)
    then have st: "store = (snd s)\<lparr>mk_ticks := quarantined_row q # mk_ticks (snd s)\<rparr>"
      using store insert_quarantined_ok by blast
    have "market_tick_violation P (quarantined_row q) (mk_ticks (snd s)) = None"
      using store Inr by (auto simp: insert_quarantined_market_event_def transact_Inr and_then_Inr_iff)
    then have "mt_tick_id (quarantined_row q) \<notin> set (map mt_tick_id (mk_ticks (snd s)))"
      by (auto simp: market_tick_violation_def split: if_splits)
    then show thesis using run' store Inr st unfolding q
      by (intro quarantined) (auto simp: run_then_iff market_store_call_iff)
  qed
qed

lemma quarantined_status [simp]: "mt_ingest_status (quarantined_row q) = ''quarantined''"
  by (simp add: quarantined_row_def)

lemma book_cases:
  assumes run: "process_orderbook_event T F P faults event now s = (r, t)"
    and inv: "ticks_mirrored T base signals s" "health_mirrored base s"
  obtains (refused) "isl r" "t = s"
  | (stored) tick where "tick_wf T tick" "mk_ticks (snd t) = accepted_tick_row tick # mk_ticks (snd s)"
      "ticks_mirrored T base signals t" "health_mirrored base t"
      "\<And>outcome. r = Inr outcome \<Longrightarrow> mo_disposition outcome = IngestionDisposition.Accepted
         \<and> mo_correlation_id outcome = tk_correlation_id tick"
  | (quarantined) outcome row where "r = Inr outcome" "mo_disposition outcome = IngestionDisposition.Quarantined"
      "mk_ticks (snd t) = row # mk_ticks (snd s)" "mt_ingest_status row = ''quarantined''"
      "mt_quarantine_reason_code row = Some (mo_reason_code outcome)" "mt_correlation_id row = mo_correlation_id outcome"
      "fst t = fst s" "mk_health (snd t) = mk_health (snd s)" "ticks_mirrored T base signals t" "health_mirrored base t"
proof (cases "market_parse_rfc3339_utc T now")
  case (Inl e)
  then show thesis using run by (intro refused) (simp_all add: process_orderbook_event_def)
next
  case (Inr ingested_at)
  note finish = quarantined
  have quarantine: thesis if q: "quarantine_book_event T F P faults event corr now reason message s = (r, t)" for corr reason message
    using q
  proof (cases rule: quarantine_cases)
    case quarantined
    let ?row = "quarantined_row (quarantined_event T F event corr now reason message)"
    obtain rows where rows: "mk_ticks (snd s) = rows @ mk_ticks base"
      "ig_latencies_seconds (mg_state (fst s)) = market_window (map mt_ingestion_latency_seconds (accepted_among rows))"
      "ig_last_observed_at (mg_state (fst s)) = newest_observation T (accepted_among rows)"
      "mg_freshness_signals (fst s) = map_option (refreshed (accepted_among rows)) signals"
      "\<forall>row\<in>set (accepted_among rows). \<exists>tick. tick_wf T tick \<and> row = accepted_tick_row tick"
      "distinct (map mt_tick_id (mk_ticks base)) \<longrightarrow> distinct (map mt_tick_id (mk_ticks (snd s)))"
      using inv(1) by (auto simp: ticks_mirrored_def)
    have "ticks_mirrored T base signals t"
      unfolding ticks_mirrored_def using rows quarantined by (intro exI[of _ "?row # rows"]) simp
    moreover have "health_mirrored base t"
      using inv(2) quarantined by (simp add: health_mirrored_def)
    ultimately have "ticks_mirrored T base signals t" "health_mirrored base t" .
    then show thesis using quarantined
      by (intro finish) (auto simp: quarantined_row_def quarantined_event_def Let_def)
  qed (use refused in blast)
  show thesis
  proof (cases "book_update_to_tick T F (mg_config (fst s)) event now ingested_at")
    case (Inl e)
    then show thesis using run Inr quarantine by (simp add: process_orderbook_event_def)
  next
    case (Inr tick)
    note tick = Inr
    show thesis
    proof (cases "validate_market_stream_tick T tick")
      case (Inl e)
      then show thesis using run tick \<open>market_parse_rfc3339_utc T now = Inr ingested_at\<close> quarantine
        by (simp add: process_orderbook_event_def)
    next
      case (Inr u)
      then have "ingest_tick T P faults tick ingested_at s = (r, t)"
        using run tick \<open>market_parse_rfc3339_utc T now = Inr ingested_at\<close> by (simp add: process_orderbook_event_def)
      from this inv show thesis by (cases rule: ingest_tick_cases) (rule refused stored; assumption?)+
    qed
  qed
qed

section \<open>The loop\<close>

text \<open>A runtime that has just been made, over the tables as they are.\<close>

definition market_start :: "MarketStreamRuntimeConfig \<Rightarrow> FreshnessSignalState option \<Rightarrow> market_store \<Rightarrow> market_world" where
  "market_start config signals base =
     ((MarketStreamIngestionRuntime_new config)\<lparr>mg_freshness_signals := signals\<rparr>, base)"

lemma refreshed_Nil: "refreshed [] = (\<lambda>signals. signals)"
  by (simp add: refreshed_def fun_eq_iff)

lemma refreshed_Cons:
  "refreshed (row # rows) = (\<lambda>signals. signals\<lparr>sg_market_last_observed_at_utc := Some (mt_observed_at_utc row)\<rparr>)"
  by (simp add: refreshed_def fun_eq_iff)

lemma market_start_mirrored: "ticks_mirrored T base signals (market_start config signals base)" "health_mirrored base (market_start config signals base)"
  by (simp_all add: ticks_mirrored_def health_mirrored_def market_start_def MarketStreamIngestionRuntime_new_def
      IngestionRuntimeState_default_def empty_market_store_def market_window_def newest_observation_def
      refreshed_Nil option.map_ident)

lemma input_keeps:
  assumes "handle_market_input T F P faults now m n input s = (r, t)" "ticks_mirrored T base signals s" "health_mirrored base s"
  shows "ticks_mirrored T base signals t \<and> health_mirrored base t"
proof (cases "\<exists>b. input = market_input.BookItem b")
  case True
  then obtain b where "input = market_input.BookItem b" by blast
  then obtain r' where "process_orderbook_event T F P faults b now s = (r', t)"
    using assms(1) by (auto simp: handle_market_input_def run_then_iff)
  from this assms(2,3) show ?thesis by (cases rule: book_cases) (use assms in auto)
next
  case False
  then have "after_disconnect T faults (disconnect_message m input) now m n s = (r, t)"
    using assms(1) by (cases input) (auto simp: handle_market_input_def)
  then obtain r' where "record_stream_disconnect T faults (''market-stream-disconnect::'' @ now) now s = (r', t)"
    by (auto simp: after_disconnect_def run_then_iff split: if_splits)
  from disconnect_keeps[OF this assms(3)] show ?thesis using same_ticks_mirrored assms(2) by blast
qed

lemma inputs_keep:
  assumes "run_market_inputs T F P m n events s = (r, t)" "ticks_mirrored T base signals s" "health_mirrored base s"
  shows "ticks_mirrored T base signals t \<and> health_mirrored base t"
  using assms
proof (induction events arbitrary: n s)
  case (Cons event events)
  show ?case
  proof (cases "me_now event")
    case (Inr now)
    obtain r' u where step: "handle_market_input T F P (me_faults event) now m n (me_input event) s = (r', u)"
      by (meson surj_pair)
    note kept = input_keeps[OF step Cons.prems(2,3)]
    show ?thesis
    proof (cases r')
      case (Inl e)
      then show ?thesis using Cons.prems(1) Inr step kept by (simp add: run_then_error)
    next
      case (Inr attempts)
      then show ?thesis using Cons.prems(1) \<open>me_now event = Inr now\<close> step kept Cons.IH
        by (simp add: run_then_step)
    qed
  qed (use Cons.prems in simp)
qed simp

text \<open>Without a stored book the attempts grow with every input the loop survives.\<close>

lemma disconnects_count:
  assumes "run_market_inputs T F P m n events s = (Inr k, t)" "\<forall>e\<in>set events. \<forall>b. me_input e \<noteq> market_input.BookItem b"
    and "n \<le> m"
  shows "k = n + length events \<and> k \<le> m"
  using assms
proof (induction events arbitrary: n s)
  case (Cons event events)
  obtain now where now: "me_now event = Inr now"
    using Cons.prems(1) by (cases "me_now event") auto
  obtain attempts u where step: "handle_market_input T F P (me_faults event) now m n (me_input event) s = (Inr attempts, u)"
    and rest: "run_market_inputs T F P m attempts events u = (Inr k, t)"
    using Cons.prems(1) now by (auto simp: run_then_iff)
  have "after_disconnect T (me_faults event) (disconnect_message m (me_input event)) now m n s = (Inr attempts, u)"
    using step Cons.prems(2) by (cases "me_input event") (auto simp: handle_market_input_def)
  then have "attempts = n + 1" "n + 1 \<le> m"
    by (auto simp: after_disconnect_def run_then_iff split: if_splits)
  then show ?case using Cons.IH[OF rest] Cons.prems(2) by simp
qed simp

lemma ingestion_keeps:
  assumes "run_polymarket_ws_ingestion T F is_u256 P events (market_start config signals base) = (r, s)"
  shows "ticks_mirrored T base signals s" "health_mirrored base s"
proof -
  have "s = market_start config signals base
    \<or> (\<exists>m. run_market_inputs T F P m 0 events (market_start config signals base) = (r, s))"
    using assms by (auto simp: run_polymarket_ws_ingestion_def split: option.splits)
  then have "ticks_mirrored T base signals s \<and> health_mirrored base s"
  proof
    assume "s = market_start config signals base"
    then show ?thesis by (simp add: market_start_mirrored)
  next
    assume "\<exists>m. run_market_inputs T F P m 0 events (market_start config signals base) = (r, s)"
    then show ?thesis using inputs_keep[OF _ market_start_mirrored] by blast
  qed
  then show "ticks_mirrored T base signals s" "health_mirrored base s" by simp_all
qed

lemma run_market_append:
  "run_market_inputs T F P m n (xs @ ys) s =
     (case run_market_inputs T F P m n xs s of (Inl e, t) \<Rightarrow> (Inl e, t) | (Inr k, t) \<Rightarrow> run_market_inputs T F P m k ys t)"
proof (induction xs arbitrary: n s)
  case (Cons event xs)
  show ?case
    by (cases "me_now event") (auto simp: run_then_def Cons.IH refuse_def split: prod.split sum.split)
qed (simp add: answer_def)

lemma attempts_bounded:
  assumes "run_market_inputs T F P m n events s = (Inr k, t)" "n \<le> m"
  shows "k \<le> m"
  using assms
proof (induction events arbitrary: n s)
  case (Cons event events)
  obtain now where now: "me_now event = Inr now"
    using Cons.prems(1) by (cases "me_now event") auto
  obtain attempts u where step: "handle_market_input T F P (me_faults event) now m n (me_input event) s = (Inr attempts, u)"
    and rest: "run_market_inputs T F P m attempts events u = (Inr k, t)"
    using Cons.prems(1) now by (auto simp: run_then_iff)
  have "attempts \<le> m"
    using step by (cases "me_input event") (auto simp: handle_market_input_def after_disconnect_def run_then_iff split: if_splits)
  then show ?case using Cons.IH[OF rest] by simp
qed simp

section \<open>What the ingestion guarantees\<close>

text \<open>
  C19: However the loop goes, whatever the tables held before, and whatever books, losses of the
  connection and database faults it meets, its run-time state is what the rows added since its
  start say: the latency window holds the latencies of the newest 2000 accepted ticks, the last
  observation and the freshness signal are the time of the newest accepted tick, the last health
  signature is the newest row of the health log; every accepted row is a valid tick, no tick is
  stored twice, and a health row differs from the one before it unless it reports a lost
  connection.
\<close>

theorem market_state_follows_store:
  assumes "run_polymarket_ws_ingestion T F is_u256 P events (market_start config signals base) = (r, (self, store))"
  shows "\<exists>ticks health. mk_ticks store = ticks @ mk_ticks base \<and> mk_health store = health @ mk_health base
    \<and> ig_latencies_seconds (mg_state self) = rev (take 2000 (map mt_ingestion_latency_seconds (accepted_among ticks)))
    \<and> ig_last_observed_at (mg_state self)
        = (case accepted_among ticks of [] \<Rightarrow> None | row # _ \<Rightarrow> parse_utc_timestamp T (mt_observed_at_utc row))
    \<and> mg_freshness_signals self = map_option (refreshed (accepted_among ticks)) signals
    \<and> map_option written_signature (ig_last_health_signature (mg_state self))
        = (case health of [] \<Rightarrow> None | row # _ \<Rightarrow> Some (health_entry row))
    \<and> (\<forall>row\<in>set (accepted_among ticks). \<exists>tick. tick_wf T tick \<and> row = accepted_tick_row tick)
    \<and> (distinct (map mt_tick_id (mk_ticks base)) \<longrightarrow> distinct (map mt_tick_id (mk_ticks store)))
    \<and> health_log_changes health"
proof -
  obtain ticks where "mk_ticks store = ticks @ mk_ticks base"
    "ig_latencies_seconds (mg_state self) = market_window (map mt_ingestion_latency_seconds (accepted_among ticks))"
    "ig_last_observed_at (mg_state self) = newest_observation T (accepted_among ticks)"
    "mg_freshness_signals self = map_option (refreshed (accepted_among ticks)) signals"
    "\<forall>row\<in>set (accepted_among ticks). \<exists>tick. tick_wf T tick \<and> row = accepted_tick_row tick"
    "distinct (map mt_tick_id (mk_ticks base)) \<longrightarrow> distinct (map mt_tick_id (mk_ticks store))"
    using ingestion_keeps(1)[OF assms] by (auto simp: ticks_mirrored_def)
  moreover obtain health where "mk_health store = health @ mk_health base"
    "map_option written_signature (ig_last_health_signature (mg_state self))
        = (case health of [] \<Rightarrow> None | row # _ \<Rightarrow> Some (health_entry row))" "health_log_changes health"
    using ingestion_keeps(2)[OF assms] by (auto simp: health_mirrored_def)
  ultimately show ?thesis
    by (intro exI[of _ ticks] exI[of _ health]) (simp add: market_window_def newest_observation_def)
qed

text \<open>
  C20: At any point of the loop a book is refused by the database and changes nothing, or becomes
  exactly one row: a valid tick, which moves the freshness signal to its time, or a quarantined
  event, which leaves the run-time state and the freshness signal alone.
\<close>

theorem books_become_one_row:
  assumes "run_polymarket_ws_ingestion T F is_u256 P events (market_start config signals base) = (r, s)"
    and "process_orderbook_event T F P faults event now s = (result, t)"
  shows "(isl result \<and> t = s)
    \<or> (\<exists>row. mk_ticks (snd t) = row # mk_ticks (snd s)
        \<and> ((mt_ingest_status row = ''accepted'' \<and> (\<exists>tick. tick_wf T tick \<and> row = accepted_tick_row tick)
             \<and> mg_freshness_signals (fst t)
                 = map_option (\<lambda>sg. sg\<lparr>sg_market_last_observed_at_utc := Some (mt_observed_at_utc row)\<rparr>) signals)
         \<or> (mt_ingest_status row = ''quarantined'' \<and> fst t = fst s \<and> mk_health (snd t) = mk_health (snd s))))"
  using assms(2) ingestion_keeps[OF assms(1)]
proof (cases rule: book_cases)
  case (stored tick)
  have "mt_ingest_status (accepted_tick_row tick) = ''accepted''" by (simp add: accepted_tick_row_def)
  moreover have "mg_freshness_signals (fst t)
      = map_option (\<lambda>sg. sg\<lparr>sg_market_last_observed_at_utc := Some (mt_observed_at_utc (accepted_tick_row tick))\<rparr>) signals"
    using stored ingestion_keeps(1)[OF assms(1)] \<open>mt_ingest_status (accepted_tick_row tick) = ''accepted''\<close>
    by (auto simp: ticks_mirrored_def refreshed_Cons append_eq_Cons_conv Cons_eq_append_conv)
  ultimately show ?thesis using stored
    by (intro disjI2 exI[of _ "accepted_tick_row tick"]) auto
next
  case (quarantined outcome row)
  then show ?thesis by (intro disjI2 exI[of _ row]) auto
qed simp

text \<open>
  C21: The loop does not reconnect for ever: once more inputs in a row than the allowed attempts
  bring no book, whatever came before, the loop has ended with an error.
\<close>

theorem reconnects_are_bounded:
  assumes "max_attempts < length events"
    and "\<forall>e\<in>set events. \<forall>b. me_input e \<noteq> market_input.BookItem b"
  shows "isl (fst (run_market_inputs T F P max_attempts 0 (before @ events @ after) s))"
proof -
  obtain r u where Pair: "run_market_inputs T F P max_attempts 0 before s = (r, u)" by (meson surj_pair)
  show ?thesis
  proof (cases r)
    case (Inr n)
    then have "n \<le> max_attempts" using attempts_bounded[of T F P max_attempts 0 before s n u] Pair by simp
    obtain r' v where run: "run_market_inputs T F P max_attempts n events u = (r', v)" by (meson surj_pair)
    have "isl r'"
      using disconnects_count[OF _ assms(2) \<open>n \<le> max_attempts\<close>] assms(1) run by (cases r') fastforce+
    then show ?thesis using Pair Inr run by (cases r') (simp_all add: run_market_append)
  qed (use Pair in \<open>simp add: run_market_append\<close>)
qed

section \<open>Concrete runs\<close>

text \<open>A book whose levels all stand at zero, which the validator admits.\<close>

definition demo_book :: BookUpdate where
  "demo_book = \<lparr>bu_market = ''market-1'', bu_asset_id = ''asset-1'', bu_timestamp = 0,
     bu_bids = [\<lparr>ol_price = ''0'', ol_size = ''0''\<rparr>], bu_asks = [\<lparr>ol_price = ''0'', ol_size = ''0''\<rparr>]\<rparr>"

definition demo_market_config :: MarketStreamRuntimeConfig where
  "demo_market_config =
     \<lparr>mc_stream_name = ''stream-1'', mc_stream_endpoint = ''wss://venue'', mc_cluster_id = ''cluster-1'',
      mc_asset_ids = [''1''], mc_default_tick_size = Fin (1 / 64), mc_heartbeat_timeout_seconds = Fin 15,
      mc_reconnect_backoff_seconds = Fin 1, mc_max_reconnect_attempts = 1\<rparr>"

definition demo_input :: "market_input \<Rightarrow> market_event" where
  "demo_input input = \<lparr>me_input = input, me_now = Inr ''2026-04-06T00:00:01Z'', me_faults = (\<lambda>_. None)\<rparr>"

definition demo_market_run :: "market_input list \<Rightarrow> (MarketIngestionError + nat) \<times> market_world" where
  "demo_market_run inputs = run_polymarket_ws_ingestion demo_time demo_format (\<lambda>_. True) demo_pg (map demo_input inputs)
     (market_start demo_market_config (Some FreshnessSignalState_default) empty_market_store)"

lemma demo_market_ticks:
  "map mt_ingest_status (mk_ticks (snd (snd (demo_market_run [market_input.BookItem demo_book])))) = [''accepted'']"
  by code_simp

text \<open>
  A book that the venue sends again, as it does when the connection is opened anew and the book has
  not changed, has the key of the stored tick: the database refuses it and the loop ends.
\<close>

lemma redelivered_book_ends_ingestion:
  "fst (demo_market_run [market_input.BookItem demo_book]) = Inr 0"
  "isl (fst (demo_market_run [market_input.BookItem demo_book, market_input.StreamEnded, market_input.BookItem demo_book]))"
  subgoal by code_simp
  subgoal by code_simp
  done

lemma market_state_follows_store_witness:
  "\<exists>r self store. demo_market_run [market_input.BookItem demo_book] = (r, (self, store))
     \<and> map mt_ingest_status (mk_ticks store) = [''accepted'']
     \<and> ig_last_observed_at (mg_state self) = parse_utc_timestamp demo_time (mt_observed_at_utc (hd (mk_ticks store)))
     \<and> mg_freshness_signals self = map_option (refreshed (mk_ticks store)) (Some FreshnessSignalState_default)"
proof -
  obtain r self store where run: "demo_market_run [market_input.BookItem demo_book] = (r, (self, store))"
    by (metis prod.collapse)
  show ?thesis
    using market_state_follows_store[OF run[unfolded demo_market_run_def]] demo_market_ticks run
    by (auto simp: empty_market_store_def)
qed

lemma books_become_one_row_witness:
  "\<exists>result t. process_orderbook_event demo_time demo_format demo_pg (\<lambda>_. None) demo_book ''2026-04-06T00:00:01Z''
      (market_start demo_market_config None empty_market_store) = (result, t)
    \<and> \<not> isl result \<and> length (mk_ticks (snd t)) = 1"
proof -
  have start: "run_polymarket_ws_ingestion demo_time demo_format (\<lambda>_. True) demo_pg [] (market_start demo_market_config None empty_market_store)
      = (Inr 0, market_start demo_market_config None empty_market_store)"
    by code_simp
  obtain result t where run: "process_orderbook_event demo_time demo_format demo_pg (\<lambda>_. None) demo_book ''2026-04-06T00:00:01Z''
      (market_start demo_market_config None empty_market_store) = (result, t)" by (meson surj_pair)
  have "\<not> isl (fst (process_orderbook_event demo_time demo_format demo_pg (\<lambda>_. None) demo_book ''2026-04-06T00:00:01Z''
      (market_start demo_market_config None empty_market_store)))" by code_simp
  then have "\<not> isl result" by (simp add: run)
  moreover have "mk_ticks (snd (market_start demo_market_config None empty_market_store)) = []"
    by (simp add: market_start_def empty_market_store_def)
  ultimately show ?thesis using books_become_one_row[OF start run] run by auto
qed

lemma reconnects_are_bounded_witness:
  "isl (fst (demo_market_run [market_input.BookItem demo_book, market_input.StreamEnded, market_input.ClientFailed ''down'']))"
proof -
  have "isl (fst (run_market_inputs demo_time demo_format demo_pg 1 0
      ([demo_input (market_input.BookItem demo_book)]
        @ [demo_input market_input.StreamEnded, demo_input (market_input.ClientFailed ''down'')] @ [])
      (market_start demo_market_config (Some FreshnessSignalState_default) empty_market_store)))"
    by (rule reconnects_are_bounded) (simp_all add: demo_input_def)
  then show ?thesis
    by (simp add: demo_market_run_def run_polymarket_ws_ingestion_def market_start_def MarketStreamIngestionRuntime_new_def
        demo_market_config_def del: run_market_inputs.simps)
qed

end
