(* ===== verification/EnvironmentConfig.thy ===== *)
theory EnvironmentConfig
  imports MarketStreamRuntime
begin

text \<open>
  The configurations the execution engine reads from its environment: the market stream
  (\<open>services/execution-engine/src/ingestion/mod.rs\<close>), the user stream (\<open>user_stream.rs\<close>) and the
  freshness gate (\<open>freshness_gate.rs\<close>). The environment maps the name of a variable to its value
  where it is set and valid Unicode. The identifiers and keys of the venue are parsed by its client
  library, which is a parameter.
\<close>

section \<open>Reading the environment\<close>

type_synonym environment = "string \<Rightarrow> string option"

definition setting_f64 :: "(string \<Rightarrow> 'e) \<Rightarrow> environment \<Rightarrow> string \<Rightarrow> f64 \<Rightarrow> 'e + f64" where
  "setting_f64 invalid env key current = (case env key of
      Some value \<Rightarrow> parse_positive_f64 invalid key value
    | None \<Rightarrow> Inr current)"

definition setting_u32 :: "(string \<Rightarrow> 'e) \<Rightarrow> environment \<Rightarrow> string \<Rightarrow> nat \<Rightarrow> 'e + nat" where
  "setting_u32 invalid env key current = (case env key of
      Some value \<Rightarrow> parse_positive_u32 invalid key value
    | None \<Rightarrow> Inr current)"

definition setting_text :: "environment \<Rightarrow> string \<Rightarrow> (string \<Rightarrow> string) \<Rightarrow> string \<Rightarrow> string" where
  "setting_text env key clean current = (case env key of Some value \<Rightarrow> clean value | None \<Rightarrow> current)"

text \<open>\<open>value.split(',').map(str::trim).filter(|value| !value.is_empty())\<close>\<close>

fun split_on :: "char \<Rightarrow> string \<Rightarrow> string list" where
  "split_on c [] = [[]]"
| "split_on c (x # xs) = (if x = c then [] # split_on c xs
     else case split_on c xs of word # words \<Rightarrow> (x # word) # words | [] \<Rightarrow> [[x]])"

definition identifier_list :: "string \<Rightarrow> string list" where
  "identifier_list value = filter (\<lambda>v. v \<noteq> []) (map trim (split_on (CHR '','') value))"

definition required_env :: "(string \<Rightarrow> 'e) \<Rightarrow> environment \<Rightarrow> string \<Rightarrow> 'e + string" where
  "required_env invalid env key = (case env key of
      None \<Rightarrow> Inl (invalid (key @ '' must be set''))
    | Some value \<Rightarrow> if blank value then Inl (invalid (key @ '' cannot be blank'')) else Inr (trim value))"

section \<open>The configurations\<close>

definition MarketStreamRuntimeConfig_from_env :: "environment \<Rightarrow> MarketIngestionError + MarketStreamRuntimeConfig" where
  "MarketStreamRuntimeConfig_from_env env =
     (let config = MarketStreamRuntimeConfig_default;
          name = setting_text env ''EXECUTION_MARKET_STREAM_NAME'' trim (mc_stream_name config);
          endpoint = setting_text env ''EXECUTION_MARKET_STREAM_ENDPOINT'' trim (mc_stream_endpoint config);
          cluster_id = setting_text env ''EXECUTION_MARKET_STREAM_CLUSTER_ID'' normalize (mc_cluster_id config)
      in and_then (setting_f64 market_invalid env ''EXECUTION_MARKET_STREAM_DEFAULT_TICK_SIZE''
           (mc_default_tick_size config)) (\<lambda>tick_size.
         and_then (setting_f64 market_invalid env ''EXECUTION_MARKET_STREAM_HEARTBEAT_TIMEOUT_SECONDS''
           (mc_heartbeat_timeout_seconds config)) (\<lambda>heartbeat.
         and_then (setting_f64 market_invalid env ''EXECUTION_MARKET_STREAM_RECONNECT_BACKOFF_SECONDS''
           (mc_reconnect_backoff_seconds config)) (\<lambda>backoff.
         and_then (setting_u32 market_invalid env ''EXECUTION_MARKET_STREAM_MAX_RECONNECT_ATTEMPTS''
           (mc_max_reconnect_attempts config)) (\<lambda>attempts.
         case env ''EXECUTION_MARKET_STREAM_ASSET_IDS'' of
           None \<Rightarrow> Inl (market_invalid ''EXECUTION_MARKET_STREAM_ASSET_IDS must provide comma-separated asset ids'')
         | Some asset_ids \<Rightarrow>
             if identifier_list asset_ids = [] then Inl (market_invalid ''EXECUTION_MARKET_STREAM_ASSET_IDS cannot be blank'')
             else if cluster_id = [] then Inl (market_invalid ''EXECUTION_MARKET_STREAM_CLUSTER_ID cannot be blank'')
             else if name = [] then Inl (market_invalid ''EXECUTION_MARKET_STREAM_NAME cannot be blank'')
             else if endpoint = [] then Inl (market_invalid ''EXECUTION_MARKET_STREAM_ENDPOINT cannot be blank'')
             else Inr \<lparr>mc_stream_name = name, mc_stream_endpoint = endpoint, mc_cluster_id = cluster_id,
               mc_asset_ids = identifier_list asset_ids, mc_default_tick_size = tick_size,
               mc_heartbeat_timeout_seconds = heartbeat, mc_reconnect_backoff_seconds = backoff,
               mc_max_reconnect_attempts = attempts\<rparr>)))))"

record UserStreamRuntimeConfig =
  us_stream_name :: string
  us_stream_endpoint :: string
  us_market_ids :: "string list"
  us_api_key :: string
  us_api_secret :: string
  us_api_passphrase :: string
  us_address :: string
  us_reconnect_backoff_seconds :: f64
  us_max_reconnect_attempts :: nat

definition UserStreamRuntimeConfig_default :: UserStreamRuntimeConfig where
  "UserStreamRuntimeConfig_default =
     \<lparr>us_stream_name = ''polymarket_user_stream'',
      us_stream_endpoint = ''wss://ws-subscriptions-clob.polymarket.com'', us_market_ids = [], us_api_key = [],
      us_api_secret = [], us_api_passphrase = [], us_address = [], us_reconnect_backoff_seconds = Fin 1,
      us_max_reconnect_attempts = 5\<rparr>"

definition UserStreamRuntimeConfig_from_env :: "environment \<Rightarrow> UserStreamIngestionError + UserStreamRuntimeConfig" where
  "UserStreamRuntimeConfig_from_env env =
     (let config = UserStreamRuntimeConfig_default;
          name = setting_text env ''EXECUTION_USER_STREAM_NAME'' trim (us_stream_name config);
          endpoint = setting_text env ''EXECUTION_USER_STREAM_ENDPOINT'' trim (us_stream_endpoint config)
      in and_then (setting_f64 user_invalid env ''EXECUTION_USER_STREAM_RECONNECT_BACKOFF_SECONDS''
           (us_reconnect_backoff_seconds config)) (\<lambda>backoff.
         and_then (setting_u32 user_invalid env ''EXECUTION_USER_STREAM_MAX_RECONNECT_ATTEMPTS''
           (us_max_reconnect_attempts config)) (\<lambda>attempts.
         case env ''EXECUTION_USER_STREAM_MARKET_IDS'' of
           None \<Rightarrow> Inl (user_invalid ''EXECUTION_USER_STREAM_MARKET_IDS must provide comma-separated market ids'')
         | Some market_ids \<Rightarrow>
             if identifier_list market_ids = [] then Inl (user_invalid ''EXECUTION_USER_STREAM_MARKET_IDS cannot be blank'')
             else
         and_then (required_env user_invalid env ''EXECUTION_POLYMARKET_API_KEY'') (\<lambda>api_key.
         and_then (required_env user_invalid env ''EXECUTION_POLYMARKET_API_SECRET'') (\<lambda>api_secret.
         and_then (required_env user_invalid env ''EXECUTION_POLYMARKET_API_PASSPHRASE'') (\<lambda>api_passphrase.
         and_then (required_env user_invalid env ''EXECUTION_POLYMARKET_ADDRESS'') (\<lambda>address.
             if blank name then Inl (user_invalid ''EXECUTION_USER_STREAM_NAME cannot be blank'')
             else if blank endpoint then Inl (user_invalid ''EXECUTION_USER_STREAM_ENDPOINT cannot be blank'')
             else Inr \<lparr>us_stream_name = name, us_stream_endpoint = endpoint, us_market_ids = identifier_list market_ids,
               us_api_key = api_key, us_api_secret = api_secret, us_api_passphrase = api_passphrase, us_address = address,
               us_reconnect_backoff_seconds = backoff, us_max_reconnect_attempts = attempts\<rparr>)))))))"

definition freshness_setting_invalid :: "string \<Rightarrow> FreshnessGateRuntimeError" where
  "freshness_setting_invalid message =
     FreshnessGateRuntimeError_new (FreshnessGateReasonCode_code FreshnessGateReasonCode.InvalidPayload) message"

definition FreshnessGateRuntimeConfig_from_env :: "environment \<Rightarrow> FreshnessGateRuntimeError + FreshnessGateRuntimeConfig" where
  "FreshnessGateRuntimeConfig_from_env env =
     (let config = FreshnessGateRuntimeConfig_default; policy = fc_policy config
      in and_then (setting_f64 freshness_setting_invalid env ''EXECUTION_FRESHNESS_EVALUATION_INTERVAL_SECONDS''
           (fc_evaluation_interval_seconds config)) (\<lambda>interval.
         and_then (setting_f64 freshness_setting_invalid env ''EXECUTION_FRESHNESS_STALE_THRESHOLD_SECONDS''
           (fp_stale_threshold_seconds policy)) (\<lambda>stale.
         and_then (setting_f64 freshness_setting_invalid env ''EXECUTION_FRESHNESS_STABILITY_WINDOW_SECONDS''
           (fp_stability_window_seconds policy)) (\<lambda>stability.
         and_then (setting_f64 freshness_setting_invalid env ''EXECUTION_FRESHNESS_MAX_BREACH_TO_PAUSE_SECONDS''
           (fp_max_breach_to_pause_seconds policy)) (\<lambda>breach.
         let policy = \<lparr>fp_stale_threshold_seconds = stale, fp_stability_window_seconds = stability,
               fp_max_breach_to_pause_seconds = breach\<rparr>
         in and_then (map_err map_freshness_runtime_contract_error (validate_freshness_gate_policy policy)) (\<lambda>_.
            Inr \<lparr>fc_evaluation_interval_seconds = interval, fc_policy = policy\<rparr>))))))"

text \<open>
  What the user stream does with its configuration before it connects. The client library parses
  the market identifiers, the key and the address.
\<close>

record venue_parsers =
  vp_market_id :: "string \<Rightarrow> string option" \<comment> \<open>the text of the error, if there is one\<close>
  vp_api_key :: "string \<Rightarrow> string option"
  vp_address :: "string \<Rightarrow> string option"

fun parse_market_targets :: "venue_parsers \<Rightarrow> string list \<Rightarrow> UserStreamIngestionError + unit" where
  "parse_market_targets V [] = Inr ()"
| "parse_market_targets V (market_id # market_ids) = (case vp_market_id V market_id of
      Some error \<Rightarrow> Inl (user_invalid (''invalid user stream market id `'' @ market_id @ ''`: '' @ error))
    | None \<Rightarrow> parse_market_targets V market_ids)"

definition parse_credentials :: "venue_parsers \<Rightarrow> UserStreamRuntimeConfig \<Rightarrow> UserStreamIngestionError + unit" where
  "parse_credentials V config = (case vp_api_key V (trim (us_api_key config)) of
      Some error \<Rightarrow> Inl (user_invalid (''EXECUTION_POLYMARKET_API_KEY must be a UUID: '' @ error))
    | None \<Rightarrow> Inr ())"

definition parse_address :: "venue_parsers \<Rightarrow> string \<Rightarrow> UserStreamIngestionError + unit" where
  "parse_address V value = (case vp_address V (trim value) of
      Some error \<Rightarrow> Inl (user_invalid (''EXECUTION_POLYMARKET_ADDRESS must be a valid address: '' @ error))
    | None \<Rightarrow> Inr ())"

text \<open>The user stream from its configuration on.\<close>

definition run_polymarket_user_ws_ingestion ::
    "time_crate \<Rightarrow> time_format \<Rightarrow> (string \<Rightarrow> string) \<Rightarrow> db_faults \<Rightarrow> ('json \<Rightarrow> bool) \<Rightarrow> (OrderMessage \<Rightarrow> 'json)
      \<Rightarrow> (TradeMessage \<Rightarrow> 'json) \<Rightarrow> venue_parsers \<Rightarrow> UserStreamRuntimeConfig \<Rightarrow> ws_event list
      \<Rightarrow> 'o UserStreamIngestionRuntime \<times> (user_store \<times> 'o)
      \<Rightarrow> (UserStreamIngestionError + nat) \<times> ('o UserStreamIngestionRuntime \<times> (user_store \<times> 'o))" where
  "run_polymarket_user_ws_ingestion T F render faults is_null order_json trade_json V config events s =
     (let (self, store, orders) = s;
          (hydrated, state) = hydrate_auth_state_from_store T render faults store (un_state self);
          s = (self\<lparr>un_state := state\<rparr>, (store, orders))
      in case and_then hydrated (\<lambda>_. and_then (parse_market_targets V (us_market_ids config)) (\<lambda>_.
           and_then (parse_credentials V config) (\<lambda>_. parse_address V (us_address config)))) of
        Inl error \<Rightarrow> (Inl error, s)
      | Inr _ \<Rightarrow> run_user_ws T F render is_null order_json trade_json (us_max_reconnect_attempts config) 0 events s)"

section \<open>What a configuration satisfies\<close>

definition positive :: "f64 \<Rightarrow> bool" where
  "positive x \<longleftrightarrow> f_is_finite x \<and> f_lt (Fin 0) x"

lemma setting_f64_positive: "setting_f64 invalid env key d = Inr x \<Longrightarrow> positive d \<Longrightarrow> positive x"
  using parse_positive_f64_Inr by (auto simp: setting_f64_def positive_def split: option.splits)

lemma setting_u32_positive: "setting_u32 invalid env key d = Inr n \<Longrightarrow> 0 < d \<Longrightarrow> d < 2 ^ 32 \<Longrightarrow> 0 < n \<and> n < 2 ^ 32"
  using parse_positive_u32_Inr by (auto simp: setting_u32_def split: option.splits)

lemma identifier_list_trimmed: "v \<in> set (identifier_list value) \<Longrightarrow> v \<noteq> [] \<and> (\<exists>w. v = trim w)"
  by (auto simp: identifier_list_def)

lemma default_tick_size_positive: "positive (mc_default_tick_size MarketStreamRuntimeConfig_default)"
proof -
  have "round_f64 (1 / 100) = Fin (5764607523034235 / 2 ^ (52 + 7))"
    using round_f64_literal[where m = 7 and n = 5764607523034235 and q = "1 / 100"] by simp
  then show ?thesis by (simp add: MarketStreamRuntimeConfig_default_def positive_def)
qed

lemma market_config_sound:
  assumes "MarketStreamRuntimeConfig_from_env env = Inr c"
  shows "positive (mc_default_tick_size c) \<and> positive (mc_heartbeat_timeout_seconds c) \<and> positive (mc_reconnect_backoff_seconds c)
    \<and> 0 < mc_max_reconnect_attempts c \<and> mc_max_reconnect_attempts c < 2 ^ 32
    \<and> mc_asset_ids c \<noteq> [] \<and> mc_stream_name c \<noteq> [] \<and> mc_cluster_id c \<noteq> []"
proof -
  have defaults: "positive (mc_heartbeat_timeout_seconds MarketStreamRuntimeConfig_default)"
    "positive (mc_reconnect_backoff_seconds MarketStreamRuntimeConfig_default)"
    "0 < mc_max_reconnect_attempts MarketStreamRuntimeConfig_default" "mc_max_reconnect_attempts MarketStreamRuntimeConfig_default < 2 ^ 32"
    by (simp_all add: MarketStreamRuntimeConfig_default_def positive_def)
  show ?thesis
    using assms unfolding MarketStreamRuntimeConfig_from_env_def Let_def and_then_Inr_iff
    by (elim exE conjE)
      (auto dest: setting_f64_positive[OF _ default_tick_size_positive] setting_f64_positive[OF _ defaults(1)]
        setting_f64_positive[OF _ defaults(2)] setting_u32_positive[OF _ defaults(3,4)] split: option.splits if_splits)
qed

lemma user_config_sound:
  assumes "UserStreamRuntimeConfig_from_env env = Inr c"
  shows "positive (us_reconnect_backoff_seconds c) \<and> 0 < us_max_reconnect_attempts c \<and> us_market_ids c \<noteq> []
    \<and> \<not> blank (us_stream_name c) \<and> \<not> blank (us_stream_endpoint c)"
proof -
  have defaults: "positive (us_reconnect_backoff_seconds UserStreamRuntimeConfig_default)"
    "0 < us_max_reconnect_attempts UserStreamRuntimeConfig_default" "us_max_reconnect_attempts UserStreamRuntimeConfig_default < 2 ^ 32"
    by (simp_all add: UserStreamRuntimeConfig_default_def positive_def)
  show ?thesis
    using assms unfolding UserStreamRuntimeConfig_from_env_def Let_def and_then_Inr_iff
    by (elim exE conjE)
      (auto simp: and_then_Inr_iff dest: setting_f64_positive[OF _ defaults(1)] setting_u32_positive[OF _ defaults(2,3)]
        split: option.splits if_splits)
qed

lemma freshness_config_sound:
  assumes "FreshnessGateRuntimeConfig_from_env env = Inr c"
  shows "freshness_policy_wf (fc_policy c) \<and> positive (fc_evaluation_interval_seconds c)"
proof -
  have "positive (fc_evaluation_interval_seconds FreshnessGateRuntimeConfig_default)"
    by (simp add: FreshnessGateRuntimeConfig_default_def positive_def)
  then show ?thesis
    using assms unfolding FreshnessGateRuntimeConfig_from_env_def Let_def and_then_Inr_iff
    by (elim exE conjE) (auto simp: and_then_Inr_iff dest: setting_f64_positive)
qed

end
