(* ===== verification/ReconciliationStore.thy ===== *)
theory ReconciliationStore
  imports Reconciliation OrderStore Json
begin

text \<open>
  The evidence tables of \<open>crates/persistence/src/postgres/reconciliation.rs\<close>: runs, their
  differences and exposure snapshots, written in one transaction. The keys, the reference and the
  checks are those of the migration, as far as the validators leave them something to reject. The
  statements of the transaction are numbered, and every number has its own fault.
\<close>

section \<open>Errors\<close>

type_synonym ReconciliationPersistenceError = contract_error

definition ReconciliationPersistenceError_invalid_payload ::
    "string \<Rightarrow> ReconciliationValidationIssue list \<Rightarrow> ReconciliationPersistenceError" where
  "ReconciliationPersistenceError_invalid_payload message field_errors =
     contract_error_of (ReconciliationReasonCode_code ReconciliationReasonCode.InvalidPayload) message field_errors"

definition ReconciliationPersistenceError_persistence_unavailable ::
    "string \<Rightarrow> constraint_fault \<Rightarrow> ReconciliationPersistenceError" where
  "ReconciliationPersistenceError_persistence_unavailable operation error =
     contract_error_of (ReconciliationReasonCode_code ReconciliationReasonCode.PersistenceUnavailable)
       (operation @ '' failed: '' @ df_text error) []"

definition ReconciliationPersistenceError_constraint_violation ::
    "string \<Rightarrow> constraint_fault \<Rightarrow> ReconciliationPersistenceError" where
  "ReconciliationPersistenceError_constraint_violation operation error =
     contract_error_of (ReconciliationReasonCode_code ReconciliationReasonCode.PersistenceUnavailable)
       (operation @ '' rejected by constraint: '' @ df_text error) []"

definition map_recon_store_contract_error :: "ReconciliationContractError \<Rightarrow> ReconciliationPersistenceError" where
  "map_recon_store_contract_error error = contract_error_of (ce_code error) (ce_message error) (ce_field_errors error)"

definition classify_recon_query_error :: "string \<Rightarrow> constraint_fault \<Rightarrow> ReconciliationPersistenceError" where
  "classify_recon_query_error operation error =
     (if is_constraint_error error then ReconciliationPersistenceError_constraint_violation operation error
      else ReconciliationPersistenceError_persistence_unavailable operation error)"

definition validate_recon_store_non_empty :: "string \<Rightarrow> string \<Rightarrow> ReconciliationPersistenceError + unit" where
  "validate_recon_store_non_empty field value =
     (if blank value then Inl (ReconciliationPersistenceError_invalid_payload (field @ '' cannot be blank'') [])
      else Inr ())"

section \<open>Tables\<close>

record reconciliation_run_row =
  rv_run_id :: string
  rv_window_started_at_utc :: string
  rv_window_ended_at_utc :: string
  rv_compared_records :: int
  rv_mismatch_count :: int
  rv_mismatch_rate :: f64
  rv_critical_halt :: bool
  rv_status :: string
  rv_reason_code :: string
  rv_correlation_id :: string
  rv_evaluated_at_utc :: string
  rv_evidence :: json

record reconciliation_diff_row =
  rj_diff_id :: string
  rj_run_id :: string
  rj_order_id :: string
  rj_market_id :: string
  rj_diff_class :: string
  rj_reason_code :: string
  rj_internal_value :: "string option"
  rj_venue_value :: "string option"
  rj_observed_at_utc :: string
  rj_correlation_id :: string

record exposure_snapshot_row =
  xs_snapshot_id :: string
  xs_run_id :: string
  xs_market_id :: "string option"
  xs_net_exposure :: f64
  xs_gross_exposure :: f64
  xs_open_order_count :: int
  xs_reason_code :: string
  xs_captured_at_utc :: string
  xs_correlation_id :: string
  xs_evidence :: json

record evidence_tables =
  et_runs :: "reconciliation_run_row list" \<comment> \<open>newest first\<close>
  et_diffs :: "reconciliation_diff_row list" \<comment> \<open>newest first\<close>
  et_snapshots :: "exposure_snapshot_row list" \<comment> \<open>newest first\<close>

definition empty_evidence_tables :: evidence_tables where
  "empty_evidence_tables = \<lparr>et_runs = [], et_diffs = [], et_snapshots = []\<rparr>"

text \<open>The rows as they are bound.\<close>

definition run_evidence :: "ReconciliationRunSummary \<Rightarrow> json" where
  "run_evidence run = JObject
     [(''compared_records'', JInt (rq_compared_records run)), (''critical_halt'', JBool (rq_critical_halt run)),
      (''mismatch_count'', JInt (rq_mismatch_count run)), (''mismatch_rate'', json_f64 (rq_mismatch_rate run)),
      (''reason_code'', JString (rq_reason_code run)), (''run_id'', JString (rq_run_id run)),
      (''window_ended_at_utc'', JString (rq_window_ended_at_utc run)),
      (''window_started_at_utc'', JString (rq_window_started_at_utc run))]"

definition reconciliation_run_row_of :: "ReconciliationRunSummary \<Rightarrow> reconciliation_run_row" where
  "reconciliation_run_row_of run =
     \<lparr>rv_run_id = rq_run_id run, rv_window_started_at_utc = rq_window_started_at_utc run,
      rv_window_ended_at_utc = rq_window_ended_at_utc run, rv_compared_records = rq_compared_records run,
      rv_mismatch_count = rq_mismatch_count run, rv_mismatch_rate = rq_mismatch_rate run,
      rv_critical_halt = rq_critical_halt run, rv_status = ReconciliationRunStatus_as_str (rq_status run),
      rv_reason_code = rq_reason_code run, rv_correlation_id = rq_correlation_id run,
      rv_evaluated_at_utc = rq_evaluated_at_utc run, rv_evidence = run_evidence run\<rparr>"

definition reconciliation_diff_row_of :: "ReconciliationDiffRecord \<Rightarrow> reconciliation_diff_row" where
  "reconciliation_diff_row_of diff =
     \<lparr>rj_diff_id = rdf_diff_id diff, rj_run_id = rdf_run_id diff, rj_order_id = rdf_order_id diff,
      rj_market_id = rdf_market_id diff, rj_diff_class = ReconciliationDiffClass_as_str (rdf_diff_class diff),
      rj_reason_code = rdf_reason_code diff, rj_internal_value = rdf_internal_value diff,
      rj_venue_value = rdf_venue_value diff, rj_observed_at_utc = rdf_observed_at_utc diff,
      rj_correlation_id = rdf_correlation_id diff\<rparr>"

definition snapshot_evidence :: "ExposureSnapshot \<Rightarrow> json" where
  "snapshot_evidence snapshot = JObject
     [(''gross_exposure'', json_f64 (ex_gross_exposure snapshot)),
      (''market_id'', case ex_market_id snapshot of Some market_id \<Rightarrow> JString market_id | None \<Rightarrow> JNull),
      (''net_exposure'', json_f64 (ex_net_exposure snapshot)),
      (''open_order_count'', JInt (ex_open_order_count snapshot)),
      (''reason_code'', JString (ex_reason_code snapshot)), (''run_id'', JString (ex_run_id snapshot)),
      (''snapshot_id'', JString (ex_snapshot_id snapshot))]"

definition exposure_snapshot_row_of :: "ExposureSnapshot \<Rightarrow> exposure_snapshot_row" where
  "exposure_snapshot_row_of snapshot =
     \<lparr>xs_snapshot_id = ex_snapshot_id snapshot, xs_run_id = ex_run_id snapshot, xs_market_id = ex_market_id snapshot,
      xs_net_exposure = ex_net_exposure snapshot, xs_gross_exposure = ex_gross_exposure snapshot,
      xs_open_order_count = ex_open_order_count snapshot, xs_reason_code = ex_reason_code snapshot,
      xs_captured_at_utc = ex_captured_at_utc snapshot, xs_correlation_id = ex_correlation_id snapshot,
      xs_evidence = snapshot_evidence snapshot\<rparr>"

text \<open>What the migration rejects.\<close>

definition run_violation ::
    "pg_types \<Rightarrow> reconciliation_run_row \<Rightarrow> reconciliation_run_row list \<Rightarrow> constraint_fault option" where
  "run_violation P row rows =
     (if rv_run_id row \<noteq> pg_lower_trim P (rv_run_id row)
      then Some (violation ''23514'' ''reconciliation_runs_run_id_check'')
      else if pg_instant P (rv_window_ended_at_utc row) < pg_instant P (rv_window_started_at_utc row)
      then Some (violation ''23514'' ''reconciliation_runs_window_check'')
      else if rv_run_id row \<in> set (map rv_run_id rows) then Some (violation ''23505'' ''reconciliation_runs_pkey'')
      else if list_ex (\<lambda>r. rv_correlation_id r = rv_correlation_id row
          \<and> pg_instant P (rv_window_started_at_utc r) = pg_instant P (rv_window_started_at_utc row)
          \<and> pg_instant P (rv_window_ended_at_utc r) = pg_instant P (rv_window_ended_at_utc row)) rows
      then Some (violation ''23505'' ''reconciliation_runs_correlation_id_window_key'')
      else None)"

definition diff_violation ::
    "pg_types \<Rightarrow> reconciliation_run_row list \<Rightarrow> reconciliation_diff_row \<Rightarrow> reconciliation_diff_row list
      \<Rightarrow> constraint_fault option" where
  "diff_violation P runs row rows =
     (if rj_diff_id row \<noteq> pg_lower_trim P (rj_diff_id row)
      then Some (violation ''23514'' ''reconciliation_diffs_diff_id_check'')
      else if rj_reason_code row \<notin> set [''reconciliation_non_critical_mismatch'', ''reconciliation_critical_mismatch'',
          ''reconciliation_invalid_payload'']
      then Some (violation ''23514'' ''reconciliation_diffs_reason_code_check'')
      else if rj_diff_id row \<in> set (map rj_diff_id rows) then Some (violation ''23505'' ''reconciliation_diffs_pkey'')
      else if list_ex (\<lambda>r. rj_run_id r = rj_run_id row \<and> rj_order_id r = rj_order_id row
          \<and> rj_diff_class r = rj_diff_class row) rows
      then Some (violation ''23505'' ''reconciliation_diffs_run_id_order_id_diff_class_key'')
      else if rj_run_id row \<notin> set (map rv_run_id runs) then Some (violation ''23503'' ''reconciliation_diffs_run_id_fkey'')
      else None)"

definition snapshot_violation ::
    "pg_types \<Rightarrow> reconciliation_run_row list \<Rightarrow> exposure_snapshot_row \<Rightarrow> exposure_snapshot_row list
      \<Rightarrow> constraint_fault option" where
  "snapshot_violation P runs row rows =
     (if xs_snapshot_id row \<noteq> pg_lower_trim P (xs_snapshot_id row)
      then Some (violation ''23514'' ''exposure_snapshots_snapshot_id_check'')
      else if xs_snapshot_id row \<in> set (map xs_snapshot_id rows)
      then Some (violation ''23505'' ''exposure_snapshots_pkey'')
      else if xs_run_id row \<notin> set (map rv_run_id runs) then Some (violation ''23503'' ''exposure_snapshots_run_id_fkey'')
      else None)"

section \<open>Writing the evidence\<close>

text \<open>The loop that validates the differences, and the loop that inserts them.\<close>

fun validate_evidence_diffs ::
    "time_crate \<Rightarrow> string \<Rightarrow> ReconciliationDiffRecord list \<Rightarrow> ReconciliationPersistenceError + unit" where
  "validate_evidence_diffs T run_id [] = Inr ()"
| "validate_evidence_diffs T run_id (diff # records) =
     (if rdf_run_id diff \<noteq> run_id then Inl (ReconciliationPersistenceError_invalid_payload
        ''reconciliation diff run_id must match reconciliation run_id'' [])
      else and_then (map_err map_recon_store_contract_error (validate_reconciliation_diff_record T diff)) (\<lambda>_.
        validate_evidence_diffs T run_id records))"

fun insert_evidence_diffs ::
    "pg_types \<Rightarrow> (nat \<Rightarrow> constraint_faults) \<Rightarrow> reconciliation_run_row list \<Rightarrow> nat \<Rightarrow> ReconciliationDiffRecord list
      \<Rightarrow> reconciliation_diff_row list \<Rightarrow> ReconciliationPersistenceError + nat \<times> reconciliation_diff_row list" where
  "insert_evidence_diffs P faults runs n [] rows = Inr (n, rows)"
| "insert_evidence_diffs P faults runs n (diff # records) rows =
     (let row = reconciliation_diff_row_of diff
      in and_then (statement classify_recon_query_error (constrained (faults n) (diff_violation P runs row rows))
           ''insert_reconciliation_diff'' ()) (\<lambda>_.
         insert_evidence_diffs P faults runs (Suc n) records (row # rows)))"

definition persist_reconciliation_evidence ::
    "time_crate \<Rightarrow> pg_types \<Rightarrow> (nat \<Rightarrow> constraint_faults) \<Rightarrow> ReconciliationRunSummary \<Rightarrow> ReconciliationDiffRecord list
      \<Rightarrow> ExposureSnapshot \<Rightarrow> evidence_tables \<Rightarrow> (ReconciliationPersistenceError + unit) \<times> evidence_tables" where
  "persist_reconciliation_evidence T P faults run records snapshot = transact (\<lambda>st.
     and_then (map_err map_recon_store_contract_error (validate_reconciliation_run_summary T run)) (\<lambda>_.
     if ex_run_id snapshot \<noteq> rq_run_id run then Inl (ReconciliationPersistenceError_invalid_payload
       ''exposure snapshot run_id must match reconciliation run_id'' [])
     else
     and_then (map_err map_recon_store_contract_error (validate_exposure_snapshot T snapshot)) (\<lambda>_.
     and_then (validate_evidence_diffs T (rq_run_id run) records) (\<lambda>_.
     and_then (statement classify_recon_query_error (faults 0) ''begin_reconciliation_evidence_tx'' ()) (\<lambda>_.
     let run_row = reconciliation_run_row_of run; runs = run_row # et_runs st
     in and_then (statement classify_recon_query_error (constrained (faults 1) (run_violation P run_row (et_runs st)))
       ''insert_reconciliation_run'' ()) (\<lambda>_.
     and_then (insert_evidence_diffs P faults runs 2 records (et_diffs st)) (\<lambda>(n, diff_rows).
     let snapshot_row = exposure_snapshot_row_of snapshot
     in and_then (statement classify_recon_query_error
         (constrained (faults n) (snapshot_violation P runs snapshot_row (et_snapshots st)))
         ''insert_exposure_snapshot'' ()) (\<lambda>_.
     and_then (statement classify_recon_query_error (faults (Suc n)) ''commit_reconciliation_evidence_tx'' ()) (\<lambda>_.
     Inr ((), \<lparr>et_runs = runs, et_diffs = diff_rows, et_snapshots = snapshot_row # et_snapshots st\<rparr>))))))))))"

section \<open>Reading the evidence\<close>

definition decode_reconciliation_run_row ::
    "time_crate \<Rightarrow> pg_types \<Rightarrow> reconciliation_run_row \<Rightarrow> ReconciliationPersistenceError + ReconciliationRunSummary" where
  "decode_reconciliation_run_row T P row =
     and_then (map_err map_recon_store_contract_error (ReconciliationRunStatus_parse (rv_status row))) (\<lambda>status.
     and_then (map_err map_recon_store_contract_error (ReconciliationReasonCode_parse (rv_reason_code row))) (\<lambda>_.
     let run =
       \<lparr>rq_run_id = rv_run_id row, rq_window_started_at_utc = pg_to_char P (rv_window_started_at_utc row),
        rq_window_ended_at_utc = pg_to_char P (rv_window_ended_at_utc row),
        rq_compared_records = rv_compared_records row, rq_mismatch_count = rv_mismatch_count row,
        rq_mismatch_rate = rv_mismatch_rate row, rq_critical_halt = rv_critical_halt row, rq_status = status,
        rq_reason_code = rv_reason_code row, rq_evaluated_at_utc = pg_to_char P (rv_evaluated_at_utc row),
        rq_correlation_id = rv_correlation_id row\<rparr>
     in and_then (map_err map_recon_store_contract_error (validate_reconciliation_run_summary T run)) (\<lambda>_. Inr run)))"

definition decode_reconciliation_diff_row ::
    "time_crate \<Rightarrow> pg_types \<Rightarrow> reconciliation_diff_row \<Rightarrow> ReconciliationPersistenceError + ReconciliationDiffRecord" where
  "decode_reconciliation_diff_row T P row =
     and_then (map_err map_recon_store_contract_error (ReconciliationDiffClass_parse (rj_diff_class row))) (\<lambda>diff_class.
     and_then (map_err map_recon_store_contract_error (ReconciliationReasonCode_parse (rj_reason_code row))) (\<lambda>_.
     let diff =
       \<lparr>rdf_diff_id = rj_diff_id row, rdf_run_id = rj_run_id row, rdf_order_id = rj_order_id row,
        rdf_market_id = rj_market_id row, rdf_diff_class = diff_class, rdf_reason_code = rj_reason_code row,
        rdf_internal_value = rj_internal_value row, rdf_venue_value = rj_venue_value row,
        rdf_observed_at_utc = pg_to_char P (rj_observed_at_utc row), rdf_correlation_id = rj_correlation_id row\<rparr>
     in and_then (map_err map_recon_store_contract_error (validate_reconciliation_diff_record T diff)) (\<lambda>_. Inr diff)))"

definition decode_exposure_snapshot_row ::
    "time_crate \<Rightarrow> pg_types \<Rightarrow> exposure_snapshot_row \<Rightarrow> ReconciliationPersistenceError + ExposureSnapshot" where
  "decode_exposure_snapshot_row T P row =
     and_then (map_err map_recon_store_contract_error (ReconciliationReasonCode_parse (xs_reason_code row))) (\<lambda>_.
     let snapshot =
       \<lparr>ex_snapshot_id = xs_snapshot_id row, ex_run_id = xs_run_id row, ex_market_id = xs_market_id row,
        ex_net_exposure = xs_net_exposure row, ex_gross_exposure = xs_gross_exposure row,
        ex_open_order_count = xs_open_order_count row, ex_reason_code = xs_reason_code row,
        ex_captured_at_utc = pg_to_char P (xs_captured_at_utc row), ex_correlation_id = xs_correlation_id row\<rparr>
     in and_then (map_err map_recon_store_contract_error (validate_exposure_snapshot T snapshot)) (\<lambda>_. Inr snapshot))"

definition load_reconciliation_run ::
    "time_crate \<Rightarrow> pg_types \<Rightarrow> constraint_faults \<Rightarrow> string \<Rightarrow> evidence_tables
      \<Rightarrow> ReconciliationPersistenceError + ReconciliationRunSummary option" where
  "load_reconciliation_run T P faults run_id st =
     and_then (validate_recon_store_non_empty ''run_id'' run_id) (\<lambda>_.
     and_then (statement classify_recon_query_error faults ''load_reconciliation_run''
       (find (\<lambda>r. rv_run_id r = trim run_id) (et_runs st)))
       (decode_option (decode_reconciliation_run_row T P)))"

definition diff_row_before :: "pg_types \<Rightarrow> reconciliation_diff_row \<Rightarrow> reconciliation_diff_row \<Rightarrow> bool" where
  "diff_row_before P a b \<longleftrightarrow> pg_text_less P (rj_order_id a) (rj_order_id b)
     \<or> (rj_order_id a = rj_order_id b \<and> pg_text_less P (rj_diff_class a) (rj_diff_class b))"

definition load_reconciliation_diffs ::
    "time_crate \<Rightarrow> pg_types \<Rightarrow> constraint_faults \<Rightarrow> string \<Rightarrow> evidence_tables
      \<Rightarrow> ReconciliationPersistenceError + ReconciliationDiffRecord list" where
  "load_reconciliation_diffs T P faults run_id st =
     and_then (validate_recon_store_non_empty ''run_id'' run_id) (\<lambda>_.
     and_then (statement classify_recon_query_error faults ''load_reconciliation_diffs''
       (order_by (diff_row_before P) (filter (\<lambda>r. rj_run_id r = trim run_id) (et_diffs st))))
       (collect_rows (decode_reconciliation_diff_row T P)))"

definition snapshot_row_before :: "pg_types \<Rightarrow> exposure_snapshot_row \<Rightarrow> exposure_snapshot_row \<Rightarrow> bool" where
  "snapshot_row_before P a b \<longleftrightarrow> pg_instant P (xs_captured_at_utc b) < pg_instant P (xs_captured_at_utc a)
     \<or> (pg_instant P (xs_captured_at_utc a) = pg_instant P (xs_captured_at_utc b)
        \<and> pg_text_less P (xs_snapshot_id b) (xs_snapshot_id a))"

text \<open>\<open>ORDER BY captured_at_utc DESC, snapshot_id DESC LIMIT 1\<close>\<close>

definition latest_snapshot_row :: "pg_types \<Rightarrow> exposure_snapshot_row list \<Rightarrow> exposure_snapshot_row option" where
  "latest_snapshot_row P rows = (case order_by (snapshot_row_before P) rows of [] \<Rightarrow> None | row # _ \<Rightarrow> Some row)"

definition load_latest_exposure_snapshot ::
    "time_crate \<Rightarrow> pg_types \<Rightarrow> constraint_faults \<Rightarrow> string option \<Rightarrow> evidence_tables
      \<Rightarrow> ReconciliationPersistenceError + ExposureSnapshot option" where
  "load_latest_exposure_snapshot T P faults market_id st =
     and_then (case market_id of
         Some value \<Rightarrow> and_then (validate_recon_store_non_empty ''market_id'' value) (\<lambda>_.
           statement classify_recon_query_error faults ''load_latest_exposure_snapshot_market''
             (latest_snapshot_row P (filter (\<lambda>r. xs_market_id r = Some (trim value)) (et_snapshots st))))
       | None \<Rightarrow> statement classify_recon_query_error faults ''load_latest_exposure_snapshot_global''
             (latest_snapshot_row P (filter (\<lambda>r. xs_market_id r = None) (et_snapshots st))))
       (decode_option (decode_exposure_snapshot_row T P))"

definition load_latest_exposure_snapshot_for_run ::
    "time_crate \<Rightarrow> pg_types \<Rightarrow> constraint_faults \<Rightarrow> string \<Rightarrow> evidence_tables
      \<Rightarrow> ReconciliationPersistenceError + ExposureSnapshot option" where
  "load_latest_exposure_snapshot_for_run T P faults run_id st =
     and_then (validate_recon_store_non_empty ''run_id'' run_id) (\<lambda>_.
     and_then (statement classify_recon_query_error faults ''load_latest_exposure_snapshot_run''
       (latest_snapshot_row P (filter (\<lambda>r. xs_run_id r = trim run_id) (et_snapshots st))))
       (decode_option (decode_exposure_snapshot_row T P)))"

record ReconciliationIncidentEvidence =
  rie_run :: ReconciliationRunSummary
  rie_diffs :: "ReconciliationDiffRecord list"
  rie_latest_snapshot :: "ExposureSnapshot option"

definition load_reconciliation_incident_evidence ::
    "time_crate \<Rightarrow> pg_types \<Rightarrow> constraint_faults \<Rightarrow> string \<Rightarrow> evidence_tables
      \<Rightarrow> ReconciliationPersistenceError + ReconciliationIncidentEvidence option" where
  "load_reconciliation_incident_evidence T P faults run_id st =
     and_then (load_reconciliation_run T P faults run_id st) (\<lambda>run. case run of
       None \<Rightarrow> Inr None
     | Some run \<Rightarrow>
         and_then (load_reconciliation_diffs T P faults run_id st) (\<lambda>diffs.
         and_then (load_latest_exposure_snapshot_for_run T P faults run_id st) (\<lambda>latest_snapshot.
         Inr (Some \<lparr>rie_run = run, rie_diffs = diffs, rie_latest_snapshot = latest_snapshot\<rparr>))))"

section \<open>What the transaction does\<close>

lemma validate_evidence_diffs_Inr:
  "validate_evidence_diffs T run records = Inr u \<longleftrightarrow>
     list_all (\<lambda>d. rdf_run_id d = run \<and> validate_reconciliation_diff_record T d = Inr ()) records"
  by (induction records) (auto simp: and_then_Inr_iff)

lemma insert_evidence_diffs_rows:
  "insert_evidence_diffs P faults runs n records rows = Inr (m, rows') \<Longrightarrow>
     rows' = rev (map reconciliation_diff_row_of records) @ rows \<and> m = n + length records"
  by (induction records arbitrary: n rows) (fastforce simp: Let_def and_then_Inr_iff)+

lemma diff_violation_None:
  "diff_violation P runs row rows = None \<Longrightarrow> rj_diff_id row \<notin> set (map rj_diff_id rows) \<and> rj_run_id row \<in> set (map rv_run_id runs)"
  by (auto simp: diff_violation_def split: if_splits)

lemma insert_evidence_diffs_keys:
  "insert_evidence_diffs P faults runs n records rows = Inr (m, rows') \<Longrightarrow> distinct (map rj_diff_id rows) \<Longrightarrow>
     distinct (map rj_diff_id rows')"
proof (induction records arbitrary: n rows)
  case (Cons d ds)
  then show ?case
    using diff_violation_None by (fastforce simp: Let_def and_then_Inr_iff)
qed simp

lemma persist_evidence_ok:
  assumes "persist_reconciliation_evidence T P faults run records snapshot st = (Inr u, st')"
  shows "st' = \<lparr>et_runs = reconciliation_run_row_of run # et_runs st,
      et_diffs = rev (map reconciliation_diff_row_of records) @ et_diffs st,
      et_snapshots = exposure_snapshot_row_of snapshot # et_snapshots st\<rparr>"
    and "validate_reconciliation_run_summary T run = Inr ()" "validate_exposure_snapshot T snapshot = Inr ()"
    and "list_all (\<lambda>d. rdf_run_id d = rq_run_id run \<and> validate_reconciliation_diff_record T d = Inr ()) records"
    and "ex_run_id snapshot = rq_run_id run"
    and "run_violation P (reconciliation_run_row_of run) (et_runs st) = None"
    and "snapshot_violation P (et_runs st') (exposure_snapshot_row_of snapshot) (et_snapshots st) = None"
    and "distinct (map rj_diff_id (et_diffs st)) \<Longrightarrow> distinct (map rj_diff_id (et_diffs st'))"
proof -
  obtain n diff_rows where tx: "validate_reconciliation_run_summary T run = Inr ()" "ex_run_id snapshot = rq_run_id run"
    "validate_exposure_snapshot T snapshot = Inr ()" "validate_evidence_diffs T (rq_run_id run) records = Inr ()"
    "run_violation P (reconciliation_run_row_of run) (et_runs st) = None"
    "insert_evidence_diffs P faults (reconciliation_run_row_of run # et_runs st) 2 records (et_diffs st) = Inr (n, diff_rows)"
    "snapshot_violation P (reconciliation_run_row_of run # et_runs st) (exposure_snapshot_row_of snapshot) (et_snapshots st) = None"
    "st' = \<lparr>et_runs = reconciliation_run_row_of run # et_runs st, et_diffs = diff_rows,
      et_snapshots = exposure_snapshot_row_of snapshot # et_snapshots st\<rparr>"
    using assms unfolding persist_reconciliation_evidence_def transact_Inr
    by (auto simp: and_then_Inr_iff Let_def split: if_splits)
  note rows = insert_evidence_diffs_rows[OF tx(6)] insert_evidence_diffs_keys[OF tx(6)]
  show "st' = \<lparr>et_runs = reconciliation_run_row_of run # et_runs st,
      et_diffs = rev (map reconciliation_diff_row_of records) @ et_diffs st,
      et_snapshots = exposure_snapshot_row_of snapshot # et_snapshots st\<rparr>"
    using tx(8) rows(1) by simp
  show "list_all (\<lambda>d. rdf_run_id d = rq_run_id run \<and> validate_reconciliation_diff_record T d = Inr ()) records"
    using tx(4) by (simp add: validate_evidence_diffs_Inr)
  show "distinct (map rj_diff_id (et_diffs st)) \<Longrightarrow> distinct (map rj_diff_id (et_diffs st'))"
    using tx(8) rows(2) by simp
  show "snapshot_violation P (et_runs st') (exposure_snapshot_row_of snapshot) (et_snapshots st) = None"
    using tx(7,8) by simp
  show "validate_reconciliation_run_summary T run = Inr ()" "validate_exposure_snapshot T snapshot = Inr ()"
    "ex_run_id snapshot = rq_run_id run" "run_violation P (reconciliation_run_row_of run) (et_runs st) = None"
    using tx by simp_all
qed

lemma persist_evidence_error:
  "persist_reconciliation_evidence T P faults run records snapshot st = (Inl e, st') \<Longrightarrow> st' = st"
  unfolding persist_reconciliation_evidence_def by (rule transact_Inl)

section \<open>Rows read back\<close>

text \<open>A row is read back as it was written, up to the format of its times.\<close>

definition rendered_run :: "pg_types \<Rightarrow> ReconciliationRunSummary \<Rightarrow> ReconciliationRunSummary" where
  "rendered_run P run = run\<lparr>rq_window_started_at_utc := pg_to_char P (rq_window_started_at_utc run),
     rq_window_ended_at_utc := pg_to_char P (rq_window_ended_at_utc run),
     rq_evaluated_at_utc := pg_to_char P (rq_evaluated_at_utc run)\<rparr>"

definition rendered_diff :: "pg_types \<Rightarrow> ReconciliationDiffRecord \<Rightarrow> ReconciliationDiffRecord" where
  "rendered_diff P diff = diff\<lparr>rdf_observed_at_utc := pg_to_char P (rdf_observed_at_utc diff)\<rparr>"

definition rendered_snapshot :: "pg_types \<Rightarrow> ExposureSnapshot \<Rightarrow> ExposureSnapshot" where
  "rendered_snapshot P snapshot = snapshot\<lparr>ex_captured_at_utc := pg_to_char P (ex_captured_at_utc snapshot)\<rparr>"

text \<open>Times are read back in the format the contract accepts.\<close>

definition renders_utc :: "time_crate \<Rightarrow> pg_types \<Rightarrow> bool" where
  "renders_utc T P \<longleftrightarrow> (\<forall>v. utc_ok T v \<longrightarrow> utc_ok T (pg_to_char P v) \<and> \<not> blank (pg_to_char P v))"

lemma decode_own_run:
  assumes "renders_utc T P" "validate_reconciliation_run_summary T run = Inr ()"
  shows "decode_reconciliation_run_row T P (reconciliation_run_row_of run) = Inr (rendered_run P run)"
proof -
  have "mismatch_rate_issues (rendered_run P run) = mismatch_rate_issues run"
    by (simp add: mismatch_rate_issues_def rendered_run_def)
  then have valid: "validate_reconciliation_run_summary T (rendered_run P run) = Inr ()"
    using assms unfolding validate_reconciliation_run_summary_def reject_if_Inr append_is_Nil_conv
    by (auto simp: issue_specs rendered_run_def renders_utc_def)
  obtain c where c: "ReconciliationReasonCode_parse (rq_reason_code run) = Inr c"
    using assms(2) by (cases "ReconciliationReasonCode_parse (rq_reason_code run)")
      (auto simp: validate_reconciliation_run_summary_def)
  have same: "\<lparr>rq_run_id = rq_run_id run, rq_window_started_at_utc = pg_to_char P (rq_window_started_at_utc run),
      rq_window_ended_at_utc = pg_to_char P (rq_window_ended_at_utc run), rq_compared_records = rq_compared_records run,
      rq_mismatch_count = rq_mismatch_count run, rq_mismatch_rate = rq_mismatch_rate run,
      rq_critical_halt = rq_critical_halt run, rq_status = rq_status run, rq_reason_code = rq_reason_code run,
      rq_evaluated_at_utc = pg_to_char P (rq_evaluated_at_utc run), rq_correlation_id = rq_correlation_id run\<rparr>
    = rendered_run P run" by (simp add: rendered_run_def)
  show ?thesis
    by (simp add: decode_reconciliation_run_row_def reconciliation_run_row_of_def c Let_def same valid)
qed

lemma decode_own_diff:
  assumes "renders_utc T P" "validate_reconciliation_diff_record T diff = Inr ()"
  shows "decode_reconciliation_diff_row T P (reconciliation_diff_row_of diff) = Inr (rendered_diff P diff)"
proof -
  have valid: "validate_reconciliation_diff_record T (rendered_diff P diff) = Inr ()"
    using assms unfolding validate_reconciliation_diff_record_def reject_if_Inr append_is_Nil_conv
    by (simp add: issue_specs rendered_diff_def renders_utc_def)
  obtain c where c: "ReconciliationReasonCode_parse (rdf_reason_code diff) = Inr c"
    using assms(2) by (cases "ReconciliationReasonCode_parse (rdf_reason_code diff)")
      (auto simp: validate_reconciliation_diff_record_def)
  have same: "\<lparr>rdf_diff_id = rdf_diff_id diff, rdf_run_id = rdf_run_id diff, rdf_order_id = rdf_order_id diff,
      rdf_market_id = rdf_market_id diff, rdf_diff_class = rdf_diff_class diff, rdf_reason_code = rdf_reason_code diff,
      rdf_internal_value = rdf_internal_value diff, rdf_venue_value = rdf_venue_value diff,
      rdf_observed_at_utc = pg_to_char P (rdf_observed_at_utc diff), rdf_correlation_id = rdf_correlation_id diff\<rparr>
    = rendered_diff P diff" by (simp add: rendered_diff_def)
  show ?thesis
    by (simp add: decode_reconciliation_diff_row_def reconciliation_diff_row_of_def c Let_def same valid)
qed

lemma decode_own_snapshot:
  assumes "renders_utc T P" "validate_exposure_snapshot T snapshot = Inr ()"
  shows "decode_exposure_snapshot_row T P (exposure_snapshot_row_of snapshot) = Inr (rendered_snapshot P snapshot)"
proof -
  have valid: "validate_exposure_snapshot T (rendered_snapshot P snapshot) = Inr ()"
    using assms unfolding validate_exposure_snapshot_def reject_if_Inr append_is_Nil_conv
    by (simp add: issue_specs rendered_snapshot_def renders_utc_def)
  obtain c where c: "ReconciliationReasonCode_parse (ex_reason_code snapshot) = Inr c"
    using assms(2) by (cases "ReconciliationReasonCode_parse (ex_reason_code snapshot)")
      (auto simp: validate_exposure_snapshot_def)
  have same: "\<lparr>ex_snapshot_id = ex_snapshot_id snapshot, ex_run_id = ex_run_id snapshot,
      ex_market_id = ex_market_id snapshot, ex_net_exposure = ex_net_exposure snapshot,
      ex_gross_exposure = ex_gross_exposure snapshot, ex_open_order_count = ex_open_order_count snapshot,
      ex_reason_code = ex_reason_code snapshot, ex_captured_at_utc = pg_to_char P (ex_captured_at_utc snapshot),
      ex_correlation_id = ex_correlation_id snapshot\<rparr> = rendered_snapshot P snapshot"
    by (simp add: rendered_snapshot_def)
  show ?thesis
    by (simp add: decode_exposure_snapshot_row_def exposure_snapshot_row_of_def c Let_def same valid)
qed

end
