(* ===== verification/ReconciliationJob.thy ===== *)
theory ReconciliationJob
  imports ReconciliationStore
begin

text \<open>
  The reconciliation runtime of \<open>services/execution-engine/src/reconciliation/mod.rs\<close>: the
  windows of the two sides, the comparison, the exposure of the internal side and the evidence
  that is kept, and what an operator reads of it. The providers and the store are the functions
  the traits name; the providers over PostgreSQL and the static venue are given below.
\<close>

section \<open>Requests, errors and the runtime\<close>

type_synonym ReconciliationRuntimeError = contract_error

definition ReconciliationRuntimeError_new :: "string \<Rightarrow> string \<Rightarrow> ReconciliationRuntimeError" where
  "ReconciliationRuntimeError_new code message = contract_error_of code message []"

record ReconciliationWindowRequest =
  wr_run_id :: string
  wr_window_started_at_utc :: string
  wr_window_ended_at_utc :: string
  wr_evaluated_at_utc :: string
  wr_correlation_id :: string

record ReconciliationExecutionOutcome =
  xo_summary :: ReconciliationRunSummary
  xo_diffs :: "ReconciliationDiffRecord list"
  xo_latest_exposure_snapshot :: ExposureSnapshot
  xo_block_new_order_creation :: bool

record ReconciliationIncidentView =
  xi_run :: ReconciliationRunSummary
  xi_diffs :: "ReconciliationDiffRecord list"
  xi_latest_snapshot :: "ExposureSnapshot option"

text \<open>The providers and the evidence store of a runtime, over the state \<open>'s\<close> of the store.\<close>

record 's ReconciliationRuntime =
  jr_load_internal_window :: "ReconciliationWindowRequest \<Rightarrow> ReconciliationRuntimeError + ReconciliationOrderRecord list"
  jr_load_venue_window :: "ReconciliationWindowRequest \<Rightarrow> ReconciliationRuntimeError + ReconciliationOrderRecord list"
  jr_persist_evidence :: "ReconciliationRunSummary \<Rightarrow> ReconciliationDiffRecord list \<Rightarrow> ExposureSnapshot
    \<Rightarrow> 's \<Rightarrow> (ReconciliationRuntimeError + unit) \<times> 's"
  jr_load_run :: "string \<Rightarrow> 's \<Rightarrow> ReconciliationRuntimeError + ReconciliationRunSummary option"
  jr_load_diffs :: "string \<Rightarrow> 's \<Rightarrow> ReconciliationRuntimeError + ReconciliationDiffRecord list"
  jr_load_latest_snapshot :: "string option \<Rightarrow> 's \<Rightarrow> ReconciliationRuntimeError + ExposureSnapshot option"
  jr_load_latest_snapshot_for_run :: "string \<Rightarrow> 's \<Rightarrow> ReconciliationRuntimeError + ExposureSnapshot option"

definition validate_job_non_empty :: "string \<Rightarrow> string \<Rightarrow> ReconciliationRuntimeError + unit" where
  "validate_job_non_empty field value =
     (if blank value then Inl (ReconciliationRuntimeError_new
        (ReconciliationReasonCode_code ReconciliationReasonCode.InvalidPayload) (field @ '' cannot be blank''))
      else Inr ())"

definition validate_job_timestamp_utc :: "time_crate \<Rightarrow> string \<Rightarrow> string \<Rightarrow> ReconciliationRuntimeError + unit" where
  "validate_job_timestamp_utc T field value = (case rfc3339_parse T value of
      None \<Rightarrow> Inl (ReconciliationRuntimeError_new
        (ReconciliationReasonCode_code ReconciliationReasonCode.InvalidPayload)
        (field @ '' must be an RFC3339 UTC timestamp: '' @ rfc3339_error T value))
    | Some (_, offset) \<Rightarrow>
        if offset \<noteq> 0 then Inl (ReconciliationRuntimeError_new
          (ReconciliationReasonCode_code ReconciliationReasonCode.InvalidPayload) (field @ '' must use UTC `Z` offset''))
        else Inr ())"

definition ReconciliationWindowRequest_validate ::
    "time_crate \<Rightarrow> ReconciliationWindowRequest \<Rightarrow> ReconciliationRuntimeError + unit" where
  "ReconciliationWindowRequest_validate T request =
     and_then (validate_job_non_empty ''run_id'' (wr_run_id request)) (\<lambda>_.
     and_then (validate_job_non_empty ''window_started_at_utc'' (wr_window_started_at_utc request)) (\<lambda>_.
     and_then (validate_job_non_empty ''window_ended_at_utc'' (wr_window_ended_at_utc request)) (\<lambda>_.
     and_then (validate_job_non_empty ''evaluated_at_utc'' (wr_evaluated_at_utc request)) (\<lambda>_.
     and_then (validate_job_non_empty ''correlation_id'' (wr_correlation_id request)) (\<lambda>_.
     and_then (validate_job_timestamp_utc T ''window_started_at_utc'' (wr_window_started_at_utc request)) (\<lambda>_.
     and_then (validate_job_timestamp_utc T ''window_ended_at_utc'' (wr_window_ended_at_utc request)) (\<lambda>_.
     and_then (validate_job_timestamp_utc T ''evaluated_at_utc'' (wr_evaluated_at_utc request)) (\<lambda>_.
     Inr ()))))))))"

section \<open>Providers\<close>

text \<open>
  The internal window is read from the tables of the orders and their transitions, listed in
  any order: the latest transition of an order, or else its own row, gives the time.
\<close>

definition latest_transition :: "transition_row list \<Rightarrow> string \<Rightarrow> transition_row option" where
  "latest_transition transitions order_id =
     (case order_by (\<lambda>a b. tr_transition_sequence b < tr_transition_sequence a)
        (filter (\<lambda>t. tr_order_id t = order_id) transitions) of
        [] \<Rightarrow> None
      | t # _ \<Rightarrow> Some t)"

definition truth_observed_at :: "transition_row list \<Rightarrow> order_row \<Rightarrow> string" where
  "truth_observed_at transitions order = (case latest_transition transitions (ow_order_id order) of
      Some t \<Rightarrow> tr_transitioned_at_utc t
    | None \<Rightarrow> ow_updated_at_utc order)"

definition internal_truth_rows ::
    "pg_types \<Rightarrow> order_row list \<Rightarrow> transition_row list \<Rightarrow> string \<Rightarrow> string \<Rightarrow> order_row list" where
  "internal_truth_rows P orders transitions started ended =
     order_by (\<lambda>a b. pg_text_less P (ow_order_id a) (ow_order_id b))
       (filter (\<lambda>order. pg_instant P started \<le> pg_instant P (truth_observed_at transitions order)
          \<and> pg_instant P (truth_observed_at transitions order) \<le> pg_instant P ended) orders)"

definition decode_internal_truth_row ::
    "pg_types \<Rightarrow> transition_row list \<Rightarrow> order_row \<Rightarrow> ReconciliationRuntimeError + ReconciliationOrderRecord" where
  "decode_internal_truth_row P transitions order =
     and_then (map_err (\<lambda>error. ReconciliationRuntimeError_new
         (ReconciliationReasonCode_code ReconciliationReasonCode.StateHydrationFailed) (ce_message error))
       (OrderLifecycleState_parse (ow_lifecycle_state order))) (\<lambda>parsed_state.
     Inr \<lparr>ro_order_id = ow_order_id order, ro_market_id = ow_market_id order,
       ro_lifecycle_state = OrderLifecycleState_as_str parsed_state, ro_quantity = None, ro_price = None,
       ro_observed_at_utc = pg_to_char P (truth_observed_at transitions order),
       ro_correlation_id = ow_correlation_id order\<rparr>)"

definition PostgresInternalTruthProvider_load_internal_window ::
    "pg_types \<Rightarrow> constraint_faults \<Rightarrow> order_row list \<Rightarrow> transition_row list \<Rightarrow> ReconciliationWindowRequest
      \<Rightarrow> ReconciliationRuntimeError + ReconciliationOrderRecord list" where
  "PostgresInternalTruthProvider_load_internal_window P faults orders transitions request =
     and_then (statement (\<lambda>operation error. ReconciliationRuntimeError_new
         (ReconciliationReasonCode_code ReconciliationReasonCode.StateHydrationFailed)
         (operation @ '' failed: '' @ df_text error)) faults ''load_internal_window''
       (internal_truth_rows P orders transitions (wr_window_started_at_utc request) (wr_window_ended_at_utc request)))
       (collect_rows (decode_internal_truth_row P transitions))"

text \<open>The venue's records are those that were set last; a window is not looked at.\<close>

definition StaticVenueTruthProvider_default :: "ReconciliationOrderRecord list" where
  "StaticVenueTruthProvider_default = []"

definition StaticVenueTruthProvider_set_records ::
    "ReconciliationOrderRecord list \<Rightarrow> ReconciliationOrderRecord list \<Rightarrow> ReconciliationOrderRecord list" where
  "StaticVenueTruthProvider_set_records records self = records"

definition StaticVenueTruthProvider_load_venue_window ::
    "ReconciliationOrderRecord list \<Rightarrow> ReconciliationWindowRequest
      \<Rightarrow> ReconciliationRuntimeError + ReconciliationOrderRecord list" where
  "StaticVenueTruthProvider_load_venue_window self request = Inr self"

definition map_recon_persistence_error :: "ReconciliationPersistenceError \<Rightarrow> ReconciliationRuntimeError" where
  "map_recon_persistence_error error =
     ReconciliationRuntimeError_new (ce_code error) (ce_code error @ '': '' @ ce_message error)"

definition map_job_contract_error :: "ReconciliationContractError \<Rightarrow> ReconciliationRuntimeError" where
  "map_job_contract_error error = ReconciliationRuntimeError_new (ce_code error) (ce_message error)"

definition PostgresReconciliationEvidenceStore_persist_evidence ::
    "time_crate \<Rightarrow> pg_types \<Rightarrow> (nat \<Rightarrow> constraint_faults) \<Rightarrow> ReconciliationRunSummary \<Rightarrow> ReconciliationDiffRecord list
      \<Rightarrow> ExposureSnapshot \<Rightarrow> evidence_tables \<Rightarrow> (ReconciliationRuntimeError + unit) \<times> evidence_tables" where
  "PostgresReconciliationEvidenceStore_persist_evidence T P faults run records snapshot st =
     (let (r, st') = persist_reconciliation_evidence T P faults run records snapshot st
      in (map_err map_recon_persistence_error r, st'))"

text \<open>The runtime over PostgreSQL; the faults of its writes and of its reads are given apart.\<close>

definition postgres_reconciliation_runtime ::
    "time_crate \<Rightarrow> pg_types \<Rightarrow> (nat \<Rightarrow> constraint_faults) \<Rightarrow> constraint_faults \<Rightarrow> order_row list \<Rightarrow> transition_row list
      \<Rightarrow> ReconciliationOrderRecord list \<Rightarrow> evidence_tables ReconciliationRuntime" where
  "postgres_reconciliation_runtime T P faults reads orders transitions venue =
     \<lparr>jr_load_internal_window = PostgresInternalTruthProvider_load_internal_window P reads orders transitions,
      jr_load_venue_window = StaticVenueTruthProvider_load_venue_window venue,
      jr_persist_evidence = PostgresReconciliationEvidenceStore_persist_evidence T P faults,
      jr_load_run = (\<lambda>run_id st. map_err map_recon_persistence_error (load_reconciliation_run T P reads run_id st)),
      jr_load_diffs = (\<lambda>run_id st. map_err map_recon_persistence_error (load_reconciliation_diffs T P reads run_id st)),
      jr_load_latest_snapshot = (\<lambda>market_id st.
        map_err map_recon_persistence_error (load_latest_exposure_snapshot T P reads market_id st)),
      jr_load_latest_snapshot_for_run = (\<lambda>run_id st.
        map_err map_recon_persistence_error (load_latest_exposure_snapshot_for_run T P reads run_id st))\<rparr>"

section \<open>Operations\<close>

definition job_compact_timestamp_token :: "string \<Rightarrow> string" where
  "job_compact_timestamp_token value = filter is_ascii_digit value"

definition recon_snapshot_id :: "ReconciliationWindowRequest \<Rightarrow> string" where
  "recon_snapshot_id request =
     ''snapshot::'' @ normalize (wr_run_id request) @ ''::'' @ job_compact_timestamp_token (wr_evaluated_at_utc request)"

text \<open>On a critical halt every difference is marked critical.\<close>

definition mark_critical :: "ReconciliationRunResult \<Rightarrow> ReconciliationRunResult" where
  "mark_critical result =
     (if rq_critical_halt (rn_summary result) then result\<lparr>rn_diffs := map (\<lambda>diff. diff
        \<lparr>rdf_reason_code := ReconciliationReasonCode_code ReconciliationReasonCode.CriticalMismatch\<rparr>) (rn_diffs result)\<rparr>
      else result)"

text \<open>What is computed of the two windows before it is written.\<close>

definition reconcile_request ::
    "time_crate \<Rightarrow> ReconciliationWindowRequest \<Rightarrow> ReconciliationOrderRecord list \<Rightarrow> ReconciliationOrderRecord list
      \<Rightarrow> ReconciliationRuntimeError + ReconciliationRunResult \<times> ExposureSnapshot" where
  "reconcile_request T request internal_window venue_window =
     (if internal_window = [] \<and> venue_window = [] then Inl (ReconciliationRuntimeError_new
        (ReconciliationReasonCode_code ReconciliationReasonCode.WindowUnavailable)
        ''internal and venue reconciliation windows are both empty'')
      else
      and_then (map_err map_job_contract_error (reconcile_window T (wr_run_id request) (wr_window_started_at_utc request)
        (wr_window_ended_at_utc request) (wr_evaluated_at_utc request) (wr_correlation_id request)
        internal_window venue_window)) (\<lambda>run_result.
      let run_result = mark_critical run_result in
      and_then (map_err map_job_contract_error (ReconciliationReasonCode_parse (rq_reason_code (rn_summary run_result))))
        (\<lambda>summary_reason.
      and_then (map_err map_job_contract_error (build_exposure_snapshot T (recon_snapshot_id request)
        (rq_run_id (rn_summary run_result)) None internal_window summary_reason (wr_evaluated_at_utc request)
        (wr_correlation_id request))) (\<lambda>snapshot.
      Inr (run_result, snapshot)))))"

definition execute_reconciliation ::
    "time_crate \<Rightarrow> 's ReconciliationRuntime \<Rightarrow> ReconciliationWindowRequest \<Rightarrow> 's
      \<Rightarrow> (ReconciliationRuntimeError + ReconciliationExecutionOutcome) \<times> 's" where
  "execute_reconciliation T self request st =
     (case and_then (ReconciliationWindowRequest_validate T request) (\<lambda>_.
           and_then (jr_load_internal_window self request) (\<lambda>internal_window.
           and_then (jr_load_venue_window self request) (\<lambda>venue_window.
           reconcile_request T request internal_window venue_window))) of
        Inl error \<Rightarrow> (Inl error, st)
      | Inr (run_result, snapshot) \<Rightarrow>
          (case jr_persist_evidence self (rn_summary run_result) (rn_diffs run_result) snapshot st of
             (Inl error, st') \<Rightarrow> (Inl error, st')
           | (Inr _, st') \<Rightarrow> (Inr
               \<lparr>xo_summary = rn_summary run_result, xo_diffs = rn_diffs run_result,
                xo_latest_exposure_snapshot = snapshot,
                xo_block_new_order_creation = rq_critical_halt (rn_summary run_result)\<rparr>, st')))"

definition latest_exposure_snapshot ::
    "'s ReconciliationRuntime \<Rightarrow> string \<Rightarrow> string option \<Rightarrow> 's
      \<Rightarrow> ReconciliationRuntimeError + ExposureSnapshot option" where
  "latest_exposure_snapshot self actor_role market_id st =
     and_then (map_err map_job_contract_error (authorize_reconciliation_read actor_role)) (\<lambda>_.
     jr_load_latest_snapshot self market_id st)"

definition incident_evidence ::
    "'s ReconciliationRuntime \<Rightarrow> string \<Rightarrow> string \<Rightarrow> 's \<Rightarrow> ReconciliationRuntimeError + ReconciliationIncidentView option" where
  "incident_evidence self actor_role run_id st =
     and_then (map_err map_job_contract_error (authorize_reconciliation_read actor_role)) (\<lambda>_.
     let normalized_run_id = normalize run_id in
     and_then (jr_load_run self normalized_run_id st) (\<lambda>run. case run of
       None \<Rightarrow> Inr None
     | Some run \<Rightarrow>
         and_then (jr_load_diffs self normalized_run_id st) (\<lambda>records.
         and_then (jr_load_latest_snapshot_for_run self normalized_run_id st) (\<lambda>latest_snapshot.
         Inr (Some \<lparr>xi_run = run, xi_diffs = records, xi_latest_snapshot = latest_snapshot\<rparr>)))))"

section \<open>What a run consists of\<close>

lemma build_diffs_content:
  "build_diffs T i a b ids = Inr ds \<Longrightarrow> d \<in> set ds \<Longrightarrow>
     rdf_diff_id d = ''diff::'' @ i @ ''::'' @ normalize (rdf_order_id d) @ ''::'' @ ReconciliationDiffClass_as_str (rdf_diff_class d)
     \<and> rdf_run_id d = i
     \<and> rdf_reason_code d = ReconciliationReasonCode_code ReconciliationReasonCode.NonCriticalMismatch"
proof (induction ids arbitrary: ds)
  case (Cons k ids)
  then show ?case
    by (cases "classify_diff k (a k) (b k)")
      (auto simp: and_then_Inr_iff build_diff_def Let_def simp del: ReconciliationReasonCode_code.simps)
qed simp

lemma reconcile_window_content:
  assumes "reconcile_window T run start stop evaluated correlation internal venue = Inr result"
  shows "rq_run_id (rn_summary result) = normalize run"
    and "rq_mismatch_count (rn_summary result) = int (length (rn_diffs result))"
    and "list_all (\<lambda>d. rdf_diff_id d = ''diff::'' @ normalize run @ ''::'' @ normalize (rdf_order_id d) @ ''::''
          @ ReconciliationDiffClass_as_str (rdf_diff_class d) \<and> rdf_run_id d = normalize run
        \<and> rdf_reason_code d = ReconciliationReasonCode_code ReconciliationReasonCode.NonCriticalMismatch) (rn_diffs result)"
proof -
  obtain im vm ds m ids where
    ds: "build_diffs T (normalize run) im vm ids = Inr ds"
    and m: "i64_try_from ''mismatch count exceeds supported limits''
        (length (sort_key (\<lambda>d. (rdf_order_id d, rdf_diff_class d, rdf_diff_id d)) ds)) = Inr m"
    and diffs: "rn_diffs result = sort_key (\<lambda>d. (rdf_order_id d, rdf_diff_class d, rdf_diff_id d)) ds"
    and summary: "rq_mismatch_count (rn_summary result) = m" "rq_run_id (rn_summary result) = normalize run"
    using assms unfolding reconcile_window_def Let_def
    by (auto simp: and_then_Inr_iff simp del: ReconciliationReasonCode_code.simps split: if_splits)
  show "rq_run_id (rn_summary result) = normalize run" by fact
  show "rq_mismatch_count (rn_summary result) = int (length (rn_diffs result))"
    using m diffs summary(1) by (auto simp: i64_try_from_def split: if_splits)
  show "list_all (\<lambda>d. rdf_diff_id d = ''diff::'' @ normalize run @ ''::'' @ normalize (rdf_order_id d) @ ''::''
          @ ReconciliationDiffClass_as_str (rdf_diff_class d) \<and> rdf_run_id d = normalize run
        \<and> rdf_reason_code d = ReconciliationReasonCode_code ReconciliationReasonCode.NonCriticalMismatch) (rn_diffs result)"
    unfolding diffs list_all_iff set_sort using build_diffs_content[OF ds] by blast
qed

definition run_reason :: "ReconciliationRunSummary \<Rightarrow> string" where
  "run_reason run = ReconciliationReasonCode_code
     (if rq_critical_halt run then ReconciliationReasonCode.CriticalMismatch else ReconciliationReasonCode.NonCriticalMismatch)"

lemma mark_critical_facts:
  "rn_summary (mark_critical result) = rn_summary result"
  "map rdf_order_id (rn_diffs (mark_critical result)) = map rdf_order_id (rn_diffs result)"
  "map rdf_diff_id (rn_diffs (mark_critical result)) = map rdf_diff_id (rn_diffs result)"
  "length (rn_diffs (mark_critical result)) = length (rn_diffs result)"
  by (simp_all add: mark_critical_def o_def)

lemma reconcile_request_content:
  assumes "reconcile_request T request internal venue = Inr (result, snapshot)"
  shows "\<exists>base. reconcile_window T (wr_run_id request) (wr_window_started_at_utc request) (wr_window_ended_at_utc request)
      (wr_evaluated_at_utc request) (wr_correlation_id request) internal venue = Inr base \<and> result = mark_critical base"
    and "\<exists>reason. build_exposure_snapshot T (recon_snapshot_id request) (rq_run_id (rn_summary result)) None internal reason
      (wr_evaluated_at_utc request) (wr_correlation_id request) = Inr snapshot"
    and "rq_run_id (rn_summary result) = normalize (wr_run_id request)"
    and "rq_mismatch_count (rn_summary result) = int (length (rn_diffs result))"
    and "list_all (\<lambda>d. rdf_diff_id d = ''diff::'' @ normalize (wr_run_id request) @ ''::'' @ normalize (rdf_order_id d) @ ''::''
          @ ReconciliationDiffClass_as_str (rdf_diff_class d)
        \<and> rdf_reason_code d = run_reason (rn_summary result)) (rn_diffs result)"
proof -
  obtain base where base: "reconcile_window T (wr_run_id request) (wr_window_started_at_utc request) (wr_window_ended_at_utc request)
      (wr_evaluated_at_utc request) (wr_correlation_id request) internal venue = Inr base"
    and r: "result = mark_critical base"
    and s: "\<exists>reason. build_exposure_snapshot T (recon_snapshot_id request) (rq_run_id (rn_summary result)) None internal reason
      (wr_evaluated_at_utc request) (wr_correlation_id request) = Inr snapshot"
    using assms by (auto simp: reconcile_request_def and_then_Inr_iff Let_def split: if_splits)
  note content = reconcile_window_content[OF base]
  show "\<exists>base. reconcile_window T (wr_run_id request) (wr_window_started_at_utc request) (wr_window_ended_at_utc request)
      (wr_evaluated_at_utc request) (wr_correlation_id request) internal venue = Inr base \<and> result = mark_critical base"
    using base r by blast
  show "\<exists>reason. build_exposure_snapshot T (recon_snapshot_id request) (rq_run_id (rn_summary result)) None internal reason
      (wr_evaluated_at_utc request) (wr_correlation_id request) = Inr snapshot" by (fact s)
  show "rq_run_id (rn_summary result) = normalize (wr_run_id request)"
    "rq_mismatch_count (rn_summary result) = int (length (rn_diffs result))"
    using content(1,2) by (simp_all add: r mark_critical_facts)
  show "list_all (\<lambda>d. rdf_diff_id d = ''diff::'' @ normalize (wr_run_id request) @ ''::'' @ normalize (rdf_order_id d) @ ''::''
          @ ReconciliationDiffClass_as_str (rdf_diff_class d)
        \<and> rdf_reason_code d = run_reason (rn_summary result)) (rn_diffs result)"
    using content(3) by (auto simp: r mark_critical_def run_reason_def list_all_iff simp del: ReconciliationReasonCode_code.simps)
qed

text \<open>A run over PostgreSQL that succeeds: what was read, what was computed and what was written.\<close>

lemma execute_reconciliation_ok:
  assumes "execute_reconciliation T (postgres_reconciliation_runtime T P faults reads orders transitions venue) request st
    = (Inr out, st')"
  obtains internal result snapshot where
    "PostgresInternalTruthProvider_load_internal_window P reads orders transitions request = Inr internal"
    "reconcile_request T request internal venue = Inr (result, snapshot)"
    "persist_reconciliation_evidence T P faults (rn_summary result) (rn_diffs result) snapshot st = (Inr (), st')"
    "out = \<lparr>xo_summary = rn_summary result, xo_diffs = rn_diffs result, xo_latest_exposure_snapshot = snapshot,
       xo_block_new_order_creation = rq_critical_halt (rn_summary result)\<rparr>"
proof -
  obtain result snapshot where r: "and_then (ReconciliationWindowRequest_validate T request) (\<lambda>_.
      and_then (PostgresInternalTruthProvider_load_internal_window P reads orders transitions request) (\<lambda>internal_window.
      and_then (Inr venue) (\<lambda>venue_window. reconcile_request T request internal_window venue_window))) = Inr (result, snapshot)"
    and p: "persist_reconciliation_evidence T P faults (rn_summary result) (rn_diffs result) snapshot st = (Inr (), st')"
    and o: "out = \<lparr>xo_summary = rn_summary result, xo_diffs = rn_diffs result, xo_latest_exposure_snapshot = snapshot,
       xo_block_new_order_creation = rq_critical_halt (rn_summary result)\<rparr>"
    using assms
    by (auto simp: execute_reconciliation_def postgres_reconciliation_runtime_def StaticVenueTruthProvider_load_venue_window_def
        PostgresReconciliationEvidenceStore_persist_evidence_def split: sum.splits prod.splits)
  show thesis
    using r p o that by (auto simp: and_then_Inr_iff)
qed

lemma execute_reconciliation_error:
  assumes "execute_reconciliation T (postgres_reconciliation_runtime T P faults reads orders transitions venue) request st
    = (Inl e, st')"
  shows "st' = st"
  using assms persist_evidence_error
  by (auto simp: execute_reconciliation_def postgres_reconciliation_runtime_def
      PostgresReconciliationEvidenceStore_persist_evidence_def map_err_Inl_iff split: sum.splits prod.splits)

end
