(* ===== verification/ReconciliationSafety.thy ===== *)
theory ReconciliationSafety
  imports ReconciliationJob "HOL-Library.Multiset"
begin

text \<open>
  What the reconciliation runtime over PostgreSQL guarantees: tables that agree with each other,
  evidence that is read back as it was computed, and what its windows can and cannot show.
\<close>

section \<open>Reachable tables\<close>

text \<open>
  Runs over any orders, any venue records and any faults, as long as the two windows together
  hold at most 2^40 records.
\<close>

inductive evidence_reachable :: "time_crate \<Rightarrow> pg_types \<Rightarrow> evidence_tables \<Rightarrow> bool" for T P where
  start: "evidence_reachable T P empty_evidence_tables"
| step: "evidence_reachable T P st \<Longrightarrow> length orders + length venue \<le> 2 ^ 40 \<Longrightarrow>
    execute_reconciliation T (postgres_reconciliation_runtime T P faults reads orders transitions venue) request st = (r, st') \<Longrightarrow>
    evidence_reachable T P st'"

definition run_row_agrees :: "evidence_tables \<Rightarrow> reconciliation_run_row \<Rightarrow> bool" where
  "run_row_agrees st row \<longleftrightarrow>
     (let records = filter (\<lambda>d. rj_run_id d = rv_run_id row) (et_diffs st) in
      rv_mismatch_count row = int (length records)
      \<and> rv_critical_halt row = (1000 * length records > nat (rv_compared_records row))
      \<and> list_all (\<lambda>d. rj_reason_code d = (if rv_critical_halt row
           then ''reconciliation_critical_mismatch'' else ''reconciliation_non_critical_mismatch'')) records)"

definition evidence_agrees :: "evidence_tables \<Rightarrow> bool" where
  "evidence_agrees st \<longleftrightarrow>
     distinct (map rv_run_id (et_runs st)) \<and> distinct (map rj_diff_id (et_diffs st))
     \<and> distinct (map xs_snapshot_id (et_snapshots st))
     \<and> map xs_run_id (et_snapshots st) = map rv_run_id (et_runs st)
     \<and> set (map rj_run_id (et_diffs st)) \<subseteq> set (map rv_run_id (et_runs st))
     \<and> list_all (run_row_agrees st) (et_runs st)"

lemma order_by_mset [simp]: "mset (order_by before xs) = mset xs"
proof -
  have insert: "mset (insert_by before x ys) = add_mset x (mset ys)" for x ys
    by (induction ys) auto
  show ?thesis by (induction xs) (simp_all add: order_by_def insert)
qed

lemma order_by_length [simp]: "length (order_by before xs) = length xs"
  by (metis order_by_mset size_mset)

lemma order_by_set [simp]: "set (order_by before xs) = set xs"
  by (metis order_by_mset set_mset_mset)

lemma collect_rows_Inr: "collect_rows f xs = Inr ys \<longleftrightarrow> list_all2 (\<lambda>x y. f x = Inr y) xs ys"
  by (induction xs arbitrary: ys) (auto simp: and_then_Inr_iff list_all2_Cons1)

lemma internal_window_length:
  "PostgresInternalTruthProvider_load_internal_window P reads orders transitions request = Inr internal \<Longrightarrow>
     length internal \<le> length orders"
  by (auto simp: PostgresInternalTruthProvider_load_internal_window_def and_then_Inr_iff collect_rows_Inr
      internal_truth_rows_def dest!: list_all2_lengthD split: if_splits) (metis length_filter_le)

lemma run_violation_None:
  "run_violation P row rows = None \<Longrightarrow> rv_run_id row \<notin> set (map rv_run_id rows)"
  by (auto simp: run_violation_def split: if_splits)

lemma snapshot_violation_None:
  "snapshot_violation P runs row rows = None \<Longrightarrow> xs_snapshot_id row \<notin> set (map xs_snapshot_id rows)"
  by (auto simp: snapshot_violation_def split: if_splits)

text \<open>The differences of the run just written are the rows that were added, and nothing else.\<close>

lemma evidence_of_new_run:
  assumes "persist_reconciliation_evidence T P faults run records snapshot st = (Inr u, st')"
    and "set (map rj_run_id (et_diffs st)) \<subseteq> set (map rv_run_id (et_runs st))"
  shows "filter (\<lambda>d. rj_run_id d = rq_run_id run) (et_diffs st') = rev (map reconciliation_diff_row_of records)"
proof -
  note ok = persist_evidence_ok[OF assms(1)]
  have "rq_run_id run \<notin> set (map rv_run_id (et_runs st))"
    using run_violation_None[OF ok(6)] by (simp add: reconciliation_run_row_of_def)
  moreover have "rj_run_id d \<in> set (map rv_run_id (et_runs st))" if "d \<in> set (et_diffs st)" for d
    using that assms(2) by auto
  ultimately have "filter (\<lambda>d. rj_run_id d = rq_run_id run) (et_diffs st) = []"
    by (intro filter_False) metis
  moreover have "list_all (\<lambda>d. rj_run_id (reconciliation_diff_row_of d) = rq_run_id run) records"
    using ok(4) by (simp add: list_all_iff reconciliation_diff_row_of_def)
  ultimately show ?thesis
    unfolding ok(1) by (simp add: list_all_iff rev_map [symmetric] filter_id_conv)
qed

lemma evidence_of_other_run:
  assumes "persist_reconciliation_evidence T P faults run records snapshot st = (Inr u, st')" "k \<noteq> rq_run_id run"
  shows "filter (\<lambda>d. rj_run_id d = k) (et_diffs st') = filter (\<lambda>d. rj_run_id d = k) (et_diffs st)"
proof -
  note ok = persist_evidence_ok[OF assms(1)]
  have "list_all (\<lambda>d. rj_run_id (reconciliation_diff_row_of d) \<noteq> k) records"
    using ok(4) assms(2) by (auto simp: list_all_iff reconciliation_diff_row_of_def)
  then show ?thesis
    unfolding ok(1) by (simp add: list_all_iff filter_empty_conv)
qed

lemma halting_counts:
  assumes "reconcile_window T run start stop evaluated correlation internal venue = Inr result"
    and "length internal + length venue \<le> 2 ^ 40"
  shows "rq_critical_halt (rn_summary result)
    = (1000 * length (rn_diffs result) > nat (rq_compared_records (rn_summary result)))"
  using reconcile_window_outcome[OF assms] by (auto simp: Let_def dest!: arg_cong[where f = length])

lemma evidence_agrees_kept:
  assumes "evidence_agrees st" "length orders + length venue \<le> 2 ^ 40"
    and "execute_reconciliation T (postgres_reconciliation_runtime T P faults reads orders transitions venue) request st = (r, st')"
  shows "evidence_agrees st'"
proof (cases r)
  case (Inl e)
  then show ?thesis using assms execute_reconciliation_error by metis
next
  case (Inr out)
  then obtain internal result snapshot where
    internal: "PostgresInternalTruthProvider_load_internal_window P reads orders transitions request = Inr internal"
    and result: "reconcile_request T request internal venue = Inr (result, snapshot)"
    and written: "persist_reconciliation_evidence T P faults (rn_summary result) (rn_diffs result) snapshot st = (Inr (), st')"
    using assms(3) execute_reconciliation_ok by metis
  note ok = persist_evidence_ok[OF written] and content = reconcile_request_content[OF result]
  obtain base where base: "reconcile_window T (wr_run_id request) (wr_window_started_at_utc request)
      (wr_window_ended_at_utc request) (wr_evaluated_at_utc request) (wr_correlation_id request) internal venue = Inr base"
    and marked: "result = mark_critical base"
    using content(1) by blast
  have halt: "rq_critical_halt (rn_summary result)
      = (1000 * length (rn_diffs result) > nat (rq_compared_records (rn_summary result)))"
    using halting_counts[OF base] internal_window_length[OF internal] assms(2)
    by (simp add: marked mark_critical_facts)
  have fk: "set (map rj_run_id (et_diffs st)) \<subseteq> set (map rv_run_id (et_runs st))"
    using assms(1) by (simp add: evidence_agrees_def)
  have new: "run_row_agrees st' (reconciliation_run_row_of (rn_summary result))"
    using evidence_of_new_run[OF written fk] content(4,5) halt
    by (auto simp: run_row_agrees_def Let_def reconciliation_run_row_of_def reconciliation_diff_row_of_def run_reason_def
        list_all_iff)
  have fresh: "rq_run_id (rn_summary result) \<notin> set (map rv_run_id (et_runs st))"
    using run_violation_None[OF ok(6)] by (simp add: reconciliation_run_row_of_def)
  have "run_row_agrees st' row" if row: "row \<in> set (et_runs st)" for row
  proof -
    have "rv_run_id row \<noteq> rq_run_id (rn_summary result)" using row fresh by (metis imageI list.set_map)
    then have "run_row_agrees st' row = run_row_agrees st row"
      by (simp add: run_row_agrees_def evidence_of_other_run[OF written])
    then show ?thesis using row assms(1) by (simp add: evidence_agrees_def list_all_iff)
  qed
  then have agrees: "list_all (run_row_agrees st') (et_runs st')"
    using new ok(1) by (simp add: list_all_iff)
  have new_diffs: "\<forall>d\<in>set (rn_diffs result). rdf_run_id d = rq_run_id (rn_summary result)"
    using ok(4) by (simp add: list_all_iff)
  have keys: "distinct (map xs_snapshot_id (et_snapshots st'))" "distinct (map rj_diff_id (et_diffs st'))"
    using snapshot_violation_None[OF ok(7)] ok(8) assms(1) unfolding evidence_agrees_def
    by (simp_all add: ok(1))
  have runs: "distinct (map rv_run_id (et_runs st'))" "map xs_run_id (et_snapshots st') = map rv_run_id (et_runs st')"
    using fresh ok(5) assms(1) unfolding evidence_agrees_def ok(1)
    by (simp_all add: reconciliation_run_row_of_def exposure_snapshot_row_of_def)
  have refs: "set (map rj_run_id (et_diffs st')) \<subseteq> set (map rv_run_id (et_runs st'))"
    using fk new_diffs unfolding ok(1)
    by (auto simp: reconciliation_run_row_of_def reconciliation_diff_row_of_def)
  show ?thesis unfolding evidence_agrees_def using agrees keys runs refs by simp
qed

lemma reachable_evidence_agrees: "evidence_reachable T P st \<Longrightarrow> evidence_agrees st"
proof (induction rule: evidence_reachable.induct)
  case start
  then show ?case by (simp add: evidence_agrees_def empty_evidence_tables_def)
next
  case (step st orders venue faults reads transitions request r st')
  then show ?case using evidence_agrees_kept by blast
qed

section \<open>A concrete run\<close>

definition demo_window_request :: ReconciliationWindowRequest where
  "demo_window_request = \<lparr>wr_run_id = ''Run-1'', wr_window_started_at_utc = ''2026-04-06T00:00:00Z'',
     wr_window_ended_at_utc = ''2026-04-06T00:00:30Z'', wr_evaluated_at_utc = ''2026-04-06T00:00:31Z'',
     wr_correlation_id = ''corr-1''\<rparr>"

definition demo_truth_order :: order_row where
  "demo_truth_order = \<lparr>ow_order_id = ''a'', ow_market_id = ''market-1'', ow_order_mode = ''live'', ow_lifecycle_state = ''live'',
     ow_submission_idempotency_key = ''k'', ow_cancel_idempotency_key = None, ow_last_transition_sequence = 1,
     ow_last_reason_code = ''r'', ow_correlation_id = ''corr-1'', ow_created_at_utc = ''2026-04-06T00:00:00Z'',
     ow_updated_at_utc = ''2026-04-06T00:00:00Z''\<rparr>"

definition demo_runtime :: "order_row list \<Rightarrow> ReconciliationOrderRecord list \<Rightarrow> evidence_tables ReconciliationRuntime" where
  "demo_runtime orders venue = postgres_reconciliation_runtime demo_time demo_pg (\<lambda>_ _. None) (\<lambda>_. None) orders [] venue"

definition demo_run_outcome :: "(ReconciliationRuntimeError + ReconciliationExecutionOutcome) \<times> evidence_tables" where
  "demo_run_outcome = execute_reconciliation demo_time (demo_runtime [demo_truth_order] []) demo_window_request empty_evidence_tables"

definition demo_venue_order :: ReconciliationOrderRecord where
  "demo_venue_order = \<lparr>ro_order_id = ''a'', ro_market_id = ''market-1'', ro_lifecycle_state = ''live'',
     ro_quantity = Some (Fin 0), ro_price = None, ro_observed_at_utc = ''2026-04-06T00:00:00Z'', ro_correlation_id = ''corr-1''\<rparr>"

lemma demo_venue_run:
  "case fst (execute_reconciliation demo_time (demo_runtime [demo_truth_order] [demo_venue_order]) demo_window_request
     empty_evidence_tables) of Inr out \<Rightarrow> xo_block_new_order_creation out | Inl _ \<Rightarrow> False"
  by code_simp

lemma demo_run_evaluated:
  "case fst demo_run_outcome of Inr out \<Rightarrow> xo_block_new_order_creation out \<and> map rdf_order_id (xo_diffs out) = [''a'']
     \<and> rq_run_id (xo_summary out) = ''run-1'' | Inl _ \<Rightarrow> False"
  "length (et_runs (snd demo_run_outcome)) = 1"
  by code_simp+

lemma demo_rendered_not_blank: "utc_ok demo_time v \<Longrightarrow> \<not> blank v"
  using not_blank_literal[of "CHR ''2''"] not_blank_literal[of "CHR ''1''"]
  by (auto simp: parse_utc_timestamp_def demo_time_def plain_def less_char_def split: if_splits)

section \<open>Reading what a run has written\<close>

lemma collect_rows_total:
  "list_all (\<lambda>x. \<exists>y. f x = Inr y) xs \<Longrightarrow> \<exists>ys. collect_rows f xs = Inr ys \<and> mset ys = image_mset (\<lambda>x. projr (f x)) (mset xs)"
  by (induction xs) (auto simp: and_then_Inr_iff)

lemma read_own_diffs:
  assumes "renders_utc T P" "list_all (\<lambda>d. validate_reconciliation_diff_record T d = Inr ()) records"
  shows "\<exists>ds. collect_rows (decode_reconciliation_diff_row T P)
      (order_by (diff_row_before P) (rev (map reconciliation_diff_row_of records))) = Inr ds
    \<and> mset ds = mset (map (rendered_diff P) records)"
proof -
  note decode = decode_own_diff[OF assms(1)]
  have "list_all (\<lambda>x. \<exists>y. decode_reconciliation_diff_row T P x = Inr y)
      (order_by (diff_row_before P) (rev (map reconciliation_diff_row_of records)))"
    using assms(2) decode by (auto simp: list_all_iff)
  then obtain ds where ds: "collect_rows (decode_reconciliation_diff_row T P)
      (order_by (diff_row_before P) (rev (map reconciliation_diff_row_of records))) = Inr ds"
    "mset ds = image_mset (\<lambda>x. projr (decode_reconciliation_diff_row T P x)) (mset (map reconciliation_diff_row_of records))"
    using collect_rows_total by fastforce
  have "map (\<lambda>d. projr (decode_reconciliation_diff_row T P (reconciliation_diff_row_of d))) records
      = map (rendered_diff P) records"
    using assms(2) decode by (simp add: list_all_iff)
  then have "mset ds = mset (map (rendered_diff P) records)"
    using ds(2) by (metis (no_types, lifting) map_map comp_apply map_eq_conv mset_map)
  then show ?thesis using ds(1) by blast
qed

lemma incident_of_new_run:
  assumes "evidence_agrees st" "renders_utc T P"
    and "persist_reconciliation_evidence T P faults run records snapshot st = (Inr u, st')"
    and "rq_run_id run = normalize run_id" "authorize_reconciliation_read role = Inr ()"
  shows "\<exists>ds. incident_evidence (postgres_reconciliation_runtime T P faults' (\<lambda>_. None) orders transitions venue) role run_id st'
      = Inr (Some \<lparr>xi_run = rendered_run P run, xi_diffs = ds, xi_latest_snapshot = Some (rendered_snapshot P snapshot)\<rparr>)
    \<and> mset ds = mset (map (rendered_diff P) records)"
proof -
  note ok = persist_evidence_ok[OF assms(3)]
  define k where "k = normalize run_id"
  have k: "trim k = k" "\<not> blank k" "rq_run_id run = k"
    using ok(2) assms(4) by (auto simp: k_def validate_reconciliation_run_summary_def issue_specs)
  have st': "et_runs st' = reconciliation_run_row_of run # et_runs st"
    "et_snapshots st' = exposure_snapshot_row_of snapshot # et_snapshots st"
    using ok(1) by simp_all
  have fresh: "k \<notin> set (map rv_run_id (et_runs st))"
    using run_violation_None[OF ok(6)] k(3) by (simp add: reconciliation_run_row_of_def)
  have fk: "set (map rj_run_id (et_diffs st)) \<subseteq> set (map rv_run_id (et_runs st))"
    using assms(1) by (simp add: evidence_agrees_def)
  have run: "find (\<lambda>r. rv_run_id r = k) (et_runs st') = Some (reconciliation_run_row_of run)"
    using k(3) st'(1) by (simp add: reconciliation_run_row_of_def)
  have "k \<notin> set (map xs_run_id (et_snapshots st))"
    using assms(1) fresh by (simp add: evidence_agrees_def)
  then have "filter (\<lambda>r. xs_run_id r = k) (et_snapshots st) = []"
    by (auto simp: filter_empty_conv)
  then have "filter (\<lambda>r. xs_run_id r = k) (et_snapshots st') = [exposure_snapshot_row_of snapshot]"
    using st'(2) ok(5) k(3) by (simp add: exposure_snapshot_row_of_def)
  then have snapshot: "latest_snapshot_row P (filter (\<lambda>r. xs_run_id r = k) (et_snapshots st'))
      = Some (exposure_snapshot_row_of snapshot)"
    by (simp add: latest_snapshot_row_def order_by_def)
  have diff_rows: "filter (\<lambda>r. rj_run_id r = k) (et_diffs st') = rev (map reconciliation_diff_row_of records)"
    using evidence_of_new_run[OF assms(3) fk] k(3) by simp
  have "list_all (\<lambda>d. validate_reconciliation_diff_record T d = Inr ()) records"
    using ok(4) by (simp add: list_all_iff)
  from read_own_diffs[OF assms(2) this] obtain ds where ds: "collect_rows (decode_reconciliation_diff_row T P)
      (order_by (diff_row_before P) (rev (map reconciliation_diff_row_of records))) = Inr ds"
    "mset ds = mset (map (rendered_diff P) records)" by blast
  have "load_reconciliation_run T P (\<lambda>_. None) k st' = Inr (Some (rendered_run P run))"
    using decode_own_run[OF assms(2) ok(2)] run k
    by (simp add: load_reconciliation_run_def validate_recon_store_non_empty_def)
  moreover have "load_reconciliation_diffs T P (\<lambda>_. None) k st' = Inr ds"
    using ds(1) diff_rows k by (simp add: load_reconciliation_diffs_def validate_recon_store_non_empty_def)
  moreover have "load_latest_exposure_snapshot_for_run T P (\<lambda>_. None) k st' = Inr (Some (rendered_snapshot P snapshot))"
    using decode_own_snapshot[OF assms(2) ok(3)] snapshot k
    by (simp add: load_latest_exposure_snapshot_for_run_def validate_recon_store_non_empty_def)
  ultimately show ?thesis
    using ds(2) assms(5)
    by (simp add: incident_evidence_def postgres_reconciliation_runtime_def k_def [symmetric] Let_def)
qed

section \<open>What the internal window lacks\<close>

lemma collect_rows_all: "collect_rows f xs = Inr ys \<Longrightarrow> (\<And>x y. f x = Inr y \<Longrightarrow> Q y) \<Longrightarrow> list_all Q ys"
  by (induction xs arbitrary: ys) (auto simp: and_then_Inr_iff)

lemma internal_window_content:
  "PostgresInternalTruthProvider_load_internal_window P reads orders transitions request = Inr internal \<Longrightarrow>
     list_all (\<lambda>r. ro_quantity r = None \<and> ro_price r = None) internal"
  by (rule collect_rows_all[where f = "decode_internal_truth_row P transitions"])
    (auto simp: PostgresInternalTruthProvider_load_internal_window_def decode_internal_truth_row_def and_then_Inr_iff)

lemma exposure_of_no_quantities:
  "exposure_loop T (Fin 0) (Fin 0) n rs = Inr (net, gross, opens) \<Longrightarrow> list_all (\<lambda>r. ro_quantity r = None) rs \<Longrightarrow>
     net = Fin 0 \<and> gross = Fin 0"
  by (induction rs arbitrary: n) (auto simp: and_then_Inr_iff Let_def)

lemma snapshot_of_no_quantities:
  assumes "build_exposure_snapshot T sid run None internal reason captured correlation = Inr snapshot"
    and "list_all (\<lambda>r. ro_quantity r = None) internal"
  shows "ex_net_exposure snapshot = Fin 0 \<and> ex_gross_exposure snapshot = Fin 0"
proof -
  obtain net gross opens where l: "exposure_loop T (Fin 0) (Fin 0) 0 internal = Inr (net, gross, opens)"
    and s: "ex_net_exposure snapshot = net" "ex_gross_exposure snapshot = gross"
    using assms(1) unfolding build_exposure_snapshot_def Let_def
    by (auto simp: and_then_Inr_iff simp del: ReconciliationReasonCode_code.simps)
  show ?thesis using exposure_of_no_quantities[OF l assms(2)] s by simp
qed

lemma quantity_never_agrees:
  assumes "list_all (\<lambda>r. ro_quantity r = None \<and> ro_price r = None) internal"
    and "window_record venue k = Some v" "ro_quantity v \<noteq> None \<or> ro_price v \<noteq> None"
  shows "\<not> windows_agree internal venue k"
proof (cases "window_record internal k")
  case (Some r)
  then have "r \<in> set internal"
    by (auto simp: window_record_def dest!: map_of_SomeD)
  then have "ro_quantity r = None" "ro_price r = None" using assms(1) by (auto simp: list_all_iff)
  then show ?thesis
    using Some assms(2,3) by (auto simp: windows_agree_def records_agree_def)
qed (simp add: windows_agree_def assms(2))

lemma reconcile_window_distinct:
  "reconcile_window T run start stop evaluated correlation internal venue = Inr result \<Longrightarrow> distinct (map ro_order_id venue)"
  unfolding reconcile_window_def Let_def
  by (auto simp: and_then_Inr_iff normalize_window_Inr simp del: ReconciliationReasonCode_code.simps split: if_splits)

text \<open>
  Two differences of one class cannot be of orders whose identifiers differ in letter case alone:
  such a run fails on the identifier of the difference, and nothing of it is kept.
\<close>

lemma colliding_orders_lose_the_run:
  assumes "execute_reconciliation T (postgres_reconciliation_runtime T P faults reads orders transitions venue) request st
      = (Inr out, st')"
    and "distinct (map rj_diff_id (et_diffs st))"
    and "d \<in> set (xo_diffs out)" "e \<in> set (xo_diffs out)" "rdf_diff_class d = rdf_diff_class e"
    and "normalize (rdf_order_id d) = normalize (rdf_order_id e)"
  shows "d = e"
proof -
  from assms(1) obtain internal result snapshot where
    result: "reconcile_request T request internal venue = Inr (result, snapshot)"
    and written: "persist_reconciliation_evidence T P faults (rn_summary result) (rn_diffs result) snapshot st = (Inr (), st')"
    and out: "out = \<lparr>xo_summary = rn_summary result, xo_diffs = rn_diffs result, xo_latest_exposure_snapshot = snapshot,
       xo_block_new_order_creation = rq_critical_halt (rn_summary result)\<rparr>"
    by (rule execute_reconciliation_ok)
  have "distinct (map rdf_diff_id (rn_diffs result))"
    using persist_evidence_ok(8)[OF written assms(2)] unfolding persist_evidence_ok(1)[OF written]
    by (simp add: reconciliation_diff_row_of_def o_def rev_map [symmetric])
  moreover have "rdf_diff_id d = rdf_diff_id e"
    using reconcile_request_content(5)[OF result] assms(3-6) out by (simp add: list_all_iff)
  ultimately show ?thesis
    using assms(3,4) out by (auto simp: distinct_map inj_on_def)
qed

section \<open>Properties\<close>

text \<open>
  C24: The evidence tables agree with each other after any sequence of runs, whatever the windows
  hold and whichever statements fail: run, difference and snapshot identifiers are unique, every
  run has one exposure snapshot and every difference belongs to a run, a run counts exactly its
  differences, and it is halted, its differences marked critical, exactly when more than one
  compared order in a thousand differs.
\<close>

theorem reconciliation_evidence_agrees:
  assumes "evidence_reachable T P st"
  shows "distinct (map rv_run_id (et_runs st)) \<and> distinct (map rj_diff_id (et_diffs st))
    \<and> distinct (map xs_snapshot_id (et_snapshots st))
    \<and> map xs_run_id (et_snapshots st) = map rv_run_id (et_runs st)
    \<and> set (map rj_run_id (et_diffs st)) \<subseteq> set (map rv_run_id (et_runs st))
    \<and> list_all (run_row_agrees st) (et_runs st)"
  using reachable_evidence_agrees[OF assms] by (simp add: evidence_agrees_def)

theorem reconciliation_evidence_agrees_witness:
  "length (et_runs (snd demo_run_outcome)) = 1 \<and> list_all (run_row_agrees (snd demo_run_outcome)) (et_runs (snd demo_run_outcome))"
proof -
  have "execute_reconciliation demo_time (postgres_reconciliation_runtime demo_time demo_pg (\<lambda>_ _. None) (\<lambda>_. None) [demo_truth_order] [] [])
      demo_window_request empty_evidence_tables = (fst demo_run_outcome, snd demo_run_outcome)"
    by (simp add: demo_run_outcome_def demo_runtime_def)
  then have "evidence_reachable demo_time demo_pg (snd demo_run_outcome)"
    by (rule evidence_reachable.step[OF evidence_reachable.start, rotated]) simp
  from reconciliation_evidence_agrees[OF this] show ?thesis
    using demo_run_evaluated(2) by simp
qed

text \<open>
  C25: What a run has written is what an operator reads of it: after a run that succeeds, any
  role gets from its identifier, in any letter case, the summary that the run returned, its
  differences, each once, and its exposure snapshot, with the times as the database renders them.
\<close>

theorem incident_evidence_reads_back:
  assumes "evidence_reachable T P st" and "renders_utc T P"
    and "execute_reconciliation T (postgres_reconciliation_runtime T P faults reads orders transitions venue) request st
      = (Inr out, st')"
    and "normalize run_id = normalize (wr_run_id request)"
  shows "\<exists>ds. incident_evidence (postgres_reconciliation_runtime T P faults (\<lambda>_. None) orders transitions venue)
        (GovernanceRole_as_str role) run_id st'
      = Inr (Some \<lparr>xi_run = rendered_run P (xo_summary out), xi_diffs = ds,
          xi_latest_snapshot = Some (rendered_snapshot P (xo_latest_exposure_snapshot out))\<rparr>)
    \<and> mset ds = mset (map (rendered_diff P) (xo_diffs out))"
proof -
  from assms(3) obtain internal result snapshot where
    result: "reconcile_request T request internal venue = Inr (result, snapshot)"
    and written: "persist_reconciliation_evidence T P faults (rn_summary result) (rn_diffs result) snapshot st = (Inr (), st')"
    and out: "out = \<lparr>xo_summary = rn_summary result, xo_diffs = rn_diffs result, xo_latest_exposure_snapshot = snapshot,
       xo_block_new_order_creation = rq_critical_halt (rn_summary result)\<rparr>"
    by (rule execute_reconciliation_ok)
  have "rq_run_id (rn_summary result) = normalize run_id"
    using reconcile_request_content(3)[OF result] assms(4) by simp
  from incident_of_new_run[OF reachable_evidence_agrees[OF assms(1)] assms(2) written this] show ?thesis
    using reconciliation_readers out by fastforce
qed

theorem incident_evidence_reads_back_witness:
  "\<exists>out view. fst demo_run_outcome = Inr out \<and> xo_block_new_order_creation out
     \<and> incident_evidence (demo_runtime [demo_truth_order] []) ''read_only_analytics'' ''RUN-1'' (snd demo_run_outcome) = Inr (Some view)
     \<and> xi_run view = rendered_run demo_pg (xo_summary out)"
proof -
  obtain out where out: "fst demo_run_outcome = Inr out" "xo_block_new_order_creation out"
    using demo_run_evaluated(1) by (auto split: sum.splits)
  have run: "execute_reconciliation demo_time (postgres_reconciliation_runtime demo_time demo_pg (\<lambda>_ _. None) (\<lambda>_. None) [demo_truth_order] [] [])
      demo_window_request empty_evidence_tables = (Inr out, snd demo_run_outcome)"
    using out(1) by (simp add: demo_run_outcome_def demo_runtime_def prod_eq_iff)
  have renders: "renders_utc demo_time demo_pg"
    unfolding renders_utc_def
  proof (intro allI impI)
    fix v assume "utc_ok demo_time v"
    moreover from this have "v \<noteq> []" by (auto simp: parse_utc_timestamp_def demo_time_def)
    ultimately show "utc_ok demo_time (pg_to_char demo_pg v) \<and> \<not> blank (pg_to_char demo_pg v)"
      using demo_rendered_not_blank by (simp add: demo_pg_def)
  qed
  have same: "normalize ''RUN-1'' = normalize (wr_run_id demo_window_request)" by code_simp
  show ?thesis
    using incident_evidence_reads_back[OF evidence_reachable.start renders run same,
        of "GovernanceRole.ReadOnlyAnalytics"] out
    by (auto simp: demo_runtime_def)
qed

text \<open>
  C26: The internal window has no quantities and no prices, so over PostgreSQL a run cannot see
  any exposure: every snapshot it keeps shows none, and every order the venue reports with a
  quantity or a price is a difference, however well it was recorded.
\<close>

theorem internal_truth_has_no_exposure:
  assumes "execute_reconciliation T (postgres_reconciliation_runtime T P faults reads orders transitions venue) request st
      = (Inr out, st')"
    and "length orders + length venue \<le> 2 ^ 40"
  shows "ex_net_exposure (xo_latest_exposure_snapshot out) = Fin 0
    \<and> ex_gross_exposure (xo_latest_exposure_snapshot out) = Fin 0
    \<and> ro_order_id ` {v \<in> set venue. ro_quantity v \<noteq> None \<or> ro_price v \<noteq> None} \<subseteq> set (map rdf_order_id (xo_diffs out))"
proof -
  from assms(1) obtain internal result snapshot where
    internal: "PostgresInternalTruthProvider_load_internal_window P reads orders transitions request = Inr internal"
    and result: "reconcile_request T request internal venue = Inr (result, snapshot)"
    and out: "out = \<lparr>xo_summary = rn_summary result, xo_diffs = rn_diffs result, xo_latest_exposure_snapshot = snapshot,
       xo_block_new_order_creation = rq_critical_halt (rn_summary result)\<rparr>"
    by (rule execute_reconciliation_ok)
  note plain = internal_window_content[OF internal] and content = reconcile_request_content[OF result]
  have exposure: "ex_net_exposure snapshot = Fin 0 \<and> ex_gross_exposure snapshot = Fin 0"
    using content(2) snapshot_of_no_quantities plain by (fastforce simp: list_all_iff)
  obtain base where base: "reconcile_window T (wr_run_id request) (wr_window_started_at_utc request)
      (wr_window_ended_at_utc request) (wr_evaluated_at_utc request) (wr_correlation_id request) internal venue = Inr base"
    and marked: "result = mark_critical base"
    using content(1) by blast
  have ids: "map rdf_order_id (rn_diffs result) = filter (\<lambda>k. \<not> windows_agree internal venue k)
      (sort (remdups (map ro_order_id internal @ map ro_order_id venue)))"
    using reconcile_window_outcome[OF base] internal_window_length[OF internal] assms(2)
    by (simp add: Let_def marked mark_critical_facts)
  have "ro_order_id v \<in> set (map rdf_order_id (rn_diffs result))"
    if v: "v \<in> set venue" "ro_quantity v \<noteq> None \<or> ro_price v \<noteq> None" for v
  proof -
    have "window_record venue (ro_order_id v) = Some v"
      using reconcile_window_distinct[OF base] v(1)
      by (auto simp: window_record_def o_def intro!: map_of_is_SomeI)
    then have "\<not> windows_agree internal venue (ro_order_id v)"
      using quantity_never_agrees[OF plain] v(2) by blast
    then show ?thesis unfolding ids using v(1) by simp
  qed
  then show ?thesis using exposure out by auto
qed

theorem internal_truth_has_no_exposure_witness:
  "\<exists>out. fst (execute_reconciliation demo_time (demo_runtime [demo_truth_order] [demo_venue_order]) demo_window_request
        empty_evidence_tables) = Inr out
     \<and> ex_gross_exposure (xo_latest_exposure_snapshot out) = Fin 0
     \<and> ''a'' \<in> set (map rdf_order_id (xo_diffs out)) \<and> xo_block_new_order_creation out"
proof -
  let ?r = "execute_reconciliation demo_time (demo_runtime [demo_truth_order] [demo_venue_order]) demo_window_request
      empty_evidence_tables"
  obtain out st where out: "?r = (Inr out, st)" "xo_block_new_order_creation out"
    using demo_venue_run by (cases ?r) (auto split: sum.splits)
  show ?thesis
    using internal_truth_has_no_exposure[OF out(1)[unfolded demo_runtime_def]] out
    by (simp add: image_subset_iff) (simp add: demo_venue_order_def)
qed

end
