(* ===== verification/Spec2Isabelle.thy ===== *)
theory Spec2Isabelle
  imports RuntimeControl AcceptedEvents ApprovalSafety CredentialSafety RebalanceReadModel MarketStreamSafety EnvironmentConfig ReconciliationSafety
begin

text \<open>
  The trading core of the repository, translated from its Rust sources.

  The program decides, for every order intent, whether it may go to the venue, and keeps the
  evidence of what it did. Market and user streams come in over sockets and are turned into
  validated ticks and order events; a freshness gate watches their age; the risk engine keeps a
  run-time state (limits, policies, stream health, drawdown, approvals, reconciliation halts) and
  runs ten gates over it; the adjudicated decision is validated, persisted and raises safe-state
  signals. The order service submits and cancels under the emergency mode and an adjudication and
  applies what the venue reports; a reconciliation job compares the order log with the venue;
  the governance services rotate credentials, collect approvals and decide allocation policies.
\<close>

section \<open>Which theory models what\<close>

text \<open>
  \<^bold>\<open>Foundations.\<close> \<open>F64\<close>: binary64 numbers, rounding exactly to nearest even. \<open>Prelude\<close>: byte strings
  (trimming, case folding), results and the \<open>?\<close> operator, validation issues, codecs of
  enumerations (the locale \<open>enum_codec\<close>), the clock. \<open>KeyedStore\<close>: the locales of the in-memory
  maps. \<open>Effects\<close>: fallible operations on a state and their weakest preconditions. \<open>Database\<close>:
  database faults, constraints, transactions that roll back, the column types PostgreSQL
  converts. \<open>Json\<close>, \<open>TextNumbers\<close>: JSON values and numbers read from text.

  \<^bold>\<open>Contracts\<close> (\<open>crates/domain/src\<close>). From \<open>risk.rs\<close>: \<open>RiskLimits\<close>, \<open>MarketPolicy\<close> (eligibility),
  \<open>RewardRisk\<close> (the score), \<open>RegimeShift\<close>, \<open>MarketStream\<close> (ticks, books, health, latency),
  \<open>UserStream\<close> (order events and their order), \<open>FreshnessGate\<close>, \<open>Participation\<close>, \<open>Pretrade\<close>
  (gate results and their adjudication), \<open>EmergencyControl\<close>. From \<open>order.rs\<close> \<open>OrderLifecycle\<close>,
  from \<open>reconciliation.rs\<close> \<open>Reconciliation\<close>, from \<open>allocation.rs\<close> \<open>Allocation\<close>, from
  \<open>governance.rs\<close> \<open>Governance\<close> (roles and authorisation), \<open>ApprovalContract\<close> and
  \<open>CredentialContract\<close>.

  \<^bold>\<open>Stores\<close> (\<open>crates/persistence/src/postgres\<close>; each a record of explicit tables with the keys and
  checks of its migration, each operation a transaction under injected faults): \<open>UserStreamStore\<close>,
  \<open>OrderStore\<close>, the event log of \<open>FreshnessRuntime\<close>, \<open>MarketStreamStore\<close>, \<open>ReconciliationStore\<close>,
  \<open>ApprovalStore\<close>, \<open>CredentialStore\<close>, \<open>AllocationStore\<close>.

  \<^bold>\<open>Risk engine\<close> (\<open>services/risk-engine/src\<close>). \<open>LimitState\<close>, \<open>SafeState\<close> and \<open>RuntimeState\<close>: the
  state and its operations; \<open>RuntimeGates\<close>: every gate, the pipeline, the signals; \<open>GatePipeline\<close>:
  what the pipeline guarantees; \<open>RuntimeControl\<close>: histories of state operations around it.

  \<^bold>\<open>Execution engine\<close> (\<open>services/execution-engine/src\<close>). \<open>MarketStreamRuntime\<close> and
  \<open>UserStreamRuntime\<close>: the two ingestion loops over their inputs; \<open>FreshnessRuntime\<close>: the controller
  of the freshness gate; \<open>OrderRuntime\<close>: the order service over its ports; \<open>ReconciliationJob\<close>: a
  run and the incident view; \<open>EnvironmentConfig\<close>: the configurations. \<open>OrderControl\<close>,
  \<open>AcceptedEvents\<close> (user stream and order service wired together), \<open>MarketStreamSafety\<close> and
  \<open>ReconciliationSafety\<close> hold what these guarantee.

  \<^bold>\<open>Governance and portfolio\<close> (\<open>services/governance-service/src\<close>, \<open>services/portfolio-engine/src\<close>).
  \<open>ApprovalRepository\<close>, \<open>ApprovalService\<close>, \<open>CredentialService\<close>, \<open>AllocationService\<close>: the services
  over an in-memory repository and over PostgreSQL; \<open>RebalanceReadModel\<close>: the second evaluation of
  the drift; \<open>ApprovalSafety\<close>, \<open>CredentialSafety\<close> and \<open>AllocationSafety\<close>: invariants over every
  history of calls.
\<close>

section \<open>How the code is represented, and what is shown\<close>

text \<open>
  A struct is a record, an enum a datatype, a \<open>Result\<close> a sum; validators collect their issues in
  the order of the code. Strings are byte strings, \<open>f64\<close> is the type \<open>f64\<close> of \<open>F64\<close>. A service is
  a function from the state it is given to a result and the state it leaves; a history is an
  inductive predicate or a fold over such calls. A mutex is one step. A loop over a socket or a
  ticker takes the list of what arrives, so every loop is total, and the theorems quantify over
  that list. There is no fuel.

  What lies outside the sources is a parameter: \<open>time_crate\<close> and \<open>time_format\<close> (parsing, printing and
  durations of the \<open>time\<close> crate), \<open>pg_types\<close> (how PostgreSQL orders and prints time stamps and
  texts), the faults a statement meets (any function from the name of the operation to a fault, or a
  schedule of them), the secret provider, the venue clients and their parsers, the environment,
  and the printing of floating-point numbers. What a proof needs of them is a hypothesis of the
  theorem (an RFC3339 time printed by the database reads back, a duration of no seconds is zero),
  and the witnesses instantiate it with \<open>demo_time\<close>, \<open>demo_pg\<close> and their like.

  The lemmas come in four groups. Each contract has a written policy (\<open>_wf\<close>, explicit
  tables) that its validator or decision is proved equivalent to, errors included where
  they matter. Each store has an invariant over its reachable states. Each service has the
  properties of its histories, proved against an interface (a locale with the laws of its port)
  that every repository interprets. The compositions relate what one part decides to what
  another has stored. Lemmas named after a defect (\<open>pause_lost_when_clock_steps_back\<close>,
  \<open>duplicate_key_reported_canceled\<close>, \<open>colliding_orders_lose_the_run\<close> and others) are concrete runs
  in which the code does not do what it means to.

  Bounds: floating-point percentiles and mismatch rates are proved exact up to 2^40 samples or
  records in one run, far below where a count is no longer exact in binary64; the latency window
  has the 2000 entries of the code.

  Not modelled: telemetry, tracing and the JSON copies kept beside columns, which nothing reads
  back; the SQL engine itself; locks that are poisoned by a panic; HTTP, routing and the programs'
  \<open>main\<close> functions; the governance services of limits, market policies, reward policies, recovery,
  safety controls and audit with their tables, attribution, research, alerts and reporting, which
  only write what the parts above are given or read what they leave.
\<close>

end
